(* ===== verification/Prelude.thy ===== *)
theory Prelude
  imports Main "HOL-Library.AList" "HOL-Library.Char_ord" "HOL-Library.List_Lexorder"
    "HOL-Library.Sublist"
begin

text \<open>
  Shared vocabulary of the development.

  \<^item> Results: a Python call that may raise is a value of \<open>'e + 'a\<close>; \<open>Inl e\<close> is the raised
    exception, \<open>Inr x\<close> the returned value. \<open>bindR\<close> sequences calls, \<open>requireR\<close> is an
    \<open>if not c: raise e\<close> guard, \<open>mapR\<close> and \<open>foldR\<close> are loops that stop at the first raise.
  \<^item> Dictionaries: a Python \<open>dict\<close> is an association list in insertion order, updated with
    \<open>AList.update\<close> (an existing key keeps its position), read with \<open>map_of\<close>.
  \<^item> First-occurrence deduplication (\<open>dict.fromkeys\<close>, and the \<open>_ordered_unique\<close> helpers of the
    kernel modules) with the interface locale \<open>stable_dedupe\<close> that states its contract once.
  \<^item> A locale for inductive invariants of transition systems, shared by the stateful components.
\<close>

section \<open>Collections of facts\<close>

named_theorems result_simps \<open>equations and inversions of the result combinators\<close>
named_theorems dict_simps \<open>lookups in insertion-ordered dictionaries\<close>

section \<open>Results\<close>

fun bindR :: "'e + 'a \<Rightarrow> ('a \<Rightarrow> 'e + 'b) \<Rightarrow> 'e + 'b" where
  "bindR (Inl e) f = Inl e"
| "bindR (Inr x) f = f x"

definition requireR :: "bool \<Rightarrow> 'e \<Rightarrow> 'e + unit" where
  "requireR c e = (if c then Inr () else Inl e)"

fun mapR :: "('a \<Rightarrow> 'e + 'b) \<Rightarrow> 'a list \<Rightarrow> 'e + 'b list" where
  "mapR f [] = Inr []"
| "mapR f (x # xs) = bindR (f x) (\<lambda>y. bindR (mapR f xs) (\<lambda>ys. Inr (y # ys)))"

fun foldR :: "('s \<Rightarrow> 'a \<Rightarrow> 'e + 's) \<Rightarrow> 's \<Rightarrow> 'a list \<Rightarrow> 'e + 's" where
  "foldR f s [] = Inr s"
| "foldR f s (x # xs) = bindR (f s x) (\<lambda>s'. foldR f s' xs)"

fun is_ok :: "'e + 'a \<Rightarrow> bool" where
  "is_ok (Inl e) = False"
| "is_ok (Inr x) = True"

lemma bindR_Inr_iff [result_simps]: "bindR m f = Inr y \<longleftrightarrow> (\<exists>x. m = Inr x \<and> f x = Inr y)"
  by (cases m) auto

lemma bindR_Inl_iff [result_simps]:
  "bindR m f = Inl e \<longleftrightarrow> m = Inl e \<or> (\<exists>x. m = Inr x \<and> f x = Inl e)"
  by (cases m) auto

lemma requireR_Inr_iff [result_simps]: "requireR c e = Inr u \<longleftrightarrow> c"
  by (simp add: requireR_def)

lemma requireR_Inl_iff [result_simps]: "requireR c e = Inl e' \<longleftrightarrow> \<not> c \<and> e' = e"
  by (auto simp: requireR_def)

lemma requireR_simps [simp]: "requireR True e = Inr ()" "requireR False e = Inl e"
  by (simp_all add: requireR_def)

lemma is_ok_iff: "is_ok m \<longleftrightarrow> (\<exists>x. m = Inr x)"
  by (cases m) auto

lemma mapR_Inr_iff: "mapR f xs = Inr ys \<longleftrightarrow> list_all2 (\<lambda>x y. f x = Inr y) xs ys"
  by (induction xs arbitrary: ys) (auto simp: result_simps list_all2_Cons1)

lemma mapR_length: "mapR f xs = Inr ys \<Longrightarrow> length ys = length xs"
  by (auto simp: mapR_Inr_iff dest: list_all2_lengthD)

lemma mapR_Inr_in_set:
  assumes "mapR f xs = Inr ys" and "y \<in> set ys"
  shows "\<exists>x \<in> set xs. f x = Inr y"
  using assms by (induction xs arbitrary: ys) (auto simp: result_simps)

lemma mapR_Inl:
  assumes "mapR f xs = Inl e"
  shows "\<exists>x \<in> set xs. f x = Inl e"
  using assms by (induction xs) (auto simp: result_simps)

lemma mapR_all_ok: "(\<And>x. x \<in> set xs \<Longrightarrow> f x = Inr (g x)) \<Longrightarrow> mapR f xs = Inr (map g xs)"
  by (induction xs) auto

lemma mapR_const_unit: "mapR f xs = Inr us \<Longrightarrow> x \<in> set xs \<Longrightarrow> \<exists>u. f x = Inr u"
  by (induction xs arbitrary: us) (auto simp: result_simps)

lemma mapR_is_ok: "is_ok (mapR f xs) \<longleftrightarrow> list_all (\<lambda>x. is_ok (f x)) xs"
proof (induction xs)
  case (Cons x xs)
  then show ?case by (cases "f x"; cases "mapR f xs") simp_all
qed simp

lemma list_all2_in_set: "list_all2 P xs ys \<Longrightarrow> y \<in> set ys \<Longrightarrow> \<exists>x \<in> set xs. P x y"
  by (metis in_set_conv_nth list_all2_conv_all_nth)

lemma foldR_append:
  "foldR f s (xs @ ys) = bindR (foldR f s xs) (\<lambda>s'. foldR f s' ys)"
proof (induction xs arbitrary: s)
  case Nil
  show ?case by simp
next
  case (Cons x xs)
  then show ?case by (cases "f s x") simp_all
qed

text \<open>The loop rule: an invariant kept by every returning iteration holds for the result.\<close>

lemma foldR_invariant:
  assumes "foldR f s xs = Inr s'" and "I s"
    and "\<And>s x t. x \<in> set xs \<Longrightarrow> I s \<Longrightarrow> f s x = Inr t \<Longrightarrow> I t"
  shows "I s'"
  using assms by (induction xs arbitrary: s) (auto simp: result_simps)

text \<open>A loop whose every step returns and keeps an invariant returns.\<close>

lemma foldR_returns:
  assumes "I s" and "\<And>s x. x \<in> set xs \<Longrightarrow> I s \<Longrightarrow> \<exists>t. f s x = Inr t \<and> I t"
  shows "\<exists>t. foldR f s xs = Inr t \<and> I t"
  using assms
proof (induction xs arbitrary: s)
  case (Cons x xs)
  obtain t where "f s x = Inr t" "I t" using Cons.prems by auto
  then show ?case using Cons.IH [of t] Cons.prems(2) by auto
qed simp

section \<open>Dictionaries\<close>

type_synonym ('k, 'v) dict = "('k \<times> 'v) list"

definition dict_keys :: "('k, 'v) dict \<Rightarrow> 'k list" where
  "dict_keys d = map fst d"

definition dict_get :: "('k, 'v) dict \<Rightarrow> 'k \<Rightarrow> 'v option" where
  "dict_get d k = map_of d k"

definition dict_set :: "('k, 'v) dict \<Rightarrow> 'k \<Rightarrow> 'v \<Rightarrow> ('k, 'v) dict" where
  "dict_set d k v = AList.update k v d"

text \<open>A dict display or comprehension: later entries for a key overwrite earlier ones.\<close>

fun dict_update_all :: "('k, 'v) dict \<Rightarrow> ('k \<times> 'v) list \<Rightarrow> ('k, 'v) dict" where
  "dict_update_all d [] = d"
| "dict_update_all d (kv # kvs) = dict_update_all (dict_set d (fst kv) (snd kv)) kvs"

definition dict_of :: "('k \<times> 'v) list \<Rightarrow> ('k, 'v) dict" where
  "dict_of kvs = dict_update_all [] kvs"

definition dict_pop :: "('k, 'v) dict \<Rightarrow> 'k \<Rightarrow> ('k, 'v) dict" where
  "dict_pop d k = filter (\<lambda>kv. fst kv \<noteq> k) d"

lemma dict_get_Nil [simp]: "dict_get [] k = None"
  by (simp add: dict_get_def)

lemma dict_get_Cons [simp]: "dict_get ((k', v) # d) k = (if k' = k then Some v else dict_get d k)"
  by (simp add: dict_get_def)

lemma dict_get_set [dict_simps]:
  "dict_get (dict_set d k v) k' = (if k' = k then Some v else dict_get d k')"
  by (simp add: dict_get_def dict_set_def update_conv')

lemma dict_get_pop [dict_simps]:
  "dict_get (dict_pop d k) k' = (if k' = k then None else dict_get d k')"
  by (induction d) (auto simp: dict_pop_def dict_get_def)

lemma distinct_dict_set [simp]:
  "distinct (dict_keys d) \<Longrightarrow> distinct (dict_keys (dict_set d k v))"
  by (simp add: dict_keys_def dict_set_def distinct_update)

lemma set_dict_keys_set [simp]: "set (dict_keys (dict_set d k v)) = insert k (set (dict_keys d))"
  by (induction d) (auto simp: dict_keys_def dict_set_def)

lemma distinct_dict_pop [simp]: "distinct (dict_keys d) \<Longrightarrow> distinct (dict_keys (dict_pop d k))"
  by (simp add: dict_keys_def dict_pop_def distinct_map_filter)

lemma set_dict_keys_pop [simp]: "set (dict_keys (dict_pop d k)) = set (dict_keys d) - {k}"
  by (auto simp: dict_keys_def dict_pop_def)

lemma dict_get_None_iff: "dict_get d k = None \<longleftrightarrow> k \<notin> set (dict_keys d)"
  by (simp add: dict_get_def dict_keys_def map_of_eq_None_iff)

lemma dict_get_Some_in: "dict_get d k = Some v \<Longrightarrow> (k, v) \<in> set d"
  by (simp add: dict_get_def map_of_SomeD)

lemma dict_get_update_all [dict_simps]:
  "dict_get (dict_update_all d kvs) k =
     (case dict_get (rev kvs) k of Some v \<Rightarrow> Some v | None \<Rightarrow> dict_get d k)"
  by (induction kvs arbitrary: d)
    (auto simp: dict_get_set dict_get_def map_of_append map_add_def dict_set_def update_conv'
      split: option.splits)

lemma dict_get_dict_of [dict_simps]: "dict_get (dict_of kvs) k = dict_get (rev kvs) k"
  by (simp add: dict_of_def dict_get_update_all split: option.split)

lemma distinct_dict_update_all [simp]:
  "distinct (dict_keys d) \<Longrightarrow> distinct (dict_keys (dict_update_all d kvs))"
  by (induction kvs arbitrary: d) simp_all

lemma distinct_dict_of [simp]: "distinct (dict_keys (dict_of kvs))"
  unfolding dict_of_def by (rule distinct_dict_update_all) (simp add: dict_keys_def)

lemma set_dict_keys_update_all:
  "set (dict_keys (dict_update_all d kvs)) = set (dict_keys d) \<union> fst ` set kvs"
  by (induction kvs arbitrary: d) auto

lemma set_dict_keys_dict_of [simp]: "set (dict_keys (dict_of kvs)) = fst ` set kvs"
  unfolding dict_of_def set_dict_keys_update_all by (simp add: dict_keys_def)

lemma length_dict_of: "length (dict_of kvs) = card (fst ` set kvs)"
proof -
  have "length (dict_of kvs) = length (dict_keys (dict_of kvs))"
    by (simp add: dict_keys_def)
  also have "\<dots> = card (set (dict_keys (dict_of kvs)))"
    by (rule distinct_card [symmetric]) (rule distinct_dict_of)
  finally show ?thesis by simp
qed

lemma length_dict_of_eq_iff: "length (dict_of kvs) = length kvs \<longleftrightarrow> distinct (map fst kvs)"
  by (metis card_distinct distinct_card length_dict_of length_map list.set_map)

lemma map_of_rev_distinct:
  assumes "distinct (map fst kvs)"
  shows "map_of (rev kvs) = map_of kvs"
  using assms by (intro map_of_inject_set [THEN iffD2]) (simp_all flip: rev_map)

lemma dict_get_dict_of_distinct:
  "distinct (map fst kvs) \<Longrightarrow> dict_get (dict_of kvs) k = map_of kvs k"
  by (subst dict_get_dict_of) (simp add: dict_get_def map_of_rev_distinct)

lemma dict_update_all_append:
  "dict_update_all d (xs @ ys) = dict_update_all (dict_update_all d xs) ys"
  by (induction xs arbitrary: d) simp_all

lemma dict_keys_set:
  "dict_keys (dict_set d k v) = (if k \<in> set (dict_keys d) then dict_keys d else dict_keys d @ [k])"
  by (simp add: dict_keys_def dict_set_def update_keys)

section \<open>First-occurrence deduplication\<close>

text \<open>
  The contract of every helper that drops repeated values and keeps the first occurrence of
  each in order. The laws say what happens when one more value arrives; everything a client
  needs (same elements, no repetition, order of first occurrences) is proved from them once.
\<close>

locale stable_dedupe =
  fixes dd :: "'a list \<Rightarrow> 'a list"
  assumes dd_Nil: "dd [] = []"
    and dd_snoc: "dd (xs @ [x]) = (if x \<in> set xs then dd xs else dd xs @ [x])"
begin

lemma dd_set [simp]: "set (dd xs) = set xs"
  by (induction xs rule: rev_induct) (auto simp: dd_Nil dd_snoc)

lemma dd_distinct [simp]: "distinct (dd xs)"
  by (induction xs rule: rev_induct) (auto simp: dd_Nil dd_snoc)

lemma dd_subseq: "subseq (dd xs) xs"
proof (induction xs rule: rev_induct)
  case (snoc x xs)
  then show ?case
    by (auto simp: dd_snoc intro: subseq_order.trans [OF snoc] list_emb_append_mono)
qed (simp add: dd_Nil)

lemma dd_id: "distinct xs \<Longrightarrow> dd xs = xs"
  by (induction xs rule: rev_induct) (auto simp: dd_Nil dd_snoc)

lemma dd_idem: "dd (dd xs) = dd xs"
  by (simp add: dd_id)

lemma dd_length: "length (dd xs) = card (set xs)"
  by (metis dd_distinct dd_set distinct_card)

lemma dd_eq_Nil_iff: "dd xs = [] \<longleftrightarrow> xs = []"
  by (metis dd_set set_empty)

lemma dd_singleton_iff: "length (dd xs) = 1 \<longleftrightarrow> (\<exists>a. set xs = {a})"
  by (simp add: dd_length card_1_singleton_iff)

lemma dd_hd: "xs \<noteq> [] \<Longrightarrow> hd (dd xs) = hd xs"
  by (induction xs rule: rev_induct) (auto simp: dd_snoc dd_Nil dd_eq_Nil_iff hd_append)

lemma dd_append: "dd (xs @ ys) = dd xs @ filter (\<lambda>y. y \<notin> set xs) (dd ys)"
  by (induction ys rule: rev_induct)
    (auto simp: dd_Nil dd_snoc simp flip: append_assoc)

end

text \<open>\<open>tuple(dict.fromkeys(xs))\<close>: the keys, in order, of a dictionary filled from \<open>xs\<close>.\<close>

definition fromkeys :: "'a list \<Rightarrow> 'a list" where
  "fromkeys xs = dict_keys (dict_of (map (\<lambda>x. (x, ())) xs))"

interpretation fromkeys: stable_dedupe fromkeys
proof
  show "fromkeys [] = []"
    by (simp add: fromkeys_def dict_of_def dict_keys_def)
next
  fix xs :: "'a list" and x
  have "set (dict_keys (dict_of (map (\<lambda>x. (x, ())) xs))) = set xs"
    by (simp add: image_image)
  then show "fromkeys (xs @ [x]) = (if x \<in> set xs then fromkeys xs else fromkeys xs @ [x])"
    by (simp add: fromkeys_def dict_of_def dict_update_all_append dict_keys_set)
qed

text \<open>\<open>d.setdefault(k, []).append(v)\<close>, and the loop that groups the values of a list by key.\<close>

definition dict_append :: "('k, 'v list) dict \<Rightarrow> 'k \<Rightarrow> 'v \<Rightarrow> ('k, 'v list) dict" where
  "dict_append d k v = dict_set d k ((case dict_get d k of None \<Rightarrow> [] | Some vs \<Rightarrow> vs) @ [v])"

lemma dict_set_table:
  "distinct ks \<Longrightarrow> dict_set (map (\<lambda>k. (k, f k)) ks) k v =
     (if k \<in> set ks then map (\<lambda>k'. (k', if k' = k then v else f k')) ks else map (\<lambda>k. (k, f k)) ks @ [(k, v)])"
  by (induction ks) (auto simp: dict_set_def)

lemma dict_get_table: "dict_get (map (\<lambda>k. (k, f k)) ks) k = (if k \<in> set ks then Some (f k) else None)"
  by (induction ks) auto

lemma grouped_by_key:
  "foldl (\<lambda>d x. dict_append d (f x) (g x)) [] xs = map (\<lambda>k. (k, map g (filter (\<lambda>x. f x = k) xs))) (fromkeys (map f xs))"
proof (induction xs rule: rev_induct)
  case Nil
  show ?case by (simp add: fromkeys.dd_Nil)
next
  case (snoc x xs)
  let ?d = "map (\<lambda>k. (k, map g (filter (\<lambda>x. f x = k) xs))) (fromkeys (map f xs))"
  have step: "foldl (\<lambda>d x. dict_append d (f x) (g x)) [] (xs @ [x]) = dict_append ?d (f x) (g x)"
    by (simp only: foldl_append foldl.simps snoc)
  have absent: "f x \<notin> f ` set xs \<Longrightarrow> filter (\<lambda>y. f y = f x) xs = []"
    by (auto simp: filter_empty_conv image_iff)
  show ?case
  proof (cases "f x \<in> f ` set xs")
    case True
    then show ?thesis
      unfolding step by (simp add: dict_append_def dict_set_table dict_get_table fromkeys.dd_snoc)
  next
    case False
    then show ?thesis
      unfolding step by (auto simp: dict_append_def dict_set_table dict_get_table fromkeys.dd_snoc absent)
  qed
qed

text \<open>The accumulator loop of the \<open>_ordered_unique\<close> helpers: \<open>seen\<close> is the set of values met.\<close>

fun ordered_unique_loop :: "'a list \<Rightarrow> 'a list \<Rightarrow> 'a list \<Rightarrow> 'a list" where
  "ordered_unique_loop result seen [] = result"
| "ordered_unique_loop result seen (v # vs) =
     (if v \<in> set seen then ordered_unique_loop result seen vs
      else ordered_unique_loop (result @ [v]) (v # seen) vs)"

lemma ordered_unique_loop_snoc:
  "ordered_unique_loop result seen (xs @ [x]) =
     (if x \<in> set seen \<union> set xs then ordered_unique_loop result seen xs
      else ordered_unique_loop result seen xs @ [x])"
  by (induction xs arbitrary: result seen) auto

section \<open>Transition systems\<close>

text \<open>
  A stateful component is a set of initial states and a labelled step relation. An invariant
  that holds initially and is kept by every step holds in every reachable state and along
  every run; components interpret the locale on their own steps.
\<close>

inductive reachable :: "('s \<Rightarrow> bool) \<Rightarrow> ('s \<Rightarrow> 'l \<Rightarrow> 's \<Rightarrow> bool) \<Rightarrow> 's \<Rightarrow> bool"
  for init step where
  reachable_init: "init s \<Longrightarrow> reachable init step s"
| reachable_step: "reachable init step s \<Longrightarrow> step s l t \<Longrightarrow> reachable init step t"

inductive trace_run :: "('s \<Rightarrow> 'l \<Rightarrow> 's \<Rightarrow> bool) \<Rightarrow> 's \<Rightarrow> 'l list \<Rightarrow> 's \<Rightarrow> bool"
  for step where
  trace_run_nil: "trace_run step s [] s"
| trace_run_cons: "step s l t \<Longrightarrow> trace_run step t ls u \<Longrightarrow> trace_run step s (l # ls) u"

inductive_simps trace_run_Nil_iff [simp]: "trace_run step s [] t"
inductive_simps trace_run_Cons_iff [simp]: "trace_run step s (l # ls) u"

lemma trace_run_append: "trace_run step s (xs @ ys) u \<longleftrightarrow> (\<exists>t. trace_run step s xs t \<and> trace_run step t ys u)"
  by (induction xs arbitrary: s) auto

lemma trace_run_reachable: "trace_run step s ls t \<Longrightarrow> reachable init step s \<Longrightarrow> reachable init step t"
  by (induction rule: trace_run.induct) (auto intro: reachable.intros)

locale step_invariant =
  fixes init :: "'s \<Rightarrow> bool"
    and step :: "'s \<Rightarrow> 'l \<Rightarrow> 's \<Rightarrow> bool"
    and inv :: "'s \<Rightarrow> bool"
  assumes init_inv: "init s \<Longrightarrow> inv s"
    and step_inv: "inv s \<Longrightarrow> step s l t \<Longrightarrow> inv t"
begin

lemma reachable_inv: "reachable init step s \<Longrightarrow> inv s"
  by (induction rule: reachable.induct) (auto intro: init_inv step_inv)

lemma trace_run_inv: "trace_run step s ls t \<Longrightarrow> inv s \<Longrightarrow> inv t"
  by (induction rule: trace_run.induct) (auto intro: step_inv)

end

end
