(* ===== verification/PyStr.thy ===== *)
theory PyStr
  imports Prelude
begin

text \<open>
  The part of Python's \<open>str\<close>, \<open>posixpath\<close> and \<open>re\<close> the code uses. A \<open>str\<close> is a HOL
  \<open>string\<close> whose characters are the code points below 256 (Latin-1); ordering of strings is the
  code-point order of \<open>List_Lexorder\<close> and \<open>Char_ord\<close>, which is Python's. On these code points
  \<open>str.lower\<close> stays inside the range. \<open>posixpath.normpath\<close> is the standard library's algorithm
  with its component stack kept top first.
\<close>

section \<open>Character classes\<close>

definition code :: "char \<Rightarrow> nat" where
  "code c = of_char c"

definition is_digit :: "char \<Rightarrow> bool" where
  "is_digit c \<longleftrightarrow> 48 \<le> code c \<and> code c \<le> 57"

definition is_ascii_lower :: "char \<Rightarrow> bool" where
  "is_ascii_lower c \<longleftrightarrow> 97 \<le> code c \<and> code c \<le> 122"

definition is_ascii_upper :: "char \<Rightarrow> bool" where
  "is_ascii_upper c \<longleftrightarrow> 65 \<le> code c \<and> code c \<le> 90"

text \<open>\<open>str.isalpha\<close> on one code point below 256.\<close>

definition is_alpha :: "char \<Rightarrow> bool" where
  "is_alpha c \<longleftrightarrow> is_ascii_lower c \<or> is_ascii_upper c \<or> code c \<in> {170, 181, 186}
     \<or> (192 \<le> code c \<and> code c \<noteq> 215 \<and> code c \<noteq> 247)"

text \<open>The whitespace \<open>str.strip()\<close> removes.\<close>

definition is_space :: "char \<Rightarrow> bool" where
  "is_space c \<longleftrightarrow> (9 \<le> code c \<and> code c \<le> 13) \<or> (28 \<le> code c \<and> code c \<le> 32)
     \<or> code c = 133 \<or> code c = 160"

definition lower_char :: "char \<Rightarrow> char" where
  "lower_char c =
     (if is_ascii_upper c \<or> (192 \<le> code c \<and> code c \<le> 222 \<and> code c \<noteq> 215)
      then char_of (code c + 32) else c)"

definition lower :: "string \<Rightarrow> string" where
  "lower s = map lower_char s"

lemma code_less [simp]: "code c < 256"
  by (simp add: code_def)

lemma code_inject [simp]: "code c = code d \<longleftrightarrow> c = d"
  by (simp add: code_def)

lemma code_char_of [simp]: "n < 256 \<Longrightarrow> code (char_of n) = n"
  by (simp add: code_def)

lemma char_of_code [simp]: "char_of (code c) = c"
  by (simp add: code_def)

text \<open>Equations on literal characters, so that evaluation stays with the bits.\<close>

lemma code_Char:
  "code (Char b0 b1 b2 b3 b4 b5 b6 b7) = of_bool b0 + 2 * (of_bool b1 + 2 * (of_bool b2 + 2 * (of_bool b3
     + 2 * (of_bool b4 + 2 * (of_bool b5 + 2 * (of_bool b6 + 2 * of_bool b7))))))"
  by (simp add: code_def)

lemma is_digit_Char [simp, code]:
  "is_digit (Char b0 b1 b2 b3 b4 b5 b6 b7) \<longleftrightarrow> \<not> b7 \<and> \<not> b6 \<and> b5 \<and> b4 \<and> \<not> (b3 \<and> (b2 \<or> b1))"
  unfolding is_digit_def code_Char by (cases b0; cases b1; cases b2; cases b3; cases b4; cases b5; cases b6; cases b7; simp)

lemma is_ascii_lower_Char [simp, code]:
  "is_ascii_lower (Char b0 b1 b2 b3 b4 b5 b6 b7) \<longleftrightarrow> \<not> b7 \<and> b6 \<and> b5 \<and> (b0 \<or> b1 \<or> b2 \<or> b3 \<or> b4) \<and> \<not> (b4 \<and> b3 \<and> (b2 \<or> b1 \<and> b0))"
  unfolding is_ascii_lower_def code_Char by (cases b0; cases b1; cases b2; cases b3; cases b4; cases b5; cases b6; cases b7; simp)

lemma is_ascii_upper_Char [simp, code]:
  "is_ascii_upper (Char b0 b1 b2 b3 b4 b5 b6 b7) \<longleftrightarrow> \<not> b7 \<and> b6 \<and> \<not> b5 \<and> (b0 \<or> b1 \<or> b2 \<or> b3 \<or> b4) \<and> \<not> (b4 \<and> b3 \<and> (b2 \<or> b1 \<and> b0))"
  unfolding is_ascii_upper_def code_Char by (cases b0; cases b1; cases b2; cases b3; cases b4; cases b5; cases b6; cases b7; simp)

lemma is_space_Char [simp, code]:
  "is_space (Char b0 b1 b2 b3 b4 b5 b6 b7) \<longleftrightarrow>
     (\<not> b7 \<and> \<not> b6 \<and> \<not> b5 \<and> \<not> b4 \<and> b3 \<and> (b0 \<or> b1 \<or> b2) \<and> \<not> (b2 \<and> b1))
     \<or> (\<not> b7 \<and> \<not> b6 \<and> \<not> b5 \<and> b4 \<and> b3 \<and> b2)
     \<or> (\<not> b6 \<and> b5 \<and> \<not> b4 \<and> \<not> b3 \<and> \<not> b2 \<and> \<not> b1 \<and> \<not> b0)
     \<or> (b7 \<and> \<not> b6 \<and> \<not> b5 \<and> \<not> b4 \<and> \<not> b3 \<and> b2 \<and> \<not> b1 \<and> b0)"
  unfolding is_space_def code_Char by (cases b0; cases b1; cases b2; cases b3; cases b4; cases b5; cases b6; cases b7; simp)

lemma lower_char_Char [simp, code]:
  "lower_char (Char b0 b1 b2 b3 b4 b5 b6 b7) =
     (if b6 \<and> \<not> b5 \<and> (if b7 then \<not> (b4 \<and> b3 \<and> b2 \<and> b1 \<and> b0) \<and> \<not> (b4 \<and> \<not> b3 \<and> b2 \<and> b1 \<and> b0)
        else (b0 \<or> b1 \<or> b2 \<or> b3 \<or> b4) \<and> \<not> (b4 \<and> b3 \<and> (b2 \<or> b1 \<and> b0)))
      then Char b0 b1 b2 b3 b4 True b6 b7 else (Char b0 b1 b2 b3 b4 b5 b6 b7))"
  unfolding lower_char_def is_ascii_upper_Char code_Char
  by (cases b0; cases b1; cases b2; cases b3; cases b4; cases b5; cases b6; cases b7; simp add: char_of_def bit_simps)

lemma lower_char_idem [simp]: "lower_char (lower_char c) = lower_char c"
  by (simp add: lower_char_def is_ascii_upper_def)

lemma lower_idem [simp]: "lower (lower s) = lower s"
  by (simp add: lower_def)

lemma not_upper_lower_char [simp]: "\<not> is_ascii_upper (lower_char c)"
  by (auto simp: lower_char_def is_ascii_upper_def)

lemma length_lower [simp]: "length (lower s) = length s"
  by (simp add: lower_def)

section \<open>Prefixes, substrings, stripping\<close>

definition starts_with :: "string \<Rightarrow> string \<Rightarrow> bool" where
  "starts_with p s \<longleftrightarrow> take (length p) s = p"

definition ends_with :: "string \<Rightarrow> string \<Rightarrow> bool" where
  "ends_with p s \<longleftrightarrow> length p \<le> length s \<and> drop (length s - length p) s = p"

definition removeprefix :: "string \<Rightarrow> string \<Rightarrow> string" where
  "removeprefix p s = (if starts_with p s then drop (length p) s else s)"

text \<open>\<open>sub in s\<close>.\<close>

fun str_in :: "string \<Rightarrow> string \<Rightarrow> bool" where
  "str_in sub [] = (sub = [])"
| "str_in sub (c # s) = (starts_with sub (c # s) \<or> str_in sub s)"

definition strip_where :: "(char \<Rightarrow> bool) \<Rightarrow> string \<Rightarrow> string" where
  "strip_where p s = rev (dropWhile p (rev (dropWhile p s)))"

definition strip :: "string \<Rightarrow> string" where
  "strip s = strip_where is_space s"

definition strip_char :: "char \<Rightarrow> string \<Rightarrow> string" where
  "strip_char c s = strip_where (\<lambda>d. d = c) s"

definition lstrip_char :: "char \<Rightarrow> string \<Rightarrow> string" where
  "lstrip_char c s = dropWhile (\<lambda>d. d = c) s"

lemma starts_with_iff: "starts_with p s \<longleftrightarrow> (\<exists>r. s = p @ r)"
  by (metis append_eq_conv_conj append_take_drop_id starts_with_def)

lemma starts_with_append [simp]: "starts_with p (p @ r)"
  by (simp add: starts_with_def)

lemma removeprefix_append [simp]: "removeprefix p (p @ r) = r"
  by (simp add: removeprefix_def)

lemma starts_with_Nil [simp]: "starts_with [] s"
  by (simp add: starts_with_def)

lemma str_in_Nil [simp]: "str_in [] s"
  by (cases s) simp_all

lemma str_in_iff: "str_in sub s \<longleftrightarrow> (\<exists>a b. s = a @ sub @ b)"
proof (induction s)
  case Nil
  then show ?case by auto
next
  case (Cons c s)
  have "(\<exists>a b. c # s = a @ sub @ b) \<longleftrightarrow> (\<exists>b. c # s = sub @ b) \<or> (\<exists>a b. s = a @ sub @ b)"
    (is "?l \<longleftrightarrow> ?r")
  proof
    assume ?l
    then obtain a b where "c # s = a @ sub @ b" by blast
    then show ?r by (cases a) auto
  next
    assume ?r
    then show ?l by (metis append_Cons append_Nil)
  qed
  then show ?case using Cons by (simp add: starts_with_iff)
qed

lemma set_strip_where: "set (strip_where p s) \<subseteq> set s"
  unfolding strip_where_def set_rev by (metis set_dropWhileD set_rev subsetI)

lemma strip_where_hd: "strip_where p s \<noteq> [] \<Longrightarrow> \<not> p (hd (strip_where p s))"
proof -
  assume ne: "strip_where p s \<noteq> []"
  let ?d = "dropWhile p s"
  have "?d \<noteq> []"
  proof
    assume "?d = []"
    then have "strip_where p s = []"
      unfolding strip_where_def by (simp only: rev.simps dropWhile.simps)
    with ne show False by simp
  qed
  have "prefix (strip_where p s) ?d"
    by (metis prefixI strip_where_def append_take_drop_id dropWhile_eq_drop rev_append rev_rev_ident
        suffix_dropWhile suffix_to_prefix)
  then have "hd (strip_where p s) = hd ?d"
    using ne by (metis hd_append prefix_def)
  with \<open>?d \<noteq> []\<close> show ?thesis by (metis hd_dropWhile)
qed

lemma strip_where_last: "strip_where p s \<noteq> [] \<Longrightarrow> \<not> p (last (strip_where p s))"
  unfolding strip_where_def by (metis hd_dropWhile last_rev rev_is_Nil_conv)

lemma strip_where_id: "s = [] \<or> \<not> p (hd s) \<and> \<not> p (last s) \<Longrightarrow> strip_where p s = s"
  by (auto simp: strip_where_def dropWhile_eq_self_iff [THEN iffD2] hd_rev)

section \<open>Splitting and joining\<close>

fun split_on :: "char \<Rightarrow> string \<Rightarrow> string list" where
  "split_on c [] = [[]]"
| "split_on c (x # xs) =
     (if x = c then [] # split_on c xs
      else (case split_on c xs of [] \<Rightarrow> [[x]] | w # ws \<Rightarrow> (x # w) # ws))"

fun join :: "string \<Rightarrow> string list \<Rightarrow> string" where
  "join sep [] = []"
| "join sep [w] = w"
| "join sep (w # v # ws) = w @ sep @ join sep (v # ws)"

lemma split_on_ne [simp]: "split_on c s \<noteq> []"
  by (induction s) (auto split: list.splits)

lemma split_on_no_sep: "w \<in> set (split_on c s) \<Longrightarrow> c \<notin> set w"
  by (induction s arbitrary: w) (auto split: list.splits if_splits)

lemma join_split_on [simp]: "join [c] (split_on c s) = s"
proof (induction s)
  case (Cons x xs)
  obtain w ws where "split_on c xs = w # ws" by (metis split_on_ne list.exhaust)
  with Cons show ?case by (cases ws) (auto split: list.splits)
qed simp

lemma split_on_single: "c \<notin> set w \<Longrightarrow> split_on c w = [w]"
  by (induction w) auto

lemma split_on_append_sep:
  "c \<notin> set w \<Longrightarrow> split_on c (w @ c # s) = w # split_on c s"
  by (induction w) auto

lemma split_on_join:
  assumes "ws \<noteq> []" and "\<And>w. w \<in> set ws \<Longrightarrow> c \<notin> set w"
  shows "split_on c (join [c] ws) = ws"
  using assms by (induction "[c]" ws rule: join.induct) (auto simp: split_on_single split_on_append_sep)

lemma join_append: "xs \<noteq> [] \<Longrightarrow> ys \<noteq> [] \<Longrightarrow> join sep (xs @ ys) = join sep xs @ sep @ join sep ys"
proof (induction sep xs rule: join.induct)
  case (2 sep w)
  then show ?case by (cases ys) auto
qed auto

lemma join_eq_Nil_iff: "join [c] ws = [] \<longleftrightarrow> ws = [] \<or> ws = [[]]"
  by (induction "[c]" ws rule: join.induct) auto

lemma split_on_append: "split_on c (s @ c # t) = split_on c s @ split_on c t"
proof (induction s)
  case (Cons x s)
  then show ?case
    by (cases "split_on c s") auto
qed simp

section \<open>posixpath\<close>

definition slash :: char where
  "slash = CHR ''/''"

text \<open>
  One component of \<open>normpath\<close>'s loop; \<open>stack\<close> is \<open>new_comps\<close> with its last element first,
  \<open>ab\<close> says whether the path is absolute (\<open>initial_slashes\<close> is not 0).
\<close>

definition norm_comp :: "bool \<Rightarrow> string list \<Rightarrow> string \<Rightarrow> string list" where
  "norm_comp ab stack w =
     (if w = [] \<or> w = ''.'' then stack
      else if w \<noteq> ''..'' \<or> (\<not> ab \<and> stack = []) \<or> (stack \<noteq> [] \<and> hd stack = ''..'')
      then w # stack
      else (case stack of [] \<Rightarrow> [] | _ # st \<Rightarrow> st))"

definition initial_slashes :: "string \<Rightarrow> nat" where
  "initial_slashes p =
     (if \<not> starts_with ''/'' p then 0
      else if starts_with ''//'' p \<and> \<not> starts_with ''///'' p then 2 else 1)"

definition norm_comps :: "string \<Rightarrow> string list" where
  "norm_comps p = rev (foldl (norm_comp (initial_slashes p \<noteq> 0)) [] (split_on slash p))"

definition normpath :: "string \<Rightarrow> string" where
  "normpath p =
     (if p = [] then ''.''
      else let r = replicate (initial_slashes p) slash @ join ''/'' (norm_comps p)
           in if r = [] then ''.'' else r)"

text \<open>\<open>posixpath.basename\<close>: what follows the last slash.\<close>

definition basename :: "string \<Rightarrow> string" where
  "basename p = last (split_on slash p)"

text \<open>\<open>s.rsplit(c, 1)[1]\<close> for an \<open>s\<close> that holds \<open>c\<close>.\<close>

definition after_last :: "char \<Rightarrow> string \<Rightarrow> string" where
  "after_last c s = last (split_on c s)"

text \<open>Normal components: not empty, not a dot, no slash inside.\<close>

definition plain_comp :: "string \<Rightarrow> bool" where
  "plain_comp w \<longleftrightarrow> w \<noteq> [] \<and> w \<noteq> ''.'' \<and> w \<noteq> ''..'' \<and> slash \<notin> set w"

text \<open>
  The stack of a relative path is some ``..'' components at the bottom with plain components
  above them; that of an absolute path holds plain components only.
\<close>

definition norm_stack :: "bool \<Rightarrow> string list \<Rightarrow> bool" where
  "norm_stack ab stack \<longleftrightarrow>
     (\<exists>names n. stack = names @ replicate n ''..'' \<and> list_all plain_comp names \<and> (ab \<longrightarrow> n = 0))"

lemma norm_stack_Nil [simp]: "norm_stack ab []"
  by (simp add: norm_stack_def)

lemma norm_stackI:
  "stack = names @ replicate n ''..'' \<Longrightarrow> list_all plain_comp names \<Longrightarrow> ab \<longrightarrow> n = 0 \<Longrightarrow>
     norm_stack ab stack"
  by (auto simp: norm_stack_def)

lemma norm_comp_stack:
  assumes "norm_stack ab stack" and "slash \<notin> set w"
  shows "norm_stack ab (norm_comp ab stack w)"
proof -
  from assms(1) obtain names n where st: "stack = names @ replicate n ''..''"
    and pl: "list_all plain_comp names" and n: "ab \<longrightarrow> n = 0"
    by (auto simp: norm_stack_def)
  consider "w = [] \<or> w = ''.''" | "plain_comp w" | "w = ''..''"
    using assms(2) by (auto simp: plain_comp_def)
  then show ?thesis
  proof cases
    case 1
    then show ?thesis using assms(1) by (simp add: norm_comp_def)
  next
    case 2
    then have "norm_comp ab stack w = (w # names) @ replicate n ''..''"
      by (simp add: norm_comp_def st plain_comp_def)
    then show ?thesis by (rule norm_stackI) (simp_all add: 2 pl n)
  next
    case 3
    show ?thesis
    proof (cases names)
      case Nil
      then have "norm_comp ab stack w = (if ab then [] else [] @ replicate (Suc n) ''..'')"
        using 3 n by (cases n) (auto simp: norm_comp_def st)
      then show ?thesis
        using norm_stackI [of _ "[]" "Suc n" ab] by (cases ab) simp_all
    next
      case (Cons m names')
      then have "norm_comp ab stack w = names' @ replicate n ''..''"
        using 3 pl by (auto simp: norm_comp_def st plain_comp_def)
      then show ?thesis by (rule norm_stackI) (use pl n Cons in simp_all)
    qed
  qed
qed

lemma foldl_norm_comp_stack:
  "norm_stack ab stack \<Longrightarrow> (\<forall>v \<in> set ws. slash \<notin> set v) \<Longrightarrow>
     norm_stack ab (foldl (norm_comp ab) stack ws)"
  by (induction ws arbitrary: stack) (auto intro: norm_comp_stack)

lemma norm_comps_form:
  "\<exists>n names. norm_comps p = replicate n ''..'' @ names \<and> list_all plain_comp names
     \<and> (initial_slashes p \<noteq> 0 \<longrightarrow> n = 0)"
proof -
  have "norm_stack (initial_slashes p \<noteq> 0)
      (foldl (norm_comp (initial_slashes p \<noteq> 0)) [] (split_on slash p))"
    by (rule foldl_norm_comp_stack) (auto dest: split_on_no_sep)
  then obtain names n where "foldl (norm_comp (initial_slashes p \<noteq> 0)) [] (split_on slash p)
      = names @ replicate n ''..''" "list_all plain_comp names" "initial_slashes p \<noteq> 0 \<longrightarrow> n = 0"
    by (auto simp: norm_stack_def)
  then show ?thesis
    by (intro exI [of _ n] exI [of _ "rev names"]) (simp add: norm_comps_def list_all_iff)
qed

lemma foldl_norm_comp_plain:
  "list_all plain_comp ws \<Longrightarrow> foldl (norm_comp ab) stack ws = rev ws @ stack"
proof (induction ws arbitrary: stack)
  case (Cons w ws)
  then have "norm_comp ab stack w = w # stack" by (auto simp: norm_comp_def plain_comp_def)
  then show ?case using Cons by simp
qed simp

lemma foldl_norm_comp_dots:
  "foldl (norm_comp False) (replicate m ''..'') (replicate n ''..'') = replicate (m + n) ''..''"
proof (induction n arbitrary: m)
  case (Suc n)
  have "norm_comp False (replicate m ''..'') ''..'' = replicate (Suc m) ''..''"
    by (cases m) (simp_all add: norm_comp_def)
  then have "foldl (norm_comp False) (replicate m ''..'') (replicate (Suc n) ''..'') =
      foldl (norm_comp False) (replicate (Suc m) ''..'') (replicate n ''..'')"
    by simp
  also have "\<dots> = replicate (Suc m + n) ''..''" by (rule Suc)
  finally show ?case by simp
qed simp

lemma norm_comps_no_slash: "w \<in> set (norm_comps p) \<Longrightarrow> slash \<notin> set w \<and> w \<noteq> [] \<and> w \<noteq> ''.''"
proof -
  assume w: "w \<in> set (norm_comps p)"
  obtain n names where f: "norm_comps p = replicate n ''..'' @ names" "list_all plain_comp names"
    using norm_comps_form by blast
  then have "w = ''..'' \<or> plain_comp w"
    using w by (auto simp: list_all_iff)
  then show ?thesis by (auto simp: plain_comp_def slash_def)
qed

lemma relative_iff: "initial_slashes p = 0 \<longleftrightarrow> \<not> starts_with ''/'' p"
  by (simp add: initial_slashes_def)

lemma normpath_relative:
  assumes "\<not> starts_with ''/'' p"
  shows "normpath p = (if norm_comps p = [] then ''.'' else join ''/'' (norm_comps p))"
proof -
  have "join ''/'' (norm_comps p) \<noteq> []" if "norm_comps p \<noteq> []"
  proof -
    have "norm_comps p \<noteq> [[]]" using norm_comps_no_slash [of "[]" p] by auto
    with that show ?thesis using join_eq_Nil_iff [of "CHR ''/''" "norm_comps p"] by simp
  qed
  moreover have "p = [] \<Longrightarrow> norm_comps p = []"
    by (simp add: norm_comps_def norm_comp_def)
  ultimately show ?thesis
    using assms by (auto simp: normpath_def relative_iff Let_def)
qed

lemma split_normpath_relative:
  assumes "\<not> starts_with ''/'' p"
  shows "split_on slash (normpath p) = (if norm_comps p = [] then [''.''] else norm_comps p)"
proof (cases "norm_comps p = []")
  case True
  then show ?thesis using assms by (simp add: normpath_relative slash_def)
next
  case False
  then show ?thesis
    using assms norm_comps_no_slash
    by (simp add: normpath_relative slash_def split_on_join)
qed

lemma starts_with_dots_join: "starts_with ''..'' (join ''/'' (''..'' # ws))"
  by (cases ws) (simp_all add: starts_with_def)

text \<open>A relative normal path that does not start with ``..'' holds plain components only.\<close>

lemma norm_comps_plain:
  assumes "\<not> starts_with ''/'' p" and "\<not> starts_with ''..'' (normpath p)"
  shows "list_all plain_comp (norm_comps p)"
proof -
  obtain n names where f: "norm_comps p = replicate n ''..'' @ names" "list_all plain_comp names"
    using norm_comps_form by blast
  show ?thesis
  proof (cases n)
    case 0
    with f show ?thesis by simp
  next
    case (Suc m)
    with f assms have False
      by (simp add: normpath_relative starts_with_dots_join)
    then show ?thesis ..
  qed
qed

lemma norm_comps_normpath:
  assumes "\<not> starts_with ''/'' p" and "\<not> starts_with ''/'' (normpath p)"
  shows "norm_comps (normpath p) = norm_comps p"
proof -
  obtain n names where f: "norm_comps p = replicate n ''..'' @ names" "list_all plain_comp names"
    using norm_comps_form by blast
  have "foldl (norm_comp False) [] (norm_comps p) = rev (norm_comps p)"
    using foldl_norm_comp_dots [of 0 n] f by (simp add: foldl_norm_comp_plain)
  then show ?thesis
    using assms by (simp add: norm_comps_def [of "normpath p"] relative_iff split_normpath_relative
        norm_comp_def)
qed

lemma normpath_relative_relative:
  assumes "\<not> starts_with ''/'' p"
  shows "\<not> starts_with ''/'' (normpath p)"
proof (cases "norm_comps p")
  case Nil
  then show ?thesis using assms by (simp add: normpath_relative starts_with_def)
next
  case (Cons w ws)
  then have "w \<noteq> [] \<and> slash \<notin> set w" using norm_comps_no_slash [of w p] by simp
  then show ?thesis using assms Cons
    by (cases w; cases ws) (auto simp: normpath_relative starts_with_def slash_def)
qed

lemma normpath_idem:
  assumes "\<not> starts_with ''/'' p"
  shows "normpath (normpath p) = normpath p"
proof -
  have "normpath (normpath p) =
      (if norm_comps (normpath p) = [] then ''.'' else join ''/'' (norm_comps (normpath p)))"
    by (rule normpath_relative) (rule normpath_relative_relative [OF assms])
  also have "\<dots> = normpath p"
    unfolding norm_comps_normpath [OF assms normpath_relative_relative [OF assms]]
    by (rule normpath_relative [OF assms, symmetric])
  finally show ?thesis .
qed

section \<open>Decimal numerals\<close>

definition digit :: "nat \<Rightarrow> char" where
  "digit n = char_of (48 + n mod 10)"

fun str_of_nat :: "nat \<Rightarrow> string" where
  "str_of_nat n = (if n < 10 then [digit n] else str_of_nat (n div 10) @ [digit n])"

declare str_of_nat.simps [simp del]

definition str_of_int :: "int \<Rightarrow> string" where
  "str_of_int i = (if i < 0 then ''-'' @ str_of_nat (nat (- i)) else str_of_nat (nat i))"

text \<open>The value a digit string denotes; the left inverse of \<open>str_of_nat\<close>.\<close>

definition nat_of_str :: "string \<Rightarrow> nat" where
  "nat_of_str s = foldl (\<lambda>n c. 10 * n + (code c - 48)) 0 s"

lemma code_digit [simp]: "code (digit n) = 48 + n mod 10"
proof -
  have "48 + n mod 10 < 256" by (rule less_trans [of _ 58]) simp_all
  then show ?thesis by (simp add: digit_def)
qed

lemma is_digit_digit [simp]: "is_digit (digit n)"
  by (simp add: is_digit_def)

lemma str_of_nat_digits: "list_all is_digit (str_of_nat n)"
proof (induction n rule: str_of_nat.induct)
  case (1 n)
  then show ?case by (subst str_of_nat.simps) simp
qed

lemma str_of_nat_ne [simp]: "str_of_nat n \<noteq> []"
  by (subst str_of_nat.simps) simp

lemma nat_of_str_of_nat [simp]: "nat_of_str (str_of_nat n) = n"
proof (induction n rule: str_of_nat.induct)
  case (1 n)
  then show ?case
    by (subst str_of_nat.simps) (auto simp: nat_of_str_def)
qed

lemma str_of_nat_inject [simp]: "str_of_nat m = str_of_nat n \<longleftrightarrow> m = n"
  by (metis nat_of_str_of_nat)

lemma minus_not_digit [simp]: "\<not> is_digit (CHR ''-'')"
  by (simp add: is_digit_def code_def)

lemma str_of_nat_not_minus: "str_of_nat n \<noteq> CHR ''-'' # s"
  using str_of_nat_digits [of n] by auto

lemma str_of_int_inject [simp]: "str_of_int i = str_of_int j \<longleftrightarrow> i = j"
  using str_of_nat_not_minus str_of_nat_not_minus [symmetric]
  by (auto simp: str_of_int_def)

section \<open>Slugs and component checks\<close>

text \<open>A character the slug keeps: \<open>[a-z0-9]\<close>.\<close>

definition slug_char :: "char \<Rightarrow> bool" where
  "slug_char c \<longleftrightarrow> is_ascii_lower c \<or> is_digit c"

text \<open>
  \<open>re.sub(r"[^a-z0-9]+", "_", s)\<close>; the flag says that the previous character was
  replaced, so that a run of other characters yields one underscore.
\<close>

fun slug_sub :: "bool \<Rightarrow> string \<Rightarrow> string" where
  "slug_sub run [] = []"
| "slug_sub run (c # cs) =
     (if slug_char c then c # slug_sub False cs
      else if run then slug_sub True cs else CHR ''_'' # slug_sub True cs)"

definition slug_or :: "string \<Rightarrow> string \<Rightarrow> string" where
  "slug_or dflt value =
     (let r = strip_char CHR ''_'' (slug_sub False (lower value)) in if r = [] then dflt else r)"

lemma slug_sub_chars: "c \<in> set (slug_sub run s) \<Longrightarrow> slug_char c \<or> c = CHR ''_''"
  by (induction run s rule: slug_sub.induct) (auto split: if_splits)

lemma slug_or_chars:
  assumes "\<And>c. c \<in> set dflt \<Longrightarrow> slug_char c" and "c \<in> set (slug_or dflt v)"
  shows "slug_char c \<or> c = CHR ''_''"
  using assms set_strip_where [of "\<lambda>d. d = CHR ''_''" "slug_sub False (lower v)"]
  by (auto simp: slug_or_def Let_def strip_char_def dest: slug_sub_chars split: if_splits)

lemma slug_or_ne: "dflt \<noteq> [] \<Longrightarrow> slug_or dflt v \<noteq> []"
  by (simp add: slug_or_def Let_def)

end
