(* ===== verification/Json.thy ===== *)
theory Json
  imports PyStr "HOL-Library.Multiset"
begin

text \<open>
  JSON values and \<open>json.dumps(payload, sort_keys=True, separators=(",", ":"))\<close> as the code calls
  it for every canonical hash: keys sorted at every level, no whitespace, every character outside
  the printable ASCII range escaped. A float is carried as the text \<open>float.__repr__\<close> gives it.

  Main result: on values whose floats are well formed, the canonical text determines the value up
  to the order of object keys (\<open>dumps_inject\<close>), so that a digest of the text binds the whole
  payload.
\<close>

datatype json =
    JNull
  | JBool bool
  | JInt int
  | JFloat string
  | JStr string
  | JList "json list"
  | JObj "(string \<times> json) list"

section \<open>Rendering\<close>

definition quote :: char where
  "quote = CHR 0x22"

definition backslash :: char where
  "backslash = CHR 0x5C"

definition hexdigit :: "nat \<Rightarrow> char" where
  "hexdigit n = (if n < 10 then char_of (48 + n) else char_of (87 + n))"

text \<open>One character of \<open>json.encoder.py_encode_basestring_ascii\<close>, below code point 256.\<close>

definition esc_char :: "char \<Rightarrow> string" where
  "esc_char c =
     (if c = quote then [backslash, quote]
      else if c = backslash then [backslash, backslash]
      else if code c = 10 then [backslash, CHR ''n'']
      else if code c = 13 then [backslash, CHR ''r'']
      else if code c = 9 then [backslash, CHR ''t'']
      else if code c = 12 then [backslash, CHR ''f'']
      else if code c = 8 then [backslash, CHR ''b'']
      else if 32 \<le> code c \<and> code c \<le> 126 then [c]
      else [backslash, CHR ''u'', CHR ''0'', CHR ''0'', hexdigit (code c div 16), hexdigit (code c mod 16)])"

fun esc :: "string \<Rightarrow> string" where
  "esc [] = []"
| "esc (c # cs) = esc_char c @ esc cs"

definition render_str :: "string \<Rightarrow> string" where
  "render_str s = quote # esc s @ [quote]"

fun render :: "json \<Rightarrow> string" where
  "render JNull = ''null''"
| "render (JBool b) = (if b then ''true'' else ''false'')"
| "render (JInt i) = str_of_int i"
| "render (JFloat t) = t"
| "render (JStr s) = render_str s"
| "render (JList xs) = ''['' @ join '','' (map render xs) @ '']''"
| "render (JObj kvs) = CHR ''{'' # join '','' (map (\<lambda>kv. render_str (fst kv) @ '':'' @ render (snd kv)) kvs) @ [CHR ''}'']"

fun canon :: "json \<Rightarrow> json" where
  "canon (JList xs) = JList (map canon xs)"
| "canon (JObj kvs) = JObj (sort_key fst (map (\<lambda>kv. (fst kv, canon (snd kv))) kvs))"
| "canon j = j"

definition dumps :: "json \<Rightarrow> string" where
  "dumps j = render (canon j)"

section \<open>Escaped strings read back\<close>

definition unhex :: "char \<Rightarrow> nat" where
  "unhex c = (if code c < 58 then code c - 48 else code c - 87)"

text \<open>Reads one escaped character; the rest of the input is returned with it.\<close>

fun unesc :: "string \<Rightarrow> (char \<times> string) option" where
  "unesc [] = None"
| "unesc (c # s) =
     (if c = quote then None
      else if c \<noteq> backslash then Some (c, s)
      else (case s of
        [] \<Rightarrow> None
      | d # s' \<Rightarrow>
          if d = quote then Some (quote, s')
          else if d = backslash then Some (backslash, s')
          else if d = CHR ''n'' then Some (char_of (10::nat), s')
          else if d = CHR ''r'' then Some (char_of (13::nat), s')
          else if d = CHR ''t'' then Some (char_of (9::nat), s')
          else if d = CHR ''f'' then Some (char_of (12::nat), s')
          else if d = CHR ''b'' then Some (char_of (8::nat), s')
          else (case s' of
            _ # _ # h # l # s'' \<Rightarrow> Some (char_of (16 * unhex h + unhex l), s'')
          | _ \<Rightarrow> None)))"

lemma unhex_hexdigit: "n < 16 \<Longrightarrow> unhex (hexdigit n) = n"
  by (simp add: unhex_def hexdigit_def)

lemma quote_ne_backslash [simp]: "quote \<noteq> backslash" "backslash \<noteq> quote"
  by (simp_all add: quote_def backslash_def)

lemma special_codes [simp]: "code quote = 34" "code backslash = 92"
  by (simp_all add: quote_def backslash_def code_def)

lemma escape_letters [simp]:
  "CHR ''n'' \<noteq> quote" "CHR ''n'' \<noteq> backslash" "CHR ''r'' \<noteq> quote" "CHR ''r'' \<noteq> backslash"
  "CHR ''t'' \<noteq> quote" "CHR ''t'' \<noteq> backslash" "CHR ''f'' \<noteq> quote" "CHR ''f'' \<noteq> backslash"
  "CHR ''b'' \<noteq> quote" "CHR ''b'' \<noteq> backslash" "CHR ''u'' \<noteq> quote" "CHR ''u'' \<noteq> backslash"
  by (simp_all add: quote_def backslash_def)

lemma unesc_esc_char: "unesc (esc_char c @ r) = Some (c, r)"
proof -
  have hex: "char_of (16 * unhex (hexdigit (code c div 16)) + unhex (hexdigit (code c mod 16))) = c"
    by (subst (1 2) unhex_hexdigit) (simp_all add: less_mult_imp_div_less)
  consider "c = quote" | "c = backslash" | "c \<noteq> quote" "c \<noteq> backslash" by blast
  then show ?thesis
  proof cases
    case 3
    have char: "code c = n \<Longrightarrow> char_of n = c" for n by auto
    have simple: "code c = 10 \<Longrightarrow> char_of (10::nat) = c" "code c = 13 \<Longrightarrow> char_of (13::nat) = c"
      "code c = 9 \<Longrightarrow> char_of (9::nat) = c" "code c = 12 \<Longrightarrow> char_of (12::nat) = c"
      "code c = 8 \<Longrightarrow> char_of (8::nat) = c"
      by (erule char)+
    from 3 show ?thesis
      unfolding esc_char_def by (simp add: simple hex)
  qed (simp_all add: esc_char_def)
qed

lemma unesc_quote [simp]: "unesc (quote # r) = None"
  by simp

declare unesc.simps [simp del]

lemma esc_quote_inject:
  "esc s @ quote # r = esc t @ quote # r' \<Longrightarrow> s = t \<and> r = r'"
proof (induction s arbitrary: t)
  case Nil
  show ?case
  proof (cases t)
    case (Cons d t')
    with Nil have "quote # r = esc_char d @ esc t' @ quote # r'" by simp
    then have "unesc (quote # r) = unesc (esc_char d @ esc t' @ quote # r')" by (rule arg_cong)
    then show ?thesis by (simp only: unesc_esc_char unesc_quote option.distinct)
  qed (use Nil in simp)
next
  case (Cons c s)
  show ?case
  proof (cases t)
    case Nil
    with Cons.prems have "quote # r' = esc_char c @ esc s @ quote # r" by simp
    then have "unesc (quote # r') = unesc (esc_char c @ esc s @ quote # r)" by (rule arg_cong)
    then show ?thesis by (simp only: unesc_esc_char unesc_quote option.distinct)
  next
    case (Cons d t')
    with Cons.prems have "esc_char c @ esc s @ quote # r = esc_char d @ esc t' @ quote # r'"
      by simp
    then have "unesc (esc_char c @ esc s @ quote # r) = unesc (esc_char d @ esc t' @ quote # r')"
      by (rule arg_cong)
    then have "c = d \<and> esc s @ quote # r = esc t' @ quote # r'"
      by (simp only: unesc_esc_char option.inject prod.inject)
    with Cons Cons.IH show ?thesis by auto
  qed
qed

lemma render_str_inject:
  "render_str s @ r = render_str t @ r' \<Longrightarrow> s = t \<and> r = r'"
  by (rule esc_quote_inject) (simp add: render_str_def)

section \<open>The text determines the value\<close>

text \<open>
  Texts a float renders to: characters of a decimal or of \<open>NaN\<close> and \<open>Infinity\<close>, and not an
  integer numeral.
\<close>

definition float_char :: "char \<Rightarrow> bool" where
  "float_char c \<longleftrightarrow> is_digit c \<or> c \<in> set ''+-.eINaftiny''"

definition int_char :: "char \<Rightarrow> bool" where
  "int_char c \<longleftrightarrow> is_digit c \<or> c = CHR ''-''"

definition float_text :: "string \<Rightarrow> bool" where
  "float_text t \<longleftrightarrow> t \<noteq> [] \<and> list_all float_char t \<and> \<not> list_all int_char t"

fun wf_json :: "json \<Rightarrow> bool" where
  "wf_json (JFloat t) = float_text t"
| "wf_json (JList xs) = list_all wf_json xs"
| "wf_json (JObj kvs) = list_all (\<lambda>kv. wf_json (snd kv)) kvs"
| "wf_json j = True"

text \<open>What may follow a value inside a rendered document.\<close>

definition delim :: "char \<Rightarrow> bool" where
  "delim c \<longleftrightarrow> c \<in> set '',]}''"

definition stops :: "string \<Rightarrow> bool" where
  "stops r \<longleftrightarrow> (case r of [] \<Rightarrow> True | c # _ \<Rightarrow> delim c)"

lemma stops_simps [simp]: "stops []" "stops (c # r) = delim c"
  by (simp_all add: stops_def)

lemma takeWhile_token:
  "list_all (\<lambda>c. \<not> delim c) w \<Longrightarrow> stops r \<Longrightarrow> takeWhile (\<lambda>c. \<not> delim c) (w @ r) = w"
  by (induction w) (auto simp: stops_def split: list.splits)

lemma token_inject:
  assumes "list_all (\<lambda>c. \<not> delim c) v" "list_all (\<lambda>c. \<not> delim c) w" "stops r" "stops s"
    and "v @ r = w @ s"
  shows "v = w \<and> r = s"
proof -
  have "v = w"
    using takeWhile_token [OF assms(1,3)] takeWhile_token [OF assms(2,4)] assms(5) by simp
  with assms(5) show ?thesis by simp
qed

fun scalar :: "json \<Rightarrow> bool" where
  "scalar (JStr _) = False"
| "scalar (JList _) = False"
| "scalar (JObj _) = False"
| "scalar _ = True"

lemma digit_codes: "is_digit c \<Longrightarrow> 48 \<le> code c \<and> code c \<le> 57"
  by (simp add: is_digit_def)

lemma float_char_plain: "float_char c \<Longrightarrow> \<not> delim c \<and> c \<noteq> quote \<and> c \<noteq> CHR ''['' \<and> c \<noteq> CHR ''{''"
  by (auto simp: float_char_def delim_def quote_def is_digit_def code_def)

lemma int_char_float_char: "int_char c \<Longrightarrow> float_char c"
  by (auto simp: int_char_def float_char_def)

lemma str_of_int_chars: "list_all int_char (str_of_int i)"
  using str_of_nat_digits by (auto simp: str_of_int_def int_char_def list_all_iff)

lemma str_of_int_ne [simp]: "str_of_int i \<noteq> []"
  by (simp add: str_of_int_def)

definition plain_char :: "char \<Rightarrow> bool" where
  "plain_char c \<longleftrightarrow> \<not> delim c \<and> c \<noteq> quote \<and> c \<noteq> CHR ''['' \<and> c \<noteq> CHR ''{''"

lemma plain_keywords:
  "list_all plain_char ''null''" "list_all plain_char ''true''" "list_all plain_char ''false''"
  by (simp_all add: plain_char_def delim_def quote_def)

lemma plain_float: "list_all float_char w \<Longrightarrow> list_all plain_char w"
  by (auto simp: list_all_iff plain_char_def dest: float_char_plain)

lemma scalar_render:
  assumes "scalar a" and "wf_json a"
  shows "render a \<noteq> []" and "list_all plain_char (render a)"
proof -
  show "render a \<noteq> []"
    using assms by (cases a) (auto simp: float_text_def)
  show "list_all plain_char (render a)"
  proof (cases a)
    case (JInt i)
    have "list_all float_char (str_of_int i)"
      using str_of_int_chars [of i] by (auto simp: list_all_iff int_char_float_char)
    then show ?thesis unfolding JInt render.simps by (rule plain_float)
  next
    case (JFloat t)
    then show ?thesis using assms by (auto simp: float_text_def intro: plain_float)
  qed (use assms in \<open>simp_all add: plain_char_def delim_def quote_def\<close>)
qed

lemma keyword_not_int: "str_of_int i \<noteq> ''null''" "str_of_int i \<noteq> ''true''" "str_of_int i \<noteq> ''false''"
  using str_of_int_chars [of i] by (auto simp: int_char_def is_digit_def code_def)

lemma keyword_not_float: "\<not> float_text ''null''" "\<not> float_text ''true''" "\<not> float_text ''false''"
  by (simp_all add: float_text_def float_char_def is_digit_def code_def)

lemma int_not_float: "float_text t \<Longrightarrow> t \<noteq> str_of_int i"
  using str_of_int_chars [of i] by (auto simp: float_text_def)

lemma scalar_inject:
  assumes "scalar a" "scalar b" "wf_json a" "wf_json b" "render a = render b"
  shows "a = b"
  using assms keyword_not_int keyword_not_int [symmetric] keyword_not_float int_not_float
    int_not_float [symmetric]
  by (cases a; cases b) (auto split: if_splits)

text \<open>Items between separators: how a list of items reads back when each item does.\<close>

definition reads_back :: "('a \<Rightarrow> string) \<Rightarrow> ('a \<Rightarrow> bool) \<Rightarrow> 'a \<Rightarrow> bool" where
  "reads_back f ok x \<longleftrightarrow>
     (\<forall>y r s. ok y \<longrightarrow> stops r \<longrightarrow> stops s \<longrightarrow> f x @ r = f y @ s \<longrightarrow> x = y \<and> r = s)"

lemma reads_backD:
  "reads_back f ok x \<Longrightarrow> ok y \<Longrightarrow> stops r \<Longrightarrow> stops s \<Longrightarrow> f x @ r = f y @ s \<Longrightarrow> x = y \<and> r = s"
  unfolding reads_back_def by blast

fun tail_items :: "('a \<Rightarrow> string) \<Rightarrow> 'a list \<Rightarrow> string" where
  "tail_items f [] = []"
| "tail_items f (x # xs) = CHR '','' # f x @ tail_items f xs"

lemma join_tail_items: "join '','' (map f (x # xs)) = f x @ tail_items f xs"
  by (induction xs arbitrary: x) simp_all

lemma stops_tail: "delim cl \<Longrightarrow> stops (tail_items f xs @ cl # r)"
  by (cases xs) (simp_all add: delim_def)

lemma tail_items_inject:
  assumes "list_all (reads_back f ok) xs" "list_all ok ys" "delim cl" "cl \<noteq> CHR '',''"
    and "tail_items f xs @ cl # r = tail_items f ys @ cl # s"
  shows "xs = ys \<and> r = s"
  using assms
proof (induction xs arbitrary: ys)
  case Nil
  then show ?case by (cases ys) auto
next
  case (Cons x xs)
  then show ?case
  proof (cases ys)
    case Nil
    with Cons show ?thesis by auto
  next
    case (Cons y ys')
    with Cons.prems have "f x @ tail_items f xs @ cl # r = f y @ tail_items f ys' @ cl # s"
      and "reads_back f ok x" and "ok y" by auto
    then have "x = y \<and> tail_items f xs @ cl # r = tail_items f ys' @ cl # s"
      by (intro reads_backD [of f ok]) (simp_all add: stops_tail \<open>delim cl\<close>)
    then show ?thesis using Cons.IH [of ys'] Cons.prems Cons by auto
  qed
qed

lemma items_inject:
  assumes "list_all (reads_back f ok) xs" "list_all ok ys" "delim cl" "cl \<noteq> CHR '',''"
    and ne: "\<And>x. x \<in> set xs \<union> set ys \<Longrightarrow> f x \<noteq> [] \<and> hd (f x) \<noteq> cl"
    and eq: "join '','' (map f xs) @ cl # r = join '','' (map f ys) @ cl # s"
  shows "xs = ys \<and> r = s"
proof (cases xs)
  case Nil
  then show ?thesis
  proof (cases ys)
    case (Cons y ys')
    with eq Nil have "cl # r = f y @ tail_items f ys' @ cl # s"
      using join_tail_items [of f y ys'] by simp
    moreover have "f y \<noteq> [] \<and> hd (f y) \<noteq> cl" using ne Cons by simp
    ultimately show ?thesis by (cases "f y") auto
  qed (use eq in simp)
next
  case (Cons x xs')
  note xs = Cons
  show ?thesis
  proof (cases ys)
    case Nil
    with eq xs have "cl # s = f x @ tail_items f xs' @ cl # r"
      using join_tail_items [of f x xs'] by simp
    moreover have "f x \<noteq> [] \<and> hd (f x) \<noteq> cl" using ne xs by simp
    ultimately show ?thesis by (cases "f x") auto
  next
    case (Cons y ys')
    with eq xs have "f x @ tail_items f xs' @ cl # r = f y @ tail_items f ys' @ cl # s"
      using join_tail_items [of f x xs'] join_tail_items [of f y ys'] by simp
    then have "x = y \<and> tail_items f xs' @ cl # r = tail_items f ys' @ cl # s"
      by (intro reads_backD [of f ok]) (use assms(1,2) xs Cons in \<open>simp_all add: stops_tail assms(3)\<close>)
    then show ?thesis using tail_items_inject [of f ok xs' ys' cl r s] assms(1-4) xs Cons by auto
  qed
qed

text \<open>The first character of a rendered value.\<close>

lemma render_ne: "wf_json a \<Longrightarrow> render a \<noteq> []"
  by (cases "scalar a"; cases a) (auto dest: scalar_render simp: render_str_def float_text_def)

lemma scalar_hd:
  assumes "scalar a" "wf_json a"
  shows "plain_char (hd (render a))"
  using scalar_render [OF assms] by (cases "render a") simp_all

lemma compound_hd:
  "hd (render (JStr t)) = quote" "hd (render (JList xs)) = CHR ''[''"
  "hd (render (JObj kvs)) = CHR ''{''"
  by (simp_all add: render_str_def)

lemma render_hd_not_closing:
  assumes "wf_json a"
  shows "hd (render a) \<noteq> CHR '']''"
proof (cases "scalar a")
  case True
  then show ?thesis using scalar_hd [OF True assms] by (auto simp: plain_char_def delim_def)
next
  case False
  then show ?thesis by (cases a) (simp_all add: render_str_def quote_def)
qed

lemma scalar_compound:
  assumes "scalar a" "\<not> scalar b" "wf_json a"
  shows "render a @ r \<noteq> render b @ s"
proof
  assume "render a @ r = render b @ s"
  moreover have "render a \<noteq> []" using assms by (simp add: scalar_render)
  moreover have "render b \<noteq> []" using assms(2) by (cases b) (simp_all add: render_str_def)
  ultimately have "hd (render a) = hd (render b)" by (metis hd_append)
  with scalar_hd [OF assms(1,3)] assms(2) show False
    by (cases b) (simp_all add: compound_hd plain_char_def del: render.simps)
qed

lemma scalar_reads_back:
  assumes "scalar a" "wf_json a"
  shows "reads_back render wf_json a"
  unfolding reads_back_def
proof (intro allI impI)
  fix b r s
  assume b: "wf_json b" and st: "stops r" "stops s" and eq: "render a @ r = render b @ s"
  have sb: "scalar b" using scalar_compound [OF assms(1) _ assms(2)] eq by blast
  have nd: "list_all plain_char w \<Longrightarrow> list_all (\<lambda>c. \<not> delim c) w" for w
    by (auto simp: list_all_iff plain_char_def)
  have "render a = render b \<and> r = s"
    by (rule token_inject [OF _ _ st eq]) (rule nd, rule scalar_render, use assms b sb in simp_all)+
  then show "a = b \<and> r = s" using scalar_inject [OF assms(1) sb assms(2) b] by simp
qed

definition render_kv :: "string \<times> json \<Rightarrow> string" where
  "render_kv kv = render_str (fst kv) @ '':'' @ render (snd kv)"

lemma render_JObj: "render (JObj kvs) = CHR ''{'' # join '','' (map render_kv kvs) @ [CHR ''}'']"
  by (simp add: render_kv_def [abs_def])

lemma render_kv_reads_back:
  assumes "reads_back render wf_json (snd kv)"
  shows "reads_back render_kv (\<lambda>kv. wf_json (snd kv)) kv"
  unfolding reads_back_def
proof (intro allI impI)
  fix kv' r s
  assume ok: "wf_json (snd kv')" and st: "stops r" "stops s"
    and eq: "render_kv kv @ r = render_kv kv' @ s"
  from eq have "render_str (fst kv) @ '':'' @ render (snd kv) @ r
      = render_str (fst kv') @ '':'' @ render (snd kv') @ s"
    by (simp add: render_kv_def)
  from render_str_inject [OF this]
  have "fst kv = fst kv'" "render (snd kv) @ r = render (snd kv') @ s" by simp_all
  with reads_backD [OF assms ok st] show "kv = kv' \<and> r = s" by (simp add: prod_eq_iff)
qed

theorem render_reads_back: "wf_json a \<Longrightarrow> reads_back render wf_json a"
proof (induction a)
  case (JStr t)
  show ?case
    unfolding reads_back_def
  proof (intro allI impI)
    fix b r s
    assume b: "wf_json b" and eq: "render (JStr t) @ r = render b @ s"
    then obtain t' where t': "b = JStr t'"
      using scalar_compound [of b "JStr t" s r]
      by (cases b) (auto simp: render_str_def quote_def)
    with eq show "JStr t = b \<and> r = s"
      using render_str_inject [of t r t' s] by simp
  qed
next
  case (JList xs)
  have xs: "list_all (reads_back render wf_json) xs"
    using JList by (auto simp: list_all_iff)
  show ?case
    unfolding reads_back_def
  proof (intro allI impI)
    fix b r s
    assume b: "wf_json b" and eq: "render (JList xs) @ r = render b @ s"
    then obtain ys where ys: "b = JList ys"
      using scalar_compound [of b "JList xs" s r]
      by (cases b) (auto simp: render_str_def quote_def)
    with eq have eq': "join '','' (map render xs) @ CHR '']'' # r = join '','' (map render ys) @ CHR '']'' # s"
      by simp
    have "xs = ys \<and> r = s"
      by (rule items_inject [OF xs _ _ _ _ eq'])
        (use b ys JList.prems in \<open>auto simp: delim_def list_all_iff render_ne dest: render_hd_not_closing\<close>)
    then show "JList xs = b \<and> r = s" using ys by simp
  qed
next
  case (JObj kvs)
  have kvs: "list_all (reads_back render_kv (\<lambda>kv. wf_json (snd kv))) kvs"
    unfolding list_all_iff
  proof
    fix kv assume "kv \<in> set kvs"
    with JObj show "reads_back render_kv (\<lambda>kv. wf_json (snd kv)) kv"
      by (intro render_kv_reads_back) (cases kv, auto simp: list_all_iff)
  qed
  show ?case
    unfolding reads_back_def
  proof (intro allI impI)
    fix b r s
    assume b: "wf_json b" and eq: "render (JObj kvs) @ r = render b @ s"
    then obtain kvs' where kvs': "b = JObj kvs'"
      using scalar_compound [of b "JObj kvs" s r]
      by (cases b) (auto simp: render_str_def quote_def)
    with eq have eq': "join '','' (map render_kv kvs) @ CHR ''}'' # r
        = join '','' (map render_kv kvs') @ CHR ''}'' # s"
      by (simp add: render_JObj del: render.simps)
    have "kvs = kvs' \<and> r = s"
      by (rule items_inject [OF kvs _ _ _ _ eq'])
        (use b kvs' in \<open>auto simp: delim_def list_all_iff render_kv_def render_str_def quote_def\<close>)
    then show "JObj kvs = b \<and> r = s" using kvs' by simp
  qed
qed (simp_all add: scalar_reads_back)

lemma render_inject: "wf_json a \<Longrightarrow> wf_json b \<Longrightarrow> render a = render b \<Longrightarrow> a = b"
  using reads_backD [OF render_reads_back [of a], of b "[]" "[]"] by simp

lemma wf_canon [simp]: "wf_json (canon a) = wf_json a"
  by (induction a rule: canon.induct) (auto simp: list_all_iff)

lemma dumps_inject: "wf_json a \<Longrightarrow> wf_json b \<Longrightarrow> dumps a = dumps b \<longleftrightarrow> canon a = canon b"
  unfolding dumps_def by (metis render_inject wf_canon)

section \<open>Reading fields of a bound object\<close>

lemma map_of_sort_key:
  assumes "distinct (map fst kvs)"
  shows "map_of (sort_key fst kvs) = map_of kvs"
proof (rule map_of_inject_set [THEN iffD2])
  have "mset (map fst (sort_key fst kvs)) = mset (map fst kvs)"
    by (simp only: mset_map mset_sort)
  with assms show "distinct (map fst (sort_key fst kvs))"
    by (metis mset_eq_imp_distinct_iff)
qed (use assms in simp_all)

text \<open>Two objects with one canonical form agree, canonically, on every field.\<close>

lemma canon_JObj_field:
  assumes "canon (JObj kvs) = canon (JObj kvs')"
    and "distinct (map fst kvs)" "distinct (map fst kvs')"
  shows "map_option canon (map_of kvs k) = map_option canon (map_of kvs' k)"
proof -
  let ?c = "\<lambda>kvs. map (\<lambda>kv. (fst kv, canon (snd kv))) kvs"
  have "map_of (?c xs) k = map_option canon (map_of xs k)" for xs :: "(string \<times> json) list"
    by (induction xs) auto
  moreover have "map_of (?c kvs) = map_of (?c kvs')"
    using assms map_of_sort_key [of "?c kvs"] map_of_sort_key [of "?c kvs'"] by (simp add: o_def)
  ultimately show ?thesis by metis
qed

lemma canon_comp_JStr [simp]: "canon \<circ> JStr = JStr"
  by (simp add: fun_eq_iff)

lemma map_JStr_inject [simp]: "map JStr xs = map JStr ys \<longleftrightarrow> xs = ys"
  by (metis inj_map_eq_map inj_on_def json.inject(4))

end
