(* ===== verification/Domain.thy ===== *)
theory Domain
  imports Complex_Main Json
begin

text \<open>
  The domain contracts of \<open>src/app/domain\<close> the components below exchange: enumerations, the
  frozen pydantic models as records, the constraints their fields carry and the exceptions.

  A model is built only through its validator: \<open>*_valid\<close> is the conjunction of the field
  constraints and of the \<open>model_validator\<close>s, and a constructor call that violates it raises
  pydantic's \<open>ValidationError\<close> (\<open>validated\<close> below). Human-readable messages and the \<open>details\<close> of
  exceptions are not kept; the reason code, the error code and the HTTP status are. A \<open>datetime\<close>
  is an integer (an instant), a finite \<open>float\<close> the rational it denotes.
\<close>

section \<open>Field constraints (domain/common.py)\<close>

type_synonym datetime = int

definition non_empty :: "string \<Rightarrow> bool" where
  "non_empty s \<longleftrightarrow> s \<noteq> []"

definition score_ok :: "rat \<Rightarrow> bool" where
  "score_ok x \<longleftrightarrow> 0 \<le> x \<and> x \<le> 1"

definition hex_char :: "char \<Rightarrow> bool" where
  "hex_char c \<longleftrightarrow> is_digit c \<or> (97 \<le> code c \<and> code c \<le> 102)"

definition sha256_digest :: "string \<Rightarrow> bool" where
  "sha256_digest s \<longleftrightarrow> starts_with ''sha256:'' s \<and> length s = 71 \<and> list_all hex_char (drop 7 s)"

text \<open>The white space of the regular expression class: Unicode \<open>White_Space\<close> below code point 256.\<close>

definition re_space :: "char \<Rightarrow> bool" where
  "re_space c \<longleftrightarrow> (9 \<le> code c \<and> code c \<le> 13) \<or> code c \<in> {32, 133, 160}"

definition s3_uri :: "string \<Rightarrow> bool" where
  "s3_uri s \<longleftrightarrow> starts_with ''s3://'' s \<and> 5 < length s \<and> list_all (\<lambda>c. \<not> re_space c) (drop 5 s)"

lemma hex_char_Char [simp, code]:
  "hex_char (Char b0 b1 b2 b3 b4 b5 b6 b7) \<longleftrightarrow>
     (\<not> b7 \<and> \<not> b6 \<and> b5 \<and> b4 \<and> \<not> (b3 \<and> (b2 \<or> b1)))
     \<or> (\<not> b7 \<and> b6 \<and> b5 \<and> \<not> b4 \<and> \<not> b3 \<and> (b0 \<or> b1 \<or> b2) \<and> \<not> (b0 \<and> b1 \<and> b2))"
  unfolding hex_char_def is_digit_Char code_Char by (cases b0; cases b1; cases b2; cases b3; cases b4; cases b5; cases b6; cases b7; simp)

lemma re_space_Char [simp, code]:
  "re_space (Char b0 b1 b2 b3 b4 b5 b6 b7) \<longleftrightarrow>
     (\<not> b7 \<and> \<not> b6 \<and> \<not> b5 \<and> \<not> b4 \<and> b3 \<and> (b0 \<or> b1 \<or> b2) \<and> \<not> (b2 \<and> b1))
     \<or> (\<not> b6 \<and> b5 \<and> \<not> b4 \<and> \<not> b3 \<and> \<not> b2 \<and> \<not> b1 \<and> \<not> b0)
     \<or> (b7 \<and> \<not> b6 \<and> \<not> b5 \<and> \<not> b4 \<and> \<not> b3 \<and> b2 \<and> \<not> b1 \<and> b0)"
  unfolding re_space_def code_Char by (cases b0; cases b1; cases b2; cases b3; cases b4; cases b5; cases b6; cases b7; simp)

section \<open>Errors (domain/errors.py)\<close>

datatype error_code =
    INVALID_JOB_PAYLOAD | UNSUPPORTED_MODALITY | ARTIFACT_NOT_FOUND | ARTIFACT_OUT_OF_SCOPE
  | INVALID_ARCHIVE_STRUCTURE | ARCHIVE_SAFETY_VIOLATION | POLICY_BLOCKED | PII_RESTRICTED
  | LEAKAGE_DETECTED | CONTRACT_VALIDATION_FAILED | PREDICTION_VALIDATION_FAILED
  | PLUGIN_NOT_ENABLED | PLUGIN_CONTRACT_FAILED | PLUGIN_EXECUTION_FAILED | DAGSTER_RUN_FAILED
  | ACTION_PLAN_REQUIRES_APPROVAL | ACTION_PLAN_SIGNATURE_INVALID
  | ACTION_PLAN_PRECONDITION_FAILED | VALIDATION_GATE_FAILED | MODEL_IMPACT_NOT_ELIGIBLE
  | EXPORT_BLOCKED | TENANT_SCOPE_VIOLATION | EXTERNAL_API_BLOCKED | RESOURCE_LIMIT_EXCEEDED

text \<open>
  Exceptions: \<open>PydanticError\<close> is a rejected model construction, \<open>Raised\<close> a typed service error
  (class name, reason code, error code, HTTP status), \<open>Refused\<close> a typed error that carries a
  reason code only, \<open>Other\<close> an exception of the language or its library, by class name.
\<close>

datatype exn =
    PydanticError
  | Raised string string error_code int
  | Refused string string
  | Other string

definition validated :: "('a \<Rightarrow> bool) \<Rightarrow> 'a \<Rightarrow> exn + 'a" where
  "validated ok x = bindR (requireR (ok x) PydanticError) (\<lambda>_. Inr x)"

lemma validated_Inr_iff [result_simps]: "validated ok x = Inr y \<longleftrightarrow> ok x \<and> y = x"
  by (auto simp: validated_def result_simps)

lemma validated_Inl_iff [result_simps]: "validated ok x = Inl e \<longleftrightarrow> \<not> ok x \<and> e = PydanticError"
  by (auto simp: validated_def result_simps)

lemma validated_ok [simp]: "ok x \<Longrightarrow> validated ok x = Inr x"
  by (simp add: validated_def)

section \<open>Runs and artifacts (domain/compute.py, domain/artifact.py)\<close>

datatype workflow_type = ANALYZE_ONLY | PREVIEW_ACTION_PLAN | APPLY_SELECTED_ACTIONS | EXPORT

fun workflow_value :: "workflow_type \<Rightarrow> string" where
  "workflow_value ANALYZE_ONLY = ''ANALYZE_ONLY''"
| "workflow_value PREVIEW_ACTION_PLAN = ''PREVIEW_ACTION_PLAN''"
| "workflow_value APPLY_SELECTED_ACTIONS = ''APPLY_SELECTED_ACTIONS''"
| "workflow_value EXPORT = ''EXPORT''"

record artifact_lineage =
  al_parent_version_id :: string
  al_job_id :: string
  al_config_hash :: string
  al_created_at :: datetime

record artifact_ref =
  ar_artifact_id :: string
  ar_kind :: string
  ar_uri :: string
  ar_hash :: string
  ar_media_type :: string
  ar_size_bytes :: int
  ar_schema_version :: string
  ar_lineage :: artifact_lineage

definition artifact_lineage_valid :: "artifact_lineage \<Rightarrow> bool" where
  "artifact_lineage_valid l \<longleftrightarrow>
     non_empty (al_parent_version_id l) \<and> non_empty (al_job_id l) \<and> sha256_digest (al_config_hash l)"

definition artifact_ref_valid :: "artifact_ref \<Rightarrow> bool" where
  "artifact_ref_valid a \<longleftrightarrow>
     non_empty (ar_artifact_id a) \<and> non_empty (ar_kind a) \<and> s3_uri (ar_uri a)
     \<and> sha256_digest (ar_hash a) \<and> non_empty (ar_media_type a) \<and> 0 \<le> ar_size_bytes a
     \<and> non_empty (ar_schema_version a) \<and> artifact_lineage_valid (ar_lineage a)"

section \<open>Method recommendations (domain/decision.py)\<close>

datatype decision_action =
    KEEP | REMOVE_DUPLICATE | SEND_TO_LABEL_REVIEW | SEND_TO_PRIVACY_REVIEW
  | IMPUTE_MISSING_VALUES | AUGMENT_RARE_CLASS | GENERATE_SYNTHETIC_CANDIDATE
  | BLOCK_EXPORT | EXPORT_READY

fun action_value :: "decision_action \<Rightarrow> string" where
  "action_value KEEP = ''KEEP''"
| "action_value REMOVE_DUPLICATE = ''REMOVE_DUPLICATE''"
| "action_value SEND_TO_LABEL_REVIEW = ''SEND_TO_LABEL_REVIEW''"
| "action_value SEND_TO_PRIVACY_REVIEW = ''SEND_TO_PRIVACY_REVIEW''"
| "action_value IMPUTE_MISSING_VALUES = ''IMPUTE_MISSING_VALUES''"
| "action_value AUGMENT_RARE_CLASS = ''AUGMENT_RARE_CLASS''"
| "action_value GENERATE_SYNTHETIC_CANDIDATE = ''GENERATE_SYNTHETIC_CANDIDATE''"
| "action_value BLOCK_EXPORT = ''BLOCK_EXPORT''"
| "action_value EXPORT_READY = ''EXPORT_READY''"

datatype method_candidate_status =
    MCS_RECOMMENDED | MCS_AVAILABLE | MCS_DISABLED_BY_POLICY | MCS_DISABLED_BY_READINESS | MCS_BLOCKED

datatype policy_status = PS_ENABLED | PS_DISABLED_BY_POLICY | PS_DISABLED_BY_READINESS | PS_BLOCKED

record recommended_method =
  rm_method_id :: string
  rm_plugin_id :: string
  rm_readiness_level :: int
  rm_requires_approval :: bool
  rm_reason_codes :: "string list"

record method_score =
  ms_value :: rat
  ms_policy_version :: string
  ms_formula :: string
  ms_notation_formula :: string
  ms_formula_weights :: "(string, rat) dict"
  ms_components :: "(string, rat) dict"
  ms_weighted_components :: "(string, rat) dict"
  ms_policy_component_weights :: "(string, rat) dict"
  ms_reason_codes :: "string list"

record method_candidate =
  mc_method_id :: string
  mc_status :: method_candidate_status
  mc_quality_score :: "rat option"
  mc_risk_score :: "rat option"
  mc_method_score :: method_score
  mc_policy_status :: policy_status
  mc_reason :: "string option"

record blocked_method =
  bm_method_id :: string
  bm_reason_code :: string
  bm_reason :: string

record method_recommendation =
  mr_recommendation_id :: string
  mr_issue_id :: string
  mr_action_type :: string
  mr_policy_version :: string
  mr_target :: "(string, json) dict"
  mr_recommended_method :: recommended_method
  mr_candidate_methods :: "method_candidate list"
  mr_blocked_methods :: "blocked_method list"
  mr_expected_outputs :: "string list"
  mr_model_impact_required :: bool

definition recommended_method_valid :: "recommended_method \<Rightarrow> bool" where
  "recommended_method_valid m \<longleftrightarrow>
     non_empty (rm_method_id m) \<and> non_empty (rm_plugin_id m) \<and> 0 \<le> rm_readiness_level m
     \<and> list_all non_empty (rm_reason_codes m)"

definition blocked_method_valid :: "blocked_method \<Rightarrow> bool" where
  "blocked_method_valid b \<longleftrightarrow>
     non_empty (bm_method_id b) \<and> non_empty (bm_reason_code b) \<and> non_empty (bm_reason b)"

definition method_score_valid :: "method_score \<Rightarrow> bool" where
  "method_score_valid s \<longleftrightarrow>
     score_ok (ms_value s) \<and> non_empty (ms_policy_version s) \<and> non_empty (ms_formula s)
     \<and> non_empty (ms_notation_formula s)
     \<and> list_all non_empty (dict_keys (ms_formula_weights s))
     \<and> list_all (\<lambda>kv. non_empty (fst kv) \<and> score_ok (snd kv)) (ms_components s)
     \<and> list_all non_empty (dict_keys (ms_weighted_components s))
     \<and> list_all non_empty (dict_keys (ms_policy_component_weights s))
     \<and> list_all non_empty (ms_reason_codes s)"

definition method_candidate_valid :: "method_candidate \<Rightarrow> bool" where
  "method_candidate_valid c \<longleftrightarrow>
     non_empty (mc_method_id c)
     \<and> (case mc_quality_score c of None \<Rightarrow> True | Some x \<Rightarrow> score_ok x)
     \<and> (case mc_risk_score c of None \<Rightarrow> True | Some x \<Rightarrow> score_ok x)
     \<and> method_score_valid (mc_method_score c)"

definition candidates_by_id :: "method_candidate list \<Rightarrow> (string, method_candidate) dict" where
  "candidates_by_id cs = dict_of (map (\<lambda>c. (mc_method_id c, c)) cs)"

text \<open>\<open>validate_recommended_method_is_candidate\<close>: the last candidate with the id counts.\<close>

definition recommended_is_candidate :: "method_recommendation \<Rightarrow> bool" where
  "recommended_is_candidate r \<longleftrightarrow>
     (case dict_get (candidates_by_id (mr_candidate_methods r)) (rm_method_id (mr_recommended_method r)) of
        None \<Rightarrow> False
      | Some c \<Rightarrow> mc_status c = MCS_RECOMMENDED)
     \<and> rm_method_id (mr_recommended_method r) \<notin> bm_method_id ` set (mr_blocked_methods r)"

definition method_recommendation_valid :: "method_recommendation \<Rightarrow> bool" where
  "method_recommendation_valid r \<longleftrightarrow>
     non_empty (mr_recommendation_id r) \<and> non_empty (mr_issue_id r) \<and> non_empty (mr_action_type r)
     \<and> non_empty (mr_policy_version r)
     \<and> recommended_method_valid (mr_recommended_method r)
     \<and> list_all method_candidate_valid (mr_candidate_methods r)
     \<and> list_all blocked_method_valid (mr_blocked_methods r)
     \<and> list_all non_empty (mr_expected_outputs r)
     \<and> recommended_is_candidate r"

section \<open>Action plans (domain/decision.py)\<close>

record retry_policy =
  rp_max_attempts :: int
  rp_retryable_errors :: "string list"

record action_plan_step =
  ps_step_id :: string
  ps_type :: string
  ps_depends_on :: "string list"
  ps_idempotency_key :: string
  ps_method_id :: string
  ps_plugin_id :: string
  ps_plugin_version :: string
  ps_config_hash :: string
  ps_policy_version :: string
  ps_validation_gates :: "string list"
  ps_preconditions :: "string list"
  ps_input_artifacts :: "string list"
  ps_output_artifact_kind :: string
  ps_config :: "(string, json) dict"
  ps_random_seed :: "int option"
  ps_retry_policy :: retry_policy
  ps_on_failure :: string
  ps_promotion_scope :: string

record action_plan =
  ap_action_plan_id :: string
  ap_plan_schema_version :: string
  ap_source_dataset_version_id :: string
  ap_target_version_name :: string
  ap_created_from_decision_report :: string
  ap_selected_decision_ids :: "string list"
  ap_created_by_user_id :: string
  ap_policy_version :: string
  ap_requires_approval :: bool
  ap_approval_request_id :: "string option"
  ap_execution_mode :: workflow_type
  ap_steps :: "action_plan_step list"
  ap_validation_gates :: "string list"
  ap_expected_outputs :: "string list"
  ap_created_at :: datetime

definition retry_policy_valid :: "retry_policy \<Rightarrow> bool" where
  "retry_policy_valid p \<longleftrightarrow> 1 \<le> rp_max_attempts p \<and> list_all non_empty (rp_retryable_errors p)"

definition action_plan_step_valid :: "action_plan_step \<Rightarrow> bool" where
  "action_plan_step_valid s \<longleftrightarrow>
     non_empty (ps_step_id s) \<and> non_empty (ps_type s) \<and> list_all non_empty (ps_depends_on s)
     \<and> sha256_digest (ps_idempotency_key s) \<and> non_empty (ps_method_id s)
     \<and> non_empty (ps_plugin_id s) \<and> non_empty (ps_plugin_version s)
     \<and> sha256_digest (ps_config_hash s) \<and> non_empty (ps_policy_version s)
     \<and> list_all non_empty (ps_validation_gates s) \<and> list_all non_empty (ps_preconditions s)
     \<and> list_all s3_uri (ps_input_artifacts s) \<and> non_empty (ps_output_artifact_kind s)
     \<and> retry_policy_valid (ps_retry_policy s) \<and> non_empty (ps_on_failure s)
     \<and> non_empty (ps_promotion_scope s)"

text \<open>\<open>validate_step_dependencies\<close>.\<close>

definition step_dependencies_ok :: "action_plan_step list \<Rightarrow> bool" where
  "step_dependencies_ok ss \<longleftrightarrow>
     card (set (map ps_step_id ss)) = length ss
     \<and> filter (\<lambda>d. d \<notin> set (map ps_step_id ss)) (concat (map ps_depends_on ss)) = []"

definition action_plan_valid :: "action_plan \<Rightarrow> bool" where
  "action_plan_valid p \<longleftrightarrow>
     non_empty (ap_action_plan_id p) \<and> non_empty (ap_plan_schema_version p)
     \<and> non_empty (ap_source_dataset_version_id p) \<and> non_empty (ap_target_version_name p)
     \<and> non_empty (ap_created_from_decision_report p)
     \<and> list_all non_empty (ap_selected_decision_ids p) \<and> non_empty (ap_created_by_user_id p)
     \<and> non_empty (ap_policy_version p) \<and> list_all action_plan_step_valid (ap_steps p)
     \<and> list_all non_empty (ap_validation_gates p) \<and> list_all non_empty (ap_expected_outputs p)
     \<and> step_dependencies_ok (ap_steps p)"

lemma card_set_eq_length_iff: "card (set xs) = length xs \<longleftrightarrow> distinct xs"
  by (metis card_distinct distinct_card)

lemma step_dependencies_ok_iff:
  "step_dependencies_ok ss \<longleftrightarrow> distinct (map ps_step_id ss)
     \<and> (\<forall>s \<in> set ss. set (ps_depends_on s) \<subseteq> set (map ps_step_id ss))"
proof -
  have "card (set (map ps_step_id ss)) = length ss \<longleftrightarrow> distinct (map ps_step_id ss)"
    by (metis card_set_eq_length_iff length_map)
  then show ?thesis
    unfolding step_dependencies_ok_def filter_empty_conv by (simp only:) auto
qed

section \<open>Digests\<close>

text \<open>
  \<open>sha\<close> stands for \<open>hashlib.sha256(text.encode()).hexdigest()\<close>; all the code relies on, apart
  from collision resistance, is the form of the digest.
\<close>

definition hex64 :: "(string \<Rightarrow> string) \<Rightarrow> bool" where
  "hex64 sha \<longleftrightarrow> (\<forall>x. length (sha x) = 64 \<and> list_all hex_char (sha x))"

definition sha256_of :: "(string \<Rightarrow> string) \<Rightarrow> string \<Rightarrow> string" where
  "sha256_of sha text = ''sha256:'' @ sha text"

definition stable_hash :: "(string \<Rightarrow> string) \<Rightarrow> json \<Rightarrow> string" where
  "stable_hash sha payload = sha256_of sha (dumps payload)"

definition stable_id :: "(string \<Rightarrow> string) \<Rightarrow> string \<Rightarrow> json \<Rightarrow> string" where
  "stable_id sha tag payload =
     tag @ ''_'' @ take 16 (removeprefix ''sha256:'' (stable_hash sha payload))"

lemma sha256_digest_of [simp]: "hex64 sha \<Longrightarrow> sha256_digest (sha256_of sha x)"
  by (simp add: sha256_digest_def hex64_def sha256_of_def starts_with_def)

lemma sha256_digest_stable_hash [simp]: "hex64 sha \<Longrightarrow> sha256_digest (stable_hash sha j)"
  by (simp add: stable_hash_def)

text \<open>Two different texts, given explicitly, with one digest.\<close>

definition collide :: "(string \<Rightarrow> string) \<Rightarrow> string \<Rightarrow> string \<Rightarrow> bool" where
  "collide sha x y \<longleftrightarrow> x \<noteq> y \<and> sha x = sha y"

lemma stable_hash_binds:
  assumes "stable_hash sha a = stable_hash sha b" and "wf_json a" "wf_json b"
  shows "canon a = canon b \<or> collide sha (dumps a) (dumps b)"
  using assms dumps_inject [of a b] by (auto simp: stable_hash_def sha256_of_def collide_def)

text \<open>The text of an object with a string cell for each of the columns determines the cells.\<close>

lemma dumps_cells_iff:
  "dumps (JObj (dict_of (map (\<lambda>c. (c, JStr (f c))) cs))) = dumps (JObj (dict_of (map (\<lambda>c. (c, JStr (g c))) cs)))
   \<longleftrightarrow> list_all (\<lambda>c. f c = g c) cs"
proof -
  let ?d = "\<lambda>f :: string \<Rightarrow> string. dict_of (map (\<lambda>c. (c, JStr (f c))) cs)"
  have d: "distinct (map fst (?d f))" for f using distinct_dict_of by (simp add: dict_keys_def)
  have field: "map_of (?d f) c = (if c \<in> set cs then Some (JStr (f c)) else None)" for f c
  proof -
    have "dict_get (?d f) c = (if c \<in> set (rev cs) then Some (JStr (f c)) else None)"
      by (simp only: dict_get_dict_of rev_map dict_get_table)
    then show ?thesis by (simp add: dict_get_def)
  qed
  have wf: "list_all (\<lambda>kv. wf_json (snd kv)) (?d f)" for f
    unfolding list_all_iff
  proof
    fix kv assume "kv \<in> set (?d f)"
    then have "map_of (?d f) (fst kv) = Some (snd kv)" using d by simp
    then have "snd kv = JStr (f (fst kv))" by (simp add: field split: if_splits)
    then show "wf_json (snd kv)" by simp
  qed
  have "list_all (\<lambda>c. f c = g c) cs" if "canon (JObj (?d f)) = canon (JObj (?d g))"
    unfolding list_all_iff
  proof
    fix c assume "c \<in> set cs"
    then show "f c = g c" using canon_JObj_field [OF that d d, of c] by (simp add: field)
  qed
  moreover have "?d f = ?d g" if "list_all (\<lambda>c. f c = g c) cs"
  proof -
    have "map (\<lambda>c. (c, JStr (f c))) cs = map (\<lambda>c. (c, JStr (g c))) cs" using that by (simp add: list_all_iff)
    then show ?thesis by (simp only:)
  qed
  moreover have "dumps (JObj (?d f)) = dumps (JObj (?d g)) \<longleftrightarrow> canon (JObj (?d f)) = canon (JObj (?d g))"
    using wf by (intro dumps_inject) simp_all
  ultimately show ?thesis by auto
qed

text \<open>A digest of the right form, for witnesses.\<close>

definition toy_sha :: "string \<Rightarrow> string" where
  "toy_sha x = replicate 64 (CHR ''0'')"

lemma hex64_toy_sha [simp]: "hex64 toy_sha"
  by (simp add: hex64_def toy_sha_def hex_char_def is_digit_def code_def list_all_iff)

end
