(* ===== verification/RunCancellation.thy ===== *)
theory RunCancellation
  imports Domain
begin

text \<open>
  \<open>src/app/orchestration/cancellation.py\<close>: failure taxonomy and retry envelope, the cooperative
  cancellation token and the in-process registry of tokens.

  Tokens are mutable objects shared between the registry and the launchers that registered them,
  so the state holds a heap of tokens (an address is an index) and the registry maps a job id to
  an address. \<open>CancellationRegistry.cancel\<close> finds the token under the registry lock and triggers
  it after releasing the lock: the step relation \<open>reg_step\<close> interleaves those two atomic parts
  with the other operations. The lemmas give the invariant of every reachable state, that a
  triggered token stays triggered, that a cancel that reports success is seen by the launcher of
  that job whatever the interleaving, and that it touches no other job's token.
\<close>

section \<open>Failure reasons and retry\<close>

datatype run_failure_reason =
    TRANSIENT_STORAGE_ERROR | DAGSTER_WORKER_RESTART | PLATFORM_CALLBACK_TIMEOUT
  | EXTERNAL_AI_TIMEOUT | INVALID_INPUT | RF_CONTRACT_VALIDATION_FAILED
  | POLICY_GATE_BLOCKED | APPROVAL_HASH_MISMATCH | INTERNAL_ERROR

fun reason_value :: "run_failure_reason \<Rightarrow> string" where
  "reason_value TRANSIENT_STORAGE_ERROR = ''TRANSIENT_STORAGE_ERROR''"
| "reason_value DAGSTER_WORKER_RESTART = ''DAGSTER_WORKER_RESTART''"
| "reason_value PLATFORM_CALLBACK_TIMEOUT = ''PLATFORM_CALLBACK_TIMEOUT''"
| "reason_value EXTERNAL_AI_TIMEOUT = ''EXTERNAL_AI_TIMEOUT''"
| "reason_value INVALID_INPUT = ''INVALID_INPUT''"
| "reason_value RF_CONTRACT_VALIDATION_FAILED = ''CONTRACT_VALIDATION_FAILED''"
| "reason_value POLICY_GATE_BLOCKED = ''POLICY_GATE_BLOCKED''"
| "reason_value APPROVAL_HASH_MISMATCH = ''APPROVAL_HASH_MISMATCH''"
| "reason_value INTERNAL_ERROR = ''INTERNAL_ERROR''"

lemma reason_value_inject [simp]: "reason_value a = reason_value b \<longleftrightarrow> a = b"
  by (cases a; cases b) simp_all

text \<open>The canonical order of the reasons is the order of their values.\<close>

instantiation run_failure_reason :: linorder
begin

definition less_eq_run_failure_reason :: "run_failure_reason \<Rightarrow> run_failure_reason \<Rightarrow> bool" where
  "a \<le> b \<longleftrightarrow> reason_value a \<le> reason_value b"

definition less_run_failure_reason :: "run_failure_reason \<Rightarrow> run_failure_reason \<Rightarrow> bool" where
  "a < b \<longleftrightarrow> reason_value a < reason_value b"

instance
  by intro_classes
    (auto simp: less_eq_run_failure_reason_def less_run_failure_reason_def intro: le_neq_trans)

end

definition RECOVERABLE_REASONS :: "run_failure_reason list" where
  "RECOVERABLE_REASONS =
     [TRANSIENT_STORAGE_ERROR, DAGSTER_WORKER_RESTART, PLATFORM_CALLBACK_TIMEOUT, EXTERNAL_AI_TIMEOUT]"

definition is_recoverable :: "run_failure_reason \<Rightarrow> bool" where
  "is_recoverable r \<longleftrightarrow> r \<in> set RECOVERABLE_REASONS"

lemma is_recoverable_simps [simp]:
  "is_recoverable TRANSIENT_STORAGE_ERROR" "is_recoverable DAGSTER_WORKER_RESTART"
  "is_recoverable PLATFORM_CALLBACK_TIMEOUT" "is_recoverable EXTERNAL_AI_TIMEOUT"
  "\<not> is_recoverable INVALID_INPUT" "\<not> is_recoverable RF_CONTRACT_VALIDATION_FAILED"
  "\<not> is_recoverable POLICY_GATE_BLOCKED" "\<not> is_recoverable APPROVAL_HASH_MISMATCH"
  "\<not> is_recoverable INTERNAL_ERROR"
  by (simp_all add: is_recoverable_def RECOVERABLE_REASONS_def)

definition recoverable_reasons :: "run_failure_reason list" where
  "recoverable_reasons = sort RECOVERABLE_REASONS"

record retry_metadata =
  rt_attempt_number :: int
  rt_max_attempts :: int
  rt_recoverable :: bool
  rt_failure_reason :: "run_failure_reason option"
  rt_last_error_message :: "string option"
  rt_cancellation_reason_code :: "string option"

definition retry_metadata_valid :: "retry_metadata \<Rightarrow> bool" where
  "retry_metadata_valid m \<longleftrightarrow>
     1 \<le> rt_attempt_number m \<and> 1 \<le> rt_max_attempts m
     \<and> (case rt_cancellation_reason_code m of None \<Rightarrow> True | Some c \<Rightarrow> non_empty c)"

definition is_terminal_failure :: "retry_metadata \<Rightarrow> bool" where
  "is_terminal_failure m \<longleftrightarrow> rt_failure_reason m \<noteq> None"

definition can_retry :: "retry_metadata \<Rightarrow> bool" where
  "can_retry m \<longleftrightarrow> is_terminal_failure m \<and> rt_recoverable m \<and> rt_attempt_number m < rt_max_attempts m"

definition or_internal :: "run_failure_reason option \<Rightarrow> run_failure_reason" where
  "or_internal fallback = (case fallback of Some r \<Rightarrow> r | None \<Rightarrow> INTERNAL_ERROR)"

definition classify_failure :: "string option \<Rightarrow> run_failure_reason option \<Rightarrow> run_failure_reason" where
  "classify_failure message fallback =
     (case message of
        None \<Rightarrow> or_internal fallback
      | Some text \<Rightarrow>
          let has = (\<lambda>w. str_in w (lower text)) in
          if has ''timeout'' \<and> has ''platform'' then PLATFORM_CALLBACK_TIMEOUT
          else if has ''timeout'' \<and> has ''external'' then EXTERNAL_AI_TIMEOUT
          else if has ''transient'' \<or> has ''storage'' \<and> has ''error'' then TRANSIENT_STORAGE_ERROR
          else if has ''worker'' \<and> has ''restart'' then DAGSTER_WORKER_RESTART
          else if has ''approval'' \<and> has ''hash'' then APPROVAL_HASH_MISMATCH
          else if has ''policy'' \<and> (has ''blocked'' \<or> has ''gate'') then POLICY_GATE_BLOCKED
          else if has ''contract'' \<and> (has ''invalid'' \<or> has ''fail'') then RF_CONTRACT_VALIDATION_FAILED
          else if has ''invalid'' \<or> has ''validation'' then INVALID_INPUT
          else or_internal fallback)"

definition merge_unique_reasons :: "run_failure_reason list \<Rightarrow> run_failure_reason list" where
  "merge_unique_reasons reasons = sort (fromkeys reasons)"

section \<open>Tokens\<close>

record token =
  tok_reason_code :: string
  tok_cancelled :: bool

definition fresh_token :: token where
  "fresh_token = \<lparr>tok_reason_code = ''platform_user_cancelled'', tok_cancelled = False\<rparr>"

definition token_cancel :: "string option \<Rightarrow> token \<Rightarrow> token" where
  "token_cancel reason t =
     (let t' = t\<lparr>tok_cancelled := True\<rparr> in
      case reason of
        None \<Rightarrow> t'
      | Some r \<Rightarrow> if r \<noteq> [] then t'\<lparr>tok_reason_code := r\<rparr> else t')"

definition raise_if_cancelled :: "token \<Rightarrow> exn + unit" where
  "raise_if_cancelled t =
     (if tok_cancelled t then Inl (Refused ''RunCancelledError'' (tok_reason_code t)) else Inr ())"

section \<open>Registry\<close>

record registry =
  rg_heap :: "token list"
  rg_tokens :: "(string, nat) dict"
  rg_discarded :: "string list"

definition empty_registry :: registry where
  "empty_registry = \<lparr>rg_heap = [], rg_tokens = [], rg_discarded = []\<rparr>"

text \<open>\<open>CancellationToken()\<close> stored under a job id.\<close>

definition new_token :: "string \<Rightarrow> registry \<Rightarrow> nat \<times> registry" where
  "new_token job st =
     (length (rg_heap st),
      st\<lparr>rg_heap := rg_heap st @ [fresh_token], rg_tokens := dict_set (rg_tokens st) job (length (rg_heap st))\<rparr>)"

definition register :: "string \<Rightarrow> registry \<Rightarrow> nat \<times> registry" where
  "register job st =
     (let st = st\<lparr>rg_discarded := removeAll job (rg_discarded st)\<rparr> in
      case dict_get (rg_tokens st) job of
        Some a \<Rightarrow> (a, st)
      | None \<Rightarrow> new_token job st)"

text \<open>The part of \<open>cancel\<close> under the registry lock: the token to trigger, if any.\<close>

definition cancel_lookup :: "string \<Rightarrow> registry \<Rightarrow> nat option \<times> registry" where
  "cancel_lookup job st =
     (case dict_get (rg_tokens st) job of
        Some a \<Rightarrow> (Some a, st)
      | None \<Rightarrow>
          if job \<in> set (rg_discarded st) then (None, st)
          else (let (a, st') = new_token job st in (Some a, st')))"

definition cancel_fire :: "nat \<Rightarrow> string \<Rightarrow> registry \<Rightarrow> registry" where
  "cancel_fire a reason st =
     st\<lparr>rg_heap := (rg_heap st)[a := token_cancel (Some reason) (rg_heap st ! a)]\<rparr>"

definition registry_cancel :: "string \<Rightarrow> string \<Rightarrow> registry \<Rightarrow> bool \<times> registry" where
  "registry_cancel job reason st =
     (case cancel_lookup job st of
        (None, st') \<Rightarrow> (False, st')
      | (Some a, st') \<Rightarrow> (True, cancel_fire a reason st'))"

definition registry_is_cancelled :: "string \<Rightarrow> registry \<Rightarrow> bool" where
  "registry_is_cancelled job st =
     (case dict_get (rg_tokens st) job of None \<Rightarrow> False | Some a \<Rightarrow> tok_cancelled (rg_heap st ! a))"

definition discard :: "string \<Rightarrow> registry \<Rightarrow> registry" where
  "discard job st =
     st\<lparr>rg_tokens := dict_pop (rg_tokens st) job, rg_discarded := List.insert job (rg_discarded st)\<rparr>"

definition known_job_ids :: "registry \<Rightarrow> string list" where
  "known_job_ids st = sort (dict_keys (rg_tokens st))"

section \<open>Interleaved executions\<close>

text \<open>
  Threads call the operations; \<open>cs_pending\<close> holds the tokens (with the reason and the job) that a
  thread inside \<open>cancel\<close> has looked up and not yet triggered, \<open>cs_held\<close> the tokens launchers hold,
  \<open>cs_done\<close> the tokens of the cancels that have returned \<open>True\<close>.
\<close>

record cstate =
  cs_reg :: registry
  cs_pending :: "(nat \<times> string \<times> string) list"
  cs_held :: "(string \<times> nat) list"
  cs_done :: "(string \<times> nat) list"

datatype clabel =
    LRegister string
  | LCancelLookup string string
  | LCancelFire nat
  | LDiscard string

definition cinit :: "cstate \<Rightarrow> bool" where
  "cinit s \<longleftrightarrow> s = \<lparr>cs_reg = empty_registry, cs_pending = [], cs_held = [], cs_done = []\<rparr>"

inductive reg_step :: "cstate \<Rightarrow> clabel \<Rightarrow> cstate \<Rightarrow> bool" where
  step_register:
    "register job (cs_reg s) = (a, r) \<Longrightarrow>
     reg_step s (LRegister job) (s\<lparr>cs_reg := r, cs_held := (job, a) # cs_held s\<rparr>)"
| step_lookup:
    "cancel_lookup job (cs_reg s) = (Some a, r) \<Longrightarrow>
     reg_step s (LCancelLookup job reason) (s\<lparr>cs_reg := r, cs_pending := (a, reason, job) # cs_pending s\<rparr>)"
| step_lookup_none:
    "cancel_lookup job (cs_reg s) = (None, r) \<Longrightarrow>
     reg_step s (LCancelLookup job reason) (s\<lparr>cs_reg := r\<rparr>)"
| step_fire:
    "i < length (cs_pending s) \<Longrightarrow> cs_pending s ! i = (a, reason, job) \<Longrightarrow>
     reg_step s (LCancelFire i)
       (s\<lparr>cs_reg := cancel_fire a reason (cs_reg s),
          cs_pending := take i (cs_pending s) @ drop (Suc i) (cs_pending s),
          cs_done := (job, a) # cs_done s\<rparr>)"
| step_discard:
    "reg_step s (LDiscard job) (s\<lparr>cs_reg := discard job (cs_reg s)\<rparr>)"

inductive_cases reg_stepE: "reg_step s l t"

section \<open>The registry invariant\<close>

definition registry_inv :: "registry \<Rightarrow> bool" where
  "registry_inv st \<longleftrightarrow>
     distinct (dict_keys (rg_tokens st))
     \<and> (\<forall>j a. dict_get (rg_tokens st) j = Some a \<longrightarrow> a < length (rg_heap st))
     \<and> (\<forall>j k a. dict_get (rg_tokens st) j = Some a \<longrightarrow> dict_get (rg_tokens st) k = Some a \<longrightarrow> j = k)
     \<and> set (rg_discarded st) \<inter> set (dict_keys (rg_tokens st)) = {}"

lemma registry_invD:
  assumes "registry_inv st"
  shows "dict_get (rg_tokens st) j = Some a \<Longrightarrow> a < length (rg_heap st)"
    "dict_get (rg_tokens st) j = Some a \<Longrightarrow> dict_get (rg_tokens st) k = Some a \<Longrightarrow> j = k"
    "j \<in> set (rg_discarded st) \<Longrightarrow> dict_get (rg_tokens st) j = None"
  using assms by (auto simp: registry_inv_def dict_get_None_iff)

lemma registry_inv_empty [simp]: "registry_inv empty_registry"
  by (simp add: registry_inv_def empty_registry_def dict_keys_def)

lemma new_token_simps [simp]:
  "fst (new_token job st) = length (rg_heap st)"
  "rg_heap (snd (new_token job st)) = rg_heap st @ [fresh_token]"
  "rg_tokens (snd (new_token job st)) = dict_set (rg_tokens st) job (length (rg_heap st))"
  "rg_discarded (snd (new_token job st)) = rg_discarded st"
  by (simp_all add: new_token_def)

lemma registry_inv_new_token:
  assumes "registry_inv st" "dict_get (rg_tokens st) job = None" "job \<notin> set (rg_discarded st)"
  shows "registry_inv (snd (new_token job st))"
proof -
  note inv = registry_invD [OF assms(1)]
  have "\<And>j a. dict_get (rg_tokens st) j = Some a \<Longrightarrow> a \<noteq> length (rg_heap st)"
    using inv(1) by blast
  then show ?thesis using assms inv(1,2)
    by (auto simp: registry_inv_def dict_get_set less_Suc_eq split: if_splits)
qed

lemma removeAll_discarded_inv:
  "registry_inv st \<Longrightarrow> registry_inv (st\<lparr>rg_discarded := removeAll job (rg_discarded st)\<rparr>)"
  by (auto simp: registry_inv_def)

lemma registry_inv_register: "registry_inv st \<Longrightarrow> registry_inv (snd (register job st))"
  using registry_inv_new_token [OF removeAll_discarded_inv [of st job], of job]
  by (auto simp: register_def Let_def removeAll_discarded_inv split: option.split)

lemma registry_inv_cancel_lookup: "registry_inv st \<Longrightarrow> registry_inv (snd (cancel_lookup job st))"
  using registry_inv_new_token [of st job]
  by (auto simp: cancel_lookup_def split: option.split prod.split)

lemma registry_inv_cancel_fire: "registry_inv st \<Longrightarrow> registry_inv (cancel_fire a reason st)"
  by (simp add: registry_inv_def cancel_fire_def)

lemma registry_inv_discard: "registry_inv st \<Longrightarrow> registry_inv (discard job st)"
  by (auto simp: registry_inv_def discard_def dict_get_pop split: if_splits)

text \<open>What the operations do to the heap: new tokens are appended, only \<open>cancel_fire\<close> writes.\<close>

definition heap_extends :: "registry \<Rightarrow> registry \<Rightarrow> bool" where
  "heap_extends st st' \<longleftrightarrow> length (rg_heap st) \<le> length (rg_heap st')
     \<and> (\<forall>a < length (rg_heap st). tok_cancelled (rg_heap st ! a) \<longrightarrow> tok_cancelled (rg_heap st' ! a))"

lemma heap_extends_refl [simp]: "heap_extends st st"
  by (simp add: heap_extends_def)

lemma heap_extendsD:
  "heap_extends st st' \<Longrightarrow> a < length (rg_heap st) \<Longrightarrow> a < length (rg_heap st')"
  "heap_extends st st' \<Longrightarrow> a < length (rg_heap st) \<Longrightarrow> tok_cancelled (rg_heap st ! a) \<Longrightarrow> tok_cancelled (rg_heap st' ! a)"
  by (auto simp: heap_extends_def)

lemma token_cancelled [simp]: "tok_cancelled (token_cancel r t)"
  by (simp add: token_cancel_def Let_def split: option.split)

lemma heap_register: "heap_extends st (snd (register job st))"
  by (auto simp: register_def Let_def heap_extends_def nth_append split: option.split)

lemma heap_cancel_lookup: "heap_extends st (snd (cancel_lookup job st))"
  by (auto simp: cancel_lookup_def heap_extends_def nth_append new_token_def split: option.split)

lemma heap_cancel_fire: "heap_extends st (cancel_fire a reason st)"
  by (auto simp: cancel_fire_def heap_extends_def) (metis nth_list_update_eq nth_list_update_neq token_cancelled)

lemma heap_discard: "heap_extends st (discard job st)"
  by (simp add: discard_def heap_extends_def)

lemma register_addr:
  assumes "registry_inv st" "register job st = (a, st')"
  shows "a < length (rg_heap st')" "dict_get (rg_tokens st') job = Some a"
  using assms registry_invD(1) [of st job]
  by (auto simp: register_def Let_def new_token_def dict_get_set split: option.splits)

lemma cancel_lookup_None:
  "cancel_lookup job st = (None, r) \<longleftrightarrow>
     dict_get (rg_tokens st) job = None \<and> job \<in> set (rg_discarded st) \<and> r = st"
  by (auto simp: cancel_lookup_def case_prod_beta split: option.splits if_splits)

lemma cancel_lookup_addr:
  assumes "registry_inv st" "cancel_lookup job st = (Some a, st')"
  shows "a < length (rg_heap st')" "dict_get (rg_tokens st') job = Some a"
  using assms registry_invD(1) [of st job]
  by (auto simp: cancel_lookup_def new_token_def dict_get_set split: option.splits if_splits)

section \<open>The invariant of interleaved executions\<close>

text \<open>Every pair of a job and a token address the system knows.\<close>

definition job_tokens :: "cstate \<Rightarrow> (string \<times> nat) set" where
  "job_tokens s = set (rg_tokens (cs_reg s)) \<union> set (map (\<lambda>(a, r, j). (j, a)) (cs_pending s))
     \<union> set (cs_held s) \<union> set (cs_done s)"

definition cstate_inv :: "cstate \<Rightarrow> bool" where
  "cstate_inv s \<longleftrightarrow>
     registry_inv (cs_reg s)
     \<and> (\<forall>j a. (j, a) \<in> job_tokens s \<longrightarrow> a < length (rg_heap (cs_reg s)))
     \<and> (\<forall>j k a. (j, a) \<in> job_tokens s \<longrightarrow> (k, a) \<in> job_tokens s \<longrightarrow> j = k)
     \<and> (\<forall>a < length (rg_heap (cs_reg s)).
          tok_cancelled (rg_heap (cs_reg s) ! a) = (a \<in> snd ` set (cs_done s)))"

lemma cstate_invD:
  assumes "cstate_inv s"
  shows "(j, a) \<in> job_tokens s \<Longrightarrow> a < length (rg_heap (cs_reg s))"
    "(j, a) \<in> job_tokens s \<Longrightarrow> (k, a) \<in> job_tokens s \<Longrightarrow> j = k"
    "a < length (rg_heap (cs_reg s)) \<Longrightarrow>
       tok_cancelled (rg_heap (cs_reg s) ! a) = (a \<in> snd ` set (cs_done s))"
  using assms unfolding cstate_inv_def by blast+

text \<open>A token is triggered exactly when a cancel of its own job has returned for it.\<close>

lemma triggered_iff_done:
  assumes inv: "cstate_inv s" and tok: "(j, a) \<in> job_tokens s"
  shows "tok_cancelled (rg_heap (cs_reg s) ! a) \<longleftrightarrow> (j, a) \<in> set (cs_done s)"
proof -
  have "(j, a) \<in> set (cs_done s)" if "(k, a) \<in> set (cs_done s)" for k
  proof -
    have "(k, a) \<in> job_tokens s" using that by (simp add: job_tokens_def)
    from cstate_invD(2) [OF inv this tok] that show ?thesis by simp
  qed
  moreover have "a \<in> snd ` set (cs_done s)" if "(j, a) \<in> set (cs_done s)"
    using imageI [OF that, of snd] by simp
  ultimately have "a \<in> snd ` set (cs_done s) \<longleftrightarrow> (j, a) \<in> set (cs_done s)"
    by auto
  then show ?thesis using cstate_invD(3) [OF inv cstate_invD(1) [OF inv tok]] by simp
qed

lemma dict_set_new: "dict_get d k = None \<Longrightarrow> set (dict_set d k v) = insert (k, v) (set d)"
  by (induction d) (auto simp: dict_set_def split: if_splits)

text \<open>
  One step either keeps the heap and adds no new address, or appends a fresh token for one job,
  or triggers a token; in each case \<open>job_tokens\<close> grows only by that pair.
\<close>

lemma cstate_inv_same_heap:
  assumes "cstate_inv s" "registry_inv (cs_reg t)" "rg_heap (cs_reg t) = rg_heap (cs_reg s)"
    "job_tokens t \<subseteq> job_tokens s" "cs_done t = cs_done s"
  shows "cstate_inv t"
  using assms unfolding cstate_inv_def by (simp only:) blast

lemma cstate_inv_new_token:
  assumes inv: "cstate_inv s" and reg: "registry_inv (cs_reg t)"
    and heap: "rg_heap (cs_reg t) = rg_heap (cs_reg s) @ [fresh_token]"
    and tokens: "job_tokens t \<subseteq> insert (job, length (rg_heap (cs_reg s))) (job_tokens s)"
    and cdone: "cs_done t = cs_done s"
  shows "cstate_inv t"
proof -
  let ?n = "length (rg_heap (cs_reg s))"
  from inv have old: "\<And>j a. (j, a) \<in> job_tokens s \<Longrightarrow> a < ?n"
    and single: "\<And>j k a. (j, a) \<in> job_tokens s \<Longrightarrow> (k, a) \<in> job_tokens s \<Longrightarrow> j = k"
    and fired: "\<And>a. a < ?n \<Longrightarrow> tok_cancelled (rg_heap (cs_reg s) ! a) = (a \<in> snd ` set (cs_done s))"
    by (auto simp: cstate_inv_def)
  have "?n \<notin> snd ` set (cs_done s)"
    using old by (force simp: job_tokens_def)
  then have "tok_cancelled ((rg_heap (cs_reg s) @ [fresh_token]) ! a) = (a \<in> snd ` set (cs_done t))"
    if "a < Suc ?n" for a
    using that fired [of a] cdone by (auto simp: nth_append less_Suc_eq fresh_token_def)
  moreover have "\<And>j a. (j, a) \<in> job_tokens t \<Longrightarrow> a < Suc ?n"
    using tokens old by fastforce
  moreover have "\<And>j k a. (j, a) \<in> job_tokens t \<Longrightarrow> (k, a) \<in> job_tokens t \<Longrightarrow> j = k"
    using tokens single old by (metis insertE less_irrefl prod.inject subsetD)
  ultimately show ?thesis using reg by (auto simp: cstate_inv_def heap)
qed

lemma cstate_inv_register:
  assumes inv: "cstate_inv s" and reg: "register job (cs_reg s) = (a, r)"
  shows "cstate_inv (s\<lparr>cs_reg := r, cs_held := (job, a) # cs_held s\<rparr>)"
proof -
  from inv have rinv: "registry_inv (cs_reg s)" by (simp add: cstate_inv_def)
  with registry_inv_register [of "cs_reg s" job] reg have rinv': "registry_inv r" by simp
  show ?thesis
  proof (cases "dict_get (rg_tokens (cs_reg s)) job")
    case None
    with reg have "rg_heap r = rg_heap (cs_reg s) @ [fresh_token]" "a = length (rg_heap (cs_reg s))"
      "set (rg_tokens r) = insert (job, a) (set (rg_tokens (cs_reg s)))"
      by (auto simp: register_def Let_def new_token_def dict_set_new)
    then show ?thesis using rinv'
      by (intro cstate_inv_new_token [OF inv, where job = job]) (auto simp: job_tokens_def)
  next
    case (Some b)
    with reg have "rg_heap r = rg_heap (cs_reg s)" "a = b" "rg_tokens r = rg_tokens (cs_reg s)"
      by (auto simp: register_def Let_def)
    then show ?thesis using rinv' dict_get_Some_in [OF Some]
      by (intro cstate_inv_same_heap [OF inv]) (auto simp: job_tokens_def)
  qed
qed

lemma cstate_inv_lookup:
  assumes inv: "cstate_inv s" and look: "cancel_lookup job (cs_reg s) = (Some a, r)"
  shows "cstate_inv (s\<lparr>cs_reg := r, cs_pending := (a, reason, job) # cs_pending s\<rparr>)"
proof -
  from inv have rinv: "registry_inv (cs_reg s)" by (simp add: cstate_inv_def)
  with registry_inv_cancel_lookup [of "cs_reg s" job] look have rinv': "registry_inv r" by simp
  show ?thesis
  proof (cases "dict_get (rg_tokens (cs_reg s)) job")
    case None
    with look have "rg_heap r = rg_heap (cs_reg s) @ [fresh_token]" "a = length (rg_heap (cs_reg s))"
      "set (rg_tokens r) = insert (job, a) (set (rg_tokens (cs_reg s)))"
      by (auto simp: cancel_lookup_def new_token_def dict_set_new split: if_splits)
    then show ?thesis using rinv'
      by (intro cstate_inv_new_token [OF inv, where job = job]) (auto simp: job_tokens_def)
  next
    case (Some b)
    with look have "r = cs_reg s" "a = b" by (auto simp: cancel_lookup_def)
    then show ?thesis using rinv' dict_get_Some_in [OF Some]
      by (intro cstate_inv_same_heap [OF inv]) (auto simp: job_tokens_def)
  qed
qed

lemma cstate_inv_fire:
  assumes inv: "cstate_inv s" and i: "i < length (cs_pending s)" "cs_pending s ! i = (a, reason, job)"
  shows "cstate_inv (s\<lparr>cs_reg := cancel_fire a reason (cs_reg s),
    cs_pending := take i (cs_pending s) @ drop (Suc i) (cs_pending s), cs_done := (job, a) # cs_done s\<rparr>)"
    (is "cstate_inv ?t")
proof -
  from i have "(a, reason, job) \<in> set (cs_pending s)" by (metis nth_mem)
  then have known: "(job, a) \<in> job_tokens s" by (force simp: job_tokens_def)
  have "set (take i (cs_pending s) @ drop (Suc i) (cs_pending s)) \<subseteq> set (cs_pending s)"
    by (auto dest: in_set_takeD in_set_dropD)
  then have "set (map (\<lambda>(a, r, j). (j, a)) (take i (cs_pending s) @ drop (Suc i) (cs_pending s)))
      \<subseteq> set (map (\<lambda>(a, r, j). (j, a)) (cs_pending s))"
    unfolding set_map by (rule image_mono)
  then have sub: "job_tokens ?t \<subseteq> insert (job, a) (job_tokens s)"
    unfolding job_tokens_def by (simp add: cancel_fire_def) blast
  have heap: "rg_heap (cancel_fire a reason (cs_reg s)) = (rg_heap (cs_reg s))[a := token_cancel (Some reason) (rg_heap (cs_reg s) ! a)]"
    by (simp add: cancel_fire_def)
  have cancelled: "tok_cancelled (rg_heap (cs_reg ?t) ! b) = (b \<in> snd ` set (cs_done ?t))"
    if "b < length (rg_heap (cs_reg s))" for b
    using that inv by (cases "b = a") (auto simp: heap cstate_inv_def)
  have known': "\<And>j b. (j, b) \<in> job_tokens ?t \<Longrightarrow> (j, b) \<in> job_tokens s"
    using sub known by blast
  have len: "length (rg_heap (cs_reg ?t)) = length (rg_heap (cs_reg s))"
    by (simp add: cancel_fire_def)
  show ?thesis unfolding cstate_inv_def
  proof (intro conjI allI impI)
    show "registry_inv (cs_reg ?t)"
      using inv registry_inv_cancel_fire by (simp add: cstate_inv_def)
    show "b < length (rg_heap (cs_reg ?t))" if "(j, b) \<in> job_tokens ?t" for j b
      using known' [OF that] inv unfolding len cstate_inv_def by blast
    show "j = k" if "(j, b) \<in> job_tokens ?t" "(k, b) \<in> job_tokens ?t" for j k b
      using known' [OF that(1)] known' [OF that(2)] inv unfolding cstate_inv_def by blast
    show "tok_cancelled (rg_heap (cs_reg ?t) ! b) = (b \<in> snd ` set (cs_done ?t))"
      if "b < length (rg_heap (cs_reg ?t))" for b
      using cancelled that unfolding len by blast
  qed
qed

lemma cstate_inv_step: "cstate_inv s \<Longrightarrow> reg_step s l t \<Longrightarrow> cstate_inv t"
proof (erule reg_stepE)
  fix job r reason
  assume inv: "cstate_inv s" and look: "cancel_lookup job (cs_reg s) = (None, r)" and t: "t = s\<lparr>cs_reg := r\<rparr>"
  from look have "r = cs_reg s" by (simp add: cancel_lookup_None)
  then show "cstate_inv t" using inv t by simp
next
  fix job
  assume inv: "cstate_inv s" and t: "t = s\<lparr>cs_reg := discard job (cs_reg s)\<rparr>"
  have "registry_inv (cs_reg t)" using inv registry_inv_discard t by (simp add: cstate_inv_def)
  moreover have "job_tokens t \<subseteq> job_tokens s"
    using t unfolding job_tokens_def by (intro Un_mono) (simp_all add: discard_def dict_pop_def)
  ultimately show "cstate_inv t" using t
    by (intro cstate_inv_same_heap [OF inv]) (simp_all add: discard_def)
qed (auto intro: cstate_inv_register cstate_inv_lookup cstate_inv_fire)

interpretation cancellation: step_invariant cinit reg_step cstate_inv
proof
  show "cinit s \<Longrightarrow> cstate_inv s" for s
    by (simp add: cinit_def cstate_inv_def job_tokens_def) (simp add: empty_registry_def)
qed (rule cstate_inv_step)

lemma token_of_job_kept:
  assumes "cstate_inv s" "reg_step s l t" "dict_get (rg_tokens (cs_reg s)) j = Some a" "l \<noteq> LDiscard j"
  shows "dict_get (rg_tokens (cs_reg t)) j = Some a"
  using assms(2)
proof (cases rule: reg_step.cases)
  case (step_discard job)
  then show ?thesis using assms by (simp add: discard_def dict_get_pop)
next
  case (step_register job b r)
  then show ?thesis using assms(3)
    by (auto simp: register_def Let_def new_token_def dict_get_set split: option.splits)
next
  case (step_lookup job b r reason)
  then show ?thesis using assms(3)
    by (auto simp: cancel_lookup_def new_token_def dict_get_set split: option.splits if_splits)
next
  case (step_lookup_none job r reason)
  then show ?thesis using assms(3)
    by (simp add: cancel_lookup_None)
next
  case (step_fire i b reason job)
  then show ?thesis using assms(3) by (simp add: cancel_fire_def)
qed

lemma heap_extends_step:
  assumes "reg_step s l t"
  shows "heap_extends (cs_reg s) (cs_reg t)"
  using assms
proof (cases rule: reg_step.cases)
  case (step_register job a r)
  then show ?thesis using heap_register [of "cs_reg s" job] by simp
next
  case (step_lookup job a r reason)
  then show ?thesis using heap_cancel_lookup [of "cs_reg s" job] by simp
next
  case (step_lookup_none job r reason)
  then show ?thesis using heap_cancel_lookup [of "cs_reg s" job] by simp
qed (simp_all add: heap_cancel_fire heap_discard)

lemma trace_keeps_token:
  assumes "trace_run reg_step s ls t" "cstate_inv s" "dict_get (rg_tokens (cs_reg s)) j = Some a"
    "LDiscard j \<notin> set ls" "tok_cancelled (rg_heap (cs_reg s) ! a)"
  shows "dict_get (rg_tokens (cs_reg t)) j = Some a \<and> tok_cancelled (rg_heap (cs_reg t) ! a)"
  using assms
proof (induction rule: trace_run.induct)
  case (trace_run_cons s l t ls u)
  have "cstate_inv t" by (rule cstate_inv_step) (use trace_run_cons in auto)
  moreover have "dict_get (rg_tokens (cs_reg t)) j = Some a"
    using trace_run_cons by (auto intro: token_of_job_kept)
  moreover have "a < length (rg_heap (cs_reg s))"
    using trace_run_cons.prems registry_invD(1) by (auto simp: cstate_inv_def)
  then have "tok_cancelled (rg_heap (cs_reg t) ! a)"
    using trace_run_cons heap_extends_step heap_extendsD(2) by blast
  ultimately show ?case using trace_run_cons by simp
qed simp

section \<open>Properties\<close>

text \<open>The state after a platform cancel of job \<open>j\<close> that precedes the worker's registration.\<close>

definition precancelled :: cstate where
  "precancelled =
     \<lparr>cs_reg = snd (registry_cancel ''j'' ''stop'' empty_registry), cs_pending = [],
      cs_held = [], cs_done = [(''j'', 0)]\<rparr>"

lemmas registry_eval = registry_cancel_def cancel_lookup_def new_token_def cancel_fire_def
  empty_registry_def fresh_token_def token_cancel_def dict_set_def register_def

lemma precancelled_run:
  "\<exists>s. cinit s \<and> trace_run reg_step s [LCancelLookup ''j'' ''stop'', LCancelFire 0] precancelled"
proof -
  let ?s0 = "\<lparr>cs_reg = empty_registry, cs_pending = [], cs_held = [], cs_done = []\<rparr> :: cstate"
  let ?s1 = "?s0\<lparr>cs_reg := snd (new_token ''j'' empty_registry), cs_pending := [(0, ''stop'', ''j'')]\<rparr>"
  have "reg_step ?s0 (LCancelLookup ''j'' ''stop'') (?s0\<lparr>cs_reg := snd (new_token ''j'' empty_registry),
      cs_pending := (0, ''stop'', ''j'') # cs_pending ?s0\<rparr>)"
    by (rule reg_step.step_lookup) (simp add: registry_eval)
  then have "reg_step ?s0 (LCancelLookup ''j'' ''stop'') ?s1" by simp
  moreover have "reg_step ?s1 (LCancelFire 0) precancelled"
    using reg_step.step_fire [of 0 ?s1 0 "''stop''" "''j''"]
    by (simp add: precancelled_def registry_eval)
  ultimately show ?thesis by (auto simp: cinit_def intro: exI [of _ ?s0])
qed

lemma precancelled_reachable: "reachable cinit reg_step precancelled"
  using precancelled_run by (blast intro: trace_run_reachable reachable_init)

definition registered :: cstate where
  "registered = precancelled\<lparr>cs_reg := snd (register ''j'' (cs_reg precancelled)), cs_held := [(''j'', 0)]\<rparr>"

lemma registered_reachable: "reachable cinit reg_step registered"
proof -
  have "reg_step precancelled (LRegister ''j'') registered"
    using reg_step.step_register [of "''j''" precancelled 0 "snd (register ''j'' (cs_reg precancelled))"]
    by (simp add: registered_def precancelled_def registry_eval)
  with precancelled_reachable show ?thesis by (rule reachable_step)
qed

text \<open>C36: Under every interleaving of register, cancel and discard calls, the token a launcher
  holds for a job stops it if and only if a cancel of that very job has returned True for that
  token: no cancel is lost between the lookup and the trigger, none reaches another job.\<close>

theorem launcher_stops_iff_cancelled:
  assumes "reachable cinit reg_step s" and "(job, a) \<in> set (cs_held s)"
  shows "is_ok (raise_if_cancelled (rg_heap (cs_reg s) ! a)) \<longleftrightarrow> (job, a) \<notin> set (cs_done s)"
proof -
  from assms(1) have inv: "cstate_inv s" by (rule cancellation.reachable_inv)
  have "(job, a) \<in> job_tokens s" using assms(2) by (simp add: job_tokens_def)
  from triggered_iff_done [OF inv this] show ?thesis by (simp add: raise_if_cancelled_def)
qed

lemma launcher_stops_iff_cancelled_witness:
  "is_ok (raise_if_cancelled (rg_heap (cs_reg registered) ! 0)) \<longleftrightarrow> (''j'', 0) \<notin> set (cs_done registered)"
  by (rule launcher_stops_iff_cancelled [OF registered_reachable]) (simp add: registered_def)

text \<open>A cancel that found its token is triggered or can be triggered, whatever happened since.\<close>

lemma pending_until_fired:
  assumes "trace_run reg_step s ls t" "cstate_inv s" "a < length (rg_heap (cs_reg s))"
    "tok_cancelled (rg_heap (cs_reg s) ! a) \<or> (a, reason, job) \<in> set (cs_pending s)"
  shows "tok_cancelled (rg_heap (cs_reg t) ! a) \<or> (a, reason, job) \<in> set (cs_pending t)"
  using assms
proof (induction rule: trace_run.induct)
  case (trace_run_cons s l t ls u)
  have step: "reg_step s l t" and inv: "cstate_inv t" and len: "a < length (rg_heap (cs_reg t))"
    using trace_run_cons cstate_inv_step heap_extendsD(1) [OF heap_extends_step] by blast+
  have "(a, reason, job) \<in> set (cs_pending t)" if "(a, reason, job) \<in> set (cs_pending s)" "\<not> tok_cancelled (rg_heap (cs_reg t) ! a)"
    using step
  proof (cases rule: reg_step.cases)
    case (step_fire i b r j)
    have "b \<noteq> a"
    proof
      assume "b = a"
      then have "tok_cancelled (rg_heap (cs_reg t) ! a)"
        using step_fire trace_run_cons.prems(2) by (simp add: cancel_fire_def)
      with that(2) show False ..
    qed
    then have "(a, reason, job) \<noteq> cs_pending s ! i" using step_fire by auto
    then show ?thesis
      using that(1) step_fire by (subst (asm) id_take_nth_drop [of i]) auto
  qed (use that in auto)
  moreover have "tok_cancelled (rg_heap (cs_reg s) ! a) \<Longrightarrow> tok_cancelled (rg_heap (cs_reg t) ! a)"
    using heap_extendsD(2) [OF heap_extends_step [OF step] trace_run_cons.prems(2)] .
  ultimately have "tok_cancelled (rg_heap (cs_reg t) ! a) \<or> (a, reason, job) \<in> set (cs_pending t)"
    using trace_run_cons.prems(3) by argo
  then show ?case by (rule trace_run_cons.IH [OF inv len])
qed simp

text \<open>C37: No schedule can block a cancel: once a cancel has found its token, then after any further calls of any client the token
  is triggered or its trigger can be taken at once, and taking it stops every launcher that holds the token. Nothing the other
  calls do, a discard of the job included, removes a pending trigger.\<close>

theorem pending_cancel_cannot_be_blocked:
  assumes "reachable cinit reg_step s" and "(a, reason, job) \<in> set (cs_pending s)" and "trace_run reg_step s ls t"
  shows "\<not> is_ok (raise_if_cancelled (rg_heap (cs_reg t) ! a))
    \<or> (\<exists>i u. reg_step t (LCancelFire i) u \<and> \<not> is_ok (raise_if_cancelled (rg_heap (cs_reg u) ! a)))"
proof -
  have inv: "cstate_inv s" using assms(1) by (rule cancellation.reachable_inv)
  have "(job, a) \<in> job_tokens s" using assms(2) by (force simp: job_tokens_def)
  then have len: "a < length (rg_heap (cs_reg s))" using inv by (auto simp: cstate_inv_def)
  have fired: "\<not> is_ok (raise_if_cancelled tok)" if "tok_cancelled tok" for tok using that by (simp add: raise_if_cancelled_def)
  from pending_until_fired [OF assms(3) inv len] assms(2)
  consider "tok_cancelled (rg_heap (cs_reg t) ! a)" | "(a, reason, job) \<in> set (cs_pending t)" by blast
  then show ?thesis
  proof cases
    case 2
    then obtain i where i: "i < length (cs_pending t)" "cs_pending t ! i = (a, reason, job)" by (meson in_set_conv_nth)
    have "reachable cinit reg_step t" using assms(1,3) by (rule trace_run_reachable [rotated])
    from cancellation.reachable_inv [OF this] have "(job, a) \<in> job_tokens t \<longrightarrow> a < length (rg_heap (cs_reg t))"
      by (simp add: cstate_inv_def)
    moreover have "(job, a) \<in> job_tokens t" using 2 by (force simp: job_tokens_def)
    ultimately have "a < length (rg_heap (cs_reg t))" by simp
    then have "tok_cancelled (rg_heap (cancel_fire a reason (cs_reg t)) ! a)" by (simp add: cancel_fire_def)
    then have "\<not> is_ok (raise_if_cancelled (rg_heap (cancel_fire a reason (cs_reg t)) ! a))" by (rule fired)
    with reg_step.step_fire [OF i] show ?thesis by (intro disjI2 exI conjI) (assumption, simp)
  qed (use fired in blast)
qed

definition looked_up :: cstate where
  "looked_up = \<lparr>cs_reg = snd (new_token ''j'' empty_registry), cs_pending = [(0, ''stop'', ''j'')], cs_held = [], cs_done = []\<rparr>"

lemma looked_up_reachable: "reachable cinit reg_step looked_up"
proof -
  let ?s0 = "\<lparr>cs_reg = empty_registry, cs_pending = [], cs_held = [], cs_done = []\<rparr> :: cstate"
  have "reg_step ?s0 (LCancelLookup ''j'' ''stop'') looked_up"
    using reg_step.step_lookup [of "''j''" ?s0 0 "snd (new_token ''j'' empty_registry)" "''stop''"]
    by (simp add: looked_up_def registry_eval)
  moreover have "reachable cinit reg_step ?s0" by (rule reachable_init) (simp add: cinit_def)
  ultimately show ?thesis by (metis reachable_step)
qed

lemma pending_cancel_cannot_be_blocked_witness:
  "\<exists>i u. reg_step (looked_up\<lparr>cs_reg := discard ''j'' (cs_reg looked_up)\<rparr>) (LCancelFire i) u \<and> \<not> is_ok (raise_if_cancelled (rg_heap (cs_reg u) ! 0))"
proof -
  let ?t = "looked_up\<lparr>cs_reg := discard ''j'' (cs_reg looked_up)\<rparr>"
  have run: "trace_run reg_step looked_up [LDiscard ''j''] ?t"
    using reg_step.step_discard [of looked_up "''j''"] by simp
  have "is_ok (raise_if_cancelled (rg_heap (cs_reg ?t) ! 0))"
    by (simp add: looked_up_def registry_eval discard_def raise_if_cancelled_def)
  with pending_cancel_cannot_be_blocked [OF looked_up_reachable _ run, of 0 "''stop''" "''j''"] show ?thesis
    by (simp add: looked_up_def)
qed

text \<open>A cancel that arrives before the worker registers the job is honoured: after the cancel
  has returned, whatever other calls follow short of discarding that job, the worker that then
  registers receives a triggered token.\<close>

theorem precancel_honoured:
  assumes "reachable cinit reg_step s" and "(job, a) \<in> set (cs_done s)"
    and "dict_get (rg_tokens (cs_reg s)) job = Some a"
    and "trace_run reg_step s ls t" and "LDiscard job \<notin> set ls"
    and "register job (cs_reg t) = (b, r)"
  shows "\<not> is_ok (raise_if_cancelled (rg_heap r ! b))"
proof -
  from assms(1) have inv: "cstate_inv s" by (rule cancellation.reachable_inv)
  have "tok_cancelled (rg_heap (cs_reg s) ! a)"
    using triggered_iff_done [OF inv, of job a] assms(2) by (simp add: job_tokens_def)
  from trace_keeps_token [OF assms(4) inv assms(3,5) this]
  have "dict_get (rg_tokens (cs_reg t)) job = Some a" "tok_cancelled (rg_heap (cs_reg t) ! a)" by auto
  then show ?thesis using assms(6) by (auto simp: register_def Let_def raise_if_cancelled_def)
qed

lemma precancel_honoured_witness:
  "\<not> is_ok (raise_if_cancelled (rg_heap (snd (register ''j'' (cs_reg precancelled)))
      ! fst (register ''j'' (cs_reg precancelled))))"
  by (rule precancel_honoured [OF precancelled_reachable, of "''j''" 0 "[]" precancelled])
    (simp_all add: precancelled_def registry_eval)

text \<open>After \<open>discard\<close>, a cancel of the job returns False and changes nothing, while a retry
  that registers the job again gets a fresh token which is not triggered and is not the old one.\<close>

theorem discard_ends_the_run:
  assumes "reachable cinit reg_step s" and "(job, a) \<in> set (cs_held s)"
    and "register job (discard job (cs_reg s)) = (b, r)"
  shows "registry_cancel job reason (discard job (cs_reg s)) = (False, discard job (cs_reg s))
    \<and> is_ok (raise_if_cancelled (rg_heap r ! b)) \<and> b \<noteq> a \<and> \<not> registry_is_cancelled job r"
proof -
  have "dict_get (rg_tokens (discard job (cs_reg s))) job = None"
    by (simp add: discard_def dict_get_pop)
  moreover from this have "b = length (rg_heap (cs_reg s))" "rg_heap r = rg_heap (cs_reg s) @ [fresh_token]"
    "dict_get (rg_tokens r) job = Some b"
    using assms(3) by (auto simp: register_def Let_def new_token_def discard_def dict_get_set)
  moreover have "a < length (rg_heap (cs_reg s))"
    using cancellation.reachable_inv [OF assms(1)] assms(2) unfolding cstate_inv_def job_tokens_def by blast
  ultimately show ?thesis
    by (simp add: registry_cancel_def cancel_lookup_def raise_if_cancelled_def fresh_token_def
        registry_is_cancelled_def) (simp add: discard_def)
qed

lemma discard_ends_the_run_witness:
  "fst (registry_cancel ''j'' ''late'' (discard ''j'' (cs_reg registered))) = False"
  using discard_ends_the_run [OF registered_reachable, of "''j''" 0
      "fst (register ''j'' (discard ''j'' (cs_reg registered)))"
      "snd (register ''j'' (discard ''j'' (cs_reg registered)))" "''late''"]
  by (simp add: registered_def)

text \<open>The messages the classifier takes for a transient infrastructure failure.\<close>

definition transient_message :: "string \<Rightarrow> bool" where
  "transient_message m \<longleftrightarrow>
     str_in ''timeout'' (lower m) \<and> (str_in ''platform'' (lower m) \<or> str_in ''external'' (lower m))
     \<or> str_in ''transient'' (lower m)
     \<or> str_in ''storage'' (lower m) \<and> str_in ''error'' (lower m)
     \<or> str_in ''worker'' (lower m) \<and> str_in ''restart'' (lower m)"

text \<open>Without a recoverable fallback, a failure is classified as automatically retryable if
  and only if its message names a timeout of the platform or of an external service, a transient
  condition, a storage error or a worker restart; a run carrying that classification can be
  retried exactly while attempts are left.\<close>

theorem classified_recoverable_iff:
  assumes "case fallback of None \<Rightarrow> True | Some r \<Rightarrow> \<not> is_recoverable r"
  shows "is_recoverable (classify_failure (Some m) fallback) \<longleftrightarrow> transient_message m"
    (is "?rec \<longleftrightarrow> _")
proof -
  have "\<not> is_recoverable (or_internal fallback)"
    using assms by (cases fallback) (simp_all add: or_internal_def)
  then show ?thesis
    by (simp add: classify_failure_def Let_def transient_message_def if_distrib [of is_recoverable])
qed

lemma classified_recoverable_iff_witness:
  "is_recoverable (classify_failure (Some ''Storage ERROR'') None) \<longleftrightarrow> transient_message ''Storage ERROR''"
  by (rule classified_recoverable_iff) simp

text \<open>\<open>merge_unique_reasons\<close> returns the canonical tuple of a set of reasons: it is sorted by
  value, has no repetition and depends only on which reasons occur.\<close>

theorem merged_reasons_canonical:
  "merge_unique_reasons rs = sorted_list_of_set (set rs)"
proof -
  have "sorted_list_of_set (set (merge_unique_reasons rs)) = merge_unique_reasons rs"
    by (rule sorted_list_of_set.idem_if_sorted_distinct) (simp_all add: merge_unique_reasons_def)
  then show ?thesis by (simp add: merge_unique_reasons_def)
qed

end
