(* ===== verification/ActionPlan.thy ===== *)
theory ActionPlan
  imports Domain
begin

text \<open>
  \<open>src/app/kernel/action_plan.py\<close>: an ActionPlan preview is built from the selected method
  recommendations, and an approved plan is checked before it may be executed.

  Definitions follow the module's functions one for one; \<open>sha\<close> is the SHA-256 hex digest,
  \<open>dump\<close> pydantic's \<open>model_dump(mode="json")\<close> of a plan and \<open>now\<close> the clock. The lemmas show
  which recommendations and methods a preview admits, the shape of the plan it returns, that a
  preview passes the execution check with the matching approval, and that an accepted approval is
  bound to the whole plan.
\<close>

section \<open>Constants and errors\<close>

definition ACTION_PLAN_SCHEMA_VERSION :: string where
  "ACTION_PLAN_SCHEMA_VERSION = ''action_plan.v1''"

definition DEFAULT_PLUGIN_VERSION :: string where
  "DEFAULT_PLUGIN_VERSION = ''0.1.0''"

definition DEFAULT_RETRY_POLICY :: retry_policy where
  "DEFAULT_RETRY_POLICY = \<lparr>rp_max_attempts = 2,
     rp_retryable_errors = [''TRANSIENT_STORAGE_ERROR'', ''DAGSTER_WORKER_RESTART'']\<rparr>"

definition BASE_VALIDATION_GATES :: "string list" where
  "BASE_VALIDATION_GATES = [''schema_validation'', ''business_rules'', ''privacy_check'']"

definition SYNTHETIC_VALIDATION_GATES :: "string list" where
  "SYNTHETIC_VALIDATION_GATES =
     [''split_leakage_check'', ''schema_validation'', ''business_rules_check'',
      ''synthetic_quality_check'', ''privacy_check'', ''model_impact_check'']"

definition MODEL_IMPACT_GATE :: string where
  "MODEL_IMPACT_GATE = ''model_impact_check''"

definition preview_error :: "string \<Rightarrow> exn" where
  "preview_error reason = Raised ''ActionPlanPreviewError'' reason ACTION_PLAN_PRECONDITION_FAILED 422"

definition preview_policy_error :: "string \<Rightarrow> exn" where
  "preview_policy_error reason = Raised ''ActionPlanPreviewError'' reason POLICY_BLOCKED 422"

definition execution_error :: "string \<Rightarrow> exn" where
  "execution_error reason = Raised ''ActionPlanExecutionError'' reason ACTION_PLAN_PRECONDITION_FAILED 422"

definition approval_error :: "string \<Rightarrow> error_code \<Rightarrow> int \<Rightarrow> exn" where
  "approval_error reason ec status = Raised ''ActionPlanExecutionError'' reason ec status"

section \<open>Requests\<close>

record preview_request =
  pr_decision_report_id :: string
  pr_source_dataset_version_id :: string
  pr_selected_decision_ids :: "string list"
  pr_selected_method_overrides :: "(string, string) dict"
  pr_method_recommendations :: "method_recommendation list"
  pr_created_by_user_id :: string
  pr_input_artifacts :: "string list"
  pr_target_version_name :: "string option"
  pr_created_at :: "datetime option"

definition preview_request_valid :: "preview_request \<Rightarrow> bool" where
  "preview_request_valid r \<longleftrightarrow>
     non_empty (pr_decision_report_id r) \<and> non_empty (pr_source_dataset_version_id r)
     \<and> list_all non_empty (pr_selected_decision_ids r) \<and> pr_selected_decision_ids r \<noteq> []
     \<and> list_all (\<lambda>kv. non_empty (fst kv) \<and> non_empty (snd kv)) (pr_selected_method_overrides r)
     \<and> list_all method_recommendation_valid (pr_method_recommendations r)
     \<and> pr_method_recommendations r \<noteq> []
     \<and> non_empty (pr_created_by_user_id r) \<and> list_all s3_uri (pr_input_artifacts r)
     \<and> (case pr_target_version_name r of None \<Rightarrow> True | Some n \<Rightarrow> non_empty n)"

record approval_metadata =
  am_approval_id :: string
  am_approval_request_id :: string
  am_approved_by_user_id :: string
  am_approved_at :: datetime
  am_action_plan_id :: string
  am_action_plan_hash :: string
  am_decision_report_id :: string
  am_source_dataset_version_id :: string

record execution_request =
  er_action_plan :: action_plan
  er_source_dataset_version_id :: string
  er_approval_metadata :: "approval_metadata option"

section \<open>Helpers\<close>

definition ordered_unique :: "string list \<Rightarrow> string list" where
  "ordered_unique values = ordered_unique_loop [] [] values"

interpretation ordered_unique: stable_dedupe ordered_unique
  by unfold_locales (simp_all add: ordered_unique_def ordered_unique_loop_snoc)

definition policy_version_of :: "method_recommendation list \<Rightarrow> string" where
  "policy_version_of rs =
     (let versions = ordered_unique (map mr_policy_version rs)
      in if length versions = 1 then hd versions else ''mixed_method_policies'')"

definition slug :: "string \<Rightarrow> string" where
  "slug value = slug_or ''step'' value"

definition synthetic_methods :: "string list" where
  "synthetic_methods = [''smote'', ''gaussian_copula'', ''borderline_smote'', ''adasyn'', ''ctgan'']"

definition random_seed :: "string \<Rightarrow> int option" where
  "random_seed method_id = (if method_id \<in> set synthetic_methods then Some 42 else None)"

definition step_id_of :: "method_recommendation \<Rightarrow> string \<Rightarrow> string" where
  "step_id_of r method_id = slug (mr_action_type r @ ''_'' @ method_id @ ''_'' @ mr_issue_id r)"

definition class_weights_step :: "string \<Rightarrow> string \<Rightarrow> bool" where
  "class_weights_step action_type method_id \<longleftrightarrow>
     action_type = action_value AUGMENT_RARE_CLASS \<and> method_id = ''class_weights''"

definition step_type :: "string \<Rightarrow> string \<Rightarrow> string" where
  "step_type action_type method_id =
     (if class_weights_step action_type method_id then ''CONFIGURE_CLASS_WEIGHTS'' else action_type)"

definition output_artifact_kind :: "string \<Rightarrow> string \<Rightarrow> string" where
  "output_artifact_kind action_type method_id =
     (if class_weights_step action_type method_id then ''TRAINING_STRATEGY_CONFIG''
      else ''CANDIDATE_DATASET_VERSION'')"

definition validation_gates_of :: "method_recommendation \<Rightarrow> string \<Rightarrow> string list" where
  "validation_gates_of r method_id =
     (if mr_action_type r = action_value AUGMENT_RARE_CLASS then
        if method_id \<in> set synthetic_methods then SYNTHETIC_VALIDATION_GATES
        else [''schema_validation'', ''business_rules'', MODEL_IMPACT_GATE]
      else BASE_VALIDATION_GATES @ (if mr_model_impact_required r then [MODEL_IMPACT_GATE] else []))"

definition preconditions_of :: "method_recommendation \<Rightarrow> string \<Rightarrow> string list" where
  "preconditions_of r method_id =
     [''source_version_is_immutable'']
     @ (if mr_action_type r = action_value IMPUTE_MISSING_VALUES
        then [''target_column_not_used_for_imputation''] else [])
     @ (if method_id \<in> set synthetic_methods
        then [''train_split_exists'', ''leakage_checks_passed''] else [])"

definition get_or :: "json \<Rightarrow> (string, json) dict \<Rightarrow> string \<Rightarrow> json" where
  "get_or dflt d k = (case dict_get d k of None \<Rightarrow> dflt | Some v \<Rightarrow> v)"

definition step_config :: "method_recommendation \<Rightarrow> string \<Rightarrow> (string, json) dict" where
  "step_config r method_id =
     (if mr_action_type r = action_value IMPUTE_MISSING_VALUES then
        [(''column'', get_or JNull (mr_target r) ''column''),
         (''method'', JStr method_id),
         (''add_missingness_indicator'', JBool True)]
        @ (if method_id = ''group_median''
           then [(''group_key'', get_or (JStr ''customer_segment'') (mr_target r) ''group_key'')] else [])
      else if mr_action_type r = action_value AUGMENT_RARE_CLASS then
        [(''target_column'', get_or JNull (mr_target r) ''target_column''),
         (''rare_class_label'', get_or JNull (mr_target r) ''rare_class_label''),
         (''method'', JStr method_id),
         (''source_split'', if method_id \<in> set synthetic_methods then JStr ''train'' else JNull)]
      else [(''method'', JStr method_id), (''target'', JObj (mr_target r))])"

definition step_key_payload :: "string \<Rightarrow> string list \<Rightarrow> string \<Rightarrow> json" where
  "step_key_payload config_hash depends_on step_id =
     JObj [(''config_hash'', JStr config_hash),
           (''depends_on'', JList (map JStr depends_on)),
           (''step_id'', JStr step_id)]"

section \<open>Preview\<close>

definition recommendations_by_id ::
    "method_recommendation list \<Rightarrow> exn + (string, method_recommendation) dict" where
  "recommendations_by_id rs =
     (let indexed = dict_of (map (\<lambda>r. (mr_recommendation_id r, r)) rs)
      in if length indexed \<noteq> length rs then Inl (preview_error ''duplicate_recommendation_id'')
         else Inr indexed)"

definition selected_recommendation ::
    "(string, method_recommendation) dict \<Rightarrow> string \<Rightarrow> exn + method_recommendation" where
  "selected_recommendation recs selected_id =
     (case dict_get recs selected_id of
        None \<Rightarrow> Inl (preview_error ''selected_decision_not_found'')
      | Some r \<Rightarrow> Inr r)"

definition selectable :: "method_candidate \<Rightarrow> bool" where
  "selectable c \<longleftrightarrow> mc_status c \<in> {MCS_RECOMMENDED, MCS_AVAILABLE} \<and> mc_policy_status c = PS_ENABLED"

definition select_candidate :: "method_recommendation \<Rightarrow> string \<Rightarrow> exn + method_candidate" where
  "select_candidate r method_id =
     (case dict_get (dict_of (map (\<lambda>b. (bm_method_id b, b)) (mr_blocked_methods r))) method_id of
        Some b \<Rightarrow> Inl (preview_policy_error (bm_reason_code b))
      | None \<Rightarrow>
          (case dict_get (candidates_by_id (mr_candidate_methods r)) method_id of
             None \<Rightarrow> Inl (preview_error ''method_candidate_not_found'')
           | Some c \<Rightarrow>
               if \<not> selectable c then Inl (preview_policy_error ''method_not_selectable'') else Inr c))"

definition build_step ::
    "(string \<Rightarrow> string) \<Rightarrow> method_recommendation \<Rightarrow> method_candidate \<Rightarrow> string list \<Rightarrow> string list
     \<Rightarrow> exn + action_plan_step" where
  "build_step sha r candidate depends_on input_artifacts =
     (let method_id = mc_method_id candidate;
          config = step_config r method_id;
          config_hash = stable_hash sha (JObj
            [(''action_type'', JStr (mr_action_type r)), (''config'', JObj config),
             (''method_id'', JStr method_id), (''recommendation_id'', JStr (mr_recommendation_id r))]);
          step_id = step_id_of r method_id
      in validated action_plan_step_valid
           \<lparr>ps_step_id = step_id,
            ps_type = step_type (mr_action_type r) method_id,
            ps_depends_on = depends_on,
            ps_idempotency_key = stable_hash sha (step_key_payload config_hash depends_on step_id),
            ps_method_id = method_id,
            ps_plugin_id = rm_plugin_id (mr_recommended_method r),
            ps_plugin_version = DEFAULT_PLUGIN_VERSION,
            ps_config_hash = config_hash,
            ps_policy_version = mr_policy_version r,
            ps_validation_gates = validation_gates_of r method_id,
            ps_preconditions = preconditions_of r method_id,
            ps_input_artifacts = input_artifacts,
            ps_output_artifact_kind = output_artifact_kind (mr_action_type r) method_id,
            ps_config = config,
            ps_random_seed = random_seed method_id,
            ps_retry_policy = DEFAULT_RETRY_POLICY,
            ps_on_failure = ''fail_plan_keep_artifacts_unpromoted'',
            ps_promotion_scope = ''candidate_only''\<rparr>)"

definition chosen_method :: "preview_request \<Rightarrow> method_recommendation \<Rightarrow> string" where
  "chosen_method req r =
     (case dict_get (pr_selected_method_overrides req) (mr_recommendation_id r) of
        Some m \<Rightarrow> m
      | None \<Rightarrow> rm_method_id (mr_recommended_method r))"

text \<open>One iteration of the loop over the selected recommendations.\<close>

definition add_step ::
    "(string \<Rightarrow> string) \<Rightarrow> preview_request \<Rightarrow> action_plan_step list \<Rightarrow> method_recommendation
     \<Rightarrow> exn + action_plan_step list" where
  "add_step sha req steps r =
     bindR (select_candidate r (chosen_method req r)) (\<lambda>candidate.
     bindR (build_step sha r candidate (if steps = [] then [] else [ps_step_id (last steps)])
              (pr_input_artifacts req)) (\<lambda>s.
     Inr (steps @ [s])))"

definition plan_id_payload :: "preview_request \<Rightarrow> json" where
  "plan_id_payload req = JObj
     [(''decision_report_id'', JStr (pr_decision_report_id req)),
      (''selected_decision_ids'', JList (map JStr (pr_selected_decision_ids req))),
      (''selected_method_overrides'',
         JObj (map (\<lambda>kv. (fst kv, JStr (snd kv))) (pr_selected_method_overrides req))),
      (''source_dataset_version_id'', JStr (pr_source_dataset_version_id req))]"

definition build_action_plan_preview ::
    "(string \<Rightarrow> string) \<Rightarrow> datetime \<Rightarrow> preview_request \<Rightarrow> exn + action_plan" where
  "build_action_plan_preview sha now req =
     bindR (recommendations_by_id (pr_method_recommendations req)) (\<lambda>recommendations.
     bindR (mapR (selected_recommendation recommendations) (pr_selected_decision_ids req)) (\<lambda>selected.
     bindR (foldR (add_step sha req) [] selected) (\<lambda>steps.
     validated action_plan_valid
       \<lparr>ap_action_plan_id = stable_id sha ''action_plan'' (plan_id_payload req),
        ap_plan_schema_version = ACTION_PLAN_SCHEMA_VERSION,
        ap_source_dataset_version_id = pr_source_dataset_version_id req,
        ap_target_version_name =
          (case pr_target_version_name req of
             Some n \<Rightarrow> if n \<noteq> [] then n else pr_source_dataset_version_id req @ ''_candidate_preview''
           | None \<Rightarrow> pr_source_dataset_version_id req @ ''_candidate_preview''),
        ap_created_from_decision_report = pr_decision_report_id req,
        ap_selected_decision_ids = pr_selected_decision_ids req,
        ap_created_by_user_id = pr_created_by_user_id req,
        ap_policy_version = policy_version_of selected,
        ap_requires_approval = list_ex (\<lambda>r. rm_requires_approval (mr_recommended_method r)) selected,
        ap_approval_request_id = None,
        ap_execution_mode = PREVIEW_ACTION_PLAN,
        ap_steps = steps,
        ap_validation_gates = ordered_unique (concat (map ps_validation_gates steps)),
        ap_expected_outputs = ordered_unique (concat (map mr_expected_outputs selected)),
        ap_created_at = (case pr_created_at req of Some t \<Rightarrow> t | None \<Rightarrow> now)\<rparr>)))"

section \<open>Validation before execution\<close>

definition action_plan_integrity_hash :: "(string \<Rightarrow> string) \<Rightarrow> (action_plan \<Rightarrow> json) \<Rightarrow> action_plan \<Rightarrow> string" where
  "action_plan_integrity_hash sha dump plan = stable_hash sha (dump plan)"

definition check_step :: "(string \<Rightarrow> string) \<Rightarrow> action_plan_step \<Rightarrow> exn + unit" where
  "check_step sha s =
     (if ps_idempotency_key s
           \<noteq> stable_hash sha (step_key_payload (ps_config_hash s) (ps_depends_on s) (ps_step_id s))
      then Inl (execution_error ''step_idempotency_key_mismatch'')
      else if ps_promotion_scope s \<noteq> ''candidate_only''
      then Inl (execution_error ''invalid_promotion_scope'')
      else Inr ())"

definition validate_step_integrity :: "(string \<Rightarrow> string) \<Rightarrow> action_plan \<Rightarrow> exn + unit" where
  "validate_step_integrity sha plan =
     bindR (mapR (check_step sha) (ap_steps plan)) (\<lambda>_. Inr ())"

definition mismatched_fields :: "action_plan \<Rightarrow> approval_metadata \<Rightarrow> string \<Rightarrow> string list" where
  "mismatched_fields plan m integrity_hash =
     map fst (filter (\<lambda>(field, expected, actual). actual \<noteq> expected)
       [(''action_plan_id'', ap_action_plan_id plan, am_action_plan_id m),
        (''action_plan_hash'', integrity_hash, am_action_plan_hash m),
        (''decision_report_id'', ap_created_from_decision_report plan, am_decision_report_id m),
        (''source_dataset_version_id'', ap_source_dataset_version_id plan,
           am_source_dataset_version_id m)])"

definition validate_approval_metadata ::
    "action_plan \<Rightarrow> approval_metadata \<Rightarrow> string \<Rightarrow> exn + unit" where
  "validate_approval_metadata plan m integrity_hash =
     (if (case ap_approval_request_id plan of
            None \<Rightarrow> False
          | Some e \<Rightarrow> e \<noteq> [] \<and> am_approval_request_id m \<noteq> e)
      then Inl (approval_error ''approval_request_mismatch'' ACTION_PLAN_SIGNATURE_INVALID 401)
      else if mismatched_fields plan m integrity_hash \<noteq> []
      then Inl (approval_error ''approval_metadata_integrity_mismatch'' ACTION_PLAN_SIGNATURE_INVALID 401)
      else Inr ())"

definition validate_action_plan_execution ::
    "(string \<Rightarrow> string) \<Rightarrow> (action_plan \<Rightarrow> json) \<Rightarrow> execution_request \<Rightarrow> exn + string" where
  "validate_action_plan_execution sha dump req =
     (let plan = er_action_plan req in
      if ap_source_dataset_version_id plan \<noteq> er_source_dataset_version_id req
      then Inl (execution_error ''source_dataset_version_mismatch'')
      else if ap_execution_mode plan \<noteq> PREVIEW_ACTION_PLAN
      then Inl (execution_error ''action_plan_not_preview_mode'')
      else if ap_steps plan = [] then Inl (execution_error ''action_plan_has_no_steps'')
      else bindR (validate_step_integrity sha plan) (\<lambda>_.
        let integrity_hash = action_plan_integrity_hash sha dump plan in
        case er_approval_metadata req of
          None \<Rightarrow>
            if ap_requires_approval plan
            then Inl (approval_error ''approval_metadata_required'' ACTION_PLAN_REQUIRES_APPROVAL 403)
            else Inr integrity_hash
        | Some m \<Rightarrow> bindR (validate_approval_metadata plan m integrity_hash) (\<lambda>_. Inr integrity_hash)))"

section \<open>What a preview admits\<close>

lemma recommendations_by_id_Inr:
  "recommendations_by_id rs = Inr d \<longleftrightarrow>
     distinct (map mr_recommendation_id rs) \<and> d = dict_of (map (\<lambda>r. (mr_recommendation_id r, r)) rs)"
proof -
  have "length (dict_of (map (\<lambda>r. (mr_recommendation_id r, r)) rs)) = length rs
      \<longleftrightarrow> distinct (map mr_recommendation_id rs)"
    using length_dict_of_eq_iff [of "map (\<lambda>r. (mr_recommendation_id r, r)) rs"] by (simp add: o_def)
  then show ?thesis by (auto simp: recommendations_by_id_def Let_def)
qed

lemma dict_of_keyed_Some:
  "dict_get (dict_of (map (\<lambda>x. (key x, x)) xs)) k = Some y \<Longrightarrow> y \<in> set xs \<and> key y = k"
  by (auto simp: dict_get_dict_of dest!: dict_get_Some_in)

lemma dict_of_keyed_None:
  "dict_get (dict_of (map (\<lambda>x. (key x, x)) xs)) k = None \<longleftrightarrow> k \<notin> key ` set xs"
  by (simp add: dict_get_None_iff image_image)

lemma dict_of_keyed_distinct:
  "distinct (map key xs) \<Longrightarrow> x \<in> set xs \<Longrightarrow> dict_get (dict_of (map (\<lambda>x. (key x, x)) xs)) (key x) = Some x"
  by (subst dict_get_dict_of_distinct) (auto simp: o_def intro!: map_of_is_SomeI)

lemma select_candidate_Inr:
  assumes "select_candidate r m = Inr c"
  shows "c \<in> set (mr_candidate_methods r)" "mc_method_id c = m" "selectable c"
    "m \<notin> bm_method_id ` set (mr_blocked_methods r)"
  using assms dict_of_keyed_Some [of mc_method_id "mr_candidate_methods r" m c]
  by (auto simp: select_candidate_def candidates_by_id_def dict_of_keyed_None
      split: option.splits if_splits)

lemma select_candidate_blocked:
  assumes "m \<in> bm_method_id ` set (mr_blocked_methods r)"
  shows "\<exists>b \<in> set (mr_blocked_methods r). bm_method_id b = m
    \<and> select_candidate r m = Inl (preview_policy_error (bm_reason_code b))"
proof -
  have "dict_get (dict_of (map (\<lambda>b. (bm_method_id b, b)) (mr_blocked_methods r))) m \<noteq> None"
    using assms by (simp add: dict_of_keyed_None)
  then show ?thesis
    by (auto simp: select_candidate_def dest: dict_of_keyed_Some)
qed

lemma build_step_Inr:
  assumes "build_step sha r c deps inp = Inr s"
  shows "ps_step_id s = step_id_of r (mc_method_id c)" "ps_depends_on s = deps"
    "ps_method_id s = mc_method_id c" "ps_promotion_scope s = ''candidate_only''"
    "ps_input_artifacts s = inp" "check_step sha s = Inr ()" "action_plan_step_valid s"
    "ps_validation_gates s = validation_gates_of r (mc_method_id c)"
    "ps_policy_version s = mr_policy_version r"
    "ps_plugin_id s = rm_plugin_id (mr_recommended_method r)"
    "ps_type s = step_type (mr_action_type r) (mc_method_id c)"
  using assms by (auto simp: build_step_def Let_def result_simps check_step_def)

text \<open>What the step at one position of the plan says of the recommendation it was built from.\<close>

definition step_for :: "preview_request \<Rightarrow> method_recommendation \<Rightarrow> action_plan_step \<Rightarrow> bool" where
  "step_for req r s \<longleftrightarrow>
     ps_method_id s = chosen_method req r
     \<and> ps_type s = step_type (mr_action_type r) (chosen_method req r)
     \<and> ps_step_id s = step_id_of r (chosen_method req r)
     \<and> ps_input_artifacts s = pr_input_artifacts req
     \<and> ps_validation_gates s = validation_gates_of r (chosen_method req r)
     \<and> ps_promotion_scope s = ''candidate_only''
     \<and> chosen_method req r \<notin> bm_method_id ` set (mr_blocked_methods r)
     \<and> (\<exists>c \<in> set (mr_candidate_methods r). mc_method_id c = chosen_method req r
          \<and> mc_status c \<in> {MCS_RECOMMENDED, MCS_AVAILABLE} \<and> mc_policy_status c = PS_ENABLED)"

fun chained :: "action_plan_step list \<Rightarrow> bool" where
  "chained [] = True"
| "chained [s] = True"
| "chained (s # t # ss) = (ps_depends_on t = [ps_step_id s] \<and> chained (t # ss))"

definition linear :: "action_plan_step list \<Rightarrow> bool" where
  "linear ss \<longleftrightarrow> (ss = [] \<or> ps_depends_on (hd ss) = []) \<and> chained ss"

lemma chained_snoc:
  "chained (ss @ [s]) \<longleftrightarrow> chained ss \<and> (ss = [] \<or> ps_depends_on s = [ps_step_id (last ss)])"
  by (induction ss rule: chained.induct) auto

lemma linear_snoc:
  "linear ss \<Longrightarrow> ps_depends_on s = (if ss = [] then [] else [ps_step_id (last ss)]) \<Longrightarrow> linear (ss @ [s])"
  by (cases "ss = []") (auto simp: linear_def chained_snoc)

lemma add_step_Inr:
  assumes "add_step sha req steps r = Inr steps'"
  shows "\<exists>s. steps' = steps @ [s] \<and> step_for req r s \<and> check_step sha s = Inr ()
    \<and> ps_depends_on s = (if steps = [] then [] else [ps_step_id (last steps)])"
proof -
  from assms obtain c s where c: "select_candidate r (chosen_method req r) = Inr c"
    and s: "build_step sha r c (if steps = [] then [] else [ps_step_id (last steps)])
              (pr_input_artifacts req) = Inr s" and st: "steps' = steps @ [s]"
    by (auto simp: add_step_def result_simps)
  from select_candidate_Inr [OF c] build_step_Inr [OF s] st show ?thesis
    by (auto simp: step_for_def selectable_def)
qed

lemma foldR_add_step:
  assumes "foldR (add_step sha req) steps rs = Inr steps'"
  shows "\<exists>new. steps' = steps @ new \<and> list_all2 (step_for req) rs new
    \<and> (\<forall>s \<in> set new. check_step sha s = Inr ()) \<and> (linear steps \<longrightarrow> linear steps')"
  using assms
proof (induction rs arbitrary: steps)
  case (Cons r rs)
  then obtain mid where mid: "add_step sha req steps r = Inr mid"
    and rest: "foldR (add_step sha req) mid rs = Inr steps'" by (auto simp: result_simps)
  from add_step_Inr [OF mid] obtain s where s: "mid = steps @ [s]" "step_for req r s"
    "check_step sha s = Inr ()" "ps_depends_on s = (if steps = [] then [] else [ps_step_id (last steps)])"
    by blast
  from Cons.IH [OF rest] obtain new where "steps' = mid @ new" "list_all2 (step_for req) rs new"
    "\<forall>s \<in> set new. check_step sha s = Inr ()" "linear mid \<longrightarrow> linear steps'" by blast
  with s linear_snoc [of steps s] show ?case
    by (intro exI [of _ "s # new"]) auto
qed simp

text \<open>The recommendations selected by a request, in the order of the selected ids.\<close>

definition selected_for :: "preview_request \<Rightarrow> method_recommendation list \<Rightarrow> bool" where
  "selected_for req sel \<longleftrightarrow>
     map mr_recommendation_id sel = pr_selected_decision_ids req
     \<and> set sel \<subseteq> set (pr_method_recommendations req)"

lemma selected_recommendation_Inr:
  "selected_recommendation d i = Inr r \<longleftrightarrow> dict_get d i = Some r"
  by (auto simp: selected_recommendation_def split: option.splits)

lemma mapR_selected:
  assumes "mapR (selected_recommendation (dict_of (map (\<lambda>r. (mr_recommendation_id r, r)) rs))) ids = Inr sel"
  shows "map mr_recommendation_id sel = ids \<and> set sel \<subseteq> set rs"
  using assms
proof (induction ids arbitrary: sel)
  case (Cons i ids)
  then obtain r sel' where r: "dict_get (dict_of (map (\<lambda>r. (mr_recommendation_id r, r)) rs)) i = Some r"
    and sel: "sel = r # sel'"
      "mapR (selected_recommendation (dict_of (map (\<lambda>r. (mr_recommendation_id r, r)) rs))) ids = Inr sel'"
    by (auto simp: result_simps selected_recommendation_Inr)
  show ?case using Cons.IH [OF sel(2)] sel(1) dict_of_keyed_Some [OF r] by auto
qed simp

lemma build_preview_Inr:
  assumes "build_action_plan_preview sha now req = Inr p"
  shows "\<exists>sel. selected_for req sel \<and> list_all2 (step_for req) sel (ap_steps p)
    \<and> linear (ap_steps p) \<and> (\<forall>s \<in> set (ap_steps p). check_step sha s = Inr ())
    \<and> distinct (map mr_recommendation_id (pr_method_recommendations req))
    \<and> ap_policy_version p = policy_version_of sel
    \<and> ap_requires_approval p = (\<exists>r \<in> set sel. rm_requires_approval (mr_recommended_method r))
    \<and> ap_expected_outputs p = ordered_unique (concat (map mr_expected_outputs sel))
    \<and> ap_validation_gates p = ordered_unique (concat (map ps_validation_gates (ap_steps p)))
    \<and> action_plan_valid p"
proof -
  let ?d = "dict_of (map (\<lambda>r. (mr_recommendation_id r, r)) (pr_method_recommendations req))"
  from assms obtain sel steps where dist: "distinct (map mr_recommendation_id (pr_method_recommendations req))"
    and sel: "mapR (selected_recommendation ?d) (pr_selected_decision_ids req) = Inr sel"
    and steps: "foldR (add_step sha req) [] sel = Inr steps"
    and p: "ap_steps p = steps" "action_plan_valid p" "ap_policy_version p = policy_version_of sel"
      "ap_requires_approval p = (\<exists>r \<in> set sel. rm_requires_approval (mr_recommended_method r))"
      "ap_expected_outputs p = ordered_unique (concat (map mr_expected_outputs sel))"
      "ap_validation_gates p = ordered_unique (concat (map ps_validation_gates steps))"
    by (auto simp: build_action_plan_preview_def result_simps recommendations_by_id_Inr list_ex_iff)
  from foldR_add_step [OF steps] have "list_all2 (step_for req) sel steps"
    "\<forall>s \<in> set steps. check_step sha s = Inr ()" "linear steps"
    by (auto simp: linear_def)
  with mapR_selected [OF sel] dist p show ?thesis
    by (intro exI [of _ sel]) (simp add: selected_for_def)
qed

lemma build_preview_fields:
  assumes "build_action_plan_preview sha now req = Inr p"
  shows "ap_source_dataset_version_id p = pr_source_dataset_version_id req"
    "ap_created_from_decision_report p = pr_decision_report_id req"
    "ap_selected_decision_ids p = pr_selected_decision_ids req"
    "ap_approval_request_id p = None" "ap_execution_mode p = PREVIEW_ACTION_PLAN"
    "ap_action_plan_id p = stable_id sha ''action_plan'' (plan_id_payload req)"
  using assms by (auto simp: build_action_plan_preview_def result_simps)

section \<open>What execution accepts\<close>

lemma mismatched_fields_Nil_iff:
  "mismatched_fields plan m h = [] \<longleftrightarrow>
     am_action_plan_id m = ap_action_plan_id plan \<and> am_action_plan_hash m = h
     \<and> am_decision_report_id m = ap_created_from_decision_report plan
     \<and> am_source_dataset_version_id m = ap_source_dataset_version_id plan"
  by (simp add: mismatched_fields_def)

lemma validate_approval_metadata_Inr:
  "validate_approval_metadata plan m h = Inr u \<longleftrightarrow>
     (\<forall>e. ap_approval_request_id plan = Some e \<longrightarrow> e = [] \<or> am_approval_request_id m = e)
     \<and> mismatched_fields plan m h = []"
  by (auto simp: validate_approval_metadata_def split: option.splits)

lemma check_step_Inr:
  "check_step sha s = Inr u \<longleftrightarrow>
     ps_idempotency_key s = stable_hash sha (step_key_payload (ps_config_hash s) (ps_depends_on s) (ps_step_id s))
     \<and> ps_promotion_scope s = ''candidate_only''"
  by (auto simp: check_step_def)

lemma validate_step_integrity_Inr:
  "validate_step_integrity sha plan = Inr u \<longleftrightarrow> (\<forall>s \<in> set (ap_steps plan). check_step sha s = Inr ())"
proof
  assume "validate_step_integrity sha plan = Inr u"
  then show "\<forall>s \<in> set (ap_steps plan). check_step sha s = Inr ()"
    by (auto simp: validate_step_integrity_def result_simps dest: mapR_const_unit)
next
  assume "\<forall>s \<in> set (ap_steps plan). check_step sha s = Inr ()"
  then have "mapR (check_step sha) (ap_steps plan) = Inr (map (\<lambda>_. ()) (ap_steps plan))"
    by (intro mapR_all_ok) simp
  then show "validate_step_integrity sha plan = Inr u"
    by (simp add: validate_step_integrity_def)
qed

lemma validate_execution_Inr:
  "validate_action_plan_execution sha dump req = Inr h \<longleftrightarrow>
     ap_source_dataset_version_id (er_action_plan req) = er_source_dataset_version_id req
     \<and> ap_execution_mode (er_action_plan req) = PREVIEW_ACTION_PLAN
     \<and> ap_steps (er_action_plan req) \<noteq> []
     \<and> (\<forall>s \<in> set (ap_steps (er_action_plan req)). check_step sha s = Inr ())
     \<and> h = action_plan_integrity_hash sha dump (er_action_plan req)
     \<and> (case er_approval_metadata req of
          None \<Rightarrow> \<not> ap_requires_approval (er_action_plan req)
        | Some m \<Rightarrow> validate_approval_metadata (er_action_plan req) m h = Inr ())"
  unfolding validate_action_plan_execution_def Let_def
  by (auto simp: result_simps validate_step_integrity_Inr split: option.split)

section \<open>When a preview is returned\<close>

text \<open>The chosen method is a candidate the policy leaves selectable, and it is not blocked.\<close>

definition method_admitted :: "preview_request \<Rightarrow> method_recommendation \<Rightarrow> bool" where
  "method_admitted req r \<longleftrightarrow>
     chosen_method req r \<notin> bm_method_id ` set (mr_blocked_methods r)
     \<and> (case dict_get (candidates_by_id (mr_candidate_methods r)) (chosen_method req r) of
          None \<Rightarrow> False | Some c \<Rightarrow> selectable c)"

lemma select_candidate_ok_iff:
  "(\<exists>c. select_candidate r (chosen_method req r) = Inr c) \<longleftrightarrow> method_admitted req r"
  using dict_of_keyed_Some [of bm_method_id "mr_blocked_methods r" "chosen_method req r"]
  by (fastforce simp: select_candidate_def method_admitted_def dict_of_keyed_None
      split: option.splits)

lemma slug_ne [simp]: "slug v \<noteq> []"
  by (simp add: slug_def slug_or_ne)

lemma build_step_ok:
  assumes "hex64 sha" "method_recommendation_valid r" "c \<in> set (mr_candidate_methods r)"
    "list_all s3_uri inp" "list_all non_empty deps"
  shows "\<exists>s. build_step sha r c deps inp = Inr s"
proof -
  from assms(2,3) have c: "non_empty (mc_method_id c)" "non_empty (mr_action_type r)"
    "non_empty (mr_policy_version r)" "non_empty (rm_plugin_id (mr_recommended_method r))"
    by (auto simp: method_recommendation_valid_def method_candidate_valid_def list_all_iff
        recommended_method_valid_def)
  have "list_all non_empty (validation_gates_of r (mc_method_id c))"
    by (auto simp: validation_gates_of_def SYNTHETIC_VALIDATION_GATES_def MODEL_IMPACT_GATE_def
        BASE_VALIDATION_GATES_def non_empty_def)
  moreover have "list_all non_empty (preconditions_of r (mc_method_id c))"
    by (auto simp: preconditions_of_def non_empty_def)
  ultimately show ?thesis using assms(1,4,5) c
    by (simp add: build_step_def Let_def action_plan_step_valid_def result_simps retry_policy_valid_def
        DEFAULT_RETRY_POLICY_def DEFAULT_PLUGIN_VERSION_def non_empty_def step_type_def
        output_artifact_kind_def step_id_of_def)
qed

lemma add_step_ok:
  assumes "hex64 sha" "method_recommendation_valid r" "list_all s3_uri (pr_input_artifacts req)"
    "list_all (\<lambda>s. non_empty (ps_step_id s)) steps" "method_admitted req r"
  shows "\<exists>s. add_step sha req steps r = Inr (steps @ [s]) \<and> non_empty (ps_step_id s)
    \<and> action_plan_step_valid s"
proof -
  from assms(5) obtain c where c: "select_candidate r (chosen_method req r) = Inr c"
    using select_candidate_ok_iff by blast
  have "list_all non_empty (if steps = [] then [] else [ps_step_id (last steps)])"
    using assms(4) by (auto simp: list_all_iff)
  from build_step_ok [OF assms(1,2) select_candidate_Inr(1) [OF c] assms(3) this]
  obtain s where s: "build_step sha r c (if steps = [] then [] else [ps_step_id (last steps)])
      (pr_input_artifacts req) = Inr s" by blast
  from build_step_Inr [OF s] c s show ?thesis
    by (auto simp: add_step_def non_empty_def step_id_of_def)
qed

lemma foldR_add_step_ok:
  assumes "hex64 sha" "list_all method_recommendation_valid sel" "list_all s3_uri (pr_input_artifacts req)"
    "list_all action_plan_step_valid steps" "list_all (method_admitted req) sel"
  shows "\<exists>steps'. foldR (add_step sha req) steps sel = Inr steps' \<and> list_all action_plan_step_valid steps'"
  using assms(2,4,5)
proof (induction sel arbitrary: steps)
  case (Cons r sel)
  then have ne: "list_all (\<lambda>s. non_empty (ps_step_id s)) steps"
    by (auto simp: list_all_iff action_plan_step_valid_def)
  from Cons.prems have "method_recommendation_valid r" "method_admitted req r" by auto
  from add_step_ok [OF assms(1) this(1) assms(3) ne this(2)]
  obtain s where s: "add_step sha req steps r = Inr (steps @ [s])" "action_plan_step_valid s" by blast
  then show ?case using Cons.IH [of "steps @ [s]"] Cons.prems by simp
qed simp

lemma foldR_add_step_admitted:
  assumes "foldR (add_step sha req) steps sel = Inr steps'" "r \<in> set sel"
  shows "method_admitted req r"
  using assms
proof (induction sel arbitrary: steps)
  case (Cons q sel)
  then show ?case using select_candidate_ok_iff [of q req]
    by (auto simp: result_simps add_step_def)
qed simp

lemma chained_depends:
  "chained ss \<Longrightarrow> s \<in> set (tl ss) \<Longrightarrow> \<exists>t \<in> set ss. ps_depends_on s = [ps_step_id t]"
  by (induction ss rule: chained.induct) auto

lemma linear_depends:
  assumes "linear ss" "s \<in> set ss"
  shows "set (ps_depends_on s) \<subseteq> set (map ps_step_id ss)"
proof (cases ss)
  case (Cons t ts)
  then show ?thesis using assms chained_depends [of ss s] by (auto simp: linear_def)
qed (use assms in simp)

lemma step_ids_of_steps:
  "list_all2 (step_for req) sel steps \<Longrightarrow> map ps_step_id steps = map (\<lambda>r. step_id_of r (chosen_method req r)) sel"
  by (induction rule: list_all2_induct) (auto simp: step_for_def)

lemma policy_version_of_ne:
  assumes "list_all (\<lambda>r. non_empty (mr_policy_version r)) sel"
  shows "non_empty (policy_version_of sel)"
proof -
  let ?v = "ordered_unique (map mr_policy_version sel)"
  have "length ?v = 1 \<Longrightarrow> hd ?v \<in> mr_policy_version ` set sel"
    by (metis hd_in_set length_0_conv ordered_unique.dd_set set_map zero_neq_one)
  with assms have "length ?v = 1 \<Longrightarrow> non_empty (hd ?v)"
    by (auto simp: list_all_iff)
  then show ?thesis
    by (simp add: policy_version_of_def Let_def non_empty_def)
qed

lemma list_all_ordered_unique: "list_all P xs \<Longrightarrow> list_all P (ordered_unique xs)"
  by (simp add: list_all_iff)

lemma mapR_selected_ok:
  assumes dist: "distinct (map mr_recommendation_id rs)" and "set sel \<subseteq> set rs"
  shows "mapR (selected_recommendation (dict_of (map (\<lambda>r. (mr_recommendation_id r, r)) rs)))
    (map mr_recommendation_id sel) = Inr sel"
  using assms(2)
  by (induction sel) (simp_all add: selected_recommendation_def dict_of_keyed_distinct [OF dist])

lemma plan_valid_of_steps:
  assumes req: "preview_request_valid req" and sha: "hex64 sha" and sel: "selected_for req sel"
    and steps: "list_all2 (step_for req) sel steps" "linear steps" "list_all action_plan_step_valid steps"
    and dist: "distinct (map (\<lambda>r. step_id_of r (chosen_method req r)) sel)"
    and p: "ap_action_plan_id p = stable_id sha ''action_plan'' (plan_id_payload req)"
      "ap_plan_schema_version p = ACTION_PLAN_SCHEMA_VERSION"
      "ap_source_dataset_version_id p = pr_source_dataset_version_id req"
      "ap_target_version_name p \<noteq> []" "ap_created_from_decision_report p = pr_decision_report_id req"
      "ap_selected_decision_ids p = pr_selected_decision_ids req"
      "ap_created_by_user_id p = pr_created_by_user_id req" "ap_policy_version p = policy_version_of sel"
      "ap_steps p = steps" "ap_validation_gates p = ordered_unique (concat (map ps_validation_gates steps))"
      "ap_expected_outputs p = ordered_unique (concat (map mr_expected_outputs sel))"
  shows "action_plan_valid p"
proof -
  have recs: "list_all method_recommendation_valid sel"
    using req sel by (auto simp: preview_request_valid_def selected_for_def list_all_iff)
  then have "list_all (\<lambda>r. non_empty (mr_policy_version r)) sel"
    by (auto simp: list_all_iff method_recommendation_valid_def)
  note pv = policy_version_of_ne [OF this]
  have gates: "list_all non_empty (ordered_unique (concat (map ps_validation_gates steps)))"
    using steps(3) by (intro list_all_ordered_unique) (auto simp: list_all_iff action_plan_step_valid_def)
  have outs: "list_all non_empty (ordered_unique (concat (map mr_expected_outputs sel)))"
    using recs by (intro list_all_ordered_unique) (auto simp: list_all_iff method_recommendation_valid_def)
  have deps: "step_dependencies_ok steps"
    using dist steps linear_depends [OF steps(2)]
    by (auto simp: step_dependencies_ok_iff step_ids_of_steps)
  show ?thesis using p pv gates outs deps steps(3) req
    by (simp add: action_plan_valid_def preview_request_valid_def ACTION_PLAN_SCHEMA_VERSION_def
        non_empty_def stable_id_def)
qed

lemma build_preview_ok_iff:
  assumes req: "preview_request_valid req" and sha: "hex64 sha"
  shows "is_ok (build_action_plan_preview sha now req) \<longleftrightarrow>
     distinct (map mr_recommendation_id (pr_method_recommendations req))
     \<and> (\<exists>sel. selected_for req sel \<and> list_all (method_admitted req) sel
          \<and> distinct (map (\<lambda>r. step_id_of r (chosen_method req r)) sel))"
proof
  assume "is_ok (build_action_plan_preview sha now req)"
  then obtain p where p: "build_action_plan_preview sha now req = Inr p" by (auto simp: is_ok_iff)
  from build_preview_Inr [OF p] obtain sel where sel: "selected_for req sel"
    "list_all2 (step_for req) sel (ap_steps p)" "action_plan_valid p"
    "distinct (map mr_recommendation_id (pr_method_recommendations req))" by blast
  have "distinct (map (\<lambda>r. step_id_of r (chosen_method req r)) sel)"
    using sel(3) step_ids_of_steps [OF sel(2)] by (simp add: action_plan_valid_def step_dependencies_ok_iff)
  moreover have "list_all (method_admitted req) sel"
  proof -
    from p obtain sel' steps where
      "mapR (selected_recommendation (dict_of (map (\<lambda>r. (mr_recommendation_id r, r))
          (pr_method_recommendations req)))) (pr_selected_decision_ids req) = Inr sel'"
      "foldR (add_step sha req) [] sel' = Inr steps"
      by (auto simp: build_action_plan_preview_def result_simps recommendations_by_id_Inr)
    moreover have "sel' = sel"
      using mapR_selected_ok [OF sel(4), of sel] sel(1) calculation(1) by (simp add: selected_for_def)
    ultimately show ?thesis using foldR_add_step_admitted by (auto simp: list_all_iff)
  qed
  ultimately show "distinct (map mr_recommendation_id (pr_method_recommendations req))
     \<and> (\<exists>sel. selected_for req sel \<and> list_all (method_admitted req) sel
          \<and> distinct (map (\<lambda>r. step_id_of r (chosen_method req r)) sel))"
    using sel by blast
next
  assume "distinct (map mr_recommendation_id (pr_method_recommendations req))
     \<and> (\<exists>sel. selected_for req sel \<and> list_all (method_admitted req) sel
          \<and> distinct (map (\<lambda>r. step_id_of r (chosen_method req r)) sel))"
  then obtain sel where dist: "distinct (map mr_recommendation_id (pr_method_recommendations req))"
    and sel: "selected_for req sel" "list_all (method_admitted req) sel"
      "distinct (map (\<lambda>r. step_id_of r (chosen_method req r)) sel)" by blast
  have valid: "list_all method_recommendation_valid sel" "list_all s3_uri (pr_input_artifacts req)"
    using req sel(1) by (auto simp: preview_request_valid_def selected_for_def list_all_iff)
  obtain steps where steps: "foldR (add_step sha req) [] sel = Inr steps" "list_all action_plan_step_valid steps"
    using foldR_add_step_ok [OF sha valid, of "[]"] sel(2) by auto
  have shape: "list_all2 (step_for req) sel steps" "linear steps"
    using foldR_add_step [OF steps(1)] by (auto simp: linear_def)
  have tgt: "\<And>n. pr_target_version_name req = Some n \<Longrightarrow> n \<noteq> []"
    using req by (auto simp: preview_request_valid_def non_empty_def)
  have found: "mapR (selected_recommendation (dict_of (map (\<lambda>r. (mr_recommendation_id r, r))
      (pr_method_recommendations req)))) (pr_selected_decision_ids req) = Inr sel"
    using mapR_selected_ok [OF dist, of sel] sel(1) by (simp add: selected_for_def)
  have "recommendations_by_id (pr_method_recommendations req)
      = Inr (dict_of (map (\<lambda>r. (mr_recommendation_id r, r)) (pr_method_recommendations req)))"
    using dist by (simp add: recommendations_by_id_Inr)
  with found steps(1) show "is_ok (build_action_plan_preview sha now req)"
    unfolding build_action_plan_preview_def
    by (simp, subst validated_ok, intro plan_valid_of_steps [OF req sha sel(1) shape steps(2) sel(3)])
      (auto split: option.splits)
qed

section \<open>A sample request\<close>

definition sample_recommendation :: "string \<Rightarrow> string \<Rightarrow> string \<Rightarrow> method_recommendation" where
  "sample_recommendation rid issue m =
     \<lparr>mr_recommendation_id = rid, mr_issue_id = issue, mr_action_type = ''IMPUTE_MISSING_VALUES'',
      mr_policy_version = ''method_policy.v1'', mr_target = [(''column'', JStr ''age'')],
      mr_recommended_method = \<lparr>rm_method_id = m, rm_plugin_id = ''tabular.imputation'',
        rm_readiness_level = 1, rm_requires_approval = True, rm_reason_codes = []\<rparr>,
      mr_candidate_methods =
        [\<lparr>mc_method_id = m, mc_status = MCS_RECOMMENDED, mc_quality_score = None, mc_risk_score = None,
          mc_method_score = \<lparr>ms_value = 0, ms_policy_version = ''v'', ms_formula = ''f'',
            ms_notation_formula = ''n'', ms_formula_weights = [], ms_components = [],
            ms_weighted_components = [], ms_policy_component_weights = [], ms_reason_codes = []\<rparr>,
          mc_policy_status = PS_ENABLED, mc_reason = None\<rparr>],
      mr_blocked_methods = [], mr_expected_outputs = [''candidate''], mr_model_impact_required = False\<rparr>"

definition sample_request :: "string list \<Rightarrow> preview_request" where
  "sample_request ids =
     \<lparr>pr_decision_report_id = ''dr_1'', pr_source_dataset_version_id = ''v_1'',
      pr_selected_decision_ids = ids, pr_selected_method_overrides = [],
      pr_method_recommendations =
        [sample_recommendation ''r1'' ''i1'' ''median'', sample_recommendation ''r2'' ''i2'' ''group_median''],
      pr_created_by_user_id = ''u'', pr_input_artifacts = [''s3://b/k''],
      pr_target_version_name = None, pr_created_at = Some 7\<rparr>"

definition sample_plan :: action_plan where
  "sample_plan = projr (build_action_plan_preview toy_sha 0 (sample_request [''r1'', ''r2'']))"

lemmas sample_defs = sample_request_def sample_recommendation_def

lemma sample_request_valid: "preview_request_valid (sample_request [''r1'', ''r2''])"
  by code_simp

lemma sample_admitted:
  "is_ok (build_action_plan_preview toy_sha 0 (sample_request [''r1'', ''r2'']))"
proof -
  let ?sel = "pr_method_recommendations (sample_request [''r1'', ''r2''])"
  have "selected_for (sample_request [''r1'', ''r2'']) ?sel"
    by (simp add: selected_for_def sample_defs)
  moreover have "list_all (method_admitted (sample_request [''r1'', ''r2''])) ?sel"
    by code_simp
  moreover have "distinct (map (\<lambda>r. step_id_of r (chosen_method (sample_request [''r1'', ''r2'']) r)) ?sel)"
    by code_simp
  ultimately show ?thesis
    using build_preview_ok_iff [OF sample_request_valid hex64_toy_sha] by (auto simp: sample_defs)
qed

lemma sample_plan: "build_action_plan_preview toy_sha 0 (sample_request [''r1'', ''r2'']) = Inr sample_plan"
  using sample_admitted by (auto simp: sample_plan_def is_ok_iff)

section \<open>Properties\<close>

definition approval_for :: "action_plan \<Rightarrow> string \<Rightarrow> approval_metadata" where
  "approval_for p h =
     \<lparr>am_approval_id = ''a'', am_approval_request_id = ''ar'', am_approved_by_user_id = ''u'',
      am_approved_at = 9, am_action_plan_id = ap_action_plan_id p, am_action_plan_hash = h,
      am_decision_report_id = ap_created_from_decision_report p,
      am_source_dataset_version_id = ap_source_dataset_version_id p\<rparr>"

lemma approval_for_ok:
  "ap_approval_request_id p = None \<Longrightarrow> validate_approval_metadata p (approval_for p h) h = Inr ()"
  by (simp add: validate_approval_metadata_Inr mismatched_fields_Nil_iff approval_for_def)

text \<open>C2: A returned preview consists of exactly one step per selected recommendation, in the
  order of the selected ids: each step runs the overridden or recommended method, which is a
  selectable (recommended or available, policy-enabled) and unblocked candidate of that
  recommendation; every step may only produce candidates; the steps form one dependency chain
  with distinct step ids; and the plan requires approval exactly when one of the selected
  recommendations does.\<close>

theorem preview_plan_sound:
  assumes "build_action_plan_preview sha now req = Inr p"
  shows "\<exists>sel. selected_for req sel \<and> list_all2 (step_for req) sel (ap_steps p)
    \<and> linear (ap_steps p) \<and> distinct (map ps_step_id (ap_steps p))
    \<and> ap_requires_approval p = (\<exists>r \<in> set sel. rm_requires_approval (mr_recommended_method r))"
proof -
  from build_preview_Inr [OF assms] obtain sel where "selected_for req sel"
    "list_all2 (step_for req) sel (ap_steps p)" "linear (ap_steps p)" "action_plan_valid p"
    "ap_requires_approval p = (\<exists>r \<in> set sel. rm_requires_approval (mr_recommended_method r))"
    by blast
  then show ?thesis
    by (intro exI [of _ sel]) (simp add: action_plan_valid_def step_dependencies_ok_iff)
qed

lemma preview_plan_sound_witness:
  "\<exists>sel. selected_for (sample_request [''r1'', ''r2'']) sel
    \<and> list_all2 (step_for (sample_request [''r1'', ''r2''])) sel (ap_steps sample_plan)
    \<and> linear (ap_steps sample_plan) \<and> distinct (map ps_step_id (ap_steps sample_plan))
    \<and> ap_requires_approval sample_plan = (\<exists>r \<in> set sel. rm_requires_approval (mr_recommended_method r))"
  by (rule preview_plan_sound [OF sample_plan])

text \<open>For a well-formed request, a preview is returned if and only if the recommendation ids
  are distinct, every selected id names a recommendation whose chosen method is admitted, and the
  slugs that become step ids are distinct; in every other case an exception is raised.\<close>

theorem preview_returned_iff:
  assumes "preview_request_valid req" and "hex64 sha"
  shows "is_ok (build_action_plan_preview sha now req) \<longleftrightarrow>
     distinct (map mr_recommendation_id (pr_method_recommendations req))
     \<and> (\<exists>sel. selected_for req sel \<and> list_all (method_admitted req) sel
          \<and> distinct (map (\<lambda>r. step_id_of r (chosen_method req r)) sel))"
  using assms by (rule build_preview_ok_iff)

lemma preview_returned_iff_witness:
  "is_ok (build_action_plan_preview toy_sha 0 (sample_request [''r1'', ''r2''])) \<longleftrightarrow>
     distinct (map mr_recommendation_id (pr_method_recommendations (sample_request [''r1'', ''r2''])))
     \<and> (\<exists>sel. selected_for (sample_request [''r1'', ''r2'']) sel
          \<and> list_all (method_admitted (sample_request [''r1'', ''r2''])) sel
          \<and> distinct (map (\<lambda>r. step_id_of r (chosen_method (sample_request [''r1'', ''r2'']) r)) sel))"
  by (rule preview_returned_iff [OF sample_request_valid hex64_toy_sha])

text \<open>Round trip with the execution check: a returned preview with at least one step is
  accepted for execution, with its integrity hash as the result, under any approval that carries
  the plan's id, hash, decision report and source version; and without approval it is accepted
  exactly when it does not require one.\<close>

theorem preview_accepted_for_execution:
  assumes p: "build_action_plan_preview sha now req = Inr p" and ne: "pr_selected_decision_ids req \<noteq> []"
    and m: "mismatched_fields p m (action_plan_integrity_hash sha dump p) = []"
  shows "validate_action_plan_execution sha dump
      \<lparr>er_action_plan = p, er_source_dataset_version_id = pr_source_dataset_version_id req,
       er_approval_metadata = Some m\<rparr> = Inr (action_plan_integrity_hash sha dump p)
    \<and> is_ok (validate_action_plan_execution sha dump
      \<lparr>er_action_plan = p, er_source_dataset_version_id = pr_source_dataset_version_id req,
       er_approval_metadata = None\<rparr>) = (\<not> ap_requires_approval p)"
proof -
  from build_preview_Inr [OF p] obtain sel where sel: "selected_for req sel"
    "list_all2 (step_for req) sel (ap_steps p)" "\<forall>s \<in> set (ap_steps p). check_step sha s = Inr ()"
    by blast
  then have "ap_steps p \<noteq> []" using ne by (auto simp: selected_for_def)
  then show ?thesis using sel m
    by (auto simp: validate_execution_Inr is_ok_iff build_preview_fields [OF p]
        validate_approval_metadata_Inr)
qed

lemma preview_accepted_for_execution_witness:
  "validate_action_plan_execution toy_sha (\<lambda>_. JNull)
      \<lparr>er_action_plan = sample_plan, er_source_dataset_version_id = ''v_1'',
       er_approval_metadata = Some (approval_for sample_plan
         (action_plan_integrity_hash toy_sha (\<lambda>_. JNull) sample_plan))\<rparr>
    = Inr (action_plan_integrity_hash toy_sha (\<lambda>_. JNull) sample_plan)"
  using preview_accepted_for_execution [OF sample_plan, of "approval_for sample_plan
      (action_plan_integrity_hash toy_sha (\<lambda>_. JNull) sample_plan)" "\<lambda>_. JNull"]
  by (simp add: mismatched_fields_Nil_iff approval_for_def sample_request_def)

text \<open>C40: Everything accepted for execution is a non-empty preview plan of the requested source
  version whose steps are all candidate-only with intact idempotency keys; the result is the hash
  of the whole plan; a plan that requires approval is accepted only with metadata that names the
  plan, its hash, its decision report and its source version.\<close>

theorem accepted_execution_sound:
  assumes "validate_action_plan_execution sha dump req = Inr h" and "er_action_plan req = p"
  shows "ap_source_dataset_version_id p = er_source_dataset_version_id req
    \<and> ap_execution_mode p = PREVIEW_ACTION_PLAN \<and> ap_steps p \<noteq> []
    \<and> list_all (\<lambda>s. ps_promotion_scope s = ''candidate_only''
        \<and> ps_idempotency_key s = stable_hash sha
            (step_key_payload (ps_config_hash s) (ps_depends_on s) (ps_step_id s))) (ap_steps p)
    \<and> h = stable_hash sha (dump p)
    \<and> (ap_requires_approval p \<longrightarrow> (\<exists>m. er_approval_metadata req = Some m \<and> am_action_plan_hash m = h
         \<and> am_action_plan_id m = ap_action_plan_id p
         \<and> am_decision_report_id m = ap_created_from_decision_report p
         \<and> am_source_dataset_version_id m = er_source_dataset_version_id req))"
  using assms
  by (auto simp: validate_execution_Inr check_step_Inr list_all_iff action_plan_integrity_hash_def
      validate_approval_metadata_Inr mismatched_fields_Nil_iff split: option.splits)

lemma sample_plan_accepted:
  "validate_action_plan_execution toy_sha (\<lambda>_. JNull)
      \<lparr>er_action_plan = sample_plan, er_source_dataset_version_id = ''v_1'',
       er_approval_metadata = Some (approval_for sample_plan
         (action_plan_integrity_hash toy_sha (\<lambda>_. JNull) sample_plan))\<rparr>
    = Inr (action_plan_integrity_hash toy_sha (\<lambda>_. JNull) sample_plan)"
proof -
  from build_preview_Inr [OF sample_plan] have "\<forall>s \<in> set (ap_steps sample_plan). check_step toy_sha s = Inr ()"
    "ap_steps sample_plan \<noteq> []"
    by (auto simp: selected_for_def sample_request_def)
  then show ?thesis
    using build_preview_fields [OF sample_plan]
    by (auto simp: validate_execution_Inr approval_for_ok sample_request_def)
qed

lemma accepted_execution_sound_witness: "ap_steps sample_plan \<noteq> []"
  using accepted_execution_sound [OF sample_plan_accepted, of sample_plan] by simp

text \<open>C1: Tamper evidence: one approval cannot carry two different plans into execution. If two
  plans that require approval are both accepted under the same metadata, their JSON dumps are the
  same value, or the two canonical texts are an explicit SHA-256 collision.\<close>

theorem approval_binds_plan:
  assumes "validate_action_plan_execution sha dump
      \<lparr>er_action_plan = p, er_source_dataset_version_id = v, er_approval_metadata = Some m\<rparr> = Inr h"
    and "validate_action_plan_execution sha dump
      \<lparr>er_action_plan = q, er_source_dataset_version_id = w, er_approval_metadata = Some m\<rparr> = Inr k"
    and "wf_json (dump p)" "wf_json (dump q)"
  shows "canon (dump p) = canon (dump q) \<or> collide sha (dumps (dump p)) (dumps (dump q))"
proof -
  have "stable_hash sha (dump p) = stable_hash sha (dump q)"
    using assms(1,2)
    by (simp add: validate_execution_Inr validate_approval_metadata_Inr mismatched_fields_Nil_iff
        action_plan_integrity_hash_def)
  then show ?thesis using assms(3,4) by (rule stable_hash_binds)
qed

lemma approval_binds_plan_witness:
  "canon ((\<lambda>_. JNull) sample_plan) = canon ((\<lambda>_. JNull) sample_plan)
    \<or> collide toy_sha (dumps ((\<lambda>_. JNull) sample_plan)) (dumps ((\<lambda>_. JNull) sample_plan))"
  by (rule approval_binds_plan [OF sample_plan_accepted sample_plan_accepted]) simp_all

text \<open>Selecting the same recommendation twice passes the request model and every typed check
  of the preview builder, and then always fails in the ActionPlan model's unique-step-id
  validator: the caller sees a raw validation error, never an ActionPlanPreviewError.\<close>

theorem duplicate_selection_rejected:
  assumes "preview_request_valid req" "hex64 sha" and dup: "\<not> distinct (pr_selected_decision_ids req)"
    and recs: "distinct (map mr_recommendation_id (pr_method_recommendations req))"
    and sel: "selected_for req sel" "list_all (method_admitted req) sel"
  shows "build_action_plan_preview sha now req = Inl PydanticError"
proof -
  let ?d = "dict_of (map (\<lambda>r. (mr_recommendation_id r, r)) (pr_method_recommendations req))"
  have valid: "list_all method_recommendation_valid sel" "list_all s3_uri (pr_input_artifacts req)"
    using assms(1) sel(1) by (auto simp: preview_request_valid_def selected_for_def list_all_iff)
  obtain steps where steps: "foldR (add_step sha req) [] sel = Inr steps"
    using foldR_add_step_ok [OF assms(2) valid, of "[]"] sel(2) by auto
  have ids: "map ps_step_id steps = map (\<lambda>r. step_id_of r (chosen_method req r)) sel"
    using foldR_add_step [OF steps] by (auto intro: step_ids_of_steps)
  have dist: "\<not> distinct (map ps_step_id steps)"
  proof
    assume "distinct (map ps_step_id steps)"
    then have "distinct sel" unfolding ids by (simp add: distinct_map)
    moreover have "inj_on mr_recommendation_id (set sel)"
      using recs sel(1) by (auto simp: distinct_map selected_for_def intro: inj_on_subset)
    ultimately show False using dup sel(1) by (metis distinct_map selected_for_def)
  qed
  have "mapR (selected_recommendation ?d) (pr_selected_decision_ids req) = Inr sel"
    using mapR_selected_ok [OF recs, of sel] sel(1) by (simp add: selected_for_def)
  then show ?thesis using steps recs dist
    by (simp add: build_action_plan_preview_def recommendations_by_id_Inr [THEN iffD2] result_simps
        action_plan_valid_def step_dependencies_ok_iff)
qed

lemma sample_duplicate_valid: "preview_request_valid (sample_request [''r1'', ''r1''])"
  by code_simp

lemma duplicate_selection_rejected_witness:
  "build_action_plan_preview toy_sha 0 (sample_request [''r1'', ''r1'']) = Inl PydanticError"
proof (rule duplicate_selection_rejected [OF sample_duplicate_valid hex64_toy_sha])
  let ?r = "sample_recommendation ''r1'' ''i1'' ''median''"
  show "selected_for (sample_request [''r1'', ''r1'']) [?r, ?r]"
    by (simp add: selected_for_def sample_defs)
  show "list_all (method_admitted (sample_request [''r1'', ''r1''])) [?r, ?r]"
    by code_simp
qed (simp_all add: sample_defs)

end
