(* ===== verification/Idempotency.thy ===== *)
theory Idempotency
  imports ActionPlan
begin

text \<open>
  \<open>src/app/kernel/idempotency.py\<close>: job idempotency keys. A key is the SHA-256 digest of the
  canonical JSON of everything that determines a run. The lemmas show both directions of the
  contract: inputs that differ only in ways the key must ignore share a key, and inputs that share
  a key agree on everything that matters, or two explicit texts collide under SHA-256.
\<close>

section \<open>Inputs\<close>

record plugin_footprint =
  pf_plugin_id :: string
  pf_plugin_version :: string
  pf_algorithm_name :: string
  pf_algorithm_version :: string

record analyze_inputs =
  ai_organization_id :: string
  ai_project_id :: string
  ai_dataset_id :: string
  ai_dataset_version_id :: string
  ai_input_artifact_hashes :: "string list"
  ai_prediction_artifact_hashes :: "string list"
  ai_config_hash :: string
  ai_contract_pack_version :: string
  ai_plugin_versions :: "plugin_footprint list"

record apply_inputs =
  pi_organization_id :: string
  pi_project_id :: string
  pi_dataset_id :: string
  pi_source_dataset_version_id :: string
  pi_proposed_version_name :: string
  pi_action_plan_hash :: string
  pi_input_artifact_hashes :: "string list"
  pi_prediction_artifact_hashes :: "string list"
  pi_config_hash :: string
  pi_contract_pack_version :: string
  pi_policy_versions :: "(string, string) dict"
  pi_step_idempotency_keys :: "string list"
  pi_plugin_versions :: "plugin_footprint list"

section \<open>Helpers\<close>

text \<open>\<open>sorted({value for value in values if value})\<close>.\<close>

definition sorted_unique :: "string list \<Rightarrow> string list" where
  "sorted_unique values = sort (fromkeys (filter (\<lambda>v. v \<noteq> []) values))"

definition ordered_dict :: "(string, string) dict \<Rightarrow> (string, string) dict" where
  "ordered_dict m = map (\<lambda>k. (k, the (dict_get m k))) (sort (dict_keys m))"

text \<open>The sort key is a tuple of four strings, compared lexicographically.\<close>

definition footprint_key :: "plugin_footprint \<Rightarrow> string list" where
  "footprint_key f = [pf_plugin_id f, pf_algorithm_name f, pf_plugin_version f, pf_algorithm_version f]"

definition footprint_json :: "plugin_footprint \<Rightarrow> json" where
  "footprint_json f = JObj
     [(''plugin_id'', JStr (pf_plugin_id f)), (''plugin_version'', JStr (pf_plugin_version f)),
      (''algorithm_name'', JStr (pf_algorithm_name f)),
      (''algorithm_version'', JStr (pf_algorithm_version f))]"

definition normalize_plugin_versions :: "plugin_footprint list \<Rightarrow> json" where
  "normalize_plugin_versions versions = JList (map footprint_json (sort_key footprint_key versions))"

definition key_digest :: "(string \<Rightarrow> string) \<Rightarrow> json \<Rightarrow> string" where
  "key_digest sha payload = stable_hash sha payload"

section \<open>Keys\<close>

definition analyze_payload :: "analyze_inputs \<Rightarrow> json" where
  "analyze_payload i = JObj
     [(''workflow'', JStr (workflow_value ANALYZE_ONLY)),
      (''scope'', JObj [(''organization_id'', JStr (ai_organization_id i)),
         (''project_id'', JStr (ai_project_id i)), (''dataset_id'', JStr (ai_dataset_id i)),
         (''dataset_version_id'', JStr (ai_dataset_version_id i))]),
      (''input_artifact_hashes'', JList (map JStr (sorted_unique (ai_input_artifact_hashes i)))),
      (''prediction_artifact_hashes'', JList (map JStr (sorted_unique (ai_prediction_artifact_hashes i)))),
      (''config_hash'', JStr (ai_config_hash i)),
      (''contract_pack_version'', JStr (ai_contract_pack_version i)),
      (''plugin_versions'', normalize_plugin_versions (ai_plugin_versions i))]"

definition compute_analyze_idempotency_key :: "(string \<Rightarrow> string) \<Rightarrow> analyze_inputs \<Rightarrow> string" where
  "compute_analyze_idempotency_key sha i = key_digest sha (analyze_payload i)"

definition apply_payload :: "apply_inputs \<Rightarrow> json" where
  "apply_payload i = JObj
     [(''workflow'', JStr (workflow_value APPLY_SELECTED_ACTIONS)),
      (''scope'', JObj [(''organization_id'', JStr (pi_organization_id i)),
         (''project_id'', JStr (pi_project_id i)), (''dataset_id'', JStr (pi_dataset_id i)),
         (''source_dataset_version_id'', JStr (pi_source_dataset_version_id i)),
         (''proposed_version_name'', JStr (pi_proposed_version_name i))]),
      (''action_plan_hash'', JStr (pi_action_plan_hash i)),
      (''input_artifact_hashes'', JList (map JStr (sorted_unique (pi_input_artifact_hashes i)))),
      (''prediction_artifact_hashes'', JList (map JStr (sorted_unique (pi_prediction_artifact_hashes i)))),
      (''config_hash'', JStr (pi_config_hash i)),
      (''contract_pack_version'', JStr (pi_contract_pack_version i)),
      (''policy_versions'', JObj (map (\<lambda>kv. (fst kv, JStr (snd kv))) (ordered_dict (pi_policy_versions i)))),
      (''step_idempotency_keys'', JList (map JStr (pi_step_idempotency_keys i))),
      (''plugin_versions'', normalize_plugin_versions (pi_plugin_versions i))]"

definition compute_apply_idempotency_key :: "(string \<Rightarrow> string) \<Rightarrow> apply_inputs \<Rightarrow> string" where
  "compute_apply_idempotency_key sha i = key_digest sha (apply_payload i)"

definition collect_artifact_hashes :: "artifact_ref list \<Rightarrow> string list" where
  "collect_artifact_hashes refs = sorted_unique (map ar_hash refs)"

definition plugin_footprints_from_action_plan :: "action_plan \<Rightarrow> plugin_footprint list" where
  "plugin_footprints_from_action_plan p =
     map (\<lambda>s. \<lparr>pf_plugin_id = ps_plugin_id s, pf_plugin_version = ps_plugin_version s,
               pf_algorithm_name = ps_method_id s, pf_algorithm_version = ps_plugin_version s\<rparr>) (ap_steps p)"

section \<open>What the normal forms keep\<close>

lemma sorted_unique_canonical: "sorted_unique vs = sorted_list_of_set (set vs - {[]})"
proof -
  have set: "set (sorted_unique vs) = set vs - {[]}" by (auto simp: sorted_unique_def)
  have "sorted_list_of_set (set (sorted_unique vs)) = sorted_unique vs"
    by (rule sorted_list_of_set.idem_if_sorted_distinct) (simp_all add: sorted_unique_def)
  with set show ?thesis by simp
qed

lemma sorted_unique_eq_iff: "sorted_unique vs = sorted_unique ws \<longleftrightarrow> set vs - {[]} = set ws - {[]}"
  unfolding sorted_unique_canonical by (metis finite_Diff finite_set set_sorted_list_of_set)

lemma footprint_key_inject: "footprint_key f = footprint_key g \<longleftrightarrow> f = g"
  by (cases f; cases g) (auto simp: footprint_key_def)

lemma sort_key_mset_eq:
  fixes key :: "'a \<Rightarrow> 'b::linorder"
  assumes "mset xs = mset ys" and "\<And>x y. key x = key y \<Longrightarrow> x = y"
  shows "sort_key key xs = sort_key key ys"
proof (rule properties_for_sort_key [symmetric])
  fix k assume "k \<in> set (sort_key key xs)"
  have "filter (\<lambda>x. key k = key x) zs = replicate (count (mset zs) k) k" for zs
    using assms(2) by (induction zs) auto
  then show "filter (\<lambda>x. key k = key x) (sort_key key xs) = filter (\<lambda>x. key k = key x) ys"
    using assms(1) by simp
qed (simp_all add: assms(1))

lemma canon_footprint: "canon (footprint_json f) = canon (footprint_json g) \<longleftrightarrow> f = g"
proof
  assume "canon (footprint_json f) = canon (footprint_json g)"
  note field = canon_JObj_field [OF this [unfolded footprint_json_def]]
  from field [of "''plugin_id''"] field [of "''plugin_version''"] field [of "''algorithm_name''"]
    field [of "''algorithm_version''"]
  show "f = g" by simp
qed simp

lemma normalize_plugin_versions_eq_iff:
  "canon (normalize_plugin_versions vs) = canon (normalize_plugin_versions ws) \<longleftrightarrow> mset vs = mset ws"
proof
  have "map (canon \<circ> footprint_json) xs = map (canon \<circ> footprint_json) ys \<Longrightarrow> xs = ys" for xs ys
    by (rule map_injective [of "canon \<circ> footprint_json"]) (auto simp: inj_def canon_footprint)
  moreover assume "canon (normalize_plugin_versions vs) = canon (normalize_plugin_versions ws)"
  ultimately have "sort_key footprint_key vs = sort_key footprint_key ws"
    by (simp add: normalize_plugin_versions_def)
  then show "mset vs = mset ws" by (metis mset_sort)
next
  assume "mset vs = mset ws"
  then show "canon (normalize_plugin_versions vs) = canon (normalize_plugin_versions ws)"
    using sort_key_mset_eq [of vs ws footprint_key]
    by (simp add: normalize_plugin_versions_def footprint_key_inject)
qed

lemma wf_footprint_json [simp]: "wf_json (footprint_json f)"
  by (simp add: footprint_json_def)

lemma wf_normalize [simp]: "wf_json (normalize_plugin_versions vs)"
  by (simp add: normalize_plugin_versions_def list_all_iff)

lemma wf_analyze_payload [simp]: "wf_json (analyze_payload i)"
  by (simp add: analyze_payload_def list_all_iff)

lemma wf_apply_payload [simp]: "wf_json (apply_payload i)"
  by (simp add: apply_payload_def list_all_iff)

lemma ordered_dict_eq:
  assumes "dict_get m = dict_get n" "distinct (dict_keys m)" "distinct (dict_keys n)"
  shows "ordered_dict m = ordered_dict n"
proof -
  have "set (dict_keys m) = set (dict_keys n)"
    using assms(1) by (metis dict_get_None_iff subsetI subset_antisym)
  then have "sort (dict_keys m) = sort (dict_keys n)"
    using assms(2,3) by (metis sort_key_mset_eq set_eq_iff_mset_eq_distinct)
  then show ?thesis by (simp add: ordered_dict_def assms(1))
qed

lemma map_of_ordered_dict: "dict_get (ordered_dict m) k = dict_get m k"
  by (auto simp: ordered_dict_def dict_get_def map_of_map_restrict restrict_map_def dict_keys_def
      domIff map_of_eq_None_iff [symmetric] dest: weak_map_of_SomeI)

section \<open>Properties\<close>

text \<open>Two analyze runs are the same job: everything that determines the result agrees, the order
  and repetition of artifact hashes and the order of plugin pins aside.\<close>

definition same_analyze_job :: "analyze_inputs \<Rightarrow> analyze_inputs \<Rightarrow> bool" where
  "same_analyze_job i j \<longleftrightarrow>
     ai_organization_id i = ai_organization_id j \<and> ai_project_id i = ai_project_id j
     \<and> ai_dataset_id i = ai_dataset_id j \<and> ai_dataset_version_id i = ai_dataset_version_id j
     \<and> set (ai_input_artifact_hashes i) - {[]} = set (ai_input_artifact_hashes j) - {[]}
     \<and> set (ai_prediction_artifact_hashes i) - {[]} = set (ai_prediction_artifact_hashes j) - {[]}
     \<and> ai_config_hash i = ai_config_hash j \<and> ai_contract_pack_version i = ai_contract_pack_version j
     \<and> mset (ai_plugin_versions i) = mset (ai_plugin_versions j)"

definition same_apply_job :: "apply_inputs \<Rightarrow> apply_inputs \<Rightarrow> bool" where
  "same_apply_job i j \<longleftrightarrow>
     pi_organization_id i = pi_organization_id j \<and> pi_project_id i = pi_project_id j
     \<and> pi_dataset_id i = pi_dataset_id j
     \<and> pi_source_dataset_version_id i = pi_source_dataset_version_id j
     \<and> pi_proposed_version_name i = pi_proposed_version_name j
     \<and> pi_action_plan_hash i = pi_action_plan_hash j
     \<and> set (pi_input_artifact_hashes i) - {[]} = set (pi_input_artifact_hashes j) - {[]}
     \<and> set (pi_prediction_artifact_hashes i) - {[]} = set (pi_prediction_artifact_hashes j) - {[]}
     \<and> pi_config_hash i = pi_config_hash j \<and> pi_contract_pack_version i = pi_contract_pack_version j
     \<and> dict_get (pi_policy_versions i) = dict_get (pi_policy_versions j)
     \<and> pi_step_idempotency_keys i = pi_step_idempotency_keys j
     \<and> mset (pi_plugin_versions i) = mset (pi_plugin_versions j)"

lemma analyze_payload_canon_iff:
  "canon (analyze_payload i) = canon (analyze_payload j) \<longleftrightarrow> same_analyze_job i j"
proof
  assume "canon (analyze_payload i) = canon (analyze_payload j)"
  note field = canon_JObj_field [OF this [unfolded analyze_payload_def]]
  have "canon (JObj [(''organization_id'', JStr (ai_organization_id i)),
         (''project_id'', JStr (ai_project_id i)), (''dataset_id'', JStr (ai_dataset_id i)),
         (''dataset_version_id'', JStr (ai_dataset_version_id i))]) =
    canon (JObj [(''organization_id'', JStr (ai_organization_id j)),
         (''project_id'', JStr (ai_project_id j)), (''dataset_id'', JStr (ai_dataset_id j)),
         (''dataset_version_id'', JStr (ai_dataset_version_id j))])"
    using field [of "''scope''"] by (simp del: canon.simps)
  note scope = canon_JObj_field [OF this]
  show "same_analyze_job i j"
    using scope [of "''organization_id''"] scope [of "''project_id''"] scope [of "''dataset_id''"]
      scope [of "''dataset_version_id''"] field [of "''input_artifact_hashes''"]
      field [of "''prediction_artifact_hashes''"] field [of "''config_hash''"]
      field [of "''contract_pack_version''"] field [of "''plugin_versions''"]
    by (simp add: same_analyze_job_def sorted_unique_eq_iff normalize_plugin_versions_eq_iff)
next
  assume "same_analyze_job i j"
  then have "sorted_unique (ai_input_artifact_hashes i) = sorted_unique (ai_input_artifact_hashes j)"
    "sorted_unique (ai_prediction_artifact_hashes i) = sorted_unique (ai_prediction_artifact_hashes j)"
    "canon (normalize_plugin_versions (ai_plugin_versions i)) = canon (normalize_plugin_versions (ai_plugin_versions j))"
    by (simp_all add: same_analyze_job_def sorted_unique_eq_iff normalize_plugin_versions_eq_iff)
  then show "canon (analyze_payload i) = canon (analyze_payload j)"
    using \<open>same_analyze_job i j\<close> by (simp add: analyze_payload_def same_analyze_job_def del: sort_key_simps)
qed

text \<open>C38: An analyze key is shared exactly by the runs that are the same job: reordering or
  repeating artifact hashes or reordering plugin pins does not change the key, and equal keys mean
  equal scope, artifact sets, configuration, contract pack and plugin pins, unless the two
  canonical payloads are an explicit SHA-256 collision.\<close>

theorem analyze_key_iff_same_job:
  "compute_analyze_idempotency_key sha i = compute_analyze_idempotency_key sha j \<longleftrightarrow>
     same_analyze_job i j \<or> collide sha (dumps (analyze_payload i)) (dumps (analyze_payload j))"
  using dumps_inject [of "analyze_payload i" "analyze_payload j"]
  by (auto simp: compute_analyze_idempotency_key_def key_digest_def stable_hash_def sha256_of_def
      analyze_payload_canon_iff collide_def)

lemma apply_payload_canon_iff:
  assumes "distinct (dict_keys (pi_policy_versions i))" "distinct (dict_keys (pi_policy_versions j))"
  shows "canon (apply_payload i) = canon (apply_payload j) \<longleftrightarrow> same_apply_job i j"
proof
  let ?d = "\<lambda>i. map (\<lambda>kv. (fst kv, JStr (snd kv))) (ordered_dict (pi_policy_versions i))"
  have keys: "map fst (?d k) = sort (dict_keys (pi_policy_versions k))" for k
    by (simp add: ordered_dict_def o_def)
  have get: "map_of (?d k) x = map_option JStr (dict_get (pi_policy_versions k) x)" for k x
  proof -
    have "map_of (map (\<lambda>kv. (fst kv, JStr (snd kv))) kvs) x = map_option JStr (map_of kvs x)" for kvs
      by (induction kvs) auto
    then show ?thesis using map_of_ordered_dict [of "pi_policy_versions k" x] by (simp add: dict_get_def)
  qed
  assume "canon (apply_payload i) = canon (apply_payload j)"
  note field = canon_JObj_field [OF this [unfolded apply_payload_def]]
  have "canon (JObj [(''organization_id'', JStr (pi_organization_id i)),
         (''project_id'', JStr (pi_project_id i)), (''dataset_id'', JStr (pi_dataset_id i)),
         (''source_dataset_version_id'', JStr (pi_source_dataset_version_id i)),
         (''proposed_version_name'', JStr (pi_proposed_version_name i))]) =
    canon (JObj [(''organization_id'', JStr (pi_organization_id j)),
         (''project_id'', JStr (pi_project_id j)), (''dataset_id'', JStr (pi_dataset_id j)),
         (''source_dataset_version_id'', JStr (pi_source_dataset_version_id j)),
         (''proposed_version_name'', JStr (pi_proposed_version_name j))])"
    using field [of "''scope''"] by (simp del: canon.simps)
  note scope = canon_JObj_field [OF this]
  have "canon (JObj (?d i)) = canon (JObj (?d j))"
    using field [of "''policy_versions''"] by (simp del: canon.simps)
  note policy = canon_JObj_field [OF this]
  have "map_option JStr (dict_get (pi_policy_versions i) x) = map_option JStr (dict_get (pi_policy_versions j) x)" for x
    using policy [of x] assms unfolding keys get by (simp add: option.map_comp o_def)
  then have "dict_get (pi_policy_versions i) = dict_get (pi_policy_versions j)"
    by (intro ext) (metis json.inject(4) option.inj_map_strong)
  then show "same_apply_job i j"
    using scope [of "''organization_id''"] scope [of "''project_id''"] scope [of "''dataset_id''"]
      scope [of "''source_dataset_version_id''"] scope [of "''proposed_version_name''"]
      field [of "''action_plan_hash''"] field [of "''input_artifact_hashes''"]
      field [of "''prediction_artifact_hashes''"] field [of "''config_hash''"]
      field [of "''contract_pack_version''"] field [of "''step_idempotency_keys''"]
      field [of "''plugin_versions''"]
    by (simp add: same_apply_job_def sorted_unique_eq_iff normalize_plugin_versions_eq_iff)
next
  assume same: "same_apply_job i j"
  then have "sorted_unique (pi_input_artifact_hashes i) = sorted_unique (pi_input_artifact_hashes j)"
    "sorted_unique (pi_prediction_artifact_hashes i) = sorted_unique (pi_prediction_artifact_hashes j)"
    "canon (normalize_plugin_versions (pi_plugin_versions i)) = canon (normalize_plugin_versions (pi_plugin_versions j))"
    by (simp_all add: same_apply_job_def sorted_unique_eq_iff normalize_plugin_versions_eq_iff)
  moreover have "ordered_dict (pi_policy_versions i) = ordered_dict (pi_policy_versions j)"
    using same assms by (intro ordered_dict_eq) (simp_all add: same_apply_job_def)
  ultimately show "canon (apply_payload i) = canon (apply_payload j)"
    using same by (simp add: apply_payload_def same_apply_job_def del: sort_key_simps)
qed

text \<open>An apply key is shared exactly by the runs that are the same job: same scope and target
  name, action plan hash, artifact sets, configuration, policy versions (as a mapping), plugin
  pins, and the same step keys in the same order, unless the payloads collide under SHA-256.\<close>

theorem apply_key_iff_same_job:
  assumes "distinct (dict_keys (pi_policy_versions i))" "distinct (dict_keys (pi_policy_versions j))"
  shows "compute_apply_idempotency_key sha i = compute_apply_idempotency_key sha j \<longleftrightarrow>
     same_apply_job i j \<or> collide sha (dumps (apply_payload i)) (dumps (apply_payload j))"
  using dumps_inject [of "apply_payload i" "apply_payload j"] apply_payload_canon_iff [OF assms]
  by (auto simp: compute_apply_idempotency_key_def key_digest_def stable_hash_def sha256_of_def collide_def)

definition sample_apply :: "(string, string) dict \<Rightarrow> apply_inputs" where
  "sample_apply policies =
     \<lparr>pi_organization_id = ''o'', pi_project_id = ''p'', pi_dataset_id = ''d'',
      pi_source_dataset_version_id = ''v'', pi_proposed_version_name = ''v2'',
      pi_action_plan_hash = ''h'', pi_input_artifact_hashes = [''a'', ''b''],
      pi_prediction_artifact_hashes = [], pi_config_hash = ''c'', pi_contract_pack_version = ''1'',
      pi_policy_versions = policies, pi_step_idempotency_keys = [''k''], pi_plugin_versions = []\<rparr>"

lemma apply_key_iff_same_job_witness:
  "compute_apply_idempotency_key toy_sha (sample_apply [(''x'', ''1''), (''y'', ''2'')])
     = compute_apply_idempotency_key toy_sha (sample_apply [(''y'', ''2''), (''x'', ''1'')]) \<longleftrightarrow>
   same_apply_job (sample_apply [(''x'', ''1''), (''y'', ''2'')]) (sample_apply [(''y'', ''2''), (''x'', ''1'')])
     \<or> collide toy_sha (dumps (apply_payload (sample_apply [(''x'', ''1''), (''y'', ''2'')])))
         (dumps (apply_payload (sample_apply [(''y'', ''2''), (''x'', ''1'')])))"
  by (rule apply_key_iff_same_job) (simp_all add: sample_apply_def dict_keys_def)

text \<open>A key never identifies runs of two different workflows: an analyze key and an apply key
  are equal only if the two canonical payloads are an explicit SHA-256 collision.\<close>

theorem workflows_never_share_a_key:
  "compute_analyze_idempotency_key sha i = compute_apply_idempotency_key sha j \<longleftrightarrow>
     collide sha (dumps (analyze_payload i)) (dumps (apply_payload j))"
proof -
  have "canon (analyze_payload i) \<noteq> canon (apply_payload j)"
  proof
    assume "canon (analyze_payload i) = canon (apply_payload j)"
    from canon_JObj_field [OF this [unfolded analyze_payload_def apply_payload_def], of "''workflow''"]
    show False by simp
  qed
  then show ?thesis
    using dumps_inject [of "analyze_payload i" "apply_payload j"]
    by (auto simp: compute_analyze_idempotency_key_def compute_apply_idempotency_key_def key_digest_def
        stable_hash_def sha256_of_def collide_def)
qed

end
