(* ===== verification/ArchiveSafety.thy ===== *)
theory ArchiveSafety
  imports Domain "HOL-Library.Word"
begin

unbundle bit_operations_syntax

text \<open>
  \<open>src/app/ingestion/archive_safety.py\<close>: the checks a zip archive passes before anything reads it.
  \<open>zipfile\<close> is represented by what \<open>infolist()\<close> returns (\<open>None\<close> for \<open>BadZipFile\<close>); an entry
  keeps the fields the checks read, the external attributes as the 32-bit word they are.

  The lemmas decide acceptance exactly and show that an accepted archive can be unpacked under a
  root without leaving it: every reported name consists of plain components, keeps the checked
  file name, and is a fixed point of the normalisation.
\<close>

section \<open>Policy, entries, reports\<close>

record zip_info =
  zi_filename :: string
  zi_external_attr :: "32 word"
  zi_file_size :: nat

record archive_policy =
  pol_max_compressed_bytes :: nat
  pol_max_uncompressed_bytes :: nat
  pol_max_file_count :: nat
  pol_allowed_extensions :: "string list"

definition DEFAULT_ALLOWED_EXTENSIONS :: "string list" where
  "DEFAULT_ALLOWED_EXTENSIONS =
     [''csv'', ''tsv'', ''parquet'', ''json'', ''jsonl'', ''ndjson'', ''txt'', ''md'', ''yaml'', ''yml'', ''xml'']"

definition default_policy :: archive_policy where
  "default_policy =
     \<lparr>pol_max_compressed_bytes = 50 * 1024 * 1024, pol_max_uncompressed_bytes = 200 * 1024 * 1024,
      pol_max_file_count = 5000, pol_allowed_extensions = DEFAULT_ALLOWED_EXTENSIONS\<rparr>"

record archive_report =
  rep_file_count :: nat
  rep_compressed_bytes :: nat
  rep_uncompressed_bytes :: nat
  rep_safe_entries :: "string list"

definition structure_error :: "string \<Rightarrow> exn" where
  "structure_error reason = Raised ''ArchiveSafetyError'' reason INVALID_ARCHIVE_STRUCTURE 0"

definition safety_error :: "string \<Rightarrow> exn" where
  "safety_error reason = Raised ''ArchiveSafetyError'' reason ARCHIVE_SAFETY_VIOLATION 0"

section \<open>Entry checks\<close>

definition is_drive_path :: "string \<Rightarrow> bool" where
  "is_drive_path name \<longleftrightarrow> 3 \<le> length name \<and> name ! 1 = CHR '':'' \<and> is_alpha (name ! 0)"

definition validate_entry_path :: "zip_info \<Rightarrow> exn + unit" where
  "validate_entry_path info =
     (let name = zi_filename info in
      if name = [] then Inl (structure_error ''empty_entry_name'')
      else if CHR 0x00 \<in> set name then Inl (safety_error ''nul_byte_in_entry'')
      else if starts_with ''/'' name then Inl (safety_error ''absolute_path'')
      else if is_drive_path name then Inl (safety_error ''windows_drive_path'')
      else
        let normalized = normpath name in
        if starts_with ''..'' normalized \<or> str_in ''/../'' (''/'' @ normalized @ ''/'')
        then Inl (safety_error ''path_traversal'') else Inr ())"

text \<open>\<open>stat.S_ISLNK\<close>: the format bits of the mode are those of a symbolic link.\<close>

definition s_islnk :: "32 word \<Rightarrow> bool" where
  "s_islnk mode \<longleftrightarrow> mode AND 0xF000 = 0xA000"

definition validate_entry_attributes :: "zip_info \<Rightarrow> exn + unit" where
  "validate_entry_attributes info =
     (let mode = drop_bit 16 (zi_external_attr info) in
      if mode \<noteq> 0 \<and> s_islnk mode then Inl (safety_error ''symlink_entry'') else Inr ())"

definition is_dir :: "zip_info \<Rightarrow> bool" where
  "is_dir info \<longleftrightarrow> ends_with ''/'' (zi_filename info)"

definition validate_entry_extension :: "archive_policy \<Rightarrow> zip_info \<Rightarrow> exn + unit" where
  "validate_entry_extension policy info =
     (let name = basename (zi_filename info) in
      if \<not> str_in ''.'' name then Inl (safety_error ''missing_extension'')
      else if lower (after_last (CHR ''.'') name) \<notin> set (pol_allowed_extensions policy)
      then Inl (safety_error ''forbidden_extension'') else Inr ())"

definition normalized_entry_name :: "zip_info \<Rightarrow> string" where
  "normalized_entry_name info = normpath (zi_filename info)"

section \<open>The archive loop\<close>

text \<open>One iteration: the accumulator is the running total and the safe entries so far.\<close>

definition check_entry :: "archive_policy \<Rightarrow> nat \<times> string list \<Rightarrow> zip_info \<Rightarrow> exn + (nat \<times> string list)" where
  "check_entry policy acc info =
     bindR (validate_entry_path info) (\<lambda>_.
     bindR (validate_entry_attributes info) (\<lambda>_.
     if is_dir info then Inr acc
     else bindR (validate_entry_extension policy info) (\<lambda>_.
       let total = fst acc + zi_file_size info in
       if pol_max_uncompressed_bytes policy < total
       then Inl (safety_error ''uncompressed_size_exceeded'')
       else Inr (total, snd acc @ [normalized_entry_name info]))))"

definition validate_zip_stream ::
    "archive_policy \<Rightarrow> nat \<Rightarrow> zip_info list option \<Rightarrow> exn + archive_report" where
  "validate_zip_stream policy compressed_size stream =
     (case stream of
        None \<Rightarrow> Inl (Other ''BadZipFile'')
      | Some infos \<Rightarrow>
          if pol_max_file_count policy < length infos then Inl (safety_error ''file_count_exceeded'')
          else bindR (foldR (check_entry policy) (0, []) infos) (\<lambda>acc.
            Inr \<lparr>rep_file_count = length (snd acc), rep_compressed_bytes = compressed_size,
                 rep_uncompressed_bytes = fst acc, rep_safe_entries = snd acc\<rparr>))"

text \<open>\<open>except zipfile.BadZipFile\<close>.\<close>

definition reraise_bad_zip :: "exn + archive_report \<Rightarrow> exn + archive_report" where
  "reraise_bad_zip res =
     (case res of
        Inl e \<Rightarrow> if e = Other ''BadZipFile'' then Inl (structure_error ''bad_zip_file'') else Inl e
      | Inr r \<Rightarrow> Inr r)"

definition effective_policy :: "archive_policy option \<Rightarrow> archive_policy" where
  "effective_policy policy = (case policy of Some p \<Rightarrow> p | None \<Rightarrow> default_policy)"

definition validate_archive_seekable ::
    "archive_policy option \<Rightarrow> nat \<Rightarrow> zip_info list option \<Rightarrow> exn + archive_report" where
  "validate_archive_seekable policy compressed_size stream =
     (let p = effective_policy policy in
      if pol_max_compressed_bytes p < compressed_size
      then Inl (safety_error ''compressed_size_exceeded'')
      else reraise_bad_zip (validate_zip_stream p compressed_size stream))"

text \<open>\<open>unzip\<close> is \<open>zipfile\<close> reading the directory of some bytes.\<close>

definition validate_archive_bytes ::
    "(string \<Rightarrow> zip_info list option) \<Rightarrow> archive_policy option \<Rightarrow> string \<Rightarrow> exn + archive_report" where
  "validate_archive_bytes unzip policy archive_bytes =
     validate_archive_seekable policy (length archive_bytes) (unzip archive_bytes)"

text \<open>A path is either not a regular file or holds bytes.\<close>

definition validate_archive_path ::
    "(string \<Rightarrow> zip_info list option) \<Rightarrow> archive_policy option \<Rightarrow> string option \<Rightarrow> exn + archive_report" where
  "validate_archive_path unzip policy file =
     (let p = effective_policy policy in
      case file of
        None \<Rightarrow> Inl (structure_error ''archive_missing'')
      | Some content \<Rightarrow>
          if pol_max_compressed_bytes p < length content
          then Inl (safety_error ''compressed_size_exceeded'')
          else reraise_bad_zip (validate_zip_stream p (length content) (unzip content)))"

section \<open>Safe names\<close>

definition path_safe :: "string \<Rightarrow> bool" where
  "path_safe name \<longleftrightarrow> name \<noteq> [] \<and> CHR 0x00 \<notin> set name \<and> \<not> starts_with ''/'' name
     \<and> \<not> is_drive_path name \<and> \<not> starts_with ''..'' (normpath name)"

lemma split_on_Cons_sep: "split_on c (c # s) = [] # split_on c s"
  by simp

lemma normal_no_dotdot:
  assumes "\<not> starts_with ''/'' name" "\<not> starts_with ''..'' (normpath name)"
  shows "\<not> str_in ''/../'' (''/'' @ normpath name @ ''/'')"
proof
  assume "str_in ''/../'' (''/'' @ normpath name @ ''/'')"
  then obtain a b where ab: "slash # normpath name @ [slash] = a @ slash # (''..'' @ slash # b)"
    by (auto simp: str_in_iff slash_def)
  have "''..'' \<in> set (split_on slash (a @ slash # (''..'' @ slash # b)))"
    unfolding split_on_append by (simp add: split_on_append_sep slash_def)
  moreover have "split_on slash (slash # normpath name @ [slash]) = [] # split_on slash (normpath name) @ [[]]"
    unfolding split_on_Cons_sep split_on_append [of slash "normpath name" "[]"] by simp
  ultimately have "''..'' \<in> set (split_on slash (normpath name))"
    unfolding ab by auto
  then show False
    using norm_comps_plain [OF assms] split_normpath_relative [OF assms(1)]
    by (auto simp: list_all_iff plain_comp_def split: if_splits)
qed

lemma validate_entry_path_ok: "validate_entry_path info = Inr u \<longleftrightarrow> path_safe (zi_filename info)"
  using normal_no_dotdot [of "zi_filename info"]
  by (auto simp: validate_entry_path_def Let_def path_safe_def)

definition symlink :: "zip_info \<Rightarrow> bool" where
  "symlink info \<longleftrightarrow> s_islnk (drop_bit 16 (zi_external_attr info))"

lemma validate_entry_attributes_ok: "validate_entry_attributes info = Inr u \<longleftrightarrow> \<not> symlink info"
  by (auto simp: validate_entry_attributes_def Let_def symlink_def s_islnk_def)

definition extension_ok :: "archive_policy \<Rightarrow> string \<Rightarrow> bool" where
  "extension_ok policy name \<longleftrightarrow> CHR ''.'' \<in> set name
     \<and> lower (after_last (CHR ''.'') name) \<in> set (pol_allowed_extensions policy)"

lemma str_in_char: "str_in [c] s \<longleftrightarrow> c \<in> set s"
  by (induction s) (auto simp: starts_with_def)

lemma validate_entry_extension_ok:
  "validate_entry_extension policy info = Inr u \<longleftrightarrow> extension_ok policy (basename (zi_filename info))"
  by (auto simp: validate_entry_extension_def Let_def extension_ok_def str_in_char)

text \<open>The files of an archive: what remains when directory entries are skipped.\<close>

definition file_entries :: "zip_info list \<Rightarrow> zip_info list" where
  "file_entries infos = filter (\<lambda>i. \<not> is_dir i) infos"

definition entry_ok :: "archive_policy \<Rightarrow> zip_info \<Rightarrow> bool" where
  "entry_ok policy i \<longleftrightarrow> path_safe (zi_filename i) \<and> \<not> symlink i
     \<and> (is_dir i \<or> extension_ok policy (basename (zi_filename i)))"

definition total_size :: "zip_info list \<Rightarrow> nat" where
  "total_size infos = sum_list (map zi_file_size (file_entries infos))"

lemma total_size_simps [simp]:
  "total_size [] = 0"
  "total_size (i # is) = (if is_dir i then 0 else zi_file_size i) + total_size is"
  by (simp_all add: total_size_def file_entries_def)

lemma check_entry_ok:
  "check_entry policy acc i = Inr acc' \<longleftrightarrow>
     entry_ok policy i
     \<and> (is_dir i \<or> fst acc + zi_file_size i \<le> pol_max_uncompressed_bytes policy)
     \<and> acc' = (if is_dir i then acc
               else (fst acc + zi_file_size i, snd acc @ [normalized_entry_name i]))"
  by (auto simp: check_entry_def result_simps validate_entry_path_ok validate_entry_attributes_ok
      validate_entry_extension_ok entry_ok_def Let_def)

lemma foldR_check_entry_ok:
  "foldR (check_entry policy) acc infos = Inr acc' \<longleftrightarrow>
     list_all (entry_ok policy) infos
     \<and> (file_entries infos = [] \<or> fst acc + total_size infos \<le> pol_max_uncompressed_bytes policy)
     \<and> acc' = (fst acc + total_size infos, snd acc @ map normalized_entry_name (file_entries infos))"
proof (induction infos arbitrary: acc)
  case Nil
  then show ?case by (auto simp: file_entries_def)
next
  case (Cons i infos)
  have "total_size infos = 0" if "file_entries infos = []" by (simp add: total_size_def that)
  then show ?case
    by (cases "is_dir i")
      (auto simp: result_simps check_entry_ok Cons.IH file_entries_def add.assoc)
qed

lemma validate_zip_stream_ok:
  "validate_zip_stream policy csize stream = Inr rep \<longleftrightarrow>
     (\<exists>infos. stream = Some infos \<and> length infos \<le> pol_max_file_count policy
       \<and> list_all (entry_ok policy) infos \<and> total_size infos \<le> pol_max_uncompressed_bytes policy
       \<and> rep = \<lparr>rep_file_count = length (file_entries infos), rep_compressed_bytes = csize,
                rep_uncompressed_bytes = total_size infos,
                rep_safe_entries = map normalized_entry_name (file_entries infos)\<rparr>)"
proof -
  have "total_size infos = 0" if "file_entries infos = []" for infos by (simp add: total_size_def that)
  then show ?thesis
    by (cases stream) (auto simp: validate_zip_stream_def result_simps foldR_check_entry_ok)
qed

lemma reraise_bad_zip_ok [simp]: "reraise_bad_zip res = Inr rep \<longleftrightarrow> res = Inr rep"
  by (auto simp: reraise_bad_zip_def split: sum.splits)

lemma validate_archive_seekable_ok:
  "validate_archive_seekable policy csize stream = Inr rep \<longleftrightarrow>
     csize \<le> pol_max_compressed_bytes (effective_policy policy)
     \<and> validate_zip_stream (effective_policy policy) csize stream = Inr rep"
  by (auto simp: validate_archive_seekable_def Let_def)

section \<open>The names an accepted archive reports\<close>

lemma last_foldl_norm_comp:
  assumes "plain_comp w"
  shows "last (rev (foldl (norm_comp ab) st (ws @ [w]))) = w"
  using assms by (auto simp: norm_comp_def plain_comp_def)

lemma basename_norm:
  assumes "plain_comp (basename name)"
  shows "norm_comps name \<noteq> []" "last (norm_comps name) = basename name"
proof -
  obtain ws where ws: "split_on slash name = ws @ [basename name]"
    unfolding basename_def by (metis append_butlast_last_id split_on_ne)
  show "last (norm_comps name) = basename name"
    unfolding norm_comps_def ws using assms by (rule last_foldl_norm_comp)
  show "norm_comps name \<noteq> []"
    using assms unfolding norm_comps_def ws by (auto simp: norm_comp_def plain_comp_def)
qed

lemma extension_plain:
  assumes "extension_ok policy (basename name)" "[] \<notin> set (pol_allowed_extensions policy)"
  shows "plain_comp (basename name)"
proof -
  have "slash \<notin> set (basename name)"
    unfolding basename_def by (rule split_on_no_sep [OF last_in_set]) simp
  moreover have "basename name \<noteq> []" "basename name \<noteq> ''.''" "basename name \<noteq> ''..''"
    using assms by (auto simp: extension_ok_def after_last_def lower_def)
  ultimately show ?thesis by (simp add: plain_comp_def)
qed

lemma safe_entry_components:
  assumes "entry_ok policy i" "\<not> is_dir i" "[] \<notin> set (pol_allowed_extensions policy)"
  shows "list_all plain_comp (split_on slash (normalized_entry_name i))"
    "split_on slash (normalized_entry_name i) = norm_comps (zi_filename i)"
    "basename (normalized_entry_name i) = basename (zi_filename i)"
proof -
  have safe: "\<not> starts_with ''/'' (zi_filename i)" "\<not> starts_with ''..'' (normpath (zi_filename i))"
    and ext: "extension_ok policy (basename (zi_filename i))"
    using assms(1,2) by (auto simp: entry_ok_def path_safe_def)
  note base = basename_norm [OF extension_plain [OF ext assms(3)]]
  show eq: "split_on slash (normalized_entry_name i) = norm_comps (zi_filename i)"
    using base(1) split_normpath_relative [OF safe(1)] by (simp add: normalized_entry_name_def)
  show "list_all plain_comp (split_on slash (normalized_entry_name i))"
    unfolding eq by (rule norm_comps_plain [OF safe])
  show "basename (normalized_entry_name i) = basename (zi_filename i)"
    using base(2) by (simp add: basename_def [of "normalized_entry_name i"] eq)
qed

text \<open>Joining a normal relative path to an absolute root only appends components to the root.\<close>

lemma norm_comps_under_root:
  assumes "list_all plain_comp dirs" "dirs \<noteq> []" "list_all plain_comp (split_on slash entry)"
  shows "norm_comps (''/'' @ join ''/'' dirs @ ''/'' @ entry) = dirs @ split_on slash entry"
proof -
  let ?p = "slash # (join ''/'' dirs @ slash # entry)"
  have "split_on slash (join ''/'' dirs) = dirs"
    using assms(1,2) split_on_join [of dirs slash] by (auto simp: slash_def list_all_iff plain_comp_def)
  then have split: "split_on slash ?p = [] # dirs @ split_on slash entry"
    unfolding split_on_Cons_sep split_on_append by simp
  have ab: "initial_slashes ?p \<noteq> 0" by (simp add: initial_slashes_def starts_with_def slash_def)
  have "list_all plain_comp (dirs @ split_on slash entry)" using assms by simp
  then have "norm_comps ?p = dirs @ split_on slash entry"
    using ab unfolding norm_comps_def split
    by (simp add: norm_comp_def [of _ _ "[]"] foldl_norm_comp_plain del: foldl_append split_on.simps list_all_append)
  then show ?thesis by (simp add: slash_def)
qed

section \<open>Properties\<close>

text \<open>An archive is accepted if and only if its compressed size is within the limit, it is a
  readable zip with at most the allowed number of entries, every entry (directories included) has a
  safe path and is no symbolic link, every file has an allowed extension, and the declared sizes of
  the files add up to at most the limit; the report then lists exactly the files, in order, under
  their normalised names.\<close>

theorem archive_accepted_iff:
  "validate_archive_seekable policy csize stream = Inr rep \<longleftrightarrow>
     csize \<le> pol_max_compressed_bytes (effective_policy policy)
     \<and> (\<exists>infos. stream = Some infos \<and> length infos \<le> pol_max_file_count (effective_policy policy)
       \<and> list_all (entry_ok (effective_policy policy)) infos
       \<and> total_size infos \<le> pol_max_uncompressed_bytes (effective_policy policy)
       \<and> rep = \<lparr>rep_file_count = length (file_entries infos), rep_compressed_bytes = csize,
                rep_uncompressed_bytes = total_size infos,
                rep_safe_entries = map normalized_entry_name (file_entries infos)\<rparr>)"
  unfolding validate_archive_seekable_ok validate_zip_stream_ok ..

text \<open>C11: Containment: every entry an accepted archive reports, joined to any absolute directory other than
  the root, normalises to that directory followed by the entry's own components, so that unpacking cannot
  leave it; each component is a plain name, the entry is its own normal form, and its file name
  carries an allowed extension. The policy does not list the empty extension.\<close>

theorem accepted_entries_contained:
  assumes "validate_archive_seekable policy csize stream = Inr rep"
    and "[] \<notin> set (pol_allowed_extensions (effective_policy policy))"
    and "list_all plain_comp dirs" "dirs \<noteq> []" and "e \<in> set (rep_safe_entries rep)"
  shows "norm_comps (''/'' @ join ''/'' dirs @ ''/'' @ e) = dirs @ split_on slash e
    \<and> list_all plain_comp (split_on slash e) \<and> normpath e = e
    \<and> extension_ok (effective_policy policy) (basename e)"
proof -
  from assms(1,5) obtain i where i: "entry_ok (effective_policy policy) i" "\<not> is_dir i"
    and e: "e = normalized_entry_name i"
    by (force simp: validate_archive_seekable_ok validate_zip_stream_ok file_entries_def list_all_iff)
  note comps = safe_entry_components [OF i assms(2)]
  have "normpath e = e"
    using i by (simp add: e normalized_entry_name_def normpath_idem entry_ok_def path_safe_def)
  moreover have "extension_ok (effective_policy policy) (basename e)"
    using i comps(3) by (simp add: e entry_ok_def)
  ultimately show ?thesis
    using norm_comps_under_root [OF assms(3,4), of e] comps(1) by (simp add: e)
qed

lemmas archive_eval = validate_archive_seekable_ok validate_zip_stream_ok effective_policy_def
  default_policy_def DEFAULT_ALLOWED_EXTENSIONS_def entry_ok_def path_safe_def symlink_def s_islnk_def
  is_dir_def ends_with_def starts_with_def normpath_def norm_comps_def norm_comp_def initial_slashes_def
  slash_def basename_def after_last_def extension_ok_def lower_def is_drive_path_def is_alpha_def
  file_entries_def normalized_entry_name_def

definition sample_archive :: "zip_info list" where
  "sample_archive =
     [\<lparr>zi_filename = ''data/'', zi_external_attr = 0x41ED0010, zi_file_size = 0\<rparr>,
      \<lparr>zi_filename = ''data/../a.CSV'', zi_external_attr = 0x81A40000, zi_file_size = 7\<rparr>]"

lemma sample_archive_accepted:
  "validate_archive_seekable None 9 (Some sample_archive) =
     Inr \<lparr>rep_file_count = 1, rep_compressed_bytes = 9, rep_uncompressed_bytes = 7,
          rep_safe_entries = [''a.CSV'']\<rparr>"
  by (simp add: sample_archive_def archive_eval)

lemma accepted_entries_contained_witness: "norm_comps ''/tmp/a.CSV'' = [''tmp'', ''a.CSV'']"
  using accepted_entries_contained [OF sample_archive_accepted, of "[''tmp'']" "''a.CSV''"]
  by (simp add: effective_policy_def default_policy_def DEFAULT_ALLOWED_EXTENSIONS_def plain_comp_def slash_def)

text \<open>The drive-letter rule is applied to the raw name only: the entry \<open>./C:/x.csv\<close> is accepted,
  and the name the report calls safe is the Windows drive path \<open>C:/x.csv\<close>, which the same check
  rejects.\<close>

theorem drive_path_passes_in_disguise:
  "validate_archive_seekable None 9
      (Some [\<lparr>zi_filename = ''./C:/x.csv'', zi_external_attr = 0, zi_file_size = 1\<rparr>])
    = Inr \<lparr>rep_file_count = 1, rep_compressed_bytes = 9, rep_uncompressed_bytes = 1,
           rep_safe_entries = [''C:/x.csv'']\<rparr>
   \<and> validate_entry_path \<lparr>zi_filename = ''C:/x.csv'', zi_external_attr = 0, zi_file_size = 1\<rparr>
    = Inl (safety_error ''windows_drive_path'')"
  by (simp add: archive_eval validate_entry_path_def structure_error_def Let_def)

text \<open>Validating a file on disk and validating its bytes from object storage decide alike, and
  an archive over the compressed limit is refused without its directory being read.\<close>

theorem path_and_bytes_agree:
  "validate_archive_path unzip policy (Some content) = validate_archive_bytes unzip policy content
   \<and> (pol_max_compressed_bytes (effective_policy policy) < length content \<longrightarrow>
       validate_archive_bytes unzip policy content = Inl (safety_error ''compressed_size_exceeded''))"
  by (simp add: validate_archive_path_def validate_archive_bytes_def validate_archive_seekable_def Let_def)

definition tiny_policy :: archive_policy where
  "tiny_policy = default_policy\<lparr>pol_max_compressed_bytes := 1\<rparr>"

lemma path_and_bytes_agree_witness:
  "validate_archive_bytes (\<lambda>_. None) (Some tiny_policy) ''PK'' = Inl (safety_error ''compressed_size_exceeded'')"
  using path_and_bytes_agree [of "\<lambda>_. None" "Some tiny_policy" "''PK''"]
  by (simp add: effective_policy_def tiny_policy_def)

end
