(* ===== verification/PyFloat.thy ===== *)
theory PyFloat
  imports Domain
begin

text \<open>
  Binary floating point is the machine's, not the program's: code that computes on floats takes the
  operations as a record over an abstract type of floats, with NaN and infinities among its values.
  Theorems about such code hold for every instance; where a law of the arithmetic is used it is a
  hypothesis. \<open>rat_floats\<close> is the exact instance the witnesses use.
\<close>

record 'f float_ops =
  fl_of_str :: "string \<Rightarrow> 'f option"
  fl_of_int :: "int \<Rightarrow> 'f"
  fl_repr :: "'f \<Rightarrow> string"
  fl_lt :: "'f \<Rightarrow> 'f \<Rightarrow> bool"
  fl_le :: "'f \<Rightarrow> 'f \<Rightarrow> bool"
  fl_eq :: "'f \<Rightarrow> 'f \<Rightarrow> bool"
  fl_add :: "'f \<Rightarrow> 'f \<Rightarrow> 'f"
  fl_sub :: "'f \<Rightarrow> 'f \<Rightarrow> 'f"
  fl_mul :: "'f \<Rightarrow> 'f \<Rightarrow> 'f"
  fl_div :: "'f \<Rightarrow> 'f \<Rightarrow> 'f"
  fl_sqrt :: "'f \<Rightarrow> 'f"
  fl_sum :: "'f list \<Rightarrow> 'f"
  fl_inf :: 'f
  fl_isinf :: "'f \<Rightarrow> bool"
  fl_const :: "rat \<Rightarrow> 'f"

text \<open>\<open>min\<close> of a non-empty sequence keeps the first minimal value; \<open>sorted\<close> is a stable insertion.\<close>

fun fl_min :: "'f float_ops \<Rightarrow> 'f list \<Rightarrow> 'f" where
  "fl_min fl [] = fl_inf fl"
| "fl_min fl [x] = x"
| "fl_min fl (x # y # ys) = fl_min fl ((if fl_lt fl y x then y else x) # ys)"

fun fl_insert :: "'f float_ops \<Rightarrow> 'f \<Rightarrow> 'f list \<Rightarrow> 'f list" where
  "fl_insert fl x [] = [x]"
| "fl_insert fl x (y # ys) = (if fl_lt fl x y then x # y # ys else y # fl_insert fl x ys)"

definition fl_sorted :: "'f float_ops \<Rightarrow> 'f list \<Rightarrow> 'f list" where
  "fl_sorted fl xs = foldl (\<lambda>acc x. fl_insert fl x acc) [] xs"

text \<open>Exact rationals, numerals read in decimal; no value is infinite but the marker \<open>- 1\<close>.\<close>

definition rat_of_str :: "string \<Rightarrow> rat option" where
  "rat_of_str s = (if s \<noteq> [] \<and> list_all is_digit s then Some (of_nat (nat_of_str s)) else None)"

definition rat_floats :: "rat float_ops" where
  "rat_floats =
     \<lparr>fl_of_str = rat_of_str, fl_of_int = of_int, fl_repr = (\<lambda>_. ''1.0''), fl_lt = (<), fl_le = (\<le>),
      fl_eq = (=), fl_add = (+), fl_sub = (-), fl_mul = (*), fl_div = (/), fl_sqrt = (\<lambda>x. x),
      fl_sum = sum_list, fl_inf = 1000000, fl_isinf = (\<lambda>x. x = 1000000), fl_const = (\<lambda>x. x)\<rparr>"

end
