(* ===== verification/BusinessRules.thy ===== *)
theory BusinessRules
  imports PyFloat
begin

text \<open>
  \<open>src/app/plugins/tabular/rules.py\<close> with the business-rule models of \<open>src/app/domain/profile.py\<close>:
  declarative row rules, their evaluation, the per-rule counters an evaluator accumulates over the
  rows and the report it builds. A CSV row is a dictionary of strings. Floats are the abstract
  operations of \<open>PyFloat\<close>; the rule hash is taken over the canonical JSON of the rules.
\<close>

type_synonym csv_row = "(string, string) dict"

definition row_get :: "csv_row \<Rightarrow> string \<Rightarrow> string" where
  "row_get row column = (case dict_get row column of None \<Rightarrow> [] | Some v \<Rightarrow> v)"

section \<open>Rules\<close>

datatype field_op = Op_gte | Op_gt | Op_lte | Op_lt | Op_eq | Op_ne | Op_in | Op_not_in

fun op_value :: "field_op \<Rightarrow> string" where
  "op_value Op_gte = ''gte''"
| "op_value Op_gt = ''gt''"
| "op_value Op_lte = ''lte''"
| "op_value Op_lt = ''lt''"
| "op_value Op_eq = ''eq''"
| "op_value Op_ne = ''ne''"
| "op_value Op_in = ''in''"
| "op_value Op_not_in = ''not_in''"

datatype 'f rule_value =
    RVFloat 'f
  | RVInt int
  | RVStr string
  | RVBool bool
  | RVTuple "string list"

datatype rule_severity = CRITICAL | WARNING | INFO

fun severity_value :: "rule_severity \<Rightarrow> string" where
  "severity_value CRITICAL = ''critical''"
| "severity_value WARNING = ''warning''"
| "severity_value INFO = ''info''"

record 'f field_check =
  fc_field :: string
  fc_op :: field_op
  fc_value :: "'f rule_value"

record 'f business_rule =
  br_rule_id :: string
  br_description :: "string option"
  br_severity :: rule_severity
  br_columns :: "string list"
  br_checks :: "'f field_check list"
  br_allow_missing :: bool
  br_message :: "string option"

definition opt_ok :: "('a \<Rightarrow> bool) \<Rightarrow> 'a option \<Rightarrow> bool" where
  "opt_ok ok v = (case v of None \<Rightarrow> True | Some x \<Rightarrow> ok x)"

definition field_check_valid :: "'f field_check \<Rightarrow> bool" where
  "field_check_valid ck \<longleftrightarrow> non_empty (fc_field ck)"

definition business_rule_valid :: "'f business_rule \<Rightarrow> bool" where
  "business_rule_valid r \<longleftrightarrow>
     non_empty (br_rule_id r) \<and> opt_ok non_empty (br_description r) \<and> list_all non_empty (br_columns r)
     \<and> 1 \<le> length (br_checks r) \<and> list_all field_check_valid (br_checks r)
     \<and> opt_ok non_empty (br_message r)"

section \<open>str() of a rule value\<close>

text \<open>
  \<open>repr\<close> of a string below code point 256: single quotes unless only double quotes avoid an escape,
  backslash escapes, \<open>\xhh\<close> for what is not printable.
\<close>

definition printable :: "char \<Rightarrow> bool" where
  "printable c \<longleftrightarrow> (32 \<le> code c \<and> code c < 127) \<or> (160 < code c \<and> code c \<noteq> 173)"

definition apostrophe :: char where
  "apostrophe = CHR 0x27"

definition repr_char :: "char \<Rightarrow> char \<Rightarrow> string" where
  "repr_char q c =
     (if c = q \<or> c = backslash then [backslash, c]
      else if code c = 9 then [backslash, CHR ''t'']
      else if code c = 10 then [backslash, CHR ''n'']
      else if code c = 13 then [backslash, CHR ''r'']
      else if printable c then [c]
      else [backslash, CHR ''x'', hexdigit (code c div 16), hexdigit (code c mod 16)])"

definition repr_str :: "string \<Rightarrow> string" where
  "repr_str s =
     (let q = if apostrophe \<in> set s \<and> quote \<notin> set s then quote else apostrophe in
      q # concat (map (repr_char q) s) @ [q])"

fun str_of_value :: "'f float_ops \<Rightarrow> 'f rule_value \<Rightarrow> string" where
  "str_of_value fl (RVFloat x) = fl_repr fl x"
| "str_of_value fl (RVInt i) = str_of_int i"
| "str_of_value fl (RVStr s) = s"
| "str_of_value fl (RVBool b) = (if b then ''True'' else ''False'')"
| "str_of_value fl (RVTuple []) = ''()''"
| "str_of_value fl (RVTuple [s]) = ''('' @ repr_str s @ '',)''"
| "str_of_value fl (RVTuple ss) = ''('' @ join '', '' (map repr_str ss) @ '')''"

section \<open>Evaluation of a rule (_check_value, _evaluate_rule)\<close>

fun expected_float :: "'f float_ops \<Rightarrow> 'f rule_value \<Rightarrow> 'f option" where
  "expected_float fl (RVFloat x) = Some x"
| "expected_float fl (RVInt i) = Some (fl_of_int fl i)"
| "expected_float fl (RVBool b) = Some (fl_of_int fl (if b then 1 else 0))"
| "expected_float fl v = fl_of_str fl (str_of_value fl v)"

fun is_tuple :: "'f rule_value \<Rightarrow> bool" where
  "is_tuple (RVTuple ss) = True"
| "is_tuple _ = False"

fun tuple_items :: "'f rule_value \<Rightarrow> string list" where
  "tuple_items (RVTuple ss) = ss"
| "tuple_items _ = []"

fun numeric_op :: "'f float_ops \<Rightarrow> field_op \<Rightarrow> ('f \<Rightarrow> 'f \<Rightarrow> bool) option" where
  "numeric_op fl Op_gte = Some (\<lambda>a e. fl_le fl e a)"
| "numeric_op fl Op_gt = Some (\<lambda>a e. fl_lt fl e a)"
| "numeric_op fl Op_lte = Some (fl_le fl)"
| "numeric_op fl Op_lt = Some (fl_lt fl)"
| "numeric_op fl _ = None"

definition check_value :: "'f float_ops \<Rightarrow> string \<Rightarrow> 'f field_check \<Rightarrow> exn + bool" where
  "check_value fl raw check =
     (case numeric_op fl (fc_op check) of
        Some cmp \<Rightarrow>
          (case fl_of_str fl raw of
             None \<Rightarrow> Inr False
           | Some actual \<Rightarrow>
               (case expected_float fl (fc_value check) of
                  None \<Rightarrow> Inr False
                | Some expected \<Rightarrow> Inr (cmp actual expected)))
      | None \<Rightarrow>
          if fc_op check = Op_eq then Inr (raw = str_of_value fl (fc_value check))
          else if fc_op check = Op_ne then Inr (raw \<noteq> str_of_value fl (fc_value check))
          else if \<not> is_tuple (fc_value check) then Inl (Other ''ValueError'')
          else if fc_op check = Op_in then Inr (raw \<in> set (tuple_items (fc_value check)))
          else Inr (raw \<notin> set (tuple_items (fc_value check))))"

text \<open>The loop over the checks; the result is \<open>(evaluated, passed, first_failed_check)\<close>.\<close>

fun evaluate_checks ::
    "'f float_ops \<Rightarrow> bool \<Rightarrow> csv_row \<Rightarrow> 'f field_check list \<Rightarrow> exn + (bool \<times> bool \<times> 'f field_check option)" where
  "evaluate_checks fl allow_missing row [] = Inr (True, True, None)"
| "evaluate_checks fl allow_missing row (check # checks) =
     (let raw = row_get row (fc_field check) in
      if raw = [] then
        (if allow_missing then evaluate_checks fl allow_missing row checks
         else Inr (True, False, Some check))
      else bindR (check_value fl raw check) (\<lambda>ok.
        if \<not> ok then Inr (True, False, Some check)
        else evaluate_checks fl allow_missing row checks))"

definition evaluate_rule ::
    "'f float_ops \<Rightarrow> 'f business_rule \<Rightarrow> csv_row \<Rightarrow> exn + (bool \<times> bool \<times> 'f field_check option)" where
  "evaluate_rule fl rule row = evaluate_checks fl (br_allow_missing rule) row (br_checks rule)"

section \<open>The rule hash (compute_rules_config_hash)\<close>

fun value_json :: "'f float_ops \<Rightarrow> 'f rule_value \<Rightarrow> json" where
  "value_json fl (RVFloat x) = JFloat (fl_repr fl x)"
| "value_json fl (RVInt i) = JInt i"
| "value_json fl (RVStr s) = JStr s"
| "value_json fl (RVBool b) = JBool b"
| "value_json fl (RVTuple ss) = JList (map JStr ss)"

definition opt_json :: "string option \<Rightarrow> json" where
  "opt_json v = (case v of None \<Rightarrow> JNull | Some s \<Rightarrow> JStr s)"

definition check_json :: "'f float_ops \<Rightarrow> 'f field_check \<Rightarrow> json" where
  "check_json fl ck =
     JObj [(''field'', JStr (fc_field ck)), (''op'', JStr (op_value (fc_op ck))),
           (''value'', value_json fl (fc_value ck))]"

definition rule_json :: "'f float_ops \<Rightarrow> 'f business_rule \<Rightarrow> json" where
  "rule_json fl r =
     JObj [(''rule_id'', JStr (br_rule_id r)), (''description'', opt_json (br_description r)),
           (''severity'', JStr (severity_value (br_severity r))),
           (''columns'', JList (map JStr (br_columns r))),
           (''checks'', JList (map (check_json fl) (br_checks r))),
           (''allow_missing'', JBool (br_allow_missing r)), (''message'', opt_json (br_message r))]"

definition compute_rules_config_hash ::
    "'f float_ops \<Rightarrow> (string \<Rightarrow> string) \<Rightarrow> 'f business_rule list \<Rightarrow> string" where
  "compute_rules_config_hash fl sha rules = stable_hash sha (JList (map (rule_json fl) rules))"

section \<open>The evaluator\<close>

record rule_counters =
  rc_evaluated :: int
  rc_violations :: int
  rc_sample_object_ids :: "string list"

record rule_violation =
  rv_rule_id :: string
  rv_object_id :: "string option"
  rv_column :: "string option"
  rv_message :: "string option"

record 'f rule_summary =
  rs_rule_id :: string
  rs_severity :: rule_severity
  rs_description :: "string option"
  rs_columns :: "string list"
  rs_violation_count :: int
  rs_evaluated_count :: int
  rs_pass_rate :: 'f

record 'f rules_report =
  rr_rules_version :: string
  rr_rules_config_hash :: string
  rr_rules :: "'f rule_summary list"
  rr_sample_violations :: "rule_violation list"
  rr_blocker_candidate_rule_ids :: "string list"

record 'f evaluator =
  ev_rules :: "'f business_rule list"
  ev_rules_version :: string
  ev_rules_config_hash :: string
  ev_sample_limit :: nat
  ev_counters :: "(string, rule_counters) dict"
  ev_sample_violations :: "rule_violation list"

definition fresh_counters :: rule_counters where
  "fresh_counters = \<lparr>rc_evaluated = 0, rc_violations = 0, rc_sample_object_ids = []\<rparr>"

definition DEFAULT_SAMPLE_LIMIT :: nat where
  "DEFAULT_SAMPLE_LIMIT = 50"

definition make_evaluator ::
    "'f float_ops \<Rightarrow> (string \<Rightarrow> string) \<Rightarrow> 'f business_rule list \<Rightarrow> string \<Rightarrow> string option \<Rightarrow> nat
     \<Rightarrow> 'f evaluator" where
  "make_evaluator fl sha rules rules_version rules_config_hash sample_limit =
     \<lparr>ev_rules = rules, ev_rules_version = rules_version,
      ev_rules_config_hash = (case rules_config_hash of
          Some h \<Rightarrow> h | None \<Rightarrow> compute_rules_config_hash fl sha rules),
      ev_sample_limit = sample_limit,
      ev_counters = dict_of (map (\<lambda>r. (br_rule_id r, fresh_counters)) rules),
      ev_sample_violations = []\<rparr>"

definition rule_violation_valid :: "rule_violation \<Rightarrow> bool" where
  "rule_violation_valid v \<longleftrightarrow>
     non_empty (rv_rule_id v) \<and> opt_ok non_empty (rv_object_id v) \<and> opt_ok non_empty (rv_message v)"

definition falsy_none :: "string option \<Rightarrow> string option" where
  "falsy_none v = (case v of None \<Rightarrow> None | Some s \<Rightarrow> if s = [] then None else Some s)"

definition the_counters :: "(string, rule_counters) dict \<Rightarrow> string \<Rightarrow> rule_counters" where
  "the_counters d rid = (case dict_get d rid of Some rc \<Rightarrow> rc | None \<Rightarrow> fresh_counters)"

definition counted :: "nat \<Rightarrow> string option \<Rightarrow> bool \<Rightarrow> rule_counters \<Rightarrow> rule_counters" where
  "counted sample_limit object_id passed rc =
     (let rc' = rc\<lparr>rc_evaluated := rc_evaluated rc + 1\<rparr> in
      if passed then rc'
      else rc'\<lparr>rc_violations := rc_violations rc + 1,
               rc_sample_object_ids :=
                 (if length (rc_sample_object_ids rc) < sample_limit
                  then (case falsy_none object_id of
                          None \<Rightarrow> rc_sample_object_ids rc
                        | Some oid \<Rightarrow> rc_sample_object_ids rc @ [oid])
                  else rc_sample_object_ids rc)\<rparr>)"

text \<open>The body of the loop of \<open>observe_row\<close>.\<close>

definition observe_rule ::
    "'f float_ops \<Rightarrow> csv_row \<Rightarrow> string option \<Rightarrow> 'f evaluator \<Rightarrow> 'f business_rule \<Rightarrow> exn + 'f evaluator" where
  "observe_rule fl row object_id ev rule =
     bindR (evaluate_rule fl rule row) (\<lambda>(evaluated, passed, failed_check).
       if \<not> evaluated then Inr ev
       else
         let ev' = ev\<lparr>ev_counters := dict_set (ev_counters ev) (br_rule_id rule)
                (counted (ev_sample_limit ev) object_id passed (the_counters (ev_counters ev) (br_rule_id rule)))\<rparr> in
         if passed then Inr ev'
         else if length (ev_sample_violations ev) < ev_sample_limit ev
         then bindR (validated rule_violation_valid
                \<lparr>rv_rule_id = br_rule_id rule, rv_object_id = falsy_none object_id,
                 rv_column = map_option fc_field failed_check, rv_message = br_message rule\<rparr>) (\<lambda>v.
              Inr (ev'\<lparr>ev_sample_violations := ev_sample_violations ev @ [v]\<rparr>))
         else Inr ev')"

definition observe_row ::
    "'f float_ops \<Rightarrow> csv_row \<Rightarrow> string option \<Rightarrow> 'f evaluator \<Rightarrow> exn + 'f evaluator" where
  "observe_row fl row object_id ev = foldR (observe_rule fl row object_id) ev (ev_rules ev)"

definition pass_rate_of :: "'f float_ops \<Rightarrow> rule_counters \<Rightarrow> 'f" where
  "pass_rate_of fl rc =
     (if 0 < rc_evaluated rc
      then fl_div fl (fl_of_int fl (rc_evaluated rc - rc_violations rc)) (fl_of_int fl (rc_evaluated rc))
      else fl_const fl 1)"

definition fl_score_ok :: "'f float_ops \<Rightarrow> 'f \<Rightarrow> bool" where
  "fl_score_ok fl x \<longleftrightarrow> fl_le fl (fl_const fl 0) x \<and> fl_le fl x (fl_const fl 1)"

definition rule_summary_valid :: "'f float_ops \<Rightarrow> 'f rule_summary \<Rightarrow> bool" where
  "rule_summary_valid fl s \<longleftrightarrow>
     non_empty (rs_rule_id s) \<and> opt_ok non_empty (rs_description s) \<and> list_all non_empty (rs_columns s)
     \<and> 0 \<le> rs_violation_count s \<and> 0 \<le> rs_evaluated_count s \<and> fl_score_ok fl (rs_pass_rate s)"

definition summary_of :: "'f float_ops \<Rightarrow> 'f evaluator \<Rightarrow> 'f business_rule \<Rightarrow> exn + 'f rule_summary" where
  "summary_of fl ev rule =
     (let rc = the_counters (ev_counters ev) (br_rule_id rule) in
      validated (rule_summary_valid fl)
        \<lparr>rs_rule_id = br_rule_id rule, rs_severity = br_severity rule,
         rs_description = br_description rule, rs_columns = br_columns rule,
         rs_violation_count = rc_violations rc, rs_evaluated_count = rc_evaluated rc,
         rs_pass_rate = pass_rate_of fl rc\<rparr>)"

definition is_blocker :: "'f evaluator \<Rightarrow> 'f business_rule \<Rightarrow> bool" where
  "is_blocker ev rule \<longleftrightarrow>
     br_severity rule = CRITICAL \<and> 0 < rc_violations (the_counters (ev_counters ev) (br_rule_id rule))"

definition rules_report_valid :: "'f float_ops \<Rightarrow> 'f rules_report \<Rightarrow> bool" where
  "rules_report_valid fl r \<longleftrightarrow>
     non_empty (rr_rules_version r) \<and> sha256_digest (rr_rules_config_hash r)
     \<and> list_all (rule_summary_valid fl) (rr_rules r)
     \<and> list_all rule_violation_valid (rr_sample_violations r)
     \<and> list_all non_empty (rr_blocker_candidate_rule_ids r)"

definition build_report :: "'f float_ops \<Rightarrow> 'f evaluator \<Rightarrow> exn + 'f rules_report" where
  "build_report fl ev =
     bindR (mapR (summary_of fl ev) (ev_rules ev)) (\<lambda>summaries.
       validated (rules_report_valid fl)
         \<lparr>rr_rules_version = ev_rules_version ev, rr_rules_config_hash = ev_rules_config_hash ev,
          rr_rules = summaries, rr_sample_violations = ev_sample_violations ev,
          rr_blocker_candidate_rule_ids = map br_rule_id (filter (is_blocker ev) (ev_rules ev))\<rparr>)"

text \<open>A whole pass: one evaluator, every row, the report.\<close>

definition observe_rows ::
    "'f float_ops \<Rightarrow> (csv_row \<times> string option) list \<Rightarrow> 'f evaluator \<Rightarrow> exn + 'f evaluator" where
  "observe_rows fl rows ev = foldR (\<lambda>e r. observe_row fl (fst r) (snd r) e) ev rows"


section \<open>What a rule means\<close>

text \<open>The operators \<open>in\<close> and \<open>not_in\<close> need a list value; with another value the evaluation raises.\<close>

definition typed_check :: "'f field_check \<Rightarrow> bool" where
  "typed_check ck \<longleftrightarrow> (fc_op ck = Op_in \<or> fc_op ck = Op_not_in \<longrightarrow> is_tuple (fc_value ck))"

definition typed_rule :: "'f business_rule \<Rightarrow> bool" where
  "typed_rule r \<longleftrightarrow> business_rule_valid r \<and> list_all typed_check (br_checks r)"

definition check_ok :: "'f float_ops \<Rightarrow> bool \<Rightarrow> csv_row \<Rightarrow> 'f field_check \<Rightarrow> bool" where
  "check_ok fl allow_missing row ck =
     (if row_get row (fc_field ck) = [] then allow_missing
      else check_value fl (row_get row (fc_field ck)) ck = Inr True)"

definition rule_ok :: "'f float_ops \<Rightarrow> csv_row \<Rightarrow> 'f business_rule \<Rightarrow> bool" where
  "rule_ok fl row r = list_all (check_ok fl (br_allow_missing r) row) (br_checks r)"

lemma numeric_op_None: "numeric_op fl f = None \<longleftrightarrow> f \<in> {Op_eq, Op_ne, Op_in, Op_not_in}"
  by (cases f) auto

lemma typed_check_value: "typed_check ck \<Longrightarrow> \<exists>b. check_value fl raw ck = Inr b"
  by (cases "fc_op ck") (auto simp: typed_check_def check_value_def split: option.splits)

lemma evaluate_checks_typed:
  "list_all typed_check cks \<Longrightarrow>
     evaluate_checks fl am row cks =
       Inr (True, list_all (check_ok fl am row) cks, List.find (\<lambda>ck. \<not> check_ok fl am row ck) cks)"
proof (induction cks)
  case (Cons ck cks)
  then obtain b where "check_value fl (row_get row (fc_field ck)) ck = Inr b"
    using typed_check_value [of ck fl "row_get row (fc_field ck)"] by auto
  moreover from this have "check_ok fl am row ck = (if row_get row (fc_field ck) = [] then am else b)"
    by (simp add: check_ok_def)
  ultimately show ?case using Cons by (cases am; cases b) (simp_all add: Let_def)
qed simp

lemma evaluate_rule_typed:
  "typed_rule r \<Longrightarrow>
     \<exists>failed. evaluate_rule fl r row = Inr (True, rule_ok fl row r, failed)"
  by (simp add: evaluate_rule_def evaluate_checks_typed typed_rule_def rule_ok_def)

section \<open>Counters over the rows\<close>

lemma counted_simps [simp]:
  "rc_evaluated (counted n oid passed rc) = rc_evaluated rc + 1"
  "rc_violations (counted n oid passed rc) = rc_violations rc + (if passed then 0 else 1)"
  by (simp_all add: counted_def Let_def)

lemma counted_samples:
  "length (rc_sample_object_ids rc) \<le> n \<Longrightarrow> length (rc_sample_object_ids (counted n oid passed rc)) \<le> n"
  by (auto simp: counted_def Let_def split: option.splits)

lemma the_counters_set [simp]:
  "the_counters (dict_set d k v) k' = (if k' = k then v else the_counters d k')"
  by (simp add: the_counters_def dict_get_set)

lemma falsy_none_ok [simp]: "opt_ok non_empty (falsy_none v)"
  by (auto simp: opt_ok_def falsy_none_def non_empty_def split: option.splits)

definition same_setup :: "'f evaluator \<Rightarrow> 'f evaluator \<Rightarrow> bool" where
  "same_setup ev ev' \<longleftrightarrow>
     ev_rules ev' = ev_rules ev \<and> ev_rules_version ev' = ev_rules_version ev
     \<and> ev_rules_config_hash ev' = ev_rules_config_hash ev \<and> ev_sample_limit ev' = ev_sample_limit ev"

definition samples_bounded :: "'f evaluator \<Rightarrow> bool" where
  "samples_bounded ev \<longleftrightarrow>
     length (ev_sample_violations ev) \<le> ev_sample_limit ev
     \<and> list_all rule_violation_valid (ev_sample_violations ev)
     \<and> (\<forall>rid. length (rc_sample_object_ids (the_counters (ev_counters ev) rid)) \<le> ev_sample_limit ev)"

lemma observe_rule_step:
  assumes "typed_rule r" "samples_bounded ev"
  shows "\<exists>ev'. observe_rule fl row oid ev r = Inr ev' \<and> same_setup ev ev' \<and> samples_bounded ev'
    \<and> (\<forall>rid. rc_evaluated (the_counters (ev_counters ev') rid) =
         rc_evaluated (the_counters (ev_counters ev) rid) + (if br_rule_id r = rid then 1 else 0)
       \<and> rc_violations (the_counters (ev_counters ev') rid) =
         rc_violations (the_counters (ev_counters ev) rid)
           + (if br_rule_id r = rid \<and> \<not> rule_ok fl row r then 1 else 0))"
proof -
  obtain failed where ev: "evaluate_rule fl r row = Inr (True, rule_ok fl row r, failed)"
    using evaluate_rule_typed [OF assms(1)] by blast
  have "rule_violation_valid \<lparr>rv_rule_id = br_rule_id r, rv_object_id = falsy_none oid,
      rv_column = map_option fc_field failed, rv_message = br_message r\<rparr>"
    using assms(1) by (simp add: rule_violation_valid_def typed_rule_def business_rule_valid_def)
  with ev assms(2) show ?thesis
    by (auto simp: observe_rule_def Let_def same_setup_def samples_bounded_def counted_samples)
qed

definition bad_rules :: "'f float_ops \<Rightarrow> csv_row \<Rightarrow> string \<Rightarrow> 'f business_rule list \<Rightarrow> nat" where
  "bad_rules fl row rid rs = length (filter (\<lambda>r. br_rule_id r = rid \<and> \<not> rule_ok fl row r) rs)"

definition rules_named :: "string \<Rightarrow> 'f business_rule list \<Rightarrow> nat" where
  "rules_named rid rs = length (filter (\<lambda>r. br_rule_id r = rid) rs)"

lemma same_setup_trans: "same_setup a b \<Longrightarrow> same_setup b c \<Longrightarrow> same_setup a c"
  by (simp add: same_setup_def)

lemma observe_rules_fold:
  "list_all typed_rule rs \<Longrightarrow> samples_bounded ev \<Longrightarrow>
   \<exists>ev'. foldR (observe_rule fl row oid) ev rs = Inr ev' \<and> same_setup ev ev' \<and> samples_bounded ev'
    \<and> (\<forall>rid. rc_evaluated (the_counters (ev_counters ev') rid) =
         rc_evaluated (the_counters (ev_counters ev) rid) + int (rules_named rid rs)
       \<and> rc_violations (the_counters (ev_counters ev') rid) =
         rc_violations (the_counters (ev_counters ev) rid) + int (bad_rules fl row rid rs))"
proof (induction rs arbitrary: ev)
  case Nil
  then show ?case by (simp add: same_setup_def rules_named_def bad_rules_def)
next
  case (Cons r rs)
  then obtain e where e: "observe_rule fl row oid ev r = Inr e" "same_setup ev e" "samples_bounded e"
    and c: "\<And>rid. rc_evaluated (the_counters (ev_counters e) rid) =
         rc_evaluated (the_counters (ev_counters ev) rid) + (if br_rule_id r = rid then 1 else 0)"
      "\<And>rid. rc_violations (the_counters (ev_counters e) rid) =
         rc_violations (the_counters (ev_counters ev) rid)
           + (if br_rule_id r = rid \<and> \<not> rule_ok fl row r then 1 else 0)"
    using observe_rule_step [of r ev fl row oid] by auto
  from Cons.IH [OF _ e(3)] Cons.prems(1) obtain e' where
    "foldR (observe_rule fl row oid) e rs = Inr e'" "same_setup e e'" "samples_bounded e'"
    "\<And>rid. rc_evaluated (the_counters (ev_counters e') rid) =
         rc_evaluated (the_counters (ev_counters e) rid) + int (rules_named rid rs)
       \<and> rc_violations (the_counters (ev_counters e') rid) =
         rc_violations (the_counters (ev_counters e) rid) + int (bad_rules fl row rid rs)"
    by auto
  with e c same_setup_trans [OF e(2)] show ?case
    by (auto simp: rules_named_def bad_rules_def)
qed

lemma observe_rows_counts:
  "list_all typed_rule (ev_rules ev) \<Longrightarrow> samples_bounded ev \<Longrightarrow>
   \<exists>ev'. observe_rows fl rows ev = Inr ev' \<and> same_setup ev ev' \<and> samples_bounded ev'
    \<and> (\<forall>rid. rc_evaluated (the_counters (ev_counters ev') rid) =
         rc_evaluated (the_counters (ev_counters ev) rid) + int (length rows * rules_named rid (ev_rules ev))
       \<and> rc_violations (the_counters (ev_counters ev') rid) =
         rc_violations (the_counters (ev_counters ev) rid)
           + int (sum_list (map (\<lambda>r. bad_rules fl (fst r) rid (ev_rules ev)) rows)))"
proof (induction rows arbitrary: ev)
  case Nil
  then show ?case by (simp add: observe_rows_def same_setup_def)
next
  case (Cons row rows)
  obtain e where e: "observe_row fl (fst row) (snd row) ev = Inr e" "same_setup ev e" "samples_bounded e"
    and c: "\<And>rid. rc_evaluated (the_counters (ev_counters e) rid) =
         rc_evaluated (the_counters (ev_counters ev) rid) + int (rules_named rid (ev_rules ev))"
      "\<And>rid. rc_violations (the_counters (ev_counters e) rid) =
         rc_violations (the_counters (ev_counters ev) rid) + int (bad_rules fl (fst row) rid (ev_rules ev))"
    using observe_rules_fold [OF Cons.prems, of fl "fst row" "snd row"] by (auto simp: observe_row_def)
  then have "ev_rules e = ev_rules ev" by (simp add: same_setup_def)
  with Cons.IH [of e] Cons.prems e(3) obtain e' where
    "observe_rows fl rows e = Inr e'" "same_setup e e'" "samples_bounded e'"
    "\<And>rid. rc_evaluated (the_counters (ev_counters e') rid) =
         rc_evaluated (the_counters (ev_counters e) rid) + int (length rows * rules_named rid (ev_rules ev))
       \<and> rc_violations (the_counters (ev_counters e') rid) =
         rc_violations (the_counters (ev_counters e) rid)
           + int (sum_list (map (\<lambda>r. bad_rules fl (fst r) rid (ev_rules ev)) rows))"
    by auto
  with e c same_setup_trans [OF e(2)] show ?case
    by (auto simp: observe_rows_def algebra_simps)
qed


section \<open>The report of a whole pass\<close>

text \<open>The arithmetic the pass rate relies on: a quotient of counts stays in the unit interval.\<close>

definition ratio_in_unit :: "'f float_ops \<Rightarrow> bool" where
  "ratio_in_unit fl \<longleftrightarrow>
     fl_score_ok fl (fl_const fl 1)
     \<and> (\<forall>v e. 0 \<le> v \<longrightarrow> v \<le> e \<longrightarrow> 0 < e \<longrightarrow> fl_score_ok fl (fl_div fl (fl_of_int fl (e - v)) (fl_of_int fl e)))"

definition expected_summary ::
    "'f float_ops \<Rightarrow> (csv_row \<times> string option) list \<Rightarrow> 'f business_rule \<Rightarrow> 'f rule_summary" where
  "expected_summary fl rows r =
     (let violated = int (length (filter (\<lambda>row. \<not> rule_ok fl (fst row) r) rows)); total = int (length rows) in
      \<lparr>rs_rule_id = br_rule_id r, rs_severity = br_severity r, rs_description = br_description r,
       rs_columns = br_columns r, rs_violation_count = violated, rs_evaluated_count = total,
       rs_pass_rate = (if rows = [] then fl_const fl 1
         else fl_div fl (fl_of_int fl (total - violated)) (fl_of_int fl total))\<rparr>)"

lemma distinct_rules_named:
  assumes "distinct (map br_rule_id rs)" "r \<in> set rs"
  shows "filter (\<lambda>s. br_rule_id s = br_rule_id r) rs = [r]"
    "filter (\<lambda>s. br_rule_id s = br_rule_id r \<and> \<not> rule_ok fl row s) rs = (if rule_ok fl row r then [] else [r])"
  using assms by (induction rs) (auto simp: filter_empty_conv image_iff)

lemma sum_indicator: "sum_list (map (\<lambda>x. if P x then 0 else Suc 0) xs) = length (filter (\<lambda>x. \<not> P x) xs)"
  by (induction xs) auto

lemma fresh_evaluator:
  "samples_bounded (make_evaluator fl sha rs v h n)" "the_counters (ev_counters (make_evaluator fl sha rs v h n)) rid = fresh_counters"
proof -
  have "dict_get (dict_of (map (\<lambda>r. (br_rule_id r, fresh_counters)) rs)) rid = Some x \<Longrightarrow> x = fresh_counters" for x rid
    by (auto simp: dict_get_dict_of dest!: dict_get_Some_in)
  then have c: "the_counters (dict_of (map (\<lambda>r. (br_rule_id r, fresh_counters)) rs)) rid = fresh_counters" for rid
    by (auto simp: the_counters_def split: option.splits)
  show "samples_bounded (make_evaluator fl sha rs v h n)"
    by (simp add: samples_bounded_def make_evaluator_def c) (simp add: fresh_counters_def)
  show "the_counters (ev_counters (make_evaluator fl sha rs v h n)) rid = fresh_counters"
    by (simp add: make_evaluator_def c)
qed

lemma pass_counts:
  assumes "list_all typed_rule rs" "distinct (map br_rule_id rs)"
  shows "\<exists>ev. observe_rows fl rows (make_evaluator fl sha rs v h n) = Inr ev
    \<and> same_setup (make_evaluator fl sha rs v h n) ev \<and> samples_bounded ev
    \<and> (\<forall>r \<in> set rs. rc_evaluated (the_counters (ev_counters ev) (br_rule_id r)) = int (length rows)
        \<and> rc_violations (the_counters (ev_counters ev) (br_rule_id r)) =
            int (length (filter (\<lambda>row. \<not> rule_ok fl (fst row) r) rows)))"
proof -
  let ?ev = "make_evaluator fl sha rs v h n"
  have rules: "ev_rules ?ev = rs" by (simp add: make_evaluator_def)
  obtain ev where ev: "observe_rows fl rows ?ev = Inr ev" "same_setup ?ev ev" "samples_bounded ev"
    and c: "\<And>rid. rc_evaluated (the_counters (ev_counters ev) rid) = int (length rows * rules_named rid rs)"
      "\<And>rid. rc_violations (the_counters (ev_counters ev) rid) =
          int (sum_list (map (\<lambda>r. bad_rules fl (fst r) rid rs) rows))"
    using observe_rows_counts [of ?ev fl rows] assms(1) fresh_evaluator(1) [of fl sha rs v h n]
    unfolding rules fresh_evaluator(2) by (auto simp: fresh_counters_def)
  have "rules_named (br_rule_id r) rs = 1"
    "bad_rules fl row (br_rule_id r) rs = (if rule_ok fl row r then 0 else Suc 0)" if "r \<in> set rs" for r row
    using distinct_rules_named [OF assms(2) that] by (simp_all add: rules_named_def bad_rules_def)
  with ev c show ?thesis by (intro exI [of _ ev]) (simp add: sum_indicator)
qed

lemma report_of_counts:
  assumes "list_all typed_rule rs" "same_setup (make_evaluator fl sha rs v (Some h) n) ev" "samples_bounded ev"
    and "\<And>r. r \<in> set rs \<Longrightarrow> rc_evaluated (the_counters (ev_counters ev) (br_rule_id r)) = int (length rows)
        \<and> rc_violations (the_counters (ev_counters ev) (br_rule_id r)) =
            int (length (filter (\<lambda>row. \<not> rule_ok fl (fst row) r) rows))"
    and "ratio_in_unit fl" "non_empty v" "sha256_digest h"
  shows "\<exists>rep. build_report fl ev = Inr rep
    \<and> rr_rules rep = map (expected_summary fl rows) rs
    \<and> rr_blocker_candidate_rule_ids rep =
        map br_rule_id (filter (\<lambda>r. br_severity r = CRITICAL \<and> (\<exists>row \<in> set rows. \<not> rule_ok fl (fst row) r)) rs)
    \<and> length (rr_sample_violations rep) \<le> n"
proof -
  have rules: "ev_rules ev = rs" "ev_rules_version ev = v" "ev_rules_config_hash ev = h" "ev_sample_limit ev = n"
    using assms(2) by (simp_all add: same_setup_def make_evaluator_def)
  have valid: "rule_summary_valid fl (expected_summary fl rows r)" if "r \<in> set rs" for r
  proof -
    have "int (length (filter (\<lambda>row. \<not> rule_ok fl (fst row) r) rows)) \<le> int (length rows)" by simp
    moreover have "rows \<noteq> [] \<Longrightarrow> 0 < int (length rows)" by simp
    ultimately show ?thesis
      using assms(1,5) that
      by (auto simp: rule_summary_valid_def expected_summary_def Let_def ratio_in_unit_def list_all_iff
          typed_rule_def business_rule_valid_def)
  qed
  have one: "summary_of fl ev r = Inr (expected_summary fl rows r)" if "r \<in> set rs" for r
  proof -
    have "summary_of fl ev r = validated (rule_summary_valid fl) (expected_summary fl rows r)"
      using assms(4) [OF that] by (simp add: summary_of_def Let_def pass_rate_of_def expected_summary_def)
    with valid [OF that] show ?thesis by simp
  qed
  have "is_blocker ev r \<longleftrightarrow> br_severity r = CRITICAL \<and> (\<exists>row \<in> set rows. \<not> rule_ok fl (fst row) r)"
    if "r \<in> set rs" for r
    using assms(4) [OF that] by (auto simp: is_blocker_def filter_empty_conv)
  then have blockers: "filter (is_blocker ev) rs =
      filter (\<lambda>r. br_severity r = CRITICAL \<and> (\<exists>row \<in> set rows. \<not> rule_ok fl (fst row) r)) rs"
    by (rule filter_cong [OF refl])
  have ids: "non_empty (br_rule_id r)" if "r \<in> set rs" for r
    using assms(1) that by (simp add: list_all_iff typed_rule_def business_rule_valid_def)
  have "mapR (summary_of fl ev) rs = Inr (map (expected_summary fl rows) rs)"
    by (rule mapR_all_ok) (rule one)
  then show ?thesis
    using assms(3,6,7) valid ids
    by (simp add: build_report_def rules result_simps rules_report_valid_def samples_bounded_def list_all_iff blockers)
qed


section \<open>The hash determines the rules\<close>

lemma opt_json_eq [simp]: "canon (opt_json a) = canon (opt_json b) \<longleftrightarrow> a = b"
  by (auto simp: opt_json_def split: option.splits)

lemma op_value_eq [simp]: "op_value a = op_value b \<longleftrightarrow> a = b"
  by (cases a; cases b) simp_all

lemma severity_value_eq [simp]: "severity_value a = severity_value b \<longleftrightarrow> a = b"
  by (cases a; cases b) simp_all

lemma value_json_eq:
  "inj (fl_repr fl) \<Longrightarrow> canon (value_json fl a) = canon (value_json fl b) \<longleftrightarrow> a = b"
  by (cases a; cases b) (auto simp: inj_def)

lemma check_json_eq:
  assumes "inj (fl_repr fl)" "canon (check_json fl (a :: 'f field_check)) = canon (check_json fl b)"
  shows "a = b"
proof -
  note field = canon_JObj_field [OF assms(2) [unfolded check_json_def]]
  show ?thesis using field [of "''field''"] field [of "''op''"] field [of "''value''"]
    by (simp add: value_json_eq [OF assms(1)])
qed

lemma rule_json_eq:
  assumes "inj (fl_repr fl)" "canon (rule_json fl (a :: 'f business_rule)) = canon (rule_json fl b)"
  shows "a = b"
proof -
  note field = canon_JObj_field [OF assms(2) [unfolded rule_json_def]]
  have "map (canon \<circ> check_json fl) (br_checks a) = map (canon \<circ> check_json fl) (br_checks b)"
    using field [of "''checks''"] by (simp add: o_def)
  then have "br_checks a = br_checks b"
    by (rule map_injective) (auto intro!: injI dest: check_json_eq [OF assms(1)])
  then show ?thesis
    using field [of "''rule_id''"] field [of "''description''"] field [of "''severity''"]
      field [of "''columns''"] field [of "''allow_missing''"] field [of "''message''"]
    by simp
qed

lemma rules_json_eq:
  assumes "inj (fl_repr fl)" "canon (JList (map (rule_json fl) rs)) = canon (JList (map (rule_json fl) ss))"
  shows "rs = ss"
proof -
  have "map (canon \<circ> rule_json fl) rs = map (canon \<circ> rule_json fl) ss"
    using assms(2) by (simp add: o_def)
  then show ?thesis
    by (rule map_injective) (auto intro!: injI dest: rule_json_eq [OF assms(1)])
qed

lemma wf_rules_json: "(\<And>x. float_text (fl_repr fl x)) \<Longrightarrow> wf_json (JList (map (rule_json fl) rs))"
proof -
  assume f: "\<And>x. float_text (fl_repr fl x)"
  have v: "wf_json (value_json fl v)" for v using f by (cases v) (simp_all add: list_all_iff)
  have "wf_json (opt_json v)" for v by (simp add: opt_json_def split: option.splits)
  with v show ?thesis by (simp add: list_all_iff rule_json_def check_json_def)
qed

section \<open>Properties\<close>

definition income_check :: "rat field_check" where
  "income_check = \<lparr>fc_field = ''income'', fc_op = Op_gte, fc_value = RVInt 5\<rparr>"

definition status_check :: "rat field_check" where
  "status_check = \<lparr>fc_field = ''status'', fc_op = Op_in, fc_value = RVTuple [''open'', ''closed'']\<rparr>"

definition sample_rule :: "string \<Rightarrow> rule_severity \<Rightarrow> rat field_check \<Rightarrow> rat business_rule" where
  "sample_rule rid sev ck =
     \<lparr>br_rule_id = rid, br_description = None, br_severity = sev, br_columns = [fc_field ck],
      br_checks = [ck], br_allow_missing = False, br_message = None\<rparr>"

definition sample_rules :: "rat business_rule list" where
  "sample_rules = [sample_rule ''r1'' CRITICAL income_check, sample_rule ''r2'' WARNING status_check]"

definition sample_rows :: "(csv_row \<times> string option) list" where
  "sample_rows = [([(''income'', ''7''), (''status'', ''open'')], Some ''a''),
                  ([(''income'', ''3''), (''status'', ''lost'')], Some ''b''), ([], None)]"

definition zero_digest :: string where
  "zero_digest = sha256_of toy_sha []"

lemma ratio_in_unit_rat: "ratio_in_unit rat_floats"
  by (simp add: ratio_in_unit_def fl_score_ok_def rat_floats_def)

lemma sample_rules_ok: "list_all typed_rule sample_rules" "distinct (map br_rule_id sample_rules)"
  by (simp_all add: sample_rules_def sample_rule_def typed_rule_def business_rule_valid_def
      field_check_valid_def income_check_def status_check_def typed_check_def opt_ok_def non_empty_def)

text \<open>A report counts, for every rule, the rows that break it, over all rows read; it lists as
  blockers exactly the critical rules some row breaks, in the order of the configuration; and its
  sample of violations never exceeds the limit. This holds when the rule ids are distinct and the
  list operators are given lists; the only law of floating point used is that a quotient of counts
  lies in the unit interval.\<close>

theorem rules_report_counts:
  assumes "list_all typed_rule rs" "distinct (map br_rule_id rs)"
    and "ratio_in_unit fl" "non_empty v" "sha256_digest h"
  shows "\<exists>ev rep. observe_rows fl rows (make_evaluator fl sha rs v (Some h) n) = Inr ev
    \<and> build_report fl ev = Inr rep
    \<and> rr_rules rep = map (expected_summary fl rows) rs
    \<and> rr_blocker_candidate_rule_ids rep =
        map br_rule_id (filter (\<lambda>r. br_severity r = CRITICAL \<and> (\<exists>row \<in> set rows. \<not> rule_ok fl (fst row) r)) rs)
    \<and> length (rr_sample_violations rep) \<le> n"
proof -
  from pass_counts [OF assms(1,2), of fl rows sha v "Some h" n] obtain ev where
    ev: "observe_rows fl rows (make_evaluator fl sha rs v (Some h) n) = Inr ev"
      "same_setup (make_evaluator fl sha rs v (Some h) n) ev" "samples_bounded ev"
    and c: "\<forall>r \<in> set rs. rc_evaluated (the_counters (ev_counters ev) (br_rule_id r)) = int (length rows)
        \<and> rc_violations (the_counters (ev_counters ev) (br_rule_id r)) =
            int (length (filter (\<lambda>row. \<not> rule_ok fl (fst row) r) rows))" by blast
  show ?thesis
    using report_of_counts [OF assms(1) ev(2,3) bspec [OF c] assms(3-5)] ev(1) by blast
qed

lemma rules_report_counts_witness:
  "\<exists>ev rep. observe_rows rat_floats sample_rows (make_evaluator rat_floats toy_sha sample_rules ''v1'' (Some zero_digest) 50) = Inr ev
    \<and> build_report rat_floats ev = Inr rep \<and> length (rr_sample_violations rep) \<le> 50"
  using rules_report_counts [OF sample_rules_ok ratio_in_unit_rat, of "''v1''" zero_digest sample_rows toy_sha 50]
  by (auto simp: non_empty_def zero_digest_def)

text \<open>The digest of a rule configuration determines it: two configurations with one digest are
  equal, or their canonical texts are an explicit SHA-256 collision. The float renderer is assumed
  to print different floats differently, as the shortest-repr of Python does.\<close>

theorem rules_hash_binds:
  assumes "compute_rules_config_hash fl sha rs = compute_rules_config_hash fl sha ss"
    and "inj (fl_repr fl)" "\<And>x. float_text (fl_repr fl x)"
  shows "rs = ss \<or> collide sha (dumps (JList (map (rule_json fl) rs))) (dumps (JList (map (rule_json fl) ss)))"
  using stable_hash_binds [OF assms(1) [unfolded compute_rules_config_hash_def] wf_rules_json wf_rules_json]
    rules_json_eq [OF assms(2)] assms(3) by blast


definition int_floats :: "int float_ops" where
  "int_floats =
     \<lparr>fl_of_str = (\<lambda>s. if s \<noteq> [] \<and> list_all is_digit s then Some (int (nat_of_str s)) else None),
      fl_of_int = (\<lambda>i. i), fl_repr = (\<lambda>x. str_of_int x @ ''.0''), fl_lt = (<), fl_le = (\<le>), fl_eq = (=),
      fl_add = (+), fl_sub = (-), fl_mul = (*), fl_div = (div), fl_sqrt = (\<lambda>x. x), fl_sum = sum_list,
      fl_inf = 1000000, fl_isinf = (\<lambda>x. x = 1000000), fl_const = (\<lambda>x. \<lfloor>x\<rfloor>)\<rparr>"

lemma int_floats_repr: "inj (fl_repr int_floats)" "float_text (fl_repr int_floats x)"
proof -
  show "inj (fl_repr int_floats)" by (simp add: int_floats_def inj_def)
  have "list_all float_char (str_of_int x)"
    using str_of_int_chars [of x] int_char_float_char by (auto simp: list_all_iff)
  then show "float_text (fl_repr int_floats x)"
    by (simp add: int_floats_def float_text_def float_char_def int_char_def)
qed

definition one_rule :: "int \<Rightarrow> int business_rule" where
  "one_rule bound =
     \<lparr>br_rule_id = ''r1'', br_description = None, br_severity = CRITICAL, br_columns = [''income''],
      br_checks = [\<lparr>fc_field = ''income'', fc_op = Op_gte, fc_value = RVFloat bound\<rparr>],
      br_allow_missing = False, br_message = None\<rparr>"

lemma rules_hash_binds_witness:
  "collide toy_sha (dumps (JList (map (rule_json int_floats) [one_rule 1])))
     (dumps (JList (map (rule_json int_floats) [one_rule 2])))"
proof -
  have "compute_rules_config_hash int_floats toy_sha [one_rule 1] = compute_rules_config_hash int_floats toy_sha [one_rule 2]"
    by (simp add: compute_rules_config_hash_def stable_hash_def sha256_of_def toy_sha_def)
  from rules_hash_binds [OF this int_floats_repr] show ?thesis by (simp add: one_rule_def)
qed

text \<open>Counters are keyed by rule id, and nothing makes ids distinct: with two rules of one id, the
  report blames a critical rule no row breaks for the violations of a warning.\<close>

theorem shared_rule_id_blames_critical:
  "\<exists>ev rep. observe_rows rat_floats [([(''income'', ''3''), (''status'', ''open'')], Some ''a'')]
       (make_evaluator rat_floats toy_sha
          [sample_rule ''r'' WARNING income_check, sample_rule ''r'' CRITICAL status_check] ''v1'' (Some zero_digest) 50) = Inr ev
     \<and> build_report rat_floats ev = Inr rep
     \<and> rule_ok rat_floats [(''income'', ''3''), (''status'', ''open'')] (sample_rule ''r'' CRITICAL status_check)
     \<and> rr_blocker_candidate_rule_ids rep = [''r'']"
  by (simp add: observe_rows_def observe_row_def make_evaluator_def dict_of_def dict_set_def observe_rule_def
      evaluate_rule_def sample_rule_def income_check_def status_check_def row_get_def Let_def check_value_def
      rat_floats_def rat_of_str_def nat_of_str_def code_Char the_counters_def fresh_counters_def counted_def
      falsy_none_def rule_violation_valid_def opt_ok_def non_empty_def build_report_def summary_of_def
      rule_summary_valid_def pass_rate_of_def fl_score_ok_def rules_report_valid_def is_blocker_def
      zero_digest_def rule_ok_def check_ok_def)

end
