(* ===== verification/PyCsv.thy ===== *)
theory PyCsv
  imports BusinessRules
begin

text \<open>
  \<open>csv.DictReader\<close> over a text, as the code uses it: the reader of Python's \<open>csv\<close> module in its
  default dialect (comma, double quote, doubled quotes, not strict) as a scan over the characters,
  and the dictionaries built from the header. Records end at an unquoted line feed, carriage return
  or the pair of both; a blank line is an empty record. Two facts relate the reader to a writer
  that quotes every field.
\<close>

section \<open>The reader\<close>

datatype csv_state = Start_record | Start_field | In_field | In_quoted | Quote_in_quoted

definition LF :: char where
  "LF = CHR 0x0A"

definition CR :: char where
  "CR = CHR 0x0D"

definition comma :: char where
  "comma = CHR '',''"

text \<open>
  \<open>fs\<close> are the finished fields of the record, \<open>f\<close> the current field; \<open>cr\<close> tells that the previous
  character was a carriage return that ended a record, whose line feed is skipped.
\<close>

fun csv_scan :: "csv_state \<Rightarrow> bool \<Rightarrow> string list \<Rightarrow> string \<Rightarrow> string \<Rightarrow> string list list" where
  "csv_scan st cr fs f [] = (if st = Start_record then [] else [fs @ [f]])"
| "csv_scan st cr fs f (c # cs) =
     (if cr \<and> c = LF then csv_scan st False fs f cs
      else if st = In_quoted then
        (if c = quote then csv_scan Quote_in_quoted False fs f cs
         else csv_scan In_quoted False fs (f @ [c]) cs)
      else if c = LF \<or> c = CR then
        (if st = Start_record then [] else fs @ [f]) # csv_scan Start_record (c = CR) [] [] cs
      else if c = comma then csv_scan Start_field False (fs @ [f]) [] cs
      else if c = quote \<and> (st = Start_record \<or> st = Start_field) then csv_scan In_quoted False fs f cs
      else if c = quote \<and> st = Quote_in_quoted then csv_scan In_quoted False fs (f @ [c]) cs
      else csv_scan In_field False fs (f @ [c]) cs)"

definition csv_records :: "string \<Rightarrow> string list list" where
  "csv_records text = csv_scan Start_record False [] [] text"

text \<open>\<open>csv.field_size_limit()\<close>: a longer field raises \<open>csv.Error\<close>.\<close>

definition field_limit :: nat where
  "field_limit = 131072"

definition fields_fit :: "string list \<Rightarrow> bool" where
  "fields_fit fs \<longleftrightarrow> list_all (\<lambda>f. length f \<le> field_limit) fs"

section \<open>Dictionaries of a record\<close>

text \<open>A missing cell is None; surplus cells go under the key None, which the code never reads.\<close>

definition dict_row :: "string list \<Rightarrow> string list \<Rightarrow> (string, string option) dict" where
  "dict_row header row =
     dict_update_all (dict_of (zip header (map Some row))) (map (\<lambda>k. (k, None)) (drop (length row) header))"

section \<open>Reading back what a quoting writer wrote\<close>

definition quoted :: "string \<Rightarrow> string" where
  "quoted f = quote # concat (map (\<lambda>c. if c = quote then [quote, quote] else [c]) f) @ [quote]"

definition csv_line :: "string list \<Rightarrow> string" where
  "csv_line fs = join [comma] (map quoted fs) @ [CR, LF]"

lemma csv_chars [simp]: "quote \<noteq> LF" "quote \<noteq> CR" "quote \<noteq> comma" "comma \<noteq> LF" "comma \<noteq> CR" "LF \<noteq> CR"
    "LF \<noteq> quote" "CR \<noteq> quote" "comma \<noteq> quote" "LF \<noteq> comma" "CR \<noteq> comma" "CR \<noteq> LF"
  by (simp_all add: quote_def LF_def CR_def comma_def)

lemma csv_scan_body:
  "csv_scan In_quoted False fs f (concat (map (\<lambda>c. if c = quote then [quote, quote] else [c]) g) @ quote # r)
     = csv_scan Quote_in_quoted False fs (f @ g) r"
  by (induction g arbitrary: f) simp_all

lemma csv_scan_quoted:
  "st = Start_record \<or> st = Start_field \<Longrightarrow>
     csv_scan st False fs [] (quoted f @ r) = csv_scan Quote_in_quoted False fs f r"
  by (auto simp: quoted_def csv_scan_body)

lemma csv_scan_fields:
  "fs \<noteq> [] \<Longrightarrow> st = Start_record \<or> st = Start_field \<Longrightarrow>
     csv_scan st False don [] (join [comma] (map quoted fs) @ CR # r) =
       (don @ fs) # csv_scan Start_record True [] [] r"
proof (induction fs arbitrary: st don)
  case (Cons f fs)
  show ?case
  proof (cases fs)
    case Nil
    then show ?thesis using csv_scan_quoted [OF Cons.prems(2)] by simp
  next
    case (Cons g gs)
    then show ?thesis
      using csv_scan_quoted [OF Cons.prems(2), of don f "comma # join [comma] (map quoted fs) @ CR # r"]
        Cons.IH [of Start_field "don @ [f]"] by simp
  qed
qed simp

lemma csv_records_lines:
  "list_all (\<lambda>fs. fs \<noteq> []) rows \<Longrightarrow> csv_records (concat (map csv_line rows)) = rows"
proof -
  have "list_all (\<lambda>fs. fs \<noteq> []) rows \<Longrightarrow>
      csv_scan Start_record False [] [] (concat (map csv_line rows)) = rows"
    by (induction rows) (simp_all add: csv_line_def csv_scan_fields)
  then show "list_all (\<lambda>fs. fs \<noteq> []) rows \<Longrightarrow> ?thesis" by (simp add: csv_records_def)
qed

lemma dict_row_get:
  assumes "length row = length header" "distinct header" "i < length header"
  shows "dict_get (dict_row header row) (header ! i) = Some (Some (row ! i))"
proof -
  have "distinct (map fst (zip header (map Some row)))" using assms by simp
  then have "dict_get (dict_of (zip header (map Some row))) (header ! i) = map_of (zip header (map Some row)) (header ! i)"
    by (rule dict_get_dict_of_distinct)
  also have "\<dots> = Some (Some (row ! i))"
    using assms by (intro map_of_is_SomeI) (auto simp: set_zip)
  finally show ?thesis using assms(1) by (simp add: dict_row_def)
qed

end
