(* ===== verification/PyRegex.thy ===== *)
theory PyRegex
  imports PyStr
begin

text \<open>
  The regular expressions the code gives to \<open>re.search\<close>: an abstract syntax that transcribes the
  patterns, matching by derivatives, and its correctness against the denoted language. A search
  looks at every position of the text; boundary conditions see the character before the match and
  the text after it.
\<close>

datatype regex =
    REmpty
  | RNone
  | RChar "char \<Rightarrow> bool"
  | RSeq regex regex
  | RAlt regex regex
  | RStar regex

definition RPlus :: "regex \<Rightarrow> regex" where
  "RPlus r = RSeq r (RStar r)"

fun RTimes :: "nat \<Rightarrow> regex \<Rightarrow> regex" where
  "RTimes 0 r = REmpty"
| "RTimes (Suc n) r = RSeq r (RTimes n r)"

text \<open>\<open>r{n,}\<close>.\<close>

definition RAtLeast :: "nat \<Rightarrow> regex \<Rightarrow> regex" where
  "RAtLeast n r = RSeq (RTimes n r) (RStar r)"

fun nullable :: "regex \<Rightarrow> bool" where
  "nullable REmpty = True"
| "nullable RNone = False"
| "nullable (RChar p) = False"
| "nullable (RSeq r s) = (nullable r \<and> nullable s)"
| "nullable (RAlt r s) = (nullable r \<or> nullable s)"
| "nullable (RStar r) = True"

fun deriv :: "char \<Rightarrow> regex \<Rightarrow> regex" where
  "deriv c REmpty = RNone"
| "deriv c RNone = RNone"
| "deriv c (RChar p) = (if p c then REmpty else RNone)"
| "deriv c (RSeq r s) =
     (if nullable r then RAlt (RSeq (deriv c r) s) (deriv c s) else RSeq (deriv c r) s)"
| "deriv c (RAlt r s) = RAlt (deriv c r) (deriv c s)"
| "deriv c (RStar r) = RSeq (deriv c r) (RStar r)"

text \<open>Some prefix matches and leaves a rest that satisfies the end condition.\<close>

fun prefix_match :: "regex \<Rightarrow> (string \<Rightarrow> bool) \<Rightarrow> string \<Rightarrow> bool" where
  "prefix_match r fin [] = (nullable r \<and> fin [])"
| "prefix_match r fin (c # s) = (nullable r \<and> fin (c # s) \<or> prefix_match (deriv c r) fin s)"

text \<open>\<open>prev\<close> is the character before the current position.\<close>

fun search_at :: "regex \<Rightarrow> (char option \<Rightarrow> string \<Rightarrow> bool) \<Rightarrow> (string \<Rightarrow> bool) \<Rightarrow> char option \<Rightarrow> string \<Rightarrow> bool" where
  "search_at r start fin prev [] = (start prev [] \<and> prefix_match r fin [])"
| "search_at r start fin prev (c # s) =
     (start prev (c # s) \<and> prefix_match r fin (c # s) \<or> search_at r start fin (Some c) s)"

definition re_search :: "regex \<Rightarrow> string \<Rightarrow> bool" where
  "re_search r s = search_at r (\<lambda>_ _. True) (\<lambda>_. True) None s"

text \<open>\<open>\w\<close> below code point 256, and a search between two word boundaries for a pattern that
  starts and ends with a word character.\<close>

definition word_char :: "char \<Rightarrow> bool" where
  "word_char c \<longleftrightarrow> is_alpha c \<or> is_digit c \<or> c = CHR ''_''
     \<or> code c \<in> {178, 179, 185, 188, 189, 190}"

definition re_search_word :: "regex \<Rightarrow> string \<Rightarrow> bool" where
  "re_search_word r s =
     search_at r (\<lambda>prev _. case prev of None \<Rightarrow> True | Some c \<Rightarrow> \<not> word_char c)
       (\<lambda>rest. rest = [] \<or> \<not> word_char (hd rest)) None s"

section \<open>Correctness\<close>

inductive matches :: "regex \<Rightarrow> string \<Rightarrow> bool" where
  m_empty: "matches REmpty []"
| m_char: "p c \<Longrightarrow> matches (RChar p) [c]"
| m_seq: "matches r s \<Longrightarrow> matches r' t \<Longrightarrow> matches (RSeq r r') (s @ t)"
| m_left: "matches r s \<Longrightarrow> matches (RAlt r r') s"
| m_right: "matches r' s \<Longrightarrow> matches (RAlt r r') s"
| m_star_nil: "matches (RStar r) []"
| m_star: "matches r s \<Longrightarrow> matches (RStar r) t \<Longrightarrow> matches (RStar r) (s @ t)"

inductive_simps matches_simps [simp]:
  "matches REmpty s" "matches RNone s" "matches (RChar p) s" "matches (RAlt r r') s"
inductive_cases matches_seqE: "matches (RSeq r r') s"
inductive_cases matches_starE: "matches (RStar r) s"

lemma matches_RSeq_iff: "matches (RSeq r r') s \<longleftrightarrow> (\<exists>u v. s = u @ v \<and> matches r u \<and> matches r' v)"
proof
  assume "matches (RSeq r r') s"
  then show "\<exists>u v. s = u @ v \<and> matches r u \<and> matches r' v"
    by (rule matches_seqE) blast
qed (auto intro: m_seq)

lemma nullable_iff: "nullable r \<longleftrightarrow> matches r []"
  by (induction r) (auto simp: matches_RSeq_iff intro: m_star_nil)

lemma matches_star_Cons:
  "matches (RStar r) (c # s) \<longleftrightarrow> (\<exists>u v. s = u @ v \<and> matches r (c # u) \<and> matches (RStar r) v)"
proof
  have "matches r' t \<Longrightarrow> r' = RStar r \<Longrightarrow> t = c # s \<Longrightarrow>
      \<exists>u v. s = u @ v \<and> matches r (c # u) \<and> matches (RStar r) v" for r' t
  proof (induction r' t rule: matches.induct)
    case (m_star r0 u v)
    then show ?case by (cases u) auto
  qed auto
  then show "matches (RStar r) (c # s) \<Longrightarrow> \<exists>u v. s = u @ v \<and> matches r (c # u) \<and> matches (RStar r) v"
    by blast
qed (auto dest: m_star)

lemma deriv_iff: "matches (deriv c r) s \<longleftrightarrow> matches r (c # s)"
proof (induction r arbitrary: s)
  case (RSeq r1 r2)
  then show ?case
    by (auto simp: matches_RSeq_iff nullable_iff append_eq_Cons_conv Cons_eq_append_conv)
next
  case (RStar r)
  then show ?case by (auto simp: matches_RSeq_iff matches_star_Cons)
qed auto

lemma prefix_match_iff: "prefix_match r fin s \<longleftrightarrow> (\<exists>u v. s = u @ v \<and> matches r u \<and> fin v)"
proof (induction s arbitrary: r)
  case Nil
  then show ?case by (simp add: nullable_iff)
next
  case (Cons c s)
  then show ?case
    by (auto simp: nullable_iff deriv_iff append_eq_Cons_conv Cons_eq_append_conv)
qed

lemma search_at_iff:
  "search_at r start fin prev s \<longleftrightarrow>
     (\<exists>a u v. s = a @ u @ v \<and> matches r u \<and> fin v
        \<and> start (if a = [] then prev else Some (last a)) (u @ v))"
proof (induction s arbitrary: prev)
  case Nil
  then show ?case by (auto simp: nullable_iff)
next
  case (Cons c s)
  have "(\<exists>a u v. c # s = a @ u @ v \<and> matches r u \<and> fin v
          \<and> start (if a = [] then prev else Some (last a)) (u @ v)) \<longleftrightarrow>
      (\<exists>u v. c # s = u @ v \<and> matches r u \<and> fin v \<and> start prev (u @ v))
      \<or> (\<exists>a u v. s = a @ u @ v \<and> matches r u \<and> fin v
          \<and> start (if a = [] then Some c else Some (last a)) (u @ v))" (is "?l \<longleftrightarrow> ?r")
  proof
    assume ?l
    then obtain a u v where *: "c # s = a @ u @ v" "matches r u" "fin v"
      "start (if a = [] then prev else Some (last a)) (u @ v)" by blast
    show ?r
    proof (cases a)
      case Nil
      with * have "c # s = u @ v \<and> matches r u \<and> fin v \<and> start prev (u @ v)" by simp
      then show ?r by blast
    next
      case (Cons c' a')
      with * have "s = a' @ u @ v \<and> matches r u \<and> fin v
          \<and> start (if a' = [] then Some c else Some (last a')) (u @ v)"
        by (simp split: if_splits)
      then show ?r by blast
    qed
  next
    assume ?r
    then show ?l
    proof
      assume "\<exists>u v. c # s = u @ v \<and> matches r u \<and> fin v \<and> start prev (u @ v)"
      then obtain u v where "c # s = u @ v" "matches r u" "fin v" "start prev (u @ v)" by blast
      then show ?l by (intro exI [of _ "[]"] exI [of _ u] exI [of _ v]) simp
    next
      assume "\<exists>a u v. s = a @ u @ v \<and> matches r u \<and> fin v
          \<and> start (if a = [] then Some c else Some (last a)) (u @ v)"
      then obtain a u v where "s = a @ u @ v" "matches r u" "fin v"
        "start (if a = [] then Some c else Some (last a)) (u @ v)" by blast
      then show ?l by (intro exI [of _ "c # a"] exI [of _ u] exI [of _ v]) (auto split: if_splits)
    qed
  qed
  moreover have "prefix_match r fin (c # s) \<and> start prev (c # s) \<longleftrightarrow>
      (\<exists>u v. c # s = u @ v \<and> matches r u \<and> fin v \<and> start prev (u @ v))"
    unfolding prefix_match_iff by (metis (no_types))
  ultimately show ?case using Cons.IH [of "Some c"] by (simp only: search_at.simps) blast
qed

text \<open>A search finds exactly the texts that contain a match.\<close>

lemma re_search_iff: "re_search r s \<longleftrightarrow> (\<exists>a u b. s = a @ u @ b \<and> matches r u)"
  by (auto simp: re_search_def search_at_iff)

lemma re_search_mono: "re_search r s \<Longrightarrow> re_search r (a @ s @ b)"
  unfolding re_search_iff by (metis append.assoc)

end
