(* ===== verification/ObjectStorage.thy ===== *)
theory ObjectStorage
  imports ArchiveSafety
begin

text \<open>
  \<open>src/app/adapters/object_storage.py\<close>: the object storage adapter that confines every access to
  one organization/project/dataset prefix, and the in-memory client of
  \<open>src/app/orchestration/apply_workflow.py\<close> the launcher gives it.

  The S3 client is an interface: the record \<open>s3_client\<close> holds its operations, the locale \<open>s3_laws\<close>
  what the adapter relies on (reading back a put, leaving other objects alone), and the in-memory
  client is shown to satisfy it. An operation that writes returns its result together with the new
  state, because an exception raised after the write does not undo it. \<open>sha\<close> is the SHA-256 hex
  digest, \<open>fromiso\<close> is \<open>datetime.fromisoformat\<close>, \<open>now\<close> the clock; bytes are strings.
\<close>

section \<open>The client interface\<close>

type_synonym metadata = "(string, string) dict"

record s3_response =
  rs_body :: "string option"
  rs_content_length :: "nat option"
  rs_content_type :: "string option"
  rs_metadata :: metadata
  rs_last_modified :: "datetime option"

record 's s3_client =
  s3_put :: "'s \<Rightarrow> string \<Rightarrow> string \<Rightarrow> string \<Rightarrow> string \<Rightarrow> metadata \<Rightarrow> (exn + unit) \<times> 's"
  s3_get :: "'s \<Rightarrow> string \<Rightarrow> string \<Rightarrow> exn + s3_response"
  s3_head :: "'s \<Rightarrow> string \<Rightarrow> string \<Rightarrow> exn + s3_response"
  s3_list :: "'s \<Rightarrow> string \<Rightarrow> string \<Rightarrow> exn + string list"

definition storage_error :: "error_code \<Rightarrow> exn" where
  "storage_error ec = Raised ''ObjectStorageError'' [] ec 0"

fun is_storage_error :: "exn \<Rightarrow> bool" where
  "is_storage_error (Raised cls _ _ _) = (cls = ''ObjectStorageError'')"
| "is_storage_error _ = False"

locale s3_laws =
  fixes c :: "'s s3_client"
  assumes put_failed: "s3_put c st b k d ct md = (Inl e, st') \<Longrightarrow> st' = st"
    and put_get: "s3_put c st b k d ct md = (Inr u, st') \<Longrightarrow>
      \<exists>r. s3_get c st' b k = Inr r \<and> rs_body r = Some d \<and> rs_content_type r = Some ct \<and> rs_metadata r = md"
    and put_head: "s3_put c st b k d ct md = (Inr u, st') \<Longrightarrow>
      \<exists>r. s3_head c st' b k = Inr r \<and> rs_content_length r = Some (length d)
        \<and> rs_content_type r = Some ct \<and> rs_metadata r = md"
    and put_frame: "s3_put c st b k d ct md = (res, st') \<Longrightarrow> (b', k') \<noteq> (b, k) \<Longrightarrow>
      s3_get c st' b' k' = s3_get c st b' k' \<and> s3_head c st' b' k' = s3_head c st b' k'"

section \<open>The in-memory client\<close>

record mem_object =
  mo_body :: string
  mo_content_type :: string
  mo_metadata :: metadata

type_synonym mem_state = "(string \<times> string, mem_object) dict"

definition mem_put :: "mem_state \<Rightarrow> string \<Rightarrow> string \<Rightarrow> string \<Rightarrow> string \<Rightarrow> metadata \<Rightarrow> (exn + unit) \<times> mem_state" where
  "mem_put st b k d ct md =
     (Inr (), dict_set st (b, k) \<lparr>mo_body = d, mo_content_type = ct, mo_metadata = md\<rparr>)"

definition mem_object_at :: "mem_state \<Rightarrow> string \<Rightarrow> string \<Rightarrow> exn + mem_object" where
  "mem_object_at st b k =
     (case dict_get st (b, k) of
        None \<Rightarrow> Inl (storage_error ARTIFACT_NOT_FOUND)
      | Some ob \<Rightarrow> Inr ob)"

definition mem_get :: "mem_state \<Rightarrow> string \<Rightarrow> string \<Rightarrow> exn + s3_response" where
  "mem_get st b k = bindR (mem_object_at st b k) (\<lambda>ob.
     Inr \<lparr>rs_body = Some (mo_body ob), rs_content_length = Some (length (mo_body ob)),
          rs_content_type = Some (mo_content_type ob), rs_metadata = mo_metadata ob,
          rs_last_modified = None\<rparr>)"

definition mem_head :: "mem_state \<Rightarrow> string \<Rightarrow> string \<Rightarrow> exn + s3_response" where
  "mem_head st b k = bindR (mem_object_at st b k) (\<lambda>ob.
     Inr \<lparr>rs_body = None, rs_content_length = Some (length (mo_body ob)),
          rs_content_type = Some (mo_content_type ob), rs_metadata = mo_metadata ob,
          rs_last_modified = None\<rparr>)"

definition mem_list :: "mem_state \<Rightarrow> string \<Rightarrow> string \<Rightarrow> exn + string list" where
  "mem_list st b p =
     Inr (map snd (filter (\<lambda>bk. fst bk = b \<and> starts_with p (snd bk))
       (sort_key (\<lambda>bk. [fst bk, snd bk]) (dict_keys st))))"

definition memory_client :: "mem_state s3_client" where
  "memory_client = \<lparr>s3_put = mem_put, s3_get = mem_get, s3_head = mem_head, s3_list = mem_list\<rparr>"

interpretation mem: s3_laws memory_client
  by unfold_locales
    (auto simp: memory_client_def mem_put_def mem_get_def mem_head_def mem_object_at_def dict_get_set)

section \<open>Paths and keys\<close>

record storage_scope =
  sc_organization_id :: string
  sc_project_id :: string
  sc_dataset_id :: string

record adapter =
  ad_bucket_name :: string
  ad_prefix_root :: string
  ad_scope :: storage_scope

definition safe_relative_path :: "string \<Rightarrow> exn + string" where
  "safe_relative_path value =
     (let stripped = lstrip_char slash (strip value);
          normalized = normpath stripped in
      if stripped = [] \<or> normalized \<in> {'''', ''.''} then Inl (storage_error INVALID_JOB_PAYLOAD)
      else if starts_with ''../'' normalized \<or> normalized = ''..''
           \<or> str_in ''/../'' (''/'' @ normalized @ ''/'')
      then Inl (storage_error ARTIFACT_OUT_OF_SCOPE)
      else Inr normalized)"

definition safe_path_part :: "string \<Rightarrow> exn + string" where
  "safe_path_part value = bindR (safe_relative_path value) (\<lambda>p. Inr (strip_char slash p))"

definition join_key :: "string list \<Rightarrow> string" where
  "join_key parts = join ''/'' (filter (\<lambda>p. p \<noteq> []) (map (strip_char slash) parts))"

text \<open>The constructor normalises the prefix root.\<close>

definition make_adapter :: "string \<Rightarrow> string \<Rightarrow> storage_scope \<Rightarrow> exn + adapter" where
  "make_adapter bucket prefix_root scope =
     bindR (safe_path_part prefix_root) (\<lambda>r.
     Inr \<lparr>ad_bucket_name = bucket, ad_prefix_root = r, ad_scope = scope\<rparr>)"

definition allowed_prefix :: "adapter \<Rightarrow> string" where
  "allowed_prefix ad =
     join_key [ad_prefix_root ad, sc_organization_id (ad_scope ad), sc_project_id (ad_scope ad),
               sc_dataset_id (ad_scope ad)]"

definition is_key_in_scope :: "adapter \<Rightarrow> string \<Rightarrow> bool" where
  "is_key_in_scope ad key \<longleftrightarrow>
     starts_with (allowed_prefix ad @ ''/'') key \<and> ''..'' \<notin> set (split_on slash key)"

definition require_key_in_scope :: "adapter \<Rightarrow> string \<Rightarrow> exn + unit" where
  "require_key_in_scope ad key =
     requireR (is_key_in_scope ad key) (storage_error ARTIFACT_OUT_OF_SCOPE)"

definition key_for_object_name :: "adapter \<Rightarrow> string \<Rightarrow> exn + string" where
  "key_for_object_name ad object_name =
     bindR (safe_relative_path object_name) (\<lambda>path.
     let key = join_key [allowed_prefix ad, path] in
     bindR (require_key_in_scope ad key) (\<lambda>_. Inr key))"

definition bucket_uri :: "adapter \<Rightarrow> string" where
  "bucket_uri ad = ''s3://'' @ ad_bucket_name ad @ ''/''"

definition key_for_uri :: "adapter \<Rightarrow> string \<Rightarrow> exn + string" where
  "key_for_uri ad uri =
     (if \<not> starts_with (bucket_uri ad) uri then Inl (storage_error ARTIFACT_OUT_OF_SCOPE)
      else let key = removeprefix (bucket_uri ad) uri in
        bindR (require_key_in_scope ad key) (\<lambda>_. Inr key))"

definition uri_for_key :: "adapter \<Rightarrow> string \<Rightarrow> string" where
  "uri_for_key ad key = bucket_uri ad @ key"

definition uri_for_object_name :: "adapter \<Rightarrow> string \<Rightarrow> exn + string" where
  "uri_for_object_name ad object_name =
     bindR (key_for_object_name ad object_name) (\<lambda>key. Inr (uri_for_key ad key))"

section \<open>Metadata\<close>

definition string_metadata :: "metadata \<Rightarrow> metadata" where
  "string_metadata md = dict_of (map (\<lambda>kv. (lower (fst kv), snd kv)) md)"

text \<open>\<open>value.replace("Z", "+00:00")\<close> before the ISO parser.\<close>

definition metadata_datetime :: "(string \<Rightarrow> datetime option) \<Rightarrow> string option \<Rightarrow> datetime option" where
  "metadata_datetime fromiso value =
     (case value of
        None \<Rightarrow> None
      | Some v \<Rightarrow> if v = [] then None
          else fromiso (concat (map (\<lambda>ch. if ch = CHR ''Z'' then ''+00:00'' else [ch]) v)))"

text \<open>The metadata written with an object: the caller's entries, then the adapter's own.\<close>

definition put_metadata :: "metadata \<Rightarrow> string \<Rightarrow> string \<Rightarrow> string \<Rightarrow> metadata" where
  "put_metadata md kind schema_version digest =
     string_metadata (dict_update_all (dict_of md)
       [(''artifact-kind'', kind), (''schema-version'', schema_version), (''sha256'', digest)])"

section \<open>Stored object information\<close>

record stored_info =
  si_uri :: string
  si_hash :: string
  si_size_bytes :: nat
  si_content_type :: string
  si_updated_at :: datetime
  si_metadata :: metadata

definition stored_info_valid :: "stored_info \<Rightarrow> bool" where
  "stored_info_valid i \<longleftrightarrow> s3_uri (si_uri i) \<and> sha256_digest (si_hash i) \<and> non_empty (si_content_type i)"

definition info_from_response ::
    "(string \<Rightarrow> string) \<Rightarrow> (string \<Rightarrow> datetime option) \<Rightarrow> datetime \<Rightarrow> adapter \<Rightarrow> string \<Rightarrow> s3_response
     \<Rightarrow> string option \<Rightarrow> string option \<Rightarrow> nat option \<Rightarrow> exn + stored_info" where
  "info_from_response sha fromiso now ad key response data hash_override size_override =
     (let md = string_metadata (rs_metadata response);
          digest0 = dict_get md ''sha256'';
          digest1 = (case data of Some d \<Rightarrow> Some (sha256_of sha d) | None \<Rightarrow> digest0);
          digest2 = (case hash_override of Some h \<Rightarrow> Some h | None \<Rightarrow> digest1);
          digest = (case digest2 of
                      Some h \<Rightarrow> if h \<noteq> [] then h else ''sha256:'' @ replicate 64 (CHR ''0'')
                    | None \<Rightarrow> ''sha256:'' @ replicate 64 (CHR ''0''));
          updated_at = (case metadata_datetime fromiso (dict_get md ''created-at'') of
                          Some t \<Rightarrow> t
                        | None \<Rightarrow> (case rs_last_modified response of Some t \<Rightarrow> t | None \<Rightarrow> now))
      in validated stored_info_valid
        \<lparr>si_uri = uri_for_key ad key, si_hash = digest,
         si_size_bytes = (case size_override of
                            Some n \<Rightarrow> n
                          | None \<Rightarrow> (case data of
                                Some d \<Rightarrow> length d
                              | None \<Rightarrow> (case rs_content_length response of Some n \<Rightarrow> n | None \<Rightarrow> 0))),
         si_content_type = (case rs_content_type response of
                              Some t \<Rightarrow> if t \<noteq> [] then t else ''application/octet-stream''
                            | None \<Rightarrow> ''application/octet-stream''),
         si_updated_at = updated_at, si_metadata = md\<rparr>)"

section \<open>Operations\<close>

record put_args =
  pa_object_name :: string
  pa_data :: string
  pa_kind :: string
  pa_media_type :: string
  pa_schema_version :: string
  pa_parent_version_id :: string
  pa_job_id :: string
  pa_config_hash :: string
  pa_metadata :: metadata

definition artifact_id_of :: "string \<Rightarrow> string \<Rightarrow> string" where
  "artifact_id_of kind digest = kind @ '':'' @ take 16 (removeprefix ''sha256:'' digest)"

definition put ::
    "'s s3_client \<Rightarrow> (string \<Rightarrow> string) \<Rightarrow> (string \<Rightarrow> datetime option) \<Rightarrow> datetime \<Rightarrow> adapter
     \<Rightarrow> put_args \<Rightarrow> 's \<Rightarrow> (exn + artifact_ref) \<times> 's" where
  "put c sha fromiso now ad args st =
     (case key_for_object_name ad (pa_object_name args) of
        Inl e \<Rightarrow> (Inl e, st)
      | Inr key \<Rightarrow>
          let digest = sha256_of sha (pa_data args);
              md = put_metadata (pa_metadata args) (pa_kind args) (pa_schema_version args) digest in
          (case s3_put c st (ad_bucket_name ad) key (pa_data args) (pa_media_type args) md of
             (Inl e, st') \<Rightarrow> (Inl e, st')
           | (Inr u, st') \<Rightarrow>
               let created_at = (case metadata_datetime fromiso (dict_get md ''created-at'') of
                                   Some t \<Rightarrow> t | None \<Rightarrow> now) in
               (validated artifact_ref_valid
                  \<lparr>ar_artifact_id = artifact_id_of (pa_kind args) digest, ar_kind = pa_kind args,
                   ar_uri = uri_for_key ad key, ar_hash = digest, ar_media_type = pa_media_type args,
                   ar_size_bytes = int (length (pa_data args)), ar_schema_version = pa_schema_version args,
                   ar_lineage = \<lparr>al_parent_version_id = pa_parent_version_id args, al_job_id = pa_job_id args,
                     al_config_hash = pa_config_hash args, al_created_at = created_at\<rparr>\<rparr>, st')))"

definition read_body :: "s3_response \<Rightarrow> exn + string" where
  "read_body response =
     (case rs_body response of Some d \<Rightarrow> Inr d | None \<Rightarrow> Inl (storage_error ARTIFACT_NOT_FOUND))"

definition get ::
    "'s s3_client \<Rightarrow> (string \<Rightarrow> string) \<Rightarrow> (string \<Rightarrow> datetime option) \<Rightarrow> datetime \<Rightarrow> adapter
     \<Rightarrow> string \<Rightarrow> 's \<Rightarrow> exn + (string \<times> stored_info)" where
  "get c sha fromiso now ad uri st =
     bindR (key_for_uri ad uri) (\<lambda>key.
     bindR (s3_get c st (ad_bucket_name ad) key) (\<lambda>response.
     bindR (read_body response) (\<lambda>data.
     bindR (info_from_response sha fromiso now ad key response (Some data) None None) (\<lambda>info.
     Inr (data, info)))))"

text \<open>
  The chunked read: \<open>reader.read(chunk_size)\<close> until an empty chunk. The accumulator is the file
  written so far, which is also what the digest has consumed.
\<close>

function read_chunks :: "nat \<Rightarrow> string \<Rightarrow> string \<Rightarrow> string" where
  "read_chunks chunk_size body written =
     (let chunk = take chunk_size body in
      if chunk = [] then written
      else read_chunks chunk_size (drop chunk_size body) (written @ chunk))"
  by auto
termination
  by (relation "measure (\<lambda>(n, body, w). length body)") auto

declare read_chunks.simps [simp del]

definition download_to_seekable ::
    "'s s3_client \<Rightarrow> (string \<Rightarrow> string) \<Rightarrow> (string \<Rightarrow> datetime option) \<Rightarrow> datetime \<Rightarrow> adapter
     \<Rightarrow> nat \<Rightarrow> string \<Rightarrow> 's \<Rightarrow> exn + (string \<times> stored_info)" where
  "download_to_seekable c sha fromiso now ad chunk_size uri st =
     bindR (key_for_uri ad uri) (\<lambda>key.
     bindR (s3_get c st (ad_bucket_name ad) key) (\<lambda>response.
     bindR (read_body response) (\<lambda>body.
     let file = read_chunks chunk_size body [] in
     bindR (info_from_response sha fromiso now ad key response None (Some (sha256_of sha file))
              (Some (length file))) (\<lambda>info.
     Inr (file, info)))))"

definition head ::
    "'s s3_client \<Rightarrow> (string \<Rightarrow> string) \<Rightarrow> (string \<Rightarrow> datetime option) \<Rightarrow> datetime \<Rightarrow> adapter
     \<Rightarrow> string \<Rightarrow> 's \<Rightarrow> exn + stored_info" where
  "head c sha fromiso now ad uri st =
     bindR (key_for_uri ad uri) (\<lambda>key.
     bindR (s3_head c st (ad_bucket_name ad) key) (\<lambda>response.
     info_from_response sha fromiso now ad key response None None None))"

definition list_item ::
    "'s s3_client \<Rightarrow> (string \<Rightarrow> string) \<Rightarrow> (string \<Rightarrow> datetime option) \<Rightarrow> datetime \<Rightarrow> adapter \<Rightarrow> 's
     \<Rightarrow> stored_info list \<Rightarrow> string \<Rightarrow> exn + stored_info list" where
  "list_item c sha fromiso now ad st infos key =
     (if \<not> is_key_in_scope ad key then Inr infos
      else (case head c sha fromiso now ad (uri_for_key ad key) st of
              Inr info \<Rightarrow> Inr (infos @ [info])
            | Inl e \<Rightarrow> if is_storage_error e then Inr infos else Inl e))"

definition list_objects ::
    "'s s3_client \<Rightarrow> (string \<Rightarrow> string) \<Rightarrow> (string \<Rightarrow> datetime option) \<Rightarrow> datetime \<Rightarrow> adapter
     \<Rightarrow> string \<Rightarrow> 's \<Rightarrow> exn + stored_info list" where
  "list_objects c sha fromiso now ad p st =
     bindR (if p \<noteq> [] then key_for_object_name ad p else Inr (allowed_prefix ad @ ''/'')) (\<lambda>scoped_prefix.
     bindR (s3_list c st (ad_bucket_name ad) scoped_prefix) (\<lambda>keys.
     foldR (list_item c sha fromiso now ad st) [] keys))"

text \<open>\<open>validate_archive_artifact\<close> of \<open>archive_safety.py\<close>.\<close>

definition validate_archive_artifact ::
    "'s s3_client \<Rightarrow> (string \<Rightarrow> string) \<Rightarrow> (string \<Rightarrow> datetime option) \<Rightarrow> datetime \<Rightarrow> adapter
     \<Rightarrow> (string \<Rightarrow> zip_info list option) \<Rightarrow> archive_policy option \<Rightarrow> string \<Rightarrow> 's \<Rightarrow> exn + archive_report" where
  "validate_archive_artifact c sha fromiso now ad unzip policy uri st =
     bindR (download_to_seekable c sha fromiso now ad (64 * 1024) uri st) (\<lambda>stored.
     validate_archive_seekable policy (si_size_bytes (snd stored)) (unzip (fst stored)))"

section \<open>Keys stay in scope\<close>

lemma key_for_object_name_in_scope: "key_for_object_name ad n = Inr key \<Longrightarrow> is_key_in_scope ad key"
  by (auto simp: key_for_object_name_def require_key_in_scope_def result_simps Let_def)

lemma key_for_uri_Inr:
  "key_for_uri ad uri = Inr key \<longleftrightarrow> uri = uri_for_key ad key \<and> is_key_in_scope ad key"
  by (auto simp: key_for_uri_def require_key_in_scope_def result_simps Let_def uri_for_key_def
      starts_with_iff)

lemma key_for_uri_Inl: "key_for_uri ad uri = Inl e \<Longrightarrow> e = storage_error ARTIFACT_OUT_OF_SCOPE"
  by (auto simp: key_for_uri_def require_key_in_scope_def result_simps Let_def split: if_splits)

lemma get_head_cong:
  assumes "\<And>k. is_key_in_scope ad k \<Longrightarrow> s3_get c st' (ad_bucket_name ad) k = s3_get c st (ad_bucket_name ad) k
      \<and> s3_head c st' (ad_bucket_name ad) k = s3_head c st (ad_bucket_name ad) k"
  shows "get c sha fromiso now ad uri st' = get c sha fromiso now ad uri st"
    "head c sha fromiso now ad uri st' = head c sha fromiso now ad uri st"
proof -
  have "key_for_uri ad uri = Inr k \<Longrightarrow> is_key_in_scope ad k" for k
    by (simp add: key_for_uri_Inr)
  with assms show "get c sha fromiso now ad uri st' = get c sha fromiso now ad uri st"
    "head c sha fromiso now ad uri st' = head c sha fromiso now ad uri st"
    by (cases "key_for_uri ad uri"; simp add: get_def head_def)+
qed

lemma uri_for_key_inject [simp]: "uri_for_key ad k = uri_for_key ad k' \<longleftrightarrow> k = k'"
  by (simp add: uri_for_key_def)

lemma info_from_response_uri:
  "info_from_response sha fromiso now ad key r d h n = Inr i \<Longrightarrow> si_uri i = uri_for_key ad key"
  by (auto simp: info_from_response_def Let_def result_simps)

lemma info_with_data:
  "info_from_response sha fromiso now ad key r (Some d) None None = Inr i \<Longrightarrow>
     si_hash i = sha256_of sha d \<and> si_size_bytes i = length d"
  by (auto simp: info_from_response_def Let_def result_simps sha256_of_def)

lemma info_overrides:
  "info_from_response sha fromiso now ad key r None (Some (sha256_of sha d)) (Some (length d))
     = info_from_response sha fromiso now ad key r (Some d) None None"
  by (simp add: info_from_response_def Let_def)

lemma read_chunks_all: "0 < n \<Longrightarrow> read_chunks n body w = w @ body"
proof (induction n body w rule: read_chunks.induct)
  case (1 n body w)
  then show ?case by (subst read_chunks.simps) (simp add: Let_def)
qed

lemma put_written_key:
  assumes "put c sha fromiso now ad args st = (res, st')" "st' \<noteq> st"
  shows "\<exists>key md. is_key_in_scope ad key \<and>
    snd (s3_put c st (ad_bucket_name ad) key (pa_data args) (pa_media_type args) md) = st'"
proof (cases "key_for_object_name ad (pa_object_name args)")
  case (Inr key)
  let ?w = "s3_put c st (ad_bucket_name ad) key (pa_data args) (pa_media_type args)
    (put_metadata (pa_metadata args) (pa_kind args) (pa_schema_version args) (sha256_of sha (pa_data args)))"
  have "snd ?w = st'"
    using assms(1) Inr by (cases ?w; cases "fst ?w") (auto simp: put_def Let_def)
  with key_for_object_name_in_scope [OF Inr] show ?thesis by blast
qed (use assms in \<open>simp add: put_def\<close>)

context s3_laws begin

lemma adapter_put_frame:
  assumes "put c sha fromiso now ad args st = (res, st')"
    and "b' \<noteq> ad_bucket_name ad \<or> \<not> is_key_in_scope ad k'"
  shows "s3_get c st' b' k' = s3_get c st b' k' \<and> s3_head c st' b' k' = s3_head c st b' k'"
proof (cases "st' = st")
  case False
  from put_written_key [OF assms(1) False] obtain key md where key: "is_key_in_scope ad key"
    and wr: "snd (s3_put c st (ad_bucket_name ad) key (pa_data args) (pa_media_type args) md) = st'"
    by blast
  obtain r where "s3_put c st (ad_bucket_name ad) key (pa_data args) (pa_media_type args) md = (r, st')"
    using wr by (metis prod.collapse)
  from put_frame [OF this, of b' k'] show ?thesis using assms(2) key by auto
qed simp

lemma adapter_put_get:
  assumes "put c sha fromiso now ad args st = (Inr ref, st')"
  shows "\<exists>info. get c sha fromiso now' ad (ar_uri ref) st' = Inr (pa_data args, info)
    \<and> si_hash info = ar_hash ref \<and> si_uri info = ar_uri ref
    \<and> int (si_size_bytes info) = ar_size_bytes ref \<and> si_content_type info = ar_media_type ref"
proof -
  from assms obtain key u where key: "key_for_object_name ad (pa_object_name args) = Inr key"
    and wr: "s3_put c st (ad_bucket_name ad) key (pa_data args) (pa_media_type args)
      (put_metadata (pa_metadata args) (pa_kind args) (pa_schema_version args)
         (sha256_of sha (pa_data args))) = (Inr u, st')"
    and ref: "artifact_ref_valid ref" "ar_uri ref = uri_for_key ad key"
      "ar_hash ref = sha256_of sha (pa_data args)" "ar_size_bytes ref = int (length (pa_data args))"
      "ar_media_type ref = pa_media_type args"
    by (auto simp: put_def Let_def result_simps split: sum.splits prod.splits)
  from put_get [OF wr] obtain r where r: "s3_get c st' (ad_bucket_name ad) key = Inr r"
    "rs_body r = Some (pa_data args)" "rs_content_type r = Some (pa_media_type args)" by blast
  have uri: "key_for_uri ad (ar_uri ref) = Inr key"
    using key_for_object_name_in_scope [OF key] ref(2) by (simp add: key_for_uri_Inr)
  show ?thesis using r ref uri
    by (auto simp: get_def read_body_def info_from_response_def Let_def stored_info_valid_def
        artifact_ref_valid_def result_simps non_empty_def sha256_of_def)
qed

end

section \<open>Disjoint scopes\<close>

definition component_id :: "string \<Rightarrow> bool" where
  "component_id v \<longleftrightarrow> v \<noteq> [] \<and> slash \<notin> set v"

definition component_scope :: "storage_scope \<Rightarrow> bool" where
  "component_scope sc \<longleftrightarrow> component_id (sc_organization_id sc) \<and> component_id (sc_project_id sc)
     \<and> component_id (sc_dataset_id sc)"

lemma strip_char_none: "c \<notin> set v \<Longrightarrow> strip_char c v = v"
proof -
  have "dropWhile (\<lambda>d. d = c) w = w" if "c \<notin> set w" for w
    using that by (cases w) auto
  then show "c \<notin> set v \<Longrightarrow> strip_char c v = v"
    by (simp add: strip_char_def strip_where_def)
qed

lemma strip_component [simp]: "component_id v \<Longrightarrow> strip_char slash v = v" "component_id v \<Longrightarrow> v \<noteq> []"
  by (simp_all add: component_id_def strip_char_none)

lemma split_allowed_prefix:
  assumes "component_scope (ad_scope ad)"
  shows "\<exists>pre. pre = (if strip_char slash (ad_prefix_root ad) = [] then []
                     else split_on slash (strip_char slash (ad_prefix_root ad)))
    \<and> split_on slash (allowed_prefix ad @ ''/'' @ rest) =
        pre @ [sc_organization_id (ad_scope ad), sc_project_id (ad_scope ad), sc_dataset_id (ad_scope ad)]
        @ split_on slash rest"
proof -
  have one: "slash \<notin> set (sc_organization_id (ad_scope ad))" "slash \<notin> set (sc_project_id (ad_scope ad))"
    "slash \<notin> set (sc_dataset_id (ad_scope ad))"
    using assms by (auto simp: component_scope_def component_id_def)
  have "split_on slash (u @ slash # v) = split_on slash u @ split_on slash v" for u v
    by (rule split_on_append)
  then show ?thesis using assms one
    by (auto simp: allowed_prefix_def join_key_def component_scope_def split_on_single
        simp flip: slash_def)
qed

lemma scopes_disjoint:
  assumes "component_scope (ad_scope a)" "component_scope (ad_scope b)"
    and "ad_prefix_root a = ad_prefix_root b" "ad_scope a \<noteq> ad_scope b"
    and "is_key_in_scope a key"
  shows "\<not> is_key_in_scope b key"
proof
  assume "is_key_in_scope b key"
  with assms(5) obtain r r' where "key = allowed_prefix a @ ''/'' @ r" "key = allowed_prefix b @ ''/'' @ r'"
    by (auto simp: is_key_in_scope_def starts_with_iff)
  with split_allowed_prefix [OF assms(1), of r] split_allowed_prefix [OF assms(2), of r'] assms(3)
  have "[sc_organization_id (ad_scope a), sc_project_id (ad_scope a), sc_dataset_id (ad_scope a)]
      = [sc_organization_id (ad_scope b), sc_project_id (ad_scope b), sc_dataset_id (ad_scope b)]"
    by auto
  then have "ad_scope a = ad_scope b" by simp
  then show False using assms(4) by simp
qed

section \<open>Reserved metadata\<close>

lemma dict_set_missing: "dict_get d k = None \<Longrightarrow> dict_set d k v = d @ [(k, v)]"
  by (induction d) (auto simp: dict_set_def split: if_splits)

lemma dict_update_all_missing:
  "distinct (map fst kvs) \<Longrightarrow> fst ` set kvs \<inter> set (dict_keys d) = {} \<Longrightarrow> dict_update_all d kvs = d @ kvs"
  by (induction kvs arbitrary: d)
    (auto simp: dict_set_missing dict_get_None_iff dict_keys_def)

lemma string_metadata_appended:
  assumes "distinct (map fst kvs)" "list_all (\<lambda>kv. lower (fst kv) = fst kv) kvs" "(k, v) \<in> set kvs"
  shows "dict_get (string_metadata (d @ kvs)) k = Some v"
proof -
  have "map (\<lambda>kv. (lower (fst kv), snd kv)) kvs = kvs"
    using assms(2) by (simp add: list_all_iff map_idI)
  moreover have "map_of (rev kvs) k = Some v"
    using assms(1,3) by (simp add: map_of_rev_distinct)
  ultimately show ?thesis
    unfolding string_metadata_def dict_get_dict_of by (simp add: dict_get_def map_add_def)
qed

lemma lower_reserved:
  "lower ''artifact-kind'' = ''artifact-kind''" "lower ''schema-version'' = ''schema-version''"
  "lower ''sha256'' = ''sha256''" "lower ''artifact-format'' = ''artifact-format''"
  "lower ''created-by-job-id'' = ''created-by-job-id''" "lower ''dataset-version-id'' = ''dataset-version-id''"
  by (simp_all add: lower_def)

lemma put_metadata_reserved:
  assumes "set (dict_keys md) \<inter> {''artifact-kind'', ''schema-version'', ''sha256''} = {}"
  shows "dict_get (put_metadata md kind schema digest) ''artifact-kind'' = Some kind"
    "dict_get (put_metadata md kind schema digest) ''schema-version'' = Some schema"
    "dict_get (put_metadata md kind schema digest) ''sha256'' = Some digest"
proof -
  let ?own = "[(''artifact-kind'', kind), (''schema-version'', schema), (''sha256'', digest)]"
  have "dict_update_all (dict_of md) ?own = dict_of md @ ?own"
    using assms by (intro dict_update_all_missing) (simp_all add: dict_keys_def [of md])
  then show "dict_get (put_metadata md kind schema digest) ''artifact-kind'' = Some kind"
    "dict_get (put_metadata md kind schema digest) ''schema-version'' = Some schema"
    "dict_get (put_metadata md kind schema digest) ''sha256'' = Some digest"
    unfolding put_metadata_def
    by (auto intro!: string_metadata_appended simp: lower_reserved)
qed

section \<open>Samples\<close>

definition scope_of :: "string \<Rightarrow> string \<Rightarrow> string \<Rightarrow> storage_scope" where
  "scope_of org project dataset =
     \<lparr>sc_organization_id = org, sc_project_id = project, sc_dataset_id = dataset\<rparr>"

definition adapter_for :: "storage_scope \<Rightarrow> adapter" where
  "adapter_for sc = \<lparr>ad_bucket_name = ''bkt'', ad_prefix_root = ''tenants'', ad_scope = sc\<rparr>"

definition put_args_for :: "string \<Rightarrow> metadata \<Rightarrow> put_args" where
  "put_args_for name md =
     \<lparr>pa_object_name = name, pa_data = ''xyz'', pa_kind = ''report'', pa_media_type = ''text/csv'',
      pa_schema_version = ''v1'', pa_parent_version_id = ''ver'', pa_job_id = ''job'',
      pa_config_hash = sha256_of toy_sha [], pa_metadata = md\<rparr>"

lemmas storage_eval = put_def Let_def key_for_object_name_def safe_relative_path_def strip_def
  strip_where_def lstrip_char_def slash_def normpath_def norm_comps_def norm_comp_def initial_slashes_def
  starts_with_def join_key_def strip_char_def allowed_prefix_def require_key_in_scope_def is_key_in_scope_def
  memory_client_def mem_put_def mem_get_def mem_head_def mem_object_at_def adapter_for_def scope_of_def
  put_args_for_def validated_def artifact_ref_valid_def artifact_lineage_valid_def non_empty_def
  s3_uri_def sha256_digest_def sha256_of_def toy_sha_def uri_for_key_def bucket_uri_def hex_char_def
  artifact_id_of_def removeprefix_def metadata_datetime_def

abbreviation sample_put :: "string \<Rightarrow> metadata \<Rightarrow> (exn + artifact_ref) \<times> mem_state" where
  "sample_put name md \<equiv> put memory_client toy_sha (\<lambda>_. None) 5 (adapter_for (scope_of ''o'' ''p'' ''d''))
     (put_args_for name md) []"

lemma list_all_replicate [simp]: "list_all P (replicate n x) \<longleftrightarrow> n = 0 \<or> P x"
  by (induction n) auto

lemma sample_put_ok: "is_ok (fst (sample_put ''a/b.csv'' []))"
  by (simp add: storage_eval requireR_def put_metadata_def string_metadata_def dict_of_def dict_set_def lower_def)

section \<open>Properties\<close>

text \<open>Whatever the adapter writes it reads back: after a successful put, getting the returned
  URI yields the same bytes, and the information read back carries the hash, URI, size and media
  type of the returned artifact reference.\<close>

theorem put_then_get:
  assumes "put memory_client sha fromiso now ad args st = (Inr ref, st')"
  shows "\<exists>info. get memory_client sha fromiso now' ad (ar_uri ref) st' = Inr (pa_data args, info)
    \<and> si_hash info = ar_hash ref \<and> si_uri info = ar_uri ref
    \<and> int (si_size_bytes info) = ar_size_bytes ref \<and> si_content_type info = ar_media_type ref"
  using assms by (rule mem.adapter_put_get)

lemma put_then_get_witness:
  "\<exists>ref st' info. sample_put ''a/b.csv'' [] = (Inr ref, st')
    \<and> get memory_client toy_sha (\<lambda>_. None) 6 (adapter_for (scope_of ''o'' ''p'' ''d'')) (ar_uri ref) st'
        = Inr (''xyz'', info)"
proof -
  from sample_put_ok obtain ref where "sample_put ''a/b.csv'' [] = (Inr ref, snd (sample_put ''a/b.csv'' []))"
    by (metis is_ok_iff prod.collapse)
  from put_then_get [OF this, of 6] this show ?thesis
    by (auto simp: put_args_for_def)
qed

text \<open>C10: Tenant isolation: for two adapters on one bucket and root whose scope ids are single path
  components and differ, nothing put through one changes what the other reads, and the other
  refuses every URI of the first one's scope without consulting the client.\<close>

theorem scopes_isolated:
  assumes "put memory_client sha fromiso now a args st = (res, st')"
    and "component_scope (ad_scope a)" "component_scope (ad_scope b)" "ad_scope a \<noteq> ad_scope b"
    and "ad_prefix_root a = ad_prefix_root b" "ad_bucket_name a = ad_bucket_name b"
  shows "get memory_client sha fromiso now b uri st' = get memory_client sha fromiso now b uri st
    \<and> head memory_client sha fromiso now b uri st' = head memory_client sha fromiso now b uri st
    \<and> (is_key_in_scope a key \<longrightarrow>
         get memory_client sha fromiso now b (uri_for_key a key) st' = Inl (storage_error ARTIFACT_OUT_OF_SCOPE))"
proof (intro conjI impI)
  have frame: "s3_get memory_client st' (ad_bucket_name b) k = s3_get memory_client st (ad_bucket_name b) k
      \<and> s3_head memory_client st' (ad_bucket_name b) k = s3_head memory_client st (ad_bucket_name b) k"
    if "is_key_in_scope b k" for k
    using mem.adapter_put_frame [OF assms(1)] scopes_disjoint [OF assms(2,3,5,4)] that by blast
  show "get memory_client sha fromiso now b uri st' = get memory_client sha fromiso now b uri st"
    by (rule get_head_cong(1) [OF frame])
  show "head memory_client sha fromiso now b uri st' = head memory_client sha fromiso now b uri st"
    by (rule get_head_cong(2) [OF frame])
  assume "is_key_in_scope a key"
  then have "\<not> is_key_in_scope b key" by (rule scopes_disjoint [OF assms(2,3,5,4)])
  moreover have "uri_for_key a key = uri_for_key b key" by (simp add: uri_for_key_def bucket_uri_def assms(6))
  ultimately have "key_for_uri b (uri_for_key a key) = Inl (storage_error ARTIFACT_OUT_OF_SCOPE)"
    by (simp add: key_for_uri_def uri_for_key_def require_key_in_scope_def Let_def)
  then show "get memory_client sha fromiso now b (uri_for_key a key) st' = Inl (storage_error ARTIFACT_OUT_OF_SCOPE)"
    by (simp add: get_def)
qed

lemma scopes_isolated_witness:
  "get memory_client toy_sha (\<lambda>_. None) 5 (adapter_for (scope_of ''o'' ''p'' ''e'')) ''s3://x''
      (snd (sample_put ''a/b.csv'' []))
    = get memory_client toy_sha (\<lambda>_. None) 5 (adapter_for (scope_of ''o'' ''p'' ''e'')) ''s3://x'' []"
  using scopes_isolated [OF prod.collapse [symmetric], where a = "adapter_for (scope_of ''o'' ''p'' ''d'')"
      and b = "adapter_for (scope_of ''o'' ''p'' ''e'')" and args = "put_args_for ''a/b.csv'' []"
      and st = "[]" and sha = toy_sha and fromiso = "\<lambda>_. None" and now = 5 and uri = "''s3://x''"]
  by (simp add: adapter_for_def scope_of_def component_scope_def component_id_def slash_def)

text \<open>The isolation does not hold for the ids the scope model accepts: ids are only required to
  be non-empty, and two different scopes whose ids contain a slash, or consist of one, are given
  the same key prefix.\<close>

theorem slash_ids_share_a_scope:
  "allowed_prefix (adapter_for (scope_of ''a/b'' ''c'' ''d'')) = allowed_prefix (adapter_for (scope_of ''a'' ''b/c'' ''d''))
   \<and> allowed_prefix (adapter_for (scope_of ''/'' ''a'' ''b'')) = allowed_prefix (adapter_for (scope_of ''a'' ''b'' ''/''))
   \<and> scope_of ''a/b'' ''c'' ''d'' \<noteq> scope_of ''a'' ''b/c'' ''d''
   \<and> scope_of ''/'' ''a'' ''b'' \<noteq> scope_of ''a'' ''b'' ''/''"
  by (simp add: storage_eval)

text \<open>A successful get proves the URI to lie in the adapter's own bucket and prefix with no
  parent-directory component, and reports the hash and the size of the bytes it returns, whatever
  the object's stored metadata says.\<close>

theorem get_stays_in_scope:
  assumes "get c sha fromiso now ad uri st = Inr (data, info)"
  shows "\<exists>rest. uri = bucket_uri ad @ allowed_prefix ad @ ''/'' @ rest
    \<and> ''..'' \<notin> set (split_on slash (allowed_prefix ad @ ''/'' @ rest))
    \<and> si_uri info = uri \<and> si_hash info = sha256_of sha data \<and> si_size_bytes info = length data"
proof -
  from assms obtain key r where "key_for_uri ad uri = Inr key"
    and i: "info_from_response sha fromiso now ad key r (Some data) None None = Inr info"
    by (auto simp: get_def result_simps)
  then show ?thesis using info_with_data [OF i] info_from_response_uri [OF i]
    by (auto simp: key_for_uri_Inr is_key_in_scope_def starts_with_iff uri_for_key_def)
qed

lemma get_stays_in_scope_witness:
  "\<exists>rest. ar_uri (projr (fst (sample_put ''a/b.csv'' [])))
     = bucket_uri (adapter_for (scope_of ''o'' ''p'' ''d''))
        @ allowed_prefix (adapter_for (scope_of ''o'' ''p'' ''d'')) @ ''/'' @ rest"
proof -
  from sample_put_ok obtain ref where ref: "sample_put ''a/b.csv'' [] = (Inr ref, snd (sample_put ''a/b.csv'' []))"
    by (metis is_ok_iff prod.collapse)
  from mem.adapter_put_get [OF this, of 6] obtain info where
    "get memory_client toy_sha (\<lambda>_. None) 6 (adapter_for (scope_of ''o'' ''p'' ''d''))
      (ar_uri ref) (snd (sample_put ''a/b.csv'' [])) = Inr (''xyz'', info)"
    by (auto simp: put_args_for_def)
  from get_stays_in_scope [OF this] ref show ?thesis by (metis fst_conv sum.sel(2))
qed

text \<open>The chunked download is the whole-object read: for every positive chunk size it ends and
  returns the same bytes and the same information as get, so that archive validation from storage
  checks the object's real size.\<close>

theorem download_equals_get:
  assumes "0 < chunk_size"
  shows "download_to_seekable c sha fromiso now ad chunk_size uri st = get c sha fromiso now ad uri st"
  using assms by (simp add: download_to_seekable_def get_def read_chunks_all Let_def info_overrides)

lemma download_equals_get_witness:
  "download_to_seekable memory_client toy_sha (\<lambda>_. None) 5 (adapter_for (scope_of ''o'' ''p'' ''d'')) 2 ''s3://x'' []
    = get memory_client toy_sha (\<lambda>_. None) 5 (adapter_for (scope_of ''o'' ''p'' ''d'')) ''s3://x'' []"
  by (rule download_equals_get) simp

text \<open>When the caller's metadata does not use the adapter's reserved keys, the stored metadata
  carries the artifact kind, the schema version and the content digest, even if the caller writes
  those keys in another case.\<close>

theorem reserved_metadata_kept:
  assumes "set (dict_keys md) \<inter> {''artifact-kind'', ''schema-version'', ''sha256''} = {}"
  shows "dict_get (put_metadata md kind schema digest) ''artifact-kind'' = Some kind
    \<and> dict_get (put_metadata md kind schema digest) ''schema-version'' = Some schema
    \<and> dict_get (put_metadata md kind schema digest) ''sha256'' = Some digest"
  using put_metadata_reserved [OF assms] by blast

lemma reserved_metadata_kept_witness:
  "dict_get (put_metadata [(''SHA256'', ''bad'')] ''report'' ''v1'' ''digest'') ''sha256'' = Some ''digest''"
  using reserved_metadata_kept [of "[(''SHA256'', ''bad'')]"] by (simp add: dict_keys_def)

text \<open>A caller that passes a reserved key twice, once in lower case and then in another case,
  replaces the adapter's own value: the stored sha256 is then the caller's.\<close>

theorem reserved_metadata_spoofed:
  "dict_get (put_metadata [(''sha256'', ''x''), (''SHA256'', ''bad'')] kind schema digest) ''sha256'' = Some ''bad''"
  by (simp add: put_metadata_def string_metadata_def dict_of_def dict_set_def lower_def)

text \<open>\<open>put\<close> validates the reference it returns only after writing: for an object name with an
  inner space it raises a validation error, and the object is nevertheless stored.\<close>

theorem put_writes_then_raises:
  "fst (sample_put ''a b.csv'' []) = Inl PydanticError
   \<and> is_ok (mem_object_at (snd (sample_put ''a b.csv'' [])) ''bkt'' ''tenants/o/p/d/a b.csv'')"
  by (simp add: storage_eval requireR_def dict_of_def dict_set_def)

end
