(* ===== verification/ArtifactRegistry.thy ===== *)
theory ArtifactRegistry
  imports ObjectStorage
begin

text \<open>
  \<open>src/app/adapters/artifact_registry.py\<close>: content-addressed, append-only artifacts on top of the
  object storage adapter. Proved in the \<open>s3_laws\<close> interface: a save never changes an object that
  exists, saving the same artifact again returns the stored one without writing, and the address
  determines the content up to a digest collision.
\<close>

section \<open>Definitions\<close>

record registered_artifact =
  ra_artifact_ref :: artifact_ref
  ra_artifact_kind :: string
  ra_uri :: string
  ra_hash :: string
  ra_format :: string
  ra_schema_version :: string
  ra_created_by_job_id :: string

definition registered_artifact_valid :: "registered_artifact \<Rightarrow> bool" where
  "registered_artifact_valid r \<longleftrightarrow>
     artifact_ref_valid (ra_artifact_ref r) \<and> non_empty (ra_artifact_kind r) \<and> s3_uri (ra_uri r)
     \<and> sha256_digest (ra_hash r) \<and> non_empty (ra_format r) \<and> non_empty (ra_schema_version r)
     \<and> non_empty (ra_created_by_job_id r)"

record save_args =
  sv_artifact_kind :: string
  sv_data :: string
  sv_artifact_format :: string
  sv_media_type :: string
  sv_schema_version :: string
  sv_dataset_version_id :: string
  sv_created_by_job_id :: string
  sv_config_hash :: string
  sv_metadata :: metadata

text \<open>The character class \<open>[A-Za-z0-9_.-]\<close>.\<close>

definition component_char :: "char \<Rightarrow> bool" where
  "component_char ch \<longleftrightarrow> is_ascii_upper ch \<or> is_ascii_lower ch \<or> is_digit ch \<or> ch \<in> set ''_.-''"

definition safe_component :: "string \<Rightarrow> exn + string" where
  "safe_component value =
     (let stripped = strip value in
      if stripped = [] \<or> stripped \<in> {''.'', ''..''} \<or> slash \<in> set stripped \<or> backslash \<in> set stripped
      then Inl (storage_error INVALID_JOB_PAYLOAD)
      else if \<not> list_all component_char stripped then Inl (storage_error INVALID_JOB_PAYLOAD)
      else Inr stripped)"

text \<open>The five cleaned components of a save, in the order the code checks them.\<close>

record save_names =
  sn_kind :: string
  sn_format :: string
  sn_schema :: string
  sn_version :: string
  sn_job :: string

definition save_names_of :: "save_args \<Rightarrow> exn + save_names" where
  "save_names_of args =
     bindR (safe_component (sv_artifact_kind args)) (\<lambda>kind.
     bindR (safe_component (sv_artifact_format args)) (\<lambda>fmt.
     bindR (safe_component (sv_schema_version args)) (\<lambda>schema.
     bindR (safe_component (sv_dataset_version_id args)) (\<lambda>version.
     bindR (safe_component (sv_created_by_job_id args)) (\<lambda>job.
     Inr \<lparr>sn_kind = kind, sn_format = fmt, sn_schema = schema, sn_version = version, sn_job = job\<rparr>)))))"

definition object_name_of :: "save_names \<Rightarrow> string \<Rightarrow> string" where
  "object_name_of n digest =
     ''versions/'' @ sn_version n @ ''/jobs/'' @ sn_job n @ ''/artifacts/''
     @ sn_kind n @ ''/'' @ sn_schema n @ ''/'' @ removeprefix ''sha256:'' digest @ ''.'' @ sn_format n"

definition record_from_ref :: "artifact_ref \<Rightarrow> save_names \<Rightarrow> exn + registered_artifact" where
  "record_from_ref ref n =
     validated registered_artifact_valid
       \<lparr>ra_artifact_ref = ref, ra_artifact_kind = sn_kind n, ra_uri = ar_uri ref, ra_hash = ar_hash ref,
        ra_format = sn_format n, ra_schema_version = ar_schema_version ref, ra_created_by_job_id = sn_job n\<rparr>"

text \<open>The stored metadata names the requested artifact.\<close>

definition metadata_matches :: "stored_info \<Rightarrow> string \<Rightarrow> save_names \<Rightarrow> bool" where
  "metadata_matches info expected_hash n \<longleftrightarrow>
     si_hash info = expected_hash
     \<and> dict_get (si_metadata info) ''sha256'' = Some expected_hash
     \<and> dict_get (si_metadata info) ''artifact-kind'' = Some (sn_kind n)
     \<and> dict_get (si_metadata info) ''artifact-format'' = Some (sn_format n)
     \<and> dict_get (si_metadata info) ''schema-version'' = Some (sn_schema n)
     \<and> dict_get (si_metadata info) ''created-by-job-id'' = Some (sn_job n)
     \<and> dict_get (si_metadata info) ''dataset-version-id'' = Some (sn_version n)"

fun not_found :: "exn \<Rightarrow> bool" where
  "not_found (Raised cls _ ec _) = (cls = ''ObjectStorageError'' \<and> ec = ARTIFACT_NOT_FOUND)"
| "not_found _ = False"

definition existing_artifact ::
    "'s s3_client \<Rightarrow> (string \<Rightarrow> string) \<Rightarrow> (string \<Rightarrow> datetime option) \<Rightarrow> datetime \<Rightarrow> adapter
     \<Rightarrow> string \<Rightarrow> string \<Rightarrow> save_names \<Rightarrow> string \<Rightarrow> 's \<Rightarrow> exn + registered_artifact option" where
  "existing_artifact c sha fromiso now ad uri expected_hash n config_hash st =
     (case head c sha fromiso now ad uri st of
        Inl e \<Rightarrow> if not_found e then Inr None else Inl e
      | Inr info \<Rightarrow>
          if \<not> metadata_matches info expected_hash n
          then Inl (storage_error CONTRACT_VALIDATION_FAILED)
          else
            bindR (validated artifact_ref_valid
              \<lparr>ar_artifact_id = artifact_id_of (sn_kind n) (si_hash info), ar_kind = sn_kind n,
               ar_uri = si_uri info, ar_hash = si_hash info, ar_media_type = si_content_type info,
               ar_size_bytes = int (si_size_bytes info), ar_schema_version = sn_schema n,
               ar_lineage = \<lparr>al_parent_version_id = sn_version n, al_job_id = sn_job n,
                 al_config_hash = config_hash, al_created_at = si_updated_at info\<rparr>\<rparr>) (\<lambda>ref.
            bindR (record_from_ref ref n) (\<lambda>rec. Inr (Some rec))))"

definition registry_metadata :: "metadata \<Rightarrow> save_names \<Rightarrow> metadata" where
  "registry_metadata md n =
     dict_update_all (dict_of md)
       [(''artifact-format'', sn_format n), (''created-by-job-id'', sn_job n),
        (''dataset-version-id'', sn_version n)]"

definition put_args_of :: "save_args \<Rightarrow> save_names \<Rightarrow> string \<Rightarrow> put_args" where
  "put_args_of args n object_name =
     \<lparr>pa_object_name = object_name, pa_data = sv_data args, pa_kind = sn_kind n,
      pa_media_type = sv_media_type args, pa_schema_version = sn_schema n,
      pa_parent_version_id = sn_version n, pa_job_id = sn_job n, pa_config_hash = sv_config_hash args,
      pa_metadata = registry_metadata (sv_metadata args) n\<rparr>"

definition save_artifact ::
    "'s s3_client \<Rightarrow> (string \<Rightarrow> string) \<Rightarrow> (string \<Rightarrow> datetime option) \<Rightarrow> datetime \<Rightarrow> adapter
     \<Rightarrow> save_args \<Rightarrow> 's \<Rightarrow> (exn + registered_artifact) \<times> 's" where
  "save_artifact c sha fromiso now ad args st =
     (case save_names_of args of
        Inl e \<Rightarrow> (Inl e, st)
      | Inr n \<Rightarrow>
          let digest = sha256_of sha (sv_data args);
              object_name = object_name_of n digest in
          (case uri_for_object_name ad object_name of
             Inl e \<Rightarrow> (Inl e, st)
           | Inr uri \<Rightarrow>
               (case existing_artifact c sha fromiso now ad uri digest n (sv_config_hash args) st of
                  Inl e \<Rightarrow> (Inl e, st)
                | Inr (Some rec) \<Rightarrow> (Inr rec, st)
                | Inr None \<Rightarrow>
                    (let (res, st') = put c sha fromiso now ad (put_args_of args n object_name) st in
                     (bindR res (\<lambda>ref. record_from_ref ref n), st')))))"

section \<open>Append-only\<close>

lemma uri_for_object_name_Inr:
  "uri_for_object_name ad name = Inr uri \<longleftrightarrow>
     (\<exists>key. key_for_object_name ad name = Inr key \<and> uri = uri_for_key ad key)"
  by (auto simp: uri_for_object_name_def result_simps)

lemma key_for_uri_of_name:
  "key_for_object_name ad name = Inr key \<Longrightarrow> key_for_uri ad (uri_for_key ad key) = Inr key"
  by (simp add: key_for_uri_Inr key_for_object_name_in_scope)

lemma info_from_response_Inl:
  "info_from_response sha fromiso now ad key r d h n = Inl e \<Longrightarrow> e = PydanticError"
  by (auto simp: info_from_response_def Let_def result_simps)

lemma existing_None:
  assumes "existing_artifact c sha fromiso now ad (uri_for_key ad key) h n cfg st = Inr None"
    "key_for_uri ad (uri_for_key ad key) = Inr key"
  shows "\<exists>e. s3_head c st (ad_bucket_name ad) key = Inl e"
proof (cases "s3_head c st (ad_bucket_name ad) key")
  case (Inr r)
  then show ?thesis using assms
    by (auto simp: existing_artifact_def head_def result_simps split: sum.splits if_splits
        dest: info_from_response_Inl)
qed simp

context s3_laws begin

lemma save_append_only:
  assumes "save_artifact c sha fromiso now ad args st = (res, st')"
    and "s3_head c st b k = Inr r"
  shows "s3_head c st' b k = Inr r \<and> s3_get c st' b k = s3_get c st b k"
proof (cases "st' = st")
  case False
  let ?digest = "sha256_of sha (sv_data args)"
  obtain n where n: "save_names_of args = Inr n"
    using assms(1) False by (cases "save_names_of args") (auto simp: save_artifact_def)
  obtain uri where uri: "uri_for_object_name ad (object_name_of n ?digest) = Inr uri"
    using assms(1) False n
    by (cases "uri_for_object_name ad (object_name_of n ?digest)") (auto simp: save_artifact_def Let_def)
  then obtain key where key: "key_for_object_name ad (object_name_of n ?digest) = Inr key"
    "uri = uri_for_key ad key" by (auto simp: uri_for_object_name_Inr)
  have none: "existing_artifact c sha fromiso now ad uri ?digest n (sv_config_hash args) st = Inr None"
    using assms(1) False n uri by (auto simp: save_artifact_def Let_def split: sum.splits option.splits)
  from existing_None [OF this [unfolded key(2)] key_for_uri_of_name [OF key(1)]]
  have "(b, k) \<noteq> (ad_bucket_name ad, key)" using assms(2) by auto
  moreover obtain r' where "put c sha fromiso now ad (put_args_of args n (object_name_of n ?digest)) st = (r', st')"
    using assms(1) n uri none by (auto simp: save_artifact_def Let_def split: prod.splits)
  then obtain w md where
    "s3_put c st (ad_bucket_name ad) key (sv_data args) (sv_media_type args) md = (w, st')"
    using key(1) by (auto simp: put_def put_args_of_def Let_def split: prod.splits sum.splits)
  ultimately show ?thesis using put_frame [of st "ad_bucket_name ad" key "sv_data args" "sv_media_type args" md w st' b k] assms(2)
    by simp
qed (use assms in simp)

end

section \<open>Metadata of a saved artifact\<close>

lemma dict_of_distinct: "distinct (map fst kvs) \<Longrightarrow> dict_of kvs = kvs"
  using dict_update_all_missing [of kvs "[]"] by (simp add: dict_of_def dict_keys_def)

lemma string_metadata_idem: "string_metadata (string_metadata md) = string_metadata md"
proof -
  let ?m = "string_metadata md"
  have "map (\<lambda>kv. (lower (fst kv), snd kv)) ?m = ?m"
  proof (rule map_idI)
    fix kv assume "kv \<in> set ?m"
    then have "fst kv \<in> set (dict_keys ?m)" by (simp add: dict_keys_def)
    then have "lower (fst kv) = fst kv" by (auto simp: string_metadata_def)
    then show "(lower (fst kv), snd kv) = kv" by simp
  qed
  moreover have "distinct (map fst ?m)"
    using distinct_dict_of [of "map (\<lambda>kv. (lower (fst kv), snd kv)) md"]
    by (simp add: string_metadata_def dict_keys_def)
  ultimately show ?thesis by (simp add: string_metadata_def [of ?m] dict_of_distinct)
qed

definition reserved_keys :: "string list" where
  "reserved_keys = [''artifact-format'', ''created-by-job-id'', ''dataset-version-id'',
     ''artifact-kind'', ''schema-version'', ''sha256'']"

definition saved_metadata :: "metadata \<Rightarrow> save_names \<Rightarrow> string \<Rightarrow> metadata" where
  "saved_metadata md n digest = put_metadata (registry_metadata md n) (sn_kind n) (sn_schema n) digest"

lemma saved_metadata_reserved:
  assumes "set (dict_keys md) \<inter> set reserved_keys = {}"
  shows "dict_get (saved_metadata md n digest) ''sha256'' = Some digest"
    "dict_get (saved_metadata md n digest) ''artifact-kind'' = Some (sn_kind n)"
    "dict_get (saved_metadata md n digest) ''artifact-format'' = Some (sn_format n)"
    "dict_get (saved_metadata md n digest) ''schema-version'' = Some (sn_schema n)"
    "dict_get (saved_metadata md n digest) ''created-by-job-id'' = Some (sn_job n)"
    "dict_get (saved_metadata md n digest) ''dataset-version-id'' = Some (sn_version n)"
proof -
  let ?reg = "[(''artifact-format'', sn_format n), (''created-by-job-id'', sn_job n),
    (''dataset-version-id'', sn_version n)]"
  let ?own = "[(''artifact-kind'', sn_kind n), (''schema-version'', sn_schema n), (''sha256'', digest)]"
  have free: "k \<notin> fst ` set md" if "k \<in> set reserved_keys" for k
    using assms that by (auto simp: dict_keys_def)
  note frees = free [of "''artifact-format''"] free [of "''created-by-job-id''"]
    free [of "''dataset-version-id''"] free [of "''artifact-kind''"] free [of "''schema-version''"]
    free [of "''sha256''"]
  have keys: "fst ` set (dict_of md) = fst ` set md"
    using set_dict_keys_dict_of [of md] by (simp add: dict_keys_def)
  have reg: "registry_metadata md n = dict_of md @ ?reg"
    unfolding registry_metadata_def using frees
    by (intro dict_update_all_missing) (simp_all add: reserved_keys_def)
  have "distinct (map fst (dict_of md @ ?reg))"
    using distinct_dict_of [of md] frees by (simp add: dict_keys_def keys reserved_keys_def)
  then have "dict_update_all (dict_of (registry_metadata md n)) ?own = (dict_of md @ ?reg) @ ?own"
    unfolding reg using frees
    by (subst dict_of_distinct) (simp, intro dict_update_all_missing,
        simp_all add: dict_keys_def keys reserved_keys_def)
  then have "saved_metadata md n digest = string_metadata (dict_of md @ (?reg @ ?own))"
    by (simp add: saved_metadata_def put_metadata_def)
  then have "dict_get (saved_metadata md n digest) k = Some v" if "(k, v) \<in> set (?reg @ ?own)" for k v
    using that by (simp only:) (rule string_metadata_appended, simp_all add: lower_reserved)
  then show "dict_get (saved_metadata md n digest) ''sha256'' = Some digest"
    "dict_get (saved_metadata md n digest) ''artifact-kind'' = Some (sn_kind n)"
    "dict_get (saved_metadata md n digest) ''artifact-format'' = Some (sn_format n)"
    "dict_get (saved_metadata md n digest) ''schema-version'' = Some (sn_schema n)"
    "dict_get (saved_metadata md n digest) ''created-by-job-id'' = Some (sn_job n)"
    "dict_get (saved_metadata md n digest) ''dataset-version-id'' = Some (sn_version n)"
    by simp_all
qed

section \<open>Saving twice\<close>

text \<open>What a returned record says of the store it was returned with.\<close>

definition registered_in :: "'s s3_client \<Rightarrow> (string \<Rightarrow> string) \<Rightarrow> adapter \<Rightarrow> 's \<Rightarrow> string \<Rightarrow> save_names
    \<Rightarrow> registered_artifact \<Rightarrow> bool" where
  "registered_in c sha ad st data n rec \<longleftrightarrow>
     (\<exists>key r. key_for_object_name ad (object_name_of n (sha256_of sha data)) = Inr key
       \<and> s3_head c st (ad_bucket_name ad) key = Inr r
       \<and> ra_uri rec = uri_for_key ad key \<and> ra_hash rec = sha256_of sha data
       \<and> registered_artifact_valid rec
       \<and> (\<forall>fromiso now. \<exists>info. info_from_response sha fromiso now ad key r None None None = Inr info
            \<and> metadata_matches info (sha256_of sha data) n)
       \<and> ra_artifact_kind rec = sn_kind n \<and> ra_format rec = sn_format n
       \<and> ra_schema_version rec = sn_schema n \<and> ra_created_by_job_id rec = sn_job n
       \<and> al_parent_version_id (ar_lineage (ra_artifact_ref rec)) = sn_version n)"

lemma info_from_response_now:
  assumes "info_from_response sha fromiso now ad key r d h n = Inr info"
  shows "\<exists>info'. info_from_response sha fromiso' now' ad key r d h n = Inr info'
    \<and> si_hash info' = si_hash info \<and> si_metadata info' = si_metadata info"
  using assms by (auto simp: info_from_response_def Let_def result_simps stored_info_valid_def)

lemma existing_registered:
  assumes ex: "existing_artifact c sha fromiso now ad (uri_for_key ad key) (sha256_of sha data) n cfg st = Inr (Some rec)"
    and key: "key_for_object_name ad (object_name_of n (sha256_of sha data)) = Inr key"
  shows "registered_in c sha ad st data n rec"
proof -
  from ex obtain r info where r: "s3_head c st (ad_bucket_name ad) key = Inr r"
    and info: "info_from_response sha fromiso now ad key r None None None = Inr info"
    and match: "metadata_matches info (sha256_of sha data) n"
    and rec: "registered_artifact_valid rec" "ra_uri rec = si_uri info" "ra_hash rec = si_hash info"
      "ra_artifact_kind rec = sn_kind n" "ra_format rec = sn_format n" "ra_schema_version rec = sn_schema n"
      "ra_created_by_job_id rec = sn_job n" "al_parent_version_id (ar_lineage (ra_artifact_ref rec)) = sn_version n"
    by (auto simp: existing_artifact_def head_def key_for_uri_of_name [OF key] result_simps
        record_from_ref_def split: sum.splits if_splits)
  have "\<exists>info'. info_from_response sha fromiso' now' ad key r None None None = Inr info'
      \<and> metadata_matches info' (sha256_of sha data) n" for fromiso' now'
    using info_from_response_now [OF info, of fromiso' now'] match by (auto simp: metadata_matches_def)
  with r key rec info_from_response_uri [OF info] match show ?thesis
    by (auto simp: registered_in_def metadata_matches_def)
qed

context s3_laws begin

lemma fresh_registered:
  assumes put: "put c sha fromiso now ad (put_args_of args n (object_name_of n (sha256_of sha (sv_data args)))) st
      = (Inr ref, st')"
    and rec: "record_from_ref ref n = Inr rec"
    and md: "set (dict_keys (sv_metadata args)) \<inter> set reserved_keys = {}"
  shows "registered_in c sha ad st' (sv_data args) n rec"
proof -
  let ?h = "sha256_of sha (sv_data args)"
  from put obtain key u where key: "key_for_object_name ad (object_name_of n ?h) = Inr key"
    and wr: "s3_put c st (ad_bucket_name ad) key (sv_data args) (sv_media_type args)
        (saved_metadata (sv_metadata args) n ?h) = (Inr u, st')"
    and ref: "artifact_ref_valid ref" "ar_uri ref = uri_for_key ad key" "ar_hash ref = ?h"
      "ar_media_type ref = sv_media_type args" "ar_schema_version ref = sn_schema n"
      "al_parent_version_id (ar_lineage ref) = sn_version n"
    by (auto simp: put_def put_args_of_def saved_metadata_def Let_def result_simps split: sum.splits prod.splits)
  from put_head [OF wr] obtain r where r: "s3_head c st' (ad_bucket_name ad) key = Inr r"
    "rs_content_length r = Some (length (sv_data args))" "rs_content_type r = Some (sv_media_type args)"
    "rs_metadata r = saved_metadata (sv_metadata args) n ?h" by blast
  have idem: "string_metadata (rs_metadata r) = saved_metadata (sv_metadata args) n ?h"
    by (simp add: r(4) saved_metadata_def put_metadata_def string_metadata_idem)
  have ne: "?h \<noteq> []" by (simp add: sha256_of_def)
  have "\<exists>info. info_from_response sha fromiso' now' ad key r None None None = Inr info
      \<and> metadata_matches info ?h n" for fromiso' now'
    using ref r idem ne saved_metadata_reserved [OF md, of n ?h]
    by (simp add: info_from_response_def Let_def result_simps stored_info_valid_def artifact_ref_valid_def
        non_empty_def metadata_matches_def)
  with key r(1) rec ref show ?thesis
    by (auto simp: registered_in_def record_from_ref_def result_simps)
qed

lemma save_registers:
  assumes "save_artifact c sha fromiso now ad args st = (Inr rec, st')"
    and "save_names_of args = Inr n"
    and "set (dict_keys (sv_metadata args)) \<inter> set reserved_keys = {}"
  shows "registered_in c sha ad st' (sv_data args) n rec"
proof -
  let ?h = "sha256_of sha (sv_data args)"
  obtain uri where uri: "uri_for_object_name ad (object_name_of n ?h) = Inr uri"
    using assms(1,2) by (cases "uri_for_object_name ad (object_name_of n ?h)") (auto simp: save_artifact_def Let_def)
  then obtain key where key: "key_for_object_name ad (object_name_of n ?h) = Inr key"
    "uri = uri_for_key ad key" by (auto simp: uri_for_object_name_Inr)
  obtain ex where ex: "existing_artifact c sha fromiso now ad uri ?h n (sv_config_hash args) st = Inr ex"
    using assms(1,2) uri by (auto simp: save_artifact_def Let_def split: sum.splits)
  show ?thesis
  proof (cases ex)
    case (Some rec')
    then have "rec' = rec" "st' = st" using assms(1,2) uri ex by (auto simp: save_artifact_def Let_def)
    with existing_registered [OF ex [unfolded Some key(2)] key(1)] show ?thesis by simp
  next
    case None
    obtain res where res: "put c sha fromiso now ad (put_args_of args n (object_name_of n ?h)) st = (res, st')"
      "bindR res (\<lambda>ref. record_from_ref ref n) = Inr rec"
      using assms(1,2) uri ex None by (auto simp: save_artifact_def Let_def split: prod.splits)
    then obtain ref where "res = Inr ref" "record_from_ref ref n = Inr rec" by (auto simp: result_simps)
    with fresh_registered [OF _ _ assms(3)] res(1) show ?thesis by simp
  qed
qed

end

lemma registered_resave:
  assumes reg: "registered_in c sha ad st (sv_data args) n rec" and n: "save_names_of args = Inr n"
    and cfg: "sha256_digest (sv_config_hash args)"
  shows "\<exists>rec'. save_artifact c sha fromiso now ad args st = (Inr rec', st)
    \<and> ra_uri rec' = ra_uri rec \<and> ra_hash rec' = ra_hash rec
    \<and> al_config_hash (ar_lineage (ra_artifact_ref rec')) = sv_config_hash args"
proof -
  let ?h = "sha256_of sha (sv_data args)"
  from reg obtain key r info where key: "key_for_object_name ad (object_name_of n ?h) = Inr key"
    and r: "s3_head c st (ad_bucket_name ad) key = Inr r"
    and rec: "ra_uri rec = uri_for_key ad key" "ra_hash rec = ?h" "registered_artifact_valid rec"
      "ra_artifact_kind rec = sn_kind n" "ra_format rec = sn_format n"
      "ra_schema_version rec = sn_schema n" "ra_created_by_job_id rec = sn_job n"
      "al_parent_version_id (ar_lineage (ra_artifact_ref rec)) = sn_version n"
    and info: "info_from_response sha fromiso now ad key r None None None = Inr info"
      "metadata_matches info ?h n"
    unfolding registered_in_def by blast
  have uri: "uri_for_object_name ad (object_name_of n ?h) = Inr (uri_for_key ad key)"
    using key by (simp add: uri_for_object_name_def)
  have hd: "head c sha fromiso now ad (uri_for_key ad key) st = Inr info"
    using key_for_uri_of_name [OF key] r info(1) by (simp add: head_def)
  have valid: "stored_info_valid info" using info(1) by (auto simp: info_from_response_def Let_def result_simps)
  have ne: "sn_kind n \<noteq> []" "sn_format n \<noteq> []" "sn_schema n \<noteq> []" "sn_job n \<noteq> []" "sn_version n \<noteq> []"
    using rec by (auto simp: registered_artifact_valid_def non_empty_def artifact_ref_valid_def artifact_lineage_valid_def)
  have "si_hash info = ?h" "si_uri info = uri_for_key ad key"
    using info info_from_response_uri [OF info(1)] by (simp_all add: metadata_matches_def)
  then show ?thesis using n uri hd info(2) valid ne rec(1,2,3) cfg
    by (simp add: save_artifact_def Let_def existing_artifact_def result_simps record_from_ref_def
        registered_artifact_valid_def artifact_ref_valid_def artifact_lineage_valid_def non_empty_def
        stored_info_valid_def artifact_id_of_def)
qed

section \<open>The address determines the content\<close>

lemma safe_component_no_slash: "safe_component v = Inr w \<Longrightarrow> slash \<notin> set w \<and> w \<noteq> []"
  by (auto simp: safe_component_def Let_def split: if_splits)

lemma save_names_no_slash:
  assumes "save_names_of args = Inr n"
  shows "slash \<notin> set (sn_kind n)" "slash \<notin> set (sn_format n)" "slash \<notin> set (sn_schema n)"
    "slash \<notin> set (sn_version n)" "slash \<notin> set (sn_job n)"
  using assms by (auto simp: save_names_of_def result_simps dest: safe_component_no_slash)

lemma split_object_name:
  assumes "save_names_of args = Inr n"
  shows "split_on slash (object_name_of n digest) =
    [''versions'', sn_version n, ''jobs'', sn_job n, ''artifacts'', sn_kind n, sn_schema n]
    @ split_on slash (removeprefix ''sha256:'' digest @ ''.'' @ sn_format n)"
proof -
  have "object_name_of n digest =
      ''versions'' @ slash # (sn_version n @ slash # (''jobs'' @ slash # (sn_job n @ slash # (''artifacts'' @ slash #
        (sn_kind n @ slash # (sn_schema n @ slash # (removeprefix ''sha256:'' digest @ ''.'' @ sn_format n)))))))"
    by (simp add: object_name_of_def slash_def)
  moreover have "slash \<notin> set ''versions''" "slash \<notin> set ''jobs''" "slash \<notin> set ''artifacts''"
    by (simp_all add: slash_def)
  ultimately show ?thesis
    using save_names_no_slash [OF assms] by (simp only: split_on_append_sep not_False_eq_True) simp
qed

lemma hex64_no_slash: "hex64 sha \<Longrightarrow> slash \<notin> set (sha x)"
  using hex_char_Char by (fastforce simp: hex64_def list_all_iff slash_def)

lemma removeprefix_sha [simp]: "removeprefix ''sha256:'' (sha256_of sha z) = sha z"
  by (simp only: sha256_of_def removeprefix_append)

lemma object_name_inject:
  assumes "save_names_of a = Inr n" "save_names_of b = Inr m" "hex64 sha"
    and "object_name_of n (sha256_of sha x) = object_name_of m (sha256_of sha y)"
  shows "n = m \<and> sha x = sha y"
proof -
  have one: "split_on slash (removeprefix ''sha256:'' (sha256_of sha z) @ ''.'' @ sn_format k) = [sha z @ ''.'' @ sn_format k]"
    if "save_names_of args = Inr k" for args k z
    using hex64_no_slash [OF assms(3)] save_names_no_slash [OF that]
    by (intro split_on_single [THEN trans]) (simp_all add: slash_def)
  have "length (sha x) = length (sha y)" using assms(3) by (simp add: hex64_def)
  then show ?thesis
    using arg_cong [OF assms(4), of "split_on slash"]
    unfolding split_object_name [OF assms(1)] split_object_name [OF assms(2)] one [OF assms(1)] one [OF assms(2)]
    by simp
qed

section \<open>Properties\<close>

definition sample_save :: "string \<Rightarrow> save_args" where
  "sample_save data =
     \<lparr>sv_artifact_kind = ''report'', sv_data = data, sv_artifact_format = ''json'',
      sv_media_type = ''application/json'', sv_schema_version = ''v1'', sv_dataset_version_id = ''ver'',
      sv_created_by_job_id = ''job'', sv_config_hash = sha256_of toy_sha [], sv_metadata = []\<rparr>"

abbreviation sample_ad :: adapter where
  "sample_ad \<equiv> adapter_for (scope_of ''o'' ''p'' ''d'')"

lemma sample_names:
  "save_names_of (sample_save data) = Inr \<lparr>sn_kind = ''report'', sn_format = ''json'', sn_schema = ''v1'',
     sn_version = ''ver'', sn_job = ''job''\<rparr>"
  by (simp add: save_names_of_def safe_component_def sample_save_def Let_def strip_def strip_where_def
      slash_def backslash_def component_char_def)

lemma sample_key: "\<exists>key. key_for_object_name sample_ad
    (object_name_of \<lparr>sn_kind = ''report'', sn_format = ''json'', sn_schema = ''v1'',
       sn_version = ''ver'', sn_job = ''job''\<rparr> (sha256_of toy_sha data)) = Inr key \<and> s3_uri (uri_for_key sample_ad key)"
  by (simp add: object_name_of_def storage_eval requireR_def result_simps numeral_eq_Suc)

lemma sample_saved: "\<exists>rec st'. save_artifact memory_client toy_sha (\<lambda>_. None) 5 sample_ad (sample_save data) [] = (Inr rec, st')"
proof -
  let ?n = "\<lparr>sn_kind = ''report'', sn_format = ''json'', sn_schema = ''v1'', sn_version = ''ver'', sn_job = ''job''\<rparr>"
  obtain key where key: "key_for_object_name sample_ad (object_name_of ?n (sha256_of toy_sha data)) = Inr key"
    "s3_uri (uri_for_key sample_ad key)" using sample_key by blast
  show ?thesis
    unfolding save_artifact_def sample_names
    by (simp add: Let_def uri_for_object_name_def key existing_artifact_def
        head_def key_for_uri_of_name [OF key(1)] memory_client_def mem_head_def mem_object_at_def
        storage_error_def put_def put_args_of_def mem_put_def result_simps artifact_ref_valid_def
        artifact_lineage_valid_def non_empty_def sample_save_def artifact_id_of_def record_from_ref_def
        registered_artifact_valid_def)
qed

text \<open>C12: The registry is append-only: whatever a save returns or raises, every object the store
  held before, under any bucket and key, is still there with the same bytes and metadata.\<close>

theorem registry_append_only:
  assumes "save_artifact memory_client sha fromiso now ad args st = (res, st')"
    and "s3_head memory_client st b k = Inr r"
  shows "s3_head memory_client st' b k = Inr r \<and> s3_get memory_client st' b k = s3_get memory_client st b k"
  using assms by (rule mem.save_append_only)

definition one_object :: mem_state where
  "one_object = [((''bkt'', ''k''), \<lparr>mo_body = ''old'', mo_content_type = ''t'', mo_metadata = []\<rparr>)]"

lemma registry_append_only_witness:
  "s3_get memory_client (snd (save_artifact memory_client toy_sha (\<lambda>_. None) 5 sample_ad (sample_save ''x'') one_object))
      ''bkt'' ''k'' = s3_get memory_client one_object ''bkt'' ''k''"
  using registry_append_only [OF prod.collapse [symmetric], where st = one_object and b = "''bkt''" and k = "''k''"]
  by (simp add: memory_client_def mem_head_def mem_object_at_def one_object_def)

text \<open>Saving is idempotent: after a successful save whose caller metadata leaves the reserved
  keys alone, every later save of the same bytes under the same names succeeds, writes nothing and
  returns the same URI and hash. The configuration hash takes no part in that comparison: the
  second record carries whatever configuration hash the second caller passed.\<close>

theorem save_twice_returns_first:
  assumes "save_artifact memory_client sha fromiso now ad args st = (Inr rec, st')"
    and "set (dict_keys (sv_metadata args)) \<inter> set reserved_keys = {}"
    and "save_names_of args' = save_names_of args" "sv_data args' = sv_data args"
    and "sha256_digest (sv_config_hash args')"
  shows "\<exists>rec'. save_artifact memory_client sha fromiso' now' ad args' st' = (Inr rec', st')
    \<and> ra_uri rec' = ra_uri rec \<and> ra_hash rec' = ra_hash rec
    \<and> al_config_hash (ar_lineage (ra_artifact_ref rec')) = sv_config_hash args'"
proof -
  obtain n where n: "save_names_of args = Inr n"
    using assms(1) by (cases "save_names_of args") (auto simp: save_artifact_def)
  from mem.save_registers [OF assms(1) n assms(2)] assms(4)
  have "registered_in memory_client sha ad st' (sv_data args') n rec" by simp
  then show ?thesis by (rule registered_resave) (simp_all add: assms(3,5) n)
qed

lemma save_twice_returns_first_witness:
  "\<exists>rec rec' st'. save_artifact memory_client toy_sha (\<lambda>_. None) 5 sample_ad (sample_save ''x'') [] = (Inr rec, st')
    \<and> save_artifact memory_client toy_sha (\<lambda>_. None) 9 sample_ad (sample_save ''x'') st' = (Inr rec', st')"
proof -
  obtain rec st' where s: "save_artifact memory_client toy_sha (\<lambda>_. None) 5 sample_ad (sample_save ''x'') [] = (Inr rec, st')"
    using sample_saved by blast
  have "\<exists>rec'. save_artifact memory_client toy_sha (\<lambda>_. None) 9 sample_ad (sample_save ''x'') st' = (Inr rec', st')"
    using save_twice_returns_first [OF s, of "sample_save ''x''" "\<lambda>_. None" 9]
    by (auto simp: sample_save_def dict_keys_def)
  with s show ?thesis by blast
qed

text \<open>Addresses are content addresses: two saves whose object names coincide were made under the
  same kind, format, schema, version and job, and with the same bytes, or the two byte strings are
  an explicit SHA-256 collision.\<close>

theorem same_address_same_artifact:
  assumes "save_names_of a = Inr n" "save_names_of b = Inr m" "hex64 sha"
    and "object_name_of n (sha256_of sha (sv_data a)) = object_name_of m (sha256_of sha (sv_data b))"
  shows "n = m \<and> (sv_data a = sv_data b \<or> collide sha (sv_data a) (sv_data b))"
  using object_name_inject [OF assms] by (auto simp: collide_def)

lemma same_address_same_artifact_witness: "''x'' = ''y'' \<or> collide toy_sha ''x'' ''y''"
  using same_address_same_artifact [OF sample_names sample_names hex64_toy_sha, of "''x''" "''y''"]
  by (simp add: sample_save_def object_name_of_def sha256_of_def toy_sha_def)

end
