(* ===== verification/RegistryAddresses.thy ===== *)
theory RegistryAddresses
  imports ArtifactRegistry
begin

text \<open>
  The addresses the registry builds from cleaned components are always relative, normal and inside
  the scope of a well-formed adapter, so that a save into a free address of the in-memory client
  always succeeds. The builders of the later theories use this to show that they return.
\<close>

section \<open>Plain paths\<close>

definition plain_path :: "string list \<Rightarrow> bool" where
  "plain_path ws \<longleftrightarrow> ws \<noteq> [] \<and> list_all plain_comp ws"

lemma plain_path_slash: "plain_path ws \<Longrightarrow> w \<in> set ws \<Longrightarrow> w \<noteq> [] \<and> slash \<notin> set w"
  by (auto simp: plain_path_def list_all_iff plain_comp_def)

lemma plain_path_split: "plain_path ws \<Longrightarrow> split_on slash (join [slash] ws) = ws"
  using plain_path_slash by (intro split_on_join) (auto simp: plain_path_def)

lemma join_ends:
  assumes "ws \<noteq> []" "\<And>w. w \<in> set ws \<Longrightarrow> w \<noteq> []"
  shows "join sep ws \<noteq> [] \<and> hd (join sep ws) = hd (hd ws) \<and> last (join sep ws) = last (last ws)"
  using assms
proof (induction sep ws rule: join.induct)
  case (3 sep w v ws)
  then have "join sep (v # ws) \<noteq> []" by simp
  with 3 show ?case by (auto simp: last_append)
qed auto

lemma plain_path_ends:
  assumes "plain_path ws"
  shows "join [slash] ws \<noteq> []" "hd (join [slash] ws) \<noteq> slash" "last (join [slash] ws) \<noteq> slash"
proof -
  have ne: "ws \<noteq> []" using assms by (simp add: plain_path_def)
  have e: "join [slash] ws \<noteq> [] \<and> hd (join [slash] ws) = hd (hd ws) \<and> last (join [slash] ws) = last (last ws)"
    using join_ends [OF ne] plain_path_slash [OF assms] by blast
  have "hd ws \<noteq> [] \<and> slash \<notin> set (hd ws)" "last ws \<noteq> [] \<and> slash \<notin> set (last ws)"
    using plain_path_slash [OF assms] ne by simp_all
  then have "hd (hd ws) \<noteq> slash" "last (last ws) \<noteq> slash" by (metis hd_in_set, metis last_in_set)
  with e show "join [slash] ws \<noteq> []" "hd (join [slash] ws) \<noteq> slash" "last (join [slash] ws) \<noteq> slash" by simp_all
qed

lemma not_starts_with_slash: "s \<noteq> [] \<Longrightarrow> hd s \<noteq> slash \<Longrightarrow> \<not> starts_with ''/'' s"
  by (cases s) (auto simp: starts_with_def slash_def)

lemma plain_path_normal:
  assumes "plain_path ws"
  shows "normpath (join [slash] ws) = join [slash] ws"
proof -
  note ends = plain_path_ends [OF assms]
  have rel: "\<not> starts_with ''/'' (join [slash] ws)" using ends by (intro not_starts_with_slash)
  have "norm_comps (join [slash] ws) = ws"
    using assms foldl_norm_comp_plain [of ws False "[]"]
    by (simp add: norm_comps_def plain_path_split relative_iff rel plain_path_def)
  then show ?thesis using assms normpath_relative [OF rel] by (auto simp: plain_path_def slash_def)
qed

lemma plain_path_no_dots:
  assumes "plain_path ws"
  shows "\<not> starts_with ''../'' (join [slash] ws)" "join [slash] ws \<noteq> ''..''" "join [slash] ws \<notin> {'''', ''.''}"
    "\<not> str_in ''/../'' (''/'' @ join [slash] ws @ ''/'')"
proof -
  let ?n = "join [slash] ws"
  have dots: "''..'' \<notin> set (split_on slash ?n)" "''.'' \<notin> set (split_on slash ?n)"
    using assms by (auto simp: plain_path_split plain_path_def list_all_iff plain_comp_def)
  have sep: "split_on slash (u @ slash # v) = split_on slash u @ split_on slash v" for u v
    by (rule split_on_append)
  have dd: "split_on slash ''..'' = [''..'']" "split_on slash ''.'' = [''.'']"
    by (simp_all add: split_on_single slash_def)
  show "?n \<notin> {'''', ''.''}" "?n \<noteq> ''..''" using dots dd plain_path_ends(1) [OF assms] by auto
  show "\<not> starts_with ''../'' ?n"
  proof
    assume "starts_with ''../'' ?n"
    then obtain r where "?n = ''..'' @ slash # r" by (auto simp: starts_with_iff slash_def)
    with dots show False using sep [of "''..''" r] dd by simp
  qed
  show "\<not> str_in ''/../'' (''/'' @ ?n @ ''/'')"
  proof
    assume "str_in ''/../'' (''/'' @ ?n @ ''/'')"
    then obtain a b where ab: "[] @ slash # ?n @ slash # [] = a @ slash # ''..'' @ slash # b"
      by (auto simp: str_in_iff slash_def)
    have "split_on slash ([] @ slash # ?n @ slash # []) = [[]] @ ws @ [[]]"
      using sep [of "[]" "?n @ slash # []"] sep [of ?n "[]"] assms by (simp add: plain_path_split)
    moreover have "split_on slash (a @ slash # ''..'' @ slash # b) = split_on slash a @ [''..''] @ split_on slash b"
      using sep [of a "''..'' @ slash # b"] sep [of "''..''" b] dd by simp
    ultimately have "''..'' \<in> set ([[]] @ ws @ [[]])" unfolding ab by (metis in_set_conv_decomp append_Cons append_Nil)
    then show False using dots assms by (auto simp: plain_path_split)
  qed
qed

lemma plain_path_safe:
  assumes "plain_path ws" "\<not> is_space (hd (hd ws))" "\<not> is_space (last (last ws))"
  shows "safe_relative_path (join [slash] ws) = Inr (join [slash] ws)"
proof -
  let ?n = "join [slash] ws"
  note ends = plain_path_ends [OF assms(1)]
  have "?n \<noteq> [] \<and> hd ?n = hd (hd ws) \<and> last ?n = last (last ws)"
    using join_ends [of ws] assms(1) plain_path_slash [OF assms(1)] by (auto simp: plain_path_def)
  then have "strip ?n = ?n" using assms(2,3) by (simp add: strip_def strip_where_id)
  moreover have "lstrip_char slash ?n = ?n" using ends by (cases ?n) (auto simp: lstrip_char_def)
  ultimately show ?thesis
    using plain_path_normal [OF assms(1)] plain_path_no_dots [OF assms(1)] ends(1)
    by (simp add: safe_relative_path_def)
qed

section \<open>Well-formed adapters\<close>

text \<open>The prefix root is empty or a plain path, the scope ids are plain, and nothing holds white space.\<close>

definition no_white :: "string \<Rightarrow> bool" where
  "no_white s \<longleftrightarrow> list_all (\<lambda>c. \<not> re_space c \<and> \<not> is_space c) s"

definition adapter_ok :: "adapter \<Rightarrow> string list \<Rightarrow> bool" where
  "adapter_ok ad pre \<longleftrightarrow>
     (pre = [] \<or> plain_path pre) \<and> ad_prefix_root ad = join [slash] pre
     \<and> plain_path [sc_organization_id (ad_scope ad), sc_project_id (ad_scope ad), sc_dataset_id (ad_scope ad)]
     \<and> no_white (ad_bucket_name ad) \<and> no_white (allowed_prefix ad)"

lemma s3_uri_prefixed: "s3_uri (''s3://'' @ r) \<longleftrightarrow> r \<noteq> [] \<and> list_all (\<lambda>c. \<not> re_space c) r"
  by (simp add: s3_uri_def starts_with_def)

lemma dots_not_plain: "list_all plain_comp ws \<Longrightarrow> ''..'' \<notin> set ws"
  by (auto simp: list_all_iff plain_comp_def)

lemma strip_char_plain: "plain_path ws \<Longrightarrow> strip_char slash (join [slash] ws) = join [slash] ws"
  using plain_path_ends [of ws] by (simp add: strip_char_def strip_where_id)

lemma join_pair: "join [slash] [a, b] = a @ slash # b"
  by simp

lemma allowed_prefix_path:
  assumes "adapter_ok ad pre"
  shows "allowed_prefix ad = join [slash] (pre @ [sc_organization_id (ad_scope ad), sc_project_id (ad_scope ad),
      sc_dataset_id (ad_scope ad)])"
    "plain_path (pre @ [sc_organization_id (ad_scope ad), sc_project_id (ad_scope ad), sc_dataset_id (ad_scope ad)])"
proof -
  let ?ids = "[sc_organization_id (ad_scope ad), sc_project_id (ad_scope ad), sc_dataset_id (ad_scope ad)]"
  have ids: "plain_path ?ids" and pre: "pre = [] \<or> plain_path pre" and r: "ad_prefix_root ad = join [slash] pre"
    using assms by (auto simp: adapter_ok_def)
  show "plain_path (pre @ ?ids)" using ids pre by (auto simp: plain_path_def)
  have one: "strip_char slash w = w \<and> w \<noteq> []" if "w \<in> set ?ids" for w
    using plain_path_slash [OF ids that] by (simp add: strip_char_none)
  have "filter (\<lambda>p. p \<noteq> []) (map (strip_char slash) ?ids) = ?ids"
    using one by simp
  moreover have "strip_char slash (ad_prefix_root ad) = ad_prefix_root ad"
    using pre r by (auto simp: strip_char_plain) (simp add: strip_char_def strip_where_def)
  ultimately have "allowed_prefix ad = (if pre = [] then join [slash] ?ids else join [slash] (ad_prefix_root ad # ?ids))"
    using pre r plain_path_ends(1) [of pre] by (auto simp: allowed_prefix_def join_key_def slash_def)
  then show "allowed_prefix ad = join [slash] (pre @ ?ids)"
    using r join_append [of pre ?ids "[slash]"] by auto
qed

lemma plain_name_key:
  assumes "adapter_ok ad pre" "plain_path ws" "no_white (join [slash] ws)"
    and "\<not> is_space (hd (hd ws))" "\<not> is_space (last (last ws))"
  shows "key_for_object_name ad (join [slash] ws) = Inr (allowed_prefix ad @ slash # join [slash] ws)"
    and "s3_uri (uri_for_key ad (allowed_prefix ad @ slash # join [slash] ws))"
proof -
  let ?n = "join [slash] ws" and ?all = "pre @ [sc_organization_id (ad_scope ad), sc_project_id (ad_scope ad),
      sc_dataset_id (ad_scope ad)]"
  note p = allowed_prefix_path [OF assms(1)]
  have key: "join_key [allowed_prefix ad, ?n] = allowed_prefix ad @ slash # ?n"
    using strip_char_plain [OF p(2)] strip_char_plain [OF assms(2)] plain_path_ends(1) [OF p(2)] plain_path_ends(1) [OF assms(2)]
    unfolding join_key_def p(1) by (simp add: slash_def)
  have "split_on slash (allowed_prefix ad @ slash # ?n) = ?all @ ws"
    using split_on_append [of slash "allowed_prefix ad" ?n] plain_path_split [OF p(2)] plain_path_split [OF assms(2)]
    by (simp add: p(1))
  moreover have "list_all plain_comp (?all @ ws)"
    using p(2) assms(2) by (simp only: plain_path_def list_all_append)
  ultimately have "''..'' \<notin> set (split_on slash (allowed_prefix ad @ slash # ?n))"
    using dots_not_plain by metis
  then have "is_key_in_scope ad (allowed_prefix ad @ slash # ?n)"
    by (auto simp: is_key_in_scope_def starts_with_iff slash_def)
  then show "key_for_object_name ad ?n = Inr (allowed_prefix ad @ slash # ?n)"
    using plain_path_safe [OF assms(2,4,5)] key
    by (simp add: key_for_object_name_def require_key_in_scope_def requireR_def Let_def)
  have "list_all (\<lambda>c. \<not> re_space c) (ad_bucket_name ad @ slash # allowed_prefix ad @ slash # ?n)"
    using assms(1,3) by (auto simp: adapter_ok_def no_white_def list_all_iff slash_def)
  moreover have "uri_for_key ad (allowed_prefix ad @ slash # ?n)
      = ''s3://'' @ (ad_bucket_name ad @ slash # allowed_prefix ad @ slash # ?n)"
    by (simp add: uri_for_key_def bucket_uri_def slash_def)
  ultimately show "s3_uri (uri_for_key ad (allowed_prefix ad @ slash # ?n))"
    by (simp only: s3_uri_prefixed) simp
qed


section \<open>Saving succeeds\<close>

lemma component_char_facts: "component_char c \<Longrightarrow> \<not> re_space c \<and> \<not> is_space c \<and> c \<noteq> slash"
  by (cases c) (auto simp: component_char_def slash_def)

lemma safe_component_facts:
  assumes "safe_component v = Inr w"
  shows "w \<noteq> []" "w \<noteq> ''.''" "w \<noteq> ''..''" "list_all component_char w"
  using assms by (auto simp: safe_component_def Let_def split: if_splits)

lemma component_plain:
  assumes "w \<noteq> []" "w \<noteq> ''.''" "w \<noteq> ''..''" "list_all component_char w"
  shows "plain_comp w \<and> no_white w"
  using assms component_char_facts by (auto simp: plain_comp_def no_white_def list_all_iff)

definition address_comps :: "save_names \<Rightarrow> string \<Rightarrow> string list" where
  "address_comps n hex =
     [''versions'', sn_version n, ''jobs'', sn_job n, ''artifacts'', sn_kind n, sn_schema n, hex @ ''.'' @ sn_format n]"

lemma object_name_comps: "object_name_of n (sha256_of sha x) = join [slash] (address_comps n (sha x))"
  by (simp add: object_name_of_def address_comps_def slash_def)

lemma hex_component: "hex_char c \<Longrightarrow> component_char c"
  by (cases c) (auto simp: component_char_def)

definition good_component :: "string \<Rightarrow> bool" where
  "good_component w \<longleftrightarrow> w \<noteq> [] \<and> w \<noteq> ''.'' \<and> w \<noteq> ''..'' \<and> list_all component_char w"

lemma safe_component_good: "safe_component v = Inr w \<Longrightarrow> good_component w"
  using safe_component_facts by (simp add: good_component_def)

lemma save_names_good:
  assumes "save_names_of args = Inr n"
  shows "good_component (sn_kind n)" "good_component (sn_format n)" "good_component (sn_schema n)"
    "good_component (sn_version n)" "good_component (sn_job n)"
  using assms by (auto simp: save_names_of_def result_simps dest: safe_component_good)

lemma long_not_dots: "2 < length w \<Longrightarrow> w \<noteq> [] \<and> w \<noteq> ''.'' \<and> w \<noteq> ''..''"
  by auto

lemma address_good:
  assumes "save_names_of args = Inr n" "hex64 sha"
  shows "list_all good_component (address_comps n (sha x))"
proof -
  have hex: "length (sha x) = 64" "list_all component_char (sha x)"
    using assms(2) hex_component by (auto simp: hex64_def list_all_iff)
  have "2 < length (sha x @ ''.'' @ sn_format n)" using hex(1) by simp
  from long_not_dots [OF this] have "good_component (sha x @ ''.'' @ sn_format n)"
    using hex(2) save_names_good(2) [OF assms(1)] by (simp add: good_component_def component_char_def)
  moreover have "good_component ''versions''" "good_component ''jobs''" "good_component ''artifacts''"
    by (simp_all add: good_component_def component_char_def)
  ultimately show ?thesis using save_names_good [OF assms(1)] by (simp add: address_comps_def)
qed

lemma good_plain: "good_component w \<Longrightarrow> plain_comp w \<and> no_white w"
  using component_plain by (simp add: good_component_def)

lemma no_white_join: "list_all no_white ws \<Longrightarrow> no_white (join [slash] ws)"
  by (induction "[slash]" ws rule: join.induct) (auto simp: no_white_def slash_def)

lemma good_ends:
  "good_component w \<Longrightarrow> \<not> is_space (hd w) \<and> \<not> is_space (last w)"
  using good_plain by (metis good_component_def hd_in_set last_in_set list_all_iff no_white_def)

lemma component_char_no_backslash: "component_char c \<Longrightarrow> c \<noteq> slash \<and> c \<noteq> backslash"
  by (auto simp: component_char_def slash_def backslash_def)

lemma good_safe: "good_component w \<Longrightarrow> safe_component w = Inr w"
proof -
  assume g: "good_component w"
  then have "strip w = w" using good_ends [OF g] by (simp add: strip_def strip_where_id)
  then show ?thesis using g component_char_no_backslash
    by (auto simp: safe_component_def Let_def good_component_def list_all_iff)
qed

lemma address_in_scope:
  assumes "adapter_ok ad pre" "save_names_of args = Inr n" "hex64 sha"
  shows "key_for_object_name ad (object_name_of n (sha256_of sha x)) =
      Inr (allowed_prefix ad @ slash # object_name_of n (sha256_of sha x))"
    and "s3_uri (uri_for_key ad (allowed_prefix ad @ slash # object_name_of n (sha256_of sha x)))"
proof -
  let ?ws = "address_comps n (sha x)"
  have good: "list_all good_component ?ws" using address_good [OF assms(2,3)] .
  have plain: "plain_path ?ws"
    using good good_plain by (auto simp: plain_path_def list_all_iff address_comps_def)
  have white: "no_white (join [slash] ?ws)"
    using good good_plain by (intro no_white_join) (auto simp: list_all_iff)
  have ends: "\<not> is_space (hd (hd ?ws))" "\<not> is_space (last (last ?ws))"
    using good good_ends plain by (auto simp: list_all_iff plain_path_def)
  show "key_for_object_name ad (object_name_of n (sha256_of sha x)) =
      Inr (allowed_prefix ad @ slash # object_name_of n (sha256_of sha x))"
    "s3_uri (uri_for_key ad (allowed_prefix ad @ slash # object_name_of n (sha256_of sha x)))"
    unfolding object_name_comps using plain_name_key [OF assms(1) plain white ends] by simp_all
qed


text \<open>On the in-memory client, into a free address.\<close>

lemma memory_save_ok:
  assumes n: "save_names_of args = Inr n" and ad: "adapter_ok ad pre"
    and free: "dict_get st (ad_bucket_name ad, allowed_prefix ad @ slash # object_name_of n (sha256_of sha (sv_data args))) = None"
    and ok: "hex64 sha" "sv_media_type args \<noteq> []" "sha256_digest (sv_config_hash args)"
  shows "\<exists>rec st'. save_artifact memory_client sha fromiso now ad args st = (Inr rec, st')"
  unfolding save_artifact_def n
  using save_names_good [OF n] free ok address_in_scope(2) [OF ad n ok(1)]
  by (simp add: Let_def uri_for_object_name_def address_in_scope(1) [OF ad n ok(1)] existing_artifact_def
      head_def key_for_uri_of_name [OF address_in_scope(1) [OF ad n ok(1)]] memory_client_def mem_head_def
      mem_object_at_def storage_error_def put_def put_args_of_def mem_put_def result_simps artifact_ref_valid_def
      artifact_lineage_valid_def non_empty_def artifact_id_of_def record_from_ref_def
      registered_artifact_valid_def good_component_def)

lemma sample_adapter_ok: "adapter_ok sample_ad [''tenants'']"
  by (simp add: adapter_ok_def adapter_for_def scope_of_def plain_path_def plain_comp_def slash_def no_white_def
      allowed_prefix_def join_key_def strip_char_def strip_where_def)

text \<open>Saving into a free address succeeds: for an adapter whose bucket, prefix and scope ids are plain
  path components without white space, and a request whose five names pass the component check, the
  save returns a record; no other property of the names or of the data is needed.\<close>

theorem save_into_free_address:
  assumes "save_names_of args = Inr n" "adapter_ok ad pre" "hex64 sha"
    and "sv_media_type args \<noteq> []" "sha256_digest (sv_config_hash args)"
    and "dict_get st (ad_bucket_name ad, allowed_prefix ad @ ''/'' @ object_name_of n (sha256_of sha (sv_data args))) = None"
  shows "\<exists>rec st'. save_artifact memory_client sha fromiso now ad args st = (Inr rec, st')"
  using memory_save_ok [OF assms(1,2) _ assms(3-5), of st fromiso now] assms(6) by (simp add: slash_def)

lemma save_into_free_address_witness:
  "\<exists>rec st'. save_artifact memory_client toy_sha (\<lambda>_. None) 5 sample_ad (sample_save ''x'') [] = (Inr rec, st')"
  by (rule save_into_free_address [OF sample_names sample_adapter_ok hex64_toy_sha]) (simp_all add: sample_save_def)

end
