(* ===== verification/ValidationDomain.thy ===== *)
theory ValidationDomain
  imports PyCsv PyRegex RegistryAddresses
begin

text \<open>
  The contracts the validation gates exchange: \<open>src/app/domain/validation_gates.py\<close>,
  \<open>src/app/domain/leakage.py\<close> and, of \<open>src/app/domain/synthetic.py\<close>, the fields of a synthetic
  report its consumers read. Free-text notes of gates and findings are not kept; the notes of a
  metric, which carry hashes and scopes, are. A report field of type \<open>float\<close> is a value of the
  abstract type of floats.

  Last, what a builder of an artifact is given from outside: the storage client and the adapters,
  SHA-256, the clock, fresh identifiers and the decoding of bytes.
\<close>

section \<open>Gates (domain/validation_gates.py)\<close>

definition DCR_FORMULA :: string where
  "DCR_FORMULA = ''DCR(x_synth) = min_{x_real in D_real} distance(x_synth, x_real)''"

datatype gate_type =
    SCHEMA_VALIDATION | BUSINESS_RULES | PRIVACY_CHECK | SPLIT_LEAKAGE_CHECK | SYNTHETIC_DCR_CHECK
  | SYNTHETIC_EXACT_DUPLICATE_TO_REAL | SYNTHETIC_NEAREST_NEIGHBOR_PRIVACY
  | SYNTHETIC_DISTRIBUTION_SIMILARITY | SYNTHETIC_CORRELATION_PRESERVATION
  | SYNTHETIC_MISSINGNESS_COMPARISON | SYNTHETIC_TSTR | SYNTHETIC_TRTS | SYNTHETIC_SHAP_CONSISTENCY
  | SYNTHETIC_TABSYNDEX | RAW_ARTIFACT_IMMUTABILITY

fun gate_type_value :: "gate_type \<Rightarrow> string" where
  "gate_type_value SCHEMA_VALIDATION = ''schema_validation''"
| "gate_type_value BUSINESS_RULES = ''business_rules''"
| "gate_type_value PRIVACY_CHECK = ''privacy_check''"
| "gate_type_value SPLIT_LEAKAGE_CHECK = ''split_leakage_check''"
| "gate_type_value SYNTHETIC_DCR_CHECK = ''synthetic_dcr_check''"
| "gate_type_value SYNTHETIC_EXACT_DUPLICATE_TO_REAL = ''synthetic_exact_duplicate_to_real''"
| "gate_type_value SYNTHETIC_NEAREST_NEIGHBOR_PRIVACY = ''synthetic_nearest_neighbor_privacy''"
| "gate_type_value SYNTHETIC_DISTRIBUTION_SIMILARITY = ''synthetic_distribution_similarity''"
| "gate_type_value SYNTHETIC_CORRELATION_PRESERVATION = ''synthetic_correlation_preservation''"
| "gate_type_value SYNTHETIC_MISSINGNESS_COMPARISON = ''synthetic_missingness_comparison''"
| "gate_type_value SYNTHETIC_TSTR = ''synthetic_tstr''"
| "gate_type_value SYNTHETIC_TRTS = ''synthetic_trts''"
| "gate_type_value SYNTHETIC_SHAP_CONSISTENCY = ''synthetic_shap_consistency''"
| "gate_type_value SYNTHETIC_TABSYNDEX = ''synthetic_tabsyndex''"
| "gate_type_value RAW_ARTIFACT_IMMUTABILITY = ''raw_artifact_immutability''"

datatype gate_status = VG_PASSED | VG_FAILED | VG_NOT_APPLICABLE

fun gate_status_value :: "gate_status \<Rightarrow> string" where
  "gate_status_value VG_PASSED = ''passed''"
| "gate_status_value VG_FAILED = ''failed''"
| "gate_status_value VG_NOT_APPLICABLE = ''not_applicable''"

datatype gate_severity = VS_INFO | VS_WARNING | VS_BLOCKER

record 'f gate_finding =
  gf_finding_id :: string
  gf_object_ids :: "string list"
  gf_columns :: "string list"
  gf_metric_name :: "string option"
  gf_metric_value :: "'f option"
  gf_metric_threshold :: "'f option"

record 'f gate_metric =
  gm_name :: string
  gm_value :: "'f option"
  gm_threshold :: "'f option"
  gm_formula :: "string option"
  gm_notes :: "string option"

record 'f gate =
  ga_gate_type :: gate_type
  ga_status :: gate_status
  ga_severity :: gate_severity
  ga_reason_code :: string
  ga_block_action :: "string option"
  ga_findings_count :: int
  ga_pass_rate :: "'f option"
  ga_metrics :: "'f gate_metric list"
  ga_findings :: "'f gate_finding list"
  ga_not_applicable_reason :: "string option"

definition gate_valid :: "'f float_ops \<Rightarrow> 'f gate \<Rightarrow> bool" where
  "gate_valid fl g \<longleftrightarrow>
     non_empty (ga_reason_code g) \<and> opt_ok non_empty (ga_block_action g) \<and> 0 \<le> ga_findings_count g
     \<and> opt_ok (fl_score_ok fl) (ga_pass_rate g)"

datatype candidate_artifact_status = CA_OK | CA_VALIDATION_FAILED | CA_REVIEW_REQUIRED

fun candidate_status_value :: "candidate_artifact_status \<Rightarrow> string" where
  "candidate_status_value CA_OK = ''ok''"
| "candidate_status_value CA_VALIDATION_FAILED = ''validation_failed''"
| "candidate_status_value CA_REVIEW_REQUIRED = ''review_required''"

record gates_lineage =
  gl_action_plan_id :: "string option"
  gl_step_id :: "string option"
  gl_source_dataset_version_id :: string
  gl_candidate_dataset_version_id :: string
  gl_created_by_job_id :: string
  gl_config_hash :: string
  gl_source_artifact :: artifact_ref
  gl_candidate_artifact :: artifact_ref
  gl_split_manifest :: "artifact_ref option"
  gl_split_leakage_report :: "artifact_ref option"
  gl_synthetic_dataset_report :: "artifact_ref option"

record 'f gates_report =
  gr_report_id :: string
  gr_report_schema_version :: string
  gr_dataset_id :: string
  gr_source_dataset_version_id :: string
  gr_candidate_dataset_version_id :: string
  gr_candidate_artifact_kind :: string
  gr_policy_version :: string
  gr_overall_status :: gate_status
  gr_candidate_status :: candidate_artifact_status
  gr_raw_artifact_unchanged :: bool
  gr_block_export :: bool
  gr_block_model_evaluation :: bool
  gr_block_training :: bool
  gr_blocker_present :: bool
  gr_blocker_gate_types :: "gate_type list"
  gr_gates :: "'f gate list"
  gr_lineage :: gates_lineage
  gr_generated_at :: datetime

section \<open>Split leakage (domain/leakage.py)\<close>

datatype leakage_check_type = LC_EXACT_HASH | LC_GROUP_KEY | LC_TARGET_LEAKAGE_CANDIDATE

datatype leakage_check_status = LS_PASSED | LS_FAILED | LS_NOT_APPLICABLE

datatype leakage_severity = LV_INFO | LV_WARNING | LV_BLOCKER

record leakage_finding =
  lf_finding_id :: string
  lf_splits :: "string list"
  lf_object_ids :: "string list"
  lf_group_value :: "string option"
  lf_column :: "string option"

record leakage_check =
  lc_check_type :: leakage_check_type
  lc_status :: leakage_check_status
  lc_severity :: leakage_severity
  lc_reason_code :: string
  lc_block_action :: "string option"
  lc_findings_count :: int
  lc_affected_object_ids :: "string list"
  lc_affected_groups :: "string list"
  lc_affected_columns :: "string list"
  lc_findings :: "leakage_finding list"

record leakage_lineage =
  ll_action_plan_id :: "string option"
  ll_step_id :: "string option"
  ll_source_dataset_version_id :: string
  ll_candidate_dataset_version_id :: string
  ll_created_by_job_id :: string
  ll_config_hash :: string
  ll_source_artifact :: artifact_ref
  ll_split_manifest :: artifact_ref

record 'f leakage_report =
  lr_report_id :: string
  lr_report_schema_version :: string
  lr_dataset_id :: string
  lr_source_dataset_version_id :: string
  lr_candidate_dataset_version_id :: string
  lr_split_manifest_id :: string
  lr_target_column :: string
  lr_policy_version :: string
  lr_leakage_detected :: bool
  lr_leakage_risk_score :: 'f
  lr_block_model_evaluation :: bool
  lr_block_training :: bool
  lr_checks :: "leakage_check list"
  lr_lineage :: leakage_lineage
  lr_generated_at :: datetime

section \<open>Synthetic reports (domain/synthetic.py, the fields read)\<close>

datatype synthetic_method = SMOTE | GAUSSIAN_COPULA

fun synthetic_method_value :: "synthetic_method \<Rightarrow> string" where
  "synthetic_method_value SMOTE = ''smote''"
| "synthetic_method_value GAUSSIAN_COPULA = ''gaussian_copula''"

record 'f synthetic_report =
  sy_method :: synthetic_method
  sy_method_version :: string
  sy_rare_class_label :: "string option"
  sy_source_split :: string
  sy_random_seed :: int
  sy_sampling_strategy :: 'f
  sy_feature_columns :: "string list"
  sy_generated_count :: int
  sy_seed_object_ids :: "string option list"

definition synthetic_report_valid :: "'f float_ops \<Rightarrow> 'f synthetic_report \<Rightarrow> bool" where
  "synthetic_report_valid fl r \<longleftrightarrow>
     non_empty (sy_method_version r) \<and> non_empty (sy_source_split r)
     \<and> fl_score_ok fl (sy_sampling_strategy r) \<and> list_all non_empty (sy_feature_columns r)
     \<and> 0 \<le> sy_generated_count r"

section \<open>The environment of an artifact builder\<close>

text \<open>
  The storage adapter a builder reads from and the one its registry writes through share a client.
  \<open>se_uuid\<close> is the fresh identifier of the call, \<open>se_iso\<close> the ISO rendering of an instant and
  \<open>se_decode\<close> the UTF-8 decoding of stored bytes, None where it raises.
\<close>

record 's builder_env =
  se_client :: "'s s3_client"
  se_sha :: "string \<Rightarrow> string"
  se_fromiso :: "string \<Rightarrow> datetime option"
  se_iso :: "datetime \<Rightarrow> string"
  se_now :: datetime
  se_uuid :: string
  se_decode :: "string \<Rightarrow> string option"
  se_storage :: adapter
  se_registry :: adapter

definition storage_get :: "'s builder_env \<Rightarrow> string \<Rightarrow> 's \<Rightarrow> exn + (string \<times> stored_info)" where
  "storage_get env uri st =
     get (se_client env) (se_sha env) (se_fromiso env) (se_now env) (se_storage env) uri st"

definition registry_save :: "'s builder_env \<Rightarrow> save_args \<Rightarrow> 's \<Rightarrow> (exn + registered_artifact) \<times> 's" where
  "registry_save env args st =
     save_artifact (se_client env) (se_sha env) (se_fromiso env) (se_now env) (se_registry env) args st"

definition bool_text :: "bool \<Rightarrow> string" where
  "bool_text b = (if b then ''true'' else ''false'')"

context s3_laws begin

lemma registry_save_append_only:
  assumes "se_client env = c" "registry_save env args st = (res, st')" "s3_head c st b k = Inr r"
  shows "s3_head c st' b k = Inr r \<and> s3_get c st' b k = s3_get c st b k"
  using save_append_only [of "se_sha env" "se_fromiso env" "se_now env" "se_registry env" args st res st' b k r] assms
  by (simp add: registry_save_def)

end


section \<open>Samples\<close>

definition sample_env :: "mem_state builder_env" where
  "sample_env =
     \<lparr>se_client = memory_client, se_sha = toy_sha, se_fromiso = (\<lambda>_. None), se_iso = (\<lambda>_. ''t''), se_now = 5,
      se_uuid = ''u'', se_decode = Some, se_storage = sample_ad, se_registry = sample_ad\<rparr>"

definition sample_ref :: "string \<Rightarrow> string \<Rightarrow> artifact_ref" where
  "sample_ref name data =
     \<lparr>ar_artifact_id = name, ar_kind = ''csv'', ar_uri = ''s3://bkt/tenants/o/p/d/'' @ name,
      ar_hash = sha256_of toy_sha data, ar_media_type = ''text/csv'', ar_size_bytes = int (length data),
      ar_schema_version = ''v1'',
      ar_lineage = \<lparr>al_parent_version_id = ''v1'', al_job_id = ''j'', al_config_hash = sha256_of toy_sha [],
        al_created_at = 5\<rparr>\<rparr>"

definition sample_object :: "string \<Rightarrow> string \<Rightarrow> (string \<times> string) \<times> mem_object" where
  "sample_object name data =
     ((''bkt'', ''tenants/o/p/d/'' @ name), \<lparr>mo_body = data, mo_content_type = ''text/csv'', mo_metadata = []\<rparr>)"

text \<open>A store with a candidate and a source.\<close>

definition sample_store :: "string \<Rightarrow> string \<Rightarrow> mem_state" where
  "sample_store candidate source = [sample_object ''c'' candidate, sample_object ''s'' source]"

lemma sample_key_uri:
  "key_for_uri sample_ad ''s3://bkt/tenants/o/p/d/c'' = Inr ''tenants/o/p/d/c''"
  "key_for_uri sample_ad ''s3://bkt/tenants/o/p/d/s'' = Inr ''tenants/o/p/d/s''"
  by (simp_all add: key_for_uri_def storage_eval requireR_def)

lemma sha256_of_ne: "sha256_of sha x \<noteq> []"
  by (simp add: sha256_of_def)

lemma sample_bucket: "ad_bucket_name sample_ad = ''bkt''"
  by (simp add: adapter_for_def)

lemma sample_get:
  "\<exists>i. storage_get sample_env (ar_uri (sample_ref ''c'' x)) (sample_store candidate source) = Inr (candidate, i)"
  "\<exists>i. storage_get sample_env (ar_uri (sample_ref ''s'' x)) (sample_store candidate source) = Inr (source, i)"
proof -
  have "s3_uri (uri_for_key sample_ad ''tenants/o/p/d/c'')" "s3_uri (uri_for_key sample_ad ''tenants/o/p/d/s'')"
    by (simp_all add: storage_eval)
  then show "\<exists>i. storage_get sample_env (ar_uri (sample_ref ''c'' x)) (sample_store candidate source) = Inr (candidate, i)"
    "\<exists>i. storage_get sample_env (ar_uri (sample_ref ''s'' x)) (sample_store candidate source) = Inr (source, i)"
    by (simp_all add: storage_get_def sample_env_def sample_ref_def get_def sample_key_uri memory_client_def
        mem_get_def mem_object_at_def sample_store_def sample_object_def sample_bucket read_body_def
        info_from_response_def Let_def result_simps stored_info_valid_def string_metadata_def dict_of_def
        non_empty_def metadata_datetime_def sha256_of_ne)
qed

text \<open>An artifact address below a version of the sample store is well-formed and free.\<close>

definition sample_save_ready :: "save_args \<Rightarrow> bool" where
  "sample_save_ready args \<longleftrightarrow>
     sv_dataset_version_id args = ''cv'' \<and> sv_created_by_job_id args = ''j'' \<and> sv_artifact_format args = ''json''
     \<and> sv_media_type args \<noteq> [] \<and> sv_config_hash args = sha256_of toy_sha []
     \<and> sv_artifact_kind args \<in> {''validation_gates_report'', ''candidate_dataset_version'', ''export_package''}
     \<and> sv_schema_version args = sv_artifact_kind args @ ''.v1''"

lemma sample_address_free:
  "dict_get (sample_store candidate source) (ad_bucket_name sample_ad, allowed_prefix sample_ad @ slash # object_name_of n h) = None"
  by (simp add: sample_store_def sample_object_def object_name_of_def adapter_for_def scope_of_def slash_def
      allowed_prefix_def join_key_def strip_char_def strip_where_def)

lemma sample_kinds_good:
  assumes "k \<in> {''validation_gates_report'', ''candidate_dataset_version'', ''export_package''}"
  shows "good_component k" "good_component (k @ ''.v1'')" "good_component ''json''" "good_component ''cv''" "good_component ''j''"
  using assms by (elim insertE emptyE; simp add: good_component_def component_char_def)+

lemma sample_save_ok:
  assumes "sample_save_ready args"
  shows "\<exists>rec st'. registry_save sample_env args (sample_store candidate source) = (Inr rec, st')"
proof -
  let ?n = "\<lparr>sn_kind = sv_artifact_kind args, sn_format = ''json'', sn_schema = sv_schema_version args,
     sn_version = ''cv'', sn_job = ''j''\<rparr>"
  have n: "save_names_of args = Inr ?n"
    using assms sample_kinds_good [of "sv_artifact_kind args"]
    by (simp add: sample_save_ready_def save_names_of_def good_safe)
  from memory_save_ok [OF n sample_adapter_ok sample_address_free hex64_toy_sha] assms show ?thesis
    by (simp add: registry_save_def sample_env_def sample_save_ready_def)
qed

end
