(* ===== verification/ValidationGates.thy ===== *)
theory ValidationGates
  imports ValidationDomain
begin

text \<open>
  \<open>src/app/plugins/validation/gates.py\<close>: the executor that reads a candidate and its source, runs
  the fifteen gates, aggregates them into a report and saves the report. Reading changes nothing,
  so only the final save returns a new storage state.
\<close>

section \<open>Requests\<close>

definition gates_error :: "string \<Rightarrow> error_code \<Rightarrow> exn" where
  "gates_error reason ec = Raised ''ValidationGatesError'' reason ec 0"

record 'f dcr_thresholds =
  dt_nearest_neighbor_epsilon :: 'f
  dt_minimum_dcr_threshold :: 'f

definition dcr_thresholds_valid :: "'f float_ops \<Rightarrow> 'f dcr_thresholds \<Rightarrow> bool" where
  "dcr_thresholds_valid fl t \<longleftrightarrow>
     fl_le fl (fl_const fl 0) (dt_nearest_neighbor_epsilon t)
     \<and> fl_le fl (fl_const fl 0) (dt_minimum_dcr_threshold t)"

record 'f gates_request =
  gq_dataset_id :: string
  gq_source_dataset_version_id :: string
  gq_candidate_dataset_version_id :: string
  gq_candidate_artifact :: artifact_ref
  gq_source_artifact :: artifact_ref
  gq_candidate_artifact_kind :: string
  gq_schema_columns :: "string list"
  gq_numeric_columns :: "string list"
  gq_business_rules :: "'f business_rule list"
  gq_rules_version :: string
  gq_rules_config_hash :: "string option"
  gq_pii_restricted :: bool
  gq_split_leakage_report :: "'f leakage_report option"
  gq_split_leakage_report_artifact :: "artifact_ref option"
  gq_split_manifest_artifact :: "artifact_ref option"
  gq_synthetic_dataset_report :: "'f synthetic_report option"
  gq_synthetic_dataset_report_artifact :: "artifact_ref option"
  gq_dcr_thresholds :: "'f dcr_thresholds"
  gq_created_by_job_id :: string
  gq_config_hash :: string
  gq_policy_version :: string
  gq_action_plan_id :: "string option"
  gq_step_id :: "string option"
  gq_report_id :: "string option"
  gq_generated_at :: "datetime option"

section \<open>Reading a CSV artifact (_read_csv)\<close>

fun pad_zeros :: "nat \<Rightarrow> string \<Rightarrow> string" where
  "pad_zeros n s = replicate (n - length s) (CHR ''0'') @ s"

definition clean_row :: "string list \<Rightarrow> (string, string option) dict \<Rightarrow> csv_row" where
  "clean_row columns raw =
     dict_of (map (\<lambda>c. (c, case dict_get raw c of Some (Some v) \<Rightarrow> v | _ \<Rightarrow> [])) columns)"

definition with_object_id :: "nat \<Rightarrow> csv_row \<Rightarrow> csv_row" where
  "with_object_id index row =
     (if row_get row ''object_id'' = []
      then dict_set row ''object_id'' (''row_'' @ pad_zeros 6 (str_of_nat index)) else row)"

definition rows_of_records :: "string list \<Rightarrow> string list \<Rightarrow> string list list \<Rightarrow> csv_row list" where
  "rows_of_records header columns records =
     (let records' = filter (\<lambda>r. r \<noteq> []) records in
      map (\<lambda>(i, r). with_object_id i (clean_row columns (dict_row header r)))
        (zip [0..<length records'] records'))"

definition parse_csv :: "string \<Rightarrow> string \<Rightarrow> exn + (csv_row list \<times> string list)" where
  "parse_csv role text =
     (let records = csv_records text;
          header = (case records of [] \<Rightarrow> [] | h # _ \<Rightarrow> h);
          columns = filter (\<lambda>n. n \<noteq> []) header in
      if \<not> fields_fit header then Inl (Other ''Error'')
      else if columns = [] then Inl (gates_error (''empty_'' @ role @ ''_csv'') INVALID_JOB_PAYLOAD)
      else if \<not> list_all fields_fit (tl records) then Inl (Other ''Error'')
      else Inr (rows_of_records header columns (tl records), columns))"

definition read_csv ::
    "'s builder_env \<Rightarrow> artifact_ref \<Rightarrow> string \<Rightarrow> 's \<Rightarrow> exn + (csv_row list \<times> string list)" where
  "read_csv env art role st =
     (case storage_get env (ar_uri art) st of
        Inl e \<Rightarrow> if is_storage_error e
          then Inl (gates_error (role @ ''_artifact_unreadable'') VALIDATION_GATE_FAILED) else Inl e
      | Inr (data, info) \<Rightarrow>
          (case se_decode env data of
             None \<Rightarrow> Inl (Other ''UnicodeDecodeError'')
           | Some text \<Rightarrow> parse_csv role text))"

definition is_synthetic_row :: "csv_row \<Rightarrow> bool" where
  "is_synthetic_row row \<longleftrightarrow> dict_get row ''is_synthetic'' = Some ''1''"

definition split_real_and_synthetic_rows :: "csv_row list \<Rightarrow> csv_row list \<times> csv_row list" where
  "split_real_and_synthetic_rows rows =
     (filter is_synthetic_row rows, filter (\<lambda>r. \<not> is_synthetic_row r) rows)"

definition resolve_dcr_reference_rows ::
    "'s builder_env \<Rightarrow> artifact_ref \<Rightarrow> csv_row list \<Rightarrow> 's \<Rightarrow> exn + (csv_row list \<times> string)" where
  "resolve_dcr_reference_rows env source_artifact candidate_real_rows st =
     bindR (read_csv env source_artifact ''source_dcr_reference'' st) (\<lambda>(source_rows, _).
       let source_real_rows = filter (\<lambda>r. \<not> is_synthetic_row r) source_rows in
       if source_real_rows \<noteq> [] then Inr (source_real_rows, ''source_artifact'')
       else Inr (candidate_real_rows, ''candidate_real_rows_fallback''))"

section \<open>Shared shapes of gates\<close>

definition BLOCK_EXPORT_ACTION :: string where
  "BLOCK_EXPORT_ACTION = ''BLOCK_EXPORT''"

definition BLOCK_MODEL_EVALUATION_ACTION :: string where
  "BLOCK_MODEL_EVALUATION_ACTION = ''BLOCK_MODEL_EVALUATION''"

definition BLOCK_TRAINING_ACTION :: string where
  "BLOCK_TRAINING_ACTION = ''BLOCK_TRAINING''"

text \<open>A \<open>CandidateValidationGate\<close> with its defaults.\<close>

definition gate0 :: "gate_type \<Rightarrow> gate_status \<Rightarrow> gate_severity \<Rightarrow> string \<Rightarrow> 'f gate" where
  "gate0 gate_type status severity reason_code =
     \<lparr>ga_gate_type = gate_type, ga_status = status, ga_severity = severity, ga_reason_code = reason_code,
      ga_block_action = None, ga_findings_count = 0, ga_pass_rate = None, ga_metrics = [],
      ga_findings = [], ga_not_applicable_reason = None\<rparr>"

definition finding0 :: "string \<Rightarrow> string list \<Rightarrow> string list \<Rightarrow> 'f gate_finding" where
  "finding0 finding_id object_ids columns =
     \<lparr>gf_finding_id = finding_id, gf_object_ids = object_ids, gf_columns = columns,
      gf_metric_name = None, gf_metric_value = None, gf_metric_threshold = None\<rparr>"

definition metric0 :: "string \<Rightarrow> 'f option \<Rightarrow> 'f gate_metric" where
  "metric0 name value =
     \<lparr>gm_name = name, gm_value = value, gm_threshold = None, gm_formula = None, gm_notes = None\<rparr>"

definition row_object_ids :: "csv_row \<Rightarrow> string list" where
  "row_object_ids row = (let oid = row_get row ''object_id'' in if oid \<noteq> [] then [oid] else [])"

definition row_label :: "csv_row \<Rightarrow> string" where
  "row_label row = (case dict_get row ''object_id'' of Some v \<Rightarrow> v | None \<Rightarrow> ''row'')"

section \<open>Schema gate\<close>

definition missing_columns :: "string list \<Rightarrow> string list \<Rightarrow> string list" where
  "missing_columns declared actual = sort (remdups (filter (\<lambda>c. c \<notin> set actual) declared))"

text \<open>The two loops: cells of declared numeric columns present in the candidate that are not numbers.\<close>

definition non_numeric_cells ::
    "'f float_ops \<Rightarrow> string list \<Rightarrow> string list \<Rightarrow> csv_row list \<Rightarrow> (string \<times> csv_row) list" where
  "non_numeric_cells fl numeric_columns actual rows =
     concat (map (\<lambda>column.
       map (\<lambda>row. (column, row))
         (filter (\<lambda>row. row_get row column \<noteq> [] \<and> fl_of_str fl (row_get row column) = None) rows))
       (filter (\<lambda>column. column \<in> set actual) numeric_columns))"

definition schema_gate ::
    "'f float_ops \<Rightarrow> 'f gates_request \<Rightarrow> string list \<Rightarrow> csv_row list \<Rightarrow> 'f gate" where
  "schema_gate fl request candidate_columns candidate_rows =
     (let missing = missing_columns (gq_schema_columns request) candidate_columns;
          bad = non_numeric_cells fl (gq_numeric_columns request) candidate_columns candidate_rows in
      if missing \<noteq> [] then
        (gate0 SCHEMA_VALIDATION VG_FAILED VS_BLOCKER ''schema_columns_missing'')
          \<lparr>ga_block_action := Some BLOCK_EXPORT_ACTION, ga_findings_count := int (length missing),
           ga_findings := [finding0 ''schema_missing_columns'' [] missing]\<rparr>
      else if bad \<noteq> [] then
        (gate0 SCHEMA_VALIDATION VG_FAILED VS_WARNING ''non_numeric_values_in_numeric_columns'')
          \<lparr>ga_findings_count := int (length bad),
           ga_findings := map (\<lambda>(column, row).
             finding0 (''non_numeric_'' @ column @ ''_'' @ row_label row) (row_object_ids row) [column])
             (take 5 bad)\<rparr>
      else
        (gate0 SCHEMA_VALIDATION VG_PASSED VS_INFO ''schema_match'')\<lparr>ga_pass_rate := Some (fl_const fl 1)\<rparr>)"

section \<open>Business rules gate\<close>

definition violation_finding :: "rule_violation \<Rightarrow> 'f gate_finding" where
  "violation_finding v =
     finding0
       (''rule_'' @ rv_rule_id v @ ''_'' @ (case rv_object_id v of Some s \<Rightarrow> s | None \<Rightarrow> ''unknown''))
       (case rv_object_id v of Some s \<Rightarrow> [s] | None \<Rightarrow> [])
       (case falsy_none (rv_column v) of Some s \<Rightarrow> [s] | None \<Rightarrow> [])"

definition business_rules_gate ::
    "'f float_ops \<Rightarrow> (string \<Rightarrow> string) \<Rightarrow> 'f gates_request \<Rightarrow> csv_row list \<Rightarrow> exn + 'f gate" where
  "business_rules_gate fl sha request candidate_rows =
     (if gq_business_rules request = [] then
        Inr ((gate0 BUSINESS_RULES VG_NOT_APPLICABLE VS_INFO ''no_business_rules_configured'')
          \<lparr>ga_not_applicable_reason := Some ''no business rules supplied for this candidate''\<rparr>)
      else
        bindR (observe_rows fl (map (\<lambda>row. (row, dict_get row ''object_id'')) candidate_rows)
          (make_evaluator fl sha (gq_business_rules request) (gq_rules_version request)
             (gq_rules_config_hash request) DEFAULT_SAMPLE_LIMIT)) (\<lambda>ev.
        bindR (build_report fl ev) (\<lambda>report.
          let blocker_ids = rr_blocker_candidate_rule_ids report;
              findings_count = sum_list (map rs_violation_count (rr_rules report));
              pass_rate = (if rr_rules report \<noteq> []
                then fl_div fl (fl_sum fl (map rs_pass_rate (rr_rules report)))
                       (fl_of_int fl (int (length (rr_rules report))))
                else fl_const fl 1) in
          validated (gate_valid fl)
            (if findings_count = 0 then
               (gate0 BUSINESS_RULES VG_PASSED VS_INFO ''business_rules_passed'')\<lparr>ga_pass_rate := Some pass_rate\<rparr>
             else
               (gate0 BUSINESS_RULES VG_FAILED (if blocker_ids \<noteq> [] then VS_BLOCKER else VS_WARNING)
                  (if blocker_ids \<noteq> [] then ''business_rule_failure'' else ''business_rule_warning''))
                 \<lparr>ga_block_action := (if blocker_ids \<noteq> [] then Some BLOCK_EXPORT_ACTION else None),
                  ga_findings_count := findings_count, ga_pass_rate := Some pass_rate,
                  ga_findings := map violation_finding (take 10 (rr_sample_violations report))\<rparr>))))"

section \<open>Privacy gate\<close>

text \<open>\<open>_PII_PATTERNS\<close>: email, phone, passport-like.\<close>

definition alnum_ascii :: "char \<Rightarrow> bool" where
  "alnum_ascii c \<longleftrightarrow> is_ascii_upper c \<or> is_ascii_lower c \<or> is_digit c"

definition email_re :: regex where
  "email_re =
     RSeq (RPlus (RChar (\<lambda>c. alnum_ascii c \<or> c \<in> set ''._%+-'')))
       (RSeq (RChar (\<lambda>c. c = CHR 0x40))
         (RSeq (RPlus (RChar (\<lambda>c. alnum_ascii c \<or> c \<in> set ''.-'')))
           (RSeq (RChar (\<lambda>c. c = CHR ''.''))
             (RAtLeast 2 (RChar (\<lambda>c. is_ascii_upper c \<or> is_ascii_lower c))))))"

definition phone_sep :: "char \<Rightarrow> bool" where
  "phone_sep c \<longleftrightarrow> is_space c \<or> c \<in> set ''-()''"

definition phone_re :: regex where
  "phone_re =
     RAlt
       (RSeq (RChar (\<lambda>c. c = CHR ''+'')) (RSeq (RChar is_digit)
         (RSeq (RAtLeast 5 (RChar (\<lambda>c. is_digit c \<or> phone_sep c))) (RChar is_digit))))
       (RSeq (RChar is_digit) (RSeq (RStar (RChar is_digit)) (RSeq (RChar phone_sep)
         (RSeq (RAtLeast 4 (RChar (\<lambda>c. is_digit c \<or> phone_sep c))) (RChar is_digit)))))"

definition passport_re :: regex where
  "passport_re = RSeq (RTimes 4 (RChar is_digit)) (RSeq (RChar is_space) (RTimes 6 (RChar is_digit)))"

definition pii_category :: "string \<Rightarrow> string option" where
  "pii_category v =
     (if re_search email_re v then Some ''email''
      else if re_search phone_re v then Some ''phone''
      else if re_search_word passport_re v then Some ''passport_like''
      else None)"

definition PII_CATEGORIES :: "string list" where
  "PII_CATEGORIES = [''email'', ''phone'', ''passport_like'']"

text \<open>The matched cells in the order of the loops: category, column, row.\<close>

definition pii_cells ::
    "csv_row list \<Rightarrow> string list \<Rightarrow> string list \<Rightarrow> (string \<times> string \<times> csv_row) list" where
  "pii_cells candidate_rows candidate_columns numeric_columns =
     concat (map (\<lambda>row. concat (map (\<lambda>column.
         if column \<in> set numeric_columns \<or> row_get row column = [] then []
         else (case pii_category (row_get row column) of
                 Some category \<Rightarrow> [(category, column, row)] | None \<Rightarrow> []))
       candidate_columns)) candidate_rows)"

definition pii_metrics :: "'f float_ops \<Rightarrow> (string \<times> string \<times> csv_row) list \<Rightarrow> 'f gate_metric list" where
  "pii_metrics fl cells =
     map (\<lambda>name. metric0 name
       (Some (fl_of_int fl (int (length (filter (\<lambda>cell. fst cell = name) cells)))))) PII_CATEGORIES"

definition pii_finding :: "string \<times> string \<times> csv_row \<Rightarrow> 'f gate_finding" where
  "pii_finding cell =
     (case cell of (category, column, row) \<Rightarrow>
        finding0 (''pii_'' @ category @ ''_'' @ row_label row @ ''_'' @ column) (row_object_ids row) [column])"

definition privacy_gate ::
    "'f float_ops \<Rightarrow> csv_row list \<Rightarrow> string list \<Rightarrow> bool \<Rightarrow> string list \<Rightarrow> 'f gate" where
  "privacy_gate fl candidate_rows candidate_columns pii_restricted numeric_columns =
     (let cells = pii_cells candidate_rows candidate_columns numeric_columns in
      if cells = [] then
        (gate0 PRIVACY_CHECK VG_PASSED VS_INFO ''no_pii_detected'')
          \<lparr>ga_pass_rate := Some (fl_const fl 1), ga_metrics := pii_metrics fl cells\<rparr>
      else
        (gate0 PRIVACY_CHECK VG_FAILED (if pii_restricted then VS_BLOCKER else VS_WARNING)
           (if pii_restricted then ''pii_in_restricted_candidate'' else ''pii_detected''))
          \<lparr>ga_block_action := (if pii_restricted then Some BLOCK_EXPORT_ACTION else None),
           ga_findings_count := int (length cells), ga_metrics := pii_metrics fl cells,
           ga_findings := map pii_finding (take 5 cells)\<rparr>)"

section \<open>Split leakage gate\<close>

definition split_leakage_gate :: "'f float_ops \<Rightarrow> 'f leakage_report option \<Rightarrow> 'f gate" where
  "split_leakage_gate fl report =
     (case report of
        None \<Rightarrow>
          (gate0 SPLIT_LEAKAGE_CHECK VG_NOT_APPLICABLE VS_INFO ''split_leakage_report_not_provided'')
            \<lparr>ga_not_applicable_reason := Some ''candidate is not a split-aware artifact''\<rparr>
      | Some r \<Rightarrow>
          if \<not> lr_leakage_detected r then
            (gate0 SPLIT_LEAKAGE_CHECK VG_PASSED VS_INFO ''no_split_leakage'')
              \<lparr>ga_pass_rate := Some (fl_const fl 1)\<rparr>
          else
            let block_action =
                  (if lr_block_training r then Some BLOCK_TRAINING_ACTION
                   else if lr_block_model_evaluation r then Some BLOCK_MODEL_EVALUATION_ACTION else None) in
            (gate0 SPLIT_LEAKAGE_CHECK VG_FAILED (if block_action \<noteq> None then VS_BLOCKER else VS_WARNING)
               ''split_leakage_detected'')
              \<lparr>ga_block_action := block_action,
               ga_findings_count := sum_list (map lc_findings_count (lr_checks r)),
               ga_metrics := [(metric0 ''leakage_risk_score'' (Some (lr_leakage_risk_score r)))
                                \<lparr>gm_threshold := Some (fl_const fl (1 / 2))\<rparr>]\<rparr>)"


section \<open>Synthetic gates\<close>

definition synthetic_not_applicable_gate :: "gate_type \<Rightarrow> string \<Rightarrow> 'f gate" where
  "synthetic_not_applicable_gate t reason =
     (gate0 t VG_NOT_APPLICABLE VS_INFO reason)\<lparr>ga_not_applicable_reason := Some reason\<rparr>"

definition row_vector :: "'f float_ops \<Rightarrow> csv_row \<Rightarrow> string list \<Rightarrow> 'f list" where
  "row_vector fl row feature_columns =
     map (\<lambda>column. case fl_of_str fl (row_get row column) of Some x \<Rightarrow> x | None \<Rightarrow> fl_const fl 0) feature_columns"

definition euclidean :: "'f float_ops \<Rightarrow> 'f list \<Rightarrow> 'f list \<Rightarrow> 'f" where
  "euclidean fl a b =
     (if length a \<noteq> length b then fl_const fl 0
      else fl_sqrt fl (foldl (\<lambda>total (left, right).
        let delta = fl_sub fl left right in fl_add fl total (fl_mul fl delta delta))
        (fl_const fl 0) (zip a b)))"

definition row_signature :: "(string \<Rightarrow> string) \<Rightarrow> csv_row \<Rightarrow> string list \<Rightarrow> string" where
  "row_signature sha row feature_columns =
     sha (dumps (JObj (dict_of (map (\<lambda>column. (column, JStr (row_get row column))) (sort feature_columns)))))"

text \<open>The inner loop over the real vectors, which stops at a distance of zero.\<close>

fun nearest_loop :: "'f float_ops \<Rightarrow> 'f list \<Rightarrow> 'f \<Rightarrow> 'f list list \<Rightarrow> 'f" where
  "nearest_loop fl v nearest [] = nearest"
| "nearest_loop fl v nearest (r # rs) =
     (let distance = euclidean fl v r in
      if fl_lt fl distance nearest
      then (if fl_eq fl distance (fl_const fl 0) then distance else nearest_loop fl v distance rs)
      else nearest_loop fl v nearest rs)"

definition nearest_distance :: "'f float_ops \<Rightarrow> 'f list list \<Rightarrow> 'f list \<Rightarrow> 'f" where
  "nearest_distance fl real_vectors v =
     (let nearest = nearest_loop fl v (fl_inf fl) real_vectors in
      if fl_isinf fl nearest then fl_const fl 0 else nearest)"

record 'f dcr_metrics =
  dm_distances :: "'f list"
  dm_minimum :: 'f
  dm_mean :: 'f
  dm_median :: 'f
  dm_below_epsilon :: int
  dm_real_reference_count :: int
  dm_reference_scope :: string

definition median_of :: "'f float_ops \<Rightarrow> 'f list \<Rightarrow> 'f" where
  "median_of fl distances =
     (let sorted_distances = fl_sorted fl distances;
          midpoint = length sorted_distances div 2 in
      if length sorted_distances mod 2 = 1 then sorted_distances ! midpoint
      else fl_div fl (fl_add fl (sorted_distances ! (midpoint - 1)) (sorted_distances ! midpoint)) (fl_of_int fl 2))"

definition compute_dcr ::
    "'f float_ops \<Rightarrow> csv_row list \<Rightarrow> csv_row list \<Rightarrow> string list \<Rightarrow> string \<Rightarrow> 'f dcr_metrics" where
  "compute_dcr fl synthetic_rows real_rows feature_columns reference_scope =
     (let real_vectors = map (\<lambda>row. row_vector fl row feature_columns) real_rows;
          distances = map (\<lambda>row. nearest_distance fl real_vectors (row_vector fl row feature_columns)) synthetic_rows;
          below = int (length (filter (\<lambda>d. fl_le fl d (fl_const fl (1 / 1000000000))) distances)) in
      if distances = [] then
        \<lparr>dm_distances = [], dm_minimum = fl_const fl 0, dm_mean = fl_const fl 0, dm_median = fl_const fl 0,
         dm_below_epsilon = 0, dm_real_reference_count = int (length real_vectors),
         dm_reference_scope = reference_scope\<rparr>
      else
        \<lparr>dm_distances = distances, dm_minimum = fl_min fl distances,
         dm_mean = fl_div fl (fl_sum fl distances) (fl_of_int fl (int (length distances))),
         dm_median = median_of fl distances, dm_below_epsilon = below,
         dm_real_reference_count = int (length real_vectors), dm_reference_scope = reference_scope\<rparr>)"

definition dcr_base_metrics :: "'f float_ops \<Rightarrow> 'f dcr_metrics \<Rightarrow> 'f dcr_thresholds \<Rightarrow> 'f gate_metric list" where
  "dcr_base_metrics fl metrics thresholds =
     [(metric0 ''dcr_min'' (Some (dm_minimum metrics)))
        \<lparr>gm_threshold := Some (dt_minimum_dcr_threshold thresholds), gm_formula := Some DCR_FORMULA\<rparr>,
      (metric0 ''dcr_mean'' (Some (dm_mean metrics)))\<lparr>gm_formula := Some DCR_FORMULA\<rparr>,
      (metric0 ''dcr_median'' (Some (dm_median metrics)))\<lparr>gm_formula := Some DCR_FORMULA\<rparr>,
      (metric0 ''below_epsilon_count'' (Some (fl_of_int fl (dm_below_epsilon metrics))))
        \<lparr>gm_threshold := Some (fl_const fl 0)\<rparr>,
      (metric0 ''real_reference_count'' (Some (fl_of_int fl (dm_real_reference_count metrics))))
        \<lparr>gm_notes := Some (dm_reference_scope metrics)\<rparr>]"

definition dcr_gate :: "'f float_ops \<Rightarrow> 'f dcr_metrics \<Rightarrow> 'f dcr_thresholds \<Rightarrow> 'f gate" where
  "dcr_gate fl metrics thresholds =
     (if fl_lt fl (dm_minimum metrics) (dt_minimum_dcr_threshold thresholds) \<or> 0 < dm_below_epsilon metrics then
        (gate0 SYNTHETIC_DCR_CHECK VG_FAILED VS_BLOCKER ''dcr_threshold_violated'')
          \<lparr>ga_block_action := Some BLOCK_EXPORT_ACTION, ga_findings_count := max (dm_below_epsilon metrics) 1,
           ga_metrics := dcr_base_metrics fl metrics thresholds\<rparr>
      else
        (gate0 SYNTHETIC_DCR_CHECK VG_PASSED VS_INFO ''dcr_passed'')
          \<lparr>ga_pass_rate := Some (fl_const fl 1), ga_metrics := dcr_base_metrics fl metrics thresholds\<rparr>)"

definition exact_duplicates ::
    "(string \<Rightarrow> string) \<Rightarrow> csv_row list \<Rightarrow> csv_row list \<Rightarrow> string list \<Rightarrow> csv_row list" where
  "exact_duplicates sha synthetic_rows real_rows feature_columns =
     (let real_signatures = set (map (\<lambda>row. row_signature sha row feature_columns) real_rows) in
      filter (\<lambda>row. row_signature sha row feature_columns \<in> real_signatures) synthetic_rows)"

definition synthetic_exact_duplicate_gate ::
    "'f float_ops \<Rightarrow> (string \<Rightarrow> string) \<Rightarrow> csv_row list \<Rightarrow> csv_row list \<Rightarrow> string list \<Rightarrow> 'f gate" where
  "synthetic_exact_duplicate_gate fl sha synthetic_rows real_rows feature_columns =
     (let duplicates = exact_duplicates sha synthetic_rows real_rows feature_columns in
      if duplicates = [] then
        (gate0 SYNTHETIC_EXACT_DUPLICATE_TO_REAL VG_PASSED VS_INFO ''no_exact_duplicate_to_real'')
          \<lparr>ga_pass_rate := Some (fl_const fl 1)\<rparr>
      else
        (gate0 SYNTHETIC_EXACT_DUPLICATE_TO_REAL VG_FAILED VS_BLOCKER ''synthetic_exact_duplicate_to_real'')
          \<lparr>ga_block_action := Some BLOCK_EXPORT_ACTION, ga_findings_count := int (length duplicates),
           ga_findings := map (\<lambda>row. finding0
             (''exact_dup_'' @ (case dict_get row ''object_id'' of Some v \<Rightarrow> v
                | None \<Rightarrow> take 12 (row_signature sha row feature_columns))) (row_object_ids row) [])
             (take 10 duplicates)\<rparr>)"

definition near_neighbours ::
    "'f float_ops \<Rightarrow> 'f dcr_metrics \<Rightarrow> csv_row list \<Rightarrow> 'f dcr_thresholds \<Rightarrow> ('f \<times> csv_row) list" where
  "near_neighbours fl metrics synthetic_rows thresholds =
     filter (\<lambda>dr. fl_le fl (fst dr) (dt_nearest_neighbor_epsilon thresholds))
       (zip (dm_distances metrics) synthetic_rows)"

definition synthetic_nearest_neighbor_privacy_gate ::
    "'f float_ops \<Rightarrow> 'f dcr_metrics \<Rightarrow> csv_row list \<Rightarrow> 'f dcr_thresholds \<Rightarrow> 'f gate" where
  "synthetic_nearest_neighbor_privacy_gate fl metrics synthetic_rows thresholds =
     (let near = near_neighbours fl metrics synthetic_rows thresholds;
          epsilon = dt_nearest_neighbor_epsilon thresholds in
      if near = [] then
        (gate0 SYNTHETIC_NEAREST_NEIGHBOR_PRIVACY VG_PASSED VS_INFO ''nearest_neighbor_privacy_ok'')
          \<lparr>ga_pass_rate := Some (fl_const fl 1), ga_metrics := [metric0 ''nearest_neighbor_epsilon'' (Some epsilon)]\<rparr>
      else
        (gate0 SYNTHETIC_NEAREST_NEIGHBOR_PRIVACY VG_FAILED VS_BLOCKER ''synthetic_too_close_to_real'')
          \<lparr>ga_block_action := Some BLOCK_EXPORT_ACTION, ga_findings_count := int (length near),
           ga_metrics := [metric0 ''nearest_neighbor_epsilon'' (Some epsilon),
             metric0 ''below_epsilon_count'' (Some (fl_of_int fl (int (length near))))],
           ga_findings := map (\<lambda>(distance, row).
             (finding0 (''near_neighbor_'' @ row_label row) (row_object_ids row) [])
               \<lparr>gf_metric_name := Some ''nearest_neighbor_distance'', gf_metric_value := Some distance,
                gf_metric_threshold := Some epsilon\<rparr>) (take 5 near)\<rparr>)"

section \<open>Raw artifact immutability gate\<close>

definition raw_artifact_immutability_gate ::
    "'s builder_env \<Rightarrow> 'f float_ops \<Rightarrow> artifact_ref \<Rightarrow> 's \<Rightarrow> exn + ('f gate \<times> bool)" where
  "raw_artifact_immutability_gate env fl source_artifact st =
     (case storage_get env (ar_uri source_artifact) st of
        Inl e \<Rightarrow>
          if is_storage_error e then
            Inr ((gate0 RAW_ARTIFACT_IMMUTABILITY VG_FAILED VS_BLOCKER ''source_artifact_unreadable'')
                   \<lparr>ga_block_action := Some BLOCK_EXPORT_ACTION, ga_findings_count := 1\<rparr>, False)
          else Inl e
      | Inr (data, info) \<Rightarrow>
          let digest = sha256_of (se_sha env) data in
          if digest \<noteq> ar_hash source_artifact then
            Inr ((gate0 RAW_ARTIFACT_IMMUTABILITY VG_FAILED VS_BLOCKER ''raw_artifact_mutated'')
                   \<lparr>ga_block_action := Some BLOCK_EXPORT_ACTION, ga_findings_count := 1,
                    ga_metrics := [(metric0 ''expected_hash'' None)\<lparr>gm_notes := Some (ar_hash source_artifact)\<rparr>,
                                   (metric0 ''actual_hash'' None)\<lparr>gm_notes := Some digest\<rparr>]\<rparr>, False)
          else
            Inr ((gate0 RAW_ARTIFACT_IMMUTABILITY VG_PASSED VS_INFO ''raw_artifact_unchanged'')
                   \<lparr>ga_pass_rate := Some (fl_const fl 1)\<rparr>, True))"

section \<open>Aggregation\<close>

fun overall_loop :: "bool \<Rightarrow> bool \<Rightarrow> 'f gate list \<Rightarrow> gate_status" where
  "overall_loop saw_failed saw_applicable [] =
     (if \<not> saw_applicable then VG_NOT_APPLICABLE else if saw_failed then VG_FAILED else VG_PASSED)"
| "overall_loop saw_failed saw_applicable (g # gs) =
     (if ga_status g = VG_NOT_APPLICABLE then overall_loop saw_failed saw_applicable gs
      else overall_loop (saw_failed \<or> ga_status g = VG_FAILED) True gs)"

definition overall_status :: "'f gate list \<Rightarrow> gate_status" where
  "overall_status gates = overall_loop False False gates"

definition gate_is_blocking :: "'f gate \<Rightarrow> bool" where
  "gate_is_blocking g \<longleftrightarrow> ga_status g = VG_FAILED \<and> ga_severity g = VS_BLOCKER"

definition blocks_with :: "string \<Rightarrow> 'f gate list \<Rightarrow> bool" where
  "blocks_with action gates \<longleftrightarrow>
     list_ex (\<lambda>g. gate_is_blocking g \<and> ga_block_action g = Some action) gates"

definition blockers_of :: "'f gate list \<Rightarrow> gate_type list" where
  "blockers_of gates = map ga_gate_type (filter gate_is_blocking gates)"

definition candidate_status_of :: "'f gate list \<Rightarrow> bool \<Rightarrow> candidate_artifact_status" where
  "candidate_status_of gates raw_unchanged =
     (let status = (if overall_status gates \<noteq> VG_FAILED \<and> blockers_of gates = [] then CA_OK
                    else if blockers_of gates \<noteq> [] then CA_VALIDATION_FAILED else CA_REVIEW_REQUIRED) in
      if \<not> raw_unchanged then CA_VALIDATION_FAILED else status)"


section \<open>The executor (run_validation_gates)\<close>

text \<open>The feature columns of the distance: the declared numeric ones, unless none is declared.\<close>

definition dcr_feature_columns :: "'f gates_request \<Rightarrow> 'f synthetic_report \<Rightarrow> string list" where
  "dcr_feature_columns request report =
     (let numeric = filter (\<lambda>c. c \<in> set (gq_numeric_columns request)) (sy_feature_columns report) in
      if gq_numeric_columns request \<noteq> [] \<and> numeric \<noteq> [] then numeric else sy_feature_columns report)"

text \<open>The three gates that compare synthetic rows with real ones.\<close>

definition synthetic_gates ::
    "'s builder_env \<Rightarrow> 'f float_ops \<Rightarrow> 'f gates_request \<Rightarrow> csv_row list \<Rightarrow> csv_row list \<Rightarrow> 's
     \<Rightarrow> exn + 'f gate list" where
  "synthetic_gates env fl request synthetic_rows candidate_real_rows st =
     (case gq_synthetic_dataset_report request of
        None \<Rightarrow> Inr (map (\<lambda>t. synthetic_not_applicable_gate t ''synthetic_artifact_not_provided'')
          [SYNTHETIC_DCR_CHECK, SYNTHETIC_EXACT_DUPLICATE_TO_REAL, SYNTHETIC_NEAREST_NEIGHBOR_PRIVACY])
      | Some report \<Rightarrow>
          if synthetic_rows = [] then
            Inr (map (\<lambda>t. synthetic_not_applicable_gate t ''candidate_has_no_synthetic_rows'')
              [SYNTHETIC_DCR_CHECK, SYNTHETIC_EXACT_DUPLICATE_TO_REAL, SYNTHETIC_NEAREST_NEIGHBOR_PRIVACY])
          else
            bindR (resolve_dcr_reference_rows env (gq_source_artifact request) candidate_real_rows st)
              (\<lambda>(reference_rows, reference_scope).
                let feature_columns = dcr_feature_columns request report;
                    metrics = compute_dcr fl synthetic_rows reference_rows feature_columns reference_scope in
                Inr [dcr_gate fl metrics (gq_dcr_thresholds request),
                     synthetic_exact_duplicate_gate fl (se_sha env) synthetic_rows reference_rows feature_columns,
                     synthetic_nearest_neighbor_privacy_gate fl metrics synthetic_rows (gq_dcr_thresholds request)]))"

text \<open>The seven gates whose pipelines do not exist yet.\<close>

definition pending_gates :: "'f gate list" where
  "pending_gates = map (\<lambda>(t, reason). synthetic_not_applicable_gate t reason)
     [(SYNTHETIC_DISTRIBUTION_SIMILARITY, ''distribution_similarity_pipeline_not_available''),
      (SYNTHETIC_CORRELATION_PRESERVATION, ''correlation_preservation_pipeline_not_available''),
      (SYNTHETIC_MISSINGNESS_COMPARISON, ''missingness_comparison_pipeline_not_available''),
      (SYNTHETIC_TSTR, ''model_impact_pipeline_not_available''),
      (SYNTHETIC_TRTS, ''model_impact_pipeline_not_available''),
      (SYNTHETIC_SHAP_CONSISTENCY, ''shap_pipeline_not_available''),
      (SYNTHETIC_TABSYNDEX, ''tabsyndex_pipeline_not_available'')]"

definition run_gates ::
    "'s builder_env \<Rightarrow> 'f float_ops \<Rightarrow> 'f gates_request \<Rightarrow> 's \<Rightarrow> exn + ('f gate list \<times> bool)" where
  "run_gates env fl request st =
     bindR (read_csv env (gq_candidate_artifact request) ''candidate'' st) (\<lambda>(rows, columns).
     bindR (raw_artifact_immutability_gate env fl (gq_source_artifact request) st) (\<lambda>(source_check, raw_unchanged).
     let schema_check = schema_gate fl request columns rows in
     bindR (business_rules_gate fl (se_sha env) request rows) (\<lambda>business_rules_check.
     let privacy_check = privacy_gate fl rows columns (gq_pii_restricted request) (gq_numeric_columns request);
         split_leakage_check = split_leakage_gate fl (gq_split_leakage_report request);
         (synthetic_rows, candidate_real_rows) = split_real_and_synthetic_rows rows in
     bindR (synthetic_gates env fl request synthetic_rows candidate_real_rows st) (\<lambda>synthetic_checks.
     Inr ([schema_check, business_rules_check, privacy_check, split_leakage_check] @ synthetic_checks
          @ pending_gates @ [source_check], raw_unchanged)))))"

definition VALIDATION_GATES_REPORT_KIND :: string where
  "VALIDATION_GATES_REPORT_KIND = ''validation_gates_report''"

definition VALIDATION_GATES_REPORT_SCHEMA_VERSION :: string where
  "VALIDATION_GATES_REPORT_SCHEMA_VERSION = ''validation_gates_report.v1''"

definition gates_report_of ::
    "'s builder_env \<Rightarrow> 'f gates_request \<Rightarrow> 'f gate list \<Rightarrow> bool \<Rightarrow> 'f gates_report" where
  "gates_report_of env request gates raw_unchanged =
     (let candidate_status = candidate_status_of gates raw_unchanged; blockers = blockers_of gates in
      \<lparr>gr_report_id = (case falsy_none (gq_report_id request) of
           Some i \<Rightarrow> i | None \<Rightarrow> ''validation_gates_report_'' @ se_uuid env),
       gr_report_schema_version = VALIDATION_GATES_REPORT_SCHEMA_VERSION,
       gr_dataset_id = gq_dataset_id request,
       gr_source_dataset_version_id = gq_source_dataset_version_id request,
       gr_candidate_dataset_version_id = gq_candidate_dataset_version_id request,
       gr_candidate_artifact_kind = gq_candidate_artifact_kind request,
       gr_policy_version = gq_policy_version request,
       gr_overall_status = overall_status gates,
       gr_candidate_status = candidate_status,
       gr_raw_artifact_unchanged = raw_unchanged,
       gr_block_export = (blocks_with BLOCK_EXPORT_ACTION gates \<or> candidate_status = CA_VALIDATION_FAILED),
       gr_block_model_evaluation = blocks_with BLOCK_MODEL_EVALUATION_ACTION gates,
       gr_block_training = blocks_with BLOCK_TRAINING_ACTION gates,
       gr_blocker_present = (blockers \<noteq> []),
       gr_blocker_gate_types = blockers,
       gr_gates = gates,
       gr_lineage =
         \<lparr>gl_action_plan_id = gq_action_plan_id request, gl_step_id = gq_step_id request,
          gl_source_dataset_version_id = gq_source_dataset_version_id request,
          gl_candidate_dataset_version_id = gq_candidate_dataset_version_id request,
          gl_created_by_job_id = gq_created_by_job_id request, gl_config_hash = gq_config_hash request,
          gl_source_artifact = gq_source_artifact request,
          gl_candidate_artifact = gq_candidate_artifact request,
          gl_split_manifest = gq_split_manifest_artifact request,
          gl_split_leakage_report = gq_split_leakage_report_artifact request,
          gl_synthetic_dataset_report = gq_synthetic_dataset_report_artifact request\<rparr>,
       gr_generated_at = (case gq_generated_at request of Some t \<Rightarrow> t | None \<Rightarrow> se_now env)\<rparr>)"

definition opt_entry :: "string \<Rightarrow> string option \<Rightarrow> metadata" where
  "opt_entry k v = (case v of None \<Rightarrow> [] | Some s \<Rightarrow> [(k, s)])"

definition gates_metadata :: "'s builder_env \<Rightarrow> 'f gates_request \<Rightarrow> 'f gates_report \<Rightarrow> metadata" where
  "gates_metadata env request report =
     [(''candidate-artifact-hash'', ar_hash (gq_candidate_artifact request)),
      (''candidate-artifact-kind'', gq_candidate_artifact_kind request),
      (''source-artifact-hash'', ar_hash (gq_source_artifact request)),
      (''policy-version'', gq_policy_version request),
      (''overall-status'', gate_status_value (gr_overall_status report)),
      (''candidate-status'', candidate_status_value (gr_candidate_status report)),
      (''raw-artifact-unchanged'', bool_text (gr_raw_artifact_unchanged report)),
      (''block-export'', bool_text (gr_block_export report)),
      (''block-model-evaluation'', bool_text (gr_block_model_evaluation report)),
      (''block-training'', bool_text (gr_block_training report))]
     @ opt_entry ''created-at'' (map_option (se_iso env) (gq_generated_at request))
     @ opt_entry ''action-plan-id'' (gq_action_plan_id request)
     @ opt_entry ''step-id'' (gq_step_id request)"

text \<open>\<open>ser\<close> is \<open>_serialize_report\<close>: the indented JSON of the dumped model.\<close>

definition run_validation_gates ::
    "'s builder_env \<Rightarrow> 'f float_ops \<Rightarrow> ('f gates_report \<Rightarrow> string) \<Rightarrow> 'f gates_request \<Rightarrow> 's
     \<Rightarrow> (exn + ('f gates_report \<times> registered_artifact)) \<times> 's" where
  "run_validation_gates env fl ser request st =
     (case run_gates env fl request st of
        Inl e \<Rightarrow> (Inl e, st)
      | Inr (gates, raw_unchanged) \<Rightarrow>
          let report = gates_report_of env request gates raw_unchanged;
              (res, st') = registry_save env
                \<lparr>sv_artifact_kind = VALIDATION_GATES_REPORT_KIND, sv_data = ser report,
                 sv_artifact_format = ''json'', sv_media_type = ''application/json'',
                 sv_schema_version = VALIDATION_GATES_REPORT_SCHEMA_VERSION,
                 sv_dataset_version_id = gq_candidate_dataset_version_id request,
                 sv_created_by_job_id = gq_created_by_job_id request,
                 sv_config_hash = gq_config_hash request,
                 sv_metadata = gates_metadata env request report\<rparr> st in
          (bindR res (\<lambda>artifact. Inr (report, artifact)), st'))"

section \<open>Aggregation lemmas\<close>

lemma overall_loop_iff:
  "overall_loop f a gs =
     (if \<not> a \<and> (\<forall>g \<in> set gs. ga_status g = VG_NOT_APPLICABLE) then VG_NOT_APPLICABLE
      else if f \<and> a \<or> (\<exists>g \<in> set gs. ga_status g = VG_FAILED)
           \<or> f \<and> (\<exists>g \<in> set gs. ga_status g \<noteq> VG_NOT_APPLICABLE) then VG_FAILED else VG_PASSED)"
  by (induction gs arbitrary: f a) auto

lemma overall_failed_iff: "overall_status gs = VG_FAILED \<longleftrightarrow> (\<exists>g \<in> set gs. ga_status g = VG_FAILED)"
  by (auto simp: overall_status_def overall_loop_iff)

lemma blockers_empty_iff: "blockers_of gs = [] \<longleftrightarrow> \<not> (\<exists>g \<in> set gs. gate_is_blocking g)"
  by (auto simp: blockers_of_def filter_empty_conv)

lemma candidate_status_iff:
  "candidate_status_of gs raw = CA_VALIDATION_FAILED \<longleftrightarrow> \<not> raw \<or> (\<exists>g \<in> set gs. gate_is_blocking g)"
  "candidate_status_of gs raw = CA_OK \<longleftrightarrow> raw \<and> (\<forall>g \<in> set gs. ga_status g \<noteq> VG_FAILED)"
  by (auto simp: candidate_status_of_def Let_def blockers_empty_iff overall_failed_iff gate_is_blocking_def)

lemmas gate_shapes = gate0_def schema_gate_def privacy_gate_def split_leakage_gate_def
  synthetic_not_applicable_gate_def dcr_gate_def synthetic_exact_duplicate_gate_def
  synthetic_nearest_neighbor_privacy_gate_def Let_def

lemma run_gates_cases:
  assumes "run_gates env fl request st = Inr (gates, raw)"
  obtains rows columns source_check rules_check synth where
    "read_csv env (gq_candidate_artifact request) ''candidate'' st = Inr (rows, columns)"
    "raw_artifact_immutability_gate env fl (gq_source_artifact request) st = Inr (source_check, raw)"
    "business_rules_gate fl (se_sha env) request rows = Inr rules_check"
    "synthetic_gates env fl request (filter is_synthetic_row rows)
       (filter (\<lambda>r. \<not> is_synthetic_row r) rows) st = Inr synth"
    "gates = [schema_gate fl request columns rows, rules_check,
        privacy_gate fl rows columns (gq_pii_restricted request) (gq_numeric_columns request),
        split_leakage_gate fl (gq_split_leakage_report request)] @ synth @ pending_gates @ [source_check]"
  using assms unfolding run_gates_def split_real_and_synthetic_rows_def
  by (auto simp: result_simps Let_def)

lemma run_report:
  assumes "run_validation_gates env fl ser request st = (Inr (report, art), st')"
  obtains gates raw where "run_gates env fl request st = Inr (gates, raw)"
    "report = gates_report_of env request gates raw"
  using assms by (auto simp: run_validation_gates_def Let_def result_simps split: sum.splits prod.splits)


lemma schema_gate_type: "ga_gate_type (schema_gate fl request columns rows) = SCHEMA_VALIDATION"
  by (simp add: gate_shapes)

lemma business_gate_type:
  "business_rules_gate fl sha request rows = Inr g \<Longrightarrow> ga_gate_type g = BUSINESS_RULES"
  by (auto simp: business_rules_gate_def result_simps Let_def gate0_def split: if_splits)

lemma business_gate_action:
  "business_rules_gate fl sha request rows = Inr g \<Longrightarrow> ga_block_action g \<in> {None, Some BLOCK_EXPORT_ACTION}"
  by (auto simp: business_rules_gate_def result_simps Let_def gate0_def split: if_splits)

lemma privacy_gate_type: "ga_gate_type (privacy_gate fl rows columns restricted numeric) = PRIVACY_CHECK"
  by (simp add: gate_shapes)

lemma leakage_gate_type: "ga_gate_type (split_leakage_gate fl r) = SPLIT_LEAKAGE_CHECK"
  by (simp add: gate_shapes split: option.splits)

lemma synthetic_gate_types:
  assumes "synthetic_gates env fl request srows rrows st = Inr gs"
  shows "map ga_gate_type gs =
      [SYNTHETIC_DCR_CHECK, SYNTHETIC_EXACT_DUPLICATE_TO_REAL, SYNTHETIC_NEAREST_NEIGHBOR_PRIVACY]"
    "\<forall>g \<in> set gs. ga_block_action g \<in> {None, Some BLOCK_EXPORT_ACTION}"
  using assms by (auto simp: synthetic_gates_def result_simps gate_shapes split: option.splits if_splits)

lemma raw_gate_cases:
  assumes "raw_artifact_immutability_gate env fl src st = Inr (g, raw)"
  shows "ga_gate_type g = RAW_ARTIFACT_IMMUTABILITY" "gate_is_blocking g \<longleftrightarrow> \<not> raw"
    "ga_block_action g \<in> {None, Some BLOCK_EXPORT_ACTION}"
    "raw \<longleftrightarrow> (\<exists>data info. storage_get env (ar_uri src) st = Inr (data, info)
                \<and> sha256_of (se_sha env) data = ar_hash src)"
  using assms
  by (auto simp: raw_artifact_immutability_gate_def gate0_def gate_is_blocking_def Let_def
      split: sum.splits if_splits prod.splits)

definition ALL_GATE_TYPES :: "gate_type list" where
  "ALL_GATE_TYPES =
     [SCHEMA_VALIDATION, BUSINESS_RULES, PRIVACY_CHECK, SPLIT_LEAKAGE_CHECK, SYNTHETIC_DCR_CHECK,
      SYNTHETIC_EXACT_DUPLICATE_TO_REAL, SYNTHETIC_NEAREST_NEIGHBOR_PRIVACY,
      SYNTHETIC_DISTRIBUTION_SIMILARITY, SYNTHETIC_CORRELATION_PRESERVATION,
      SYNTHETIC_MISSINGNESS_COMPARISON, SYNTHETIC_TSTR, SYNTHETIC_TRTS, SYNTHETIC_SHAP_CONSISTENCY,
      SYNTHETIC_TABSYNDEX, RAW_ARTIFACT_IMMUTABILITY]"

lemma run_gate_types:
  assumes "run_gates env fl request st = Inr (gates, raw)"
  shows "map ga_gate_type gates = ALL_GATE_TYPES"
  using assms
proof (cases rule: run_gates_cases)
  case (1 rows columns source_check rules_check synth)
  then show ?thesis
    by (simp add: ALL_GATE_TYPES_def pending_gates_def synthetic_not_applicable_gate_def gate0_def
        schema_gate_type business_gate_type [OF 1(3)] privacy_gate_type leakage_gate_type
        synthetic_gate_types(1) [OF 1(4)] raw_gate_cases(1) [OF 1(2)])
qed

lemma run_raw:
  assumes "run_gates env fl request st = Inr (gates, raw)"
  shows "raw \<longleftrightarrow> (\<exists>data info. storage_get env (ar_uri (gq_source_artifact request)) st = Inr (data, info)
                \<and> sha256_of (se_sha env) data = ar_hash (gq_source_artifact request))"
    "\<not> raw \<Longrightarrow> \<exists>g \<in> set gates. ga_gate_type g = RAW_ARTIFACT_IMMUTABILITY \<and> gate_is_blocking g"
proof -
  from assms obtain rows columns source_check rules_check synth where
    raw: "raw_artifact_immutability_gate env fl (gq_source_artifact request) st = Inr (source_check, raw)"
    and g: "gates = [schema_gate fl request columns rows, rules_check,
        privacy_gate fl rows columns (gq_pii_restricted request) (gq_numeric_columns request),
        split_leakage_gate fl (gq_split_leakage_report request)] @ synth @ pending_gates @ [source_check]"
    by (rule run_gates_cases)
  show "raw \<longleftrightarrow> (\<exists>data info. storage_get env (ar_uri (gq_source_artifact request)) st = Inr (data, info)
                \<and> sha256_of (se_sha env) data = ar_hash (gq_source_artifact request))"
    by (rule raw_gate_cases(4) [OF raw])
  show "\<exists>g \<in> set gates. ga_gate_type g = RAW_ARTIFACT_IMMUTABILITY \<and> gate_is_blocking g" if "\<not> raw"
    using raw_gate_cases(1,2) [OF raw] that unfolding g by (intro bexI [of _ source_check]) simp_all
qed

lemma report_flags:
  assumes "report = gates_report_of env request gates raw"
    and "\<not> raw \<longrightarrow> (\<exists>g \<in> set gates. gate_is_blocking g)"
  shows "gr_candidate_status report = CA_VALIDATION_FAILED \<longleftrightarrow> (\<exists>g \<in> set gates. gate_is_blocking g)"
    "gr_candidate_status report = CA_OK \<longleftrightarrow> (\<forall>g \<in> set gates. ga_status g \<noteq> VG_FAILED)"
    "gr_block_export report \<longleftrightarrow> (\<exists>g \<in> set gates. gate_is_blocking g)"
    "gr_blocker_present report \<longleftrightarrow> (\<exists>g \<in> set gates. gate_is_blocking g)"
    "gr_gates report = gates" "gr_raw_artifact_unchanged report = raw"
    "gr_blocker_gate_types report = map ga_gate_type (filter gate_is_blocking gates)"
proof -
  let ?blocked = "\<exists>g \<in> set gates. gate_is_blocking g"
  have fields: "gr_candidate_status report = candidate_status_of gates raw"
    "gr_block_export report \<longleftrightarrow> blocks_with BLOCK_EXPORT_ACTION gates \<or> candidate_status_of gates raw = CA_VALIDATION_FAILED"
    "gr_blocker_present report \<longleftrightarrow> blockers_of gates \<noteq> []"
    "gr_gates report = gates" "gr_raw_artifact_unchanged report = raw" "gr_blocker_gate_types report = blockers_of gates"
    using assms(1) by (simp_all add: gates_report_of_def Let_def)
  have fail: "gate_is_blocking g \<Longrightarrow> ga_status g = VG_FAILED" for g :: "'a gate" by (simp add: gate_is_blocking_def)
  show "gr_candidate_status report = CA_VALIDATION_FAILED \<longleftrightarrow> ?blocked"
    using assms(2) by (auto simp: fields candidate_status_iff)
  show "gr_candidate_status report = CA_OK \<longleftrightarrow> (\<forall>g \<in> set gates. ga_status g \<noteq> VG_FAILED)"
    using assms(2) fail by (auto simp: fields candidate_status_iff)
  show "gr_block_export report \<longleftrightarrow> ?blocked"
    using assms(2) by (auto simp: fields candidate_status_iff blocks_with_def list_ex_iff)
  show "gr_blocker_present report \<longleftrightarrow> ?blocked" by (simp add: fields blockers_empty_iff)
  show "gr_gates report = gates" "gr_raw_artifact_unchanged report = raw" by (simp_all add: fields)
  show "gr_blocker_gate_types report = map ga_gate_type (filter gate_is_blocking gates)"
    by (simp add: fields blockers_of_def)
qed

lemma run_flags:
  assumes "run_validation_gates env fl ser request st = (Inr (report, art), st')"
  obtains gates raw where "run_gates env fl request st = Inr (gates, raw)"
    "report = gates_report_of env request gates raw"
    "\<not> raw \<longrightarrow> (\<exists>g \<in> set gates. gate_is_blocking g)"
proof -
  from assms obtain gates raw where g: "run_gates env fl request st = Inr (gates, raw)"
    "report = gates_report_of env request gates raw" by (rule run_report)
  show ?thesis by (rule that [OF g]) (use run_raw(2) [OF g(1)] in blast)
qed

lemma run_blocking_gate:
  assumes "run_validation_gates env fl ser request st = (Inr (report, art), st')"
    and "\<And>gates raw. run_gates env fl request st = Inr (gates, raw) \<Longrightarrow>
      \<exists>g \<in> set gates. ga_gate_type g = t \<and> gate_is_blocking g"
  shows "t \<in> set (gr_blocker_gate_types report) \<and> gr_candidate_status report = CA_VALIDATION_FAILED
    \<and> gr_block_export report"
proof -
  from assms(1) obtain gates raw where g: "run_gates env fl request st = Inr (gates, raw)"
    "report = gates_report_of env request gates raw"
    "\<not> raw \<longrightarrow> (\<exists>g \<in> set gates. gate_is_blocking g)" by (rule run_flags)
  from assms(2) [OF g(1)] obtain x where "x \<in> set gates" "ga_gate_type x = t" "gate_is_blocking x" by blast
  then show ?thesis using report_flags [OF g(2,3)] by auto
qed

section \<open>What the privacy and duplicate gates see\<close>

lemma pii_cell_found:
  assumes "row \<in> set rows" "column \<in> set columns" "column \<notin> set numeric"
    and "row_get row column = a @ u @ b" "matches email_re u"
  shows "pii_cells rows columns numeric \<noteq> []"
proof -
  have ne: "u \<noteq> []" using assms(5) by (auto simp: email_re_def matches_RSeq_iff RPlus_def elim: matches.cases)
  have "re_search email_re (row_get row column)" using assms(4,5) re_search_iff by blast
  then have "pii_category (row_get row column) = Some ''email''" by (simp add: pii_category_def)
  then have "(''email'', column, row) \<in> set (pii_cells rows columns numeric)" using assms(1-4) ne
    by (auto simp: pii_cells_def intro!: bexI [of _ row] bexI [of _ column])
  then show ?thesis by auto
qed

lemma row_signature_cong:
  assumes "\<And>c. c \<in> set columns \<Longrightarrow> row_get s c = row_get r c"
  shows "row_signature sha s columns = row_signature sha r columns"
proof -
  have "map (\<lambda>c. (c, JStr (row_get s c))) (sort columns) = map (\<lambda>c. (c, JStr (row_get r c))) (sort columns)"
    using assms by simp
  then show ?thesis by (simp only: row_signature_def)
qed

lemma dcr_feature_subset: "set (dcr_feature_columns request report) \<subseteq> set (sy_feature_columns report)"
  by (auto simp: dcr_feature_columns_def Let_def)

lemma synthetic_copy_found:
  assumes "gq_synthetic_dataset_report request = Some report" "s \<in> set srows" "r \<in> set source_rows"
    and "read_csv env (gq_source_artifact request) ''source_dcr_reference'' st = Inr (source_rows, cols)"
    and "\<not> is_synthetic_row r"
    and same: "\<And>c. c \<in> set (sy_feature_columns report) \<Longrightarrow> row_get s c = row_get r c"
    and "synthetic_gates env fl request srows rrows st = Inr gs"
  shows "\<exists>g \<in> set gs. ga_gate_type g = SYNTHETIC_EXACT_DUPLICATE_TO_REAL \<and> gate_is_blocking g"
proof -
  let ?ref = "filter (\<lambda>r. \<not> is_synthetic_row r) source_rows"
  let ?cols = "dcr_feature_columns request report"
  have r: "r \<in> set ?ref" using assms(3,5) by simp
  have "row_signature (se_sha env) s ?cols = row_signature (se_sha env) r ?cols"
    using dcr_feature_subset same by (intro row_signature_cong) blast
  then have "row_signature (se_sha env) s ?cols \<in> (\<lambda>row. row_signature (se_sha env) row ?cols) ` set ?ref"
    using r by (rule image_eqI)
  with assms(2) have dup: "exact_duplicates (se_sha env) srows ?ref ?cols \<noteq> []"
    unfolding exact_duplicates_def Let_def filter_empty_conv set_map by blast
  have ne: "srows \<noteq> []" "?ref \<noteq> []" using assms(2) r by (auto simp del: set_filter)
  have "synthetic_exact_duplicate_gate fl (se_sha env) srows ?ref ?cols \<in> set gs"
    using assms(7) ne(1) by (auto simp: synthetic_gates_def assms(1,4) resolve_dcr_reference_rows_def ne(2) Let_def)
  moreover have "ga_gate_type (synthetic_exact_duplicate_gate fl (se_sha env) srows ?ref ?cols) = SYNTHETIC_EXACT_DUPLICATE_TO_REAL"
    "gate_is_blocking (synthetic_exact_duplicate_gate fl (se_sha env) srows ?ref ?cols)"
    using dup by (simp_all add: synthetic_exact_duplicate_gate_def Let_def gate0_def gate_is_blocking_def)
  ultimately show ?thesis by blast
qed

lemma pending_actions: "\<forall>g \<in> set pending_gates. ga_block_action g = None"
  by (simp add: pending_gates_def gate_shapes)

lemma plain_gate_actions:
  "ga_block_action (schema_gate fl request columns rows) \<in> {None, Some BLOCK_EXPORT_ACTION}"
  "ga_block_action (privacy_gate fl rows columns restricted numeric) \<in> {None, Some BLOCK_EXPORT_ACTION}"
  by (simp_all add: gate_shapes)

lemma leakage_action_dropped:
  assumes "run_gates env fl request st = Inr (gates, raw)"
    and "gq_split_leakage_report request = Some r" "lr_block_training r"
  shows "\<not> blocks_with BLOCK_MODEL_EVALUATION_ACTION gates"
  using assms(1)
proof (cases rule: run_gates_cases)
  case (1 rows columns source_check rules_check synth)
  have other: "x \<in> {None, Some BLOCK_EXPORT_ACTION, Some BLOCK_TRAINING_ACTION} \<Longrightarrow> x \<noteq> Some BLOCK_MODEL_EVALUATION_ACTION" for x
    by (auto simp: BLOCK_EXPORT_ACTION_def BLOCK_MODEL_EVALUATION_ACTION_def BLOCK_TRAINING_ACTION_def)
  have "ga_block_action (split_leakage_gate fl (gq_split_leakage_report request)) \<in> {None, Some BLOCK_TRAINING_ACTION}"
    using assms(2,3) by (simp add: gate_shapes)
  then have "\<forall>g \<in> set gates. ga_block_action g \<in> {None, Some BLOCK_EXPORT_ACTION, Some BLOCK_TRAINING_ACTION}"
    using business_gate_action [OF 1(3)] synthetic_gate_types(2) [OF 1(4)] raw_gate_cases(3) [OF 1(2)]
      plain_gate_actions(1) [of fl request columns rows]
      plain_gate_actions(2) [of fl rows columns "gq_pii_restricted request" "gq_numeric_columns request"]
    unfolding 1(5) set_append list.set ball_Un ball_simps by (simp add: pending_actions) blast
  then show ?thesis using other by (fastforce simp: blocks_with_def list_ex_iff)
qed


section \<open>A sample run\<close>

definition sample_gates_request :: "string \<Rightarrow> string \<Rightarrow> rat gates_request" where
  "sample_gates_request candidate source =
     \<lparr>gq_dataset_id = ''d'', gq_source_dataset_version_id = ''v1'', gq_candidate_dataset_version_id = ''cv'',
      gq_candidate_artifact = sample_ref ''c'' candidate, gq_source_artifact = sample_ref ''s'' source,
      gq_candidate_artifact_kind = ''csv'', gq_schema_columns = [''a''], gq_numeric_columns = [],
      gq_business_rules = [], gq_rules_version = ''v1'', gq_rules_config_hash = None, gq_pii_restricted = True,
      gq_split_leakage_report = None, gq_split_leakage_report_artifact = None, gq_split_manifest_artifact = None,
      gq_synthetic_dataset_report = None, gq_synthetic_dataset_report_artifact = None,
      gq_dcr_thresholds = \<lparr>dt_nearest_neighbor_epsilon = 0, dt_minimum_dcr_threshold = 0\<rparr>,
      gq_created_by_job_id = ''j'', gq_config_hash = sha256_of toy_sha [], gq_policy_version = ''p'',
      gq_action_plan_id = None, gq_step_id = None, gq_report_id = None, gq_generated_at = None\<rparr>"

definition sample_synthetic :: "rat synthetic_report" where
  "sample_synthetic =
     \<lparr>sy_method = SMOTE, sy_method_version = ''1'', sy_rare_class_label = None, sy_source_split = ''train'',
      sy_random_seed = 7, sy_sampling_strategy = 1, sy_feature_columns = [''a''], sy_generated_count = 1,
      sy_seed_object_ids = []\<rparr>"

definition sample_leakage :: "rat leakage_report" where
  "sample_leakage =
     \<lparr>lr_report_id = ''r'', lr_report_schema_version = ''v1'', lr_dataset_id = ''d'',
      lr_source_dataset_version_id = ''v1'', lr_candidate_dataset_version_id = ''cv'', lr_split_manifest_id = ''m'',
      lr_target_column = ''t'', lr_policy_version = ''p'', lr_leakage_detected = True, lr_leakage_risk_score = 1,
      lr_block_model_evaluation = True, lr_block_training = True, lr_checks = [],
      lr_lineage = \<lparr>ll_action_plan_id = None, ll_step_id = None, ll_source_dataset_version_id = ''v1'',
        ll_candidate_dataset_version_id = ''cv'', ll_created_by_job_id = ''j'', ll_config_hash = sha256_of toy_sha [],
        ll_source_artifact = sample_ref ''s'' [], ll_split_manifest = sample_ref ''m'' []\<rparr>,
      lr_generated_at = 5\<rparr>"

definition sample_candidate :: string where
  "sample_candidate = csv_line [''a'', ''is_synthetic''] @ csv_line [''x@ya.io'', ''1''] @ csv_line [''2'', ''0'']"

definition sample_source :: string where
  "sample_source = csv_line [''a''] @ csv_line [''x@ya.io''] @ csv_line [''2'']"

definition sample_request :: "rat gates_request" where
  "sample_request =
     (sample_gates_request sample_candidate sample_source)
       \<lparr>gq_synthetic_dataset_report := Some sample_synthetic, gq_split_leakage_report := Some sample_leakage\<rparr>"

abbreviation sample_run ::
    "(exn + (rat gates_report \<times> registered_artifact)) \<times> mem_state" where
  "sample_run \<equiv> run_validation_gates sample_env rat_floats (\<lambda>_. ''report'') sample_request
     (sample_store sample_candidate sample_source)"

text \<open>What a run with no storage failure needs to return: its gates.\<close>

lemma run_returns:
  assumes "run_gates sample_env fl request (sample_store c s) = Inr (gates, raw)"
    and "gq_candidate_dataset_version_id request = ''cv''" "gq_created_by_job_id request = ''j''"
    and "gq_config_hash request = sha256_of toy_sha []"
  shows "\<exists>report art st'. run_validation_gates sample_env fl ser request (sample_store c s) = (Inr (report, art), st')"
proof -
  let ?args = "\<lparr>sv_artifact_kind = VALIDATION_GATES_REPORT_KIND, sv_data = ser (gates_report_of sample_env request gates raw),
      sv_artifact_format = ''json'', sv_media_type = ''application/json'',
      sv_schema_version = VALIDATION_GATES_REPORT_SCHEMA_VERSION,
      sv_dataset_version_id = gq_candidate_dataset_version_id request,
      sv_created_by_job_id = gq_created_by_job_id request, sv_config_hash = gq_config_hash request,
      sv_metadata = gates_metadata sample_env request (gates_report_of sample_env request gates raw)\<rparr>"
  have "sample_save_ready ?args"
    using assms by (simp add: sample_save_ready_def VALIDATION_GATES_REPORT_KIND_def VALIDATION_GATES_REPORT_SCHEMA_VERSION_def)
  from sample_save_ok [OF this] obtain rec st' where
    "registry_save sample_env ?args (sample_store c s) = (Inr rec, st')" by blast
  then show ?thesis using assms(1) by (simp add: run_validation_gates_def Let_def)
qed

definition sample_candidate_rows :: "csv_row list" where
  "sample_candidate_rows =
     [[(''a'', ''x@ya.io''), (''is_synthetic'', ''1''), (''object_id'', ''row_000000'')],
      [(''a'', ''2''), (''is_synthetic'', ''0''), (''object_id'', ''row_000001'')]]"

definition sample_source_rows :: "csv_row list" where
  "sample_source_rows =
     [[(''a'', ''x@ya.io''), (''object_id'', ''row_000000'')], [(''a'', ''2''), (''object_id'', ''row_000001'')]]"

lemma csv_sample_records:
  "csv_records sample_candidate = [[''a'', ''is_synthetic''], [''x@ya.io'', ''1''], [''2'', ''0'']]"
  "csv_records sample_source = [[''a''], [''x@ya.io''], [''2'']]"
  using csv_records_lines [of "[[''a'', ''is_synthetic''], [''x@ya.io'', ''1''], [''2'', ''0'']]"]
    csv_records_lines [of "[[''a''], [''x@ya.io''], [''2'']]"]
  by (simp_all add: sample_candidate_def sample_source_def)

lemma sample_fields: "fields_fit [''a'', ''is_synthetic'']" "fields_fit [''x@ya.io'', ''1'']" "fields_fit [''2'', ''0'']"
    "fields_fit [''a'']" "fields_fit [''x@ya.io'']" "fields_fit [''2'']"
  by (simp_all add: fields_fit_def field_limit_def)

lemma small_numerals: "str_of_nat 0 = ''0''" "str_of_nat (Suc 0) = ''1''"
  by code_simp+

lemma sample_rows_eval:
  "rows_of_records [''a'', ''is_synthetic''] [''a'', ''is_synthetic''] [[''x@ya.io'', ''1''], [''2'', ''0'']] = sample_candidate_rows"
  "rows_of_records [''a''] [''a''] [[''x@ya.io''], [''2'']] = sample_source_rows"
  by (simp_all add: Let_def rows_of_records_def upt_rec with_object_id_def
      clean_row_def dict_row_def dict_of_def dict_set_def row_get_def digit_def
      sample_candidate_rows_def sample_source_rows_def numeral_eq_Suc small_numerals)

lemma sample_parse:
  "parse_csv role sample_candidate = Inr (sample_candidate_rows, [''a'', ''is_synthetic''])"
  "parse_csv role sample_source = Inr (sample_source_rows, [''a''])"
  unfolding parse_csv_def csv_sample_records
  by (simp_all add: Let_def sample_fields sample_rows_eval)

lemma sample_reads:
  "read_csv sample_env (gq_candidate_artifact sample_request) role (sample_store sample_candidate sample_source)
     = Inr (sample_candidate_rows, [''a'', ''is_synthetic''])"
  "read_csv sample_env (gq_source_artifact sample_request) role (sample_store sample_candidate sample_source)
     = Inr (sample_source_rows, [''a''])"
proof -
  have dec: "se_decode sample_env = Some" by (simp add: sample_env_def)
  show "read_csv sample_env (gq_candidate_artifact sample_request) role (sample_store sample_candidate sample_source)
     = Inr (sample_candidate_rows, [''a'', ''is_synthetic''])"
    using sample_get(1) [of sample_candidate sample_candidate sample_source]
    by (auto simp: read_csv_def sample_request_def sample_gates_request_def dec sample_parse)
  show "read_csv sample_env (gq_source_artifact sample_request) role (sample_store sample_candidate sample_source)
     = Inr (sample_source_rows, [''a''])"
    using sample_get(2) [of sample_source sample_candidate sample_source]
    by (auto simp: read_csv_def sample_request_def sample_gates_request_def dec sample_parse)
qed

lemma sample_gates_run:
  "\<exists>gates raw. run_gates sample_env rat_floats sample_request (sample_store sample_candidate sample_source) = Inr (gates, raw)"
proof -
  have hash: "sha256_of (se_sha sample_env) sample_source = ar_hash (sample_ref ''s'' sample_source)"
    by (simp add: sample_env_def sample_ref_def)
  obtain g raw where "raw_artifact_immutability_gate sample_env rat_floats (gq_source_artifact sample_request)
      (sample_store sample_candidate sample_source) = Inr (g, raw)"
    using sample_get(2) [of sample_source sample_candidate sample_source]
    by (auto simp: raw_artifact_immutability_gate_def Let_def sample_request_def sample_gates_request_def hash)
  moreover obtain g' where "business_rules_gate rat_floats (se_sha sample_env) sample_request sample_candidate_rows = Inr g'"
    by (simp add: business_rules_gate_def sample_request_def sample_gates_request_def)
  moreover have "\<exists>gs. synthetic_gates sample_env rat_floats sample_request (filter is_synthetic_row sample_candidate_rows)
      (filter (\<lambda>r. \<not> is_synthetic_row r) sample_candidate_rows) (sample_store sample_candidate sample_source) = Inr gs"
    using sample_reads(2) [of "''source_dcr_reference''"]
    by (simp add: synthetic_gates_def resolve_dcr_reference_rows_def Let_def split: option.split)
  ultimately show ?thesis
    by (auto simp: run_gates_def sample_reads(1) Let_def split_real_and_synthetic_rows_def)
qed

lemma sample_run_returns: "\<exists>report art st'. sample_run = (Inr (report, art), st')"
proof -
  from sample_gates_run obtain gates raw where
    "run_gates sample_env rat_floats sample_request (sample_store sample_candidate sample_source) = Inr (gates, raw)" by blast
  then show ?thesis by (rule run_returns) (simp_all add: sample_request_def sample_gates_request_def)
qed

section \<open>Properties\<close>

text \<open>C8: The report of a run decides the candidate: its status is VALIDATION_FAILED exactly when some
  gate fails as a blocker, OK exactly when no gate fails at all, and REVIEW_REQUIRED otherwise;
  export is blocked exactly in the first case, and the blocking gates are the ones listed. So REVIEW_REQUIRED never blocks
  the export; the documentation of the module, where a critical violation of a business rule marks the candidate
  \<open>review_required\<close> and blocks it, describes no status the code gives.\<close>

theorem gates_decide_candidate:
  assumes "run_validation_gates env fl ser request st = (Inr (report, art), st')"
  shows "(gr_candidate_status report = CA_VALIDATION_FAILED \<longleftrightarrow> (\<exists>g \<in> set (gr_gates report). gate_is_blocking g))
    \<and> (gr_candidate_status report = CA_OK \<longleftrightarrow> (\<forall>g \<in> set (gr_gates report). ga_status g \<noteq> VG_FAILED))
    \<and> (gr_block_export report \<longleftrightarrow> gr_candidate_status report = CA_VALIDATION_FAILED)
    \<and> (gr_blocker_present report \<longleftrightarrow> gr_candidate_status report = CA_VALIDATION_FAILED)
    \<and> gr_blocker_gate_types report = map ga_gate_type (filter gate_is_blocking (gr_gates report))"
proof -
  from assms obtain gates raw where g: "run_gates env fl request st = Inr (gates, raw)"
    "report = gates_report_of env request gates raw"
    "\<not> raw \<longrightarrow> (\<exists>g \<in> set gates. gate_is_blocking g)" by (rule run_flags)
  from report_flags [OF g(2,3)] show ?thesis by auto
qed

lemma gates_decide_candidate_witness:
  "\<exists>report art st'. sample_run = (Inr (report, art), st')
    \<and> (gr_block_export report \<longleftrightarrow> gr_candidate_status report = CA_VALIDATION_FAILED)"
proof -
  obtain report art st' where r: "sample_run = (Inr (report, art), st')" using sample_run_returns by blast
  from gates_decide_candidate [OF r] r show ?thesis by blast
qed

text \<open>C9: The executor fails closed on its source: the report calls the source unchanged exactly when it
  could be read and its bytes have the recorded digest, and otherwise the candidate has failed
  validation, export is blocked and the immutability gate is among the blockers.\<close>

theorem source_must_be_unchanged:
  assumes "run_validation_gates env fl ser request st = (Inr (report, art), st')"
  shows "(gr_raw_artifact_unchanged report \<longleftrightarrow>
      (\<exists>data info. storage_get env (ar_uri (gq_source_artifact request)) st = Inr (data, info)
         \<and> sha256_of (se_sha env) data = ar_hash (gq_source_artifact request)))
    \<and> (\<not> gr_raw_artifact_unchanged report \<longrightarrow>
         RAW_ARTIFACT_IMMUTABILITY \<in> set (gr_blocker_gate_types report)
         \<and> gr_candidate_status report = CA_VALIDATION_FAILED \<and> gr_block_export report)"
proof -
  from assms obtain gates raw where g: "run_gates env fl request st = Inr (gates, raw)"
    "report = gates_report_of env request gates raw"
    "\<not> raw \<longrightarrow> (\<exists>g \<in> set gates. gate_is_blocking g)" by (rule run_flags)
  have "gr_raw_artifact_unchanged report = raw" using report_flags(6) [OF g(2,3)] .
  moreover have "\<not> raw \<Longrightarrow> RAW_ARTIFACT_IMMUTABILITY \<in> set (gr_blocker_gate_types report)
      \<and> gr_candidate_status report = CA_VALIDATION_FAILED \<and> gr_block_export report"
    using run_blocking_gate [OF assms] run_raw(2) g(1) by (metis Inr_inject prod.inject)
  ultimately show ?thesis using run_raw(1) [OF g(1)] by simp
qed

lemma source_must_be_unchanged_witness:
  "\<exists>report art st'. sample_run = (Inr (report, art), st') \<and> gr_raw_artifact_unchanged report"
proof -
  obtain report art st' where r: "sample_run = (Inr (report, art), st')" using sample_run_returns by blast
  have uri: "ar_uri (gq_source_artifact sample_request) = ar_uri (sample_ref ''s'' sample_source)"
    "sha256_of (se_sha sample_env) sample_source = ar_hash (gq_source_artifact sample_request)"
    by (simp_all add: sample_request_def sample_gates_request_def sample_env_def sample_ref_def)
  from source_must_be_unchanged [OF r] r uri sample_get(2) [of sample_source sample_candidate sample_source]
  show ?thesis by metis
qed

text \<open>No gate is skipped or repeated: every report carries the fifteen gate types once each, in a
  fixed order, those that do not apply included.\<close>

theorem every_gate_reported_once:
  assumes "run_validation_gates env fl ser request st = (Inr (report, art), st')"
  shows "map ga_gate_type (gr_gates report) = ALL_GATE_TYPES \<and> distinct ALL_GATE_TYPES"
proof -
  from assms obtain gates raw where g: "run_gates env fl request st = Inr (gates, raw)"
    "report = gates_report_of env request gates raw"
    "\<not> raw \<longrightarrow> (\<exists>g \<in> set gates. gate_is_blocking g)" by (rule run_flags)
  show ?thesis using run_gate_types [OF g(1)] report_flags(5) [OF g(2,3)] by (simp add: ALL_GATE_TYPES_def)
qed

lemma every_gate_reported_once_witness:
  "\<exists>report art st'. sample_run = (Inr (report, art), st') \<and> length (gr_gates report) = 15"
proof -
  obtain report art st' where r: "sample_run = (Inr (report, art), st')" using sample_run_returns by blast
  have "length (map ga_gate_type (gr_gates report)) = 15"
    using every_gate_reported_once [OF r] by (simp add: ALL_GATE_TYPES_def)
  with r show ?thesis by auto
qed

lemma email_sample: "matches email_re ''x@ya.io''"
proof -
  have "re_search email_re ''x@ya.io''" by code_simp
  have "nullable (foldl (\<lambda>r c. deriv c r) email_re ''x@ya.io'')" by code_simp
  then show ?thesis by (simp add: nullable_iff deriv_iff)
qed

text \<open>C39: An e-mail address anywhere in a restricted candidate blocks it: when a cell of a column that is
  not declared numeric contains, at any position, a substring the e-mail pattern denotes, the
  privacy gate blocks export.\<close>

theorem restricted_email_blocks_export:
  assumes "run_validation_gates env fl ser request st = (Inr (report, art), st')"
    and "read_csv env (gq_candidate_artifact request) ''candidate'' st = Inr (rows, columns)"
    and "gq_pii_restricted request" "row \<in> set rows" "column \<in> set columns"
    and "column \<notin> set (gq_numeric_columns request)"
    and "row_get row column = a @ u @ b" "matches email_re u"
  shows "PRIVACY_CHECK \<in> set (gr_blocker_gate_types report)
    \<and> gr_candidate_status report = CA_VALIDATION_FAILED \<and> gr_block_export report"
proof (rule run_blocking_gate [OF assms(1)])
  fix gates raw assume "run_gates env fl request st = Inr (gates, raw)"
  then obtain rows' columns' where "read_csv env (gq_candidate_artifact request) ''candidate'' st = Inr (rows', columns')"
    "privacy_gate fl rows' columns' (gq_pii_restricted request) (gq_numeric_columns request) \<in> set gates"
    by (rule run_gates_cases) simp
  moreover have "gate_is_blocking (privacy_gate fl rows columns True (gq_numeric_columns request))"
    using pii_cell_found [OF assms(4-8)] by (simp add: gate_shapes gate_is_blocking_def)
  ultimately show "\<exists>g \<in> set gates. ga_gate_type g = PRIVACY_CHECK \<and> gate_is_blocking g"
    using assms(2,3) by (intro bexI [of _ "privacy_gate fl rows columns True (gq_numeric_columns request)"])
      (simp_all add: privacy_gate_type)
qed

lemma restricted_email_blocks_export_witness:
  "\<exists>report art st'. sample_run = (Inr (report, art), st') \<and> PRIVACY_CHECK \<in> set (gr_blocker_gate_types report)"
proof -
  obtain report art st' where r: "sample_run = (Inr (report, art), st')" using sample_run_returns by blast
  have "PRIVACY_CHECK \<in> set (gr_blocker_gate_types report)"
    using restricted_email_blocks_export [OF r sample_reads(1), of "sample_candidate_rows ! 0" "''a''" "[]" "''x@ya.io''" "[]"]
      email_sample
    by (simp add: sample_candidate_rows_def sample_request_def sample_gates_request_def row_get_def)
  with r show ?thesis by blast
qed

text \<open>A synthetic row that copies a real row of the source on every feature column of the synthetic
  report blocks export, whatever the thresholds and the floating-point arithmetic are.\<close>

theorem synthetic_copy_blocks_export:
  assumes "run_validation_gates env fl ser request st = (Inr (report, art), st')"
    and "gq_synthetic_dataset_report request = Some syn"
    and "read_csv env (gq_candidate_artifact request) ''candidate'' st = Inr (rows, columns)"
    and "s \<in> set rows" "is_synthetic_row s"
    and "read_csv env (gq_source_artifact request) ''source_dcr_reference'' st = Inr (source_rows, source_columns)"
    and "r \<in> set source_rows" "\<not> is_synthetic_row r"
    and "\<forall>c \<in> set (sy_feature_columns syn). row_get s c = row_get r c"
  shows "SYNTHETIC_EXACT_DUPLICATE_TO_REAL \<in> set (gr_blocker_gate_types report)
    \<and> gr_candidate_status report = CA_VALIDATION_FAILED \<and> gr_block_export report"
proof (rule run_blocking_gate [OF assms(1)])
  fix gates raw assume "run_gates env fl request st = Inr (gates, raw)"
  then obtain synth where sy: "synthetic_gates env fl request (filter is_synthetic_row rows)
       (filter (\<lambda>r. \<not> is_synthetic_row r) rows) st = Inr synth" "set synth \<subseteq> set gates"
    by (rule run_gates_cases) (use assms(3) in auto)
  have "s \<in> set (filter is_synthetic_row rows)" using assms(4,5) by simp
  from synthetic_copy_found [OF assms(2) this assms(7,6,8) bspec [OF assms(9)] sy(1)] sy(2)
  show "\<exists>g \<in> set gates. ga_gate_type g = SYNTHETIC_EXACT_DUPLICATE_TO_REAL \<and> gate_is_blocking g"
    by blast
qed

lemma synthetic_copy_blocks_export_witness:
  "\<exists>report art st'. sample_run = (Inr (report, art), st')
    \<and> SYNTHETIC_EXACT_DUPLICATE_TO_REAL \<in> set (gr_blocker_gate_types report)"
proof -
  obtain report art st' where r: "sample_run = (Inr (report, art), st')" using sample_run_returns by blast
  have syn: "gq_synthetic_dataset_report sample_request = Some sample_synthetic" by (simp add: sample_request_def)
  have "SYNTHETIC_EXACT_DUPLICATE_TO_REAL \<in> set (gr_blocker_gate_types report)"
    using synthetic_copy_blocks_export [OF r syn sample_reads(1) _ _ sample_reads(2), of "sample_candidate_rows ! 0" "sample_source_rows ! 0"]
    by (simp add: sample_candidate_rows_def sample_source_rows_def sample_synthetic_def is_synthetic_row_def row_get_def)
  with r show ?thesis by blast
qed

text \<open>When the split leakage report blocks both training and model evaluation, the gate keeps the
  first action only: the report of the run never blocks model evaluation then.\<close>

theorem evaluation_block_dropped:
  assumes "run_validation_gates env fl ser request st = (Inr (report, art), st')"
    and "gq_split_leakage_report request = Some r"
    and "lr_block_training r" "lr_block_model_evaluation r"
  shows "\<not> gr_block_model_evaluation report"
proof -
  from assms(1) obtain gates raw where "run_gates env fl request st = Inr (gates, raw)"
    "report = gates_report_of env request gates raw" by (rule run_report)
  then show ?thesis using leakage_action_dropped [OF _ assms(2,3)] by (simp add: gates_report_of_def Let_def)
qed


lemma evaluation_block_dropped_witness:
  "\<exists>report art st'. sample_run = (Inr (report, art), st') \<and> \<not> gr_block_model_evaluation report"
proof -
  obtain report art st' where r: "sample_run = (Inr (report, art), st')" using sample_run_returns by blast
  have "\<not> gr_block_model_evaluation report"
    using evaluation_block_dropped [OF r, of sample_leakage] by (simp add: sample_request_def sample_leakage_def)
  with r show ?thesis by blast
qed


section \<open>The nearest distance\<close>

text \<open>
  Comparisons that order the values in play: a strict weak order (NaN, which is unordered, is what
  this excludes) and an equality compatible with it.
\<close>

definition ordered_floats :: "'f float_ops \<Rightarrow> bool" where
  "ordered_floats fl \<longleftrightarrow>
     (\<forall>x y. fl_lt fl x y \<longrightarrow> \<not> fl_lt fl y x)
     \<and> (\<forall>x y z. fl_lt fl x z \<longrightarrow> fl_lt fl x y \<or> fl_lt fl y z)
     \<and> (\<forall>x y. fl_eq fl x y \<longrightarrow> \<not> fl_lt fl x y \<and> \<not> fl_lt fl y x)"

lemma ordered_asym: "ordered_floats fl \<Longrightarrow> fl_lt fl x y \<Longrightarrow> \<not> fl_lt fl y x"
  unfolding ordered_floats_def by blast

lemma nearest_loop_least:
  assumes ord: "ordered_floats fl" and "\<forall>r \<in> set rs. \<not> fl_lt fl (euclidean fl v r) (fl_const fl 0)"
  shows "(nearest_loop fl v best rs = best \<or> nearest_loop fl v best rs \<in> euclidean fl v ` set rs)
    \<and> \<not> fl_lt fl best (nearest_loop fl v best rs)
    \<and> (\<forall>r \<in> set rs. \<not> fl_lt fl (euclidean fl v r) (nearest_loop fl v best rs))"
  using assms(2)
proof (induction rs arbitrary: best)
  case Nil
  then show ?case using ordered_asym [OF ord, of best best] by auto
next
  case (Cons r rs)
  let ?d = "euclidean fl v r"
  have nt: "fl_lt fl x z \<Longrightarrow> fl_lt fl x y \<or> fl_lt fl y z" for x y z using ord unfolding ordered_floats_def by blast
  have IH: "(nearest_loop fl v b rs = b \<or> nearest_loop fl v b rs \<in> euclidean fl v ` set rs)
    \<and> \<not> fl_lt fl b (nearest_loop fl v b rs)
    \<and> (\<forall>r \<in> set rs. \<not> fl_lt fl (euclidean fl v r) (nearest_loop fl v b rs))" for b
    using Cons by simp
  show ?case
  proof (cases "fl_lt fl ?d best")
    case False
    then have step: "nearest_loop fl v best (r # rs) = nearest_loop fl v best rs" by (simp add: Let_def)
    have "\<not> fl_lt fl ?d (nearest_loop fl v best rs)"
      using nt [of ?d "nearest_loop fl v best rs" best] False IH by blast
    with IH [of best] show ?thesis unfolding step by auto
  next
    case lt: True
    show ?thesis
    proof (cases "fl_eq fl ?d (fl_const fl 0)")
      case True
      then have step: "nearest_loop fl v best (r # rs) = ?d" using lt by (simp add: Let_def)
      have "\<not> fl_lt fl (euclidean fl v r') ?d" if "r' \<in> set (r # rs)" for r'
        using that Cons.prems nt [of "euclidean fl v r'" ?d "fl_const fl 0"] True ord
        unfolding ordered_floats_def by blast
      then show ?thesis unfolding step using ordered_asym [OF ord lt] by auto
    next
      case False
      then have step: "nearest_loop fl v best (r # rs) = nearest_loop fl v ?d rs" using lt by (simp add: Let_def)
      have "\<not> fl_lt fl best (nearest_loop fl v ?d rs)"
        using nt [of best "nearest_loop fl v ?d rs" ?d] ordered_asym [OF ord lt] IH [of ?d] by blast
      with IH [of ?d] show ?thesis unfolding step by auto
    qed
  qed
qed

lemma ordered_rat: "ordered_floats rat_floats"
proof -
  have "x < z \<Longrightarrow> x < y \<or> y < z" for x y z :: rat by linarith
  then show ?thesis by (simp add: ordered_floats_def rat_floats_def)
qed

text \<open>The distance to the closest record is what its name says: whenever the comparisons order the
  distances, none is below zero and all are finite, the loop with its early exit returns one of the
  distances to the real rows and no real row is closer.\<close>

theorem dcr_is_least_distance:
  assumes "ordered_floats fl" "real_vectors \<noteq> []"
    and "\<forall>r \<in> set real_vectors. \<not> fl_lt fl (euclidean fl v r) (fl_const fl 0)
      \<and> fl_lt fl (euclidean fl v r) (fl_inf fl) \<and> \<not> fl_isinf fl (euclidean fl v r)"
  shows "nearest_distance fl real_vectors v \<in> euclidean fl v ` set real_vectors
    \<and> (\<forall>r \<in> set real_vectors. \<not> fl_lt fl (euclidean fl v r) (nearest_distance fl real_vectors v))"
proof -
  let ?n = "nearest_loop fl v (fl_inf fl) real_vectors"
  have l: "(?n = fl_inf fl \<or> ?n \<in> euclidean fl v ` set real_vectors) \<and> \<not> fl_lt fl (fl_inf fl) ?n
    \<and> (\<forall>r \<in> set real_vectors. \<not> fl_lt fl (euclidean fl v r) ?n)"
    using nearest_loop_least [OF assms(1), of real_vectors v "fl_inf fl"] assms(3) by blast
  obtain r where "r \<in> set real_vectors" using assms(2) by (cases real_vectors) auto
  with l assms(3) have mem: "?n \<in> euclidean fl v ` set real_vectors" by metis
  with assms(3) have "\<not> fl_isinf fl ?n" by auto
  with l mem show ?thesis by (simp add: nearest_distance_def)
qed

lemma dcr_is_least_distance_witness:
  "nearest_distance rat_floats [[3], [1], [2]] [1] \<in> euclidean rat_floats [1] ` set [[3], [1], [2]]"
  by (rule conjunct1 [OF dcr_is_least_distance [OF ordered_rat]])
    (simp_all add: rat_floats_def euclidean_def)

end
