(* ===== verification/PyRe.thy ===== *)
theory PyRe
  imports PyStr
begin

text \<open>
  The backtracking matcher of Python's \<open>re\<close>, for the operators the code uses with \<open>search\<close>, \<open>sub\<close>,
  \<open>findall\<close> and \<open>finditer\<close>. A position in a text is the character before it and the rest after it.
  A pattern maps a position to the list of positions where a match may end, in the order the matcher
  tries them (greedy repetition tries the longest first), so that the first element is the match
  Python reports. Zero-width conditions (word boundaries, look-around) are predicates on positions.
\<close>

type_synonym position = "char option \<times> string"

datatype pat =
    PEmpty
  | PChar "char \<Rightarrow> bool"
  | PCond "position \<Rightarrow> bool"
  | PSeq pat pat
  | PAlt pat pat
  | PStar pat

text \<open>\<open>r{n}\<close>, \<open>r{0,n}\<close>, \<open>r{n,}\<close>, \<open>r{m,n}\<close>, \<open>r?\<close> and \<open>r+\<close>.\<close>

fun PTimes :: "nat \<Rightarrow> pat \<Rightarrow> pat" where
  "PTimes 0 r = PEmpty"
| "PTimes (Suc n) r = PSeq r (PTimes n r)"

fun PUpTo :: "nat \<Rightarrow> pat \<Rightarrow> pat" where
  "PUpTo 0 r = PEmpty"
| "PUpTo (Suc n) r = PAlt (PSeq r (PUpTo n r)) PEmpty"

definition PAtLeast :: "nat \<Rightarrow> pat \<Rightarrow> pat" where
  "PAtLeast n r = PSeq (PTimes n r) (PStar r)"

definition PBetween :: "nat \<Rightarrow> nat \<Rightarrow> pat \<Rightarrow> pat" where
  "PBetween m n r = PSeq (PTimes m r) (PUpTo (n - m) r)"

definition POpt :: "pat \<Rightarrow> pat" where
  "POpt r = PAlt r PEmpty"

definition PPlus :: "pat \<Rightarrow> pat" where
  "PPlus r = PSeq r (PStar r)"

text \<open>A repetition only continues after an iteration that consumed something.\<close>

function star_ends :: "(position \<Rightarrow> position list) \<Rightarrow> position \<Rightarrow> position list" where
  "star_ends f p =
     concat (map (\<lambda>q. if length (snd q) < length (snd p) then star_ends f q else []) (f p)) @ [p]"
  by auto
termination
  by (relation "measure (\<lambda>(f, p). length (snd p))") (auto split: if_splits)

declare star_ends.simps [simp del]

fun ends :: "pat \<Rightarrow> position \<Rightarrow> position list" where
  "ends PEmpty p = [p]"
| "ends (PChar c) p = (case snd p of [] \<Rightarrow> [] | x # s \<Rightarrow> if c x then [(Some x, s)] else [])"
| "ends (PCond c) p = (if c p then [p] else [])"
| "ends (PSeq r s) p = concat (map (ends s) (ends r p))"
| "ends (PAlt r s) p = ends r p @ ends s p"
| "ends (PStar r) p = star_ends (ends r) p"

definition first_end :: "pat \<Rightarrow> position \<Rightarrow> position option" where
  "first_end r p = (case ends r p of [] \<Rightarrow> None | q # qs \<Rightarrow> Some q)"

section \<open>search, sub, findall, finditer\<close>

fun searches :: "pat \<Rightarrow> char option \<Rightarrow> string \<Rightarrow> bool" where
  "searches r prev [] = (first_end r (prev, []) \<noteq> None)"
| "searches r prev (c # s) = (first_end r (prev, c # s) \<noteq> None \<or> searches r (Some c) s)"

definition pat_search :: "pat \<Rightarrow> string \<Rightarrow> bool" where
  "pat_search r s = searches r None s"

text \<open>
  One pass from left to right: the text is cut into kept characters (\<open>Inl\<close>) and matches (\<open>Inr\<close>). No
  pattern of the code matches the empty string, so an empty match is passed over.
\<close>

function pieces :: "pat \<Rightarrow> char option \<Rightarrow> string \<Rightarrow> (char + string) list" where
  "pieces r prev [] = []"
| "pieces r prev (c # s) =
     (case first_end r (prev, c # s) of
        Some (prev', rest) \<Rightarrow>
          if length rest < length (c # s)
          then Inr (take (length (c # s) - length rest) (c # s)) # pieces r prev' rest
          else Inl c # pieces r (Some c) s
      | None \<Rightarrow> Inl c # pieces r (Some c) s)"
  by pat_completeness auto
termination
  by (relation "measure (\<lambda>(r, prev, s). length s)") auto

declare pieces.simps(2) [simp del]

definition substituted :: "(string \<Rightarrow> string) \<Rightarrow> char + string \<Rightarrow> string" where
  "substituted f x = (case x of Inl c \<Rightarrow> [c] | Inr m \<Rightarrow> f m)"

definition pat_sub :: "pat \<Rightarrow> string \<Rightarrow> string \<Rightarrow> string" where
  "pat_sub r replacement s = concat (map (substituted (\<lambda>_. replacement)) (pieces r None s))"

definition pat_matches :: "pat \<Rightarrow> string \<Rightarrow> string list" where
  "pat_matches r s = concat (map (\<lambda>x. case x of Inl c \<Rightarrow> [] | Inr m \<Rightarrow> [m]) (pieces r None s))"

section \<open>Character classes and zero-width conditions\<close>

text \<open>\<open>\w\<close> below code point 256.\<close>

definition word_ch :: "char \<Rightarrow> bool" where
  "word_ch c \<longleftrightarrow> is_alpha c \<or> is_digit c \<or> c = CHR ''_''
     \<or> code c \<in> {178, 179, 185, 188, 189, 190}"

definition prev_is :: "(char \<Rightarrow> bool) \<Rightarrow> position \<Rightarrow> bool" where
  "prev_is c p = (case fst p of None \<Rightarrow> False | Some x \<Rightarrow> c x)"

definition next_is :: "(char \<Rightarrow> bool) \<Rightarrow> position \<Rightarrow> bool" where
  "next_is c p = (case snd p of [] \<Rightarrow> False | x # s \<Rightarrow> c x)"

definition word_boundary :: "position \<Rightarrow> bool" where
  "word_boundary p \<longleftrightarrow> prev_is word_ch p \<noteq> next_is word_ch p"

definition PB :: pat where
  "PB = PCond word_boundary"

definition letter :: "char \<Rightarrow> bool" where
  "letter c \<longleftrightarrow> is_ascii_upper c \<or> is_ascii_lower c"

definition in_class :: "string \<Rightarrow> char \<Rightarrow> bool" where
  "in_class cs c \<longleftrightarrow> c \<in> set cs"

text \<open>A literal, and a literal under \<open>re.IGNORECASE\<close>.\<close>

fun PLit :: "string \<Rightarrow> pat" where
  "PLit [] = PEmpty"
| "PLit (c # s) = PSeq (PChar (\<lambda>x. x = c)) (PLit s)"

fun PLitI :: "string \<Rightarrow> pat" where
  "PLitI [] = PEmpty"
| "PLitI (c # s) = PSeq (PChar (\<lambda>x. lower_char x = lower_char c)) (PLitI s)"

fun PAlts :: "pat list \<Rightarrow> pat" where
  "PAlts [] = PCond (\<lambda>_. False)"
| "PAlts [r] = r"
| "PAlts (r # s # rs) = PAlt r (PAlts (s # rs))"

text \<open>\<open>\b[A-Za-z0-9._%+-]+@[A-Za-z0-9.-]+\.[A-Za-z]{2,}\b\<close>.\<close>

definition local_char :: "char \<Rightarrow> bool" where
  "local_char c \<longleftrightarrow> letter c \<or> is_digit c \<or> in_class ''._%+-'' c"

definition domain_char :: "char \<Rightarrow> bool" where
  "domain_char c \<longleftrightarrow> letter c \<or> is_digit c \<or> in_class ''.-'' c"

definition EMAIL_PATTERN :: pat where
  "EMAIL_PATTERN =
     PSeq PB (PSeq (PPlus (PChar local_char)) (PSeq (PChar (\<lambda>c. c = CHR 0x40))
       (PSeq (PPlus (PChar domain_char)) (PSeq (PChar (\<lambda>c. c = CHR ''.''))
         (PSeq (PAtLeast 2 (PChar letter)) PB)))))"

section \<open>What the matcher accepts\<close>

definition last_or :: "char option \<Rightarrow> string \<Rightarrow> char option" where
  "last_or prev u = (if u = [] then prev else Some (last u))"

lemma last_or_simps [simp]:
  "last_or prev [] = prev" "last_or prev (c # u) = last_or (Some c) u"
  "last_or (last_or prev u) v = last_or prev (u @ v)"
  by (simp_all add: last_or_def)

lemma first_end_None_iff: "first_end r p = None \<longleftrightarrow> ends r p = []"
  by (simp add: first_end_def split: list.splits)

lemma first_end_in: "first_end r p = Some q \<Longrightarrow> q \<in> set (ends r p)"
  by (simp add: first_end_def split: list.splits)

lemma ends_PChar: "q \<in> set (ends (PChar c) (prev, s)) \<longleftrightarrow> (\<exists>x v. s = x # v \<and> c x \<and> q = (Some x, v))"
  by (auto split: list.splits)

lemma ends_PSeq: "q \<in> set (ends (PSeq r s) p) \<longleftrightarrow> (\<exists>p' \<in> set (ends r p). q \<in> set (ends s p'))"
  by simp

lemma ends_PCond: "q \<in> set (ends (PCond c) p) \<longleftrightarrow> c p \<and> q = p"
  by auto

lemma ends_PCondSeq: "q \<in> set (ends (PSeq (PCond c) r) p) \<longleftrightarrow> c p \<and> q \<in> set (ends r p)"
  by simp

lemma ends_chars:
  "q \<in> set (ends (PStar (PChar c)) (prev, s))
   \<longleftrightarrow> (\<exists>u v. s = u @ v \<and> list_all c u \<and> q = (last_or prev u, v))"
proof (induction s arbitrary: prev)
  case Nil
  then show ?case by (auto simp: star_ends.simps)
next
  case (Cons x s)
  have step: "q \<in> set (ends (PStar (PChar c)) (prev, x # s))
      \<longleftrightarrow> q = (prev, x # s) \<or> c x \<and> q \<in> set (ends (PStar (PChar c)) (Some x, s))"
    by (auto simp: star_ends.simps [of "ends (PChar c)" "(prev, x # s)"])
  show ?case unfolding step Cons.IH [of "Some x"] by (auto simp: Cons_eq_append_conv)
qed

lemma ends_times:
  "q \<in> set (ends (PTimes n (PChar c)) (prev, s))
   \<longleftrightarrow> (\<exists>u v. s = u @ v \<and> length u = n \<and> list_all c u \<and> q = (last_or prev u, v))"
proof (induction n arbitrary: prev s)
  case (Suc n)
  show ?case unfolding PTimes.simps ends_PSeq
  proof
    assume "\<exists>p' \<in> set (ends (PChar c) (prev, s)). q \<in> set (ends (PTimes n (PChar c)) p')"
    then obtain x w where "s = x # w" "c x" "q \<in> set (ends (PTimes n (PChar c)) (Some x, w))"
      by (auto split: list.splits)
    with Suc.IH [of "Some x" w] obtain u v where "w = u @ v" "length u = n" "list_all c u" "q = (last_or (Some x) u, v)"
      by blast
    with \<open>s = x # w\<close> \<open>c x\<close> show "\<exists>u v. s = u @ v \<and> length u = Suc n \<and> list_all c u \<and> q = (last_or prev u, v)"
      by (intro exI [of _ "x # u"] exI [of _ v]) simp
  next
    assume "\<exists>u v. s = u @ v \<and> length u = Suc n \<and> list_all c u \<and> q = (last_or prev u, v)"
    then obtain x u v where "s = x # u @ v" "length u = n" "c x" "list_all c u" "q = (last_or (Some x) u, v)"
      by (auto simp: length_Suc_conv)
    then have "q \<in> set (ends (PTimes n (PChar c)) (Some x, u @ v))" "(Some x, u @ v) \<in> set (ends (PChar c) (prev, s))"
      using Suc.IH [of "Some x" "u @ v"] by auto
    then show "\<exists>p' \<in> set (ends (PChar c) (prev, s)). q \<in> set (ends (PTimes n (PChar c)) p')" by blast
  qed
qed auto

lemma ends_at_least:
  "q \<in> set (ends (PAtLeast n (PChar c)) (prev, s))
   \<longleftrightarrow> (\<exists>u v. s = u @ v \<and> n \<le> length u \<and> list_all c u \<and> q = (last_or prev u, v))"
proof
  assume "q \<in> set (ends (PAtLeast n (PChar c)) (prev, s))"
  then obtain p' where p: "p' \<in> set (ends (PTimes n (PChar c)) (prev, s))" "q \<in> set (ends (PStar (PChar c)) p')"
    unfolding PAtLeast_def ends_PSeq by blast
  from p(1) obtain u w where u: "s = u @ w" "length u = n" "list_all c u" "p' = (last_or prev u, w)"
    unfolding ends_times by blast
  from p(2) u obtain u' v where "w = u' @ v" "list_all c u'" "q = (last_or (last_or prev u) u', v)"
    unfolding u(4) ends_chars by blast
  with u show "\<exists>u v. s = u @ v \<and> n \<le> length u \<and> list_all c u \<and> q = (last_or prev u, v)"
    by (intro exI [of _ "u @ u'"] exI [of _ v]) simp
next
  assume "\<exists>u v. s = u @ v \<and> n \<le> length u \<and> list_all c u \<and> q = (last_or prev u, v)"
  then obtain u v where u: "s = u @ v" "n \<le> length u" "list_all c u" "q = (last_or prev u, v)" by blast
  let ?p = "(last_or prev (take n u), drop n u @ v)"
  have "?p \<in> set (ends (PTimes n (PChar c)) (prev, s))" unfolding ends_times
    using u by (intro exI [of _ "take n u"] exI [of _ "drop n u @ v"])
      (auto simp: list_all_iff dest: in_set_takeD simp flip: append_assoc)
  moreover have "q \<in> set (ends (PStar (PChar c)) ?p)" unfolding ends_chars
    using u by (intro exI [of _ "drop n u"] exI [of _ v]) (auto simp: list_all_iff dest: in_set_dropD)
  ultimately show "q \<in> set (ends (PAtLeast n (PChar c)) (prev, s))" unfolding PAtLeast_def ends_PSeq by blast
qed

lemma PPlus_at_least: "ends (PPlus (PChar c)) = ends (PAtLeast 1 (PChar c))"
  by (rule ext) (simp add: PPlus_def PAtLeast_def split: list.splits)

section \<open>Tokens\<close>

text \<open>
  A pattern whose matches all contain a character no replacement contains, and none of the brackets
  a replacement is written in, either anywhere (\<open>bnd\<close> False) or between word boundaries. One pass of
  \<open>sub\<close> then leaves no match: every match the new text could hold would lie in a stretch of kept
  characters, and have been a match before.
\<close>

definition bracketed :: "(char \<Rightarrow> bool) \<Rightarrow> string \<Rightarrow> bool" where
  "bracketed mark rep \<longleftrightarrow>
     (\<exists>w. rep = CHR ''['' # w @ [CHR '']'']) \<and> (\<forall>c \<in> set rep. \<not> mark c)"

definition bounded :: "bool \<Rightarrow> position \<Rightarrow> bool" where
  "bounded bnd p \<longleftrightarrow> bnd \<longrightarrow> word_boundary p"

locale token =
  fixes r :: pat and tok :: "string \<Rightarrow> bool" and mark :: "char \<Rightarrow> bool" and bnd :: bool
  assumes ends_iff: "q \<in> set (ends r (prev, s)) \<longleftrightarrow>
      (\<exists>u v. s = u @ v \<and> tok u \<and> q = (last_or prev u, v)
         \<and> bounded bnd (prev, s) \<and> bounded bnd (last_or prev u, v))"
    and tok_mark: "tok u \<Longrightarrow> \<exists>c \<in> set u. mark c"
    and tok_plain: "tok u \<Longrightarrow> CHR ''['' \<notin> set u \<and> CHR '']'' \<notin> set u"
begin

lemma tok_ne: "tok u \<Longrightarrow> u \<noteq> []"
  by (auto dest: tok_mark)

lemma first_end_Some:
  assumes "first_end r (prev, s) = Some (prev', rest)"
  shows "\<exists>u. s = u @ rest \<and> tok u \<and> prev' = last_or prev u \<and> bounded bnd (prev, s) \<and> bounded bnd (prev', rest)"
  using first_end_in [OF assms] unfolding ends_iff by auto

lemma first_end_None:
  "first_end r (prev, u @ v) = None \<Longrightarrow> tok u \<Longrightarrow> bounded bnd (prev, u @ v) \<Longrightarrow> \<not> bounded bnd (last_or prev u, v)"
  unfolding first_end_None_iff using ends_iff [of "(last_or prev u, v)" prev "u @ v"] by auto

definition out :: "string \<Rightarrow> char option \<Rightarrow> string \<Rightarrow> string" where
  "out rep prev s = concat (map (substituted (\<lambda>_. rep)) (pieces r prev s))"

lemma out_Nil: "out rep prev [] = []"
  by (simp add: out_def)

lemma out_kept: "first_end r (prev, c # s) = None \<Longrightarrow> out rep prev (c # s) = c # out rep (Some c) s"
  by (simp add: out_def pieces.simps(2) substituted_def)

lemma out_match:
  assumes "first_end r (prev, s) = Some (prev', rest)"
  shows "out rep prev s = rep @ out rep prev' rest \<and> length rest < length s"
proof -
  from first_end_Some [OF assms] obtain u where "s = u @ rest" "tok u" by blast
  moreover from this tok_ne have "u \<noteq> []" by blast
  ultimately have l: "length rest < length s" by simp
  then obtain c t where s: "s = c # t" by (cases s) auto
  show ?thesis using assms l by (simp add: s out_def pieces.simps(2) substituted_def)
qed

lemma out_cases:
  obtains (empty) "s = []" "out rep prev s = []"
  | (kept) c t where "s = c # t" "first_end r (prev, s) = None" "out rep prev s = c # out rep (Some c) t"
  | (matched) u rest where "s = u @ rest" "tok u" "bounded bnd (prev, s)" "bounded bnd (last_or prev u, rest)"
      "first_end r (prev, s) \<noteq> None" "length rest < length s" "out rep prev s = rep @ out rep (last_or prev u) rest"
proof (cases s)
  case Nil
  then show ?thesis using empty by (simp add: out_Nil)
next
  case (Cons c t)
  show ?thesis
  proof (cases "first_end r (prev, s)")
    case None
    then show ?thesis using kept out_kept Cons by simp
  next
    case (Some q)
    obtain prev' rest where q: "q = (prev', rest)" by (cases q)
    with Some first_end_Some [of prev s prev' rest] obtain u where
      u: "s = u @ rest" "tok u" "prev' = last_or prev u" "bounded bnd (prev, s)" "bounded bnd (prev', rest)" by blast
    from out_match [of prev s prev' rest rep] Some q u show ?thesis
      by (intro matched [of u rest]) simp_all
  qed
qed

text \<open>A stretch of the new text without an opening bracket is a stretch of the old one.\<close>

lemma out_stretch:
  assumes "bracketed m rep" "out rep prev s = u @ v" "CHR ''['' \<notin> set u"
  shows "\<exists>w. s = u @ w \<and> v = out rep (last_or prev u) w"
  using assms(2,3)
proof (induction u arbitrary: prev s)
  case (Cons x u)
  show ?case
  proof (rule out_cases [of s rep prev])
    assume "s = []" "out rep prev s = []" with Cons.prems show ?thesis by simp
  next
    fix c t assume s: "s = c # t" "out rep prev s = c # out rep (Some c) t"
    with Cons.IH [of "Some c" t] Cons.prems show ?thesis by auto
  next
    fix m rest assume "out rep prev s = rep @ out rep (last_or prev m) rest"
    with Cons.prems assms(1) show ?thesis by (auto simp: bracketed_def)
  qed
qed simp

lemma bracket_not_word: "\<not> word_ch (CHR ''['')"
  by code_simp

lemma boundary_before_out:
  assumes "bracketed mark rep" "bounded bnd (p, out rep p w)"
  shows "bounded bnd (p, w)"
proof (rule out_cases [of w rep p])
  fix m rest assume "bounded bnd (p, w)" then show ?thesis .
qed (use assms in \<open>auto simp: bounded_def word_boundary_def next_is_def prev_is_def\<close>)

lemma no_match_kept:
  assumes "bracketed mark rep" "first_end r (prev, s) = None" "p' = prev \<or> bounded bnd (prev, s)"
  shows "first_end r (p', out rep prev s) = None"
proof (rule ccontr)
  assume "first_end r (p', out rep prev s) \<noteq> None"
  then obtain q v where "first_end r (p', out rep prev s) = Some (q, v)" by auto
  from first_end_Some [OF this] obtain u where u: "out rep prev s = u @ v" "tok u"
    "bounded bnd (p', u @ v)" "bounded bnd (last_or p' u, v)" by auto
  from out_stretch [OF assms(1) u(1)] tok_plain [OF u(2)] obtain w where
    w: "s = u @ w" "v = out rep (last_or prev u) w" by blast
  have l: "last_or p' u = last_or prev u" using tok_ne [OF u(2)] by (simp add: last_or_def)
  have "bounded bnd (last_or prev u, w)" using boundary_before_out [OF assms(1)] u(4) w(2) l by simp
  moreover have "next_is P (p', u @ v) = next_is P (prev, u @ w)" for P
    using tok_ne [OF u(2)] by (cases u) (auto simp: next_is_def)
  then have "bounded bnd (prev, u @ w)" using assms(3) u(3) w(1) by (auto simp: bounded_def word_boundary_def prev_is_def)
  ultimately show False using first_end_None [of prev u w] assms(2) w(1) u(2) by simp
qed

lemma no_match_in_rep:
  assumes "\<forall>c \<in> set a. \<not> mark c" shows "first_end r (p', a @ CHR '']'' # x) = None"
proof (rule ccontr)
  assume "first_end r (p', a @ CHR '']'' # x) \<noteq> None"
  then obtain q v where "first_end r (p', a @ CHR '']'' # x) = Some (q, v)" by auto
  from first_end_Some [OF this] obtain u where u: "a @ CHR '']'' # x = u @ v" "tok u" by blast
  from u(1) have "(\<exists>z. a = u @ z) \<or> CHR '']'' \<in> set u" by (auto simp: append_eq_append_conv2 Cons_eq_append_conv)
  with tok_mark [OF u(2)] tok_plain [OF u(2)] assms show False by auto
qed

lemma no_search_rep:
  assumes "\<forall>c \<in> set a. \<not> mark c" "\<not> searches r (Some (CHR '']'')) x"
  shows "\<not> searches r p' (a @ CHR '']'' # x)"
  using assms(1)
proof (induction a arbitrary: p')
  case Nil
  then show ?case using no_match_in_rep [of "[]" p' x] assms(2) by simp
next
  case (Cons c a)
  then show ?case using no_match_in_rep [of "c # a" p' x] by simp
qed

lemma out_no_match:
  assumes "bracketed mark rep" "p' = prev \<or> bounded bnd (prev, s)"
  shows "\<not> searches r p' (out rep prev s)"
  using assms(2)
proof (induction "length s" arbitrary: s prev p' rule: less_induct)
  case less
  show ?case
  proof (rule out_cases [of s rep prev])
    assume s: "s = []" "out rep prev s = []"
    have "first_end r (p', []) = None"
    proof (rule ccontr)
      assume "first_end r (p', []) \<noteq> None"
      then obtain q v where "first_end r (p', []) = Some (q, v)" by auto
      from first_end_Some [OF this] tok_ne show False by auto
    qed
    then show ?thesis unfolding s(2) by simp
  next
    fix c t assume s: "s = c # t" "first_end r (prev, s) = None" "out rep prev s = c # out rep (Some c) t"
    have "first_end r (p', out rep prev s) = None" using no_match_kept [OF assms(1) s(2) less.prems] .
    moreover have "\<not> searches r (Some c) (out rep (Some c) t)" using less.hyps [of t "Some c" "Some c"] s(1) by simp
    ultimately show ?thesis unfolding s(3) by simp
  next
    fix m rest assume s: "bounded bnd (last_or prev m, rest)" "length rest < length s"
      "out rep prev s = rep @ out rep (last_or prev m) rest"
    from assms(1) obtain a where a: "rep = a @ [CHR '']'']" "\<forall>c \<in> set a. \<not> mark c" unfolding bracketed_def by auto
    have "\<not> searches r (Some (CHR '']'')) (out rep (last_or prev m) rest)" using less.hyps [OF s(2), of _ "last_or prev m"] s(1) by simp
    then show ?thesis unfolding s(3) using no_search_rep [OF a(2)] a(1) by simp
  qed
qed

lemma sub_leaves_none: "bracketed mark rep \<Longrightarrow> \<not> pat_search r (pat_sub r rep s)"
  using out_no_match [of rep None None s] by (simp add: pat_search_def pat_sub_def out_def)

lemma sub_nothing: "\<not> searches r prev s \<Longrightarrow> concat (map (substituted f) (pieces r prev s)) = s"
proof (induction s arbitrary: prev)
  case (Cons c s)
  then have "first_end r (prev, c # s) = None" "\<not> searches r (Some c) s" by (simp_all del: not_None_eq)
  with Cons.IH show ?case by (simp add: pieces.simps(2) substituted_def)
qed simp

lemma sub_idem: "bracketed mark rep \<Longrightarrow> pat_sub r rep (pat_sub r rep s) = pat_sub r rep s"
  using sub_nothing [of None "pat_sub r rep s" "\<lambda>_. rep"] sub_leaves_none [of rep s]
  by (simp add: pat_search_def pat_sub_def)

text \<open>Nor does replacing the matches of this pattern create a match of a pattern that may match anywhere.\<close>

lemma out_substring:
  assumes "bracketed m rep" "out rep prev s = a @ u @ b" "CHR ''['' \<notin> set u" "CHR '']'' \<notin> set u" "\<exists>c \<in> set u. m c"
  shows "\<exists>a' b'. s = a' @ u @ b'"
  using assms(2)
proof (induction "length s" arbitrary: s prev a rule: less_induct)
  case less
  show ?case
  proof (rule out_cases [of s rep prev])
    assume "s = []" "out rep prev s = []"
    then show ?thesis using less.prems by simp
  next
    fix c t assume s: "s = c # t" "first_end r (prev, s) = None" "out rep prev s = c # out rep (Some c) t"
    show ?thesis
    proof (cases a)
      case Nil
      then show ?thesis using out_stretch [OF assms(1), of prev s u b] less.prems assms(3) by auto
    next
      case (Cons x a1)
      then have "out rep (Some c) t = a1 @ u @ b" using less.prems s(3) by auto
      then obtain a' b' where "t = a' @ u @ b'" using less.hyps [of t "Some c" a1] s(1) by auto
      then show ?thesis using s(1) by (intro exI [of _ "c # a'"] exI [of _ b']) simp
    qed
  next
    fix m1 rest assume s: "s = m1 @ rest" "length rest < length s" "out rep prev s = rep @ out rep (last_or prev m1) rest"
    from assms(1) obtain w where w: "rep = CHR ''['' # w @ [CHR '']'']" "\<forall>c \<in> set rep. \<not> m c" by (auto simp: bracketed_def)
    from s(3) less.prems have e: "rep @ out rep (last_or prev m1) rest = a @ u @ b" by simp
    have "\<exists>a1. a = rep @ a1"
    proof (rule ccontr)
      assume no: "\<nexists>a1. a = rep @ a1"
      from e obtain z where z: "rep = a @ z" "z @ out rep (last_or prev m1) rest = u @ b"
        using no by (auto simp: append_eq_append_conv2)
      have "z \<noteq> []" using z(1) no by auto
      then have "last z = CHR '']''" using z(1) w(1) by (metis last_ConsR last_appendR append_is_Nil_conv last.simps not_Cons_self2)
      then have z': "CHR '']'' \<in> set z" using \<open>z \<noteq> []\<close> last_in_set by metis
      from z(2) obtain y where "z = u @ y \<or> u = z @ y" by (auto simp: append_eq_append_conv2)
      then show False
      proof
        assume "z = u @ y" then show False using assms(5) w(2) z(1) by auto
      next
        assume "u = z @ y" then show False using assms(4) z' by auto
      qed
    qed
    then obtain a1 where "a = rep @ a1" by blast
    then have "out rep (last_or prev m1) rest = a1 @ u @ b" using e by simp
    then obtain a' b' where "rest = a' @ u @ b'" using less.hyps [OF s(2)] by blast
    then show ?thesis using s(1) by (intro exI [of _ "m1 @ a'"] exI [of _ b']) simp
  qed
qed

end

locale free_token = token r tok mark False for r tok mark
begin

lemma searches_iff: "searches r prev s \<longleftrightarrow> (\<exists>a u b. s = a @ u @ b \<and> tok u)"
proof (induction s arbitrary: prev)
  case Nil
  have "first_end r (prev, []) = None"
    using first_end_Some [of prev "[]"] by (cases "first_end r (prev, [])") (auto dest: tok_ne)
  then show ?case by (auto dest: tok_ne)
next
  case (Cons c s)
  have "first_end r (prev, c # s) \<noteq> None \<longleftrightarrow> (\<exists>u v. c # s = u @ v \<and> tok u)"
  proof
    assume "first_end r (prev, c # s) \<noteq> None"
    then obtain q v where "first_end r (prev, c # s) = Some (q, v)" by auto
    from first_end_Some [OF this] show "\<exists>u v. c # s = u @ v \<and> tok u" by blast
  next
    assume "\<exists>u v. c # s = u @ v \<and> tok u"
    then obtain u v where "c # s = u @ v" "tok u" by blast
    then show "first_end r (prev, c # s) \<noteq> None" using first_end_None [of prev u v] by (auto simp: bounded_def simp del: not_None_eq)
  qed
  moreover have "(\<exists>a u b. c # s = a @ u @ b \<and> tok u) \<longleftrightarrow> (\<exists>u v. c # s = u @ v \<and> tok u) \<or> (\<exists>a u b. s = a @ u @ b \<and> tok u)"
  proof
    assume "\<exists>a u b. c # s = a @ u @ b \<and> tok u"
    then obtain a u b where "c # s = a @ u @ b" "tok u" by blast
    then show "(\<exists>u v. c # s = u @ v \<and> tok u) \<or> (\<exists>a u b. s = a @ u @ b \<and> tok u)" by (cases a) auto
  next
    assume "(\<exists>u v. c # s = u @ v \<and> tok u) \<or> (\<exists>a u b. s = a @ u @ b \<and> tok u)"
    then show "\<exists>a u b. c # s = a @ u @ b \<and> tok u" by (metis append_Cons append_Nil)
  qed
  ultimately show ?case by (simp only: searches.simps Cons.IH)
qed

lemma sub_no_new:
  assumes "token r' tok' mark' bnd'" "bracketed mark rep" "\<not> pat_search r s"
  shows "\<not> pat_search r (pat_sub r' rep s)"
proof
  assume "pat_search r (pat_sub r' rep s)"
  then obtain a u b where u: "pat_sub r' rep s = a @ u @ b" "tok u" unfolding pat_search_def searches_iff by blast
  with token.out_substring [OF assms(1,2), of None s a u b] tok_mark [OF u(2)] tok_plain [OF u(2)]
  obtain a' b' where "s = a' @ u @ b'" by (auto simp: pat_sub_def token.out_def [OF assms(1)])
  with u(2) have "pat_search r s" unfolding pat_search_def searches_iff by blast
  with assms(3) show False by blast
qed

end

section \<open>Patterns without conditions\<close>

text \<open>What such a pattern matches does not depend on the context: \<open>yields\<close> is its language.\<close>

fun cond_free :: "pat \<Rightarrow> bool" where
  "cond_free (PCond c) = False"
| "cond_free (PSeq r s) = (cond_free r \<and> cond_free s)"
| "cond_free (PAlt r s) = (cond_free r \<and> cond_free s)"
| "cond_free (PStar r) = cond_free r"
| "cond_free r = True"

inductive yields :: "pat \<Rightarrow> string \<Rightarrow> bool" where
  yields_empty: "yields PEmpty []"
| yields_char: "c x \<Longrightarrow> yields (PChar c) [x]"
| yields_seq: "yields r u \<Longrightarrow> yields s v \<Longrightarrow> yields (PSeq r s) (u @ v)"
| yields_alt1: "yields r u \<Longrightarrow> yields (PAlt r s) u"
| yields_alt2: "yields s u \<Longrightarrow> yields (PAlt r s) u"
| yields_star0: "yields (PStar r) []"
| yields_star: "yields r u \<Longrightarrow> yields (PStar r) v \<Longrightarrow> yields (PStar r) (u @ v)"

inductive_simps yields_simps: "yields PEmpty u" "yields (PChar c) u" "yields (PSeq r s) u" "yields (PAlt r s) u"

definition consumed :: "(string \<Rightarrow> bool) \<Rightarrow> position \<Rightarrow> position \<Rightarrow> bool" where
  "consumed L p q \<longleftrightarrow> (\<exists>u. snd p = u @ snd q \<and> L u \<and> fst q = last_or (fst p) u)"

lemma star_step:
  "q \<in> set (star_ends f p) \<longleftrightarrow>
     q = p \<or> (\<exists>p' \<in> set (f p). length (snd p') < length (snd p) \<and> q \<in> set (star_ends f p'))"
  by (subst star_ends.simps) (auto split: if_splits)

lemma ends_yields: "cond_free r \<Longrightarrow> q \<in> set (ends r p) \<longleftrightarrow> consumed (yields r) p q"
proof (induction r arbitrary: p q)
  case (PSeq r s)
  have cf: "cond_free r" "cond_free s" using PSeq.prems by simp_all
  show ?case
  proof
    assume "q \<in> set (ends (PSeq r s) p)"
    then obtain p' where "consumed (yields r) p p'" "consumed (yields s) p' q"
      unfolding ends_PSeq PSeq.IH(2) [OF cf(2)] using PSeq.IH(1) [OF cf(1)] by blast
    then show "consumed (yields (PSeq r s)) p q" by (auto simp: consumed_def intro: yields_seq)
  next
    assume "consumed (yields (PSeq r s)) p q"
    then obtain u v where "snd p = u @ v @ snd q" "yields r u" "yields s v" "fst q = last_or (fst p) (u @ v)"
      by (auto simp: consumed_def yields_simps)
    then have "consumed (yields r) p (last_or (fst p) u, v @ snd q)" "consumed (yields s) (last_or (fst p) u, v @ snd q) q"
      by (auto simp: consumed_def)
    then show "q \<in> set (ends (PSeq r s) p)"
      unfolding ends_PSeq PSeq.IH(2) [OF cf(2)] using PSeq.IH(1) [OF cf(1)] by blast
  qed
next
  case (PStar r)
  show ?case
  proof
    assume "q \<in> set (ends (PStar r) p)"
    then show "consumed (yields (PStar r)) p q"
    proof (induction "length (snd p)" arbitrary: p rule: less_induct)
      case less
      from less.prems star_step [of q "ends r" p] consider "q = p"
        | p' where "p' \<in> set (ends r p)" "length (snd p') < length (snd p)" "q \<in> set (ends (PStar r) p')" by auto
      then show ?case
      proof cases
        case 1 then show ?thesis by (auto simp: consumed_def intro: yields_star0)
      next
        case (2 p')
        with PStar less.hyps [of p'] have "consumed (yields r) p p'" "consumed (yields (PStar r)) p' q" by auto
        then show ?thesis by (auto simp: consumed_def intro: yields_star)
      qed
    qed
  next
    assume "consumed (yields (PStar r)) p q"
    then obtain u where "snd p = u @ snd q" "yields (PStar r) u" "fst q = last_or (fst p) u" by (auto simp: consumed_def)
    moreover have "yields r' u \<Longrightarrow> r' = PStar r \<Longrightarrow> snd p = u @ snd q \<Longrightarrow> fst q = last_or (fst p) u
        \<Longrightarrow> q \<in> set (star_ends (ends r) p)" for r' u p
    proof (induction r' u arbitrary: p rule: yields.induct)
      case (yields_star0 r')
      then have "q = p" by (simp add: prod_eq_iff)
      then show ?case using star_step by blast
    next
      case (yields_star r' u v)
      let ?p' = "(last_or (fst p) u, v @ snd q)"
      have rest: "q \<in> set (star_ends (ends r) ?p')" using yields_star by simp
      show ?case
      proof (cases "u = []")
        case True
        with yields_star.prems have "?p' = p" by (simp add: prod_eq_iff)
        with rest show ?thesis by simp
      next
        case False
        have "consumed (yields r) p ?p'" using yields_star by (auto simp: consumed_def)
        then have "?p' \<in> set (ends r p)" using PStar by simp
        then show ?thesis using rest False yields_star.prems star_step [of q "ends r" p] by force
      qed
    qed auto
    ultimately show "q \<in> set (ends (PStar r) p)" by auto
  qed
next
  case (PChar c)
  show ?case by (cases p; cases q) (auto simp: consumed_def yields_simps split: list.splits)
next
  case PEmpty
  show ?case by (cases p; cases q) (auto simp: consumed_def yields_simps)
next
  case (PAlt r s)
  then show ?case by (auto simp: consumed_def yields_simps)
qed simp

text \<open>All characters of a match satisfy what the classes of the pattern satisfy.\<close>

fun classes :: "(char \<Rightarrow> bool) \<Rightarrow> pat \<Rightarrow> bool" where
  "classes P (PChar c) = (\<forall>x. c x \<longrightarrow> P x)"
| "classes P (PSeq r s) = (classes P r \<and> classes P s)"
| "classes P (PAlt r s) = (classes P r \<and> classes P s)"
| "classes P (PStar r) = classes P r"
| "classes P r = True"

lemma yields_classes: "yields r u \<Longrightarrow> classes P r \<Longrightarrow> list_all P u"
  by (induction rule: yields.induct) auto

lemma cond_free_derived [simp]:
  "cond_free (PTimes n r) = (n = 0 \<or> cond_free r)" "cond_free (PAtLeast n r) = cond_free r"
  "cond_free (POpt r) = cond_free r" "cond_free (PPlus r) = cond_free r" "cond_free (PLit s)" "cond_free (PLitI s)"
proof -
  show "cond_free (PTimes n r) = (n = 0 \<or> cond_free r)" for n by (induction n) auto
  then show "cond_free (PAtLeast n r) = cond_free r" by (auto simp: PAtLeast_def)
  show "cond_free (PLit s)" by (induction s) auto
  show "cond_free (PLitI s)" by (induction s) auto
qed (simp_all add: POpt_def PPlus_def)

lemma classes_derived [simp]:
  "classes P (PTimes n r) = (n = 0 \<or> classes P r)" "classes P (PAtLeast n r) = classes P r"
  "classes P (POpt r) = classes P r" "classes P (PPlus r) = classes P r"
  "classes P (PLit s) = list_all P s" "classes P (PLitI s) = list_all (\<lambda>c. \<forall>x. lower_char x = lower_char c \<longrightarrow> P x) s"
proof -
  show "classes P (PTimes n r) = (n = 0 \<or> classes P r)" for n by (induction n) auto
  then show "classes P (PAtLeast n r) = classes P r" by (auto simp: PAtLeast_def)
  show "classes P (PLit s) = list_all P s" by (induction s) auto
  show "classes P (PLitI s) = list_all (\<lambda>c. \<forall>x. lower_char x = lower_char c \<longrightarrow> P x) s" by (induction s) auto
qed (auto simp: POpt_def PPlus_def)

text \<open>The two shapes of token.\<close>

lemma free_tokenI:
  assumes "cond_free r" "\<And>u. yields r u \<Longrightarrow> \<exists>c \<in> set u. mark c"
    and "classes (\<lambda>c. c \<noteq> CHR ''['' \<and> c \<noteq> CHR '']'') r"
  shows "free_token r (yields r) mark"
proof (intro free_token.intro token.intro)
  show "q \<in> set (ends r (prev, s)) \<longleftrightarrow> (\<exists>u v. s = u @ v \<and> yields r u \<and> q = (last_or prev u, v)
      \<and> bounded False (prev, s) \<and> bounded False (last_or prev u, v))" for q prev s
    using ends_yields [OF assms(1), of q "(prev, s)"] by (cases q) (auto simp: consumed_def bounded_def)
  show "yields r u \<Longrightarrow> CHR ''['' \<notin> set u \<and> CHR '']'' \<notin> set u" for u
    using yields_classes [OF _ assms(3)] by (auto simp: list_all_iff)
qed (use assms(2) in blast)

lemma bounded_tokenI:
  assumes "cond_free core" "\<And>p. set (ends r p) = set (ends (PSeq PB (PSeq core PB)) p)"
    and "\<And>u. yields core u \<Longrightarrow> \<exists>c \<in> set u. mark c"
    and "classes (\<lambda>c. c \<noteq> CHR ''['' \<and> c \<noteq> CHR '']'') core"
  shows "token r (yields core) mark True"
proof (intro token.intro)
  show "q \<in> set (ends r (prev, s)) \<longleftrightarrow> (\<exists>u v. s = u @ v \<and> yields core u \<and> q = (last_or prev u, v)
      \<and> bounded True (prev, s) \<and> bounded True (last_or prev u, v))" for q prev s
    unfolding assms(2) using ends_yields [OF assms(1), of q "(prev, s)"]
    by (cases q) (auto simp: PB_def consumed_def bounded_def split: if_splits)
  show "yields core u \<Longrightarrow> CHR ''['' \<notin> set u \<and> CHR '']'' \<notin> set u" for u
    using yields_classes [OF _ assms(4)] by (auto simp: list_all_iff)
qed (use assms(3) in blast)

section \<open>E-mail addresses\<close>

definition email_text :: "string \<Rightarrow> bool" where
  "email_text u \<longleftrightarrow> (\<exists>a b t. u = a @ CHR 0x40 # b @ CHR ''.'' # t
     \<and> a \<noteq> [] \<and> list_all local_char a \<and> b \<noteq> [] \<and> list_all domain_char b \<and> 2 \<le> length t \<and> list_all letter t)"

lemma plus_chars:
  "q \<in> set (ends (PPlus (PChar c)) (prev, s))
   \<longleftrightarrow> (\<exists>u v. s = u @ v \<and> u \<noteq> [] \<and> list_all c u \<and> q = (last_or prev u, v))"
  unfolding PPlus_at_least ends_at_least by (auto simp: Suc_le_eq)

lemma email_ends:
  "q \<in> set (ends EMAIL_PATTERN (prev, s)) \<longleftrightarrow>
    (\<exists>u v. s = u @ v \<and> email_text u \<and> q = (last_or prev u, v)
       \<and> word_boundary (prev, s) \<and> word_boundary (last_or prev u, v))" (is "?l \<longleftrightarrow> ?r")
proof
  assume ?l
  then obtain p1 p2 p3 p4 where p: "word_boundary (prev, s)" "p1 \<in> set (ends (PPlus (PChar local_char)) (prev, s))"
      "p2 \<in> set (ends (PChar (\<lambda>c. c = CHR 0x40)) p1)" "p3 \<in> set (ends (PPlus (PChar domain_char)) p2)"
      "p4 \<in> set (ends (PChar (\<lambda>c. c = CHR ''.'')) p3)" "q \<in> set (ends (PAtLeast 2 (PChar letter)) p4)" "word_boundary q"
    unfolding EMAIL_PATTERN_def PB_def ends_PCondSeq unfolding ends_PSeq ends_PCond by blast
  from p(2) obtain a v1 where a: "s = a @ v1" "a \<noteq> []" "list_all local_char a" "p1 = (last_or prev a, v1)"
    unfolding plus_chars by blast
  from p(3) obtain v2 where v2: "v1 = CHR 0x40 # v2" "p2 = (Some (CHR 0x40), v2)" unfolding a(4) ends_PChar by blast
  from p(4) obtain b v3 where b: "v2 = b @ v3" "b \<noteq> []" "list_all domain_char b" "p3 = (last_or (Some (CHR 0x40)) b, v3)"
    unfolding v2(2) plus_chars by blast
  from p(5) obtain v4 where v4: "v3 = CHR ''.'' # v4" "p4 = (Some (CHR ''.''), v4)" unfolding b(4) ends_PChar by blast
  from p(6) obtain t v where t: "v4 = t @ v" "2 \<le> length t" "list_all letter t" "q = (last_or (Some (CHR ''.'')) t, v)"
    unfolding v4(2) ends_at_least by blast
  have "email_text (a @ CHR 0x40 # b @ CHR ''.'' # t)" unfolding email_text_def
    using a(2,3) b(2,3) t(2,3) by blast
  moreover have "q = (last_or prev (a @ CHR 0x40 # b @ CHR ''.'' # t), v)" using t(2,4) by (auto simp: last_or_def)
  moreover have "s = (a @ CHR 0x40 # b @ CHR ''.'' # t) @ v" using a(1) v2(1) b(1) v4(1) t(1) by simp
  ultimately show ?r using p(1,7) by blast
next
  assume ?r
  then obtain a b t v where s: "s = (a @ CHR 0x40 # b @ CHR ''.'' # t) @ v"
      and abt: "a \<noteq> []" "list_all local_char a" "b \<noteq> []" "list_all domain_char b" "2 \<le> length t" "list_all letter t"
      and q: "q = (last_or prev (a @ CHR 0x40 # b @ CHR ''.'' # t), v)"
      and wb: "word_boundary (prev, s)" "word_boundary q"
    unfolding email_text_def by blast
  have q': "q = (last_or (Some (CHR ''.'')) t, v)" using q abt(5) by (auto simp: last_or_def)
  have "(last_or prev a, CHR 0x40 # b @ CHR ''.'' # t @ v) \<in> set (ends (PPlus (PChar local_char)) (prev, s))"
    unfolding plus_chars using s abt(1,2) by auto
  moreover have "(Some (CHR 0x40), b @ CHR ''.'' # t @ v) \<in> set (ends (PChar (\<lambda>c. c = CHR 0x40)) (last_or prev a, CHR 0x40 # b @ CHR ''.'' # t @ v))"
    unfolding ends_PChar by simp
  moreover have "(last_or (Some (CHR 0x40)) b, CHR ''.'' # t @ v) \<in> set (ends (PPlus (PChar domain_char)) (Some (CHR 0x40), b @ CHR ''.'' # t @ v))"
    unfolding plus_chars using abt(3,4) by blast
  moreover have "(Some (CHR ''.''), t @ v) \<in> set (ends (PChar (\<lambda>c. c = CHR ''.'')) (last_or (Some (CHR 0x40)) b, CHR ''.'' # t @ v))"
    unfolding ends_PChar by simp
  moreover have "q \<in> set (ends (PAtLeast 2 (PChar letter)) (Some (CHR ''.''), t @ v))"
    unfolding ends_at_least using abt(5,6) q' by blast
  ultimately show ?l unfolding EMAIL_PATTERN_def PB_def ends_PCondSeq unfolding ends_PSeq ends_PCond using wb by blast
qed

lemma email_chars_no_bracket:
  "\<not> local_char (CHR ''['')" "\<not> local_char (CHR '']'')" "\<not> domain_char (CHR ''['')" "\<not> domain_char (CHR '']'')"
  "\<not> letter (CHR ''['')" "\<not> letter (CHR '']'')"
  by code_simp+

interpretation email: token EMAIL_PATTERN email_text "\<lambda>c. c = CHR 0x40" True
proof unfold_locales
  show "email_text u \<Longrightarrow> CHR ''['' \<notin> set u \<and> CHR '']'' \<notin> set u" for u
    using email_chars_no_bracket unfolding email_text_def by (auto simp: list_all_iff)
qed (auto simp: email_text_def email_ends bounded_def)

end
