(* ===== verification/Redaction.thy ===== *)
theory Redaction
  imports Domain PyRe
begin

text \<open>
  Masking of personal data and secrets in what leaves the service: \<open>src/app/telemetry/logging.py\<close> (log
  payloads and the scanner of log text) and \<open>redact_metadata\<close> of
  \<open>src/app/adapters/platform_metadata.py\<close> (callback metadata).
\<close>

section \<open>Patterns (telemetry/logging.py)\<close>

definition REDACTED :: string where
  "REDACTED = ''[REDACTED]''"

text \<open>\<open>(?:\+?\d[\s().-]*){10,}\d\<close>.\<close>

definition phone_filler :: "char \<Rightarrow> bool" where
  "phone_filler c \<longleftrightarrow> is_space c \<or> in_class ''().-'' c"

definition LOG_PHONE_PATTERN :: pat where
  "LOG_PHONE_PATTERN =
     PSeq (PAtLeast 10 (PSeq (POpt (PLit ''+'')) (PSeq (PChar is_digit) (PStar (PChar phone_filler)))))
       (PChar is_digit)"

text \<open>\<open>\b(?:passport\s*)?\d{4}[\s-]?\d{6}\b\<close>, ignoring case.\<close>

definition LOG_PASSPORT_PATTERN :: pat where
  "LOG_PASSPORT_PATTERN =
     PSeq PB (PSeq (POpt (PSeq (PLitI ''passport'') (PStar (PChar is_space))))
       (PSeq (PTimes 4 (PChar is_digit)) (PSeq (POpt (PChar (\<lambda>c. is_space c \<or> c = CHR ''-'')))
         (PSeq (PTimes 6 (PChar is_digit)) PB))))"

text \<open>\<open>\b(?:token|secret|password|api[_-]?key)\s*[:=]\s*['"]?[^'"\s,}]+\<close>, ignoring case.\<close>

definition quote_char :: "char \<Rightarrow> bool" where
  "quote_char c \<longleftrightarrow> c = CHR 0x27 \<or> c = CHR 0x22"

definition secret_value_char :: "char \<Rightarrow> bool" where
  "secret_value_char c \<longleftrightarrow> \<not> quote_char c \<and> \<not> is_space c \<and> c \<noteq> CHR '','' \<and> c \<noteq> CHR ''}''"

definition API_KEY :: pat where
  "API_KEY = PSeq (PLitI ''api'') (PSeq (POpt (PChar (in_class ''_-''))) (PLitI ''key''))"

definition SECRET_PATTERN :: pat where
  "SECRET_PATTERN =
     PSeq PB (PSeq (PAlts [PLitI ''token'', PLitI ''secret'', PLitI ''password'', API_KEY])
       (PSeq (PStar (PChar is_space)) (PSeq (PChar (in_class '':='')) (PSeq (PStar (PChar is_space))
         (PSeq (POpt (PChar quote_char)) (PPlus (PChar secret_value_char)))))))"

definition LOG_SENSITIVE_KEY_PATTERN :: pat where
  "LOG_SENSITIVE_KEY_PATTERN =
     PAlts (map PLitI [''raw'', ''text'', ''content'', ''email'', ''phone'', ''passport'', ''token'', ''secret'',
       ''password''] @ [API_KEY, PLitI ''pii''])"

section \<open>Log text and payloads\<close>

definition redact_text :: "string \<Rightarrow> string" where
  "redact_text value =
     (let redacted = pat_sub SECRET_PATTERN REDACTED value;
          redacted = pat_sub EMAIL_PATTERN REDACTED redacted;
          redacted = pat_sub LOG_PHONE_PATTERN REDACTED redacted
      in pat_sub LOG_PASSPORT_PATTERN REDACTED redacted)"

definition scan_log_text :: "string \<Rightarrow> string list" where
  "scan_log_text log_text =
     (if pat_search EMAIL_PATTERN log_text then [''email''] else [])
     @ (if pat_search LOG_PHONE_PATTERN log_text then [''phone''] else [])
     @ (if pat_search LOG_PASSPORT_PATTERN log_text then [''passport''] else [])
     @ (if pat_search SECRET_PATTERN log_text then [''secret''] else [])"

fun redact_for_logging :: "json \<Rightarrow> json" where
  "redact_for_logging (JObj kvs) =
     JObj (map (\<lambda>kv. (fst kv, if pat_search LOG_SENSITIVE_KEY_PATTERN (fst kv) then JStr REDACTED
                               else redact_for_logging (snd kv))) kvs)"
| "redact_for_logging (JList xs) = JList (map redact_for_logging xs)"
| "redact_for_logging (JStr s) = JStr (redact_text s)"
| "redact_for_logging value = value"

section \<open>Callback metadata (adapters/platform_metadata.py)\<close>

definition SENSITIVE_KEY_PATTERN :: pat where
  "SENSITIVE_KEY_PATTERN =
     PAlts (map PLitI [''email'', ''phone'', ''token'', ''secret'', ''password'', ''ssn'', ''pii''])"

fun redact_metadata :: "json \<Rightarrow> json" where
  "redact_metadata (JObj kvs) =
     JObj (map (\<lambda>kv. (fst kv, if pat_search SENSITIVE_KEY_PATTERN (fst kv) then JStr REDACTED
                               else redact_metadata (snd kv))) kvs)"
| "redact_metadata (JList xs) = JList (map redact_metadata xs)"
| "redact_metadata (JStr s) = JStr (pat_sub EMAIL_PATTERN REDACTED s)"
| "redact_metadata value = value"

section \<open>What is left\<close>

lemma redacted_bracketed: "bracketed is_digit REDACTED" "bracketed (\<lambda>c. c = CHR 0x40) REDACTED"
  by (auto simp: bracketed_def REDACTED_def intro: exI [of _ "''REDACTED''"])

lemma not_bracket [simp]:
  "phone_filler c \<Longrightarrow> c \<noteq> CHR ''['' \<and> c \<noteq> CHR '']''"
  "is_digit c \<Longrightarrow> c \<noteq> CHR ''['' \<and> c \<noteq> CHR '']''"
  "is_space c \<Longrightarrow> c \<noteq> CHR ''['' \<and> c \<noteq> CHR '']''"
proof -
  have "\<not> phone_filler (CHR ''['') \<and> \<not> phone_filler (CHR '']'')" "\<not> is_digit (CHR ''['') \<and> \<not> is_digit (CHR '']'')"
    "\<not> is_space (CHR ''['') \<and> \<not> is_space (CHR '']'')" by code_simp+
  then show "phone_filler c \<Longrightarrow> c \<noteq> CHR ''['' \<and> c \<noteq> CHR '']''" "is_digit c \<Longrightarrow> c \<noteq> CHR ''['' \<and> c \<noteq> CHR '']''"
    "is_space c \<Longrightarrow> c \<noteq> CHR ''['' \<and> c \<noteq> CHR '']''" by auto
qed

interpretation log_phone: free_token LOG_PHONE_PATTERN "yields LOG_PHONE_PATTERN" is_digit
proof (rule free_tokenI)
  show "\<exists>c \<in> set u. is_digit c" if "yields LOG_PHONE_PATTERN u" for u
    using that unfolding LOG_PHONE_PATTERN_def by (auto simp: yields_simps)
qed (auto simp: LOG_PHONE_PATTERN_def dest: not_bracket)

definition PASSPORT_CORE :: pat where
  "PASSPORT_CORE =
     PSeq (POpt (PSeq (PLitI ''passport'') (PStar (PChar is_space))))
       (PSeq (PTimes 4 (PChar is_digit)) (PSeq (POpt (PChar (\<lambda>c. is_space c \<or> c = CHR ''-'')))
         (PTimes 6 (PChar is_digit))))"

lemma passport_letters:
  "lower_char x = lower_char c \<Longrightarrow> c \<in> set ''passport'' \<Longrightarrow> x \<noteq> CHR ''['' \<and> x \<noteq> CHR '']''"
proof -
  assume x: "lower_char x = lower_char c" "c \<in> set ''passport''"
  have "\<forall>c \<in> set ''passport''. lower_char (CHR ''['') \<noteq> lower_char c \<and> lower_char (CHR '']'') \<noteq> lower_char c" by code_simp
  with x show ?thesis by metis
qed

interpretation log_passport: token LOG_PASSPORT_PATTERN "yields PASSPORT_CORE" is_digit True
proof (rule bounded_tokenI)
  show "set (ends LOG_PASSPORT_PATTERN p) = set (ends (PSeq PB (PSeq PASSPORT_CORE PB)) p)" for p
    by (auto simp: LOG_PASSPORT_PATTERN_def PASSPORT_CORE_def)
  show "\<exists>c \<in> set u. is_digit c" if "yields PASSPORT_CORE u" for u
    using that unfolding PASSPORT_CORE_def by (auto simp: yields_simps eval_nat_numeral)
  have "list_all (\<lambda>c. \<forall>x. lower_char x = lower_char c \<longrightarrow> x \<noteq> CHR ''['' \<and> x \<noteq> CHR '']'') ''passport''"
    unfolding list_all_iff using passport_letters by blast
  then show "classes (\<lambda>c. c \<noteq> CHR ''['' \<and> c \<noteq> CHR '']'') PASSPORT_CORE"
    unfolding PASSPORT_CORE_def by (auto dest: not_bracket)
qed (simp add: PASSPORT_CORE_def)

text \<open>Redacted log text holds no phone-like number and no passport-like number: whatever the text is,
  the scanner of log lines never reports either of the two for it.\<close>

theorem redacted_text_numbers:
  "set (scan_log_text (redact_text value)) \<subseteq> {''email'', ''secret''}"
proof -
  let ?s = "pat_sub LOG_PHONE_PATTERN REDACTED (pat_sub EMAIL_PATTERN REDACTED (pat_sub SECRET_PATTERN REDACTED value))"
  have "\<not> pat_search LOG_PHONE_PATTERN ?s" using log_phone.sub_leaves_none redacted_bracketed by blast
  then have "\<not> pat_search LOG_PHONE_PATTERN (pat_sub LOG_PASSPORT_PATTERN REDACTED ?s)"
    using log_phone.sub_no_new [OF log_passport.token_axioms] redacted_bracketed by blast
  moreover have "\<not> pat_search LOG_PASSPORT_PATTERN (pat_sub LOG_PASSPORT_PATTERN REDACTED ?s)"
    using log_passport.sub_leaves_none redacted_bracketed by blast
  ultimately show ?thesis by (auto simp: scan_log_text_def redact_text_def)
qed

text \<open>E-mail addresses and secrets may survive: a phone number without a boundary before or after it
  hides them from the earlier patterns and is then replaced by a bracket, next to which the scanner
  of the same module reports what the redaction left.\<close>

theorem redaction_exposes_email_and_secret:
  "redact_text ''b@si.io89991234567'' = ''b@si.io[REDACTED]''
   \<and> scan_log_text (redact_text ''b@si.io89991234567'') = [''email'']
   \<and> redact_text ''12345678901token=a'' = ''[REDACTED]token=a''
   \<and> scan_log_text (redact_text ''12345678901token=a'') = [''secret'']"
proof -
  have "redact_text ''b@si.io89991234567'' = ''b@si.io[REDACTED]''" "redact_text ''12345678901token=a'' = ''[REDACTED]token=a''"
    by code_simp+
  moreover have "scan_log_text ''b@si.io[REDACTED]'' = [''email'']" "scan_log_text ''[REDACTED]token=a'' = [''secret'']"
    by code_simp+
  ultimately show ?thesis by simp
qed

section \<open>Callback metadata is clean\<close>

text \<open>No text holds an e-mail address, and what stands under a sensitive key is the mask.\<close>

fun metadata_clean :: "json \<Rightarrow> bool" where
  "metadata_clean (JObj kvs) =
     (\<forall>kv \<in> set kvs. (pat_search SENSITIVE_KEY_PATTERN (fst kv) \<longrightarrow> snd kv = JStr REDACTED) \<and> metadata_clean (snd kv))"
| "metadata_clean (JList xs) = (\<forall>x \<in> set xs. metadata_clean x)"
| "metadata_clean (JStr s) = (\<not> pat_search EMAIL_PATTERN s)"
| "metadata_clean value = True"

lemma mask_clean: "\<not> pat_search EMAIL_PATTERN REDACTED"
  by code_simp

lemma redact_metadata_clean: "metadata_clean (redact_metadata j)"
  by (induction j rule: redact_metadata.induct)
    (auto simp: mask_clean email.sub_leaves_none redacted_bracketed)

lemma redact_clean_id: "metadata_clean j \<Longrightarrow> redact_metadata j = j"
proof (induction j rule: redact_metadata.induct)
  case (1 kvs)
  then have "map (\<lambda>kv. (fst kv, if pat_search SENSITIVE_KEY_PATTERN (fst kv) then JStr REDACTED
      else redact_metadata (snd kv))) kvs = map id kvs"
    by (intro map_cong) (auto simp: prod_eq_iff)
  then show ?case by simp
next
  case (2 xs)
  then have "map redact_metadata xs = map id xs" by (intro map_cong) auto
  then show ?case by simp
next
  case (3 s)
  then show ?case using email.sub_nothing [of None s] by (simp add: pat_sub_def pat_search_def)
qed simp_all

lemma redact_metadata_idem: "redact_metadata (redact_metadata j) = redact_metadata j"
  by (rule redact_clean_id [OF redact_metadata_clean])

declare redact_metadata.simps [simp del]

declare redact_metadata_clean [simp]

end
