(* ===== verification/PlatformEvents.thy ===== *)
theory PlatformEvents
  imports Redaction BusinessRules
begin

text \<open>
  Callbacks to the control plane: the events and the in-memory client of
  \<open>src/app/adapters/platform_metadata.py\<close>, the job events of \<open>src/app/orchestration/job_event.py\<close> and
  the bridge of \<open>src/app/orchestration/status_bridge.py\<close> that turns the life cycle of a run into both.
  The HTTP routes of the fake server only pass their body to the client.
\<close>

section \<open>Events (domain/compute.py, job_event.py, platform_metadata.py)\<close>

datatype run_status =
    RS_QUEUED | RS_ACCEPTED | RS_RUNNING | RS_COMPLETED | RS_FAILED | RS_CANCELLED | RS_SKIPPED | RS_WAITING_APPROVAL

datatype job_stage =
    JS_QUEUED | JS_INGESTING | JS_BUILDING_MANIFEST | JS_VALIDATING | JS_PROFILING_TABULAR | JS_BUILDING_EVIDENCE
  | JS_RUNNING_DECISION_CORE | JS_COMPLETED | JS_FAILED | JS_CANCELLED

fun job_stage_value :: "job_stage \<Rightarrow> string" where
  "job_stage_value JS_QUEUED = ''QUEUED''"
| "job_stage_value JS_INGESTING = ''INGESTING''"
| "job_stage_value JS_BUILDING_MANIFEST = ''BUILDING_MANIFEST''"
| "job_stage_value JS_VALIDATING = ''VALIDATING''"
| "job_stage_value JS_PROFILING_TABULAR = ''PROFILING_TABULAR''"
| "job_stage_value JS_BUILDING_EVIDENCE = ''BUILDING_EVIDENCE''"
| "job_stage_value JS_RUNNING_DECISION_CORE = ''RUNNING_DECISION_CORE''"
| "job_stage_value JS_COMPLETED = ''COMPLETED''"
| "job_stage_value JS_FAILED = ''FAILED''"
| "job_stage_value JS_CANCELLED = ''CANCELLED''"

datatype audit_event_type =
    JOB_STATUS_CHANGED | ARTIFACT_REGISTERED | CALLBACK_DELIVERED | MANIFEST_VALIDATED | PREDICTIONS_VALIDATED
  | DATASET_VERSION_PROPOSED | LINEAGE_REPORT_BUILT | EXPORT_PACKAGE_BUILT

record 'f job_event =
  je_job_id :: string
  je_stage :: job_stage
  je_status :: run_status
  je_progress :: 'f
  je_artifact_refs :: "artifact_ref list"
  je_created_at :: datetime

record platform_job_event =
  pj_platform_job_id :: string
  pj_organization_id :: string
  pj_project_id :: string
  pj_status :: run_status
  pj_stage :: string
  pj_occurred_at :: datetime
  pj_details :: json

record platform_audit_event =
  pa_audit_event_id :: string
  pa_event_type :: audit_event_type
  pa_organization_id :: string
  pa_project_id :: string
  pa_actor_service :: string
  pa_occurred_at :: datetime
  pa_metadata :: json

definition job_event_valid :: "'f float_ops \<Rightarrow> 'f job_event \<Rightarrow> bool" where
  "job_event_valid fl e \<longleftrightarrow>
     non_empty (je_job_id e) \<and> fl_score_ok fl (je_progress e) \<and> list_all artifact_ref_valid (je_artifact_refs e)"

definition platform_job_event_valid :: "platform_job_event \<Rightarrow> bool" where
  "platform_job_event_valid e \<longleftrightarrow>
     non_empty (pj_platform_job_id e) \<and> non_empty (pj_organization_id e) \<and> non_empty (pj_project_id e)
     \<and> non_empty (pj_stage e)"

definition platform_audit_event_valid :: "platform_audit_event \<Rightarrow> bool" where
  "platform_audit_event_valid e \<longleftrightarrow>
     non_empty (pa_audit_event_id e) \<and> non_empty (pa_organization_id e) \<and> non_empty (pa_project_id e)
     \<and> non_empty (pa_actor_service e)"

definition redacted_job_event :: "platform_job_event \<Rightarrow> platform_job_event" where
  "redacted_job_event e = e\<lparr>pj_details := redact_metadata (pj_details e)\<rparr>"

definition redacted_audit_event :: "platform_audit_event \<Rightarrow> platform_audit_event" where
  "redacted_audit_event e = e\<lparr>pa_metadata := redact_metadata (pa_metadata e)\<rparr>"

section \<open>The client (FakePlatformMetadataClient)\<close>

record platform_client =
  pc_job_events :: "platform_job_event list"
  pc_audit_events :: "platform_audit_event list"
  pc_artifact_refs :: "artifact_ref list"

definition new_platform_client :: platform_client where
  "new_platform_client = \<lparr>pc_job_events = [], pc_audit_events = [], pc_artifact_refs = []\<rparr>"

definition record_job_event :: "platform_job_event \<Rightarrow> platform_client \<Rightarrow> platform_job_event \<times> platform_client" where
  "record_job_event e cl =
     (let stored = redacted_job_event e in (stored, cl\<lparr>pc_job_events := pc_job_events cl @ [stored]\<rparr>))"

definition record_audit_event :: "platform_audit_event \<Rightarrow> platform_client \<Rightarrow> platform_audit_event \<times> platform_client" where
  "record_audit_event e cl =
     (let stored = redacted_audit_event e in (stored, cl\<lparr>pc_audit_events := pc_audit_events cl @ [stored]\<rparr>))"

definition record_artifact_ref :: "artifact_ref \<Rightarrow> platform_client \<Rightarrow> artifact_ref \<times> platform_client" where
  "record_artifact_ref a cl = (a, cl\<lparr>pc_artifact_refs := pc_artifact_refs cl @ [a]\<rparr>)"

text \<open>\<open>snapshot\<close> is a tuple of each list.\<close>

definition snapshot :: "platform_client \<Rightarrow> platform_job_event list \<times> platform_audit_event list \<times> artifact_ref list" where
  "snapshot cl = (pc_job_events cl, pc_audit_events cl, pc_artifact_refs cl)"

section \<open>The bridge (RunStatusBridge)\<close>

record run_context =
  rc_compute_run_id :: string
  rc_platform_job_id :: string
  rc_organization_id :: string
  rc_project_id :: string
  rc_dataset_id :: string
  rc_dataset_version_id :: string

text \<open>
  \<open>now\<close> gives the creation times of the two events. An event that its model rejects raises before
  anything is recorded.
\<close>

definition emit ::
    "'f float_ops \<Rightarrow> datetime \<times> datetime \<Rightarrow> run_context \<Rightarrow> job_stage \<Rightarrow> run_status \<Rightarrow> 'f \<Rightarrow> artifact_ref list
     \<Rightarrow> (string \<times> json) list \<Rightarrow> platform_client \<Rightarrow> (exn + 'f job_event) \<times> platform_client" where
  "emit fl now rc stage status progress artifact_refs extra_details cl =
     (let event = \<lparr>je_job_id = rc_platform_job_id rc, je_stage = stage, je_status = status, je_progress = progress,
            je_artifact_refs = artifact_refs, je_created_at = fst now\<rparr>;
          details = dict_update_all
            [(''compute_run_id'', JStr (rc_compute_run_id rc)), (''dataset_id'', JStr (rc_dataset_id rc)),
             (''dataset_version_id'', JStr (rc_dataset_version_id rc)),
             (''progress'', JFloat (fl_repr fl (je_progress event))),
             (''artifact_uris'', JList (map (\<lambda>ref. JStr (ar_uri ref)) (je_artifact_refs event)))] extra_details;
          platform_event = \<lparr>pj_platform_job_id = rc_platform_job_id rc, pj_organization_id = rc_organization_id rc,
            pj_project_id = rc_project_id rc, pj_status = status, pj_stage = job_stage_value stage,
            pj_occurred_at = snd now, pj_details = JObj details\<rparr>
      in if \<not> job_event_valid fl event \<or> \<not> platform_job_event_valid platform_event then (Inl PydanticError, cl)
         else (Inr event, snd (record_job_event platform_event cl)))"

definition emit_started where
  "emit_started fl now rc stage progress =
     emit fl now rc stage (if stage \<noteq> JS_QUEUED then RS_RUNNING else RS_QUEUED) progress [] []"

definition emit_stage where
  "emit_stage fl now rc stage progress artifact_refs = emit fl now rc stage RS_RUNNING progress artifact_refs []"

definition emit_completed where
  "emit_completed fl now rc artifact_refs = emit fl now rc JS_COMPLETED RS_COMPLETED (fl_const fl 1) artifact_refs []"

definition emit_failed where
  "emit_failed fl now rc progress err =
     emit fl now rc JS_FAILED RS_FAILED progress []
       (case err of Some ec \<Rightarrow> if ec = [] then [] else [(''error_code'', JStr ec)] | None \<Rightarrow> [])"

definition emit_cancelled where
  "emit_cancelled fl now rc progress = emit fl now rc JS_CANCELLED RS_CANCELLED progress [] []"

definition emit_stage_event ::
    "'f float_ops \<Rightarrow> datetime \<times> datetime \<Rightarrow> run_context \<Rightarrow> job_stage \<Rightarrow> run_status \<Rightarrow> 'f \<Rightarrow> artifact_ref list
     \<Rightarrow> platform_client \<Rightarrow> (exn + 'f job_event) \<times> platform_client" where
  "emit_stage_event fl now rc stage status progress artifact_refs =
     (if status = RS_RUNNING then emit_stage fl now rc stage progress artifact_refs
      else if status = RS_COMPLETED then emit_completed fl now rc artifact_refs
      else if status = RS_FAILED then emit_failed fl now rc progress None
      else if status = RS_CANCELLED then emit_cancelled fl now rc progress
      else emit_started fl now rc stage progress)"

text \<open>\<open>dump\<close> is the JSON text of the event (\<open>model_dump_json\<close>).\<close>

definition scan_event_for_raw_pii :: "('f job_event \<Rightarrow> string) \<Rightarrow> 'f job_event \<Rightarrow> string list" where
  "scan_event_for_raw_pii dump event =
     (let payload = dump event in
      (if pat_search EMAIL_PATTERN payload then [''email''] else [])
      @ (if pat_search LOG_PHONE_PATTERN payload then [''phone''] else [])
      @ (if pat_search LOG_PASSPORT_PATTERN payload then [''passport''] else [])
      @ (if pat_search SECRET_PATTERN payload then [''secret''] else []))"

section \<open>The store of callbacks\<close>

text \<open>The states of the client under any sequence of callbacks.\<close>

inductive client_reachable :: "platform_client \<Rightarrow> bool" where
  reach_new: "client_reachable new_platform_client"
| reach_job: "client_reachable cl \<Longrightarrow> client_reachable (snd (record_job_event e cl))"
| reach_audit: "client_reachable cl \<Longrightarrow> client_reachable (snd (record_audit_event a cl))"
| reach_ref: "client_reachable cl \<Longrightarrow> client_reachable (snd (record_artifact_ref r cl))"

definition client_clean :: "platform_client \<Rightarrow> bool" where
  "client_clean cl \<longleftrightarrow>
     (\<forall>e \<in> set (pc_job_events cl). metadata_clean (pj_details e))
     \<and> (\<forall>a \<in> set (pc_audit_events cl). metadata_clean (pa_metadata a))"

lemmas client_ops = record_job_event_def record_audit_event_def record_artifact_ref_def
  redacted_job_event_def redacted_audit_event_def Let_def

lemma reachable_clean: "client_reachable cl \<Longrightarrow> client_clean cl"
  by (induction rule: client_reachable.induct)
    (auto simp: client_clean_def client_ops new_platform_client_def redact_metadata_clean)

lemma emit_reachable: "client_reachable cl \<Longrightarrow> client_reachable (snd (emit fl now rc stage status progress refs extra cl))"
  by (simp add: emit_def Let_def reach_job)

lemma emit_Inr:
  assumes "emit fl now rc stage status progress refs extra cl = (Inr event, cl')"
  shows "je_stage event = stage" "je_status event = status" "je_artifact_refs event = refs" "je_progress event = progress"
    "je_job_id event = rc_platform_job_id rc"
    "\<exists>e. pc_job_events cl' = pc_job_events cl @ [e] \<and> pj_status e = status \<and> pj_stage e = job_stage_value stage
       \<and> pj_platform_job_id e = rc_platform_job_id rc \<and> metadata_clean (pj_details e)"
  using assms by (auto simp: emit_def Let_def client_ops redact_metadata_clean split: if_splits)

lemma emit_Inl: "emit fl now rc stage status progress refs extra cl = (Inl e, cl') \<Longrightarrow> cl' = cl"
  by (auto simp: emit_def Let_def split: if_splits)

text \<open>Whatever sequence of callbacks the client takes, its store never holds an e-mail address in a
  text value of the details of a job event or of the metadata of an audit event, at any depth, and
  what stands there under a sensitive key is the mask; redacting a stored event again changes nothing.\<close>

theorem callback_store_clean:
  assumes "client_reachable cl"
  shows "(\<forall>e \<in> set (pc_job_events cl). metadata_clean (pj_details e) \<and> redacted_job_event e = e)
    \<and> (\<forall>a \<in> set (pc_audit_events cl). metadata_clean (pa_metadata a) \<and> redacted_audit_event a = a)"
  using reachable_clean [OF assms] by (simp add: client_clean_def redacted_job_event_def redacted_audit_event_def redact_clean_id)

definition sample_job_event :: platform_job_event where
  "sample_job_event =
     \<lparr>pj_platform_job_id = ''j'', pj_organization_id = ''o'', pj_project_id = ''p'', pj_status = RS_RUNNING,
      pj_stage = ''VALIDATING'', pj_occurred_at = 1,
      pj_details = JObj [(''note'', JStr ''from a@b.io''), (''userToken'', JInt 7)]\<rparr>"

lemma callback_store_clean_witness:
  "\<exists>cl. client_reachable cl
     \<and> map pj_details (pc_job_events cl) = [JObj [(''note'', JStr ''from [REDACTED]''), (''userToken'', JStr ''[REDACTED]'')]]
     \<and> (\<forall>e \<in> set (pc_job_events cl). metadata_clean (pj_details e))"
proof -
  let ?cl = "snd (record_job_event sample_job_event new_platform_client)"
  have r: "client_reachable ?cl" by (intro reach_job reach_new)
  have m: "map pj_details (pc_job_events ?cl) = [JObj [(''note'', JStr ''from [REDACTED]''), (''userToken'', JStr ''[REDACTED]'')]]"
    by code_simp
  have "\<forall>e \<in> set (pc_job_events ?cl). metadata_clean (pj_details e)" using callback_store_clean [OF r] by blast
  then show ?thesis using r m by (intro exI [of _ ?cl] conjI)
qed

text \<open>The two records of a callback agree: what a stage emission returns and what the platform stores
  carry the same stage and status, a terminal status comes with its own stage and only with it, and
  when either record is invalid nothing is stored.\<close>

theorem callback_matches_event:
  assumes "emit_stage_event fl now rc stage status progress refs cl = (res, cl')"
  shows "case res of Inl e \<Rightarrow> e = PydanticError \<and> cl' = cl
    | Inr event \<Rightarrow> (\<exists>e. pc_job_events cl' = pc_job_events cl @ [e] \<and> pj_status e = je_status event
         \<and> pj_stage e = job_stage_value (je_stage event) \<and> pj_platform_job_id e = je_job_id event)
       \<and> (je_status event = RS_COMPLETED \<longleftrightarrow> status = RS_COMPLETED) \<and> (je_status event = RS_FAILED \<longleftrightarrow> status = RS_FAILED)
       \<and> (je_status event = RS_CANCELLED \<longleftrightarrow> status = RS_CANCELLED)
       \<and> (je_status event = RS_COMPLETED \<longrightarrow> je_stage event = JS_COMPLETED)
       \<and> (je_status event = RS_FAILED \<longrightarrow> je_stage event = JS_FAILED)
       \<and> (je_status event = RS_CANCELLED \<longrightarrow> je_stage event = JS_CANCELLED)"
proof -
  obtain stage' status' progress' refs' extra where
    e: "emit fl now rc stage' status' progress' refs' extra cl = (res, cl')" and
    s: "status' = RS_COMPLETED \<longleftrightarrow> status = RS_COMPLETED" "status' = RS_FAILED \<longleftrightarrow> status = RS_FAILED"
      "status' = RS_CANCELLED \<longleftrightarrow> status = RS_CANCELLED" "status' = RS_COMPLETED \<longrightarrow> stage' = JS_COMPLETED"
      "status' = RS_FAILED \<longrightarrow> stage' = JS_FAILED" "status' = RS_CANCELLED \<longrightarrow> stage' = JS_CANCELLED"
    using assms by (cases status) (auto simp: emit_stage_event_def emit_stage_def emit_completed_def emit_failed_def
        emit_cancelled_def emit_started_def split: if_splits)
  show ?thesis
  proof (cases res)
    case (Inl err)
    then have "err = PydanticError" using e by (auto simp: emit_def Let_def split: if_splits)
    with Inl emit_Inl [of fl now rc stage' status' progress' refs' extra cl err cl'] e show ?thesis by simp
  next
    case (Inr event)
    with e have "emit fl now rc stage' status' progress' refs' extra cl = (Inr event, cl')" by simp
    from emit_Inr [OF this] s Inr show ?thesis by auto
  qed
qed

text \<open>A status that is neither running nor terminal is not reported: the platform is told RUNNING.\<close>

lemma skipped_reported_running:
  assumes "status \<in> {RS_ACCEPTED, RS_SKIPPED, RS_WAITING_APPROVAL}" "stage \<noteq> JS_QUEUED"
    and "emit_stage_event fl now rc stage status progress refs cl = (Inr event, cl')"
  shows "je_status event = RS_RUNNING \<and> je_artifact_refs event = []"
proof -
  from assms have "emit fl now rc stage RS_RUNNING progress [] [] cl = (Inr event, cl')"
    by (auto simp: emit_stage_event_def emit_started_def)
  from emit_Inr(2,3) [OF this] show ?thesis by blast
qed

definition sample_context :: run_context where
  "sample_context =
     \<lparr>rc_compute_run_id = ''r'', rc_platform_job_id = ''j'', rc_organization_id = ''o'', rc_project_id = ''p'',
      rc_dataset_id = ''d'', rc_dataset_version_id = ''v''\<rparr>"

lemma callback_matches_event_witness:
  "\<exists>event cl'. emit_stage_event rat_floats (1, 2) sample_context JS_VALIDATING RS_FAILED 0 [] new_platform_client = (Inr event, cl')
     \<and> je_stage event = JS_FAILED"
proof -
  have "\<exists>event. fst (emit_stage_event rat_floats (1, 2) sample_context JS_VALIDATING RS_FAILED 0 [] new_platform_client) = Inr event"
    by (simp add: emit_stage_event_def emit_failed_def emit_def Let_def sample_context_def job_event_valid_def
        platform_job_event_valid_def non_empty_def fl_score_ok_def rat_floats_def)
  then obtain event cl' where
    e: "emit_stage_event rat_floats (1, 2) sample_context JS_VALIDATING RS_FAILED 0 [] new_platform_client = (Inr event, cl')"
    by (metis prod.collapse)
  from callback_matches_event [OF e] have "je_stage event = JS_FAILED" by simp
  with e show ?thesis by blast
qed

end
