(* ===== verification/CandidateVersion.thy ===== *)
theory CandidateVersion
  imports ActionPlan ValidationGates PlatformEvents
begin

text \<open>
  The builder of proposed dataset versions: \<open>src/app/domain/candidate_version.py\<close> and
  \<open>src/app/kernel/candidate_version.py\<close>. A candidate takes its status and its block flags from the
  report of the validation gates, is saved through the artifact registry and announced to the control
  plane by one audit event.
\<close>

section \<open>Contracts (domain/candidate_version.py)\<close>

definition CANDIDATE_DATASET_VERSION_SCHEMA_VERSION :: string where
  "CANDIDATE_DATASET_VERSION_SCHEMA_VERSION = ''candidate_dataset_version.v1''"

datatype candidate_version_status = CV_PROPOSED | CV_REVIEW_REQUIRED | CV_BLOCKED | CV_FAILED

fun candidate_version_status_value :: "candidate_version_status \<Rightarrow> string" where
  "candidate_version_status_value CV_PROPOSED = ''proposed''"
| "candidate_version_status_value CV_REVIEW_REQUIRED = ''review_required''"
| "candidate_version_status_value CV_BLOCKED = ''blocked''"
| "candidate_version_status_value CV_FAILED = ''failed''"

record candidate_policy_versions =
  cp_profile_policy_version :: string
  cp_decision_policy_version :: string
  cp_score_policy_version :: string
  cp_method_policy_version :: string
  cp_validation_gates_policy_version :: "string option"

record candidate_step_summary =
  cs_step_id :: string
  cs_step_type :: string
  cs_method_id :: string
  cs_plugin_id :: string
  cs_plugin_version :: string
  cs_config_hash :: string
  cs_output_artifact_kind :: string
  cs_random_seed :: "int option"

record 'f synthetic_candidate_metadata =
  sm_method_id :: string
  sm_plugin_id :: string
  sm_plugin_version :: string
  sm_random_seed :: int
  sm_config_hash :: string
  sm_source_split :: string
  sm_source_cohort :: "string option"
  sm_source_object_ids :: "string list"
  sm_source_object_ids_truncated :: bool
  sm_full_source_object_ids_count :: int
  sm_generated_count :: int
  sm_sampling_strategy :: 'f
  sm_policy_version :: string
  sm_validation_report :: artifact_ref
  sm_model_impact_report :: "artifact_ref option"
  sm_synthetic_dataset_report :: artifact_ref

record candidate_lineage =
  cl_organization_id :: string
  cl_project_id :: string
  cl_dataset_id :: string
  cl_parent_version_id :: string
  cl_proposed_version_name :: string
  cl_action_plan_id :: string
  cl_decision_report_id :: "string option"
  cl_created_by_job_id :: string
  cl_config_hash :: string
  cl_input_artifact_hashes :: "string list"
  cl_output_artifact_hashes :: "string list"

text \<open>The gates summary is a dictionary of JSON scalars.\<close>

record 'f candidate_version =
  cv_candidate_version_id :: string
  cv_candidate_version_schema_version :: string
  cv_status :: candidate_version_status
  cv_policy_versions :: candidate_policy_versions
  cv_lineage :: candidate_lineage
  cv_candidate_artifacts :: "artifact_ref list"
  cv_primary_dataset_artifact :: artifact_ref
  cv_validation_gates_report :: "artifact_ref option"
  cv_validation_gates_summary :: "(string, json) dict"
  cv_block_export :: bool
  cv_block_model_evaluation :: bool
  cv_block_training :: bool
  cv_blocker_reason_codes :: "string list"
  cv_action_plan_steps :: "candidate_step_summary list"
  cv_synthetic_metadata :: "'f synthetic_candidate_metadata option"
  cv_proposed_at :: datetime

definition candidate_policy_versions_valid :: "candidate_policy_versions \<Rightarrow> bool" where
  "candidate_policy_versions_valid p \<longleftrightarrow>
     non_empty (cp_profile_policy_version p) \<and> non_empty (cp_decision_policy_version p)
     \<and> non_empty (cp_score_policy_version p) \<and> non_empty (cp_method_policy_version p)
     \<and> opt_ok non_empty (cp_validation_gates_policy_version p)"

definition candidate_step_summary_valid :: "candidate_step_summary \<Rightarrow> bool" where
  "candidate_step_summary_valid s \<longleftrightarrow>
     non_empty (cs_step_id s) \<and> non_empty (cs_step_type s) \<and> non_empty (cs_method_id s) \<and> non_empty (cs_plugin_id s)
     \<and> non_empty (cs_plugin_version s) \<and> sha256_digest (cs_config_hash s) \<and> non_empty (cs_output_artifact_kind s)"

definition synthetic_candidate_metadata_valid :: "'f float_ops \<Rightarrow> 'f synthetic_candidate_metadata \<Rightarrow> bool" where
  "synthetic_candidate_metadata_valid fl m \<longleftrightarrow>
     non_empty (sm_method_id m) \<and> non_empty (sm_plugin_id m) \<and> non_empty (sm_plugin_version m)
     \<and> sha256_digest (sm_config_hash m) \<and> non_empty (sm_source_split m) \<and> list_all non_empty (sm_source_object_ids m)
     \<and> 0 \<le> sm_full_source_object_ids_count m \<and> 0 \<le> sm_generated_count m
     \<and> fl_le fl (fl_const fl 0) (sm_sampling_strategy m) \<and> non_empty (sm_policy_version m)
     \<and> artifact_ref_valid (sm_validation_report m) \<and> opt_ok artifact_ref_valid (sm_model_impact_report m)
     \<and> artifact_ref_valid (sm_synthetic_dataset_report m)"

definition candidate_lineage_valid :: "candidate_lineage \<Rightarrow> bool" where
  "candidate_lineage_valid l \<longleftrightarrow>
     non_empty (cl_organization_id l) \<and> non_empty (cl_project_id l) \<and> non_empty (cl_dataset_id l)
     \<and> non_empty (cl_parent_version_id l) \<and> non_empty (cl_proposed_version_name l) \<and> non_empty (cl_action_plan_id l)
     \<and> opt_ok non_empty (cl_decision_report_id l) \<and> non_empty (cl_created_by_job_id l) \<and> sha256_digest (cl_config_hash l)
     \<and> list_all sha256_digest (cl_input_artifact_hashes l) \<and> list_all sha256_digest (cl_output_artifact_hashes l)"

definition candidate_version_valid :: "'f float_ops \<Rightarrow> 'f candidate_version \<Rightarrow> bool" where
  "candidate_version_valid fl v \<longleftrightarrow>
     non_empty (cv_candidate_version_id v) \<and> non_empty (cv_candidate_version_schema_version v)
     \<and> candidate_policy_versions_valid (cv_policy_versions v) \<and> candidate_lineage_valid (cv_lineage v)
     \<and> list_all artifact_ref_valid (cv_candidate_artifacts v) \<and> artifact_ref_valid (cv_primary_dataset_artifact v)
     \<and> opt_ok artifact_ref_valid (cv_validation_gates_report v) \<and> list_all non_empty (cv_blocker_reason_codes v)
     \<and> list_all candidate_step_summary_valid (cv_action_plan_steps v)
     \<and> opt_ok (synthetic_candidate_metadata_valid fl) (cv_synthetic_metadata v)"

section \<open>Requests (kernel/candidate_version.py)\<close>

definition CANDIDATE_DATASET_VERSION_KIND :: string where
  "CANDIDATE_DATASET_VERSION_KIND = ''candidate_dataset_version''"

definition SOURCE_OBJECT_ID_LIMIT :: nat where
  "SOURCE_OBJECT_ID_LIMIT = 25"

definition candidate_error :: "string \<Rightarrow> exn" where
  "candidate_error reason = Raised ''CandidateVersionBuilderError'' reason ACTION_PLAN_PRECONDITION_FAILED 0"

record 'f candidate_request =
  cr_organization_id :: string
  cr_project_id :: string
  cr_dataset_id :: string
  cr_parent_version_id :: string
  cr_proposed_version_name :: string
  cr_action_plan :: action_plan
  cr_policy_versions :: candidate_policy_versions
  cr_decision_report_id :: "string option"
  cr_created_by_job_id :: string
  cr_config_hash :: string
  cr_source_artifacts :: "artifact_ref list"
  cr_candidate_artifacts :: "artifact_ref list"
  cr_primary_dataset_artifact :: artifact_ref
  cr_validation_gates_report :: "'f gates_report option"
  cr_validation_gates_report_artifact :: "artifact_ref option"
  cr_synthetic_dataset_report :: "'f synthetic_report option"
  cr_synthetic_dataset_report_artifact :: "artifact_ref option"
  cr_synthetic_validation_report_artifact :: "artifact_ref option"
  cr_model_impact_report_artifact :: "artifact_ref option"
  cr_candidate_version_id :: "string option"
  cr_proposed_at :: "datetime option"

definition candidate_request_valid :: "'f float_ops \<Rightarrow> 'f candidate_request \<Rightarrow> bool" where
  "candidate_request_valid fl r \<longleftrightarrow>
     non_empty (cr_organization_id r) \<and> non_empty (cr_project_id r) \<and> non_empty (cr_dataset_id r)
     \<and> non_empty (cr_parent_version_id r) \<and> non_empty (cr_proposed_version_name r) \<and> action_plan_valid (cr_action_plan r)
     \<and> candidate_policy_versions_valid (cr_policy_versions r) \<and> opt_ok non_empty (cr_decision_report_id r)
     \<and> non_empty (cr_created_by_job_id r) \<and> sha256_digest (cr_config_hash r)
     \<and> cr_source_artifacts r \<noteq> [] \<and> list_all artifact_ref_valid (cr_source_artifacts r)
     \<and> cr_candidate_artifacts r \<noteq> [] \<and> list_all artifact_ref_valid (cr_candidate_artifacts r)
     \<and> artifact_ref_valid (cr_primary_dataset_artifact r)
     \<and> opt_ok (\<lambda>g. list_all (gate_valid fl) (gr_gates g)) (cr_validation_gates_report r)
     \<and> opt_ok artifact_ref_valid (cr_validation_gates_report_artifact r)
     \<and> opt_ok (synthetic_report_valid fl) (cr_synthetic_dataset_report r)
     \<and> opt_ok artifact_ref_valid (cr_synthetic_dataset_report_artifact r)
     \<and> opt_ok artifact_ref_valid (cr_synthetic_validation_report_artifact r)
     \<and> opt_ok artifact_ref_valid (cr_model_impact_report_artifact r)"

section \<open>Helpers\<close>

text \<open>\<open>_ordered_unique\<close>: empty and missing values are dropped.\<close>

fun present :: "string option \<Rightarrow> string list" where
  "present None = []"
| "present (Some v) = (if v = [] then [] else [v])"

definition ordered_unique_present :: "string option list \<Rightarrow> string list" where
  "ordered_unique_present values = ordered_unique_loop [] [] (concat (map present values))"

definition resolve_status :: "'f gates_report option \<Rightarrow> candidate_version_status" where
  "resolve_status report =
     (case report of
        None \<Rightarrow> CV_FAILED
      | Some g \<Rightarrow>
          if candidate_status_value (gr_candidate_status g) = ''validation_failed'' then CV_BLOCKED
          else if candidate_status_value (gr_candidate_status g) = ''review_required'' then CV_REVIEW_REQUIRED
          else CV_PROPOSED)"

definition resolve_blocks :: "'f gates_report option \<Rightarrow> bool \<times> bool \<times> bool" where
  "resolve_blocks report =
     (case report of
        None \<Rightarrow> (True, True, True)
      | Some g \<Rightarrow> (gr_block_export g, gr_block_model_evaluation g, gr_block_training g))"

definition resolve_blocker_reason_codes :: "'f gates_report option \<Rightarrow> string list" where
  "resolve_blocker_reason_codes report =
     (case report of
        None \<Rightarrow> []
      | Some g \<Rightarrow> map ga_reason_code (filter (\<lambda>x. ga_status x = VG_FAILED \<and> ga_severity x = VS_BLOCKER) (gr_gates g)))"

definition validation_summary :: "'f gates_report option \<Rightarrow> (string, json) dict" where
  "validation_summary report =
     (case report of
        None \<Rightarrow> []
      | Some g \<Rightarrow>
          [(''overall_status'', JStr (gate_status_value (gr_overall_status g))),
           (''candidate_status'', JStr (candidate_status_value (gr_candidate_status g))),
           (''raw_artifact_unchanged'', JBool (gr_raw_artifact_unchanged g)),
           (''blocker_present'', JBool (gr_blocker_present g))])"

definition summarize_step :: "action_plan_step \<Rightarrow> candidate_step_summary" where
  "summarize_step s =
     \<lparr>cs_step_id = ps_step_id s, cs_step_type = ps_type s, cs_method_id = ps_method_id s, cs_plugin_id = ps_plugin_id s,
      cs_plugin_version = ps_plugin_version s, cs_config_hash = ps_config_hash s,
      cs_output_artifact_kind = ps_output_artifact_kind s, cs_random_seed = ps_random_seed s\<rparr>"

definition summarize_steps :: "action_plan \<Rightarrow> exn + candidate_step_summary list" where
  "summarize_steps plan = mapR (\<lambda>s. validated candidate_step_summary_valid (summarize_step s)) (ap_steps plan)"

definition synthetic_metadata_of ::
    "'f candidate_request \<Rightarrow> 'f synthetic_report \<Rightarrow> artifact_ref \<Rightarrow> artifact_ref \<Rightarrow> 'f synthetic_candidate_metadata" where
  "synthetic_metadata_of request report validation_artifact report_artifact =
     (let source_object_ids = ordered_unique_present (filter (\<lambda>v. present v \<noteq> []) (sy_seed_object_ids report));
          full_count = length source_object_ids;
          truncated = SOURCE_OBJECT_ID_LIMIT < full_count;
          source_object_ids = (if truncated then take SOURCE_OBJECT_ID_LIMIT source_object_ids else source_object_ids)
      in \<lparr>sm_method_id = synthetic_method_value (sy_method report), sm_plugin_id = ''dataforge.tabular'',
          sm_plugin_version = sy_method_version report, sm_random_seed = sy_random_seed report,
          sm_config_hash = cr_config_hash request, sm_source_split = sy_source_split report,
          sm_source_cohort = sy_rare_class_label report, sm_source_object_ids = source_object_ids,
          sm_source_object_ids_truncated = truncated, sm_full_source_object_ids_count = int full_count,
          sm_generated_count = sy_generated_count report, sm_sampling_strategy = sy_sampling_strategy report,
          sm_policy_version = cp_method_policy_version (cr_policy_versions request),
          sm_validation_report = validation_artifact, sm_model_impact_report = cr_model_impact_report_artifact request,
          sm_synthetic_dataset_report = report_artifact\<rparr>)"

definition either :: "'a option \<Rightarrow> 'a option \<Rightarrow> 'a option" where
  "either a b = (case a of Some x \<Rightarrow> Some x | None \<Rightarrow> b)"

definition build_synthetic_metadata ::
    "'f float_ops \<Rightarrow> 'f candidate_request \<Rightarrow> candidate_version_status \<Rightarrow> exn + 'f synthetic_candidate_metadata option" where
  "build_synthetic_metadata fl request status =
     (case cr_synthetic_dataset_report request of
        None \<Rightarrow> Inr None
      | Some report \<Rightarrow>
          (case cr_synthetic_dataset_report_artifact request of
             None \<Rightarrow> Inl (candidate_error ''synthetic_dataset_report_artifact_required'')
           | Some report_artifact \<Rightarrow>
               (case either (cr_synthetic_validation_report_artifact request) (cr_validation_gates_report_artifact request) of
                  None \<Rightarrow> Inl (candidate_error ''synthetic_validation_report_required'')
                | Some validation_artifact \<Rightarrow>
                    bindR (validated (synthetic_candidate_metadata_valid fl)
                      (synthetic_metadata_of request report validation_artifact report_artifact)) (\<lambda>metadata.
                    if status = CV_PROPOSED \<and> sm_generated_count metadata = 0
                    then Inl (candidate_error ''synthetic_candidate_has_no_generated_rows'')
                    else Inr (Some metadata)))))"

section \<open>The builder\<close>

definition candidate_lineage_of :: "'f candidate_request \<Rightarrow> candidate_lineage" where
  "candidate_lineage_of request =
     \<lparr>cl_organization_id = cr_organization_id request, cl_project_id = cr_project_id request,
      cl_dataset_id = cr_dataset_id request, cl_parent_version_id = cr_parent_version_id request,
      cl_proposed_version_name = cr_proposed_version_name request,
      cl_action_plan_id = ap_action_plan_id (cr_action_plan request),
      cl_decision_report_id = cr_decision_report_id request, cl_created_by_job_id = cr_created_by_job_id request,
      cl_config_hash = cr_config_hash request,
      cl_input_artifact_hashes = map ar_hash (cr_source_artifacts request),
      cl_output_artifact_hashes = ordered_unique_present (map (\<lambda>a. Some (ar_hash a)) (cr_candidate_artifacts request))\<rparr>"

definition fresh_id :: "string option \<Rightarrow> string \<Rightarrow> string" where
  "fresh_id given fresh = (case given of Some i \<Rightarrow> if i = [] then fresh else i | None \<Rightarrow> fresh)"

text \<open>What is built before anything is stored.\<close>

definition assemble_candidate :: "'s builder_env \<Rightarrow> 'f float_ops \<Rightarrow> 'f candidate_request \<Rightarrow> exn + 'f candidate_version" where
  "assemble_candidate env fl request =
     (let report = cr_validation_gates_report request;
          status = resolve_status report;
          (block_export, block_model_evaluation, block_training) = resolve_blocks report
      in bindR (build_synthetic_metadata fl request status) (\<lambda>synthetic_metadata.
         bindR (summarize_steps (cr_action_plan request)) (\<lambda>steps.
         bindR (validated candidate_lineage_valid (candidate_lineage_of request)) (\<lambda>lineage.
         validated (candidate_version_valid fl)
           \<lparr>cv_candidate_version_id = fresh_id (cr_candidate_version_id request) (''candidate_dataset_version_'' @ se_uuid env),
            cv_candidate_version_schema_version = CANDIDATE_DATASET_VERSION_SCHEMA_VERSION, cv_status = status,
            cv_policy_versions = cr_policy_versions request, cv_lineage = lineage,
            cv_candidate_artifacts = cr_candidate_artifacts request,
            cv_primary_dataset_artifact = cr_primary_dataset_artifact request,
            cv_validation_gates_report = cr_validation_gates_report_artifact request,
            cv_validation_gates_summary = validation_summary report,
            cv_block_export = block_export, cv_block_model_evaluation = block_model_evaluation,
            cv_block_training = block_training, cv_blocker_reason_codes = resolve_blocker_reason_codes report,
            cv_action_plan_steps = steps, cv_synthetic_metadata = synthetic_metadata,
            cv_proposed_at = (case cr_proposed_at request of Some t \<Rightarrow> t | None \<Rightarrow> se_now env)\<rparr>))))"

definition candidate_metadata_label :: "'s builder_env \<Rightarrow> 'f candidate_request \<Rightarrow> 'f candidate_version \<Rightarrow> metadata" where
  "candidate_metadata_label env request version =
     [(''candidate-version-id'', cv_candidate_version_id version),
      (''candidate-status'', candidate_version_status_value (cv_status version)),
      (''block-export'', bool_text (cv_block_export version)),
      (''block-model-evaluation'', bool_text (cv_block_model_evaluation version)),
      (''block-training'', bool_text (cv_block_training version)),
      (''action-plan-id'', ap_action_plan_id (cr_action_plan request)),
      (''parent-version-id'', cr_parent_version_id request),
      (''proposed-version-name'', cr_proposed_version_name request),
      (''created-at'', se_iso env (cv_proposed_at version))]
     @ (case cv_synthetic_metadata version of
          None \<Rightarrow> []
        | Some m \<Rightarrow> [(''synthetic-method-id'', sm_method_id m), (''synthetic-plugin-id'', sm_plugin_id m)])"

definition candidate_audit_metadata :: "'f candidate_version \<Rightarrow> artifact_ref \<Rightarrow> json" where
  "candidate_audit_metadata version ref =
     JObj ([(''candidate_version_id'', JStr (cv_candidate_version_id version)),
       (''candidate_version_artifact_uri'', JStr (ar_uri ref)),
       (''candidate_version_artifact_hash'', JStr (ar_hash ref)),
       (''candidate_status'', JStr (candidate_version_status_value (cv_status version))),
       (''action_plan_id'', JStr (cl_action_plan_id (cv_lineage version))),
       (''parent_version_id'', JStr (cl_parent_version_id (cv_lineage version))),
       (''proposed_version_name'', JStr (cl_proposed_version_name (cv_lineage version))),
       (''block_export'', JBool (cv_block_export version)),
       (''block_model_evaluation'', JBool (cv_block_model_evaluation version)),
       (''block_training'', JBool (cv_block_training version))]
     @ (case cv_synthetic_metadata version of
          None \<Rightarrow> []
        | Some m \<Rightarrow> [(''synthetic_method_id'', JStr (sm_method_id m)),
            (''synthetic_generated_count'', JInt (sm_generated_count m)),
            (''synthetic_random_seed'', JInt (sm_random_seed m))]))"

text \<open>\<open>audit_uuid\<close> is the second fresh identifier of the call.\<close>

definition emit_candidate_event ::
    "'s builder_env \<Rightarrow> string \<Rightarrow> 'f candidate_version \<Rightarrow> artifact_ref \<Rightarrow> 'f candidate_request
     \<Rightarrow> platform_client option \<Rightarrow> (exn + platform_audit_event option) \<times> platform_client option" where
  "emit_candidate_event env audit_uuid version ref request platform =
     (case platform of
        None \<Rightarrow> (Inr None, None)
      | Some cl \<Rightarrow>
          let event = \<lparr>pa_audit_event_id = ''audit_'' @ audit_uuid, pa_event_type = DATASET_VERSION_PROPOSED,
                pa_organization_id = cr_organization_id request, pa_project_id = cr_project_id request,
                pa_actor_service = ''dataforgeai-ml-service'', pa_occurred_at = se_now env,
                pa_metadata = candidate_audit_metadata version ref\<rparr>
          in if \<not> platform_audit_event_valid event then (Inl PydanticError, platform)
             else let (stored, cl') = record_audit_event event cl in (Inr (Some stored), Some cl'))"

text \<open>\<open>ser\<close> is \<open>_serialize\<close>. The state is the object store and the platform client, if one is given.\<close>

definition build_candidate_dataset_version ::
    "'s builder_env \<Rightarrow> 'f float_ops \<Rightarrow> ('f candidate_version \<Rightarrow> string) \<Rightarrow> string \<Rightarrow> 'f candidate_request
     \<Rightarrow> 's \<times> platform_client option
     \<Rightarrow> (exn + ('f candidate_version \<times> registered_artifact \<times> platform_audit_event option)) \<times> ('s \<times> platform_client option)" where
  "build_candidate_dataset_version env fl ser audit_uuid request st =
     (case assemble_candidate env fl request of
        Inl e \<Rightarrow> (Inl e, st)
      | Inr version \<Rightarrow>
          (case registry_save env
             \<lparr>sv_artifact_kind = CANDIDATE_DATASET_VERSION_KIND, sv_data = ser version,
              sv_artifact_format = ''json'', sv_media_type = ''application/json'',
              sv_schema_version = CANDIDATE_DATASET_VERSION_SCHEMA_VERSION,
              sv_dataset_version_id = cr_proposed_version_name request,
              sv_created_by_job_id = cr_created_by_job_id request, sv_config_hash = cr_config_hash request,
              sv_metadata = candidate_metadata_label env request version\<rparr> (fst st) of
             (Inl e, s') \<Rightarrow> (Inl e, (s', snd st))
           | (Inr artifact, s') \<Rightarrow>
               let (res, cl') = emit_candidate_event env audit_uuid version (ra_artifact_ref artifact) request (snd st)
               in (bindR res (\<lambda>event. Inr (version, artifact, event)), (s', cl'))))"

section \<open>What is assembled\<close>

lemma opt_ok_simps [simp]: "opt_ok P None" "opt_ok P (Some x) = P x"
  by (simp_all add: opt_ok_def)

lemma set_present: "set (concat (map present vs)) = {v. Some v \<in> set vs \<and> v \<noteq> []}"
proof (induction vs)
  case (Cons v vs)
  then show ?case by (cases v) auto
qed simp

interpretation present_unique: stable_dedupe "ordered_unique_loop [] []"
  by unfold_locales (simp_all add: ordered_unique_loop_snoc)

lemma set_ordered_unique_present: "set (ordered_unique_present vs) = {v. Some v \<in> set vs \<and> v \<noteq> []}"
  by (simp only: ordered_unique_present_def present_unique.dd_set set_present)

lemma distinct_ordered_unique_present: "distinct (ordered_unique_present vs)"
  by (simp add: ordered_unique_present_def)

lemma assemble_fields:
  assumes "assemble_candidate env fl request = Inr v"
  shows "cv_status v = resolve_status (cr_validation_gates_report request)"
    "(cv_block_export v, cv_block_model_evaluation v, cv_block_training v) = resolve_blocks (cr_validation_gates_report request)"
    "cv_blocker_reason_codes v = resolve_blocker_reason_codes (cr_validation_gates_report request)"
    "cv_validation_gates_summary v = validation_summary (cr_validation_gates_report request)"
    "cv_lineage v = candidate_lineage_of request"
    "cv_candidate_artifacts v = cr_candidate_artifacts request"
    "build_synthetic_metadata fl request (cv_status v) = Inr (cv_synthetic_metadata v)"
    "candidate_version_valid fl v"
  using assms by (auto simp: assemble_candidate_def Let_def result_simps split: prod.splits)

lemma candidate_error_ne [simp]: "candidate_error r \<noteq> PydanticError"
  by (simp add: candidate_error_def)

lemma synthetic_metadata_valid:
  assumes "candidate_request_valid fl request" "cr_synthetic_dataset_report request = Some report"
    and "artifact_ref_valid va" "artifact_ref_valid ra"
  shows "synthetic_candidate_metadata_valid fl (synthetic_metadata_of request report va ra)"
proof -
  let ?m = "synthetic_metadata_of request report va ra"
  have r: "synthetic_report_valid fl report" "candidate_policy_versions_valid (cr_policy_versions request)"
    "sha256_digest (cr_config_hash request)" "opt_ok artifact_ref_valid (cr_model_impact_report_artifact request)"
    using assms(1,2) by (simp_all add: candidate_request_valid_def)
  have f: "sm_method_id ?m = synthetic_method_value (sy_method report)" "sm_plugin_id ?m = ''dataforge.tabular''"
    "sm_plugin_version ?m = sy_method_version report" "sm_config_hash ?m = cr_config_hash request"
    "sm_source_split ?m = sy_source_split report" "sm_generated_count ?m = sy_generated_count report"
    "sm_sampling_strategy ?m = sy_sampling_strategy report" "sm_validation_report ?m = va" "sm_synthetic_dataset_report ?m = ra"
    "sm_policy_version ?m = cp_method_policy_version (cr_policy_versions request)"
    "sm_model_impact_report ?m = cr_model_impact_report_artifact request" "0 \<le> sm_full_source_object_ids_count ?m"
    by (simp_all add: synthetic_metadata_of_def Let_def)
  have "set (sm_source_object_ids ?m) \<subseteq> set (ordered_unique_present (filter (\<lambda>v. present v \<noteq> []) (sy_seed_object_ids report)))"
    by (auto simp: synthetic_metadata_of_def Let_def dest: in_set_takeD)
  then have ids: "list_all non_empty (sm_source_object_ids ?m)"
    unfolding set_ordered_unique_present by (auto simp: list_all_iff non_empty_def)
  have "non_empty (synthetic_method_value (sy_method report))" by (cases "sy_method report") (simp_all add: non_empty_def)
  then show ?thesis unfolding synthetic_candidate_metadata_valid_def f
    using r ids assms(3,4) f(12) by (simp add: synthetic_report_valid_def candidate_policy_versions_valid_def fl_score_ok_def non_empty_def)
qed

lemma steps_summarized:
  assumes "action_plan_valid plan"
  shows "summarize_steps plan = Inr (map summarize_step (ap_steps plan))
    \<and> list_all candidate_step_summary_valid (map summarize_step (ap_steps plan))"
proof -
  have "list_all (\<lambda>s. candidate_step_summary_valid (summarize_step s)) (ap_steps plan)"
    using assms by (auto simp: action_plan_valid_def list_all_iff action_plan_step_valid_def
        candidate_step_summary_valid_def summarize_step_def)
  then show ?thesis unfolding summarize_steps_def
    by (auto simp: list_all_iff intro!: mapR_all_ok)
qed

lemma lineage_valid:
  assumes "candidate_request_valid fl request" shows "candidate_lineage_valid (candidate_lineage_of request)"
proof -
  have "list_all sha256_digest (map ar_hash (cr_source_artifacts request))"
    "list_all sha256_digest (ordered_unique_present (map (\<lambda>a. Some (ar_hash a)) (cr_candidate_artifacts request)))"
    using assms unfolding list_all_iff set_ordered_unique_present
    by (auto simp: candidate_request_valid_def list_all_iff artifact_ref_valid_def)
  with assms show ?thesis
    by (simp add: candidate_lineage_valid_def candidate_lineage_of_def candidate_request_valid_def action_plan_valid_def)
qed

lemma reason_codes_valid:
  assumes "candidate_request_valid fl request"
  shows "list_all non_empty (resolve_blocker_reason_codes (cr_validation_gates_report request))"
proof (cases "cr_validation_gates_report request")
  case (Some g)
  with assms have "list_all (gate_valid fl) (gr_gates g)" by (simp add: candidate_request_valid_def)
  with Some show ?thesis by (auto simp: resolve_blocker_reason_codes_def list_all_iff gate_valid_def)
qed (simp add: resolve_blocker_reason_codes_def)

text \<open>When synthetic metadata can be built.\<close>

definition synthetic_ready :: "'f candidate_request \<Rightarrow> bool" where
  "synthetic_ready request \<longleftrightarrow>
     (case cr_synthetic_dataset_report request of
        None \<Rightarrow> True
      | Some report \<Rightarrow> cr_synthetic_dataset_report_artifact request \<noteq> None
          \<and> (cr_synthetic_validation_report_artifact request \<noteq> None \<or> cr_validation_gates_report_artifact request \<noteq> None)
          \<and> (resolve_status (cr_validation_gates_report request) = CV_PROPOSED \<longrightarrow> sy_generated_count report \<noteq> 0))"

lemma synthetic_built:
  assumes "candidate_request_valid fl request"
  shows "case build_synthetic_metadata fl request (resolve_status (cr_validation_gates_report request)) of
      Inl e \<Rightarrow> \<not> synthetic_ready request \<and> (\<exists>reason. e = candidate_error reason)
    | Inr m \<Rightarrow> synthetic_ready request \<and> opt_ok (synthetic_candidate_metadata_valid fl) m"
proof (cases "cr_synthetic_dataset_report request")
  case None
  then show ?thesis by (simp add: build_synthetic_metadata_def synthetic_ready_def)
next
  case (Some report)
  note rep = Some
  show ?thesis
  proof (cases "cr_synthetic_dataset_report_artifact request")
    case None
    then show ?thesis using rep by (auto simp: build_synthetic_metadata_def synthetic_ready_def)
  next
    case (Some ra)
    note ra = Some
    show ?thesis
    proof (cases "either (cr_synthetic_validation_report_artifact request) (cr_validation_gates_report_artifact request)")
      case None
      then show ?thesis using rep ra
        by (auto simp: build_synthetic_metadata_def synthetic_ready_def either_def split: option.splits)
    next
      case (Some va)
      have v: "artifact_ref_valid va" "artifact_ref_valid ra"
        using assms Some ra by (auto simp: candidate_request_valid_def either_def split: option.splits)
      have "sm_generated_count (synthetic_metadata_of request report va ra) = sy_generated_count report"
        by (simp add: synthetic_metadata_of_def Let_def)
      then show ?thesis using rep ra Some synthetic_metadata_valid [OF assms rep v]
        by (auto simp: build_synthetic_metadata_def synthetic_ready_def either_def split: option.splits)
    qed
  qed
qed

lemma assemble_iff:
  assumes "candidate_request_valid fl request"
  shows "case assemble_candidate env fl request of
      Inl e \<Rightarrow> \<not> synthetic_ready request \<and> (\<exists>reason. e = candidate_error reason)
    | Inr v \<Rightarrow> synthetic_ready request \<and> candidate_version_valid fl v"
proof (cases "build_synthetic_metadata fl request (resolve_status (cr_validation_gates_report request))")
  case (Inl e)
  then show ?thesis using synthetic_built [OF assms] by (auto simp: assemble_candidate_def Let_def split: prod.splits)
next
  case (Inr m)
  have s: "synthetic_ready request" "opt_ok (synthetic_candidate_metadata_valid fl) m"
    using synthetic_built [OF assms] Inr by simp_all
  have st: "summarize_steps (cr_action_plan request) = Inr (map summarize_step (ap_steps (cr_action_plan request)))"
    "list_all candidate_step_summary_valid (map summarize_step (ap_steps (cr_action_plan request)))"
    using steps_summarized assms by (auto simp: candidate_request_valid_def)
  have id: "non_empty (fresh_id i (''candidate_dataset_version_'' @ x))" for i x
    by (simp add: fresh_id_def non_empty_def split: option.splits)
  have req: "candidate_policy_versions_valid (cr_policy_versions request)" "list_all artifact_ref_valid (cr_candidate_artifacts request)"
    "artifact_ref_valid (cr_primary_dataset_artifact request)" "opt_ok artifact_ref_valid (cr_validation_gates_report_artifact request)"
    using assms by (simp_all add: candidate_request_valid_def)
  obtain a b c where "resolve_blocks (cr_validation_gates_report request) = (a, b, c)"
    by (cases "resolve_blocks (cr_validation_gates_report request)")
  then show ?thesis using s st id req lineage_valid [OF assms] reason_codes_valid [OF assms] Inr
    by (simp add: assemble_candidate_def Let_def candidate_version_valid_def CANDIDATE_DATASET_VERSION_SCHEMA_VERSION_def
        non_empty_def [of "''candidate_dataset_version.v1''"])
qed

definition candidate_save_args :: "'s builder_env \<Rightarrow> ('f candidate_version \<Rightarrow> string) \<Rightarrow> 'f candidate_request \<Rightarrow> 'f candidate_version \<Rightarrow> save_args" where
  "candidate_save_args env ser request v =
     \<lparr>sv_artifact_kind = CANDIDATE_DATASET_VERSION_KIND, sv_data = ser v,
      sv_artifact_format = ''json'', sv_media_type = ''application/json'',
      sv_schema_version = CANDIDATE_DATASET_VERSION_SCHEMA_VERSION,
      sv_dataset_version_id = cr_proposed_version_name request,
      sv_created_by_job_id = cr_created_by_job_id request, sv_config_hash = cr_config_hash request,
      sv_metadata = candidate_metadata_label env request v\<rparr>"

lemma emit_candidate_Inl:
  assumes "emit_candidate_event env audit_uuid v ref request platform = (Inl e, platform')"
  shows "\<not> candidate_request_valid fl request"
  using assms by (auto simp: emit_candidate_event_def Let_def platform_audit_event_valid_def candidate_request_valid_def
      non_empty_def split: option.splits if_splits prod.splits)

lemma build_cases:
  assumes "build_candidate_dataset_version env fl ser audit_uuid request st = (res, st')"
  shows "case res of
      Inl e \<Rightarrow> candidate_request_valid fl request \<longrightarrow> snd st' = snd st \<and> (assemble_candidate env fl request = Inl e
          \<or> (\<exists>v. assemble_candidate env fl request = Inr v
                \<and> registry_save env (candidate_save_args env ser request v) (fst st) = (Inl e, fst st')))
    | Inr (v, art, ev) \<Rightarrow> assemble_candidate env fl request = Inr v
        \<and> registry_save env (candidate_save_args env ser request v) (fst st) = (Inr art, fst st')
        \<and> emit_candidate_event env audit_uuid v (ra_artifact_ref art) request (snd st) = (Inr ev, snd st')"
proof (cases "assemble_candidate env fl request")
  case (Inl e)
  then show ?thesis using assms by (auto simp: build_candidate_dataset_version_def)
next
  case (Inr v)
  note as = Inr
  let ?args = "candidate_save_args env ser request v"
  obtain rs s' where sv: "registry_save env ?args (fst st) = (rs, s')" by (cases "registry_save env ?args (fst st)")
  note sv' = sv [unfolded candidate_save_args_def]
  show ?thesis
  proof (cases rs)
    case (Inl e)
    then have "res = Inl e" "st' = (s', snd st)" using assms as sv' by (simp_all add: build_candidate_dataset_version_def)
    then show ?thesis using as sv Inl by simp
  next
    case (Inr art)
    obtain em cl' where em: "emit_candidate_event env audit_uuid v (ra_artifact_ref art) request (snd st) = (em, cl')"
      by (cases "emit_candidate_event env audit_uuid v (ra_artifact_ref art) request (snd st)")
    have b: "res = bindR em (\<lambda>event. Inr (v, art, event))" "st' = (s', cl')"
      using assms as sv' Inr em by (simp_all add: build_candidate_dataset_version_def)
    show ?thesis
    proof (cases em)
      case (Inl e)
      with emit_candidate_Inl [of env audit_uuid v "ra_artifact_ref art" request "snd st" e cl' fl] em b
      show ?thesis by simp
    next
      case (Inr ev)
      then show ?thesis using b as sv \<open>rs = Inr art\<close> em by simp
    qed
  qed
qed

lemma emit_candidate_Inr:
  assumes "emit_candidate_event env audit_uuid v ref request platform = (Inr ev, platform')"
  shows "case platform of
      None \<Rightarrow> ev = None \<and> platform' = None
    | Some cl \<Rightarrow> \<exists>e cl'. ev = Some e \<and> platform' = Some cl' \<and> pc_audit_events cl' = pc_audit_events cl @ [e]
        \<and> pc_job_events cl' = pc_job_events cl \<and> pc_artifact_refs cl' = pc_artifact_refs cl
        \<and> pa_event_type e = DATASET_VERSION_PROPOSED \<and> pa_metadata e = redact_metadata (candidate_audit_metadata v ref)"
  using assms by (auto simp: emit_candidate_event_def Let_def client_ops split: option.splits if_splits)

section \<open>Properties\<close>

text \<open>Assembling a candidate never produces an invalid record: from a valid request the builder either
  returns a candidate that satisfies every constraint of its contract, or raises its own typed error,
  and it raises exactly when synthetic rows are claimed without their report reference, without a
  validation report, or with zero rows in a candidate that would be proposed.\<close>

theorem candidate_well_formed:
  assumes "candidate_request_valid fl request"
  shows "case assemble_candidate env fl request of
      Inl e \<Rightarrow> \<not> synthetic_ready request \<and> (\<exists>reason. e = candidate_error reason)
    | Inr v \<Rightarrow> synthetic_ready request \<and> candidate_version_valid fl v"
  by (rule assemble_iff [OF assms])

text \<open>The candidate is exactly as blocked as its gates report says, and fails closed without one: no
  report gives status FAILED with all three blocks, a report that failed validation gives BLOCKED, and
  PROPOSED is reached only through a report whose candidate status is OK; the audit event carries the
  same status.\<close>

theorem candidate_mirrors_gates:
  assumes "build_candidate_dataset_version env fl ser audit_uuid request st = (Inr (v, art, ev), st')"
  shows "case cr_validation_gates_report request of
      None \<Rightarrow> cv_status v = CV_FAILED \<and> cv_block_export v \<and> cv_block_model_evaluation v \<and> cv_block_training v
    | Some g \<Rightarrow> (cv_status v = CV_BLOCKED \<longleftrightarrow> gr_candidate_status g = CA_VALIDATION_FAILED)
        \<and> (cv_status v = CV_PROPOSED \<longleftrightarrow> gr_candidate_status g = CA_OK)
        \<and> (cv_block_export v \<longleftrightarrow> gr_block_export g) \<and> (cv_block_model_evaluation v \<longleftrightarrow> gr_block_model_evaluation g)
        \<and> (cv_block_training v \<longleftrightarrow> gr_block_training g)
        \<and> cv_blocker_reason_codes v = map ga_reason_code (filter gate_is_blocking (gr_gates g))"
proof -
  have a: "assemble_candidate env fl request = Inr v" using build_cases [OF assms] by simp
  show ?thesis
  proof (cases "cr_validation_gates_report request")
    case None
    then show ?thesis using assemble_fields(1,2) [OF a] by (simp add: resolve_status_def resolve_blocks_def)
  next
    case (Some g)
    have "filter (\<lambda>x. ga_status x = VG_FAILED \<and> ga_severity x = VS_BLOCKER) (gr_gates g) = filter gate_is_blocking (gr_gates g)"
      by (rule filter_cong) (auto simp: gate_is_blocking_def)
    with Some show ?thesis using assemble_fields(1,2,3) [OF a]
      by (cases "gr_candidate_status g") (auto simp: resolve_status_def resolve_blocks_def resolve_blocker_reason_codes_def)
  qed
qed

text \<open>C13: A version is announced if and only if it was saved: when the builder returns, the registry has
  saved the candidate and the platform client has exactly one event more, of type
  DATASET_VERSION_PROPOSED, with redacted metadata, and no other change; when it raises on a valid
  request, either assembling or saving raised and the client is as before.\<close>

theorem candidate_announced_iff_saved:
  assumes "build_candidate_dataset_version env fl ser audit_uuid request (s, Some cl) = (res, s', platform)"
    and "candidate_request_valid fl request"
  shows "case res of
      Inl e \<Rightarrow> platform = Some cl \<and> (assemble_candidate env fl request = Inl e
        \<or> (\<exists>v. registry_save env (candidate_save_args env ser request v) s = (Inl e, s')))
    | Inr (v, art, ev) \<Rightarrow> registry_save env (candidate_save_args env ser request v) s = (Inr art, s')
        \<and> (\<exists>e cl'. ev = Some e \<and> platform = Some cl' \<and> pc_audit_events cl' = pc_audit_events cl @ [e]
            \<and> pc_job_events cl' = pc_job_events cl \<and> pc_artifact_refs cl' = pc_artifact_refs cl
            \<and> pa_event_type e = DATASET_VERSION_PROPOSED \<and> metadata_clean (pa_metadata e))"
proof (cases res)
  case (Inl e)
  then show ?thesis using build_cases [OF assms(1)] assms(2) by auto
next
  case (Inr x)
  obtain v art ev where x: "x = (v, art, ev)" by (cases x)
  have b: "registry_save env (candidate_save_args env ser request v) s = (Inr art, s')"
    "emit_candidate_event env audit_uuid v (ra_artifact_ref art) request (Some cl) = (Inr ev, platform)"
    using build_cases [OF assms(1)] Inr x by simp_all
  from emit_candidate_Inr [OF b(2)] b(1) Inr x show ?thesis by auto
qed

section \<open>Witnesses\<close>

definition sample_empty_plan :: action_plan where
  "sample_empty_plan =
     \<lparr>ap_action_plan_id = ''ap'', ap_plan_schema_version = ''action_plan.v1'', ap_source_dataset_version_id = ''v1'',
      ap_target_version_name = ''cv'', ap_created_from_decision_report = ''dr'', ap_selected_decision_ids = [],
      ap_created_by_user_id = ''u'', ap_policy_version = ''p1'', ap_requires_approval = False,
      ap_approval_request_id = None, ap_execution_mode = APPLY_SELECTED_ACTIONS, ap_steps = [], ap_validation_gates = [],
      ap_expected_outputs = [], ap_created_at = 1\<rparr>"

definition sample_candidate_request :: "rat gates_report option \<Rightarrow> rat candidate_request" where
  "sample_candidate_request g =
     \<lparr>cr_organization_id = ''o'', cr_project_id = ''p'', cr_dataset_id = ''d'', cr_parent_version_id = ''v1'',
      cr_proposed_version_name = ''cv'', cr_action_plan = sample_empty_plan,
      cr_policy_versions = \<lparr>cp_profile_policy_version = ''1'', cp_decision_policy_version = ''1'',
        cp_score_policy_version = ''1'', cp_method_policy_version = ''1'', cp_validation_gates_policy_version = None\<rparr>,
      cr_decision_report_id = None, cr_created_by_job_id = ''j'', cr_config_hash = sha256_of toy_sha [],
      cr_source_artifacts = [sample_ref ''s'' []], cr_candidate_artifacts = [sample_ref ''c'' []],
      cr_primary_dataset_artifact = sample_ref ''c'' [], cr_validation_gates_report = g,
      cr_validation_gates_report_artifact = None, cr_synthetic_dataset_report = None,
      cr_synthetic_dataset_report_artifact = None, cr_synthetic_validation_report_artifact = None,
      cr_model_impact_report_artifact = None, cr_candidate_version_id = None, cr_proposed_at = None\<rparr>"

lemma sample_ref_valid: "artifact_ref_valid (sample_ref ''s'' [])" "artifact_ref_valid (sample_ref ''c'' [])"
proof -
  have "s3_uri (''s3://bkt/tenants/o/p/d/'' @ ''s'')" "s3_uri (''s3://bkt/tenants/o/p/d/'' @ ''c'')" by code_simp+
  then show "artifact_ref_valid (sample_ref ''s'' [])" "artifact_ref_valid (sample_ref ''c'' [])"
    by (simp_all add: artifact_ref_valid_def artifact_lineage_valid_def sample_ref_def non_empty_def)
qed

lemma sample_candidate_request_valid:
  assumes "opt_ok (\<lambda>g. list_all (gate_valid rat_floats) (gr_gates g)) g"
  shows "candidate_request_valid rat_floats (sample_candidate_request g)"
  using assms sample_ref_valid
  by (simp add: candidate_request_valid_def sample_candidate_request_def non_empty_def candidate_policy_versions_valid_def
      action_plan_valid_def sample_empty_plan_def step_dependencies_ok_def)

lemma candidate_well_formed_witness:
  "\<exists>v. assemble_candidate sample_env rat_floats (sample_candidate_request None) = Inr v \<and> candidate_version_valid rat_floats v"
proof -
  have r: "synthetic_ready (sample_candidate_request None)"
    by (simp add: synthetic_ready_def sample_candidate_request_def)
  from candidate_well_formed [OF sample_candidate_request_valid [of None], of sample_env] r show ?thesis
    by (auto split: sum.splits)
qed

lemma sample_candidate_builds:
  assumes "opt_ok (\<lambda>g. list_all (gate_valid rat_floats) (gr_gates g)) g"
  shows "\<exists>v art ev st'. build_candidate_dataset_version sample_env rat_floats ser ''a'' (sample_candidate_request g)
      (sample_store c s, cl) = (Inr (v, art, ev), st')"
proof -
  let ?r = "sample_candidate_request g"
  have ok: "candidate_request_valid rat_floats ?r" by (rule sample_candidate_request_valid [OF assms])
  have "synthetic_ready ?r" by (simp add: synthetic_ready_def sample_candidate_request_def)
  with assemble_iff [OF ok, of sample_env] obtain v where v: "assemble_candidate sample_env rat_floats ?r = Inr v"
    by (auto split: sum.splits)
  have "sample_save_ready (candidate_save_args sample_env ser ?r v)"
    by (simp add: sample_save_ready_def candidate_save_args_def CANDIDATE_DATASET_VERSION_KIND_def
        CANDIDATE_DATASET_VERSION_SCHEMA_VERSION_def sample_candidate_request_def)
  from sample_save_ok [OF this] obtain art st1 where
    art: "registry_save sample_env (candidate_save_args sample_env ser ?r v) (sample_store c s) = (Inr art, st1)" by blast
  obtain em cl' where em: "emit_candidate_event sample_env ''a'' v (ra_artifact_ref art) ?r cl = (em, cl')"
    by (cases "emit_candidate_event sample_env ''a'' v (ra_artifact_ref art) ?r cl")
  have "\<exists>ev. em = Inr ev"
  proof (cases em)
    case (Inl e)
    with emit_candidate_Inl [of sample_env "''a''" v "ra_artifact_ref art" ?r cl e cl' rat_floats] em ok show ?thesis by simp
  qed simp
  then show ?thesis using v art em by (auto simp: build_candidate_dataset_version_def candidate_save_args_def)
qed

lemma candidate_mirrors_gates_witness:
  "\<exists>v art ev st'. build_candidate_dataset_version sample_env rat_floats (\<lambda>_. ''v'') ''a'' (sample_candidate_request None)
      (sample_store [] [], None) = (Inr (v, art, ev), st') \<and> cv_status v = CV_FAILED \<and> cv_block_export v"
proof -
  obtain v art ev st' where b: "build_candidate_dataset_version sample_env rat_floats (\<lambda>_. ''v'') ''a''
      (sample_candidate_request None) (sample_store [] [], None) = (Inr (v, art, ev), st')"
    using sample_candidate_builds [of None "\<lambda>_. ''v''"] by fastforce
  have "cr_validation_gates_report (sample_candidate_request None) = None" by (simp add: sample_candidate_request_def)
  with candidate_mirrors_gates [OF b] b show ?thesis by auto
qed

lemma candidate_announced_iff_saved_witness:
  "\<exists>v art ev s' cl'. build_candidate_dataset_version sample_env rat_floats (\<lambda>_. ''v'') ''a'' (sample_candidate_request None)
      (sample_store [] [], Some new_platform_client) = (Inr (v, art, ev), s', Some cl') \<and> length (pc_audit_events cl') = 1"
proof -
  obtain v art ev s' pl where b: "build_candidate_dataset_version sample_env rat_floats (\<lambda>_. ''v'') ''a''
      (sample_candidate_request None) (sample_store [] [], Some new_platform_client) = (Inr (v, art, ev), s', pl)"
    using sample_candidate_builds [of None "\<lambda>_. ''v''" "[]" "[]" "Some new_platform_client"] by auto
  from candidate_announced_iff_saved [OF b sample_candidate_request_valid] b show ?thesis
    by (auto simp: new_platform_client_def)
qed

end
