(* ===== verification/ExportPackage.thy ===== *)
theory ExportPackage
  imports CandidateVersion
begin

text \<open>
  Export readiness: the package models of \<open>src/app/domain/decision.py\<close> and the builder of
  \<open>src/app/kernel/export_package.py\<close>. Of the model-impact report only its verdict is read, of the
  text/OCR report only two totals.
\<close>

section \<open>Contracts (domain/decision.py, model_impact_report.py, text_ocr.py)\<close>

datatype export_gate_status = EG_PENDING | EG_PASSED | EG_FAILED | EG_NOT_APPLICABLE

datatype export_status = EX_READY | EX_BLOCKED

fun export_status_value :: "export_status \<Rightarrow> string" where
  "export_status_value EX_READY = ''READY''"
| "export_status_value EX_BLOCKED = ''BLOCKED''"

datatype model_impact_verdict = MI_IMPROVED | MI_REQUIRES_REVIEW | MI_DEGRADED | MI_REJECTED

fun verdict_value :: "model_impact_verdict \<Rightarrow> string" where
  "verdict_value MI_IMPROVED = ''improved''"
| "verdict_value MI_REQUIRES_REVIEW = ''requires_review''"
| "verdict_value MI_DEGRADED = ''degraded''"
| "verdict_value MI_REJECTED = ''rejected''"

record text_ocr_totals =
  to_total_pii_record_count :: int
  to_total_redacted_record_count :: int

record export_gate =
  eg_name :: string
  eg_status :: export_gate_status
  eg_reason_codes :: "string list"

record export_object_counts =
  ec_included :: int
  ec_blocked :: int
  ec_excluded :: int

record export_lineage =
  el_parent_version_id :: string
  el_action_plan_id :: "string option"
  el_decision_report_id :: string
  el_config_hash :: string

record export_package =
  ex_export_package_id :: string
  ex_export_schema_version :: string
  ex_dataset_id :: string
  ex_version_id :: string
  ex_source_version_id :: string
  ex_created_by_job_id :: string
  ex_status :: export_status
  ex_artifacts :: "artifact_ref list"
  ex_validation_gates :: "export_gate list"
  ex_object_counts :: export_object_counts
  ex_blocked_reason_codes :: "string list"
  ex_lineage :: export_lineage
  ex_created_at :: datetime

definition export_gate_valid :: "export_gate \<Rightarrow> bool" where
  "export_gate_valid g \<longleftrightarrow> non_empty (eg_name g) \<and> list_all non_empty (eg_reason_codes g)"

definition export_counts_valid :: "export_object_counts \<Rightarrow> bool" where
  "export_counts_valid c \<longleftrightarrow> 0 \<le> ec_included c \<and> 0 \<le> ec_blocked c \<and> 0 \<le> ec_excluded c"

definition export_lineage_valid :: "export_lineage \<Rightarrow> bool" where
  "export_lineage_valid l \<longleftrightarrow>
     non_empty (el_parent_version_id l) \<and> opt_ok non_empty (el_action_plan_id l)
     \<and> non_empty (el_decision_report_id l) \<and> sha256_digest (el_config_hash l)"

definition export_package_valid :: "export_package \<Rightarrow> bool" where
  "export_package_valid p \<longleftrightarrow>
     non_empty (ex_export_package_id p) \<and> non_empty (ex_export_schema_version p) \<and> non_empty (ex_dataset_id p)
     \<and> non_empty (ex_version_id p) \<and> non_empty (ex_source_version_id p) \<and> non_empty (ex_created_by_job_id p)
     \<and> list_all artifact_ref_valid (ex_artifacts p) \<and> list_all export_gate_valid (ex_validation_gates p)
     \<and> export_counts_valid (ex_object_counts p) \<and> list_all non_empty (ex_blocked_reason_codes p)
     \<and> export_lineage_valid (ex_lineage p)"

section \<open>Requests (kernel/export_package.py)\<close>

definition EXPORT_PACKAGE_KIND :: string where
  "EXPORT_PACKAGE_KIND = ''export_package''"

definition EXPORT_PACKAGE_SCHEMA_VERSION :: string where
  "EXPORT_PACKAGE_SCHEMA_VERSION = ''export_package.v1''"

definition GATE_CANDIDATE_VALIDATION :: string where
  "GATE_CANDIDATE_VALIDATION = ''candidate_validation_passed''"

definition GATE_RAW_IMMUTABILITY :: string where
  "GATE_RAW_IMMUTABILITY = ''raw_artifact_immutability''"

definition GATE_VALIDATION_GATES :: string where
  "GATE_VALIDATION_GATES = ''validation_gates_blocker_check''"

definition GATE_PRIVACY_CHECK :: string where
  "GATE_PRIVACY_CHECK = ''privacy_check''"

definition GATE_BLOCKED_OBJECTS_EXCLUDED :: string where
  "GATE_BLOCKED_OBJECTS_EXCLUDED = ''blocked_objects_excluded''"

definition GATE_MODEL_IMPACT :: string where
  "GATE_MODEL_IMPACT = ''model_impact_eligibility''"

definition GATE_REQUIRED_ARTIFACTS :: string where
  "GATE_REQUIRED_ARTIFACTS = ''required_artifacts_present''"

record 'f export_request =
  xr_organization_id :: string
  xr_project_id :: string
  xr_dataset_id :: string
  xr_candidate_dataset_version :: "'f candidate_version"
  xr_validation_gates_report :: "'f gates_report option"
  xr_model_impact_report :: "model_impact_verdict option"
  xr_text_ocr_report :: "text_ocr_totals option"
  xr_decision_report_id :: string
  xr_export_manifest_artifact :: artifact_ref
  xr_tabular_artifacts :: "artifact_ref list"
  xr_text_artifacts :: "artifact_ref list"
  xr_dataset_card_artifact :: "artifact_ref option"
  xr_lineage_artifact :: "artifact_ref option"
  xr_dataforge_report_artifact :: "artifact_ref option"
  xr_review_queue_artifact :: "artifact_ref option"
  xr_extra_artifacts :: "artifact_ref list"
  xr_included_object_count :: int
  xr_blocked_object_count :: int
  xr_excluded_object_count :: int
  xr_require_model_impact_eligibility :: bool
  xr_require_dataset_card :: bool
  xr_require_lineage_artifact :: bool
  xr_created_by_job_id :: string
  xr_config_hash :: string
  xr_export_package_id :: "string option"
  xr_created_at :: "datetime option"

definition export_request_valid :: "'f float_ops \<Rightarrow> 'f export_request \<Rightarrow> bool" where
  "export_request_valid fl r \<longleftrightarrow>
     non_empty (xr_organization_id r) \<and> non_empty (xr_project_id r) \<and> non_empty (xr_dataset_id r)
     \<and> candidate_version_valid fl (xr_candidate_dataset_version r) \<and> non_empty (xr_decision_report_id r)
     \<and> artifact_ref_valid (xr_export_manifest_artifact r) \<and> list_all artifact_ref_valid (xr_tabular_artifacts r)
     \<and> list_all artifact_ref_valid (xr_text_artifacts r) \<and> opt_ok artifact_ref_valid (xr_dataset_card_artifact r)
     \<and> opt_ok artifact_ref_valid (xr_lineage_artifact r) \<and> opt_ok artifact_ref_valid (xr_dataforge_report_artifact r)
     \<and> opt_ok artifact_ref_valid (xr_review_queue_artifact r) \<and> list_all artifact_ref_valid (xr_extra_artifacts r)
     \<and> 0 \<le> xr_included_object_count r \<and> 0 \<le> xr_blocked_object_count r \<and> 0 \<le> xr_excluded_object_count r
     \<and> non_empty (xr_created_by_job_id r) \<and> sha256_digest (xr_config_hash r)"

section \<open>The gates\<close>

text \<open>A gate is the result recorded in the package and the codes it adds to the blockers.\<close>

type_synonym export_gate_result = "export_gate \<times> string list"

definition export_pass :: "string \<Rightarrow> string list \<Rightarrow> export_gate_result" where
  "export_pass name reasons = (\<lparr>eg_name = name, eg_status = EG_PASSED, eg_reason_codes = reasons\<rparr>, [])"

definition export_skip :: "string \<Rightarrow> string \<Rightarrow> export_gate_result" where
  "export_skip name reason = (\<lparr>eg_name = name, eg_status = EG_NOT_APPLICABLE, eg_reason_codes = [reason]\<rparr>, [])"

definition export_fail :: "string \<Rightarrow> string list \<Rightarrow> export_gate_result" where
  "export_fail name reasons = (\<lparr>eg_name = name, eg_status = EG_FAILED, eg_reason_codes = reasons\<rparr>, reasons)"

definition candidate_validation_gate :: "'f candidate_version \<Rightarrow> export_gate_result" where
  "candidate_validation_gate candidate =
     (if cv_block_export candidate
      then export_fail GATE_CANDIDATE_VALIDATION
        (if cv_blocker_reason_codes candidate = [] then [''candidate_block_export_flag''] else cv_blocker_reason_codes candidate)
      else export_pass GATE_CANDIDATE_VALIDATION [])"

definition raw_artifact_unchanged :: "'f candidate_version \<Rightarrow> 'f gates_report option \<Rightarrow> bool option" where
  "raw_artifact_unchanged candidate gates_report =
     (case gates_report of
        Some g \<Rightarrow> Some (gr_raw_artifact_unchanged g)
      | None \<Rightarrow> (case dict_get (cv_validation_gates_summary candidate) ''raw_artifact_unchanged'' of
                   Some (JBool raw) \<Rightarrow> Some raw
                 | _ \<Rightarrow> None))"

definition raw_immutability_gate :: "'f export_request \<Rightarrow> export_gate_result" where
  "raw_immutability_gate request =
     (case raw_artifact_unchanged (xr_candidate_dataset_version request) (xr_validation_gates_report request) of
        Some False \<Rightarrow> export_fail GATE_RAW_IMMUTABILITY [''raw_artifact_changed'']
      | Some True \<Rightarrow> export_pass GATE_RAW_IMMUTABILITY []
      | None \<Rightarrow> export_skip GATE_RAW_IMMUTABILITY ''raw_artifact_unchanged_unknown'')"

definition validation_gates_gate :: "'f gates_report option \<Rightarrow> export_gate_result" where
  "validation_gates_gate report =
     (case report of
        None \<Rightarrow> export_skip GATE_VALIDATION_GATES ''validation_gates_report_not_provided''
      | Some g \<Rightarrow>
          if gr_blocker_present g
          then export_fail GATE_VALIDATION_GATES
            (if gr_blocker_gate_types g = [] then [''validation_gates_blocker_present'']
             else map gate_type_value (gr_blocker_gate_types g))
          else export_pass GATE_VALIDATION_GATES [])"

definition export_privacy_gate :: "text_ocr_totals option \<Rightarrow> export_gate_result" where
  "export_privacy_gate report =
     (case report of
        None \<Rightarrow> export_skip GATE_PRIVACY_CHECK ''text_ocr_report_not_provided''
      | Some r \<Rightarrow>
          if 0 < max 0 (to_total_pii_record_count r - to_total_redacted_record_count r)
          then export_fail GATE_PRIVACY_CHECK [''pii_unmasked'']
          else export_pass GATE_PRIVACY_CHECK [])"

definition blocked_objects_gate :: "int \<Rightarrow> export_gate_result" where
  "blocked_objects_gate blocked_object_count =
     (if 0 < blocked_object_count then export_fail GATE_BLOCKED_OBJECTS_EXCLUDED [''blocked_objects_present'']
      else export_pass GATE_BLOCKED_OBJECTS_EXCLUDED [])"

definition model_impact_gate :: "model_impact_verdict option \<Rightarrow> bool \<Rightarrow> export_gate_result" where
  "model_impact_gate report require_eligibility =
     (case report of
        None \<Rightarrow>
          if require_eligibility then export_fail GATE_MODEL_IMPACT [''model_impact_report_required'']
          else export_skip GATE_MODEL_IMPACT ''model_impact_report_not_provided''
      | Some verdict \<Rightarrow>
          if verdict = MI_REJECTED then export_fail GATE_MODEL_IMPACT [''model_impact_rejected'']
          else if verdict = MI_DEGRADED then export_fail GATE_MODEL_IMPACT [''model_impact_degraded'']
          else export_pass GATE_MODEL_IMPACT [verdict_value verdict])"

definition missing_required_artifacts :: "'f export_request \<Rightarrow> string list" where
  "missing_required_artifacts request =
     (if xr_require_dataset_card request \<and> xr_dataset_card_artifact request = None
      then [''dataset_card_artifact_missing''] else [])
     @ (if xr_require_lineage_artifact request \<and> xr_lineage_artifact request = None
        then [''lineage_artifact_missing''] else [])"

definition required_artifacts_gate :: "'f export_request \<Rightarrow> export_gate_result" where
  "required_artifacts_gate request =
     (if missing_required_artifacts request \<noteq> []
      then export_fail GATE_REQUIRED_ARTIFACTS (missing_required_artifacts request)
      else export_pass GATE_REQUIRED_ARTIFACTS [])"

text \<open>\<open>_ordered_unique\<close> of this module drops empty codes.\<close>

definition ordered_unique_codes :: "string list \<Rightarrow> string list" where
  "ordered_unique_codes values = ordered_unique_present (map Some values)"

definition evaluate_export_gates :: "'f export_request \<Rightarrow> export_gate list \<times> string list" where
  "evaluate_export_gates request =
     (let results =
        [candidate_validation_gate (xr_candidate_dataset_version request),
         raw_immutability_gate request,
         validation_gates_gate (xr_validation_gates_report request),
         export_privacy_gate (xr_text_ocr_report request),
         blocked_objects_gate (xr_blocked_object_count request),
         model_impact_gate (xr_model_impact_report request) (xr_require_model_impact_eligibility request),
         required_artifacts_gate request]
      in (map fst results, ordered_unique_codes (concat (map snd results))))"

section \<open>The package\<close>

fun unique_by_uri :: "string list \<Rightarrow> artifact_ref list \<Rightarrow> artifact_ref list" where
  "unique_by_uri seen [] = []"
| "unique_by_uri seen (ref # refs) =
     (if ar_uri ref \<in> set seen then unique_by_uri seen refs else ref # unique_by_uri (ar_uri ref # seen) refs)"

definition opt_list :: "'a option \<Rightarrow> 'a list" where
  "opt_list v = (case v of None \<Rightarrow> [] | Some x \<Rightarrow> [x])"

definition resolve_artifacts :: "'f export_request \<Rightarrow> bool \<Rightarrow> artifact_ref list" where
  "resolve_artifacts request blocked =
     (if blocked then [xr_export_manifest_artifact request]
      else unique_by_uri []
        ([xr_export_manifest_artifact request] @ xr_tabular_artifacts request @ xr_text_artifacts request
         @ opt_list (xr_dataset_card_artifact request) @ opt_list (xr_lineage_artifact request)
         @ opt_list (xr_dataforge_report_artifact request) @ opt_list (xr_review_queue_artifact request)
         @ xr_extra_artifacts request))"

definition assemble_export :: "'s builder_env \<Rightarrow> 'f export_request \<Rightarrow> exn + export_package" where
  "assemble_export env request =
     (let (gates, blocker_codes) = evaluate_export_gates request;
          blocked = (blocker_codes \<noteq> []);
          candidate = xr_candidate_dataset_version request
      in bindR (mapR (validated export_gate_valid) gates) (\<lambda>gates.
         bindR (validated export_counts_valid
           \<lparr>ec_included = (if blocked then 0 else xr_included_object_count request),
            ec_blocked = xr_blocked_object_count request, ec_excluded = xr_excluded_object_count request\<rparr>) (\<lambda>counts.
         bindR (validated export_lineage_valid
           \<lparr>el_parent_version_id = cl_parent_version_id (cv_lineage candidate),
            el_action_plan_id = Some (cl_action_plan_id (cv_lineage candidate)),
            el_decision_report_id = xr_decision_report_id request, el_config_hash = xr_config_hash request\<rparr>) (\<lambda>lineage.
         validated export_package_valid
           \<lparr>ex_export_package_id = fresh_id (xr_export_package_id request) (''export_package_'' @ se_uuid env),
            ex_export_schema_version = EXPORT_PACKAGE_SCHEMA_VERSION, ex_dataset_id = xr_dataset_id request,
            ex_version_id = cl_proposed_version_name (cv_lineage candidate),
            ex_source_version_id = cl_parent_version_id (cv_lineage candidate),
            ex_created_by_job_id = xr_created_by_job_id request,
            ex_status = (if blocked then EX_BLOCKED else EX_READY),
            ex_artifacts = resolve_artifacts request blocked, ex_validation_gates = gates, ex_object_counts = counts,
            ex_blocked_reason_codes = blocker_codes, ex_lineage = lineage,
            ex_created_at = (case xr_created_at request of Some t \<Rightarrow> t | None \<Rightarrow> se_now env)\<rparr>))))"

definition export_metadata :: "'s builder_env \<Rightarrow> export_package \<Rightarrow> metadata" where
  "export_metadata env package =
     [(''export-package-id'', ex_export_package_id package),
      (''export-status'', export_status_value (ex_status package)),
      (''version-id'', ex_version_id package),
      (''source-version-id'', ex_source_version_id package),
      (''blocker-count'', str_of_nat (length (ex_blocked_reason_codes package))),
      (''created-at'', se_iso env (ex_created_at package))]"

text \<open>
  \<open>ser\<close> is \<open>_serialize\<close>. The result is the package and its artifact; the flags \<open>blocked\<close> and
  \<open>blocker_reason_codes\<close> of the result are those of the package.
\<close>

definition build_export_package ::
    "'s builder_env \<Rightarrow> (export_package \<Rightarrow> string) \<Rightarrow> 'f export_request \<Rightarrow> 's
     \<Rightarrow> (exn + (export_package \<times> registered_artifact)) \<times> 's" where
  "build_export_package env ser request st =
     (case assemble_export env request of
        Inl e \<Rightarrow> (Inl e, st)
      | Inr package \<Rightarrow>
          let (res, st') = registry_save env
                \<lparr>sv_artifact_kind = EXPORT_PACKAGE_KIND, sv_data = ser package, sv_artifact_format = ''json'',
                 sv_media_type = ''application/json'', sv_schema_version = EXPORT_PACKAGE_SCHEMA_VERSION,
                 sv_dataset_version_id = ex_version_id package, sv_created_by_job_id = xr_created_by_job_id request,
                 sv_config_hash = xr_config_hash request, sv_metadata = export_metadata env package\<rparr> st
          in (bindR res (\<lambda>artifact. Inr (package, artifact)), st'))"

section \<open>What the gates decide\<close>

lemmas export_gate_defs = candidate_validation_gate_def raw_immutability_gate_def validation_gates_gate_def
  export_privacy_gate_def blocked_objects_gate_def model_impact_gate_def required_artifacts_gate_def
  export_pass_def export_skip_def export_fail_def

text \<open>A gate fails exactly when it adds blocker codes, and those are its reasons.\<close>

definition gate_consistent :: "export_gate_result \<Rightarrow> bool" where
  "gate_consistent g \<longleftrightarrow>
     (if eg_status (fst g) = EG_FAILED then snd g = eg_reason_codes (fst g) \<and> snd g \<noteq> [] else snd g = [])"

lemma export_gates_consistent:
  "gate_consistent (candidate_validation_gate c)" "gate_consistent (raw_immutability_gate request)"
  "gate_consistent (validation_gates_gate g)" "gate_consistent (export_privacy_gate t)"
  "gate_consistent (blocked_objects_gate n)" "gate_consistent (model_impact_gate v b)"
  "gate_consistent (required_artifacts_gate request)"
  by (auto simp: gate_consistent_def export_gate_defs split: option.splits bool.splits)

definition export_codes :: "'f export_request \<Rightarrow> string list" where
  "export_codes request = snd (evaluate_export_gates request)"

definition export_gates :: "'f export_request \<Rightarrow> export_gate list" where
  "export_gates request = fst (evaluate_export_gates request)"

lemma export_gates_names:
  "map eg_name (export_gates request) =
     [GATE_CANDIDATE_VALIDATION, GATE_RAW_IMMUTABILITY, GATE_VALIDATION_GATES, GATE_PRIVACY_CHECK,
      GATE_BLOCKED_OBJECTS_EXCLUDED, GATE_MODEL_IMPACT, GATE_REQUIRED_ARTIFACTS]"
  by (simp add: export_gates_def evaluate_export_gates_def export_gate_defs split: option.splits bool.splits)

lemma export_results:
  "\<exists>results. export_gates request = map fst results \<and> export_codes request = ordered_unique_codes (concat (map snd results))
     \<and> list_all gate_consistent results"
proof -
  let ?rs = "[candidate_validation_gate (xr_candidate_dataset_version request), raw_immutability_gate request,
    validation_gates_gate (xr_validation_gates_report request), export_privacy_gate (xr_text_ocr_report request),
    blocked_objects_gate (xr_blocked_object_count request),
    model_impact_gate (xr_model_impact_report request) (xr_require_model_impact_eligibility request), required_artifacts_gate request]"
  have "export_gates request = map fst ?rs" "export_codes request = ordered_unique_codes (concat (map snd ?rs))"
    by (simp_all add: export_gates_def export_codes_def evaluate_export_gates_def Let_def)
  moreover have "list_all gate_consistent ?rs" by (simp add: export_gates_consistent)
  ultimately show ?thesis by blast
qed

lemma set_ordered_unique_codes: "set (ordered_unique_codes vs) = {v. v \<in> set vs \<and> v \<noteq> []}"
  by (auto simp: ordered_unique_codes_def set_ordered_unique_present)

text \<open>With non-empty reasons, a code is a blocker exactly when it is a reason of a failed gate.\<close>

lemma export_codes_set:
  assumes "list_all export_gate_valid (export_gates request)"
  shows "set (export_codes request) = {c. \<exists>g \<in> set (export_gates request). eg_status g = EG_FAILED \<and> c \<in> set (eg_reason_codes g)}"
    and "export_codes request = [] \<longleftrightarrow> (\<forall>g \<in> set (export_gates request). eg_status g \<noteq> EG_FAILED)"
proof -
  obtain rs where rs: "export_gates request = map fst rs" "export_codes request = ordered_unique_codes (concat (map snd rs))"
    "list_all gate_consistent rs" using export_results by blast
  have snd_rs: "set (snd x) = (if eg_status (fst x) = EG_FAILED then set (eg_reason_codes (fst x)) else {})"
    "eg_status (fst x) = EG_FAILED \<Longrightarrow> eg_reason_codes (fst x) \<noteq> []" if "x \<in> set rs" for x
    using rs(3) that by (auto simp: list_all_iff gate_consistent_def split: if_splits)
  have ne: "c \<noteq> []" if "g \<in> set (export_gates request)" "c \<in> set (eg_reason_codes g)" for g c
    using assms that by (auto simp: list_all_iff export_gate_valid_def non_empty_def)
  show s: "set (export_codes request) = {c. \<exists>g \<in> set (export_gates request). eg_status g = EG_FAILED \<and> c \<in> set (eg_reason_codes g)}"
  proof (intro set_eqI iffI)
    fix c assume "c \<in> set (export_codes request)"
    then obtain x where "x \<in> set rs" "c \<in> set (snd x)" unfolding rs(2) set_ordered_unique_codes by auto
    with snd_rs(1) rs(1) show "c \<in> {c. \<exists>g \<in> set (export_gates request). eg_status g = EG_FAILED \<and> c \<in> set (eg_reason_codes g)}"
      by (auto split: if_splits)
  next
    fix c assume "c \<in> {c. \<exists>g \<in> set (export_gates request). eg_status g = EG_FAILED \<and> c \<in> set (eg_reason_codes g)}"
    then obtain x where x: "x \<in> set rs" "eg_status (fst x) = EG_FAILED" "c \<in> set (eg_reason_codes (fst x))"
      unfolding rs(1) by auto
    then have "c \<in> set (snd x)" "c \<noteq> []" using snd_rs(1) [of x] ne [of "fst x" c] rs(1) by auto
    with x(1) show "c \<in> set (export_codes request)" unfolding rs(2) set_ordered_unique_codes by auto
  qed
  show "export_codes request = [] \<longleftrightarrow> (\<forall>g \<in> set (export_gates request). eg_status g \<noteq> EG_FAILED)"
  proof
    assume e: "export_codes request = []"
    show "\<forall>g \<in> set (export_gates request). eg_status g \<noteq> EG_FAILED"
    proof
      fix g assume g: "g \<in> set (export_gates request)"
      then obtain x where "x \<in> set rs" "g = fst x" unfolding rs(1) by auto
      with snd_rs(2) [of x] s e g show "eg_status g \<noteq> EG_FAILED"
        by (metis (mono_tags, lifting) empty_iff empty_set last_in_set mem_Collect_eq)
    qed
  next
    assume "\<forall>g \<in> set (export_gates request). eg_status g \<noteq> EG_FAILED"
    then have "set (export_codes request) = {}" unfolding s by auto
    then show "export_codes request = []" by simp
  qed
qed

lemma assemble_export_fields:
  assumes "assemble_export env request = Inr p"
  shows "ex_status p = (if export_codes request \<noteq> [] then EX_BLOCKED else EX_READY)"
    "ex_blocked_reason_codes p = export_codes request" "ex_validation_gates p = export_gates request"
    "ex_artifacts p = resolve_artifacts request (export_codes request \<noteq> [])"
    "ec_included (ex_object_counts p) = (if export_codes request \<noteq> [] then 0 else xr_included_object_count request)"
    "list_all export_gate_valid (export_gates request)" "export_package_valid p"
proof -
  obtain gates codes where e: "evaluate_export_gates request = (gates, codes)" by (cases "evaluate_export_gates request")
  have c: "export_codes request = codes" "export_gates request = gates" by (simp_all add: export_codes_def export_gates_def e)
  from assms e obtain gates' counts lineage where
    g: "mapR (validated export_gate_valid) gates = Inr gates'" and
    n: "counts = \<lparr>ec_included = (if codes \<noteq> [] then 0 else xr_included_object_count request),
            ec_blocked = xr_blocked_object_count request, ec_excluded = xr_excluded_object_count request\<rparr>" and
    p: "ex_status p = (if codes \<noteq> [] then EX_BLOCKED else EX_READY)" "ex_blocked_reason_codes p = codes"
      "ex_validation_gates p = gates'" "ex_artifacts p = resolve_artifacts request (codes \<noteq> [])" "ex_object_counts p = counts"
      "export_package_valid p"
    by (auto simp: assemble_export_def Let_def result_simps)
  have "list_all2 (\<lambda>x y. export_gate_valid x \<and> y = x) gates gates'" using g by (simp add: mapR_Inr_iff validated_Inr_iff)
  then have "gates' = gates \<and> list_all export_gate_valid gates"
    by (induction rule: list_all2_induct) auto
  then show "ex_status p = (if export_codes request \<noteq> [] then EX_BLOCKED else EX_READY)"
    "ex_blocked_reason_codes p = export_codes request" "ex_validation_gates p = export_gates request"
    "ex_artifacts p = resolve_artifacts request (export_codes request \<noteq> [])"
    "ec_included (ex_object_counts p) = (if export_codes request \<noteq> [] then 0 else xr_included_object_count request)"
    "list_all export_gate_valid (export_gates request)" "export_package_valid p"
    using p n c by simp_all
qed

lemma build_export_Inr:
  assumes "build_export_package env ser request st = (Inr (p, art), st')"
  shows "assemble_export env request = Inr p"
  using assms by (auto simp: build_export_package_def Let_def result_simps split: sum.splits prod.splits)

lemma fst_gate_failed [simp]:
  "eg_status (fst (export_pass n rs)) = EG_PASSED" "eg_status (fst (export_skip n r)) = EG_NOT_APPLICABLE"
  "eg_status (fst (export_fail n rs)) = EG_FAILED"
  by (simp_all add: export_pass_def export_skip_def export_fail_def)

lemma some_gate_failed:
  "(\<forall>g \<in> set (export_gates request). eg_status g \<noteq> EG_FAILED) \<longleftrightarrow>
     \<not> cv_block_export (xr_candidate_dataset_version request)
     \<and> raw_artifact_unchanged (xr_candidate_dataset_version request) (xr_validation_gates_report request) \<noteq> Some False
     \<and> (\<forall>g. xr_validation_gates_report request = Some g \<longrightarrow> \<not> gr_blocker_present g)
     \<and> (\<forall>t. xr_text_ocr_report request = Some t \<longrightarrow> to_total_pii_record_count t \<le> to_total_redacted_record_count t)
     \<and> xr_blocked_object_count request \<le> 0
     \<and> (case xr_model_impact_report request of None \<Rightarrow> \<not> xr_require_model_impact_eligibility request
          | Some v \<Rightarrow> v \<in> {MI_IMPROVED, MI_REQUIRES_REVIEW})
     \<and> (xr_require_dataset_card request \<longrightarrow> xr_dataset_card_artifact request \<noteq> None)
     \<and> (xr_require_lineage_artifact request \<longrightarrow> xr_lineage_artifact request \<noteq> None)"
proof -
  have c: "eg_status (fst (candidate_validation_gate c)) \<noteq> EG_FAILED \<longleftrightarrow> \<not> cv_block_export c" for c :: "'a candidate_version"
    by (simp add: candidate_validation_gate_def)
  have r: "eg_status (fst (raw_immutability_gate request)) \<noteq> EG_FAILED \<longleftrightarrow>
      raw_artifact_unchanged (xr_candidate_dataset_version request) (xr_validation_gates_report request) \<noteq> Some False"
    by (simp add: raw_immutability_gate_def split: option.splits bool.splits)
  have v: "eg_status (fst (validation_gates_gate g)) \<noteq> EG_FAILED \<longleftrightarrow> (\<forall>x. g = Some x \<longrightarrow> \<not> gr_blocker_present x)"
    for g :: "'a gates_report option" by (simp add: validation_gates_gate_def split: option.splits)
  have t: "eg_status (fst (export_privacy_gate t)) \<noteq> EG_FAILED \<longleftrightarrow>
      (\<forall>x. t = Some x \<longrightarrow> to_total_pii_record_count x \<le> to_total_redacted_record_count x)" for t
    by (auto simp: export_privacy_gate_def split: option.splits)
  have b: "eg_status (fst (blocked_objects_gate n)) \<noteq> EG_FAILED \<longleftrightarrow> n \<le> 0" for n
    by (simp add: blocked_objects_gate_def)
  have m: "eg_status (fst (model_impact_gate v q)) \<noteq> EG_FAILED \<longleftrightarrow>
      (case v of None \<Rightarrow> \<not> q | Some x \<Rightarrow> x \<in> {MI_IMPROVED, MI_REQUIRES_REVIEW})" for v q
    by (auto simp: model_impact_gate_def split: option.splits model_impact_verdict.splits intro: model_impact_verdict.exhaust)
  have a: "eg_status (fst (required_artifacts_gate request)) \<noteq> EG_FAILED \<longleftrightarrow>
      (xr_require_dataset_card request \<longrightarrow> xr_dataset_card_artifact request \<noteq> None)
      \<and> (xr_require_lineage_artifact request \<longrightarrow> xr_lineage_artifact request \<noteq> None)"
    by (auto simp: required_artifacts_gate_def missing_required_artifacts_def split: if_splits)
  show ?thesis
    by (simp only: export_gates_def evaluate_export_gates_def Let_def fst_conv list.map list.set ball_simps insert_iff
        c r v t b m a) simp
qed

text \<open>C15: A package is READY exactly under the documented conditions: the candidate does not block export,
  its raw artifact is not known to have changed, the gates report, if given, has no blocker, no personal
  record is left unmasked, no blocked object is included, the model-impact verdict, if given or
  required, is neither REJECTED nor DEGRADED, and the required card and lineage are there.\<close>

theorem export_ready_iff:
  assumes "build_export_package env ser request st = (Inr (p, art), st')"
  shows "ex_status p = EX_READY \<longleftrightarrow>
     \<not> cv_block_export (xr_candidate_dataset_version request)
     \<and> raw_artifact_unchanged (xr_candidate_dataset_version request) (xr_validation_gates_report request) \<noteq> Some False
     \<and> (\<forall>g. xr_validation_gates_report request = Some g \<longrightarrow> \<not> gr_blocker_present g)
     \<and> (\<forall>t. xr_text_ocr_report request = Some t \<longrightarrow> to_total_pii_record_count t \<le> to_total_redacted_record_count t)
     \<and> xr_blocked_object_count request \<le> 0
     \<and> (case xr_model_impact_report request of None \<Rightarrow> \<not> xr_require_model_impact_eligibility request
          | Some v \<Rightarrow> v \<in> {MI_IMPROVED, MI_REQUIRES_REVIEW})
     \<and> (xr_require_dataset_card request \<longrightarrow> xr_dataset_card_artifact request \<noteq> None)
     \<and> (xr_require_lineage_artifact request \<longrightarrow> xr_lineage_artifact request \<noteq> None)"
  using assemble_export_fields(1,6) [OF build_export_Inr [OF assms]] export_codes_set(2) [of request] some_gate_failed [of request]
  by auto

lemma unique_by_uri_uris:
  "set (map ar_uri (unique_by_uri seen refs)) = set (map ar_uri refs) - set seen
   \<and> distinct (map ar_uri (unique_by_uri seen refs)) \<and> set (unique_by_uri seen refs) \<subseteq> set refs"
  by (induction seen refs rule: unique_by_uri.induct) auto

text \<open>A package carries its evidence and nothing more: a BLOCKED one lists the export manifest alone,
  counts no included object, and its blocker codes are the reasons of its failed gates, once each and
  at least one; a READY one has no blocker code, the manifest first, and every artifact of the request
  once by address, each of them one that was passed in. Every package reports the same seven gates.\<close>

theorem export_package_evidence:
  assumes "build_export_package env ser request st = (Inr (p, art), st')"
  shows "map eg_name (ex_validation_gates p) =
      [GATE_CANDIDATE_VALIDATION, GATE_RAW_IMMUTABILITY, GATE_VALIDATION_GATES, GATE_PRIVACY_CHECK,
       GATE_BLOCKED_OBJECTS_EXCLUDED, GATE_MODEL_IMPACT, GATE_REQUIRED_ARTIFACTS]
    \<and> distinct (ex_blocked_reason_codes p)
    \<and> set (ex_blocked_reason_codes p) =
        {c. \<exists>g \<in> set (ex_validation_gates p). eg_status g = EG_FAILED \<and> c \<in> set (eg_reason_codes g)}
    \<and> (if ex_status p = EX_BLOCKED
       then ex_artifacts p = [xr_export_manifest_artifact request] \<and> ec_included (ex_object_counts p) = 0
         \<and> ex_blocked_reason_codes p \<noteq> []
       else ex_blocked_reason_codes p = [] \<and> ec_included (ex_object_counts p) = xr_included_object_count request
         \<and> hd (ex_artifacts p) = xr_export_manifest_artifact request \<and> distinct (map ar_uri (ex_artifacts p))
         \<and> (let given = xr_export_manifest_artifact request # xr_tabular_artifacts request @ xr_text_artifacts request
                 @ opt_list (xr_dataset_card_artifact request) @ opt_list (xr_lineage_artifact request)
                 @ opt_list (xr_dataforge_report_artifact request) @ opt_list (xr_review_queue_artifact request)
                 @ xr_extra_artifacts request
            in set (ex_artifacts p) \<subseteq> set given \<and> ar_uri ` set (ex_artifacts p) = ar_uri ` set given))"
proof -
  note f = assemble_export_fields [OF build_export_Inr [OF assms]]
  have d: "distinct (export_codes request)"
    by (simp add: export_codes_def evaluate_export_gates_def Let_def ordered_unique_codes_def distinct_ordered_unique_present)
  let ?given = "xr_export_manifest_artifact request # xr_tabular_artifacts request @ xr_text_artifacts request
     @ opt_list (xr_dataset_card_artifact request) @ opt_list (xr_lineage_artifact request)
     @ opt_list (xr_dataforge_report_artifact request) @ opt_list (xr_review_queue_artifact request)
     @ xr_extra_artifacts request"
  have uq: "set (map ar_uri (unique_by_uri [] refs)) = set (map ar_uri refs)" "distinct (map ar_uri (unique_by_uri [] refs))"
    "set (unique_by_uri [] refs) \<subseteq> set refs" for refs
    using unique_by_uri_uris [of "[]" refs] by simp_all
  note u = uq [of ?given]
  have names: "map eg_name (ex_validation_gates p) =
      [GATE_CANDIDATE_VALIDATION, GATE_RAW_IMMUTABILITY, GATE_VALIDATION_GATES, GATE_PRIVACY_CHECK,
       GATE_BLOCKED_OBJECTS_EXCLUDED, GATE_MODEL_IMPACT, GATE_REQUIRED_ARTIFACTS]"
    using export_gates_names f(3) by simp
  have codes: "distinct (ex_blocked_reason_codes p)" "set (ex_blocked_reason_codes p) =
      {c. \<exists>g \<in> set (ex_validation_gates p). eg_status g = EG_FAILED \<and> c \<in> set (eg_reason_codes g)}"
    using d export_codes_set(1) [OF f(6)] f(2,3) by simp_all
  show ?thesis
  proof (cases "export_codes request = []")
    case True
    then have s: "ex_status p \<noteq> EX_BLOCKED" "ex_blocked_reason_codes p = []" and a: "ex_artifacts p = unique_by_uri [] ?given"
      and n: "ec_included (ex_object_counts p) = xr_included_object_count request"
      using f(1,2,4,5) by (simp_all add: resolve_artifacts_def)
    have "hd (ex_artifacts p) = xr_export_manifest_artifact request" using a by simp
    moreover have "distinct (map ar_uri (ex_artifacts p))" using a u(2) by simp
    moreover have "set (ex_artifacts p) \<subseteq> set ?given \<and> ar_uri ` set (ex_artifacts p) = ar_uri ` set ?given"
      using u(1,3) unfolding a set_map by blast
    ultimately show ?thesis using names codes s n unfolding Let_def if_not_P [OF s(1)] by blast
  next
    case False
    then have s: "ex_status p = EX_BLOCKED" "ex_blocked_reason_codes p \<noteq> []" "ec_included (ex_object_counts p) = 0"
      "ex_artifacts p = [xr_export_manifest_artifact request]"
      using f(1,2,4,5) by (simp_all add: resolve_artifacts_def)
    show ?thesis using names codes s unfolding if_P [OF s(1)] by blast
  qed
qed

lemma gate_type_value_ne: "gate_type_value g \<noteq> []"
  by (cases g) simp_all

lemma verdict_value_ne: "verdict_value v \<noteq> []"
  by (cases v) simp_all

lemma export_gates_valid:
  assumes "export_request_valid fl request" shows "list_all export_gate_valid (export_gates request)"
proof -
  have codes: "list_all non_empty (cv_blocker_reason_codes (xr_candidate_dataset_version request))"
    using assms by (simp add: export_request_valid_def candidate_version_valid_def)
  note defs = export_gate_valid_def export_gate_defs non_empty_def
  have "export_gate_valid (fst (candidate_validation_gate (xr_candidate_dataset_version request)))"
    using codes by (simp add: defs GATE_CANDIDATE_VALIDATION_def)
  moreover have "export_gate_valid (fst (raw_immutability_gate request))"
    by (simp add: defs GATE_RAW_IMMUTABILITY_def split: option.splits bool.splits)
  moreover have "export_gate_valid (fst (validation_gates_gate (xr_validation_gates_report request)))"
    by (simp add: defs GATE_VALIDATION_GATES_def gate_type_value_ne list_all_iff split: option.splits)
  moreover have "export_gate_valid (fst (export_privacy_gate (xr_text_ocr_report request)))"
    by (simp add: defs GATE_PRIVACY_CHECK_def split: option.splits)
  moreover have "export_gate_valid (fst (blocked_objects_gate (xr_blocked_object_count request)))"
    by (simp add: defs GATE_BLOCKED_OBJECTS_EXCLUDED_def)
  moreover have "export_gate_valid (fst (model_impact_gate (xr_model_impact_report request) (xr_require_model_impact_eligibility request)))"
    by (simp add: defs GATE_MODEL_IMPACT_def verdict_value_ne split: option.splits)
  moreover have "export_gate_valid (fst (required_artifacts_gate request))"
    by (simp add: defs GATE_REQUIRED_ARTIFACTS_def missing_required_artifacts_def)
  ultimately show ?thesis by (simp add: export_gates_def evaluate_export_gates_def Let_def)
qed

lemma opt_list_all [simp]: "list_all P (opt_list v) = opt_ok P v"
  by (cases v) (simp_all add: opt_list_def)

lemma resolve_artifacts_valid:
  assumes "export_request_valid fl request" shows "list_all artifact_ref_valid (resolve_artifacts request blocked)"
proof -
  let ?given = "[xr_export_manifest_artifact request] @ xr_tabular_artifacts request @ xr_text_artifacts request
     @ opt_list (xr_dataset_card_artifact request) @ opt_list (xr_lineage_artifact request)
     @ opt_list (xr_dataforge_report_artifact request) @ opt_list (xr_review_queue_artifact request)
     @ xr_extra_artifacts request"
  have "list_all artifact_ref_valid ?given" using assms by (simp add: export_request_valid_def)
  then have "list_all artifact_ref_valid (unique_by_uri [] ?given)"
    using unique_by_uri_uris [of "[]" ?given] unfolding list_all_iff by blast
  then show ?thesis using assms by (simp add: resolve_artifacts_def export_request_valid_def)
qed

lemma assemble_export_total:
  assumes "export_request_valid fl request"
  shows "\<exists>p. assemble_export env request = Inr p
    \<and> ex_version_id p = cl_proposed_version_name (cv_lineage (xr_candidate_dataset_version request))"
proof -
  obtain gates codes where e: "evaluate_export_gates request = (gates, codes)" by (cases "evaluate_export_gates request")
  have g: "list_all export_gate_valid gates" using export_gates_valid [OF assms] by (simp add: export_gates_def e)
  then have m: "mapR (validated export_gate_valid) gates = Inr gates"
    using mapR_all_ok [of gates "validated export_gate_valid" "\<lambda>g. g"] by (simp add: list_all_iff)
  have codes: "list_all non_empty codes"
    using set_ordered_unique_codes e by (auto simp: evaluate_export_gates_def Let_def list_all_iff non_empty_def)
  have cand: "candidate_lineage_valid (cv_lineage (xr_candidate_dataset_version request))"
    using assms by (simp add: export_request_valid_def candidate_version_valid_def)
  have id: "non_empty (fresh_id i (''export_package_'' @ x))" for i x
    by (simp add: fresh_id_def non_empty_def split: option.splits)
  show ?thesis
    using assms m g codes cand id resolve_artifacts_valid [OF assms]
    by (simp add: assemble_export_def e Let_def export_counts_valid_def export_lineage_valid_def export_package_valid_def
        export_request_valid_def candidate_lineage_valid_def EXPORT_PACKAGE_SCHEMA_VERSION_def
        non_empty_def [of "''export_package.v1''"])
qed

definition export_save_args :: "'s builder_env \<Rightarrow> (export_package \<Rightarrow> string) \<Rightarrow> 'f export_request \<Rightarrow> export_package \<Rightarrow> save_args" where
  "export_save_args env ser request p =
     \<lparr>sv_artifact_kind = EXPORT_PACKAGE_KIND, sv_data = ser p, sv_artifact_format = ''json'',
      sv_media_type = ''application/json'', sv_schema_version = EXPORT_PACKAGE_SCHEMA_VERSION,
      sv_dataset_version_id = ex_version_id p, sv_created_by_job_id = xr_created_by_job_id request,
      sv_config_hash = xr_config_hash request, sv_metadata = export_metadata env p\<rparr>"

lemma build_export_eq:
  "assemble_export env request = Inr p \<Longrightarrow> build_export_package env ser request st =
     (bindR (fst (registry_save env (export_save_args env ser request p) st)) (\<lambda>art. Inr (p, art)),
      snd (registry_save env (export_save_args env ser request p) st))"
  by (simp add: build_export_package_def export_save_args_def Let_def split: prod.splits)

text \<open>No evidence is lost to an error: from a valid request a package that satisfies its contract is
  always assembled, blocked or not, and handed to the registry, so that only the registry can make
  the builder raise.\<close>

theorem export_always_packaged:
  assumes "export_request_valid fl request"
  shows "\<exists>p. assemble_export env request = Inr p \<and> export_package_valid p
    \<and> build_export_package env ser request st =
         (bindR (fst (registry_save env (export_save_args env ser request p) st)) (\<lambda>art. Inr (p, art)),
          snd (registry_save env (export_save_args env ser request p) st))"
proof -
  obtain p where p: "assemble_export env request = Inr p" using assemble_export_total [OF assms, of env] by blast
  show ?thesis by (intro exI [of _ p] conjI p assemble_export_fields(7) [OF p] build_export_eq [OF p])
qed

section \<open>Witnesses\<close>

text \<open>A report without a failed gate, a candidate proposed on it, and its export.\<close>

definition sample_ok_gates :: "rat gates_report" where
  "sample_ok_gates =
     \<lparr>gr_report_id = ''r'', gr_report_schema_version = ''v1'', gr_dataset_id = ''d'', gr_source_dataset_version_id = ''v1'',
      gr_candidate_dataset_version_id = ''cv'', gr_candidate_artifact_kind = ''csv'', gr_policy_version = ''1'',
      gr_overall_status = VG_PASSED, gr_candidate_status = CA_OK, gr_raw_artifact_unchanged = True, gr_block_export = False,
      gr_block_model_evaluation = False, gr_block_training = False, gr_blocker_present = False, gr_blocker_gate_types = [],
      gr_gates = [],
      gr_lineage = \<lparr>gl_action_plan_id = None, gl_step_id = None, gl_source_dataset_version_id = ''v1'',
        gl_candidate_dataset_version_id = ''cv'', gl_created_by_job_id = ''j'', gl_config_hash = sha256_of toy_sha [],
        gl_source_artifact = sample_ref ''s'' [], gl_candidate_artifact = sample_ref ''c'' [], gl_split_manifest = None,
        gl_split_leakage_report = None, gl_synthetic_dataset_report = None\<rparr>,
      gr_generated_at = 5\<rparr>"

definition sample_proposed :: "rat candidate_version" where
  "sample_proposed = projr (assemble_candidate sample_env rat_floats (sample_candidate_request (Some sample_ok_gates)))"

lemma sample_proposed: "assemble_candidate sample_env rat_floats (sample_candidate_request (Some sample_ok_gates)) = Inr sample_proposed"
proof -
  have "candidate_request_valid rat_floats (sample_candidate_request (Some sample_ok_gates))"
    by (rule sample_candidate_request_valid) (simp add: sample_ok_gates_def)
  moreover have "synthetic_ready (sample_candidate_request (Some sample_ok_gates))"
    by (simp add: synthetic_ready_def sample_candidate_request_def)
  ultimately obtain v where "assemble_candidate sample_env rat_floats (sample_candidate_request (Some sample_ok_gates)) = Inr v"
    using assemble_iff [of rat_floats "sample_candidate_request (Some sample_ok_gates)" sample_env]
    by (cases "assemble_candidate sample_env rat_floats (sample_candidate_request (Some sample_ok_gates))") simp_all
  then show ?thesis by (simp add: sample_proposed_def)
qed

definition sample_export_request :: "rat candidate_version \<Rightarrow> rat export_request" where
  "sample_export_request v =
     \<lparr>xr_organization_id = ''o'', xr_project_id = ''p'', xr_dataset_id = ''d'', xr_candidate_dataset_version = v,
      xr_validation_gates_report = None, xr_model_impact_report = Some MI_IMPROVED, xr_text_ocr_report = None,
      xr_decision_report_id = ''dr'', xr_export_manifest_artifact = sample_ref ''s'' [],
      xr_tabular_artifacts = [sample_ref ''c'' []], xr_text_artifacts = [],
      xr_dataset_card_artifact = Some (sample_ref ''c'' []), xr_lineage_artifact = Some (sample_ref ''c'' []),
      xr_dataforge_report_artifact = None, xr_review_queue_artifact = None, xr_extra_artifacts = [],
      xr_included_object_count = 2, xr_blocked_object_count = 0, xr_excluded_object_count = 0,
      xr_require_model_impact_eligibility = True, xr_require_dataset_card = True, xr_require_lineage_artifact = True,
      xr_created_by_job_id = ''j'', xr_config_hash = sha256_of toy_sha [], xr_export_package_id = None, xr_created_at = None\<rparr>"

lemma sample_export_request_valid:
  "candidate_version_valid rat_floats v \<Longrightarrow> export_request_valid rat_floats (sample_export_request v)"
  using sample_ref_valid by (simp add: export_request_valid_def sample_export_request_def non_empty_def)

lemma sample_export_builds:
  assumes "candidate_version_valid rat_floats v" "cl_proposed_version_name (cv_lineage v) = ''cv''"
  shows "\<exists>p art st'. build_export_package sample_env ser (sample_export_request v) (sample_store c s) = (Inr (p, art), st')"
proof -
  have v: "xr_candidate_dataset_version (sample_export_request v) = v" by (simp add: sample_export_request_def)
  from assemble_export_total [OF sample_export_request_valid [OF assms(1)], of sample_env] obtain p where
    p: "assemble_export sample_env (sample_export_request v) = Inr p" "ex_version_id p = ''cv''" using assms(2) v by auto
  have "sample_save_ready (export_save_args sample_env ser (sample_export_request v) p)"
    by (simp add: sample_save_ready_def export_save_args_def EXPORT_PACKAGE_KIND_def EXPORT_PACKAGE_SCHEMA_VERSION_def
        sample_export_request_def p(2))
  from sample_save_ok [OF this] obtain art st' where
    "registry_save sample_env (export_save_args sample_env ser (sample_export_request v) p) (sample_store c s) = (Inr art, st')" by blast
  then show ?thesis by (simp add: build_export_eq [OF p(1)])
qed

lemma sample_proposed_ok:
  "candidate_version_valid rat_floats sample_proposed" "cl_proposed_version_name (cv_lineage sample_proposed) = ''cv''"
  "\<not> cv_block_export sample_proposed" "dict_get (cv_validation_gates_summary sample_proposed) ''raw_artifact_unchanged'' = Some (JBool True)"
  using assemble_fields [OF sample_proposed]
  by (simp_all add: candidate_lineage_of_def sample_candidate_request_def resolve_blocks_def validation_summary_def sample_ok_gates_def)

lemma export_ready_iff_witness:
  "\<exists>p art st'. build_export_package sample_env (\<lambda>_. ''p'') (sample_export_request sample_proposed) (sample_store [] [])
     = (Inr (p, art), st') \<and> ex_status p = EX_READY"
proof -
  obtain p art st' where b: "build_export_package sample_env (\<lambda>_. ''p'') (sample_export_request sample_proposed) (sample_store [] [])
     = (Inr (p, art), st')" using sample_export_builds [OF sample_proposed_ok(1,2)] by blast
  have "ex_status p = EX_READY" unfolding export_ready_iff [OF b]
    using sample_proposed_ok(3,4) by (simp add: sample_export_request_def raw_artifact_unchanged_def)
  with b show ?thesis by blast
qed

lemma export_package_evidence_witness:
  "\<exists>p art st'. build_export_package sample_env (\<lambda>_. ''p'') (sample_export_request sample_proposed) (sample_store [] [])
     = (Inr (p, art), st') \<and> length (ex_validation_gates p) = 7"
proof -
  obtain p art st' where b: "build_export_package sample_env (\<lambda>_. ''p'') (sample_export_request sample_proposed) (sample_store [] [])
     = (Inr (p, art), st')" using sample_export_builds [OF sample_proposed_ok(1,2)] by blast
  have "length (map eg_name (ex_validation_gates p)) = 7" unfolding conjunct1 [OF export_package_evidence [OF b]] by simp
  with b show ?thesis by auto
qed

lemma export_always_packaged_witness:
  "\<exists>p. assemble_export sample_env (sample_export_request sample_proposed) = Inr p \<and> export_package_valid p"
  using export_always_packaged [OF sample_export_request_valid [OF sample_proposed_ok(1)], of sample_env "\<lambda>_. []" "[]"] by blast

end
