(* ===== verification/Pipeline.thy ===== *)
theory Pipeline
  imports ExportPackage
begin

text \<open>
  The last stages of an APPLY run composed: the validation gates, the candidate version built on their
  report, the export package built on the candidate. The lemmas say what one stage hands to the next.
\<close>

text \<open>The report of the gates is what the candidate repeats.\<close>

lemma candidate_block_export_iff:
  assumes "assemble_candidate env fl request = Inr v" "cr_validation_gates_report request = Some g"
  shows "cv_block_export v = gr_block_export g"
    "dict_get (cv_validation_gates_summary v) ''raw_artifact_unchanged'' = Some (JBool (gr_raw_artifact_unchanged g))"
    "cv_status v = resolve_status (Some g)"
  using assemble_fields [OF assms(1)] assms(2) by (simp_all add: resolve_blocks_def validation_summary_def)

text \<open>C7: A READY export certifies its candidate: when the gates, the candidate builder and the export
  builder are composed, a READY package means that no gate of the run failed as a blocker, that the
  source could be read during the run and still had its recorded digest, and that the candidate is
  neither BLOCKED nor FAILED - even when the export request leaves the gates report out.\<close>

theorem ready_export_certified:
  assumes "run_validation_gates genv fl gser grequest gst = (Inr (report, gart), gst')"
    and "build_candidate_dataset_version cenv fl cser audit_uuid crequest cst = (Inr (v, cart, ev), cst')"
    and "cr_validation_gates_report crequest = Some report"
    and "build_export_package xenv xser xrequest xst = (Inr (package, xart), xst')"
    and "xr_candidate_dataset_version xrequest = v" "ex_status package = EX_READY"
  shows "(\<forall>g \<in> set (gr_gates report). \<not> gate_is_blocking g)
    \<and> (\<exists>data info. storage_get genv (ar_uri (gq_source_artifact grequest)) gst = Inr (data, info)
         \<and> sha256_of (se_sha genv) data = ar_hash (gq_source_artifact grequest))
    \<and> cv_status v \<in> {CV_PROPOSED, CV_REVIEW_REQUIRED}"
proof -
  have a: "assemble_candidate cenv fl crequest = Inr v" using build_cases [OF assms(2)] by simp
  note c = candidate_block_export_iff [OF a assms(3)]
  have "eg_status g \<noteq> EG_FAILED" if "g \<in> set (export_gates xrequest)" for g
    using that assemble_export_fields(1,6) [OF build_export_Inr [OF assms(4)]] export_codes_set(2) [of xrequest] assms(6)
    by (auto split: if_splits)
  then have open_export: "\<not> cv_block_export v" using some_gate_failed [of xrequest] assms(5) by blast
  from assms(1) obtain gates raw where g: "run_gates genv fl grequest gst = Inr (gates, raw)"
    "report = gates_report_of genv grequest gates raw"
    "\<not> raw \<longrightarrow> (\<exists>g \<in> set gates. gate_is_blocking g)" by (rule run_flags)
  note flags = report_flags [OF g(2,3)]
  have ok: "\<forall>g \<in> set gates. \<not> gate_is_blocking g" using open_export c(1) flags(3) by simp
  then have "gr_candidate_status report \<noteq> CA_VALIDATION_FAILED" "raw" using flags(1) g(3) by blast+
  moreover have "cv_status v \<in> {CV_PROPOSED, CV_REVIEW_REQUIRED}"
    using c(3) calculation(1) by (cases "gr_candidate_status report") (simp_all add: resolve_status_def)
  ultimately show ?thesis using run_raw(1) [OF g(1)] ok flags(5) by simp
qed

section \<open>A run that passes\<close>

definition sample_clean_request :: "rat gates_request" where
  "sample_clean_request = (sample_gates_request sample_candidate sample_source)\<lparr>gq_pii_restricted := False\<rparr>"

lemma clean_reads:
  "read_csv sample_env (gq_candidate_artifact sample_clean_request) role (sample_store sample_candidate sample_source)
     = Inr (sample_candidate_rows, [''a'', ''is_synthetic''])"
  using sample_reads(1) [of role] by (simp add: sample_clean_request_def sample_request_def sample_gates_request_def)

definition passes :: "rat gate \<Rightarrow> bool" where
  "passes g \<longleftrightarrow> gate_valid rat_floats g \<and> \<not> gate_is_blocking g"

lemma rat_score [simp]: "fl_score_ok rat_floats (fl_const rat_floats 1)"
  by (simp add: fl_score_ok_def rat_floats_def)

lemmas passes_defs = passes_def gate_is_blocking_def gate_valid_def gate_shapes non_empty_def

lemma clean_raw:
  "\<exists>g. raw_artifact_immutability_gate sample_env rat_floats (gq_source_artifact sample_clean_request)
      (sample_store sample_candidate sample_source) = Inr (g, True) \<and> passes g"
proof -
  have hash: "sha256_of (se_sha sample_env) sample_source = ar_hash (sample_ref ''s'' sample_source)"
    by (simp add: sample_env_def sample_ref_def)
  show ?thesis using sample_get(2) [of sample_source sample_candidate sample_source]
    by (auto simp: raw_artifact_immutability_gate_def Let_def sample_clean_request_def sample_gates_request_def hash passes_defs)
qed

lemma clean_schema: "passes (schema_gate rat_floats sample_clean_request [''a'', ''is_synthetic''] sample_candidate_rows)"
  by (simp add: missing_columns_def non_numeric_cells_def sample_clean_request_def sample_gates_request_def passes_defs)

lemma clean_privacy: "passes (privacy_gate rat_floats rows columns False numeric)"
  by (simp add: passes_defs)

lemma clean_leakage: "passes (split_leakage_gate rat_floats None)"
  by (simp add: passes_defs)

lemma clean_pending: "list_all passes pending_gates"
  by (simp add: pending_gates_def passes_defs)

lemma clean_run:
  "\<exists>gates. run_gates sample_env rat_floats sample_clean_request (sample_store sample_candidate sample_source) = Inr (gates, True)
    \<and> list_all passes gates"
proof -
  obtain g where g: "raw_artifact_immutability_gate sample_env rat_floats (gq_source_artifact sample_clean_request)
      (sample_store sample_candidate sample_source) = Inr (g, True)" "passes g"
    using clean_raw by blast
  obtain b where b: "business_rules_gate rat_floats (se_sha sample_env) sample_clean_request sample_candidate_rows = Inr b"
    "passes b"
    by (simp add: business_rules_gate_def sample_clean_request_def sample_gates_request_def passes_defs)
  obtain gs where gs: "synthetic_gates sample_env rat_floats sample_clean_request (filter is_synthetic_row sample_candidate_rows)
      (filter (\<lambda>r. \<not> is_synthetic_row r) sample_candidate_rows) (sample_store sample_candidate sample_source) = Inr gs"
    "list_all passes gs"
    by (simp add: synthetic_gates_def sample_clean_request_def sample_gates_request_def passes_defs)
  have r: "gq_pii_restricted sample_clean_request = False" "gq_split_leakage_report sample_clean_request = None"
    by (simp_all add: sample_clean_request_def sample_gates_request_def)
  show ?thesis using g b gs clean_schema clean_privacy clean_leakage clean_pending
    by (simp add: run_gates_def clean_reads Let_def split_real_and_synthetic_rows_def r)
qed

lemma ready_export_certified_witness:
  "\<exists>report gart gst' v cart ev cst' package xart xst'.
     run_validation_gates sample_env rat_floats (\<lambda>_. ''report'') sample_clean_request (sample_store sample_candidate sample_source)
       = (Inr (report, gart), gst')
     \<and> build_candidate_dataset_version sample_env rat_floats (\<lambda>_. ''v'') ''a'' (sample_candidate_request (Some report))
         (sample_store [] [], None) = (Inr (v, cart, ev), cst')
     \<and> build_export_package sample_env (\<lambda>_. ''p'') (sample_export_request v) (sample_store [] []) = (Inr (package, xart), xst')
     \<and> ex_status package = EX_READY \<and> cv_status v \<in> {CV_PROPOSED, CV_REVIEW_REQUIRED}"
proof -
  obtain gates where gates: "run_gates sample_env rat_floats sample_clean_request (sample_store sample_candidate sample_source) = Inr (gates, True)"
    "list_all passes gates" using clean_run by blast
  have ids: "gq_candidate_dataset_version_id sample_clean_request = ''cv''" "gq_created_by_job_id sample_clean_request = ''j''"
    "gq_config_hash sample_clean_request = sha256_of toy_sha []"
    by (simp_all add: sample_clean_request_def sample_gates_request_def)
  obtain report gart gst' where
    run: "run_validation_gates sample_env rat_floats (\<lambda>_. ''report'') sample_clean_request (sample_store sample_candidate sample_source)
       = (Inr (report, gart), gst')"
    using run_returns [OF gates(1) ids, of "\<lambda>_. ''report''"] by blast
  from run_report [OF run] gates(1) have rep: "report = gates_report_of sample_env sample_clean_request gates True" by auto
  have raw: "\<not> True \<longrightarrow> (\<exists>g \<in> set gates. gate_is_blocking g)" by simp
  note flags = report_flags [OF rep raw]
  have nb: "\<forall>g \<in> set gates. gate_valid rat_floats g \<and> \<not> gate_is_blocking g" using gates(2) by (auto simp: list_all_iff passes_def)
  obtain v cart ev cst' where c: "build_candidate_dataset_version sample_env rat_floats (\<lambda>_. ''v'') ''a''
      (sample_candidate_request (Some report)) (sample_store [] [], None) = (Inr (v, cart, ev), cst')"
    using sample_candidate_builds [of "Some report" "\<lambda>_. ''v''" "[]" "[]" None] nb flags(5) by (auto simp: list_all_iff)
  have a: "assemble_candidate sample_env rat_floats (sample_candidate_request (Some report)) = Inr v" using build_cases [OF c] by simp
  have cr: "cr_validation_gates_report (sample_candidate_request (Some report)) = Some report" by (simp add: sample_candidate_request_def)
  note cb = candidate_block_export_iff [OF a cr]
  have vv: "candidate_version_valid rat_floats v" "cl_proposed_version_name (cv_lineage v) = ''cv''"
    using assemble_fields(5,8) [OF a] by (simp_all add: candidate_lineage_of_def sample_candidate_request_def)
  obtain package xart xst' where x: "build_export_package sample_env (\<lambda>_. ''p'') (sample_export_request v) (sample_store [] [])
      = (Inr (package, xart), xst')" using sample_export_builds [OF vv] by blast
  have "\<not> cv_block_export v" "dict_get (cv_validation_gates_summary v) ''raw_artifact_unchanged'' = Some (JBool True)"
    using cb(1,2) flags(3,6) nb by auto
  then have "\<forall>g \<in> set (export_gates (sample_export_request v)). eg_status g \<noteq> EG_FAILED"
    unfolding some_gate_failed by (simp add: sample_export_request_def raw_artifact_unchanged_def)
  then have ready: "ex_status package = EX_READY"
    using assemble_export_fields(1,6) [OF build_export_Inr [OF x]] export_codes_set(2) by auto
  have xc: "xr_candidate_dataset_version (sample_export_request v) = v" by (simp add: sample_export_request_def)
  from ready_export_certified [OF run c cr x xc ready] run c x ready show ?thesis by blast
qed

end
