(* ===== verification/Splits.thy ===== *)
theory Splits
  imports ActionPlan ValidationGates "HOL-Library.Product_Lexorder"
begin

text \<open>
  Train, validation and test splits: the contracts of \<open>src/app/domain/splits.py\<close> and the executor of
  \<open>src/app/plugins/tabular/splits.py\<close>. The shuffle of \<open>random.Random(seed)\<close> and the rounding of a
  float are parameters; a shuffle is a permutation of the list.
\<close>

section \<open>Contracts (domain/manifest.py, domain/splits.py)\<close>

datatype data_split = TRAIN | VALIDATION | TEST | HOLDOUT | UNKNOWN

fun data_split_value :: "data_split \<Rightarrow> string" where
  "data_split_value TRAIN = ''train''"
| "data_split_value VALIDATION = ''validation''"
| "data_split_value TEST = ''test''"
| "data_split_value HOLDOUT = ''holdout''"
| "data_split_value UNKNOWN = ''unknown''"

datatype split_strategy = GROUP_STRATIFIED | STRATIFIED | RANDOM

fun split_strategy_value :: "split_strategy \<Rightarrow> string" where
  "split_strategy_value GROUP_STRATIFIED = ''group_stratified''"
| "split_strategy_value STRATIFIED = ''stratified''"
| "split_strategy_value RANDOM = ''random''"

record split_assignment =
  sa_object_id :: string
  sa_split :: data_split
  sa_label :: string
  sa_group_value :: "string option"

record 'f split_class_distribution =
  sd_split :: data_split
  sd_total_count :: int
  sd_class_counts :: "(string, int) dict"
  sd_class_ratios :: "(string, 'f) dict"

record split_lineage =
  sl_action_plan_id :: string
  sl_step_id :: string
  sl_source_dataset_version_id :: string
  sl_candidate_dataset_version_id :: string
  sl_created_by_job_id :: string
  sl_config_hash :: string
  sl_source_artifact :: artifact_ref

record 'f split_manifest =
  sp_split_manifest_id :: string
  sp_split_schema_version :: string
  sp_dataset_id :: string
  sp_source_dataset_version_id :: string
  sp_candidate_dataset_version_id :: string
  sp_target_column :: string
  sp_strategy :: split_strategy
  sp_seed :: int
  sp_group_key :: "string option"
  sp_policy_version :: string
  sp_split_ratios :: "(data_split, 'f) dict"
  sp_assignments :: "split_assignment list"
  sp_class_distribution :: "'f split_class_distribution list"
  sp_lineage :: split_lineage
  sp_generated_at :: datetime

definition split_assignment_valid :: "split_assignment \<Rightarrow> bool" where
  "split_assignment_valid a \<longleftrightarrow> non_empty (sa_object_id a) \<and> non_empty (sa_label a)"

definition split_class_distribution_valid :: "'f float_ops \<Rightarrow> 'f split_class_distribution \<Rightarrow> bool" where
  "split_class_distribution_valid fl d \<longleftrightarrow>
     0 \<le> sd_total_count d \<and> list_all non_empty (dict_keys (sd_class_counts d))
     \<and> list_all (\<lambda>kv. non_empty (fst kv) \<and> fl_score_ok fl (snd kv)) (sd_class_ratios d)"

definition split_lineage_valid :: "split_lineage \<Rightarrow> bool" where
  "split_lineage_valid l \<longleftrightarrow>
     non_empty (sl_action_plan_id l) \<and> non_empty (sl_step_id l) \<and> non_empty (sl_source_dataset_version_id l)
     \<and> non_empty (sl_candidate_dataset_version_id l) \<and> non_empty (sl_created_by_job_id l)
     \<and> sha256_digest (sl_config_hash l) \<and> artifact_ref_valid (sl_source_artifact l)"

definition split_manifest_valid :: "'f float_ops \<Rightarrow> 'f split_manifest \<Rightarrow> bool" where
  "split_manifest_valid fl m \<longleftrightarrow>
     non_empty (sp_split_manifest_id m) \<and> non_empty (sp_split_schema_version m) \<and> non_empty (sp_dataset_id m)
     \<and> non_empty (sp_source_dataset_version_id m) \<and> non_empty (sp_candidate_dataset_version_id m)
     \<and> non_empty (sp_target_column m) \<and> opt_ok non_empty (sp_group_key m) \<and> non_empty (sp_policy_version m)
     \<and> list_all (\<lambda>kv. fl_score_ok fl (snd kv)) (sp_split_ratios m)"

section \<open>Requests (plugins/tabular/splits.py)\<close>

definition SPLIT_ORDER :: "data_split list" where
  "SPLIT_ORDER = [TRAIN, VALIDATION, TEST]"

definition SUPPORTED_STEP_TYPES :: "string list" where
  "SUPPORTED_STEP_TYPES = [''CREATE_SPLIT'', ''CREATE_SUPERVISED_SPLIT'']"

definition DEFAULT_GROUP_KEY_CANDIDATES :: "string list" where
  "DEFAULT_GROUP_KEY_CANDIDATES = [''customer_id_hash'', ''case_id'']"

definition split_error :: "string \<Rightarrow> exn" where
  "split_error reason = Raised ''SplitCreationError'' reason ACTION_PLAN_PRECONDITION_FAILED 0"

record 'f split_request =
  sq_action_plan_id :: string
  sq_step :: action_plan_step
  sq_dataset_id :: string
  sq_source_dataset_version_id :: string
  sq_candidate_dataset_version_id :: string
  sq_source_artifact :: artifact_ref
  sq_created_by_job_id :: string
  sq_config_hash :: string
  sq_target_column :: string
  sq_seed :: int
  sq_split_ratios :: "(data_split, 'f) dict"
  sq_generated_at :: "datetime option"
  sq_split_manifest_id :: "string option"

definition fl_abs :: "'f float_ops \<Rightarrow> 'f \<Rightarrow> 'f" where
  "fl_abs fl x = (if fl_lt fl x (fl_const fl 0) then fl_sub fl (fl_const fl 0) x else x)"

definition split_ratios_ok :: "'f float_ops \<Rightarrow> (data_split, 'f) dict \<Rightarrow> bool" where
  "split_ratios_ok fl ratios \<longleftrightarrow>
     set (dict_keys ratios) = set SPLIT_ORDER
     \<and> \<not> fl_lt fl (fl_const fl (1 / 1000000)) (fl_abs fl (fl_sub fl (fl_sum fl (map snd ratios)) (fl_const fl 1)))
     \<and> \<not> list_ex (\<lambda>kv. fl_le fl (snd kv) (fl_const fl 0)) ratios"

section \<open>Reading the source\<close>

definition validate_split_step :: "action_plan_step \<Rightarrow> exn + unit" where
  "validate_split_step step =
     (if ps_type step \<notin> set SUPPORTED_STEP_TYPES then Inl (split_error ''unsupported_action_step_type'')
      else if (case dict_get (ps_config step) ''strategy'' of
                 None \<Rightarrow> False | Some v \<Rightarrow> v \<noteq> JStr (split_strategy_value GROUP_STRATIFIED))
      then Inl (split_error ''unsupported_split_strategy'')
      else Inr ())"

definition split_rows :: "string \<Rightarrow> string \<Rightarrow> exn + (csv_row list \<times> string list)" where
  "split_rows target_column text =
     (let records = csv_records text;
          header = (case records of [] \<Rightarrow> [] | h # _ \<Rightarrow> h);
          columns = filter (\<lambda>n. n \<noteq> []) header;
          rows = map (\<lambda>r. clean_row columns (dict_row header r)) (filter (\<lambda>r. r \<noteq> []) (tl records)) in
      if \<not> fields_fit header then Inl (Other ''Error'')
      else if columns = [] then Inl (split_error ''empty_tabular_source'')
      else if target_column \<notin> set columns then Inl (split_error ''target_column_not_found'')
      else if \<not> list_all fields_fit (tl records) then Inl (Other ''Error'')
      else if rows = [] then Inl (split_error ''empty_tabular_source'')
      else Inr (rows, columns))"

definition resolve_group_key :: "(string, json) dict \<Rightarrow> string list \<Rightarrow> exn + string option" where
  "resolve_group_key config columns =
     (case dict_get config ''group_key'' of
        Some (JStr k) \<Rightarrow> if k \<in> set columns then Inr (Some k) else Inl (split_error ''group_key_not_found'')
      | Some JNull \<Rightarrow> Inr (find (\<lambda>c. c \<in> set columns) DEFAULT_GROUP_KEY_CANDIDATES)
      | Some _ \<Rightarrow> Inl (split_error ''group_key_not_found'')
      | None \<Rightarrow> Inr (find (\<lambda>c. c \<in> set columns) DEFAULT_GROUP_KEY_CANDIDATES))"

record tabular_row =
  tr_object_id :: string
  tr_label :: string
  tr_group_value :: "string option"

definition row_id :: "nat \<Rightarrow> csv_row \<Rightarrow> string" where
  "row_id index row =
     (if row_get row ''object_id'' = [] then ''row_'' @ pad_zeros 6 (str_of_nat index) else row_get row ''object_id'')"

definition to_tabular_row :: "string \<Rightarrow> string option \<Rightarrow> nat \<times> csv_row \<Rightarrow> exn + tabular_row" where
  "to_tabular_row target_column group_key ir =
     (let (index, row) = ir; label = row_get row target_column in
      if label = [] then Inl (split_error ''missing_target_label'')
      else Inr \<lparr>tr_object_id = row_id index row, tr_label = label,
                tr_group_value = (case group_key of
                    None \<Rightarrow> None
                  | Some k \<Rightarrow> if row_get row k = [] then None else Some (row_get row k))\<rparr>)"

definition to_tabular_rows :: "csv_row list \<Rightarrow> string \<Rightarrow> string option \<Rightarrow> exn + tabular_row list" where
  "to_tabular_rows rows target_column group_key =
     mapR (to_tabular_row target_column group_key) (zip [0..<length rows] rows)"

section \<open>Groups\<close>

text \<open>\<open>Counter\<close>: labels in the order of their first occurrence.\<close>

definition count_of :: "('a, int) dict \<Rightarrow> 'a \<Rightarrow> int" where
  "count_of d k = (case dict_get d k of None \<Rightarrow> 0 | Some n \<Rightarrow> n)"

definition add_count :: "('a, int) dict \<Rightarrow> 'a \<times> int \<Rightarrow> ('a, int) dict" where
  "add_count d kn = dict_set d (fst kn) (count_of d (fst kn) + snd kn)"

definition counter :: "'a list \<Rightarrow> ('a, int) dict" where
  "counter xs = foldl (\<lambda>d x. add_count d (x, 1)) [] xs"

record row_group =
  rg_group_value :: "string option"
  rg_rows :: "tabular_row list"
  rg_label_counts :: "(string, int) dict"

definition group_size :: "row_group \<Rightarrow> nat" where
  "group_size g = length (rg_rows g)"

definition primary_label :: "row_group \<Rightarrow> string" where
  "primary_label g =
     (if ''1'' \<in> set (dict_keys (rg_label_counts g)) then ''1''
      else fst (hd (sort_key (\<lambda>kn. (- snd kn, fst kn)) (rg_label_counts g))))"

text \<open>A row without a group value gets a key of its own, recognised again by its prefix.\<close>

definition ROW_PREFIX :: string where
  "ROW_PREFIX = ''__row_''"

definition stored_key :: "nat \<times> tabular_row \<Rightarrow> string" where
  "stored_key ir =
     (case tr_group_value (snd ir) of
        Some v \<Rightarrow> v
      | None \<Rightarrow> ROW_PREFIX @ pad_zeros 6 (str_of_nat (fst ir)))"

definition append_row :: "(string, tabular_row list) dict \<Rightarrow> nat \<times> tabular_row \<Rightarrow> (string, tabular_row list) dict" where
  "append_row d ir =
     dict_set d (stored_key ir) ((case dict_get d (stored_key ir) of None \<Rightarrow> [] | Some rs \<Rightarrow> rs) @ [snd ir])"

definition groups_of :: "tabular_row list \<Rightarrow> row_group list" where
  "groups_of rows =
     map (\<lambda>(k, rs). \<lparr>rg_group_value = (if starts_with ROW_PREFIX k then None else Some k), rg_rows = rs,
                     rg_label_counts = counter (map tr_label rs)\<rparr>)
       (foldl append_row [] (zip [0..<length rows] rows))"

section \<open>Targets\<close>

type_synonym targets = "data_split \<Rightarrow> int"

definition target_sum :: "targets \<Rightarrow> int" where
  "target_sum t = t TRAIN + t VALIDATION + t TEST"

text \<open>The first maximal and the first minimal split of the fixed order.\<close>

definition largest_split :: "targets \<Rightarrow> data_split" where
  "largest_split t =
     (let best = (if t TRAIN < t VALIDATION then VALIDATION else TRAIN) in if t best < t TEST then TEST else best)"

definition smallest_split :: "targets \<Rightarrow> data_split" where
  "smallest_split t =
     (let best = (if t VALIDATION < t TRAIN then VALIDATION else TRAIN) in if t TEST < t best then TEST else best)"

definition shift_target :: "targets \<Rightarrow> data_split \<Rightarrow> int \<Rightarrow> targets" where
  "shift_target t split d = t(split := t split + d)"

lemma target_sum_shift:
  "split \<in> {TRAIN, VALIDATION, TEST} \<Longrightarrow> target_sum (shift_target t split d) = target_sum t + d"
  by (auto simp: target_sum_def shift_target_def)

lemma largest_split_cases: "largest_split t \<in> {TRAIN, VALIDATION, TEST}"
  by (simp add: largest_split_def Let_def)

lemma smallest_split_cases: "smallest_split t \<in> {TRAIN, VALIDATION, TEST}"
  by (simp add: smallest_split_def Let_def)

function shrink_targets :: "int \<Rightarrow> targets \<Rightarrow> targets" where
  "shrink_targets total_count t =
     (if total_count < target_sum t then shrink_targets total_count (shift_target t (largest_split t) (- 1)) else t)"
  by auto
termination
  by (relation "measure (\<lambda>(total_count, t). nat (target_sum t - total_count))")
    (auto simp: target_sum_shift [OF largest_split_cases])

function grow_targets :: "int \<Rightarrow> targets \<Rightarrow> targets" where
  "grow_targets total_count t =
     (if target_sum t < total_count then grow_targets total_count (shift_target t (smallest_split t) 1) else t)"
  by auto
termination
  by (relation "measure (\<lambda>(total_count, t). nat (total_count - target_sum t))")
    (auto simp: target_sum_shift [OF smallest_split_cases])

declare shrink_targets.simps [simp del] grow_targets.simps [simp del]

definition rebalance_targets :: "int \<Rightarrow> targets \<Rightarrow> targets" where
  "rebalance_targets total_count t = grow_targets total_count (shrink_targets total_count t)"

section \<open>Assignment\<close>

text \<open>The loop state: the split of each group value, and what each split holds so far.\<close>

record split_state =
  ss_by_group :: "(string option, data_split) dict"
  ss_counts :: "data_split \<Rightarrow> int"
  ss_label_counts :: "data_split \<Rightarrow> (string, int) dict"

definition split_score ::
    "'f float_ops \<Rightarrow> row_group \<Rightarrow> targets \<Rightarrow> (data_split \<Rightarrow> (string, 'f) dict) \<Rightarrow> split_state \<Rightarrow> data_split \<Rightarrow> 'f" where
  "split_score fl grp target_counts target_label_counts st split =
     (let next_count = ss_counts st split + int (group_size grp);
          size_penalty = fl_div fl (fl_of_int fl \<bar>target_counts split - next_count\<bar>)
                                   (fl_of_int fl (max 1 (target_counts split)));
          label_penalty = foldl (\<lambda>penalty (label, n).
            let expected = (case dict_get (target_label_counts split) label of Some x \<Rightarrow> x | None \<Rightarrow> fl_const fl 0);
                next_label_count = count_of (ss_label_counts st split) label + n
            in fl_add fl penalty (fl_div fl (fl_abs fl (fl_sub fl expected (fl_of_int fl next_label_count)))
                 (if fl_lt fl (fl_const fl 1) expected then expected else fl_const fl 1)))
            (fl_const fl 0) (rg_label_counts grp)
      in fl_add fl size_penalty label_penalty)"

text \<open>\<open>min\<close> over the fixed order, comparing (score, position): a later split wins on a smaller score.\<close>

definition best_split :: "'f float_ops \<Rightarrow> (data_split \<Rightarrow> 'f) \<Rightarrow> data_split" where
  "best_split fl score =
     (let better = (\<lambda>new cur. \<not> fl_eq fl (score new) (score cur) \<and> fl_lt fl (score new) (score cur));
          best = (if better VALIDATION TRAIN then VALIDATION else TRAIN)
      in if better TEST best then TEST else best)"

definition assign_group ::
    "'f float_ops \<Rightarrow> targets \<Rightarrow> (data_split \<Rightarrow> (string, 'f) dict) \<Rightarrow> split_state \<Rightarrow> row_group \<Rightarrow> split_state" where
  "assign_group fl target_counts target_label_counts st grp =
     (let split = best_split fl (split_score fl grp target_counts target_label_counts st) in
      st\<lparr>ss_by_group := dict_set (ss_by_group st) (rg_group_value grp) split,
         ss_counts := (ss_counts st)(split := ss_counts st split + int (group_size grp)),
         ss_label_counts := (ss_label_counts st)
           (split := foldl add_count (ss_label_counts st split) (rg_label_counts grp))\<rparr>)"

definition ordered_groups :: "(int \<Rightarrow> row_group list \<Rightarrow> row_group list) \<Rightarrow> int \<Rightarrow> row_group list \<Rightarrow> row_group list" where
  "ordered_groups shuffle seed groups =
     (let ordered = sort_key (\<lambda>g. (primary_label g \<noteq> ''1'', case rg_group_value g of None \<Rightarrow> [] | Some v \<Rightarrow> v)) groups
      in sort_key (\<lambda>g. (primary_label g \<noteq> ''1'', - int (group_size g))) (shuffle seed ordered))"

definition initial_targets :: "'f float_ops \<Rightarrow> ('f \<Rightarrow> int) \<Rightarrow> (data_split, 'f) dict \<Rightarrow> nat \<Rightarrow> targets" where
  "initial_targets fl rnd ratios row_count split =
     (case dict_get ratios split of
        Some ratio \<Rightarrow> max 1 (rnd (fl_mul fl (fl_of_int fl (int row_count)) ratio))
      | None \<Rightarrow> 0)"

definition target_labels :: "'f float_ops \<Rightarrow> (data_split, 'f) dict \<Rightarrow> tabular_row list \<Rightarrow> data_split \<Rightarrow> (string, 'f) dict" where
  "target_labels fl ratios rows split =
     (case dict_get ratios split of
        Some ratio \<Rightarrow> map (\<lambda>(label, total). (label, fl_mul fl (fl_of_int fl total) ratio)) (counter (map tr_label rows))
      | None \<Rightarrow> [])"

definition initial_split_state :: split_state where
  "initial_split_state = \<lparr>ss_by_group = [], ss_counts = (\<lambda>_. 0), ss_label_counts = (\<lambda>_. [])\<rparr>"

definition assignment_of :: "(string option, data_split) dict \<Rightarrow> tabular_row \<Rightarrow> exn + split_assignment" where
  "assignment_of by_group row =
     (case dict_get by_group (tr_group_value row) of
        None \<Rightarrow> Inl (Other ''KeyError'')
      | Some split \<Rightarrow> validated split_assignment_valid
          \<lparr>sa_object_id = tr_object_id row, sa_split = split, sa_label = tr_label row, sa_group_value = tr_group_value row\<rparr>)"

definition splits_by_group ::
    "'f float_ops \<Rightarrow> ('f \<Rightarrow> int) \<Rightarrow> (int \<Rightarrow> row_group list \<Rightarrow> row_group list) \<Rightarrow> tabular_row list \<Rightarrow> int
     \<Rightarrow> (data_split, 'f) dict \<Rightarrow> (string option, data_split) dict" where
  "splits_by_group fl rnd shuffle rows seed ratios =
     ss_by_group (foldl
       (assign_group fl (rebalance_targets (int (length rows)) (initial_targets fl rnd ratios (length rows)))
          (target_labels fl ratios rows))
       initial_split_state (ordered_groups shuffle seed (groups_of rows)))"

definition assign_splits ::
    "'f float_ops \<Rightarrow> ('f \<Rightarrow> int) \<Rightarrow> (int \<Rightarrow> row_group list \<Rightarrow> row_group list) \<Rightarrow> tabular_row list \<Rightarrow> int
     \<Rightarrow> (data_split, 'f) dict \<Rightarrow> exn + split_assignment list" where
  "assign_splits fl rnd shuffle rows seed ratios =
     mapR (assignment_of (splits_by_group fl rnd shuffle rows seed ratios)) rows"

section \<open>The manifest\<close>

definition class_distribution_of :: "'f float_ops \<Rightarrow> split_assignment list \<Rightarrow> data_split \<Rightarrow> 'f split_class_distribution" where
  "class_distribution_of fl assignments split =
     (let labels = counter (map sa_label (filter (\<lambda>a. sa_split a = split) assignments));
          total = sum_list (map snd labels);
          sorted_labels = sort_key fst labels
      in \<lparr>sd_split = split, sd_total_count = total, sd_class_counts = sorted_labels,
          sd_class_ratios = map (\<lambda>(label, n).
            (label, if total \<noteq> 0 then fl_div fl (fl_of_int fl n) (fl_of_int fl total) else fl_const fl 0)) sorted_labels\<rparr>)"

definition class_distribution :: "'f float_ops \<Rightarrow> split_assignment list \<Rightarrow> exn + 'f split_class_distribution list" where
  "class_distribution fl assignments =
     mapR (\<lambda>split. validated (split_class_distribution_valid fl) (class_distribution_of fl assignments split)) SPLIT_ORDER"

definition SPLIT_MANIFEST_SCHEMA_VERSION :: string where
  "SPLIT_MANIFEST_SCHEMA_VERSION = ''split_manifest.v1''"

definition SPLIT_MANIFEST_KIND :: string where
  "SPLIT_MANIFEST_KIND = ''split_manifest''"

definition DEFAULT_SPLIT_POLICY_VERSION :: string where
  "DEFAULT_SPLIT_POLICY_VERSION = ''split_policy_v0''"

definition build_manifest ::
    "'s builder_env \<Rightarrow> 'f float_ops \<Rightarrow> 'f split_request \<Rightarrow> split_assignment list \<Rightarrow> string option \<Rightarrow> exn + 'f split_manifest" where
  "build_manifest env fl request assignments group_key =
     bindR (class_distribution fl assignments) (\<lambda>distribution.
     bindR (validated split_lineage_valid
       \<lparr>sl_action_plan_id = sq_action_plan_id request, sl_step_id = ps_step_id (sq_step request),
        sl_source_dataset_version_id = sq_source_dataset_version_id request,
        sl_candidate_dataset_version_id = sq_candidate_dataset_version_id request,
        sl_created_by_job_id = sq_created_by_job_id request, sl_config_hash = sq_config_hash request,
        sl_source_artifact = sq_source_artifact request\<rparr>) (\<lambda>lineage.
     validated (split_manifest_valid fl)
       \<lparr>sp_split_manifest_id = (case sq_split_manifest_id request of
            Some i \<Rightarrow> if i = [] then ''split_manifest_'' @ se_uuid env else i | None \<Rightarrow> ''split_manifest_'' @ se_uuid env),
        sp_split_schema_version = SPLIT_MANIFEST_SCHEMA_VERSION, sp_dataset_id = sq_dataset_id request,
        sp_source_dataset_version_id = sq_source_dataset_version_id request,
        sp_candidate_dataset_version_id = sq_candidate_dataset_version_id request,
        sp_target_column = sq_target_column request, sp_strategy = GROUP_STRATIFIED, sp_seed = sq_seed request,
        sp_group_key = group_key,
        sp_policy_version = (if ps_policy_version (sq_step request) = [] then DEFAULT_SPLIT_POLICY_VERSION
                             else ps_policy_version (sq_step request)),
        sp_split_ratios = sq_split_ratios request, sp_assignments = assignments,
        sp_class_distribution = distribution, sp_lineage = lineage,
        sp_generated_at = (case sq_generated_at request of Some t \<Rightarrow> t | None \<Rightarrow> se_now env)\<rparr>))"

definition split_metadata :: "'s builder_env \<Rightarrow> 'f split_request \<Rightarrow> nat \<Rightarrow> string option \<Rightarrow> metadata" where
  "split_metadata env request assignment_count group_key =
     [(''action-plan-id'', sq_action_plan_id request), (''step-id'', ps_step_id (sq_step request)),
      (''source-dataset-version-id'', sq_source_dataset_version_id request),
      (''source-artifact-hash'', ar_hash (sq_source_artifact request)), (''target-column'', sq_target_column request),
      (''strategy'', split_strategy_value GROUP_STRATIFIED), (''seed'', str_of_int (sq_seed request)),
      (''group-key'', case group_key of None \<Rightarrow> [] | Some k \<Rightarrow> k),
      (''policy-version'', ps_policy_version (sq_step request)), (''assignment-count'', str_of_nat assignment_count)]
     @ opt_entry ''created-at'' (map_option (se_iso env) (sq_generated_at request))"

text \<open>What is computed before anything is stored.\<close>

definition compute_split ::
    "'s builder_env \<Rightarrow> 'f float_ops \<Rightarrow> ('f \<Rightarrow> int) \<Rightarrow> (int \<Rightarrow> row_group list \<Rightarrow> row_group list) \<Rightarrow> 'f split_request \<Rightarrow> 's
     \<Rightarrow> exn + 'f split_manifest" where
  "compute_split env fl rnd shuffle request st =
     bindR (validate_split_step (sq_step request)) (\<lambda>_.
     bindR (storage_get env (ar_uri (sq_source_artifact request)) st) (\<lambda>(data, info).
     case se_decode env data of
       None \<Rightarrow> Inl (Other ''UnicodeDecodeError'')
     | Some text \<Rightarrow>
         bindR (split_rows (sq_target_column request) text) (\<lambda>(rows, columns).
         bindR (resolve_group_key (ps_config (sq_step request)) columns) (\<lambda>group_key.
         bindR (to_tabular_rows rows (sq_target_column request) group_key) (\<lambda>tabular_rows.
         bindR (assign_splits fl rnd shuffle tabular_rows (sq_seed request) (sq_split_ratios request)) (\<lambda>assignments.
         build_manifest env fl request assignments group_key))))))"

definition execute_tabular_split_action ::
    "'s builder_env \<Rightarrow> 'f float_ops \<Rightarrow> ('f \<Rightarrow> int) \<Rightarrow> (int \<Rightarrow> row_group list \<Rightarrow> row_group list)
     \<Rightarrow> ('f split_manifest \<Rightarrow> string) \<Rightarrow> 'f split_request \<Rightarrow> 's
     \<Rightarrow> (exn + ('f split_manifest \<times> registered_artifact)) \<times> 's" where
  "execute_tabular_split_action env fl rnd shuffle ser request st =
     (case compute_split env fl rnd shuffle request st of
        Inl e \<Rightarrow> (Inl e, st)
      | Inr manifest \<Rightarrow>
          let (res, st') = registry_save env
                \<lparr>sv_artifact_kind = SPLIT_MANIFEST_KIND, sv_data = ser manifest, sv_artifact_format = ''json'',
                 sv_media_type = ''application/json'', sv_schema_version = SPLIT_MANIFEST_SCHEMA_VERSION,
                 sv_dataset_version_id = sq_candidate_dataset_version_id request,
                 sv_created_by_job_id = sq_created_by_job_id request, sv_config_hash = sq_config_hash request,
                 sv_metadata = split_metadata env request (length (sp_assignments manifest)) (sp_group_key manifest)\<rparr> st
          in (bindR res (\<lambda>artifact. Inr (manifest, artifact)), st'))"

section \<open>Targets meet the total\<close>

lemma largest_split_max: "s \<in> {TRAIN, VALIDATION, TEST} \<Longrightarrow> t s \<le> t (largest_split t)"
  by (auto simp: largest_split_def Let_def)

lemma shrink_targets_sum: "total_count \<le> target_sum t \<Longrightarrow> target_sum (shrink_targets total_count t) = total_count"
proof (induction total_count t rule: shrink_targets.induct)
  case (1 total_count t)
  then show ?case by (subst shrink_targets.simps) (auto simp: target_sum_shift [OF largest_split_cases])
qed

lemma grow_targets_sum: "target_sum t \<le> total_count \<Longrightarrow> target_sum (grow_targets total_count t) = total_count"
proof (induction total_count t rule: grow_targets.induct)
  case (1 total_count t)
  then show ?case by (subst grow_targets.simps) (auto simp: target_sum_shift [OF smallest_split_cases])
qed

lemma shrink_idle: "target_sum t \<le> total_count \<Longrightarrow> shrink_targets total_count t = t"
  by (subst shrink_targets.simps) simp

lemma rebalance_sum: "target_sum (rebalance_targets total_count t) = total_count"
  using shrink_targets_sum [of total_count t] shrink_idle [of t total_count] grow_targets_sum [of _ total_count]
  by (cases "total_count \<le> target_sum t") (simp_all add: rebalance_targets_def)

text \<open>Shrinking takes from a largest target, so none goes below zero while the total is not negative.\<close>

definition nonneg_targets :: "targets \<Rightarrow> bool" where
  "nonneg_targets t \<longleftrightarrow> 0 \<le> t TRAIN \<and> 0 \<le> t VALIDATION \<and> 0 \<le> t TEST"

lemma shrink_nonneg: "0 \<le> total_count \<Longrightarrow> nonneg_targets t \<Longrightarrow> nonneg_targets (shrink_targets total_count t)"
proof (induction total_count t rule: shrink_targets.induct)
  case (1 total_count t)
  show ?case
  proof (cases "total_count < target_sum t")
    case True
    have "0 < t (largest_split t)"
      using True 1(2) largest_split_max [of TRAIN t] largest_split_max [of VALIDATION t] largest_split_max [of TEST t]
      by (simp add: target_sum_def)
    then have "nonneg_targets (shift_target t (largest_split t) (- 1))"
      using 1(3) largest_split_cases [of t] by (auto simp: nonneg_targets_def shift_target_def)
    with 1(1) [OF True 1(2)] True show ?thesis by (subst shrink_targets.simps) simp
  next
    case False
    with 1(3) show ?thesis by (subst shrink_targets.simps) simp
  qed
qed

lemma grow_nonneg: "nonneg_targets t \<Longrightarrow> nonneg_targets (grow_targets total_count t)"
proof (induction total_count t rule: grow_targets.induct)
  case (1 total_count t)
  then have "nonneg_targets (shift_target t (smallest_split t) 1)"
    by (auto simp: nonneg_targets_def shift_target_def)
  with 1 show ?case by (subst grow_targets.simps) simp
qed

lemma initial_targets_nonneg: "0 \<le> initial_targets fl rnd ratios n split"
  by (simp add: initial_targets_def max_def split: option.split)

text \<open>The target sizes of the three splits always add up to the number of rows and none is negative,
  whatever the rounding of the ratios gave: both repair loops end and meet the total exactly.\<close>

theorem split_targets_meet_total:
  "target_sum (rebalance_targets (int (length rows)) (initial_targets fl rnd ratios (length rows))) = int (length rows)
   \<and> nonneg_targets (rebalance_targets (int (length rows)) (initial_targets fl rnd ratios (length rows)))"
proof -
  have "nonneg_targets (initial_targets fl rnd ratios (length rows))"
    by (simp add: nonneg_targets_def initial_targets_nonneg)
  then have "nonneg_targets (rebalance_targets (int (length rows)) (initial_targets fl rnd ratios (length rows)))"
    unfolding rebalance_targets_def by (intro grow_nonneg shrink_nonneg) simp_all
  then show ?thesis by (simp add: rebalance_sum)
qed

section \<open>Which rows find a split\<close>

definition reserved_group :: "tabular_row \<Rightarrow> bool" where
  "reserved_group row = (case tr_group_value row of None \<Rightarrow> False | Some v \<Rightarrow> starts_with ROW_PREFIX v)"

definition group_of_key :: "string \<Rightarrow> string option" where
  "group_of_key k = (if starts_with ROW_PREFIX k then None else Some k)"

lemma append_rows_keys:
  "set (dict_keys (foldl append_row d irs)) = set (dict_keys d) \<union> stored_key ` set irs"
  by (induction irs arbitrary: d) (auto simp: append_row_def)

lemma groups_of_values:
  "rg_group_value ` set (groups_of rows) = group_of_key ` stored_key ` set (zip [0..<length rows] rows)"
proof -
  have "rg_group_value ` set (groups_of rows)
      = group_of_key ` set (dict_keys (foldl append_row [] (zip [0..<length rows] rows)))"
    by (force simp: groups_of_def dict_keys_def group_of_key_def)
  then show ?thesis by (simp only: append_rows_keys) (simp add: dict_keys_def)
qed

lemma group_of_stored_key:
  "group_of_key (stored_key ir) = (if reserved_group (snd ir) then None else tr_group_value (snd ir))"
  by (auto simp: group_of_key_def stored_key_def reserved_group_def split: option.split)

lemma groups_of_rows:
  "rg_group_value ` set (groups_of rows) = (\<lambda>r. if reserved_group r then None else tr_group_value r) ` set rows"
proof -
  have "set rows = snd ` set (zip [0..<length rows] rows)"
    by (metis length_map map_nth map_snd_zip set_map)
  then show ?thesis by (simp only: groups_of_values image_image group_of_stored_key)
qed

lemma assign_group_values:
  "dict_get (ss_by_group (foldl (assign_group fl tc labels) st gs)) g = None
     \<longleftrightarrow> dict_get (ss_by_group st) g = None \<and> g \<notin> rg_group_value ` set gs"
  by (induction gs arbitrary: st) (auto simp: assign_group_def Let_def dict_get_set)

text \<open>The law of \<open>Random.shuffle\<close> the code relies on: it permutes the list.\<close>

definition permuting :: "(int \<Rightarrow> row_group list \<Rightarrow> row_group list) \<Rightarrow> bool" where
  "permuting shuffle \<longleftrightarrow> (\<forall>seed gs. mset (shuffle seed gs) = mset gs)"

lemma permuting_id: "permuting (\<lambda>_ gs. gs)"
  by (simp add: permuting_def)

lemma ordered_groups_set: "permuting shuffle \<Longrightarrow> set (ordered_groups shuffle seed groups) = set groups"
  using mset_eq_setD [of "shuffle seed gs" gs for gs] by (auto simp: ordered_groups_def Let_def permuting_def)

lemma group_known:
  assumes "permuting shuffle" and "r \<in> set rows"
  shows "dict_get (splits_by_group fl rnd shuffle rows seed ratios) (tr_group_value r) = None \<longleftrightarrow> reserved_group r"
proof -
  have "dict_get (splits_by_group fl rnd shuffle rows seed ratios) (tr_group_value r) = None
      \<longleftrightarrow> tr_group_value r \<notin> (\<lambda>r. if reserved_group r then None else tr_group_value r) ` set rows"
    by (simp add: splits_by_group_def assign_group_values ordered_groups_set [OF assms(1)] groups_of_rows
          initial_split_state_def)
  also have "\<dots> \<longleftrightarrow> reserved_group r"
  proof (cases "reserved_group r")
    case True
    then have "\<exists>v. tr_group_value r = Some v \<and> starts_with ROW_PREFIX v"
      by (simp add: reserved_group_def split: option.splits)
    then show ?thesis using True by (auto simp: reserved_group_def split: if_splits)
  next
    case False
    then show ?thesis using assms(2) by (auto intro!: image_eqI [of _ _ r])
  qed
  finally show ?thesis .
qed

lemma tabular_rows_filled:
  assumes "to_tabular_rows raw target_column group_key = Inr rows" and "r \<in> set rows"
  shows "non_empty (tr_object_id r) \<and> non_empty (tr_label r)"
proof -
  obtain ir where "to_tabular_row target_column group_key ir = Inr r"
    using mapR_Inr_in_set [OF assms(1) [unfolded to_tabular_rows_def] assms(2)] by blast
  then show ?thesis
    by (cases ir) (auto simp: to_tabular_row_def row_id_def non_empty_def Let_def split: if_splits)
qed

lemma assignment_of_ok:
  assumes "non_empty (tr_object_id r) \<and> non_empty (tr_label r)"
  shows "is_ok (assignment_of by_group r) \<longleftrightarrow> dict_get by_group (tr_group_value r) \<noteq> None"
  using assms by (auto simp: assignment_of_def validated_def split_assignment_valid_def split: option.split)

text \<open>Rows read from a source are all assigned exactly when no group value starts with the prefix
  \<open>__row_\<close> of the generated keys; one that does is taken for a row without a group and the lookup of its
  split raises \<open>KeyError\<close>.\<close>

theorem assign_splits_returns_iff:
  assumes "permuting shuffle" and "to_tabular_rows raw target_column group_key = Inr rows"
  shows "is_ok (assign_splits fl rnd shuffle rows seed ratios) \<longleftrightarrow> list_all (\<lambda>r. \<not> reserved_group r) rows"
  unfolding assign_splits_def mapR_is_ok list_all_iff
  using tabular_rows_filled [OF assms(2)] group_known [OF assms(1)] assignment_of_ok by blast

definition sample_split_rows :: "string \<Rightarrow> csv_row list" where
  "sample_split_rows v =
     [[(''object_id'', ''a''), (''y'', ''1''), (''case_id'', v)], [(''object_id'', ''b''), (''y'', ''0''), (''case_id'', ''c2'')]]"

definition sample_ratios :: "(data_split, rat) dict" where
  "sample_ratios = [(TRAIN, 7 / 10), (VALIDATION, 15 / 100), (TEST, 15 / 100)]"

theorem assign_splits_returns_iff_witness:
  "\<not> is_ok (assign_splits rat_floats (\<lambda>_. 1) (\<lambda>_ gs. gs)
     [\<lparr>tr_object_id = ''a'', tr_label = ''1'', tr_group_value = Some ''__row_7''\<rparr>,
      \<lparr>tr_object_id = ''b'', tr_label = ''0'', tr_group_value = Some ''c2''\<rparr>] 42 sample_ratios)"
proof -
  let ?rows = "[\<lparr>tr_object_id = ''a'', tr_label = ''1'', tr_group_value = Some ''__row_7''\<rparr>,
      \<lparr>tr_object_id = ''b'', tr_label = ''0'', tr_group_value = Some ''c2''\<rparr>]"
  have "to_tabular_rows (sample_split_rows ''__row_7'') ''y'' (Some ''case_id'') = Inr ?rows"
    by code_simp
  from assign_splits_returns_iff [OF permuting_id this, of rat_floats "\<lambda>_. 1" 42 sample_ratios] show ?thesis
    by (simp add: reserved_group_def starts_with_def ROW_PREFIX_def)
qed

section \<open>What the assignments say\<close>

lemma assignments_of_rows:
  "assign_splits fl rnd shuffle rows seed ratios = Inr assignments \<Longrightarrow>
     list_all2 (\<lambda>r a. sa_object_id a = tr_object_id r \<and> sa_label a = tr_label r \<and> sa_group_value a = tr_group_value r
       \<and> Some (sa_split a) = dict_get (splits_by_group fl rnd shuffle rows seed ratios) (sa_group_value a)) rows assignments"
  unfolding assign_splits_def mapR_Inr_iff
  by (erule list_all2_mono) (auto simp: assignment_of_def result_simps split: option.splits)

lemma list_all2_map_eq: "list_all2 (\<lambda>x y. g y = f x) xs ys \<Longrightarrow> map g ys = map f xs"
  by (induction rule: list_all2_induct) simp_all

lemma same_group_same_split:
  assumes "assign_splits fl rnd shuffle rows seed ratios = Inr assignments"
    and "a \<in> set assignments" and "b \<in> set assignments" and "sa_group_value a = sa_group_value b"
  shows "sa_split a = sa_split b"
  using list_all2_in_set [OF assignments_of_rows [OF assms(1)]] assms(2-4) by (metis option.inject)

text \<open>C34: The assignments list the rows in order, each once with its id, label and group, and no group
  straddles two splits: rows with equal group values are in the same split.\<close>

theorem groups_stay_together:
  assumes "assign_splits fl rnd shuffle rows seed ratios = Inr assignments"
  shows "map sa_object_id assignments = map tr_object_id rows \<and> map sa_label assignments = map tr_label rows
    \<and> map sa_group_value assignments = map tr_group_value rows
    \<and> (\<forall>a \<in> set assignments. \<forall>b \<in> set assignments. sa_group_value a = sa_group_value b \<longrightarrow> sa_split a = sa_split b)"
proof -
  note rows = assignments_of_rows [OF assms]
  have "map sa_object_id assignments = map tr_object_id rows"
    by (rule list_all2_map_eq) (rule list_all2_mono [OF rows], simp)
  moreover have "map sa_label assignments = map tr_label rows"
    by (rule list_all2_map_eq) (rule list_all2_mono [OF rows], simp)
  moreover have "map sa_group_value assignments = map tr_group_value rows"
    by (rule list_all2_map_eq) (rule list_all2_mono [OF rows], simp)
  ultimately show ?thesis using same_group_same_split [OF assms] by blast
qed

definition sample_rows_of :: "string option list \<Rightarrow> tabular_row list" where
  "sample_rows_of gs = map (\<lambda>(i, g). \<lparr>tr_object_id = str_of_nat i, tr_label = ''1'', tr_group_value = g\<rparr>) (zip [0..<length gs] gs)"

abbreviation sample_assign :: "string option list \<Rightarrow> exn + split_assignment list" where
  "sample_assign gs \<equiv> assign_splits rat_floats (\<lambda>_. 1) (\<lambda>_ gs. gs) (sample_rows_of gs) 42 sample_ratios"

lemma sample_assign_grouped:
  "sample_assign [Some ''a'', Some ''b'', Some ''a''] = Inr
     [\<lparr>sa_object_id = ''0'', sa_split = TRAIN, sa_label = ''1'', sa_group_value = Some ''a''\<rparr>,
      \<lparr>sa_object_id = ''1'', sa_split = VALIDATION, sa_label = ''1'', sa_group_value = Some ''b''\<rparr>,
      \<lparr>sa_object_id = ''2'', sa_split = TRAIN, sa_label = ''1'', sa_group_value = Some ''a''\<rparr>]"
  by code_simp

lemma sample_assign_ungrouped:
  "sample_assign [None, None, None] = Inr
     [\<lparr>sa_object_id = ''0'', sa_split = TEST, sa_label = ''1'', sa_group_value = None\<rparr>,
      \<lparr>sa_object_id = ''1'', sa_split = TEST, sa_label = ''1'', sa_group_value = None\<rparr>,
      \<lparr>sa_object_id = ''2'', sa_split = TEST, sa_label = ''1'', sa_group_value = None\<rparr>]"
  by code_simp

theorem groups_stay_together_witness:
  "\<exists>assignments. sample_assign [Some ''a'', Some ''b'', Some ''a''] = Inr assignments
     \<and> map sa_object_id assignments = [''0'', ''1'', ''2'']
     \<and> (\<forall>a \<in> set assignments. \<forall>b \<in> set assignments. sa_group_value a = sa_group_value b \<longrightarrow> sa_split a = sa_split b)"
  using groups_stay_together [OF sample_assign_grouped] sample_assign_grouped
  by (intro exI conjI) (assumption, simp, blast)

text \<open>A source without group values is not split at all: every row without one is looked up under
  the one key \<open>None\<close>, which the last group without a value overwrote, so that all rows land in a single split and the
  class distribution of the two others is empty.\<close>

theorem ungrouped_source_not_split:
  assumes "assign_splits fl rnd shuffle rows seed ratios = Inr assignments"
    and "list_all (\<lambda>r. tr_group_value r = None) rows"
  shows "\<exists>split. list_all (\<lambda>a. sa_split a = split) assignments
    \<and> (\<forall>other. other \<noteq> split \<longrightarrow> sd_total_count (class_distribution_of fl2 assignments other) = 0)"
proof -
  have none: "sa_group_value a = None" if "a \<in> set assignments" for a
    using list_all2_in_set [OF assignments_of_rows [OF assms(1)] that] assms(2) by (auto simp: list_all_iff)
  obtain split where split: "\<forall>a \<in> set assignments. sa_split a = split"
  proof (cases assignments)
    case (Cons b bs)
    then show ?thesis
      using same_group_same_split [OF assms(1), of _ b] none that by (metis list.set_intros(1))
  qed (use that in simp)
  have "filter (\<lambda>a. sa_split a = other) assignments = []" if "other \<noteq> split" for other
    using split that by (auto simp: filter_empty_conv)
  then show ?thesis using split
    by (intro exI [of _ split]) (simp add: list_all_iff class_distribution_of_def Let_def counter_def)
qed

theorem ungrouped_source_not_split_witness:
  "\<exists>assignments split. sample_assign [None, None, None] = Inr assignments
     \<and> list_all (\<lambda>a. sa_split a = split) assignments"
  using ungrouped_source_not_split [OF sample_assign_ungrouped, of rat_floats] sample_assign_ungrouped
  by (force simp: sample_rows_of_def)

text \<open>A \<open>Counter\<close> counts: each key once, with the number of its occurrences.\<close>

lemma count_of_add [simp]: "count_of (add_count d kn) k = count_of d k + (if fst kn = k then snd kn else 0)"
  by (simp add: count_of_def add_count_def dict_get_set)

lemma counter_snoc: "counter (xs @ [x]) = add_count (counter xs) (x, 1)"
  by (simp add: counter_def)

lemma count_of_counter: "count_of (counter xs) k = int (count_list xs k)"
  by (induction xs rule: rev_induct) (simp_all add: counter_snoc, simp add: counter_def count_of_def)

lemma distinct_counter: "distinct (dict_keys (counter xs))"
  by (induction xs rule: rev_induct) (simp_all add: counter_snoc add_count_def, simp add: counter_def dict_keys_def)

lemma sum_add_count: "distinct (dict_keys d) \<Longrightarrow> sum_list (map snd (add_count d kn)) = sum_list (map snd d) + snd kn"
  by (induction d) (auto simp: add_count_def count_of_def dict_set_def dict_get_def dict_keys_def update_keys
      image_iff split: option.splits dest: map_of_SomeD)

lemma counter_total: "sum_list (map snd (counter xs)) = int (length xs)"
  by (induction xs rule: rev_induct) (simp_all add: counter_snoc sum_add_count distinct_counter, simp add: counter_def)

lemma count_of_sorted: "distinct (dict_keys d) \<Longrightarrow> count_of (sort_key f d) k = count_of d k"
  unfolding count_of_def dict_get_def dict_keys_def
  by (subst map_of_inject_set [THEN iffD2, of "sort_key f d" d]) (simp_all add: distinct_map inj_on_def)

text \<open>The class distribution counts the assignments: the total of a split is the number of its rows
  and the count of a label is the number of its rows with that label.\<close>

theorem distribution_counts_rows:
  "sd_total_count (class_distribution_of fl assignments split) = int (length (filter (\<lambda>a. sa_split a = split) assignments))
   \<and> count_of (sd_class_counts (class_distribution_of fl assignments split)) label
       = int (length (filter (\<lambda>a. sa_split a = split \<and> sa_label a = label) assignments))"
proof -
  have labels: "count_list (map sa_label xs) label = length (filter (\<lambda>a. sa_label a = label) xs)" for xs
    by (induction xs) simp_all
  show ?thesis
    by (simp add: labels class_distribution_of_def Let_def counter_total count_of_sorted distinct_counter count_of_counter conj_commute)
qed

end
