(* ===== verification/Leakage.thy ===== *)
theory Leakage
  imports Splits
begin

text \<open>
  The post-split leakage checks of \<open>src/app/plugins/tabular/leakage_checks.py\<close>: exact row content and group
  values met in more than one split, and the leakage candidates of the profile. Free-text notes are left out.
\<close>

section \<open>Requests\<close>

definition SPLIT_LEAKAGE_REPORT_KIND :: string where
  "SPLIT_LEAKAGE_REPORT_KIND = ''split_leakage_report''"

definition SPLIT_LEAKAGE_REPORT_SCHEMA_VERSION :: string where
  "SPLIT_LEAKAGE_REPORT_SCHEMA_VERSION = ''split_leakage_report.v1''"

definition HIGH_TARGET_MATCH_REASON :: string where
  "HIGH_TARGET_MATCH_REASON = ''high_target_match_rate''"

definition leakage_error :: "string \<Rightarrow> error_code \<Rightarrow> exn" where
  "leakage_error reason c = Raised ''SplitLeakageCheckError'' reason c 0"

text \<open>What is read of a profile report: the candidates of its leakage block, when it has one.\<close>

record leakage_candidate =
  lk_column :: string
  lk_reason_code :: string

record 'f leakage_request =
  lq_dataset_id :: string
  lq_source_dataset_version_id :: string
  lq_candidate_dataset_version_id :: string
  lq_split_manifest :: "'f split_manifest"
  lq_split_manifest_artifact :: artifact_ref
  lq_source_artifact :: artifact_ref
  lq_created_by_job_id :: string
  lq_config_hash :: string
  lq_policy_version :: string
  lq_tabular_profile_report :: "leakage_candidate list option option"
  lq_action_plan_id :: "string option"
  lq_step_id :: "string option"
  lq_report_id :: "string option"
  lq_generated_at :: "datetime option"

section \<open>Reading the source and the manifest\<close>

definition leakage_row :: "nat \<times> csv_row \<Rightarrow> csv_row" where
  "leakage_row ir =
     (let (index, row) = ir in
      if row_get row ''object_id'' = [] then dict_set row ''object_id'' (''row_'' @ pad_zeros 6 (str_of_nat index)) else row)"

definition leakage_rows :: "string \<Rightarrow> string \<Rightarrow> exn + csv_row list" where
  "leakage_rows target_column text =
     (let records = csv_records text;
          header = (case records of [] \<Rightarrow> [] | h # _ \<Rightarrow> h);
          columns = filter (\<lambda>n. n \<noteq> []) header;
          rows = map (\<lambda>r. clean_row columns (dict_row header r)) (filter (\<lambda>r. r \<noteq> []) (tl records)) in
      if \<not> fields_fit header then Inl (Other ''Error'')
      else if columns = [] then Inl (leakage_error ''empty_tabular_source'' INVALID_JOB_PAYLOAD)
      else if target_column \<notin> set columns then Inl (leakage_error ''target_column_not_found'' INVALID_JOB_PAYLOAD)
      else if \<not> list_all fields_fit (tl records) then Inl (Other ''Error'')
      else if rows = [] then Inl (leakage_error ''empty_tabular_source'' INVALID_JOB_PAYLOAD)
      else Inr (map leakage_row (zip [0..<length rows] rows)))"

definition index_assignments :: "split_assignment list \<Rightarrow> (string, data_split \<times> string option) dict" where
  "index_assignments assignments = dict_of (map (\<lambda>a. (sa_object_id a, (sa_split a, sa_group_value a))) assignments)"

definition verify_assignments_match_rows :: "(string, data_split \<times> string option) dict \<Rightarrow> csv_row list \<Rightarrow> exn + unit" where
  "verify_assignments_match_rows assignments rows =
     requireR (list_all (\<lambda>i. i \<in> set (map (\<lambda>r. row_get r ''object_id'') rows)) (dict_keys assignments))
       (leakage_error ''split_manifest_object_id_missing_in_source'' LEAKAGE_DETECTED)"

text \<open>The nested default dictionaries of both scans: the ids met under a key, by split.\<close>

type_synonym by_split = "(data_split, string list) dict"

definition add_occurrence :: "(string, by_split) dict \<Rightarrow> string \<times> data_split \<times> string \<Rightarrow> (string, by_split) dict" where
  "add_occurrence d occ =
     (let (k, split, object_id) = occ;
          by = (case dict_get d k of None \<Rightarrow> [] | Some b \<Rightarrow> b);
          ids = (case dict_get by split of None \<Rightarrow> [] | Some is \<Rightarrow> is)
      in dict_set d k (dict_set by split (ids @ [object_id])))"

definition by_key :: "(string \<times> data_split \<times> string) list \<Rightarrow> (string, by_split) dict" where
  "by_key occs = foldl add_occurrence [] occs"

definition finding_ids :: "by_split \<Rightarrow> string list" where
  "finding_ids by = sort (concat (map snd by))"

definition finding_splits :: "by_split \<Rightarrow> string list" where
  "finding_splits by = sort (map data_split_value (dict_keys by))"

definition affected_ids :: "leakage_finding list \<Rightarrow> string list" where
  "affected_ids findings = sorted_list_of_set (set (concat (map lf_object_ids findings)))"

section \<open>Exact row content\<close>

definition leakage_row_signature :: "(string \<Rightarrow> string) \<Rightarrow> csv_row \<Rightarrow> string" where
  "leakage_row_signature sha row =
     sha (dumps (JObj (map (\<lambda>c. (c, JStr (row_get row c))) (filter (\<lambda>c. c \<noteq> ''object_id'') (sort (dict_keys row))))))"

definition exact_occurrences ::
    "(string \<Rightarrow> string) \<Rightarrow> csv_row list \<Rightarrow> (string, data_split \<times> string option) dict \<Rightarrow> (string \<times> data_split \<times> string) list" where
  "exact_occurrences sha rows assignments =
     concat (map (\<lambda>row. let object_id = row_get row ''object_id'' in
       case dict_get assignments object_id of
         None \<Rightarrow> []
       | Some (split, _) \<Rightarrow> [(leakage_row_signature sha row, split, object_id)]) rows)"

definition exact_findings :: "(string, by_split) dict \<Rightarrow> leakage_finding list" where
  "exact_findings signatures =
     concat (map (\<lambda>(index, signature, by).
       if length by < 2 then []
       else [\<lparr>lf_finding_id = ''exact_hash_'' @ pad_zeros 4 (str_of_nat index) @ ''_'' @ take 16 signature,
              lf_splits = finding_splits by, lf_object_ids = finding_ids by, lf_group_value = None, lf_column = None\<rparr>])
       (enumerate 0 (sort_key fst signatures)))"

definition leakage_check0 :: "leakage_check_type \<Rightarrow> leakage_check_status \<Rightarrow> leakage_severity \<Rightarrow> string \<Rightarrow> leakage_check" where
  "leakage_check0 t st sev reason =
     \<lparr>lc_check_type = t, lc_status = st, lc_severity = sev, lc_reason_code = reason, lc_block_action = None,
      lc_findings_count = 0, lc_affected_object_ids = [], lc_affected_groups = [], lc_affected_columns = [], lc_findings = []\<rparr>"

definition exact_hash_check ::
    "(string \<Rightarrow> string) \<Rightarrow> csv_row list \<Rightarrow> (string, data_split \<times> string option) dict \<Rightarrow> leakage_check" where
  "exact_hash_check sha rows assignments =
     (let findings = exact_findings (by_key (exact_occurrences sha rows assignments)) in
      if findings = [] then leakage_check0 LC_EXACT_HASH LS_PASSED LV_INFO ''no_exact_hash_leakage''
      else (leakage_check0 LC_EXACT_HASH LS_FAILED LV_BLOCKER ''split_leakage'')
        \<lparr>lc_block_action := Some BLOCK_MODEL_EVALUATION_ACTION, lc_findings_count := int (length findings),
         lc_affected_object_ids := affected_ids findings, lc_findings := findings\<rparr>)"

section \<open>Group values\<close>

definition group_occurrences ::
    "string \<Rightarrow> csv_row list \<Rightarrow> (string, data_split \<times> string option) dict \<Rightarrow> (string \<times> data_split \<times> string) list" where
  "group_occurrences group_key rows assignments =
     concat (map (\<lambda>row. let object_id = row_get row ''object_id'' in
       case dict_get assignments object_id of
         None \<Rightarrow> []
       | Some (split, _) \<Rightarrow> if row_get row group_key = [] then [] else [(row_get row group_key, split, object_id)]) rows)"

definition group_findings :: "string \<Rightarrow> (string, by_split) dict \<Rightarrow> leakage_finding list" where
  "group_findings group_key groups =
     concat (map (\<lambda>(group_value, by).
       if length by < 2 then []
       else [\<lparr>lf_finding_id = ''group_leakage_'' @ group_value, lf_splits = finding_splits by,
              lf_object_ids = finding_ids by, lf_group_value = Some group_value, lf_column = Some group_key\<rparr>])
       (sort_key fst groups))"

definition group_key_check ::
    "csv_row list \<Rightarrow> (string, data_split \<times> string option) dict \<Rightarrow> string option \<Rightarrow> leakage_check" where
  "group_key_check rows assignments group_key =
     (case group_key of
        None \<Rightarrow> leakage_check0 LC_GROUP_KEY LS_NOT_APPLICABLE LV_INFO ''group_key_not_configured''
      | Some k \<Rightarrow>
          let findings = group_findings k (by_key (group_occurrences k rows assignments)) in
          if findings = [] then
            (leakage_check0 LC_GROUP_KEY LS_PASSED LV_INFO ''no_group_key_leakage'')\<lparr>lc_affected_columns := [k]\<rparr>
          else (leakage_check0 LC_GROUP_KEY LS_FAILED LV_BLOCKER ''split_leakage'')
            \<lparr>lc_block_action := Some BLOCK_MODEL_EVALUATION_ACTION, lc_findings_count := int (length findings),
             lc_affected_object_ids := affected_ids findings,
             lc_affected_groups := sorted_list_of_set (set (map (the \<circ> lf_group_value) findings)),
             lc_affected_columns := [k], lc_findings := findings\<rparr>)"

section \<open>Leakage candidates of the profile\<close>

definition splits_in_manifest :: "split_assignment list \<Rightarrow> string list" where
  "splits_in_manifest assignments = sorted_list_of_set (set (map (data_split_value \<circ> sa_split) assignments))"

definition candidate_finding :: "string list \<Rightarrow> string \<Rightarrow> leakage_candidate \<Rightarrow> leakage_finding" where
  "candidate_finding splits tag c =
     \<lparr>lf_finding_id = tag @ lk_column c, lf_splits = (if splits = [] then [''train'', ''test''] else splits),
      lf_object_ids = [], lf_group_value = None, lf_column = Some (lk_column c)\<rparr>"

definition target_leakage_candidate_check :: "leakage_candidate list option option \<Rightarrow> split_assignment list \<Rightarrow> leakage_check" where
  "target_leakage_candidate_check profile assignments =
     (let candidates = (case profile of Some (Some cs) \<Rightarrow> cs | _ \<Rightarrow> []);
          blockers = filter (\<lambda>c. lk_reason_code c = HIGH_TARGET_MATCH_REASON) candidates;
          warnings = filter (\<lambda>c. lk_reason_code c \<noteq> HIGH_TARGET_MATCH_REASON) candidates;
          splits = splits_in_manifest assignments;
          failed = (\<lambda>severity cs findings.
            (leakage_check0 LC_TARGET_LEAKAGE_CANDIDATE LS_FAILED severity ''target_leakage_candidate'')
              \<lparr>lc_findings_count := int (length findings),
               lc_affected_columns := sorted_list_of_set (set (map lk_column cs)), lc_findings := findings\<rparr>) in
      if profile = None then
        leakage_check0 LC_TARGET_LEAKAGE_CANDIDATE LS_NOT_APPLICABLE LV_INFO ''tabular_profile_report_not_provided''
      else if candidates = [] then
        leakage_check0 LC_TARGET_LEAKAGE_CANDIDATE LS_PASSED LV_INFO ''no_target_leakage_candidate''
      else if blockers \<noteq> [] then
        (failed LV_BLOCKER blockers (map (candidate_finding splits ''target_leakage_'') blockers))
          \<lparr>lc_block_action := Some BLOCK_TRAINING_ACTION\<rparr>
      else failed LV_WARNING warnings (map (candidate_finding splits ''target_leakage_warning_'') warnings))"

section \<open>The report\<close>

text \<open>The loop returns at the first failed blocker; it keeps the largest score met so far.\<close>

fun leakage_risk_score :: "'f float_ops \<Rightarrow> 'f \<Rightarrow> leakage_check list \<Rightarrow> 'f" where
  "leakage_risk_score fl score [] = score"
| "leakage_risk_score fl score (c # cs) =
     (let at_least = (\<lambda>x. if fl_lt fl score (fl_const fl x) then fl_const fl x else score) in
      if lc_status c \<noteq> LS_FAILED then leakage_risk_score fl score cs
      else if lc_severity c = LV_BLOCKER then fl_const fl 1
      else if lc_severity c = LV_WARNING then leakage_risk_score fl (at_least (1 / 2)) cs
      else leakage_risk_score fl (at_least (1 / 4)) cs)"

definition failed_blocker :: "leakage_check \<Rightarrow> bool" where
  "failed_blocker c \<longleftrightarrow> lc_status c = LS_FAILED \<and> lc_severity c = LV_BLOCKER"

definition leakage_finding_valid :: "leakage_finding \<Rightarrow> bool" where
  "leakage_finding_valid f \<longleftrightarrow>
     non_empty (lf_finding_id f) \<and> list_all non_empty (lf_splits f) \<and> list_all non_empty (lf_object_ids f)
     \<and> opt_ok non_empty (lf_column f)"

definition leakage_check_valid :: "leakage_check \<Rightarrow> bool" where
  "leakage_check_valid c \<longleftrightarrow>
     non_empty (lc_reason_code c) \<and> opt_ok non_empty (lc_block_action c) \<and> 0 \<le> lc_findings_count c
     \<and> list_all non_empty (lc_affected_object_ids c) \<and> list_all non_empty (lc_affected_groups c)
     \<and> list_all non_empty (lc_affected_columns c) \<and> list_all leakage_finding_valid (lc_findings c)"

definition leakage_lineage_valid :: "leakage_lineage \<Rightarrow> bool" where
  "leakage_lineage_valid l \<longleftrightarrow>
     opt_ok non_empty (ll_action_plan_id l) \<and> opt_ok non_empty (ll_step_id l)
     \<and> non_empty (ll_source_dataset_version_id l) \<and> non_empty (ll_candidate_dataset_version_id l)
     \<and> non_empty (ll_created_by_job_id l) \<and> sha256_digest (ll_config_hash l)
     \<and> artifact_ref_valid (ll_source_artifact l) \<and> artifact_ref_valid (ll_split_manifest l)"

definition leakage_report_valid :: "'f float_ops \<Rightarrow> 'f leakage_report \<Rightarrow> bool" where
  "leakage_report_valid fl r \<longleftrightarrow>
     non_empty (lr_report_id r) \<and> non_empty (lr_report_schema_version r) \<and> non_empty (lr_dataset_id r)
     \<and> non_empty (lr_source_dataset_version_id r) \<and> non_empty (lr_candidate_dataset_version_id r)
     \<and> non_empty (lr_split_manifest_id r) \<and> non_empty (lr_target_column r) \<and> non_empty (lr_policy_version r)
     \<and> fl_score_ok fl (lr_leakage_risk_score r) \<and> list_all leakage_check_valid (lr_checks r)
     \<and> leakage_lineage_valid (lr_lineage r)"

definition leakage_checks ::
    "(string \<Rightarrow> string) \<Rightarrow> 'f leakage_request \<Rightarrow> csv_row list \<Rightarrow> exn + leakage_check list" where
  "leakage_checks sha request rows =
     (let manifest = lq_split_manifest request; assignments = index_assignments (sp_assignments manifest) in
      bindR (verify_assignments_match_rows assignments rows) (\<lambda>_.
      Inr [exact_hash_check sha rows assignments, group_key_check rows assignments (sp_group_key manifest),
           target_leakage_candidate_check (lq_tabular_profile_report request) (sp_assignments manifest)]))"

definition leakage_report_of :: "'s builder_env \<Rightarrow> 'f float_ops \<Rightarrow> 'f leakage_request \<Rightarrow> leakage_check list \<Rightarrow> 'f leakage_report" where
  "leakage_report_of env fl request checks =
     (let manifest = lq_split_manifest request; fresh = ''split_leakage_report_'' @ se_uuid env in
      \<lparr>lr_report_id = (case lq_report_id request of Some i \<Rightarrow> if i = [] then fresh else i | None \<Rightarrow> fresh),
       lr_report_schema_version = SPLIT_LEAKAGE_REPORT_SCHEMA_VERSION, lr_dataset_id = lq_dataset_id request,
       lr_source_dataset_version_id = lq_source_dataset_version_id request,
       lr_candidate_dataset_version_id = lq_candidate_dataset_version_id request,
       lr_split_manifest_id = sp_split_manifest_id manifest, lr_target_column = sp_target_column manifest,
       lr_policy_version = lq_policy_version request, lr_leakage_detected = list_ex failed_blocker checks,
       lr_leakage_risk_score = leakage_risk_score fl (fl_const fl 0) checks,
       lr_block_model_evaluation =
         list_ex (\<lambda>c. failed_blocker c \<and> lc_block_action c = Some BLOCK_MODEL_EVALUATION_ACTION) checks,
       lr_block_training = list_ex (\<lambda>c. failed_blocker c \<and> lc_block_action c = Some BLOCK_TRAINING_ACTION) checks,
       lr_checks = checks,
       lr_lineage =
         \<lparr>ll_action_plan_id = lq_action_plan_id request, ll_step_id = lq_step_id request,
          ll_source_dataset_version_id = lq_source_dataset_version_id request,
          ll_candidate_dataset_version_id = lq_candidate_dataset_version_id request,
          ll_created_by_job_id = lq_created_by_job_id request, ll_config_hash = lq_config_hash request,
          ll_source_artifact = lq_source_artifact request, ll_split_manifest = lq_split_manifest_artifact request\<rparr>,
       lr_generated_at = (case lq_generated_at request of Some t \<Rightarrow> t | None \<Rightarrow> se_now env)\<rparr>)"

definition compute_leakage :: "'s builder_env \<Rightarrow> 'f float_ops \<Rightarrow> 'f leakage_request \<Rightarrow> 's \<Rightarrow> exn + 'f leakage_report" where
  "compute_leakage env fl request st =
     (let manifest = lq_split_manifest request in
      if sp_assignments manifest = [] then Inl (leakage_error ''empty_split_manifest'' INVALID_JOB_PAYLOAD)
      else bindR (storage_get env (ar_uri (lq_source_artifact request)) st) (\<lambda>(data, info).
        case se_decode env data of
          None \<Rightarrow> Inl (Other ''UnicodeDecodeError'')
        | Some text \<Rightarrow>
            bindR (leakage_rows (sp_target_column manifest) text) (\<lambda>rows.
            bindR (leakage_checks (se_sha env) request rows) (\<lambda>checks.
            validated (leakage_report_valid fl) (leakage_report_of env fl request checks)))))"

definition leakage_metadata :: "'f leakage_request \<Rightarrow> 'f leakage_report \<Rightarrow> metadata" where
  "leakage_metadata request report =
     [(''split-manifest-id'', sp_split_manifest_id (lq_split_manifest request)),
      (''split-manifest-hash'', ar_hash (lq_split_manifest_artifact request)),
      (''source-artifact-hash'', ar_hash (lq_source_artifact request)),
      (''target-column'', sp_target_column (lq_split_manifest request)), (''policy-version'', lq_policy_version request),
      (''leakage-detected'', bool_text (lr_leakage_detected report)),
      (''block-model-evaluation'', bool_text (lr_block_model_evaluation report)),
      (''block-training'', bool_text (lr_block_training report))]
     @ opt_entry ''action-plan-id'' (lq_action_plan_id request) @ opt_entry ''step-id'' (lq_step_id request)"

definition run_split_leakage_checks ::
    "'s builder_env \<Rightarrow> 'f float_ops \<Rightarrow> ('f leakage_report \<Rightarrow> string) \<Rightarrow> 'f leakage_request \<Rightarrow> 's
     \<Rightarrow> (exn + ('f leakage_report \<times> registered_artifact)) \<times> 's" where
  "run_split_leakage_checks env fl ser request st =
     (case compute_leakage env fl request st of
        Inl e \<Rightarrow> (Inl e, st)
      | Inr report \<Rightarrow>
          let (res, st') = registry_save env
                \<lparr>sv_artifact_kind = SPLIT_LEAKAGE_REPORT_KIND, sv_data = ser report, sv_artifact_format = ''json'',
                 sv_media_type = ''application/json'', sv_schema_version = SPLIT_LEAKAGE_REPORT_SCHEMA_VERSION,
                 sv_dataset_version_id = lq_candidate_dataset_version_id request,
                 sv_created_by_job_id = lq_created_by_job_id request, sv_config_hash = lq_config_hash request,
                 sv_metadata = leakage_metadata request report\<rparr> st
          in (bindR res (\<lambda>artifact. Inr (report, artifact)), st'))"

section \<open>A key spans two splits\<close>

definition split_dict :: "(string, by_split) dict \<Rightarrow> string \<Rightarrow> by_split" where
  "split_dict d k = (case dict_get d k of None \<Rightarrow> [] | Some b \<Rightarrow> b)"

lemma split_dict_add:
  "set (dict_keys (split_dict (add_occurrence d (k, s, i)) k')) =
     (if k' = k then insert s (set (dict_keys (split_dict d k'))) else set (dict_keys (split_dict d k')))"
  by (simp add: split_dict_def add_occurrence_def Let_def dict_get_set)

lemma by_key_splits: "set (dict_keys (split_dict (by_key occs) k)) = {s. \<exists>i. (k, s, i) \<in> set occs}"
proof (induction occs rule: rev_induct)
  case (snoc occ occs)
  obtain k' s i where "occ = (k', s, i)" by (cases occ)
  moreover have "by_key (occs @ [occ]) = add_occurrence (by_key occs) occ" by (simp add: by_key_def)
  ultimately show ?case using snoc by (auto simp: split_dict_add)
qed (simp add: by_key_def split_dict_def dict_keys_def)

definition well_keyed :: "(string, by_split) dict \<Rightarrow> bool" where
  "well_keyed d \<longleftrightarrow> distinct (dict_keys d) \<and> (\<forall>k. distinct (dict_keys (split_dict d k)))"

lemma by_key_well_keyed: "well_keyed (by_key occs)"
proof (induction occs rule: rev_induct)
  case (snoc occ occs)
  obtain k' s i where "occ = (k', s, i)" by (cases occ)
  moreover have "by_key (occs @ [occ]) = add_occurrence (by_key occs) occ" by (simp add: by_key_def)
  ultimately show ?case using snoc
    by (auto simp: well_keyed_def add_occurrence_def Let_def split_dict_def dict_get_set)
qed (simp add: by_key_def well_keyed_def split_dict_def dict_keys_def)

definition spans :: "(string \<times> data_split \<times> string) list \<Rightarrow> string \<Rightarrow> bool" where
  "spans occs k \<longleftrightarrow> (\<exists>s i t j. (k, s, i) \<in> set occs \<and> (k, t, j) \<in> set occs \<and> s \<noteq> t)"

lemma two_splits_iff:
  assumes "(k, by) \<in> set (by_key occs)"
  shows "2 \<le> length by \<longleftrightarrow> spans occs k"
proof -
  have "distinct (map fst (by_key occs))"
    using by_key_well_keyed [of occs] by (simp add: well_keyed_def dict_keys_def)
  then have key: "split_dict (by_key occs) k = by"
    using assms by (simp add: split_dict_def dict_get_def)
  then have "distinct (dict_keys by)" using by_key_well_keyed [of occs] key by (auto simp: well_keyed_def)
  then have "length by = card {s. \<exists>i. (k, s, i) \<in> set occs}"
    using distinct_card [of "dict_keys by"] by_key_splits [of occs k] key by (simp add: dict_keys_def)
  moreover have "finite {s. \<exists>i. (k, s, i) \<in> set occs}"
    using by_key_splits [of occs k] by (metis List.finite_set)
  ultimately show ?thesis
    unfolding spans_def by (auto simp: numeral_2_eq_2 card_le_Suc0_iff_eq not_less_eq_eq [symmetric] simp del: not_less_eq_eq)
qed

lemma in_by_key:
  assumes "(k, s, i) \<in> set occs"
  shows "\<exists>by. (k, by) \<in> set (by_key occs)"
proof -
  have "s \<in> set (dict_keys (split_dict (by_key occs) k))"
    using assms by (auto simp: by_key_splits)
  then show ?thesis
    by (cases "dict_get (by_key occs) k") (auto simp: split_dict_def dict_keys_def dest: dict_get_Some_in)
qed

section \<open>When a check fails\<close>

lemma any_spanning: "(\<exists>k by. (k, by) \<in> set (by_key occs) \<and> 2 \<le> length by) \<longleftrightarrow> (\<exists>k. spans occs k)"
  using two_splits_iff in_by_key by (metis spans_def)

lemma concat_if_empty: "concat (map (\<lambda>x. if P x then [] else [f x]) xs) = [] \<longleftrightarrow> (\<forall>x \<in> set xs. P x)"
  by (induction xs) auto

lemma exact_findings_empty: "exact_findings d = [] \<longleftrightarrow> \<not> (\<exists>k by. (k, by) \<in> set d \<and> 2 \<le> length by)"
proof -
  have "exact_findings d = [] \<longleftrightarrow> (\<forall>e \<in> set (enumerate 0 (sort_key fst d)). length (snd (snd e)) < 2)"
    unfolding exact_findings_def case_prod_beta by (rule concat_if_empty)
  also have "\<dots> \<longleftrightarrow> (\<forall>e \<in> snd ` set (enumerate 0 (sort_key fst d)). length (snd e) < 2)"
    by simp
  also have "snd ` set (enumerate 0 (sort_key fst d)) = set d"
    by (metis map_snd_enumerate set_map set_sort)
  finally show ?thesis by (auto simp: not_less)
qed

lemma group_findings_empty: "group_findings k d = [] \<longleftrightarrow> \<not> (\<exists>k by. (k, by) \<in> set d \<and> 2 \<le> length by)"
  by (force simp: group_findings_def not_less split: if_splits)

definition split_of :: "(string, data_split \<times> string option) dict \<Rightarrow> csv_row \<Rightarrow> data_split option" where
  "split_of assignments row = map_option fst (dict_get assignments (row_get row ''object_id''))"

lemma in_exact_occurrences:
  "(\<exists>i. (k, s, i) \<in> set (exact_occurrences sha rows assignments))
     \<longleftrightarrow> (\<exists>r \<in> set rows. leakage_row_signature sha r = k \<and> split_of assignments r = Some s)"
proof (induction rows)
  case (Cons r rows)
  have "exact_occurrences sha (r # rows) assignments =
      (case dict_get assignments (row_get r ''object_id'') of None \<Rightarrow> []
       | Some (split, _) \<Rightarrow> [(leakage_row_signature sha r, split, row_get r ''object_id'')]) @ exact_occurrences sha rows assignments"
    by (simp add: exact_occurrences_def Let_def)
  then show ?case using Cons
    by (cases "dict_get assignments (row_get r ''object_id'')") (auto simp: split_of_def)
qed (simp add: exact_occurrences_def)

lemma in_group_occurrences:
  "(\<exists>i. (v, s, i) \<in> set (group_occurrences k rows assignments))
     \<longleftrightarrow> (\<exists>r \<in> set rows. row_get r k = v \<and> v \<noteq> [] \<and> split_of assignments r = Some s)"
proof (induction rows)
  case (Cons r rows)
  have "group_occurrences k (r # rows) assignments =
      (case dict_get assignments (row_get r ''object_id'') of None \<Rightarrow> []
       | Some (split, _) \<Rightarrow> if row_get r k = [] then [] else [(row_get r k, split, row_get r ''object_id'')])
      @ group_occurrences k rows assignments"
    by (simp add: group_occurrences_def Let_def)
  then show ?case using Cons
    by (cases "dict_get assignments (row_get r ''object_id'')") (auto simp: split_of_def)
qed (simp add: group_occurrences_def)

lemma spans_iff: "spans occs k \<longleftrightarrow> (\<exists>s t. s \<noteq> t \<and> (\<exists>i. (k, s, i) \<in> set occs) \<and> (\<exists>j. (k, t, j) \<in> set occs))"
  by (auto simp: spans_def)

text \<open>The exact content check fails exactly when two rows of the source with the same signature are
  assigned to different splits; rows the manifest does not list are left out.\<close>

theorem exact_check_fails_iff:
  "lc_status (exact_hash_check sha rows assignments) = LS_FAILED
     \<longleftrightarrow> (\<exists>r \<in> set rows. \<exists>q \<in> set rows. \<exists>s t. leakage_row_signature sha r = leakage_row_signature sha q
           \<and> split_of assignments r = Some s \<and> split_of assignments q = Some t \<and> s \<noteq> t)"
proof -
  have "lc_status (exact_hash_check sha rows assignments) = LS_FAILED
      \<longleftrightarrow> (\<exists>k. spans (exact_occurrences sha rows assignments) k)"
    by (simp add: exact_hash_check_def Let_def leakage_check0_def exact_findings_empty any_spanning)
  also have "\<dots> \<longleftrightarrow> (\<exists>r \<in> set rows. \<exists>q \<in> set rows. \<exists>s t. leakage_row_signature sha r = leakage_row_signature sha q
           \<and> split_of assignments r = Some s \<and> split_of assignments q = Some t \<and> s \<noteq> t)"
    unfolding spans_iff in_exact_occurrences by metis
  finally show ?thesis .
qed

lemma group_check_fails_iff:
  "lc_status (group_key_check rows assignments (Some k)) = LS_FAILED
     \<longleftrightarrow> (\<exists>r \<in> set rows. \<exists>q \<in> set rows. \<exists>s t. row_get r k \<noteq> [] \<and> row_get r k = row_get q k
           \<and> split_of assignments r = Some s \<and> split_of assignments q = Some t \<and> s \<noteq> t)"
proof -
  have "lc_status (group_key_check rows assignments (Some k)) = LS_FAILED
      \<longleftrightarrow> (\<exists>v. spans (group_occurrences k rows assignments) v)"
    by (simp add: group_key_check_def Let_def leakage_check0_def group_findings_empty any_spanning)
  also have "\<dots> \<longleftrightarrow> (\<exists>r \<in> set rows. \<exists>q \<in> set rows. \<exists>s t. row_get r k \<noteq> [] \<and> row_get r k = row_get q k
           \<and> split_of assignments r = Some s \<and> split_of assignments q = Some t \<and> s \<noteq> t)"
    unfolding spans_iff in_group_occurrences by (rule iffI; clarsimp; metis)
  finally show ?thesis .
qed

section \<open>The splitter's own manifest\<close>

lemma leakage_row_get:
  "row_get (leakage_row (i, row)) k = (if k = ''object_id'' then row_id i row else row_get row k)"
  by (simp add: leakage_row_def row_id_def row_get_def dict_get_set Let_def split: option.split)

lemma tabular_row_nth:
  assumes "to_tabular_rows raw target_column (Some k) = Inr rows" and "i < length raw"
  shows "tr_object_id (rows ! i) = row_id i (raw ! i)
    \<and> (row_get (raw ! i) k \<noteq> [] \<longrightarrow> tr_group_value (rows ! i) = Some (row_get (raw ! i) k))"
proof -
  have "to_tabular_row target_column (Some k) (i, raw ! i) = Inr (rows ! i)"
    using assms list_all2_nthD [of _ "zip [0..<length raw] raw" rows i]
    by (fastforce simp: to_tabular_rows_def mapR_Inr_iff)
  then have "rows ! i = \<lparr>tr_object_id = row_id i (raw ! i), tr_label = row_get (raw ! i) target_column,
      tr_group_value = (if row_get (raw ! i) k = [] then None else Some (row_get (raw ! i) k))\<rparr>"
    by (simp add: to_tabular_row_def Let_def split: if_splits)
  then show ?thesis by simp
qed

lemma indexed_split:
  assumes "distinct (map sa_object_id assignments)" and "a \<in> set assignments"
  shows "dict_get (index_assignments assignments) (sa_object_id a) = Some (sa_split a, sa_group_value a)"
proof -
  let ?kvs = "map (\<lambda>a. (sa_object_id a, (sa_split a, sa_group_value a))) assignments"
  have "distinct (map fst ?kvs)" using assms(1) by (simp add: comp_def)
  then show ?thesis unfolding index_assignments_def
    by (subst dict_get_dict_of_distinct) (use assms(2) in \<open>auto intro!: map_of_is_SomeI simp: comp_def\<close>)
qed

lemma zip_indices: "zip [0..<length xs] xs = map (\<lambda>i. (i, xs ! i)) [0..<length xs]"
  by (rule nth_equalityI) simp_all

text \<open>C35: The group check never fails on the manifest the splitter itself produced from the same rows, when
  the object ids are distinct: the two modules agree on ids and group values.\<close>

theorem own_manifest_passes_group_check:
  assumes rows: "to_tabular_rows raw target_column (Some k) = Inr rows"
    and assigned: "assign_splits fl rnd shuffle rows seed ratios = Inr assignments"
    and ids: "distinct (map tr_object_id rows)"
  shows "lc_status (group_key_check (map leakage_row (zip [0..<length raw] raw)) (index_assignments assignments) (Some k))
    = LS_PASSED"
proof -
  have len: "length rows = length raw"
    using mapR_length [OF rows [unfolded to_tabular_rows_def]] by simp
  note paired = assignments_of_rows [OF assigned]
  have len2: "length assignments = length rows" using paired by (simp add: list_all2_lengthD)
  have names: "map sa_object_id assignments = map tr_object_id rows"
    by (rule list_all2_map_eq) (rule list_all2_mono [OF paired], simp)
  have at: "split_of (index_assignments assignments) (leakage_row (i, raw ! i)) = Some (sa_split (assignments ! i))"
    if "i < length raw" for i
  proof -
    have "sa_object_id (assignments ! i) = row_id i (raw ! i)"
      using tabular_row_nth [OF rows that] list_all2_nthD [OF paired, of i] that len by simp
    then show ?thesis
      using indexed_split [of assignments "assignments ! i"] names ids that len len2
      by (simp add: split_of_def leakage_row_get)
  qed
  have same: "sa_split (assignments ! i) = sa_split (assignments ! j)"
    if ij: "i < length raw" "j < length raw" and v: "row_get (leakage_row (i, raw ! i)) k \<noteq> []"
      "row_get (leakage_row (i, raw ! i)) k = row_get (leakage_row (j, raw ! j)) k" for i j
  proof (cases "k = ''object_id''")
    case True
    then have "tr_object_id (rows ! i) = tr_object_id (rows ! j)"
      using v tabular_row_nth [OF rows ij(1)] tabular_row_nth [OF rows ij(2)] by (simp add: leakage_row_get)
    then have "map tr_object_id rows ! i = map tr_object_id rows ! j" using ij len by simp
    then have "i = j" using ids ij len nth_eq_iff_index_eq [of "map tr_object_id rows" i j] by simp
    then show ?thesis by simp
  next
    case False
    then have "tr_group_value (rows ! i) = tr_group_value (rows ! j)"
      using v tabular_row_nth [OF rows ij(1)] tabular_row_nth [OF rows ij(2)] by (simp add: leakage_row_get)
    then show ?thesis
      using same_group_same_split [OF assigned, of "assignments ! i" "assignments ! j"]
        list_all2_nthD [OF paired, of i] list_all2_nthD [OF paired, of j] ij len len2 by simp
  qed
  have "\<not> (\<exists>r \<in> set (map leakage_row (zip [0..<length raw] raw)). \<exists>q \<in> set (map leakage_row (zip [0..<length raw] raw)).
      \<exists>s t. row_get r k \<noteq> [] \<and> row_get r k = row_get q k
        \<and> split_of (index_assignments assignments) r = Some s \<and> split_of (index_assignments assignments) q = Some t \<and> s \<noteq> t)"
  proof (clarsimp simp: zip_indices at)
    fix i j
    assume "i < length raw" "j < length raw" "row_get (leakage_row (i, raw ! i)) k = row_get (leakage_row (j, raw ! j)) k"
      "row_get (leakage_row (j, raw ! j)) k \<noteq> []"
    then show "sa_split (assignments ! i) = sa_split (assignments ! j)" using same [of i j] by simp
  qed
  then have "lc_status (group_key_check (map leakage_row (zip [0..<length raw] raw)) (index_assignments assignments) (Some k))
      \<noteq> LS_FAILED"
    by (simp only: group_check_fails_iff not_False_eq_True)
  then show ?thesis by (auto simp: group_key_check_def Let_def leakage_check0_def split: if_splits)
qed

lemma sample_split_assigned:
  "to_tabular_rows (sample_split_rows ''c1'') ''y'' (Some ''case_id'') = Inr
     [\<lparr>tr_object_id = ''a'', tr_label = ''1'', tr_group_value = Some ''c1''\<rparr>,
      \<lparr>tr_object_id = ''b'', tr_label = ''0'', tr_group_value = Some ''c2''\<rparr>]"
  "assign_splits rat_floats (\<lambda>_. 1) (\<lambda>_ gs. gs)
     [\<lparr>tr_object_id = ''a'', tr_label = ''1'', tr_group_value = Some ''c1''\<rparr>,
      \<lparr>tr_object_id = ''b'', tr_label = ''0'', tr_group_value = Some ''c2''\<rparr>] 42 sample_ratios = Inr
     [\<lparr>sa_object_id = ''a'', sa_split = VALIDATION, sa_label = ''1'', sa_group_value = Some ''c1''\<rparr>,
      \<lparr>sa_object_id = ''b'', sa_split = TEST, sa_label = ''0'', sa_group_value = Some ''c2''\<rparr>]"
  by code_simp+

theorem own_manifest_passes_group_check_witness:
  "\<exists>assignments. lc_status (group_key_check (map leakage_row (zip [0..<2] (sample_split_rows ''c1'')))
     (index_assignments assignments) (Some ''case_id'')) = LS_PASSED \<and> length assignments = 2"
  using own_manifest_passes_group_check [OF sample_split_assigned]
  by (intro exI [of _ "[\<lparr>sa_object_id = ''a'', sa_split = VALIDATION, sa_label = ''1'', sa_group_value = Some ''c1''\<rparr>,
      \<lparr>sa_object_id = ''b'', sa_split = TEST, sa_label = ''0'', sa_group_value = Some ''c2''\<rparr>]"])
    (simp add: sample_split_rows_def numeral_2_eq_2)

section \<open>The verdict\<close>

lemma leakage_checks_shape:
  "leakage_checks sha request rows = Inr checks \<Longrightarrow>
     checks = [exact_hash_check sha rows (index_assignments (sp_assignments (lq_split_manifest request))),
       group_key_check rows (index_assignments (sp_assignments (lq_split_manifest request))) (sp_group_key (lq_split_manifest request)),
       target_leakage_candidate_check (lq_tabular_profile_report request) (sp_assignments (lq_split_manifest request))]"
  by (auto simp: leakage_checks_def Let_def result_simps)

lemma exact_check_failed:
  "failed_blocker (exact_hash_check sha rows a) \<longleftrightarrow> lc_status (exact_hash_check sha rows a) = LS_FAILED"
  "lc_status (exact_hash_check sha rows a) = LS_FAILED \<Longrightarrow>
     lc_block_action (exact_hash_check sha rows a) = Some BLOCK_MODEL_EVALUATION_ACTION"
  by (simp_all add: failed_blocker_def exact_hash_check_def Let_def leakage_check0_def split: if_splits)

lemma group_check_failed:
  "failed_blocker (group_key_check rows a k) \<longleftrightarrow> lc_status (group_key_check rows a k) = LS_FAILED"
  "lc_status (group_key_check rows a k) = LS_FAILED \<Longrightarrow>
     lc_block_action (group_key_check rows a k) = Some BLOCK_MODEL_EVALUATION_ACTION"
  by (auto simp: failed_blocker_def group_key_check_def Let_def leakage_check0_def split: if_splits option.splits)

definition high_match_candidate :: "leakage_candidate list option option \<Rightarrow> bool" where
  "high_match_candidate profile =
     (case profile of Some (Some cs) \<Rightarrow> list_ex (\<lambda>c. lk_reason_code c = HIGH_TARGET_MATCH_REASON) cs | _ \<Rightarrow> False)"

lemma target_check_failed:
  "failed_blocker (target_leakage_candidate_check profile a) \<longleftrightarrow> high_match_candidate profile"
  "high_match_candidate profile \<Longrightarrow>
     lc_block_action (target_leakage_candidate_check profile a) = Some BLOCK_TRAINING_ACTION"
  by (auto simp: failed_blocker_def target_leakage_candidate_check_def high_match_candidate_def Let_def leakage_check0_def
      filter_empty_conv list_ex_iff split: option.splits)

lemma target_check_severity:
  "lc_severity (target_leakage_candidate_check profile a) \<in> {LV_BLOCKER, LV_WARNING}
     \<or> lc_status (target_leakage_candidate_check profile a) \<noteq> LS_FAILED"
  by (simp add: target_leakage_candidate_check_def Let_def leakage_check0_def)

lemma block_actions_differ [simp]: "BLOCK_MODEL_EVALUATION_ACTION \<noteq> BLOCK_TRAINING_ACTION"
  "BLOCK_TRAINING_ACTION \<noteq> BLOCK_MODEL_EVALUATION_ACTION"
  by (simp_all add: BLOCK_MODEL_EVALUATION_ACTION_def BLOCK_TRAINING_ACTION_def)

lemma risk_one_iff:
  assumes "fl_const fl 0 \<noteq> fl_const fl 1" "fl_const fl (1 / 2) \<noteq> fl_const fl 1"
    and "\<And>c. c \<in> set checks \<Longrightarrow> lc_status c = LS_FAILED \<Longrightarrow> lc_severity c \<in> {LV_BLOCKER, LV_WARNING}"
  shows "leakage_risk_score fl (fl_const fl 0) checks = fl_const fl 1 \<longleftrightarrow> list_ex failed_blocker checks"
proof -
  have "score \<noteq> fl_const fl 1 \<Longrightarrow> leakage_risk_score fl score checks = fl_const fl 1 \<longleftrightarrow> list_ex failed_blocker checks" for score
    using assms(3)
  proof (induction checks arbitrary: score)
    case (Cons c cs)
    have "c \<in> set (c # cs)" by simp
    then show ?case
      using Cons.IH [OF Cons.prems(1)] Cons.IH [OF assms(2)] Cons.prems(1) Cons.prems(2) [of c] Cons.prems(2)
      by (cases "lc_status c = LS_FAILED"; cases "lc_severity c") (simp_all add: failed_blocker_def Let_def)
  qed simp
  with assms(1) show ?thesis by simp
qed

lemma failed_check_blocks:
  assumes "leakage_checks sha request rows = Inr checks"
  shows "lr_block_model_evaluation (leakage_report_of env fl request checks)
    \<longleftrightarrow> lc_status (checks ! 0) = LS_FAILED \<or> lc_status (checks ! 1) = LS_FAILED"
proof -
  let ?a = "index_assignments (sp_assignments (lq_split_manifest request))"
  show ?thesis
    using exact_check_failed [of sha rows ?a] group_check_failed [of rows ?a "sp_group_key (lq_split_manifest request)"]
      target_check_failed [of "lq_tabular_profile_report request" "sp_assignments (lq_split_manifest request)"]
    by (auto simp: leakage_checks_shape [OF assms] leakage_report_of_def Let_def)
qed

text \<open>The flags of the report are the verdict of the checks: model evaluation is blocked exactly when the
  content check or the group check failed, training exactly when the profile has a candidate with a confirmed high target
  match, and leakage is detected, with risk score one, exactly in these cases.\<close>

theorem leakage_verdict:
  assumes "leakage_checks sha request rows = Inr checks"
    and "fl_const fl 0 \<noteq> fl_const fl 1" and "fl_const fl (1 / 2) \<noteq> fl_const fl 1"
  shows "lr_block_model_evaluation (leakage_report_of env fl request checks)
      = (lc_status (checks ! 0) = LS_FAILED \<or> lc_status (checks ! 1) = LS_FAILED)
    \<and> lr_block_training (leakage_report_of env fl request checks) = high_match_candidate (lq_tabular_profile_report request)
    \<and> lr_leakage_detected (leakage_report_of env fl request checks)
      = (lr_block_model_evaluation (leakage_report_of env fl request checks)
         \<or> lr_block_training (leakage_report_of env fl request checks))
    \<and> (lr_leakage_risk_score (leakage_report_of env fl request checks) = fl_const fl 1)
      = lr_leakage_detected (leakage_report_of env fl request checks)"
proof -
  let ?a = "index_assignments (sp_assignments (lq_split_manifest request))"
  let ?e = "exact_hash_check sha rows ?a" and ?g = "group_key_check rows ?a (sp_group_key (lq_split_manifest request))"
    and ?t = "target_leakage_candidate_check (lq_tabular_profile_report request) (sp_assignments (lq_split_manifest request))"
  have checks: "checks = [?e, ?g, ?t]" by (rule leakage_checks_shape [OF assms(1)])
  have "lc_severity c \<in> {LV_BLOCKER, LV_WARNING}" if "c \<in> set checks" "lc_status c = LS_FAILED" for c
    using that exact_check_failed(1) [of sha rows ?a]
      group_check_failed(1) [of rows ?a "sp_group_key (lq_split_manifest request)"]
      target_check_severity [of "lq_tabular_profile_report request" "sp_assignments (lq_split_manifest request)"]
    unfolding checks failed_blocker_def by auto
  then have "leakage_risk_score fl (fl_const fl 0) checks = fl_const fl 1 \<longleftrightarrow> list_ex failed_blocker checks"
    by (rule risk_one_iff [OF assms(2,3)])
  moreover note failed_check_blocks [OF assms(1), of env fl]
  moreover have "list_ex (\<lambda>c. failed_blocker c \<and> lc_block_action c = Some BLOCK_TRAINING_ACTION) checks
      \<longleftrightarrow> high_match_candidate (lq_tabular_profile_report request)"
    using exact_check_failed [of sha rows ?a] group_check_failed [of rows ?a "sp_group_key (lq_split_manifest request)"]
      target_check_failed [of "lq_tabular_profile_report request" "sp_assignments (lq_split_manifest request)"]
    by (auto simp: checks)
  moreover have "list_ex failed_blocker checks \<longleftrightarrow> lc_status (checks ! 0) = LS_FAILED \<or> lc_status (checks ! 1) = LS_FAILED
      \<or> high_match_candidate (lq_tabular_profile_report request)"
    by (simp add: checks exact_check_failed(1) group_check_failed(1) target_check_failed(1))
  ultimately show ?thesis by (simp add: leakage_report_of_def Let_def)
qed

definition sample_split_manifest :: "split_assignment list \<Rightarrow> rat split_manifest" where
  "sample_split_manifest assignments =
     \<lparr>sp_split_manifest_id = ''m'', sp_split_schema_version = ''v1'', sp_dataset_id = ''d'',
      sp_source_dataset_version_id = ''v1'', sp_candidate_dataset_version_id = ''cv'', sp_target_column = ''y'',
      sp_strategy = GROUP_STRATIFIED, sp_seed = 42, sp_group_key = Some ''case_id'', sp_policy_version = ''p'',
      sp_split_ratios = sample_ratios, sp_assignments = assignments, sp_class_distribution = [],
      sp_lineage = \<lparr>sl_action_plan_id = ''p'', sl_step_id = ''s'', sl_source_dataset_version_id = ''v1'',
        sl_candidate_dataset_version_id = ''cv'', sl_created_by_job_id = ''j'', sl_config_hash = sha256_of toy_sha [],
        sl_source_artifact = sample_ref ''s'' []\<rparr>,
      sp_generated_at = 5\<rparr>"

definition sample_leakage_request :: "split_assignment list \<Rightarrow> rat leakage_request" where
  "sample_leakage_request assignments =
     \<lparr>lq_dataset_id = ''d'', lq_source_dataset_version_id = ''v1'', lq_candidate_dataset_version_id = ''cv'',
      lq_split_manifest = sample_split_manifest assignments, lq_split_manifest_artifact = sample_ref ''m'' [],
      lq_source_artifact = sample_ref ''s'' [], lq_created_by_job_id = ''j'', lq_config_hash = sha256_of toy_sha [],
      lq_policy_version = ''p'',
      lq_tabular_profile_report = Some (Some [\<lparr>lk_column = ''amount'', lk_reason_code = HIGH_TARGET_MATCH_REASON\<rparr>]),
      lq_action_plan_id = None, lq_step_id = None, lq_report_id = None, lq_generated_at = None\<rparr>"

definition sample_assignments :: "split_assignment list" where
  "sample_assignments =
     [\<lparr>sa_object_id = ''a'', sa_split = TRAIN, sa_label = ''1'', sa_group_value = Some ''g''\<rparr>,
      \<lparr>sa_object_id = ''b'', sa_split = TEST, sa_label = ''1'', sa_group_value = Some ''g''\<rparr>]"

definition sample_leaking_rows :: "csv_row list" where
  "sample_leaking_rows = map (\<lambda>i. [(''object_id'', i), (''y'', ''1''), (''case_id'', ''g'')]) [''a'', ''b'']"

lemma sample_rows_verified:
  "verify_assignments_match_rows (index_assignments sample_assignments) sample_leaking_rows = Inr ()"
  by code_simp

lemma sample_splits:
  "map (split_of (index_assignments sample_assignments)) sample_leaking_rows = [Some TRAIN, Some TEST]"
  by code_simp

theorem leakage_verdict_witness:
  "\<exists>checks. leakage_checks toy_sha (sample_leakage_request sample_assignments) sample_leaking_rows = Inr checks
     \<and> lr_block_model_evaluation (leakage_report_of sample_env rat_floats (sample_leakage_request sample_assignments) checks)
     \<and> lr_block_training (leakage_report_of sample_env rat_floats (sample_leakage_request sample_assignments) checks)"
proof -
  let ?req = "sample_leakage_request sample_assignments"
  obtain checks where checks: "leakage_checks toy_sha ?req sample_leaking_rows = Inr checks"
    using sample_rows_verified
    by (simp add: leakage_checks_def sample_leakage_request_def sample_split_manifest_def Let_def)
  have "lc_status (group_key_check sample_leaking_rows (index_assignments sample_assignments) (Some ''case_id'')) = LS_FAILED"
    unfolding group_check_fails_iff using sample_splits
    by (simp add: sample_leaking_rows_def row_get_def)
  then have "lc_status (checks ! 1) = LS_FAILED"
    using leakage_checks_shape [OF checks] by (simp add: sample_leakage_request_def sample_split_manifest_def)
  moreover have "high_match_candidate (lq_tabular_profile_report ?req)"
    by (simp add: sample_leakage_request_def high_match_candidate_def)
  ultimately show ?thesis
    using leakage_verdict [OF checks, of rat_floats sample_env] checks by (auto simp: rat_floats_def)
qed

end
