(* ===== verification/MethodSelection.thy ===== *)
theory MethodSelection
  imports ActionPlan PyFloat
begin

text \<open>
  The method recommendations of \<open>src/app/kernel/method_selection.py\<close>, derived from a tabular profile, and how
  they fit the action plan preview. Scores are floats; \<open>den\<close> is the rational a float denotes, \<open>rnd6\<close> is
  \<open>round(x, 6)\<close>. Of the profile the fields read here are kept, of the explanation of a recommendation none.
\<close>

section \<open>Profile contracts (domain/profile.py, the fields read)\<close>

datatype column_type =
    NUMERIC_INTEGER | NUMERIC_FLOAT | BOOLEAN | CATEGORICAL | DATETIME_TYPE | IDENTIFIER | TEXT_TYPE | UNKNOWN_TYPE

record column_profile =
  cp_name :: string
  cp_type :: column_type

text \<open>\<open>cm_segment_ratios\<close>: the missing ratios by segment, None when there is no breakdown.\<close>

record 'f column_missingness =
  cm_column :: string
  cm_missing_count :: int
  cm_missing_rate :: 'f
  cm_segment_ratios :: "'f list option"

record 'f missingness_diagnostics =
  md_target_column :: "string option"
  md_columns :: "'f column_missingness list"

record 'f class_imbalance =
  ci_target_column :: string
  ci_rare_class_label :: string
  ci_rare_class_count :: int
  ci_rare_class_ratio :: 'f
  ci_minority_class_share :: 'f
  ci_imbalance_ratio :: 'f

record 'f tabular_profile =
  tp_columns :: "column_profile list"
  tp_missingness :: "'f missingness_diagnostics option"
  tp_class_imbalance :: "'f class_imbalance option"

section \<open>Scores\<close>

definition METHOD_SCORE_FORMULA :: string where
  "METHOD_SCORE_FORMULA = ''MethodScore(m) = wq * QualityScore(m) - wr * RiskScore(m) - wc * CostScore(m) ''
     @ ''+ we * ExplainabilityScore(m) + wi * ExpectedModelImpact(m) '' @ ''+ wp * PolicyCompatibility(m)''"

definition METHOD_SCORE_NOTATION_FORMULA :: string where
  "METHOD_SCORE_NOTATION_FORMULA = ''MethodScore(m) = w_q * QualityScore(m) - w_r * RiskScore(m) ''
     @ ''- w_c * CostScore(m) + w_e * ExplainabilityScore(m) ''
     @ ''+ w_i * ExpectedModelImpact(m) + w_p * PolicyCompatibility(m)''"

definition METHOD_SCORE_FORMULA_WEIGHTS :: "(string, rat) dict" where
  "METHOD_SCORE_FORMULA_WEIGHTS =
     [(''wq'', 30 / 100), (''wr'', 20 / 100), (''wc'', 10 / 100), (''we'', 10 / 100), (''wi'', 15 / 100), (''wp'', 15 / 100)]"

definition IMPUTATION_POLICY_COMPONENT_WEIGHTS :: "(string, rat) dict" where
  "IMPUTATION_POLICY_COMPONENT_WEIGHTS =
     [(''distribution_preservation'', 20 / 100), (''variance_preservation'', 12 / 100), (''business_rules_pass_rate'', 15 / 100),
      (''model_impact_delta'', 18 / 100), (''leakage_safety'', 15 / 100), (''privacy_safety'', 10 / 100),
      (''explainability'', 5 / 100), (''computational_cost'', - (5 / 100))]"

text \<open>\<open>score_env\<close>: the float operations, the rational a float denotes and the rounding to six digits.\<close>

record 'f score_env =
  sc_fl :: "'f float_ops"
  sc_den :: "'f \<Rightarrow> rat"
  sc_rnd6 :: "'f \<Rightarrow> 'f"

text \<open>\<open>min(1.0, max(0.0, round(value, 6)))\<close>: each keeps its first argument unless the second is strictly beyond it.\<close>

definition clamp :: "'f score_env \<Rightarrow> 'f \<Rightarrow> 'f" where
  "clamp sc v =
     (let fl = sc_fl sc; r = sc_rnd6 sc v;
          m = (if fl_lt fl (fl_const fl 0) r then r else fl_const fl 0)
      in if fl_lt fl m (fl_const fl 1) then m else fl_const fl 1)"

text \<open>The six scores of a candidate in the order of the code, decimals of the source.\<close>

record candidate_scores =
  cs_quality :: rat
  cs_risk :: rat
  cs_cost :: rat
  cs_explainability :: rat
  cs_expected_model_impact :: rat
  cs_policy_compatibility :: rat

definition score_components :: "candidate_scores \<Rightarrow> (string, rat) dict" where
  "score_components s =
     [(''quality_score'', cs_quality s), (''risk_score'', cs_risk s), (''cost_score'', cs_cost s),
      (''explainability_score'', cs_explainability s), (''expected_model_impact'', cs_expected_model_impact s),
      (''policy_compatibility'', cs_policy_compatibility s)]"

definition weighted_scores :: "'f float_ops \<Rightarrow> candidate_scores \<Rightarrow> (string, 'f) dict" where
  "weighted_scores fl s =
     map (\<lambda>((component, value), weight). (component, fl_mul fl (fl_const fl weight) (fl_const fl value)))
       (zip (score_components s) [30 / 100, - (20 / 100), - (10 / 100), 10 / 100, 15 / 100, 15 / 100])"

definition method_score_of ::
    "'f score_env \<Rightarrow> candidate_scores \<Rightarrow> (string, rat) dict \<Rightarrow> string list \<Rightarrow> string \<Rightarrow> method_score" where
  "method_score_of sc s policy_component_weights reason_codes policy_version =
     (let fl = sc_fl sc; den = sc_den sc; weighted = weighted_scores fl s; lit = map (\<lambda>(k, q). (k, den (fl_const fl q))) in
      \<lparr>ms_value = den (clamp sc (fl_sum fl (map snd weighted))), ms_policy_version = policy_version,
       ms_formula = METHOD_SCORE_FORMULA, ms_notation_formula = METHOD_SCORE_NOTATION_FORMULA,
       ms_formula_weights = lit METHOD_SCORE_FORMULA_WEIGHTS, ms_components = lit (score_components s),
       ms_weighted_components = map (\<lambda>(k, x). (k, den x)) weighted,
       ms_policy_component_weights = lit policy_component_weights, ms_reason_codes = reason_codes\<rparr>)"

record candidate_spec =
  ks_method_id :: string
  ks_status :: method_candidate_status
  ks_policy_status :: policy_status
  ks_scores :: candidate_scores
  ks_weights :: "(string, rat) dict"
  ks_reason_codes :: "string list"
  ks_reason :: "string option"

definition candidate_of :: "'f score_env \<Rightarrow> string \<Rightarrow> candidate_spec \<Rightarrow> method_candidate" where
  "candidate_of sc policy_version k =
     (let lit = (\<lambda>q. Some (sc_den sc (fl_const (sc_fl sc) q))) in
      \<lparr>mc_method_id = ks_method_id k, mc_status = ks_status k, mc_quality_score = lit (cs_quality (ks_scores k)),
       mc_risk_score = lit (cs_risk (ks_scores k)),
       mc_method_score = method_score_of sc (ks_scores k) (ks_weights k) (ks_reason_codes k) policy_version,
       mc_policy_status = ks_policy_status k, mc_reason = ks_reason k\<rparr>)"

abbreviation scores :: "rat \<Rightarrow> rat \<Rightarrow> rat \<Rightarrow> rat \<Rightarrow> rat \<Rightarrow> rat \<Rightarrow> candidate_scores" where
  "scores q r c e i p \<equiv>
     \<lparr>cs_quality = q / 100, cs_risk = r / 100, cs_cost = c / 100, cs_explainability = e / 100,
      cs_expected_model_impact = i / 100, cs_policy_compatibility = p / 100\<rparr>"

abbreviation spec ::
    "string \<Rightarrow> method_candidate_status \<Rightarrow> policy_status \<Rightarrow> candidate_scores \<Rightarrow> (string, rat) dict \<Rightarrow> string list
     \<Rightarrow> string option \<Rightarrow> candidate_spec" where
  "spec m st ps sc w codes reason \<equiv>
     \<lparr>ks_method_id = m, ks_status = st, ks_policy_status = ps, ks_scores = sc, ks_weights = w, ks_reason_codes = codes,
      ks_reason = reason\<rparr>"

section \<open>Imputation\<close>

definition is_numeric :: "column_profile \<Rightarrow> bool" where
  "is_numeric c \<longleftrightarrow> cp_type c \<in> {NUMERIC_FLOAT, NUMERIC_INTEGER}"

fun fl_max :: "'f float_ops \<Rightarrow> 'f list \<Rightarrow> 'f" where
  "fl_max fl [] = fl_const fl 0"
| "fl_max fl [x] = x"
| "fl_max fl (x # y # ys) = fl_max fl ((if fl_lt fl x y then y else x) # ys)"

definition is_segment_dependent :: "'f float_ops \<Rightarrow> 'f column_missingness \<Rightarrow> bool" where
  "is_segment_dependent fl m =
     (case cm_segment_ratios m of
        None \<Rightarrow> False
      | Some ratios \<Rightarrow> ratios \<noteq> [] \<and> fl_le fl (fl_const fl (20 / 100)) (fl_sub fl (fl_max fl ratios) (fl_min fl ratios)))"

definition imputation_reason_codes :: "bool \<Rightarrow> string option \<Rightarrow> string list" where
  "imputation_reason_codes segment_dependent target_column =
     [''skewed_numeric_distribution''] @ (if segment_dependent then [''segment_dependent_missingness''] else [])
     @ [if (case target_column of None \<Rightarrow> False | Some t \<Rightarrow> t \<noteq> []) then ''target_safe'' else ''target_not_declared'']"

definition value_slug :: "string \<Rightarrow> string" where
  "value_slug v = slug_or ''value'' v"

definition imputation_candidates :: "bool \<Rightarrow> string list \<Rightarrow> candidate_spec list" where
  "imputation_candidates segment_dependent reason_codes =
     [spec ''group_median'' (if segment_dependent then MCS_RECOMMENDED else MCS_AVAILABLE) PS_ENABLED
        (scores (if segment_dependent then 84 else 72) 12 18 94 72 95) IMPUTATION_POLICY_COMPONENT_WEIGHTS
        (if segment_dependent then reason_codes else [''target_safe'']) None,
      spec ''median'' (if segment_dependent then MCS_AVAILABLE else MCS_RECOMMENDED) PS_ENABLED
        (scores 70 8 8 98 55 95) IMPUTATION_POLICY_COMPONENT_WEIGHTS
        (if segment_dependent then [''target_safe''] else reason_codes) None,
      spec ''missingness_indicator'' MCS_AVAILABLE PS_ENABLED (scores 66 6 10 92 58 90) IMPUTATION_POLICY_COMPONENT_WEIGHTS
        [''predictive_missingness_indicator_candidate'']
        (Some ''Missingness may carry signal and can be preserved as an indicator.''),
      spec ''pmm'' MCS_DISABLED_BY_POLICY PS_DISABLED_BY_POLICY (scores 86 18 45 56 70 20) IMPUTATION_POLICY_COMPONENT_WEIGHTS
        [''method_disabled_by_policy'', ''mvp_readiness_not_enabled'']
        (Some ''PMM is a pilot capability and is disabled in the MVP profile.'')]"

definition opt_json :: "string option \<Rightarrow> json" where
  "opt_json v = (case v of None \<Rightarrow> JNull | Some s \<Rightarrow> JStr s)"

definition numeric_imputation ::
    "'f score_env \<Rightarrow> string \<Rightarrow> string option \<Rightarrow> 'f column_missingness \<Rightarrow> column_profile \<Rightarrow> method_recommendation" where
  "numeric_imputation sc policy_version target_column m column =
     (let segment_dependent = is_segment_dependent (sc_fl sc) m;
          recommended_id = (if segment_dependent then ''group_median'' else ''median'');
          reason_codes = imputation_reason_codes segment_dependent target_column in
      \<lparr>mr_recommendation_id = ''method_rec_impute_'' @ value_slug (cp_name column),
       mr_issue_id = ''issue_missing_'' @ value_slug (cp_name column),
       mr_action_type = action_value IMPUTE_MISSING_VALUES, mr_policy_version = policy_version,
       mr_target = [(''scope'', JStr ''column''), (''column'', JStr (cp_name column)), (''target_column'', opt_json target_column),
         (''missing_rate'', JFloat (fl_repr (sc_fl sc) (cm_missing_rate m))), (''missing_count'', JInt (cm_missing_count m))],
       mr_recommended_method = \<lparr>rm_method_id = recommended_id, rm_plugin_id = ''dataforge.tabular'', rm_readiness_level = 4,
         rm_requires_approval = False, rm_reason_codes = reason_codes\<rparr>,
       mr_candidate_methods = map (candidate_of sc policy_version) (imputation_candidates segment_dependent reason_codes),
       mr_blocked_methods = [\<lparr>bm_method_id = ''target_imputation'', bm_reason_code = ''target_column_auto_imputation_forbidden'',
         bm_reason = ''Target-aware imputation is blocked by policy for this column.''\<rparr>],
       mr_expected_outputs = [''imputation_report'', ''candidate_dataset_version'', ''version_compare_report''],
       mr_model_impact_required = True\<rparr>)"

section \<open>Rare classes\<close>

definition rare_class_needs_policy :: "'f float_ops \<Rightarrow> 'f class_imbalance option \<Rightarrow> bool" where
  "rare_class_needs_policy fl ci =
     (case ci of
        None \<Rightarrow> False
      | Some c \<Rightarrow> fl_le fl (ci_minority_class_share c) (fl_const fl (10 / 100)) \<or> fl_le fl (fl_const fl 3) (ci_imbalance_ratio c))"

definition rare_class_reason_codes :: "string list" where
  "rare_class_reason_codes =
     [''rare_class_underrepresented'', ''train_time_safe_no_dataset_mutation'', ''split_required_for_synthetic_augmentation'']"

definition rare_class_candidates :: "candidate_spec list" where
  "rare_class_candidates =
     [spec ''class_weights'' MCS_RECOMMENDED PS_ENABLED (scores 76 5 6 90 68 95) [] rare_class_reason_codes None,
      spec ''undersampling_majority'' MCS_AVAILABLE PS_ENABLED (scores 62 20 8 84 52 82) []
        [''rare_class_underrepresented'', ''majority_reduction_candidate'']
        (Some ''May reduce majority dominance, but can discard useful real examples.''),
      spec ''rare_case_review'' MCS_AVAILABLE PS_ENABLED (scores 70 4 35 96 50 90) []
        [''rare_class_underrepresented'', ''human_review_candidate'']
        (Some ''Prioritizes rare examples for review before synthetic augmentation.''),
      spec ''collect_more_real_data'' MCS_AVAILABLE PS_ENABLED (scores 88 2 82 98 82 88) []
        [''rare_class_underrepresented'', ''real_data_preferred'']
        (Some ''Real rare-class data is preferred when collection is feasible.''),
      spec ''smote'' MCS_DISABLED_BY_READINESS PS_DISABLED_BY_READINESS (scores 78 22 22 66 74 72) []
        [''split_required_for_synthetic_augmentation'']
        (Some ''SMOTE is policy-supported, but requires train-only split and leakage gates.''),
      spec ''gaussian_copula'' MCS_AVAILABLE PS_ENABLED (scores 66 28 34 58 48 64) []
        [''synthetic_distribution_candidate'', ''model_impact_required'']
        (Some (''Distribution-level synthetic generation is available but not a '' @ ''SMOTE replacement.'')),
      spec ''borderline_smote'' MCS_DISABLED_BY_READINESS PS_DISABLED_BY_READINESS (scores 80 30 30 58 70 46) []
        [''mvp_readiness_not_enabled'', ''split_required_for_synthetic_augmentation'']
        (Some ''Borderline-SMOTE is policy-controlled and not MVP-selectable yet.''),
      spec ''adasyn'' MCS_DISABLED_BY_READINESS PS_DISABLED_BY_READINESS (scores 74 36 32 52 66 42) []
        [''mvp_readiness_not_enabled'', ''label_noise_amplification_risk'']
        (Some ''ADASYN is disabled until readiness and label-noise gates exist.''),
      spec ''ctgan'' MCS_DISABLED_BY_POLICY PS_DISABLED_BY_POLICY (scores 82 42 70 34 64 18) []
        [''method_disabled_by_policy'', ''mvp_readiness_not_enabled'']
        (Some ''CTGAN is disabled by policy in the MVP profile.'')]"

definition rare_class_recommendation :: "'f score_env \<Rightarrow> string \<Rightarrow> 'f class_imbalance \<Rightarrow> method_recommendation" where
  "rare_class_recommendation sc policy_version ci =
     (let fl = sc_fl sc in
      \<lparr>mr_recommendation_id = ''method_rec_rare_class_'' @ value_slug (ci_rare_class_label ci),
       mr_issue_id = ''issue_rare_class_'' @ value_slug (ci_rare_class_label ci),
       mr_action_type = action_value AUGMENT_RARE_CLASS, mr_policy_version = policy_version,
       mr_target = [(''scope'', JStr ''class''), (''target_column'', JStr (ci_target_column ci)),
         (''rare_class_label'', JStr (ci_rare_class_label ci)), (''rare_class_count'', JInt (ci_rare_class_count ci)),
         (''rare_class_ratio'', JFloat (fl_repr fl (ci_rare_class_ratio ci))),
         (''imbalance_ratio'', JFloat (fl_repr fl (ci_imbalance_ratio ci)))],
       mr_recommended_method = \<lparr>rm_method_id = ''class_weights'', rm_plugin_id = ''dataforge.tabular'', rm_readiness_level = 4,
         rm_requires_approval = False, rm_reason_codes = rare_class_reason_codes\<rparr>,
       mr_candidate_methods = map (candidate_of sc policy_version) rare_class_candidates,
       mr_blocked_methods = [],
       mr_expected_outputs = [''rare_class_method_report'', ''model_impact_report'', ''candidate_dataset_version''],
       mr_model_impact_required = True\<rparr>)"

section \<open>All recommendations\<close>

definition columns_by_name :: "column_profile list \<Rightarrow> (string, column_profile) dict" where
  "columns_by_name cs = dict_of (map (\<lambda>c. (cp_name c, c)) cs)"

text \<open>One iteration of the loop over the missingness entries.\<close>

definition imputation_for ::
    "'f score_env \<Rightarrow> string \<Rightarrow> 'f tabular_profile \<Rightarrow> string option \<Rightarrow> 'f column_missingness \<Rightarrow> exn + method_recommendation list" where
  "imputation_for sc policy_version profile target_column m =
     (if cm_missing_count m = 0 then Inr []
      else if Some (cm_column m) = target_column then Inr []
      else (case dict_get (columns_by_name (tp_columns profile)) (cm_column m) of
              None \<Rightarrow> Inr []
            | Some column \<Rightarrow>
                if is_numeric column then
                  bindR (validated method_recommendation_valid (numeric_imputation sc policy_version target_column m column))
                    (\<lambda>r. Inr [r])
                else Inr []))"

definition build_method_recommendations ::
    "'f score_env \<Rightarrow> 'f tabular_profile \<Rightarrow> string \<Rightarrow> exn + method_recommendation list" where
  "build_method_recommendations sc profile policy_version =
     bindR (case tp_missingness profile of
              None \<Rightarrow> Inr []
            | Some md \<Rightarrow> bindR (mapR (imputation_for sc policy_version profile (md_target_column md)) (md_columns md))
                          (\<lambda>rss. Inr (concat rss)))
       (\<lambda>imputations.
     bindR (case tp_class_imbalance profile of
              None \<Rightarrow> Inr []
            | Some ci \<Rightarrow>
                if rare_class_needs_policy (sc_fl sc) (Some ci) then
                  bindR (validated method_recommendation_valid (rare_class_recommendation sc policy_version ci)) (\<lambda>r. Inr [r])
                else Inr [])
       (\<lambda>rare. Inr (imputations @ rare)))"

section \<open>Every recommendation is valid and selectable\<close>

text \<open>What is used of the floats: literals of the unit interval denote scores and the order agrees with zero and one.\<close>

definition unit_scores :: "'f score_env \<Rightarrow> bool" where
  "unit_scores sc \<longleftrightarrow>
     (\<forall>q. 0 \<le> q \<and> q \<le> 1 \<longrightarrow> score_ok (sc_den sc (fl_const (sc_fl sc) q)))
     \<and> (\<forall>x. fl_lt (sc_fl sc) (fl_const (sc_fl sc) 0) x \<longrightarrow> 0 \<le> sc_den sc x)
     \<and> (\<forall>x. fl_lt (sc_fl sc) x (fl_const (sc_fl sc) 1) \<longrightarrow> sc_den sc x \<le> 1)"

lemma clamp_score:
  assumes "unit_scores sc"
  shows "score_ok (sc_den sc (clamp sc v))"
proof -
  have "score_ok (sc_den sc (fl_const (sc_fl sc) 0))" "score_ok (sc_den sc (fl_const (sc_fl sc) 1))"
    using assms by (simp_all add: unit_scores_def)
  then show ?thesis using assms
    by (auto simp: clamp_def Let_def unit_scores_def score_ok_def)
qed

definition unit_components :: "candidate_scores \<Rightarrow> bool" where
  "unit_components s \<longleftrightarrow> list_all (\<lambda>kv. 0 \<le> snd kv \<and> snd kv \<le> 1) (score_components s)"

definition spec_ok :: "candidate_spec \<Rightarrow> bool" where
  "spec_ok k \<longleftrightarrow> ks_method_id k \<noteq> [] \<and> unit_components (ks_scores k) \<and> list_all non_empty (map fst (ks_weights k))
     \<and> list_all non_empty (ks_reason_codes k)"

lemma candidate_of_valid:
  assumes "unit_scores sc" "spec_ok k" "policy_version \<noteq> []"
  shows "method_candidate_valid (candidate_of sc policy_version k)"
proof -
  have "score_ok (sc_den sc (fl_const (sc_fl sc) q))" if "q \<in> snd ` set (score_components (ks_scores k))" for q
    using assms(1,2) that by (auto simp: unit_scores_def spec_ok_def unit_components_def list_all_iff)
  then have q: "score_ok (sc_den sc (fl_const (sc_fl sc) (cs_quality (ks_scores k))))"
    "score_ok (sc_den sc (fl_const (sc_fl sc) (cs_risk (ks_scores k))))"
    "score_ok (sc_den sc (fl_const (sc_fl sc) (cs_cost (ks_scores k))))"
    "score_ok (sc_den sc (fl_const (sc_fl sc) (cs_explainability (ks_scores k))))"
    "score_ok (sc_den sc (fl_const (sc_fl sc) (cs_expected_model_impact (ks_scores k))))"
    "score_ok (sc_den sc (fl_const (sc_fl sc) (cs_policy_compatibility (ks_scores k))))"
    by (simp_all add: score_components_def)
  have weights: "map (fst \<circ> (\<lambda>(k, q). (k, f q))) d = map fst d" for f :: "rat \<Rightarrow> rat" and d :: "(string, rat) dict"
    by (induction d) auto
  have "method_score_valid (mc_method_score (candidate_of sc policy_version k))"
    using q assms clamp_score [OF assms(1)]
    by (simp add: method_score_valid_def candidate_of_def method_score_of_def Let_def weights spec_ok_def
        METHOD_SCORE_FORMULA_def METHOD_SCORE_NOTATION_FORMULA_def METHOD_SCORE_FORMULA_WEIGHTS_def score_components_def
        weighted_scores_def dict_keys_def non_empty_def)
  then show ?thesis using assms(2) q
    by (simp add: method_candidate_valid_def candidate_of_def Let_def spec_ok_def non_empty_def)
qed

definition recommends_well :: "method_recommendation \<Rightarrow> bool" where
  "recommends_well r \<longleftrightarrow> method_recommendation_valid r
     \<and> (\<exists>c \<in> set (mr_candidate_methods r). mc_method_id c = rm_method_id (mr_recommended_method r) \<and> selectable c)
     \<and> distinct (map mc_method_id (mr_candidate_methods r))
     \<and> rm_method_id (mr_recommended_method r) \<notin> bm_method_id ` set (mr_blocked_methods r)"

lemma candidate_of_id [simp]: "mc_method_id (candidate_of sc v k) = ks_method_id k"
  "mc_status (candidate_of sc v k) = ks_status k" "mc_policy_status (candidate_of sc v k) = ks_policy_status k"
  by (simp_all add: candidate_of_def Let_def)

lemma candidates_valid:
  "unit_scores sc \<Longrightarrow> v \<noteq> [] \<Longrightarrow> list_all spec_ok ks \<Longrightarrow> list_all method_candidate_valid (map (candidate_of sc v) ks)"
  by (induction ks) (simp_all add: candidate_of_valid)

lemma imputation_specs_ok: "list_all non_empty codes \<Longrightarrow> list_all spec_ok (imputation_candidates b codes)"
  by (cases b) (simp_all add: imputation_candidates_def spec_ok_def unit_components_def score_components_def non_empty_def
      IMPUTATION_POLICY_COMPONENT_WEIGHTS_def)

lemma rare_class_specs_ok: "list_all spec_ok rare_class_candidates"
  by (simp add: rare_class_candidates_def rare_class_reason_codes_def spec_ok_def unit_components_def score_components_def
      non_empty_def)

lemma reason_codes_ne: "list_all non_empty (imputation_reason_codes b t)"
  by (simp add: imputation_reason_codes_def non_empty_def)

lemma value_slug_ne [simp]: "value_slug v \<noteq> []"
  by (simp add: value_slug_def slug_or_ne)

lemma numeric_imputation_well:
  assumes "unit_scores sc" "v \<noteq> []"
  shows "recommends_well (numeric_imputation sc v t m c)"
  using candidates_valid [OF assms imputation_specs_ok [OF reason_codes_ne, of "is_segment_dependent (sc_fl sc) m" "is_segment_dependent (sc_fl sc) m" t]]
    reason_codes_ne [of "is_segment_dependent (sc_fl sc) m" t] assms(2)
  by (cases "is_segment_dependent (sc_fl sc) m")
    (simp_all add: recommends_well_def numeric_imputation_def Let_def method_recommendation_valid_def recommended_method_valid_def
      blocked_method_valid_def non_empty_def recommended_is_candidate_def candidates_by_id_def dict_get_dict_of_distinct
      imputation_candidates_def selectable_def)

lemma rare_class_well:
  assumes "unit_scores sc" "v \<noteq> []"
  shows "recommends_well (rare_class_recommendation sc v ci)"
  using candidates_valid [OF assms rare_class_specs_ok] assms(2)
  by (simp add: recommends_well_def rare_class_recommendation_def Let_def method_recommendation_valid_def recommended_method_valid_def
      rare_class_reason_codes_def non_empty_def recommended_is_candidate_def candidates_by_id_def dict_get_dict_of_distinct
      rare_class_candidates_def selectable_def)

section \<open>What is recommended\<close>

definition imputable :: "'f tabular_profile \<Rightarrow> string option \<Rightarrow> 'f column_missingness \<Rightarrow> bool" where
  "imputable profile target_column m \<longleftrightarrow>
     cm_missing_count m \<noteq> 0 \<and> Some (cm_column m) \<noteq> target_column
     \<and> (case dict_get (columns_by_name (tp_columns profile)) (cm_column m) of None \<Rightarrow> False | Some c \<Rightarrow> is_numeric c)"

definition imputable_columns :: "'f tabular_profile \<Rightarrow> 'f column_missingness list" where
  "imputable_columns profile =
     (case tp_missingness profile of None \<Rightarrow> [] | Some md \<Rightarrow> filter (imputable profile (md_target_column md)) (md_columns md))"

lemma column_named: "dict_get (columns_by_name cs) n = Some c \<Longrightarrow> cp_name c = n"
  by (auto simp: columns_by_name_def dict_get_dict_of dest!: dict_get_Some_in)

lemma imputation_for_eq:
  assumes "unit_scores sc" "v \<noteq> []"
  shows "imputation_for sc v profile target m =
    Inr (if imputable profile target m
         then [numeric_imputation sc v target m (the (dict_get (columns_by_name (tp_columns profile)) (cm_column m)))] else [])"
proof -
  have valid: "method_recommendation_valid (numeric_imputation sc v target m c)" for c
    using numeric_imputation_well [OF assms] by (simp add: recommends_well_def)
  then show ?thesis by (auto simp: imputation_for_def imputable_def split: option.split)
qed

definition imputations_of :: "'f score_env \<Rightarrow> string \<Rightarrow> 'f tabular_profile \<Rightarrow> method_recommendation list" where
  "imputations_of sc v profile =
     map (\<lambda>m. numeric_imputation sc v (Option.bind (tp_missingness profile) md_target_column) m
            (the (dict_get (columns_by_name (tp_columns profile)) (cm_column m)))) (imputable_columns profile)"

definition rare_class_of :: "'f score_env \<Rightarrow> string \<Rightarrow> 'f tabular_profile \<Rightarrow> method_recommendation list" where
  "rare_class_of sc v profile =
     (case tp_class_imbalance profile of
        None \<Rightarrow> []
      | Some ci \<Rightarrow> if rare_class_needs_policy (sc_fl sc) (Some ci) then [rare_class_recommendation sc v ci] else [])"

lemma concat_map_filter: "concat (map (\<lambda>x. if P x then [f x] else []) xs) = map f (filter P xs)"
  by (induction xs) auto

lemma build_eq:
  assumes "unit_scores sc" "v \<noteq> []"
  shows "build_method_recommendations sc profile v = Inr (imputations_of sc v profile @ rare_class_of sc v profile)"
proof -
  have imp: "mapR (imputation_for sc v profile t) ms =
      Inr (map (\<lambda>m. if imputable profile t m
        then [numeric_imputation sc v t m (the (dict_get (columns_by_name (tp_columns profile)) (cm_column m)))] else []) ms)" for t ms
    by (rule mapR_all_ok) (rule imputation_for_eq [OF assms])
  have rare: "method_recommendation_valid (rare_class_recommendation sc v ci)" for ci
    using rare_class_well [OF assms] by (simp add: recommends_well_def)
  show ?thesis
    by (auto simp: build_method_recommendations_def imputations_of_def rare_class_of_def imputable_columns_def imp rare
        concat_map_filter split: option.split)
qed

lemma built_well:
  assumes "unit_scores sc" "v \<noteq> []" "build_method_recommendations sc profile v = Inr rs"
  shows "list_all recommends_well rs"
  using assms(3) numeric_imputation_well [OF assms(1,2)] rare_class_well [OF assms(1,2)]
  unfolding build_eq [OF assms(1,2)]
  by (auto simp: imputations_of_def rare_class_of_def list_all_iff split: option.splits)

lemma imputation_ids:
  assumes "unit_scores sc" "policy_version \<noteq> []" "build_method_recommendations sc profile policy_version = Inr rs"
  shows "map mr_recommendation_id rs =
        map (\<lambda>m. ''method_rec_impute_'' @ value_slug (cm_column m)) (imputable_columns profile)
        @ map mr_recommendation_id (rare_class_of sc policy_version profile)"
proof -
  have "cp_name (the (dict_get (columns_by_name (tp_columns profile)) (cm_column m))) = cm_column m"
    if "m \<in> set (imputable_columns profile)" for m
    using that by (auto simp: imputable_columns_def imputable_def column_named split: option.splits)
  then have "map mr_recommendation_id (imputations_of sc policy_version profile) =
      map (\<lambda>m. ''method_rec_impute_'' @ value_slug (cm_column m)) (imputable_columns profile)"
    by (simp add: imputations_of_def numeric_imputation_def Let_def)
  then show ?thesis using assms(3) unfolding build_eq [OF assms(1,2)] by auto
qed

text \<open>A profile always yields its recommendations: one per imputable column, in order, and one for a rare class
  when policy asks for it; each is a valid contract that recommends an enabled, unblocked candidate, and the declared target
  column is never imputed.\<close>

theorem recommendations_built:
  assumes "unit_scores sc" and "policy_version \<noteq> []"
  shows "\<exists>rs. build_method_recommendations sc profile policy_version = Inr rs \<and> list_all recommends_well rs
    \<and> map mr_recommendation_id rs =
        map (\<lambda>m. ''method_rec_impute_'' @ value_slug (cm_column m)) (imputable_columns profile)
        @ map mr_recommendation_id (rare_class_of sc policy_version profile)
    \<and> list_all (\<lambda>m. Some (cm_column m) \<noteq> Option.bind (tp_missingness profile) md_target_column) (imputable_columns profile)"
proof -
  have "list_all (\<lambda>m. Some (cm_column m) \<noteq> Option.bind (tp_missingness profile) md_target_column) (imputable_columns profile)"
    by (cases "tp_missingness profile") (auto simp: imputable_columns_def imputable_def list_all_iff)
  then show ?thesis
    using build_eq [OF assms] built_well [OF assms] imputation_ids [OF assms] by blast
qed

definition rat_scores :: "rat score_env" where
  "rat_scores = \<lparr>sc_fl = rat_floats, sc_den = (\<lambda>x. x), sc_rnd6 = (\<lambda>x. x)\<rparr>"

lemma rat_scores_unit: "unit_scores rat_scores"
  by (auto simp: unit_scores_def rat_scores_def rat_floats_def score_ok_def)

abbreviation missing :: "string \<Rightarrow> rat column_missingness" where
  "missing c \<equiv> \<lparr>cm_column = c, cm_missing_count = 2, cm_missing_rate = 1 / 10, cm_segment_ratios = None\<rparr>"

definition sample_profile :: "string list \<Rightarrow> rat tabular_profile" where
  "sample_profile columns =
     \<lparr>tp_columns = map (\<lambda>c. \<lparr>cp_name = c, cp_type = NUMERIC_FLOAT\<rparr>) columns,
      tp_missingness = Some \<lparr>md_target_column = Some ''y'', md_columns = map missing columns\<rparr>, tp_class_imbalance = None\<rparr>"

theorem recommendations_built_witness:
  "\<exists>rs. build_method_recommendations rat_scores (sample_profile [''Income'', ''y'']) ''v'' = Inr rs
     \<and> list_all recommends_well rs \<and> map mr_recommendation_id rs = [''method_rec_impute_income'']"
proof -
  have "map (\<lambda>m. ''method_rec_impute_'' @ value_slug (cm_column m)) (imputable_columns (sample_profile [''Income'', ''y'']))
      = [''method_rec_impute_income'']"
    by code_simp
  moreover have "rare_class_of rat_scores ''v'' (sample_profile [''Income'', ''y'']) = []"
    by (simp add: rare_class_of_def sample_profile_def)
  ultimately show ?thesis
    using recommendations_built [OF rat_scores_unit, of "''v''" "sample_profile [''Income'', ''y'']"] by auto
qed

section \<open>Step identifiers of recommendations\<close>

text \<open>A slug is its own slug: no two underscores in a row, a slug character at both ends.\<close>

abbreviation underscore :: char where
  "underscore \<equiv> CHR ''_''"

definition single_underscores :: "string \<Rightarrow> bool" where
  "single_underscores s \<longleftrightarrow> successively (\<lambda>a b. \<not> (a = underscore \<and> b = underscore)) s"

definition slug_form :: "string \<Rightarrow> bool" where
  "slug_form s \<longleftrightarrow> s \<noteq> [] \<and> slug_char (hd s) \<and> slug_char (last s) \<and> single_underscores s
     \<and> (\<forall>c \<in> set s. slug_char c \<or> c = underscore)"

lemma slug_char_not_underscore [simp]: "slug_char c \<Longrightarrow> c \<noteq> underscore"
  by (auto simp: slug_char_def)

lemma slug_sub_single:
  "single_underscores (slug_sub run s) \<and> (run \<longrightarrow> slug_sub run s = [] \<or> hd (slug_sub run s) \<noteq> underscore)"
proof (induction run s rule: slug_sub.induct)
  case (2 run c cs)
  then show ?case
    by (auto simp: single_underscores_def successively_Cons)
qed (simp add: single_underscores_def)

lemma slug_sub_id:
  "single_underscores s \<Longrightarrow> \<forall>c \<in> set s. slug_char c \<or> c = underscore \<Longrightarrow>
     run \<longrightarrow> s = [] \<or> hd s \<noteq> underscore \<Longrightarrow> slug_sub run s = s"
proof (induction s arbitrary: run)
  case (Cons c s)
  then show ?case by (auto simp: single_underscores_def successively_Cons slug_char_def)
qed simp

lemma slug_sub_append:
  "s \<noteq> [] \<Longrightarrow> slug_char (hd s) \<Longrightarrow> slug_sub False s = s \<Longrightarrow> slug_sub run (p @ s) = slug_sub run p @ s"
proof (induction p arbitrary: run)
  case Nil
  then show ?case by (cases s; cases run) auto
qed simp

lemma single_underscores_strip: "single_underscores s \<Longrightarrow> single_underscores (strip_where p s)"
proof -
  have drop: "single_underscores s \<Longrightarrow> single_underscores (dropWhile p s)" for s
    by (metis single_underscores_def successively_append_iff takeWhile_dropWhile_id)
  have "single_underscores (rev s) = single_underscores s" for s
    unfolding single_underscores_def successively_rev by (rule successively_cong) auto
  then show "single_underscores s \<Longrightarrow> ?thesis" using drop by (simp add: strip_where_def)
qed

lemma slug_or_form:
  assumes "slug_form dflt"
  shows "slug_form (slug_or dflt v)"
proof (cases "strip_char underscore (slug_sub False (lower v)) = []")
  case True
  then show ?thesis using assms by (simp add: slug_or_def)
next
  case False
  let ?s = "strip_char underscore (slug_sub False (lower v))"
  have chars: "\<forall>c \<in> set ?s. slug_char c \<or> c = underscore"
    using set_strip_where [of "\<lambda>d. d = underscore"] slug_sub_chars unfolding strip_char_def by blast
  moreover have "hd ?s \<noteq> underscore" "last ?s \<noteq> underscore"
    using False strip_where_hd [of "\<lambda>d. d = underscore"] strip_where_last [of "\<lambda>d. d = underscore"]
    unfolding strip_char_def by blast+
  moreover have "single_underscores ?s"
    unfolding strip_char_def by (rule single_underscores_strip) (simp add: slug_sub_single)
  ultimately show ?thesis using False chars
    by (auto simp: slug_or_def slug_form_def Let_def dest: bspec [OF _ hd_in_set] bspec [OF _ last_in_set])
qed

lemma slug_char_lower: "slug_char c \<or> c = underscore \<Longrightarrow> lower_char c = c"
  by (cases c) (auto simp: slug_char_def)

lemma slug_prefix:
  assumes "slug_form s" and "slug_sub False (lower p) = q" and "q \<noteq> []" and "hd q \<noteq> underscore"
  shows "slug_or dflt (p @ s) = q @ s"
proof -
  have "lower s = s"
    using assms(1) slug_char_lower by (auto simp: slug_form_def lower_def intro: map_idI)
  moreover have "slug_sub False s = s"
    using assms(1) by (intro slug_sub_id) (auto simp: slug_form_def)
  ultimately have "slug_sub False (lower (p @ s)) = q @ s"
    using assms(1,2) slug_sub_append [of s False "lower p"] by (simp add: slug_form_def lower_def)
  moreover have "strip_char underscore (q @ s) = q @ s"
    using assms(1,3,4) unfolding strip_char_def by (intro strip_where_id) (auto simp: slug_form_def)
  ultimately show ?thesis using assms(3) by (simp add: slug_or_def)
qed

lemma value_slug_form: "slug_form (value_slug v)"
  unfolding value_slug_def by (rule slug_or_form) (simp add: slug_form_def single_underscores_def slug_char_def)

lemma step_slugs:
  "slug_sub False (lower ''IMPUTE_MISSING_VALUES_median_issue_missing_'') = ''impute_missing_values_median_issue_missing_''"
  "slug_sub False (lower ''IMPUTE_MISSING_VALUES_group_median_issue_missing_'') = ''impute_missing_values_group_median_issue_missing_''"
  "slug_sub False (lower ''AUGMENT_RARE_CLASS_class_weights_issue_rare_class_'') = ''augment_rare_class_class_weights_issue_rare_class_''"
  by code_simp+

lemma imputation_step_id:
  "step_id_of (numeric_imputation sc v t m c) (rm_method_id (mr_recommended_method (numeric_imputation sc v t m c))) =
     (if is_segment_dependent (sc_fl sc) m then ''impute_missing_values_group_median_issue_missing_''
      else ''impute_missing_values_median_issue_missing_'') @ value_slug (cp_name c)"
  using slug_prefix [OF value_slug_form step_slugs(1), of "''step''" "cp_name c"]
    slug_prefix [OF value_slug_form step_slugs(2), of "''step''" "cp_name c"]
  by (simp add: step_id_of_def numeric_imputation_def Let_def slug_def)

lemma rare_class_step_id:
  "step_id_of (rare_class_recommendation sc v ci) (rm_method_id (mr_recommended_method (rare_class_recommendation sc v ci))) =
     ''augment_rare_class_class_weights_issue_rare_class_'' @ value_slug (ci_rare_class_label ci)"
  using slug_prefix [OF value_slug_form step_slugs(3), of "''step''" "ci_rare_class_label ci"]
  by (simp add: step_id_of_def rare_class_recommendation_def Let_def slug_def)

lemma recommendation_ids:
  "mr_recommendation_id (numeric_imputation sc v t m c) = ''method_rec_impute_'' @ value_slug (cp_name c)"
  "mr_recommendation_id (rare_class_recommendation sc v ci) = ''method_rec_rare_class_'' @ value_slug (ci_rare_class_label ci)"
  by (simp_all add: numeric_imputation_def rare_class_recommendation_def Let_def)

lemma built_cases:
  assumes "unit_scores sc" "v \<noteq> []" "build_method_recommendations sc profile v = Inr rs" "r \<in> set rs"
  obtains t m c where "r = numeric_imputation sc v t m c"
  | ci where "r = rare_class_recommendation sc v ci" "tp_class_imbalance profile = Some ci"
  using assms(3,4) unfolding build_eq [OF assms(1,2)]
  by (auto simp: imputations_of_def rare_class_of_def split: option.splits if_splits)

abbreviation recommended_step_id :: "method_recommendation \<Rightarrow> string" where
  "recommended_step_id r \<equiv> step_id_of r (rm_method_id (mr_recommended_method r))"

lemma built_ids:
  assumes "unit_scores sc" "v \<noteq> []" "build_method_recommendations sc profile v = Inr rs" "r \<in> set rs"
  shows "(\<exists>s. recommended_step_id r \<in> {''impute_missing_values_median_issue_missing_'' @ s,
                 ''impute_missing_values_group_median_issue_missing_'' @ s} \<and> mr_recommendation_id r = ''method_rec_impute_'' @ s)
    \<or> (\<exists>ci. tp_class_imbalance profile = Some ci \<and> r = rare_class_recommendation sc v ci
         \<and> recommended_step_id r = ''augment_rare_class_class_weights_issue_rare_class_'' @ value_slug (ci_rare_class_label ci))"
proof (cases rule: built_cases [OF assms])
  case (1 t m c)
  then show ?thesis unfolding 1 imputation_step_id recommendation_ids by auto
next
  case (2 ci)
  then show ?thesis unfolding 2(1) rare_class_step_id by blast
qed

lemma step_id_determines:
  assumes "unit_scores sc" "v \<noteq> []" "build_method_recommendations sc profile v = Inr rs"
    and "r \<in> set rs" "q \<in> set rs" "recommended_step_id r = recommended_step_id q"
  shows "mr_recommendation_id r = mr_recommendation_id q"
  using built_ids [OF assms(1-4)]
proof
  assume "\<exists>s. recommended_step_id r \<in> {''impute_missing_values_median_issue_missing_'' @ s,
                 ''impute_missing_values_group_median_issue_missing_'' @ s} \<and> mr_recommendation_id r = ''method_rec_impute_'' @ s"
  then obtain s where s: "recommended_step_id r \<in> {''impute_missing_values_median_issue_missing_'' @ s,
                 ''impute_missing_values_group_median_issue_missing_'' @ s}" "mr_recommendation_id r = ''method_rec_impute_'' @ s" by blast
  show ?thesis using built_ids [OF assms(1-3,5)] s unfolding assms(6) by auto
next
  assume "\<exists>ci. tp_class_imbalance profile = Some ci \<and> r = rare_class_recommendation sc v ci
         \<and> recommended_step_id r = ''augment_rare_class_class_weights_issue_rare_class_'' @ value_slug (ci_rare_class_label ci)"
  then obtain ci where ci: "tp_class_imbalance profile = Some ci" "r = rare_class_recommendation sc v ci"
    "recommended_step_id q = ''augment_rare_class_class_weights_issue_rare_class_'' @ value_slug (ci_rare_class_label ci)"
    unfolding assms(6) by blast
  have "q = rare_class_recommendation sc v ci" using built_ids [OF assms(1-3,5)] ci by auto
  with ci(2) show ?thesis by simp
qed

lemma map_preimage: "set ys \<subseteq> f ` A \<Longrightarrow> \<exists>xs. map f xs = ys \<and> set xs \<subseteq> A"
proof (induction ys)
  case (Cons y ys)
  then obtain xs a where "map f xs = ys" "set xs \<subseteq> A" "a \<in> A" "y = f a" by auto
  then show ?case by (intro exI [of _ "a # xs"]) simp
qed simp

text \<open>C14: The recommendations of a profile can be previewed as a plan, every chosen id with its recommended method,
  exactly when no two columns to impute have the same slug: with two such columns the preview of any selection is refused,
  because both recommendations have one id.\<close>

theorem recommendations_previewable_iff:
  assumes "unit_scores sc" and "policy_version \<noteq> []"
    and "build_method_recommendations sc profile policy_version = Inr (pr_method_recommendations req)"
    and "preview_request_valid req" and "hex64 sha" and "pr_selected_method_overrides req = []"
    and "distinct (pr_selected_decision_ids req)"
    and "set (pr_selected_decision_ids req) \<subseteq> mr_recommendation_id ` set (pr_method_recommendations req)"
  shows "is_ok (build_action_plan_preview sha now req)
    \<longleftrightarrow> distinct (map (\<lambda>m. value_slug (cm_column m)) (imputable_columns profile))"
proof -
  let ?rs = "pr_method_recommendations req" and ?ids = "pr_selected_decision_ids req"
  have chosen: "chosen_method req r = rm_method_id (mr_recommended_method r)" for r
    by (simp add: chosen_method_def assms(6))
  have well: "list_all recommends_well ?rs" using built_well [OF assms(1-3)] .
  have admitted: "method_admitted req r" if "r \<in> set ?rs" for r
  proof -
    have r: "recommends_well r" using well that by (simp add: list_all_iff)
    then obtain c where "c \<in> set (mr_candidate_methods r)" "mc_method_id c = rm_method_id (mr_recommended_method r)" "selectable c"
      by (auto simp: recommends_well_def)
    then have "map_of (map (\<lambda>c. (mc_method_id c, c)) (mr_candidate_methods r)) (rm_method_id (mr_recommended_method r)) = Some c"
      using r by (intro map_of_is_SomeI) (force simp: recommends_well_def comp_def)+
    then have "dict_get (candidates_by_id (mr_candidate_methods r)) (rm_method_id (mr_recommended_method r)) = Some c"
      using r by (simp add: recommends_well_def candidates_by_id_def dict_get_dict_of_distinct comp_def)
    then show ?thesis using r \<open>selectable c\<close> by (simp add: method_admitted_def chosen recommends_well_def)
  qed
  obtain sel where sel: "map mr_recommendation_id sel = ?ids" "set sel \<subseteq> set ?rs"
    using map_preimage [OF assms(8)] by blast
  have "inj_on recommended_step_id (set sel)"
  proof (rule inj_onI)
    fix r q assume rq: "r \<in> set sel" "q \<in> set sel" "recommended_step_id r = recommended_step_id q"
    then have "mr_recommendation_id r = mr_recommendation_id q"
      using step_id_determines [OF assms(1-3)] sel(2) by blast
    moreover have "inj_on mr_recommendation_id (set sel)" using sel(1) assms(7) by (metis distinct_map)
    ultimately show "r = q" using rq by (auto dest: inj_onD)
  qed
  moreover have "distinct sel" using sel(1) assms(7) by (metis distinct_map)
  ultimately have steps: "distinct (map (\<lambda>r. step_id_of r (chosen_method req r)) sel)"
    by (simp add: chosen distinct_map)
  have "selected_for req sel" "list_all (method_admitted req) sel"
    using sel admitted by (auto simp: selected_for_def list_all_iff)
  with steps have "is_ok (build_action_plan_preview sha now req) \<longleftrightarrow> distinct (map mr_recommendation_id ?rs)"
    unfolding build_preview_ok_iff [OF assms(4,5)] by blast
  also have "map mr_recommendation_id ?rs = map (\<lambda>m. ''method_rec_impute_'' @ value_slug (cm_column m)) (imputable_columns profile)
      @ map mr_recommendation_id (rare_class_of sc policy_version profile)"
    using imputation_ids [OF assms(1-3)] .
  also have "distinct \<dots> \<longleftrightarrow> distinct (map (\<lambda>m. value_slug (cm_column m)) (imputable_columns profile))"
    by (auto simp: rare_class_of_def recommendation_ids distinct_map inj_on_def split: option.split)
  finally show ?thesis .
qed

text \<open>Two columns that differ only in case and punctuation.\<close>

theorem recommendations_previewable_iff_witness:
  "\<exists>req. build_method_recommendations rat_scores (sample_profile [''Income'', ''income $'']) ''v'' = Inr (pr_method_recommendations req)
     \<and> preview_request_valid req \<and> pr_selected_decision_ids req = [''method_rec_impute_income'']
     \<and> \<not> is_ok (build_action_plan_preview toy_sha 0 req)"
proof -
  let ?profile = "sample_profile [''Income'', ''income $'']"
  have slugs: "map (\<lambda>m. value_slug (cm_column m)) (imputable_columns ?profile) = [''income'', ''income'']"
    by code_simp
  obtain rs where rs: "build_method_recommendations rat_scores ?profile ''v'' = Inr rs" "list_all recommends_well rs"
      "map mr_recommendation_id rs = map (\<lambda>m. ''method_rec_impute_'' @ value_slug (cm_column m)) (imputable_columns ?profile)
        @ map mr_recommendation_id (rare_class_of rat_scores ''v'' ?profile)"
    using recommendations_built [OF rat_scores_unit, of "''v''" ?profile] by auto
  have "map (\<lambda>m. ''method_rec_impute_'' @ value_slug (cm_column m)) (imputable_columns ?profile)
      = map (\<lambda>s. ''method_rec_impute_'' @ s) (map (\<lambda>m. value_slug (cm_column m)) (imputable_columns ?profile))"
    by simp
  then have ids: "map mr_recommendation_id rs = [''method_rec_impute_income'', ''method_rec_impute_income'']"
    using rs(3) unfolding slugs by (simp add: rare_class_of_def sample_profile_def)
  define req where "req = (sample_request [''r1'', ''r2''])\<lparr>pr_method_recommendations := rs,
    pr_selected_decision_ids := [''method_rec_impute_income''], pr_selected_method_overrides := []\<rparr>"
  have "rs \<noteq> []" using ids by auto
  then have req: "preview_request_valid req"
    using sample_request_valid rs(2)
    by (auto simp: req_def preview_request_valid_def non_empty_def list_all_iff recommends_well_def)
  have "''method_rec_impute_income'' \<in> set (map mr_recommendation_id rs)" using ids by simp
  then have "\<not> is_ok (build_action_plan_preview toy_sha 0 req)"
    using recommendations_previewable_iff [OF rat_scores_unit _ _ req hex64_toy_sha, of "''v''" ?profile 0] rs(1) slugs
    by (simp add: req_def)
  with rs(1) req show ?thesis by (intro exI [of _ req]) (simp add: req_def)
qed

end
