(* ===== verification/DecisionPolicy.thy ===== *)
theory DecisionPolicy
  imports BusinessRules
begin

text \<open>
  The decision policy of \<open>src/app/kernel/decision_policy.py\<close>: the reason codes, the hard gates evaluated before
  any score, the object value score and the recommendations drawn from evidence. Floats are abstract.
\<close>

section \<open>Evidence (domain/evidence.py, domain/manifest.py)\<close>

datatype data_modality = TABULAR | TEXT | IMAGE | VIDEO | AUDIO | DOCUMENT_OCR | MULTIMODAL

datatype signal_status = SG_AVAILABLE | SG_NOT_APPLICABLE | SG_UNAVAILABLE

record 'f signal =
  sg_value :: "'f option"
  sg_status :: signal_status
  sg_reason :: "string option"

definition signal_valid :: "'f float_ops \<Rightarrow> 'f signal \<Rightarrow> bool" where
  "signal_valid fl s \<longleftrightarrow>
     opt_ok (fl_score_ok fl) (sg_value s)
     \<and> (sg_status s = SG_AVAILABLE \<longrightarrow> sg_value s \<noteq> None)
     \<and> (sg_status s \<noteq> SG_AVAILABLE \<longrightarrow> sg_value s = None \<and> (case sg_reason s of None \<Rightarrow> False | Some r \<Rightarrow> r \<noteq> []))"

record 'f evidence_signals =
  es_technical_quality :: "'f signal"
  es_duplicate_score :: "'f signal"
  es_privacy_risk :: "'f signal"
  es_label_issue_score :: "'f signal"
  es_rare_segment_score :: "'f signal"
  es_business_importance :: "'f signal"
  es_model_uncertainty :: "'f signal"
  es_prediction_confidence :: "'f signal"
  es_prediction_margin :: "'f signal"
  es_prediction_entropy :: "'f signal"
  es_ambiguous_object_score :: "'f signal"
  es_probable_label_error_score :: "'f signal"

record evidence_ref =
  ef_kind :: string
  ef_uri :: string

text \<open>Of an evidence bundle, what the decision core reads.\<close>

record 'f evidence_bundle =
  eb_evidence_bundle_id :: string
  eb_object_id :: string
  eb_evidence_refs :: "evidence_ref list"
  eb_modality :: data_modality
  eb_signals :: "'f evidence_signals"

section \<open>Reason codes\<close>

datatype reason_severity = RS_INFO | RS_WARNING | RS_REVIEW | RS_BLOCKER

record reason_code_definition =
  rd_code :: string
  rd_category :: string
  rd_severity :: reason_severity
  rd_description :: string

record reason_code_registry =
  rg_version :: string
  rg_codes :: "(string, reason_code_definition) dict"

definition require_code :: "reason_code_registry \<Rightarrow> string \<Rightarrow> exn + reason_code_definition" where
  "require_code registry c =
     (case dict_get (rg_codes registry) c of None \<Rightarrow> Inl (Other ''ValueError'') | Some d \<Rightarrow> Inr d)"

abbreviation code_definition :: "string \<Rightarrow> string \<Rightarrow> reason_severity \<Rightarrow> string \<Rightarrow> reason_code_definition" where
  "code_definition c cat sev d \<equiv> \<lparr>rd_code = c, rd_category = cat, rd_severity = sev, rd_description = d\<rparr>"

definition reason_code_definitions :: "reason_code_definition list" where
  "reason_code_definitions =
     [code_definition ''pii_unmasked'' ''privacy'' RS_BLOCKER ''Unmasked PII is present in an object or artifact.'',
      code_definition ''target_column_missing'' ''schema'' RS_BLOCKER ''The target column has missing values.'',
      code_definition ''split_leakage'' ''leakage'' RS_BLOCKER ''Leakage detected between train/validation/test splits.'',
      code_definition ''external_api_raw_pii'' ''privacy'' RS_BLOCKER ''External API call would expose raw PII.'',
      code_definition ''target_leakage_candidate'' ''leakage'' RS_BLOCKER ''A feature appears to leak target information.'',
      code_definition ''business_rule_failure'' ''business_rules'' RS_BLOCKER ''A critical business rule failed.'',
      code_definition ''plugin_disabled'' ''plugin_readiness'' RS_BLOCKER ''A required plugin is disabled.'',
      code_definition ''method_disabled_by_policy'' ''method_policy'' RS_BLOCKER
        ''A candidate method is disabled by project policy.'',
      code_definition ''method_disabled_by_readiness'' ''method_policy'' RS_BLOCKER
        ''A candidate method is unavailable at current readiness.'',
      code_definition ''missing_numeric'' ''missingness'' RS_REVIEW ''Numeric missingness should be reviewed for imputation.'',
      code_definition ''exact_duplicate'' ''duplicates'' RS_REVIEW ''Object is part of an exact duplicate group.'',
      code_definition ''rare_class_underrepresented'' ''class_balance'' RS_REVIEW
        ''Object belongs to an underrepresented class.'',
      code_definition ''text_pii_detected'' ''privacy'' RS_REVIEW ''Text/OCR PII was detected and needs review/redaction.'',
      code_definition ''severe_outlier'' ''outliers'' RS_REVIEW ''Object has severe outlier evidence.'',
      code_definition ''outlier_capping_disabled_by_policy'' ''outliers'' RS_INFO
        ''Outlier capping is disabled unless policy enables it.'',
      code_definition ''ambiguous_object'' ''model_error'' RS_REVIEW ''Model is uncertain about this object.'',
      code_definition ''high_model_uncertainty'' ''model_error'' RS_REVIEW
        ''Prediction confidence is low or entropy is high.'',
      code_definition ''low_prediction_margin'' ''model_error'' RS_REVIEW
        ''Top prediction classes have a low probability margin.'',
      code_definition ''probable_label_error'' ''model_error'' RS_REVIEW
        ''Model evidence indicates a likely label issue.'',
      code_definition ''high_confidence_label_conflict'' ''model_error'' RS_REVIEW
        ''High-confidence prediction conflicts with the label.'',
      code_definition ''neighbor_label_disagreement'' ''model_error'' RS_REVIEW
        ''Neighbor or cluster labels support a different label.'']"

definition REASON_CODE_REGISTRY_VERSION :: string where
  "REASON_CODE_REGISTRY_VERSION = ''reason_code_registry_v0''"

definition load_reason_code_registry :: reason_code_registry where
  "load_reason_code_registry =
     \<lparr>rg_version = REASON_CODE_REGISTRY_VERSION, rg_codes = dict_of (map (\<lambda>d. (rd_code d, d)) reason_code_definitions)\<rparr>"

section \<open>Policies\<close>

datatype hard_gate_id =
    PII_UNMASKED | TARGET_COLUMN_MISSING | SPLIT_LEAKAGE | EXTERNAL_API_RAW_PII | TARGET_LEAKAGE_CANDIDATE
  | BUSINESS_RULE_FAILURE | PLUGIN_DISABLED | METHOD_DISABLED_BY_POLICY | METHOD_DISABLED_BY_READINESS

fun hard_gate_value :: "hard_gate_id \<Rightarrow> string" where
  "hard_gate_value PII_UNMASKED = ''pii_unmasked''"
| "hard_gate_value TARGET_COLUMN_MISSING = ''target_column_missing''"
| "hard_gate_value SPLIT_LEAKAGE = ''split_leakage''"
| "hard_gate_value EXTERNAL_API_RAW_PII = ''external_api_raw_pii''"
| "hard_gate_value TARGET_LEAKAGE_CANDIDATE = ''target_leakage_candidate''"
| "hard_gate_value BUSINESS_RULE_FAILURE = ''business_rule_failure''"
| "hard_gate_value PLUGIN_DISABLED = ''plugin_disabled''"
| "hard_gate_value METHOD_DISABLED_BY_POLICY = ''method_disabled_by_policy''"
| "hard_gate_value METHOD_DISABLED_BY_READINESS = ''method_disabled_by_readiness''"

datatype recommended_action_type =
    RA_REPORT_AND_REVIEW | RA_SEND_TO_LABEL_REVIEW | RA_SEND_TO_PRIVACY_REVIEW | RA_SEND_TO_DUPLICATE_REVIEW
  | RA_RECOMMEND_IMPUTATION_REVIEW | RA_RECOMMEND_RARE_CLASS_AUGMENTATION

fun recommended_action_value :: "recommended_action_type \<Rightarrow> string" where
  "recommended_action_value RA_REPORT_AND_REVIEW = ''REPORT_AND_REVIEW''"
| "recommended_action_value RA_SEND_TO_LABEL_REVIEW = ''SEND_TO_LABEL_REVIEW''"
| "recommended_action_value RA_SEND_TO_PRIVACY_REVIEW = ''SEND_TO_PRIVACY_REVIEW''"
| "recommended_action_value RA_SEND_TO_DUPLICATE_REVIEW = ''SEND_TO_DUPLICATE_REVIEW''"
| "recommended_action_value RA_RECOMMEND_IMPUTATION_REVIEW = ''RECOMMEND_IMPUTATION_REVIEW''"
| "recommended_action_value RA_RECOMMEND_RARE_CLASS_AUGMENTATION = ''RECOMMEND_RARE_CLASS_AUGMENTATION''"

record hard_gate_rule =
  hg_gate_id :: hard_gate_id
  hg_reason_code :: string
  hg_action :: string
  hg_enabled :: bool

record 'f recommendation_rule =
  rl_rule_id :: string
  rl_reason_code :: string
  rl_action :: recommended_action_type
  rl_threshold :: "'f option"
  rl_enabled :: bool

record outlier_policy =
  op_default_action :: recommended_action_type
  op_capping_enabled :: bool
  op_disabled_reason_code :: string

record 'f object_value_policy =
  ov_policy_version :: string
  ov_weights :: "(string, 'f) dict"
  ov_uncertainty_probability_notation :: string
  ov_uncertainty_formulas :: "string list"

record 'f decision_policy =
  dp_policy_version :: string
  dp_reason_code_registry_version :: string
  dp_hard_gates :: "hard_gate_rule list"
  dp_recommendation_rules :: "'f recommendation_rule list"
  dp_outlier_policy :: outlier_policy
  dp_object_value_policy :: "'f object_value_policy"
  dp_policy_input_names :: "string list"
  dp_config_hash :: string

text \<open>\<open>ObjectValueWeights\<close>: a model with exactly these fields, its decimals read as floats.\<close>

definition OBJECT_VALUE_WEIGHTS :: "(string \<times> rat \<times> string) list" where
  "OBJECT_VALUE_WEIGHTS =
     [(''learning_value'', 25 / 100, ''0.25''), (''rarity'', 20 / 100, ''0.2''), (''uncertainty'', 20 / 100, ''0.2''),
      (''diversity'', 15 / 100, ''0.15''), (''business_importance'', 10 / 100, ''0.1''),
      (''duplicate_penalty'', - (15 / 100), ''-0.15''), (''quality_penalty'', - (10 / 100), ''-0.1''),
      (''privacy_risk_penalty'', - (25 / 100), ''-0.25''), (''label_risk_penalty'', - (10 / 100), ''-0.1'')]"

definition weight_names :: "string list" where
  "weight_names = map fst OBJECT_VALUE_WEIGHTS"

definition policy_references_ok :: "'f decision_policy \<Rightarrow> exn + unit" where
  "policy_references_ok p =
     bindR (mapR (\<lambda>g. require_code load_reason_code_registry (hg_reason_code g)) (dp_hard_gates p)) (\<lambda>_.
     bindR (mapR (\<lambda>r. require_code load_reason_code_registry (rl_reason_code r)) (dp_recommendation_rules p)) (\<lambda>_.
     bindR (require_code load_reason_code_registry (op_disabled_reason_code (dp_outlier_policy p))) (\<lambda>_. Inr ())))"

definition decision_policy_valid :: "'f float_ops \<Rightarrow> 'f decision_policy \<Rightarrow> bool" where
  "decision_policy_valid fl p \<longleftrightarrow>
     non_empty (dp_policy_version p) \<and> non_empty (dp_reason_code_registry_version p)
     \<and> list_all (\<lambda>g. non_empty (hg_reason_code g) \<and> non_empty (hg_action g)) (dp_hard_gates p)
     \<and> list_all (\<lambda>r. non_empty (rl_rule_id r) \<and> non_empty (rl_reason_code r) \<and> opt_ok (fl_score_ok fl) (rl_threshold r))
         (dp_recommendation_rules p)
     \<and> non_empty (op_disabled_reason_code (dp_outlier_policy p))
     \<and> non_empty (ov_policy_version (dp_object_value_policy p))
     \<and> dict_keys (ov_weights (dp_object_value_policy p)) = weight_names
     \<and> non_empty (ov_uncertainty_probability_notation (dp_object_value_policy p))
     \<and> list_all non_empty (ov_uncertainty_formulas (dp_object_value_policy p))
     \<and> list_all non_empty (dp_policy_input_names p) \<and> sha256_digest (dp_config_hash p)
     \<and> is_ok (policy_references_ok p)"

section \<open>The built-in policy\<close>

definition DECISION_POLICY_VERSION :: string where
  "DECISION_POLICY_VERSION = ''decision_policy_v0''"

definition OBJECT_VALUE_POLICY_VERSION :: string where
  "OBJECT_VALUE_POLICY_VERSION = ''object_value_policy_v0''"

definition OUTLIER_POLICY :: outlier_policy where
  "OUTLIER_POLICY =
     \<lparr>op_default_action = RA_REPORT_AND_REVIEW, op_capping_enabled = False,
      op_disabled_reason_code = ''outlier_capping_disabled_by_policy''\<rparr>"

definition PROBABILITY_NOTATION :: string where
  "PROBABILITY_NOTATION = ''p_i,k = P(Y = k | x_i)''"

definition UNCERTAINTY_FORMULAS :: "string list" where
  "UNCERTAINTY_FORMULAS = [''U(x_i) = 1 - max_k p_i,k'', ''H(x_i) = - sum_k p_i,k * log(p_i,k)'', ''H_norm(x_i) = H(x_i) / log(K)'']"

definition default_gate :: "hard_gate_id \<times> string \<Rightarrow> hard_gate_rule" where
  "default_gate ga =
     \<lparr>hg_gate_id = fst ga, hg_reason_code = hard_gate_value (fst ga), hg_action = snd ga, hg_enabled = True\<rparr>"

definition DEFAULT_HARD_GATES :: "hard_gate_rule list" where
  "DEFAULT_HARD_GATES = map default_gate
     [(PII_UNMASKED, ''BLOCK_PRIVACY_REVIEW''), (TARGET_COLUMN_MISSING, ''BLOCK_TRAINING''),
      (SPLIT_LEAKAGE, ''BLOCK_MODEL_EVALUATION''), (EXTERNAL_API_RAW_PII, ''BLOCK_EXTERNAL_API_CALL''),
      (TARGET_LEAKAGE_CANDIDATE, ''BLOCK_TRAINING''), (BUSINESS_RULE_FAILURE, ''BLOCK_RULES_REVIEW''),
      (PLUGIN_DISABLED, ''BLOCK_PLUGIN_EXECUTION''), (METHOD_DISABLED_BY_POLICY, ''BLOCK_METHOD''),
      (METHOD_DISABLED_BY_READINESS, ''BLOCK_METHOD'')]"

text \<open>A rule with the decimal of its threshold and the text JSON gives it.\<close>

definition DEFAULT_RULES :: "(string \<times> string \<times> recommended_action_type \<times> rat \<times> string) list" where
  "DEFAULT_RULES =
     [(''missing_numeric_review'', ''missing_numeric'', RA_RECOMMEND_IMPUTATION_REVIEW, 1 / 10, ''0.1''),
      (''exact_duplicate_review'', ''exact_duplicate'', RA_SEND_TO_DUPLICATE_REVIEW, 5 / 10, ''0.5''),
      (''rare_class_augmentation_review'', ''rare_class_underrepresented'', RA_RECOMMEND_RARE_CLASS_AUGMENTATION, 7 / 10, ''0.7''),
      (''text_pii_privacy_review'', ''text_pii_detected'', RA_SEND_TO_PRIVACY_REVIEW, 1 / 100, ''0.01''),
      (''severe_outlier_review'', ''severe_outlier'', RA_REPORT_AND_REVIEW, 75 / 100, ''0.75''),
      (''ambiguous_label_review'', ''ambiguous_object'', RA_SEND_TO_LABEL_REVIEW, 5 / 10, ''0.5''),
      (''probable_label_error_review'', ''probable_label_error'', RA_SEND_TO_LABEL_REVIEW, 5 / 10, ''0.5'')]"

definition POLICY_INPUT_NAMES :: "string list" where
  "POLICY_INPUT_NAMES =
     [''normalized_dataset_profile'', ''plugin_readiness'', ''method_availability'', ''user_role_project_policy'',
      ''risk_profile'', ''split_leakage_report'', ''synthetic_validation_report'']"

definition policy_payload :: json where
  "policy_payload = JObj
     [(''policy_version'', JStr DECISION_POLICY_VERSION), (''reason_code_registry_version'', JStr REASON_CODE_REGISTRY_VERSION),
      (''hard_gates'', JList (map (\<lambda>g. JObj [(''gate_id'', JStr (hard_gate_value (hg_gate_id g))),
         (''reason_code'', JStr (hg_reason_code g)), (''action'', JStr (hg_action g)), (''enabled'', JBool (hg_enabled g))])
         DEFAULT_HARD_GATES)),
      (''recommendation_rules'', JList (map (\<lambda>(i, c, a, _, t). JObj [(''rule_id'', JStr i), (''reason_code'', JStr c),
         (''action'', JStr (recommended_action_value a)), (''threshold'', JFloat t), (''enabled'', JBool True)]) DEFAULT_RULES)),
      (''outlier_policy'', JObj [(''default_action'', JStr (recommended_action_value (op_default_action OUTLIER_POLICY))),
         (''capping_enabled'', JBool (op_capping_enabled OUTLIER_POLICY)),
         (''disabled_reason_code'', JStr (op_disabled_reason_code OUTLIER_POLICY))]),
      (''object_value_policy'', JObj [(''policy_version'', JStr OBJECT_VALUE_POLICY_VERSION),
         (''weights'', JObj (map (\<lambda>(n, _, t). (n, JFloat t)) OBJECT_VALUE_WEIGHTS)),
         (''uncertainty_probability_notation'', JStr PROBABILITY_NOTATION),
         (''uncertainty_formulas'', JList (map JStr UNCERTAINTY_FORMULAS))]),
      (''policy_input_names'', JList (map JStr POLICY_INPUT_NAMES))]"

definition load_decision_policy_v0 :: "(string \<Rightarrow> string) \<Rightarrow> 'f float_ops \<Rightarrow> exn + 'f decision_policy" where
  "load_decision_policy_v0 sha fl =
     validated (decision_policy_valid fl)
       \<lparr>dp_policy_version = DECISION_POLICY_VERSION, dp_reason_code_registry_version = REASON_CODE_REGISTRY_VERSION,
        dp_hard_gates = DEFAULT_HARD_GATES,
        dp_recommendation_rules = map (\<lambda>(i, c, a, q, _). \<lparr>rl_rule_id = i, rl_reason_code = c, rl_action = a,
           rl_threshold = Some (fl_const fl q), rl_enabled = True\<rparr>) DEFAULT_RULES,
        dp_outlier_policy = OUTLIER_POLICY,
        dp_object_value_policy = \<lparr>ov_policy_version = OBJECT_VALUE_POLICY_VERSION,
          ov_weights = map (\<lambda>(n, q, _). (n, fl_const fl q)) OBJECT_VALUE_WEIGHTS,
          ov_uncertainty_probability_notation = PROBABILITY_NOTATION, ov_uncertainty_formulas = UNCERTAINTY_FORMULAS\<rparr>,
        dp_policy_input_names = POLICY_INPUT_NAMES, dp_config_hash = stable_hash sha policy_payload\<rparr>"

section \<open>Policy inputs and hard gates\<close>

record method_availability =
  mv_method_id :: string
  mv_status :: method_candidate_status
  mv_policy_status :: policy_status
  mv_reason_code :: "string option"

record policy_inputs =
  pi_normalized_dataset_profile :: "(string, json) dict"
  pi_plugin_readiness :: "(string, string) dict"
  pi_method_availability :: "method_availability list"
  pi_user_role_project_policy :: "(string, json) dict"
  pi_risk_profile :: "(string, json) dict"
  pi_split_leakage_report :: "(string, json) dict"
  pi_synthetic_validation_report :: "(string, json) dict"

definition FORBIDDEN_INPUTS :: "string list" where
  "FORBIDDEN_INPUTS = [''raw_plugin_outputs'', ''plugin_private_outputs'', ''raw_rows'']"

definition policy_inputs_valid :: "policy_inputs \<Rightarrow> bool" where
  "policy_inputs_valid i \<longleftrightarrow>
     list_all (\<lambda>ks. \<not> list_ex (\<lambda>k. k \<in> set FORBIDDEN_INPUTS) ks)
       [dict_keys (pi_normalized_dataset_profile i), dict_keys (pi_plugin_readiness i),
        dict_keys (pi_user_role_project_policy i), dict_keys (pi_risk_profile i), dict_keys (pi_split_leakage_report i),
        dict_keys (pi_synthetic_validation_report i)]
     \<and> list_all (\<lambda>m. non_empty (mv_method_id m)) (pi_method_availability i)"

definition empty_policy_inputs :: policy_inputs where
  "empty_policy_inputs =
     \<lparr>pi_normalized_dataset_profile = [], pi_plugin_readiness = [], pi_method_availability = [],
      pi_user_role_project_policy = [], pi_risk_profile = [], pi_split_leakage_report = [], pi_synthetic_validation_report = []\<rparr>"

text \<open>\<open>bool(d.get(k))\<close>: the truth value of a JSON value, false when the key is missing.\<close>

fun json_true :: "json \<Rightarrow> bool" where
  "json_true JNull = False"
| "json_true (JBool b) = b"
| "json_true (JInt i) = (i \<noteq> 0)"
| "json_true (JFloat t) = (t \<notin> {''0.0'', ''-0.0''})"
| "json_true (JStr s) = (s \<noteq> [])"
| "json_true (JList xs) = (xs \<noteq> [])"
| "json_true (JObj kvs) = (kvs \<noteq> [])"

definition flag :: "(string, json) dict \<Rightarrow> string \<Rightarrow> bool" where
  "flag d k = (case dict_get d k of None \<Rightarrow> False | Some v \<Rightarrow> json_true v)"

definition gate_triggered :: "hard_gate_id \<Rightarrow> policy_inputs \<Rightarrow> bool" where
  "gate_triggered g i =
     (case g of
        PII_UNMASKED \<Rightarrow> flag (pi_risk_profile i) ''pii_unmasked'' \<or> flag (pi_normalized_dataset_profile i) ''pii_unmasked''
      | TARGET_COLUMN_MISSING \<Rightarrow> flag (pi_normalized_dataset_profile i) ''target_column_missing''
      | SPLIT_LEAKAGE \<Rightarrow> flag (pi_split_leakage_report i) ''split_leakage''
      | EXTERNAL_API_RAW_PII \<Rightarrow> flag (pi_risk_profile i) ''external_api_raw_pii''
      | TARGET_LEAKAGE_CANDIDATE \<Rightarrow> flag (pi_normalized_dataset_profile i) ''target_leakage_candidate''
      | BUSINESS_RULE_FAILURE \<Rightarrow> flag (pi_normalized_dataset_profile i) ''business_rule_failure''
      | PLUGIN_DISABLED \<Rightarrow> list_ex (\<lambda>kv. snd kv = ''disabled'') (pi_plugin_readiness i)
      | METHOD_DISABLED_BY_POLICY \<Rightarrow>
          list_ex (\<lambda>m. mv_policy_status m = PS_DISABLED_BY_POLICY \<or> mv_status m = MCS_DISABLED_BY_POLICY) (pi_method_availability i)
      | METHOD_DISABLED_BY_READINESS \<Rightarrow>
          list_ex (\<lambda>m. mv_policy_status m = PS_DISABLED_BY_READINESS \<or> mv_status m = MCS_DISABLED_BY_READINESS)
            (pi_method_availability i))"

record gate_evaluation =
  ge_gate_id :: hard_gate_id
  ge_triggered :: bool
  ge_action :: string
  ge_reason_code :: string

definition evaluate_hard_gates :: "'f decision_policy \<Rightarrow> policy_inputs \<Rightarrow> gate_evaluation list" where
  "evaluate_hard_gates p i =
     map (\<lambda>g. \<lparr>ge_gate_id = hg_gate_id g, ge_triggered = gate_triggered (hg_gate_id g) i, ge_action = hg_action g,
               ge_reason_code = hg_reason_code g\<rparr>) (filter hg_enabled (dp_hard_gates p))"

definition signal_at_least :: "'f float_ops \<Rightarrow> 'f signal \<Rightarrow> 'f \<Rightarrow> bool" where
  "signal_at_least fl s threshold =
     (sg_status s = SG_AVAILABLE \<and> (case sg_value s of None \<Rightarrow> False | Some v \<Rightarrow> fl_le fl threshold v))"

definition object_hard_gates :: "'f float_ops \<Rightarrow> 'f decision_policy \<Rightarrow> 'f evidence_bundle \<Rightarrow> policy_inputs \<Rightarrow> gate_evaluation list" where
  "object_hard_gates fl p e i =
     (let input_gates = dict_of (map (\<lambda>g. (ge_gate_id g, g)) (evaluate_hard_gates p i)) in
      map (\<lambda>rule.
        let triggered = (case dict_get input_gates (hg_gate_id rule) of None \<Rightarrow> False | Some g \<Rightarrow> ge_triggered g) in
        \<lparr>ge_gate_id = hg_gate_id rule,
         ge_triggered = triggered \<or> (hg_gate_id rule = PII_UNMASKED
           \<and> signal_at_least fl (es_privacy_risk (eb_signals e)) (fl_const fl (80 / 100))),
         ge_action = hg_action rule, ge_reason_code = hg_reason_code rule\<rparr>) (dp_hard_gates p))"

section \<open>Object value\<close>

definition signal_value :: "'f float_ops \<Rightarrow> 'f signal \<Rightarrow> rat \<Rightarrow> 'f" where
  "signal_value fl s dflt =
     (if sg_status s \<noteq> SG_AVAILABLE then fl_const fl dflt
      else (case sg_value s of None \<Rightarrow> fl_const fl dflt | Some v \<Rightarrow> v))"

definition uncertainty_component :: "'f float_ops \<Rightarrow> 'f evidence_signals \<Rightarrow> 'f" where
  "uncertainty_component fl s =
     (if sg_status (es_model_uncertainty s) = SG_AVAILABLE then signal_value fl (es_model_uncertainty s) 0
      else if sg_status (es_prediction_entropy s) = SG_AVAILABLE then signal_value fl (es_prediction_entropy s) 0
      else if sg_status (es_ambiguous_object_score s) = SG_AVAILABLE then signal_value fl (es_ambiguous_object_score s) 0
      else if sg_status (es_prediction_confidence s) = SG_AVAILABLE
      then fl_sub fl (fl_const fl 1) (signal_value fl (es_prediction_confidence s) 0)
      else fl_const fl 0)"

text \<open>\<open>max\<close> of several values keeps the first maximal one.\<close>

definition fl_max2 :: "'f float_ops \<Rightarrow> 'f \<Rightarrow> 'f \<Rightarrow> 'f" where
  "fl_max2 fl x y = (if fl_lt fl x y then y else x)"

definition object_value_components :: "'f float_ops \<Rightarrow> 'f evidence_signals \<Rightarrow> (string, 'f) dict" where
  "object_value_components fl s =
     (let rare = signal_value fl (es_rare_segment_score s) 0;
          uncertainty = uncertainty_component fl s;
          label_risk = signal_value fl (es_label_issue_score s) 0;
          probable = signal_value fl (es_probable_label_error_score s) 0;
          ambiguous = signal_value fl (es_ambiguous_object_score s) 0;
          quality_penalty = fl_sub fl (fl_const fl 1) (signal_value fl (es_technical_quality s) 1)
      in [(''learning_value'', foldl (fl_max2 fl) rare [uncertainty, ambiguous, probable, label_risk]),
          (''rarity'', rare), (''uncertainty'', uncertainty), (''diversity'', fl_const fl 0),
          (''business_importance'', signal_value fl (es_business_importance s) 0),
          (''duplicate_penalty'', signal_value fl (es_duplicate_score s) 0),
          (''quality_penalty'', quality_penalty),
          (''privacy_risk_penalty'', signal_value fl (es_privacy_risk s) 0),
          (''label_risk_penalty'', fl_max2 fl label_risk probable)])"

definition component :: "'f float_ops \<Rightarrow> (string, 'f) dict \<Rightarrow> string \<Rightarrow> 'f" where
  "component fl cs k = (case dict_get cs k of None \<Rightarrow> fl_const fl 0 | Some x \<Rightarrow> x)"

definition component_reason_codes :: "'f float_ops \<Rightarrow> (string, 'f) dict \<Rightarrow> string list" where
  "component_reason_codes fl cs =
     (let c = component fl cs; at_least = (\<lambda>q x. fl_le fl (fl_const fl q) x) in
      (if at_least (5 / 10) (c ''duplicate_penalty'') then [''exact_duplicate''] else [])
      @ (if at_least (7 / 10) (c ''rarity'') then [''rare_class_underrepresented''] else [])
      @ (if fl_lt fl (fl_const fl 0) (c ''privacy_risk_penalty'') then [''text_pii_detected''] else [])
      @ (if at_least (75 / 100) (c ''quality_penalty'') then [''severe_outlier''] else [])
      @ (if at_least (5 / 10) (c ''uncertainty'') then [''ambiguous_object''] else [])
      @ (if at_least (5 / 10) (c ''label_risk_penalty'') then [''probable_label_error''] else []))"

record 'f object_value_score =
  os_object_id :: string
  os_value :: 'f
  os_raw_value :: 'f
  os_policy_version :: string
  os_weights :: "(string, 'f) dict"
  os_components :: "(string, 'f) dict"
  os_weighted_components :: "(string, 'f) dict"
  os_hard_blocked :: bool
  os_blocker_actions :: "string list"
  os_reason_codes :: "string list"
  os_uncertainty_probability_notation :: string
  os_uncertainty_formulas :: "string list"

definition object_value_score_valid :: "'f float_ops \<Rightarrow> 'f object_value_score \<Rightarrow> bool" where
  "object_value_score_valid fl s \<longleftrightarrow>
     non_empty (os_object_id s) \<and> fl_score_ok fl (os_value s) \<and> non_empty (os_policy_version s)
     \<and> list_all non_empty (dict_keys (os_weights s)) \<and> list_all non_empty (dict_keys (os_components s))
     \<and> list_all non_empty (dict_keys (os_weighted_components s)) \<and> list_all non_empty (os_blocker_actions s)
     \<and> list_all non_empty (os_reason_codes s) \<and> non_empty (os_uncertainty_probability_notation s)
     \<and> list_all non_empty (os_uncertainty_formulas s)"

text \<open>\<open>min(1.0, max(0.0, raw))\<close>\<close>

definition clamp_unit :: "'f float_ops \<Rightarrow> 'f \<Rightarrow> 'f" where
  "clamp_unit fl raw =
     (let m = fl_max2 fl (fl_const fl 0) raw in if fl_lt fl m (fl_const fl 1) then m else fl_const fl 1)"

definition compute_object_value_score ::
    "'f float_ops \<Rightarrow> 'f decision_policy \<Rightarrow> 'f evidence_bundle \<Rightarrow> gate_evaluation list \<Rightarrow> exn + 'f object_value_score" where
  "compute_object_value_score fl p e hard_gates =
     (let policy = dp_object_value_policy p;
          components = object_value_components fl (eb_signals e);
          weighted = map (\<lambda>(k, x). (k, fl_mul fl x (component fl (ov_weights policy) k))) components;
          raw = fl_sum fl (map snd weighted);
          triggered = filter ge_triggered hard_gates
      in validated (object_value_score_valid fl)
           \<lparr>os_object_id = eb_object_id e, os_value = clamp_unit fl raw, os_raw_value = raw, os_policy_version = ov_policy_version policy,
            os_weights = ov_weights policy, os_components = components, os_weighted_components = weighted,
            os_hard_blocked = (triggered \<noteq> []), os_blocker_actions = fromkeys (map ge_action triggered),
            os_reason_codes = fromkeys (component_reason_codes fl components @ map ge_reason_code triggered),
            os_uncertainty_probability_notation = ov_uncertainty_probability_notation policy,
            os_uncertainty_formulas = ov_uncertainty_formulas policy\<rparr>)"

record 'f object_decision =
  od_object_id :: string
  od_hard_gates_evaluated_before_score :: bool
  od_hard_gates :: "gate_evaluation list"
  od_object_value_score :: "'f object_value_score"
  od_hard_blocked :: bool
  od_action :: "string option"
  od_reason_codes :: "string list"

definition evaluate_object_decision ::
    "'f float_ops \<Rightarrow> 'f decision_policy \<Rightarrow> 'f evidence_bundle \<Rightarrow> policy_inputs option \<Rightarrow> exn + 'f object_decision" where
  "evaluate_object_decision fl p e inputs =
     (let i = (case inputs of None \<Rightarrow> empty_policy_inputs | Some x \<Rightarrow> x);
          hard_gates = object_hard_gates fl p e i;
          triggered = filter ge_triggered hard_gates in
      bindR (compute_object_value_score fl p e hard_gates) (\<lambda>score.
      Inr \<lparr>od_object_id = eb_object_id e, od_hard_gates_evaluated_before_score = True, od_hard_gates = hard_gates,
           od_object_value_score = score, od_hard_blocked = (triggered \<noteq> []),
           od_action = (case triggered of [] \<Rightarrow> None | g # _ \<Rightarrow> Some (ge_action g)),
           od_reason_codes = fromkeys (map ge_reason_code triggered)\<rparr>))"

section \<open>Recommendations from evidence\<close>

definition rule_matches :: "'f float_ops \<Rightarrow> 'f recommendation_rule \<Rightarrow> 'f evidence_bundle \<Rightarrow> bool" where
  "rule_matches fl rule e =
     (let threshold = (case rl_threshold rule of None \<Rightarrow> fl_const fl 0 | Some t \<Rightarrow> t);
          signals = eb_signals e; c = rl_reason_code rule in
      if c = ''missing_numeric'' then False
      else if c = ''exact_duplicate'' then signal_at_least fl (es_duplicate_score signals) threshold
      else if c = ''rare_class_underrepresented'' then signal_at_least fl (es_rare_segment_score signals) threshold
      else if c = ''text_pii_detected'' then
        eb_modality e \<in> {TEXT, DOCUMENT_OCR} \<and> signal_at_least fl (es_privacy_risk signals) threshold
      else if c = ''severe_outlier'' then
        sg_status (es_technical_quality signals) = SG_AVAILABLE
        \<and> (case sg_value (es_technical_quality signals) of
             None \<Rightarrow> False | Some v \<Rightarrow> fl_le fl v (fl_sub fl (fl_const fl 1) threshold))
      else if c = ''ambiguous_object'' then signal_at_least fl (es_ambiguous_object_score signals) threshold
      else if c = ''probable_label_error'' then signal_at_least fl (es_probable_label_error_score signals) threshold
      else False)"

record evidence_recommendation =
  er_object_id :: string
  er_action :: recommended_action_type
  er_reason_codes :: "string list"

definition recommendation_codes :: "string \<Rightarrow> string list" where
  "recommendation_codes c =
     fromkeys ([c] @ (if c = ''ambiguous_object'' then [''high_model_uncertainty'', ''low_prediction_margin''] else [])
       @ (if c = ''probable_label_error'' then [''high_confidence_label_conflict''] else []))"

definition recommend_from_evidence :: "'f float_ops \<Rightarrow> 'f decision_policy \<Rightarrow> 'f evidence_bundle \<Rightarrow> evidence_recommendation list" where
  "recommend_from_evidence fl p e =
     map (\<lambda>rule. \<lparr>er_object_id = eb_object_id e, er_action = rl_action rule,
                   er_reason_codes = recommendation_codes (rl_reason_code rule)\<rparr>)
       (filter (\<lambda>rule. rl_enabled rule \<and> rule_matches fl rule e) (dp_recommendation_rules p))"

definition disabled_outlier_capping_reason :: "'f decision_policy \<Rightarrow> string option" where
  "disabled_outlier_capping_reason p =
     (if op_capping_enabled (dp_outlier_policy p) then None else Some (op_disabled_reason_code (dp_outlier_policy p)))"

section \<open>The registry covers the policy\<close>

lemma registry_codes [simp]:
  "dict_get (rg_codes load_reason_code_registry) c =
     map_of (map (\<lambda>d. (rd_code d, d)) reason_code_definitions) c"
proof -
  have "distinct (map fst (map (\<lambda>d. (rd_code d, d)) reason_code_definitions))"
    by (simp add: reason_code_definitions_def)
  then show ?thesis by (simp add: load_reason_code_registry_def dict_get_dict_of_distinct)
qed

text \<open>What is used of the order of floats: zero and one are scores, and a value strictly between them is one.\<close>

definition unit_order :: "'f float_ops \<Rightarrow> bool" where
  "unit_order fl \<longleftrightarrow>
     (\<forall>q. 0 \<le> q \<and> q \<le> 1 \<longrightarrow> fl_score_ok fl (fl_const fl q))
     \<and> (\<forall>x. fl_lt fl (fl_const fl 0) x \<longrightarrow> fl_le fl (fl_const fl 0) x)
     \<and> (\<forall>x. fl_lt fl x (fl_const fl 1) \<longrightarrow> fl_le fl x (fl_const fl 1))"

lemma default_codes_known:
  "list_all (\<lambda>c. is_ok (require_code load_reason_code_registry c))
     (map hg_reason_code DEFAULT_HARD_GATES @ map (fst \<circ> snd) DEFAULT_RULES @ [op_disabled_reason_code OUTLIER_POLICY])"
  by code_simp

lemma is_ok_bind_const: "is_ok (bindR m (\<lambda>_. n)) \<longleftrightarrow> is_ok m \<and> is_ok n"
  by (cases m) simp_all

lemma references_ok_iff:
  "is_ok (policy_references_ok p) \<longleftrightarrow>
     list_all (\<lambda>c. is_ok (require_code load_reason_code_registry c))
       (map hg_reason_code (dp_hard_gates p) @ map rl_reason_code (dp_recommendation_rules p)
        @ [op_disabled_reason_code (dp_outlier_policy p)])"
  by (simp add: policy_references_ok_def is_ok_bind_const mapR_is_ok list.pred_map comp_def conj_assoc)

lemma load_policy:
  assumes "unit_order fl" "hex64 sha"
  shows "is_ok (load_decision_policy_v0 sha fl)"
proof -
  have unit: "fl_score_ok fl (fl_const fl q)" if "0 \<le> q" "q \<le> 1" for q
    using assms(1) that by (simp add: unit_order_def)
  obtain p where p: "load_decision_policy_v0 sha fl = validated (decision_policy_valid fl) p"
    and gates: "dp_hard_gates p = DEFAULT_HARD_GATES" and outlier: "dp_outlier_policy p = OUTLIER_POLICY"
    and rules: "dp_recommendation_rules p = map (\<lambda>(i, c, a, q, _). \<lparr>rl_rule_id = i, rl_reason_code = c, rl_action = a,
           rl_threshold = Some (fl_const fl q), rl_enabled = True\<rparr>) DEFAULT_RULES"
    and rest: "dp_policy_version p = DECISION_POLICY_VERSION" "dp_reason_code_registry_version p = REASON_CODE_REGISTRY_VERSION"
      "dp_policy_input_names p = POLICY_INPUT_NAMES" "dp_config_hash p = stable_hash sha policy_payload"
      "dp_object_value_policy p = \<lparr>ov_policy_version = OBJECT_VALUE_POLICY_VERSION,
          ov_weights = map (\<lambda>(n, q, _). (n, fl_const fl q)) OBJECT_VALUE_WEIGHTS,
          ov_uncertainty_probability_notation = PROBABILITY_NOTATION, ov_uncertainty_formulas = UNCERTAINTY_FORMULAS\<rparr>"
    by (rule that [OF load_decision_policy_v0_def]) simp_all
  have "map rl_reason_code (dp_recommendation_rules p) = map (fst \<circ> snd) DEFAULT_RULES"
    by (simp add: rules case_prod_beta comp_def)
  then have refs: "is_ok (policy_references_ok p)"
    using default_codes_known by (simp only: references_ok_iff gates outlier)
  have "decision_policy_valid fl p"
    using assms(2) unit refs
    by (simp add: decision_policy_valid_def rules gates outlier rest non_empty_def opt_ok_def
        DECISION_POLICY_VERSION_def REASON_CODE_REGISTRY_VERSION_def DEFAULT_HARD_GATES_def DEFAULT_RULES_def
        default_gate_def OUTLIER_POLICY_def OBJECT_VALUE_POLICY_VERSION_def PROBABILITY_NOTATION_def UNCERTAINTY_FORMULAS_def
        POLICY_INPUT_NAMES_def weight_names_def OBJECT_VALUE_WEIGHTS_def dict_keys_def comp_def)
  then show ?thesis by (simp add: p)
qed

section \<open>What blocks an object\<close>

text \<open>The input gate found for a rule is one of an enabled rule with the same id; all of them agree on being triggered.\<close>

lemma input_gate:
  "(case dict_get (dict_of (map (\<lambda>g. (ge_gate_id g, g)) (evaluate_hard_gates p i))) gid of None \<Rightarrow> False | Some g \<Rightarrow> ge_triggered g)
     \<longleftrightarrow> gate_triggered gid i \<and> (\<exists>r \<in> set (dp_hard_gates p). hg_enabled r \<and> hg_gate_id r = gid)"
proof -
  have "dict_get (dict_of (map (\<lambda>g. (ge_gate_id g, g)) (evaluate_hard_gates p i))) gid = None
      \<longleftrightarrow> \<not> (\<exists>r \<in> set (dp_hard_gates p). hg_enabled r \<and> hg_gate_id r = gid)"
    by (auto simp: dict_get_None_iff evaluate_hard_gates_def image_iff)
  moreover have "ge_triggered g = gate_triggered gid i"
    if "dict_get (dict_of (map (\<lambda>g. (ge_gate_id g, g)) (evaluate_hard_gates p i))) gid = Some g" for g
  proof -
    have "(gid, g) \<in> set (rev (map (\<lambda>g. (ge_gate_id g, g)) (evaluate_hard_gates p i)))"
      using that unfolding dict_get_dict_of by (rule dict_get_Some_in)
    then show ?thesis by (auto simp: evaluate_hard_gates_def)
  qed
  ultimately show ?thesis by (auto split: option.split)
qed

definition privacy_signal_high :: "'f float_ops \<Rightarrow> 'f evidence_bundle \<Rightarrow> bool" where
  "privacy_signal_high fl e = signal_at_least fl (es_privacy_risk (eb_signals e)) (fl_const fl (80 / 100))"

definition rule_fires :: "'f float_ops \<Rightarrow> 'f decision_policy \<Rightarrow> 'f evidence_bundle \<Rightarrow> policy_inputs \<Rightarrow> hard_gate_rule \<Rightarrow> bool" where
  "rule_fires fl p e i r \<longleftrightarrow>
     gate_triggered (hg_gate_id r) i \<and> (\<exists>q \<in> set (dp_hard_gates p). hg_enabled q \<and> hg_gate_id q = hg_gate_id r)
     \<or> hg_gate_id r = PII_UNMASKED \<and> privacy_signal_high fl e"

lemma object_gates_eq:
  "object_hard_gates fl p e i =
     map (\<lambda>r. \<lparr>ge_gate_id = hg_gate_id r, ge_triggered = rule_fires fl p e i r, ge_action = hg_action r, ge_reason_code = hg_reason_code r\<rparr>)
       (dp_hard_gates p)"
  by (simp add: object_hard_gates_def Let_def input_gate rule_fires_def privacy_signal_high_def conj_commute)

lemma clamped_score:
  assumes "unit_order fl"
  shows "fl_score_ok fl (clamp_unit fl raw)"
proof -
  have "fl_score_ok fl (fl_const fl 0)" "fl_score_ok fl (fl_const fl 1)"
    using assms by (simp_all add: unit_order_def)
  then show ?thesis using assms by (auto simp: unit_order_def fl_score_ok_def fl_max2_def clamp_unit_def Let_def)
qed

lemma component_codes_ne: "list_all non_empty (component_reason_codes fl cs)"
  by (simp add: component_reason_codes_def Let_def non_empty_def)

lemma score_returned:
  assumes "unit_order fl" "decision_policy_valid fl p" "non_empty (eb_object_id e)"
    and "list_all (\<lambda>g. non_empty (ge_action g) \<and> non_empty (ge_reason_code g)) gates"
  shows "\<exists>s. compute_object_value_score fl p e gates = Inr s \<and> fl_score_ok fl (os_value s)
    \<and> os_hard_blocked s = list_ex ge_triggered gates"
proof -
  have keys: "dict_keys (map (\<lambda>(k, x). (k, f k x)) d) = dict_keys d" for f :: "string \<Rightarrow> 'a \<Rightarrow> 'a" and d
    by (simp add: dict_keys_def case_prod_beta comp_def)
  have "list_all non_empty (dict_keys (object_value_components fl (eb_signals e)))"
    by (simp add: object_value_components_def Let_def dict_keys_def non_empty_def)
  moreover have "list_all non_empty weight_names"
    by (simp add: weight_names_def OBJECT_VALUE_WEIGHTS_def non_empty_def)
  moreover have "list_all non_empty (fromkeys (map ge_action (filter ge_triggered gates)))"
    "list_all non_empty (fromkeys (component_reason_codes fl (object_value_components fl (eb_signals e))
       @ map ge_reason_code (filter ge_triggered gates)))"
    using assms(4) component_codes_ne by (auto simp: list_all_iff)
  moreover have "filter ge_triggered gates \<noteq> [] \<longleftrightarrow> list_ex ge_triggered gates"
    by (auto simp: filter_empty_conv list_ex_iff)
  ultimately show ?thesis
    using assms(2,3) clamped_score [OF assms(1)]
    by (simp add: compute_object_value_score_def Let_def object_value_score_valid_def decision_policy_valid_def keys result_simps)
qed

lemma object_gates_ne:
  "decision_policy_valid fl p \<Longrightarrow> list_all (\<lambda>g. non_empty (ge_action g) \<and> non_empty (ge_reason_code g)) (object_hard_gates fl p e i)"
  by (auto simp: object_gates_eq decision_policy_valid_def list_all_iff)


lemma triggered_gates:
  "filter ge_triggered (object_hard_gates fl p e i) =
     map (\<lambda>r. \<lparr>ge_gate_id = hg_gate_id r, ge_triggered = rule_fires fl p e i r, ge_action = hg_action r,
               ge_reason_code = hg_reason_code r\<rparr>) (filter (rule_fires fl p e i) (dp_hard_gates p))"
  by (simp add: object_gates_eq filter_map comp_def)

lemma case_map_filter: "(case map g (filter P xs) of [] \<Rightarrow> None | x # _ \<Rightarrow> Some (f x)) = map_option (f \<circ> g) (find P xs)"
  by (induction xs) simp_all

lemma filter_nonempty: "filter P xs \<noteq> [] \<longleftrightarrow> list_ex P xs"
  by (induction xs) simp_all

lemma decision_fields:
  assumes "evaluate_object_decision fl p e (Some i) = Inr d"
  shows "od_hard_blocked d = list_ex (rule_fires fl p e i) (dp_hard_gates p)"
    and "od_action d = map_option hg_action (find (rule_fires fl p e i) (dp_hard_gates p))"
    and "od_reason_codes d = fromkeys (map hg_reason_code (filter (rule_fires fl p e i) (dp_hard_gates p)))"
    and "compute_object_value_score fl p e (object_hard_gates fl p e i) = Inr (od_object_value_score d)"
proof -
  obtain x where x: "compute_object_value_score fl p e (object_hard_gates fl p e i) = Inr x"
    and d: "d = \<lparr>od_object_id = eb_object_id e, od_hard_gates_evaluated_before_score = True,
      od_hard_gates = object_hard_gates fl p e i, od_object_value_score = x,
      od_hard_blocked = (filter ge_triggered (object_hard_gates fl p e i) \<noteq> []),
      od_action = (case filter ge_triggered (object_hard_gates fl p e i) of [] \<Rightarrow> None | g # _ \<Rightarrow> Some (ge_action g)),
      od_reason_codes = fromkeys (map ge_reason_code (filter ge_triggered (object_hard_gates fl p e i)))\<rparr>"
    using assms by (simp only: evaluate_object_decision_def Let_def option.case bindR_Inr_iff) blast
  show "compute_object_value_score fl p e (object_hard_gates fl p e i) = Inr (od_object_value_score d)"
    using x d by simp
  show "od_hard_blocked d = list_ex (rule_fires fl p e i) (dp_hard_gates p)"
    unfolding d triggered_gates by (simp add: filter_nonempty del: filter_empty_conv empty_filter_conv)
  show "od_action d = map_option hg_action (find (rule_fires fl p e i) (dp_hard_gates p))"
    unfolding d triggered_gates by (simp add: case_map_filter comp_def)
  show "od_reason_codes d = fromkeys (map hg_reason_code (filter (rule_fires fl p e i) (dp_hard_gates p)))"
    unfolding d triggered_gates by (simp add: comp_def)
qed

lemma rule_fires_weights: "rule_fires fl (p\<lparr>dp_object_value_policy := w\<rparr>) e i = rule_fires fl p e i"
  by (rule ext) (simp add: rule_fires_def)

text \<open>A decision is always returned, with a score between zero and one, and the object is blocked exactly
  when a gate of the policy fires; the action is the one of the first such gate in the order of the policy, the
  reasons are the codes of all of them, and the score cannot change this: a policy with other weights blocks the same
  objects with the same action.\<close>

theorem object_blocked_iff_gate_fires:
  assumes "unit_order fl" and "decision_policy_valid fl p" and "non_empty (eb_object_id e)"
  shows "\<exists>d. evaluate_object_decision fl p e (Some i) = Inr d
    \<and> fl_score_ok fl (os_value (od_object_value_score d))
    \<and> od_hard_blocked d = list_ex (rule_fires fl p e i) (dp_hard_gates p)
    \<and> os_hard_blocked (od_object_value_score d) = od_hard_blocked d
    \<and> od_action d = map_option hg_action (find (rule_fires fl p e i) (dp_hard_gates p))
    \<and> set (od_reason_codes d) = hg_reason_code ` {r \<in> set (dp_hard_gates p). rule_fires fl p e i r}
    \<and> (\<forall>w d'. evaluate_object_decision fl (p\<lparr>dp_object_value_policy := w\<rparr>) e (Some i) = Inr d' \<longrightarrow>
         od_hard_blocked d' = od_hard_blocked d \<and> od_action d' = od_action d \<and> od_reason_codes d' = od_reason_codes d)"
proof -
  obtain s where s: "compute_object_value_score fl p e (object_hard_gates fl p e i) = Inr s" "fl_score_ok fl (os_value s)"
    "os_hard_blocked s = list_ex ge_triggered (object_hard_gates fl p e i)"
    using score_returned [OF assms(1-3) object_gates_ne [OF assms(2)]] by blast
  then obtain d where d: "evaluate_object_decision fl p e (Some i) = Inr d"
    by (simp add: evaluate_object_decision_def Let_def)
  have "od_object_value_score d = s" using decision_fields(4) [OF d] s(1) by simp
  moreover have "os_hard_blocked s = list_ex (rule_fires fl p e i) (dp_hard_gates p)"
    using s(3) by (simp add: object_gates_eq list.pred_map list_ex_iff)
  moreover have "od_hard_blocked d' = od_hard_blocked d \<and> od_action d' = od_action d \<and> od_reason_codes d' = od_reason_codes d"
    if "evaluate_object_decision fl (p\<lparr>dp_object_value_policy := w\<rparr>) e (Some i) = Inr d'" for w d'
    using decision_fields(1-3) [OF that] decision_fields(1-3) [OF d] by (simp add: rule_fires_weights)
  ultimately show ?thesis
    using d s(2) decision_fields [OF d] by (intro exI [of _ d] conjI) (auto simp: image_iff)
qed

section \<open>Samples\<close>

abbreviation no_signal :: "rat signal" where
  "no_signal \<equiv> \<lparr>sg_value = None, sg_status = SG_NOT_APPLICABLE, sg_reason = Some ''none''\<rparr>"

definition sample_signals :: "rat evidence_signals" where
  "sample_signals =
     \<lparr>es_technical_quality = no_signal, es_duplicate_score = no_signal, es_privacy_risk = no_signal,
      es_label_issue_score = no_signal, es_rare_segment_score = no_signal, es_business_importance = no_signal,
      es_model_uncertainty = no_signal, es_prediction_confidence = no_signal, es_prediction_margin = no_signal,
      es_prediction_entropy = no_signal, es_ambiguous_object_score = no_signal, es_probable_label_error_score = no_signal\<rparr>"

abbreviation available :: "rat \<Rightarrow> rat signal" where
  "available q \<equiv> \<lparr>sg_value = Some q, sg_status = SG_AVAILABLE, sg_reason = None\<rparr>"

definition sample_evidence :: "rat evidence_signals \<Rightarrow> rat evidence_bundle" where
  "sample_evidence signals = \<lparr>eb_evidence_bundle_id = ''b1'', eb_object_id = ''o1'', eb_evidence_refs = [], eb_modality = TABULAR, eb_signals = signals\<rparr>"

lemma rat_unit_order: "unit_order rat_floats"
  by (simp add: unit_order_def rat_floats_def fl_score_ok_def)

definition sample_policy :: "rat decision_policy" where
  "sample_policy = projr (load_decision_policy_v0 toy_sha rat_floats)"

lemma sample_policy: "load_decision_policy_v0 toy_sha rat_floats = Inr sample_policy"
  using load_policy [OF rat_unit_order hex64_toy_sha] by (auto simp: sample_policy_def is_ok_iff)

lemma sample_policy_valid: "decision_policy_valid rat_floats sample_policy"
  using sample_policy by (auto simp: load_decision_policy_v0_def result_simps)

lemma loaded_gates: "load_decision_policy_v0 sha fl = Inr p \<Longrightarrow> dp_hard_gates p = DEFAULT_HARD_GATES"
  by (simp add: load_decision_policy_v0_def result_simps)

lemma sample_policy_gates: "dp_hard_gates sample_policy = DEFAULT_HARD_GATES"
  by (rule loaded_gates [OF sample_policy])

theorem object_blocked_iff_gate_fires_witness:
  "\<exists>d. evaluate_object_decision rat_floats sample_policy (sample_evidence (sample_signals\<lparr>es_privacy_risk := available (9 / 10)\<rparr>))
         (Some empty_policy_inputs) = Inr d
     \<and> od_hard_blocked d \<and> od_action d = Some ''BLOCK_PRIVACY_REVIEW''"
  using object_blocked_iff_gate_fires [OF rat_unit_order sample_policy_valid,
      of "sample_evidence (sample_signals\<lparr>es_privacy_risk := available (9 / 10)\<rparr>)" empty_policy_inputs]
  by (auto simp: sample_evidence_def non_empty_def sample_policy_gates DEFAULT_HARD_GATES_def default_gate_def rule_fires_def
      privacy_signal_high_def signal_at_least_def rat_floats_def sample_signals_def)

section \<open>Disabled gates\<close>

text \<open>A policy with all its gates disabled still blocks an object whose privacy risk is 0.8 or more as soon as it
  lists the privacy gate: the object gates are built from every rule, and the signal is added without looking at
  \<open>enabled\<close>.\<close>

theorem disabled_gate_still_blocks:
  assumes "evaluate_object_decision fl p e (Some i) = Inr d"
    and "list_all (\<lambda>r. \<not> hg_enabled r) (dp_hard_gates p)"
  shows "od_hard_blocked d = (list_ex (\<lambda>r. hg_gate_id r = PII_UNMASKED) (dp_hard_gates p) \<and> privacy_signal_high fl e)"
  using decision_fields(1) [OF assms(1)] assms(2) by (auto simp: rule_fires_def list_ex_iff list_all_iff)

definition disabled_policy :: "rat decision_policy" where
  "disabled_policy = sample_policy\<lparr>dp_hard_gates := map (\<lambda>g. g\<lparr>hg_enabled := False\<rparr>) DEFAULT_HARD_GATES\<rparr>"

lemma disabled_policy_valid: "decision_policy_valid rat_floats disabled_policy"
proof -
  have "is_ok (policy_references_ok sample_policy)"
    using sample_policy_valid by (simp add: decision_policy_valid_def)
  then have "is_ok (policy_references_ok disabled_policy)"
    by (simp add: references_ok_iff disabled_policy_def sample_policy_gates comp_def)
  then show ?thesis using sample_policy_valid
    by (simp add: decision_policy_valid_def disabled_policy_def sample_policy_gates list.pred_map comp_def)
qed

theorem disabled_gate_still_blocks_witness:
  "\<exists>d. evaluate_object_decision rat_floats disabled_policy (sample_evidence (sample_signals\<lparr>es_privacy_risk := available (9 / 10)\<rparr>))
         (Some empty_policy_inputs) = Inr d \<and> od_hard_blocked d"
proof -
  let ?e = "sample_evidence (sample_signals\<lparr>es_privacy_risk := available (9 / 10)\<rparr>)"
  have "list_all (\<lambda>g. non_empty (ge_action g) \<and> non_empty (ge_reason_code g)) (object_hard_gates rat_floats disabled_policy ?e empty_policy_inputs)"
    using object_gates_ne [OF disabled_policy_valid] .
  then obtain s where "compute_object_value_score rat_floats disabled_policy ?e
      (object_hard_gates rat_floats disabled_policy ?e empty_policy_inputs) = Inr s"
    using score_returned [OF rat_unit_order disabled_policy_valid] by (force simp: sample_evidence_def non_empty_def)
  then obtain d where d: "evaluate_object_decision rat_floats disabled_policy ?e (Some empty_policy_inputs) = Inr d"
    by (simp add: evaluate_object_decision_def Let_def)
  have "list_all (\<lambda>r. \<not> hg_enabled r) (dp_hard_gates disabled_policy)"
    by (simp add: disabled_policy_def DEFAULT_HARD_GATES_def default_gate_def)
  from disabled_gate_still_blocks [OF d this] d show ?thesis
    by (simp add: disabled_policy_def DEFAULT_HARD_GATES_def default_gate_def privacy_signal_high_def signal_at_least_def
        sample_evidence_def sample_signals_def rat_floats_def)
qed

end
