(* ===== verification/DecisionReport.thy ===== *)
theory DecisionReport
  imports DecisionPolicy
begin

text \<open>
  The decision report of \<open>src/app/kernel/decision_report.py\<close>: gates and recommendations of every object, merged
  into blockers, recommended actions and the readiness of the dataset.
\<close>

section \<open>Contracts (domain/decision.py)\<close>

datatype dataset_decision = READY_FOR_TRAINING | READY_FOR_TRAINING_WITH_REVIEW_NOTES | NEEDS_REVIEW | DD_BLOCKED

datatype dataset_readiness = READY_FOR_EXPORT | READY_WITH_WARNINGS | NOT_READY_FOR_EXPORT | DR_BLOCKED

record policy_versions =
  pv_decision_policy :: string
  pv_score_policy :: string
  pv_privacy_policy :: string
  pv_method_policy :: string

record 'f readiness_assessment =
  ra_status :: dataset_readiness
  ra_score :: 'f
  ra_reason_codes :: "string list"

record critical_blocker =
  cb_code :: string
  cb_severity :: string
  cb_message :: string
  cb_evidence_refs :: "evidence_ref list"

record recommended_action =
  rc_recommendation_id :: string
  rc_action :: decision_action
  rc_modality :: data_modality
  rc_count :: int
  rc_reason_codes :: "string list"
  rc_reason :: string
  rc_segment :: "string option"
  rc_method_recommendation_id :: "string option"
  rc_requires_approval :: bool

record blocked_decision_action =
  ba_action :: decision_action
  ba_reason :: string
  ba_reason_codes :: "string list"

record 'f object_level_decision =
  ol_object_id :: string
  ol_modality :: data_modality
  ol_action :: decision_action
  ol_reasons :: "string list"
  ol_blocked_actions :: "blocked_decision_action list"
  ol_object_value_score :: 'f

record 'f decision_report =
  dr_decision_report_id :: string
  dr_dataset_id :: string
  dr_version_id :: string
  dr_decision_schema_version :: string
  dr_dataset_decision :: dataset_decision
  dr_readiness :: "'f readiness_assessment"
  dr_critical_blockers :: "critical_blocker list"
  dr_safe_actions_available :: bool
  dr_recommended_next_job :: "workflow_type option"
  dr_object_decisions :: "'f object_level_decision list"
  dr_recommended_actions :: "recommended_action list"
  dr_policy_versions :: policy_versions
  dr_generated_at :: datetime

definition policy_versions_valid :: "policy_versions \<Rightarrow> bool" where
  "policy_versions_valid v \<longleftrightarrow>
     non_empty (pv_decision_policy v) \<and> non_empty (pv_score_policy v) \<and> non_empty (pv_privacy_policy v)
     \<and> non_empty (pv_method_policy v)"

definition readiness_valid :: "'f float_ops \<Rightarrow> 'f readiness_assessment \<Rightarrow> bool" where
  "readiness_valid fl r \<longleftrightarrow> fl_score_ok fl (ra_score r) \<and> list_all non_empty (ra_reason_codes r)"

definition critical_blocker_valid :: "critical_blocker \<Rightarrow> bool" where
  "critical_blocker_valid b \<longleftrightarrow>
     non_empty (cb_code b) \<and> non_empty (cb_severity b) \<and> non_empty (cb_message b)
     \<and> list_all (\<lambda>r. non_empty (ef_kind r) \<and> s3_uri (ef_uri r)) (cb_evidence_refs b)"

definition recommended_action_valid :: "recommended_action \<Rightarrow> bool" where
  "recommended_action_valid a \<longleftrightarrow>
     non_empty (rc_recommendation_id a) \<and> 0 \<le> rc_count a \<and> list_all non_empty (rc_reason_codes a) \<and> non_empty (rc_reason a)"

definition object_level_decision_valid :: "'f float_ops \<Rightarrow> 'f object_level_decision \<Rightarrow> bool" where
  "object_level_decision_valid fl d \<longleftrightarrow>
     non_empty (ol_object_id d) \<and> list_all non_empty (ol_reasons d)
     \<and> list_all (\<lambda>b. non_empty (ba_reason b) \<and> list_all non_empty (ba_reason_codes b)) (ol_blocked_actions d)
     \<and> fl_score_ok fl (ol_object_value_score d)"

definition decision_report_valid :: "'f float_ops \<Rightarrow> 'f decision_report \<Rightarrow> bool" where
  "decision_report_valid fl r \<longleftrightarrow>
     non_empty (dr_decision_report_id r) \<and> non_empty (dr_dataset_id r) \<and> non_empty (dr_version_id r)
     \<and> non_empty (dr_decision_schema_version r) \<and> readiness_valid fl (dr_readiness r)
     \<and> list_all critical_blocker_valid (dr_critical_blockers r)
     \<and> list_all (object_level_decision_valid fl) (dr_object_decisions r)
     \<and> list_all recommended_action_valid (dr_recommended_actions r) \<and> policy_versions_valid (dr_policy_versions r)"

section \<open>Objects (kernel/decision_report.py)\<close>

definition DECISION_REPORT_SCHEMA_VERSION :: string where
  "DECISION_REPORT_SCHEMA_VERSION = ''decision_report.v1''"

definition PRIVACY_POLICY_VERSION :: string where
  "PRIVACY_POLICY_VERSION = ''privacy_v0''"

definition METHOD_POLICY_VERSION :: string where
  "METHOD_POLICY_VERSION = ''method_selection_v0''"

record report_request =
  rq_dataset_id :: string
  rq_version_id :: string
  rq_created_by_job_id :: string
  rq_config_hash :: string
  rq_decision_report_id :: "string option"
  rq_generated_at :: "datetime option"

definition report_request_valid :: "report_request \<Rightarrow> bool" where
  "report_request_valid r \<longleftrightarrow>
     non_empty (rq_dataset_id r) \<and> non_empty (rq_version_id r) \<and> non_empty (rq_created_by_job_id r)
     \<and> sha256_digest (rq_config_hash r)"

record 'f object_context =
  oc_evidence :: "'f evidence_bundle"
  oc_evaluation :: "'f object_decision"
  oc_recommendations :: "evidence_recommendation list"
  oc_decision :: "'f object_level_decision"

definition object_reason_codes :: "'f object_decision \<Rightarrow> evidence_recommendation list \<Rightarrow> string list" where
  "object_reason_codes evaluation recommendations =
     (let codes = concat (map er_reason_codes recommendations) @ od_reason_codes evaluation
                  @ os_reason_codes (od_object_value_score evaluation)
      in fromkeys (if codes = [] then [''export_ready''] else codes))"

definition object_action :: "'f object_decision \<Rightarrow> evidence_recommendation list \<Rightarrow> decision_action" where
  "object_action evaluation recommendations =
     (let reason_codes = concat (map er_reason_codes recommendations); action_types = map er_action recommendations in
      if od_hard_blocked evaluation then BLOCK_EXPORT
      else if ''probable_label_error'' \<in> set reason_codes then SEND_TO_LABEL_REVIEW
      else if ''ambiguous_object'' \<in> set reason_codes then SEND_TO_LABEL_REVIEW
      else if RA_SEND_TO_PRIVACY_REVIEW \<in> set action_types then SEND_TO_PRIVACY_REVIEW
      else if RA_SEND_TO_DUPLICATE_REVIEW \<in> set action_types then REMOVE_DUPLICATE
      else if RA_RECOMMEND_IMPUTATION_REVIEW \<in> set action_types then IMPUTE_MISSING_VALUES
      else if RA_RECOMMEND_RARE_CLASS_AUGMENTATION \<in> set action_types then AUGMENT_RARE_CLASS
      else KEEP)"

definition blocked_actions :: "'f object_decision \<Rightarrow> blocked_decision_action list" where
  "blocked_actions evaluation =
     (if \<not> od_hard_blocked evaluation then []
      else [\<lparr>ba_action = EXPORT_READY, ba_reason = ''Hard policy gates must be resolved before export.'',
             ba_reason_codes = (if od_reason_codes evaluation = [] then os_reason_codes (od_object_value_score evaluation)
                                else od_reason_codes evaluation)\<rparr>])"

definition object_context_of ::
    "'f float_ops \<Rightarrow> 'f decision_policy \<Rightarrow> policy_inputs \<Rightarrow> 'f evidence_bundle \<Rightarrow> exn + 'f object_context" where
  "object_context_of fl p i e =
     bindR (evaluate_object_decision fl p e (Some i)) (\<lambda>evaluation.
     let recommendations = recommend_from_evidence fl p e in
     bindR (validated (object_level_decision_valid fl)
       \<lparr>ol_object_id = eb_object_id e, ol_modality = eb_modality e, ol_action = object_action evaluation recommendations,
        ol_reasons = object_reason_codes evaluation recommendations, ol_blocked_actions = blocked_actions evaluation,
        ol_object_value_score = os_value (od_object_value_score evaluation)\<rparr>) (\<lambda>decision.
     Inr \<lparr>oc_evidence = e, oc_evaluation = evaluation, oc_recommendations = recommendations, oc_decision = decision\<rparr>))"

section \<open>Blockers\<close>

definition upper_char :: "char \<Rightarrow> char" where
  "upper_char c = (if is_ascii_lower c then char_of (code c - 32) else c)"

definition blocker_for :: "gate_evaluation \<Rightarrow> evidence_ref list \<Rightarrow> exn + critical_blocker" where
  "blocker_for gate refs =
     bindR (require_code load_reason_code_registry (ge_reason_code gate)) (\<lambda>d.
     validated critical_blocker_valid
       \<lparr>cb_code = map upper_char (ge_reason_code gate), cb_severity = ''critical'', cb_message = rd_description d,
        cb_evidence_refs = refs\<rparr>)"

definition add_dataset_gate :: "(string, critical_blocker) dict \<Rightarrow> gate_evaluation \<Rightarrow> exn + (string, critical_blocker) dict" where
  "add_dataset_gate blockers gate =
     (if \<not> ge_triggered gate then Inr blockers
      else bindR (blocker_for gate []) (\<lambda>b.
        Inr (if dict_get blockers (ge_reason_code gate) = None then dict_set blockers (ge_reason_code gate) b else blockers)))"

definition add_object_gate ::
    "evidence_ref list \<Rightarrow> (string, critical_blocker) dict \<Rightarrow> gate_evaluation \<Rightarrow> exn + (string, critical_blocker) dict" where
  "add_object_gate evidence_refs blockers gate =
     (let refs = take 3 evidence_refs in
      if \<not> ge_triggered gate then Inr blockers
      else bindR (require_code load_reason_code_registry (ge_reason_code gate)) (\<lambda>_.
        case dict_get blockers (ge_reason_code gate) of
          None \<Rightarrow> bindR (blocker_for gate refs) (\<lambda>b. Inr (dict_set blockers (ge_reason_code gate) b))
        | Some existing \<Rightarrow> Inr (dict_set blockers (ge_reason_code gate)
            (existing\<lparr>cb_evidence_refs := fromkeys (cb_evidence_refs existing @ refs)\<rparr>))))"

definition critical_blockers :: "gate_evaluation list \<Rightarrow> 'f object_context list \<Rightarrow> exn + critical_blocker list" where
  "critical_blockers dataset_gates contexts =
     bindR (foldR add_dataset_gate [] dataset_gates) (\<lambda>blockers.
     bindR (foldR (\<lambda>bs c. foldR (add_object_gate (eb_evidence_refs (oc_evidence c))) bs (od_hard_gates (oc_evaluation c)))
              blockers contexts) (\<lambda>all. Inr (map snd all)))"

section \<open>Recommended actions\<close>

record 'f recommendation_group =
  gp_action :: decision_action
  gp_modality :: data_modality
  gp_primary_reason :: string
  gp_object_ids :: "string list"
  gp_reason_codes :: "string list"

definition recommended_action_for_context :: "'f object_context \<Rightarrow> decision_action option" where
  "recommended_action_for_context c =
     (let a = ol_action (oc_decision c) in
      if a \<in> {KEEP, EXPORT_READY} then None
      else if a = BLOCK_EXPORT then
        (if ''pii_unmasked'' \<in> set (ol_reasons (oc_decision c)) then Some SEND_TO_PRIVACY_REVIEW else None)
      else Some a)"

definition PRIMARY_REASONS :: "string list" where
  "PRIMARY_REASONS =
     [''probable_label_error'', ''ambiguous_object'', ''text_pii_detected'', ''pii_unmasked'', ''exact_duplicate'',
      ''rare_class_underrepresented'', ''missing_numeric'']"

definition primary_reason :: "string list \<Rightarrow> string" where
  "primary_reason reason_codes =
     (case find (\<lambda>c. c \<in> set reason_codes) PRIMARY_REASONS of
        Some c \<Rightarrow> c
      | None \<Rightarrow> (case reason_codes of [] \<Rightarrow> ''review_required'' | c # _ \<Rightarrow> c))"

type_synonym action_group_key = "decision_action \<times> data_modality \<times> string"

definition add_to_group ::
    "(action_group_key, 'f object_context list) dict \<Rightarrow> 'f object_context \<Rightarrow> (action_group_key, 'f object_context list) dict" where
  "add_to_group grouped c =
     (case recommended_action_for_context c of
        None \<Rightarrow> grouped
      | Some action \<Rightarrow>
          (let key = (action, ol_modality (oc_decision c), primary_reason (ol_reasons (oc_decision c))) in
           dict_set grouped key ((case dict_get grouped key of None \<Rightarrow> [] | Some members \<Rightarrow> members) @ [c])))"

definition group_for :: "action_group_key \<times> 'f object_context list \<Rightarrow> 'f recommendation_group" where
  "group_for km =
     (case km of ((action, modality, reason), members) \<Rightarrow>
       \<lparr>gp_action = action, gp_modality = modality, gp_primary_reason = reason,
        gp_object_ids = map (\<lambda>m. ol_object_id (oc_decision m)) members,
        gp_reason_codes = fromkeys (filter (\<lambda>c. c \<noteq> ''export_ready'')
          (concat (map (\<lambda>m. ol_reasons (oc_decision m)) members)))\<rparr>)"

definition recommendation_groups :: "'f object_context list \<Rightarrow> 'f recommendation_group list" where
  "recommendation_groups contexts = map group_for (foldl add_to_group [] contexts)"

definition recommendation_reason :: "string \<Rightarrow> string" where
  "recommendation_reason reason =
     (if reason = ''probable_label_error'' then ''Probable label errors require label review before training or export.''
      else if reason = ''ambiguous_object'' then ''Ambiguous prediction evidence requires label review.''
      else if reason \<in> {''text_pii_detected'', ''pii_unmasked''}
      then ''Privacy evidence requires review or redaction before export.''
      else if reason = ''exact_duplicate'' then ''Exact duplicate evidence supports duplicate removal.''
      else if reason = ''rare_class_underrepresented''
      then ''Underrepresented class evidence supports rare-class augmentation.''
      else if reason = ''missing_numeric'' then ''Missing numeric evidence supports imputation review.''
      else ''Decision Core evidence requires review.'')"

definition action_slug :: "string \<Rightarrow> string" where
  "action_slug s = map (\<lambda>c. if c = CHR ''_'' then CHR ''-'' else c) (lower s)"

definition recommended_action_of :: "nat \<times> 'f recommendation_group \<Rightarrow> exn + recommended_action" where
  "recommended_action_of ig =
     (case ig of (index, g) \<Rightarrow>
      validated recommended_action_valid
        \<lparr>rc_recommendation_id = ''rec_'' @ action_slug (action_value (gp_action g)) @ ''_'' @ gp_primary_reason g @ ''_''
           @ str_of_nat index,
         rc_action = gp_action g, rc_modality = gp_modality g, rc_count = int (length (gp_object_ids g)),
         rc_reason_codes = (if gp_reason_codes g = [] then [gp_primary_reason g] else gp_reason_codes g),
         rc_reason = recommendation_reason (gp_primary_reason g), rc_segment = Some (''reason='' @ gp_primary_reason g),
         rc_method_recommendation_id = None, rc_requires_approval = (gp_action g = GENERATE_SYNTHETIC_CANDIDATE)\<rparr>)"

definition recommended_actions :: "'f recommendation_group list \<Rightarrow> exn + recommended_action list" where
  "recommended_actions groups = mapR recommended_action_of (enumerate 1 groups)"

section \<open>The report\<close>

definition readiness :: "'f float_ops \<Rightarrow> critical_blocker list \<Rightarrow> recommended_action list \<Rightarrow> exn + 'f readiness_assessment" where
  "readiness fl blockers actions =
     (let codes = fromkeys (map (\<lambda>b. lower (cb_code b)) blockers @ concat (map rc_reason_codes actions)) in
      validated (readiness_valid fl)
        (if blockers \<noteq> [] then \<lparr>ra_status = DR_BLOCKED, ra_score = fl_const fl 0, ra_reason_codes = codes\<rparr>
         else if actions \<noteq> [] then \<lparr>ra_status = NOT_READY_FOR_EXPORT, ra_score = fl_const fl (75 / 100), ra_reason_codes = codes\<rparr>
         else \<lparr>ra_status = READY_FOR_EXPORT, ra_score = fl_const fl 1, ra_reason_codes = []\<rparr>))"

definition dataset_decision_of :: "critical_blocker list \<Rightarrow> recommended_action list \<Rightarrow> dataset_decision" where
  "dataset_decision_of blockers actions =
     (if blockers \<noteq> [] then DD_BLOCKED else if actions \<noteq> [] then NEEDS_REVIEW else READY_FOR_TRAINING)"

definition recommended_next_job :: "critical_blocker list \<Rightarrow> recommended_action list \<Rightarrow> workflow_type option" where
  "recommended_next_job blockers actions =
     (if actions \<noteq> [] then Some PREVIEW_ACTION_PLAN else if blockers \<noteq> [] then None else Some EXPORT)"

text \<open>The digest is fed the encoded ids one after the other, which is the encoding of their concatenation.\<close>

definition decision_report_id :: "(string \<Rightarrow> string) \<Rightarrow> report_request \<Rightarrow> 'f evidence_bundle list \<Rightarrow> string" where
  "decision_report_id sha request bundles =
     ''decision_report_'' @ take 16 (sha (rq_dataset_id request @ rq_version_id request
       @ concat (map (\<lambda>e. eb_evidence_bundle_id e @ eb_object_id e) bundles)))"

definition build_decision_report ::
    "(string \<Rightarrow> string) \<Rightarrow> datetime \<Rightarrow> 'f float_ops \<Rightarrow> 'f evidence_bundle list \<Rightarrow> report_request
     \<Rightarrow> 'f decision_policy option \<Rightarrow> policy_inputs option \<Rightarrow> exn + 'f decision_report" where
  "build_decision_report sha now fl evidence_bundles request policy inputs =
     bindR (case policy of Some p \<Rightarrow> Inr p | None \<Rightarrow> load_decision_policy_v0 sha fl) (\<lambda>active_policy.
     let policy_inputs = (case inputs of Some i \<Rightarrow> i | None \<Rightarrow> empty_policy_inputs) in
     bindR (mapR (object_context_of fl active_policy policy_inputs) evidence_bundles) (\<lambda>contexts.
     bindR (critical_blockers (evaluate_hard_gates active_policy policy_inputs) contexts) (\<lambda>blockers.
     bindR (recommended_actions (recommendation_groups contexts)) (\<lambda>actions.
     bindR (readiness fl blockers actions) (\<lambda>assessment.
     validated (decision_report_valid fl)
       \<lparr>dr_decision_report_id = (case rq_decision_report_id request of
            Some i \<Rightarrow> if i = [] then decision_report_id sha request evidence_bundles else i
          | None \<Rightarrow> decision_report_id sha request evidence_bundles),
        dr_dataset_id = rq_dataset_id request, dr_version_id = rq_version_id request,
        dr_decision_schema_version = DECISION_REPORT_SCHEMA_VERSION,
        dr_dataset_decision = dataset_decision_of blockers actions, dr_readiness = assessment,
        dr_critical_blockers = blockers, dr_safe_actions_available = list_ex (\<lambda>a. \<not> rc_requires_approval a) actions,
        dr_recommended_next_job = recommended_next_job blockers actions,
        dr_object_decisions = map oc_decision contexts, dr_recommended_actions = actions,
        dr_policy_versions = \<lparr>pv_decision_policy = dp_policy_version active_policy,
          pv_score_policy = ov_policy_version (dp_object_value_policy active_policy),
          pv_privacy_policy = PRIVACY_POLICY_VERSION, pv_method_policy = METHOD_POLICY_VERSION\<rparr>,
        dr_generated_at = (case rq_generated_at request of Some t \<Rightarrow> t | None \<Rightarrow> now)\<rparr>)))))"

section \<open>Groups are the classes of their key\<close>

definition context_key :: "'f object_context \<Rightarrow> action_group_key option" where
  "context_key c =
     map_option (\<lambda>a. (a, ol_modality (oc_decision c), primary_reason (ol_reasons (oc_decision c)))) (recommended_action_for_context c)"

lemma add_to_group_key:
  "add_to_group grouped c =
     (case context_key c of None \<Rightarrow> grouped
      | Some k \<Rightarrow> dict_set grouped k ((case dict_get grouped k of None \<Rightarrow> [] | Some ms \<Rightarrow> ms) @ [c]))"
  by (simp add: add_to_group_def context_key_def Let_def split: option.split)

lemma in_map_filter: "y \<in> set (List.map_filter f xs) \<longleftrightarrow> (\<exists>x \<in> set xs. f x = Some y)"
  by (induction xs) (auto split: option.split simp: List.map_filter_def)

lemma map_filter_Nil: "List.map_filter f xs = [] \<longleftrightarrow> list_all (\<lambda>x. f x = None) xs"
  by (induction xs) (auto split: option.split simp: List.map_filter_def)

lemma groups_by_key:
  "foldl add_to_group [] cs =
     map (\<lambda>k. (k, filter (\<lambda>c. context_key c = Some k) cs)) (fromkeys (List.map_filter context_key cs))"
proof (induction cs rule: rev_induct)
  case Nil
  show ?case by (simp add: fromkeys.dd_Nil List.map_filter_def)
next
  case (snoc c cs)
  have mf: "List.map_filter context_key (cs @ [c]) =
      List.map_filter context_key cs @ (case context_key c of None \<Rightarrow> [] | Some k \<Rightarrow> [k])"
    by (simp add: List.map_filter_def split: option.split)
  show ?case
  proof (cases "context_key c")
    case None
    then show ?thesis by (simp add: snoc mf add_to_group_key [of _ c])
  next
    case (Some k)
    have absent: "k \<notin> set (List.map_filter context_key cs) \<Longrightarrow> filter (\<lambda>c. context_key c = Some k) cs = []"
      by (auto simp: in_map_filter filter_empty_conv)
    show ?thesis
      using Some absent by (auto simp: snoc mf add_to_group_key [of _ c] dict_set_table dict_get_table fromkeys.dd_snoc)
  qed
qed

section \<open>Blockers\<close>

definition blockers_ok :: "(string, critical_blocker) dict \<Rightarrow> bool" where
  "blockers_ok d \<longleftrightarrow> (\<forall>k b. (k, b) \<in> set d \<longrightarrow> critical_blocker_valid b \<and> cb_code b = map upper_char k)"

lemma set_dict_set: "set (dict_set d k v) \<subseteq> insert (k, v) (set d)"
  unfolding dict_set_def by (induction d) auto

lemma blockers_ok_set: "blockers_ok d \<Longrightarrow> critical_blocker_valid b \<Longrightarrow> cb_code b = map upper_char k \<Longrightarrow> blockers_ok (dict_set d k b)"
  using set_dict_set [of d k b] by (auto simp: blockers_ok_def)

lemma descriptions_ne: "list_all (\<lambda>d. rd_description d \<noteq> []) reason_code_definitions"
  by code_simp

lemma code_known:
  assumes "is_ok (require_code load_reason_code_registry c)"
  obtains d where "require_code load_reason_code_registry c = Inr d" "rd_description d \<noteq> []"
proof -
  obtain d where d: "require_code load_reason_code_registry c = Inr d"
    using assms by (auto simp: is_ok_iff)
  then have "map_of (map (\<lambda>d. (rd_code d, d)) reason_code_definitions) c = Some d"
    by (simp add: require_code_def split: option.splits)
  then have "d \<in> set reason_code_definitions" by (auto dest: map_of_SomeD)
  then show thesis using that d descriptions_ne by (simp add: list_all_iff)
qed

definition refs_ok :: "evidence_ref list \<Rightarrow> bool" where
  "refs_ok refs \<longleftrightarrow> list_all (\<lambda>r. non_empty (ef_kind r) \<and> s3_uri (ef_uri r)) refs"

definition gate_ok :: "gate_evaluation \<Rightarrow> bool" where
  "gate_ok g \<longleftrightarrow> is_ok (require_code load_reason_code_registry (ge_reason_code g)) \<and> ge_reason_code g \<noteq> []"

lemma blocker_returned:
  assumes "gate_ok g" "refs_ok refs"
  shows "\<exists>b. blocker_for g refs = Inr b \<and> critical_blocker_valid b \<and> cb_code b = map upper_char (ge_reason_code g)"
proof -
  obtain d where d: "require_code load_reason_code_registry (ge_reason_code g) = Inr d" "rd_description d \<noteq> []"
    using assms(1) code_known by (auto simp: gate_ok_def)
  then have "critical_blocker_valid \<lparr>cb_code = map upper_char (ge_reason_code g), cb_severity = ''critical'',
      cb_message = rd_description d, cb_evidence_refs = refs\<rparr>"
    using assms by (simp add: critical_blocker_valid_def gate_ok_def refs_ok_def non_empty_def)
  then show ?thesis by (auto simp: blocker_for_def d(1) result_simps)
qed

lemma take_refs_ok: "refs_ok refs \<Longrightarrow> refs_ok (take n refs)"
  by (auto simp: refs_ok_def list_all_iff dest: in_set_takeD)

lemma joined_refs_valid:
  "critical_blocker_valid b \<Longrightarrow> refs_ok refs \<Longrightarrow> critical_blocker_valid (b\<lparr>cb_evidence_refs := fromkeys (cb_evidence_refs b @ refs)\<rparr>)"
  by (auto simp: critical_blocker_valid_def refs_ok_def list_all_iff)

lemma add_dataset_gate_ok:
  assumes "blockers_ok d" "gate_ok g"
  shows "\<exists>d'. add_dataset_gate d g = Inr d' \<and> blockers_ok d'"
  using assms blocker_returned [OF assms(2), of "[]"] by (auto simp: add_dataset_gate_def refs_ok_def intro: blockers_ok_set)

lemma add_object_gate_ok:
  assumes "blockers_ok d" "gate_ok g" "refs_ok refs"
  shows "\<exists>d'. add_object_gate refs d g = Inr d' \<and> blockers_ok d'"
proof -
  obtain b where b: "blocker_for g (take 3 refs) = Inr b" "critical_blocker_valid b" "cb_code b = map upper_char (ge_reason_code g)"
    using blocker_returned [OF assms(2) take_refs_ok [OF assms(3)]] by blast
  have known: "is_ok (require_code load_reason_code_registry (ge_reason_code g))" using assms(2) by (simp add: gate_ok_def)
  show ?thesis
  proof (cases "dict_get d (ge_reason_code g)")
    case None
    then show ?thesis using b known assms(1) by (auto simp: add_object_gate_def is_ok_iff Let_def intro: blockers_ok_set)
  next
    case (Some x)
    then have "critical_blocker_valid x \<and> cb_code x = map upper_char (ge_reason_code g)"
      using assms(1) dict_get_Some_in [OF Some] by (auto simp: blockers_ok_def)
    then show ?thesis using Some known assms(1) joined_refs_valid [OF _ take_refs_ok [OF assms(3)], of x 3]
      by (auto simp: add_object_gate_def is_ok_iff Let_def intro!: blockers_ok_set)
  qed
qed

text \<open>The codes of the blockers, in the order in which the gates first trigger.\<close>

definition triggered_codes :: "gate_evaluation list \<Rightarrow> string list" where
  "triggered_codes gates = map ge_reason_code (filter ge_triggered gates)"

definition keyed_by :: "('k, 'v) dict \<Rightarrow> 'k list \<Rightarrow> bool" where
  "keyed_by d ks \<longleftrightarrow> dict_keys d = fromkeys ks"

lemma keyed_by_set: "keyed_by d ks \<Longrightarrow> keyed_by (dict_set d k v) (ks @ [k])"
  by (simp add: keyed_by_def dict_keys_set fromkeys.dd_snoc)

lemma keyed_by_present: "keyed_by d ks \<Longrightarrow> dict_get d k = Some v \<Longrightarrow> keyed_by d (ks @ [k])"
  using dict_get_None_iff [of d k] by (simp add: keyed_by_def fromkeys.dd_snoc)

lemma dataset_gates_keys:
  "foldR add_dataset_gate d gates = Inr d' \<Longrightarrow> keyed_by d ks \<Longrightarrow> keyed_by d' (ks @ triggered_codes gates)"
proof (induction gates arbitrary: d ks)
  case (Cons g gates)
  obtain t where t: "add_dataset_gate d g = Inr t" "foldR add_dataset_gate t gates = Inr d'"
    using Cons.prems(1) by (auto simp: result_simps)
  have "keyed_by t (ks @ triggered_codes [g])"
    using t(1) Cons.prems(2)
    by (auto simp: add_dataset_gate_def triggered_codes_def result_simps intro: keyed_by_set keyed_by_present split: if_splits)
  from Cons.IH [OF t(2) this] show ?case by (simp add: triggered_codes_def split: if_splits)
qed (simp add: triggered_codes_def)

lemma object_gates_keys:
  "foldR (add_object_gate refs) d gates = Inr d' \<Longrightarrow> keyed_by d ks \<Longrightarrow> keyed_by d' (ks @ triggered_codes gates)"
proof (induction gates arbitrary: d ks)
  case (Cons g gates)
  obtain t where t: "add_object_gate refs d g = Inr t" "foldR (add_object_gate refs) t gates = Inr d'"
    using Cons.prems(1) by (auto simp: result_simps)
  have "keyed_by t (ks @ triggered_codes [g])"
    using t(1) Cons.prems(2)
    by (auto simp: add_object_gate_def triggered_codes_def Let_def result_simps intro: keyed_by_set split: if_splits option.splits)
  from Cons.IH [OF t(2) this] show ?case by (simp add: triggered_codes_def split: if_splits)
qed (simp add: triggered_codes_def)

definition add_context_gates :: "(string, critical_blocker) dict \<Rightarrow> 'f object_context \<Rightarrow> exn + (string, critical_blocker) dict" where
  "add_context_gates bs c = foldR (add_object_gate (eb_evidence_refs (oc_evidence c))) bs (od_hard_gates (oc_evaluation c))"

lemma contexts_keys:
  "foldR add_context_gates d cs = Inr d' \<Longrightarrow> keyed_by d ks
     \<Longrightarrow> keyed_by d' (ks @ concat (map (\<lambda>c. triggered_codes (od_hard_gates (oc_evaluation c))) cs))"
proof (induction cs arbitrary: d ks)
  case (Cons c cs)
  obtain t where t: "add_context_gates d c = Inr t" "foldR add_context_gates t cs = Inr d'"
    using Cons.prems(1) by (auto simp: result_simps)
  from Cons.IH [OF t(2) object_gates_keys [OF t(1) [unfolded add_context_gates_def] Cons.prems(2)]] show ?case by simp
qed simp

definition context_ok :: "'f object_context \<Rightarrow> bool" where
  "context_ok c \<longleftrightarrow> refs_ok (eb_evidence_refs (oc_evidence c)) \<and> list_all gate_ok (od_hard_gates (oc_evaluation c))"

lemma blockers_returned:
  assumes "list_all gate_ok gates" "list_all context_ok cs"
  shows "\<exists>bs. critical_blockers gates cs = Inr bs \<and> list_all critical_blocker_valid bs
    \<and> map cb_code bs = map (map upper_char) (fromkeys (triggered_codes gates
        @ concat (map (\<lambda>c. triggered_codes (od_hard_gates (oc_evaluation c))) cs)))"
proof -
  obtain d where d: "foldR add_dataset_gate [] gates = Inr d" "blockers_ok d"
    using foldR_returns [of blockers_ok "[]" gates add_dataset_gate] add_dataset_gate_ok assms(1)
    by (auto simp: blockers_ok_def list_all_iff)
  have step: "\<exists>t. add_context_gates s c = Inr t \<and> blockers_ok t" if "c \<in> set cs" "blockers_ok s" for c s
    using that assms(2) unfolding add_context_gates_def
    by (intro foldR_returns) (auto simp: context_ok_def list_all_iff intro: add_object_gate_ok)
  obtain d' where d': "foldR add_context_gates d cs = Inr d'" "blockers_ok d'"
    using foldR_returns [of blockers_ok d cs add_context_gates] d(2) step by blast
  have "keyed_by d' (triggered_codes gates @ concat (map (\<lambda>c. triggered_codes (od_hard_gates (oc_evaluation c))) cs))"
    using contexts_keys [OF d'(1) dataset_gates_keys [OF d(1), of "[]", simplified]]
    by (simp add: keyed_by_def fromkeys.dd_Nil dict_keys_def)
  moreover have "map cb_code (map snd d') = map (map upper_char) (dict_keys d')" "list_all critical_blocker_valid (map snd d')"
    using d'(2) by (auto simp: dict_keys_def blockers_ok_def list_all_iff)
  ultimately show ?thesis using d(1) d'(1) [unfolded add_context_gates_def] by (auto simp: critical_blockers_def keyed_by_def)
qed

section \<open>Objects and actions\<close>

text \<open>An enabled rule matches that asks for more than a report.\<close>

definition needs_review :: "'f float_ops \<Rightarrow> 'f decision_policy \<Rightarrow> 'f evidence_bundle \<Rightarrow> bool" where
  "needs_review fl p e \<longleftrightarrow>
     list_ex (\<lambda>r. rl_enabled r \<and> rule_matches fl r e
       \<and> (rl_reason_code r \<in> {''probable_label_error'', ''ambiguous_object''}
          \<or> rl_action r \<notin> {RA_REPORT_AND_REVIEW, RA_SEND_TO_LABEL_REVIEW})) (dp_recommendation_rules p)"

definition evidence_ok :: "'f evidence_bundle \<Rightarrow> bool" where
  "evidence_ok e \<longleftrightarrow> non_empty (eb_object_id e) \<and> refs_ok (eb_evidence_refs e)"

lemma recommendation_code_in:
  "''probable_label_error'' \<in> set (recommendation_codes c) \<longleftrightarrow> c = ''probable_label_error''"
  "''ambiguous_object'' \<in> set (recommendation_codes c) \<longleftrightarrow> c = ''ambiguous_object''"
  by (auto simp: recommendation_codes_def)

lemma action_keep_iff:
  "object_action d (recommend_from_evidence fl p e) = KEEP \<longleftrightarrow> \<not> od_hard_blocked d \<and> \<not> needs_review fl p e"
proof -
  let ?rs = "filter (\<lambda>r. rl_enabled r \<and> rule_matches fl r e) (dp_recommendation_rules p)"
  let ?recs = "recommend_from_evidence fl p e"
  have codes: "c \<in> set (concat (map er_reason_codes ?recs)) \<longleftrightarrow> (\<exists>r \<in> set ?rs. c \<in> set (recommendation_codes (rl_reason_code r)))" for c
    by (auto simp: recommend_from_evidence_def)
  have types: "t \<in> set (map er_action ?recs) \<longleftrightarrow> (\<exists>r \<in> set ?rs. rl_action r = t)" for t
    by (auto simp: recommend_from_evidence_def)
  have keep: "object_action d ?recs = KEEP \<longleftrightarrow> \<not> od_hard_blocked d
      \<and> ''probable_label_error'' \<notin> set (concat (map er_reason_codes ?recs))
      \<and> ''ambiguous_object'' \<notin> set (concat (map er_reason_codes ?recs))
      \<and> RA_SEND_TO_PRIVACY_REVIEW \<notin> set (map er_action ?recs) \<and> RA_SEND_TO_DUPLICATE_REVIEW \<notin> set (map er_action ?recs)
      \<and> RA_RECOMMEND_IMPUTATION_REVIEW \<notin> set (map er_action ?recs) \<and> RA_RECOMMEND_RARE_CLASS_AUGMENTATION \<notin> set (map er_action ?recs)"
    unfolding object_action_def Let_def by (simp split del: if_split) (auto split: if_splits)
  have other: "a \<notin> {RA_REPORT_AND_REVIEW, RA_SEND_TO_LABEL_REVIEW} \<longleftrightarrow> a \<in> {RA_SEND_TO_PRIVACY_REVIEW, RA_SEND_TO_DUPLICATE_REVIEW,
      RA_RECOMMEND_IMPUTATION_REVIEW, RA_RECOMMEND_RARE_CLASS_AUGMENTATION}" for a
    by (cases a) simp_all
  show ?thesis
    unfolding keep codes types recommendation_code_in needs_review_def other by (auto simp: list_ex_iff)
qed

lemma action_blocked_iff: "object_action d rs = BLOCK_EXPORT \<longleftrightarrow> od_hard_blocked d"
  by (simp add: object_action_def Let_def)

lemma action_not_ready: "object_action d rs \<noteq> EXPORT_READY" "object_action d rs \<noteq> GENERATE_SYNTHETIC_CANDIDATE"
  by (simp_all add: object_action_def Let_def)

lemma object_codes_ne:
  assumes "decision_policy_valid fl p" "compute_object_value_score fl p e (object_hard_gates fl p e i) = Inr s"
    and "list_all non_empty (od_reason_codes d)" "od_object_value_score d = s"
  shows "list_all non_empty (object_reason_codes d (recommend_from_evidence fl p e))"
proof -
  have "list_all non_empty (os_reason_codes s)"
    using assms(2) by (auto simp: compute_object_value_score_def Let_def result_simps object_value_score_valid_def)
  moreover have "list_all non_empty (concat (map er_reason_codes (recommend_from_evidence fl p e)))"
    using assms(1)
    by (auto simp: recommend_from_evidence_def recommendation_codes_def decision_policy_valid_def list_all_iff non_empty_def split: if_splits)
  ultimately show ?thesis using assms(3,4) by (auto simp: object_reason_codes_def Let_def list_all_iff non_empty_def)
qed

lemma object_gates_ok: "decision_policy_valid fl p \<Longrightarrow> list_all gate_ok (object_hard_gates fl p e i)"
  by (auto simp: object_gates_eq decision_policy_valid_def list_all_iff gate_ok_def references_ok_iff non_empty_def)

lemma dataset_gates_ok: "decision_policy_valid fl p \<Longrightarrow> list_all gate_ok (evaluate_hard_gates p i)"
  by (auto simp: evaluate_hard_gates_def decision_policy_valid_def list_all_iff gate_ok_def references_ok_iff non_empty_def)

lemma object_decision_returned:
  assumes "unit_order fl" "decision_policy_valid fl p" "non_empty (eb_object_id e)"
  shows "\<exists>d. evaluate_object_decision fl p e (Some i) = Inr d \<and> fl_score_ok fl (os_value (od_object_value_score d))"
  using score_returned [OF assms object_gates_ne [OF assms(2), of e i]]
  by (auto simp: evaluate_object_decision_def Let_def)

text \<open>What the context of an object holds.\<close>

definition context_for :: "'f float_ops \<Rightarrow> 'f decision_policy \<Rightarrow> policy_inputs \<Rightarrow> 'f evidence_bundle \<Rightarrow> 'f object_context \<Rightarrow> bool" where
  "context_for fl p i e c \<longleftrightarrow>
     context_ok c \<and> object_level_decision_valid fl (oc_decision c) \<and> ol_object_id (oc_decision c) = eb_object_id e
     \<and> triggered_codes (od_hard_gates (oc_evaluation c)) = map hg_reason_code (filter (rule_fires fl p e i) (dp_hard_gates p))
     \<and> (ol_action (oc_decision c) = BLOCK_EXPORT \<longleftrightarrow> list_ex (rule_fires fl p e i) (dp_hard_gates p))
     \<and> (ol_action (oc_decision c) = KEEP \<longleftrightarrow> \<not> list_ex (rule_fires fl p e i) (dp_hard_gates p) \<and> \<not> needs_review fl p e)
     \<and> ol_action (oc_decision c) \<notin> {EXPORT_READY, GENERATE_SYNTHETIC_CANDIDATE}"

lemma context_returned:
  assumes "unit_order fl" "decision_policy_valid fl p" "evidence_ok e"
  shows "\<exists>c. object_context_of fl p i e = Inr c \<and> context_for fl p i e c"
proof -
  have id: "non_empty (eb_object_id e)" and refs: "refs_ok (eb_evidence_refs e)" using assms(3) by (simp_all add: evidence_ok_def)
  obtain d where d: "evaluate_object_decision fl p e (Some i) = Inr d" "fl_score_ok fl (os_value (od_object_value_score d))"
    using object_decision_returned [OF assms(1,2) id] by blast
  note f = decision_fields [OF d(1)]
  have codes: "list_all non_empty (od_reason_codes d)"
    using assms(2) by (auto simp: f(3) decision_policy_valid_def list_all_iff)
  let ?recs = "recommend_from_evidence fl p e"
  have gates: "od_hard_gates d = object_hard_gates fl p e i"
    using d(1) by (auto simp: evaluate_object_decision_def Let_def result_simps)
  have score_codes: "list_all non_empty (os_reason_codes (od_object_value_score d))"
    using f(4) by (auto simp: compute_object_value_score_def Let_def result_simps object_value_score_valid_def)
  let ?x = "\<lparr>ol_object_id = eb_object_id e, ol_modality = eb_modality e, ol_action = object_action d ?recs,
        ol_reasons = object_reason_codes d ?recs, ol_blocked_actions = blocked_actions d,
        ol_object_value_score = os_value (od_object_value_score d)\<rparr>"
  have valid: "object_level_decision_valid fl ?x"
    using id d(2) codes score_codes object_codes_ne [OF assms(2) f(4) codes refl]
    by (simp add: object_level_decision_valid_def blocked_actions_def non_empty_def)
  have trig: "triggered_codes (object_hard_gates fl p e i) = map hg_reason_code (filter (rule_fires fl p e i) (dp_hard_gates p))"
    by (simp add: triggered_codes_def triggered_gates comp_def)
  let ?c = "\<lparr>oc_evidence = e, oc_evaluation = d, oc_recommendations = ?recs, oc_decision = ?x\<rparr>"
  have "object_context_of fl p i e = Inr ?c"
    using d(1) valid by (simp add: object_context_of_def Let_def validated_Inr_iff)
  moreover have "context_for fl p i e ?c"
    using valid refs object_gates_ok [OF assms(2)] trig f(1) action_not_ready [of d ?recs]
    by (simp add: context_for_def context_ok_def gates action_blocked_iff action_keep_iff)
  ultimately show ?thesis by blast
qed

lemma contexts_returned:
  assumes "unit_order fl" "decision_policy_valid fl p" "list_all evidence_ok es"
  shows "\<exists>cs. mapR (object_context_of fl p i) es = Inr cs \<and> list_all2 (context_for fl p i) es cs"
  using assms(3)
proof (induction es)
  case (Cons e es)
  then obtain c cs where "object_context_of fl p i e = Inr c" "context_for fl p i e c"
    "mapR (object_context_of fl p i) es = Inr cs" "list_all2 (context_for fl p i) es cs"
    using context_returned [OF assms(1,2), of e i] by auto
  then show ?case by simp
qed simp

lemma primary_reason_ne: "list_all non_empty codes \<Longrightarrow> primary_reason codes \<noteq> []"
proof -
  have "list_all non_empty PRIMARY_REASONS" by code_simp
  then show "list_all non_empty codes \<Longrightarrow> primary_reason codes \<noteq> []"
    by (auto simp: primary_reason_def list_all_iff non_empty_def find_Some_iff split: option.split list.split)
qed

lemma recommendation_reason_ne: "recommendation_reason r \<noteq> []"
  by (simp add: recommendation_reason_def)

lemma group_valid:
  assumes "list_all (\<lambda>c. object_level_decision_valid fl (oc_decision c)) cs" "(k, members) \<in> set (foldl add_to_group [] cs)"
  shows "is_ok (recommended_action_of (n, group_for (k, members)))"
proof -
  obtain c where c: "c \<in> set cs" "context_key c = Some k" and m: "set members \<subseteq> set cs"
    using assms(2) by (auto simp: groups_by_key in_map_filter)
  obtain a q r where k: "k = (a, q, r)" by (metis prod_cases3)
  have ne: "list_all non_empty (ol_reasons (oc_decision c'))" if "c' \<in> set cs" for c'
    using assms(1) that by (auto simp: list_all_iff object_level_decision_valid_def)
  have "r \<noteq> []" using c k primary_reason_ne [OF ne [OF c(1)]] by (auto simp: context_key_def)
  moreover have "list_all non_empty (gp_reason_codes (group_for (k, members)))"
    using m ne by (fastforce simp: group_for_def k list_all_iff)
  ultimately show ?thesis
    by (simp add: recommended_action_of_def group_for_def k is_ok_iff validated_Inr_iff recommended_action_valid_def
        recommendation_reason_ne non_empty_def)
qed

lemma actions_returned:
  assumes "list_all (\<lambda>c. object_level_decision_valid fl (oc_decision c)) cs"
  shows "\<exists>as. recommended_actions (recommendation_groups cs) = Inr as \<and> list_all recommended_action_valid as
    \<and> length as = length (foldl add_to_group [] cs)"
proof -
  have "is_ok (recommended_action_of ig)" if "ig \<in> set (enumerate 1 (recommendation_groups cs))" for ig :: "nat \<times> 'a recommendation_group"
  proof -
    obtain n g where ig: "ig = (n, g)" by (cases ig)
    then have "g \<in> set (recommendation_groups cs)" using that by (auto simp: enumerate_eq_zip dest: set_zip_rightD)
    then show ?thesis using group_valid [OF assms] unfolding ig recommendation_groups_def by auto
  qed
  then have "is_ok (recommended_actions (recommendation_groups cs))"
    by (simp add: recommended_actions_def mapR_is_ok list_all_iff)
  then obtain as where as: "recommended_actions (recommendation_groups cs) = Inr as" by (auto simp: is_ok_iff)
  have "recommended_action_valid a" if a: "a \<in> set as" for a
  proof -
    obtain n g where "recommended_action_of (n, g) = Inr a"
      using mapR_Inr_in_set [OF as [unfolded recommended_actions_def] a] by auto
    then show ?thesis by (auto simp: recommended_action_of_def validated_Inr_iff)
  qed
  then have "list_all recommended_action_valid as" by (simp add: list_all_iff)
  moreover have "length as = length (foldl add_to_group [] cs)"
    using mapR_length [OF as [unfolded recommended_actions_def]] by (simp add: recommendation_groups_def)
  ultimately show ?thesis using as by blast
qed

lemma safe_actions:
  assumes "recommended_actions (recommendation_groups cs) = Inr as"
    and "list_all (\<lambda>c. ol_action (oc_decision c) \<noteq> GENERATE_SYNTHETIC_CANDIDATE) cs"
  shows "list_all (\<lambda>a. \<not> rc_requires_approval a) as"
proof -
  have "\<not> rc_requires_approval a" if a: "a \<in> set as" for a
  proof -
    obtain n g where ng: "(n, g) \<in> set (enumerate 1 (recommendation_groups cs))" and g: "recommended_action_of (n, g) = Inr a"
      using mapR_Inr_in_set [OF assms(1) [unfolded recommended_actions_def] a] by auto
    have "g \<in> set (recommendation_groups cs)" using ng by (auto simp: enumerate_eq_zip dest: set_zip_rightD)
    then obtain c k where c: "c \<in> set cs" "context_key c = Some k" "gp_action g = fst k"
      by (auto simp: recommendation_groups_def groups_by_key in_map_filter group_for_def split: prod.splits)
    have "gp_action g \<noteq> GENERATE_SYNTHETIC_CANDIDATE"
      using c assms(2) by (auto simp: context_key_def recommended_action_for_context_def Let_def list_all_iff split: if_splits)
    then show ?thesis using g by (auto simp: recommended_action_of_def validated_Inr_iff)
  qed
  then show ?thesis by (simp add: list_all_iff)
qed

lemma readiness_returned:
  assumes "unit_order fl" "list_all critical_blocker_valid bs" "list_all recommended_action_valid as"
  shows "\<exists>a. readiness fl bs as = Inr a \<and> readiness_valid fl a
    \<and> ra_status a = (if bs \<noteq> [] then DR_BLOCKED else if as \<noteq> [] then NOT_READY_FOR_EXPORT else READY_FOR_EXPORT)"
proof -
  have unit: "fl_score_ok fl (fl_const fl q)" if "0 \<le> q" "q \<le> 1" for q
    using assms(1) that by (simp add: unit_order_def)
  have "list_all non_empty (fromkeys (map (\<lambda>b. lower (cb_code b)) bs @ concat (map rc_reason_codes as)))"
    using assms(2,3) by (auto simp: list_all_iff critical_blocker_valid_def recommended_action_valid_def non_empty_def lower_def)
  then show ?thesis using unit
    by (auto simp: readiness_def Let_def result_simps readiness_valid_def)
qed

section \<open>The verdict\<close>

definition dataset_gate_fires :: "'f decision_policy \<Rightarrow> policy_inputs \<Rightarrow> bool" where
  "dataset_gate_fires p i \<longleftrightarrow> list_ex (\<lambda>g. hg_enabled g \<and> gate_triggered (hg_gate_id g) i) (dp_hard_gates p)"

definition blocked_codes :: "'f float_ops \<Rightarrow> 'f decision_policy \<Rightarrow> policy_inputs \<Rightarrow> 'f evidence_bundle list \<Rightarrow> string list" where
  "blocked_codes fl p i es =
     fromkeys (map hg_reason_code (filter (\<lambda>g. hg_enabled g \<and> gate_triggered (hg_gate_id g) i) (dp_hard_gates p))
       @ concat (map (\<lambda>e. map hg_reason_code (filter (rule_fires fl p e i) (dp_hard_gates p))) es))"

lemma blocked_codes_Nil:
  "blocked_codes fl p i es = [] \<longleftrightarrow>
     \<not> dataset_gate_fires p i \<and> list_all (\<lambda>e. \<not> list_ex (rule_fires fl p e i) (dp_hard_gates p)) es"
  by (auto simp: blocked_codes_def fromkeys.dd_eq_Nil_iff dataset_gate_fires_def list_ex_iff list_all_iff filter_empty_conv)

lemma no_actions_iff:
  assumes "list_all2 (context_for fl p i) es cs" "list_all (\<lambda>e. \<not> list_ex (rule_fires fl p e i) (dp_hard_gates p)) es"
  shows "foldl add_to_group [] cs = [] \<longleftrightarrow> list_all (\<lambda>e. \<not> needs_review fl p e) es"
proof -
  have key: "context_key c = None \<longleftrightarrow> ol_action (oc_decision c) = KEEP" if c: "c \<in> set cs" for c
  proof -
    obtain e where "e \<in> set es" "context_for fl p i e c"
      using list_all2_in_set [OF assms(1) c] by blast
    then show ?thesis using assms(2)
      by (auto simp: context_for_def context_key_def recommended_action_for_context_def Let_def list_all_iff)
  qed
  have "foldl add_to_group [] cs = [] \<longleftrightarrow> list_all (\<lambda>c. context_key c = None) cs"
    by (simp add: groups_by_key fromkeys.dd_eq_Nil_iff map_filter_Nil)
  also have "\<dots> \<longleftrightarrow> list_all (\<lambda>c. ol_action (oc_decision c) = KEEP) cs"
    using key by (simp add: list_all_iff)
  also have "\<dots> \<longleftrightarrow> list_all (\<lambda>e. \<not> needs_review fl p e) es"
    using assms by (induction rule: list_all2_induct) (auto simp: context_for_def)
  finally show ?thesis .
qed

text \<open>From a valid policy and well-formed evidence a report is always built. It has one decision per object in the
  order of the evidence and one blocker per reason code that an enabled gate raises for the dataset or for one of the objects, in the
  order they were first raised. It is BLOCKED exactly when there is one; otherwise it asks for review exactly when a
  rule that wants more than a report matches an object, and is READY_FOR_TRAINING when none does. The readiness
  says the same and export is proposed as the next job in the last case only.\<close>

theorem dataset_verdict:
  assumes "unit_order fl" "decision_policy_valid fl p" "report_request_valid rq" "list_all evidence_ok es"
  shows "\<exists>r. build_decision_report sha now fl es rq (Some p) (Some i) = Inr r
    \<and> map ol_object_id (dr_object_decisions r) = map eb_object_id es
    \<and> map cb_code (dr_critical_blockers r) = map (map upper_char) (blocked_codes fl p i es)
    \<and> dr_dataset_decision r =
        (if dataset_gate_fires p i \<or> list_ex (\<lambda>e. list_ex (rule_fires fl p e i) (dp_hard_gates p)) es then DD_BLOCKED
         else if list_ex (needs_review fl p) es then NEEDS_REVIEW else READY_FOR_TRAINING)
    \<and> (ra_status (dr_readiness r) = DR_BLOCKED \<longleftrightarrow> dr_dataset_decision r = DD_BLOCKED)
    \<and> (ra_status (dr_readiness r) = READY_FOR_EXPORT \<longleftrightarrow> dr_dataset_decision r = READY_FOR_TRAINING)
    \<and> (dr_recommended_next_job r = Some EXPORT \<longleftrightarrow> dr_dataset_decision r = READY_FOR_TRAINING)
    \<and> dr_safe_actions_available r = (dr_recommended_actions r \<noteq> [])"
proof -
  obtain cs where cs: "mapR (object_context_of fl p i) es = Inr cs" and ctx: "list_all2 (context_for fl p i) es cs"
    using contexts_returned [OF assms(1,2,4)] by blast
  have ok: "list_all context_ok cs" "list_all (\<lambda>c. object_level_decision_valid fl (oc_decision c)) cs"
    using list_all2_in_set [OF ctx] by (auto simp: list_all_iff context_for_def)
  have same: "concat (map (\<lambda>c. triggered_codes (od_hard_gates (oc_evaluation c))) cs) =
      concat (map (\<lambda>e. map hg_reason_code (filter (rule_fires fl p e i) (dp_hard_gates p))) es)"
    "map ol_object_id (map oc_decision cs) = map eb_object_id es"
    using ctx by (induction rule: list_all2_induct) (simp_all add: context_for_def)
  have dataset: "triggered_codes (evaluate_hard_gates p i) =
      map hg_reason_code (filter (\<lambda>g. hg_enabled g \<and> gate_triggered (hg_gate_id g) i) (dp_hard_gates p))"
    by (simp add: triggered_codes_def evaluate_hard_gates_def filter_map comp_def conj_commute)
  obtain bs where bs: "critical_blockers (evaluate_hard_gates p i) cs = Inr bs" "list_all critical_blocker_valid bs"
    "map cb_code bs = map (map upper_char) (blocked_codes fl p i es)"
    using blockers_returned [OF dataset_gates_ok [OF assms(2)] ok(1), of i] by (auto simp: same dataset blocked_codes_def)
  obtain as where as: "recommended_actions (recommendation_groups cs) = Inr as" "list_all recommended_action_valid as"
    "length as = length (foldl add_to_group [] cs)"
    using actions_returned [OF ok(2)] by blast
  have none: "bs = [] \<longleftrightarrow> \<not> (dataset_gate_fires p i \<or> list_ex (\<lambda>e. list_ex (rule_fires fl p e i) (dp_hard_gates p)) es)"
    using bs(3) blocked_codes_Nil [of fl p i es] by (auto simp: list_all_iff list_ex_iff)
  have quiet: "as = [] \<longleftrightarrow> \<not> list_ex (needs_review fl p) es" if "bs = []"
    using that none as(3) no_actions_iff [OF ctx] by (auto simp: list_all_iff list_ex_iff)
  have "list_all (\<lambda>a. \<not> rc_requires_approval a) as"
    using safe_actions [OF as(1)] list_all2_in_set [OF ctx] by (auto simp: context_for_def list_all_iff)
  then have safe: "list_ex (\<lambda>a. \<not> rc_requires_approval a) as = (as \<noteq> [])"
    by (cases as) (simp_all add: list_all_iff)
  obtain a where a: "readiness fl bs as = Inr a" "readiness_valid fl a" "ra_status a =
      (if bs \<noteq> [] then DR_BLOCKED else if as \<noteq> [] then NOT_READY_FOR_EXPORT else READY_FOR_EXPORT)"
    using readiness_returned [OF assms(1) bs(2) as(2)] by blast
  have versions: "non_empty (dp_policy_version p)" "non_empty (ov_policy_version (dp_object_value_policy p))"
    using assms(2) by (simp_all add: decision_policy_valid_def)
  let ?id = "case rq_decision_report_id rq of Some j \<Rightarrow> if j = [] then decision_report_id sha rq es else j
    | None \<Rightarrow> decision_report_id sha rq es"
  have id: "non_empty ?id" by (simp add: non_empty_def decision_report_id_def split: option.split)
  let ?r = "\<lparr>dr_decision_report_id = ?id, dr_dataset_id = rq_dataset_id rq, dr_version_id = rq_version_id rq,
      dr_decision_schema_version = DECISION_REPORT_SCHEMA_VERSION, dr_dataset_decision = dataset_decision_of bs as, dr_readiness = a,
      dr_critical_blockers = bs, dr_safe_actions_available = list_ex (\<lambda>a. \<not> rc_requires_approval a) as,
      dr_recommended_next_job = recommended_next_job bs as, dr_object_decisions = map oc_decision cs, dr_recommended_actions = as,
      dr_policy_versions = \<lparr>pv_decision_policy = dp_policy_version p, pv_score_policy = ov_policy_version (dp_object_value_policy p),
        pv_privacy_policy = PRIVACY_POLICY_VERSION, pv_method_policy = METHOD_POLICY_VERSION\<rparr>,
      dr_generated_at = (case rq_generated_at rq of Some t \<Rightarrow> t | None \<Rightarrow> now)\<rparr>"
  have "decision_report_valid fl ?r"
    using assms(3) ok(2) bs(2) as(2) a(2) versions id
    by (simp add: decision_report_valid_def report_request_valid_def DECISION_REPORT_SCHEMA_VERSION_def policy_versions_valid_def
        PRIVACY_POLICY_VERSION_def METHOD_POLICY_VERSION_def list.pred_map comp_def non_empty_def)
  then have "build_decision_report sha now fl es rq (Some p) (Some i) = Inr ?r"
    using cs bs(1) as(1) a(1) by (simp add: build_decision_report_def Let_def)
  then show ?thesis
    using none quiet bs(3) same(2) safe a(3)
    by (intro exI [of _ ?r]) (auto simp: dataset_decision_of_def recommended_next_job_def)
qed

definition sample_report_request :: report_request where
  "sample_report_request =
     \<lparr>rq_dataset_id = ''ds1'', rq_version_id = ''v1'', rq_created_by_job_id = ''job1'', rq_config_hash = zero_digest,
      rq_decision_report_id = None, rq_generated_at = None\<rparr>"

text \<open>An object whose only evidence is a technical quality of 0.1: the outlier rule matches it.\<close>

definition outlier_evidence :: "rat evidence_bundle" where
  "outlier_evidence = sample_evidence (sample_signals\<lparr>es_technical_quality := available (1 / 10)\<rparr>)"

lemma loaded_rules:
  "load_decision_policy_v0 sha fl = Inr p \<Longrightarrow> dp_recommendation_rules p =
     map (\<lambda>(i, c, a, q, _). \<lparr>rl_rule_id = i, rl_reason_code = c, rl_action = a, rl_threshold = Some (fl_const fl q), rl_enabled = True\<rparr>)
       DEFAULT_RULES"
  by (simp add: load_decision_policy_v0_def result_simps)

lemma outlier_quiet:
  "\<not> dataset_gate_fires sample_policy empty_policy_inputs"
  "\<not> list_ex (rule_fires rat_floats sample_policy outlier_evidence empty_policy_inputs) (dp_hard_gates sample_policy)"
  "\<not> needs_review rat_floats sample_policy outlier_evidence"
  "map er_reason_codes (recommend_from_evidence rat_floats sample_policy outlier_evidence) = [[''severe_outlier'']]"
proof -
  note rules = loaded_rules [OF sample_policy]
  note simps = dataset_gate_fires_def sample_policy_gates DEFAULT_HARD_GATES_def default_gate_def gate_triggered_def flag_def
    empty_policy_inputs_def rule_fires_def privacy_signal_high_def signal_at_least_def outlier_evidence_def sample_evidence_def
    sample_signals_def rat_floats_def needs_review_def rules DEFAULT_RULES_def rule_matches_def Let_def
  show "\<not> dataset_gate_fires sample_policy empty_policy_inputs"
    "\<not> list_ex (rule_fires rat_floats sample_policy outlier_evidence empty_policy_inputs) (dp_hard_gates sample_policy)"
    "\<not> needs_review rat_floats sample_policy outlier_evidence"
    by (simp_all add: simps)
  show "map er_reason_codes (recommend_from_evidence rat_floats sample_policy outlier_evidence) = [[''severe_outlier'']]"
    by (simp add: simps recommend_from_evidence_def recommendation_codes_def fromkeys_def dict_of_def dict_set_def dict_keys_def)
qed

theorem dataset_verdict_witness:
  "\<exists>r. build_decision_report toy_sha 0 rat_floats [outlier_evidence] sample_report_request (Some sample_policy) (Some empty_policy_inputs) = Inr r
    \<and> map er_reason_codes (recommend_from_evidence rat_floats sample_policy outlier_evidence) = [[''severe_outlier'']]
    \<and> dr_dataset_decision r = READY_FOR_TRAINING \<and> dr_recommended_next_job r = Some EXPORT"
proof -
  have "evidence_ok outlier_evidence"
    by (simp add: outlier_evidence_def sample_evidence_def evidence_ok_def refs_ok_def non_empty_def)
  moreover have "report_request_valid sample_report_request" by code_simp
  ultimately show ?thesis
    using dataset_verdict [OF rat_unit_order sample_policy_valid, of sample_report_request "[outlier_evidence]" toy_sha 0 empty_policy_inputs]
      outlier_quiet by auto
qed

section \<open>Report ids\<close>

text \<open>The ids are fed to the digest without a separator: moving the boundary between the dataset id and the
  version id leaves the report id as it is.\<close>

lemma report_id_boundary:
  "decision_report_id sha (rq\<lparr>rq_dataset_id := a @ b, rq_version_id := c\<rparr>) es =
   decision_report_id sha (rq\<lparr>rq_dataset_id := a, rq_version_id := b @ c\<rparr>) es"
  by (simp add: decision_report_id_def)

end
