(* ===== verification/Imputation.thy ===== *)
theory Imputation
  imports Splits CandidateVersion
begin

text \<open>
  The imputation executor of \<open>src/app/plugins/tabular/imputation.py\<close> with its contracts
  (\<open>src/app/domain/imputation.py\<close>): fitting the fill values, filling the missing cells of one column, and the CSV
  writer with minimal quoting whose text the next executor reads back. Decimals are abstract with their exact value.
\<close>

section \<open>Contracts (domain/imputation.py)\<close>

datatype imputation_method = MEDIAN | MODE | GROUP_MEDIAN | MISSINGNESS_INDICATOR

fun imputation_method_value :: "imputation_method \<Rightarrow> string" where
  "imputation_method_value MEDIAN = ''median''"
| "imputation_method_value MODE = ''mode''"
| "imputation_method_value GROUP_MEDIAN = ''group_median''"
| "imputation_method_value MISSINGNESS_INDICATOR = ''missingness_indicator''"

record imputation_column_report =
  ic_column :: string
  ic_method :: imputation_method
  ic_indicator_column :: "string option"
  ic_group_key :: "string option"
  ic_before_missing_count :: int
  ic_after_missing_count :: int
  ic_imputed_count :: int
  ic_total_count :: int
  ic_fill_value :: "string option"
  ic_group_imputed_counts :: "(string, int) dict"

record imputation_lineage =
  il_action_plan_id :: string
  il_step_id :: string
  il_source_dataset_version_id :: string
  il_candidate_dataset_version_id :: string
  il_created_by_job_id :: string
  il_config_hash :: string
  il_source_artifact :: artifact_ref
  il_candidate_artifact :: artifact_ref

record imputation_report =
  im_report_id :: string
  im_report_schema_version :: string
  im_action_plan_id :: string
  im_step_id :: string
  im_target_column :: string
  im_target_unchanged :: bool
  im_before_row_count :: int
  im_after_row_count :: int
  im_before_missing_total :: int
  im_after_missing_total :: int
  im_columns :: "imputation_column_report list"
  im_candidate_artifact :: artifact_ref
  im_lineage :: imputation_lineage
  im_generated_at :: datetime

definition imputation_column_valid :: "imputation_column_report \<Rightarrow> bool" where
  "imputation_column_valid c \<longleftrightarrow>
     non_empty (ic_column c) \<and> 0 \<le> ic_before_missing_count c \<and> 0 \<le> ic_after_missing_count c \<and> 0 \<le> ic_imputed_count c
     \<and> 0 \<le> ic_total_count c"

definition imputation_lineage_valid :: "imputation_lineage \<Rightarrow> bool" where
  "imputation_lineage_valid l \<longleftrightarrow>
     non_empty (il_action_plan_id l) \<and> non_empty (il_step_id l) \<and> non_empty (il_source_dataset_version_id l)
     \<and> non_empty (il_candidate_dataset_version_id l) \<and> non_empty (il_created_by_job_id l) \<and> sha256_digest (il_config_hash l)
     \<and> artifact_ref_valid (il_source_artifact l) \<and> artifact_ref_valid (il_candidate_artifact l)"

definition imputation_report_valid :: "imputation_report \<Rightarrow> bool" where
  "imputation_report_valid r \<longleftrightarrow>
     non_empty (im_report_id r) \<and> non_empty (im_report_schema_version r) \<and> non_empty (im_action_plan_id r)
     \<and> non_empty (im_step_id r) \<and> non_empty (im_target_column r) \<and> 0 \<le> im_before_row_count r \<and> 0 \<le> im_after_row_count r
     \<and> 0 \<le> im_before_missing_total r \<and> 0 \<le> im_after_missing_total r \<and> list_all imputation_column_valid (im_columns r)
     \<and> artifact_ref_valid (im_candidate_artifact r) \<and> imputation_lineage_valid (im_lineage r)"

section \<open>Requests (plugins/tabular/imputation.py)\<close>

definition IMPUTATION_REPORT_KIND :: string where
  "IMPUTATION_REPORT_KIND = ''imputation_report''"

definition IMPUTATION_REPORT_SCHEMA_VERSION :: string where
  "IMPUTATION_REPORT_SCHEMA_VERSION = ''tabular_imputation_report.v1''"

definition CANDIDATE_TABULAR_DATASET_KIND :: string where
  "CANDIDATE_TABULAR_DATASET_KIND = ''candidate_tabular_dataset''"

definition CANDIDATE_TABULAR_DATASET_SCHEMA_VERSION :: string where
  "CANDIDATE_TABULAR_DATASET_SCHEMA_VERSION = ''tabular_dataset.v1''"

definition IMPUTATION_STEP_TYPES :: "string list" where
  "IMPUTATION_STEP_TYPES = [''IMPUTE_MISSING_VALUES'']"

definition imputation_error :: "string \<Rightarrow> exn" where
  "imputation_error reason = Raised ''ImputationExecutionError'' reason ACTION_PLAN_PRECONDITION_FAILED 0"

definition imputation_blocked :: "string \<Rightarrow> exn" where
  "imputation_blocked reason = Raised ''ImputationExecutionError'' reason POLICY_BLOCKED 0"

record imputation_request =
  iq_action_plan_id :: string
  iq_step :: action_plan_step
  iq_source_dataset_version_id :: string
  iq_candidate_dataset_version_id :: string
  iq_target_column :: string
  iq_source_artifact :: artifact_ref
  iq_created_by_job_id :: string
  iq_config_hash :: string
  iq_report_id :: "string option"
  iq_generated_at :: "datetime option"

definition resolve_method :: "string \<Rightarrow> exn + imputation_method" where
  "resolve_method method_id =
     (case find (\<lambda>m. imputation_method_value m = method_id) [MEDIAN, MODE, GROUP_MEDIAN, MISSINGNESS_INDICATOR] of
        Some m \<Rightarrow> Inr m
      | None \<Rightarrow> Inl (imputation_error ''unsupported_imputation_method''))"

definition required_config_str :: "(string, json) dict \<Rightarrow> string \<Rightarrow> exn + string" where
  "required_config_str config key =
     (case dict_get config key of
        Some (JStr s) \<Rightarrow> if s = [] then Inl (imputation_error ''invalid_imputation_config'') else Inr s
      | _ \<Rightarrow> Inl (imputation_error ''invalid_imputation_config''))"

section \<open>Reading and writing CSV\<close>

definition imputation_rows :: "string \<Rightarrow> exn + (csv_row list \<times> string list)" where
  "imputation_rows text =
     (let records = csv_records text;
          header = (case records of [] \<Rightarrow> [] | h # _ \<Rightarrow> h);
          columns = filter (\<lambda>n. n \<noteq> []) header;
          rows = map (\<lambda>r. clean_row columns (dict_row header r)) (filter (\<lambda>r. r \<noteq> []) (tl records)) in
      if \<not> fields_fit header then Inl (Other ''Error'')
      else if columns = [] then Inl (imputation_error ''empty_tabular_source'')
      else if \<not> list_all fields_fit (tl records) then Inl (Other ''Error'')
      else if rows = [] then Inl (imputation_error ''empty_tabular_source'')
      else Inr (rows, columns))"

text \<open>
  \<open>csv.DictWriter\<close> with the line feed as its line terminator: a field is quoted when it holds a delimiter, a quote or a
  line feed, and a record of one empty field is quoted. Whether a carriage return is quoted depends on the version of
  Python, hence \<open>quotes_cr\<close>.
\<close>

definition written_field :: "bool \<Rightarrow> string \<Rightarrow> string" where
  "written_field quotes_cr f =
     (if list_ex (\<lambda>c. c \<in> {comma, quote, LF} \<or> quotes_cr \<and> c = CR) f then quoted f else f)"

definition written_record :: "bool \<Rightarrow> string list \<Rightarrow> string" where
  "written_record quotes_cr fs =
     (if fs = [[]] then quoted [] else join [comma] (map (written_field quotes_cr) fs)) @ [LF]"

definition write_csv :: "bool \<Rightarrow> csv_row list \<Rightarrow> string list \<Rightarrow> string" where
  "write_csv quotes_cr rows columns =
     concat (map (written_record quotes_cr) (columns # map (\<lambda>row. map (row_get row) columns) rows))"

text \<open>Every row has a cell for every column, and the columns read below were looked for in the header first.\<close>

definition missing_count :: "csv_row list \<Rightarrow> string \<Rightarrow> int" where
  "missing_count rows column = int (length (filter (\<lambda>row. row_get row column = []) rows))"

section \<open>Fitting the fill values\<close>

text \<open>
  \<open>decimal.Decimal\<close>: parsing (None for InvalidOperation), the exact value of a finite decimal, by which sorting compares,
  the mean of two in the context's precision (None when it raises), \<open>int(float(d))\<close> when \<open>float(d)\<close> is finite and an
  integer, and the fixed-point text of the normalized decimal.
\<close>

record 'd decimal_ops =
  dc_of_str :: "string \<Rightarrow> 'd option"
  dc_finite :: "'d \<Rightarrow> bool"
  dc_value :: "'d \<Rightarrow> rat"
  dc_half_sum :: "'d \<Rightarrow> 'd \<Rightarrow> 'd option"
  dc_as_int :: "'d \<Rightarrow> int option"
  dc_text :: "'d \<Rightarrow> string"

definition parse_decimal :: "'d decimal_ops \<Rightarrow> string \<Rightarrow> exn + 'd" where
  "parse_decimal dc v =
     (case dc_of_str dc v of
        None \<Rightarrow> Inl (imputation_error ''non_numeric_imputation_value'')
      | Some d \<Rightarrow> if dc_finite dc d then Inr d else Inl (imputation_error ''non_numeric_imputation_value''))"

definition format_decimal :: "'d decimal_ops \<Rightarrow> 'd \<Rightarrow> string" where
  "format_decimal dc d = (case dc_as_int dc d of Some i \<Rightarrow> str_of_int i | None \<Rightarrow> dc_text dc d)"

definition median_text :: "'d decimal_ops \<Rightarrow> string list \<Rightarrow> exn + string" where
  "median_text dc values =
     bindR (mapR (parse_decimal dc) values) (\<lambda>ds.
     let parsed = sort_key (dc_value dc) ds; midpoint = length parsed div 2 in
     if parsed = [] then Inl (imputation_error ''no_non_missing_numeric_values'')
     else if length parsed mod 2 = 1 then Inr (format_decimal dc (parsed ! midpoint))
     else (case dc_half_sum dc (parsed ! (midpoint - 1)) (parsed ! midpoint) of
             None \<Rightarrow> Inl (Other ''DecimalException'')
           | Some d \<Rightarrow> Inr (format_decimal dc d)))"

definition mode_of :: "string list \<Rightarrow> exn + string" where
  "mode_of values =
     (if counter values = [] then Inl (imputation_error ''no_non_missing_values'')
      else Inr (fst (hd (sort_key (\<lambda>vn. (- snd vn, fst vn)) (counter values)))))"

definition observed :: "csv_row list \<Rightarrow> string \<Rightarrow> string list" where
  "observed rows column = filter (\<lambda>v. v \<noteq> []) (map (\<lambda>row. row_get row column) rows)"

definition add_value :: "string \<Rightarrow> string \<Rightarrow> (string, string list) dict \<Rightarrow> csv_row \<Rightarrow> (string, string list) dict" where
  "add_value column group_key grouped row =
     (if row_get row column = [] then grouped
      else dict_set grouped (row_get row group_key)
             ((case dict_get grouped (row_get row group_key) of None \<Rightarrow> [] | Some vs \<Rightarrow> vs) @ [row_get row column]))"

definition grouped_values :: "csv_row list \<Rightarrow> string \<Rightarrow> string \<Rightarrow> (string, string list) dict" where
  "grouped_values rows column group_key = foldl (add_value column group_key) [] rows"

definition group_medians :: "'d decimal_ops \<Rightarrow> (string, string list) dict \<Rightarrow> exn + (string, string) dict" where
  "group_medians dc grouped =
     mapR (\<lambda>(g, vs). bindR (median_text dc vs) (\<lambda>m. Inr (g, m))) (filter (\<lambda>gv. snd gv \<noteq> []) grouped)"

definition fit_fill_values ::
    "'d decimal_ops \<Rightarrow> csv_row list \<Rightarrow> string \<Rightarrow> imputation_method \<Rightarrow> string option \<Rightarrow> exn + (string \<times> (string, string) dict)" where
  "fit_fill_values dc rows column mth group_key =
     (if mth = MISSINGNESS_INDICATOR then Inr ([], [])
      else if mth = MODE then bindR (mode_of (observed rows column)) (\<lambda>m. Inr (m, []))
      else bindR (median_text dc (observed rows column)) (\<lambda>global_median.
        case group_key of
          Some k \<Rightarrow> if mth = MEDIAN then Inr (global_median, [])
                    else bindR (group_medians dc (grouped_values rows column k)) (\<lambda>medians. Inr (global_median, medians))
        | None \<Rightarrow> Inr (global_median, [])))"

section \<open>Filling\<close>

definition should_add_indicator :: "action_plan_step \<Rightarrow> imputation_method \<Rightarrow> bool" where
  "should_add_indicator step mth \<longleftrightarrow>
     mth = MISSINGNESS_INDICATOR \<or> dict_get (ps_config step) ''add_missingness_indicator'' = Some (JBool True)"

definition indicator_column_name :: "string \<Rightarrow> string list \<Rightarrow> exn + string" where
  "indicator_column_name column columns =
     (let indicator = column @ ''_was_missing'' in
      if indicator \<in> set columns then Inl (imputation_error ''indicator_column_already_exists'') else Inr indicator)"

definition imputation_group_key :: "action_plan_step \<Rightarrow> string list \<Rightarrow> exn + string" where
  "imputation_group_key step columns =
     (case get_or (JStr ''customer_segment'') (ps_config step) ''group_key'' of
        JStr k \<Rightarrow> if k = [] \<or> k \<notin> set columns then Inl (imputation_error ''group_key_not_found'') else Inr k
      | _ \<Rightarrow> Inl (imputation_error ''group_key_not_found''))"

definition chosen_indicator :: "action_plan_step \<Rightarrow> imputation_method \<Rightarrow> string \<Rightarrow> string list \<Rightarrow> exn + string option" where
  "chosen_indicator step mth column columns =
     (if should_add_indicator step mth then bindR (indicator_column_name column columns) (\<lambda>i. Inr (Some i)) else Inr None)"

definition chosen_group_key :: "action_plan_step \<Rightarrow> imputation_method \<Rightarrow> string list \<Rightarrow> exn + string option" where
  "chosen_group_key step mth columns =
     (if mth = GROUP_MEDIAN then bindR (imputation_group_key step columns) (\<lambda>k. Inr (Some k)) else Inr None)"

record fill_state =
  fs_rows :: "csv_row list"
  fs_imputed_count :: int
  fs_group_counts :: "(string, int) dict"

definition fill_row ::
    "string \<Rightarrow> imputation_method \<Rightarrow> string option \<Rightarrow> string option \<Rightarrow> string \<Rightarrow> (string, string) dict
     \<Rightarrow> fill_state \<Rightarrow> csv_row \<Rightarrow> exn + fill_state" where
  "fill_row column mth indicator group_key fill_value group_fill st row =
     (let was_missing = (row_get row column = []);
          row1 = (case indicator of None \<Rightarrow> row | Some i \<Rightarrow> dict_set row i (if was_missing then ''1'' else ''0'')) in
      if was_missing \<and> mth \<noteq> MISSINGNESS_INDICATOR then
        (case dict_get row1 (case group_key of None \<Rightarrow> [] | Some k \<Rightarrow> k) of
           None \<Rightarrow> Inl (Other ''KeyError'')
         | Some g \<Rightarrow>
             let row2 = dict_set row1 column (case dict_get group_fill g of None \<Rightarrow> fill_value | Some v \<Rightarrow> v) in
             Inr \<lparr>fs_rows = fs_rows st @ [row2], fs_imputed_count = fs_imputed_count st + 1,
                  fs_group_counts = (case group_key of
                    None \<Rightarrow> fs_group_counts st
                  | Some k \<Rightarrow> add_count (fs_group_counts st) (row_get row2 k, 1))\<rparr>)
      else Inr (st\<lparr>fs_rows := fs_rows st @ [row1]\<rparr>))"

record imputed_table =
  it_rows :: "csv_row list"
  it_columns :: "string list"
  it_indicator_column :: "string option"
  it_group_key :: "string option"
  it_fill_value :: string
  it_before_missing :: int
  it_imputed_count :: int
  it_group_counts :: "(string, int) dict"

definition impute_rows ::
    "'d decimal_ops \<Rightarrow> action_plan_step \<Rightarrow> imputation_method \<Rightarrow> string \<Rightarrow> string \<Rightarrow> csv_row list \<Rightarrow> string list
     \<Rightarrow> exn + imputed_table" where
  "impute_rows dc step mth column target_column rows columns =
     bindR (chosen_indicator step mth column columns) (\<lambda>indicator.
     bindR (chosen_group_key step mth columns) (\<lambda>group_key.
     bindR (fit_fill_values dc rows column mth group_key) (\<lambda>(fill_value, group_fill).
     bindR (foldR (fill_row column mth indicator group_key fill_value group_fill)
              \<lparr>fs_rows = [], fs_imputed_count = 0, fs_group_counts = []\<rparr> rows) (\<lambda>st.
     if map (\<lambda>row. row_get row target_column) rows \<noteq> map (\<lambda>row. row_get row target_column) (fs_rows st)
     then Inl (imputation_blocked ''target_column_changed'')
     else Inr \<lparr>it_rows = fs_rows st, it_columns = columns @ (case indicator of None \<Rightarrow> [] | Some i \<Rightarrow> [i]),
               it_indicator_column = indicator, it_group_key = group_key, it_fill_value = fill_value,
               it_before_missing = missing_count rows column, it_imputed_count = fs_imputed_count st,
               it_group_counts = fs_group_counts st\<rparr>))))"

section \<open>The executor\<close>

definition imputation_target :: "imputation_request \<Rightarrow> exn + (imputation_method \<times> string)" where
  "imputation_target request =
     (let step = iq_step request in
      if ps_type step \<notin> set IMPUTATION_STEP_TYPES then Inl (imputation_error ''unsupported_action_step_type'')
      else bindR (resolve_method (ps_method_id step)) (\<lambda>mth.
        bindR (required_config_str (ps_config step) ''column'') (\<lambda>column.
        if column = iq_target_column request then Inl (imputation_blocked ''target_column_auto_imputation_forbidden'')
        else Inr (mth, column))))"

definition impute_text :: "'d decimal_ops \<Rightarrow> imputation_request \<Rightarrow> imputation_method \<Rightarrow> string \<Rightarrow> string \<Rightarrow> exn + imputed_table" where
  "impute_text dc request mth column text =
     bindR (imputation_rows text) (\<lambda>(rows, columns).
     if column \<notin> set columns then Inl (imputation_error ''imputation_column_not_found'')
     else if iq_target_column request \<notin> set columns then Inl (imputation_error ''target_column_not_found'')
     else impute_rows dc (iq_step request) mth column (iq_target_column request) rows columns)"

definition compute_imputation ::
    "'s builder_env \<Rightarrow> 'd decimal_ops \<Rightarrow> imputation_request \<Rightarrow> 's \<Rightarrow> exn + (imputation_method \<times> string \<times> imputed_table)" where
  "compute_imputation env dc request st =
     bindR (imputation_target request) (\<lambda>(mth, column).
     bindR (storage_get env (ar_uri (iq_source_artifact request)) st) (\<lambda>(data, info).
     case se_decode env data of
       None \<Rightarrow> Inl (Other ''UnicodeDecodeError'')
     | Some text \<Rightarrow> bindR (impute_text dc request mth column text) (\<lambda>table. Inr (mth, column, table))))"

definition imputation_report_of ::
    "'s builder_env \<Rightarrow> imputation_request \<Rightarrow> imputation_method \<Rightarrow> string \<Rightarrow> imputed_table \<Rightarrow> artifact_ref \<Rightarrow> exn + imputation_report" where
  "imputation_report_of env request mth column table candidate =
     (let after_missing = missing_count (it_rows table) column; row_count = int (length (it_rows table)) in
      bindR (validated imputation_column_valid
        \<lparr>ic_column = column, ic_method = mth, ic_indicator_column = it_indicator_column table,
         ic_group_key = it_group_key table, ic_before_missing_count = it_before_missing table,
         ic_after_missing_count = after_missing, ic_imputed_count = it_imputed_count table, ic_total_count = row_count,
         ic_fill_value = (if mth = GROUP_MEDIAN then None else Some (it_fill_value table)),
         ic_group_imputed_counts = it_group_counts table\<rparr>) (\<lambda>column_report.
      bindR (validated imputation_lineage_valid
        \<lparr>il_action_plan_id = iq_action_plan_id request, il_step_id = ps_step_id (iq_step request),
         il_source_dataset_version_id = iq_source_dataset_version_id request,
         il_candidate_dataset_version_id = iq_candidate_dataset_version_id request,
         il_created_by_job_id = iq_created_by_job_id request, il_config_hash = iq_config_hash request,
         il_source_artifact = iq_source_artifact request, il_candidate_artifact = candidate\<rparr>) (\<lambda>lineage.
      validated imputation_report_valid
        \<lparr>im_report_id = (case iq_report_id request of
             Some i \<Rightarrow> if i = [] then ''tabular_imputation_'' @ se_uuid env else i
           | None \<Rightarrow> ''tabular_imputation_'' @ se_uuid env),
         im_report_schema_version = IMPUTATION_REPORT_SCHEMA_VERSION, im_action_plan_id = iq_action_plan_id request,
         im_step_id = ps_step_id (iq_step request), im_target_column = iq_target_column request, im_target_unchanged = True,
         im_before_row_count = row_count, im_after_row_count = row_count, im_before_missing_total = it_before_missing table,
         im_after_missing_total = after_missing, im_columns = [column_report], im_candidate_artifact = candidate,
         im_lineage = lineage, im_generated_at = (case iq_generated_at request of Some t \<Rightarrow> t | None \<Rightarrow> se_now env)\<rparr>)))"

definition candidate_metadata :: "'s builder_env \<Rightarrow> imputation_request \<Rightarrow> imputation_method \<Rightarrow> string \<Rightarrow> metadata" where
  "candidate_metadata env request mth column =
     [(''action-plan-id'', iq_action_plan_id request), (''step-id'', ps_step_id (iq_step request)),
      (''source-artifact-hash'', ar_hash (iq_source_artifact request)),
      (''source-dataset-version-id'', iq_source_dataset_version_id request), (''imputation-column'', column),
      (''imputation-method'', imputation_method_value mth)]
     @ opt_entry ''created-at'' (map_option (se_iso env) (iq_generated_at request))"

definition imputation_metadata ::
    "'s builder_env \<Rightarrow> imputation_request \<Rightarrow> imputation_method \<Rightarrow> string \<Rightarrow> imputed_table \<Rightarrow> registered_artifact \<Rightarrow> metadata" where
  "imputation_metadata env request mth column table candidate =
     [(''action-plan-id'', iq_action_plan_id request), (''step-id'', ps_step_id (iq_step request)),
      (''candidate-artifact-hash'', ra_hash candidate), (''imputation-column'', column),
      (''imputation-method'', imputation_method_value mth),
      (''before-missing-count'', str_of_int (it_before_missing table)),
      (''after-missing-count'', str_of_int (missing_count (it_rows table) column))]
     @ opt_entry ''created-at'' (map_option (se_iso env) (iq_generated_at request))"

text \<open>\<open>enc\<close> encodes a text as UTF-8 and \<open>ser\<close> is the JSON dump of the report.\<close>

definition execute_tabular_imputation_action ::
    "'s builder_env \<Rightarrow> 'd decimal_ops \<Rightarrow> bool \<Rightarrow> (string \<Rightarrow> string) \<Rightarrow> (imputation_report \<Rightarrow> string) \<Rightarrow> imputation_request \<Rightarrow> 's
     \<Rightarrow> (exn + (imputation_report \<times> registered_artifact \<times> registered_artifact)) \<times> 's" where
  "execute_tabular_imputation_action env dc quotes_cr enc ser request st =
     (case compute_imputation env dc request st of
        Inl e \<Rightarrow> (Inl e, st)
      | Inr (mth, column, table) \<Rightarrow>
          (case registry_save env
             \<lparr>sv_artifact_kind = CANDIDATE_TABULAR_DATASET_KIND, sv_data = enc (write_csv quotes_cr (it_rows table) (it_columns table)),
              sv_artifact_format = ''csv'', sv_media_type = ''text/csv'',
              sv_schema_version = CANDIDATE_TABULAR_DATASET_SCHEMA_VERSION,
              sv_dataset_version_id = iq_candidate_dataset_version_id request,
              sv_created_by_job_id = iq_created_by_job_id request, sv_config_hash = iq_config_hash request,
              sv_metadata = candidate_metadata env request mth column\<rparr> st of
             (Inl e, st1) \<Rightarrow> (Inl e, st1)
           | (Inr candidate, st1) \<Rightarrow>
               (case imputation_report_of env request mth column table (ra_artifact_ref candidate) of
                  Inl e \<Rightarrow> (Inl e, st1)
                | Inr report \<Rightarrow>
                    let (res, st2) = registry_save env
                          \<lparr>sv_artifact_kind = IMPUTATION_REPORT_KIND, sv_data = ser report, sv_artifact_format = ''json'',
                           sv_media_type = ''application/json'', sv_schema_version = IMPUTATION_REPORT_SCHEMA_VERSION,
                           sv_dataset_version_id = iq_candidate_dataset_version_id request,
                           sv_created_by_job_id = iq_created_by_job_id request, sv_config_hash = iq_config_hash request,
                           sv_metadata = imputation_metadata env request mth column table candidate\<rparr> st1
                    in (bindR res (\<lambda>report_artifact. Inr (report, candidate, report_artifact)), st2))))"

section \<open>The writer is read back\<close>

definition cr_safe :: "bool \<Rightarrow> string \<Rightarrow> bool" where
  "cr_safe quotes_cr f \<longleftrightarrow> quotes_cr \<or> CR \<notin> set f"

lemma csv_scan_plain:
  "comma \<notin> set f \<Longrightarrow> quote \<notin> set f \<Longrightarrow> LF \<notin> set f \<Longrightarrow> CR \<notin> set f \<Longrightarrow>
     csv_scan In_field False fs g (f @ r) = csv_scan In_field False fs (g @ f) r"
  by (induction f arbitrary: g) auto

lemma csv_scan_start:
  "comma \<notin> set f \<Longrightarrow> quote \<notin> set f \<Longrightarrow> LF \<notin> set f \<Longrightarrow> CR \<notin> set f \<Longrightarrow> f \<noteq> [] \<Longrightarrow> st = Start_record \<or> st = Start_field \<Longrightarrow>
     csv_scan st False fs [] (f @ r) = csv_scan In_field False fs f r"
  by (cases f) (auto simp: csv_scan_plain)

lemma written_cases:
  assumes "cr_safe quotes_cr f"
  obtains "written_field quotes_cr f = quoted f"
  | "written_field quotes_cr f = f" "comma \<notin> set f" "quote \<notin> set f" "LF \<notin> set f" "CR \<notin> set f"
proof (cases "list_ex (\<lambda>c. c \<in> {comma, quote, LF} \<or> quotes_cr \<and> c = CR) f")
  case True
  then show ?thesis using that(1) by (simp add: written_field_def)
next
  case False
  then have "comma \<notin> set f" "quote \<notin> set f" "LF \<notin> set f" "CR \<notin> set f"
    using assms by (auto simp: list_ex_iff cr_safe_def)
  with that(2) False show ?thesis by (simp add: written_field_def)
qed

lemma csv_scan_written_comma:
  assumes "cr_safe quotes_cr f" "st = Start_record \<or> st = Start_field"
  shows "csv_scan st False fs [] (written_field quotes_cr f @ comma # r) = csv_scan Start_field False (fs @ [f]) [] r"
  using assms(1)
proof (cases rule: written_cases)
  case 1
  then show ?thesis using csv_scan_quoted [OF assms(2)] by simp
next
  case 2
  then show ?thesis using csv_scan_start [of f st fs "comma # r"] assms(2) by (cases "f = []") auto
qed

lemma csv_scan_written_end:
  assumes "cr_safe quotes_cr f" "st = Start_field \<or> st = Start_record \<and> f \<noteq> []"
  shows "csv_scan st False fs [] (written_field quotes_cr f @ LF # r) = (fs @ [f]) # csv_scan Start_record False [] [] r"
  using assms(1)
proof (cases rule: written_cases)
  case 1
  then show ?thesis using csv_scan_quoted [of st fs f "LF # r"] assms(2) by auto
next
  case 2
  then show ?thesis using csv_scan_start [of f st fs "LF # r"] assms(2) by (cases "f = []") auto
qed

lemma csv_scan_written_fields:
  "list_all (cr_safe quotes_cr) fs \<Longrightarrow> fs \<noteq> [] \<Longrightarrow> st = Start_field \<or> st = Start_record \<and> fs \<noteq> [[]] \<Longrightarrow>
     csv_scan st False don [] (join [comma] (map (written_field quotes_cr) fs) @ LF # r) =
       (don @ fs) # csv_scan Start_record False [] [] r"
proof (induction fs arbitrary: st don)
  case (Cons f fs)
  show ?case
  proof (cases fs)
    case Nil
    then show ?thesis using Cons.prems csv_scan_written_end [of quotes_cr f st don r] by auto
  next
    case (Cons g gs)
    then show ?thesis
      using Cons.prems Cons.IH [of Start_field "don @ [f]"]
        csv_scan_written_comma [of quotes_cr f st don "join [comma] (map (written_field quotes_cr) fs) @ LF # r"] by auto
  qed
qed simp

lemma csv_scan_record:
  assumes "list_all (cr_safe quotes_cr) fs" "fs \<noteq> []"
  shows "csv_scan Start_record False [] [] (written_record quotes_cr fs @ r) = fs # csv_scan Start_record False [] [] r"
proof (cases "fs = [[]]")
  case True
  then show ?thesis using csv_scan_quoted [of Start_record "[]" "[]" "LF # r"] by (simp add: written_record_def)
next
  case False
  then show ?thesis using csv_scan_written_fields [of quotes_cr fs Start_record "[]" r] assms
    by (simp add: written_record_def)
qed

lemma csv_records_written:
  assumes "list_all (\<lambda>fs. fs \<noteq> [] \<and> list_all (cr_safe quotes_cr) fs) rows"
  shows "csv_records (concat (map (written_record quotes_cr) rows)) = rows"
proof -
  have "csv_scan Start_record False [] [] (concat (map (written_record quotes_cr) rows)) = rows"
    using assms by (induction rows) (simp_all add: csv_scan_record)
  then show ?thesis by (simp add: csv_records_def)
qed

text \<open>The cells of a row the reader returns are those of the columns, each once.\<close>

definition row_over :: "string list \<Rightarrow> csv_row \<Rightarrow> bool" where
  "row_over columns row \<longleftrightarrow> dict_keys row = fromkeys columns"

lemma row_over_distinct: "distinct columns \<Longrightarrow> row_over columns row \<longleftrightarrow> map fst row = columns"
  by (simp add: row_over_def fromkeys.dd_id dict_keys_def)

lemma dict_of_snoc: "dict_of (kvs @ [kv]) = dict_set (dict_of kvs) (fst kv) (snd kv)"
  by (simp add: dict_of_def dict_update_all_append)

lemma dict_of_keys: "dict_keys (dict_of kvs) = fromkeys (map fst kvs)"
proof (induction kvs rule: rev_induct)
  case Nil
  show ?case by (simp add: dict_of_def dict_keys_def fromkeys.dd_Nil)
next
  case (snoc kv kvs)
  then show ?case by (simp add: dict_of_snoc dict_keys_set fromkeys.dd_snoc)
qed

lemma clean_row_over: "row_over columns (clean_row columns raw)"
  by (simp add: row_over_def clean_row_def dict_of_keys comp_def)

lemma read_rows:
  assumes "imputation_rows text = Inr (rows, columns)"
  shows "list_all (row_over columns) rows" "rows \<noteq> []" "[] \<notin> set columns"
  using assms by (auto simp: imputation_rows_def Let_def list_all_iff clean_row_over split: if_splits)

text \<open>A table the next reader can read.\<close>

definition cell_ok :: "bool \<Rightarrow> string \<Rightarrow> bool" where
  "cell_ok quotes_cr f \<longleftrightarrow> cr_safe quotes_cr f \<and> length f \<le> field_limit"

definition table_ok :: "bool \<Rightarrow> csv_row list \<Rightarrow> string list \<Rightarrow> bool" where
  "table_ok quotes_cr rows columns \<longleftrightarrow>
     columns \<noteq> [] \<and> distinct columns \<and> [] \<notin> set columns \<and> rows \<noteq> [] \<and> list_all (row_over columns) rows
     \<and> list_all (cell_ok quotes_cr) columns \<and> list_all (\<lambda>row. list_all (\<lambda>kv. cell_ok quotes_cr (snd kv)) row) rows"

lemma row_cells:
  assumes "row_over columns row" "distinct columns"
  shows "map (row_get row) columns = map snd row"
proof -
  have "row_get row (fst kv) = snd kv" if "kv \<in> set row" for kv
  proof -
    have "map_of row (fst kv) = Some (snd kv)"
      using assms that by (intro map_of_is_SomeI) (auto simp: row_over_distinct)
    then show ?thesis by (simp add: row_get_def dict_get_def)
  qed
  then show ?thesis using assms by (auto simp: row_over_distinct)
qed

lemma dict_update_fresh: "distinct (map fst (d @ kvs)) \<Longrightarrow> dict_update_all d kvs = d @ kvs"
proof (induction kvs arbitrary: d)
  case (Cons kv kvs)
  have "dict_set d (fst kv) (snd kv) = d @ [kv]"
    using Cons.prems by (induction d) (auto simp: dict_set_def)
  then show ?case using Cons.IH [of "d @ [kv]"] Cons.prems by simp
qed simp

lemma dict_of_distinct_id: "distinct (map fst kvs) \<Longrightarrow> dict_of kvs = kvs"
  using dict_update_fresh [of "[]" kvs] by (simp add: dict_of_def)

lemma clean_row_id:
  assumes "row_over columns row" "distinct columns"
  shows "clean_row columns (dict_row columns (map snd row)) = row"
proof -
  have len: "length row = length columns" using assms by (auto simp: row_over_distinct)
  have cell: "dict_get (dict_row columns (map snd row)) (columns ! i) = Some (Some (snd (row ! i)))" if "i < length columns" for i
    using dict_row_get [of "map snd row" columns i] that len assms(2) by simp
  have names: "columns ! i = fst (row ! i)" if "i < length columns" for i
  proof -
    have "columns = map fst row" using assms by (simp add: row_over_distinct)
    then show ?thesis using that by simp
  qed
  let ?f = "\<lambda>c. (c, case dict_get (dict_row columns (map snd row)) c of Some (Some v) \<Rightarrow> v | _ \<Rightarrow> [])"
  have "map ?f columns = row"
  proof (rule nth_equalityI)
    show "length (map ?f columns) = length row" using len by simp
  next
    fix i assume "i < length (map ?f columns)"
    then have "i < length columns" by simp
    then show "map ?f columns ! i = row ! i" using cell names by (simp add: prod_eq_iff)
  qed
  moreover have "distinct (map fst row)" using assms by (simp add: row_over_distinct)
  ultimately show ?thesis by (simp add: clean_row_def dict_of_distinct_id)
qed

lemma written_table_read:
  assumes "table_ok quotes_cr rows columns"
  shows "imputation_rows (write_csv quotes_cr rows columns) = Inr (rows, columns)"
proof -
  have cells: "map (row_get row) columns = map snd row" if "row \<in> set rows" for row
    using row_cells that assms by (auto simp: table_ok_def list_all_iff)
  let ?recs = "columns # map (map snd) rows"
  have w: "write_csv quotes_cr rows columns = concat (map (written_record quotes_cr) ?recs)"
  proof -
    have m: "map (\<lambda>row. map (row_get row) columns) rows = map (map snd) rows" using cells by (intro map_cong) auto
    show ?thesis by (simp only: write_csv_def m)
  qed
  have ne: "map snd row \<noteq> []" if "row \<in> set rows" for row
    using assms that by (auto simp: table_ok_def row_over_distinct list_all_iff)
  have "fs \<noteq> [] \<and> list_all (cr_safe quotes_cr) fs" if fs: "fs \<in> set ?recs" for fs
  proof (cases "fs = columns")
    case True
    then show ?thesis using assms by (simp add: table_ok_def cell_ok_def list_all_iff)
  next
    case False
    then obtain row where "row \<in> set rows" "fs = map snd row" using fs by auto
    then show ?thesis using assms ne [of row] by (simp add: table_ok_def cell_ok_def list_all_iff)
  qed
  then have "list_all (\<lambda>fs. fs \<noteq> [] \<and> list_all (cr_safe quotes_cr) fs) ?recs" unfolding list_all_iff by blast
  then have recs: "csv_records (write_csv quotes_cr rows columns) = ?recs"
    unfolding w by (rule csv_records_written)
  have clean: "map (\<lambda>r. clean_row columns (dict_row columns r)) (map (map snd) rows) = rows"
    using assms clean_row_id [of columns] by (auto simp: table_ok_def list_all_iff intro!: map_idI)
  have "filter (\<lambda>r. r \<noteq> []) (map (map snd) rows) = map (map snd) rows" "filter (\<lambda>n. n \<noteq> []) columns = columns"
    "fields_fit columns" "list_all fields_fit (map (map snd) rows)"
    using assms ne by (auto simp: table_ok_def filter_id_conv fields_fit_def list_all_iff cell_ok_def)
  then show ?thesis using assms clean by (simp add: imputation_rows_def recs Let_def table_ok_def del: map_map)
qed

section \<open>What filling does\<close>

definition marked_row :: "string \<Rightarrow> string option \<Rightarrow> csv_row \<Rightarrow> csv_row" where
  "marked_row column indicator row =
     (case indicator of None \<Rightarrow> row | Some i \<Rightarrow> dict_set row i (if row_get row column = [] then ''1'' else ''0''))"

definition fill_for :: "string option \<Rightarrow> string \<Rightarrow> (string, string) dict \<Rightarrow> csv_row \<Rightarrow> string" where
  "fill_for group_key fill_value group_fill row =
     (case dict_get group_fill (row_get row (case group_key of None \<Rightarrow> [] | Some k \<Rightarrow> k)) of None \<Rightarrow> fill_value | Some v \<Rightarrow> v)"

definition filled_row ::
    "string \<Rightarrow> imputation_method \<Rightarrow> string option \<Rightarrow> string option \<Rightarrow> string \<Rightarrow> (string, string) dict \<Rightarrow> csv_row \<Rightarrow> csv_row" where
  "filled_row column mth indicator group_key fill_value group_fill row =
     (let row1 = marked_row column indicator row in
      if row_get row column = [] \<and> mth \<noteq> MISSINGNESS_INDICATOR
      then dict_set row1 column (fill_for group_key fill_value group_fill row1) else row1)"

abbreviation fills_cell :: "string \<Rightarrow> imputation_method \<Rightarrow> csv_row \<Rightarrow> bool" where
  "fills_cell column mth row \<equiv> row_get row column = [] \<and> mth \<noteq> MISSINGNESS_INDICATOR"

lemma fill_row_cases:
  "fill_row column mth indicator group_key fill_value group_fill st row =
     (if fills_cell column mth row then
        (if dict_get (marked_row column indicator row) (case group_key of None \<Rightarrow> [] | Some k \<Rightarrow> k) = None
         then Inl (Other ''KeyError'')
         else Inr \<lparr>fs_rows = fs_rows st @ [filled_row column mth indicator group_key fill_value group_fill row],
                fs_imputed_count = fs_imputed_count st + 1,
                fs_group_counts = (case group_key of
                    None \<Rightarrow> fs_group_counts st
                  | Some k \<Rightarrow> add_count (fs_group_counts st)
                      (row_get (filled_row column mth indicator group_key fill_value group_fill row) k, 1))\<rparr>)
      else Inr (st\<lparr>fs_rows := fs_rows st @ [filled_row column mth indicator group_key fill_value group_fill row]\<rparr>))"
  by (auto simp: fill_row_def filled_row_def marked_row_def fill_for_def row_get_def Let_def split: option.splits)

lemma distinct_add_count: "distinct (dict_keys d) \<Longrightarrow> distinct (dict_keys (add_count d kn))"
  by (simp add: add_count_def)

lemma fill_rows_returned:
  "foldR (fill_row column mth indicator group_key fill_value group_fill) st rows = Inr st' \<Longrightarrow>
     distinct (dict_keys (fs_group_counts st)) \<Longrightarrow>
     fs_rows st' = fs_rows st @ map (filled_row column mth indicator group_key fill_value group_fill) rows
     \<and> fs_imputed_count st' = fs_imputed_count st + int (length (filter (fills_cell column mth) rows))
     \<and> sum_list (map snd (fs_group_counts st')) = sum_list (map snd (fs_group_counts st))
         + (if group_key = None then 0 else int (length (filter (fills_cell column mth) rows)))"
proof (induction rows arbitrary: st)
  case (Cons row rows)
  obtain st1 where st1: "fill_row column mth indicator group_key fill_value group_fill st row = Inr st1"
    "foldR (fill_row column mth indicator group_key fill_value group_fill) st1 rows = Inr st'"
    using Cons.prems(1) by (auto simp: result_simps)
  show ?case
  proof (cases "fills_cell column mth row")
    case True
    then have "st1 = \<lparr>fs_rows = fs_rows st @ [filled_row column mth indicator group_key fill_value group_fill row],
        fs_imputed_count = fs_imputed_count st + 1,
        fs_group_counts = (case group_key of None \<Rightarrow> fs_group_counts st
          | Some k \<Rightarrow> add_count (fs_group_counts st) (row_get (filled_row column mth indicator group_key fill_value group_fill row) k, 1))\<rparr>"
      using st1(1) by (simp add: fill_row_cases split: if_splits)
    then show ?thesis using Cons.IH [OF st1(2)] True Cons.prems(2)
      by (cases group_key) (simp_all add: sum_add_count distinct_add_count)
  next
    case False
    then have "st1 = st\<lparr>fs_rows := fs_rows st @ [filled_row column mth indicator group_key fill_value group_fill row]\<rparr>"
      using st1(1) by (simp add: fill_row_cases split: if_splits)
    then show ?thesis using Cons.IH [OF st1(2)] False Cons.prems(2) by auto
  qed
qed simp

abbreviation row_fails :: "string \<Rightarrow> imputation_method \<Rightarrow> string option \<Rightarrow> string option \<Rightarrow> csv_row \<Rightarrow> bool" where
  "row_fails column mth indicator group_key row \<equiv> fills_cell column mth row
     \<and> dict_get (marked_row column indicator row) (case group_key of None \<Rightarrow> [] | Some k \<Rightarrow> k) = None"

lemma fill_rows_outcome:
  "foldR (fill_row column mth indicator group_key fill_value group_fill) st rows = Inl e \<longleftrightarrow>
     list_ex (row_fails column mth indicator group_key) rows \<and> e = Other ''KeyError''"
proof (induction rows arbitrary: st)
  case (Cons row rows)
  show ?case
  proof (cases "row_fails column mth indicator group_key row")
    case True
    then show ?thesis by (auto simp: fill_row_cases [where st = st and row = row])
  next
    case False
    then have "\<exists>st1. fill_row column mth indicator group_key fill_value group_fill st row = Inr st1"
      unfolding fill_row_cases [where st = st and row = row] by (cases "fills_cell column mth row") auto
    then obtain st1 where "fill_row column mth indicator group_key fill_value group_fill st row = Inr st1" ..
    then show ?thesis using Cons.IH [of st1] False by auto
  qed
qed simp

lemma row_get_set: "row_get (dict_set row c v) c' = (if c' = c then v else row_get row c')"
  by (simp add: row_get_def dict_simps)

lemma marked_row_get:
  "row_get (marked_row column indicator row) c =
     (if indicator = Some c then if row_get row column = [] then ''1'' else ''0'' else row_get row c)"
  by (auto simp: marked_row_def row_get_set split: option.split)

lemma filled_row_get:
  "indicator \<noteq> Some column \<Longrightarrow> row_get (filled_row column mth indicator group_key fill_value group_fill row) c =
     (if indicator = Some c then if row_get row column = [] then ''1'' else ''0''
      else if c = column \<and> fills_cell column mth row then fill_for group_key fill_value group_fill (marked_row column indicator row)
      else row_get row c)"
  by (auto simp: filled_row_def row_get_set marked_row_get Let_def)

lemma filled_row_over:
  assumes "row_over columns row" "column \<in> set columns" "indicator = None \<or> (\<exists>i. indicator = Some i \<and> i \<notin> set columns)"
  shows "row_over (columns @ (case indicator of None \<Rightarrow> [] | Some i \<Rightarrow> [i]))
    (filled_row column mth indicator group_key fill_value group_fill row)"
  using assms by (auto simp: row_over_def filled_row_def marked_row_def Let_def dict_keys_set fromkeys.dd_snoc split: option.split)

lemma missing_count_filled:
  assumes "indicator \<noteq> Some column"
    and "\<And>row. fill_for group_key fill_value group_fill (marked_row column indicator row) \<noteq> []"
  shows "missing_count (map (filled_row column mth indicator group_key fill_value group_fill) rows) column =
    (if mth = MISSINGNESS_INDICATOR then missing_count rows column else 0)"
  using assms by (induction rows) (auto simp: missing_count_def filled_row_get [OF assms(1)])

lemma filled_target:
  assumes "indicator \<noteq> Some column" "c \<noteq> column" "indicator \<noteq> Some c"
  shows "map (\<lambda>row. row_get row c) (map (filled_row column mth indicator group_key fill_value group_fill) rows) =
    map (\<lambda>row. row_get row c) rows"
  using assms by (simp add: filled_row_get)

lemma impute_rows_Inr:
  assumes "impute_rows dc step mth column target_column rows columns = Inr t"
  obtains fill_value group_fill where
    "it_indicator_column t = (if should_add_indicator step mth then Some (column @ ''_was_missing'') else None)"
    "should_add_indicator step mth \<longrightarrow> column @ ''_was_missing'' \<notin> set columns"
    "it_columns t = columns @ (case it_indicator_column t of None \<Rightarrow> [] | Some i \<Rightarrow> [i])"
    "if mth = GROUP_MEDIAN then \<exists>k. it_group_key t = Some k \<and> k \<in> set columns \<and> k \<noteq> [] else it_group_key t = None"
    "fit_fill_values dc rows column mth (it_group_key t) = Inr (fill_value, group_fill)" "it_fill_value t = fill_value"
    "it_rows t = map (filled_row column mth (it_indicator_column t) (it_group_key t) fill_value group_fill) rows"
    "it_before_missing t = missing_count rows column"
    "it_imputed_count t = (if mth = MISSINGNESS_INDICATOR then 0 else missing_count rows column)"
    "sum_list (map snd (it_group_counts t)) = (if mth = GROUP_MEDIAN then missing_count rows column else 0)"
    "\<not> list_ex (row_fails column mth (it_indicator_column t) (it_group_key t)) rows"
proof -
  obtain indicator group_key fill_value group_fill st where
    ind: "chosen_indicator step mth column columns = Inr indicator"
    and key: "chosen_group_key step mth columns = Inr group_key"
    and fit: "fit_fill_values dc rows column mth group_key = Inr (fill_value, group_fill)"
    and st: "foldR (fill_row column mth indicator group_key fill_value group_fill)
      \<lparr>fs_rows = [], fs_imputed_count = 0, fs_group_counts = []\<rparr> rows = Inr st"
    and t: "t = \<lparr>it_rows = fs_rows st, it_columns = columns @ (case indicator of None \<Rightarrow> [] | Some i \<Rightarrow> [i]),
       it_indicator_column = indicator, it_group_key = group_key, it_fill_value = fill_value,
       it_before_missing = missing_count rows column, it_imputed_count = fs_imputed_count st, it_group_counts = fs_group_counts st\<rparr>"
    using assms by (auto simp: impute_rows_def bindR_Inr_iff split: if_splits)
  note r = fill_rows_returned [OF st]
  have filled: "int (length (filter (fills_cell column mth) rows)) =
      (if mth = MISSINGNESS_INDICATOR then 0 else missing_count rows column)"
    by (simp add: missing_count_def)
  have k: "if mth = GROUP_MEDIAN then \<exists>k. group_key = Some k \<and> k \<in> set columns \<and> k \<noteq> [] else group_key = None"
    using key by (auto simp: chosen_group_key_def imputation_group_key_def bindR_Inr_iff split: if_splits json.splits)
  have i: "indicator = (if should_add_indicator step mth then Some (column @ ''_was_missing'') else None)"
    "should_add_indicator step mth \<longrightarrow> column @ ''_was_missing'' \<notin> set columns"
    using ind by (auto simp: chosen_indicator_def indicator_column_name_def Let_def bindR_Inr_iff split: if_splits)
  have ok: "\<not> list_ex (row_fails column mth indicator group_key) rows"
  proof
    assume "list_ex (row_fails column mth indicator group_key) rows"
    then have "foldR (fill_row column mth indicator group_key fill_value group_fill)
        \<lparr>fs_rows = [], fs_imputed_count = 0, fs_group_counts = []\<rparr> rows = Inl (Other ''KeyError'')"
      by (simp add: fill_rows_outcome)
    with st show False by simp
  qed
  have counts: "sum_list (map snd (fs_group_counts st)) = (if mth = GROUP_MEDIAN then missing_count rows column else 0)"
    using r k filled by (auto simp: dict_keys_def split: if_splits)
  have rows: "fs_rows st = map (filled_row column mth indicator group_key fill_value group_fill) rows"
    "fs_imputed_count st = (if mth = MISSINGNESS_INDICATOR then 0 else missing_count rows column)"
    using r filled by (simp_all add: dict_keys_def)
  show thesis
  proof (rule that [of fill_value group_fill])
    show "it_indicator_column t = (if should_add_indicator step mth then Some (column @ ''_was_missing'') else None)"
      unfolding t imputed_table.simps by (rule i(1))
    show "should_add_indicator step mth \<longrightarrow> column @ ''_was_missing'' \<notin> set columns" by (rule i(2))
    show "if mth = GROUP_MEDIAN then \<exists>k. it_group_key t = Some k \<and> k \<in> set columns \<and> k \<noteq> [] else it_group_key t = None"
      unfolding t imputed_table.simps by (rule k)
    show "fit_fill_values dc rows column mth (it_group_key t) = Inr (fill_value, group_fill)"
      unfolding t imputed_table.simps by (rule fit)
    show "it_rows t = map (filled_row column mth (it_indicator_column t) (it_group_key t) fill_value group_fill) rows"
      unfolding t imputed_table.simps by (rule rows(1))
    show "it_imputed_count t = (if mth = MISSINGNESS_INDICATOR then 0 else missing_count rows column)"
      unfolding t imputed_table.simps by (rule rows(2))
    show "sum_list (map snd (it_group_counts t)) = (if mth = GROUP_MEDIAN then missing_count rows column else 0)"
      unfolding t imputed_table.simps by (rule counts)
    show "\<not> list_ex (row_fails column mth (it_indicator_column t) (it_group_key t)) rows"
      unfolding t imputed_table.simps by (rule ok)
  qed (simp_all add: t)
qed

section \<open>When imputation returns\<close>

lemma row_over_get:
  "row_over columns row \<Longrightarrow> dict_get row c = None \<longleftrightarrow> c \<notin> set columns"
  by (simp add: dict_get_None_iff row_over_def)

lemma marked_row_has:
  "row_over columns row \<Longrightarrow> dict_get (marked_row column indicator row) c = None \<longleftrightarrow> c \<notin> set columns \<and> indicator \<noteq> Some c"
  by (auto simp: marked_row_def dict_get_None_iff row_over_def split: option.split)

lemma chosen_indicator_Inr:
  "chosen_indicator step mth column columns = Inr indicator \<longleftrightarrow>
     (should_add_indicator step mth \<longrightarrow> column @ ''_was_missing'' \<notin> set columns)
     \<and> indicator = (if should_add_indicator step mth then Some (column @ ''_was_missing'') else None)"
  by (auto simp: chosen_indicator_def indicator_column_name_def Let_def bindR_Inr_iff)

lemma chosen_group_key_cases:
  assumes "chosen_group_key step mth columns = Inr group_key"
  shows "if mth = GROUP_MEDIAN then \<exists>k. group_key = Some k \<and> k \<in> set columns else group_key = None"
  using assms by (auto simp: chosen_group_key_def imputation_group_key_def bindR_Inr_iff split: if_splits json.splits)

lemma rows_fail_iff:
  assumes "chosen_indicator step mth column columns = Inr indicator" "chosen_group_key step mth columns = Inr group_key"
    and "list_all (row_over columns) rows" "[] \<notin> set columns"
  shows "list_ex (row_fails column mth indicator group_key) rows \<longleftrightarrow> mth \<in> {MEDIAN, MODE} \<and> missing_count rows column \<noteq> 0"
proof -
  have ind: "indicator \<noteq> Some []" using assms(1) by (simp add: chosen_indicator_Inr)
  have key: "(case group_key of None \<Rightarrow> [] | Some k \<Rightarrow> k) \<notin> set columns \<longleftrightarrow> mth \<noteq> GROUP_MEDIAN"
    using chosen_group_key_cases [OF assms(2)] assms(4) by (auto split: if_splits)
  have "row_fails column mth indicator group_key row \<longleftrightarrow> mth \<in> {MEDIAN, MODE} \<and> row_get row column = []"
    if "row \<in> set rows" for row
  proof -
    have "row_over columns row" using assms(3) that by (simp add: list_all_iff)
    note get = marked_row_has [OF this, of column indicator]
    have "indicator \<noteq> Some (case group_key of None \<Rightarrow> [] | Some k \<Rightarrow> k)" if "mth \<noteq> GROUP_MEDIAN"
      using chosen_group_key_cases [OF assms(2)] ind that by simp
    then show ?thesis unfolding get key by (cases mth) auto
  qed
  then show ?thesis by (auto simp: list_ex_iff missing_count_def filter_empty_conv)
qed

lemma imputed_rows_outcome:
  assumes "chosen_indicator step mth column columns = Inr indicator" "chosen_group_key step mth columns = Inr group_key"
    and "fit_fill_values dc rows column mth group_key = Inr (fill_value, group_fill)"
    and "list_all (row_over columns) rows" "[] \<notin> set columns" "target_column \<in> set columns" "column \<noteq> target_column"
  shows "if mth \<in> {MEDIAN, MODE} \<and> missing_count rows column \<noteq> 0
    then impute_rows dc step mth column target_column rows columns = Inl (Other ''KeyError'')
    else is_ok (impute_rows dc step mth column target_column rows columns)"
proof -
  let ?loop = "foldR (fill_row column mth indicator group_key fill_value group_fill)
      \<lparr>fs_rows = [], fs_imputed_count = 0, fs_group_counts = []\<rparr> rows"
  note fails = rows_fail_iff [OF assms(1,2,4,5)]
  show ?thesis
  proof (cases ?loop)
    case (Inl e)
    then have "impute_rows dc step mth column target_column rows columns = Inl e"
      using assms(1-3) by (simp add: impute_rows_def)
    then show ?thesis using Inl fails by (simp add: fill_rows_outcome)
  next
    case (Inr st)
    have "fs_rows st = map (filled_row column mth indicator group_key fill_value group_fill) rows"
      using fill_rows_returned [OF Inr] by (simp add: dict_keys_def)
    moreover have "indicator \<noteq> Some column" "indicator \<noteq> Some target_column"
      using assms(1,6) by (auto simp: chosen_indicator_Inr)
    ultimately have same: "map (\<lambda>row. row_get row target_column) (fs_rows st) = map (\<lambda>row. row_get row target_column) rows"
      using assms(7) filled_target [of indicator column target_column mth group_key fill_value group_fill rows] by simp
    have "is_ok (impute_rows dc step mth column target_column rows columns)"
      using assms(1-3) Inr by (simp add: impute_rows_def same)
    moreover have "\<not> list_ex (row_fails column mth indicator group_key) rows"
    proof
      assume "list_ex (row_fails column mth indicator group_key) rows"
      then have "?loop = Inl (Other ''KeyError'')" by (simp add: fill_rows_outcome)
      with Inr show False by simp
    qed
    ultimately show ?thesis using fails by auto
  qed
qed

text \<open>C26: Imputing a table returns exactly when the indicator column is new, the group key is a column, the fill values can
  be fitted and, for the median and the mode, no cell of the column is missing: with a missing cell those two methods look
  up the empty group key in the row and raise KeyError. The check that the target column is unchanged never fires.\<close>

theorem imputation_returns_iff:
  assumes "list_all (row_over columns) rows" "[] \<notin> set columns" "target_column \<in> set columns" "column \<noteq> target_column"
  shows "(is_ok (impute_rows dc step mth column target_column rows columns) \<longleftrightarrow>
      is_ok (chosen_indicator step mth column columns)
      \<and> is_ok (bindR (chosen_group_key step mth columns) (fit_fill_values dc rows column mth))
      \<and> (mth \<in> {MEDIAN, MODE} \<longrightarrow> missing_count rows column = 0))
    \<and> (is_ok (chosen_indicator step mth column columns)
      \<and> is_ok (bindR (chosen_group_key step mth columns) (fit_fill_values dc rows column mth))
      \<and> mth \<in> {MEDIAN, MODE} \<and> missing_count rows column \<noteq> 0 \<longrightarrow>
        impute_rows dc step mth column target_column rows columns = Inl (Other ''KeyError''))"
proof (cases "chosen_indicator step mth column columns")
  case (Inl e)
  then show ?thesis by (simp add: impute_rows_def)
next
  case (Inr indicator)
  note ind = this
  show ?thesis
  proof (cases "bindR (chosen_group_key step mth columns) (fit_fill_values dc rows column mth)")
    case (Inl e)
    then have "impute_rows dc step mth column target_column rows columns = Inl e"
      using ind by (auto simp: impute_rows_def bindR_Inl_iff)
    with Inl show ?thesis by simp
  next
    case (Inr fit)
    then obtain group_key fill_value group_fill where "chosen_group_key step mth columns = Inr group_key"
      "fit_fill_values dc rows column mth group_key = Inr (fill_value, group_fill)"
      by (cases fit) (auto simp: bindR_Inr_iff)
    from imputed_rows_outcome [OF ind this assms] Inr ind show ?thesis by (auto split: if_splits)
  qed
qed

section \<open>What imputation changes\<close>

text \<open>C25: An imputed table has the rows of the source in order, over its columns and the indicator. No cell of another column
  changes, the target among them, no observed cell of the column changes, and the indicator says which cells were missing.\<close>

theorem imputation_touches_only_missing:
  assumes "impute_rows dc step mth column target_column rows columns = Inr t"
    and "list_all (row_over columns) rows" "column \<in> set columns"
  shows "length (it_rows t) = length rows \<and> list_all (row_over (it_columns t)) (it_rows t)
    \<and> (\<forall>i < length rows. \<forall>c \<in> set columns. c \<noteq> column \<or> row_get (rows ! i) column \<noteq> [] \<longrightarrow>
         row_get (it_rows t ! i) c = row_get (rows ! i) c)
    \<and> (\<forall>ind. it_indicator_column t = Some ind \<longrightarrow> ind \<notin> set columns
         \<and> (\<forall>i < length rows. row_get (it_rows t ! i) ind = (if row_get (rows ! i) column = [] then ''1'' else ''0'')))
    \<and> (mth = MISSINGNESS_INDICATOR \<longrightarrow> (\<forall>i < length rows. \<forall>c \<in> set columns. row_get (it_rows t ! i) c = row_get (rows ! i) c))"
  using assms(1)
proof (rule impute_rows_Inr)
  fix fill_value group_fill
  assume ind: "it_indicator_column t = (if should_add_indicator step mth then Some (column @ ''_was_missing'') else None)"
    "should_add_indicator step mth \<longrightarrow> column @ ''_was_missing'' \<notin> set columns"
    and cols: "it_columns t = columns @ (case it_indicator_column t of None \<Rightarrow> [] | Some i \<Rightarrow> [i])"
    and rows: "it_rows t = map (filled_row column mth (it_indicator_column t) (it_group_key t) fill_value group_fill) rows"
  have fresh: "it_indicator_column t = Some i \<Longrightarrow> i \<notin> set columns" for i
    using ind by (simp split: if_splits)
  then have "it_indicator_column t \<noteq> Some column" using assms(3) by blast
  note get = filled_row_get [OF this, of mth "it_group_key t" fill_value group_fill]
  have "list_all (row_over (it_columns t)) (it_rows t)"
    using assms(2,3) fresh by (auto simp: rows cols list_all_iff intro!: filled_row_over)
  moreover have "length (it_rows t) = length rows" by (simp add: rows)
  moreover have "row_get (it_rows t ! i) c = (if it_indicator_column t = Some c then if row_get (rows ! i) column = [] then ''1'' else ''0''
      else if c = column \<and> fills_cell column mth (rows ! i)
      then fill_for (it_group_key t) fill_value group_fill (marked_row column (it_indicator_column t) (rows ! i)) else row_get (rows ! i) c)"
    if "i < length rows" for i c
    using that get by (simp add: rows)
  ultimately show ?thesis using fresh by auto
qed

section \<open>Group medians\<close>

lemma observed_snoc: "observed (rows @ [row]) column = observed rows column @ (if row_get row column = [] then [] else [row_get row column])"
  by (simp add: observed_def)

definition group_rows :: "string \<Rightarrow> string \<Rightarrow> csv_row list \<Rightarrow> csv_row list" where
  "group_rows k g rows = filter (\<lambda>row. row_get row k = g) rows"

lemma grouped_values_get:
  "dict_get (grouped_values rows column k) g =
     (let vs = observed (group_rows k g rows) column in if vs = [] then None else Some vs)"
proof (induction rows rule: rev_induct)
  case Nil
  show ?case by (simp add: grouped_values_def observed_def group_rows_def)
next
  case (snoc row rows)
  have step: "grouped_values (rows @ [row]) column k = add_value column k (grouped_values rows column k) row"
    by (simp add: grouped_values_def)
  show ?case
    using snoc unfolding step
    by (auto simp: add_value_def group_rows_def observed_snoc Let_def dict_get_set split: option.splits if_splits)
qed

lemma distinct_grouped: "distinct (dict_keys (grouped_values rows column k))"
proof (induction rows rule: rev_induct)
  case Nil
  show ?case by (simp add: grouped_values_def dict_keys_def)
next
  case (snoc row rows)
  then show ?case by (simp add: grouped_values_def add_value_def)
qed

lemma group_medians_get:
  "group_medians dc grouped = Inr medians \<Longrightarrow> distinct (dict_keys grouped) \<Longrightarrow>
     (case dict_get grouped g of
        None \<Rightarrow> dict_get medians g = None
      | Some vs \<Rightarrow> if vs = [] then dict_get medians g = None
          else \<exists>m. dict_get medians g = Some m \<and> median_text dc vs = Inr m)"
proof (induction grouped arbitrary: medians)
  case Nil
  then show ?case by (simp add: group_medians_def)
next
  case (Cons gv grouped)
  obtain g' vs where gv: "gv = (g', vs)" by (cases gv)
  have rest: "distinct (dict_keys grouped)" "dict_get grouped g' = None"
    using Cons.prems(2) by (auto simp: gv dict_keys_def dict_get_None_iff)
  show ?case
  proof (cases "vs = []")
    case True
    then have "group_medians dc grouped = Inr medians" using Cons.prems(1) by (simp add: group_medians_def gv)
    from Cons.IH [OF this rest(1)] rest(2) True show ?thesis by (auto simp: gv split: option.splits)
  next
    case False
    then obtain m ms where "median_text dc vs = Inr m" "group_medians dc grouped = Inr ms" "medians = (g', m) # ms"
      using Cons.prems(1) by (auto simp: group_medians_def gv result_simps)
    with Cons.IH [OF this(2) rest(1)] rest(2) False show ?thesis by (auto simp: gv split: option.splits)
  qed
qed

text \<open>The group median fills every missing cell with the median of the observed values of the rows with the same group value, or
  of all rows when the group has none.\<close>

theorem group_median_fills:
  assumes "impute_rows dc step GROUP_MEDIAN column target_column rows columns = Inr t"
    and "i < length rows" "row_get (rows ! i) column = []" "column \<in> set columns"
  shows "\<exists>k \<in> set columns. it_group_key t = Some k
    \<and> median_text dc (let vs = observed (group_rows k (row_get (rows ! i) k) rows) column in if vs = [] then observed rows column else vs)
        = Inr (row_get (it_rows t ! i) column)"
  using assms(1)
proof (rule impute_rows_Inr)
  fix fill_value group_fill
  assume ind: "it_indicator_column t = (if should_add_indicator step GROUP_MEDIAN then Some (column @ ''_was_missing'') else None)"
    "should_add_indicator step GROUP_MEDIAN \<longrightarrow> column @ ''_was_missing'' \<notin> set columns"
    and key: "if GROUP_MEDIAN = GROUP_MEDIAN then \<exists>k. it_group_key t = Some k \<and> k \<in> set columns \<and> k \<noteq> [] else it_group_key t = None"
    and fit: "fit_fill_values dc rows column GROUP_MEDIAN (it_group_key t) = Inr (fill_value, group_fill)"
    and rows: "it_rows t = map (filled_row column GROUP_MEDIAN (it_indicator_column t) (it_group_key t) fill_value group_fill) rows"
  obtain k where k: "it_group_key t = Some k" "k \<in> set columns" using key by auto
  have m: "median_text dc (observed rows column) = Inr fill_value" "group_medians dc (grouped_values rows column k) = Inr group_fill"
    using fit by (auto simp: fit_fill_values_def k result_simps)
  have ne: "it_indicator_column t \<noteq> Some column" "it_indicator_column t \<noteq> Some k" using ind assms(4) k(2) by auto
  have "row_get (it_rows t ! i) column = fill_for (Some k) fill_value group_fill (marked_row column (it_indicator_column t) (rows ! i))"
    using assms(2,3) ne(1) by (simp add: rows filled_row_get k)
  also have "\<dots> = (case dict_get group_fill (row_get (rows ! i) k) of None \<Rightarrow> fill_value | Some v \<Rightarrow> v)"
    using ne(2) by (simp add: fill_for_def marked_row_get)
  finally show ?thesis
    using group_medians_get [OF m(2) distinct_grouped, of "row_get (rows ! i) k"] m(1) k
    by (auto simp: grouped_values_get Let_def split: if_splits)
qed

section \<open>The candidate is read back\<close>

text \<open>C27: The candidate dataset is read back as the imputed table: parsing the text the writer produces with the reader of the
  executors gives the rows and columns that were written, as long as the source has rows and distinct, non-empty column names,
  the cells fit the reader's field limit and hold no carriage return that the writer leaves unquoted.\<close>

theorem candidate_reads_back:
  assumes "impute_rows dc step mth column target_column rows columns = Inr t"
    and "rows \<noteq> []" "list_all (row_over columns) rows" "distinct columns" "[] \<notin> set columns" "column \<in> set columns"
    and "list_all (cell_ok quotes_cr) (it_columns t)" "list_all (\<lambda>row. list_all (\<lambda>kv. cell_ok quotes_cr (snd kv)) row) (it_rows t)"
  shows "imputation_rows (write_csv quotes_cr (it_rows t) (it_columns t)) = Inr (it_rows t, it_columns t)"
proof (rule written_table_read)
  from assms(1) show "table_ok quotes_cr (it_rows t) (it_columns t)"
  proof (rule impute_rows_Inr)
    fix fill_value group_fill
    assume ind: "it_indicator_column t = (if should_add_indicator step mth then Some (column @ ''_was_missing'') else None)"
      "should_add_indicator step mth \<longrightarrow> column @ ''_was_missing'' \<notin> set columns"
      and cols: "it_columns t = columns @ (case it_indicator_column t of None \<Rightarrow> [] | Some i \<Rightarrow> [i])"
      and rows: "it_rows t = map (filled_row column mth (it_indicator_column t) (it_group_key t) fill_value group_fill) rows"
    have fresh: "it_indicator_column t = None \<or> (\<exists>i. it_indicator_column t = Some i \<and> i \<notin> set columns)"
      using ind by (simp split: if_splits)
    have "list_all (row_over (it_columns t)) (it_rows t)"
      using assms(3,6) fresh by (auto simp: rows cols list_all_iff intro!: filled_row_over)
    moreover have "distinct (it_columns t)" "[] \<notin> set (it_columns t)" "it_columns t \<noteq> []"
      using assms(4-6) ind by (auto simp: cols split: if_splits)
    ultimately show ?thesis using assms(2,7,8) by (simp add: table_ok_def rows)
  qed
qed

section \<open>What the report says\<close>

lemma median_ne: "(\<And>d. dc_text dc d \<noteq> []) \<Longrightarrow> median_text dc vs = Inr m \<Longrightarrow> m \<noteq> []"
  by (auto simp: median_text_def Let_def format_decimal_def result_simps str_of_int_ne split: if_splits option.splits)

lemma group_fills_ne:
  assumes "\<And>d. dc_text dc d \<noteq> []" "fit_fill_values dc rows column GROUP_MEDIAN (Some k) = Inr (fill_value, group_fill)"
  shows "fill_for group_key fill_value group_fill row \<noteq> []"
proof -
  have m: "median_text dc (observed rows column) = Inr fill_value" "group_medians dc (grouped_values rows column k) = Inr group_fill"
    using assms(2) by (auto simp: fit_fill_values_def result_simps)
  have "v \<noteq> []" if "dict_get group_fill g = Some v" for g v
    using group_medians_get [OF m(2) distinct_grouped, of g] that median_ne [OF assms(1)]
    by (auto split: option.splits if_splits)
  then show ?thesis using median_ne [OF assms(1) m(1)] by (auto simp: fill_for_def split: option.split)
qed

lemma missing_after:
  assumes "\<And>d. dc_text dc d \<noteq> []" "impute_rows dc step mth column target_column rows columns = Inr t"
    and "list_all (row_over columns) rows" "[] \<notin> set columns" "column \<in> set columns"
  shows "missing_count (it_rows t) column = (if mth = MISSINGNESS_INDICATOR then missing_count rows column else 0)
    \<and> (mth \<in> {MEDIAN, MODE} \<longrightarrow> missing_count rows column = 0)"
  using assms(2)
proof (rule impute_rows_Inr)
  fix fill_value group_fill
  assume ind: "it_indicator_column t = (if should_add_indicator step mth then Some (column @ ''_was_missing'') else None)"
    "should_add_indicator step mth \<longrightarrow> column @ ''_was_missing'' \<notin> set columns"
    and key: "if mth = GROUP_MEDIAN then \<exists>k. it_group_key t = Some k \<and> k \<in> set columns \<and> k \<noteq> [] else it_group_key t = None"
    and fit: "fit_fill_values dc rows column mth (it_group_key t) = Inr (fill_value, group_fill)"
    and rows: "it_rows t = map (filled_row column mth (it_indicator_column t) (it_group_key t) fill_value group_fill) rows"
    and ok: "\<not> list_ex (row_fails column mth (it_indicator_column t) (it_group_key t)) rows"
  have ne: "it_indicator_column t \<noteq> Some column" "it_indicator_column t \<noteq> Some []" using ind assms(5) by auto
  have none: "missing_count rows column = 0" if "mth \<in> {MEDIAN, MODE}"
  proof -
    have g: "it_group_key t = None" "mth \<noteq> MISSINGNESS_INDICATOR" using key that by auto
    have "row_get row column \<noteq> []" if "row \<in> set rows" for row
    proof -
      have "row_over columns row" using assms(3) that by (simp add: list_all_iff)
      from marked_row_has [OF this, of column "it_indicator_column t" "[]"] show ?thesis
        using ok that g ne(2) assms(4) by (auto simp: list_ex_iff)
    qed
    then show ?thesis by (simp add: missing_count_def filter_empty_conv)
  qed
  show ?thesis
  proof (cases "mth = GROUP_MEDIAN")
    case True
    then obtain k where "it_group_key t = Some k" using key by auto
    then have "fill_for (it_group_key t) fill_value group_fill row \<noteq> []" for row
      using group_fills_ne [OF assms(1), of rows column k] fit True by simp
    then show ?thesis using True missing_count_filled [OF ne(1)] by (simp add: rows)
  next
    case False
    have "fills_cell column mth row \<Longrightarrow> row \<in> set rows \<Longrightarrow> False" for row
      using False none by (cases mth) (auto simp: missing_count_def filter_empty_conv)
    then have "row_get (filled_row column mth (it_indicator_column t) (it_group_key t) fill_value group_fill row) column = row_get row column"
      if "row \<in> set rows" for row
      using that ne(1) by (auto simp: filled_row_get)
    then have "missing_count (it_rows t) column = missing_count rows column"
      by (simp add: missing_count_def rows filter_map comp_def cong: filter_cong)
    then show ?thesis using False none by (cases mth) auto
  qed
qed

lemma executed_imputation:
  assumes "execute_tabular_imputation_action env dc quotes_cr enc ser request st = (Inr (report, candidate, report_artifact), st')"
  shows "\<exists>mth column table. compute_imputation env dc request st = Inr (mth, column, table)
    \<and> imputation_report_of env request mth column table (ra_artifact_ref candidate) = Inr report"
  using assms by (auto simp: execute_tabular_imputation_action_def Let_def result_simps split: sum.splits prod.splits)

text \<open>The counts of the report of a step are those of the data: the rows and missing cells of the source as the
  executor reads it, no missing cell left and one imputation per missing cell unless only the indicator was asked for,
  group counts that add up to the imputed cells, never for the target column. A median or mode step that returns had
  nothing to impute.\<close>

theorem imputation_report_counts:
  assumes "\<And>d. dc_text dc d \<noteq> []"
    and "compute_imputation env dc request st = Inr (mth, column, table)"
    and "imputation_report_of env request mth column table candidate = Inr report"
  shows "\<exists>data info text rows columns c.
      storage_get env (ar_uri (iq_source_artifact request)) st = Inr (data, info) \<and> se_decode env data = Some text
      \<and> imputation_rows text = Inr (rows, columns) \<and> im_columns report = [c] \<and> ic_column c = column \<and> ic_method c = mth
      \<and> column \<in> set columns \<and> column \<noteq> iq_target_column request
      \<and> im_before_row_count report = int (length rows) \<and> im_after_row_count report = int (length rows)
      \<and> ic_before_missing_count c = missing_count rows column
      \<and> (if mth = MISSINGNESS_INDICATOR then ic_imputed_count c = 0 \<and> ic_after_missing_count c = ic_before_missing_count c
         else ic_imputed_count c = ic_before_missing_count c \<and> ic_after_missing_count c = 0)
      \<and> (mth = GROUP_MEDIAN \<longrightarrow> sum_list (map snd (ic_group_imputed_counts c)) = ic_imputed_count c)
      \<and> (mth \<in> {MEDIAN, MODE} \<longrightarrow> ic_before_missing_count c = 0)"
proof -
  obtain data info source where target: "imputation_target request = Inr (mth, column)"
    and got: "storage_get env (ar_uri (iq_source_artifact request)) st = Inr (data, info)" "se_decode env data = Some source"
    and imputed: "impute_text dc request mth column source = Inr table"
    using assms(2) by (auto simp: compute_imputation_def result_simps split: option.splits)
  obtain rows columns where read: "imputation_rows source = Inr (rows, columns)" and col: "column \<in> set columns"
    and table: "impute_rows dc (iq_step request) mth column (iq_target_column request) rows columns = Inr table"
    using imputed by (auto simp: impute_text_def result_simps split: if_splits)
  have target_other: "column \<noteq> iq_target_column request"
    using target by (auto simp: imputation_target_def Let_def result_simps split: if_splits)
  note over = read_rows [OF read]
  note missing = missing_after [OF assms(1) table over(1,3) col]
  have counts: "it_before_missing table = missing_count rows column" "length (it_rows table) = length rows"
    "it_imputed_count table = (if mth = MISSINGNESS_INDICATOR then 0 else missing_count rows column)"
    "sum_list (map snd (it_group_counts table)) = (if mth = GROUP_MEDIAN then missing_count rows column else 0)"
    using table by (auto elim!: impute_rows_Inr)
  obtain c where c: "im_columns report = [c]" "im_before_row_count report = int (length rows)" "im_after_row_count report = int (length rows)"
    "ic_column c = column" "ic_method c = mth" "ic_before_missing_count c = it_before_missing table"
    "ic_after_missing_count c = missing_count (it_rows table) column" "ic_imputed_count c = it_imputed_count table"
    "ic_group_imputed_counts c = it_group_counts table"
    using assms(3) counts(2) by (auto simp: imputation_report_of_def Let_def result_simps)
  show ?thesis
    using got read c col target_other counts missing by (intro exI conjI) (auto split: if_splits)
qed

section \<open>Samples\<close>

definition rat_decimals :: "rat decimal_ops" where
  "rat_decimals =
     \<lparr>dc_of_str = rat_of_str, dc_finite = (\<lambda>_. True), dc_value = (\<lambda>x. x), dc_half_sum = (\<lambda>x y. Some ((x + y) / 2)),
      dc_as_int = (\<lambda>x. if rat_of_int \<lfloor>x\<rfloor> = x then Some \<lfloor>x\<rfloor> else None), dc_text = (\<lambda>_. ''0.5'')\<rparr>"

definition sample_step :: "string \<Rightarrow> action_plan_step" where
  "sample_step mth =
     \<lparr>ps_step_id = ''s1'', ps_type = ''IMPUTE_MISSING_VALUES'', ps_depends_on = [], ps_idempotency_key = ''k'', ps_method_id = mth,
      ps_plugin_id = ''p'', ps_plugin_version = ''1'', ps_config_hash = zero_digest, ps_policy_version = ''v0'', ps_validation_gates = [],
      ps_preconditions = [], ps_input_artifacts = [], ps_output_artifact_kind = ''csv'',
      ps_config = [(''column'', JStr ''v''), (''group_key'', JStr ''g'')], ps_random_seed = None,
      ps_retry_policy = \<lparr>rp_max_attempts = 1, rp_retryable_errors = []\<rparr>, ps_on_failure = ''stop'', ps_promotion_scope = ''x''\<rparr>"

definition sample_table :: "csv_row list" where
  "sample_table = [[(''g'', ''a''), (''v'', ''3''), (''y'', ''0'')], [(''g'', ''a''), (''v'', []), (''y'', ''1'')],
     [(''g'', ''b''), (''v'', ''7''), (''y'', ''1'')]]"

abbreviation sample_columns :: "string list" where
  "sample_columns \<equiv> [''g'', ''v'', ''y'']"

lemma sample_over: "list_all (row_over sample_columns) sample_table"
  by code_simp

definition sample_imputed :: imputed_table where
  "sample_imputed = projr (impute_rows rat_decimals (sample_step ''group_median'') GROUP_MEDIAN ''v'' ''y'' sample_table sample_columns)"

lemma sample_imputed_ok: "is_ok (impute_rows rat_decimals (sample_step ''group_median'') GROUP_MEDIAN ''v'' ''y'' sample_table sample_columns)"
  by code_simp

lemma sample_imputed_rows:
  "it_rows sample_imputed = [[(''g'', ''a''), (''v'', ''3''), (''y'', ''0'')], [(''g'', ''a''), (''v'', ''3''), (''y'', ''1'')],
     [(''g'', ''b''), (''v'', ''7''), (''y'', ''1'')]]"
  "it_columns sample_imputed = sample_columns"
  "it_before_missing sample_imputed = 1 \<and> it_imputed_count sample_imputed = 1"
  by code_simp+

lemma sample_table_ok: "table_ok False sample_table sample_columns"
proof -
  show ?thesis using sample_over by (simp add: table_ok_def sample_table_def cell_ok_def cr_safe_def CR_def field_limit_def)
qed

lemma sample_imputed: "impute_rows rat_decimals (sample_step ''group_median'') GROUP_MEDIAN ''v'' ''y'' sample_table sample_columns = Inr sample_imputed"
  using sample_imputed_ok by (auto simp: sample_imputed_def is_ok_iff)

theorem imputation_returns_iff_witness:
  "impute_rows rat_decimals (sample_step ''median'') MEDIAN ''v'' ''y'' sample_table sample_columns = Inl (Other ''KeyError'')"
proof -
  have fit: "is_ok (chosen_indicator (sample_step ''median'') MEDIAN ''v'' sample_columns)
    \<and> is_ok (bindR (chosen_group_key (sample_step ''median'') MEDIAN sample_columns) (fit_fill_values rat_decimals sample_table ''v'' MEDIAN))
    \<and> missing_count sample_table ''v'' \<noteq> 0"
    by code_simp
  show ?thesis
    using imputation_returns_iff [OF sample_over, of "''y''" "''v''" rat_decimals "sample_step ''median''" MEDIAN] fit by simp
qed

theorem imputation_touches_only_missing_witness:
  "row_get (it_rows sample_imputed ! 1) ''y'' = ''1'' \<and> row_get (it_rows sample_imputed ! 0) ''v'' = ''3'' \<and> length (it_rows sample_imputed) = 3"
  using imputation_touches_only_missing [OF sample_imputed sample_over] by (auto simp: sample_table_def row_get_def)

theorem group_median_fills_witness: "row_get (it_rows sample_imputed ! 1) ''v'' = ''3''"
proof -
  obtain k where k: "it_group_key sample_imputed = Some k"
    and m: "median_text rat_decimals (let vs = observed (group_rows k (row_get (sample_table ! 1) k) sample_table) ''v'' in
        if vs = [] then observed sample_table ''v'' else vs) = Inr (row_get (it_rows sample_imputed ! 1) ''v'')"
    using group_median_fills [OF sample_imputed, of 1] by (auto simp: sample_table_def row_get_def)
  have "it_group_key sample_imputed = Some ''g''" by code_simp
  moreover have "median_text rat_decimals (let vs = observed (group_rows ''g'' (row_get (sample_table ! 1) ''g'') sample_table) ''v'' in
        if vs = [] then observed sample_table ''v'' else vs) = Inr ''3''"
    by code_simp
  ultimately show ?thesis using k m by simp
qed

theorem candidate_reads_back_witness:
  "imputation_rows (write_csv False (it_rows sample_imputed) (it_columns sample_imputed)) = Inr (it_rows sample_imputed, it_columns sample_imputed)"
proof -
  have "list_all (cell_ok False) (it_columns sample_imputed)
    \<and> list_all (\<lambda>row. list_all (\<lambda>kv. cell_ok False (snd kv)) row) (it_rows sample_imputed)"
    by (simp add: sample_imputed_rows cell_ok_def cr_safe_def CR_def field_limit_def)
  then show ?thesis
    by (intro candidate_reads_back [OF sample_imputed _ sample_over]) (simp_all add: sample_table_def)
qed

definition sample_imputation_request :: imputation_request where
  "sample_imputation_request =
     \<lparr>iq_action_plan_id = ''p1'', iq_step = sample_step ''group_median'', iq_source_dataset_version_id = ''v1'',
      iq_candidate_dataset_version_id = ''cv'', iq_target_column = ''y'', iq_source_artifact = sample_ref ''s'' [],
      iq_created_by_job_id = ''j'', iq_config_hash = zero_digest, iq_report_id = None, iq_generated_at = None\<rparr>"

definition sample_csv :: string where
  "sample_csv = write_csv False sample_table sample_columns"

lemma sample_text_imputed:
  "imputation_target sample_imputation_request = Inr (GROUP_MEDIAN, ''v'')"
  "impute_text rat_decimals sample_imputation_request GROUP_MEDIAN ''v'' sample_csv = Inr sample_imputed"
proof -
  show "imputation_target sample_imputation_request = Inr (GROUP_MEDIAN, ''v'')" by code_simp
  have "imputation_rows sample_csv = Inr (sample_table, sample_columns)"
    unfolding sample_csv_def by (rule written_table_read [OF sample_table_ok])
  then show "impute_text rat_decimals sample_imputation_request GROUP_MEDIAN ''v'' sample_csv = Inr sample_imputed"
    using sample_imputed by (simp add: impute_text_def sample_imputation_request_def)
qed

theorem imputation_report_counts_witness:
  "\<exists>report c. imputation_report_of sample_env sample_imputation_request GROUP_MEDIAN ''v'' sample_imputed (sample_ref ''c'' []) = Inr report
    \<and> im_columns report = [c] \<and> im_before_row_count report = 3 \<and> ic_imputed_count c = 1 \<and> ic_after_missing_count c = 0"
proof -
  obtain i where got: "storage_get sample_env (ar_uri (sample_ref ''s'' [])) (sample_store [] sample_csv) = Inr (sample_csv, i)"
    using sample_get(2) by blast
  then have computed: "compute_imputation sample_env rat_decimals sample_imputation_request (sample_store [] sample_csv) = Inr (GROUP_MEDIAN, ''v'', sample_imputed)"
    using sample_text_imputed by (simp add: compute_imputation_def sample_imputation_request_def sample_env_def)
  have "is_ok (imputation_report_of sample_env sample_imputation_request GROUP_MEDIAN ''v'' sample_imputed (sample_ref ''c'' []))"
    using sample_ref_valid by (simp add: imputation_report_of_def Let_def is_ok_iff result_simps imputation_column_valid_def
        imputation_lineage_valid_def imputation_report_valid_def sample_imputation_request_def sample_step_def non_empty_def
        missing_count_def sample_imputed_rows IMPUTATION_REPORT_SCHEMA_VERSION_def zero_digest_def)
  then obtain report where report: "imputation_report_of sample_env sample_imputation_request GROUP_MEDIAN ''v'' sample_imputed (sample_ref ''c'' []) = Inr report"
    by (auto simp: is_ok_iff)
  have read: "imputation_rows sample_csv = Inr (sample_table, sample_columns)"
    unfolding sample_csv_def by (rule written_table_read [OF sample_table_ok])
  have counts: "missing_count sample_table ''v'' = 1" "length sample_table = 3" by code_simp+
  have "se_decode sample_env d = Some d" for d by (simp add: sample_env_def)
  moreover have "iq_source_artifact sample_imputation_request = sample_ref ''s'' []" by (simp add: sample_imputation_request_def)
  ultimately show ?thesis
    using imputation_report_counts [OF _ computed report] got read counts report by (auto simp: rat_decimals_def)
qed

end
