(* ===== verification/SyntheticCommon.thy ===== *)
theory SyntheticCommon
  imports Imputation
begin

text \<open>
  What the synthetic generators share: the contracts of \<open>src/app/domain/synthetic.py\<close> and
  \<open>src/app/plugins/tabular/_synthetic_common.py\<close>: reading the source rows, checking the split manifest against them,
  the checks on the synthetic rows, the augmented split manifest, the candidate CSV and the registrations.
\<close>

section \<open>Contracts (domain/synthetic.py)\<close>

definition SMOTE_FORMULA :: string where
  "SMOTE_FORMULA = ''x_new = x_i + lambda * (x_nn - x_i)''"

datatype augmentation_kind = TARGETED_RARE_CLASS | DISTRIBUTION_LEVEL

fun augmentation_kind_value :: "augmentation_kind \<Rightarrow> string" where
  "augmentation_kind_value TARGETED_RARE_CLASS = ''targeted_rare_class''"
| "augmentation_kind_value DISTRIBUTION_LEVEL = ''distribution_level''"

record 'f sample_lineage =
  ss_synthetic_object_id :: string
  ss_method :: synthetic_method
  ss_formula :: string
  ss_seed_object_id :: "string option"
  ss_neighbor_object_id :: "string option"
  ss_lambda_value :: "'f option"
  ss_latent_draw_index :: "int option"
  ss_rare_class_label :: "string option"

record 'f synthetic_class_stats =
  st_label :: string
  st_real_count_in_source_split :: int
  st_real_count_in_majority_split :: int
  st_target_count_after_augmentation :: int
  st_generated_count :: int
  st_achieved_ratio :: 'f

datatype synthetic_check_status = SC_PASSED | SC_FAILED | SC_NOT_APPLICABLE

record 'f synthetic_check =
  sc_check :: string
  sc_status :: synthetic_check_status
  sc_pass_rate :: "'f option"
  sc_findings_count :: int
  sc_blocker :: bool
  sc_notes :: "string option"

record 'f synthetic_validation =
  sn_overall_passed :: bool
  sn_blocker_present :: bool
  sn_checks :: "'f synthetic_check list"

record 'f column_transform =
  ct_column :: string
  ct_method :: string
  ct_sample_count :: int
  ct_quantile_levels :: "'f list"
  ct_quantile_values :: "'f list"

record 'f copula_artifacts =
  ga_column_transforms :: "'f column_transform list"
  ga_latent_mean :: "'f list"
  ga_latent_covariance :: "'f list"
  ga_latent_cholesky :: "'f list"
  ga_correlation_matrix :: "'f list"
  ga_correlation_matrix_size :: int
  ga_inverse_transform_metadata :: "(string, string) dict"
  ga_ridge_epsilon :: 'f
  ga_cdf_clamp_epsilon :: 'f

record synthetic_lineage =
  yl_action_plan_id :: string
  yl_step_id :: string
  yl_source_dataset_version_id :: string
  yl_candidate_dataset_version_id :: string
  yl_created_by_job_id :: string
  yl_config_hash :: string
  yl_source_artifact :: artifact_ref
  yl_split_manifest :: artifact_ref
  yl_candidate_artifact :: artifact_ref
  yl_augmented_split_manifest :: artifact_ref

text \<open>The whole report extends the part of it that the gates and the candidate builder read; the seeds are those of the
  sample lineages.\<close>

record 'f synthetic_dataset_report = "'f synthetic_report" +
  yr_report_id :: string
  yr_report_schema_version :: string
  yr_augmentation_kind :: augmentation_kind
  yr_formula :: string
  yr_target_column :: string
  yr_k_neighbors :: int
  yr_excluded_columns :: "string list"
  yr_real_total_count :: int
  yr_real_train_count :: int
  yr_real_train_rare_count :: int
  yr_class_stats :: "'f synthetic_class_stats list"
  yr_sample_lineage :: "'f sample_lineage list"
  yr_sample_lineage_truncated :: bool
  yr_full_sample_lineage_count :: int
  yr_synthetic_validation :: "'f synthetic_validation option"
  yr_gaussian_copula_artifacts :: "'f copula_artifacts option"
  yr_lineage :: synthetic_lineage
  yr_generated_at :: datetime

definition sample_lineage_valid :: "'f float_ops \<Rightarrow> 'f sample_lineage \<Rightarrow> bool" where
  "sample_lineage_valid fl s \<longleftrightarrow>
     non_empty (ss_synthetic_object_id s) \<and> non_empty (ss_formula s) \<and> opt_ok (fl_score_ok fl) (ss_lambda_value s)
     \<and> opt_ok (\<lambda>n. 0 \<le> n) (ss_latent_draw_index s)"

definition synthetic_class_stats_valid :: "'f float_ops \<Rightarrow> 'f synthetic_class_stats \<Rightarrow> bool" where
  "synthetic_class_stats_valid fl s \<longleftrightarrow>
     non_empty (st_label s) \<and> 0 \<le> st_real_count_in_source_split s \<and> 0 \<le> st_real_count_in_majority_split s
     \<and> 0 \<le> st_target_count_after_augmentation s \<and> 0 \<le> st_generated_count s \<and> fl_score_ok fl (st_achieved_ratio s)"

definition synthetic_check_valid :: "'f float_ops \<Rightarrow> 'f synthetic_check \<Rightarrow> bool" where
  "synthetic_check_valid fl c \<longleftrightarrow> non_empty (sc_check c) \<and> opt_ok (fl_score_ok fl) (sc_pass_rate c) \<and> 0 \<le> sc_findings_count c"

definition column_transform_valid :: "'f column_transform \<Rightarrow> bool" where
  "column_transform_valid t \<longleftrightarrow> non_empty (ct_column t) \<and> non_empty (ct_method t) \<and> 0 \<le> ct_sample_count t"

definition copula_artifacts_valid :: "'f float_ops \<Rightarrow> 'f copula_artifacts \<Rightarrow> bool" where
  "copula_artifacts_valid fl g \<longleftrightarrow>
     list_all column_transform_valid (ga_column_transforms g) \<and> 0 \<le> ga_correlation_matrix_size g
     \<and> fl_le fl (fl_const fl 0) (ga_ridge_epsilon g) \<and> fl_le fl (fl_const fl 0) (ga_cdf_clamp_epsilon g)"

definition synthetic_lineage_valid :: "synthetic_lineage \<Rightarrow> bool" where
  "synthetic_lineage_valid l \<longleftrightarrow>
     non_empty (yl_action_plan_id l) \<and> non_empty (yl_step_id l) \<and> non_empty (yl_source_dataset_version_id l)
     \<and> non_empty (yl_candidate_dataset_version_id l) \<and> non_empty (yl_created_by_job_id l) \<and> sha256_digest (yl_config_hash l)
     \<and> artifact_ref_valid (yl_source_artifact l) \<and> artifact_ref_valid (yl_split_manifest l)
     \<and> artifact_ref_valid (yl_candidate_artifact l) \<and> artifact_ref_valid (yl_augmented_split_manifest l)"

definition synthetic_dataset_report_valid :: "'f float_ops \<Rightarrow> 'f synthetic_dataset_report \<Rightarrow> bool" where
  "synthetic_dataset_report_valid fl r \<longleftrightarrow>
     non_empty (yr_report_id r) \<and> non_empty (yr_report_schema_version r) \<and> non_empty (sy_method_version r)
     \<and> non_empty (yr_formula r) \<and> non_empty (yr_target_column r) \<and> non_empty (sy_source_split r) \<and> 0 \<le> yr_k_neighbors r
     \<and> fl_score_ok fl (sy_sampling_strategy r) \<and> list_all non_empty (sy_feature_columns r) \<and> list_all non_empty (yr_excluded_columns r)
     \<and> list_all (\<lambda>n. 0 \<le> n) [yr_real_total_count r, yr_real_train_count r, yr_real_train_rare_count r, sy_generated_count r,
         yr_full_sample_lineage_count r]
     \<and> list_all (synthetic_class_stats_valid fl) (yr_class_stats r) \<and> list_all (sample_lineage_valid fl) (yr_sample_lineage r)
     \<and> opt_ok (\<lambda>v. list_all (synthetic_check_valid fl) (sn_checks v)) (yr_synthetic_validation r)
     \<and> opt_ok (copula_artifacts_valid fl) (yr_gaussian_copula_artifacts r) \<and> synthetic_lineage_valid (yr_lineage r)"

section \<open>Rows (plugins/tabular/_synthetic_common.py)\<close>

definition SYNTHETIC_REPORT_KIND :: string where
  "SYNTHETIC_REPORT_KIND = ''synthetic_dataset_report''"

definition SYNTHETIC_REPORT_SCHEMA_VERSION :: string where
  "SYNTHETIC_REPORT_SCHEMA_VERSION = ''synthetic_dataset_report.v1''"

definition IS_SYNTHETIC_COLUMN :: string where
  "IS_SYNTHETIC_COLUMN = ''is_synthetic''"

definition SOURCE_SPLIT_COLUMN :: string where
  "SOURCE_SPLIT_COLUMN = ''synthetic_source_split''"

definition candidate_dataset_columns :: "string list \<Rightarrow> string list" where
  "candidate_dataset_columns columns = columns @ filter (\<lambda>c. c \<notin> set columns) [IS_SYNTHETIC_COLUMN, SOURCE_SPLIT_COLUMN]"

definition real_candidate_row :: "string list \<Rightarrow> csv_row \<Rightarrow> csv_row" where
  "real_candidate_row columns row =
     (let m = dict_of (map (\<lambda>c. (c, row_get row c)) columns);
          m1 = (if row_get m IS_SYNTHETIC_COLUMN = [] then dict_set m IS_SYNTHETIC_COLUMN ''0'' else m) in
      if dict_get m1 SOURCE_SPLIT_COLUMN = None then dict_set m1 SOURCE_SPLIT_COLUMN [] else m1)"

definition write_candidate_csv :: "bool \<Rightarrow> csv_row list \<Rightarrow> csv_row list \<Rightarrow> string list \<Rightarrow> string" where
  "write_candidate_csv quotes_cr rows synthetic_rows columns =
     write_csv quotes_cr (map (real_candidate_row columns) rows @ synthetic_rows) columns"

definition parse_numeric :: "'f float_ops \<Rightarrow> string \<Rightarrow> 'f option" where
  "parse_numeric fl cell =
     (if cell = [] then None
      else case fl_of_str fl cell of None \<Rightarrow> None | Some x \<Rightarrow> if \<not> fl_eq fl x x then None else Some x)"

text \<open>\<open>int(value)\<close> raises for the infinities; \<open>f"{value:.6f}"\<close> is \<open>nf_fixed6\<close>, \<open>value ** 2\<close> may overflow.\<close>

record 'f number_ops =
  nf_int :: "'f \<Rightarrow> exn + int"
  nf_fixed6 :: "'f \<Rightarrow> string"
  nf_round6 :: "'f \<Rightarrow> 'f"
  nf_round :: "'f \<Rightarrow> int"
  nf_square :: "'f \<Rightarrow> exn + 'f"

definition rstrip_char :: "char \<Rightarrow> string \<Rightarrow> string" where
  "rstrip_char c s = rev (dropWhile (\<lambda>d. d = c) (rev s))"

definition format_numeric :: "'f float_ops \<Rightarrow> 'f number_ops \<Rightarrow> 'f \<Rightarrow> exn + string" where
  "format_numeric fl nf x =
     bindR (nf_int nf x) (\<lambda>n.
     if fl_eq fl x (fl_of_int fl n) then Inr (str_of_int n)
     else let formatted = rstrip_char (CHR ''.'') (rstrip_char (CHR ''0'') (nf_fixed6 nf x)) in
          Inr (if formatted = [] then ''0'' else formatted))"

section \<open>The split manifest\<close>

text \<open>The index by object id; a later assignment of an id replaces an earlier one.\<close>

definition assignment_index :: "'f split_manifest \<Rightarrow> (string, data_split \<times> string option) dict" where
  "assignment_index manifest = dict_of (map (\<lambda>a. (sa_object_id a, (sa_split a, sa_group_value a))) (sp_assignments manifest))"

definition verify_manifest_rows ::
    "(string \<Rightarrow> error_code \<Rightarrow> exn) \<Rightarrow> (string, data_split \<times> string option) dict \<Rightarrow> csv_row list \<Rightarrow> exn + unit" where
  "verify_manifest_rows mk assignments rows =
     requireR (list_all (\<lambda>i. i \<in> set (map (\<lambda>row. row_get row ''object_id'') rows)) (dict_keys assignments))
       (mk ''split_manifest_object_id_missing_in_source'' ACTION_PLAN_PRECONDITION_FAILED)"

definition synthetic_source_rows ::
    "(string \<Rightarrow> error_code \<Rightarrow> exn) \<Rightarrow> string \<Rightarrow> string \<Rightarrow> exn + (csv_row list \<times> string list)" where
  "synthetic_source_rows mk target_column text =
     (let records = csv_records text;
          header = (case records of [] \<Rightarrow> [] | h # _ \<Rightarrow> h);
          columns = filter (\<lambda>n. n \<noteq> []) header;
          rows = rows_of_records header columns (tl records) in
      if \<not> fields_fit header then Inl (Other ''Error'')
      else if columns = [] then Inl (mk ''empty_tabular_source'' INVALID_JOB_PAYLOAD)
      else if target_column \<notin> set columns then Inl (mk ''target_column_not_found'' INVALID_JOB_PAYLOAD)
      else if \<not> list_all fields_fit (tl records) then Inl (Other ''Error'')
      else if rows = [] then Inl (mk ''empty_tabular_source'' INVALID_JOB_PAYLOAD)
      else Inr (rows, columns))"

definition read_source_rows ::
    "'s builder_env \<Rightarrow> (string \<Rightarrow> error_code \<Rightarrow> exn) \<Rightarrow> artifact_ref \<Rightarrow> string \<Rightarrow> 's \<Rightarrow> exn + (csv_row list \<times> string list)" where
  "read_source_rows env mk source_artifact target_column st =
     bindR (storage_get env (ar_uri source_artifact) st) (\<lambda>(data, info).
     case se_decode env data of
       None \<Rightarrow> Inl (Other ''UnicodeDecodeError'')
     | Some text \<Rightarrow> synthetic_source_rows mk target_column text)"

definition synthetic_label :: "string \<Rightarrow> csv_row \<Rightarrow> string" where
  "synthetic_label target_column row = (if row_get row target_column = [] then ''0'' else row_get row target_column)"

definition synthetic_assignment :: "string \<Rightarrow> csv_row \<Rightarrow> exn + split_assignment" where
  "synthetic_assignment target_column row =
     validated split_assignment_valid
       \<lparr>sa_object_id = row_get row ''object_id'', sa_split = TRAIN, sa_label = synthetic_label target_column row, sa_group_value = None\<rparr>"

definition add_label :: "string \<Rightarrow> (data_split, (string, int) dict) dict \<Rightarrow> csv_row \<Rightarrow> (data_split, (string, int) dict) dict" where
  "add_label target_column d row =
     dict_set d TRAIN (add_count (case dict_get d TRAIN of None \<Rightarrow> [] | Some c \<Rightarrow> c) (synthetic_label target_column row, 1))"

definition augmented_distribution ::
    "'f float_ops \<Rightarrow> (data_split, (string, int) dict) dict \<Rightarrow> (data_split, int) dict \<Rightarrow> 'f split_class_distribution
     \<Rightarrow> 'f split_class_distribution" where
  "augmented_distribution fl label_counts total_counts item =
     (let counts = (case dict_get label_counts (sd_split item) of None \<Rightarrow> sd_class_counts item | Some c \<Rightarrow> c);
          total = (case dict_get total_counts (sd_split item) of None \<Rightarrow> sd_total_count item | Some n \<Rightarrow> n) in
      item\<lparr>sd_class_counts := sort_key fst counts,
           sd_class_ratios := sort_key fst (map (\<lambda>(label, n).
             (label, if total \<noteq> 0 then fl_div fl (fl_of_int fl n) (fl_of_int fl total) else fl_const fl 0)) counts),
           sd_total_count := total\<rparr>)"

definition build_augmented_split_manifest ::
    "'f float_ops \<Rightarrow> 'f split_manifest \<Rightarrow> csv_row list \<Rightarrow> string \<Rightarrow> synthetic_method \<Rightarrow> exn + 'f split_manifest" where
  "build_augmented_split_manifest fl manifest synthetic_rows target_column mth =
     (if synthetic_rows = [] then Inr manifest
      else bindR (mapR (synthetic_assignment target_column) synthetic_rows) (\<lambda>new.
        let label_counts = foldl (add_label target_column)
              (dict_of (map (\<lambda>i. (sd_split i, sd_class_counts i)) (sp_class_distribution manifest))) synthetic_rows;
            total_counts = foldl (\<lambda>d row. add_count d (TRAIN, 1))
              (dict_of (map (\<lambda>i. (sd_split i, sd_total_count i)) (sp_class_distribution manifest))) synthetic_rows in
        Inr (manifest\<lparr>
          sp_split_manifest_id := sp_split_manifest_id manifest @ ''_with_'' @ synthetic_method_value mth @ ''_''
            @ str_of_nat (length synthetic_rows),
          sp_assignments := sp_assignments manifest @ new,
          sp_class_distribution := map (augmented_distribution fl label_counts total_counts) (sp_class_distribution manifest)\<rparr>)))"

section \<open>Checks on the synthetic rows\<close>

definition not_applicable_check :: "string \<Rightarrow> string \<Rightarrow> 'f synthetic_check" where
  "not_applicable_check check notes =
     \<lparr>sc_check = check, sc_status = SC_NOT_APPLICABLE, sc_pass_rate = None, sc_findings_count = 0, sc_blocker = False,
      sc_notes = Some notes\<rparr>"

definition counted_check ::
    "'f float_ops \<Rightarrow> string \<Rightarrow> int \<Rightarrow> int \<Rightarrow> bool \<Rightarrow> string option \<Rightarrow> 'f synthetic_check" where
  "counted_check fl check findings cells blocks notes =
     \<lparr>sc_check = check, sc_status = (if findings = 0 then SC_PASSED else SC_FAILED),
      sc_pass_rate = Some (if cells \<noteq> 0 then fl_div fl (fl_of_int fl (cells - findings)) (fl_of_int fl cells) else fl_const fl 1),
      sc_findings_count = findings, sc_blocker = blocks, sc_notes = (if findings = 0 then None else notes)\<rparr>"

definition feature_total :: "csv_row list \<Rightarrow> string list \<Rightarrow> int" where
  "feature_total synthetic_rows feature_columns = int (length synthetic_rows) * max 1 (int (length feature_columns))"

definition schema_check :: "'f float_ops \<Rightarrow> csv_row list \<Rightarrow> string list \<Rightarrow> exn + 'f synthetic_check" where
  "schema_check fl synthetic_rows feature_columns =
     validated (synthetic_check_valid fl)
       (if synthetic_rows = [] then not_applicable_check ''schema_match'' ''no synthetic rows generated''
        else let findings = int (length (concat (map (\<lambda>row. filter (\<lambda>c. c \<notin> set (dict_keys row)) feature_columns) synthetic_rows))) in
          counted_check fl ''schema_match'' findings (feature_total synthetic_rows feature_columns) (0 < findings) None)"

definition type_check :: "'f float_ops \<Rightarrow> csv_row list \<Rightarrow> string list \<Rightarrow> exn + 'f synthetic_check" where
  "type_check fl synthetic_rows feature_columns =
     validated (synthetic_check_valid fl)
       (if synthetic_rows = [] then not_applicable_check ''type_match'' ''no synthetic rows generated''
        else let findings = int (length (concat (map (\<lambda>row. filter (\<lambda>c. row_get row c = [] \<or> parse_numeric fl (row_get row c) = None)
                   feature_columns) synthetic_rows))) in
          counted_check fl ''type_match'' findings (feature_total synthetic_rows feature_columns) False
            (Some ''non-numeric or missing values detected in synthetic features''))"

definition synthetic_rules_check ::
    "'f float_ops \<Rightarrow> (string \<Rightarrow> string) \<Rightarrow> csv_row list \<Rightarrow> 'f business_rule list \<Rightarrow> string \<Rightarrow> string option \<Rightarrow> exn + 'f synthetic_check" where
  "synthetic_rules_check fl sha synthetic_rows rules rules_version rules_config_hash =
     (if rules = [] then validated (synthetic_check_valid fl) (not_applicable_check ''business_rules_pass_rate'' ''no business rules configured'')
      else if synthetic_rows = [] then
        validated (synthetic_check_valid fl) (not_applicable_check ''business_rules_pass_rate'' ''no synthetic rows generated'')
      else
        bindR (observe_rows fl (map (\<lambda>row. (row, dict_get row ''object_id'')) synthetic_rows)
          (make_evaluator fl sha rules rules_version rules_config_hash DEFAULT_SAMPLE_LIMIT)) (\<lambda>evaluator.
        bindR (build_report fl evaluator) (\<lambda>report.
        let findings = sum_list (map rs_violation_count (rr_rules report)) in
        validated (synthetic_check_valid fl)
          \<lparr>sc_check = ''business_rules_pass_rate'', sc_status = (if findings = 0 then SC_PASSED else SC_FAILED),
           sc_pass_rate = Some (if rr_rules report \<noteq> []
             then fl_div fl (fl_sum fl (map rs_pass_rate (rr_rules report))) (fl_of_int fl (int (length (rr_rules report))))
             else fl_const fl 1),
           sc_findings_count = findings, sc_blocker = (rr_blocker_candidate_rule_ids report \<noteq> []),
           sc_notes = (if findings = 0 then None
             else Some (str_of_int findings @ '' synthetic rows violate one or more business rules''))\<rparr>)))"

definition exact_duplicate_check ::
    "'f float_ops \<Rightarrow> (string \<Rightarrow> string) \<Rightarrow> csv_row list \<Rightarrow> csv_row list \<Rightarrow> string list \<Rightarrow> exn + 'f synthetic_check" where
  "exact_duplicate_check fl sha real_rows synthetic_rows feature_columns =
     validated (synthetic_check_valid fl)
       (if synthetic_rows = [] then not_applicable_check ''privacy_exact_duplicate_to_real'' ''no synthetic rows generated''
        else let findings = int (length (exact_duplicates sha synthetic_rows real_rows feature_columns)) in
          counted_check fl ''privacy_exact_duplicate_to_real'' findings (int (length synthetic_rows)) (0 < findings)
            (Some ''synthetic rows reproduce real feature vectors exactly''))"

definition evaluate_synthetic_validation ::
    "'f float_ops \<Rightarrow> (string \<Rightarrow> string) \<Rightarrow> csv_row list \<Rightarrow> csv_row list \<Rightarrow> string list \<Rightarrow> 'f business_rule list \<Rightarrow> string
     \<Rightarrow> string option \<Rightarrow> exn + 'f synthetic_validation" where
  "evaluate_synthetic_validation fl sha real_rows synthetic_rows feature_columns rules rules_version rules_config_hash =
     bindR (schema_check fl synthetic_rows feature_columns) (\<lambda>schema.
     bindR (type_check fl synthetic_rows feature_columns) (\<lambda>types.
     bindR (synthetic_rules_check fl sha synthetic_rows rules rules_version rules_config_hash) (\<lambda>business.
     bindR (exact_duplicate_check fl sha real_rows synthetic_rows feature_columns) (\<lambda>privacy.
     let checks = [schema, types, business, privacy];
         blocker_present = list_ex sc_blocker checks in
     Inr \<lparr>sn_overall_passed = (\<not> blocker_present \<and> list_all (\<lambda>c. sc_status c \<noteq> SC_FAILED) checks),
          sn_blocker_present = blocker_present, sn_checks = checks\<rparr>))))"

section \<open>Persistence\<close>

definition persist_synthetic_artifacts ::
    "'s builder_env \<Rightarrow> 'f float_ops \<Rightarrow> bool \<Rightarrow> (string \<Rightarrow> string) \<Rightarrow> ('f split_manifest \<Rightarrow> string) \<Rightarrow> synthetic_method \<Rightarrow> metadata
     \<Rightarrow> csv_row list \<Rightarrow> csv_row list \<Rightarrow> string list \<Rightarrow> 'f split_manifest \<Rightarrow> string \<Rightarrow> string \<Rightarrow> string \<Rightarrow> string \<Rightarrow> 's
     \<Rightarrow> (exn + (registered_artifact \<times> registered_artifact \<times> 'f split_manifest)) \<times> 's" where
  "persist_synthetic_artifacts env fl quotes_cr enc ser mth md real_rows synthetic_rows columns manifest target_column
     candidate_dataset_version_id created_by_job_id config_hash st =
     (let md1 = md @ [(''synthetic-method'', synthetic_method_value mth), (''synthetic-row-count'', str_of_nat (length synthetic_rows))] in
      case registry_save env
        \<lparr>sv_artifact_kind = CANDIDATE_TABULAR_DATASET_KIND,
         sv_data = enc (write_candidate_csv quotes_cr real_rows synthetic_rows (candidate_dataset_columns columns)),
         sv_artifact_format = ''csv'', sv_media_type = ''text/csv'', sv_schema_version = CANDIDATE_TABULAR_DATASET_SCHEMA_VERSION,
         sv_dataset_version_id = candidate_dataset_version_id, sv_created_by_job_id = created_by_job_id,
         sv_config_hash = config_hash, sv_metadata = md1\<rparr> st of
        (Inl e, st1) \<Rightarrow> (Inl e, st1)
      | (Inr candidate, st1) \<Rightarrow>
          (case build_augmented_split_manifest fl manifest synthetic_rows target_column mth of
             Inl e \<Rightarrow> (Inl e, st1)
           | Inr augmented \<Rightarrow>
               let (res, st2) = registry_save env
                     \<lparr>sv_artifact_kind = SPLIT_MANIFEST_KIND, sv_data = ser augmented, sv_artifact_format = ''json'',
                      sv_media_type = ''application/json'', sv_schema_version = SPLIT_MANIFEST_SCHEMA_VERSION,
                      sv_dataset_version_id = candidate_dataset_version_id, sv_created_by_job_id = created_by_job_id,
                      sv_config_hash = config_hash,
                      sv_metadata = md1 @ [(''augments-split-manifest-id'', sp_split_manifest_id manifest)]\<rparr> st1
               in (bindR res (\<lambda>split_artifact. Inr (candidate, split_artifact, augmented)), st2)))"

definition persist_synthetic_report ::
    "'s builder_env \<Rightarrow> 'f float_ops \<Rightarrow> ('f synthetic_dataset_report \<Rightarrow> string) \<Rightarrow> 'f synthetic_dataset_report \<Rightarrow> string \<Rightarrow> string \<Rightarrow> string
     \<Rightarrow> metadata \<Rightarrow> string \<Rightarrow> string \<Rightarrow> 's \<Rightarrow> (exn + registered_artifact) \<times> 's" where
  "persist_synthetic_report env fl ser report candidate_dataset_version_id created_by_job_id config_hash base_metadata
     candidate_artifact_hash augmented_split_artifact_hash st =
     registry_save env
       \<lparr>sv_artifact_kind = SYNTHETIC_REPORT_KIND, sv_data = ser report, sv_artifact_format = ''json'',
        sv_media_type = ''application/json'', sv_schema_version = SYNTHETIC_REPORT_SCHEMA_VERSION,
        sv_dataset_version_id = candidate_dataset_version_id, sv_created_by_job_id = created_by_job_id, sv_config_hash = config_hash,
        sv_metadata = dict_of (base_metadata
          @ [(''synthetic-method'', synthetic_method_value (sy_method report)),
             (''augmentation-kind'', augmentation_kind_value (yr_augmentation_kind report)),
             (''random-seed'', str_of_int (sy_random_seed report)), (''k-neighbors'', str_of_int (yr_k_neighbors report)),
             (''sampling-strategy'', fl_repr fl (sy_sampling_strategy report)),
             (''generated-count'', str_of_int (sy_generated_count report)), (''candidate-artifact-hash'', candidate_artifact_hash),
             (''augmented-split-manifest-hash'', augmented_split_artifact_hash)])\<rparr> st"

section \<open>Copies of real rows\<close>

lemma row_signature_iff:
  "row_signature sha a cs = row_signature sha b cs \<longleftrightarrow>
     list_all (\<lambda>c. row_get a c = row_get b c) cs
     \<or> collide sha (dumps (JObj (dict_of (map (\<lambda>c. (c, JStr (row_get a c))) (sort cs)))))
         (dumps (JObj (dict_of (map (\<lambda>c. (c, JStr (row_get b c))) (sort cs)))))"
  unfolding row_signature_def using dumps_cells_iff [of "row_get a" "sort cs" "row_get b"]
  by (auto simp: collide_def list_all_iff)

lemma check_blockers:
  "schema_check fl synthetic_rows feature_columns = Inr c \<Longrightarrow>
     sc_blocker c \<longleftrightarrow> (\<exists>row \<in> set synthetic_rows. \<exists>col \<in> set feature_columns. col \<notin> set (dict_keys row))"
  "type_check fl synthetic_rows feature_columns = Inr c \<Longrightarrow> \<not> sc_blocker c"
  "exact_duplicate_check fl sha real_rows synthetic_rows feature_columns = Inr c \<Longrightarrow>
     sc_blocker c \<longleftrightarrow> (\<exists>s \<in> set synthetic_rows. \<exists>r \<in> set real_rows. row_signature sha s feature_columns = row_signature sha r feature_columns)"
  by (auto simp: schema_check_def type_check_def exact_duplicate_check_def validated_Inr_iff not_applicable_check_def counted_check_def
      Let_def exact_duplicates_def filter_empty_conv split: if_splits)

text \<open>Without business rules, the checks of a generator block exactly when a synthetic row lacks a feature column or has,
  on the feature columns, the cells of a real row (or two texts collide under SHA-256).\<close>

theorem validation_blocks_copies:
  assumes "evaluate_synthetic_validation fl sha real_rows synthetic_rows feature_columns [] version digest = Inr v"
  shows "(sn_blocker_present v \<longleftrightarrow>
      (\<exists>row \<in> set synthetic_rows. \<exists>c \<in> set feature_columns. c \<notin> set (dict_keys row))
      \<or> (\<exists>s \<in> set synthetic_rows. \<exists>r \<in> set real_rows.
           list_all (\<lambda>c. row_get s c = row_get r c) feature_columns
           \<or> collide sha (dumps (JObj (dict_of (map (\<lambda>c. (c, JStr (row_get s c))) (sort feature_columns)))))
               (dumps (JObj (dict_of (map (\<lambda>c. (c, JStr (row_get r c))) (sort feature_columns)))))))
    \<and> (sn_overall_passed v \<longrightarrow> \<not> sn_blocker_present v)"
proof -
  obtain schema types business privacy where c: "schema_check fl synthetic_rows feature_columns = Inr schema"
    "type_check fl synthetic_rows feature_columns = Inr types" "exact_duplicate_check fl sha real_rows synthetic_rows feature_columns = Inr privacy"
    and business: "synthetic_rules_check fl sha synthetic_rows [] version digest = Inr business"
    and v: "v = (let checks = [schema, types, business, privacy]; blocker_present = list_ex sc_blocker checks in
      \<lparr>sn_overall_passed = (\<not> blocker_present \<and> list_all (\<lambda>c. sc_status c \<noteq> SC_FAILED) checks),
       sn_blocker_present = blocker_present, sn_checks = checks\<rparr>)"
    using assms unfolding evaluate_synthetic_validation_def bindR_Inr_iff Let_def by auto
  have "\<not> sc_blocker business"
    using business by (simp add: synthetic_rules_check_def validated_Inr_iff not_applicable_check_def)
  then have present: "sn_blocker_present v \<longleftrightarrow> sc_blocker schema \<or> sc_blocker privacy"
    and passed: "sn_overall_passed v \<longrightarrow> \<not> sn_blocker_present v"
    using check_blockers(2) [OF c(2)] by (simp_all add: v Let_def)
  show ?thesis
    using passed unfolding present check_blockers(1) [OF c(1)] check_blockers(3) [OF c(3)] row_signature_iff by blast
qed

section \<open>The augmented manifest\<close>

text \<open>The distribution of a manifest counts its assignments: it has one entry for every split with assignments, and every entry has
  the number of assignments of its split, in total and by label.\<close>

definition label_count :: "split_assignment list \<Rightarrow> data_split \<Rightarrow> string \<Rightarrow> int" where
  "label_count as split label = int (length (filter (\<lambda>a. sa_split a = split \<and> sa_label a = label) as))"

definition distribution_counts :: "'f split_manifest \<Rightarrow> bool" where
  "distribution_counts m \<longleftrightarrow> distinct (map sd_split (sp_class_distribution m))
     \<and> sa_split ` set (sp_assignments m) \<subseteq> sd_split ` set (sp_class_distribution m)
     \<and> (\<forall>d \<in> set (sp_class_distribution m). distinct (dict_keys (sd_class_counts d))
          \<and> (\<forall>label. count_of (sd_class_counts d) label = label_count (sp_assignments m) (sd_split d) label)
          \<and> sd_total_count d = int (length (filter (\<lambda>a. sa_split a = sd_split d) (sp_assignments m))))"

lemma add_labels_other: "s \<noteq> TRAIN \<Longrightarrow> dict_get (foldl (add_label target_column) d rows) s = dict_get d s"
  by (induction rows rule: rev_induct) (simp_all add: add_label_def dict_simps)

lemma add_labels_train:
  assumes "dict_get d TRAIN = Some c" "distinct (dict_keys c)"
  shows "\<exists>c'. dict_get (foldl (add_label target_column) d rows) TRAIN = Some c' \<and> distinct (dict_keys c')
    \<and> (\<forall>label. count_of c' label = count_of c label + int (length (filter (\<lambda>row. synthetic_label target_column row = label) rows)))"
proof (induction rows rule: rev_induct)
  case Nil
  show ?case using assms by simp
next
  case (snoc row rows)
  then obtain c' where "dict_get (foldl (add_label target_column) d rows) TRAIN = Some c'" "distinct (dict_keys c')"
    "\<forall>label. count_of c' label = count_of c label + int (length (filter (\<lambda>row. synthetic_label target_column row = label) rows))"
    by blast
  then show ?case by (auto simp: add_label_def [of _ _ row] dict_simps distinct_add_count)
qed

lemma add_count_None: "dict_get (add_count d kn) s = None \<longleftrightarrow> dict_get d s = None \<and> s \<noteq> fst kn"
  by (auto simp: add_count_def dict_simps)

lemma add_totals:
  "count_of (foldl (\<lambda>d row. add_count d (TRAIN, 1)) d rows) s = count_of d s + (if s = TRAIN then int (length rows) else 0)"
  "dict_get d s \<noteq> None \<Longrightarrow> dict_get (foldl (\<lambda>d row. add_count d (TRAIN, 1)) d rows) s \<noteq> None"
proof -
  show "count_of (foldl (\<lambda>d row. add_count d (TRAIN, 1)) d rows) s = count_of d s + (if s = TRAIN then int (length rows) else 0)"
    by (induction rows rule: rev_induct) auto
  show "dict_get d s \<noteq> None \<Longrightarrow> dict_get (foldl (\<lambda>d row. add_count d (TRAIN, 1)) d rows) s \<noteq> None"
    by (induction rows rule: rev_induct) (auto simp: add_count_None)
qed

lemma new_assignments:
  assumes "mapR (synthetic_assignment target_column) rows = Inr new"
  shows "list_all (\<lambda>a. sa_split a = TRAIN) new" "map sa_object_id new = map (\<lambda>row. row_get row ''object_id'') rows"
    "map sa_label new = map (synthetic_label target_column) rows"
proof -
  have "list_all2 (\<lambda>row a. sa_split a = TRAIN \<and> sa_object_id a = row_get row ''object_id'' \<and> sa_label a = synthetic_label target_column row) rows new"
    using assms by (auto simp: mapR_Inr_iff synthetic_assignment_def validated_Inr_iff elim!: list_all2_mono)
  then show "list_all (\<lambda>a. sa_split a = TRAIN) new" "map sa_object_id new = map (\<lambda>row. row_get row ''object_id'') rows"
    "map sa_label new = map (synthetic_label target_column) rows"
    by (induction rule: list_all2_induct) simp_all
qed

lemma count_map: "map f xs = map g ys \<Longrightarrow> length (filter (\<lambda>x. f x = a) xs) = length (filter (\<lambda>y. g y = a) ys)"
proof -
  have "length (filter (\<lambda>x. f x = a) xs) = length (filter (\<lambda>y. y = a) (map f xs))" by (simp add: filter_map comp_def)
  moreover assume "map f xs = map g ys"
  ultimately show ?thesis by (simp add: filter_map comp_def)
qed

lemma augmented_item:
  fixes fl :: "'f float_ops" and rows :: "csv_row list" and target_column :: string
  assumes "distinct (map sd_split items)" "d \<in> set items" "distinct (dict_keys (sd_class_counts d))"
  defines "item \<equiv> augmented_distribution fl
    (foldl (add_label target_column) (dict_of (map (\<lambda>i. (sd_split i, sd_class_counts i)) items)) rows)
    (foldl (\<lambda>d row. add_count d (TRAIN, 1)) (dict_of (map (\<lambda>i. (sd_split i, sd_total_count i)) items)) rows) d"
  shows "sd_split item = sd_split d" "distinct (dict_keys (sd_class_counts item))"
    "count_of (sd_class_counts item) label = count_of (sd_class_counts d) label
       + (if sd_split d = TRAIN then int (length (filter (\<lambda>row. synthetic_label target_column row = label) rows)) else 0)"
    "sd_total_count item = sd_total_count d + (if sd_split d = TRAIN then int (length rows) else 0)"
proof -
  let ?L = "dict_of (map (\<lambda>i. (sd_split i, sd_class_counts i)) items)" and ?T = "dict_of (map (\<lambda>i. (sd_split i, sd_total_count i)) items)"
  have start: "dict_get ?L (sd_split d) = Some (sd_class_counts d)" "dict_get ?T (sd_split d) = Some (sd_total_count d)"
    using assms(1,2) by (auto simp: dict_get_dict_of_distinct comp_def)
  show "sd_split item = sd_split d" by (simp add: item_def augmented_distribution_def Let_def)
  obtain c where c: "dict_get (foldl (add_label target_column) ?L rows) (sd_split d) = Some c" "distinct (dict_keys c)"
    "\<And>label. count_of c label = count_of (sd_class_counts d) label
       + (if sd_split d = TRAIN then int (length (filter (\<lambda>row. synthetic_label target_column row = label) rows)) else 0)"
  proof (cases "sd_split d = TRAIN")
    case True
    then show ?thesis using add_labels_train [of ?L "sd_class_counts d" target_column rows] start(1) assms(3) that by auto
  next
    case False
    then show ?thesis using start(1) assms(3) that [of "sd_class_counts d"] by (simp add: add_labels_other)
  qed
  have "dict_get (foldl (\<lambda>d row. add_count d (TRAIN, 1)) ?T rows) (sd_split d)
      = Some (sd_total_count d + (if sd_split d = TRAIN then int (length rows) else 0))"
    using add_totals [where d = ?T and rows = rows and s = "sd_split d"] start(2) by (auto simp: count_of_def split: option.splits)
  then show "sd_total_count item = sd_total_count d + (if sd_split d = TRAIN then int (length rows) else 0)"
    by (simp add: item_def augmented_distribution_def Let_def)
  have "mset (dict_keys (sort_key fst c)) = mset (dict_keys c)" unfolding dict_keys_def by (simp only: mset_map mset_sort)
  then have "distinct (dict_keys (sort_key fst c))" using c(2) by (metis mset_eq_imp_distinct_iff)
  then show "distinct (dict_keys (sd_class_counts item))" using c(1) by (simp add: item_def augmented_distribution_def Let_def)
  show "count_of (sd_class_counts item) label = count_of (sd_class_counts d) label
       + (if sd_split d = TRAIN then int (length (filter (\<lambda>row. synthetic_label target_column row = label) rows)) else 0)"
    using c by (simp add: item_def augmented_distribution_def Let_def count_of_sorted)
qed

lemma sort_map_snd: "sort_key fst (map (\<lambda>(label, n). (label, f label n)) xs) = map (\<lambda>(label, n). (label, f label n)) (sort_key fst xs)"
proof (induction xs)
  case (Cons x xs)
  have "insort_key fst ((\<lambda>(label, n). (label, f label n)) x) (map (\<lambda>(label, n). (label, f label n)) ys)
      = map (\<lambda>(label, n). (label, f label n)) (insort_key fst x ys)" for ys
    by (induction ys) (auto split: prod.splits)
  then show ?case using Cons by simp
qed simp

definition ratios_of :: "'f float_ops \<Rightarrow> 'f split_class_distribution \<Rightarrow> (string, 'f) dict" where
  "ratios_of fl d =
     map (\<lambda>(label, n). (label, if sd_total_count d \<noteq> 0 then fl_div fl (fl_of_int fl n) (fl_of_int fl (sd_total_count d)) else fl_const fl 0))
       (sd_class_counts d)"

lemma augmented_ratios:
  "sd_class_ratios (augmented_distribution fl label_counts total_counts d) = ratios_of fl (augmented_distribution fl label_counts total_counts d)"
  by (auto simp: augmented_distribution_def ratios_of_def Let_def sort_map_snd)

text \<open>C33: The synthetic rows join the training split: the augmented manifest keeps every assignment and appends one to the training
  split for each synthetic row, with its id and its label. If the distribution of the given manifest, which assigns some row to
  the training split, counts its assignments, so does the new one: it has the same entries, the training split still among them,
  each with the number of assignments of its split in total and by label, and with the ratios of these numbers. Apart from
  assignments and distribution only the id of the manifest changes, which names the method and the number of rows.\<close>

theorem augmented_manifest_counts:
  assumes "build_augmented_split_manifest fl m rows target_column mth = Inr m'" "distribution_counts m"
    and "TRAIN \<in> sa_split ` set (sp_assignments m)"
  shows "distribution_counts m' \<and> map sd_split (sp_class_distribution m') = map sd_split (sp_class_distribution m)
    \<and> TRAIN \<in> sd_split ` set (sp_class_distribution m')
    \<and> (rows = [] \<or> (\<forall>d \<in> set (sp_class_distribution m'). sd_class_ratios d = ratios_of fl d))
    \<and> (\<exists>new. sp_assignments m' = sp_assignments m @ new \<and> list_all (\<lambda>a. sa_split a = TRAIN) new
         \<and> map sa_object_id new = map (\<lambda>row. row_get row ''object_id'') rows \<and> map sa_label new = map (synthetic_label target_column) rows)
    \<and> m'\<lparr>sp_split_manifest_id := sp_split_manifest_id m, sp_assignments := sp_assignments m,
         sp_class_distribution := sp_class_distribution m\<rparr> = m
    \<and> sp_split_manifest_id m' = sp_split_manifest_id m @ (if rows = [] then []
         else ''_with_'' @ synthetic_method_value mth @ ''_'' @ str_of_nat (length rows))"
proof (cases "rows = []")
  case True
  then show ?thesis using assms by (auto simp: build_augmented_split_manifest_def distribution_counts_def)
next
  case False
  let ?dist = "sp_class_distribution m"
  let ?item = "augmented_distribution fl
    (foldl (add_label target_column) (dict_of (map (\<lambda>i. (sd_split i, sd_class_counts i)) ?dist)) rows)
    (foldl (\<lambda>d row. add_count d (TRAIN, 1)) (dict_of (map (\<lambda>i. (sd_split i, sd_total_count i)) ?dist)) rows)"
  obtain new where new: "mapR (synthetic_assignment target_column) rows = Inr new" "sp_assignments m' = sp_assignments m @ new"
    "sp_class_distribution m' = map ?item ?dist"
    "m'\<lparr>sp_split_manifest_id := sp_split_manifest_id m, sp_assignments := sp_assignments m, sp_class_distribution := ?dist\<rparr> = m"
    "sp_split_manifest_id m' = sp_split_manifest_id m @ ''_with_'' @ synthetic_method_value mth @ ''_'' @ str_of_nat (length rows)"
    using assms(1) False by (auto simp: build_augmented_split_manifest_def result_simps Let_def)
  note na = new_assignments [OF new(1)]
  have dist: "distinct (map sd_split ?dist)" using assms(2) by (simp add: distribution_counts_def)
  have labels: "label_count new s label = (if s = TRAIN then int (length (filter (\<lambda>row. synthetic_label target_column row = label) rows)) else 0)" for s label
  proof -
    have "filter (\<lambda>a. sa_split a = s \<and> sa_label a = label) new = (if s = TRAIN then filter (\<lambda>a. sa_label a = label) new else [])"
      using na(1) by (auto simp: list_all_iff filter_empty_conv intro!: filter_cong)
    then show ?thesis using count_map [OF na(3), of label] by (simp add: label_count_def)
  qed
  have totals: "length (filter (\<lambda>a. sa_split a = s) new) = (if s = TRAIN then length rows else 0)" for s
  proof -
    have "length new = length rows" using na(3) by (metis length_map)
    moreover have "filter (\<lambda>a. sa_split a = s) new = (if s = TRAIN then new else [])"
      using na(1) by (auto simp: list_all_iff filter_empty_conv filter_id_conv)
    ultimately show ?thesis by simp
  qed
  have "sd_split (?item d) = sd_split d" for d by (simp add: augmented_distribution_def Let_def)
  then have entries: "map sd_split (map ?item ?dist) = map sd_split ?dist" by simp
  then have splits: "sd_split ` set (map ?item ?dist) = sd_split ` set ?dist" by (metis list.set_map)
  have covered: "sa_split ` set (sp_assignments m) \<subseteq> sd_split ` set ?dist" using assms(2) by (simp add: distribution_counts_def)
  have "distribution_counts m'"
    unfolding distribution_counts_def new(2,3)
  proof (intro conjI ballI allI)
    show "distinct (map sd_split (map ?item ?dist))" using dist by (simp only: entries)
    show "sa_split ` set (sp_assignments m @ new) \<subseteq> sd_split ` set (map ?item ?dist)"
      unfolding splits using covered assms(3) na(1) by (auto simp: list_all_iff)
  next
    fix d' assume "d' \<in> set (map ?item ?dist)"
    then obtain d where d: "d \<in> set ?dist" "d' = ?item d" by auto
    have before: "distinct (dict_keys (sd_class_counts d))"
      "\<And>label. count_of (sd_class_counts d) label = label_count (sp_assignments m) (sd_split d) label"
      "sd_total_count d = int (length (filter (\<lambda>a. sa_split a = sd_split d) (sp_assignments m)))"
      using assms(2) d(1) by (auto simp: distribution_counts_def)
    note item = augmented_item [OF dist d(1) before(1), of fl target_column rows]
    show "distinct (dict_keys (sd_class_counts d'))" using item(2) d(2) by simp
    show "count_of (sd_class_counts d') label = label_count (sp_assignments m @ new) (sd_split d') label" for label
      using item(1) item(3) [of label] labels [of "sd_split d" label] before(2) [of label] d(2) by (simp add: label_count_def)
    show "sd_total_count d' = int (length (filter (\<lambda>a. sa_split a = sd_split d') (sp_assignments m @ new)))"
      using item(1,4) totals [of "sd_split d"] before(3) d(2) by simp
  qed
  moreover have "\<forall>d \<in> set (sp_class_distribution m'). sd_class_ratios d = ratios_of fl d"
    unfolding new(3) by (auto simp: augmented_ratios)
  moreover have "TRAIN \<in> sd_split ` set (sp_class_distribution m')" using splits covered assms(3) by (simp only: new(3)) blast
  ultimately show ?thesis using False new(2,4,5) na entries [folded new(3)] by simp
qed

end
