(* ===== verification/Smote.thy ===== *)
theory Smote
  imports SyntheticCommon
begin

text \<open>
  The SMOTE executor of \<open>src/app/plugins/tabular/synthetic_smote.py\<close>: rare-class rows of the training split are
  interpolated with one of their nearest neighbours. Floats are abstract, and so is the generator of random numbers,
  whose documented ranges are the laws of \<open>rng_laws\<close>.
\<close>

section \<open>Requests\<close>

definition SMOTE_METHOD_VERSION :: string where
  "SMOTE_METHOD_VERSION = ''smote_v0''"

definition NEVER_FEATURE_COLUMNS :: "string list" where
  "NEVER_FEATURE_COLUMNS =
     [''object_id'', ''customer_id_hash'', ''case_id'', ''transaction_id'', ''document_id'', ''support_ticket_id'',
      ''manual_review_flag'', IS_SYNTHETIC_COLUMN, SOURCE_SPLIT_COLUMN]"

definition smote_error :: "string \<Rightarrow> error_code \<Rightarrow> exn" where
  "smote_error reason err = Raised ''SmoteExecutionError'' reason err 0"

definition smote_refused :: "string \<Rightarrow> exn" where
  "smote_refused reason = smote_error reason ACTION_PLAN_PRECONDITION_FAILED"

record 'f smote_request =
  mq_action_plan_id :: string
  mq_step :: action_plan_step
  mq_dataset_id :: string
  mq_source_dataset_version_id :: string
  mq_candidate_dataset_version_id :: string
  mq_source_artifact :: artifact_ref
  mq_split_manifest :: "'f split_manifest"
  mq_split_manifest_artifact :: artifact_ref
  mq_created_by_job_id :: string
  mq_config_hash :: string
  mq_target_column :: string
  mq_rare_class_label :: string
  mq_random_seed :: int
  mq_k_neighbors :: int
  mq_sampling_strategy :: 'f
  mq_sample_lineage_limit :: int
  mq_feature_columns :: "string list option"
  mq_report_id :: "string option"
  mq_generated_at :: "datetime option"

definition smote_request_valid :: "'f float_ops \<Rightarrow> 'f smote_request \<Rightarrow> bool" where
  "smote_request_valid fl r \<longleftrightarrow>
     list_all non_empty [mq_action_plan_id r, mq_dataset_id r, mq_source_dataset_version_id r, mq_candidate_dataset_version_id r,
       mq_created_by_job_id r, mq_target_column r, mq_rare_class_label r]
     \<and> artifact_ref_valid (mq_source_artifact r) \<and> artifact_ref_valid (mq_split_manifest_artifact r) \<and> sha256_digest (mq_config_hash r)
     \<and> 1 \<le> mq_k_neighbors r \<and> fl_lt fl (fl_const fl 0) (mq_sampling_strategy r) \<and> fl_le fl (mq_sampling_strategy r) (fl_const fl 1)
     \<and> 0 \<le> mq_sample_lineage_limit r \<and> opt_ok (list_all non_empty) (mq_feature_columns r)"

definition validate_smote_step :: "'f smote_request \<Rightarrow> exn + unit" where
  "validate_smote_step request =
     (let step = mq_step request in
      if ps_type step \<noteq> ''AUGMENT_RARE_CLASS'' then Inl (smote_refused ''unsupported_action_step_type'')
      else if ps_method_id step \<noteq> ''smote'' then Inl (smote_refused ''unsupported_synthetic_method'')
      else if (case dict_get (ps_config step) ''source_split'' of None \<Rightarrow> False | Some v \<Rightarrow> v \<noteq> JStr ''train'')
      then Inl (smote_refused ''non_train_source_split'')
      else if sp_target_column (mq_split_manifest request) \<noteq> mq_target_column request
      then Inl (smote_refused ''target_column_mismatch_with_split_manifest'')
      else Inr ())"

section \<open>Rows and columns\<close>

definition resolve_feature_columns :: "string list \<Rightarrow> string \<Rightarrow> string list option \<Rightarrow> string list \<times> string list" where
  "resolve_feature_columns columns target_column explicit =
     (let candidates = (case explicit of Some cs \<Rightarrow> cs | None \<Rightarrow> columns);
          usable = (\<lambda>c. c \<in> set columns \<and> c \<noteq> target_column \<and> c \<notin> set NEVER_FEATURE_COLUMNS) in
      (filter usable candidates, ordered_unique_loop [] [] (filter (\<lambda>c. \<not> usable c) candidates)))"

definition in_train :: "(string, data_split \<times> string option) dict \<Rightarrow> csv_row \<Rightarrow> bool" where
  "in_train assignments row = (case dict_get assignments (row_get row ''object_id'') of Some (s, _) \<Rightarrow> s = TRAIN | None \<Rightarrow> False)"

definition train_rare_indices ::
    "(string, data_split \<times> string option) dict \<Rightarrow> string \<Rightarrow> string \<Rightarrow> csv_row list \<Rightarrow> nat list" where
  "train_rare_indices assignments target_column label rows =
     map fst (filter (\<lambda>ir. in_train assignments (snd ir) \<and> row_get (snd ir) target_column = label) (enumerate 0 rows))"

definition train_majority_count ::
    "(string, data_split \<times> string option) dict \<Rightarrow> string \<Rightarrow> string \<Rightarrow> csv_row list \<Rightarrow> int" where
  "train_majority_count assignments target_column label rows =
     int (length (filter (\<lambda>row. in_train assignments row \<and> row_get row target_column \<noteq> label) rows))"

definition extract_feature_vectors :: "'f float_ops \<Rightarrow> csv_row list \<Rightarrow> nat list \<Rightarrow> string list \<Rightarrow> 'f list list" where
  "extract_feature_vectors fl rows indices columns =
     (if columns = [] then []
      else map (\<lambda>i. map (\<lambda>c. case parse_numeric fl (row_get (rows ! i) c) of None \<Rightarrow> fl_const fl 0 | Some x \<Rightarrow> x) columns) indices)"

definition target_count_after_augmentation :: "'f float_ops \<Rightarrow> 'f number_ops \<Rightarrow> int \<Rightarrow> int \<Rightarrow> 'f \<Rightarrow> int" where
  "target_count_after_augmentation fl nf rare_count majority_count sampling_strategy =
     max rare_count (nf_round nf (fl_mul fl (fl_of_int fl majority_count) sampling_strategy))"

definition achieved_ratio :: "'f float_ops \<Rightarrow> int \<Rightarrow> int \<Rightarrow> 'f" where
  "achieved_ratio fl rare_count_after majority_count =
     (if majority_count \<le> 0 then fl_const fl 1
      else let ratio = fl_div fl (fl_of_int fl rare_count_after) (fl_of_int fl majority_count);
               at_least = (if fl_lt fl (fl_const fl 0) ratio then ratio else fl_const fl 0) in
           if fl_lt fl at_least (fl_const fl 1) then at_least else fl_const fl 1)"

section \<open>Neighbours\<close>

text \<open>\<open>random.Random\<close>: \<open>randrange(n)\<close>, \<open>choice(seq)\<close> and \<open>random()\<close> with the state passed on.\<close>

record ('r, 'f) rng_ops =
  rg_seed :: "int \<Rightarrow> 'r"
  rg_randrange :: "nat \<Rightarrow> 'r \<Rightarrow> nat \<times> 'r"
  rg_choice :: "nat list \<Rightarrow> 'r \<Rightarrow> nat \<times> 'r"
  rg_random :: "'r \<Rightarrow> 'f \<times> 'r"

definition squared_distance :: "'f float_ops \<Rightarrow> 'f number_ops \<Rightarrow> 'f list \<Rightarrow> 'f list \<Rightarrow> exn + 'f" where
  "squared_distance fl nf a b = bindR (mapR (\<lambda>(x, y). nf_square nf (fl_sub fl x y)) (zip a b)) (\<lambda>ds. Inr (fl_sum fl ds))"

text \<open>Tuples of a distance and an index compare by the distance first; \<open>heapq.nsmallest(k, xs)\<close> is \<open>sorted(xs)[:k]\<close>.\<close>

definition tuple_lt :: "'f float_ops \<Rightarrow> 'f \<times> nat \<Rightarrow> 'f \<times> nat \<Rightarrow> bool" where
  "tuple_lt fl a b = (if fl_eq fl (fst a) (fst b) then snd a < snd b else fl_lt fl (fst a) (fst b))"

fun insert_tuple :: "'f float_ops \<Rightarrow> 'f \<times> nat \<Rightarrow> ('f \<times> nat) list \<Rightarrow> ('f \<times> nat) list" where
  "insert_tuple fl x [] = [x]"
| "insert_tuple fl x (y # ys) = (if tuple_lt fl x y then x # y # ys else y # insert_tuple fl x ys)"

definition nsmallest :: "'f float_ops \<Rightarrow> nat \<Rightarrow> ('f \<times> nat) list \<Rightarrow> ('f \<times> nat) list" where
  "nsmallest fl k xs = take k (foldl (\<lambda>acc x. insert_tuple fl x acc) [] xs)"

definition neighbour_distances :: "'f float_ops \<Rightarrow> 'f number_ops \<Rightarrow> nat \<Rightarrow> 'f list list \<Rightarrow> exn + ('f \<times> nat) list" where
  "neighbour_distances fl nf seed_pos vectors =
     mapR (\<lambda>(i, v). bindR (squared_distance fl nf (vectors ! seed_pos) v) (\<lambda>d. Inr (d, i)))
       (filter (\<lambda>iv. fst iv \<noteq> seed_pos) (enumerate 0 vectors))"

definition pick_neighbor ::
    "'f float_ops \<Rightarrow> 'f number_ops \<Rightarrow> ('r, 'f) rng_ops \<Rightarrow> nat \<Rightarrow> 'f list list \<Rightarrow> nat \<Rightarrow> 'r \<Rightarrow> exn + (nat \<times> 'r)" where
  "pick_neighbor fl nf rg seed_pos vectors k r =
     bindR (neighbour_distances fl nf seed_pos vectors) (\<lambda>distances.
     Inr (if distances = [] then (seed_pos, r) else rg_choice rg (map snd (nsmallest fl k distances)) r))"

section \<open>Synthetic rows\<close>

definition interpolate_cell ::
    "'f float_ops \<Rightarrow> 'f number_ops \<Rightarrow> csv_row \<Rightarrow> csv_row \<Rightarrow> 'f \<Rightarrow> csv_row \<Rightarrow> string \<Rightarrow> exn + csv_row" where
  "interpolate_cell fl nf seed_row neighbor_row l row column =
     (case (parse_numeric fl (row_get seed_row column), parse_numeric fl (row_get neighbor_row column)) of
        (Some s, Some n) \<Rightarrow>
          bindR (format_numeric fl nf (fl_add fl s (fl_mul fl l (fl_sub fl n s)))) (\<lambda>cell. Inr (dict_set row column cell))
      | _ \<Rightarrow> Inr row)"

definition build_synthetic_row ::
    "'f float_ops \<Rightarrow> 'f number_ops \<Rightarrow> csv_row \<Rightarrow> csv_row \<Rightarrow> string list \<Rightarrow> 'f \<Rightarrow> string \<Rightarrow> string \<Rightarrow> string \<Rightarrow> exn + csv_row" where
  "build_synthetic_row fl nf seed_row neighbor_row feature_columns l target_column label synthetic_object_id =
     bindR (foldR (interpolate_cell fl nf seed_row neighbor_row l)
       (dict_set (dict_set seed_row ''object_id'' synthetic_object_id) target_column label) feature_columns) (\<lambda>row.
     Inr (dict_set (dict_set row IS_SYNTHETIC_COLUMN ''1'') SOURCE_SPLIT_COLUMN ''train''))"

definition synthetic_object_id :: "nat \<Rightarrow> string" where
  "synthetic_object_id index = ''txn_synth_'' @ pad_zeros 6 (str_of_nat index)"

record ('r, 'f) smote_state =
  sm_rng :: 'r
  sm_rows :: "csv_row list"
  sm_lineage :: "'f sample_lineage list"

definition smote_sample ::
    "'f float_ops \<Rightarrow> 'f number_ops \<Rightarrow> ('r, 'f) rng_ops \<Rightarrow> csv_row list \<Rightarrow> nat list \<Rightarrow> 'f list list \<Rightarrow> string list \<Rightarrow> nat \<Rightarrow> string \<Rightarrow> string
     \<Rightarrow> ('r, 'f) smote_state \<Rightarrow> nat \<Rightarrow> exn + ('r, 'f) smote_state" where
  "smote_sample fl nf rg rows rare vectors feature_columns k target_column label st index =
     (let (seed_pos, r1) = rg_randrange rg (length rare) (sm_rng st);
          seed_row = rows ! (rare ! seed_pos) in
      bindR (pick_neighbor fl nf rg seed_pos vectors k r1) (\<lambda>(neighbor_pos, r2).
      let neighbor_row = rows ! (rare ! neighbor_pos);
          (l, r3) = rg_random rg r2 in
      bindR (build_synthetic_row fl nf seed_row neighbor_row feature_columns l target_column label (synthetic_object_id index)) (\<lambda>row.
      bindR (validated (sample_lineage_valid fl)
        \<lparr>ss_synthetic_object_id = synthetic_object_id index, ss_method = SMOTE, ss_formula = SMOTE_FORMULA,
         ss_seed_object_id = Some (row_get seed_row ''object_id''), ss_neighbor_object_id = Some (row_get neighbor_row ''object_id''),
         ss_lambda_value = Some (nf_round6 nf l), ss_latent_draw_index = None, ss_rare_class_label = Some label\<rparr>) (\<lambda>lineage.
      Inr \<lparr>sm_rng = r3, sm_rows = sm_rows st @ [row], sm_lineage = sm_lineage st @ [lineage]\<rparr>))))"

record 'f smote_outcome =
  so_rows :: "csv_row list"
  so_columns :: "string list"
  so_synthetic_rows :: "csv_row list"
  so_sample_lineage :: "'f sample_lineage list"
  so_feature_columns :: "string list"
  so_excluded_columns :: "string list"
  so_rare_count :: int
  so_majority_count :: int
  so_target_count :: int
  so_effective_k :: int

definition smote_outcome_of ::
    "'f float_ops \<Rightarrow> 'f number_ops \<Rightarrow> ('r, 'f) rng_ops \<Rightarrow> 'f smote_request \<Rightarrow> csv_row list \<Rightarrow> string list \<Rightarrow> exn + 'f smote_outcome" where
  "smote_outcome_of fl nf rg request rows columns =
     (let assignments = assignment_index (mq_split_manifest request);
          target_column = mq_target_column request; label = mq_rare_class_label request in
      bindR (verify_manifest_rows smote_error assignments rows) (\<lambda>_.
      let rare = train_rare_indices assignments target_column label rows;
          majority = train_majority_count assignments target_column label rows in
      if rare = [] then Inl (smote_refused ''rare_class_absent_in_train_split'')
      else if length rare < 2 then Inl (smote_refused ''rare_class_too_small_for_neighbors'')
      else let (feature_columns, excluded) = resolve_feature_columns columns target_column (mq_feature_columns request) in
      if feature_columns = [] then Inl (smote_refused ''no_numeric_feature_columns'')
      else let vectors = extract_feature_vectors fl rows rare feature_columns;
               k = min (mq_k_neighbors request) (int (length rare) - 1);
               target_count = target_count_after_augmentation fl nf (int (length rare)) majority (mq_sampling_strategy request);
               generated = nat (max 0 (target_count - int (length rare))) in
      bindR (foldR (smote_sample fl nf rg rows rare vectors feature_columns (nat k) target_column label)
          \<lparr>sm_rng = rg_seed rg (mq_random_seed request), sm_rows = [], sm_lineage = []\<rparr> [0..<generated]) (\<lambda>st.
      Inr \<lparr>so_rows = rows, so_columns = columns, so_synthetic_rows = sm_rows st, so_sample_lineage = sm_lineage st,
           so_feature_columns = feature_columns, so_excluded_columns = excluded, so_rare_count = int (length rare),
           so_majority_count = majority, so_target_count = target_count, so_effective_k = k\<rparr>)))"

definition compute_smote ::
    "'s builder_env \<Rightarrow> 'f float_ops \<Rightarrow> 'f number_ops \<Rightarrow> ('r, 'f) rng_ops \<Rightarrow> 'f smote_request \<Rightarrow> 's \<Rightarrow> exn + 'f smote_outcome" where
  "compute_smote env fl nf rg request st =
     bindR (validate_smote_step request) (\<lambda>_.
     bindR (read_source_rows env smote_error (mq_source_artifact request) (mq_target_column request) st) (\<lambda>(rows, columns).
     smote_outcome_of fl nf rg request rows columns))"

section \<open>The report\<close>

definition smote_request_metadata :: "'s builder_env \<Rightarrow> 'f float_ops \<Rightarrow> 'f smote_request \<Rightarrow> 'f smote_outcome \<Rightarrow> metadata" where
  "smote_request_metadata env fl request outcome =
     [(''action-plan-id'', mq_action_plan_id request), (''step-id'', ps_step_id (mq_step request)),
      (''source-artifact-hash'', ar_hash (mq_source_artifact request)),
      (''split-manifest-hash'', ar_hash (mq_split_manifest_artifact request)), (''target-column'', mq_target_column request),
      (''rare-class-label'', mq_rare_class_label request), (''random-seed'', str_of_int (mq_random_seed request)),
      (''k-neighbors'', str_of_int (so_effective_k outcome)), (''sampling-strategy'', fl_repr fl (mq_sampling_strategy request))]
     @ opt_entry ''created-at'' (map_option (se_iso env) (mq_generated_at request))"

definition smote_report_of ::
    "'s builder_env \<Rightarrow> 'f float_ops \<Rightarrow> 'f smote_request \<Rightarrow> 'f smote_outcome \<Rightarrow> artifact_ref \<Rightarrow> artifact_ref \<Rightarrow> exn + 'f synthetic_dataset_report" where
  "smote_report_of env fl request outcome candidate augmented =
     (let limit = nat (mq_sample_lineage_limit request); shown = take limit (so_sample_lineage outcome);
          generated = int (length (so_synthetic_rows outcome)) in
      bindR (evaluate_synthetic_validation fl (se_sha env) (so_rows outcome) (so_synthetic_rows outcome) (so_feature_columns outcome)
        [] ''tabular_business_rules.v1'' None) (\<lambda>validation.
      bindR (validated (synthetic_class_stats_valid fl)
        \<lparr>st_label = mq_rare_class_label request, st_real_count_in_source_split = so_rare_count outcome,
         st_real_count_in_majority_split = so_majority_count outcome, st_target_count_after_augmentation = so_target_count outcome,
         st_generated_count = generated,
         st_achieved_ratio = achieved_ratio fl (so_rare_count outcome + generated) (so_majority_count outcome)\<rparr>) (\<lambda>stats.
      bindR (validated synthetic_lineage_valid
        \<lparr>yl_action_plan_id = mq_action_plan_id request, yl_step_id = ps_step_id (mq_step request),
         yl_source_dataset_version_id = mq_source_dataset_version_id request,
         yl_candidate_dataset_version_id = mq_candidate_dataset_version_id request,
         yl_created_by_job_id = mq_created_by_job_id request, yl_config_hash = mq_config_hash request,
         yl_source_artifact = mq_source_artifact request, yl_split_manifest = mq_split_manifest_artifact request,
         yl_candidate_artifact = candidate, yl_augmented_split_manifest = augmented\<rparr>) (\<lambda>lineage.
      validated (synthetic_dataset_report_valid fl)
        \<lparr>sy_method = SMOTE, sy_method_version = SMOTE_METHOD_VERSION, sy_rare_class_label = Some (mq_rare_class_label request),
         sy_source_split = data_split_value TRAIN, sy_random_seed = mq_random_seed request,
         sy_sampling_strategy = mq_sampling_strategy request, sy_feature_columns = so_feature_columns outcome,
         sy_generated_count = generated, sy_seed_object_ids = map ss_seed_object_id shown,
         yr_report_id = fresh_id (mq_report_id request) (''synthetic_dataset_report_'' @ se_uuid env),
         yr_report_schema_version = SYNTHETIC_REPORT_SCHEMA_VERSION, yr_augmentation_kind = TARGETED_RARE_CLASS,
         yr_formula = SMOTE_FORMULA, yr_target_column = mq_target_column request, yr_k_neighbors = so_effective_k outcome,
         yr_excluded_columns = so_excluded_columns outcome, yr_real_total_count = int (length (so_rows outcome)),
         yr_real_train_count = so_rare_count outcome + so_majority_count outcome, yr_real_train_rare_count = so_rare_count outcome,
         yr_class_stats = [stats], yr_sample_lineage = shown,
         yr_sample_lineage_truncated = (mq_sample_lineage_limit request < int (length (so_sample_lineage outcome))),
         yr_full_sample_lineage_count = int (length (so_sample_lineage outcome)), yr_synthetic_validation = Some validation,
         yr_gaussian_copula_artifacts = None, yr_lineage = lineage,
         yr_generated_at = (case mq_generated_at request of Some t \<Rightarrow> t | None \<Rightarrow> se_now env)\<rparr>))))"

definition execute_smote_augmentation_action ::
    "'s builder_env \<Rightarrow> 'f float_ops \<Rightarrow> 'f number_ops \<Rightarrow> ('r, 'f) rng_ops \<Rightarrow> bool \<Rightarrow> (string \<Rightarrow> string) \<Rightarrow> ('f split_manifest \<Rightarrow> string)
     \<Rightarrow> ('f synthetic_dataset_report \<Rightarrow> string) \<Rightarrow> 'f smote_request \<Rightarrow> 's
     \<Rightarrow> (exn + ('f synthetic_dataset_report \<times> registered_artifact \<times> registered_artifact \<times> registered_artifact)) \<times> 's" where
  "execute_smote_augmentation_action env fl nf rg quotes_cr enc mser rser request st =
     (case compute_smote env fl nf rg request st of
        Inl e \<Rightarrow> (Inl e, st)
      | Inr outcome \<Rightarrow>
          (case persist_synthetic_artifacts env fl quotes_cr enc mser SMOTE (smote_request_metadata env fl request outcome)
               (so_rows outcome) (so_synthetic_rows outcome) (so_columns outcome) (mq_split_manifest request)
               (mq_target_column request) (mq_candidate_dataset_version_id request) (mq_created_by_job_id request)
               (mq_config_hash request) st of
             (Inl e, st1) \<Rightarrow> (Inl e, st1)
           | (Inr (candidate, split_artifact, augmented), st1) \<Rightarrow>
               (case smote_report_of env fl request outcome (ra_artifact_ref candidate) (ra_artifact_ref split_artifact) of
                  Inl e \<Rightarrow> (Inl e, st1)
                | Inr report \<Rightarrow>
                    let (res, st2) = persist_synthetic_report env fl rser report (mq_candidate_dataset_version_id request)
                          (mq_created_by_job_id request) (mq_config_hash request) (smote_request_metadata env fl request outcome)
                          (ra_hash candidate) (ra_hash split_artifact) st1
                    in (bindR res (\<lambda>report_artifact. Inr (report, candidate, split_artifact, report_artifact)), st2))))"

section \<open>Where the samples come from\<close>

text \<open>The documented ranges of the generator.\<close>

definition rng_laws :: "('r, 'f) rng_ops \<Rightarrow> bool" where
  "rng_laws rg \<longleftrightarrow> (\<forall>n r. 0 < n \<longrightarrow> fst (rg_randrange rg n r) < n) \<and> (\<forall>xs r. xs \<noteq> [] \<longrightarrow> fst (rg_choice rg xs r) \<in> set xs)"

lemma set_insert_tuple [simp]: "set (insert_tuple fl x ys) = insert x (set ys)"
  by (induction ys) auto

lemma length_insert_tuple [simp]: "length (insert_tuple fl x ys) = Suc (length ys)"
  by (induction ys) auto

lemma nsmallest_subset: "set (nsmallest fl k xs) \<subseteq> set xs" "length (nsmallest fl k xs) = min k (length xs)"
proof -
  have "set (foldl (\<lambda>acc x. insert_tuple fl x acc) ys xs) = set ys \<union> set xs"
    "length (foldl (\<lambda>acc x. insert_tuple fl x acc) ys xs) = length ys + length xs" for ys
    by (induction xs arbitrary: ys) auto
  then show "set (nsmallest fl k xs) \<subseteq> set xs" "length (nsmallest fl k xs) = min k (length xs)"
    by (auto simp: nsmallest_def min.commute dest: in_set_takeD)
qed

lemma neighbour_indices:
  assumes "neighbour_distances fl nf s vectors = Inr ds"
  shows "map snd ds = filter (\<lambda>i. i \<noteq> s) [0..<length vectors]"
proof -
  have "list_all2 (\<lambda>iv d. snd d = fst iv) (filter (\<lambda>iv. fst iv \<noteq> s) (enumerate 0 vectors)) ds"
    using assms by (auto simp: neighbour_distances_def mapR_Inr_iff result_simps split: prod.splits elim!: list_all2_mono)
  then have "map snd ds = map fst (filter (\<lambda>iv. fst iv \<noteq> s) (enumerate 0 vectors))"
    by (rule list_all2_map_eq [where f = fst and g = snd])
  then show ?thesis using filter_map [of "\<lambda>i. i \<noteq> s" fst "enumerate 0 vectors"] by (simp add: comp_def)
qed

lemma picked:
  assumes "pick_neighbor fl nf rg s vectors k r = Inr (m, r')" "rng_laws rg" "0 < k" "2 \<le> length vectors"
  shows "m < length vectors" "m \<noteq> s"
proof -
  obtain ds where ds: "neighbour_distances fl nf s vectors = Inr ds"
    and m: "(if ds = [] then (s, r) else rg_choice rg (map snd (nsmallest fl k ds)) r) = (m, r')"
    using assms(1) by (auto simp: pick_neighbor_def result_simps)
  note idx = neighbour_indices [OF ds]
  have "(if s = 0 then 1 else 0) \<in> set (filter (\<lambda>i. i \<noteq> s) [0..<length vectors])" using assms(4) by auto
  then have ne: "ds \<noteq> []" using idx by (metis empty_iff list.map(1) list.set(1))
  then have "nsmallest fl k ds \<noteq> []" using nsmallest_subset(2) [of fl k ds] assms(3) by (metis length_greater_0_conv min_less_iff_conj)
  then have "m \<in> set (map snd (nsmallest fl k ds))"
    using m ne assms(2) unfolding rng_laws_def by (metis fst_conv map_is_Nil_conv)
  then have "m \<in> set (map snd ds)" using nsmallest_subset(1) [of fl k ds] by auto
  then show "m < length vectors" "m \<noteq> s" unfolding idx by auto
qed

lemma interpolated_other:
  assumes "foldR (interpolate_cell fl nf seed nb l) row cs = Inr row'" "c \<notin> set cs"
  shows "row_get row' c = row_get row c"
  using assms
proof (induction cs arbitrary: row)
  case Nil
  then show ?case by simp
next
  case (Cons x cs)
  then obtain row1 where "interpolate_cell fl nf seed nb l row x = Inr row1" "foldR (interpolate_cell fl nf seed nb l) row1 cs = Inr row'"
    by (auto simp: result_simps)
  then show ?case using Cons by (auto simp: interpolate_cell_def row_get_set result_simps split: option.splits)
qed

lemma built_row:
  assumes "build_synthetic_row fl nf seed nb cs l target label i = Inr row"
  shows "row_get row IS_SYNTHETIC_COLUMN = ''1''" "row_get row SOURCE_SPLIT_COLUMN = ''train''"
    and "c \<notin> set cs \<Longrightarrow> c \<noteq> IS_SYNTHETIC_COLUMN \<Longrightarrow> c \<noteq> SOURCE_SPLIT_COLUMN \<Longrightarrow>
      row_get row c = (if c = target then label else if c = ''object_id'' then i else row_get seed c)"
proof -
  let ?start = "dict_set (dict_set seed ''object_id'' i) target label"
  obtain row0 where row0: "foldR (interpolate_cell fl nf seed nb l) ?start cs = Inr row0"
    and row: "row = dict_set (dict_set row0 IS_SYNTHETIC_COLUMN ''1'') SOURCE_SPLIT_COLUMN ''train''"
    using assms unfolding build_synthetic_row_def bindR_Inr_iff by auto
  show "row_get row IS_SYNTHETIC_COLUMN = ''1''" "row_get row SOURCE_SPLIT_COLUMN = ''train''"
    by (simp_all add: row row_get_set IS_SYNTHETIC_COLUMN_def SOURCE_SPLIT_COLUMN_def)
  show "c \<notin> set cs \<Longrightarrow> c \<noteq> IS_SYNTHETIC_COLUMN \<Longrightarrow> c \<noteq> SOURCE_SPLIT_COLUMN \<Longrightarrow>
      row_get row c = (if c = target then label else if c = ''object_id'' then i else row_get seed c)"
    using interpolated_other [OF row0, of c] by (simp add: row row_get_set)
qed

definition smote_drawn ::
    "'f float_ops \<Rightarrow> 'f number_ops \<Rightarrow> ('r, 'f) rng_ops \<Rightarrow> csv_row list \<Rightarrow> nat list \<Rightarrow> string list \<Rightarrow> string \<Rightarrow> string \<Rightarrow> nat \<Rightarrow> csv_row \<Rightarrow> 'f sample_lineage \<Rightarrow> bool" where
  "smote_drawn fl nf rg rows rare cs target label index row lineage \<longleftrightarrow>
     (\<exists>s < length rare. \<exists>m < length rare. m \<noteq> s
        \<and> (\<exists>r. build_synthetic_row fl nf (rows ! (rare ! s)) (rows ! (rare ! m)) cs (fst (rg_random rg r)) target label
              (synthetic_object_id index) = Inr row
            \<and> ss_lambda_value lineage = Some (nf_round6 nf (fst (rg_random rg r))))
        \<and> ss_synthetic_object_id lineage = synthetic_object_id index
        \<and> ss_seed_object_id lineage = Some (row_get (rows ! (rare ! s)) ''object_id'')
        \<and> ss_neighbor_object_id lineage = Some (row_get (rows ! (rare ! m)) ''object_id''))"

lemma smote_sample_drawn:
  assumes "smote_sample fl nf rg rows rare vectors cs k target label st index = Inr st'"
    and "rng_laws rg" "0 < k" "2 \<le> length rare" "length vectors = length rare"
  shows "\<exists>row lineage. sm_rows st' = sm_rows st @ [row] \<and> sm_lineage st' = sm_lineage st @ [lineage]
    \<and> smote_drawn fl nf rg rows rare cs target label index row lineage"
proof -
  obtain s r1 where s: "rg_randrange rg (length rare) (sm_rng st) = (s, r1)" by (cases "rg_randrange rg (length rare) (sm_rng st)")
  have "s < length rare" using assms(2,4) s unfolding rng_laws_def by (metis fst_conv less_le_trans zero_less_numeral)
  obtain m r2 where m: "pick_neighbor fl nf rg s vectors k r1 = Inr (m, r2)"
    using assms(1) unfolding smote_sample_def s by (cases "pick_neighbor fl nf rg s vectors k r1") auto
  obtain l r3 where l: "rg_random rg r2 = (l, r3)" by (cases "rg_random rg r2")
  obtain row lineage where built: "build_synthetic_row fl nf (rows ! (rare ! s)) (rows ! (rare ! m)) cs l target label (synthetic_object_id index) = Inr row"
    "sm_rows st' = sm_rows st @ [row]" "sm_lineage st' = sm_lineage st @ [lineage]"
    "ss_synthetic_object_id lineage = synthetic_object_id index"
    "ss_seed_object_id lineage = Some (row_get (rows ! (rare ! s)) ''object_id'')"
    "ss_neighbor_object_id lineage = Some (row_get (rows ! (rare ! m)) ''object_id'')" "ss_lambda_value lineage = Some (nf_round6 nf l)"
    using assms(1) by (auto simp: smote_sample_def s m l Let_def result_simps validated_Inr_iff)
  have "m < length vectors" "m \<noteq> s" using picked [OF m assms(2,3)] assms(4,5) by simp_all
  then show ?thesis using built \<open>s < length rare\<close> assms(4,5) l unfolding smote_drawn_def by (metis fst_conv)
qed

lemma smote_samples_drawn:
  assumes "foldR (smote_sample fl nf rg rows rare vectors cs k target label) \<lparr>sm_rng = r, sm_rows = [], sm_lineage = []\<rparr> [0..<n] = Inr st"
    and "rng_laws rg" "0 < k" "2 \<le> length rare" "length vectors = length rare"
  shows "length (sm_rows st) = n \<and> length (sm_lineage st) = n
    \<and> (\<forall>i < n. smote_drawn fl nf rg rows rare cs target label i (sm_rows st ! i) (sm_lineage st ! i))"
  using assms(1)
proof (induction n arbitrary: st)
  case 0
  then show ?case by auto
next
  case (Suc n)
  then obtain st1 where st1: "foldR (smote_sample fl nf rg rows rare vectors cs k target label)
      \<lparr>sm_rng = r, sm_rows = [], sm_lineage = []\<rparr> [0..<n] = Inr st1"
    "smote_sample fl nf rg rows rare vectors cs k target label st1 n = Inr st"
    by (auto simp: foldR_append result_simps)
  obtain row lineage where "sm_rows st = sm_rows st1 @ [row]" "sm_lineage st = sm_lineage st1 @ [lineage]"
    "smote_drawn fl nf rg rows rare cs target label n row lineage"
    using smote_sample_drawn [OF st1(2) assms(2-5)] by blast
  then show ?case using Suc.IH [OF st1(1)] by (auto simp: nth_append less_Suc_eq)
qed

lemma feature_columns_usable:
  assumes "resolve_feature_columns columns target explicit = (cs, excluded)" "c \<in> set cs"
  shows "c \<in> set columns" "c \<noteq> target" "c \<noteq> ''object_id''" "c \<noteq> IS_SYNTHETIC_COLUMN" "c \<noteq> SOURCE_SPLIT_COLUMN"
  using assms by (auto simp: resolve_feature_columns_def Let_def NEVER_FEATURE_COLUMNS_def)

lemma rare_index:
  assumes "i \<in> set (train_rare_indices A target label rows)"
  shows "i < length rows \<and> in_train A (rows ! i) \<and> row_get (rows ! i) target = label"
  using assms by (auto simp: train_rare_indices_def in_set_enumerate_eq)

text \<open>The rows a synthetic row may come from: two positions of the source, different from each other, whose rows have the rare
  label, are assigned to the training split, and are the ones the lineage entry names.\<close>

definition smote_sources :: "'f smote_request \<Rightarrow> csv_row list \<Rightarrow> 'f sample_lineage \<Rightarrow> nat \<Rightarrow> nat \<Rightarrow> bool" where
  "smote_sources request rows lineage p q \<longleftrightarrow>
     p < length rows \<and> q < length rows \<and> p \<noteq> q
     \<and> in_train (assignment_index (mq_split_manifest request)) (rows ! p) \<and> in_train (assignment_index (mq_split_manifest request)) (rows ! q)
     \<and> row_get (rows ! p) (mq_target_column request) = mq_rare_class_label request
     \<and> row_get (rows ! q) (mq_target_column request) = mq_rare_class_label request
     \<and> ss_seed_object_id lineage = Some (row_get (rows ! p) ''object_id'')
     \<and> ss_neighbor_object_id lineage = Some (row_get (rows ! q) ''object_id'')"

lemma distinct_rare: "distinct (train_rare_indices A target label rows)"
  unfolding train_rare_indices_def by (rule distinct_map_filter) simp

lemma drawn_sources:
  assumes "smote_drawn fl nf rg rows (train_rare_indices (assignment_index (mq_split_manifest request)) (mq_target_column request)
      (mq_rare_class_label request) rows) cs target label i row lineage"
  obtains p q r where "smote_sources request rows lineage p q"
    "build_synthetic_row fl nf (rows ! p) (rows ! q) cs (fst (rg_random rg r)) target label (synthetic_object_id i) = Inr row"
    "ss_lambda_value lineage = Some (nf_round6 nf (fst (rg_random rg r)))"
proof -
  let ?rare = "train_rare_indices (assignment_index (mq_split_manifest request)) (mq_target_column request) (mq_rare_class_label request) rows"
  obtain s m r where d: "s < length ?rare" "m < length ?rare" "m \<noteq> s"
    "build_synthetic_row fl nf (rows ! (?rare ! s)) (rows ! (?rare ! m)) cs (fst (rg_random rg r)) target label (synthetic_object_id i) = Inr row"
    "ss_lambda_value lineage = Some (nf_round6 nf (fst (rg_random rg r)))"
    "ss_seed_object_id lineage = Some (row_get (rows ! (?rare ! s)) ''object_id'')"
    "ss_neighbor_object_id lineage = Some (row_get (rows ! (?rare ! m)) ''object_id'')"
    using assms unfolding smote_drawn_def by blast
  have "?rare ! s \<noteq> ?rare ! m" using d(1-3) distinct_rare by (metis nth_eq_iff_index_eq)
  then have "smote_sources request rows lineage (?rare ! s) (?rare ! m)"
    using rare_index [OF nth_mem [OF d(1)]] rare_index [OF nth_mem [OF d(2)]] d(6,7) by (simp add: smote_sources_def)
  then show thesis using d(4,5) by (rule that)
qed

text \<open>An outcome unfolded.\<close>

lemma smote_outcome_Inr:
  assumes "smote_outcome_of fl nf rg request rows columns = Inr out" "rng_laws rg" "1 \<le> mq_k_neighbors request"
  defines "A \<equiv> assignment_index (mq_split_manifest request)" and "label \<equiv> mq_rare_class_label request"
    and "rare \<equiv> train_rare_indices (assignment_index (mq_split_manifest request)) (mq_target_column request) (mq_rare_class_label request) rows"
  shows "so_rows out = rows" "so_columns out = columns" "so_rare_count out = int (length rare)"
    "so_majority_count out = train_majority_count A (mq_target_column request) label rows"
    "(so_feature_columns out, so_excluded_columns out) = resolve_feature_columns columns (mq_target_column request) (mq_feature_columns request)"
    "so_target_count out = target_count_after_augmentation fl nf (int (length rare)) (so_majority_count out) (mq_sampling_strategy request)"
    "length (so_synthetic_rows out) = nat (so_target_count out - int (length rare))"
    "length (so_sample_lineage out) = length (so_synthetic_rows out)"
    "i < length (so_synthetic_rows out) \<Longrightarrow> smote_drawn fl nf rg rows rare (so_feature_columns out) (mq_target_column request) label i
       (so_synthetic_rows out ! i) (so_sample_lineage out ! i)"
proof -
  obtain cs excluded where cs: "resolve_feature_columns columns (mq_target_column request) (mq_feature_columns request) = (cs, excluded)"
    by (cases "resolve_feature_columns columns (mq_target_column request) (mq_feature_columns request)")
  let ?majority = "train_majority_count A (mq_target_column request) label rows"
  let ?target = "target_count_after_augmentation fl nf (int (length rare)) ?majority (mq_sampling_strategy request)"
  let ?k = "min (mq_k_neighbors request) (int (length rare) - 1)"
  let ?vectors = "extract_feature_vectors fl rows rare cs"
  note r = assms(1) [unfolded smote_outcome_of_def Let_def cs bindR_Inr_iff, folded A_def label_def rare_def]
  have two: "2 \<le> length rare" "cs \<noteq> []"
    using r by (auto simp: A_def label_def rare_def split: if_splits)
  obtain st where st: "foldR (smote_sample fl nf rg rows rare ?vectors cs (nat ?k) (mq_target_column request) label)
      \<lparr>sm_rng = rg_seed rg (mq_random_seed request), sm_rows = [], sm_lineage = []\<rparr> [0..<nat (max 0 (?target - int (length rare)))] = Inr st"
    and out: "out = \<lparr>so_rows = rows, so_columns = columns, so_synthetic_rows = sm_rows st, so_sample_lineage = sm_lineage st,
           so_feature_columns = cs, so_excluded_columns = excluded, so_rare_count = int (length rare),
           so_majority_count = ?majority, so_target_count = ?target, so_effective_k = ?k\<rparr>"
    using r two by (auto simp: A_def label_def rare_def result_simps split: if_splits)
  have k: "0 < nat ?k" using two(1) assms(3) by simp
  have vectors: "length ?vectors = length rare" using two(2) by (simp add: extract_feature_vectors_def)
  note drawn = smote_samples_drawn [OF st assms(2) k two(1) vectors]
  have nat_max: "nat (max 0 (?target - int (length rare))) = nat (?target - int (length rare))" by simp
  show "so_rows out = rows" "so_columns out = columns" "so_rare_count out = int (length rare)"
    "so_majority_count out = train_majority_count A (mq_target_column request) label rows"
    "(so_feature_columns out, so_excluded_columns out) = resolve_feature_columns columns (mq_target_column request) (mq_feature_columns request)"
    "so_target_count out = target_count_after_augmentation fl nf (int (length rare)) (so_majority_count out) (mq_sampling_strategy request)"
    "length (so_synthetic_rows out) = nat (so_target_count out - int (length rare))"
    "length (so_sample_lineage out) = length (so_synthetic_rows out)"
    using drawn nat_max by (simp_all add: out cs)
  show "i < length (so_synthetic_rows out) \<Longrightarrow> smote_drawn fl nf rg rows rare (so_feature_columns out) (mq_target_column request) label i
       (so_synthetic_rows out ! i) (so_sample_lineage out ! i)"
    using drawn by (simp add: out)
qed

text \<open>The ids count from zero in every run: a source that went through the step before has them already.\<close>

lemma smote_ids_restart:
  assumes "smote_outcome_of fl nf rg request rows columns = Inr out" "rng_laws rg" "1 \<le> mq_k_neighbors request"
    and "mq_target_column request \<noteq> ''object_id''" "i < length (so_synthetic_rows out)"
  shows "row_get (so_synthetic_rows out ! i) ''object_id'' = ''txn_synth_'' @ pad_zeros 6 (str_of_nat i)"
proof -
  note o = smote_outcome_Inr [OF assms(1-3)]
  obtain l seed nb where d: "build_synthetic_row fl nf seed nb (so_feature_columns out) l (mq_target_column request)
       (mq_rare_class_label request) (synthetic_object_id i) = Inr (so_synthetic_rows out ! i)"
    using o(9) [OF assms(5)] unfolding smote_drawn_def by blast
  have "''object_id'' \<notin> set (so_feature_columns out)" using feature_columns_usable [OF o(5) [symmetric]] by auto
  then show ?thesis
    using built_row(3) [OF d, of "''object_id''"] assms(4)
    by (simp add: synthetic_object_id_def IS_SYNTHETIC_COLUMN_def SOURCE_SPLIT_COLUMN_def)
qed

text \<open>C30: Validation and test rows are never a source: every synthetic row is built from two different rows of the source, both of
  the rare class and assigned to the training split by the manifest, which its lineage entry names; it is marked as synthetic,
  carries the rare label and the id of its position, and outside the feature columns it repeats its seed.\<close>

theorem smote_samples_from_train:
  assumes "smote_outcome_of fl nf rg request rows columns = Inr out" "rng_laws rg" "1 \<le> mq_k_neighbors request"
    and "mq_target_column request \<notin> {''object_id'', IS_SYNTHETIC_COLUMN, SOURCE_SPLIT_COLUMN}"
    and "i < length (so_synthetic_rows out)"
  shows "\<exists>p q. smote_sources request rows (so_sample_lineage out ! i) p q
    \<and> row_get (so_synthetic_rows out ! i) ''object_id'' = synthetic_object_id i
    \<and> row_get (so_synthetic_rows out ! i) (mq_target_column request) = mq_rare_class_label request
    \<and> row_get (so_synthetic_rows out ! i) IS_SYNTHETIC_COLUMN = ''1''
    \<and> row_get (so_synthetic_rows out ! i) SOURCE_SPLIT_COLUMN = ''train''
    \<and> (\<forall>c. c \<notin> set (so_feature_columns out) \<union> {''object_id'', mq_target_column request, IS_SYNTHETIC_COLUMN, SOURCE_SPLIT_COLUMN}
         \<longrightarrow> row_get (so_synthetic_rows out ! i) c = row_get (rows ! p) c)"
proof -
  let ?cs = "so_feature_columns out"
  note o = smote_outcome_Inr [OF assms(1-3)]
  obtain p q r where d: "smote_sources request rows (so_sample_lineage out ! i) p q"
    "build_synthetic_row fl nf (rows ! p) (rows ! q) ?cs (fst (rg_random rg r)) (mq_target_column request)
       (mq_rare_class_label request) (synthetic_object_id i) = Inr (so_synthetic_rows out ! i)"
    using o(9) [OF assms(5)] by (rule drawn_sources)
  have usable: "''object_id'' \<notin> set ?cs" "mq_target_column request \<notin> set ?cs"
    using feature_columns_usable [OF o(5) [symmetric]] by auto
  have ne: "''object_id'' \<noteq> IS_SYNTHETIC_COLUMN" "''object_id'' \<noteq> SOURCE_SPLIT_COLUMN"
    by (simp_all add: IS_SYNTHETIC_COLUMN_def SOURCE_SPLIT_COLUMN_def)
  note b = built_row [OF d(2)]
  show ?thesis
    using d(1) b(1,2) b(3) [of "''object_id''"] b(3) [of "mq_target_column request"] b(3) usable ne assms(4)
    by (intro exI [of _ p] exI [of _ q]) auto
qed

text \<open>C31: The number of synthetic rows is what the rare class of the training split lacks to the target, the rounded share of
  the other rows, and none when it has reached it: with them the rare class counts exactly the target.\<close>

theorem smote_reaches_target:
  assumes "smote_outcome_of fl nf rg request rows columns = Inr out" "rng_laws rg" "1 \<le> mq_k_neighbors request"
  shows "so_rare_count out + int (length (so_synthetic_rows out))
      = max (so_rare_count out) (nf_round nf (fl_mul fl (fl_of_int fl (so_majority_count out)) (mq_sampling_strategy request)))
    \<and> so_rare_count out = int (length (filter (\<lambda>row. in_train (assignment_index (mq_split_manifest request)) row
         \<and> row_get row (mq_target_column request) = mq_rare_class_label request) rows))
    \<and> so_majority_count out = int (length (filter (\<lambda>row. in_train (assignment_index (mq_split_manifest request)) row
         \<and> row_get row (mq_target_column request) \<noteq> mq_rare_class_label request) rows))
    \<and> length (so_sample_lineage out) = length (so_synthetic_rows out)"
proof -
  note o = smote_outcome_Inr [OF assms]
  have "length (filter (\<lambda>ir. P (snd ir)) (enumerate n xs)) = length (filter P xs)" for P :: "csv_row \<Rightarrow> bool" and n xs
    by (induction xs arbitrary: n) auto
  then have "length (train_rare_indices A t l rows) = length (filter (\<lambda>row. in_train A row \<and> row_get row t = l) rows)" for A t l
    by (simp add: train_rare_indices_def)
  then show ?thesis using o by (simp add: target_count_after_augmentation_def train_majority_count_def)
qed

lemma interpolated_in:
  assumes "foldR (interpolate_cell fl nf seed nb l) row cs = Inr row'" "c \<in> set cs"
  shows "case (parse_numeric fl (row_get seed c), parse_numeric fl (row_get nb c)) of
      (Some s, Some n) \<Rightarrow> format_numeric fl nf (fl_add fl s (fl_mul fl l (fl_sub fl n s))) = Inr (row_get row' c)
    | _ \<Rightarrow> row_get row' c = row_get row c"
  using assms
proof (induction cs arbitrary: row)
  case Nil
  then show ?case by simp
next
  case (Cons x cs)
  then obtain row1 where row1: "interpolate_cell fl nf seed nb l row x = Inr row1" "foldR (interpolate_cell fl nf seed nb l) row1 cs = Inr row'"
    by (auto simp: result_simps)
  show ?case
  proof (cases "c \<in> set cs")
    case True
    then show ?thesis
      using Cons.IH [OF row1(2)] row1(1) by (auto simp: interpolate_cell_def row_get_set result_simps split: option.splits if_splits)
  next
    case False
    then show ?thesis
      using Cons.prems(2) row1(1) interpolated_other [OF row1(2) False]
      by (auto simp: interpolate_cell_def row_get_set result_simps split: option.splits)
  qed
qed

lemma between: "0 \<le> l \<Longrightarrow> l \<le> 1 \<Longrightarrow> min s n \<le> s + l * (n - s) \<and> s + l * (n - s) \<le> max s (n :: rat)"
proof (cases "s \<le> n")
  case True
  assume l: "0 \<le> l" "l \<le> 1"
  have "0 \<le> l * (n - s)" "l * (n - s) \<le> n - s" using l True mult_left_le_one_le [of "n - s" l] by simp_all
  then show ?thesis using True by simp
next
  case False
  assume l: "0 \<le> l" "l \<le> 1"
  have "0 \<le> l * (s - n)" "l * (s - n) \<le> s - n" using l False mult_left_le_one_le [of "s - n" l] by simp_all
  then show ?thesis using False by (simp add: algebra_simps)
qed

text \<open>C32: In exact arithmetic a synthetic row lies between its two sources: for the two different rare rows of the training split
  that its lineage entry names there is one factor from 0 to 1, recorded there rounded, such that every feature cell of the row
  is the text of the value that far from the seed to the neighbour, a value between the two, or the cell of the seed when one
  of them has no number there.\<close>

theorem smote_interpolates:
  assumes "smote_outcome_of rat_floats nf rg request rows columns = Inr out" "rng_laws rg" "1 \<le> mq_k_neighbors request"
    and "\<forall>r. 0 \<le> fst (rg_random rg r) \<and> fst (rg_random rg r) \<le> 1"
    and "i < length (so_synthetic_rows out)"
  shows "\<exists>p q l. smote_sources request rows (so_sample_lineage out ! i) p q
    \<and> 0 \<le> l \<and> l \<le> 1 \<and> ss_lambda_value (so_sample_lineage out ! i) = Some (nf_round6 nf l)
    \<and> (\<forall>c \<in> set (so_feature_columns out).
        case (parse_numeric rat_floats (row_get (rows ! p) c), parse_numeric rat_floats (row_get (rows ! q) c)) of
          (Some s, Some n) \<Rightarrow> format_numeric rat_floats nf (s + l * (n - s)) = Inr (row_get (so_synthetic_rows out ! i) c)
            \<and> min s n \<le> s + l * (n - s) \<and> s + l * (n - s) \<le> max s n
        | _ \<Rightarrow> row_get (so_synthetic_rows out ! i) c = row_get (rows ! p) c)"
proof -
  let ?cs = "so_feature_columns out" and ?row = "so_synthetic_rows out ! i"
  note o = smote_outcome_Inr [OF assms(1-3)]
  obtain p q r where d: "smote_sources request rows (so_sample_lineage out ! i) p q"
    "build_synthetic_row rat_floats nf (rows ! p) (rows ! q) ?cs (fst (rg_random rg r)) (mq_target_column request)
       (mq_rare_class_label request) (synthetic_object_id i) = Inr ?row"
    "ss_lambda_value (so_sample_lineage out ! i) = Some (nf_round6 nf (fst (rg_random rg r)))"
    using o(9) [OF assms(5)] by (rule drawn_sources)
  let ?l = "fst (rg_random rg r)"
  have l: "0 \<le> ?l" "?l \<le> 1" using assms(4) by simp_all
  obtain row0 where row0: "foldR (interpolate_cell rat_floats nf (rows ! p) (rows ! q) ?l)
      (dict_set (dict_set (rows ! p) ''object_id'' (synthetic_object_id i)) (mq_target_column request) (mq_rare_class_label request)) ?cs = Inr row0"
    and row: "?row = dict_set (dict_set row0 IS_SYNTHETIC_COLUMN ''1'') SOURCE_SPLIT_COLUMN ''train''"
    using d(2) unfolding build_synthetic_row_def bindR_Inr_iff by auto
  have "case (parse_numeric rat_floats (row_get (rows ! p) c), parse_numeric rat_floats (row_get (rows ! q) c)) of
      (Some s, Some n) \<Rightarrow> format_numeric rat_floats nf (s + ?l * (n - s)) = Inr (row_get ?row c)
        \<and> min s n \<le> s + ?l * (n - s) \<and> s + ?l * (n - s) \<le> max s n
    | _ \<Rightarrow> row_get ?row c = row_get (rows ! p) c" if c: "c \<in> set ?cs" for c
  proof -
    note u = feature_columns_usable [OF o(5) [symmetric] c]
    have "row_get ?row c = row_get row0 c" using u by (simp add: row row_get_set)
    then show ?thesis
      using interpolated_in [OF row0 c] between [OF l] u(2,3) by (auto simp: row_get_set rat_floats_def split: option.splits)
  qed
  then show ?thesis using d(1,3) l by blast
qed

section \<open>Samples\<close>

definition rat_numbers :: "rat number_ops" where
  "rat_numbers = \<lparr>nf_int = (\<lambda>x. Inr \<lfloor>x\<rfloor>), nf_fixed6 = (\<lambda>_. ''0.5''), nf_round6 = (\<lambda>x. x), nf_round = (\<lambda>x. \<lfloor>x + 1 / 2\<rfloor>),
     nf_square = (\<lambda>x. Inr (x * x))\<rparr>"

definition counting_rng :: "(nat, rat) rng_ops" where
  "counting_rng = \<lparr>rg_seed = nat, rg_randrange = (\<lambda>n r. (r mod n, Suc r)), rg_choice = (\<lambda>xs r. (xs ! (r mod length xs), Suc r)),
     rg_random = (\<lambda>r. (1 / 2, Suc r))\<rparr>"

lemma counting_rng_laws: "rng_laws counting_rng" "\<forall>r. 0 \<le> fst (rg_random counting_rng r) \<and> fst (rg_random counting_rng r) \<le> 1"
  by (auto simp: rng_laws_def counting_rng_def)

definition assigned :: "string \<Rightarrow> data_split \<Rightarrow> string \<Rightarrow> split_assignment" where
  "assigned i s label = \<lparr>sa_object_id = i, sa_split = s, sa_label = label, sa_group_value = None\<rparr>"

definition smote_sample_manifest :: "rat split_manifest" where
  "smote_sample_manifest =
     \<lparr>sp_split_manifest_id = ''m'', sp_split_schema_version = ''v1'', sp_dataset_id = ''d'', sp_source_dataset_version_id = ''v1'',
      sp_candidate_dataset_version_id = ''v2'', sp_target_column = ''y'', sp_strategy = GROUP_STRATIFIED, sp_seed = 1, sp_group_key = None,
      sp_policy_version = ''p'', sp_split_ratios = [],
      sp_assignments = [assigned ''a'' TRAIN ''1'', assigned ''b'' TRAIN ''1'', assigned ''c'' TRAIN ''0'', assigned ''d'' TRAIN ''0'',
        assigned ''e'' TRAIN ''0'', assigned ''f'' TEST ''1''],
      sp_class_distribution =
        [\<lparr>sd_split = TRAIN, sd_total_count = 5, sd_class_counts = [(''0'', 3), (''1'', 2)], sd_class_ratios = [(''0'', 3/5), (''1'', 2/5)]\<rparr>,
         \<lparr>sd_split = TEST, sd_total_count = 1, sd_class_counts = [(''1'', 1)], sd_class_ratios = [(''1'', 1)]\<rparr>],
      sp_lineage = \<lparr>sl_action_plan_id = ''ap'', sl_step_id = ''s'', sl_source_dataset_version_id = ''v1'', sl_candidate_dataset_version_id = ''v2'',
        sl_created_by_job_id = ''j'', sl_config_hash = zero_digest, sl_source_artifact = sample_ref ''s'' []\<rparr>, sp_generated_at = 0\<rparr>"

definition smote_sample_request :: "rat smote_request" where
  "smote_sample_request =
     \<lparr>mq_action_plan_id = ''ap'', mq_step = sample_step ''smote'', mq_dataset_id = ''d'', mq_source_dataset_version_id = ''v1'',
      mq_candidate_dataset_version_id = ''v2'', mq_source_artifact = sample_ref ''s'' [], mq_split_manifest = smote_sample_manifest,
      mq_split_manifest_artifact = sample_ref ''s'' [], mq_created_by_job_id = ''j'', mq_config_hash = zero_digest, mq_target_column = ''y'',
      mq_rare_class_label = ''1'', mq_random_seed = 0, mq_k_neighbors = 1, mq_sampling_strategy = 1, mq_sample_lineage_limit = 25,
      mq_feature_columns = None, mq_report_id = None, mq_generated_at = Some 0\<rparr>"

definition smote_sample_rows :: "csv_row list" where
  "smote_sample_rows = map (\<lambda>(i, x, y). [(''object_id'', i), (''x'', x), (''y'', y)])
     [(''a'', ''2'', ''1''), (''b'', ''4'', ''1''), (''c'', ''7'', ''0''), (''d'', ''8'', ''0''), (''e'', ''9'', ''0''), (''f'', ''5'', ''1'')]"

definition smote_sample_outcome :: "rat smote_outcome" where
  "smote_sample_outcome = projr (smote_outcome_of rat_floats rat_numbers counting_rng smote_sample_request smote_sample_rows [''object_id'', ''x'', ''y''])"

lemma smote_sample_ok:
  "is_ok (smote_outcome_of rat_floats rat_numbers counting_rng smote_sample_request smote_sample_rows [''object_id'', ''x'', ''y''])"
  by code_simp

lemma smote_sample_result:
  "map (\<lambda>r. (row_get r ''object_id'', row_get r ''x'', row_get r ''y'')) (so_synthetic_rows smote_sample_outcome) = [(''txn_synth_000000'', ''3'', ''1'')]"
  "so_feature_columns smote_sample_outcome = [''x'']"
  by code_simp+

lemma smote_sample_outcome:
  "smote_outcome_of rat_floats rat_numbers counting_rng smote_sample_request smote_sample_rows [''object_id'', ''x'', ''y''] = Inr smote_sample_outcome"
  using smote_sample_ok by (auto simp: is_ok_iff smote_sample_outcome_def)

lemma smote_sample_k: "1 \<le> mq_k_neighbors smote_sample_request" "mq_target_column smote_sample_request = ''y''"
  by (simp_all add: smote_sample_request_def)

lemma smote_sample_count: "length (so_synthetic_rows smote_sample_outcome) = 1"
  using arg_cong [OF smote_sample_result(1), of length] by simp

theorem smote_samples_from_train_witness:
  "row_get (so_synthetic_rows smote_sample_outcome ! 0) ''object_id'' = ''txn_synth_000000''
   \<and> row_get (so_synthetic_rows smote_sample_outcome ! 0) IS_SYNTHETIC_COLUMN = ''1''"
proof -
  have "row_get (so_synthetic_rows smote_sample_outcome ! 0) ''object_id'' = synthetic_object_id 0
      \<and> row_get (so_synthetic_rows smote_sample_outcome ! 0) IS_SYNTHETIC_COLUMN = ''1''"
    using smote_samples_from_train [OF smote_sample_outcome counting_rng_laws(1) smote_sample_k(1), of 0] smote_sample_count
    by (auto simp: smote_sample_k(2) IS_SYNTHETIC_COLUMN_def SOURCE_SPLIT_COLUMN_def)
  moreover have "synthetic_object_id 0 = ''txn_synth_000000''" by code_simp
  ultimately show ?thesis by simp
qed

theorem smote_reaches_target_witness:
  "so_rare_count smote_sample_outcome + 1 = max (so_rare_count smote_sample_outcome)
     (nf_round rat_numbers (fl_mul rat_floats (fl_of_int rat_floats (so_majority_count smote_sample_outcome)) 1))"
  using conjunct1 [OF smote_reaches_target [OF smote_sample_outcome counting_rng_laws(1) smote_sample_k(1)]]
  by (simp add: smote_sample_count) (simp add: smote_sample_request_def)

theorem smote_interpolates_witness:
  "\<exists>p q l. smote_sources smote_sample_request smote_sample_rows (so_sample_lineage smote_sample_outcome ! 0) p q
     \<and> 0 \<le> l \<and> l \<le> 1 \<and> ss_lambda_value (so_sample_lineage smote_sample_outcome ! 0) = Some (nf_round6 rat_numbers l)"
  using smote_interpolates [OF smote_sample_outcome counting_rng_laws(1) smote_sample_k(1) counting_rng_laws(2), of 0] smote_sample_count
  by auto

theorem augmented_manifest_counts_witness:
  "\<exists>m. build_augmented_split_manifest rat_floats smote_sample_manifest (so_synthetic_rows smote_sample_outcome) ''y'' SMOTE = Inr m
     \<and> distribution_counts m \<and> TRAIN \<in> sd_split ` set (sp_class_distribution m)"
proof -
  have "is_ok (build_augmented_split_manifest rat_floats smote_sample_manifest (so_synthetic_rows smote_sample_outcome) ''y'' SMOTE)" by code_simp
  then obtain m where m: "build_augmented_split_manifest rat_floats smote_sample_manifest (so_synthetic_rows smote_sample_outcome) ''y'' SMOTE = Inr m"
    by (auto simp: is_ok_iff)
  have "distribution_counts smote_sample_manifest"
    by (auto simp: distribution_counts_def smote_sample_manifest_def label_count_def assigned_def count_of_def dict_keys_def)
  moreover have "TRAIN \<in> sa_split ` set (sp_assignments smote_sample_manifest)" by (simp add: smote_sample_manifest_def assigned_def)
  ultimately show ?thesis using augmented_manifest_counts [OF m] m by blast
qed

theorem validation_blocks_copies_witness:
  "\<exists>v. evaluate_synthetic_validation rat_floats toy_sha smote_sample_rows smote_sample_rows [''x''] [] ''v1'' None = Inr v \<and> sn_blocker_present v"
proof -
  have "is_ok (evaluate_synthetic_validation rat_floats toy_sha smote_sample_rows smote_sample_rows [''x''] [] ''v1'' None)" by code_simp
  then obtain v where v: "evaluate_synthetic_validation rat_floats toy_sha smote_sample_rows smote_sample_rows [''x''] [] ''v1'' None = Inr v"
    by (auto simp: is_ok_iff)
  have "hd smote_sample_rows \<in> set smote_sample_rows" by (simp add: smote_sample_rows_def)
  then show ?thesis using validation_blocks_copies [OF v] v by (auto simp: list_all_iff)
qed

end
