(* ===== verification/Duplicates.thy ===== *)
theory Duplicates
  imports Imputation
begin

text \<open>
  The duplicate executor of \<open>src/app/plugins/tabular/duplicates.py\<close> with its contracts
  (\<open>src/app/domain/duplicate.py\<close>): rows grouped by the digest of their signature columns, a mark mode that adds three
  columns and a remove mode that keeps one row of each group.
\<close>

section \<open>Contracts (domain/duplicate.py)\<close>

datatype duplicate_mode = MARK | REMOVE_CANDIDATE

fun duplicate_mode_value :: "duplicate_mode \<Rightarrow> string" where
  "duplicate_mode_value MARK = ''MARK_DUPLICATE_CANDIDATES''"
| "duplicate_mode_value REMOVE_CANDIDATE = ''REMOVE_DUPLICATES''"

record duplicate_group_summary =
  dg_group_id :: string
  dg_signature_hash :: string
  dg_affected_object_ids :: "string list"
  dg_kept_object_id :: "string option"
  dg_removed_object_ids :: "string list"
  dg_marked_object_ids :: "string list"

record duplicate_lineage =
  dl_action_plan_id :: string
  dl_step_id :: string
  dl_source_dataset_version_id :: string
  dl_candidate_dataset_version_id :: string
  dl_created_by_job_id :: string
  dl_config_hash :: string
  dl_source_artifact :: artifact_ref
  dl_candidate_artifact :: artifact_ref

record duplicate_report =
  du_report_id :: string
  du_report_schema_version :: string
  du_mode :: duplicate_mode
  du_id_column :: string
  du_signature_columns :: "string list"
  du_before_row_count :: int
  du_after_row_count :: int
  du_before_duplicate_pair_count :: int
  du_before_duplicate_group_count :: int
  du_after_duplicate_pair_count :: int
  du_after_duplicate_group_count :: int
  du_marked_count :: int
  du_removed_count :: int
  du_groups :: "duplicate_group_summary list"
  du_raw_artifact_hash :: string
  du_raw_artifact_unchanged :: bool
  du_lineage :: duplicate_lineage
  du_generated_at :: datetime

definition duplicate_group_valid :: "duplicate_group_summary \<Rightarrow> bool" where
  "duplicate_group_valid g \<longleftrightarrow>
     non_empty (dg_group_id g) \<and> sha256_digest (dg_signature_hash g) \<and> list_all non_empty (dg_affected_object_ids g)
     \<and> opt_ok non_empty (dg_kept_object_id g) \<and> list_all non_empty (dg_removed_object_ids g)
     \<and> list_all non_empty (dg_marked_object_ids g)"

definition duplicate_lineage_valid :: "duplicate_lineage \<Rightarrow> bool" where
  "duplicate_lineage_valid l \<longleftrightarrow>
     non_empty (dl_action_plan_id l) \<and> non_empty (dl_step_id l) \<and> non_empty (dl_source_dataset_version_id l)
     \<and> non_empty (dl_candidate_dataset_version_id l) \<and> non_empty (dl_created_by_job_id l) \<and> sha256_digest (dl_config_hash l)
     \<and> artifact_ref_valid (dl_source_artifact l) \<and> artifact_ref_valid (dl_candidate_artifact l)"

definition duplicate_report_valid :: "duplicate_report \<Rightarrow> bool" where
  "duplicate_report_valid r \<longleftrightarrow>
     non_empty (du_report_id r) \<and> non_empty (du_report_schema_version r) \<and> non_empty (du_id_column r)
     \<and> list_all non_empty (du_signature_columns r)
     \<and> list_all (\<lambda>n. 0 \<le> n) [du_before_row_count r, du_after_row_count r, du_before_duplicate_pair_count r,
         du_before_duplicate_group_count r, du_after_duplicate_pair_count r, du_after_duplicate_group_count r,
         du_marked_count r, du_removed_count r]
     \<and> list_all duplicate_group_valid (du_groups r) \<and> sha256_digest (du_raw_artifact_hash r)
     \<and> duplicate_lineage_valid (du_lineage r)"

section \<open>Requests (plugins/tabular/duplicates.py)\<close>

definition DUPLICATE_REPORT_KIND :: string where
  "DUPLICATE_REPORT_KIND = ''duplicate_action_report''"

definition DUPLICATE_REPORT_SCHEMA_VERSION :: string where
  "DUPLICATE_REPORT_SCHEMA_VERSION = ''duplicate_action_report.v1''"

definition IS_DUPLICATE_CANDIDATE_COLUMN :: string where
  "IS_DUPLICATE_CANDIDATE_COLUMN = ''is_duplicate_candidate''"

definition DUPLICATE_GROUP_ID_COLUMN :: string where
  "DUPLICATE_GROUP_ID_COLUMN = ''duplicate_group_id''"

definition IS_DUPLICATE_KEPT_COLUMN :: string where
  "IS_DUPLICATE_KEPT_COLUMN = ''is_duplicate_kept''"

abbreviation marker_columns :: "string list" where
  "marker_columns \<equiv> [IS_DUPLICATE_CANDIDATE_COLUMN, DUPLICATE_GROUP_ID_COLUMN, IS_DUPLICATE_KEPT_COLUMN]"

lemma marker_columns_distinct [simp]:
  "IS_DUPLICATE_CANDIDATE_COLUMN \<noteq> DUPLICATE_GROUP_ID_COLUMN" "IS_DUPLICATE_CANDIDATE_COLUMN \<noteq> IS_DUPLICATE_KEPT_COLUMN"
  "DUPLICATE_GROUP_ID_COLUMN \<noteq> IS_DUPLICATE_KEPT_COLUMN" "DUPLICATE_GROUP_ID_COLUMN \<noteq> IS_DUPLICATE_CANDIDATE_COLUMN"
  "IS_DUPLICATE_KEPT_COLUMN \<noteq> IS_DUPLICATE_CANDIDATE_COLUMN" "IS_DUPLICATE_KEPT_COLUMN \<noteq> DUPLICATE_GROUP_ID_COLUMN"
  by (simp_all add: IS_DUPLICATE_CANDIDATE_COLUMN_def DUPLICATE_GROUP_ID_COLUMN_def IS_DUPLICATE_KEPT_COLUMN_def)

definition duplicate_error :: "string \<Rightarrow> error_code \<Rightarrow> exn" where
  "duplicate_error reason err = Raised ''DuplicateActionError'' reason err 0"

record duplicate_request =
  uq_action_plan_id :: string
  uq_step :: action_plan_step
  uq_dataset_id :: string
  uq_source_dataset_version_id :: string
  uq_candidate_dataset_version_id :: string
  uq_source_artifact :: artifact_ref
  uq_created_by_job_id :: string
  uq_config_hash :: string
  uq_id_column :: string
  uq_signature_columns :: "string list option"
  uq_report_id :: "string option"
  uq_generated_at :: "datetime option"

definition resolve_mode :: "action_plan_step \<Rightarrow> exn + duplicate_mode" where
  "resolve_mode step =
     (if ps_type step \<notin> {duplicate_mode_value MARK, duplicate_mode_value REMOVE_CANDIDATE}
      then Inl (duplicate_error ''unsupported_action_step_type'' ACTION_PLAN_PRECONDITION_FAILED)
      else if ps_type step = duplicate_mode_value MARK then Inr MARK else Inr REMOVE_CANDIDATE)"

definition duplicate_rows :: "string \<Rightarrow> exn + (csv_row list \<times> string list)" where
  "duplicate_rows text =
     (let records = csv_records text;
          header = (case records of [] \<Rightarrow> [] | h # _ \<Rightarrow> h);
          columns = filter (\<lambda>n. n \<noteq> []) header;
          rows = map (\<lambda>r. clean_row columns (dict_row header r)) (filter (\<lambda>r. r \<noteq> []) (tl records)) in
      if \<not> fields_fit header then Inl (Other ''Error'')
      else if columns = [] then Inl (duplicate_error ''empty_tabular_source'' INVALID_JOB_PAYLOAD)
      else if \<not> list_all fields_fit (tl records) then Inl (Other ''Error'')
      else if rows = [] then Inl (duplicate_error ''empty_tabular_source'' INVALID_JOB_PAYLOAD)
      else Inr (rows, columns))"

definition resolve_signature_columns :: "string list \<Rightarrow> string list option \<Rightarrow> string \<Rightarrow> string list" where
  "resolve_signature_columns columns explicit id_column =
     (case explicit of
        Some cs \<Rightarrow> fromkeys (filter (\<lambda>c. c \<in> set columns \<and> c \<noteq> id_column) cs)
      | None \<Rightarrow> sort (filter (\<lambda>c. c \<noteq> id_column) columns))"

section \<open>Groups\<close>

definition signature_payload :: "string list \<Rightarrow> csv_row \<Rightarrow> string" where
  "signature_payload signature_columns row = dumps (JObj (dict_of (map (\<lambda>c. (c, JStr (row_get row c))) signature_columns)))"

definition duplicate_signature :: "(string \<Rightarrow> string) \<Rightarrow> string list \<Rightarrow> csv_row \<Rightarrow> string" where
  "duplicate_signature sha signature_columns row =
     sha256_of sha (signature_payload signature_columns row)"

definition member_id :: "string \<Rightarrow> nat \<times> csv_row \<Rightarrow> string" where
  "member_id id_column ir =
     (if row_get (snd ir) id_column = [] then ''row_'' @ pad_zeros 6 (str_of_nat (fst ir)) else row_get (snd ir) id_column)"

definition group_by_signature ::
    "(string \<Rightarrow> string) \<Rightarrow> csv_row list \<Rightarrow> string \<Rightarrow> string list \<Rightarrow> (string, (nat \<times> string) list) dict" where
  "group_by_signature sha rows id_column signature_columns =
     foldl (\<lambda>groups ir. dict_append groups (duplicate_signature sha signature_columns (snd ir)) (fst ir, member_id id_column ir))
       [] (enumerate 0 rows)"

definition duplicate_groups_of ::
    "(string \<Rightarrow> string) \<Rightarrow> csv_row list \<Rightarrow> string \<Rightarrow> string list \<Rightarrow> (string \<times> (nat \<times> string) list) list" where
  "duplicate_groups_of sha rows id_column signature_columns =
     filter (\<lambda>sm. 2 \<le> length (snd sm)) (sort_key fst (group_by_signature sha rows id_column signature_columns))"

definition canonical_member :: "(nat \<times> string) list \<Rightarrow> nat \<times> string" where
  "canonical_member members = hd (sort_key (\<lambda>io. (snd io, fst io)) members)"

definition duplicate_group_id :: "nat \<Rightarrow> string" where
  "duplicate_group_id index = ''duplicate_group_'' @ pad_zeros 4 (str_of_nat index)"

definition sorted_ids :: "string list \<Rightarrow> string list" where
  "sorted_ids ids = sort (remdups ids)"

section \<open>Mark\<close>

definition candidate_columns_for_mark :: "string list \<Rightarrow> string list" where
  "candidate_columns_for_mark columns = columns @ filter (\<lambda>c. c \<notin> set columns) marker_columns"

definition marker_row :: "string \<Rightarrow> string \<Rightarrow> string \<Rightarrow> csv_row \<Rightarrow> csv_row" where
  "marker_row candidate group_id kept row =
     dict_set (dict_set (dict_set row IS_DUPLICATE_CANDIDATE_COLUMN candidate) DUPLICATE_GROUP_ID_COLUMN group_id)
       IS_DUPLICATE_KEPT_COLUMN kept"

definition mark_member :: "string \<Rightarrow> string \<Rightarrow> csv_row list \<Rightarrow> nat \<times> string \<Rightarrow> csv_row list" where
  "mark_member group_id canonical_id rows io =
     rows[fst io := marker_row ''1'' group_id (if snd io = canonical_id then ''1'' else ''0'') (rows ! fst io)]"

definition mark_summary :: "nat \<times> string \<times> (nat \<times> string) list \<Rightarrow> duplicate_group_summary" where
  "mark_summary ism =
     (case ism of (index, signature, members) \<Rightarrow>
      let canonical_id = snd (canonical_member members) in
      \<lparr>dg_group_id = duplicate_group_id index, dg_signature_hash = signature,
       dg_affected_object_ids = sorted_ids (map snd members), dg_kept_object_id = Some canonical_id, dg_removed_object_ids = [],
       dg_marked_object_ids = sorted_ids (filter (\<lambda>i. i \<noteq> canonical_id) (map snd members))\<rparr>)"

definition mark_rows :: "csv_row list \<Rightarrow> (string \<times> (nat \<times> string) list) list \<Rightarrow> csv_row list" where
  "mark_rows rows groups =
     foldl (\<lambda>rs (index, _, members).
       foldl (mark_member (duplicate_group_id index) (snd (canonical_member members))) rs members)
       (map (marker_row ''0'' [] []) rows) (enumerate 0 groups)"

definition marked_ids :: "(string \<times> (nat \<times> string) list) list \<Rightarrow> string list" where
  "marked_ids groups = concat (map (\<lambda>(_, members). filter (\<lambda>i. i \<noteq> snd (canonical_member members)) (map snd members)) groups)"

definition build_mark_output ::
    "csv_row list \<Rightarrow> (string \<times> (nat \<times> string) list) list \<Rightarrow> exn + (csv_row list \<times> duplicate_group_summary list \<times> int)" where
  "build_mark_output rows groups =
     bindR (mapR (\<lambda>ism. validated duplicate_group_valid (mark_summary ism)) (enumerate 0 groups)) (\<lambda>summaries.
     Inr (mark_rows rows groups, summaries, int (length (remdups (marked_ids groups)))))"

section \<open>Remove\<close>

definition removed_members :: "(nat \<times> string) list \<Rightarrow> (nat \<times> string) list" where
  "removed_members members = filter (\<lambda>io. fst io \<noteq> fst (canonical_member members)) members"

definition remove_summary :: "nat \<times> string \<times> (nat \<times> string) list \<Rightarrow> duplicate_group_summary" where
  "remove_summary ism =
     (case ism of (index, signature, members) \<Rightarrow>
      \<lparr>dg_group_id = duplicate_group_id index, dg_signature_hash = signature,
       dg_affected_object_ids = sorted_ids (map snd members), dg_kept_object_id = Some (snd (canonical_member members)),
       dg_removed_object_ids = sorted_ids (map snd (removed_members members)), dg_marked_object_ids = []\<rparr>)"

definition drop_indices :: "(string \<times> (nat \<times> string) list) list \<Rightarrow> nat list" where
  "drop_indices groups = concat (map (\<lambda>(_, members). map fst (removed_members members)) groups)"

definition build_remove_output ::
    "csv_row list \<Rightarrow> (string \<times> (nat \<times> string) list) list \<Rightarrow> exn + (csv_row list \<times> duplicate_group_summary list \<times> int)" where
  "build_remove_output rows groups =
     bindR (mapR (\<lambda>ism. validated duplicate_group_valid (remove_summary ism)) (enumerate 0 groups)) (\<lambda>summaries.
     Inr (map snd (filter (\<lambda>ir. fst ir \<notin> set (drop_indices groups)) (enumerate 0 rows)), summaries,
          int (length (drop_indices groups))))"

section \<open>The executor\<close>

record duplicate_outcome =
  uo_rows :: "csv_row list"
  uo_columns :: "string list"
  uo_signature_columns :: "string list"
  uo_before_row_count :: int
  uo_before_pair_count :: int
  uo_before_group_count :: int
  uo_after_pair_count :: int
  uo_after_group_count :: int
  uo_marked_count :: int
  uo_removed_count :: int
  uo_summaries :: "duplicate_group_summary list"

definition pair_count :: "(string \<times> (nat \<times> string) list) list \<Rightarrow> int" where
  "pair_count groups = sum_list (map (\<lambda>sm. int (length (snd sm)) - 1) groups)"

definition duplicate_outcome_of ::
    "(string \<Rightarrow> string) \<Rightarrow> duplicate_mode \<Rightarrow> string \<Rightarrow> string list option \<Rightarrow> csv_row list \<Rightarrow> string list \<Rightarrow> exn + duplicate_outcome" where
  "duplicate_outcome_of sha mode id_column explicit rows columns =
     (if id_column \<notin> set columns then Inl (duplicate_error ''id_column_not_found'' ACTION_PLAN_PRECONDITION_FAILED)
      else let signature_columns = resolve_signature_columns columns explicit id_column in
      if signature_columns = [] then Inl (duplicate_error ''no_signature_columns'' ACTION_PLAN_PRECONDITION_FAILED)
      else let groups = duplicate_groups_of sha rows id_column signature_columns;
               before_pairs = pair_count groups; before_groups = int (length groups) in
      case mode of
        MARK \<Rightarrow>
          bindR (build_mark_output rows groups) (\<lambda>(candidate_rows, summaries, marked_count).
           Inr \<lparr>uo_rows = candidate_rows, uo_columns = candidate_columns_for_mark columns, uo_signature_columns = signature_columns,
             uo_before_row_count = int (length rows), uo_before_pair_count = before_pairs, uo_before_group_count = before_groups,
             uo_after_pair_count = before_pairs, uo_after_group_count = before_groups, uo_marked_count = marked_count,
             uo_removed_count = 0, uo_summaries = summaries\<rparr>)
      | REMOVE_CANDIDATE \<Rightarrow>
          bindR (build_remove_output rows groups) (\<lambda>(candidate_rows, summaries, removed_count).
           Inr \<lparr>uo_rows = candidate_rows, uo_columns = columns, uo_signature_columns = signature_columns,
             uo_before_row_count = int (length rows), uo_before_pair_count = before_pairs, uo_before_group_count = before_groups,
             uo_after_pair_count = 0, uo_after_group_count = 0, uo_marked_count = 0, uo_removed_count = removed_count,
             uo_summaries = summaries\<rparr>))"

definition compute_duplicates ::
    "'s builder_env \<Rightarrow> duplicate_request \<Rightarrow> 's \<Rightarrow> exn + (duplicate_mode \<times> string \<times> duplicate_outcome)" where
  "compute_duplicates env request st =
     bindR (resolve_mode (uq_step request)) (\<lambda>mode.
     bindR (storage_get env (ar_uri (uq_source_artifact request)) st) (\<lambda>(data, info).
     let raw_hash = sha256_of (se_sha env) data in
     if raw_hash \<noteq> ar_hash (uq_source_artifact request)
     then Inl (duplicate_error ''source_artifact_hash_mismatch'' CONTRACT_VALIDATION_FAILED)
     else case se_decode env data of
       None \<Rightarrow> Inl (Other ''UnicodeDecodeError'')
     | Some text \<Rightarrow>
         bindR (duplicate_rows text) (\<lambda>(rows, columns).
         bindR (duplicate_outcome_of (se_sha env) mode (uq_id_column request) (uq_signature_columns request) rows columns)
           (\<lambda>outcome. Inr (mode, raw_hash, outcome)))))"

definition duplicate_report_of ::
    "'s builder_env \<Rightarrow> duplicate_request \<Rightarrow> duplicate_mode \<Rightarrow> duplicate_outcome \<Rightarrow> string \<Rightarrow> bool \<Rightarrow> artifact_ref \<Rightarrow> exn + duplicate_report" where
  "duplicate_report_of env request mode outcome raw_hash_after raw_unchanged candidate =
     bindR (validated duplicate_lineage_valid
       \<lparr>dl_action_plan_id = uq_action_plan_id request, dl_step_id = ps_step_id (uq_step request),
        dl_source_dataset_version_id = uq_source_dataset_version_id request,
        dl_candidate_dataset_version_id = uq_candidate_dataset_version_id request,
        dl_created_by_job_id = uq_created_by_job_id request, dl_config_hash = uq_config_hash request,
        dl_source_artifact = uq_source_artifact request, dl_candidate_artifact = candidate\<rparr>) (\<lambda>lineage.
     validated duplicate_report_valid
       \<lparr>du_report_id = (case uq_report_id request of
            Some i \<Rightarrow> if i = [] then ''duplicate_action_report_'' @ se_uuid env else i
          | None \<Rightarrow> ''duplicate_action_report_'' @ se_uuid env),
        du_report_schema_version = DUPLICATE_REPORT_SCHEMA_VERSION, du_mode = mode, du_id_column = uq_id_column request,
        du_signature_columns = uo_signature_columns outcome, du_before_row_count = uo_before_row_count outcome,
        du_after_row_count = int (length (uo_rows outcome)), du_before_duplicate_pair_count = uo_before_pair_count outcome,
        du_before_duplicate_group_count = uo_before_group_count outcome, du_after_duplicate_pair_count = uo_after_pair_count outcome,
        du_after_duplicate_group_count = uo_after_group_count outcome, du_marked_count = uo_marked_count outcome,
        du_removed_count = uo_removed_count outcome, du_groups = uo_summaries outcome, du_raw_artifact_hash = raw_hash_after,
        du_raw_artifact_unchanged = raw_unchanged, du_lineage = lineage,
        du_generated_at = (case uq_generated_at request of Some t \<Rightarrow> t | None \<Rightarrow> se_now env)\<rparr>)"

definition duplicate_candidate_metadata :: "'s builder_env \<Rightarrow> duplicate_request \<Rightarrow> duplicate_mode \<Rightarrow> duplicate_outcome \<Rightarrow> metadata" where
  "duplicate_candidate_metadata env request mode outcome =
     [(''action-plan-id'', uq_action_plan_id request), (''step-id'', ps_step_id (uq_step request)),
      (''source-artifact-hash'', ar_hash (uq_source_artifact request)), (''duplicate-mode'', duplicate_mode_value mode),
      (''before-row-count'', str_of_int (uo_before_row_count outcome)), (''after-row-count'', str_of_nat (length (uo_rows outcome))),
      (''marked-count'', str_of_int (uo_marked_count outcome)), (''removed-count'', str_of_int (uo_removed_count outcome))]
     @ opt_entry ''created-at'' (map_option (se_iso env) (uq_generated_at request))"

definition duplicate_report_metadata ::
    "'s builder_env \<Rightarrow> duplicate_request \<Rightarrow> duplicate_mode \<Rightarrow> duplicate_outcome \<Rightarrow> bool \<Rightarrow> registered_artifact \<Rightarrow> metadata" where
  "duplicate_report_metadata env request mode outcome raw_unchanged candidate =
     [(''action-plan-id'', uq_action_plan_id request), (''step-id'', ps_step_id (uq_step request)),
      (''duplicate-mode'', duplicate_mode_value mode),
      (''before-duplicate-pair-count'', str_of_int (uo_before_pair_count outcome)),
      (''before-duplicate-group-count'', str_of_int (uo_before_group_count outcome)),
      (''marked-count'', str_of_int (uo_marked_count outcome)), (''removed-count'', str_of_int (uo_removed_count outcome)),
      (''raw-artifact-unchanged'', bool_text raw_unchanged), (''candidate-artifact-hash'', ra_hash candidate)]
     @ opt_entry ''created-at'' (map_option (se_iso env) (uq_generated_at request))"

definition execute_tabular_duplicates_action ::
    "'s builder_env \<Rightarrow> bool \<Rightarrow> (string \<Rightarrow> string) \<Rightarrow> (duplicate_report \<Rightarrow> string) \<Rightarrow> duplicate_request \<Rightarrow> 's
     \<Rightarrow> (exn + (duplicate_report \<times> registered_artifact \<times> registered_artifact)) \<times> 's" where
  "execute_tabular_duplicates_action env quotes_cr enc ser request st =
     (case compute_duplicates env request st of
        Inl e \<Rightarrow> (Inl e, st)
      | Inr (mode, raw_hash_before, outcome) \<Rightarrow>
          (case registry_save env
             \<lparr>sv_artifact_kind = CANDIDATE_TABULAR_DATASET_KIND,
              sv_data = enc (write_csv quotes_cr (uo_rows outcome) (uo_columns outcome)), sv_artifact_format = ''csv'',
              sv_media_type = ''text/csv'', sv_schema_version = CANDIDATE_TABULAR_DATASET_SCHEMA_VERSION,
              sv_dataset_version_id = uq_candidate_dataset_version_id request,
              sv_created_by_job_id = uq_created_by_job_id request, sv_config_hash = uq_config_hash request,
              sv_metadata = duplicate_candidate_metadata env request mode outcome\<rparr> st of
             (Inl e, st1) \<Rightarrow> (Inl e, st1)
           | (Inr candidate, st1) \<Rightarrow>
               (case bindR (storage_get env (ar_uri (uq_source_artifact request)) st1) (\<lambda>(data, info).
                       let raw_hash_after = sha256_of (se_sha env) data; raw_unchanged = (raw_hash_after = raw_hash_before) in
                       bindR (duplicate_report_of env request mode outcome raw_hash_after raw_unchanged (ra_artifact_ref candidate))
                         (\<lambda>report. Inr (report, raw_unchanged))) of
                  Inl e \<Rightarrow> (Inl e, st1)
                | Inr (report, raw_unchanged) \<Rightarrow>
                    let (res, st2) = registry_save env
                          \<lparr>sv_artifact_kind = DUPLICATE_REPORT_KIND, sv_data = ser report, sv_artifact_format = ''json'',
                           sv_media_type = ''application/json'', sv_schema_version = DUPLICATE_REPORT_SCHEMA_VERSION,
                           sv_dataset_version_id = uq_candidate_dataset_version_id request,
                           sv_created_by_job_id = uq_created_by_job_id request, sv_config_hash = uq_config_hash request,
                           sv_metadata = duplicate_report_metadata env request mode outcome raw_unchanged candidate\<rparr> st1
                    in (bindR res (\<lambda>report_artifact. Inr (report, candidate, report_artifact)), st2))))"

section \<open>Members and groups\<close>

lemma canonical_least:
  assumes "ms \<noteq> []"
  shows "canonical_member ms \<in> set ms" "\<forall>m \<in> set ms. (snd (canonical_member ms), fst (canonical_member ms)) \<le> (snd m, fst m)"
proof -
  let ?s = "sort_key (\<lambda>io. (snd io, fst io)) ms"
  obtain m ms' where s: "?s = m # ms'" using assms by (cases ?s) (auto simp flip: set_empty)
  then have c: "canonical_member ms = m" by (simp add: canonical_member_def)
  have st: "set ms = set (m # ms')" by (metis s set_sort)
  then show "canonical_member ms \<in> set ms" by (simp add: c)
  have "sorted (map (\<lambda>io. (snd io, fst io)) (m # ms'))" by (metis s sorted_sort_key)
  then show "\<forall>m \<in> set ms. (snd (canonical_member ms), fst (canonical_member ms)) \<le> (snd m, fst m)"
    unfolding c st by auto
qed

text \<open>The members of a signature: the rows that have it, as pairs of index and object id.\<close>

definition members_of ::
    "(string \<Rightarrow> string) \<Rightarrow> string \<Rightarrow> string list \<Rightarrow> csv_row list \<Rightarrow> string \<Rightarrow> (nat \<times> string) list" where
  "members_of sha id_column cs rows k =
     map (\<lambda>ir. (fst ir, member_id id_column ir)) (filter (\<lambda>ir. duplicate_signature sha cs (snd ir) = k) (enumerate 0 rows))"

lemma members_of_iff:
  "(i, oid) \<in> set (members_of sha id_column cs rows k) \<longleftrightarrow>
     i < length rows \<and> duplicate_signature sha cs (rows ! i) = k \<and> oid = member_id id_column (i, rows ! i)"
  by (auto simp: members_of_def in_set_enumerate_eq image_iff)

lemma distinct_members: "distinct (map fst (members_of sha id_column cs rows k))"
proof -
  have "map fst (members_of sha id_column cs rows k) = map fst (filter (\<lambda>ir. duplicate_signature sha cs (snd ir) = k) (enumerate 0 rows))"
    by (simp add: members_of_def)
  then show ?thesis by (simp add: distinct_map_filter)
qed

lemma grouped_rows:
  "group_by_signature sha rows id_column cs =
     map (\<lambda>k. (k, members_of sha id_column cs rows k)) (fromkeys (map (\<lambda>ir. duplicate_signature sha cs (snd ir)) (enumerate 0 rows)))"
  unfolding group_by_signature_def members_of_def by (rule grouped_by_key)

lemma keys_of_rows: "map (\<lambda>ir. duplicate_signature sha cs (snd ir)) (enumerate n rows) = map (duplicate_signature sha cs) rows"
  by (induction rows arbitrary: n) auto

lemma duplicate_groups_iff:
  "(k, ms) \<in> set (duplicate_groups_of sha rows id_column cs) \<longleftrightarrow>
     ms = members_of sha id_column cs rows k \<and> k \<in> duplicate_signature sha cs ` set rows \<and> 2 \<le> length ms"
  by (auto simp: duplicate_groups_of_def grouped_rows keys_of_rows)

lemma distinct_groups: "distinct (map fst (duplicate_groups_of sha rows id_column cs))"
proof -
  let ?g = "group_by_signature sha rows id_column cs"
  have "distinct (map fst ?g)" by (simp add: grouped_rows comp_def)
  moreover have "mset (map fst (sort_key fst ?g)) = mset (map fst ?g)" by (simp only: mset_map mset_sort)
  ultimately have "distinct (map fst (sort_key fst ?g))" by (metis mset_eq_imp_distinct_iff)
  then show ?thesis unfolding duplicate_groups_of_def by (rule distinct_map_filter)
qed

section \<open>Removal\<close>

text \<open>What removal should keep: of the rows with one signature, the one with the least object id, the first of those.\<close>

definition least_member :: "(string \<Rightarrow> string) \<Rightarrow> string \<Rightarrow> string list \<Rightarrow> csv_row list \<Rightarrow> nat \<times> csv_row \<Rightarrow> bool" where
  "least_member sha id_column cs rows ir \<longleftrightarrow>
     list_all (\<lambda>jr. duplicate_signature sha cs (snd jr) = duplicate_signature sha cs (snd ir)
       \<longrightarrow> (member_id id_column ir, fst ir) \<le> (member_id id_column jr, fst jr)) (enumerate 0 rows)"

definition deduplicated :: "(string \<Rightarrow> string) \<Rightarrow> string \<Rightarrow> string list \<Rightarrow> csv_row list \<Rightarrow> csv_row list" where
  "deduplicated sha id_column cs rows = map snd (filter (least_member sha id_column cs rows) (enumerate 0 rows))"

lemma list_all_enumerate: "list_all P (enumerate 0 xs) \<longleftrightarrow> (\<forall>j < length xs. P (j, xs ! j))"
  by (auto simp: list_all_length nth_enumerate_eq)

lemma least_member_iff:
  "least_member sha id_column cs rows (i, row) \<longleftrightarrow>
     (\<forall>j < length rows. duplicate_signature sha cs (rows ! j) = duplicate_signature sha cs row
       \<longrightarrow> (member_id id_column (i, row), i) \<le> (member_id id_column (j, rows ! j), j))"
  by (simp add: least_member_def list_all_enumerate)

lemma canonical_is_least:
  assumes i: "i < length rows"
    and c: "c = canonical_member (members_of sha id_column cs rows (duplicate_signature sha cs (rows ! i)))"
  shows "least_member sha id_column cs rows (i, rows ! i) \<longleftrightarrow> fst c = i"
    and "c \<in> set (members_of sha id_column cs rows (duplicate_signature sha cs (rows ! i)))"
proof -
  let ?ms = "members_of sha id_column cs rows (duplicate_signature sha cs (rows ! i))"
  have me: "(i, member_id id_column (i, rows ! i)) \<in> set ?ms" using i by (simp add: members_of_iff)
  then have ne: "?ms \<noteq> []" by auto
  show c_in: "c \<in> set ?ms" unfolding c by (rule canonical_least(1) [OF ne])
  obtain j oid where cj: "c = (j, oid)" by (cases c)
  have j: "j < length rows" "duplicate_signature sha cs (rows ! j) = duplicate_signature sha cs (rows ! i)"
    "oid = member_id id_column (j, rows ! j)"
    using c_in by (simp_all add: cj members_of_iff)
  have min: "(oid, j) \<le> (member_id id_column (l, rows ! l), l)"
    if "l < length rows" "duplicate_signature sha cs (rows ! l) = duplicate_signature sha cs (rows ! i)" for l
  proof -
    have "(l, member_id id_column (l, rows ! l)) \<in> set ?ms" using that by (simp add: members_of_iff)
    then show ?thesis using canonical_least(2) [OF ne] unfolding c [symmetric] cj by fastforce
  qed
  show "least_member sha id_column cs rows (i, rows ! i) \<longleftrightarrow> fst c = i"
  proof
    assume "least_member sha id_column cs rows (i, rows ! i)"
    then have "(member_id id_column (i, rows ! i), i) \<le> (oid, j)" using j by (simp add: least_member_iff)
    moreover have "(oid, j) \<le> (member_id id_column (i, rows ! i), i)" using min i by simp
    ultimately have "(oid, j) = (member_id id_column (i, rows ! i), i)" by (rule order_antisym [rotated])
    then show "fst c = i" by (simp add: cj)
  next
    assume "fst c = i"
    then have "j = i" by (simp add: cj)
    then show "least_member sha id_column cs rows (i, rows ! i)"
      using min j(3) by (simp add: least_member_iff)
  qed
qed

lemma dropped_iff:
  assumes i: "i < length rows"
  shows "i \<in> set (drop_indices (duplicate_groups_of sha rows id_column cs)) \<longleftrightarrow> \<not> least_member sha id_column cs rows (i, rows ! i)"
proof -
  let ?k = "duplicate_signature sha cs (rows ! i)"
  let ?ms = "members_of sha id_column cs rows ?k"
  note cl = canonical_is_least [OF i refl, of sha id_column cs]
  have me: "(i, member_id id_column (i, rows ! i)) \<in> set ?ms" using i by (simp add: members_of_iff)
  have "i \<in> set (drop_indices (duplicate_groups_of sha rows id_column cs)) \<longleftrightarrow>
      (\<exists>k ms. (k, ms) \<in> set (duplicate_groups_of sha rows id_column cs) \<and> (\<exists>oid. (i, oid) \<in> set ms \<and> i \<noteq> fst (canonical_member ms)))"
    by (force simp: drop_indices_def removed_members_def)
  also have "\<dots> \<longleftrightarrow> 2 \<le> length ?ms \<and> i \<noteq> fst (canonical_member ?ms)"
    using i by (auto simp: duplicate_groups_iff members_of_iff)
  also have "\<dots> \<longleftrightarrow> i \<noteq> fst (canonical_member ?ms)"
  proof -
    have "2 \<le> length ?ms" if "i \<noteq> fst (canonical_member ?ms)"
    proof -
      have "card {(i, member_id id_column (i, rows ! i)), canonical_member ?ms} \<le> length ?ms"
        using me cl(2) by (intro order_trans [OF card_mono card_length]) auto
      moreover have "(i, member_id id_column (i, rows ! i)) \<noteq> canonical_member ?ms" using that by (metis fst_conv)
      ultimately show ?thesis by simp
    qed
    then show ?thesis by blast
  qed
  also have "\<dots> \<longleftrightarrow> \<not> least_member sha id_column cs rows (i, rows ! i)" using cl(1) by auto
  finally show ?thesis .
qed

lemma removed_rows:
  "map snd (filter (\<lambda>ir. fst ir \<notin> set (drop_indices (duplicate_groups_of sha rows id_column cs))) (enumerate 0 rows)) =
     deduplicated sha id_column cs rows"
  unfolding deduplicated_def
  by (intro arg_cong [where f = "map snd"] filter_cong refl) (auto simp: in_set_enumerate_eq dropped_iff)

lemma count_indicator: "distinct ks \<Longrightarrow> (\<Sum>k\<leftarrow>ks. if a = k then 1 else 0) = (if a \<in> set ks then 1 else (0::nat))"
  by (induction ks) auto

lemma int_sum_list: "(\<Sum>x\<leftarrow>xs. int (f x)) = int (\<Sum>x\<leftarrow>xs. f x)"
  by (induction xs) auto

lemma sum_by_key:
  assumes "distinct ks" "f ` set xs \<subseteq> set ks"
  shows "(\<Sum>k\<leftarrow>ks. length (filter (\<lambda>x. f x = k) xs)) = length xs"
  using assms(2)
proof (induction xs)
  case Nil
  then show ?case by simp
next
  case (Cons x xs)
  have "(\<Sum>k\<leftarrow>ks. length (filter (\<lambda>y. f y = k) (x # xs))) =
      (\<Sum>k\<leftarrow>ks. (if f x = k then 1 else 0) + length (filter (\<lambda>y. f y = k) xs))"
    by (intro arg_cong [where f = sum_list] map_cong) auto
  also have "\<dots> = Suc (length xs)"
    using Cons count_indicator [OF assms(1), of "f x"] by (simp add: sum_list_addf)
  finally show ?case by simp
qed

lemma sum_filtered: "(\<And>x. x \<in> set xs \<Longrightarrow> \<not> P x \<Longrightarrow> g x = 0) \<Longrightarrow> sum_list (map g (filter P xs)) = sum_list (map g (xs :: 'a list) :: int list)"
  by (induction xs) auto

lemma sum_sorted: "sum_list (map g (sort_key f xs)) = sum_list (map g xs :: int list)"
proof -
  have "mset (map g (sort_key f xs)) = mset (map g xs)" by (simp only: mset_map mset_sort)
  then show ?thesis by (metis sum_mset_sum_list)
qed

text \<open>The extra members of all groups: the rows less the distinct signatures.\<close>

lemma pair_count_rows:
  "pair_count (duplicate_groups_of sha rows id_column cs) =
     int (length rows) - int (length (fromkeys (map (duplicate_signature sha cs) rows)))"
proof -
  let ?ks = "fromkeys (map (duplicate_signature sha cs) rows)"
  let ?sig = "\<lambda>ir. duplicate_signature sha cs (snd (ir :: nat \<times> csv_row))"
  let ?g = "\<lambda>sm. int (length (snd (sm :: string \<times> (nat \<times> string) list))) - 1"
  have member: "members_of sha id_column cs rows k \<noteq> []" if "k \<in> set ?ks" for k
  proof -
    have "k \<in> duplicate_signature sha cs ` set rows" using that by simp
    then obtain i where "i < length rows" "duplicate_signature sha cs (rows ! i) = k"
      by (auto simp: in_set_conv_nth [of _ rows])
    then have "(i, member_id id_column (i, rows ! i)) \<in> set (members_of sha id_column cs rows k)" by (simp add: members_of_iff)
    then show ?thesis by auto
  qed
  have "pair_count (duplicate_groups_of sha rows id_column cs) = sum_list (map ?g (group_by_signature sha rows id_column cs))"
    unfolding pair_count_def duplicate_groups_of_def
  proof (subst sum_filtered)
    fix sm assume "sm \<in> set (sort_key fst (group_by_signature sha rows id_column cs))" "\<not> 2 \<le> length (snd sm)"
    then have "length (snd sm) = 1"
      using member by (auto simp: grouped_rows keys_of_rows numeral_2_eq_2 not_le less_Suc_eq)
    then show "?g sm = 0" by simp
  qed (simp add: sum_sorted)
  also have "\<dots> = (\<Sum>k\<leftarrow>?ks. int (length (filter (\<lambda>ir. ?sig ir = k) (enumerate 0 rows)))) - int (length ?ks)"
    by (simp add: grouped_rows keys_of_rows comp_def members_of_def sum_list_subtractf sum_list_triv)
  also have "(\<Sum>k\<leftarrow>?ks. int (length (filter (\<lambda>ir. ?sig ir = k) (enumerate 0 rows)))) =
      int (\<Sum>k\<leftarrow>?ks. length (filter (\<lambda>ir. ?sig ir = k) (enumerate 0 rows)))"
    by (rule int_sum_list)
  also have "(\<Sum>k\<leftarrow>?ks. length (filter (\<lambda>ir. ?sig ir = k) (enumerate 0 rows))) = length (enumerate 0 rows)"
  proof (rule sum_by_key)
    have "?sig ` set (enumerate 0 rows) = set (map ?sig (enumerate 0 rows))" by simp
    then show "?sig ` set (enumerate 0 rows) \<subseteq> set ?ks" by (simp only: keys_of_rows) simp
  qed simp
  finally show ?thesis by simp
qed

lemma deduplicated_signatures:
  "set (map (duplicate_signature sha cs) (deduplicated sha id_column cs rows)) = set (map (duplicate_signature sha cs) rows)"
  "distinct (map (duplicate_signature sha cs) (deduplicated sha id_column cs rows))"
proof -
  let ?sig = "duplicate_signature sha cs"
  let ?kept = "filter (least_member sha id_column cs rows) (enumerate 0 rows)"
  have "\<exists>r \<in> set (deduplicated sha id_column cs rows). ?sig r = ?sig (rows ! i)" if i: "i < length rows" for i
  proof -
    let ?c = "canonical_member (members_of sha id_column cs rows (?sig (rows ! i)))"
    have c: "?c \<in> set (members_of sha id_column cs rows (?sig (rows ! i)))" by (rule canonical_is_least(2) [OF i refl])
    then have j: "fst ?c < length rows" "?sig (rows ! fst ?c) = ?sig (rows ! i)"
      by (metis members_of_iff prod.collapse)+
    then have "least_member sha id_column cs rows (fst ?c, rows ! fst ?c)"
      by (simp add: canonical_is_least(1) [OF j(1) refl])
    then have "(fst ?c, rows ! fst ?c) \<in> set ?kept" using j(1) by (simp add: in_set_enumerate_eq)
    then show ?thesis using j(2) unfolding deduplicated_def by force
  qed
  then have "?sig r \<in> ?sig ` set (deduplicated sha id_column cs rows)" if "r \<in> set rows" for r
    using that by (metis image_eqI in_set_conv_nth)
  moreover have "set (deduplicated sha id_column cs rows) \<subseteq> set rows"
    by (auto simp: deduplicated_def in_set_enumerate_eq)
  ultimately show "set (map ?sig (deduplicated sha id_column cs rows)) = set (map ?sig rows)" by auto
  have kept: "ir \<in> set ?kept \<longleftrightarrow> (\<exists>i < length rows. ir = (i, rows ! i) \<and> least_member sha id_column cs rows (i, rows ! i))" for ir
    by (cases ir) (auto simp: in_set_enumerate_eq)
  have "inj_on (\<lambda>ir. ?sig (snd ir)) (set ?kept)"
  proof (rule inj_onI)
    fix ir jr assume "ir \<in> set ?kept" "jr \<in> set ?kept" and same: "?sig (snd ir) = ?sig (snd jr)"
    then obtain i j where ij: "ir = (i, rows ! i)" "jr = (j, rows ! j)" "i < length rows" "j < length rows"
      "least_member sha id_column cs rows (i, rows ! i)" "least_member sha id_column cs rows (j, rows ! j)"
      unfolding kept by blast
    then have "(member_id id_column (i, rows ! i), i) \<le> (member_id id_column (j, rows ! j), j)"
      "(member_id id_column (j, rows ! j), j) \<le> (member_id id_column (i, rows ! i), i)"
      using same by (simp_all add: least_member_iff)
    then show "ir = jr" using order_antisym ij by blast
  qed
  moreover have "distinct ?kept" by simp
  ultimately show "distinct (map ?sig (deduplicated sha id_column cs rows))"
    by (simp add: deduplicated_def distinct_map comp_def)
qed

lemma length_without_key:
  "distinct (map fst ms) \<Longrightarrow> m \<in> set ms \<Longrightarrow> length (filter (\<lambda>io. fst io \<noteq> fst m) ms) = length ms - 1"
proof (induction ms)
  case Nil
  then show ?case by simp
next
  case (Cons a ms)
  show ?case
  proof (cases "fst a = fst m")
    case True
    then have "filter (\<lambda>io. fst io \<noteq> fst m) ms = ms" using Cons.prems by (auto simp: filter_id_conv image_iff)
    then show ?thesis using True by simp
  next
    case False
    then have "m \<in> set ms" using Cons.prems by auto
    then show ?thesis using Cons False by (cases ms) auto
  qed
qed

lemma removed_members_count:
  assumes "distinct (map fst ms)" "ms \<noteq> []"
  shows "int (length (removed_members ms)) = int (length ms) - 1"
  unfolding removed_members_def length_without_key [OF assms(1) canonical_least(1) [OF assms(2)]]
  using assms(2) by (cases ms) simp_all

lemma drop_count:
  "\<forall>(k, ms) \<in> set gs. ms \<noteq> [] \<and> distinct (map fst ms) \<Longrightarrow> int (length (drop_indices gs)) = pair_count gs"
  by (induction gs) (auto simp: drop_indices_def pair_count_def removed_members_count split: prod.splits)

lemma pair_count_zero: "\<forall>(k, ms) \<in> set gs. 2 \<le> length ms \<Longrightarrow> int (length gs) \<le> pair_count gs"
  by (induction gs) (auto simp: pair_count_def split: prod.splits)

text \<open>C28: Remove mode keeps exactly one row of every signature, the one with the least object id (the first of those), and
  nothing else: the candidate is the rows filtered by that rule in their order, its signatures are those of the source, each
  once, the removed count and the pair count are the rows it lost, and a second run would find no group.\<close>

theorem remove_keeps_one_per_signature:
  assumes "duplicate_outcome_of sha REMOVE_CANDIDATE id_column explicit rows columns = Inr r"
  shows "uo_rows r = deduplicated sha id_column (uo_signature_columns r) rows \<and> subseq (uo_rows r) rows
    \<and> distinct (map (duplicate_signature sha (uo_signature_columns r)) (uo_rows r))
    \<and> set (map (duplicate_signature sha (uo_signature_columns r)) (uo_rows r))
        = set (map (duplicate_signature sha (uo_signature_columns r)) rows)
    \<and> uo_removed_count r = int (length rows) - int (length (uo_rows r)) \<and> uo_before_pair_count r = uo_removed_count r
    \<and> duplicate_groups_of sha (uo_rows r) id_column (uo_signature_columns r) = []"
proof -
  let ?cs = "uo_signature_columns r"
  let ?sig = "duplicate_signature sha ?cs"
  have out: "uo_rows r = deduplicated sha id_column ?cs rows" "uo_columns r = columns"
    "uo_before_pair_count r = pair_count (duplicate_groups_of sha rows id_column ?cs)"
    "uo_removed_count r = int (length (drop_indices (duplicate_groups_of sha rows id_column ?cs)))"
    using assms by (auto simp: duplicate_outcome_of_def build_remove_output_def Let_def result_simps removed_rows split: if_splits)
  note ded = deduplicated_signatures [of sha ?cs id_column rows]
  have "subseq (uo_rows r) rows"
  proof -
    have "subseq (map snd (filter (least_member sha id_column ?cs rows) (enumerate 0 rows))) (map snd (enumerate 0 rows))"
      by (intro subseq_map subseq_filter_left)
    then show ?thesis by (simp add: out deduplicated_def)
  qed
  moreover have "length (uo_rows r) = length (fromkeys (map ?sig rows))"
  proof -
    have "length (uo_rows r) = card (set (map ?sig (uo_rows r)))"
      using distinct_card [OF ded(2)] by (simp add: out)
    also have "\<dots> = card (set (map ?sig rows))" using ded(1) by (simp only: out)
    finally show ?thesis by (simp only: fromkeys.dd_length)
  qed
  moreover have "uo_removed_count r = uo_before_pair_count r"
    unfolding out by (rule drop_count) (auto simp: duplicate_groups_iff distinct_members)
  moreover have "duplicate_groups_of sha (uo_rows r) id_column ?cs = []"
  proof -
    have "int (length (duplicate_groups_of sha (uo_rows r) id_column ?cs)) \<le> pair_count (duplicate_groups_of sha (uo_rows r) id_column ?cs)"
      by (rule pair_count_zero) (auto simp: duplicate_groups_iff)
    also have "\<dots> = 0"
      unfolding pair_count_rows using ded(2) by (simp add: out fromkeys.dd_id)
    finally show ?thesis by simp
  qed
  ultimately show ?thesis
    using ded out pair_count_rows [of sha rows id_column ?cs] by simp
qed

section \<open>Marking\<close>

lemma marker_row_get:
  "row_get (marker_row a b c row) col =
     (if col = IS_DUPLICATE_KEPT_COLUMN then c else if col = DUPLICATE_GROUP_ID_COLUMN then b
      else if col = IS_DUPLICATE_CANDIDATE_COLUMN then a else row_get row col)"
  by (simp add: marker_row_def row_get_set)

lemma mark_member_length [simp]: "length (mark_member g c rs io) = length rs"
  by (simp add: mark_member_def)

lemma mark_members_length [simp]: "length (foldl (mark_member g c) rs ms) = length rs"
  by (induction ms arbitrary: rs) auto

lemma mark_groups_length [simp]:
  "length (foldl (\<lambda>rs (index, _, members). foldl (mark_member (f index) (c members)) rs members) rs gs) = length rs"
  by (induction gs arbitrary: rs) (auto split: prod.splits)

lemma mark_members_nth:
  assumes "i < length rs" "distinct (map fst ms)"
  shows "foldl (mark_member g c) rs ms ! i =
    (case map_of ms i of None \<Rightarrow> rs ! i | Some oid \<Rightarrow> marker_row ''1'' g (if oid = c then ''1'' else ''0'') (rs ! i))"
  using assms
proof (induction ms arbitrary: rs)
  case Nil
  then show ?case by simp
next
  case (Cons m ms)
  then have "map_of ms (fst m) = None" by (auto simp: map_of_eq_None_iff)
  then show ?case
    using Cons by (cases m) (auto simp: mark_member_def nth_list_update split: option.split)
qed

lemma mark_groups_other:
  assumes "i < length rs" "\<forall>g \<in> set gs. i \<notin> fst ` set (snd (snd g)) \<and> distinct (map fst (snd (snd g)))"
  shows "foldl (\<lambda>rs (index, _, members). foldl (mark_member (f index) (c members)) rs members) rs gs ! i = rs ! i"
  using assms
proof (induction gs arbitrary: rs)
  case Nil
  then show ?case by simp
next
  case (Cons g gs)
  obtain n k ms where g: "g = (n, k, ms)" by (cases g)
  then have "map_of ms i = None" using Cons.prems by (auto simp: map_of_eq_None_iff)
  then show ?case using Cons by (simp add: g mark_members_nth)
qed

lemma mark_groups_nth:
  assumes "i < length rs" "\<forall>g \<in> set gs. distinct (map fst (snd (snd g)))" "distinct gs"
    and "(n, k, ms) \<in> set gs" "(i, oid) \<in> set ms" "\<forall>g \<in> set gs. i \<in> fst ` set (snd (snd g)) \<longrightarrow> g = (n, k, ms)"
  shows "foldl (\<lambda>rs (index, _, members). foldl (mark_member (f index) (c members)) rs members) rs gs ! i =
    marker_row ''1'' (f n) (if oid = c ms then ''1'' else ''0'') (rs ! i)"
proof -
  obtain as bs where gs: "gs = as @ (n, k, ms) # bs" using assms(4) by (auto simp: in_set_conv_decomp)
  have others: "\<forall>g \<in> set as. i \<notin> fst ` set (snd (snd g)) \<and> distinct (map fst (snd (snd g)))"
    "\<forall>g \<in> set bs. i \<notin> fst ` set (snd (snd g)) \<and> distinct (map fst (snd (snd g)))"
    using assms(2,3,6) unfolding gs by (auto simp: ball_Un)
  have "map_of ms i = Some oid" using assms(2,5) by (auto simp: gs)
  then show ?thesis
    using assms(1,2) by (simp add: gs mark_groups_other [OF _ others(2)] mark_groups_other [OF _ others(1)] mark_members_nth)
qed

lemma shared_iff:
  assumes "i < length rows"
  shows "2 \<le> length (members_of sha id_column cs rows (duplicate_signature sha cs (rows ! i))) \<longleftrightarrow>
    (\<exists>j < length rows. j \<noteq> i \<and> duplicate_signature sha cs (rows ! j) = duplicate_signature sha cs (rows ! i))"
proof -
  let ?ms = "members_of sha id_column cs rows (duplicate_signature sha cs (rows ! i))"
  have "length ?ms = card (fst ` set ?ms)"
    using distinct_card [OF distinct_members, of sha id_column cs rows "duplicate_signature sha cs (rows ! i)"] by simp
  also have "fst ` set ?ms = {j. j < length rows \<and> duplicate_signature sha cs (rows ! j) = duplicate_signature sha cs (rows ! i)}" (is "_ = ?J")
  proof (rule set_eqI)
    fix j
    have "j \<in> fst ` set ?ms \<longleftrightarrow> (\<exists>oid. (j, oid) \<in> set ?ms)" by force
    then show "j \<in> fst ` set ?ms \<longleftrightarrow> j \<in> ?J" by (simp add: members_of_iff)
  qed
  also have "2 \<le> card ?J \<longleftrightarrow> ?J - {i} \<noteq> {}"
  proof -
    have "card ?J = Suc (card (?J - {i}))" using assms by (intro card.remove) auto
    moreover have "card (?J - {i}) = 0 \<longleftrightarrow> ?J - {i} = {}" by (intro card_0_eq) simp
    ultimately show ?thesis by linarith
  qed
  finally show ?thesis by auto
qed

lemma canonical_id_iff:
  assumes "i < length rows"
  shows "member_id id_column (i, rows ! i) = snd (canonical_member (members_of sha id_column cs rows (duplicate_signature sha cs (rows ! i))))
    \<longleftrightarrow> (\<forall>j < length rows. duplicate_signature sha cs (rows ! j) = duplicate_signature sha cs (rows ! i)
          \<longrightarrow> member_id id_column (i, rows ! i) \<le> member_id id_column (j, rows ! j))"
proof -
  let ?ms = "members_of sha id_column cs rows (duplicate_signature sha cs (rows ! i))"
  let ?c = "canonical_member ?ms"
  note c_in = canonical_is_least(2) [OF assms refl, of sha id_column cs]
  then have ne: "?ms \<noteq> []" by auto
  have least: "snd ?c \<le> member_id id_column (j, rows ! j)"
    if "j < length rows" "duplicate_signature sha cs (rows ! j) = duplicate_signature sha cs (rows ! i)" for j
  proof -
    have "(j, member_id id_column (j, rows ! j)) \<in> set ?ms" using that by (simp add: members_of_iff)
    then show ?thesis using canonical_least(2) [OF ne] by fastforce
  qed
  have c: "fst ?c < length rows" "duplicate_signature sha cs (rows ! fst ?c) = duplicate_signature sha cs (rows ! i)"
    "snd ?c = member_id id_column (fst ?c, rows ! fst ?c)"
    using c_in by (metis members_of_iff prod.collapse)+
  show ?thesis
  proof
    assume "member_id id_column (i, rows ! i) = snd ?c"
    then show "\<forall>j < length rows. duplicate_signature sha cs (rows ! j) = duplicate_signature sha cs (rows ! i)
        \<longrightarrow> member_id id_column (i, rows ! i) \<le> member_id id_column (j, rows ! j)"
      using least by simp
  next
    assume "\<forall>j < length rows. duplicate_signature sha cs (rows ! j) = duplicate_signature sha cs (rows ! i)
        \<longrightarrow> member_id id_column (i, rows ! i) \<le> member_id id_column (j, rows ! j)"
    then have "member_id id_column (i, rows ! i) \<le> snd ?c" using c by simp
    moreover have "snd ?c \<le> member_id id_column (i, rows ! i)" using least assms by simp
    ultimately show "member_id id_column (i, rows ! i) = snd ?c" by (rule order_antisym)
  qed
qed

text \<open>The rule of mark mode: a row is marked when another row has its signature, and kept when no such row has a smaller object id.\<close>

definition shares_signature :: "(string \<Rightarrow> string) \<Rightarrow> string list \<Rightarrow> csv_row list \<Rightarrow> nat \<Rightarrow> bool" where
  "shares_signature sha cs rows i \<longleftrightarrow>
     (\<exists>j < length rows. j \<noteq> i \<and> duplicate_signature sha cs (rows ! j) = duplicate_signature sha cs (rows ! i))"

definition least_id :: "(string \<Rightarrow> string) \<Rightarrow> string \<Rightarrow> string list \<Rightarrow> csv_row list \<Rightarrow> nat \<Rightarrow> bool" where
  "least_id sha id_column cs rows i \<longleftrightarrow>
     (\<forall>j < length rows. duplicate_signature sha cs (rows ! j) = duplicate_signature sha cs (rows ! i)
        \<longrightarrow> member_id id_column (i, rows ! i) \<le> member_id id_column (j, rows ! j))"

lemma mark_rows_nth:
  assumes i: "i < length rows" and gs: "gs = duplicate_groups_of sha rows id_column cs"
  shows "\<not> shares_signature sha cs rows i \<Longrightarrow> mark_rows rows gs ! i = marker_row ''0'' [] [] (rows ! i)"
    and "n < length gs \<Longrightarrow> fst (gs ! n) = duplicate_signature sha cs (rows ! i) \<Longrightarrow> mark_rows rows gs ! i =
      marker_row ''1'' (duplicate_group_id n) (if least_id sha id_column cs rows i then ''1'' else ''0'') (marker_row ''0'' [] [] (rows ! i))"
    and "shares_signature sha cs rows i \<longleftrightarrow> (\<exists>n < length gs. fst (gs ! n) = duplicate_signature sha cs (rows ! i))"
proof -
  let ?k = "duplicate_signature sha cs (rows ! i)"
  let ?ms = "members_of sha id_column cs rows ?k"
  have in_gs: "g \<in> set gs \<Longrightarrow> snd g = members_of sha id_column cs rows (fst g) \<and> fst g \<in> duplicate_signature sha cs ` set rows \<and> 2 \<le> length (snd g)" for g
    unfolding gs by (cases g) (auto simp: duplicate_groups_iff)
  have entry: "g \<in> set (enumerate 0 gs) \<Longrightarrow> fst g < length gs \<and> gs ! fst g = snd g \<and> snd g \<in> set gs" for g
    by (cases g) (force simp: in_set_enumerate_eq in_set_conv_nth [of _ gs])
  have mine: "fst (snd g) = ?k" if "g \<in> set (enumerate 0 gs)" "i \<in> fst ` set (snd (snd g))" for g
    using that in_gs [of "snd g"] entry [of g] by (auto simp: members_of_iff)
  have distinct: "\<forall>g \<in> set (enumerate 0 gs). distinct (map fst (snd (snd g)))"
    using entry in_gs distinct_members by metis
  show shared: "shares_signature sha cs rows i \<longleftrightarrow> (\<exists>n < length gs. fst (gs ! n) = ?k)"
  proof -
    have "(\<exists>n < length gs. fst (gs ! n) = ?k) \<longleftrightarrow> (\<exists>g \<in> set gs. fst g = ?k)" by (metis in_set_conv_nth)
    also have "\<dots> \<longleftrightarrow> (\<exists>ms. (?k, ms) \<in> set gs)" by force
    also have "\<dots> \<longleftrightarrow> 2 \<le> length ?ms"
      using i by (auto simp: gs duplicate_groups_iff)
    finally show ?thesis by (simp add: shares_signature_def shared_iff [OF i])
  qed
  show "mark_rows rows gs ! i = marker_row ''0'' [] [] (rows ! i)" if "\<not> shares_signature sha cs rows i"
  proof -
    have "\<forall>g \<in> set (enumerate 0 gs). i \<notin> fst ` set (snd (snd g)) \<and> distinct (map fst (snd (snd g)))"
      using that shared entry mine distinct by metis
    then show ?thesis
      using i by (simp add: mark_rows_def mark_groups_other)
  qed
  show "mark_rows rows gs ! i =
      marker_row ''1'' (duplicate_group_id n) (if least_id sha id_column cs rows i then ''1'' else ''0'') (marker_row ''0'' [] [] (rows ! i))"
    if n: "n < length gs" "fst (gs ! n) = ?k"
  proof -
    have g: "gs ! n = (?k, ?ms)" using in_gs [of "gs ! n"] n by (metis nth_mem prod.collapse)
    have "(n, ?k, ?ms) \<in> set (enumerate 0 gs)" using n(1) g by (simp add: in_set_enumerate_eq)
    moreover have "(i, member_id id_column (i, rows ! i)) \<in> set ?ms" using i by (simp add: members_of_iff)
    moreover have "\<forall>g \<in> set (enumerate 0 gs). i \<in> fst ` set (snd (snd g)) \<longrightarrow> g = (n, ?k, ?ms)"
    proof (intro ballI impI)
      fix e assume e: "e \<in> set (enumerate 0 gs)" "i \<in> fst ` set (snd (snd e))"
      have "map fst gs ! fst e = map fst gs ! n" using mine [OF e] entry [OF e(1)] n by simp
      then have "fst e = n" using distinct_groups [of sha rows id_column cs] entry [OF e(1)] n(1)
        by (simp add: gs nth_eq_iff_index_eq del: nth_map)
      then show "e = (n, ?k, ?ms)" using entry [OF e(1)] g by (metis prod.collapse)
    qed
    ultimately have "mark_rows rows gs ! i = marker_row ''1'' (duplicate_group_id n)
        (if member_id id_column (i, rows ! i) = snd (canonical_member ?ms) then ''1'' else ''0'') (map (marker_row ''0'' [] []) rows ! i)"
      unfolding mark_rows_def using distinct i by (intro mark_groups_nth) auto
    then show ?thesis using i by (simp add: least_id_def canonical_id_iff [OF i])
  qed
qed

lemma nat_of_str_pad: "nat_of_str (pad_zeros n s) = nat_of_str s"
proof -
  have "foldl (\<lambda>n c. 10 * n + (code c - 48)) 0 (replicate k (CHR ''0'')) = (0::nat)" for k
    by (induction k) (simp_all add: code_Char)
  then show ?thesis by (simp add: nat_of_str_def)
qed

lemma duplicate_group_id_inject: "duplicate_group_id m = duplicate_group_id n \<longleftrightarrow> m = n"
  unfolding duplicate_group_id_def by (metis nat_of_str_of_nat nat_of_str_pad same_append_eq)

text \<open>Mark mode removes no row and touches no other column: a row is flagged exactly when another row has its signature,
  flagged rows have one group id exactly when they have one signature, and a flagged row is to be kept exactly when no row
  of its group has a smaller object id, so that rows with one object id are all kept.\<close>

theorem mark_flags_shared_signatures:
  assumes "duplicate_outcome_of sha MARK id_column explicit rows columns = Inr m"
  shows "length (uo_rows m) = length rows \<and> uo_removed_count m = 0
    \<and> (\<forall>i < length rows.
         (\<forall>c. c \<notin> set marker_columns \<longrightarrow> row_get (uo_rows m ! i) c = row_get (rows ! i) c)
       \<and> row_get (uo_rows m ! i) IS_DUPLICATE_CANDIDATE_COLUMN
           = (if shares_signature sha (uo_signature_columns m) rows i then ''1'' else ''0'')
       \<and> row_get (uo_rows m ! i) IS_DUPLICATE_KEPT_COLUMN
           = (if shares_signature sha (uo_signature_columns m) rows i
              then if least_id sha id_column (uo_signature_columns m) rows i then ''1'' else ''0'' else [])
       \<and> (\<forall>j < length rows. shares_signature sha (uo_signature_columns m) rows i \<and> shares_signature sha (uo_signature_columns m) rows j \<longrightarrow>
            (row_get (uo_rows m ! i) DUPLICATE_GROUP_ID_COLUMN = row_get (uo_rows m ! j) DUPLICATE_GROUP_ID_COLUMN
             \<longleftrightarrow> duplicate_signature sha (uo_signature_columns m) (rows ! i) = duplicate_signature sha (uo_signature_columns m) (rows ! j))))"
proof -
  let ?cs = "uo_signature_columns m"
  let ?gs = "duplicate_groups_of sha rows id_column ?cs"
  have out: "uo_rows m = mark_rows rows ?gs" "uo_removed_count m = 0"
    using assms by (auto simp: duplicate_outcome_of_def build_mark_output_def Let_def result_simps split: if_splits)
  note at = mark_rows_nth [OF _ refl, where rows = rows and sha = sha and id_column = id_column and cs = ?cs]
  have len: "length (uo_rows m) = length rows" by (simp add: out mark_rows_def)
  have "\<exists>n < length ?gs. fst (?gs ! n) = duplicate_signature sha ?cs (rows ! i) \<and> row_get (uo_rows m ! i) DUPLICATE_GROUP_ID_COLUMN = duplicate_group_id n"
    if "i < length rows" "shares_signature sha ?cs rows i" for i
    using at(2) [OF that(1)] at(3) [OF that(1)] that(2) by (auto simp: out marker_row_get)
  note group = this
  have same: "row_get (uo_rows m ! i) DUPLICATE_GROUP_ID_COLUMN = row_get (uo_rows m ! j) DUPLICATE_GROUP_ID_COLUMN
      \<longleftrightarrow> duplicate_signature sha ?cs (rows ! i) = duplicate_signature sha ?cs (rows ! j)"
    if ij: "i < length rows" "j < length rows" "shares_signature sha ?cs rows i" "shares_signature sha ?cs rows j" for i j
  proof -
    obtain p where p: "p < length ?gs" "fst (?gs ! p) = duplicate_signature sha ?cs (rows ! i)"
      "row_get (uo_rows m ! i) DUPLICATE_GROUP_ID_COLUMN = duplicate_group_id p" using group ij(1,3) by blast
    obtain q where q: "q < length ?gs" "fst (?gs ! q) = duplicate_signature sha ?cs (rows ! j)"
      "row_get (uo_rows m ! j) DUPLICATE_GROUP_ID_COLUMN = duplicate_group_id q" using group ij(2,4) by blast
    have "p = q \<longleftrightarrow> map fst ?gs ! p = map fst ?gs ! q"
      using distinct_groups [of sha rows id_column ?cs] p(1) q(1) by (simp add: nth_eq_iff_index_eq del: nth_map)
    then show ?thesis using p q by (simp add: duplicate_group_id_inject)
  qed
  have cells: "row_get (uo_rows m ! i) c = (if c = IS_DUPLICATE_CANDIDATE_COLUMN then if shares_signature sha ?cs rows i then ''1'' else ''0''
      else if c = IS_DUPLICATE_KEPT_COLUMN then if shares_signature sha ?cs rows i then if least_id sha id_column ?cs rows i then ''1'' else ''0'' else []
      else row_get (rows ! i) c)" if "i < length rows" "c \<noteq> DUPLICATE_GROUP_ID_COLUMN" for i c
    using at(1) [OF that(1)] at(2) [OF that(1)] at(3) [OF that(1)] that(2) by (auto simp: out marker_row_get)
  show ?thesis using len out(2) same cells by simp
qed

text \<open>Two rows have one signature exactly when they agree on every signature column, or two texts collide under SHA-256.\<close>

lemma signature_binds:
  "duplicate_signature sha cs a = duplicate_signature sha cs b \<longleftrightarrow>
     list_all (\<lambda>c. row_get a c = row_get b c) cs
     \<or> collide sha (signature_payload cs a) (signature_payload cs b)"
  using dumps_cells_iff [of "row_get a" cs "row_get b"]
  by (auto simp: duplicate_signature_def signature_payload_def sha256_of_def collide_def)

text \<open>No two of the rows collide: equal signatures are equal cells.\<close>

definition collision_free :: "(string \<Rightarrow> string) \<Rightarrow> string list \<Rightarrow> csv_row list \<Rightarrow> bool" where
  "collision_free sha cs rows \<longleftrightarrow> (\<forall>a \<in> set rows. \<forall>b \<in> set rows. \<not> collide sha (signature_payload cs a) (signature_payload cs b))"

lemma signature_cells:
  "collision_free sha cs rows \<Longrightarrow> a \<in> set rows \<Longrightarrow> b \<in> set rows \<Longrightarrow>
     duplicate_signature sha cs a = duplicate_signature sha cs b \<longleftrightarrow> (\<forall>c \<in> set cs. row_get a c = row_get b c)"
  by (simp add: signature_binds collision_free_def list_all_iff)

lemma signature_cong: "(\<And>c. c \<in> set cs \<Longrightarrow> row_get a c = row_get b c) \<Longrightarrow> duplicate_signature sha cs a = duplicate_signature sha cs b"
  by (simp add: duplicate_signature_def signature_payload_def cong: map_cong)

lemma signature_columns_default: "set (resolve_signature_columns columns None id_column) = set columns - {id_column}"
  by (auto simp: resolve_signature_columns_def)

lemma least_id_exists:
  assumes "j < length rows"
  obtains i where "i < length rows" "duplicate_signature sha cs (rows ! i) = duplicate_signature sha cs (rows ! j)" "least_id sha id_column cs rows i"
proof -
  let ?c = "canonical_member (members_of sha id_column cs rows (duplicate_signature sha cs (rows ! j)))"
  have "?c \<in> set (members_of sha id_column cs rows (duplicate_signature sha cs (rows ! j)))" by (rule canonical_is_least(2) [OF assms refl])
  then have c: "fst ?c < length rows" "duplicate_signature sha cs (rows ! fst ?c) = duplicate_signature sha cs (rows ! j)"
    "snd ?c = member_id id_column (fst ?c, rows ! fst ?c)" by (metis members_of_iff prod.collapse)+
  have "least_id sha id_column cs rows (fst ?c)"
    using canonical_id_iff [OF c(1), of id_column sha cs] c by (simp add: least_id_def)
  then show thesis using c that by blast
qed

text \<open>A marked table: what a row shows of its group.\<close>

lemma marked_cells:
  assumes "duplicate_outcome_of sha MARK id_column explicit rows columns = Inr m" "i < length rows"
  shows "c \<notin> set marker_columns \<Longrightarrow> row_get (uo_rows m ! i) c = row_get (rows ! i) c"
    and "row_get (uo_rows m ! i) IS_DUPLICATE_KEPT_COLUMN
      = (if shares_signature sha (uo_signature_columns m) rows i
         then if least_id sha id_column (uo_signature_columns m) rows i then ''1'' else ''0'' else [])"
    and "j < length rows \<Longrightarrow> duplicate_signature sha (uo_signature_columns m) (rows ! i) = duplicate_signature sha (uo_signature_columns m) (rows ! j)
      \<Longrightarrow> shares_signature sha (uo_signature_columns m) rows i \<Longrightarrow> c \<in> {IS_DUPLICATE_CANDIDATE_COLUMN, DUPLICATE_GROUP_ID_COLUMN}
      \<Longrightarrow> row_get (uo_rows m ! i) c = row_get (uo_rows m ! j) c"
proof -
  let ?cs = "uo_signature_columns m"
  let ?gs = "duplicate_groups_of sha rows id_column ?cs"
  have out: "uo_rows m = mark_rows rows ?gs"
    using assms(1) by (auto simp: duplicate_outcome_of_def build_mark_output_def Let_def result_simps split: if_splits)
  note at = mark_rows_nth [OF _ refl, where rows = rows and sha = sha and id_column = id_column and cs = ?cs]
  show "c \<notin> set marker_columns \<Longrightarrow> row_get (uo_rows m ! i) c = row_get (rows ! i) c"
    "row_get (uo_rows m ! i) IS_DUPLICATE_KEPT_COLUMN
      = (if shares_signature sha ?cs rows i then if least_id sha id_column ?cs rows i then ''1'' else ''0'' else [])"
    using at(1) [OF assms(2)] at(2) [OF assms(2)] at(3) [OF assms(2)] by (auto simp: out marker_row_get)
  show "row_get (uo_rows m ! i) c = row_get (uo_rows m ! j) c"
    if "j < length rows" "duplicate_signature sha ?cs (rows ! i) = duplicate_signature sha ?cs (rows ! j)"
      "shares_signature sha ?cs rows i" "c \<in> {IS_DUPLICATE_CANDIDATE_COLUMN, DUPLICATE_GROUP_ID_COLUMN}"
    using at(2) [OF assms(2)] at(3) [OF assms(2)] at(2) [OF that(1)] that by (auto simp: out marker_row_get)
qed

lemma marked_shape:
  assumes "duplicate_outcome_of sha MARK id_column None rows columns = Inr m" "set columns \<inter> set marker_columns = {}"
  shows "length (uo_rows m) = length rows" "set (uo_columns m) = set columns \<union> set marker_columns" "id_column \<in> set columns"
    "set (uo_signature_columns m) = set columns - {id_column}"
  using assms by (auto simp: duplicate_outcome_of_def build_mark_output_def Let_def result_simps mark_rows_def candidate_columns_for_mark_def
      signature_columns_default split: if_splits)

lemma removed_shape:
  assumes "duplicate_outcome_of sha MARK id_column None rows columns = Inr m" "set columns \<inter> set marker_columns = {}"
    and "duplicate_outcome_of sha REMOVE_CANDIDATE id_column None (uo_rows m) (uo_columns m) = Inr r"
  shows "uo_rows r = deduplicated sha id_column (uo_signature_columns r) (uo_rows m)"
    "set (uo_signature_columns r) = set (uo_signature_columns m) \<union> set marker_columns"
proof -
  have r: "uo_rows r = deduplicated sha id_column (uo_signature_columns r) (uo_rows m)"
    "uo_signature_columns r = resolve_signature_columns (uo_columns m) None id_column"
    using assms(3) by (auto simp: duplicate_outcome_of_def build_remove_output_def Let_def result_simps removed_rows split: if_splits)
  then show "uo_rows r = deduplicated sha id_column (uo_signature_columns r) (uo_rows m)" by simp
  show "set (uo_signature_columns r) = set (uo_signature_columns m) \<union> set marker_columns"
    using marked_shape [OF assms(1,2)] assms(2) unfolding r(2) signature_columns_default by auto
qed

text \<open>With the markers among the signature columns, two marked rows of one group have one signature exactly when they have the same
  flag.\<close>

lemma marked_signatures:
  assumes mark: "duplicate_outcome_of sha MARK id_column None rows columns = Inr m" and fresh: "set columns \<inter> set marker_columns = {}"
    and free: "collision_free sha (uo_signature_columns m) rows" "collision_free sha cs' (uo_rows m)"
    and cs': "set cs' = set (uo_signature_columns m) \<union> set marker_columns"
    and i: "i < length rows" "shares_signature sha (uo_signature_columns m) rows i"
    and j: "j < length rows" "shares_signature sha (uo_signature_columns m) rows j"
    and group: "duplicate_signature sha (uo_signature_columns m) (rows ! i) = duplicate_signature sha (uo_signature_columns m) (rows ! j)"
  shows "duplicate_signature sha cs' (uo_rows m ! i) = duplicate_signature sha cs' (uo_rows m ! j) \<longleftrightarrow>
    least_id sha id_column (uo_signature_columns m) rows i = least_id sha id_column (uo_signature_columns m) rows j"
proof -
  note cell = marked_cells [OF mark]
  have "row_get (uo_rows m ! i) c = row_get (uo_rows m ! j) c" if c: "c \<in> set (uo_signature_columns m)" for c
  proof -
    have "c \<notin> set marker_columns" using c fresh marked_shape(4) [OF mark fresh] by auto
    then show ?thesis using c i(1) j(1) group signature_cells [OF free(1), of "rows ! i" "rows ! j"] by (simp add: cell(1))
  qed
  moreover have "row_get (uo_rows m ! i) c = row_get (uo_rows m ! j) c" if "c \<in> {IS_DUPLICATE_CANDIDATE_COLUMN, DUPLICATE_GROUP_ID_COLUMN}" for c
    using that i j group by (intro cell(3)) auto
  moreover have "row_get (uo_rows m ! i) IS_DUPLICATE_KEPT_COLUMN = row_get (uo_rows m ! j) IS_DUPLICATE_KEPT_COLUMN \<longleftrightarrow>
      least_id sha id_column (uo_signature_columns m) rows i = least_id sha id_column (uo_signature_columns m) rows j"
    using cell(2) [OF i(1)] cell(2) [OF j(1)] i(2) j(2) by simp
  ultimately show ?thesis
    using signature_cells [OF free(2), of "uo_rows m ! i" "uo_rows m ! j"] i(1) j(1) marked_shape(1) [OF mark fresh] by (auto simp: cs')
qed

lemma marked_keeps_signature:
  assumes "duplicate_outcome_of sha MARK id_column None rows columns = Inr m" "set columns \<inter> set marker_columns = {}" "i < length rows"
  shows "duplicate_signature sha (uo_signature_columns m) (uo_rows m ! i) = duplicate_signature sha (uo_signature_columns m) (rows ! i)"
  using marked_cells(1) [OF assms(1,3)] assms(2) marked_shape(4) [OF assms(1,2)] by (intro signature_cong) blast

definition same_signature :: "(string \<Rightarrow> string) \<Rightarrow> string list \<Rightarrow> csv_row \<Rightarrow> csv_row list \<Rightarrow> csv_row list" where
  "same_signature sha cs row rows = filter (\<lambda>other. duplicate_signature sha cs other = duplicate_signature sha cs row) rows"

text \<open>C29: The marker columns become signature columns of the next run, so that marking defeats removal: after a first mark step, a
  remove step with the default signature columns keeps exactly two rows of every group whose object ids are not all the same,
  one that was marked as the one to keep and one that was marked as a duplicate, where removal alone keeps one. The other rows
  of the group are removed. (No two of the rows collide under SHA-256.)\<close>

theorem removal_after_marking:
  assumes mark: "duplicate_outcome_of sha MARK id_column None rows columns = Inr m" and fresh: "set columns \<inter> set marker_columns = {}"
    and remove: "duplicate_outcome_of sha REMOVE_CANDIDATE id_column None (uo_rows m) (uo_columns m) = Inr r"
    and free: "collision_free sha (uo_signature_columns m) rows" "collision_free sha (uo_signature_columns r) (uo_rows m)"
    and j: "j < length rows" "\<not> least_id sha id_column (uo_signature_columns m) rows j"
  shows "length (same_signature sha (uo_signature_columns m) (rows ! j) (uo_rows r)) = 2
    \<and> set (map (\<lambda>row. row_get row IS_DUPLICATE_KEPT_COLUMN) (same_signature sha (uo_signature_columns m) (rows ! j) (uo_rows r))) = {''1'', ''0''}"
proof -
  let ?M = "uo_rows m" and ?sig = "duplicate_signature sha (uo_signature_columns m)" and ?sig' = "duplicate_signature sha (uo_signature_columns r)"
  let ?least = "least_id sha id_column (uo_signature_columns m) rows" and ?kept = "\<lambda>row. row_get row IS_DUPLICATE_KEPT_COLUMN"
  let ?survivors = "same_signature sha (uo_signature_columns m) (rows ! j) (uo_rows r)"
  let ?view = "\<lambda>row. (?sig' row, ?kept row)"
  note cell = marked_cells [OF mark]
  have len: "length ?M = length rows" and cs: "set (uo_signature_columns m) = set columns - {id_column}"
    and cs': "set (uo_signature_columns r) = set (uo_signature_columns m) \<union> set marker_columns"
    and r: "uo_rows r = deduplicated sha id_column (uo_signature_columns r) ?M"
    using marked_shape [OF mark fresh] removed_shape [OF mark fresh remove] by simp_all
  note old = marked_keeps_signature [OF mark fresh]
  obtain p where p: "p < length rows" "?sig (rows ! p) = ?sig (rows ! j)" "?least p" using j(1) by (rule least_id_exists)
  have shared: "shares_signature sha (uo_signature_columns m) rows i" if "i < length rows" "?sig (rows ! i) = ?sig (rows ! j)" for i
    using that p j by (cases "i = j") (auto simp: shares_signature_def)
  note same = marked_signatures [OF mark fresh free cs' _ shared _ shared]
  have refines: "?sig a = ?sig b \<and> ?kept a = ?kept b" if "a \<in> set ?M" "b \<in> set ?M" "?sig' a = ?sig' b" for a b
    using signature_cells [OF free(2) that(1,2)] that(3) by (auto simp: cs' intro!: signature_cong)
  note ded = deduplicated_signatures [of sha "uo_signature_columns r" id_column ?M, folded r]
  have sub: "set (uo_rows r) \<subseteq> set ?M" by (auto simp: r deduplicated_def in_set_enumerate_eq)
  have inside: "\<exists>i < length rows. a = ?M ! i \<and> ?sig (rows ! i) = ?sig (rows ! j)" if "a \<in> set ?survivors" for a
  proof -
    have a: "a \<in> set ?M" "?sig a = ?sig (rows ! j)" using that sub by (auto simp: same_signature_def)
    then obtain i where "i < length rows" "a = ?M ! i" by (auto simp: in_set_conv_nth len)
    then show ?thesis using a(2) old by auto
  qed
  have stays: "\<exists>a \<in> set ?survivors. ?sig' a = ?sig' (?M ! i) \<and> ?kept a = ?kept (?M ! i)"
    if i: "i < length rows" "?sig (rows ! i) = ?sig (rows ! j)" for i
  proof -
    have M: "?M ! i \<in> set ?M" using i(1) len by simp
    then obtain a where a: "a \<in> set (uo_rows r)" "?sig' a = ?sig' (?M ! i)" using ded(1) by (metis (no_types, lifting) image_iff list.set_map)
    then show ?thesis using refines [OF subsetD [OF sub a(1)] M a(2)] old i unfolding same_signature_def by auto
  qed
  have "?view ` set ?survivors = {?view (?M ! p), ?view (?M ! j)}"
  proof (intro equalityI subsetI)
    fix v assume "v \<in> ?view ` set ?survivors"
    then obtain i where i: "i < length rows" "v = ?view (?M ! i)" "?sig (rows ! i) = ?sig (rows ! j)" using inside by blast
    have "?sig' (?M ! i) = ?sig' (?M ! (if ?least i then p else j))" using same [of i "if ?least i then p else j"] i(1,3) p j by simp
    then have "?view (?M ! i) = ?view (?M ! (if ?least i then p else j))"
      using refines [of "?M ! i" "?M ! (if ?least i then p else j)"] i(1) p(1) j(1) len by simp
    then show "v \<in> {?view (?M ! p), ?view (?M ! j)}" using i(2) by auto
  next
    fix v assume "v \<in> {?view (?M ! p), ?view (?M ! j)}"
    then show "v \<in> ?view ` set ?survivors" using stays [OF p(1,2)] stays [OF j(1) refl] by (auto simp: image_iff) metis+
  qed
  then have "fst ` ?view ` set ?survivors = {?sig' (?M ! p), ?sig' (?M ! j)}" and "snd ` ?view ` set ?survivors = {?kept (?M ! p), ?kept (?M ! j)}"
    by simp_all
  then have both: "set (map ?sig' ?survivors) = {?sig' (?M ! p), ?sig' (?M ! j)}" "set (map ?kept ?survivors) = {?kept (?M ! p), ?kept (?M ! j)}"
    by (simp_all add: image_image)
  have "?sig' (?M ! p) \<noteq> ?sig' (?M ! j)" using same [OF p(1) p(1,2) j(1) j(1) refl p(2)] p(3) j(2) by simp
  moreover have "distinct (map ?sig' ?survivors)" unfolding same_signature_def by (rule distinct_map_filter [OF ded(2)])
  ultimately have "length ?survivors = 2" using distinct_card [of "map ?sig' ?survivors"] both(1) by simp
  moreover have "?kept (?M ! p) = ''1''" "?kept (?M ! j) = ''0''"
    using cell(2) [OF p(1)] cell(2) [OF j(1)] shared [OF p(1,2)] shared [OF j(1) refl] p(3) j(2) by simp_all
  ultimately show ?thesis using both(2) by simp
qed

section \<open>The candidate is read back\<close>

lemma duplicate_rows_iff: "duplicate_rows text = Inr x \<longleftrightarrow> imputation_rows text = Inr x"
  by (simp add: duplicate_rows_def imputation_rows_def Let_def)

lemma marker_row_over:
  assumes "row_over columns row" "distinct columns"
  shows "row_over (candidate_columns_for_mark columns) (marker_row a b c row)"
proof -
  have k: "dict_keys row = columns" using assms by (simp add: row_over_def fromkeys.dd_id)
  have d: "distinct (candidate_columns_for_mark columns)" using assms(2) by (auto simp: candidate_columns_for_mark_def)
  have "dict_keys (marker_row a b c row) = candidate_columns_for_mark columns"
    by (auto simp: marker_row_def dict_keys_set k candidate_columns_for_mark_def)
  then show ?thesis using d by (simp add: row_over_def fromkeys.dd_id)
qed

lemma candidate_columns_idem: "candidate_columns_for_mark (candidate_columns_for_mark columns) = candidate_columns_for_mark columns"
  by (simp add: candidate_columns_for_mark_def)

lemma candidate_columns_distinct: "distinct columns \<Longrightarrow> distinct (candidate_columns_for_mark columns)"
  by (auto simp: candidate_columns_for_mark_def)

lemma marked_rows_over:
  assumes "list_all (row_over columns) rows" "distinct columns"
  shows "list_all (row_over (candidate_columns_for_mark columns)) (mark_rows rows (duplicate_groups_of sha rows id_column cs))"
proof -
  let ?m = "mark_rows rows (duplicate_groups_of sha rows id_column cs)"
  have "row_over (candidate_columns_for_mark columns) (?m ! i)" if i: "i < length rows" for i
  proof -
    note at = mark_rows_nth [OF i refl, where sha = sha and id_column = id_column and cs = cs]
    have over: "row_over (candidate_columns_for_mark columns) (marker_row a b c (rows ! i))" for a b c
      using assms i by (intro marker_row_over) (auto simp: list_all_length)
    have again: "row_over (candidate_columns_for_mark columns) (marker_row a b c (marker_row a' b' c' (rows ! i)))" for a b c a' b' c'
      using marker_row_over [OF over] assms(2) by (simp add: candidate_columns_idem candidate_columns_distinct)
    show ?thesis using at over again by (cases "shares_signature sha cs rows i") auto
  qed
  then show ?thesis by (simp add: list_all_length mark_rows_def)
qed

text \<open>The candidate of either mode is read back as it was written, marker columns included, as long as its cells fit the
  reader's field limit and hold no carriage return that the writer leaves unquoted.\<close>

theorem duplicate_candidate_reads_back:
  assumes "duplicate_outcome_of sha mode id_column explicit rows columns = Inr r"
    and "rows \<noteq> []" "list_all (row_over columns) rows" "distinct columns" "[] \<notin> set columns"
    and "list_all (cell_ok quotes_cr) (uo_columns r)" "list_all (\<lambda>row. list_all (\<lambda>kv. cell_ok quotes_cr (snd kv)) row) (uo_rows r)"
  shows "duplicate_rows (write_csv quotes_cr (uo_rows r) (uo_columns r)) = Inr (uo_rows r, uo_columns r)"
  unfolding duplicate_rows_iff
proof (rule written_table_read)
  have col: "id_column \<in> set columns" using assms(1) by (auto simp: duplicate_outcome_of_def split: if_splits)
  show "table_ok quotes_cr (uo_rows r) (uo_columns r)"
  proof (cases mode)
    case MARK
    then obtain cs where out: "uo_rows r = mark_rows rows (duplicate_groups_of sha rows id_column cs)" "uo_columns r = candidate_columns_for_mark columns"
      using assms(1) by (auto simp: duplicate_outcome_of_def build_mark_output_def Let_def result_simps split: if_splits)
    have "length (uo_rows r) = length rows" by (simp add: out mark_rows_def)
    then have "uo_rows r \<noteq> []" using assms(2) by auto
    moreover have "distinct (uo_columns r)" "[] \<notin> set (uo_columns r)" "uo_columns r \<noteq> []"
      using assms(4,5) col by (auto simp: out candidate_columns_for_mark_def IS_DUPLICATE_CANDIDATE_COLUMN_def
          DUPLICATE_GROUP_ID_COLUMN_def IS_DUPLICATE_KEPT_COLUMN_def)
    moreover have "list_all (row_over (uo_columns r)) (uo_rows r)" using marked_rows_over [OF assms(3,4)] by (simp add: out)
    ultimately show ?thesis using assms(6,7) by (simp add: table_ok_def)
  next
    case REMOVE_CANDIDATE
    then obtain cs where out: "uo_rows r = deduplicated sha id_column cs rows" "uo_columns r = columns"
      using assms(1) by (auto simp: duplicate_outcome_of_def build_remove_output_def Let_def result_simps removed_rows split: if_splits)
    have "set (map (duplicate_signature sha cs) (uo_rows r)) \<noteq> {}"
      using deduplicated_signatures(1) [of sha cs id_column rows] assms(2) by (simp add: out)
    then have "uo_rows r \<noteq> []" by auto
    moreover have "list_all (row_over columns) (uo_rows r)"
      using assms(3) by (auto simp: out deduplicated_def list_all_iff in_set_enumerate_eq)
    ultimately show ?thesis using assms(4-7) col by (auto simp: table_ok_def out)
  qed
qed

section \<open>Samples\<close>

definition digits_sha :: "string \<Rightarrow> string" where
  "digits_sha x = take 64 (filter hex_char x @ replicate 64 (CHR ''0''))"

abbreviation duplicate_sample :: "csv_row list" where
  "duplicate_sample \<equiv>
     [[(''object_id'', ''b''), (''v'', ''1'')], [(''object_id'', ''a''), (''v'', ''1'')], [(''object_id'', ''c''), (''v'', ''2'')]]"

definition sample_removed :: duplicate_outcome where
  "sample_removed = projr (duplicate_outcome_of digits_sha REMOVE_CANDIDATE ''object_id'' None duplicate_sample [''object_id'', ''v''])"

definition sample_marked :: duplicate_outcome where
  "sample_marked = projr (duplicate_outcome_of digits_sha MARK ''object_id'' None duplicate_sample [''object_id'', ''v''])"

lemma sample_removed_ok: "is_ok (duplicate_outcome_of digits_sha REMOVE_CANDIDATE ''object_id'' None duplicate_sample [''object_id'', ''v''])"
  by code_simp

lemma sample_marked_ok: "is_ok (duplicate_outcome_of digits_sha MARK ''object_id'' None duplicate_sample [''object_id'', ''v''])"
  by code_simp

lemma sample_outcomes:
  "duplicate_outcome_of digits_sha REMOVE_CANDIDATE ''object_id'' None duplicate_sample [''object_id'', ''v''] = Inr sample_removed"
  "duplicate_outcome_of digits_sha MARK ''object_id'' None duplicate_sample [''object_id'', ''v''] = Inr sample_marked"
  using sample_removed_ok sample_marked_ok by (auto simp: is_ok_iff sample_removed_def sample_marked_def)

lemma sample_removed_rows:
  "uo_rows sample_removed = [[(''object_id'', ''a''), (''v'', ''1'')], [(''object_id'', ''c''), (''v'', ''2'')]]"
  "uo_columns sample_removed = [''object_id'', ''v'']" "uo_signature_columns sample_removed = [''v'']"
  by code_simp+

lemma sample_marked_rows:
  "uo_rows sample_marked =
     [[(''object_id'', ''b''), (''v'', ''1''), (''is_duplicate_candidate'', ''1''), (''duplicate_group_id'', ''duplicate_group_0000''), (''is_duplicate_kept'', ''0'')],
      [(''object_id'', ''a''), (''v'', ''1''), (''is_duplicate_candidate'', ''1''), (''duplicate_group_id'', ''duplicate_group_0000''), (''is_duplicate_kept'', ''1'')],
      [(''object_id'', ''c''), (''v'', ''2''), (''is_duplicate_candidate'', ''0''), (''duplicate_group_id'', []), (''is_duplicate_kept'', [])]]"
  "uo_columns sample_marked = [''object_id'', ''v'', ''is_duplicate_candidate'', ''duplicate_group_id'', ''is_duplicate_kept'']"
  "uo_signature_columns sample_marked = [''v'']"
  by code_simp+

theorem remove_keeps_one_per_signature_witness:
  "uo_rows sample_removed = deduplicated digits_sha ''object_id'' [''v''] duplicate_sample
   \<and> map (\<lambda>r. row_get r ''object_id'') (uo_rows sample_removed) = [''a'', ''c''] \<and> uo_removed_count sample_removed = 1"
proof -
  have "uo_rows sample_removed = deduplicated digits_sha ''object_id'' [''v''] duplicate_sample"
    "uo_removed_count sample_removed = int (length duplicate_sample) - int (length (uo_rows sample_removed))"
    using remove_keeps_one_per_signature [OF sample_outcomes(1)] unfolding sample_removed_rows(3) by blast+
  then show ?thesis by (simp add: sample_removed_rows(1) row_get_def)
qed

theorem mark_flags_shared_signatures_witness:
  "row_get (uo_rows sample_marked ! 1) ''v'' = row_get (duplicate_sample ! 1) ''v''
    \<and> row_get (uo_rows sample_marked ! 1) IS_DUPLICATE_CANDIDATE_COLUMN
        = (if shares_signature digits_sha [''v''] duplicate_sample 1 then ''1'' else ''0'')"
  using mark_flags_shared_signatures [OF sample_outcomes(2)]
  by (simp add: sample_marked_rows(3) IS_DUPLICATE_CANDIDATE_COLUMN_def DUPLICATE_GROUP_ID_COLUMN_def IS_DUPLICATE_KEPT_COLUMN_def)

theorem duplicate_candidate_reads_back_witness:
  "duplicate_rows (write_csv False (uo_rows sample_removed) [''object_id'', ''v'']) = Inr (uo_rows sample_removed, [''object_id'', ''v''])"
proof -
  have "list_all (row_over [''object_id'', ''v'']) duplicate_sample" by code_simp
  moreover have "list_all (cell_ok False) (uo_columns sample_removed)"
    "list_all (\<lambda>row. list_all (\<lambda>kv. cell_ok False (snd kv)) row) (uo_rows sample_removed)"
    by (simp_all add: sample_removed_rows cell_ok_def cr_safe_def CR_def field_limit_def)
  ultimately show ?thesis
    using duplicate_candidate_reads_back [OF sample_outcomes(1), of False] by (simp add: sample_removed_rows)
qed

text \<open>Three rows of one group: of a, b and d the next removal keeps a and b.\<close>

abbreviation triple_sample :: "csv_row list" where
  "triple_sample \<equiv>
     [[(''object_id'', ''b''), (''v'', ''1'')], [(''object_id'', ''a''), (''v'', ''1'')], [(''object_id'', ''d''), (''v'', ''1'')]]"

definition triple_marked :: duplicate_outcome where
  "triple_marked = projr (duplicate_outcome_of digits_sha MARK ''object_id'' None triple_sample [''object_id'', ''v''])"

definition triple_removed :: duplicate_outcome where
  "triple_removed = projr (duplicate_outcome_of digits_sha REMOVE_CANDIDATE ''object_id'' None (uo_rows triple_marked) (uo_columns triple_marked))"

lemma triple_marked_ok: "is_ok (duplicate_outcome_of digits_sha MARK ''object_id'' None triple_sample [''object_id'', ''v''])"
  by code_simp

lemma triple_marked_rows:
  "uo_rows triple_marked = map (\<lambda>(i, kept). [(''object_id'', i), (''v'', ''1''), (''is_duplicate_candidate'', ''1''),
      (''duplicate_group_id'', ''duplicate_group_0000''), (''is_duplicate_kept'', kept)]) [(''b'', ''0''), (''a'', ''1''), (''d'', ''0'')]"
  "uo_columns triple_marked = [''object_id'', ''v'', ''is_duplicate_candidate'', ''duplicate_group_id'', ''is_duplicate_kept'']"
  "uo_signature_columns triple_marked = [''v'']"
  by code_simp+

lemma triple_removed:
  "map_sum (\<lambda>e. ()) (\<lambda>r. (uo_rows r, uo_signature_columns r))
     (duplicate_outcome_of digits_sha REMOVE_CANDIDATE ''object_id'' None (uo_rows triple_marked) (uo_columns triple_marked))
   = Inr (map (\<lambda>(i, kept). [(''object_id'', i), (''v'', ''1''), (''is_duplicate_candidate'', ''1''),
      (''duplicate_group_id'', ''duplicate_group_0000''), (''is_duplicate_kept'', kept)]) [(''b'', ''0''), (''a'', ''1'')],
      [''duplicate_group_id'', ''is_duplicate_candidate'', ''is_duplicate_kept'', ''v''])"
  unfolding triple_marked_rows by code_simp

lemma triple_outcomes:
  "duplicate_outcome_of digits_sha MARK ''object_id'' None triple_sample [''object_id'', ''v''] = Inr triple_marked"
  "duplicate_outcome_of digits_sha REMOVE_CANDIDATE ''object_id'' None (uo_rows triple_marked) (uo_columns triple_marked) = Inr triple_removed"
proof -
  show "duplicate_outcome_of digits_sha MARK ''object_id'' None triple_sample [''object_id'', ''v''] = Inr triple_marked"
    using triple_marked_ok by (auto simp: is_ok_iff triple_marked_def)
  show "duplicate_outcome_of digits_sha REMOVE_CANDIDATE ''object_id'' None (uo_rows triple_marked) (uo_columns triple_marked) = Inr triple_removed"
    unfolding triple_removed_def using triple_removed
    by (cases "duplicate_outcome_of digits_sha REMOVE_CANDIDATE ''object_id'' None (uo_rows triple_marked) (uo_columns triple_marked)")
      auto
qed

lemma triple_removed_rows:
  "uo_rows triple_removed = map (\<lambda>(i, kept). [(''object_id'', i), (''v'', ''1''), (''is_duplicate_candidate'', ''1''),
      (''duplicate_group_id'', ''duplicate_group_0000''), (''is_duplicate_kept'', kept)]) [(''b'', ''0''), (''a'', ''1'')]"
  "uo_signature_columns triple_removed = [''duplicate_group_id'', ''is_duplicate_candidate'', ''is_duplicate_kept'', ''v'']"
  using triple_removed unfolding triple_outcomes(2) by simp_all

lemma triple_facts:
  "collision_free digits_sha (uo_signature_columns triple_marked) triple_sample"
  "collision_free digits_sha (uo_signature_columns triple_removed) (uo_rows triple_marked)"
  "\<not> least_id digits_sha ''object_id'' (uo_signature_columns triple_marked) triple_sample 0"
  "set [''object_id'', ''v''] \<inter> set marker_columns = {}"
proof -
  show "collision_free digits_sha (uo_signature_columns triple_marked) triple_sample"
    by (simp add: collision_free_def triple_marked_rows signature_payload_def row_get_def dict_get_def collide_def)
  have "signature_payload (uo_signature_columns triple_removed) (uo_rows triple_marked ! 0)
      = signature_payload (uo_signature_columns triple_removed) (uo_rows triple_marked ! 2)"
    by (simp add: triple_marked_rows triple_removed_rows signature_payload_def row_get_def dict_get_def)
  moreover have "digits_sha (signature_payload (uo_signature_columns triple_removed) (uo_rows triple_marked ! 0))
      \<noteq> digits_sha (signature_payload (uo_signature_columns triple_removed) (uo_rows triple_marked ! 1))"
    unfolding triple_marked_rows triple_removed_rows by code_simp
  ultimately show "collision_free digits_sha (uo_signature_columns triple_removed) (uo_rows triple_marked)"
    by (auto simp: collision_free_def collide_def triple_marked_rows)
  show "\<not> least_id digits_sha ''object_id'' (uo_signature_columns triple_marked) triple_sample 0"
    unfolding triple_marked_rows by code_simp
  show "set [''object_id'', ''v''] \<inter> set marker_columns = {}" by code_simp
qed

lemma triple_survivors:
  "same_signature digits_sha (uo_signature_columns triple_marked) (triple_sample ! 0) (uo_rows triple_removed) = uo_rows triple_removed"
  "map (\<lambda>row. row_get row ''object_id'') (uo_rows triple_removed) = [''b'', ''a'']"
  unfolding triple_marked_rows triple_removed_rows by code_simp+

theorem removal_after_marking_witness:
  "length (uo_rows triple_removed) = 2 \<and> set (map (\<lambda>row. row_get row IS_DUPLICATE_KEPT_COLUMN) (uo_rows triple_removed)) = {''1'', ''0''}
    \<and> map (\<lambda>row. row_get row ''object_id'') (uo_rows triple_removed) = [''b'', ''a'']"
  using removal_after_marking [OF triple_outcomes(1) triple_facts(4) triple_outcomes(2) triple_facts(1,2) _ triple_facts(3)]
  unfolding triple_survivors by simp

end
