(* ===== verification/ApplySteps.thy ===== *)
theory ApplySteps
  imports Smote Duplicates ExportPackage
begin

text \<open>
  The execution of an approved plan in \<open>src/app/orchestration/apply_runtime.py\<close> and the state of a run in
  \<open>src/app/orchestration/run_context.py\<close>: the source is resolved, every step is dispatched to its executor, which
  reads the artifact of the step before and stores a new one, and the validation gates judge the last candidate.
  A Python call that raises leaves the state as it was mutated so far, so an operation returns its result or
  exception together with the run's state and the store.
\<close>

section \<open>Operations on the state of a run\<close>

definition bindS :: "('x \<Rightarrow> ('e + 'a) \<times> 'x) \<Rightarrow> ('a \<Rightarrow> 'x \<Rightarrow> ('e + 'b) \<times> 'x) \<Rightarrow> 'x \<Rightarrow> ('e + 'b) \<times> 'x" where
  "bindS m f x = (case m x of (Inl e, x') \<Rightarrow> (Inl e, x') | (Inr a, x') \<Rightarrow> f a x')"

definition returnS :: "'a \<Rightarrow> 'x \<Rightarrow> ('e + 'a) \<times> 'x" where
  "returnS a x = (Inr a, x)"

definition liftS :: "'e + 'a \<Rightarrow> 'x \<Rightarrow> ('e + 'a) \<times> 'x" where
  "liftS r x = (r, x)"

fun foldS :: "('acc \<Rightarrow> 'i \<Rightarrow> 'x \<Rightarrow> ('e + 'acc) \<times> 'x) \<Rightarrow> 'acc \<Rightarrow> 'i list \<Rightarrow> 'x \<Rightarrow> ('e + 'acc) \<times> 'x" where
  "foldS f acc [] = returnS acc"
| "foldS f acc (i # is) = bindS (f acc i) (\<lambda>acc'. foldS f acc' is)"

lemma bindS_Inr_iff:
  "bindS m f x = (Inr b, y) \<longleftrightarrow> (\<exists>a x'. m x = (Inr a, x') \<and> f a x' = (Inr b, y))"
  by (auto simp: bindS_def split: prod.splits sum.splits)

lemma bindS_Inl_iff:
  "bindS m f x = (Inl e, y) \<longleftrightarrow> m x = (Inl e, y) \<or> (\<exists>a x'. m x = (Inr a, x') \<and> f a x' = (Inl e, y))"
  by (auto simp: bindS_def split: prod.splits sum.splits)

lemma returnS_iff [simp]: "returnS a x = (r, y) \<longleftrightarrow> r = Inr a \<and> y = x"
  by (auto simp: returnS_def)

lemma liftS_iff [simp]: "liftS r x = (r', y) \<longleftrightarrow> r = r' \<and> y = x"
  by (auto simp: liftS_def)

section \<open>The context and the state of a run (run_context.py)\<close>

record 'f apply_state =
  as_source_artifact :: "artifact_ref option"
  as_primary_candidate :: "registered_artifact option"
  as_action_plan_artifact :: "registered_artifact option"
  as_remediation_report :: "registered_artifact option"
  as_step_outputs :: "registered_artifact list"
  as_split_manifest :: "'f split_manifest option"
  as_split_artifact :: "registered_artifact option"
  as_synthetic_report :: "'f synthetic_dataset_report option"
  as_synthetic_report_artifact :: "registered_artifact option"
  as_synthetic_candidate :: "registered_artifact option"
  as_gates_report :: "'f gates_report option"
  as_gates_report_artifact :: "registered_artifact option"
  as_model_impact_report :: "model_impact_verdict option"
  as_model_impact_artifact :: "registered_artifact option"
  as_candidate_version :: "'f candidate_version option"
  as_candidate_version_artifact :: "registered_artifact option"
  as_dataset_card_artifact :: "registered_artifact option"
  as_lineage_artifact :: "registered_artifact option"
  as_export_manifest :: "registered_artifact option"
  as_export_package :: "export_package option"
  as_export_package_artifact :: "registered_artifact option"
  as_tabular_exports :: "artifact_ref list"

definition new_apply_state :: "'f apply_state" where
  "new_apply_state =
     \<lparr>as_source_artifact = None, as_primary_candidate = None, as_action_plan_artifact = None, as_remediation_report = None,
      as_step_outputs = [], as_split_manifest = None, as_split_artifact = None, as_synthetic_report = None,
      as_synthetic_report_artifact = None, as_synthetic_candidate = None, as_gates_report = None,
      as_gates_report_artifact = None, as_model_impact_report = None, as_model_impact_artifact = None,
      as_candidate_version = None, as_candidate_version_artifact = None, as_dataset_card_artifact = None,
      as_lineage_artifact = None, as_export_manifest = None, as_export_package = None, as_export_package_artifact = None,
      as_tabular_exports = []\<rparr>"

record apply_context =
  ac_action_plan_id :: string
  ac_decision_report_id :: string
  ac_source_dataset_version_id :: string
  ac_proposed_version_name :: string
  ac_config_hash :: string
  ac_policy_versions :: candidate_policy_versions
  ac_action_plan :: "action_plan option"
  ac_input_artifacts :: "artifact_ref list"
  ac_synthetic_step_ids :: "string list"
  ac_require_model_impact_eligibility :: bool

definition has_synthetic :: "apply_context \<Rightarrow> bool" where
  "has_synthetic ctx \<longleftrightarrow> ac_synthetic_step_ids ctx \<noteq> []"

text \<open>
  What the runtime uses of the language, its libraries and the executors: the adapters, number and random operations,
  \<open>int()\<close> of a text and of a float, UTF-8, the JSON dumps of the stored records, the JSON parse of a split manifest and
  of one rule.
\<close>

record ('s, 'f, 'r, 'd) apply_env =
  ae_builder :: "'s builder_env"
  ae_floats :: "'f float_ops"
  ae_numbers :: "'f number_ops"
  ae_round :: "'f \<Rightarrow> int"
  ae_shuffle :: "int \<Rightarrow> row_group list \<Rightarrow> row_group list"
  ae_rng :: "('r, 'f) rng_ops"
  ae_decimals :: "'d decimal_ops"
  ae_int_of_str :: "string \<Rightarrow> exn + int"
  ae_int_of_float :: "'f \<Rightarrow> exn + int"
  ae_quotes_cr :: bool
  ae_encode :: "string \<Rightarrow> string"
  ae_dump_plan :: "action_plan \<Rightarrow> string"
  ae_dump_imputation :: "imputation_report \<Rightarrow> string"
  ae_dump_duplicates :: "duplicate_report \<Rightarrow> string"
  ae_dump_split :: "'f split_manifest \<Rightarrow> string"
  ae_dump_synthetic :: "'f synthetic_dataset_report \<Rightarrow> string"
  ae_dump_gates :: "'f gates_report \<Rightarrow> string"
  ae_parse_split :: "string \<Rightarrow> exn + 'f split_manifest"
  ae_parse_rule :: "(string \<times> json) list \<Rightarrow> exn + 'f business_rule"

abbreviation ae_sha :: "('s, 'f, 'r, 'd) apply_env \<Rightarrow> string \<Rightarrow> string" where
  "ae_sha env \<equiv> se_sha (ae_builder env)"

definition on_store :: "('s \<Rightarrow> (exn + 'a) \<times> 's) \<Rightarrow> 'f apply_state \<times> 's \<Rightarrow> (exn + 'a) \<times> 'f apply_state \<times> 's" where
  "on_store f w = (let (r, st) = f (snd w) in (r, fst w, st))"

definition update_state :: "('f apply_state \<Rightarrow> 'f apply_state) \<Rightarrow> 'f apply_state \<times> 's \<Rightarrow> (exn + unit) \<times> 'f apply_state \<times> 's" where
  "update_state f w = (Inr (), f (fst w), snd w)"

definition stored_text :: "('s, 'f, 'r, 'd) apply_env \<Rightarrow> artifact_ref \<Rightarrow> 's \<Rightarrow> exn + string" where
  "stored_text env ref st =
     bindR (storage_get (ae_builder env) (ar_uri ref) st) (\<lambda>(data, info).
     case se_decode (ae_builder env) data of None \<Rightarrow> Inl (Other ''UnicodeDecodeError'') | Some t \<Rightarrow> Inr t)"

lemma on_store_iff: "on_store f w = (r, w') \<longleftrightarrow> (\<exists>st'. f (snd w) = (r, st') \<and> w' = (fst w, st'))"
  by (auto simp: on_store_def Let_def split: prod.splits)

lemma update_state_iff: "update_state f w = (r, w') \<longleftrightarrow> r = Inr () \<and> w' = (f (fst w), snd w)"
  by (auto simp: update_state_def)

lemmas run_iffs = bindS_Inr_iff on_store_iff update_state_iff

section \<open>Errors, ids and instants\<close>

definition apply_error :: "string \<Rightarrow> error_code \<Rightarrow> exn" where
  "apply_error reason err = Raised ''ApplyRuntimeError'' reason err 0"

definition apply_refused :: "string \<Rightarrow> exn" where
  "apply_refused reason = apply_error reason ACTION_PLAN_PRECONDITION_FAILED"

definition require_plan :: "apply_context \<Rightarrow> exn + action_plan" where
  "require_plan ctx = (case ac_action_plan ctx of None \<Rightarrow> Inl (apply_refused ''action_plan_missing'') | Some p \<Rightarrow> Inr p)"

text \<open>An instant does not change when it is moved to UTC.\<close>

definition generated_at :: "action_plan \<Rightarrow> datetime" where
  "generated_at plan = ap_created_at plan"

definition runtime_id :: "(string \<Rightarrow> string) \<Rightarrow> string \<Rightarrow> string list \<Rightarrow> string" where
  "runtime_id sha tag parts =
     tag @ ''_'' @ take 16 (removeprefix ''sha256:''
       (stable_hash sha (JObj [(''prefix'', JStr tag), (''parts'', JList (map JStr parts))])))"

section \<open>What the plan's steps are configured with\<close>

fun config_text :: "string \<Rightarrow> action_plan_step list \<Rightarrow> string option" where
  "config_text key [] = None"
| "config_text key (s # ss) =
     (case dict_get (ps_config s) key of Some (JStr v) \<Rightarrow> (if v \<noteq> [] then Some v else config_text key ss) | _ \<Rightarrow> config_text key ss)"

definition plan_target_column :: "action_plan \<Rightarrow> string" where
  "plan_target_column plan = (case config_text ''target_column'' (ap_steps plan) of Some v \<Rightarrow> v | None \<Rightarrow> ''is_fraud'')"

definition plan_rare_class_label :: "action_plan \<Rightarrow> string" where
  "plan_rare_class_label plan = (case config_text ''rare_class_label'' (ap_steps plan) of Some v \<Rightarrow> v | None \<Rightarrow> ''1'')"

definition plan_random_seed :: "action_plan \<Rightarrow> int" where
  "plan_random_seed plan =
     (case find (\<lambda>s. ps_random_seed s \<noteq> None) (ap_steps plan) of Some s \<Rightarrow> the (ps_random_seed s) | None \<Rightarrow> 42)"

definition plan_pii_restricted :: "action_plan \<Rightarrow> bool" where
  "plan_pii_restricted plan \<longleftrightarrow> list_ex (\<lambda>s. dict_get (ps_config s) ''pii_restricted'' = Some (JBool True)) (ap_steps plan)"

fun objects_of :: "json list \<Rightarrow> (string \<times> json) list list" where
  "objects_of [] = []"
| "objects_of (JObj kvs # js) = kvs # objects_of js"
| "objects_of (j # js) = objects_of js"

definition parse_business_rules :: "((string \<times> json) list \<Rightarrow> exn + 'f business_rule) \<Rightarrow> (string \<times> json) list list \<Rightarrow> exn + 'f business_rule list" where
  "parse_business_rules parse payload = mapR parse payload"

definition plan_business_rules :: "((string \<times> json) list \<Rightarrow> exn + 'f business_rule) \<Rightarrow> action_plan \<Rightarrow> exn + 'f business_rule list" where
  "plan_business_rules parse plan =
     parse_business_rules parse (concat (map (\<lambda>s.
       case dict_get (ps_config s) ''business_rules'' of Some (JList js) \<Rightarrow> objects_of js | _ \<Rightarrow> []) (ap_steps plan)))"

text \<open>The truth value, \<open>float()\<close> and \<open>int()\<close> of a configured value.\<close>

definition json_truthy :: "'f float_ops \<Rightarrow> json \<Rightarrow> bool" where
  "json_truthy fl j = (case j of
       JNull \<Rightarrow> False | JBool b \<Rightarrow> b | JInt i \<Rightarrow> i \<noteq> 0
     | JFloat t \<Rightarrow> (case fl_of_str fl t of Some x \<Rightarrow> \<not> fl_eq fl x (fl_const fl 0) | None \<Rightarrow> True)
     | JStr s \<Rightarrow> s \<noteq> [] | JList js \<Rightarrow> js \<noteq> [] | JObj kvs \<Rightarrow> kvs \<noteq> [])"

definition float_of_text :: "'f float_ops \<Rightarrow> string \<Rightarrow> exn + 'f" where
  "float_of_text fl t = (case fl_of_str fl t of Some x \<Rightarrow> Inr x | None \<Rightarrow> Inl (Other ''ValueError''))"

definition json_float :: "'f float_ops \<Rightarrow> json \<Rightarrow> exn + 'f" where
  "json_float fl j = (case j of
       JBool b \<Rightarrow> Inr (fl_of_int fl (if b then 1 else 0)) | JInt i \<Rightarrow> Inr (fl_of_int fl i)
     | JFloat t \<Rightarrow> float_of_text fl t | JStr t \<Rightarrow> float_of_text fl t | _ \<Rightarrow> Inl (Other ''TypeError''))"

definition json_int :: "('s, 'f, 'r, 'd) apply_env \<Rightarrow> json \<Rightarrow> exn + int" where
  "json_int env j = (case j of
       JBool b \<Rightarrow> Inr (if b then 1 else 0) | JInt i \<Rightarrow> Inr i
     | JFloat t \<Rightarrow> bindR (float_of_text (ae_floats env) t) (ae_int_of_float env)
     | JStr t \<Rightarrow> ae_int_of_str env t | _ \<Rightarrow> Inl (Other ''TypeError''))"

definition default_thresholds :: "'f float_ops \<Rightarrow> 'f dcr_thresholds" where
  "default_thresholds fl = \<lparr>dt_nearest_neighbor_epsilon = fl_const fl (1 / 1000000), dt_minimum_dcr_threshold = fl_const fl 0\<rparr>"

text \<open>\<open>float(v or d)\<close> of a value that may be absent.\<close>

definition threshold_or :: "'f float_ops \<Rightarrow> json option \<Rightarrow> 'f \<Rightarrow> exn + 'f" where
  "threshold_or fl v d = (case v of None \<Rightarrow> Inr d | Some j \<Rightarrow> if json_truthy fl j then json_float fl j else Inr d)"

fun dcr_thresholds_of :: "'f float_ops \<Rightarrow> action_plan_step list \<Rightarrow> exn + 'f dcr_thresholds" where
  "dcr_thresholds_of fl [] = Inr (default_thresholds fl)"
| "dcr_thresholds_of fl (s # ss) =
     (let epsilon = dict_get (ps_config s) ''nearest_neighbor_epsilon''; minimum = dict_get (ps_config s) ''minimum_dcr_threshold'' in
      if epsilon \<notin> {None, Some JNull} \<or> minimum \<notin> {None, Some JNull}
      then bindR (threshold_or fl epsilon (fl_const fl (1 / 1000000))) (\<lambda>e.
           bindR (threshold_or fl minimum (fl_const fl 0)) (\<lambda>m.
           validated (dcr_thresholds_valid fl) \<lparr>dt_nearest_neighbor_epsilon = e, dt_minimum_dcr_threshold = m\<rparr>))
      else dcr_thresholds_of fl ss)"

section \<open>The source\<close>

definition select_source_ref :: "artifact_ref list \<Rightarrow> action_plan \<Rightarrow> exn + artifact_ref" where
  "select_source_ref refs plan =
     (let plan_input_uris = set (concat (map ps_input_artifacts (ap_steps plan))) in
      case find (\<lambda>r. ar_uri r \<in> plan_input_uris) refs of
        Some r \<Rightarrow> Inr r
      | None \<Rightarrow>
          (case find (\<lambda>r. ar_kind r \<in> {''raw_transactions'', ''raw_dataset_archive''} \<or> starts_with ''raw_'' (ar_kind r)) refs of
             Some r \<Rightarrow> Inr r
           | None \<Rightarrow> (case refs of [] \<Rightarrow> Inl (Other ''IndexError'') | r # _ \<Rightarrow> Inr r)))"

definition metadata_or :: "string \<Rightarrow> metadata \<Rightarrow> string \<Rightarrow> string" where
  "metadata_or dflt md key = (case dict_get md key of None \<Rightarrow> dflt | Some v \<Rightarrow> v)"

definition artifact_ref_from_storage ::
    "('s, 'f, 'r, 'd) apply_env \<Rightarrow> apply_context \<Rightarrow> run_context \<Rightarrow> string \<Rightarrow> 's \<Rightarrow> exn + artifact_ref" where
  "artifact_ref_from_storage env ctx rc uri st =
     (let b = ae_builder env in
      bindR (head (se_client b) (se_sha b) (se_fromiso b) (se_now b) (se_storage b) uri st) (\<lambda>info.
      let kind = metadata_or ''raw_transactions'' (si_metadata info) ''artifact-kind'' in
      validated artifact_ref_valid
        \<lparr>ar_artifact_id = artifact_id_of kind (si_hash info), ar_kind = kind, ar_uri = si_uri info, ar_hash = si_hash info,
         ar_media_type = si_content_type info, ar_size_bytes = int (si_size_bytes info),
         ar_schema_version = metadata_or ''tabular_dataset.v1'' (si_metadata info) ''schema-version'',
         ar_lineage =
           \<lparr>al_parent_version_id = metadata_or (ac_source_dataset_version_id ctx) (si_metadata info) ''dataset-version-id'',
            al_job_id = metadata_or (rc_compute_run_id rc) (si_metadata info) ''created-by-job-id'',
            al_config_hash = metadata_or (ac_config_hash ctx) (si_metadata info) ''config-hash'',
            al_created_at = si_updated_at info\<rparr>\<rparr>))"

definition chosen_source ::
    "('s, 'f, 'r, 'd) apply_env \<Rightarrow> apply_context \<Rightarrow> run_context \<Rightarrow> action_plan \<Rightarrow> 's \<Rightarrow> exn + artifact_ref" where
  "chosen_source env ctx rc plan st =
     (if ac_input_artifacts ctx \<noteq> [] then select_source_ref (ac_input_artifacts ctx) plan
      else case concat (map ps_input_artifacts (ap_steps plan)) of
        [] \<Rightarrow> Inl (apply_refused ''source_artifact_required'')
      | uri # _ \<Rightarrow> artifact_ref_from_storage env ctx rc uri st)"

definition readable_source :: "('s, 'f, 'r, 'd) apply_env \<Rightarrow> artifact_ref \<Rightarrow> 's \<Rightarrow> exn + unit" where
  "readable_source env source st =
     (case storage_get (ae_builder env) (ar_uri source) st of
        Inr x \<Rightarrow> Inr ()
      | Inl (Raised cls reason err status) \<Rightarrow>
          if is_storage_error (Raised cls reason err status) then Inl (apply_error ''source_artifact_unreadable'' err)
          else Inl (Raised cls reason err status)
      | Inl e \<Rightarrow> Inl e)"

definition resolve_source_artifact ::
    "('s, 'f, 'r, 'd) apply_env \<Rightarrow> apply_context \<Rightarrow> run_context \<Rightarrow> 'f apply_state \<times> 's \<Rightarrow> (exn + artifact_ref) \<times> 'f apply_state \<times> 's" where
  "resolve_source_artifact env ctx rc w =
     (case as_source_artifact (fst w) of
        Some source \<Rightarrow> (Inr source, w)
      | None \<Rightarrow>
          (case bindR (require_plan ctx) (\<lambda>plan.
                bindR (chosen_source env ctx rc plan (snd w)) (\<lambda>source.
                bindR (readable_source env source (snd w)) (\<lambda>_. Inr source))) of
             Inl e \<Rightarrow> (Inl e, w)
           | Inr source \<Rightarrow> (Inr source, (fst w)\<lparr>as_source_artifact := Some source\<rparr>, snd w)))"

section \<open>The split of a run\<close>

definition split_payload :: "string \<Rightarrow> action_plan \<Rightarrow> artifact_ref \<Rightarrow> json" where
  "split_payload target_column plan source =
     JObj [(''split_config'', JObj [(''strategy'', JStr ''group_stratified''), (''target_column'', JStr target_column),
                                    (''group_key'', JStr ''customer_id_hash'')]),
           (''action_plan_id'', JStr (ap_action_plan_id plan)), (''source_artifact_hash'', JStr (ar_hash source)),
           (''target_column'', JStr target_column)]"

definition built_split_step :: "(string \<Rightarrow> string) \<Rightarrow> action_plan \<Rightarrow> artifact_ref \<Rightarrow> exn + action_plan_step" where
  "built_split_step sha plan source =
     (let target_column = plan_target_column plan; config_hash = stable_hash sha (split_payload target_column plan source) in
      case ap_steps plan of
        [] \<Rightarrow> Inl (Other ''IndexError'')
      | first # _ \<Rightarrow>
          validated action_plan_step_valid
            \<lparr>ps_step_id = ''create_split_for_apply'', ps_type = ''CREATE_SPLIT'', ps_depends_on = [],
             ps_idempotency_key = stable_hash sha (JObj [(''step_id'', JStr ''create_split_for_apply''), (''config_hash'', JStr config_hash)]),
             ps_method_id = ''group_stratified'', ps_plugin_id = ''dataforge.tabular'', ps_plugin_version = ''0.1.0'',
             ps_config_hash = config_hash, ps_policy_version = ''split_policy_v0'', ps_validation_gates = [''schema_validation''],
             ps_preconditions = [''source_version_is_immutable''], ps_input_artifacts = [ar_uri source],
             ps_output_artifact_kind = SPLIT_MANIFEST_KIND,
             ps_config = [(''strategy'', JStr ''group_stratified''), (''target_column'', JStr target_column),
                          (''group_key'', JStr ''customer_id_hash'')],
             ps_random_seed = Some 42, ps_retry_policy = ps_retry_policy first,
             ps_on_failure = ''fail_plan_keep_artifacts_unpromoted'', ps_promotion_scope = ''candidate_only''\<rparr>)"

definition split_step_of :: "(string \<Rightarrow> string) \<Rightarrow> action_plan \<Rightarrow> artifact_ref \<Rightarrow> exn + action_plan_step" where
  "split_step_of sha plan source =
     (case find (\<lambda>s. ps_type s = ''CREATE_SPLIT'') (ap_steps plan) of
        Some s \<Rightarrow> Inr s | None \<Rightarrow> built_split_step sha plan source)"

text \<open>\<open>seed or 42\<close>.\<close>

definition seed_or_default :: "int option \<Rightarrow> int" where
  "seed_or_default seed = (case seed of None \<Rightarrow> 42 | Some s \<Rightarrow> if s = 0 then 42 else s)"

definition default_split_ratios :: "'f float_ops \<Rightarrow> (data_split, 'f) dict" where
  "default_split_ratios fl = [(TRAIN, fl_const fl (70 / 100)), (VALIDATION, fl_const fl (15 / 100)), (TEST, fl_const fl (15 / 100))]"

definition split_request_valid :: "'f float_ops \<Rightarrow> 'f split_request \<Rightarrow> bool" where
  "split_request_valid fl r \<longleftrightarrow>
     list_all non_empty [sq_action_plan_id r, sq_dataset_id r, sq_source_dataset_version_id r, sq_candidate_dataset_version_id r,
       sq_created_by_job_id r, sq_target_column r]
     \<and> sha256_digest (sq_config_hash r) \<and> split_ratios_ok fl (sq_split_ratios r)"

definition split_request_of ::
    "('s, 'f, 'r, 'd) apply_env \<Rightarrow> apply_context \<Rightarrow> run_context \<Rightarrow> action_plan \<Rightarrow> action_plan_step \<Rightarrow> artifact_ref \<Rightarrow> 'f split_request" where
  "split_request_of env ctx rc plan step source =
     \<lparr>sq_action_plan_id = ap_action_plan_id plan, sq_step = step, sq_dataset_id = rc_dataset_id rc,
      sq_source_dataset_version_id = ac_source_dataset_version_id ctx,
      sq_candidate_dataset_version_id = ac_proposed_version_name ctx, sq_source_artifact = source,
      sq_created_by_job_id = rc_compute_run_id rc, sq_config_hash = ps_config_hash step,
      sq_target_column = plan_target_column plan, sq_seed = seed_or_default (ps_random_seed step),
      sq_split_ratios = default_split_ratios (ae_floats env), sq_generated_at = Some (generated_at plan),
      sq_split_manifest_id = Some (runtime_id (ae_sha env) ''split_manifest'' [ap_action_plan_id plan, ps_step_id step, ar_hash source])\<rparr>"

definition ensure_split_manifest ::
    "('s, 'f, 'r, 'd) apply_env \<Rightarrow> apply_context \<Rightarrow> run_context \<Rightarrow> artifact_ref \<Rightarrow> 'f apply_state \<times> 's
     \<Rightarrow> (exn + ('f split_manifest \<times> registered_artifact)) \<times> 'f apply_state \<times> 's" where
  "ensure_split_manifest env ctx rc source w =
     (case (as_split_manifest (fst w), as_split_artifact (fst w)) of
        (Some m, Some a) \<Rightarrow> (Inr (m, a), w)
      | _ \<Rightarrow>
          bindS (liftS (require_plan ctx)) (\<lambda>plan.
          bindS (liftS (split_step_of (ae_sha env) plan source)) (\<lambda>step.
          bindS (liftS (validated (split_request_valid (ae_floats env)) (split_request_of env ctx rc plan step source))) (\<lambda>request.
          bindS (on_store (execute_tabular_split_action (ae_builder env) (ae_floats env) (ae_round env) (ae_shuffle env) (ae_dump_split env) request)) (\<lambda>(m, a).
          bindS (update_state (\<lambda>s. s\<lparr>as_split_manifest := Some m, as_split_artifact := Some a\<rparr>)) (\<lambda>_.
          returnS (m, a)))))) w)"

section \<open>The steps (_execute_step)\<close>

definition imputation_request_valid :: "imputation_request \<Rightarrow> bool" where
  "imputation_request_valid r \<longleftrightarrow>
     list_all non_empty [iq_action_plan_id r, iq_source_dataset_version_id r, iq_candidate_dataset_version_id r, iq_target_column r,
       iq_created_by_job_id r] \<and> sha256_digest (iq_config_hash r)"

definition imputation_request_of ::
    "('s, 'f, 'r, 'd) apply_env \<Rightarrow> apply_context \<Rightarrow> run_context \<Rightarrow> action_plan \<Rightarrow> action_plan_step \<Rightarrow> artifact_ref \<Rightarrow> imputation_request" where
  "imputation_request_of env ctx rc plan step source =
     \<lparr>iq_action_plan_id = ap_action_plan_id plan, iq_step = step,
      iq_source_dataset_version_id = ac_source_dataset_version_id ctx,
      iq_candidate_dataset_version_id = ac_proposed_version_name ctx, iq_target_column = plan_target_column plan,
      iq_source_artifact = source, iq_created_by_job_id = rc_compute_run_id rc, iq_config_hash = ps_config_hash step,
      iq_report_id = Some (runtime_id (ae_sha env) ''tabular_imputation'' [ap_action_plan_id plan, ps_step_id step]),
      iq_generated_at = Some (generated_at plan)\<rparr>"

definition duplicate_request_valid :: "duplicate_request \<Rightarrow> bool" where
  "duplicate_request_valid r \<longleftrightarrow>
     list_all non_empty [uq_action_plan_id r, uq_dataset_id r, uq_source_dataset_version_id r, uq_candidate_dataset_version_id r,
       uq_created_by_job_id r, uq_id_column r]
     \<and> sha256_digest (uq_config_hash r) \<and> opt_ok (list_all non_empty) (uq_signature_columns r)"

definition duplicate_request_of ::
    "('s, 'f, 'r, 'd) apply_env \<Rightarrow> apply_context \<Rightarrow> run_context \<Rightarrow> action_plan \<Rightarrow> action_plan_step \<Rightarrow> artifact_ref \<Rightarrow> duplicate_request" where
  "duplicate_request_of env ctx rc plan step source =
     \<lparr>uq_action_plan_id = ap_action_plan_id plan, uq_step = step, uq_dataset_id = rc_dataset_id rc,
      uq_source_dataset_version_id = ac_source_dataset_version_id ctx,
      uq_candidate_dataset_version_id = ac_proposed_version_name ctx, uq_source_artifact = source,
      uq_created_by_job_id = rc_compute_run_id rc, uq_config_hash = ps_config_hash step, uq_id_column = ''object_id'',
      uq_signature_columns = None,
      uq_report_id = Some (runtime_id (ae_sha env) ''duplicate_action'' [ap_action_plan_id plan, ps_step_id step]),
      uq_generated_at = Some (generated_at plan)\<rparr>"

definition smote_request_of ::
    "('s, 'f, 'r, 'd) apply_env \<Rightarrow> apply_context \<Rightarrow> run_context \<Rightarrow> action_plan \<Rightarrow> action_plan_step \<Rightarrow> artifact_ref
     \<Rightarrow> 'f split_manifest \<Rightarrow> artifact_ref \<Rightarrow> int \<Rightarrow> 'f \<Rightarrow> 'f smote_request" where
  "smote_request_of env ctx rc plan step source manifest manifest_ref k_neighbors sampling_strategy =
     \<lparr>mq_action_plan_id = ap_action_plan_id plan, mq_step = step, mq_dataset_id = rc_dataset_id rc,
      mq_source_dataset_version_id = ac_source_dataset_version_id ctx,
      mq_candidate_dataset_version_id = ac_proposed_version_name ctx, mq_source_artifact = source,
      mq_split_manifest = manifest, mq_split_manifest_artifact = manifest_ref,
      mq_created_by_job_id = rc_compute_run_id rc, mq_config_hash = ps_config_hash step,
      mq_target_column = plan_target_column plan, mq_rare_class_label = plan_rare_class_label plan,
      mq_random_seed = seed_or_default (ps_random_seed step), mq_k_neighbors = k_neighbors,
      mq_sampling_strategy = sampling_strategy, mq_sample_lineage_limit = 25, mq_feature_columns = None,
      mq_report_id = Some (runtime_id (ae_sha env) ''synthetic_dataset_report''
        [ap_action_plan_id plan, ps_step_id step, ps_config_hash step]),
      mq_generated_at = Some (generated_at plan)\<rparr>"

type_synonym step_result = "registered_artifact \<times> registered_artifact list"

definition impute_step ::
    "('s, 'f, 'r, 'd) apply_env \<Rightarrow> apply_context \<Rightarrow> run_context \<Rightarrow> action_plan \<Rightarrow> artifact_ref \<Rightarrow> action_plan_step
     \<Rightarrow> 'f apply_state \<times> 's \<Rightarrow> (exn + step_result) \<times> 'f apply_state \<times> 's" where
  "impute_step env ctx rc plan current step =
     bindS (liftS (validated imputation_request_valid (imputation_request_of env ctx rc plan step current))) (\<lambda>request.
     bindS (on_store (execute_tabular_imputation_action (ae_builder env) (ae_decimals env) (ae_quotes_cr env) (ae_encode env)
              (ae_dump_imputation env) request)) (\<lambda>(report, candidate, report_artifact).
     returnS (candidate, [candidate, report_artifact])))"

definition duplicates_step ::
    "('s, 'f, 'r, 'd) apply_env \<Rightarrow> apply_context \<Rightarrow> run_context \<Rightarrow> action_plan \<Rightarrow> artifact_ref \<Rightarrow> action_plan_step
     \<Rightarrow> 'f apply_state \<times> 's \<Rightarrow> (exn + step_result) \<times> 'f apply_state \<times> 's" where
  "duplicates_step env ctx rc plan current step =
     bindS (liftS (validated duplicate_request_valid (duplicate_request_of env ctx rc plan step current))) (\<lambda>request.
     bindS (on_store (execute_tabular_duplicates_action (ae_builder env) (ae_quotes_cr env) (ae_encode env)
              (ae_dump_duplicates env) request)) (\<lambda>(report, candidate, report_artifact).
     returnS (candidate, [candidate, report_artifact])))"

definition read_split :: "('s, 'f, 'r, 'd) apply_env \<Rightarrow> string \<Rightarrow> 's \<Rightarrow> exn + 'f split_manifest" where
  "read_split env uri st = bindR (storage_get (ae_builder env) uri st) (\<lambda>(data, info). ae_parse_split env data)"

definition smote_step ::
    "('s, 'f, 'r, 'd) apply_env \<Rightarrow> apply_context \<Rightarrow> run_context \<Rightarrow> action_plan \<Rightarrow> artifact_ref \<Rightarrow> action_plan_step
     \<Rightarrow> 'f apply_state \<times> 's \<Rightarrow> (exn + step_result) \<times> 'f apply_state \<times> 's" where
  "smote_step env ctx rc plan current step =
     bindS (ensure_split_manifest env ctx rc current) (\<lambda>(manifest, split_artifact).
     bindS (liftS (json_int env (get_or (JInt 3) (ps_config step) ''k_neighbors''))) (\<lambda>k_neighbors.
     bindS (liftS (case dict_get (ps_config step) ''sampling_strategy'' of
         None \<Rightarrow> Inr (fl_const (ae_floats env) (20 / 100)) | Some j \<Rightarrow> json_float (ae_floats env) j)) (\<lambda>sampling_strategy.
     bindS (liftS (validated (smote_request_valid (ae_floats env))
         (smote_request_of env ctx rc plan step current manifest (ra_artifact_ref split_artifact) k_neighbors sampling_strategy))) (\<lambda>request.
     bindS (on_store (execute_smote_augmentation_action (ae_builder env) (ae_floats env) (ae_numbers env) (ae_rng env)
         (ae_quotes_cr env) (ae_encode env) (ae_dump_split env) (ae_dump_synthetic env) request))
       (\<lambda>(report, candidate, augmented_split, report_artifact).
     bindS (on_store (\<lambda>st. (read_split env (ra_uri augmented_split) st, st))) (\<lambda>augmented.
     bindS (update_state (\<lambda>s. s\<lparr>as_split_manifest := Some augmented, as_split_artifact := Some augmented_split,
         as_synthetic_report := Some report, as_synthetic_report_artifact := Some report_artifact,
         as_synthetic_candidate := Some candidate\<rparr>)) (\<lambda>_.
     returnS (candidate, [candidate, augmented_split, report_artifact]))))))))"

definition SYNTHETIC_STEP_TYPES :: "string list" where
  "SYNTHETIC_STEP_TYPES = [action_value AUGMENT_RARE_CLASS, action_value GENERATE_SYNTHETIC_CANDIDATE]"

definition execute_step ::
    "('s, 'f, 'r, 'd) apply_env \<Rightarrow> apply_context \<Rightarrow> run_context \<Rightarrow> action_plan \<Rightarrow> artifact_ref \<Rightarrow> action_plan_step
     \<Rightarrow> 'f apply_state \<times> 's \<Rightarrow> (exn + step_result) \<times> 'f apply_state \<times> 's" where
  "execute_step env ctx rc plan current step =
     (if ps_type step = action_value IMPUTE_MISSING_VALUES then impute_step env ctx rc plan current step
      else if ps_type step \<in> {''MARK_DUPLICATE_CANDIDATES'', ''REMOVE_DUPLICATES''} then duplicates_step env ctx rc plan current step
      else if ps_type step \<in> set SYNTHETIC_STEP_TYPES \<and> ps_method_id step = ''smote'' then smote_step env ctx rc plan current step
      else liftS (Inl (apply_refused ''unsupported_action_plan_step'')))"

section \<open>Reading the columns of a stored table\<close>

definition csv_columns :: "string \<Rightarrow> exn + string list" where
  "csv_columns t =
     (case csv_records t of [] \<Rightarrow> Inl (apply_refused ''empty_tabular_source'')
      | h # _ \<Rightarrow> if fields_fit h then Inr h else Inl (Other ''Error''))"

definition csv_row_count :: "string \<Rightarrow> exn + int" where
  "csv_row_count t =
     (case csv_records t of [] \<Rightarrow> Inr 0
      | h # rs \<Rightarrow> if list_all fields_fit (h # rs) then Inr (int (length rs)) else Inl (Other ''Error''))"

definition NON_FEATURE_COLUMNS :: "string list" where
  "NON_FEATURE_COLUMNS = [''object_id'', ''customer_id_hash'', ''case_id'', ''is_synthetic'', ''synthetic_source_split'']"

text \<open>A cell that a short row lacks is None, which is not empty and no number.\<close>

definition numeric_column :: "'f float_ops \<Rightarrow> (string, string option) dict list \<Rightarrow> string \<Rightarrow> bool" where
  "numeric_column fl rows column =
     (let cells = filter (\<lambda>v. v \<noteq> Some []) (map (\<lambda>row. case dict_get row column of None \<Rightarrow> Some [] | Some v \<Rightarrow> v) rows) in
      cells \<noteq> [] \<and> list_all (\<lambda>v. case v of None \<Rightarrow> False | Some s \<Rightarrow> fl_of_str fl s \<noteq> None) cells)"

definition numeric_feature_columns :: "'f float_ops \<Rightarrow> string \<Rightarrow> string \<Rightarrow> exn + string list" where
  "numeric_feature_columns fl target_column t =
     (let records = csv_records t; header = (case records of [] \<Rightarrow> [] | h # _ \<Rightarrow> h);
          rows = map (dict_row header) (filter (\<lambda>r. r \<noteq> []) (tl records)) in
      if \<not> list_all fields_fit records then Inl (Other ''Error'')
      else Inr (filter (\<lambda>c. c \<noteq> target_column \<and> c \<notin> set NON_FEATURE_COLUMNS \<and> \<not> ends_with ''_was_missing'' c
              \<and> numeric_column fl rows c) header))"

section \<open>The validation gates of the run\<close>

definition gates_request_valid :: "'f gates_request \<Rightarrow> bool" where
  "gates_request_valid r \<longleftrightarrow>
     list_all non_empty [gq_dataset_id r, gq_source_dataset_version_id r, gq_candidate_dataset_version_id r,
       gq_candidate_artifact_kind r, gq_rules_version r, gq_created_by_job_id r, gq_policy_version r]
     \<and> list_all non_empty (gq_schema_columns r) \<and> list_all non_empty (gq_numeric_columns r)
     \<and> opt_ok sha256_digest (gq_rules_config_hash r) \<and> sha256_digest (gq_config_hash r)
     \<and> opt_ok non_empty (gq_action_plan_id r) \<and> opt_ok non_empty (gq_step_id r)"

definition gates_request_of ::
    "('s, 'f, 'r, 'd) apply_env \<Rightarrow> apply_context \<Rightarrow> run_context \<Rightarrow> action_plan \<Rightarrow> 'f apply_state \<Rightarrow> artifact_ref \<Rightarrow> registered_artifact
     \<Rightarrow> 's \<Rightarrow> exn + 'f gates_request" where
  "gates_request_of env ctx rc plan s source candidate st =
     bindR (plan_business_rules (ae_parse_rule env) plan) (\<lambda>rules.
     bindR (stored_text env source st) (\<lambda>source_text.
     bindR (csv_columns source_text) (\<lambda>schema_columns.
     bindR (stored_text env (ra_artifact_ref candidate) st) (\<lambda>candidate_text.
     bindR (numeric_feature_columns (ae_floats env) (plan_target_column plan) candidate_text) (\<lambda>numeric_columns.
     bindR (dcr_thresholds_of (ae_floats env) (ap_steps plan)) (\<lambda>thresholds.
     validated gates_request_valid
       \<lparr>gq_dataset_id = rc_dataset_id rc, gq_source_dataset_version_id = ac_source_dataset_version_id ctx,
        gq_candidate_dataset_version_id = ac_proposed_version_name ctx, gq_candidate_artifact = ra_artifact_ref candidate,
        gq_source_artifact = source, gq_candidate_artifact_kind = ra_artifact_kind candidate,
        gq_schema_columns = schema_columns, gq_numeric_columns = numeric_columns, gq_business_rules = rules,
        gq_rules_version = ''tabular_business_rules.v1'',
        gq_rules_config_hash = (if rules \<noteq> [] then Some (compute_rules_config_hash (ae_floats env) (ae_sha env) rules) else None),
        gq_pii_restricted = plan_pii_restricted plan, gq_split_leakage_report = None, gq_split_leakage_report_artifact = None,
        gq_split_manifest_artifact = map_option ra_artifact_ref (as_split_artifact s),
        gq_synthetic_dataset_report = map_option synthetic_report.truncate (as_synthetic_report s),
        gq_synthetic_dataset_report_artifact = map_option ra_artifact_ref (as_synthetic_report_artifact s),
        gq_dcr_thresholds = thresholds, gq_created_by_job_id = rc_compute_run_id rc, gq_config_hash = ac_config_hash ctx,
        gq_policy_version = (case cp_validation_gates_policy_version (ac_policy_versions ctx) of
            Some v \<Rightarrow> if v = [] then ''validation_gates_policy_v0'' else v | None \<Rightarrow> ''validation_gates_policy_v0''),
        gq_action_plan_id = Some (ap_action_plan_id plan), gq_step_id = None,
        gq_report_id = Some (runtime_id (ae_sha env) ''validation_gates_report''
          [ap_action_plan_id plan, ac_proposed_version_name ctx, ra_hash candidate]),
        gq_generated_at = Some (generated_at plan)\<rparr>))))))"

definition apply_validation_gates ::
    "('s, 'f, 'r, 'd) apply_env \<Rightarrow> apply_context \<Rightarrow> run_context \<Rightarrow> 'f apply_state \<times> 's \<Rightarrow> (exn + 'f gates_report) \<times> 'f apply_state \<times> 's" where
  "apply_validation_gates env ctx rc w =
     (case as_gates_report (fst w) of
        Some report \<Rightarrow> (Inr report, w)
      | None \<Rightarrow>
          (case (as_source_artifact (fst w), as_primary_candidate (fst w)) of
             (Some source, Some candidate) \<Rightarrow>
               bindS (liftS (require_plan ctx)) (\<lambda>plan.
               bindS (liftS (gates_request_of env ctx rc plan (fst w) source candidate (snd w))) (\<lambda>request.
               bindS (on_store (run_validation_gates (ae_builder env) (ae_floats env) (ae_dump_gates env) request)) (\<lambda>(report, artifact).
               bindS (update_state (\<lambda>s. s\<lparr>as_gates_report := Some report, as_gates_report_artifact := Some artifact\<rparr>)) (\<lambda>_.
               returnS report)))) w
           | _ \<Rightarrow> (Inl (apply_refused ''validation_inputs_missing''), w)))"

section \<open>The plan (execute_remediation_plan)\<close>

record step_summary =
  us_step_id :: string
  us_step_type :: string
  us_method_id :: string
  us_plugin_id :: string
  us_plugin_version :: string
  us_output_artifact_uris :: "string list"
  us_output_artifact_hashes :: "string list"

record 'f remediation_payload =
  xp_report_schema_version :: string
  xp_action_plan_id :: string
  xp_source_dataset_version_id :: string
  xp_candidate_dataset_version_id :: string
  xp_created_by_job_id :: string
  xp_step_count :: nat
  xp_steps :: "step_summary list"
  xp_primary_candidate_artifact :: artifact_ref
  xp_validation_gates_report :: "'f gates_report"
  xp_validation_status :: string
  xp_block_export :: bool
  xp_generated_at :: string

definition summary_of_step :: "action_plan_step \<Rightarrow> registered_artifact list \<Rightarrow> step_summary" where
  "summary_of_step step produced =
     \<lparr>us_step_id = ps_step_id step, us_step_type = ps_type step, us_method_id = ps_method_id step,
      us_plugin_id = ps_plugin_id step, us_plugin_version = ps_plugin_version step,
      us_output_artifact_uris = map ra_uri produced, us_output_artifact_hashes = map ra_hash produced\<rparr>"

definition run_plan_step ::
    "('s, 'f, 'r, 'd) apply_env \<Rightarrow> apply_context \<Rightarrow> run_context \<Rightarrow> action_plan \<Rightarrow> artifact_ref \<times> step_summary list \<Rightarrow> action_plan_step
     \<Rightarrow> 'f apply_state \<times> 's \<Rightarrow> (exn + (artifact_ref \<times> step_summary list)) \<times> 'f apply_state \<times> 's" where
  "run_plan_step env ctx rc plan acc step =
     bindS (execute_step env ctx rc plan (fst acc) step) (\<lambda>(candidate, produced).
     bindS (update_state (\<lambda>s. s\<lparr>as_primary_candidate := Some candidate, as_step_outputs := as_step_outputs s @ produced\<rparr>)) (\<lambda>_.
     returnS (ra_artifact_ref candidate, snd acc @ [summary_of_step step produced])))"

definition run_plan_steps ::
    "('s, 'f, 'r, 'd) apply_env \<Rightarrow> apply_context \<Rightarrow> run_context \<Rightarrow> action_plan \<Rightarrow> artifact_ref \<times> step_summary list \<Rightarrow> action_plan_step list
     \<Rightarrow> 'f apply_state \<times> 's \<Rightarrow> (exn + (artifact_ref \<times> step_summary list)) \<times> 'f apply_state \<times> 's" where
  "run_plan_steps env ctx rc plan = foldS (run_plan_step env ctx rc plan)"

definition REMEDIATION_EXECUTION_REPORT_KIND :: string where
  "REMEDIATION_EXECUTION_REPORT_KIND = ''remediation_execution_report''"

definition REMEDIATION_EXECUTION_REPORT_SCHEMA_VERSION :: string where
  "REMEDIATION_EXECUTION_REPORT_SCHEMA_VERSION = ''remediation_execution_report.v1''"

definition remediation_payload_of ::
    "('s, 'f, 'r, 'd) apply_env \<Rightarrow> apply_context \<Rightarrow> run_context \<Rightarrow> action_plan \<Rightarrow> step_summary list \<Rightarrow> registered_artifact \<Rightarrow> 'f gates_report
     \<Rightarrow> 'f remediation_payload" where
  "remediation_payload_of env ctx rc plan summaries candidate gates =
     \<lparr>xp_report_schema_version = REMEDIATION_EXECUTION_REPORT_SCHEMA_VERSION, xp_action_plan_id = ap_action_plan_id plan,
      xp_source_dataset_version_id = ac_source_dataset_version_id ctx,
      xp_candidate_dataset_version_id = ac_proposed_version_name ctx, xp_created_by_job_id = rc_compute_run_id rc,
      xp_step_count = length (ap_steps plan), xp_steps = summaries,
      xp_primary_candidate_artifact = ra_artifact_ref candidate, xp_validation_gates_report = gates,
      xp_validation_status = candidate_status_value (gr_candidate_status gates), xp_block_export = gr_block_export gates,
      xp_generated_at = se_iso (ae_builder env) (generated_at plan)\<rparr>"

text \<open>\<open>dump\<close> is the indented JSON of the payload.\<close>

definition execute_remediation_plan ::
    "('s, 'f, 'r, 'd) apply_env \<Rightarrow> ('f remediation_payload \<Rightarrow> string) \<Rightarrow> apply_context \<Rightarrow> run_context \<Rightarrow> 'f apply_state \<times> 's
     \<Rightarrow> (exn + registered_artifact) \<times> 'f apply_state \<times> 's" where
  "execute_remediation_plan env dump ctx rc w =
     (case as_remediation_report (fst w) of
        Some artifact \<Rightarrow> (Inr artifact, w)
      | None \<Rightarrow>
          bindS (liftS (require_plan ctx)) (\<lambda>plan.
          bindS (resolve_source_artifact env ctx rc) (\<lambda>source.
          bindS (run_plan_steps env ctx rc plan (source, []) (ap_steps plan)) (\<lambda>(_, summaries).
          bindS (\<lambda>w. (case as_primary_candidate (fst w) of
              None \<Rightarrow> Inl (apply_refused ''action_plan_produced_no_candidate_artifact'') | Some c \<Rightarrow> Inr c, w)) (\<lambda>candidate.
          bindS (apply_validation_gates env ctx rc) (\<lambda>gates.
          bindS (on_store (registry_save (ae_builder env)
            \<lparr>sv_artifact_kind = REMEDIATION_EXECUTION_REPORT_KIND,
             sv_data = dump (remediation_payload_of env ctx rc plan summaries candidate gates), sv_artifact_format = ''json'',
             sv_media_type = ''application/json'', sv_schema_version = REMEDIATION_EXECUTION_REPORT_SCHEMA_VERSION,
             sv_dataset_version_id = ac_proposed_version_name ctx, sv_created_by_job_id = rc_compute_run_id rc,
             sv_config_hash = ac_config_hash ctx,
             sv_metadata = [(''action-plan-id'', ap_action_plan_id plan),
               (''validation-status'', candidate_status_value (gr_candidate_status gates)),
               (''block-export'', bool_text (gr_block_export gates)),
               (''created-at'', se_iso (ae_builder env) (generated_at plan))]\<rparr>)) (\<lambda>artifact.
          bindS (update_state (\<lambda>s. s\<lparr>as_remediation_report := Some artifact\<rparr>)) (\<lambda>_.
          returnS artifact))))))) w)"

section \<open>The approved plan as an artifact\<close>

definition persist_action_plan_artifact ::
    "('s, 'f, 'r, 'd) apply_env \<Rightarrow> apply_context \<Rightarrow> run_context \<Rightarrow> 'f apply_state \<times> 's \<Rightarrow> (exn + registered_artifact) \<times> 'f apply_state \<times> 's" where
  "persist_action_plan_artifact env ctx rc w =
     (case as_action_plan_artifact (fst w) of
        Some artifact \<Rightarrow> (Inr artifact, w)
      | None \<Rightarrow>
          bindS (liftS (require_plan ctx)) (\<lambda>plan.
          bindS (on_store (registry_save (ae_builder env)
            \<lparr>sv_artifact_kind = ''action_plan_artifact'', sv_data = ae_dump_plan env plan, sv_artifact_format = ''json'',
             sv_media_type = ''application/json'', sv_schema_version = ''action_plan.v1'',
             sv_dataset_version_id = ac_proposed_version_name ctx, sv_created_by_job_id = rc_compute_run_id rc,
             sv_config_hash = ac_config_hash ctx,
             sv_metadata = [(''action-plan-id'', ap_action_plan_id plan), (''source-version-id'', ac_source_dataset_version_id ctx),
               (''proposed-version-name'', ac_proposed_version_name ctx),
               (''created-at'', se_iso (ae_builder env) (generated_at plan))]\<rparr>)) (\<lambda>artifact.
          bindS (update_state (\<lambda>s. s\<lparr>as_action_plan_artifact := Some artifact\<rparr>)) (\<lambda>_.
          returnS artifact))) w)"

end
