(* ===== verification/ApplyRuntime.thy ===== *)
theory ApplyRuntime
  imports ApplySteps
begin

text \<open>
  What the execution of a plan guarantees (\<open>src/app/orchestration/apply_runtime.py\<close>): which steps it can run at all, that
  nothing stored before is changed by any step, and that a chain of cleaning steps, run through the store, the CSV
  writer and the reader, computes the composition of the table operations the steps stand for.
\<close>

section \<open>Nothing stored is changed\<close>

definition extends :: "'s s3_client \<Rightarrow> 's \<Rightarrow> 's \<Rightarrow> bool" where
  "extends c st st' \<longleftrightarrow>
     (\<forall>b k r. s3_head c st b k = Inr r \<longrightarrow> s3_head c st' b k = Inr r \<and> s3_get c st' b k = s3_get c st b k)"

lemma extends_refl [simp]: "extends c st st"
  by (simp add: extends_def)

lemma extends_trans [trans]: "extends c st1 st2 \<Longrightarrow> extends c st2 st3 \<Longrightarrow> extends c st1 st3"
  by (simp add: extends_def)

definition keeps :: "'s s3_client \<Rightarrow> ('w \<times> 's \<Rightarrow> 'a \<times> 'w \<times> 's) \<Rightarrow> bool" where
  "keeps c m \<longleftrightarrow> (\<forall>w. extends c (snd w) (snd (snd (m w))))"

lemma keepsI: "(\<And>w r w'. m w = (r, w') \<Longrightarrow> extends c (snd w) (snd w')) \<Longrightarrow> keeps c m"
  by (metis keeps_def prod.collapse)

lemma keepsD: "keeps c m \<Longrightarrow> m w = (r, w') \<Longrightarrow> extends c (snd w) (snd w')"
  by (metis keeps_def snd_conv)

named_theorems keeps_intros

lemma keeps_return [keeps_intros]: "keeps c (returnS a)"
  by (simp add: keeps_def returnS_def)

lemma keeps_lift [keeps_intros]: "keeps c (liftS r)"
  by (simp add: keeps_def liftS_def)

lemma keeps_update [keeps_intros]: "keeps c (update_state f)"
  by (simp add: keeps_def update_state_def)

lemma keeps_bind [keeps_intros]:
  assumes "keeps c m" "\<And>a. keeps c (f a)"
  shows "keeps c (bindS m f)"
proof (rule keepsI)
  fix w r w' assume run: "bindS m f w = (r, w')"
  obtain x w1 where m: "m w = (x, w1)" by (cases "m w")
  note first = keepsD [OF assms(1) m]
  show "extends c (snd w) (snd w')"
  proof (cases x)
    case (Inl e)
    then show ?thesis using run m first by (simp add: bindS_def)
  next
    case (Inr a)
    then have "f a w1 = (r, w')" using run m by (simp add: bindS_def)
    then show ?thesis using extends_trans [OF first keepsD [OF assms(2)]] by simp
  qed
qed

lemma keeps_case_prod [keeps_intros]: "(\<And>a b. keeps c (f a b)) \<Longrightarrow> keeps c (case p of (a, b) \<Rightarrow> f a b)"
  by (cases p) simp

lemma keeps_if [keeps_intros]: "keeps c m \<Longrightarrow> keeps c m' \<Longrightarrow> keeps c (if P then m else m')"
  by simp

lemma keeps_fold [keeps_intros]: "(\<And>acc i. keeps c (f acc i)) \<Longrightarrow> keeps c (foldS f acc is)"
  by (induction "is" arbitrary: acc) (auto intro: keeps_intros)

text \<open>An operation on the store alone.\<close>

definition store_keeps :: "'s s3_client \<Rightarrow> ('s \<Rightarrow> 'a \<times> 's) \<Rightarrow> bool" where
  "store_keeps c f \<longleftrightarrow> (\<forall>st. extends c st (snd (f st)))"

lemma keeps_on_store [keeps_intros]: "store_keeps c f \<Longrightarrow> keeps c (on_store f)"
  by (auto simp: keeps_def store_keeps_def on_store_def Let_def split: prod.splits) (metis snd_conv)

lemma store_keepsD: "store_keeps c f \<Longrightarrow> f st = (r, st') \<Longrightarrow> extends c st st'"
  by (metis store_keeps_def snd_conv)

lemma store_keepsI: "(\<And>st r st'. f st = (r, st') \<Longrightarrow> extends c st st') \<Longrightarrow> store_keeps c f"
  by (metis store_keeps_def prod.collapse)

lemma store_keeps_read [keeps_intros]: "store_keeps c (\<lambda>st. (f st, st))"
  by (simp add: store_keeps_def)

lemma store_keeps_save:
  assumes "s3_laws (se_client b)"
  shows "store_keeps (se_client b) (registry_save b args)"
  by (rule store_keepsI) (use s3_laws.registry_save_append_only [OF assms refl] in \<open>auto simp: extends_def\<close>)

lemma save_extends: "s3_laws (se_client b) \<Longrightarrow> registry_save b args st = (r, st') \<Longrightarrow> extends (se_client b) st st'"
  by (rule store_keepsD [OF store_keeps_save])

lemma executors_keep [keeps_intros]:
  assumes "s3_laws (se_client b)"
  shows "store_keeps (se_client b) (execute_tabular_imputation_action b dc q enc ser ir)"
    "store_keeps (se_client b) (execute_tabular_duplicates_action b q enc dser dr)"
    "store_keeps (se_client b) (execute_tabular_split_action b fl rnd shuffle sser sr)"
    "store_keeps (se_client b) (execute_smote_augmentation_action b fl nf rg q enc mser rser mr)"
    "store_keeps (se_client b) (run_validation_gates b fl gser gr)"
proof -
  note save = save_extends [OF assms]
  show "store_keeps (se_client b) (execute_tabular_imputation_action b dc q enc ser ir)"
    by (rule store_keepsI) (auto simp: execute_tabular_imputation_action_def Let_def split: sum.splits prod.splits dest!: save intro: extends_trans)
  show "store_keeps (se_client b) (execute_tabular_duplicates_action b q enc dser dr)"
    by (rule store_keepsI) (auto simp: execute_tabular_duplicates_action_def Let_def split: sum.splits prod.splits dest!: save intro: extends_trans)
  show "store_keeps (se_client b) (execute_tabular_split_action b fl rnd shuffle sser sr)"
    by (rule store_keepsI) (auto simp: execute_tabular_split_action_def Let_def split: sum.splits prod.splits dest!: save)
  have persist: "extends (se_client b) st st'"
    if "persist_synthetic_artifacts b fl q enc mser mth md rr sr cs m t cid j h st = (r, st')" for mth md rr sr cs m t cid j h st r st'
    using that by (auto simp: persist_synthetic_artifacts_def Let_def split: sum.splits prod.splits dest!: save intro: extends_trans)
  have report: "extends (se_client b) st st'"
    if "persist_synthetic_report b fl rser rep cid j h md ch ah st = (r, st')" for rep cid j h md ch ah st r st'
    using that save by (auto simp: persist_synthetic_report_def)
  show "store_keeps (se_client b) (execute_smote_augmentation_action b fl nf rg q enc mser rser mr)"
    by (rule store_keepsI) (auto simp: execute_smote_augmentation_action_def Let_def split: sum.splits prod.splits
        dest!: persist report intro: extends_trans)
  show "store_keeps (se_client b) (run_validation_gates b fl gser gr)"
    by (rule store_keepsI) (auto simp: run_validation_gates_def Let_def split: sum.splits prod.splits dest!: save)
qed

text \<open>Every operation of the runtime.\<close>

lemma keeps_split:
  assumes "s3_laws (se_client (ae_builder env))"
  shows "keeps (se_client (ae_builder env)) (ensure_split_manifest env ctx rc source)"
proof (rule keepsI)
  fix w :: "'b apply_state \<times> 'a" and r w'
  assume run: "ensure_split_manifest env ctx rc source w = (r, w')"
  show "extends (se_client (ae_builder env)) (snd w) (snd w')"
  proof (cases "as_split_manifest (fst w) \<noteq> None \<and> as_split_artifact (fst w) \<noteq> None")
    case True
    then show ?thesis using run by (auto simp: ensure_split_manifest_def)
  next
    case False
    let ?m = "bindS (liftS (require_plan ctx)) (\<lambda>plan.
          bindS (liftS (split_step_of (ae_sha env) plan source)) (\<lambda>step.
          bindS (liftS (validated (split_request_valid (ae_floats env)) (split_request_of env ctx rc plan step source))) (\<lambda>request.
          bindS (on_store (execute_tabular_split_action (ae_builder env) (ae_floats env) (ae_round env) (ae_shuffle env) (ae_dump_split env) request)) (\<lambda>(m, a).
          bindS (update_state (\<lambda>s. s\<lparr>as_split_manifest := Some m, as_split_artifact := Some a\<rparr>)) (\<lambda>_.
          returnS (m, a))))))"
    have "?m w = (r, w')" using run False by (auto simp: ensure_split_manifest_def split: option.splits)
    moreover have "keeps (se_client (ae_builder env)) ?m" by (intro keeps_intros assms)
    ultimately show ?thesis by (rule keepsD [rotated])
  qed
qed

lemma keeps_execute_step:
  assumes "s3_laws (se_client (ae_builder env))"
  shows "keeps (se_client (ae_builder env)) (execute_step env ctx rc plan current step)"
  unfolding execute_step_def impute_step_def duplicates_step_def smote_step_def
  by (intro keeps_intros keeps_split assms)

lemma keeps_run_steps:
  assumes "s3_laws (se_client (ae_builder env))"
  shows "keeps (se_client (ae_builder env)) (run_plan_steps env ctx rc plan acc steps)"
  unfolding run_plan_steps_def run_plan_step_def by (intro keeps_intros keeps_execute_step assms)

section \<open>What the steps leave alone in the state\<close>

definition unchanged :: "('f apply_state \<Rightarrow> 'v) \<Rightarrow> ('f apply_state \<times> 's \<Rightarrow> 'a \<times> 'f apply_state \<times> 's) \<Rightarrow> bool" where
  "unchanged g m \<longleftrightarrow> (\<forall>w. g (fst (snd (m w))) = g (fst w))"

lemma unchangedD: "unchanged g m \<Longrightarrow> m w = (r, w') \<Longrightarrow> g (fst w') = g (fst w)"
  by (metis unchanged_def snd_conv)

lemma unchangedI: "(\<And>w r w'. m w = (r, w') \<Longrightarrow> g (fst w') = g (fst w)) \<Longrightarrow> unchanged g m"
  by (metis unchanged_def prod.collapse)

named_theorems unchanged_intros

lemma unchanged_return [unchanged_intros]: "unchanged g (returnS a)"
  by (simp add: unchanged_def returnS_def)

lemma unchanged_lift [unchanged_intros]: "unchanged g (liftS r)"
  by (simp add: unchanged_def liftS_def)

lemma unchanged_store [unchanged_intros]: "unchanged g (on_store f)"
  by (simp add: unchanged_def on_store_def Let_def split: prod.splits)

lemma unchanged_update [unchanged_intros]: "(\<And>s. g (f s) = g s) \<Longrightarrow> unchanged g (update_state f)"
  by (simp add: unchanged_def update_state_def)

lemma unchanged_bind [unchanged_intros]: "unchanged g m \<Longrightarrow> (\<And>a. unchanged g (f a)) \<Longrightarrow> unchanged g (bindS m f)"
  by (auto simp: unchanged_def bindS_def split: prod.splits sum.splits) (metis fst_conv snd_conv)+

lemma unchanged_case_prod [unchanged_intros]: "(\<And>a b. unchanged g (f a b)) \<Longrightarrow> unchanged g (case p of (a, b) \<Rightarrow> f a b)"
  by (cases p) simp

lemma unchanged_if [unchanged_intros]: "unchanged g m \<Longrightarrow> unchanged g m' \<Longrightarrow> unchanged g (if P then m else m')"
  by simp

lemma unchanged_fold [unchanged_intros]: "(\<And>acc i. unchanged g (f acc i)) \<Longrightarrow> unchanged g (foldS f acc is)"
  by (induction "is" arbitrary: acc) (auto intro: unchanged_intros)

lemma unchanged_split:
  assumes "\<And>s m a. g (s\<lparr>as_split_manifest := m, as_split_artifact := a\<rparr>) = g s"
  shows "unchanged g (ensure_split_manifest env ctx rc source)"
  by (rule unchangedI) (auto simp: ensure_split_manifest_def bindS_def liftS_def on_store_def update_state_def returnS_def Let_def assms
      split: option.splits prod.splits sum.splits)

lemma unchanged_run_steps:
  assumes "\<And>s m a. g (s\<lparr>as_split_manifest := m, as_split_artifact := a\<rparr>) = g s"
    and "\<And>s m a y r c. g (s\<lparr>as_split_manifest := m, as_split_artifact := a, as_synthetic_report := y,
         as_synthetic_report_artifact := r, as_synthetic_candidate := c\<rparr>) = g s"
    and "\<And>s c os. g (s\<lparr>as_primary_candidate := c, as_step_outputs := os\<rparr>) = g s"
  shows "unchanged g (run_plan_steps env ctx rc plan acc steps)"
  unfolding run_plan_steps_def run_plan_step_def execute_step_def impute_step_def duplicates_step_def smote_step_def
  by (intro unchanged_intros unchanged_split assms)

section \<open>The digest in the metadata is that of the body\<close>

definition honest :: "'s builder_env \<Rightarrow> 's \<Rightarrow> bool" where
  "honest b st \<longleftrightarrow>
     (\<forall>bucket key r h. s3_head (se_client b) st bucket key = Inr r
        \<and> dict_get (string_metadata (rs_metadata r)) ''sha256'' = Some h \<longrightarrow>
        (\<exists>r' body. s3_get (se_client b) st bucket key = Inr r' \<and> rs_body r' = Some body \<and> sha256_of (se_sha b) body = h))"

definition plain_metadata :: "save_args \<Rightarrow> bool" where
  "plain_metadata args \<longleftrightarrow> set (dict_keys (sv_metadata args)) \<inter> set reserved_keys = {}"

lemma save_written:
  assumes "s3_laws (se_client b)" "registry_save b args st = (r, st')" "st' \<noteq> st"
  shows "\<exists>n key u. s3_put (se_client b) st (ad_bucket_name (se_registry b)) key (sv_data args) (sv_media_type args)
    (saved_metadata (sv_metadata args) n (sha256_of (se_sha b) (sv_data args))) = (Inr u, st')"
proof -
  let ?h = "sha256_of (se_sha b) (sv_data args)"
  obtain n uri where n: "save_names_of args = Inr n" "uri_for_object_name (se_registry b) (object_name_of n ?h) = Inr uri"
    "existing_artifact (se_client b) (se_sha b) (se_fromiso b) (se_now b) (se_registry b) uri ?h n (sv_config_hash args) st = Inr None"
    using assms(2,3) by (auto simp: registry_save_def save_artifact_def Let_def split: sum.splits option.splits)
  obtain r' where put: "put (se_client b) (se_sha b) (se_fromiso b) (se_now b) (se_registry b) (put_args_of args n (object_name_of n ?h)) st = (r', st')"
    using assms(2) n by (auto simp: registry_save_def save_artifact_def Let_def split: prod.splits)
  then obtain key w where w: "s3_put (se_client b) st (ad_bucket_name (se_registry b)) key (sv_data args) (sv_media_type args)
      (saved_metadata (sv_metadata args) n ?h) = (w, st')"
    using assms(3) by (auto simp: put_def put_args_of_def saved_metadata_def Let_def split: prod.splits sum.splits)
  moreover have "\<exists>u. w = Inr u" using s3_laws.put_failed [OF assms(1)] w assms(3) by (cases w) auto
  ultimately show ?thesis by blast
qed

lemma save_honest:
  assumes laws: "s3_laws (se_client b)" and save: "registry_save b args st = (r, st')" and plain: "plain_metadata args" and h: "honest b st"
  shows "honest b st'"
proof (cases "st' = st")
  case False
  let ?h = "sha256_of (se_sha b) (sv_data args)"
  obtain n key u where w: "s3_put (se_client b) st (ad_bucket_name (se_registry b)) key (sv_data args) (sv_media_type args)
    (saved_metadata (sv_metadata args) n ?h) = (Inr u, st')"
    using save_written [OF laws save False] by blast
  show ?thesis
    unfolding honest_def
  proof (intro allI impI)
    fix bucket k r d assume hd: "s3_head (se_client b) st' bucket k = Inr r \<and> dict_get (string_metadata (rs_metadata r)) ''sha256'' = Some d"
    show "\<exists>r' body. s3_get (se_client b) st' bucket k = Inr r' \<and> rs_body r' = Some body \<and> sha256_of (se_sha b) body = d"
    proof (cases "(bucket, k) = (ad_bucket_name (se_registry b), key)")
      case True
      then have "rs_metadata r = saved_metadata (sv_metadata args) n ?h" using s3_laws.put_head [OF laws w] hd by auto
      then have "d = ?h"
        using hd saved_metadata_reserved(1) [OF plain [unfolded plain_metadata_def], of n ?h]
        by (simp add: saved_metadata_def put_metadata_def string_metadata_idem)
      then show ?thesis using s3_laws.put_get [OF laws w] True by auto
    next
      case False
      note same = s3_laws.put_frame [OF laws w False]
      then have "s3_head (se_client b) st bucket k = Inr r" using hd by (metis)
      then show ?thesis using same hd h unfolding honest_def by metis
    qed
  qed
qed (use h in simp)

lemma saved_ref:
  assumes "registry_save b args st = (Inr rec, st')"
  shows "ar_uri (ra_artifact_ref rec) = ra_uri rec" "ar_hash (ra_artifact_ref rec) = ra_hash rec"
  using assms by (auto simp: registry_save_def save_artifact_def existing_artifact_def record_from_ref_def Let_def result_simps
      split: sum.splits option.splits prod.splits if_splits)

definition stored_body :: "'s s3_client \<Rightarrow> 's \<Rightarrow> string \<Rightarrow> bool" where
  "stored_body c st body \<longleftrightarrow> (\<exists>bucket key r r'. s3_head c st bucket key = Inr r \<and> s3_get c st bucket key = Inr r' \<and> rs_body r' = Some body)"

lemma stored_body_extends: "extends c st st' \<Longrightarrow> stored_body c st body \<Longrightarrow> stored_body c st' body"
  unfolding stored_body_def extends_def by metis

lemma save_reads_back:
  assumes laws: "s3_laws (se_client b)" and save: "registry_save b args st = (Inr rec, st')" and plain: "plain_metadata args"
    and h: "honest b st" and one: "se_storage b = se_registry b"
  shows "\<exists>body info. (\<forall>st2. extends (se_client b) st' st2 \<longrightarrow> storage_get b (ar_uri (ra_artifact_ref rec)) st2 = Inr (body, info))
    \<and> sha256_of (se_sha b) body = ar_hash (ra_artifact_ref rec) \<and> ar_hash (ra_artifact_ref rec) = sha256_of (se_sha b) (sv_data args)
    \<and> stored_body (se_client b) st' body"
proof -
  let ?h = "sha256_of (se_sha b) (sv_data args)"
  obtain n where n: "save_names_of args = Inr n" using save by (cases "save_names_of args") (auto simp: registry_save_def save_artifact_def)
  have "registered_in (se_client b) (se_sha b) (se_registry b) st' (sv_data args) n rec"
    using s3_laws.save_registers [OF laws save [unfolded registry_save_def] n plain [unfolded plain_metadata_def]] .
  then obtain key r where key: "key_for_object_name (se_registry b) (object_name_of n ?h) = Inr key"
    and r: "s3_head (se_client b) st' (ad_bucket_name (se_registry b)) key = Inr r"
    and rec: "ra_uri rec = uri_for_key (se_registry b) key" "ra_hash rec = ?h" "registered_artifact_valid rec"
    and infos: "\<exists>info. info_from_response (se_sha b) (se_fromiso b) (se_now b) (se_registry b) key r None None None = Inr info
        \<and> metadata_matches info ?h n"
    unfolding registered_in_def by blast
  then have "dict_get (string_metadata (rs_metadata r)) ''sha256'' = Some ?h"
    by (auto simp: info_from_response_def Let_def result_simps metadata_matches_def)
  then obtain r' body where got: "s3_get (se_client b) st' (ad_bucket_name (se_registry b)) key = Inr r'" "rs_body r' = Some body"
    "sha256_of (se_sha b) body = ?h"
    using save_honest [OF laws save plain h] r unfolding honest_def by blast
  have uri: "s3_uri (uri_for_key (se_registry b) key)" "sha256_digest ?h" using rec by (simp_all add: registered_artifact_valid_def)
  obtain info where "info_from_response (se_sha b) (se_fromiso b) (se_now b) (se_registry b) key r' (Some body) None None = Inr info"
    using uri got(3) by (simp add: info_from_response_def Let_def result_simps stored_info_valid_def sha256_of_ne non_empty_def
        split: option.splits)
  moreover have "s3_get (se_client b) st2 (ad_bucket_name (se_registry b)) key = Inr r'" if "extends (se_client b) st' st2" for st2
    using that got(1) r unfolding extends_def by metis
  ultimately have "storage_get b (ra_uri rec) st2 = Inr (body, info)" if "extends (se_client b) st' st2" for st2
    using that got(2) key_for_uri_of_name [OF key] rec(1) one by (simp add: storage_get_def get_def read_body_def result_simps)
  then show ?thesis using saved_ref [OF save] got r rec(2) unfolding stored_body_def by auto
qed

section \<open>The tables behind the artifacts\<close>

text \<open>The operation on tables a cleaning step stands for.\<close>

type_synonym table = "csv_row list \<times> string list"

definition cleaning_step :: "action_plan_step \<Rightarrow> bool" where
  "cleaning_step step \<longleftrightarrow> ps_type step \<in> {action_value IMPUTE_MISSING_VALUES, ''MARK_DUPLICATE_CANDIDATES'', ''REMOVE_DUPLICATES''}"

definition imputed :: "'d decimal_ops \<Rightarrow> string \<Rightarrow> action_plan_step \<Rightarrow> table \<Rightarrow> exn + table" where
  "imputed dc target_column step t =
     bindR (resolve_method (ps_method_id step)) (\<lambda>mth.
     bindR (required_config_str (ps_config step) ''column'') (\<lambda>column.
     if column = target_column then Inl (imputation_blocked ''target_column_auto_imputation_forbidden'')
     else if column \<notin> set (snd t) then Inl (imputation_error ''imputation_column_not_found'')
     else if target_column \<notin> set (snd t) then Inl (imputation_error ''target_column_not_found'')
     else bindR (impute_rows dc step mth column target_column (fst t) (snd t)) (\<lambda>r. Inr (it_rows r, it_columns r))))"

definition deduplicated_table :: "(string \<Rightarrow> string) \<Rightarrow> action_plan_step \<Rightarrow> table \<Rightarrow> exn + table" where
  "deduplicated_table sha step t =
     bindR (resolve_mode step) (\<lambda>mode.
     bindR (duplicate_outcome_of sha mode ''object_id'' None (fst t) (snd t)) (\<lambda>r. Inr (uo_rows r, uo_columns r)))"

definition table_step :: "'d decimal_ops \<Rightarrow> (string \<Rightarrow> string) \<Rightarrow> string \<Rightarrow> table \<Rightarrow> action_plan_step \<Rightarrow> exn + table" where
  "table_step dc sha target_column t step =
     (if ps_type step = action_value IMPUTE_MISSING_VALUES then imputed dc target_column step t else deduplicated_table sha step t)"

definition table_run :: "'d decimal_ops \<Rightarrow> (string \<Rightarrow> string) \<Rightarrow> string \<Rightarrow> table \<Rightarrow> action_plan_step list \<Rightarrow> exn + table" where
  "table_run dc sha target_column = foldR (table_step dc sha target_column)"

text \<open>An artifact holds a table: its stored text is read as the table by the reader of the executors.\<close>

definition holds_table :: "('s, 'f, 'r, 'd) apply_env \<Rightarrow> 's \<Rightarrow> artifact_ref \<Rightarrow> table \<Rightarrow> bool" where
  "holds_table env st ref t \<longleftrightarrow> (\<exists>src_text. stored_text env ref st = Inr src_text \<and> imputation_rows src_text = Inr t)"

definition table_text :: "('s, 'f, 'r, 'd) apply_env \<Rightarrow> table \<Rightarrow> string" where
  "table_text env t = ae_encode env (write_csv (ae_quotes_cr env) (fst t) (snd t))"

text \<open>The table can be read back and no stored text collides with its CSV.\<close>

definition readable_table :: "('s, 'f, 'r, 'd) apply_env \<Rightarrow> 's \<Rightarrow> table \<Rightarrow> bool" where
  "readable_table env st t \<longleftrightarrow>
     table_ok (ae_quotes_cr env) (fst t) (snd t)
     \<and> (\<forall>body. stored_body (se_client (ae_builder env)) st body \<longrightarrow> \<not> collide (ae_sha env) body (table_text env t))"

definition faithful_store :: "('s, 'f, 'r, 'd) apply_env \<Rightarrow> bool" where
  "faithful_store env \<longleftrightarrow>
     s3_laws (se_client (ae_builder env)) \<and> se_storage (ae_builder env) = se_registry (ae_builder env)
     \<and> (\<forall>t. se_decode (ae_builder env) (ae_encode env t) = Some t)"

lemma stored_text_get:
  "stored_text env ref st = Inr src_text \<longleftrightarrow>
     (\<exists>data info. storage_get (ae_builder env) (ar_uri ref) st = Inr (data, info) \<and> se_decode (ae_builder env) data = Some src_text)"
  by (auto simp: stored_text_def result_simps split: option.splits)

lemma saved_table_held:
  assumes f: "faithful_store env" and save: "registry_save (ae_builder env) args st = (Inr rec, st1)" and plain: "plain_metadata args"
    and h: "honest (ae_builder env) st" and data: "sv_data args = table_text env t"
    and ext: "extends (se_client (ae_builder env)) st1 st2" "extends (se_client (ae_builder env)) st2 st'" and ok: "readable_table env st' t"
  shows "holds_table env st2 (ra_artifact_ref rec) t" "ar_hash (ra_artifact_ref rec) = sha256_of (ae_sha env) (table_text env t)"
proof -
  obtain body info where get: "\<And>st2. extends (se_client (ae_builder env)) st1 st2 \<Longrightarrow>
      storage_get (ae_builder env) (ar_uri (ra_artifact_ref rec)) st2 = Inr (body, info)"
    and body: "sha256_of (ae_sha env) body = ar_hash (ra_artifact_ref rec)" "ar_hash (ra_artifact_ref rec) = sha256_of (ae_sha env) (sv_data args)"
    "stored_body (se_client (ae_builder env)) st1 body"
    using save_reads_back [OF _ save plain h] f by (auto simp: faithful_store_def)
  have "\<not> collide (ae_sha env) body (table_text env t)"
    using ok stored_body_extends [OF extends_trans [OF ext] body(3)] by (simp add: readable_table_def)
  then have "body = table_text env t" using body(1,2) data by (simp add: collide_def sha256_of_def)
  then have "stored_text env (ra_artifact_ref rec) st2 = Inr (write_csv (ae_quotes_cr env) (fst t) (snd t))"
    using get [OF ext(1)] f by (simp add: stored_text_get table_text_def faithful_store_def)
  moreover have "imputation_rows (write_csv (ae_quotes_cr env) (fst t) (snd t)) = Inr t"
    using written_table_read [of "ae_quotes_cr env" "fst t" "snd t"] ok by (simp add: readable_table_def)
  ultimately show "holds_table env st2 (ra_artifact_ref rec) t" by (simp add: holds_table_def)
  show "ar_hash (ra_artifact_ref rec) = sha256_of (ae_sha env) (table_text env t)" using body(2) data by simp
qed

lemmas plain_defs = plain_metadata_def reserved_keys_def dict_keys_def opt_entry_def

lemma imputation_saves:
  assumes "execute_tabular_imputation_action b dc q enc ser request st = (Inr (report, candidate, report_artifact), st2)"
  obtains mth column t cargs rargs st1 where
    "compute_imputation b dc request st = Inr (mth, column, t)"
    "registry_save b cargs st = (Inr candidate, st1)" "registry_save b rargs st1 = (Inr report_artifact, st2)"
    "plain_metadata cargs" "plain_metadata rargs" "sv_data cargs = enc (write_csv q (it_rows t) (it_columns t))"
proof -
  obtain mth column t where c: "compute_imputation b dc request st = Inr (mth, column, t)"
    using assms by (auto simp: execute_tabular_imputation_action_def split: sum.splits)
  let ?cargs = "\<lparr>sv_artifact_kind = CANDIDATE_TABULAR_DATASET_KIND, sv_data = enc (write_csv q (it_rows t) (it_columns t)),
              sv_artifact_format = ''csv'', sv_media_type = ''text/csv'',
              sv_schema_version = CANDIDATE_TABULAR_DATASET_SCHEMA_VERSION,
              sv_dataset_version_id = iq_candidate_dataset_version_id request,
              sv_created_by_job_id = iq_created_by_job_id request, sv_config_hash = iq_config_hash request,
              sv_metadata = candidate_metadata b request mth column\<rparr>"
  obtain st1 where s1: "registry_save b ?cargs st = (Inr candidate, st1)"
    using assms c by (auto simp: execute_tabular_imputation_action_def Let_def result_simps split: sum.splits prod.splits)
  let ?rargs = "\<lparr>sv_artifact_kind = IMPUTATION_REPORT_KIND, sv_data = ser report, sv_artifact_format = ''json'',
                           sv_media_type = ''application/json'', sv_schema_version = IMPUTATION_REPORT_SCHEMA_VERSION,
                           sv_dataset_version_id = iq_candidate_dataset_version_id request,
                           sv_created_by_job_id = iq_created_by_job_id request, sv_config_hash = iq_config_hash request,
                           sv_metadata = imputation_metadata b request mth column t candidate\<rparr>"
  have s2: "registry_save b ?rargs st1 = (Inr report_artifact, st2)"
    using assms c s1 by (auto simp: execute_tabular_imputation_action_def Let_def result_simps split: sum.splits prod.splits)
  have "plain_metadata ?cargs" "plain_metadata ?rargs"
    by (cases "iq_generated_at request"; simp add: plain_defs candidate_metadata_def imputation_metadata_def)+
  then show thesis using that [OF c s1 s2] by simp
qed

lemma duplicates_saves:
  assumes "execute_tabular_duplicates_action b q enc ser request st = (Inr (report, candidate, report_artifact), st2)"
  obtains mode h t cargs rargs st1 where
    "compute_duplicates b request st = Inr (mode, h, t)"
    "registry_save b cargs st = (Inr candidate, st1)" "registry_save b rargs st1 = (Inr report_artifact, st2)"
    "plain_metadata cargs" "plain_metadata rargs" "sv_data cargs = enc (write_csv q (uo_rows t) (uo_columns t))"
proof -
  obtain mode h t where c: "compute_duplicates b request st = Inr (mode, h, t)"
    using assms by (auto simp: execute_tabular_duplicates_action_def split: sum.splits)
  let ?cargs = "\<lparr>sv_artifact_kind = CANDIDATE_TABULAR_DATASET_KIND,
              sv_data = enc (write_csv q (uo_rows t) (uo_columns t)), sv_artifact_format = ''csv'',
              sv_media_type = ''text/csv'', sv_schema_version = CANDIDATE_TABULAR_DATASET_SCHEMA_VERSION,
              sv_dataset_version_id = uq_candidate_dataset_version_id request,
              sv_created_by_job_id = uq_created_by_job_id request, sv_config_hash = uq_config_hash request,
              sv_metadata = duplicate_candidate_metadata b request mode t\<rparr>"
  obtain st1 where s1: "registry_save b ?cargs st = (Inr candidate, st1)"
    using assms c by (auto simp: execute_tabular_duplicates_action_def Let_def result_simps split: sum.splits prod.splits)
  obtain raw where s2: "registry_save b \<lparr>sv_artifact_kind = DUPLICATE_REPORT_KIND, sv_data = ser report, sv_artifact_format = ''json'',
                           sv_media_type = ''application/json'', sv_schema_version = DUPLICATE_REPORT_SCHEMA_VERSION,
                           sv_dataset_version_id = uq_candidate_dataset_version_id request,
                           sv_created_by_job_id = uq_created_by_job_id request, sv_config_hash = uq_config_hash request,
                           sv_metadata = duplicate_report_metadata b request mode t raw candidate\<rparr> st1 = (Inr report_artifact, st2)"
    using assms c s1 by (auto simp: execute_tabular_duplicates_action_def Let_def result_simps split: sum.splits prod.splits)
  have p1: "plain_metadata ?cargs" by (cases "uq_generated_at request"; simp add: plain_defs duplicate_candidate_metadata_def)
  show thesis
    by (rule that [OF c s1 s2 p1]; cases "uq_generated_at request"; simp add: plain_defs duplicate_report_metadata_def)
qed

section \<open>A chain of cleaning steps refines the operations on tables\<close>

lemma compute_imputation_table:
  assumes "compute_imputation (ae_builder env) dc request st = Inr (mth, column, r)"
    and "holds_table env st (iq_source_artifact request) t"
  shows "imputed dc (iq_target_column request) (iq_step request) t = Inr (it_rows r, it_columns r)"
proof -
  obtain src_text where src_text: "stored_text env (iq_source_artifact request) st = Inr src_text" "imputation_rows src_text = Inr t"
    using assms(2) by (auto simp: holds_table_def)
  have target: "imputation_target request = Inr (mth, column)" and r: "impute_text dc request mth column src_text = Inr r"
    using assms(1) src_text(1) by (auto simp: compute_imputation_def stored_text_get result_simps split: option.splits)
  show ?thesis using target r src_text(2)
    by (cases t) (auto simp: imputed_def imputation_target_def impute_text_def Let_def result_simps split: if_splits)
qed

lemma compute_duplicates_table:
  assumes "compute_duplicates (ae_builder env) request st = Inr (mode, h, r)"
    and "holds_table env st (uq_source_artifact request) t" "uq_id_column request = ''object_id''" "uq_signature_columns request = None"
  shows "deduplicated_table (ae_sha env) (uq_step request) t = Inr (uo_rows r, uo_columns r)"
proof -
  obtain src_text where src_text: "stored_text env (uq_source_artifact request) st = Inr src_text" "imputation_rows src_text = Inr t"
    using assms(2) by (auto simp: holds_table_def)
  have "duplicate_rows src_text = Inr t" using src_text(2) by (simp add: duplicate_rows_iff)
  then show ?thesis using assms(1,3,4) src_text(1)
    by (cases t) (auto simp: deduplicated_table_def compute_duplicates_def stored_text_get Let_def result_simps split: option.splits if_splits)
qed

lemma step_candidate:
  assumes run: "execute_step env ctx rc plan current step w = (Inr (candidate, produced), w')" and kind: "cleaning_step step"
    and held: "holds_table env (snd w) current t"
  obtains t' cargs rargs st1 where "table_step (ae_decimals env) (ae_sha env) (plan_target_column plan) t step = Inr t'"
    "registry_save (ae_builder env) cargs (snd w) = (Inr candidate, st1)" "plain_metadata cargs" "sv_data cargs = table_text env t'"
    "registry_save (ae_builder env) rargs st1 = (Inr (last produced), snd w')" "plain_metadata rargs"
proof (cases "ps_type step = action_value IMPUTE_MISSING_VALUES")
  case True
  let ?q = "imputation_request_of env ctx rc plan step current"
  obtain report ra st2 where ex: "execute_tabular_imputation_action (ae_builder env) (ae_decimals env) (ae_quotes_cr env) (ae_encode env)
      (ae_dump_imputation env) ?q (snd w) = (Inr (report, candidate, ra), st2)" "produced = [candidate, ra]" "w' = (fst w, st2)"
    using run True by (auto simp: execute_step_def impute_step_def run_iffs result_simps)
  from imputation_saves [OF ex(1)] obtain mth column r cargs rargs st1 where
    c: "compute_imputation (ae_builder env) (ae_decimals env) ?q (snd w) = Inr (mth, column, r)"
    and s: "registry_save (ae_builder env) cargs (snd w) = (Inr candidate, st1)" "registry_save (ae_builder env) rargs st1 = (Inr ra, st2)"
    "plain_metadata cargs" "plain_metadata rargs"
    "sv_data cargs = ae_encode env (write_csv (ae_quotes_cr env) (it_rows r) (it_columns r))" by metis
  have "table_step (ae_decimals env) (ae_sha env) (plan_target_column plan) t step = Inr (it_rows r, it_columns r)"
    using compute_imputation_table [OF c] held True by (simp add: imputation_request_of_def table_step_def)
  then show thesis using that [OF _ s(1,3) _ _ s(4)] s(2,5) ex by (simp add: table_text_def)
next
  case False
  then have type: "ps_type step \<in> {''MARK_DUPLICATE_CANDIDATES'', ''REMOVE_DUPLICATES''}" using kind by (simp add: cleaning_step_def)
  let ?q = "duplicate_request_of env ctx rc plan step current"
  obtain report ra st2 where ex: "execute_tabular_duplicates_action (ae_builder env) (ae_quotes_cr env) (ae_encode env)
      (ae_dump_duplicates env) ?q (snd w) = (Inr (report, candidate, ra), st2)" "produced = [candidate, ra]" "w' = (fst w, st2)"
    using run False type by (auto simp: execute_step_def duplicates_step_def run_iffs result_simps split: if_splits)
  from duplicates_saves [OF ex(1)] obtain mode h r cargs rargs st1 where
    c: "compute_duplicates (ae_builder env) ?q (snd w) = Inr (mode, h, r)"
    and s: "registry_save (ae_builder env) cargs (snd w) = (Inr candidate, st1)" "registry_save (ae_builder env) rargs st1 = (Inr ra, st2)"
    "plain_metadata cargs" "plain_metadata rargs"
    "sv_data cargs = ae_encode env (write_csv (ae_quotes_cr env) (uo_rows r) (uo_columns r))" by metis
  have "table_step (ae_decimals env) (ae_sha env) (plan_target_column plan) t step = Inr (uo_rows r, uo_columns r)"
    using compute_duplicates_table [OF c] held False by (simp add: duplicate_request_of_def table_step_def)
  then show thesis using that [OF _ s(1,3) _ _ s(4)] s(2,5) ex by (simp add: table_text_def)
qed

text \<open>One step: the candidate holds the table the operation gives, under the digest of its CSV.\<close>

lemma step_refines:
  assumes f: "faithful_store env" and h: "honest (ae_builder env) (snd w)"
    and run: "execute_step env ctx rc plan current step w = (Inr (candidate, produced), w')" and kind: "cleaning_step step"
    and held: "holds_table env (snd w) current t" and ext: "extends (se_client (ae_builder env)) (snd w') st'"
    and ok: "\<And>t'. table_step (ae_decimals env) (ae_sha env) (plan_target_column plan) t step = Inr t' \<Longrightarrow> readable_table env st' t'"
  shows "\<exists>t'. table_step (ae_decimals env) (ae_sha env) (plan_target_column plan) t step = Inr t'
    \<and> holds_table env (snd w') (ra_artifact_ref candidate) t' \<and> holds_table env st' (ra_artifact_ref candidate) t'
    \<and> ar_hash (ra_artifact_ref candidate) = sha256_of (ae_sha env) (table_text env t')"
    "honest (ae_builder env) (snd w')"
proof -
  have laws: "s3_laws (se_client (ae_builder env))" using f by (simp add: faithful_store_def)
  from step_candidate [OF run kind held] obtain t' cargs rargs st1 where
    t': "table_step (ae_decimals env) (ae_sha env) (plan_target_column plan) t step = Inr t'"
    and s1: "registry_save (ae_builder env) cargs (snd w) = (Inr candidate, st1)" "plain_metadata cargs" "sv_data cargs = table_text env t'"
    and s2: "registry_save (ae_builder env) rargs st1 = (Inr (last produced), snd w')" "plain_metadata rargs" by metis
  have e: "extends (se_client (ae_builder env)) st1 (snd w')" by (rule save_extends [OF laws s2(1)])
  from saved_table_held [OF f s1(1,2) h s1(3) e ext ok [OF t']] saved_table_held(1) [OF f s1(1,2) h s1(3) extends_trans [OF e ext] extends_refl ok [OF t']] t'
  show "\<exists>t'. table_step (ae_decimals env) (ae_sha env) (plan_target_column plan) t step = Inr t'
    \<and> holds_table env (snd w') (ra_artifact_ref candidate) t' \<and> holds_table env st' (ra_artifact_ref candidate) t'
    \<and> ar_hash (ra_artifact_ref candidate) = sha256_of (ae_sha env) (table_text env t')" by blast
  show "honest (ae_builder env) (snd w')" by (rule save_honest [OF laws s2 save_honest [OF laws s1(1,2) h]])
qed

lemma foldS_snoc: "foldS f acc (is @ [i]) = bindS (foldS f acc is) (\<lambda>acc'. f acc' i)"
proof (induction "is" arbitrary: acc)
  case Nil
  have "f acc i x = bindS (f acc i) returnS x" for x by (auto simp: bindS_def returnS_def split: prod.splits sum.splits)
  then show ?case by (auto simp: bindS_def returnS_def fun_eq_iff)
next
  case (Cons j js)
  show ?case by (auto simp: Cons.IH bindS_def fun_eq_iff split: prod.splits sum.splits)
qed

lemma table_run_snoc:
  "table_run dc sha target t (steps @ [step]) = bindR (table_run dc sha target t steps) (\<lambda>t'. table_step dc sha target t' step)"
  by (simp add: table_run_def foldR_append) (cases "foldR (table_step dc sha target) t steps"; cases "table_step dc sha target (projr (foldR (table_step dc sha target) t steps)) step"; simp)

lemma run_plan_step_iff:
  "run_plan_step env ctx rc plan acc step w = (Inr acc', w') \<longleftrightarrow>
     (\<exists>candidate produced w1. execute_step env ctx rc plan (fst acc) step w = (Inr (candidate, produced), w1)
        \<and> acc' = (ra_artifact_ref candidate, snd acc @ [summary_of_step step produced])
        \<and> w' = ((fst w1)\<lparr>as_primary_candidate := Some candidate, as_step_outputs := as_step_outputs (fst w1) @ produced\<rparr>, snd w1))"
  by (auto simp: run_plan_step_def run_iffs)

lemma cleaning_run:
  assumes "faithful_store env" "honest (ae_builder env) (snd w)" "holds_table env (snd w) source t" "list_all cleaning_step steps"
    and "run_plan_steps env ctx rc plan (source, []) steps w = (Inr acc, w')" "extends (se_client (ae_builder env)) (snd w') st'"
    and "\<And>n t'. 0 < n \<Longrightarrow> n \<le> length steps \<Longrightarrow>
      table_run (ae_decimals env) (ae_sha env) (plan_target_column plan) t (take n steps) = Inr t' \<Longrightarrow> readable_table env st' t'"
  shows "\<exists>t'. table_run (ae_decimals env) (ae_sha env) (plan_target_column plan) t steps = Inr t' \<and> holds_table env (snd w') (fst acc) t'
    \<and> honest (ae_builder env) (snd w')
    \<and> (steps \<noteq> [] \<longrightarrow> holds_table env st' (fst acc) t' \<and> ar_hash (fst acc) = sha256_of (ae_sha env) (table_text env t')
         \<and> map_option ra_artifact_ref (as_primary_candidate (fst w')) = Some (fst acc))"
  using assms(4-)
proof (induction steps arbitrary: acc w' rule: rev_induct)
  case Nil
  then show ?case using assms(2,3) by (simp add: run_plan_steps_def table_run_def)
next
  case (snoc step steps)
  let ?run = "table_run (ae_decimals env) (ae_sha env) (plan_target_column plan) t"
  obtain acc1 w1 where first: "run_plan_steps env ctx rc plan (source, []) steps w = (Inr acc1, w1)"
    and last: "run_plan_step env ctx rc plan acc1 step w1 = (Inr acc, w')"
    using snoc.prems(2) by (auto simp: run_plan_steps_def foldS_snoc bindS_Inr_iff)
  obtain candidate produced w2 where ex: "execute_step env ctx rc plan (fst acc1) step w1 = (Inr (candidate, produced), w2)"
    and acc: "fst acc = ra_artifact_ref candidate" and w': "snd w' = snd w2" "as_primary_candidate (fst w') = Some candidate"
    using last by (auto simp: run_plan_step_iff)
  have laws: "s3_laws (se_client (ae_builder env))" using assms(1) by (simp add: faithful_store_def)
  have ext: "extends (se_client (ae_builder env)) (snd w1) st'"
    using keepsD [OF keeps_execute_step [OF laws] ex] snoc.prems(3) w' by (auto intro: extends_trans)
  have kinds: "list_all cleaning_step steps" "cleaning_step step" using snoc.prems(1) by auto
  have "\<exists>t'. ?run steps = Inr t' \<and> holds_table env (snd w1) (fst acc1) t' \<and> honest (ae_builder env) (snd w1)"
    using snoc.IH [OF kinds(1) first ext] snoc.prems(4) by (auto simp: take_append)
  then obtain t1 where t1: "?run steps = Inr t1" "holds_table env (snd w1) (fst acc1) t1"
    "honest (ae_builder env) (snd w1)" by blast
  have ok: "readable_table env st' t'" if "table_step (ae_decimals env) (ae_sha env) (plan_target_column plan) t1 step = Inr t'" for t'
    using snoc.prems(4) [of "Suc (length steps)" t'] that t1(1) by (simp add: table_run_snoc)
  have ext2: "extends (se_client (ae_builder env)) (snd w2) st'" using snoc.prems(3) w' by simp
  note sr = step_refines [OF assms(1) t1(3) ex kinds(2) t1(2) ext2 ok]
  show ?case using sr t1(1) acc w' by (auto simp: table_run_snoc)
qed

lemma gates_frame:
  assumes "apply_validation_gates env ctx rc w = (Inr gates, w')"
  shows "as_primary_candidate (fst w') = as_primary_candidate (fst w)" "as_step_outputs (fst w') = as_step_outputs (fst w)"
    "as_source_artifact (fst w') = as_source_artifact (fst w)" "as_gates_report (fst w') = Some gates"
    "s3_laws (se_client (ae_builder env)) \<Longrightarrow> extends (se_client (ae_builder env)) (snd w) (snd w')"
  using assms by (auto simp: apply_validation_gates_def run_iffs split: option.splits dest!: store_keepsD [OF executors_keep(5), rotated])

lemma source_frame:
  assumes "resolve_source_artifact env ctx rc w = (Inr source, w')"
  shows "snd w' = snd w" "as_source_artifact (fst w') = Some source" "as_primary_candidate (fst w') = as_primary_candidate (fst w)"
    "as_step_outputs (fst w') = as_step_outputs (fst w)" "as_gates_report (fst w') = as_gates_report (fst w)"
  using assms by (auto simp: resolve_source_artifact_def split: option.splits sum.splits)

text \<open>The stages of a run that is not answered from the state.\<close>

lemma remediation_stages:
  assumes run: "execute_remediation_plan env dump ctx rc w = (Inr artifact, w')" and fresh: "as_remediation_report (fst w) = None"
  obtains plan source summaries last candidate gates args w1 w2 w3 st' where
    "ac_action_plan ctx = Some plan" "resolve_source_artifact env ctx rc w = (Inr source, w1)"
    "run_plan_steps env ctx rc plan (source, []) (ap_steps plan) w1 = (Inr (last, summaries), w2)"
    "as_primary_candidate (fst w2) = Some candidate" "apply_validation_gates env ctx rc w2 = (Inr gates, w3)"
    "registry_save (ae_builder env) args (snd w3) = (Inr artifact, st')"
    "sv_data args = dump (remediation_payload_of env ctx rc plan summaries candidate gates)"
    "w' = ((fst w3)\<lparr>as_remediation_report := Some artifact\<rparr>, st')"
  using run fresh by (auto simp: execute_remediation_plan_def run_iffs require_plan_def split: option.splits)

section \<open>Properties\<close>

text \<open>C3: A plan of cleaning steps (imputation, marking and removing duplicates) refines the operations on tables: when the run
  returns, the candidate it hands to the gates is registered under the digest of the CSV of the table that composing the
  operations of its steps on the source table gives, and reading it back from the final store gives that table - provided
  every intermediate table fits the reader and no stored text collides with the CSV of one.\<close>

theorem plan_refines_table_operations:
  assumes "faithful_store env" "honest (ae_builder env) (snd w)" "as_remediation_report (fst w) = None"
    and "ac_action_plan ctx = Some plan" "list_all cleaning_step (ap_steps plan)" "ap_steps plan \<noteq> []"
    and run: "execute_remediation_plan env dump ctx rc w = (Inr artifact, w')"
    and "as_source_artifact (fst w') = Some source" "holds_table env (snd w) source t"
    and readable: "\<And>n t'. 0 < n \<Longrightarrow> n \<le> length (ap_steps plan) \<Longrightarrow>
      table_run (ae_decimals env) (ae_sha env) (plan_target_column plan) t (take n (ap_steps plan)) = Inr t' \<Longrightarrow> readable_table env (snd w') t'"
  shows "\<exists>candidate t'. as_primary_candidate (fst w') = Some candidate
    \<and> table_run (ae_decimals env) (ae_sha env) (plan_target_column plan) t (ap_steps plan) = Inr t'
    \<and> ar_hash (ra_artifact_ref candidate) = sha256_of (ae_sha env) (table_text env t')
    \<and> holds_table env (snd w') (ra_artifact_ref candidate) t'"
proof -
  have laws: "s3_laws (se_client (ae_builder env))" using assms(1) by (simp add: faithful_store_def)
  from remediation_stages [OF run assms(3)] obtain src summaries last candidate gates args w1 w2 w3 st' where
    src: "resolve_source_artifact env ctx rc w = (Inr src, w1)"
    and steps: "run_plan_steps env ctx rc plan (src, []) (ap_steps plan) w1 = (Inr (last, summaries), w2)"
    and cand: "as_primary_candidate (fst w2) = Some candidate" and gates: "apply_validation_gates env ctx rc w2 = (Inr gates, w3)"
    and save: "registry_save (ae_builder env) args (snd w3) = (Inr artifact, st')"
    and w': "w' = ((fst w3)\<lparr>as_remediation_report := Some artifact\<rparr>, st')"
    using assms(4) by (metis option.inject)
  note sf = source_frame [OF src] and gf = gates_frame [OF gates]
  have ext: "extends (se_client (ae_builder env)) (snd w2) (snd w')"
    using extends_trans [OF gf(5) [OF laws] save_extends [OF laws save]] w' by simp
  have "src = source"
    using unchangedD [OF unchanged_run_steps [of as_source_artifact] steps] sf(2) gf(3) w' assms(8) by simp
  then have "holds_table env (snd w1) src t" "honest (ae_builder env) (snd w1)" using assms(2,9) sf(1) by simp_all
  then have "\<exists>t'. table_run (ae_decimals env) (ae_sha env) (plan_target_column plan) t (ap_steps plan) = Inr t'
      \<and> holds_table env (snd w2) (fst (last, summaries)) t' \<and> honest (ae_builder env) (snd w2)
      \<and> (ap_steps plan \<noteq> [] \<longrightarrow> holds_table env (snd w') (fst (last, summaries)) t'
          \<and> ar_hash (fst (last, summaries)) = sha256_of (ae_sha env) (table_text env t')
          \<and> map_option ra_artifact_ref (as_primary_candidate (fst w2)) = Some (fst (last, summaries)))"
    by (intro cleaning_run [OF assms(1) _ _ assms(5) steps ext readable])
  then show ?thesis using assms(6) cand gf(1) w' by auto
qed

text \<open>C4: Executing a plan never touches what is stored: every object that existed before the call, the raw source among them, is
  answered by the store exactly as before, whether the plan succeeds or fails at any of its steps.\<close>

theorem plan_execution_append_only:
  assumes "s3_laws (se_client (ae_builder env))" "execute_remediation_plan env dump ctx rc w = (r, w')"
    and "s3_head (se_client (ae_builder env)) (snd w) bucket key = Inr response"
  shows "s3_head (se_client (ae_builder env)) (snd w') bucket key = Inr response
    \<and> s3_get (se_client (ae_builder env)) (snd w') bucket key = s3_get (se_client (ae_builder env)) (snd w) bucket key"
proof -
  let ?c = "se_client (ae_builder env)"
  have source: "keeps ?c (resolve_source_artifact env ctx rc)"
    by (rule keepsI) (auto simp: resolve_source_artifact_def split: option.splits sum.splits)
  have read: "keeps ?c (\<lambda>w. (f w, w))" for f :: "'b apply_state \<times> 'a \<Rightarrow> exn + 'x" by (simp add: keeps_def)
  have gates: "keeps ?c (apply_validation_gates env ctx rc)"
  proof (rule keepsI)
    fix w :: "'b apply_state \<times> 'a" and r w' assume g: "apply_validation_gates env ctx rc w = (r, w')"
    show "extends ?c (snd w) (snd w')"
    proof (cases "as_gates_report (fst w)")
      case (Some report)
      then show ?thesis using g by (simp add: apply_validation_gates_def)
    next
      case None
      have run: "keeps ?c (bindS (liftS (require_plan ctx)) (\<lambda>plan.
               bindS (liftS (gates_request_of env ctx rc plan s source candidate st)) (\<lambda>request.
               bindS (on_store (run_validation_gates (ae_builder env) (ae_floats env) (ae_dump_gates env) request)) (\<lambda>(report, artifact).
               bindS (update_state (\<lambda>s. s\<lparr>as_gates_report := Some report, as_gates_report_artifact := Some artifact\<rparr>)) (\<lambda>_.
               returnS report)))))" for s source candidate st
        by (intro keeps_intros assms(1))
      from g None keepsD [OF run] show ?thesis by (auto simp: apply_validation_gates_def split: option.splits)
    qed
  qed
  have "keeps ?c (execute_remediation_plan env dump ctx rc)"
  proof (rule keepsI)
    fix w :: "'b apply_state \<times> 'a" and r w' assume e: "execute_remediation_plan env dump ctx rc w = (r, w')"
    show "extends ?c (snd w) (snd w')"
    proof (cases "as_remediation_report (fst w)")
      case (Some a)
      then show ?thesis using e by (simp add: execute_remediation_plan_def)
    next
      case None
      then show ?thesis
        using e unfolding execute_remediation_plan_def
        by (simp only: option.case)
          (erule keepsD [rotated], intro keeps_intros source gates read keeps_run_steps store_keeps_save assms(1))
    qed
  qed
  from keepsD [OF this assms(2)] assms(3) show ?thesis by (simp add: extends_def)
qed

text \<open>A second call answers from the state of the run: it returns the same report artifact and changes neither the state nor
  the store, so no step is executed twice.\<close>

theorem second_execution_is_silent:
  assumes "execute_remediation_plan env dump ctx rc w = (Inr artifact, w')"
  shows "execute_remediation_plan env dump ctx rc w' = (Inr artifact, w')"
proof (cases "as_remediation_report (fst w)")
  case None
  from remediation_stages [OF assms None] have "as_remediation_report (fst w') = Some artifact" by (metis fst_conv apply_state.select_convs(4) apply_state.surjective apply_state.update_convs(4))
  then show ?thesis by (simp add: execute_remediation_plan_def)
next
  case (Some a)
  then show ?thesis using assms by (auto simp: execute_remediation_plan_def)
qed

section \<open>Steps the dispatch has no executor for\<close>

definition runnable :: "action_plan_step \<Rightarrow> bool" where
  "runnable step \<longleftrightarrow> cleaning_step step \<or> ps_type step \<in> set SYNTHETIC_STEP_TYPES \<and> ps_method_id step = ''smote''"

lemma unrunnable_refused: "\<not> runnable step \<Longrightarrow> execute_step env ctx rc plan current step w = (Inl (apply_refused ''unsupported_action_plan_step''), w)"
  by (auto simp: runnable_def cleaning_step_def execute_step_def liftS_def)

lemma returned_steps_runnable:
  "run_plan_steps env ctx rc plan acc steps w = (Inr acc', w') \<Longrightarrow> list_all runnable steps"
  unfolding run_plan_steps_def
proof (induction steps arbitrary: acc w)
  case (Cons step steps)
  have "runnable step"
  proof (rule ccontr)
    assume "\<not> runnable step"
    with Cons.prems show False by (simp add: run_plan_step_def bindS_def unrunnable_refused)
  qed
  moreover obtain acc1 w1 where "foldS (run_plan_step env ctx rc plan) acc1 steps w1 = (Inr acc', w')"
    using Cons.prems by (auto simp: bindS_Inr_iff)
  ultimately show ?case using Cons.IH by simp
qed simp

text \<open>C5: The plans of recommendations to remove duplicates cannot be executed: when the preview admitted a recommendation of a
  decision action other than imputation (or a synthetic action by SMOTE), executing its plan raises, whatever the store, the
  approval and the other steps - the dispatch knows \<open>REMOVE_DUPLICATES\<close>, the decision report says \<open>REMOVE_DUPLICATE\<close>.\<close>

theorem previewed_action_unexecutable:
  assumes preview: "build_action_plan_preview sha now req = Inr plan"
    and r: "r \<in> set (pr_method_recommendations req)" "mr_recommendation_id r \<in> set (pr_selected_decision_ids req)"
    and action: "mr_action_type r = action_value a" "a \<noteq> IMPUTE_MISSING_VALUES"
      "a \<notin> {AUGMENT_RARE_CLASS, GENERATE_SYNTHETIC_CANDIDATE} \<or> chosen_method req r \<noteq> ''smote''"
    and "ac_action_plan ctx = Some plan" "as_remediation_report (fst w) = None"
  shows "\<exists>e w'. execute_remediation_plan env dump ctx rc w = (Inl e, w')"
proof (rule ccontr)
  assume none: "\<nexists>e w'. execute_remediation_plan env dump ctx rc w = (Inl e, w')"
  obtain res w' where "execute_remediation_plan env dump ctx rc w = (res, w')" by (rule prod.exhaust)
  then obtain artifact where "execute_remediation_plan env dump ctx rc w = (Inr artifact, w')"
    using none by (cases res) auto
  from remediation_stages [OF this assms(8)] assms(7) have runs: "list_all runnable (ap_steps plan)"
    by (metis option.inject returned_steps_runnable)
  from build_preview_Inr [OF preview] obtain sel where sel: "selected_for req sel" "list_all2 (step_for req) sel (ap_steps plan)"
    and dist: "distinct (map mr_recommendation_id (pr_method_recommendations req))" by blast
  obtain r' where r': "r' \<in> set sel" "mr_recommendation_id r' = mr_recommendation_id r"
    using sel(1) r(2) unfolding selected_for_def by (metis imageE set_map)
  then have "r' = r" using sel(1) r(1) dist by (auto simp: selected_for_def distinct_map dest: inj_onD)
  with sel(2) r'(1) obtain step where step: "step \<in> set (ap_steps plan)" "step_for req r step"
    by (metis in_set_conv_nth list_all2_conv_all_nth)
  have "\<not> runnable step"
    using step(2) action
    by (cases a) (auto simp: step_for_def step_type_def class_weights_step_def runnable_def cleaning_step_def SYNTHETIC_STEP_TYPES_def)
  with runs step(1) show False by (auto simp: list_all_iff)
qed

section \<open>Samples\<close>

lemma memory_save_store:
  assumes n: "save_names_of args = Inr n" and ad: "adapter_ok ad pre"
    and free: "dict_get st (ad_bucket_name ad, allowed_prefix ad @ slash # object_name_of n (sha256_of sha (sv_data args))) = None"
    and ok: "hex64 sha" "sv_media_type args \<noteq> []" "sha256_digest (sv_config_hash args)"
  shows "\<exists>rec md. save_artifact memory_client sha fromiso now ad args st = (Inr rec,
    dict_set st (ad_bucket_name ad, allowed_prefix ad @ slash # object_name_of n (sha256_of sha (sv_data args)))
      \<lparr>mo_body = sv_data args, mo_content_type = sv_media_type args, mo_metadata = md\<rparr>)"
  unfolding save_artifact_def n
  using save_names_good [OF n] free ok address_in_scope(2) [OF ad n ok(1)]
  by (simp add: Let_def uri_for_object_name_def address_in_scope(1) [OF ad n ok(1)] existing_artifact_def
      head_def key_for_uri_of_name [OF address_in_scope(1) [OF ad n ok(1)]] memory_client_def mem_head_def
      mem_object_at_def storage_error_def put_def put_args_of_def mem_put_def result_simps artifact_ref_valid_def
      artifact_lineage_valid_def non_empty_def artifact_id_of_def record_from_ref_def
      registered_artifact_valid_def good_component_def) blast

lemma hex64_digits [simp]: "hex64 digits_sha"
proof -
  have "hex_char (CHR ''0'')" by simp
  then show ?thesis by (auto simp: hex64_def digits_sha_def list_all_iff dest!: in_set_takeD)
qed

definition run_builder :: "mem_state builder_env" where
  "run_builder = sample_env\<lparr>se_sha := digits_sha\<rparr>"

definition run_env :: "(mem_state, rat, nat, rat) apply_env" where
  "run_env =
     \<lparr>ae_builder = run_builder, ae_floats = rat_floats, ae_numbers = rat_numbers, ae_round = (\<lambda>x. \<lfloor>x\<rfloor>), ae_shuffle = (\<lambda>_ gs. gs),
      ae_rng = counting_rng, ae_decimals = rat_decimals, ae_int_of_str = (\<lambda>_. Inl (Other ''ValueError'')),
      ae_int_of_float = (\<lambda>x. Inr \<lfloor>x\<rfloor>), ae_quotes_cr = False, ae_encode = (\<lambda>t. t), ae_dump_plan = (\<lambda>_. ''plan''),
      ae_dump_imputation = (\<lambda>_. ''imputation''), ae_dump_duplicates = (\<lambda>_. ''duplicates''), ae_dump_split = (\<lambda>_. ''split''),
      ae_dump_synthetic = (\<lambda>_. ''synthetic''), ae_dump_gates = (\<lambda>_. ''gates''),
      ae_parse_split = (\<lambda>_. Inl PydanticError), ae_parse_rule = (\<lambda>_. Inl PydanticError)\<rparr>"

lemma run_env_fields [simp]:
  "ae_builder run_env = run_builder" "ae_decimals run_env = rat_decimals" "ae_quotes_cr run_env = False" "ae_encode run_env t = t"
  "se_client run_builder = memory_client" "se_sha run_builder = digits_sha" "se_storage run_builder = sample_ad"
  "se_registry run_builder = sample_ad" "se_decode run_builder = Some" "se_fromiso run_builder = (\<lambda>_. None)" "se_now run_builder = 5"
  "ae_dump_imputation run_env = (\<lambda>_. ''imputation'')"
  by (simp_all add: run_env_def run_builder_def sample_env_def)

lemma run_faithful: "faithful_store run_env"
  by (simp add: faithful_store_def mem.s3_laws_axioms)

definition run_step :: action_plan_step where
  "run_step = (sample_step ''group_median'')\<lparr>ps_config :=
     [(''column'', JStr ''v''), (''group_key'', JStr ''g''), (''target_column'', JStr ''y'')]\<rparr>"

definition run_plan :: action_plan where
  "run_plan = sample_plan\<lparr>ap_action_plan_id := ''p1'', ap_steps := [run_step], ap_created_at := 7\<rparr>"

abbreviation run_table :: table where
  "run_table \<equiv> (sample_table, sample_columns)"

definition run_source :: artifact_ref where
  "run_source = sample_ref ''s'' []"

definition run_ctx :: apply_context where
  "run_ctx =
     \<lparr>ac_action_plan_id = ''p1'', ac_decision_report_id = ''dr'', ac_source_dataset_version_id = ''v1'', ac_proposed_version_name = ''cv'',
      ac_config_hash = zero_digest, ac_policy_versions = cr_policy_versions (sample_candidate_request None),
      ac_action_plan = Some run_plan, ac_input_artifacts = [run_source], ac_synthetic_step_ids = [],
      ac_require_model_impact_eligibility = False\<rparr>"

text \<open>A state in which the gates were judged before; the rest of the run is still to come.\<close>

definition run_world :: "rat apply_state \<times> mem_state" where
  "run_world = (new_apply_state\<lparr>as_gates_report := Some sample_ok_gates\<rparr>, [sample_object ''s'' (table_text run_env run_table)])"

definition run_imputed :: imputed_table where
  "run_imputed = projr (impute_rows rat_decimals run_step GROUP_MEDIAN ''v'' ''y'' sample_table sample_columns)"

lemma run_imputed_ok: "is_ok (impute_rows rat_decimals run_step GROUP_MEDIAN ''v'' ''y'' sample_table sample_columns)"
  by code_simp

lemma run_imputed: "impute_rows rat_decimals run_step GROUP_MEDIAN ''v'' ''y'' sample_table sample_columns = Inr run_imputed"
  using run_imputed_ok by (auto simp: run_imputed_def is_ok_iff)

lemma run_imputed_rows: "it_rows run_imputed = it_rows sample_imputed" "it_columns run_imputed = sample_columns"
  by code_simp+

lemma run_target: "plan_target_column run_plan = ''y''"
  by (simp add: plan_target_column_def run_plan_def run_step_def dict_get_def)

lemma run_table_step: "table_step rat_decimals sha ''y'' run_table run_step = Inr (it_rows run_imputed, it_columns run_imputed)"
proof -
  have "resolve_method (ps_method_id run_step) = Inr GROUP_MEDIAN \<and> required_config_str (ps_config run_step) ''column'' = Inr ''v''
    \<and> ps_type run_step = ''IMPUTE_MISSING_VALUES''" by code_simp
  then show ?thesis by (simp add: table_step_def imputed_def run_imputed)
qed

lemma run_reads:
  assumes "dict_get st (''bkt'', ''tenants/o/p/d/s'') = Some \<lparr>mo_body = x, mo_content_type = ''text/csv'', mo_metadata = []\<rparr>"
  shows "\<exists>i. storage_get run_builder (ar_uri run_source) st = Inr (x, i)"
proof -
  have "s3_uri (uri_for_key sample_ad ''tenants/o/p/d/s'')" by (simp add: storage_eval)
  then show ?thesis
    by (simp add: storage_get_def run_source_def sample_ref_def get_def sample_key_uri memory_client_def
        mem_get_def mem_object_at_def assms sample_bucket read_body_def
        info_from_response_def Let_def result_simps stored_info_valid_def string_metadata_def dict_of_def
        non_empty_def metadata_datetime_def sha256_of_ne)
qed

lemma saved_valid: "registry_save b args st = (Inr rec, st') \<Longrightarrow> registered_artifact_valid rec"
  by (auto simp: registry_save_def save_artifact_def existing_artifact_def record_from_ref_def Let_def result_simps
      split: sum.splits option.splits prod.splits if_splits)

definition run_key :: "string \<Rightarrow> string \<Rightarrow> string \<Rightarrow> string \<Rightarrow> string \<times> string" where
  "run_key kind fmt schema data = (''bkt'', allowed_prefix sample_ad @ slash # object_name_of
     \<lparr>sn_kind = kind, sn_format = fmt, sn_schema = schema, sn_version = ''cv'', sn_job = ''r''\<rparr> (sha256_of digits_sha data))"

lemma run_save:
  assumes "list_all good_component [kind, fmt, schema]" "media \<noteq> []" "dict_get st (run_key kind fmt schema data) = None"
  shows "\<exists>rec md'. registry_save run_builder \<lparr>sv_artifact_kind = kind, sv_data = data, sv_artifact_format = fmt, sv_media_type = media,
      sv_schema_version = schema, sv_dataset_version_id = ''cv'', sv_created_by_job_id = ''r'', sv_config_hash = zero_digest, sv_metadata = md\<rparr> st
    = (Inr rec, dict_set st (run_key kind fmt schema data) \<lparr>mo_body = data, mo_content_type = media, mo_metadata = md'\<rparr>)"
proof -
  let ?args = "\<lparr>sv_artifact_kind = kind, sv_data = data, sv_artifact_format = fmt, sv_media_type = media,
      sv_schema_version = schema, sv_dataset_version_id = ''cv'', sv_created_by_job_id = ''r'', sv_config_hash = zero_digest, sv_metadata = md\<rparr>"
  have "good_component ''cv''" "good_component ''r''" by (simp_all add: good_component_def component_char_def)
  then have n: "save_names_of ?args = Inr \<lparr>sn_kind = kind, sn_format = fmt, sn_schema = schema, sn_version = ''cv'', sn_job = ''r''\<rparr>"
    using assms(1) by (simp add: save_names_of_def good_safe)
  have "sha256_digest (sv_config_hash ?args)" "sv_media_type ?args \<noteq> []" using assms(2) by (simp_all add: zero_digest_def)
  from memory_save_store [OF n sample_adapter_ok _ hex64_digits this(2,1)] show ?thesis
    using assms(3) by (simp add: registry_save_def sample_bucket run_key_def)
qed

abbreviation run_request :: imputation_request where
  "run_request \<equiv> imputation_request_of run_env run_ctx sample_context run_plan run_step run_source"

lemma run_request_fields:
  "iq_step run_request = run_step" "iq_target_column run_request = ''y''" "iq_source_artifact run_request = run_source"
  "iq_candidate_dataset_version_id run_request = ''cv''" "iq_created_by_job_id run_request = ''r''" "iq_config_hash run_request = zero_digest"
  "iq_action_plan_id run_request = ''p1''" "iq_source_dataset_version_id run_request = ''v1''"
  by (simp_all add: imputation_request_of_def run_target)
    (simp_all add: run_ctx_def sample_context_def run_step_def sample_step_def run_plan_def)

lemma run_computed: "compute_imputation run_builder rat_decimals run_request (snd run_world) = Inr (GROUP_MEDIAN, ''v'', run_imputed)"
proof -
  obtain i where i: "storage_get run_builder (ar_uri run_source) (snd run_world) = Inr (table_text run_env run_table, i)"
    using run_reads [of "snd run_world" "table_text run_env run_table"] by (auto simp: run_world_def sample_object_def dict_get_def)
  have "imputation_rows (table_text run_env run_table) = Inr run_table"
    using written_table_read [OF sample_table_ok] by (simp add: table_text_def)
  moreover have "resolve_method (ps_method_id run_step) = Inr GROUP_MEDIAN \<and> required_config_str (ps_config run_step) ''column'' = Inr ''v''
    \<and> ps_type run_step \<in> set IMPUTATION_STEP_TYPES" by code_simp
  ultimately show ?thesis using i
    by (simp add: compute_imputation_def imputation_target_def impute_text_def run_request_fields run_imputed Let_def)
qed

lemma run_report_ok:
  assumes "artifact_ref_valid candidate"
  shows "is_ok (imputation_report_of run_builder run_request GROUP_MEDIAN ''v'' run_imputed candidate)"
proof -
  have counts: "0 \<le> it_before_missing run_imputed \<and> 0 \<le> it_imputed_count run_imputed" by code_simp
  have "iq_report_id run_request = Some i \<Longrightarrow> i \<noteq> []" for i by (auto simp: imputation_request_of_def runtime_id_def)
  moreover have "iq_report_id run_request \<noteq> None" by (simp add: imputation_request_of_def)
  moreover have "artifact_ref_valid run_source" using sample_ref_valid by (simp add: run_source_def)
  moreover have "ps_step_id run_step = ''s1''" by (simp add: run_step_def sample_step_def)
  ultimately show ?thesis
    using assms counts by (auto simp: imputation_report_of_def Let_def is_ok_iff result_simps imputation_column_valid_def
        imputation_lineage_valid_def imputation_report_valid_def non_empty_def run_request_fields missing_count_def
        IMPUTATION_REPORT_SCHEMA_VERSION_def zero_digest_def)
qed

lemma run_free0: "dict_get (snd run_world) (run_key kind fmt schema data) = None"
  by (simp add: run_key_def run_world_def sample_object_def object_name_of_def adapter_for_def scope_of_def slash_def
      allowed_prefix_def join_key_def strip_char_def strip_where_def dict_get_def)

lemma run_keys_differ: "kind \<noteq> kind' \<Longrightarrow> slash \<notin> set kind \<Longrightarrow> slash \<notin> set kind' \<Longrightarrow>
    run_key kind fmt schema data \<noteq> run_key kind' fmt' schema' data'"
proof -
  have "kind @ ''/'' @ x \<noteq> kind' @ ''/'' @ y" if "kind \<noteq> kind'" "slash \<notin> set kind" "slash \<notin> set kind'" for x y
    using that split_on_append_sep [of slash kind x] split_on_append_sep [of slash kind' y] by (auto simp: slash_def)
  then show "kind \<noteq> kind' \<Longrightarrow> slash \<notin> set kind \<Longrightarrow> slash \<notin> set kind' \<Longrightarrow>
    run_key kind fmt schema data \<noteq> run_key kind' fmt' schema' data'"
    by (simp add: run_key_def object_name_of_def)
qed

lemma run_good:
  "list_all good_component [CANDIDATE_TABULAR_DATASET_KIND, ''csv'', CANDIDATE_TABULAR_DATASET_SCHEMA_VERSION]"
  "list_all good_component [IMPUTATION_REPORT_KIND, ''json'', IMPUTATION_REPORT_SCHEMA_VERSION]"
  "list_all good_component [REMEDIATION_EXECUTION_REPORT_KIND, ''json'', REMEDIATION_EXECUTION_REPORT_SCHEMA_VERSION]"
  by (simp_all add: good_component_def component_char_def slash_def CANDIDATE_TABULAR_DATASET_KIND_def CANDIDATE_TABULAR_DATASET_SCHEMA_VERSION_def
      IMPUTATION_REPORT_KIND_def IMPUTATION_REPORT_SCHEMA_VERSION_def REMEDIATION_EXECUTION_REPORT_KIND_def
      REMEDIATION_EXECUTION_REPORT_SCHEMA_VERSION_def)

lemma run_kinds:
  "slash \<notin> set CANDIDATE_TABULAR_DATASET_KIND" "slash \<notin> set IMPUTATION_REPORT_KIND" "slash \<notin> set REMEDIATION_EXECUTION_REPORT_KIND"
  "distinct [CANDIDATE_TABULAR_DATASET_KIND, IMPUTATION_REPORT_KIND, REMEDIATION_EXECUTION_REPORT_KIND]"
  by (simp_all add: good_component_def component_char_def slash_def CANDIDATE_TABULAR_DATASET_KIND_def CANDIDATE_TABULAR_DATASET_SCHEMA_VERSION_def
      IMPUTATION_REPORT_KIND_def IMPUTATION_REPORT_SCHEMA_VERSION_def REMEDIATION_EXECUTION_REPORT_KIND_def
      REMEDIATION_EXECUTION_REPORT_SCHEMA_VERSION_def)

definition run_candidate_text :: string where
  "run_candidate_text = table_text run_env (it_rows run_imputed, it_columns run_imputed)"

text \<open>The texts the run stores.\<close>

definition run_texts :: "string list" where
  "run_texts = [table_text run_env run_table, run_candidate_text, ''imputation'', ''remediation'']"

lemma bodies_set: "set (map (\<lambda>kv. mo_body (snd kv)) (dict_set st k ob)) \<subseteq> insert (mo_body ob) (set (map (\<lambda>kv. mo_body (snd kv)) st))"
proof -
  have "set (dict_set st k ob) \<subseteq> insert (k, ob) (set st)"
    unfolding dict_set_def by (induction st) auto
  then show ?thesis by fastforce
qed

lemma memory_bodies: "stored_body memory_client st body \<Longrightarrow> body \<in> set (map (\<lambda>kv. mo_body (snd kv)) st)"
proof -
  assume "stored_body memory_client st body"
  then obtain bucket key ob where "map_of st (bucket, key) = Some ob" "mo_body ob = body"
    by (auto simp: stored_body_def memory_client_def mem_get_def mem_object_at_def result_simps dict_get_def split: option.splits)
  then show ?thesis by (force dest: map_of_SomeD)
qed

definition run_cargs :: save_args where
  "run_cargs = \<lparr>sv_artifact_kind = CANDIDATE_TABULAR_DATASET_KIND, sv_data = run_candidate_text, sv_artifact_format = ''csv'',
     sv_media_type = ''text/csv'', sv_schema_version = CANDIDATE_TABULAR_DATASET_SCHEMA_VERSION, sv_dataset_version_id = ''cv'',
     sv_created_by_job_id = ''r'', sv_config_hash = zero_digest, sv_metadata = candidate_metadata run_builder run_request GROUP_MEDIAN ''v''\<rparr>"

definition run_rargs :: "registered_artifact \<Rightarrow> save_args" where
  "run_rargs candidate = \<lparr>sv_artifact_kind = IMPUTATION_REPORT_KIND, sv_data = ''imputation'', sv_artifact_format = ''json'',
     sv_media_type = ''application/json'', sv_schema_version = IMPUTATION_REPORT_SCHEMA_VERSION, sv_dataset_version_id = ''cv'',
     sv_created_by_job_id = ''r'', sv_config_hash = zero_digest,
     sv_metadata = imputation_metadata run_builder run_request GROUP_MEDIAN ''v'' run_imputed candidate\<rparr>"

text \<open>What a save leaves in the store of the sample: one more body, under a key of its kind.\<close>

definition grown :: "mem_state \<Rightarrow> string \<Rightarrow> string \<Rightarrow> mem_state \<Rightarrow> bool" where
  "grown st kind body st' \<longleftrightarrow>
     set (map (\<lambda>kv. mo_body (snd kv)) st') \<subseteq> insert body (set (map (\<lambda>kv. mo_body (snd kv)) st))
     \<and> (\<forall>kind' fmt schema data. kind' \<noteq> kind \<longrightarrow> slash \<notin> set kind' \<longrightarrow> dict_get st (run_key kind' fmt schema data) = None
          \<longrightarrow> dict_get st' (run_key kind' fmt schema data) = None)"

lemma grown_bodies: "grown st kind body st' \<Longrightarrow> set (map (\<lambda>kv. mo_body (snd kv)) st) \<subseteq> T \<Longrightarrow> body \<in> T
    \<Longrightarrow> set (map (\<lambda>kv. mo_body (snd kv)) st') \<subseteq> T"
  unfolding grown_def by (elim conjE, rule order_trans, assumption, rule insert_subsetI)

lemma run_save_grown:
  assumes "args = \<lparr>sv_artifact_kind = kind, sv_data = data, sv_artifact_format = fmt, sv_media_type = media,
      sv_schema_version = schema, sv_dataset_version_id = ''cv'', sv_created_by_job_id = ''r'', sv_config_hash = zero_digest, sv_metadata = md\<rparr>"
    and "list_all good_component [kind, fmt, schema]" "media \<noteq> []" "dict_get st (run_key kind fmt schema data) = None" "slash \<notin> set kind"
  shows "\<exists>rec st'. registry_save run_builder args st = (Inr rec, st') \<and> grown st kind data st'"
proof -
  obtain rec md' where "registry_save run_builder args st
      = (Inr rec, dict_set st (run_key kind fmt schema data) \<lparr>mo_body = data, mo_content_type = media, mo_metadata = md'\<rparr>)"
    using run_save [OF assms(2-4)] unfolding assms(1) by blast
  moreover have "grown st kind data (dict_set st (run_key kind fmt schema data) \<lparr>mo_body = data, mo_content_type = media, mo_metadata = md'\<rparr>)"
    unfolding grown_def
  proof (intro conjI allI impI)
    show "set (map (\<lambda>kv. mo_body (snd kv)) (dict_set st (run_key kind fmt schema data) \<lparr>mo_body = data, mo_content_type = media, mo_metadata = md'\<rparr>))
        \<subseteq> insert data (set (map (\<lambda>kv. mo_body (snd kv)) st))"
      using bodies_set [of st _ "\<lparr>mo_body = data, mo_content_type = media, mo_metadata = md'\<rparr>"] by simp
  qed (use run_keys_differ assms(5) in \<open>simp add: dict_get_set\<close>)
  ultimately show ?thesis by blast
qed

lemma run_step_returns:
  "\<exists>report candidate ra st2. execute_tabular_imputation_action run_builder rat_decimals False (ae_encode run_env) (\<lambda>_. ''imputation'') run_request (snd run_world)
      = (Inr (report, candidate, ra), st2)
    \<and> set (map (\<lambda>kv. mo_body (snd kv)) st2) \<subseteq> set run_texts
    \<and> dict_get st2 (run_key REMEDIATION_EXECUTION_REPORT_KIND ''json'' REMEDIATION_EXECUTION_REPORT_SCHEMA_VERSION ''remediation'') = None"
proof -
  have media: "''text/csv'' \<noteq> []" "''application/json'' \<noteq> []" by simp_all
  obtain candidate st1 where s1: "registry_save run_builder run_cargs (snd run_world) = (Inr candidate, st1)"
    "grown (snd run_world) CANDIDATE_TABULAR_DATASET_KIND run_candidate_text st1"
    using run_save_grown [OF run_cargs_def run_good(1) media(1) run_free0 run_kinds(1)] by (elim exE conjE)
  have valid: "artifact_ref_valid (ra_artifact_ref candidate)" using saved_valid [OF s1(1)] by (simp add: registered_artifact_valid_def)
  then obtain report where report: "imputation_report_of run_builder run_request GROUP_MEDIAN ''v'' run_imputed (ra_artifact_ref candidate) = Inr report"
    using run_report_ok [OF valid] unfolding is_ok_iff by (elim exE)
  have kinds: "IMPUTATION_REPORT_KIND \<noteq> CANDIDATE_TABULAR_DATASET_KIND" "REMEDIATION_EXECUTION_REPORT_KIND \<noteq> CANDIDATE_TABULAR_DATASET_KIND"
    "REMEDIATION_EXECUTION_REPORT_KIND \<noteq> IMPUTATION_REPORT_KIND" using run_kinds(4) by auto
  have free: "dict_get st1 (run_key IMPUTATION_REPORT_KIND fmt schema data) = None"
    "dict_get st1 (run_key REMEDIATION_EXECUTION_REPORT_KIND fmt schema data) = None" for fmt schema data
    using s1(2) run_free0 kinds run_kinds(2,3) by (simp_all add: grown_def)
  obtain ra st2 where s2: "registry_save run_builder (run_rargs candidate) st1 = (Inr ra, st2)" "grown st1 IMPUTATION_REPORT_KIND ''imputation'' st2"
    using run_save_grown [OF run_rargs_def [of candidate] run_good(2) media(2) free(1) run_kinds(2)] by (elim exE conjE)
  have "execute_tabular_imputation_action run_builder rat_decimals False (ae_encode run_env) (\<lambda>_. ''imputation'') run_request (snd run_world)
      = (Inr (report, candidate, ra), st2)"
    using s1(1) s2(1) report
    by (simp add: execute_tabular_imputation_action_def run_computed run_request_fields run_candidate_text_def table_text_def run_cargs_def run_rargs_def)
  moreover have "set (map (\<lambda>kv. mo_body (snd kv)) (snd run_world)) \<subseteq> set run_texts" by (simp add: run_world_def sample_object_def run_texts_def)
  then have "set (map (\<lambda>kv. mo_body (snd kv)) st2) \<subseteq> set run_texts"
    by (rule grown_bodies [OF s2(2) grown_bodies [OF s1(2)]]) (simp_all add: run_texts_def)
  moreover have "dict_get st2 (run_key REMEDIATION_EXECUTION_REPORT_KIND fmt schema data) = None" for fmt schema data
    using s2(2) free(2) kinds run_kinds(3) by (simp add: grown_def)
  ultimately show ?thesis by (intro exI conjI)
qed

lemma run_honest: "honest run_builder (snd run_world)"
proof -
  have "rs_metadata r = []" if "s3_head memory_client (snd run_world) bucket key = Inr r" for bucket key r
    using that
    by (auto simp: run_world_def sample_object_def memory_client_def mem_head_def mem_object_at_def result_simps dict_get_def
        split: option.splits if_splits)
  then show ?thesis by (auto simp: honest_def string_metadata_def dict_of_def dict_get_def)
qed

lemma run_requirements: "imputation_request_valid run_request"
  by (auto simp: imputation_request_valid_def run_request_fields non_empty_def zero_digest_def)

lemma run_source_chosen: "resolve_source_artifact run_env run_ctx sample_context run_world
    = (Inr run_source, (fst run_world)\<lparr>as_source_artifact := Some run_source\<rparr>, snd run_world)"
proof -
  obtain i where "storage_get run_builder (ar_uri run_source) (snd run_world) = Inr (table_text run_env run_table, i)"
    using run_reads [of "snd run_world" "table_text run_env run_table"] by (auto simp: run_world_def sample_object_def dict_get_def)
  then have "readable_source run_env run_source (snd run_world) = Inr ()" by (simp add: readable_source_def)
  moreover have "chosen_source run_env run_ctx sample_context run_plan (snd run_world) = Inr run_source"
    by (simp add: chosen_source_def run_ctx_def select_source_ref_def run_source_def sample_ref_def)
  ultimately show ?thesis
    by (simp add: resolve_source_artifact_def require_plan_def run_ctx_def run_world_def new_apply_state_def)
qed

lemma run_candidate_ok: "table_ok False (it_rows run_imputed) (it_columns run_imputed)"
proof -
  have "list_all (row_over sample_columns) (it_rows run_imputed)" unfolding run_imputed_rows sample_imputed_rows by code_simp
  then show ?thesis by (simp add: table_ok_def run_imputed_rows sample_imputed_rows cell_ok_def cr_safe_def CR_def field_limit_def)
qed

lemma plan_run_returns:
  "\<exists>artifact w'. execute_remediation_plan run_env (\<lambda>_. ''remediation'') run_ctx sample_context run_world = (Inr artifact, w')
    \<and> as_source_artifact (fst w') = Some run_source \<and> set (map (\<lambda>kv. mo_body (snd kv)) (snd w')) \<subseteq> set run_texts"
proof -
  obtain report candidate ra st2 where step:
    "execute_tabular_imputation_action run_builder rat_decimals False (ae_encode run_env) (\<lambda>_. ''imputation'') run_request (snd run_world)
      = (Inr (report, candidate, ra), st2)"
    and bodies2: "set (map (\<lambda>kv. mo_body (snd kv)) st2) \<subseteq> set run_texts"
    and free: "dict_get st2 (run_key REMEDIATION_EXECUTION_REPORT_KIND ''json'' REMEDIATION_EXECUTION_REPORT_SCHEMA_VERSION ''remediation'') = None"
    using run_step_returns by (elim exE conjE)
  let ?s1 = "(fst run_world)\<lparr>as_source_artifact := Some run_source\<rparr>"
  let ?s2 = "?s1\<lparr>as_primary_candidate := Some candidate, as_step_outputs := as_step_outputs ?s1 @ [candidate, ra]\<rparr>"
  let ?summaries = "[summary_of_step run_step [candidate, ra]]"
  have type: "ps_type run_step = action_value IMPUTE_MISSING_VALUES" by (simp add: run_step_def sample_step_def)
  have steps: "run_plan_steps run_env run_ctx sample_context run_plan (run_source, []) (ap_steps run_plan) (?s1, snd run_world)
      = (Inr (ra_artifact_ref candidate, ?summaries), ?s2, st2)"
    using step run_requirements
    by (simp add: run_plan_steps_def run_plan_step_def execute_step_def type impute_step_def on_store_def update_state_def run_iffs bindS_def
        returnS_def liftS_def result_simps run_plan_def)
  have gates: "apply_validation_gates run_env run_ctx sample_context (?s2, st2) = (Inr sample_ok_gates, ?s2, st2)"
    by (simp add: apply_validation_gates_def run_world_def)
  define rargs where "rargs = \<lparr>sv_artifact_kind = REMEDIATION_EXECUTION_REPORT_KIND, sv_data = ''remediation'', sv_artifact_format = ''json'',
      sv_media_type = ''application/json'', sv_schema_version = REMEDIATION_EXECUTION_REPORT_SCHEMA_VERSION, sv_dataset_version_id = ''cv'',
      sv_created_by_job_id = ''r'', sv_config_hash = zero_digest,
      sv_metadata = [(''action-plan-id'', ap_action_plan_id run_plan),
        (''validation-status'', candidate_status_value (gr_candidate_status sample_ok_gates)),
        (''block-export'', bool_text (gr_block_export sample_ok_gates)),
        (''created-at'', se_iso run_builder (generated_at run_plan))]\<rparr>"
  obtain artifact st3 where save: "registry_save run_builder rargs st2 = (Inr artifact, st3)"
    and g3: "grown st2 REMEDIATION_EXECUTION_REPORT_KIND ''remediation'' st3"
    using run_save_grown [OF rargs_def run_good(3) list.distinct(2) free run_kinds(3)] by (elim exE conjE)
  let ?w' = "(?s2\<lparr>as_remediation_report := Some artifact\<rparr>, st3)"
  have plan: "ac_action_plan run_ctx = Some run_plan" "ac_proposed_version_name run_ctx = ''cv''" "ac_config_hash run_ctx = zero_digest"
    by (simp_all add: run_ctx_def)
  have job: "rc_compute_run_id sample_context = ''r''" by (simp add: sample_context_def)
  have start: "as_remediation_report (fst run_world) = None" by (simp add: run_world_def new_apply_state_def)
  have run: "execute_remediation_plan run_env (\<lambda>_. ''remediation'') run_ctx sample_context run_world = (Inr artifact, ?w')"
    using run_source_chosen steps gates save
    by (simp add: execute_remediation_plan_def start plan job require_plan_def bindS_def liftS_def returnS_def on_store_def update_state_def
        rargs_def)
  have bodies3: "set (map (\<lambda>kv. mo_body (snd kv)) st3) \<subseteq> set run_texts"
    by (rule grown_bodies [OF g3 bodies2]) (simp add: run_texts_def)
  have "as_source_artifact (fst ?w') = Some run_source" "set (map (\<lambda>kv. mo_body (snd kv)) (snd ?w')) \<subseteq> set run_texts"
    using bodies3 by simp_all
  with run show ?thesis by (intro exI conjI)
qed

theorem plan_refines_table_operations_witness:
  "\<exists>candidate artifact w'. execute_remediation_plan run_env (\<lambda>_. ''remediation'') run_ctx sample_context run_world = (Inr artifact, w')
    \<and> as_primary_candidate (fst w') = Some candidate
    \<and> holds_table run_env (snd w') (ra_artifact_ref candidate) (it_rows sample_imputed, sample_columns)"
proof -
  obtain artifact w' where run: "execute_remediation_plan run_env (\<lambda>_. ''remediation'') run_ctx sample_context run_world = (Inr artifact, w')"
    and src: "as_source_artifact (fst w') = Some run_source" and bodies: "set (map (\<lambda>kv. mo_body (snd kv)) (snd w')) \<subseteq> set run_texts"
    using plan_run_returns by (elim exE conjE)
  have plan: "ac_action_plan run_ctx = Some run_plan" by (simp add: run_ctx_def)
  have start: "as_remediation_report (fst run_world) = None" by (simp add: run_world_def new_apply_state_def)
  have readable: "readable_table run_env (snd w') t'"
    if "0 < n" "n \<le> length (ap_steps run_plan)"
      "table_run (ae_decimals run_env) (ae_sha run_env) (plan_target_column run_plan) run_table (take n (ap_steps run_plan)) = Inr t'" for n t'
  proof -
    have "t' = (it_rows run_imputed, it_columns run_imputed)"
      using that run_table_step by (auto simp: run_plan_def table_run_def run_target [unfolded run_plan_def] foldR.simps result_simps)
    moreover have "\<forall>body \<in> set run_texts. \<not> collide digits_sha body run_candidate_text" by code_simp
    moreover have "body \<in> set run_texts" if "stored_body memory_client (snd w') body" for body
      using memory_bodies [OF that] bodies by blast
    ultimately show ?thesis by (simp add: readable_table_def run_candidate_text_def run_candidate_ok)
  qed
  obtain i where "storage_get run_builder (ar_uri run_source) (snd run_world) = Inr (table_text run_env run_table, i)"
    using run_reads [of "snd run_world" "table_text run_env run_table"] by (auto simp: run_world_def sample_object_def dict_get_def)
  then have source: "holds_table run_env (snd run_world) run_source run_table"
    using written_table_read [OF sample_table_ok] by (auto simp: holds_table_def stored_text_get table_text_def)
  have cleaning: "list_all cleaning_step (ap_steps run_plan)" "ap_steps run_plan \<noteq> []"
    by (simp_all add: run_plan_def cleaning_step_def run_step_def sample_step_def)
  have "table_run (ae_decimals run_env) (ae_sha run_env) (plan_target_column run_plan) run_table (ap_steps run_plan)
      = Inr (it_rows sample_imputed, sample_columns)"
    using run_table_step
    by (simp add: table_run_def run_plan_def run_target [unfolded run_plan_def] run_imputed_rows result_simps)
  moreover have "\<exists>candidate t'. as_primary_candidate (fst w') = Some candidate
    \<and> table_run (ae_decimals run_env) (ae_sha run_env) (plan_target_column run_plan) run_table (ap_steps run_plan) = Inr t'
    \<and> ar_hash (ra_artifact_ref candidate) = sha256_of (ae_sha run_env) (table_text run_env t')
    \<and> holds_table run_env (snd w') (ra_artifact_ref candidate) t'"
    by (rule plan_refines_table_operations [OF run_faithful _ start plan cleaning run src source])
      (simp_all only: run_honest run_env_fields readable [unfolded run_env_fields])
  ultimately have "\<exists>c. as_primary_candidate (fst w') = Some c \<and> holds_table run_env (snd w') (ra_artifact_ref c) (it_rows sample_imputed, sample_columns)"
    by auto
  then show ?thesis using run by blast
qed

theorem plan_execution_append_only_witness:
  "\<exists>response. s3_head memory_client (snd (snd (execute_remediation_plan run_env (\<lambda>_. ''remediation'') run_ctx sample_context run_world)))
      ''bkt'' ''tenants/o/p/d/s'' = Inr response
    \<and> s3_get memory_client (snd (snd (execute_remediation_plan run_env (\<lambda>_. ''remediation'') run_ctx sample_context run_world)))
        ''bkt'' ''tenants/o/p/d/s'' = s3_get memory_client (snd run_world) ''bkt'' ''tenants/o/p/d/s''"
proof -
  obtain r w' where run: "execute_remediation_plan run_env (\<lambda>_. ''remediation'') run_ctx sample_context run_world = (r, w')"
    by (rule prod.exhaust)
  obtain response where "s3_head memory_client (snd run_world) ''bkt'' ''tenants/o/p/d/s'' = Inr response"
    by (simp add: run_world_def sample_object_def memory_client_def mem_head_def mem_object_at_def dict_get_def)
  then show ?thesis using plan_execution_append_only [OF _ run] run mem.s3_laws_axioms by auto
qed

theorem second_execution_is_silent_witness:
  "\<exists>artifact w'. execute_remediation_plan run_env (\<lambda>_. ''remediation'') run_ctx sample_context run_world = (Inr artifact, w')
    \<and> execute_remediation_plan run_env (\<lambda>_. ''remediation'') run_ctx sample_context w' = (Inr artifact, w')"
  using plan_run_returns second_execution_is_silent by blast

definition duplicate_preview :: preview_request where
  "duplicate_preview = (ActionPlan.sample_request [''r1''])
     \<lparr>pr_method_recommendations := [(sample_recommendation ''r1'' ''i1'' ''canonical_keep'')\<lparr>mr_action_type := action_value REMOVE_DUPLICATE\<rparr>]\<rparr>"

lemma duplicate_preview_admitted: "is_ok (build_action_plan_preview toy_sha 0 duplicate_preview)"
proof -
  let ?sel = "pr_method_recommendations duplicate_preview"
  have "preview_request_valid duplicate_preview" by code_simp
  moreover have "selected_for duplicate_preview ?sel" by (simp add: selected_for_def duplicate_preview_def ActionPlan.sample_defs)
  moreover have "list_all (method_admitted duplicate_preview) ?sel" by code_simp
  moreover have "distinct (map (\<lambda>r. step_id_of r (chosen_method duplicate_preview r)) ?sel)" by code_simp
  ultimately show ?thesis
    using build_preview_ok_iff [OF _ hex64_toy_sha] by (auto simp: duplicate_preview_def ActionPlan.sample_defs)
qed

theorem previewed_action_unexecutable_witness:
  "\<exists>plan e w'. build_action_plan_preview toy_sha 0 duplicate_preview = Inr plan
    \<and> execute_remediation_plan run_env (\<lambda>_. ''remediation'') (run_ctx\<lparr>ac_action_plan := Some plan\<rparr>) sample_context run_world = (Inl e, w')"
proof -
  obtain plan where plan: "build_action_plan_preview toy_sha 0 duplicate_preview = Inr plan"
    using duplicate_preview_admitted unfolding is_ok_iff by (elim exE)
  have "as_remediation_report (fst run_world) = None" by (simp add: run_world_def new_apply_state_def)
  with previewed_action_unexecutable [OF plan, of "hd (pr_method_recommendations duplicate_preview)" REMOVE_DUPLICATE
      "run_ctx\<lparr>ac_action_plan := Some plan\<rparr>" run_world run_env "\<lambda>_. ''remediation''" sample_context] plan
  show ?thesis by (simp add: duplicate_preview_def ActionPlan.sample_defs)
qed

end
