(* ===== verification/Lineage.thy ===== *)
theory Lineage
  imports ExportPackage
begin

text \<open>
  The lineage report: the contracts of \<open>src/app/domain/lineage.py\<close> and the builder of \<open>src/app/kernel/lineage.py\<close>,
  with its OpenLineage envelope and the audit events it records. The store and the platform client are the
  state, as in the candidate builder; the JSON dump of the report is a parameter.
\<close>

section \<open>Contracts (domain/lineage.py)\<close>

definition LINEAGE_REPORT_SCHEMA_VERSION :: string where
  "LINEAGE_REPORT_SCHEMA_VERSION = ''lineage_report.v1''"

record lineage_algorithm =
  la_step_id :: string
  la_step_type :: string
  la_algorithm_name :: string
  la_algorithm_version :: string
  la_plugin_id :: string
  la_plugin_version :: string
  la_config_hash :: string
  la_random_seed :: "int option"

record lineage_policy_versions =
  lp_profile_policy_version :: "string option"
  lp_decision_policy_version :: "string option"
  lp_score_policy_version :: "string option"
  lp_method_policy_version :: "string option"
  lp_validation_gates_policy_version :: "string option"
  lp_privacy_policy_version :: "string option"
  lp_export_policy_version :: "string option"

text \<open>Facets are a dictionary of JSON scalars.\<close>

record openlineage_dataset =
  od_namespace :: string
  od_name :: string
  od_facets :: "(string, json) dict"

record openlineage_run =
  or_run_id :: string
  or_job_namespace :: string
  or_job_name :: string
  or_started_at :: datetime
  or_completed_at :: datetime
  or_facets :: "(string, json) dict"

record openlineage_envelope =
  oe_run :: openlineage_run
  oe_inputs :: "openlineage_dataset list"
  oe_outputs :: "openlineage_dataset list"

record lineage_report =
  lr_lineage_report_id :: string
  lr_lineage_schema_version :: string
  lr_organization_id :: string
  lr_project_id :: string
  lr_dataset_id :: string
  lr_parent_version_id :: string
  lr_output_dataset_version_id :: string
  lr_job_id :: string
  lr_input_artifact_hashes :: "string list"
  lr_output_artifact_hashes :: "string list"
  lr_algorithm_name :: string
  lr_algorithm_version :: string
  lr_config_hash :: string
  lr_policy_version :: string
  lr_random_seed :: "int option"
  lr_action_plan_id :: "string option"
  lr_decision_report_id :: "string option"
  lr_candidate_version_artifact :: "artifact_ref option"
  lr_export_package_artifact :: "artifact_ref option"
  lr_algorithms :: "lineage_algorithm list"
  lr_policy_versions :: lineage_policy_versions
  lr_input_artifact_refs :: "artifact_ref list"
  lr_output_artifact_refs :: "artifact_ref list"
  lr_openlineage :: openlineage_envelope
  lr_created_at :: datetime

definition lineage_algorithm_valid :: "lineage_algorithm \<Rightarrow> bool" where
  "lineage_algorithm_valid a \<longleftrightarrow>
     non_empty (la_step_id a) \<and> non_empty (la_step_type a) \<and> non_empty (la_algorithm_name a) \<and> non_empty (la_algorithm_version a)
     \<and> non_empty (la_plugin_id a) \<and> non_empty (la_plugin_version a) \<and> sha256_digest (la_config_hash a)"

definition lineage_policy_versions_valid :: "lineage_policy_versions \<Rightarrow> bool" where
  "lineage_policy_versions_valid p \<longleftrightarrow>
     opt_ok non_empty (lp_profile_policy_version p) \<and> opt_ok non_empty (lp_decision_policy_version p)
     \<and> opt_ok non_empty (lp_score_policy_version p) \<and> opt_ok non_empty (lp_method_policy_version p)
     \<and> opt_ok non_empty (lp_validation_gates_policy_version p) \<and> opt_ok non_empty (lp_privacy_policy_version p)
     \<and> opt_ok non_empty (lp_export_policy_version p)"

definition openlineage_dataset_valid :: "openlineage_dataset \<Rightarrow> bool" where
  "openlineage_dataset_valid d \<longleftrightarrow> non_empty (od_namespace d) \<and> non_empty (od_name d)"

definition openlineage_run_valid :: "openlineage_run \<Rightarrow> bool" where
  "openlineage_run_valid r \<longleftrightarrow> non_empty (or_run_id r) \<and> non_empty (or_job_namespace r) \<and> non_empty (or_job_name r)"

definition openlineage_envelope_valid :: "openlineage_envelope \<Rightarrow> bool" where
  "openlineage_envelope_valid e \<longleftrightarrow>
     openlineage_run_valid (oe_run e) \<and> list_all openlineage_dataset_valid (oe_inputs e) \<and> list_all openlineage_dataset_valid (oe_outputs e)"

definition lineage_report_valid :: "lineage_report \<Rightarrow> bool" where
  "lineage_report_valid r \<longleftrightarrow>
     list_all non_empty [lr_lineage_report_id r, lr_lineage_schema_version r, lr_organization_id r, lr_project_id r, lr_dataset_id r,
       lr_parent_version_id r, lr_output_dataset_version_id r, lr_job_id r, lr_algorithm_name r, lr_algorithm_version r, lr_policy_version r]
     \<and> list_all sha256_digest (lr_input_artifact_hashes r) \<and> list_all sha256_digest (lr_output_artifact_hashes r)
     \<and> sha256_digest (lr_config_hash r)
     \<and> opt_ok non_empty (lr_action_plan_id r) \<and> opt_ok non_empty (lr_decision_report_id r)
     \<and> opt_ok artifact_ref_valid (lr_candidate_version_artifact r) \<and> opt_ok artifact_ref_valid (lr_export_package_artifact r)
     \<and> list_all lineage_algorithm_valid (lr_algorithms r) \<and> lineage_policy_versions_valid (lr_policy_versions r)
     \<and> list_all artifact_ref_valid (lr_input_artifact_refs r) \<and> list_all artifact_ref_valid (lr_output_artifact_refs r)
     \<and> openlineage_envelope_valid (lr_openlineage r)"

section \<open>Requests (kernel/lineage.py)\<close>

definition LINEAGE_REPORT_KIND :: string where
  "LINEAGE_REPORT_KIND = ''lineage_report''"

definition OPENLINEAGE_NAMESPACE :: string where
  "OPENLINEAGE_NAMESPACE = ''dataforgeai-ml-service''"

definition OPENLINEAGE_JOB_NAME :: string where
  "OPENLINEAGE_JOB_NAME = ''apply_selected_actions''"

definition lineage_error :: "string \<Rightarrow> exn" where
  "lineage_error reason = Raised ''LineageBuilderError'' reason INVALID_JOB_PAYLOAD 0"

record 'f lineage_request =
  lq_organization_id :: string
  lq_project_id :: string
  lq_dataset_id :: string
  lq_candidate_dataset_version :: "'f candidate_version"
  lq_candidate_version_artifact :: "artifact_ref option"
  lq_export_package :: "export_package option"
  lq_export_package_artifact :: "artifact_ref option"
  lq_input_artifact_refs :: "artifact_ref list"
  lq_output_artifact_refs :: "artifact_ref list"
  lq_privacy_policy_version :: "string option"
  lq_export_policy_version :: "string option"
  lq_job_started_at :: "datetime option"
  lq_job_completed_at :: "datetime option"
  lq_created_by_job_id :: string
  lq_config_hash :: string
  lq_lineage_report_id :: "string option"
  lq_generated_at :: "datetime option"
  lq_emit_export_package_audit_event :: bool

definition lineage_request_valid :: "'f float_ops \<Rightarrow> 'f lineage_request \<Rightarrow> bool" where
  "lineage_request_valid fl r \<longleftrightarrow>
     non_empty (lq_organization_id r) \<and> non_empty (lq_project_id r) \<and> non_empty (lq_dataset_id r)
     \<and> candidate_version_valid fl (lq_candidate_dataset_version r) \<and> opt_ok artifact_ref_valid (lq_candidate_version_artifact r)
     \<and> opt_ok export_package_valid (lq_export_package r) \<and> opt_ok artifact_ref_valid (lq_export_package_artifact r)
     \<and> list_all artifact_ref_valid (lq_input_artifact_refs r) \<and> list_all artifact_ref_valid (lq_output_artifact_refs r)
     \<and> opt_ok non_empty (lq_privacy_policy_version r) \<and> opt_ok non_empty (lq_export_policy_version r)
     \<and> non_empty (lq_created_by_job_id r) \<and> sha256_digest (lq_config_hash r)"

section \<open>Helpers\<close>

definition build_algorithm :: "candidate_step_summary \<Rightarrow> lineage_algorithm" where
  "build_algorithm s =
     \<lparr>la_step_id = cs_step_id s, la_step_type = cs_step_type s, la_algorithm_name = cs_method_id s,
      la_algorithm_version = cs_plugin_version s, la_plugin_id = cs_plugin_id s, la_plugin_version = cs_plugin_version s,
      la_config_hash = cs_config_hash s, la_random_seed = cs_random_seed s\<rparr>"

definition build_algorithms :: "candidate_step_summary list \<Rightarrow> exn + lineage_algorithm list" where
  "build_algorithms = mapR (\<lambda>s. validated lineage_algorithm_valid (build_algorithm s))"

definition lineage_policies :: "'f lineage_request \<Rightarrow> lineage_policy_versions" where
  "lineage_policies request =
     (let p = cv_policy_versions (lq_candidate_dataset_version request) in
      \<lparr>lp_profile_policy_version = Some (cp_profile_policy_version p), lp_decision_policy_version = Some (cp_decision_policy_version p),
       lp_score_policy_version = Some (cp_score_policy_version p), lp_method_policy_version = Some (cp_method_policy_version p),
       lp_validation_gates_policy_version = cp_validation_gates_policy_version p,
       lp_privacy_policy_version = lq_privacy_policy_version request, lp_export_policy_version = lq_export_policy_version request\<rparr>)"

definition resolve_input_hashes :: "'f candidate_version \<Rightarrow> artifact_ref list \<Rightarrow> string list" where
  "resolve_input_hashes candidate refs =
     (let explicit = map ar_hash refs in
      if explicit \<noteq> [] then explicit else cl_input_artifact_hashes (cv_lineage candidate))"

definition resolve_output_hashes :: "'f candidate_version \<Rightarrow> export_package option \<Rightarrow> artifact_ref list \<Rightarrow> string list" where
  "resolve_output_hashes candidate package refs =
     (if refs \<noteq> [] then map ar_hash refs else cl_output_artifact_hashes (cv_lineage candidate))
     @ (case package of None \<Rightarrow> [] | Some p \<Rightarrow> map ar_hash (ex_artifacts p))"

text \<open>\<open>_ordered_unique\<close> of this module takes plain strings.\<close>

definition ordered_unique_hashes :: "string list \<Rightarrow> string list" where
  "ordered_unique_hashes values = ordered_unique_present (map Some values)"

definition openlineage_dataset_of :: "string \<Rightarrow> (string, json) dict \<Rightarrow> exn + openlineage_dataset" where
  "openlineage_dataset_of name facets =
     validated openlineage_dataset_valid \<lparr>od_namespace = OPENLINEAGE_NAMESPACE, od_name = name, od_facets = facets\<rparr>"

definition dataset_name_from_ref :: "artifact_ref \<Rightarrow> string" where
  "dataset_name_from_ref ref = (if starts_with ''s3://'' (ar_uri ref) then drop (length ''s3://'') (ar_uri ref) else ar_artifact_id ref)"

definition ref_dataset :: "artifact_ref \<Rightarrow> exn + openlineage_dataset" where
  "ref_dataset ref = openlineage_dataset_of (dataset_name_from_ref ref) [(''artifact_hash'', JStr (ar_hash ref)), (''kind'', JStr (ar_kind ref))]"

definition openlineage_inputs :: "'f candidate_version \<Rightarrow> artifact_ref list \<Rightarrow> exn + openlineage_dataset list" where
  "openlineage_inputs candidate refs =
     (if refs \<noteq> [] then mapR ref_dataset refs
      else bindR (openlineage_dataset_of (cl_parent_version_id (cv_lineage candidate))
                    [(''kind'', JStr ''dataset_version''), (''version_id'', JStr (cl_parent_version_id (cv_lineage candidate)))])
             (\<lambda>d. Inr [d]))"

definition candidate_output :: "'f candidate_version \<Rightarrow> exn + openlineage_dataset" where
  "candidate_output candidate =
     openlineage_dataset_of (cl_proposed_version_name (cv_lineage candidate))
       [(''kind'', JStr ''candidate_dataset_version''), (''candidate_version_id'', JStr (cv_candidate_version_id candidate)),
        (''status'', JStr (candidate_version_status_value (cv_status candidate)))]"

definition package_output :: "export_package \<Rightarrow> exn + openlineage_dataset" where
  "package_output package =
     openlineage_dataset_of (ex_export_package_id package)
       [(''kind'', JStr ''export_package''), (''status'', JStr (export_status_value (ex_status package))),
        (''included'', JInt (ec_included (ex_object_counts package))), (''blocked'', JInt (ec_blocked (ex_object_counts package))),
        (''excluded'', JInt (ec_excluded (ex_object_counts package)))]"

definition openlineage_outputs ::
    "'f candidate_version \<Rightarrow> export_package option \<Rightarrow> artifact_ref list \<Rightarrow> exn + openlineage_dataset list" where
  "openlineage_outputs candidate package refs =
     bindR (candidate_output candidate) (\<lambda>c.
     bindR (case package of None \<Rightarrow> Inr [] | Some p \<Rightarrow> bindR (package_output p) (\<lambda>d. Inr [d])) (\<lambda>ps.
     bindR (mapR ref_dataset refs) (\<lambda>os. Inr (c # ps @ os))))"

definition build_openlineage ::
    "'f candidate_version \<Rightarrow> export_package option \<Rightarrow> string \<Rightarrow> datetime \<Rightarrow> datetime \<Rightarrow> lineage_algorithm list
     \<Rightarrow> artifact_ref list \<Rightarrow> artifact_ref list \<Rightarrow> exn + openlineage_envelope" where
  "build_openlineage candidate package run_id started_at completed_at algorithms input_refs output_refs =
     bindR (openlineage_inputs candidate input_refs) (\<lambda>inputs.
     bindR (openlineage_outputs candidate package output_refs) (\<lambda>outputs.
     bindR (validated openlineage_run_valid
       \<lparr>or_run_id = run_id, or_job_namespace = OPENLINEAGE_NAMESPACE, or_job_name = OPENLINEAGE_JOB_NAME,
        or_started_at = started_at, or_completed_at = completed_at,
        or_facets = [(''step_count'', JInt (int (length algorithms))),
          (''policy_version'', JStr (cp_method_policy_version (cv_policy_versions candidate))),
          (''decision_policy_version'', JStr (cp_decision_policy_version (cv_policy_versions candidate)))]\<rparr>) (\<lambda>run.
     validated openlineage_envelope_valid \<lparr>oe_run = run, oe_inputs = inputs, oe_outputs = outputs\<rparr>)))"

section \<open>The report\<close>

text \<open>The report, or the exception before anything is stored. An instant is never false, so \<open>or\<close> tests for None.\<close>

definition assemble_lineage :: "'s builder_env \<Rightarrow> 'f lineage_request \<Rightarrow> exn + lineage_report" where
  "assemble_lineage env request =
     (let candidate = lq_candidate_dataset_version request; lineage = cv_lineage candidate in
      case cv_action_plan_steps candidate of
        [] \<Rightarrow> Inl (lineage_error ''candidate_action_plan_steps_missing'')
      | primary_step # _ \<Rightarrow>
          bindR (build_algorithms (cv_action_plan_steps candidate)) (\<lambda>algorithms.
          bindR (validated lineage_policy_versions_valid (lineage_policies request)) (\<lambda>policy_versions.
          let output_hashes = resolve_output_hashes candidate (lq_export_package request) (lq_output_artifact_refs request);
              input_hashes = resolve_input_hashes candidate (lq_input_artifact_refs request);
              started_at = (case lq_job_started_at request of Some t \<Rightarrow> t | None \<Rightarrow> cv_proposed_at candidate);
              completed_at = (case lq_job_completed_at request of Some t \<Rightarrow> t
                | None \<Rightarrow> (case lq_export_package request of Some p \<Rightarrow> ex_created_at p | None \<Rightarrow> cv_proposed_at candidate))
          in bindR (build_openlineage candidate (lq_export_package request) (cl_created_by_job_id lineage) started_at completed_at algorithms
                 (lq_input_artifact_refs request) (lq_output_artifact_refs request)) (\<lambda>openlineage.
             validated lineage_report_valid
               \<lparr>lr_lineage_report_id = fresh_id (lq_lineage_report_id request) (''lineage_report_'' @ se_uuid env),
                lr_lineage_schema_version = LINEAGE_REPORT_SCHEMA_VERSION, lr_organization_id = lq_organization_id request,
                lr_project_id = lq_project_id request, lr_dataset_id = lq_dataset_id request,
                lr_parent_version_id = cl_parent_version_id lineage,
                lr_output_dataset_version_id = cl_proposed_version_name lineage, lr_job_id = cl_created_by_job_id lineage,
                lr_input_artifact_hashes = ordered_unique_hashes input_hashes,
                lr_output_artifact_hashes = ordered_unique_hashes output_hashes,
                lr_algorithm_name = cs_method_id primary_step, lr_algorithm_version = cs_plugin_version primary_step,
                lr_config_hash = cl_config_hash lineage,
                lr_policy_version = cp_method_policy_version (cv_policy_versions candidate),
                lr_random_seed = cs_random_seed primary_step, lr_action_plan_id = Some (cl_action_plan_id lineage),
                lr_decision_report_id = cl_decision_report_id lineage,
                lr_candidate_version_artifact = lq_candidate_version_artifact request,
                lr_export_package_artifact = lq_export_package_artifact request, lr_algorithms = algorithms,
                lr_policy_versions = policy_versions, lr_input_artifact_refs = lq_input_artifact_refs request,
                lr_output_artifact_refs = lq_output_artifact_refs request, lr_openlineage = openlineage,
                lr_created_at = (case lq_generated_at request of Some t \<Rightarrow> t | None \<Rightarrow> se_now env)\<rparr>))))"

definition lineage_metadata :: "'s builder_env \<Rightarrow> lineage_report \<Rightarrow> metadata" where
  "lineage_metadata env report =
     [(''lineage-report-id'', lr_lineage_report_id report), (''parent-version-id'', lr_parent_version_id report),
      (''output-version-id'', lr_output_dataset_version_id report), (''job-id'', lr_job_id report),
      (''algorithm-name'', lr_algorithm_name report), (''algorithm-version'', lr_algorithm_version report),
      (''input-artifact-count'', str_of_nat (length (lr_input_artifact_hashes report))),
      (''output-artifact-count'', str_of_nat (length (lr_output_artifact_hashes report))),
      (''created-at'', se_iso env (lr_created_at report))]"

section \<open>Audit events\<close>

definition opt_field :: "string \<Rightarrow> string option \<Rightarrow> (string \<times> json) list" where
  "opt_field key v = (case v of None \<Rightarrow> [] | Some s \<Rightarrow> [(key, JStr s)])"

definition lineage_audit_metadata :: "lineage_report \<Rightarrow> artifact_ref \<Rightarrow> json" where
  "lineage_audit_metadata report ref =
     JObj ([(''lineage_report_id'', JStr (lr_lineage_report_id report)), (''lineage_artifact_uri'', JStr (ar_uri ref)),
       (''lineage_artifact_hash'', JStr (ar_hash ref)), (''parent_version_id'', JStr (lr_parent_version_id report)),
       (''output_dataset_version_id'', JStr (lr_output_dataset_version_id report)), (''job_id'', JStr (lr_job_id report)),
       (''algorithm_name'', JStr (lr_algorithm_name report)), (''algorithm_version'', JStr (lr_algorithm_version report)),
       (''input_artifact_count'', JInt (int (length (lr_input_artifact_hashes report)))),
       (''output_artifact_count'', JInt (int (length (lr_output_artifact_hashes report)))),
       (''config_hash'', JStr (lr_config_hash report)), (''policy_version'', JStr (lr_policy_version report))]
     @ opt_field ''action_plan_id'' (lr_action_plan_id report) @ opt_field ''decision_report_id'' (lr_decision_report_id report))"

definition export_audit_metadata :: "export_package \<Rightarrow> artifact_ref option \<Rightarrow> artifact_ref \<Rightarrow> json" where
  "export_audit_metadata package package_ref lineage_ref =
     JObj ([(''export_package_id'', JStr (ex_export_package_id package)), (''export_status'', JStr (export_status_value (ex_status package))),
       (''version_id'', JStr (ex_version_id package)), (''source_version_id'', JStr (ex_source_version_id package)),
       (''lineage_artifact_uri'', JStr (ar_uri lineage_ref)), (''lineage_artifact_hash'', JStr (ar_hash lineage_ref)),
       (''included'', JInt (ec_included (ex_object_counts package))), (''blocked'', JInt (ec_blocked (ex_object_counts package))),
       (''excluded'', JInt (ec_excluded (ex_object_counts package))),
       (''blocker_reason_count'', JInt (int (length (ex_blocked_reason_codes package))))]
     @ (case package_ref of None \<Rightarrow> []
        | Some ref \<Rightarrow> [(''export_package_artifact_uri'', JStr (ar_uri ref)), (''export_package_artifact_hash'', JStr (ar_hash ref))]))"

definition emit_audit_event ::
    "'s builder_env \<Rightarrow> string \<Rightarrow> audit_event_type \<Rightarrow> 'f lineage_request \<Rightarrow> json \<Rightarrow> platform_client
     \<Rightarrow> (exn + platform_audit_event) \<times> platform_client" where
  "emit_audit_event env audit_uuid type request md cl =
     (let event = \<lparr>pa_audit_event_id = ''audit_'' @ audit_uuid, pa_event_type = type,
            pa_organization_id = lq_organization_id request, pa_project_id = lq_project_id request,
            pa_actor_service = ''dataforgeai-ml-service'', pa_occurred_at = se_now env, pa_metadata = md\<rparr>
      in if \<not> platform_audit_event_valid event then (Inl PydanticError, cl)
         else let (stored, cl') = record_audit_event event cl in (Inr stored, cl'))"

definition emit_lineage_event where
  "emit_lineage_event env audit_uuid request report ref =
     emit_audit_event env audit_uuid LINEAGE_REPORT_BUILT request (lineage_audit_metadata report ref)"

definition emit_export_event where
  "emit_export_event env audit_uuid request package package_ref lineage_ref =
     emit_audit_event env audit_uuid EXPORT_PACKAGE_BUILT request (export_audit_metadata package package_ref lineage_ref)"

text \<open>The events after the report was saved; \<open>lineage_uuid\<close> and \<open>export_uuid\<close> are the fresh identifiers drawn for them.\<close>

definition emit_lineage_events ::
    "'s builder_env \<Rightarrow> string \<Rightarrow> string \<Rightarrow> 'f lineage_request \<Rightarrow> lineage_report \<Rightarrow> artifact_ref \<Rightarrow> platform_client option
     \<Rightarrow> (exn + platform_audit_event list) \<times> platform_client option" where
  "emit_lineage_events env lineage_uuid export_uuid request report ref platform =
     (case platform of
        None \<Rightarrow> (Inr [], None)
      | Some cl \<Rightarrow>
          (case emit_lineage_event env lineage_uuid request report ref cl of
             (Inl e, cl') \<Rightarrow> (Inl e, Some cl')
           | (Inr event, cl') \<Rightarrow>
               (case lq_export_package request of
                  Some package \<Rightarrow>
                    if lq_emit_export_package_audit_event request
                    then (case emit_export_event env export_uuid request package (lq_export_package_artifact request) ref cl' of
                            (Inl e, cl'') \<Rightarrow> (Inl e, Some cl'')
                          | (Inr event', cl'') \<Rightarrow> (Inr [event, event'], Some cl''))
                    else (Inr [event], Some cl')
                | None \<Rightarrow> (Inr [event], Some cl'))))"

definition lineage_save_args :: "'s builder_env \<Rightarrow> (lineage_report \<Rightarrow> string) \<Rightarrow> 'f lineage_request \<Rightarrow> lineage_report \<Rightarrow> save_args" where
  "lineage_save_args env ser request report =
     \<lparr>sv_artifact_kind = LINEAGE_REPORT_KIND, sv_data = ser report, sv_artifact_format = ''json'',
      sv_media_type = ''application/json'', sv_schema_version = LINEAGE_REPORT_SCHEMA_VERSION,
      sv_dataset_version_id = lr_output_dataset_version_id report, sv_created_by_job_id = lq_created_by_job_id request,
      sv_config_hash = lq_config_hash request, sv_metadata = lineage_metadata env report\<rparr>"

definition build_lineage_report ::
    "'s builder_env \<Rightarrow> (lineage_report \<Rightarrow> string) \<Rightarrow> string \<Rightarrow> string \<Rightarrow> 'f lineage_request \<Rightarrow> 's \<times> platform_client option
     \<Rightarrow> (exn + (lineage_report \<times> registered_artifact \<times> platform_audit_event list)) \<times> 's \<times> platform_client option" where
  "build_lineage_report env ser lineage_uuid export_uuid request st =
     (case assemble_lineage env request of
        Inl e \<Rightarrow> (Inl e, st)
      | Inr report \<Rightarrow>
          (case registry_save env (lineage_save_args env ser request report) (fst st) of
             (Inl e, s') \<Rightarrow> (Inl e, (s', snd st))
           | (Inr artifact, s') \<Rightarrow>
               let (res, platform) = emit_lineage_events env lineage_uuid export_uuid request report (ra_artifact_ref artifact) (snd st)
               in (bindR res (\<lambda>events. Inr (report, artifact, events)), s', platform)))"

section \<open>What is assembled\<close>

lemma set_ordered_unique_hashes: "set (ordered_unique_hashes vs) = set vs - {[]}"
  by (auto simp: ordered_unique_hashes_def set_ordered_unique_present)

lemma distinct_ordered_unique_hashes: "distinct (ordered_unique_hashes vs)"
  by (simp add: ordered_unique_hashes_def distinct_ordered_unique_present)

lemma valid_ordered_unique_hashes: "list_all P vs \<Longrightarrow> list_all P (ordered_unique_hashes vs)"
  using set_ordered_unique_hashes by (auto simp: list_all_iff)

lemma digest_ne: "sha256_digest h \<Longrightarrow> h \<noteq> []"
  by (auto simp: sha256_digest_def)

lemma namespace_ne: "non_empty OPENLINEAGE_NAMESPACE" "non_empty OPENLINEAGE_JOB_NAME"
  by (simp_all add: non_empty_def OPENLINEAGE_NAMESPACE_def OPENLINEAGE_JOB_NAME_def)

lemma dataset_built: "non_empty name \<Longrightarrow> openlineage_dataset_of name facets
    = Inr \<lparr>od_namespace = OPENLINEAGE_NAMESPACE, od_name = name, od_facets = facets\<rparr>"
  by (simp add: openlineage_dataset_of_def openlineage_dataset_valid_def namespace_ne result_simps)

lemma dataset_built_valid: "openlineage_dataset_of name facets = Inr d \<Longrightarrow> openlineage_dataset_valid d"
  by (simp add: openlineage_dataset_of_def result_simps)

lemma ref_name_ne: "artifact_ref_valid ref \<Longrightarrow> non_empty (dataset_name_from_ref ref)"
  by (auto simp: artifact_ref_valid_def s3_uri_def dataset_name_from_ref_def non_empty_def)

lemma ref_datasets:
  assumes "list_all artifact_ref_valid refs"
  shows "\<exists>ds. mapR ref_dataset refs = Inr ds \<and> list_all openlineage_dataset_valid ds"
proof -
  have "is_ok (ref_dataset ref)" if "artifact_ref_valid ref" for ref
    by (simp add: ref_dataset_def dataset_built [OF ref_name_ne [OF that]])
  then have "is_ok (mapR ref_dataset refs)" using assms by (auto simp: mapR_is_ok list_all_iff)
  then obtain ds where ds: "mapR ref_dataset refs = Inr ds" by (auto simp: is_ok_iff)
  have "openlineage_dataset_valid d" if "d \<in> set ds" for d
    using mapR_Inr_in_set [OF ds that] dataset_built_valid unfolding ref_dataset_def by blast
  then show ?thesis using ds by (auto simp: list_all_iff)
qed

lemma inputs_built:
  assumes "candidate_lineage_valid (cv_lineage candidate)" "list_all artifact_ref_valid refs"
  shows "\<exists>ds. openlineage_inputs candidate refs = Inr ds \<and> list_all openlineage_dataset_valid ds"
proof (cases "refs = []")
  case True
  have "non_empty (cl_parent_version_id (cv_lineage candidate))" using assms(1) by (simp add: candidate_lineage_valid_def)
  then show ?thesis using True by (simp add: openlineage_inputs_def dataset_built openlineage_dataset_valid_def namespace_ne)
qed (use ref_datasets [OF assms(2)] in \<open>simp add: openlineage_inputs_def\<close>)

lemma outputs_built:
  assumes "candidate_lineage_valid (cv_lineage candidate)" "opt_ok export_package_valid package" "list_all artifact_ref_valid refs"
  shows "\<exists>ds. openlineage_outputs candidate package refs = Inr ds \<and> list_all openlineage_dataset_valid ds"
proof -
  have "non_empty (cl_proposed_version_name (cv_lineage candidate))" using assms(1) by (simp add: candidate_lineage_valid_def)
  then obtain c where c: "candidate_output candidate = Inr c" "openlineage_dataset_valid c"
    by (simp add: candidate_output_def dataset_built openlineage_dataset_valid_def namespace_ne)
  have "\<exists>ps. (case package of None \<Rightarrow> Inr [] | Some p \<Rightarrow> bindR (package_output p) (\<lambda>d. Inr [d])) = Inr ps \<and> list_all openlineage_dataset_valid ps"
  proof (cases package)
    case (Some p)
    then have "non_empty (ex_export_package_id p)" using assms(2) by (simp add: export_package_valid_def)
    then show ?thesis using Some by (simp add: package_output_def dataset_built openlineage_dataset_valid_def namespace_ne)
  qed simp
  then show ?thesis using c ref_datasets [OF assms(3)] by (auto simp: openlineage_outputs_def)
qed

lemma algorithms_built:
  assumes "list_all candidate_step_summary_valid steps"
  shows "build_algorithms steps = Inr (map build_algorithm steps) \<and> list_all lineage_algorithm_valid (map build_algorithm steps)"
proof -
  have "lineage_algorithm_valid (build_algorithm s)" if "s \<in> set steps" for s
    using assms that by (auto simp: list_all_iff candidate_step_summary_valid_def lineage_algorithm_valid_def build_algorithm_def)
  then show ?thesis unfolding build_algorithms_def by (auto simp: list_all_iff intro!: mapR_all_ok)
qed

lemma lineage_fields:
  assumes "assemble_lineage env request = Inr r"
  shows "lr_input_artifact_hashes r = ordered_unique_hashes
      (resolve_input_hashes (lq_candidate_dataset_version request) (lq_input_artifact_refs request))"
    "lr_output_artifact_hashes r = ordered_unique_hashes
      (resolve_output_hashes (lq_candidate_dataset_version request) (lq_export_package request) (lq_output_artifact_refs request))"
    "build_algorithms (cv_action_plan_steps (lq_candidate_dataset_version request)) = Inr (lr_algorithms r)"
    "cv_action_plan_steps (lq_candidate_dataset_version request) \<noteq> []" "lineage_report_valid r"
  using assms by (auto simp: assemble_lineage_def Let_def result_simps split: list.splits)

lemma ref_hashes: "list_all artifact_ref_valid refs \<Longrightarrow> list_all sha256_digest (map ar_hash refs)"
  by (auto simp: list_all_iff artifact_ref_valid_def)

lemma hashes_valid:
  assumes "lineage_request_valid fl request"
  shows "list_all sha256_digest (resolve_input_hashes (lq_candidate_dataset_version request) (lq_input_artifact_refs request))"
    "list_all sha256_digest (resolve_output_hashes (lq_candidate_dataset_version request) (lq_export_package request) (lq_output_artifact_refs request))"
proof -
  let ?l = "cv_lineage (lq_candidate_dataset_version request)"
  have "list_all sha256_digest (cl_input_artifact_hashes ?l)" "list_all sha256_digest (cl_output_artifact_hashes ?l)"
    and refs: "list_all artifact_ref_valid (lq_input_artifact_refs request)" "list_all artifact_ref_valid (lq_output_artifact_refs request)"
    and package: "opt_ok export_package_valid (lq_export_package request)"
    using assms by (simp_all add: lineage_request_valid_def candidate_version_valid_def candidate_lineage_valid_def)
  moreover have "list_all sha256_digest (case lq_export_package request of None \<Rightarrow> [] | Some p \<Rightarrow> map ar_hash (ex_artifacts p))"
    using package by (cases "lq_export_package request") (use ref_hashes in \<open>auto simp: export_package_valid_def\<close>)
  ultimately show "list_all sha256_digest (resolve_input_hashes (lq_candidate_dataset_version request) (lq_input_artifact_refs request))"
    "list_all sha256_digest (resolve_output_hashes (lq_candidate_dataset_version request) (lq_export_package request) (lq_output_artifact_refs request))"
    using ref_hashes [OF refs(1)] ref_hashes [OF refs(2)] by (simp_all add: resolve_input_hashes_def resolve_output_hashes_def)
qed

lemma lineage_total:
  assumes valid: "lineage_request_valid fl request" and steps: "cv_action_plan_steps (lq_candidate_dataset_version request) \<noteq> []"
  shows "\<exists>r. assemble_lineage env request = Inr r"
proof -
  obtain s ss where Cons: "cv_action_plan_steps (lq_candidate_dataset_version request) = s # ss" using steps by (cases "cv_action_plan_steps (lq_candidate_dataset_version request)") auto
  let ?c = "lq_candidate_dataset_version request"
  have c: "candidate_lineage_valid (cv_lineage ?c)" "candidate_policy_versions_valid (cv_policy_versions ?c)"
    "list_all candidate_step_summary_valid (cv_action_plan_steps ?c)"
    and refs: "list_all artifact_ref_valid (lq_input_artifact_refs request)" "list_all artifact_ref_valid (lq_output_artifact_refs request)"
    and package: "opt_ok export_package_valid (lq_export_package request)"
    using valid by (simp_all add: lineage_request_valid_def candidate_version_valid_def)
  obtain ins outs where io: "openlineage_inputs ?c (lq_input_artifact_refs request) = Inr ins" "list_all openlineage_dataset_valid ins"
    "openlineage_outputs ?c (lq_export_package request) (lq_output_artifact_refs request) = Inr outs" "list_all openlineage_dataset_valid outs"
    using inputs_built [OF c(1) refs(1)] outputs_built [OF c(1) package refs(2)] by blast
  have policies: "lineage_policy_versions_valid (lineage_policies request)"
    using valid c(2)
    by (simp add: lineage_policy_versions_valid_def lineage_policies_def Let_def lineage_request_valid_def candidate_policy_versions_valid_def)
  have run: "non_empty (cl_created_by_job_id (cv_lineage ?c))" using c(1) by (simp add: candidate_lineage_valid_def)
  then have env: "\<exists>e. build_openlineage ?c (lq_export_package request) (cl_created_by_job_id (cv_lineage ?c)) t1 t2 algs
      (lq_input_artifact_refs request) (lq_output_artifact_refs request) = Inr e \<and> openlineage_envelope_valid e" for t1 t2 algs
    using io namespace_ne by (simp add: build_openlineage_def openlineage_run_valid_def openlineage_envelope_valid_def)
  have id: "non_empty (fresh_id i (''lineage_report_'' @ x))" for i x by (simp add: fresh_id_def non_empty_def split: option.splits)
  have step: "candidate_step_summary_valid s" using c(3) Cons by simp
  show ?thesis
    using Cons policies algorithms_built [OF c(3)] valid c(1,2) step id
      env [of "case lq_job_started_at request of Some t \<Rightarrow> t | None \<Rightarrow> cv_proposed_at ?c"
              "case lq_job_completed_at request of Some t \<Rightarrow> t
               | None \<Rightarrow> (case lq_export_package request of Some p \<Rightarrow> ex_created_at p | None \<Rightarrow> cv_proposed_at ?c)"
              "map build_algorithm (cv_action_plan_steps ?c)"]
      valid_ordered_unique_hashes [OF hashes_valid(1) [OF valid]] valid_ordered_unique_hashes [OF hashes_valid(2) [OF valid]]
    by (auto simp: assemble_lineage_def Let_def lineage_report_valid_def lineage_request_valid_def candidate_lineage_valid_def
        candidate_policy_versions_valid_def candidate_step_summary_valid_def LINEAGE_REPORT_SCHEMA_VERSION_def
        non_empty_def [of "''lineage_report.v1''"])
qed

section \<open>Properties\<close>

text \<open>C18: The lineage builder is total on well-typed requests: it either returns a report that satisfies every constraint of its
  contract, nested envelope included, or raises its own typed error, and it raises exactly when the candidate has no step.\<close>

theorem lineage_well_formed:
  assumes valid: "lineage_request_valid fl request"
  shows "case assemble_lineage env request of
      Inl e \<Rightarrow> cv_action_plan_steps (lq_candidate_dataset_version request) = [] \<and> e = lineage_error ''candidate_action_plan_steps_missing''
    | Inr r \<Rightarrow> cv_action_plan_steps (lq_candidate_dataset_version request) \<noteq> [] \<and> lineage_report_valid r"
proof (cases "cv_action_plan_steps (lq_candidate_dataset_version request) = []")
  case True
  then show ?thesis by (simp add: assemble_lineage_def)
next
  case False
  then show ?thesis using lineage_total [OF valid False, of env] lineage_fields(5) [of env request] by auto
qed

text \<open>C16: The report links a candidate to everything it was made of: for a candidate built by the candidate builder and no
  explicit references, the input hashes are exactly those of the source artifacts of the request, the output hashes exactly
  those of its candidate artifacts and of the artifacts of the export package, each once, and the algorithms list the steps
  of the approved plan in order.\<close>

theorem lineage_covers_candidate:
  assumes candidate: "assemble_candidate env fl creq = Inr v" "candidate_request_valid fl creq"
    and lineage: "assemble_lineage env' request = Inr r" "lineage_request_valid fl request"
    and "lq_candidate_dataset_version request = v" "lq_input_artifact_refs request = []" "lq_output_artifact_refs request = []"
  shows "distinct (lr_input_artifact_hashes r) \<and> distinct (lr_output_artifact_hashes r)
    \<and> set (lr_input_artifact_hashes r) = ar_hash ` set (cr_source_artifacts creq)
    \<and> set (lr_output_artifact_hashes r) = ar_hash ` set (cr_candidate_artifacts creq)
        \<union> (case lq_export_package request of None \<Rightarrow> {} | Some p \<Rightarrow> ar_hash ` set (ex_artifacts p))
    \<and> map la_step_id (lr_algorithms r) = map ps_step_id (ap_steps (cr_action_plan creq))
    \<and> map la_config_hash (lr_algorithms r) = map ps_config_hash (ap_steps (cr_action_plan creq))"
proof -
  note fields = lineage_fields [OF lineage(1)]
  have l: "cv_lineage v = candidate_lineage_of creq" by (rule assemble_fields(5) [OF candidate(1)])
  have steps: "summarize_steps (cr_action_plan creq) = Inr (cv_action_plan_steps v)"
    using candidate(1) by (auto simp: assemble_candidate_def Let_def result_simps split: prod.splits)
  have nonempty: "[] \<notin> set (resolve_input_hashes v [])" "[] \<notin> set (resolve_output_hashes v (lq_export_package request) [])"
    using hashes_valid [OF lineage(2)] digest_ne assms(5-7) by (auto simp: list_all_iff)
  have "set (resolve_input_hashes v []) = ar_hash ` set (cr_source_artifacts creq)"
    by (simp add: resolve_input_hashes_def l candidate_lineage_of_def)
  moreover have "set (cl_output_artifact_hashes (candidate_lineage_of creq)) = ar_hash ` set (cr_candidate_artifacts creq)"
    using candidate(2)
    by (auto simp: candidate_lineage_of_def set_ordered_unique_present candidate_request_valid_def list_all_iff artifact_ref_valid_def
        dest: digest_ne)
  then have "set (resolve_output_hashes v (lq_export_package request) []) = ar_hash ` set (cr_candidate_artifacts creq)
        \<union> (case lq_export_package request of None \<Rightarrow> {} | Some p \<Rightarrow> ar_hash ` set (ex_artifacts p))"
    by (simp add: resolve_output_hashes_def l split: option.splits)
  moreover have "cv_action_plan_steps v = map summarize_step (ap_steps (cr_action_plan creq))"
    using steps by (auto simp: summarize_steps_def mapR_Inr_iff result_simps list_all2_conv_all_nth intro: nth_equalityI)
  moreover have "lr_algorithms r = map build_algorithm (cv_action_plan_steps v)"
    using fields(3) assms(5)
    by (auto simp: build_algorithms_def mapR_Inr_iff result_simps list_all2_conv_all_nth intro: nth_equalityI)
  ultimately show ?thesis
    using nonempty assms(5-7)
    by (simp add: fields(1,2) set_ordered_unique_hashes distinct_ordered_unique_hashes build_algorithm_def summarize_step_def)
qed

lemma emit_audit_valid:
  assumes "non_empty (lq_organization_id request)" "non_empty (lq_project_id request)"
  shows "\<exists>e cl'. emit_audit_event env u t request md cl = (Inr e, cl') \<and> pc_audit_events cl' = pc_audit_events cl @ [e]
    \<and> pa_event_type e = t \<and> pa_metadata e = redact_metadata md \<and> metadata_clean (pa_metadata e)"
  using assms by (simp add: emit_audit_event_def Let_def platform_audit_event_valid_def client_ops redacted_audit_event_def
      redact_metadata_clean non_empty_def)

text \<open>C17: The audit trail of a lineage build: when it raises on a well-typed request, no event was recorded; when it returns, the
  report was saved and the client holds exactly its events more - one that the report was built, carrying the hash of the
  stored artifact, then, exactly when a package was given and its event is wanted, one that the package was built - all redacted.\<close>

theorem lineage_audit_trail:
  assumes "build_lineage_report env ser u1 u2 request (s, Some cl) = (res, s', platform)"
    and valid: "lineage_request_valid fl request"
  shows "case res of
      Inl e \<Rightarrow> platform = Some cl
    | Inr (report, artifact, events) \<Rightarrow> registry_save env (lineage_save_args env ser request report) s = (Inr artifact, s')
        \<and> (\<exists>cl'. platform = Some cl' \<and> pc_audit_events cl' = pc_audit_events cl @ events)
        \<and> map pa_event_type events = LINEAGE_REPORT_BUILT
            # (if lq_export_package request \<noteq> None \<and> lq_emit_export_package_audit_event request then [EXPORT_PACKAGE_BUILT] else [])
        \<and> pa_metadata (hd events) = redact_metadata (lineage_audit_metadata report (ra_artifact_ref artifact))
        \<and> list_all (\<lambda>e. metadata_clean (pa_metadata e)) events"
proof (cases "assemble_lineage env request")
  case (Inl e)
  then show ?thesis using assms(1) by (auto simp: build_lineage_report_def)
next
  case (Inr report)
  have ids: "non_empty (lq_organization_id request)" "non_empty (lq_project_id request)" using valid by (simp_all add: lineage_request_valid_def)
  obtain rs s1 where save: "registry_save env (lineage_save_args env ser request report) s = (rs, s1)" by (rule prod.exhaust)
  show ?thesis
  proof (cases rs)
    case (Inl e)
    then show ?thesis using assms(1) save \<open>assemble_lineage env request = Inr report\<close> by (auto simp: build_lineage_report_def)
  next
    case (Inr artifact)
    let ?ref = "ra_artifact_ref artifact"
    obtain e cl1 where e: "emit_lineage_event env u1 request report ?ref cl = (Inr e, cl1)" "pc_audit_events cl1 = pc_audit_events cl @ [e]"
      "pa_event_type e = LINEAGE_REPORT_BUILT" "pa_metadata e = redact_metadata (lineage_audit_metadata report ?ref)" "metadata_clean (pa_metadata e)"
      using emit_audit_valid [OF ids] unfolding emit_lineage_event_def by blast
    have "\<exists>es cl2. emit_lineage_events env u1 u2 request report ?ref (Some cl) = (Inr (e # es), Some cl2)
        \<and> pc_audit_events cl2 = pc_audit_events cl @ e # es \<and> list_all (\<lambda>e. metadata_clean (pa_metadata e)) es
        \<and> map pa_event_type es = (if lq_export_package request \<noteq> None \<and> lq_emit_export_package_audit_event request then [EXPORT_PACKAGE_BUILT] else [])"
    proof (cases "lq_export_package request")
      case (Some p)
      obtain e' cl2 where "emit_export_event env u2 request p (lq_export_package_artifact request) ?ref cl1 = (Inr e', cl2)"
        "pc_audit_events cl2 = pc_audit_events cl1 @ [e']" "pa_event_type e' = EXPORT_PACKAGE_BUILT" "metadata_clean (pa_metadata e')"
        using emit_audit_valid [OF ids] unfolding emit_export_event_def by blast
      then show ?thesis using e Some by (simp add: emit_lineage_events_def)
    qed (use e in \<open>simp add: emit_lineage_events_def\<close>)
    then show ?thesis
      using assms(1) save Inr e \<open>assemble_lineage env request = Inr report\<close> by (auto simp: build_lineage_report_def)
  qed
qed

section \<open>Witnesses\<close>

definition sample_step_summary :: candidate_step_summary where
  "sample_step_summary =
     \<lparr>cs_step_id = ''s1'', cs_step_type = ''IMPUTE_MISSING_VALUES'', cs_method_id = ''median'', cs_plugin_id = ''p'', cs_plugin_version = ''1'',
      cs_config_hash = sha256_of toy_sha [], cs_output_artifact_kind = ''csv'', cs_random_seed = None\<rparr>"

definition sample_lineage_request :: "rat candidate_version \<Rightarrow> rat lineage_request" where
  "sample_lineage_request v =
     \<lparr>lq_organization_id = ''o'', lq_project_id = ''p'', lq_dataset_id = ''d'', lq_candidate_dataset_version = v,
      lq_candidate_version_artifact = None, lq_export_package = None, lq_export_package_artifact = None, lq_input_artifact_refs = [],
      lq_output_artifact_refs = [], lq_privacy_policy_version = None, lq_export_policy_version = None, lq_job_started_at = None,
      lq_job_completed_at = None, lq_created_by_job_id = ''j'', lq_config_hash = sha256_of toy_sha [], lq_lineage_report_id = None,
      lq_generated_at = None, lq_emit_export_package_audit_event = True\<rparr>"

lemma sample_lineage_valid: "candidate_version_valid rat_floats v \<Longrightarrow> lineage_request_valid rat_floats (sample_lineage_request v)"
  by (simp add: lineage_request_valid_def sample_lineage_request_def non_empty_def)

definition sample_stepped :: "rat candidate_version" where
  "sample_stepped = sample_proposed\<lparr>cv_action_plan_steps := [sample_step_summary]\<rparr>"

lemma sample_stepped_valid: "candidate_version_valid rat_floats sample_stepped"
  using sample_proposed_ok(1)
  by (simp add: candidate_version_valid_def sample_stepped_def sample_step_summary_def candidate_step_summary_valid_def non_empty_def)

theorem lineage_well_formed_witness:
  "\<exists>r. assemble_lineage sample_env (sample_lineage_request sample_stepped) = Inr r \<and> lineage_report_valid r"
  using lineage_well_formed [OF sample_lineage_valid [OF sample_stepped_valid], of sample_env]
  by (auto simp: sample_lineage_request_def sample_stepped_def split: sum.splits)

lemma sample_lineage:
  obtains r where "assemble_lineage sample_env (sample_lineage_request sample_stepped) = Inr r"
  using lineage_total [OF sample_lineage_valid [OF sample_stepped_valid], of sample_env]
  by (auto simp: sample_lineage_request_def sample_stepped_def)

theorem lineage_audit_trail_witness:
  "\<exists>res s' cl'. build_lineage_report sample_env (\<lambda>_. ''l'') ''a'' ''b'' (sample_lineage_request sample_stepped) (sample_store [] [], Some new_platform_client)
      = (Inr res, s', Some cl') \<and> map pa_event_type (pc_audit_events cl') = [LINEAGE_REPORT_BUILT]"
proof -
  let ?q = "sample_lineage_request sample_stepped"
  obtain r where r: "assemble_lineage sample_env ?q = Inr r" by (rule sample_lineage)
  let ?args = "lineage_save_args sample_env (\<lambda>_. ''l'') ?q r"
  let ?n = "\<lparr>sn_kind = ''lineage_report'', sn_format = ''json'', sn_schema = ''lineage_report.v1'', sn_version = ''cv'', sn_job = ''j''\<rparr>"
  have "lr_output_dataset_version_id r = ''cv''"
    using r sample_proposed_ok(2)
    by (auto simp: assemble_lineage_def Let_def result_simps sample_lineage_request_def sample_stepped_def split: list.splits)
  then have n: "save_names_of ?args = Inr ?n"
    by (simp add: save_names_of_def lineage_save_args_def good_safe LINEAGE_REPORT_KIND_def LINEAGE_REPORT_SCHEMA_VERSION_def
        sample_lineage_request_def good_component_def component_char_def)
  have "sha256_digest (sv_config_hash ?args)" "sv_media_type ?args \<noteq> []"
    using hex64_toy_sha by (simp_all add: lineage_save_args_def sample_lineage_request_def)
  with memory_save_ok [OF n sample_adapter_ok sample_address_free hex64_toy_sha]
  have "\<exists>a s'. registry_save sample_env ?args (sample_store [] []) = (Inr a, s')"
    by (simp add: registry_save_def sample_env_def)
  then obtain a s' where save: "registry_save sample_env ?args (sample_store [] []) = (Inr a, s')" by blast
  have ids: "non_empty (lq_organization_id ?q)" "non_empty (lq_project_id ?q)" by (simp_all add: sample_lineage_request_def non_empty_def)
  obtain e cl1 where "emit_lineage_event sample_env ''a'' ?q r (ra_artifact_ref a) new_platform_client = (Inr e, cl1)"
    using emit_audit_valid [OF ids] unfolding emit_lineage_event_def by blast
  then have run: "build_lineage_report sample_env (\<lambda>_. ''l'') ''a'' ''b'' ?q (sample_store [] [], Some new_platform_client)
      = (Inr (r, a, [e]), s', Some cl1)"
    using r save by (simp add: build_lineage_report_def emit_lineage_events_def) (simp add: sample_lineage_request_def)
  then show ?thesis
    using lineage_audit_trail [OF run sample_lineage_valid [OF sample_stepped_valid]]
    by (auto simp: new_platform_client_def sample_lineage_request_def)
qed

definition sample_planned_request :: "rat candidate_request" where
  "sample_planned_request = (sample_candidate_request None)\<lparr>cr_action_plan := sample_plan\<rparr>"

theorem lineage_covers_candidate_witness:
  "\<exists>v r. assemble_candidate sample_env rat_floats sample_planned_request = Inr v
    \<and> assemble_lineage sample_env (sample_lineage_request v) = Inr r
    \<and> set (lr_input_artifact_hashes r) = {ar_hash (sample_ref ''s'' [])} \<and> set (lr_output_artifact_hashes r) = {ar_hash (sample_ref ''c'' [])}
    \<and> length (lr_algorithms r) = 2"
proof -
  have plan: "action_plan_valid sample_plan" "length (ap_steps sample_plan) = 2"
    using build_preview_Inr [OF sample_plan] by (auto simp: selected_for_def sample_defs dest!: list_all2_lengthD map_eq_imp_length_eq)
  then have valid: "candidate_request_valid rat_floats sample_planned_request"
    using sample_candidate_request_valid [of None] by (simp add: candidate_request_valid_def sample_planned_request_def sample_candidate_request_def)
  have "synthetic_ready sample_planned_request" by (simp add: synthetic_ready_def sample_planned_request_def sample_candidate_request_def)
  with assemble_iff [OF valid, of sample_env] obtain v where v: "assemble_candidate sample_env rat_floats sample_planned_request = Inr v"
    "candidate_version_valid rat_floats v" by (auto split: sum.splits)
  have "cv_action_plan_steps v = map summarize_step (ap_steps sample_plan)"
    using v(1) by (auto simp: assemble_candidate_def Let_def result_simps summarize_steps_def mapR_Inr_iff list_all2_conv_all_nth
        sample_planned_request_def split: prod.splits intro: nth_equalityI)
  then have "cv_action_plan_steps v \<noteq> []" using plan(2) by auto
  then obtain r where r: "assemble_lineage sample_env (sample_lineage_request v) = Inr r"
    using lineage_total [OF sample_lineage_valid [OF v(2)], of sample_env] by (auto simp: sample_lineage_request_def)
  have "length (lr_algorithms r) = 2 \<longleftrightarrow> length (map la_step_id (lr_algorithms r)) = 2" by simp
  moreover have "lq_candidate_dataset_version (sample_lineage_request v) = v" "lq_input_artifact_refs (sample_lineage_request v) = []"
    "lq_output_artifact_refs (sample_lineage_request v) = []" by (simp_all add: sample_lineage_request_def)
  ultimately show ?thesis
    using v(1) r plan(2) lineage_covers_candidate [OF v(1) valid r sample_lineage_valid [OF v(2)]]
    by (simp add: sample_planned_request_def sample_candidate_request_def sample_lineage_request_def)
qed

end
