(* ===== verification/TabularExport.thy ===== *)
theory TabularExport
  imports ApplyRuntime Leakage
begin

text \<open>
  The tabular export writer of \<open>src/app/plugins/export/tabular_writer.py\<close>: the candidate is read with \<open>csv.reader\<close>, blocked
  objects are left out, and the rows are stored as Parquet and CSV, for the whole table and for every split. Parquet is the
  third-party encoder \<open>parquet\<close> of typed columns, which may raise; \<open>enc\<close> is UTF-8.
\<close>

section \<open>Requests and results\<close>

definition TABULAR_EXPORT_PARQUET_KIND :: string where
  "TABULAR_EXPORT_PARQUET_KIND = ''tabular_export_parquet''"

definition TABULAR_EXPORT_CSV_KIND :: string where
  "TABULAR_EXPORT_CSV_KIND = ''tabular_export_csv''"

definition TABULAR_EXPORT_SCHEMA_VERSION :: string where
  "TABULAR_EXPORT_SCHEMA_VERSION = ''tabular_export.v1''"

definition tabular_error :: "string \<Rightarrow> exn" where
  "tabular_error reason = Raised ''TabularExportWriterError'' reason INVALID_JOB_PAYLOAD 0"

record 'f tabular_request =
  tq_dataset_id :: string
  tq_candidate_dataset_version_id :: string
  tq_source_artifact :: artifact_ref
  tq_split_manifest :: "'f split_manifest option"
  tq_split_manifest_artifact :: "artifact_ref option"
  tq_blocked_object_ids :: "string list"
  tq_write_csv :: bool
  tq_write_per_split :: bool
  tq_object_id_column :: string
  tq_created_by_job_id :: string
  tq_config_hash :: string
  tq_export_name_prefix :: string
  tq_generated_at :: "datetime option"

definition tabular_request_valid :: "'f tabular_request \<Rightarrow> bool" where
  "tabular_request_valid r \<longleftrightarrow>
     list_all non_empty [tq_dataset_id r, tq_candidate_dataset_version_id r, tq_object_id_column r, tq_created_by_job_id r,
       tq_export_name_prefix r]
     \<and> artifact_ref_valid (tq_source_artifact r) \<and> opt_ok artifact_ref_valid (tq_split_manifest_artifact r)
     \<and> list_all non_empty (tq_blocked_object_ids r) \<and> sha256_digest (tq_config_hash r)"

record per_split_artifact =
  pt_split :: data_split
  pt_parquet_artifact :: registered_artifact
  pt_csv_artifact :: "registered_artifact option"
  pt_row_count :: nat

record tabular_artifacts =
  ta_parquet_artifact :: registered_artifact
  ta_csv_artifact :: "registered_artifact option"
  ta_per_split :: "per_split_artifact list"
  ta_split_manifest_artifact :: "artifact_ref option"
  ta_columns :: "string list"
  ta_included_row_count :: nat
  ta_excluded_blocked_count :: nat

definition all_artifact_refs :: "tabular_artifacts \<Rightarrow> artifact_ref list" where
  "all_artifact_refs a =
     ra_artifact_ref (ta_parquet_artifact a) # map ra_artifact_ref (opt_list (ta_csv_artifact a)) @ opt_list (ta_split_manifest_artifact a)
     @ concat (map (\<lambda>e. ra_artifact_ref (pt_parquet_artifact e) # map ra_artifact_ref (opt_list (pt_csv_artifact e))) (ta_per_split a))"

section \<open>Reading the candidate\<close>

text \<open>A blank line is a record without fields, hence a row without cells; a missing header is an empty tuple.\<close>

definition tabular_rows :: "string \<Rightarrow> exn + (csv_row list \<times> string list)" where
  "tabular_rows t =
     (let records = csv_records t; columns = (case records of [] \<Rightarrow> [] | h # _ \<Rightarrow> h) in
      if \<not> list_all fields_fit records then Inl (Other ''Error'')
      else if columns = [] then Inl (tabular_error ''empty_tabular_source'')
      else Inr (map (\<lambda>raw. dict_of (zip columns raw)) (tl records), columns))"

definition read_candidate_rows :: "'s builder_env \<Rightarrow> artifact_ref \<Rightarrow> 's \<Rightarrow> exn + (csv_row list \<times> string list)" where
  "read_candidate_rows env artifact st =
     bindR (storage_get env (ar_uri artifact) st) (\<lambda>(data, info).
     case se_decode env data of None \<Rightarrow> Inl (Other ''UnicodeDecodeError'') | Some t \<Rightarrow> tabular_rows t)"

section \<open>Typed columns\<close>

text \<open>
  \<open>int()\<close> of an ASCII text: surrounding white space, a sign, digits that single underscores may separate, at most 4300 of them.
\<close>

fun int_digits :: "bool \<Rightarrow> nat \<Rightarrow> string \<Rightarrow> nat option" where
  "int_digits after_digit acc [] = (if after_digit then Some acc else None)"
| "int_digits after_digit acc (c # cs) =
     (if is_digit c then int_digits True (10 * acc + (code c - 48)) cs
      else if c = CHR ''_'' \<and> after_digit then int_digits False acc cs
      else None)"

definition int_of_text :: "string \<Rightarrow> int option" where
  "int_of_text s =
     (let t = strip s; (negative, ds) = (case t of
         c # cs \<Rightarrow> if c = CHR ''-'' then (True, cs) else if c = CHR ''+'' then (False, cs) else (False, t) | [] \<Rightarrow> (False, [])) in
      if 4300 < length (filter is_digit ds) then None
      else map_option (\<lambda>n. if negative then - int n else int n) (int_digits False 0 ds))"

datatype 'f column_values = Int_column "int option list" | Float_column "'f option list" | Text_column "string option list"

text \<open>The loop that parses the cleaned values, None as soon as one does not parse.\<close>

fun parse_cells :: "(string \<Rightarrow> 'a option) \<Rightarrow> string option list \<Rightarrow> 'a option list option" where
  "parse_cells parse [] = Some []"
| "parse_cells parse (None # vs) = map_option (\<lambda>rest. None # rest) (parse_cells parse vs)"
| "parse_cells parse (Some v # vs) =
     (case parse v of None \<Rightarrow> None | Some x \<Rightarrow> map_option (\<lambda>rest. Some x # rest) (parse_cells parse vs))"

definition coerce_column_values :: "'f float_ops \<Rightarrow> string list \<Rightarrow> 'f column_values" where
  "coerce_column_values fl raw =
     (let cleaned = map (\<lambda>v. if v = [] then None else Some v) raw in
      if list_all (\<lambda>v. v = None) cleaned then Text_column cleaned
      else case parse_cells int_of_text cleaned of
             Some ints \<Rightarrow> Int_column ints
           | None \<Rightarrow> (case parse_cells (fl_of_str fl) cleaned of Some floats \<Rightarrow> Float_column floats | None \<Rightarrow> Text_column cleaned))"

text \<open>The columns are a dictionary, so a repeated name is one column.\<close>

definition rows_to_arrow :: "'f float_ops \<Rightarrow> csv_row list \<Rightarrow> string list \<Rightarrow> (string, 'f column_values) dict" where
  "rows_to_arrow fl rows columns =
     map (\<lambda>column. (column, coerce_column_values fl (map (\<lambda>row. row_get row column) rows))) (fromkeys columns)"

section \<open>Writing\<close>

text \<open>\<open>csv.DictWriter\<close> with its default terminator, a carriage return and a line feed, both of which are then quoted in a field.\<close>

definition export_record :: "string list \<Rightarrow> string" where
  "export_record fs = (if fs = [[]] then quoted [] else join [comma] (map (written_field True) fs)) @ [CR, LF]"

definition export_csv :: "csv_row list \<Rightarrow> string list \<Rightarrow> string" where
  "export_csv rows columns = concat (map export_record (columns # map (\<lambda>row. map (row_get row) columns) rows))"

definition artifact_metadata :: "'s builder_env \<Rightarrow> 'f tabular_request \<Rightarrow> data_split option \<Rightarrow> nat \<Rightarrow> string list \<Rightarrow> string \<Rightarrow> metadata" where
  "artifact_metadata env request split row_count columns artifact_format =
     [(''export-name'', tq_export_name_prefix request), (''row-count'', str_of_nat row_count),
      (''column-count'', str_of_nat (length columns)), (''source-artifact-hash'', ar_hash (tq_source_artifact request)),
      (''candidate-version-id'', tq_candidate_dataset_version_id request), (''artifact-format'', artifact_format)]
     @ (case tq_generated_at request of None \<Rightarrow> [] | Some t \<Rightarrow> [(''created-at'', se_iso env t)])
     @ [(''split'', case split of None \<Rightarrow> ''all'' | Some s \<Rightarrow> data_split_value s)]"

definition tabular_save_args ::
    "'s builder_env \<Rightarrow> string \<Rightarrow> string \<Rightarrow> string \<Rightarrow> csv_row list \<Rightarrow> string list \<Rightarrow> data_split option \<Rightarrow> 'f tabular_request \<Rightarrow> string \<Rightarrow> save_args" where
  "tabular_save_args env kind fmt media rows columns split request payload =
     \<lparr>sv_artifact_kind = kind, sv_data = payload, sv_artifact_format = fmt, sv_media_type = media,
      sv_schema_version = TABULAR_EXPORT_SCHEMA_VERSION, sv_dataset_version_id = tq_candidate_dataset_version_id request,
      sv_created_by_job_id = tq_created_by_job_id request, sv_config_hash = tq_config_hash request,
      sv_metadata = artifact_metadata env request split (length rows) columns fmt\<rparr>"

definition persist_parquet ::
    "'s builder_env \<Rightarrow> 'f float_ops \<Rightarrow> ((string, 'f column_values) dict \<Rightarrow> exn + string) \<Rightarrow> csv_row list \<Rightarrow> string list \<Rightarrow> data_split option
     \<Rightarrow> 'f tabular_request \<Rightarrow> 's \<Rightarrow> (exn + registered_artifact) \<times> 's" where
  "persist_parquet env fl parquet rows columns split request =
     bindS (liftS (parquet (rows_to_arrow fl rows columns))) (\<lambda>payload.
     registry_save env (tabular_save_args env TABULAR_EXPORT_PARQUET_KIND ''parquet'' ''application/x-parquet'' rows columns split request payload))"

definition persist_csv ::
    "'s builder_env \<Rightarrow> (string \<Rightarrow> string) \<Rightarrow> csv_row list \<Rightarrow> string list \<Rightarrow> data_split option \<Rightarrow> 'f tabular_request
     \<Rightarrow> 's \<Rightarrow> (exn + registered_artifact) \<times> 's" where
  "persist_csv env enc rows columns split request =
     registry_save env (tabular_save_args env TABULAR_EXPORT_CSV_KIND ''csv'' ''text/csv'' rows columns split request (enc (export_csv rows columns)))"

text \<open>The CSV next to a Parquet artifact, when it is asked for.\<close>

definition maybe_csv where
  "maybe_csv env enc rows columns split request =
     (if tq_write_csv request then bindS (persist_csv env enc rows columns split request) (\<lambda>a. returnS (Some a)) else returnS None)"

section \<open>Splits\<close>

text \<open>The splits in the order of their values.\<close>

definition sorted_splits :: "data_split list" where
  "sorted_splits = [HOLDOUT, TEST, TRAIN, UNKNOWN, VALIDATION]"

definition assignment_map :: "split_assignment list \<Rightarrow> (string, data_split) dict" where
  "assignment_map assignments = dict_of (map (\<lambda>a. (sa_object_id a, sa_split a)) assignments)"

definition row_split :: "'f tabular_request \<Rightarrow> (string, data_split) dict \<Rightarrow> csv_row \<Rightarrow> data_split option" where
  "row_split request assignments row =
     (case dict_get row (tq_object_id_column request) of
        None \<Rightarrow> None
      | Some object_id \<Rightarrow>
          if object_id = [] \<or> object_id \<in> set (tq_blocked_object_ids request) then None else dict_get assignments object_id)"

definition rows_by_split :: "'f tabular_request \<Rightarrow> split_assignment list \<Rightarrow> csv_row list \<Rightarrow> (data_split \<times> csv_row list) list" where
  "rows_by_split request assignments rows =
     filter (\<lambda>e. snd e \<noteq> []) (map (\<lambda>s. (s, filter (\<lambda>row. row_split request (assignment_map assignments) row = Some s) rows)) sorted_splits)"

definition write_split ::
    "'s builder_env \<Rightarrow> 'f float_ops \<Rightarrow> (string \<Rightarrow> string) \<Rightarrow> ((string, 'f column_values) dict \<Rightarrow> exn + string) \<Rightarrow> 'f tabular_request
     \<Rightarrow> string list \<Rightarrow> per_split_artifact list \<Rightarrow> data_split \<times> csv_row list \<Rightarrow> 's \<Rightarrow> (exn + per_split_artifact list) \<times> 's" where
  "write_split env fl enc parquet request columns results entry =
     bindS (persist_parquet env fl parquet (snd entry) columns (Some (fst entry)) request) (\<lambda>p.
     bindS (maybe_csv env enc (snd entry) columns (Some (fst entry)) request) (\<lambda>c.
     returnS (results @ [\<lparr>pt_split = fst entry, pt_parquet_artifact = p, pt_csv_artifact = c, pt_row_count = length (snd entry)\<rparr>])))"

definition write_per_split_artifacts where
  "write_per_split_artifacts env fl enc parquet request manifest rows columns =
     foldS (write_split env fl enc parquet request columns) [] (rows_by_split request (sp_assignments manifest) rows)"

definition included_rows :: "'f tabular_request \<Rightarrow> csv_row list \<Rightarrow> csv_row list" where
  "included_rows request rows =
     filter (\<lambda>row. case dict_get row (tq_object_id_column request) of None \<Rightarrow> True | Some i \<Rightarrow> i \<notin> set (tq_blocked_object_ids request)) rows"

definition write_tabular_export ::
    "'s builder_env \<Rightarrow> 'f float_ops \<Rightarrow> (string \<Rightarrow> string) \<Rightarrow> ((string, 'f column_values) dict \<Rightarrow> exn + string) \<Rightarrow> 'f tabular_request
     \<Rightarrow> 's \<Rightarrow> (exn + tabular_artifacts) \<times> 's" where
  "write_tabular_export env fl enc parquet request st =
     (case read_candidate_rows env (tq_source_artifact request) st of
        Inl e \<Rightarrow> (Inl e, st)
      | Inr (rows, columns) \<Rightarrow>
          if tq_object_id_column request \<notin> set columns then (Inl (tabular_error ''object_id_column_missing_in_source''), st)
          else let filtered = included_rows request rows in
            bindS (persist_parquet env fl parquet filtered columns None request) (\<lambda>p.
            bindS (maybe_csv env enc filtered columns None request) (\<lambda>c.
            bindS (case tq_split_manifest request of
                Some manifest \<Rightarrow>
                  if tq_write_per_split request then write_per_split_artifacts env fl enc parquet request manifest filtered columns else returnS []
              | None \<Rightarrow> returnS []) (\<lambda>per_split.
            returnS \<lparr>ta_parquet_artifact = p, ta_csv_artifact = c, ta_per_split = per_split,
              ta_split_manifest_artifact = tq_split_manifest_artifact request, ta_columns = columns,
              ta_included_row_count = length filtered, ta_excluded_blocked_count = length rows - length filtered\<rparr>))) st)"

section \<open>The written CSV\<close>

lemma written_field_cases:
  obtains "written_field True f = quoted f"
  | "written_field True f = f" "comma \<notin> set f" "quote \<notin> set f" "LF \<notin> set f" "CR \<notin> set f"
  using written_cases [of True f] by (auto simp: cr_safe_def)

lemma csv_scan_export_end:
  assumes "st = Start_field \<or> st = Start_record \<and> f \<noteq> []"
  shows "csv_scan st False fs [] (written_field True f @ CR # r) = (fs @ [f]) # csv_scan Start_record True [] [] r"
proof (cases rule: written_field_cases [of f])
  case 1
  then show ?thesis using csv_scan_quoted [of st fs f "CR # r"] assms by auto
next
  case 2
  then show ?thesis using csv_scan_start [of f st fs "CR # r"] assms by (cases "f = []") auto
qed

lemma csv_scan_export_fields:
  "fs \<noteq> [] \<Longrightarrow> st = Start_field \<or> st = Start_record \<and> fs \<noteq> [[]] \<Longrightarrow>
     csv_scan st False don [] (join [comma] (map (written_field True) fs) @ CR # r) = (don @ fs) # csv_scan Start_record True [] [] r"
proof (induction fs arbitrary: st don)
  case (Cons f fs)
  show ?case
  proof (cases fs)
    case Nil
    then show ?thesis using Cons.prems csv_scan_export_end [of st f don r] by auto
  next
    case (Cons g gs)
    then show ?thesis
      using Cons.prems Cons.IH [of Start_field "don @ [f]"]
        csv_scan_written_comma [of True f st don "join [comma] (map (written_field True) fs) @ CR # r"] by (auto simp: cr_safe_def)
  qed
qed simp

lemma csv_scan_export_record:
  assumes "fs \<noteq> []"
  shows "csv_scan Start_record False [] [] (export_record fs @ r) = fs # csv_scan Start_record False [] [] r"
proof (cases "fs = [[]]")
  case True
  then show ?thesis using csv_scan_quoted [of Start_record "[]" "[]" "CR # LF # r"] by (simp add: export_record_def)
next
  case False
  then show ?thesis using csv_scan_export_fields [of fs Start_record "[]" "LF # r"] assms by (simp add: export_record_def)
qed

lemma csv_records_export:
  assumes "list_all (\<lambda>fs. fs \<noteq> []) recs"
  shows "csv_records (concat (map export_record recs)) = recs"
proof -
  have "csv_scan Start_record False [] [] (concat (map export_record recs)) = recs"
    using assms by (induction recs) (simp_all add: csv_scan_export_record)
  then show ?thesis by (simp add: csv_records_def)
qed

lemma row_cell_fits:
  assumes "fields_fit raw" "row = dict_of (zip columns raw)"
  shows "length (row_get row c) \<le> field_limit"
proof (cases "dict_get row c")
  case (Some v)
  then have "(c, v) \<in> set (zip columns raw)" using assms(2) by (auto simp: dict_get_dict_of dest!: dict_get_Some_in)
  then have "v \<in> set raw" by (rule set_zip_rightD)
  then show ?thesis using Some assms(1) by (simp add: row_get_def fields_fit_def list_all_iff)
qed (simp add: row_get_def)

lemma tabular_rows_Inr:
  assumes "tabular_rows t = Inr (rows, columns)"
  shows "columns \<noteq> []" "fields_fit columns" "row \<in> set rows \<Longrightarrow> length (row_get row c) \<le> field_limit"
proof -
  obtain recs where recs: "csv_records t = columns # recs" "rows = map (\<lambda>raw. dict_of (zip columns raw)) recs" "columns \<noteq> []"
    "list_all fields_fit (columns # recs)"
    using assms by (cases "csv_records t") (auto simp: tabular_rows_def Let_def split: if_splits)
  then show "columns \<noteq> []" "fields_fit columns" by simp_all
  show "length (row_get row c) \<le> field_limit" if "row \<in> set rows"
    using that recs row_cell_fits by (auto simp: list_all_iff)
qed

section \<open>Integer columns\<close>

lemma int_digits_digits:
  "list_all is_digit s \<Longrightarrow> int_digits b acc s = (if s = [] \<and> \<not> b then None else Some (foldl (\<lambda>n c. 10 * n + (code c - 48)) acc s))"
  by (induction s arbitrary: b acc) auto

lemma digit_no_space: "is_digit c \<Longrightarrow> \<not> is_space c"
  by (simp add: is_digit_def is_space_def)

lemma digit_no_sign: "\<not> is_digit (CHR ''-'')" "\<not> is_digit (CHR ''+'')"
  by (simp_all add: is_digit_def code_def)

lemma int_of_digits:
  assumes "list_all is_digit s" "s \<noteq> []" "length s \<le> 4300"
  shows "int_of_text s = Some (int (nat_of_str s))"
proof -
  have "is_digit (hd s)" "is_digit (last s)" using assms(1,2) by (auto simp: list_all_iff)
  then have "strip s = s" unfolding strip_def by (intro strip_where_id) (simp add: digit_no_space)
  moreover obtain c cs where s: "s = c # cs" using assms(2) by (cases s) auto
  moreover have "c \<noteq> CHR ''-''" "c \<noteq> CHR ''+''" using assms(1) s digit_no_sign by auto
  moreover have "filter is_digit s = s" using assms(1) by (simp add: filter_id_conv list_all_iff)
  ultimately show ?thesis
    using assms int_digits_digits [OF assms(1), of False 0] by (simp add: int_of_text_def Let_def nat_of_str_def)
qed

lemma parse_cells_all:
  "(\<And>v. Some v \<in> set vs \<Longrightarrow> parse v = Some (f v)) \<Longrightarrow> parse_cells parse vs = Some (map (map_option f) vs)"
  by (induction parse vs rule: parse_cells.induct) auto

text \<open>A column of digit strings becomes a column of numbers.\<close>

lemma digit_column:
  assumes "list_all (\<lambda>v. v = [] \<or> list_all is_digit v \<and> length v \<le> 4300) raw" "\<exists>v \<in> set raw. v \<noteq> []"
  shows "coerce_column_values fl raw = Int_column (map (\<lambda>v. if v = [] then None else Some (int (nat_of_str v))) raw)"
proof -
  let ?cleaned = "map (\<lambda>v. if v = [] then None else Some v) raw"
  have "parse_cells int_of_text ?cleaned = Some (map (map_option (\<lambda>v. int (nat_of_str v))) ?cleaned)"
    using assms(1) by (intro parse_cells_all int_of_digits) (auto simp: list_all_iff split: if_splits)
  moreover have "map (map_option (\<lambda>v. int (nat_of_str v))) ?cleaned = map (\<lambda>v. if v = [] then None else Some (int (nat_of_str v))) raw"
    by simp
  moreover have "\<not> list_all (\<lambda>v. v = None) ?cleaned" using assms(2) by (auto simp: list_all_iff)
  ultimately show ?thesis by (simp add: coerce_column_values_def Let_def)
qed

section \<open>What the writer returns\<close>

lemma rows_by_split_fst: "map fst (rows_by_split request assignments rows) = filter (\<lambda>s. \<exists>row \<in> set rows. row_split request (assignment_map assignments) row = Some s) sorted_splits"
  by (simp add: rows_by_split_def filter_map comp_def filter_empty_conv)

lemma sorted_splits_all: "s \<in> set sorted_splits" "distinct sorted_splits"
  by (cases s) (simp_all add: sorted_splits_def)

lemma sum_list_nonempty: "sum_list (map (\<lambda>e. length (snd e)) (filter (\<lambda>e. snd e \<noteq> []) es)) = sum_list (map (\<lambda>e. length (snd e)) es)"
  by (induction es) auto

lemma sum_length_partition:
  assumes "distinct ks"
  shows "sum_list (map (\<lambda>k. length (filter (\<lambda>x. f x = Some k) xs)) ks) = length (filter (\<lambda>x. f x \<in> Some ` set ks) xs)"
  using assms
proof (induction ks)
  case (Cons k ks)
  have "length (filter (\<lambda>x. f x \<in> Some ` set (k # ks)) xs)
      = length (filter (\<lambda>x. f x = Some k) xs) + length (filter (\<lambda>x. f x \<in> Some ` set ks) xs)"
    using Cons.prems by (induction xs) auto
  then show ?case using Cons by simp
qed simp

lemma rows_by_split_total:
  "sum_list (map (\<lambda>e. length (snd e)) (rows_by_split request assignments rows))
     = length (filter (\<lambda>row. row_split request (assignment_map assignments) row \<noteq> None) rows)"
proof -
  let ?f = "row_split request (assignment_map assignments)"
  have "sum_list (map (\<lambda>e. length (snd e)) (rows_by_split request assignments rows))
      = sum_list (map (\<lambda>s. length (filter (\<lambda>row. ?f row = Some s) rows)) sorted_splits)"
    by (simp add: rows_by_split_def sum_list_nonempty comp_def)
  also have "\<dots> = length (filter (\<lambda>row. ?f row \<in> Some ` set sorted_splits) rows)"
    by (rule sum_length_partition [OF sorted_splits_all(2)])
  also have "(\<lambda>row. ?f row \<in> Some ` set sorted_splits) = (\<lambda>row. ?f row \<noteq> None)"
    using sorted_splits_all(1) by fastforce
  finally show ?thesis .
qed

lemma existing_digest:
  "existing_artifact c sha fromiso now ad uri expected_hash n config_hash st = Inr (Some rec) \<Longrightarrow> ra_hash rec = expected_hash"
  by (auto simp: existing_artifact_def record_from_ref_def metadata_matches_def validated_Inr_iff result_simps split: sum.splits if_splits)

lemma put_digest: "put c sha fromiso now ad args st = (Inr ref, st') \<Longrightarrow> ar_hash ref = sha256_of sha (pa_data args)"
  by (auto simp: put_def validated_Inr_iff Let_def split: sum.splits prod.splits)

lemma save_digest: "registry_save b args st = (Inr rec, st') \<Longrightarrow> ra_hash rec = sha256_of (se_sha b) (sv_data args)"
  by (auto simp: registry_save_def save_artifact_def record_from_ref_def put_args_of_def validated_Inr_iff Let_def result_simps
      split: sum.splits option.splits prod.splits dest!: put_digest existing_digest)

text \<open>What a pair of artifacts is for a list of rows: the Parquet artifact carries the digest of the encoded rows, and there is a
  CSV artifact exactly when one is asked for, which carries the digest of the CSV text of the rows.\<close>

definition exports_rows ::
    "'s builder_env \<Rightarrow> 'f float_ops \<Rightarrow> (string \<Rightarrow> string) \<Rightarrow> ((string, 'f column_values) dict \<Rightarrow> exn + string) \<Rightarrow> 'f tabular_request
     \<Rightarrow> string list \<Rightarrow> csv_row list \<Rightarrow> registered_artifact \<Rightarrow> registered_artifact option \<Rightarrow> bool" where
  "exports_rows env fl enc parquet request columns rows p c \<longleftrightarrow>
     (\<exists>payload. parquet (rows_to_arrow fl rows columns) = Inr payload \<and> ra_hash p = sha256_of (se_sha env) payload)
     \<and> map_option ra_hash c = (if tq_write_csv request then Some (sha256_of (se_sha env) (enc (export_csv rows columns))) else None)"

lemma persisted_rows:
  assumes "persist_parquet env fl parquet rows columns split request st = (Inr p, st1)"
    and "maybe_csv env enc rows columns split request st1 = (Inr c, st2)"
  shows "exports_rows env fl enc parquet request columns rows p c"
proof -
  obtain payload where payload: "parquet (rows_to_arrow fl rows columns) = Inr payload" and save: "registry_save env
      (tabular_save_args env TABULAR_EXPORT_PARQUET_KIND ''parquet'' ''application/x-parquet'' rows columns split request payload) st = (Inr p, st1)"
    using assms(1) by (auto simp: persist_parquet_def bindS_Inr_iff)
  have "ra_hash p = sha256_of (se_sha env) payload" using save_digest [OF save] by (simp add: tabular_save_args_def)
  moreover have "map_option ra_hash c = (if tq_write_csv request then Some (sha256_of (se_sha env) (enc (export_csv rows columns))) else None)"
    using assms(2) by (auto simp: maybe_csv_def persist_csv_def bindS_Inr_iff tabular_save_args_def dest!: save_digest split: if_splits)
  ultimately show ?thesis using payload by (simp add: exports_rows_def)
qed

definition split_entry where
  "split_entry env fl enc parquet request columns entry e \<longleftrightarrow>
     pt_split e = fst entry \<and> pt_row_count e = length (snd entry)
     \<and> exports_rows env fl enc parquet request columns (snd entry) (pt_parquet_artifact e) (pt_csv_artifact e)"

lemma write_splits:
  "foldS (write_split env fl enc parquet request columns) acc entries st = (Inr results, st') \<Longrightarrow>
     \<exists>new. results = acc @ new \<and> list_all2 (split_entry env fl enc parquet request columns) entries new"
proof (induction entries arbitrary: acc st)
  case (Cons entry entries)
  then obtain acc1 st1 where first: "write_split env fl enc parquet request columns acc entry st = (Inr acc1, st1)"
    and rest: "foldS (write_split env fl enc parquet request columns) acc1 entries st1 = (Inr results, st')"
    by (auto simp: bindS_Inr_iff)
  from first obtain e where "acc1 = acc @ [e]" "split_entry env fl enc parquet request columns entry e"
    by (auto simp: write_split_def bindS_Inr_iff split_entry_def dest!: persisted_rows)
  then show ?case using Cons.IH [OF rest] by auto
qed (simp add: returnS_def)

lemma write_tabular_Inr:
  assumes "write_tabular_export env fl enc parquet request st = (Inr a, st')"
  obtains rows columns p c st1 st2 where
    "read_candidate_rows env (tq_source_artifact request) st = Inr (rows, columns)" "tq_object_id_column request \<in> set columns"
    "persist_parquet env fl parquet (included_rows request rows) columns None request st = (Inr p, st1)"
    "maybe_csv env enc (included_rows request rows) columns None request st1 = (Inr c, st2)"
    "(case tq_split_manifest request of
        Some manifest \<Rightarrow>
          if tq_write_per_split request then write_per_split_artifacts env fl enc parquet request manifest (included_rows request rows) columns
          else returnS []
      | None \<Rightarrow> returnS []) st2 = (Inr (ta_per_split a), st')"
    "ta_csv_artifact a = c" "ta_parquet_artifact a = p" "ta_columns a = columns" "ta_included_row_count a = length (included_rows request rows)"
    "ta_excluded_blocked_count a = length rows - length (included_rows request rows)"
proof -
  obtain rows columns where r: "read_candidate_rows env (tq_source_artifact request) st = Inr (rows, columns)"
    "tq_object_id_column request \<in> set columns"
    using assms by (auto simp: write_tabular_export_def split: sum.splits if_splits)
  from assms that [OF r] show thesis
    by (auto simp: write_tabular_export_def r bindS_Inr_iff returnS_def Let_def)
qed

section \<open>Properties\<close>

text \<open>C23: The CSV export of a table reads back as the same table: reading the text that is written for the rows of a candidate
  gives every row again, with a cell for every column, whatever quotes, commas and line ends the cells hold, as long as the column
  names are distinct.\<close>

theorem export_csv_reads_back:
  assumes "tabular_rows t = Inr (rows, columns)" "distinct columns"
  shows "tabular_rows (export_csv rows columns) = Inr (map (\<lambda>row. map (\<lambda>c. (c, row_get row c)) columns) rows, columns)"
proof -
  note ok = tabular_rows_Inr [OF assms(1)]
  let ?recs = "columns # map (\<lambda>row. map (row_get row) columns) rows"
  have recs: "csv_records (export_csv rows columns) = ?recs"
    unfolding export_csv_def using ok(1) by (intro csv_records_export) (auto simp: list_all_iff)
  have "list_all fields_fit ?recs" using ok(2,3) by (auto simp: fields_fit_def list_all_iff)
  moreover have "dict_of (zip columns (map (row_get row) columns)) = map (\<lambda>c. (c, row_get row c)) columns" for row
    using assms(2) by (simp add: zip_map2 zip_same_conv_map dict_of_distinct_id comp_def)
  ultimately show ?thesis using ok(1) by (simp add: tabular_rows_def recs comp_def)
qed

text \<open>C22: The export accounts for every row: included and excluded rows add up to the rows of the candidate and no included row has
  a blocked id; the exported artifacts carry the digests of the Parquet encoding and, if asked for, of the CSV of exactly the
  included rows. When the splits are written, there is one entry for every split that some included row is assigned to, and its
  artifacts carry the digests of exactly the rows the manifest assigns to that split, in their order - so that the rows of the
  splits add up to the included rows that have an assignment.\<close>

theorem export_accounts_for_rows:
  assumes run: "write_tabular_export env fl enc parquet request st = (Inr a, st')"
    and rows: "read_candidate_rows env (tq_source_artifact request) st = Inr (rows, columns)"
    and splits: "tq_split_manifest request = Some manifest" "tq_write_per_split request"
  shows "ta_included_row_count a + ta_excluded_blocked_count a = length rows \<and> ta_included_row_count a = length (included_rows request rows)
    \<and> list_all (\<lambda>row. dict_get row (tq_object_id_column request) \<notin> Some ` set (tq_blocked_object_ids request)) (included_rows request rows)
    \<and> exports_rows env fl enc parquet request columns (included_rows request rows) (ta_parquet_artifact a) (ta_csv_artifact a)
    \<and> map pt_split (ta_per_split a)
      = filter (\<lambda>s. \<exists>row \<in> set (included_rows request rows). row_split request (assignment_map (sp_assignments manifest)) row = Some s) sorted_splits
    \<and> list_all (\<lambda>e. split_entry env fl enc parquet request columns
          (pt_split e, filter (\<lambda>row. row_split request (assignment_map (sp_assignments manifest)) row = Some (pt_split e))
             (included_rows request rows)) e) (ta_per_split a)
    \<and> sum_list (map pt_row_count (ta_per_split a))
      = length (filter (\<lambda>row. row_split request (assignment_map (sp_assignments manifest)) row \<noteq> None) (included_rows request rows))"
proof -
  let ?included = "included_rows request rows" and ?f = "row_split request (assignment_map (sp_assignments manifest))"
  let ?entries = "rows_by_split request (sp_assignments manifest) ?included" and ?entry = "split_entry env fl enc parquet request columns"
  from run obtain st1 st2 p c where counts: "ta_included_row_count a = length ?included" "ta_excluded_blocked_count a = length rows - length ?included"
    and per: "write_per_split_artifacts env fl enc parquet request manifest ?included columns st2 = (Inr (ta_per_split a), st')"
    and all: "persist_parquet env fl parquet ?included columns None request st = (Inr p, st1)"
      "maybe_csv env enc ?included columns None request st1 = (Inr c, st2)" "ta_parquet_artifact a = p" "ta_csv_artifact a = c"
    by (rule write_tabular_Inr) (use rows splits in auto)
  have entries: "list_all2 ?entry ?entries (ta_per_split a)"
    using write_splits [OF per [unfolded write_per_split_artifacts_def]] by simp
  then have names: "map pt_split (ta_per_split a) = map fst ?entries" and sizes: "map pt_row_count (ta_per_split a) = map (\<lambda>e. length (snd e)) ?entries"
    by (induction rule: list_all2_induct) (simp_all add: split_entry_def)
  have "?entry (pt_split e, filter (\<lambda>row. ?f row = Some (pt_split e)) ?included) e" if e: "e \<in> set (ta_per_split a)" for e
  proof -
    obtain x where "x \<in> set ?entries" "?entry x e" using list_all2_in_set [OF entries e] by blast
    moreover from this have "x = (pt_split e, filter (\<lambda>row. ?f row = Some (pt_split e)) ?included)"
      by (auto simp: rows_by_split_def split_entry_def)
    ultimately show ?thesis by simp
  qed
  moreover have "length ?included \<le> length rows" by (simp add: included_rows_def)
  moreover have "dict_get row (tq_object_id_column request) \<notin> Some ` set (tq_blocked_object_ids request)" if "row \<in> set ?included" for row
    using that by (auto simp: included_rows_def split: option.splits)
  moreover have "exports_rows env fl enc parquet request columns ?included (ta_parquet_artifact a) (ta_csv_artifact a)"
    using persisted_rows [OF all(1,2)] all(3,4) by simp
  ultimately show ?thesis using counts by (simp add: names rows_by_split_fst sizes rows_by_split_total list_all_iff)
qed

text \<open>C24: A table with an identifier column of long digit strings cannot be exported: a column of the included rows that only holds
  digit strings (of at most 4300 digits, or empty) is typed as 64-bit integers, so one identifier of at least \<open>2 ^ 63\<close> makes the
  encoder, which refuses integers beyond 64 bits, refuse the table - the export raises, having stored nothing.\<close>

theorem wide_digits_stop_export:
  assumes int64: "\<And>cols c vs v. (c, Int_column vs) \<in> set cols \<Longrightarrow> Some v \<in> set vs \<Longrightarrow> v \<notin> {- (2 ^ 63)..<2 ^ 63} \<Longrightarrow> \<exists>e. parquet cols = Inl e"
    and read: "read_candidate_rows env (tq_source_artifact request) st = Inr (rows, columns)" and "column \<in> set columns"
    and digits: "list_all (\<lambda>row. list_all is_digit (row_get row column) \<and> length (row_get row column) \<le> 4300) (included_rows request rows)"
    and wide: "row \<in> set (included_rows request rows)" "2 ^ 63 \<le> nat_of_str (row_get row column)"
  shows "\<exists>e. write_tabular_export env fl enc parquet request st = (Inl e, st)"
proof (cases "tq_object_id_column request \<in> set columns")
  case False
  then show ?thesis by (simp add: write_tabular_export_def read)
next
  case True
  let ?included = "included_rows request rows"
  let ?raw = "map (\<lambda>row. row_get row column) ?included"
  let ?ints = "map (\<lambda>v. if v = [] then None else Some (int (nat_of_str v))) ?raw"
  have nonempty: "row_get row column \<noteq> []" using wide(2) by (auto simp: nat_of_str_def)
  have "coerce_column_values fl ?raw = Int_column ?ints"
    using digits wide(1) nonempty by (intro digit_column) (auto simp: list_all_iff)
  then have "(column, Int_column ?ints) \<in> set (rows_to_arrow fl ?included columns)"
    using \<open>column \<in> set columns\<close> by (force simp: rows_to_arrow_def)
  moreover have "Some (int (nat_of_str (row_get row column))) \<in> set ?ints" using wide(1) nonempty by force
  moreover have "int (nat_of_str (row_get row column)) \<notin> {- (2 ^ 63)..<2 ^ 63}" using wide(2) by simp
  ultimately obtain e where "parquet (rows_to_arrow fl ?included columns) = Inl e" using int64 by blast
  then show ?thesis using True by (simp add: write_tabular_export_def read Let_def persist_parquet_def bindS_def liftS_def)
qed

section \<open>Samples\<close>

definition sample_parquet :: "(string, rat column_values) dict \<Rightarrow> exn + string" where
  "sample_parquet cols =
     (if list_ex (\<lambda>(c, vs). case vs of Int_column is \<Rightarrow> list_ex (\<lambda>i. case i of Some i \<Rightarrow> i < - (2 ^ 63) \<or> 2 ^ 63 \<le> i | None \<Rightarrow> False) is | _ \<Rightarrow> False) cols
      then Inl (Other ''OverflowError'')
      else Inr (case cols of (c, Text_column vs) # _ \<Rightarrow> replicate (length vs) (CHR ''a'') | _ \<Rightarrow> ''p''))"

lemma sample_parquet_int64:
  assumes "(c, Int_column vs) \<in> set cols" "Some v \<in> set vs" "v \<notin> {- (2 ^ 63)..<2 ^ 63}"
  shows "\<exists>e. sample_parquet cols = Inl e"
proof -
  have "list_ex (\<lambda>(c, vs). case vs of Int_column is \<Rightarrow> list_ex (\<lambda>i. case i of Some i \<Rightarrow> i < - (2 ^ 63) \<or> 2 ^ 63 \<le> i | None \<Rightarrow> False) is | _ \<Rightarrow> False) cols"
    using assms by (force simp: list_ex_iff)
  then show ?thesis by (simp add: sample_parquet_def)
qed

definition sample_tabular_request :: "string \<Rightarrow> rat tabular_request" where
  "sample_tabular_request column =
     \<lparr>tq_dataset_id = ''d'', tq_candidate_dataset_version_id = ''cv'', tq_source_artifact = run_source,
      tq_split_manifest = Some (sample_split_manifest [\<lparr>sa_object_id = ''a'', sa_split = TRAIN, sa_label = ''0'', sa_group_value = None\<rparr>]),
      tq_split_manifest_artifact = None, tq_blocked_object_ids = [], tq_write_csv = False, tq_write_per_split = True,
      tq_object_id_column = column, tq_created_by_job_id = ''r'', tq_config_hash = zero_digest, tq_export_name_prefix = ''export'',
      tq_generated_at = None\<rparr>"

definition sample_export_text :: string where
  "sample_export_text = export_csv [[(''g'', ''a,b''), (''v'', []), (''y'', ''1'')]] sample_columns"

lemma sample_export_rows: "tabular_rows sample_export_text = Inr ([[(''g'', ''a,b''), (''v'', []), (''y'', ''1'')]], sample_columns)"
proof -
  have "csv_records sample_export_text = [sample_columns, [''a,b'', [], ''1'']]"
    "dict_of (zip sample_columns [''a,b'', [], ''1'']) = [(''g'', ''a,b''), (''v'', []), (''y'', ''1'')]" by code_simp+
  then show ?thesis by (simp add: tabular_rows_def fields_fit_def field_limit_def)
qed

theorem export_csv_reads_back_witness:
  "tabular_rows (export_csv [[(''g'', ''a,b''), (''v'', []), (''y'', ''1'')]] sample_columns)
     = Inr ([[(''g'', ''a,b''), (''v'', []), (''y'', ''1'')]], sample_columns)"
  using export_csv_reads_back [OF sample_export_rows] by (simp add: row_get_def dict_get_def)

definition sample_wide :: string where
  "sample_wide = ''9999999999999999999''"

definition wide_text :: string where
  "wide_text = ''object_id'' @ [CR, LF] @ sample_wide @ [CR, LF]"

lemma source_read:
  assumes "tabular_rows t = Inr (rows, columns)"
  shows "read_candidate_rows run_builder run_source [sample_object ''s'' t] = Inr (rows, columns)"
proof -
  obtain i where "storage_get run_builder (ar_uri run_source) [sample_object ''s'' t] = Inr (t, i)"
    using run_reads [of "[sample_object ''s'' t]" t] by (auto simp: sample_object_def dict_get_def)
  then show ?thesis using assms by (simp add: read_candidate_rows_def)
qed

theorem wide_digits_stop_export_witness:
  "\<exists>e. write_tabular_export run_builder rat_floats (\<lambda>t. t) sample_parquet (sample_tabular_request ''object_id'') [sample_object ''s'' wide_text]
     = (Inl e, [sample_object ''s'' wide_text])"
proof -
  have rec: "csv_records wide_text = [[''object_id''], [sample_wide]]" "dict_of (zip [''object_id''] [sample_wide]) = [(''object_id'', sample_wide)]"
    by code_simp+
  have "length sample_wide = 19" by code_simp
  with rec have "tabular_rows wide_text = Inr ([[(''object_id'', sample_wide)]], [''object_id''])"
    by (simp add: tabular_rows_def fields_fit_def field_limit_def)
  from source_read [OF this] have read: "read_candidate_rows run_builder (tq_source_artifact (sample_tabular_request ''object_id'')) [sample_object ''s'' wide_text]
      = Inr ([[(''object_id'', sample_wide)]], [''object_id''])" by (simp add: sample_tabular_request_def)
  have inc: "included_rows (sample_tabular_request ''object_id'') [[(''object_id'', sample_wide)]] = [[(''object_id'', sample_wide)]]"
    by (simp add: included_rows_def sample_tabular_request_def dict_get_def)
  have "list_all is_digit sample_wide" by code_simp
  moreover have "2 ^ 63 \<le> nat_of_str sample_wide" by (simp add: sample_wide_def nat_of_str_def code_def)
  ultimately show ?thesis
    using \<open>length sample_wide = 19\<close>
    by (intro wide_digits_stop_export [OF sample_parquet_int64 read, where column = "''object_id''" and row = "[(''object_id'', sample_wide)]"])
      (simp_all add: inc row_get_def dict_get_def)
qed

lemma tabular_save:
  assumes "list_all good_component [kind, fmt]" "media \<noteq> []"
    and "dict_get st (run_key kind fmt TABULAR_EXPORT_SCHEMA_VERSION payload) = None"
  shows "\<exists>rec md'. registry_save run_builder (tabular_save_args run_builder kind fmt media rows columns split (sample_tabular_request c) payload) st
    = (Inr rec, dict_set st (run_key kind fmt TABULAR_EXPORT_SCHEMA_VERSION payload)
        \<lparr>mo_body = payload, mo_content_type = media, mo_metadata = md'\<rparr>)"
proof -
  have "list_all good_component [kind, fmt, TABULAR_EXPORT_SCHEMA_VERSION]"
    using assms(1) by (simp add: good_component_def component_char_def TABULAR_EXPORT_SCHEMA_VERSION_def)
  from run_save [OF this assms(2,3), of "artifact_metadata run_builder (sample_tabular_request c) split (length rows) columns fmt"] show ?thesis
    by (simp add: tabular_save_args_def sample_tabular_request_def)
qed

lemma parquet_good: "list_all good_component [TABULAR_EXPORT_PARQUET_KIND, ''parquet'']" "''application/x-parquet'' \<noteq> []"
  by (simp_all add: good_component_def component_char_def TABULAR_EXPORT_PARQUET_KIND_def)

theorem export_accounts_for_rows_witness:
  "\<exists>a st'. write_tabular_export run_builder rat_floats (\<lambda>t. t) sample_parquet (sample_tabular_request ''g'') (snd run_world) = (Inr a, st')
    \<and> ta_included_row_count a = 3 \<and> ta_excluded_blocked_count a = 0 \<and> sum_list (map pt_row_count (ta_per_split a)) = 2"
proof -
  let ?q = "sample_tabular_request ''g''" and ?train = "take 2 sample_table"
  have "csv_records (table_text run_env run_table) = [sample_columns, [''a'', ''3'', ''0''], [''a'', [], ''1''], [''b'', ''7'', ''1'']]"
    "map (\<lambda>raw. dict_of (zip sample_columns raw)) [[''a'', ''3'', ''0''], [''a'', [], ''1''], [''b'', ''7'', ''1'']] = sample_table" by code_simp+
  then have rows: "tabular_rows (table_text run_env run_table) = Inr (sample_table, sample_columns)"
    by (simp add: tabular_rows_def fields_fit_def field_limit_def)
  have read: "read_candidate_rows run_builder (tq_source_artifact ?q) (snd run_world) = Inr (sample_table, sample_columns)"
    using source_read [OF rows] by (simp add: sample_tabular_request_def run_world_def)
  have inc: "included_rows ?q sample_table = sample_table" by code_simp
  have groups: "rows_by_split ?q [\<lparr>sa_object_id = ''a'', sa_split = TRAIN, sa_label = ''0'', sa_group_value = None\<rparr>] sample_table = [(TRAIN, ?train)]"
    by code_simp
  have payloads: "sample_parquet (rows_to_arrow rat_floats sample_table sample_columns) = Inr ''aaa''"
    "sample_parquet (rows_to_arrow rat_floats ?train sample_columns) = Inr ''aa''" by code_simp+
  let ?key = "run_key TABULAR_EXPORT_PARQUET_KIND ''parquet'' TABULAR_EXPORT_SCHEMA_VERSION"
  obtain p md where first: "persist_parquet run_builder rat_floats sample_parquet sample_table sample_columns None ?q (snd run_world)
      = (Inr p, dict_set (snd run_world) (?key ''aaa'') \<lparr>mo_body = ''aaa'', mo_content_type = ''application/x-parquet'', mo_metadata = md\<rparr>)"
    using tabular_save [OF parquet_good run_free0] by (simp add: persist_parquet_def payloads bindS_def liftS_def) blast
  let ?st1 = "dict_set (snd run_world) (?key ''aaa'') \<lparr>mo_body = ''aaa'', mo_content_type = ''application/x-parquet'', mo_metadata = md\<rparr>"
  have "?key ''aaa'' \<noteq> ?key ''aa''" by code_simp
  then have "dict_get ?st1 (?key ''aa'') = None" using run_free0 by (simp add: dict_get_set)
  then obtain p' st2 where second: "persist_parquet run_builder rat_floats sample_parquet ?train sample_columns (Some TRAIN) ?q ?st1 = (Inr p', st2)"
    using tabular_save [OF parquet_good, of ?st1 "''aa''"] by (simp add: persist_parquet_def payloads bindS_def liftS_def) blast
  have fields: "tq_write_csv ?q = False" "tq_write_per_split ?q" "tq_object_id_column ?q = ''g''"
    "tq_split_manifest ?q = Some (sample_split_manifest [\<lparr>sa_object_id = ''a'', sa_split = TRAIN, sa_label = ''0'', sa_group_value = None\<rparr>])"
    "sp_assignments (sample_split_manifest as) = as" for as by (simp_all add: sample_tabular_request_def sample_split_manifest_def)
  obtain a st' where run: "write_tabular_export run_builder rat_floats (\<lambda>t. t) sample_parquet ?q (snd run_world) = (Inr a, st')"
    using first second
    by (simp add: write_tabular_export_def read inc fields groups maybe_csv_def write_per_split_artifacts_def write_split_def bindS_def returnS_def Let_def)
  have "length (filter (\<lambda>row. row_split ?q (assignment_map [\<lparr>sa_object_id = ''a'', sa_split = TRAIN, sa_label = ''0'', sa_group_value = None\<rparr>]) row \<noteq> None) sample_table) = 2"
    and len: "length sample_table = 3" by code_simp+
  moreover have "ta_included_row_count a = 3" using run by (rule write_tabular_Inr) (use read inc len in auto)
  ultimately show ?thesis
    using run export_accounts_for_rows [OF run read fields(4,2)] by (simp add: inc fields)
qed

end
