(* ===== verification/ApplyOutputs.thy ===== *)
theory ApplyOutputs
  imports ApplyRuntime Lineage TabularExport
begin

text \<open>
  The second half of \<open>src/app/orchestration/apply_runtime.py\<close>: from the last candidate of a plan to the export package. The model
  impact of a candidate (\<open>kernel/model_impact.py\<close>, which trains a classifier) and the rendering of the dataset card
  (\<open>reports/dataset_card.py\<close>) are parameters: operations on the store that return a verdict and an artifact, or an
  artifact. The platform client is part of the state, next to the run's state and the store.
\<close>

section \<open>What the outputs use\<close>

record 'f model_impact_request =
  mi_dataset_id :: string
  mi_parent_version_id :: string
  mi_candidate_dataset_version_id :: string
  mi_organization_id :: string
  mi_project_id :: string
  mi_source_artifact :: artifact_ref
  mi_candidate_artifact :: artifact_ref
  mi_source_split_manifest :: "'f split_manifest"
  mi_candidate_split_manifest :: "'f split_manifest"
  mi_feature_columns :: "string list"
  mi_target_column :: string
  mi_rare_class_label :: string
  mi_candidate_is_synthetic :: bool
  mi_source_split_manifest_artifact :: artifact_ref
  mi_candidate_split_manifest_artifact :: artifact_ref
  mi_validation_gates_report_artifact :: "artifact_ref option"
  mi_synthetic_dataset_report_artifact :: "artifact_ref option"
  mi_validation_gates_blocker_present :: bool
  mi_random_seed :: int
  mi_created_by_job_id :: string
  mi_config_hash :: string
  mi_report_id :: string
  mi_generated_at :: datetime

definition model_impact_request_valid :: "'f model_impact_request \<Rightarrow> bool" where
  "model_impact_request_valid r \<longleftrightarrow>
     list_all non_empty [mi_dataset_id r, mi_parent_version_id r, mi_candidate_dataset_version_id r, mi_organization_id r, mi_project_id r,
       mi_target_column r, mi_rare_class_label r, mi_created_by_job_id r]
     \<and> mi_feature_columns r \<noteq> [] \<and> list_all non_empty (mi_feature_columns r) \<and> sha256_digest (mi_config_hash r)"

record 'f dataset_card_request =
  dq_organization_id :: string
  dq_project_id :: string
  dq_dataset_id :: string
  dq_candidate_dataset_version :: "'f candidate_version"
  dq_validation_gates_report :: "'f gates_report option"
  dq_model_impact_report :: "model_impact_verdict option"
  dq_split_manifest :: "'f split_manifest option"
  dq_created_by_job_id :: string
  dq_config_hash :: string
  dq_generated_at :: datetime
  dq_dataset_card_id :: string
  dq_object_count :: int

definition dataset_card_request_valid :: "'f float_ops \<Rightarrow> 'f dataset_card_request \<Rightarrow> bool" where
  "dataset_card_request_valid fl r \<longleftrightarrow>
     non_empty (dq_organization_id r) \<and> non_empty (dq_project_id r) \<and> non_empty (dq_dataset_id r)
     \<and> candidate_version_valid fl (dq_candidate_dataset_version r) \<and> non_empty (dq_created_by_job_id r)
     \<and> sha256_digest (dq_config_hash r) \<and> 0 \<le> dq_object_count r"

text \<open>The payload of the export manifest.\<close>

record manifest_payload =
  mp_schema_version :: string
  mp_candidate_version_artifact :: "artifact_ref option"
  mp_candidate_status :: string
  mp_validation_gates_report :: "artifact_ref option"
  mp_tabular_export_artifacts :: "artifact_ref list"
  mp_generated_at :: string

text \<open>The fresh identifiers are those of the audit events.\<close>

record ('s, 'f) outputs_env =
  ao_model_impact :: "'f model_impact_request \<Rightarrow> 's \<Rightarrow> (exn + (model_impact_verdict \<times> registered_artifact)) \<times> 's"
  ao_dataset_card :: "'f dataset_card_request \<Rightarrow> 's \<Rightarrow> (exn + registered_artifact) \<times> 's"
  ao_parquet :: "(string, 'f column_values) dict \<Rightarrow> exn + string"
  ao_dump_remediation :: "'f remediation_payload \<Rightarrow> string"
  ao_dump_candidate :: "'f candidate_version \<Rightarrow> string"
  ao_dump_lineage :: "lineage_report \<Rightarrow> string"
  ao_dump_manifest :: "manifest_payload \<Rightarrow> string"
  ao_dump_package :: "export_package \<Rightarrow> string"
  ao_candidate_uuid :: string
  ao_lineage_uuid :: string
  ao_export_uuid :: string

section \<open>Model impact (ensure_model_impact_report)\<close>

text \<open>\<open>numeric_feature_columns\<close> of a stored table.\<close>

definition stored_feature_columns :: "('s, 'f, 'r, 'd) apply_env \<Rightarrow> action_plan \<Rightarrow> artifact_ref \<Rightarrow> 's \<Rightarrow> exn + string list" where
  "stored_feature_columns env plan artifact st =
     bindR (stored_text env artifact st) (\<lambda>t. numeric_feature_columns (ae_floats env) (plan_target_column plan) t)"

definition model_impact_request_of ::
    "('s, 'f, 'r, 'd) apply_env \<Rightarrow> apply_context \<Rightarrow> run_context \<Rightarrow> action_plan \<Rightarrow> 'f apply_state \<Rightarrow> artifact_ref \<Rightarrow> registered_artifact
     \<Rightarrow> 'f gates_report \<Rightarrow> 'f split_manifest \<times> registered_artifact \<Rightarrow> string list \<Rightarrow> 'f model_impact_request" where
  "model_impact_request_of env ctx rc plan s source candidate gates split features =
     \<lparr>mi_dataset_id = rc_dataset_id rc, mi_parent_version_id = ac_source_dataset_version_id ctx,
      mi_candidate_dataset_version_id = ac_proposed_version_name ctx, mi_organization_id = rc_organization_id rc,
      mi_project_id = rc_project_id rc, mi_source_artifact = source, mi_candidate_artifact = ra_artifact_ref candidate,
      mi_source_split_manifest = fst split,
      mi_candidate_split_manifest = (case as_split_manifest s of Some m \<Rightarrow> m | None \<Rightarrow> fst split),
      mi_feature_columns = features, mi_target_column = plan_target_column plan, mi_rare_class_label = plan_rare_class_label plan,
      mi_candidate_is_synthetic = (as_synthetic_report s \<noteq> None),
      mi_source_split_manifest_artifact = ra_artifact_ref (snd split),
      mi_candidate_split_manifest_artifact = ra_artifact_ref (case as_split_artifact s of Some a \<Rightarrow> a | None \<Rightarrow> snd split),
      mi_validation_gates_report_artifact = map_option ra_artifact_ref (as_gates_report_artifact s),
      mi_synthetic_dataset_report_artifact = map_option ra_artifact_ref (as_synthetic_report_artifact s),
      mi_validation_gates_blocker_present = gr_blocker_present gates, mi_random_seed = plan_random_seed plan,
      mi_created_by_job_id = rc_compute_run_id rc, mi_config_hash = ac_config_hash ctx,
      mi_report_id = runtime_id (ae_sha env) ''model_impact_report''
        [ap_action_plan_id plan, ac_proposed_version_name ctx, ac_config_hash ctx],
      mi_generated_at = generated_at plan\<rparr>"

text \<open>The body of the \<open>try\<close>: None when there is no numeric column to train on.\<close>

definition try_model_impact ::
    "('s, 'f, 'r, 'd) apply_env \<Rightarrow> ('s, 'f) outputs_env \<Rightarrow> apply_context \<Rightarrow> run_context \<Rightarrow> artifact_ref \<Rightarrow> registered_artifact \<Rightarrow> 'f gates_report
     \<Rightarrow> 'f apply_state \<times> 's \<Rightarrow> (exn + (model_impact_verdict \<times> registered_artifact) option) \<times> 'f apply_state \<times> 's" where
  "try_model_impact env out ctx rc source candidate gates =
     bindS (ensure_split_manifest env ctx rc source) (\<lambda>split.
     bindS (liftS (require_plan ctx)) (\<lambda>plan.
     bindS (on_store (\<lambda>st. (stored_feature_columns env plan (ra_artifact_ref candidate) st, st))) (\<lambda>features.
     if features = [] then returnS None
     else bindS (\<lambda>w. (validated model_impact_request_valid
            (model_impact_request_of env ctx rc plan (fst w) source candidate gates split features), w)) (\<lambda>request.
          bindS (on_store (ao_model_impact out request)) (\<lambda>result. returnS (Some result))))))"

text \<open>\<open>except Exception\<close>: what the body did to the state before it raised stays.\<close>

definition settle_model_impact ::
    "apply_context \<Rightarrow> (exn + (model_impact_verdict \<times> registered_artifact) option) \<times> 'f apply_state \<times> 's
     \<Rightarrow> (exn + registered_artifact option) \<times> 'f apply_state \<times> 's" where
  "settle_model_impact ctx res =
     (case res of
        (Inl e, w) \<Rightarrow> if ac_require_model_impact_eligibility ctx then (Inl e, w) else (Inr None, w)
      | (Inr None, w) \<Rightarrow> (Inr None, w)
      | (Inr (Some (verdict, artifact)), w) \<Rightarrow>
          (Inr (Some artifact), (fst w)\<lparr>as_model_impact_report := Some verdict, as_model_impact_artifact := Some artifact\<rparr>, snd w))"

text \<open>\<open>execute_remediation_plan\<close> when there is no candidate yet.\<close>

definition ensure_candidate ::
    "('s, 'f, 'r, 'd) apply_env \<Rightarrow> ('s, 'f) outputs_env \<Rightarrow> apply_context \<Rightarrow> run_context \<Rightarrow> 'f apply_state \<times> 's \<Rightarrow> (exn + unit) \<times> 'f apply_state \<times> 's" where
  "ensure_candidate env out ctx rc w =
     (case as_primary_candidate (fst w) of
        Some c \<Rightarrow> (Inr (), w)
      | None \<Rightarrow> bindS (execute_remediation_plan env (ao_dump_remediation out) ctx rc) (\<lambda>_. returnS ()) w)"

definition ensure_model_impact_report ::
    "('s, 'f, 'r, 'd) apply_env \<Rightarrow> ('s, 'f) outputs_env \<Rightarrow> apply_context \<Rightarrow> run_context \<Rightarrow> 'f apply_state \<times> 's
     \<Rightarrow> (exn + registered_artifact option) \<times> 'f apply_state \<times> 's" where
  "ensure_model_impact_report env out ctx rc w =
     (case as_model_impact_artifact (fst w) of
        Some artifact \<Rightarrow> (Inr (Some artifact), w)
      | None \<Rightarrow>
          bindS (ensure_candidate env out ctx rc) (\<lambda>_ w.
            case (as_source_artifact (fst w), as_primary_candidate (fst w), as_gates_report (fst w)) of
              (Some source, Some candidate, Some gates) \<Rightarrow> settle_model_impact ctx (try_model_impact env out ctx rc source candidate gates w)
            | _ \<Rightarrow> (Inr None, w)) w)"

section \<open>References of the outputs\<close>

fun unique_refs_loop :: "string list \<Rightarrow> artifact_ref list \<Rightarrow> artifact_ref list" where
  "unique_refs_loop seen [] = []"
| "unique_refs_loop seen (r # rs) =
     (if ar_uri r \<in> set seen then unique_refs_loop seen rs else r # unique_refs_loop (ar_uri r # seen) rs)"

definition unique_refs :: "artifact_ref list \<Rightarrow> artifact_ref list" where
  "unique_refs refs = unique_refs_loop [] refs"

definition candidate_artifact_refs :: "'f apply_state \<Rightarrow> artifact_ref list" where
  "candidate_artifact_refs s =
     unique_refs (map ra_artifact_ref (as_step_outputs s @ opt_list (as_gates_report_artifact s) @ opt_list (as_model_impact_artifact s)))"

definition extra_export_artifacts :: "'f apply_state \<Rightarrow> artifact_ref list" where
  "extra_export_artifacts s =
     unique_refs (map ra_artifact_ref (opt_list (as_candidate_version_artifact s) @ opt_list (as_gates_report_artifact s)
       @ opt_list (as_model_impact_artifact s)))"

section \<open>The export manifest\<close>

definition EXPORT_MANIFEST_KIND :: string where
  "EXPORT_MANIFEST_KIND = ''EXPORT_MANIFEST''"

definition EXPORT_MANIFEST_SCHEMA_VERSION :: string where
  "EXPORT_MANIFEST_SCHEMA_VERSION = ''export_manifest.v1''"

definition manifest_status :: "'f apply_state \<Rightarrow> string" where
  "manifest_status s = (case as_candidate_version s of Some v \<Rightarrow> candidate_version_status_value (cv_status v) | None \<Rightarrow> ''not_built'')"

definition manifest_payload_of :: "('s, 'f, 'r, 'd) apply_env \<Rightarrow> action_plan \<Rightarrow> 'f apply_state \<Rightarrow> manifest_payload" where
  "manifest_payload_of env plan s =
     \<lparr>mp_schema_version = EXPORT_MANIFEST_SCHEMA_VERSION,
      mp_candidate_version_artifact = map_option ra_artifact_ref (as_candidate_version_artifact s),
      mp_candidate_status = manifest_status s,
      mp_validation_gates_report = map_option ra_artifact_ref (as_gates_report_artifact s),
      mp_tabular_export_artifacts = as_tabular_exports s, mp_generated_at = se_iso (ae_builder env) (generated_at plan)\<rparr>"

definition persist_export_manifest ::
    "('s, 'f, 'r, 'd) apply_env \<Rightarrow> ('s, 'f) outputs_env \<Rightarrow> apply_context \<Rightarrow> run_context \<Rightarrow> 'f apply_state \<times> 's
     \<Rightarrow> (exn + registered_artifact) \<times> 'f apply_state \<times> 's" where
  "persist_export_manifest env out ctx rc w =
     (case as_export_manifest (fst w) of
        Some artifact \<Rightarrow> (Inr artifact, w)
      | None \<Rightarrow>
          bindS (liftS (require_plan ctx)) (\<lambda>plan.
          on_store (registry_save (ae_builder env)
            \<lparr>sv_artifact_kind = EXPORT_MANIFEST_KIND, sv_data = ao_dump_manifest out (manifest_payload_of env plan (fst w)),
             sv_artifact_format = ''json'', sv_media_type = ''application/json'', sv_schema_version = EXPORT_MANIFEST_SCHEMA_VERSION,
             sv_dataset_version_id = ac_proposed_version_name ctx, sv_created_by_job_id = rc_compute_run_id rc,
             sv_config_hash = ac_config_hash ctx,
             sv_metadata = [(''candidate-status'', manifest_status (fst w)), (''action-plan-id'', ac_action_plan_id ctx),
               (''created-at'', se_iso (ae_builder env) (generated_at plan))]\<rparr>)) w)"

section \<open>The final outputs (build_final_apply_outputs)\<close>

type_synonym ('s, 'f) world = "'f apply_state \<times> 's \<times> platform_client option"

definition on_run :: "('f apply_state \<times> 's \<Rightarrow> (exn + 'a) \<times> 'f apply_state \<times> 's) \<Rightarrow> ('s, 'f) world \<Rightarrow> (exn + 'a) \<times> ('s, 'f) world" where
  "on_run m w = (case m (fst w, fst (snd w)) of (r, (s, st)) \<Rightarrow> (r, (s, st, snd (snd w))))"

definition on_builders :: "('s \<times> platform_client option \<Rightarrow> (exn + 'a) \<times> 's \<times> platform_client option) \<Rightarrow> ('s, 'f) world \<Rightarrow> (exn + 'a) \<times> ('s, 'f) world" where
  "on_builders f w = (case f (snd w) of (r, w') \<Rightarrow> (r, (fst w, w')))"

text \<open>A value computed from the run's state and the store.\<close>

definition reading :: "('f apply_state \<Rightarrow> 's \<Rightarrow> exn + 'a) \<Rightarrow> ('s, 'f) world \<Rightarrow> (exn + 'a) \<times> ('s, 'f) world" where
  "reading f w = (f (fst w) (fst (snd w)), w)"

definition set_state :: "('f apply_state \<Rightarrow> 'f apply_state) \<Rightarrow> ('s, 'f) world \<Rightarrow> (exn + unit) \<times> ('s, 'f) world" where
  "set_state f w = (Inr (), (f (fst w), snd w))"

definition row_count :: "('s, 'f, 'r, 'd) apply_env \<Rightarrow> registered_artifact \<Rightarrow> 's \<Rightarrow> exn + int" where
  "row_count env artifact st = bindR (stored_text env (ra_artifact_ref artifact) st) csv_row_count"

text \<open>What the outputs are built from: the source, the candidate and its judged gates.\<close>

record 'f candidate_inputs =
  ci_source :: artifact_ref
  ci_candidate :: registered_artifact
  ci_gates :: "'f gates_report"
  ci_gates_artifact :: registered_artifact

definition candidate_inputs_of :: "'f apply_state \<Rightarrow> exn + 'f candidate_inputs" where
  "candidate_inputs_of s =
     (case (as_source_artifact s, as_primary_candidate s, as_gates_report s, as_gates_report_artifact s) of
        (Some source, Some candidate, Some gates, Some artifact) \<Rightarrow>
          Inr \<lparr>ci_source = source, ci_candidate = candidate, ci_gates = gates, ci_gates_artifact = artifact\<rparr>
      | _ \<Rightarrow> Inl (apply_refused ''candidate_validation_outputs_missing''))"

definition candidate_request_of ::
    "('s, 'f, 'r, 'd) apply_env \<Rightarrow> apply_context \<Rightarrow> run_context \<Rightarrow> action_plan \<Rightarrow> 'f candidate_inputs \<Rightarrow> 'f apply_state \<Rightarrow> 'f candidate_request" where
  "candidate_request_of env ctx rc plan inputs s =
     \<lparr>cr_organization_id = rc_organization_id rc, cr_project_id = rc_project_id rc, cr_dataset_id = rc_dataset_id rc,
      cr_parent_version_id = ac_source_dataset_version_id ctx, cr_proposed_version_name = ac_proposed_version_name ctx,
      cr_action_plan = plan, cr_policy_versions = ac_policy_versions ctx, cr_decision_report_id = Some (ac_decision_report_id ctx),
      cr_created_by_job_id = rc_compute_run_id rc, cr_config_hash = ac_config_hash ctx,
      cr_source_artifacts = [ci_source inputs], cr_candidate_artifacts = candidate_artifact_refs s,
      cr_primary_dataset_artifact = ra_artifact_ref (ci_candidate inputs),
      cr_validation_gates_report = Some (ci_gates inputs),
      cr_validation_gates_report_artifact = Some (ra_artifact_ref (ci_gates_artifact inputs)),
      cr_synthetic_dataset_report = map_option synthetic_report.truncate (as_synthetic_report s),
      cr_synthetic_dataset_report_artifact = map_option ra_artifact_ref (as_synthetic_report_artifact s),
      cr_synthetic_validation_report_artifact =
        (if as_synthetic_report s \<noteq> None then Some (ra_artifact_ref (ci_gates_artifact inputs)) else None),
      cr_model_impact_report_artifact = map_option ra_artifact_ref (as_model_impact_artifact s),
      cr_candidate_version_id = Some (runtime_id (ae_sha env) ''candidate_dataset_version''
        [ap_action_plan_id plan, ac_proposed_version_name ctx, ac_config_hash ctx]),
      cr_proposed_at = Some (generated_at plan)\<rparr>"

definition candidate_stage ::
    "('s, 'f, 'r, 'd) apply_env \<Rightarrow> ('s, 'f) outputs_env \<Rightarrow> apply_context \<Rightarrow> run_context \<Rightarrow> action_plan \<Rightarrow> 'f candidate_inputs
     \<Rightarrow> ('s, 'f) world \<Rightarrow> (exn + ('f candidate_version \<times> registered_artifact)) \<times> ('s, 'f) world" where
  "candidate_stage env out ctx rc plan inputs =
     bindS (reading (\<lambda>s st. validated (candidate_request_valid (ae_floats env)) (candidate_request_of env ctx rc plan inputs s))) (\<lambda>request.
     bindS (on_builders (build_candidate_dataset_version (ae_builder env) (ae_floats env) (ao_dump_candidate out) (ao_candidate_uuid out) request))
       (\<lambda>(version, artifact, event).
     bindS (set_state (\<lambda>s. s\<lparr>as_candidate_version := Some version, as_candidate_version_artifact := Some artifact\<rparr>)) (\<lambda>_.
     returnS (version, artifact))))"

definition card_request_of ::
    "('s, 'f, 'r, 'd) apply_env \<Rightarrow> apply_context \<Rightarrow> run_context \<Rightarrow> action_plan \<Rightarrow> 'f candidate_inputs \<Rightarrow> 'f candidate_version \<Rightarrow> 'f apply_state
     \<Rightarrow> int \<Rightarrow> 'f dataset_card_request" where
  "card_request_of env ctx rc plan inputs version s objects =
     \<lparr>dq_organization_id = rc_organization_id rc, dq_project_id = rc_project_id rc, dq_dataset_id = rc_dataset_id rc,
      dq_candidate_dataset_version = version, dq_validation_gates_report = Some (ci_gates inputs),
      dq_model_impact_report = as_model_impact_report s, dq_split_manifest = as_split_manifest s,
      dq_created_by_job_id = rc_compute_run_id rc, dq_config_hash = ac_config_hash ctx, dq_generated_at = generated_at plan,
      dq_dataset_card_id = runtime_id (ae_sha env) ''dataset_card'' [cv_candidate_version_id version, ac_config_hash ctx],
      dq_object_count = objects\<rparr>"

definition card_stage ::
    "('s, 'f, 'r, 'd) apply_env \<Rightarrow> ('s, 'f) outputs_env \<Rightarrow> apply_context \<Rightarrow> run_context \<Rightarrow> action_plan \<Rightarrow> 'f candidate_inputs \<Rightarrow> 'f candidate_version
     \<Rightarrow> ('s, 'f) world \<Rightarrow> (exn + registered_artifact) \<times> ('s, 'f) world" where
  "card_stage env out ctx rc plan inputs version =
     bindS (reading (\<lambda>s st. bindR (row_count env (ci_candidate inputs) st) (\<lambda>objects.
       validated (dataset_card_request_valid (ae_floats env)) (card_request_of env ctx rc plan inputs version s objects)))) (\<lambda>request.
     bindS (on_run (on_store (ao_dataset_card out request))) (\<lambda>artifact.
     bindS (set_state (\<lambda>s. s\<lparr>as_dataset_card_artifact := Some artifact\<rparr>)) (\<lambda>_. returnS artifact)))"

definition lineage_request_of ::
    "('s, 'f, 'r, 'd) apply_env \<Rightarrow> apply_context \<Rightarrow> run_context \<Rightarrow> action_plan \<Rightarrow> 'f candidate_inputs \<Rightarrow> 'f candidate_version \<Rightarrow> registered_artifact
     \<Rightarrow> 'f apply_state \<Rightarrow> 'f lineage_request" where
  "lineage_request_of env ctx rc plan inputs version artifact s =
     \<lparr>lq_organization_id = rc_organization_id rc, lq_project_id = rc_project_id rc, lq_dataset_id = rc_dataset_id rc,
      lq_candidate_dataset_version = version, lq_candidate_version_artifact = Some (ra_artifact_ref artifact), lq_export_package = None,
      lq_export_package_artifact = None, lq_input_artifact_refs = [ci_source inputs], lq_output_artifact_refs = candidate_artifact_refs s,
      lq_privacy_policy_version = None, lq_export_policy_version = None, lq_job_started_at = None, lq_job_completed_at = None,
      lq_created_by_job_id = rc_compute_run_id rc, lq_config_hash = ac_config_hash ctx,
      lq_lineage_report_id = Some (runtime_id (ae_sha env) ''lineage_report'' [cv_candidate_version_id version, ac_config_hash ctx]),
      lq_generated_at = Some (generated_at plan), lq_emit_export_package_audit_event = True\<rparr>"

definition lineage_stage ::
    "('s, 'f, 'r, 'd) apply_env \<Rightarrow> ('s, 'f) outputs_env \<Rightarrow> apply_context \<Rightarrow> run_context \<Rightarrow> action_plan \<Rightarrow> 'f candidate_inputs \<Rightarrow> 'f candidate_version
     \<Rightarrow> registered_artifact \<Rightarrow> ('s, 'f) world \<Rightarrow> (exn + registered_artifact) \<times> ('s, 'f) world" where
  "lineage_stage env out ctx rc plan inputs version artifact =
     bindS (reading (\<lambda>s st. validated (lineage_request_valid (ae_floats env)) (lineage_request_of env ctx rc plan inputs version artifact s))) (\<lambda>request.
     bindS (on_builders (build_lineage_report (ae_builder env) (ao_dump_lineage out) (ao_lineage_uuid out) (ao_export_uuid out) request))
       (\<lambda>(report, lineage, events).
     bindS (set_state (\<lambda>s. s\<lparr>as_lineage_artifact := Some lineage\<rparr>)) (\<lambda>_. returnS lineage)))"

definition tabular_request_of ::
    "apply_context \<Rightarrow> run_context \<Rightarrow> action_plan \<Rightarrow> 'f candidate_inputs \<Rightarrow> 'f apply_state \<Rightarrow> 'f tabular_request" where
  "tabular_request_of ctx rc plan inputs s =
     \<lparr>tq_dataset_id = rc_dataset_id rc, tq_candidate_dataset_version_id = ac_proposed_version_name ctx,
      tq_source_artifact = ra_artifact_ref (ci_candidate inputs), tq_split_manifest = as_split_manifest s,
      tq_split_manifest_artifact = map_option ra_artifact_ref (as_split_artifact s), tq_blocked_object_ids = [], tq_write_csv = True,
      tq_write_per_split = (as_split_manifest s \<noteq> None), tq_object_id_column = ''object_id'',
      tq_created_by_job_id = rc_compute_run_id rc, tq_config_hash = ac_config_hash ctx, tq_export_name_prefix = ''export'',
      tq_generated_at = Some (generated_at plan)\<rparr>"

text \<open>The tables of a blocked version are not exported.\<close>

definition tabular_stage ::
    "('s, 'f, 'r, 'd) apply_env \<Rightarrow> ('s, 'f) outputs_env \<Rightarrow> apply_context \<Rightarrow> run_context \<Rightarrow> action_plan \<Rightarrow> 'f candidate_inputs \<Rightarrow> 'f candidate_version
     \<Rightarrow> ('s, 'f) world \<Rightarrow> (exn + artifact_ref list) \<times> ('s, 'f) world" where
  "tabular_stage env out ctx rc plan inputs version =
     (if cv_status version = CV_BLOCKED then returnS []
      else bindS (reading (\<lambda>s st. validated tabular_request_valid (tabular_request_of ctx rc plan inputs s))) (\<lambda>request.
           bindS (on_run (on_store (write_tabular_export (ae_builder env) (ae_floats env) (ae_encode env) (ao_parquet out) request))) (\<lambda>artifacts.
           bindS (set_state (\<lambda>s. s\<lparr>as_tabular_exports := all_artifact_refs artifacts\<rparr>)) (\<lambda>_. returnS (all_artifact_refs artifacts)))))"

definition package_request_of ::
    "('s, 'f, 'r, 'd) apply_env \<Rightarrow> apply_context \<Rightarrow> run_context \<Rightarrow> action_plan \<Rightarrow> 'f candidate_inputs \<Rightarrow> 'f candidate_version \<Rightarrow> artifact_ref
     \<Rightarrow> artifact_ref list \<Rightarrow> artifact_ref \<Rightarrow> artifact_ref \<Rightarrow> 'f apply_state \<Rightarrow> int \<Rightarrow> 'f export_request" where
  "package_request_of env ctx rc plan inputs version manifest tables dataset_card lineage s objects =
     \<lparr>xr_organization_id = rc_organization_id rc, xr_project_id = rc_project_id rc, xr_dataset_id = rc_dataset_id rc,
      xr_candidate_dataset_version = version, xr_validation_gates_report = Some (ci_gates inputs),
      xr_model_impact_report = as_model_impact_report s, xr_text_ocr_report = None, xr_decision_report_id = ac_decision_report_id ctx,
      xr_export_manifest_artifact = manifest, xr_tabular_artifacts = tables, xr_text_artifacts = [],
      xr_dataset_card_artifact = Some dataset_card, xr_lineage_artifact = Some lineage, xr_dataforge_report_artifact = None,
      xr_review_queue_artifact = None, xr_extra_artifacts = extra_export_artifacts s, xr_included_object_count = objects,
      xr_blocked_object_count = (if cv_block_export version then 1 else 0), xr_excluded_object_count = 0,
      xr_require_model_impact_eligibility = ac_require_model_impact_eligibility ctx, xr_require_dataset_card = True,
      xr_require_lineage_artifact = True, xr_created_by_job_id = rc_compute_run_id rc, xr_config_hash = ac_config_hash ctx,
      xr_export_package_id = Some (runtime_id (ae_sha env) ''export_package'' [cv_candidate_version_id version, ac_config_hash ctx]),
      xr_created_at = Some (generated_at plan)\<rparr>"

definition package_stage ::
    "('s, 'f, 'r, 'd) apply_env \<Rightarrow> ('s, 'f) outputs_env \<Rightarrow> apply_context \<Rightarrow> run_context \<Rightarrow> action_plan \<Rightarrow> 'f candidate_inputs \<Rightarrow> 'f candidate_version
     \<Rightarrow> registered_artifact \<Rightarrow> artifact_ref list \<Rightarrow> registered_artifact \<Rightarrow> registered_artifact
     \<Rightarrow> ('s, 'f) world \<Rightarrow> (exn + registered_artifact) \<times> ('s, 'f) world" where
  "package_stage env out ctx rc plan inputs version manifest tables dataset_card lineage =
     bindS (reading (\<lambda>s st. bindR (row_count env (ci_candidate inputs) st) (\<lambda>objects.
       validated (export_request_valid (ae_floats env))
         (package_request_of env ctx rc plan inputs version (ra_artifact_ref manifest) tables (ra_artifact_ref dataset_card) (ra_artifact_ref lineage) s objects)))) (\<lambda>request.
     bindS (on_run (on_store (build_export_package (ae_builder env) (ao_dump_package out) request))) (\<lambda>(package, artifact).
     bindS (set_state (\<lambda>s. s\<lparr>as_export_package := Some package, as_export_package_artifact := Some artifact\<rparr>)) (\<lambda>_.
     returnS artifact)))"

definition output_stages ::
    "('s, 'f, 'r, 'd) apply_env \<Rightarrow> ('s, 'f) outputs_env \<Rightarrow> apply_context \<Rightarrow> run_context \<Rightarrow> 'f candidate_inputs
     \<Rightarrow> ('s, 'f) world \<Rightarrow> (exn + registered_artifact) \<times> ('s, 'f) world" where
  "output_stages env out ctx rc inputs =
     bindS (liftS (require_plan ctx)) (\<lambda>plan.
     bindS (candidate_stage env out ctx rc plan inputs) (\<lambda>(version, version_artifact).
     bindS (card_stage env out ctx rc plan inputs version) (\<lambda>dataset_card.
     bindS (lineage_stage env out ctx rc plan inputs version version_artifact) (\<lambda>lineage.
     bindS (tabular_stage env out ctx rc plan inputs version) (\<lambda>tables.
     bindS (on_run (persist_export_manifest env out ctx rc)) (\<lambda>manifest.
     bindS (set_state (\<lambda>s. s\<lparr>as_export_manifest := Some manifest\<rparr>)) (\<lambda>_.
     package_stage env out ctx rc plan inputs version manifest tables dataset_card lineage)))))))"

definition build_final_apply_outputs ::
    "('s, 'f, 'r, 'd) apply_env \<Rightarrow> ('s, 'f) outputs_env \<Rightarrow> apply_context \<Rightarrow> run_context
     \<Rightarrow> ('s, 'f) world \<Rightarrow> (exn + registered_artifact) \<times> ('s, 'f) world" where
  "build_final_apply_outputs env out ctx rc w =
     (case as_export_package_artifact (fst w) of
        Some artifact \<Rightarrow> (Inr artifact, w)
      | None \<Rightarrow>
          bindS (on_run (ensure_candidate env out ctx rc)) (\<lambda>_.
          bindS (on_run (ensure_model_impact_report env out ctx rc)) (\<lambda>_.
          bindS (reading (\<lambda>s st. candidate_inputs_of s)) (\<lambda>inputs.
          output_stages env out ctx rc inputs))) w)"

section \<open>What the API answers\<close>

definition final_candidate_ref :: "'f apply_state \<Rightarrow> registered_artifact option" where
  "final_candidate_ref s =
     (case as_candidate_version s of
        None \<Rightarrow> None
      | Some candidate \<Rightarrow>
          (case as_candidate_version_artifact s of
             None \<Rightarrow> None
           | Some artifact \<Rightarrow> if cv_status candidate \<in> {CV_BLOCKED, CV_FAILED} then None else Some artifact))"

definition final_export_ref :: "'f apply_state \<Rightarrow> registered_artifact option" where
  "final_export_ref s =
     (case (as_export_package s, as_export_package_artifact s) of
        (Some package, Some artifact) \<Rightarrow> if ex_status package \<noteq> EX_READY then None else Some artifact
      | _ \<Rightarrow> None)"

definition synthetic_status :: "'f apply_state \<Rightarrow> apply_context \<Rightarrow> string" where
  "synthetic_status s ctx =
     (if \<not> has_synthetic ctx then ''not_applicable''
      else if as_synthetic_report s = None then ''failed''
      else case as_gates_report s of
             Some gates \<Rightarrow> if gr_block_export gates then ''blocked'' else ''materialized''
           | None \<Rightarrow> ''materialized'')"

section \<open>What the stages leave in the state\<close>

lemma unchanged_on_run [unchanged_intros]: "unchanged g m \<Longrightarrow> unchanged g (on_run m)"
  by (rule unchangedI) (auto simp: on_run_def split: prod.splits dest: unchangedD)

lemma unchanged_on_builders [unchanged_intros]: "unchanged g (on_builders f)"
  by (rule unchangedI) (auto simp: on_builders_def split: prod.splits)

lemma unchanged_reading [unchanged_intros]: "unchanged g (reading f)"
  by (rule unchangedI) (auto simp: reading_def)

lemma unchanged_set_state [unchanged_intros]: "(\<And>s. g (f s) = g s) \<Longrightarrow> unchanged g (set_state f)"
  by (rule unchangedI) (auto simp: set_state_def)

lemma unchanged_manifest [unchanged_intros]: "unchanged g (persist_export_manifest env out ctx rc)"
  by (rule unchangedI) (auto simp: persist_export_manifest_def bindS_def liftS_def on_store_def Let_def split: option.splits sum.splits prod.splits)

lemma reading_iff: "reading f w = (Inr a, w') \<longleftrightarrow> f (fst w) (fst (snd w)) = Inr a \<and> w' = w"
  by (auto simp: reading_def)

lemma set_state_iff: "set_state f w = (r, w') \<longleftrightarrow> r = Inr () \<and> w' = (f (fst w), snd w)"
  by (auto simp: set_state_def)

lemma on_run_Inr: "on_run m w = (Inr a, w') \<longleftrightarrow> m (fst w, fst (snd w)) = (Inr a, fst w', fst (snd w')) \<and> snd (snd w') = snd (snd w)"
  by (cases w') (auto simp: on_run_def split: prod.splits)

lemma on_builders_Inr: "on_builders f w = (Inr a, w') \<longleftrightarrow> f (snd w) = (Inr a, snd w') \<and> fst w' = fst w"
  by (cases w') (auto simp: on_builders_def split: prod.splits)

lemmas stage_iffs = bindS_Inr_iff reading_iff set_state_iff on_run_Inr on_builders_Inr on_store_iff

lemma lineage_stage_unchanged: "(\<And>s a. g (s\<lparr>as_lineage_artifact := a\<rparr>) = g s) \<Longrightarrow> unchanged g (lineage_stage env out ctx rc plan inputs version artifact)"
  unfolding lineage_stage_def by (intro unchanged_intros)

lemma card_stage_unchanged: "(\<And>s a. g (s\<lparr>as_dataset_card_artifact := a\<rparr>) = g s) \<Longrightarrow> unchanged g (card_stage env out ctx rc plan inputs version)"
  unfolding card_stage_def by (intro unchanged_intros)

lemma tabular_stage_unchanged: "(\<And>s a. g (s\<lparr>as_tabular_exports := a\<rparr>) = g s) \<Longrightarrow> unchanged g (tabular_stage env out ctx rc plan inputs version)"
  unfolding tabular_stage_def by (intro unchanged_intros)

lemma candidate_stage_Inr:
  assumes "candidate_stage env out ctx rc plan inputs w = (Inr (version, artifact), w')"
  shows "fst w' = (fst w)\<lparr>as_candidate_version := Some version, as_candidate_version_artifact := Some artifact\<rparr>"
    "assemble_candidate (ae_builder env) (ae_floats env) (candidate_request_of env ctx rc plan inputs (fst w)) = Inr version"
proof -
  obtain request event w1 where "request = candidate_request_of env ctx rc plan inputs (fst w)"
    and build: "build_candidate_dataset_version (ae_builder env) (ae_floats env) (ao_dump_candidate out) (ao_candidate_uuid out) request (snd w)
      = (Inr (version, artifact, event), w1)"
    and "fst w' = (fst w)\<lparr>as_candidate_version := Some version, as_candidate_version_artifact := Some artifact\<rparr>"
    using assms by (auto simp: candidate_stage_def stage_iffs validated_Inr_iff returnS_def)
  with build_cases [OF build] show
    "fst w' = (fst w)\<lparr>as_candidate_version := Some version, as_candidate_version_artifact := Some artifact\<rparr>"
    "assemble_candidate (ae_builder env) (ae_floats env) (candidate_request_of env ctx rc plan inputs (fst w)) = Inr version" by auto
qed

lemma package_stage_Inr:
  assumes "package_stage env out ctx rc plan inputs version manifest tables dataset_card lineage w = (Inr artifact, w')"
  obtains objects package st' where
    "build_export_package (ae_builder env) (ao_dump_package out)
       (package_request_of env ctx rc plan inputs version (ra_artifact_ref manifest) tables (ra_artifact_ref dataset_card)
         (ra_artifact_ref lineage) (fst w) objects) (fst (snd w)) = (Inr (package, artifact), st')"
    "fst w' = (fst w)\<lparr>as_export_package := Some package, as_export_package_artifact := Some artifact\<rparr>"
  using assms that by (auto simp: package_stage_def stage_iffs result_simps returnS_def)

text \<open>The state that the candidate, its gates and the model impact determine.\<close>

lemma output_stages_Inr:
  assumes "output_stages env out ctx rc inputs w = (Inr artifact, w')"
  obtains plan version version_artifact request package st st' where
    "assemble_candidate (ae_builder env) (ae_floats env) (candidate_request_of env ctx rc plan inputs (fst w)) = Inr version"
    "build_export_package (ae_builder env) (ao_dump_package out) request st = (Inr (package, artifact), st')"
    "xr_candidate_dataset_version request = version" "xr_validation_gates_report request = Some (ci_gates inputs)"
    "xr_text_ocr_report request = None" "xr_model_impact_report request = as_model_impact_report (fst w)"
    "xr_blocked_object_count request = (if cv_block_export version then 1 else 0)"
    "xr_require_model_impact_eligibility request = ac_require_model_impact_eligibility ctx"
    "xr_dataset_card_artifact request \<noteq> None" "xr_lineage_artifact request \<noteq> None"
    "as_candidate_version (fst w') = Some version" "as_candidate_version_artifact (fst w') = Some version_artifact"
    "as_export_package (fst w') = Some package" "as_export_package_artifact (fst w') = Some artifact"
    "as_gates_report (fst w') = as_gates_report (fst w)" "as_model_impact_report (fst w') = as_model_impact_report (fst w)"
proof -
  obtain plan version va w1 dataset_card w2 lineage w3 tables w4 manifest w5 where
    candidate: "candidate_stage env out ctx rc plan inputs w = (Inr (version, va), w1)"
    and stages: "card_stage env out ctx rc plan inputs version w1 = (Inr dataset_card, w2)"
      "lineage_stage env out ctx rc plan inputs version va w2 = (Inr lineage, w3)"
      "tabular_stage env out ctx rc plan inputs version w3 = (Inr tables, w4)"
      "on_run (persist_export_manifest env out ctx rc) w4 = (Inr manifest, w5)"
    and package: "package_stage env out ctx rc plan inputs version manifest tables dataset_card lineage
      ((fst w5)\<lparr>as_export_manifest := Some manifest\<rparr>, snd w5) = (Inr artifact, w')"
    using assms by (auto simp: output_stages_def bindS_Inr_iff set_state_iff simp del: split_paired_Ex)
  have same: "g (fst w5) = g (fst w1)"
    if "\<And>s a. g (s\<lparr>as_dataset_card_artifact := a\<rparr>) = g s" "\<And>s a. g (s\<lparr>as_lineage_artifact := a\<rparr>) = g s"
      "\<And>s a. g (s\<lparr>as_tabular_exports := a\<rparr>) = g s" for g :: "'a apply_state \<Rightarrow> 'z"
    using unchangedD [OF card_stage_unchanged stages(1), of g] unchangedD [OF lineage_stage_unchanged stages(2), of g]
      unchangedD [OF tabular_stage_unchanged stages(3), of g] unchangedD [OF unchanged_on_run [OF unchanged_manifest] stages(4), of g] that
    by simp
  note c = candidate_stage_Inr [OF candidate]
  from package obtain objects p st' where
    build: "build_export_package (ae_builder env) (ao_dump_package out)
       (package_request_of env ctx rc plan inputs version (ra_artifact_ref manifest) tables (ra_artifact_ref dataset_card)
         (ra_artifact_ref lineage) ((fst w5)\<lparr>as_export_manifest := Some manifest\<rparr>) objects) (fst (snd w5)) = (Inr (p, artifact), st')"
    and w': "fst w' = (fst w5)\<lparr>as_export_manifest := Some manifest, as_export_package := Some p, as_export_package_artifact := Some artifact\<rparr>"
    by (rule package_stage_Inr) auto
  show thesis
    by (rule that [OF c(2) build])
      (simp_all add: package_request_of_def w' c(1) same [of as_model_impact_report] same [of as_gates_report]
        same [of as_candidate_version] same [of as_candidate_version_artifact])
qed

lemma final_Inr:
  assumes "build_final_apply_outputs env out ctx rc w = (Inr artifact, w')" "as_export_package_artifact (fst w) = None"
  obtains w2 inputs where "candidate_inputs_of (fst w2) = Inr inputs" "output_stages env out ctx rc inputs w2 = (Inr artifact, w')"
  using assms by (auto simp: build_final_apply_outputs_def bindS_Inr_iff reading_iff simp del: split_paired_Ex)

lemma inputs_gates: "candidate_inputs_of s = Inr inputs \<Longrightarrow> as_gates_report s = Some (ci_gates inputs)"
  by (auto simp: candidate_inputs_of_def split: option.splits)

section \<open>Properties\<close>

text \<open>C6: What a run answers is decided by its gates: when the final outputs are built, the run's state holds a gates report; the
  export is answered exactly when that report does not block exports, saw the source unchanged and has no blocker, and the model
  impact is a passing verdict - or absent, where it is not required; the candidate is answered exactly unless validation failed.\<close>

theorem final_answers_iff:
  assumes "build_final_apply_outputs env out ctx rc w = (Inr artifact, w')" "as_export_package_artifact (fst w) = None"
  shows "\<exists>gates. as_gates_report (fst w') = Some gates
    \<and> final_export_ref (fst w') =
        (if \<not> gr_block_export gates \<and> gr_raw_artifact_unchanged gates \<and> \<not> gr_blocker_present gates
            \<and> (case as_model_impact_report (fst w') of None \<Rightarrow> \<not> ac_require_model_impact_eligibility ctx
                 | Some v \<Rightarrow> v \<in> {MI_IMPROVED, MI_REQUIRES_REVIEW})
         then Some artifact else None)
    \<and> (final_candidate_ref (fst w') = None \<longleftrightarrow> gr_candidate_status gates = CA_VALIDATION_FAILED)"
proof -
  from final_Inr [OF assms] obtain w2 inputs where inputs: "candidate_inputs_of (fst w2) = Inr inputs"
    and stages: "output_stages env out ctx rc inputs w2 = (Inr artifact, w')" by blast
  note gates = inputs_gates [OF inputs]
  from stages show ?thesis
  proof (rule output_stages_Inr)
    fix plan version va request package st st'
    assume candidate: "assemble_candidate (ae_builder env) (ae_floats env) (candidate_request_of env ctx rc plan inputs (fst w2)) = Inr version"
      and build: "build_export_package (ae_builder env) (ao_dump_package out) request st = (Inr (package, artifact), st')"
      and request: "xr_candidate_dataset_version request = version" "xr_validation_gates_report request = Some (ci_gates inputs)"
        "xr_text_ocr_report request = None" "xr_model_impact_report request = as_model_impact_report (fst w2)"
        "xr_blocked_object_count request = (if cv_block_export version then 1 else 0)"
        "xr_require_model_impact_eligibility request = ac_require_model_impact_eligibility ctx"
        "xr_dataset_card_artifact request \<noteq> None" "xr_lineage_artifact request \<noteq> None"
      and state: "as_candidate_version (fst w') = Some version" "as_candidate_version_artifact (fst w') = Some va"
        "as_export_package (fst w') = Some package" "as_export_package_artifact (fst w') = Some artifact"
        "as_gates_report (fst w') = as_gates_report (fst w2)" "as_model_impact_report (fst w') = as_model_impact_report (fst w2)"
    have status: "cv_status version = resolve_status (Some (ci_gates inputs))" "cv_block_export version = gr_block_export (ci_gates inputs)"
      using assemble_fields(1,2) [OF candidate] by (simp_all add: candidate_request_of_def resolve_blocks_def)
    have "ex_status package = EX_READY \<longleftrightarrow> (\<forall>g \<in> set (export_gates request). eg_status g \<noteq> EG_FAILED)"
      using assemble_export_fields(1,6) [OF build_export_Inr [OF build]] export_codes_set(2) [of request] by auto
    also have "\<dots> \<longleftrightarrow> \<not> gr_block_export (ci_gates inputs) \<and> gr_raw_artifact_unchanged (ci_gates inputs) \<and> \<not> gr_blocker_present (ci_gates inputs)
        \<and> (case as_model_impact_report (fst w') of None \<Rightarrow> \<not> ac_require_model_impact_eligibility ctx
             | Some v \<Rightarrow> v \<in> {MI_IMPROVED, MI_REQUIRES_REVIEW})"
      unfolding some_gate_failed using request status(2) state(6) by (auto simp: raw_artifact_unchanged_def split: option.splits)
    finally have "final_export_ref (fst w') =
        (if \<not> gr_block_export (ci_gates inputs) \<and> gr_raw_artifact_unchanged (ci_gates inputs) \<and> \<not> gr_blocker_present (ci_gates inputs)
            \<and> (case as_model_impact_report (fst w') of None \<Rightarrow> \<not> ac_require_model_impact_eligibility ctx
                 | Some v \<Rightarrow> v \<in> {MI_IMPROVED, MI_REQUIRES_REVIEW})
         then Some artifact else None)" using state(3,4) by (simp only: final_export_ref_def) simp
    moreover have "final_candidate_ref (fst w') = None \<longleftrightarrow> gr_candidate_status (ci_gates inputs) = CA_VALIDATION_FAILED"
      using state(1,2) status(1) by (cases "gr_candidate_status (ci_gates inputs)") (simp_all add: final_candidate_ref_def resolve_status_def)
    ultimately show ?thesis using state(5) gates by auto
  qed
qed

text \<open>Building the final outputs again answers from the state: the same package, the same state, store and audit trail.\<close>

theorem second_build_is_silent:
  assumes "build_final_apply_outputs env out ctx rc w = (Inr artifact, w')"
  shows "build_final_apply_outputs env out ctx rc w' = (Inr artifact, w')"
proof (cases "as_export_package_artifact (fst w)")
  case None
  from final_Inr [OF assms None] obtain w2 inputs where "output_stages env out ctx rc inputs w2 = (Inr artifact, w')" by blast
  then have "as_export_package_artifact (fst w') = Some artifact" by (rule output_stages_Inr)
  then show ?thesis by (simp add: build_final_apply_outputs_def)
next
  case (Some a)
  then show ?thesis using assms by (auto simp: build_final_apply_outputs_def)
qed

section \<open>Samples\<close>

text \<open>Saves of the sample leave the source and the addresses of other kinds alone.\<close>

abbreviation source_key :: "string \<times> string" where
  "source_key \<equiv> (''bkt'', ''tenants/o/p/d/s'')"

definition kept :: "mem_state \<Rightarrow> string \<Rightarrow> mem_state \<Rightarrow> bool" where
  "kept st kind st' \<longleftrightarrow> dict_get st' source_key = dict_get st source_key
     \<and> (\<forall>kind' fmt schema data. kind' \<noteq> kind \<longrightarrow> slash \<notin> set kind' \<longrightarrow>
          dict_get st' (run_key kind' fmt schema data) = dict_get st (run_key kind' fmt schema data))"

lemma run_key_source: "run_key kind fmt schema data \<noteq> source_key"
  by (simp add: run_key_def object_name_of_def adapter_for_def scope_of_def slash_def allowed_prefix_def join_key_def strip_char_def strip_where_def)

lemma run_save_kept:
  assumes "args = \<lparr>sv_artifact_kind = kind, sv_data = data, sv_artifact_format = fmt, sv_media_type = media,
      sv_schema_version = schema, sv_dataset_version_id = ''cv'', sv_created_by_job_id = ''r'', sv_config_hash = zero_digest, sv_metadata = md\<rparr>"
    and "list_all good_component [kind, fmt, schema]" "media \<noteq> []" "dict_get st (run_key kind fmt schema data) = None" "slash \<notin> set kind"
  shows "\<exists>rec st'. registry_save run_builder args st = (Inr rec, st') \<and> artifact_ref_valid (ra_artifact_ref rec) \<and> kept st kind st'"
proof -
  obtain rec md' where save: "registry_save run_builder args st
      = (Inr rec, dict_set st (run_key kind fmt schema data) \<lparr>mo_body = data, mo_content_type = media, mo_metadata = md'\<rparr>)"
    using run_save [OF assms(2-4), of md] unfolding assms(1) by (elim exE)
  have "kept st kind (dict_set st (run_key kind fmt schema data) \<lparr>mo_body = data, mo_content_type = media, mo_metadata = md'\<rparr>)"
    using run_keys_differ [OF _ _ assms(5)] run_key_source [symmetric] by (simp add: kept_def dict_get_set)
  moreover have "artifact_ref_valid (ra_artifact_ref rec)" using saved_valid [OF save] by (simp add: registered_artifact_valid_def)
  ultimately show ?thesis using save by (intro exI conjI)
qed

definition final_rows :: "csv_row list" where
  "final_rows = [[(''object_id'', ''a''), (''v'', ''1'')]]"

definition final_text :: string where
  "final_text = export_csv final_rows [''object_id'', ''v'']"

lemma final_records: "csv_records final_text = [[''object_id'', ''v''], [''a'', ''1'']]"
  by code_simp

definition final_held :: registered_artifact where
  "final_held = \<lparr>ra_artifact_ref = run_source, ra_artifact_kind = ''csv'', ra_uri = ar_uri run_source, ra_hash = ar_hash run_source,
     ra_format = ''csv'', ra_schema_version = ''v1'', ra_created_by_job_id = ''r''\<rparr>"

definition final_ctx :: apply_context where
  "final_ctx = run_ctx\<lparr>ac_action_plan := Some sample_plan\<rparr>"

definition final_out :: "(mem_state, rat) outputs_env" where
  "final_out =
     \<lparr>ao_model_impact = (\<lambda>_ st. (Inl PydanticError, st)), ao_dataset_card = (\<lambda>_ st. (Inr final_held, st)), ao_parquet = sample_parquet,
      ao_dump_remediation = (\<lambda>_. ''remediation''), ao_dump_candidate = (\<lambda>_. ''candidate''), ao_dump_lineage = (\<lambda>_. ''lineage''),
      ao_dump_manifest = (\<lambda>_. ''manifest''), ao_dump_package = (\<lambda>_. ''package''), ao_candidate_uuid = ''a'', ao_lineage_uuid = ''b'',
      ao_export_uuid = ''c''\<rparr>"

definition final_state :: "rat apply_state" where
  "final_state = new_apply_state\<lparr>as_source_artifact := Some run_source, as_primary_candidate := Some final_held,
     as_step_outputs := [final_held], as_gates_report := Some sample_ok_gates, as_gates_report_artifact := Some final_held,
     as_model_impact_report := Some MI_IMPROVED, as_model_impact_artifact := Some final_held, as_export_manifest := Some final_held\<rparr>"

definition final_store :: mem_state where
  "final_store = [sample_object ''s'' final_text]"

definition final_inputs :: "rat candidate_inputs" where
  "final_inputs = \<lparr>ci_source = run_source, ci_candidate = final_held, ci_gates = sample_ok_gates, ci_gates_artifact = final_held\<rparr>"

lemma final_inputs: "candidate_inputs_of final_state = Inr final_inputs"
  by (simp add: candidate_inputs_of_def final_state_def final_inputs_def)

lemma final_free: "dict_get final_store (run_key kind fmt schema data) = None"
  using run_key_source by (simp add: final_store_def sample_object_def dict_get_def)

lemma final_held_ref: "ra_artifact_ref final_held = run_source" "artifact_ref_valid run_source"
  using sample_ref_valid by (simp_all add: final_held_def run_source_def)

lemma final_read:
  assumes "dict_get st source_key = dict_get final_store source_key"
  shows "stored_text run_env run_source st = Inr final_text" "row_count run_env final_held st = Inr 1"
    "read_candidate_rows run_builder run_source st = Inr (final_rows, [''object_id'', ''v''])"
proof -
  have st: "dict_get st source_key = Some \<lparr>mo_body = final_text, mo_content_type = ''text/csv'', mo_metadata = []\<rparr>"
    using assms by (simp add: final_store_def sample_object_def dict_get_def)
  obtain i where got: "storage_get run_builder (ar_uri run_source) st = Inr (final_text, i)" using run_reads [OF st] by (elim exE)
  then show read: "stored_text run_env run_source st = Inr final_text" by (simp add: stored_text_def)
  have fit: "list_all fields_fit [[''object_id'', ''v''], [''a'', ''1'']]" by (simp add: fields_fit_def field_limit_def)
  show "row_count run_env final_held st = Inr 1"
    using read fit by (simp add: row_count_def final_held_ref csv_row_count_def final_records)
  have "dict_of (zip [''object_id'', ''v''] [''a'', ''1'']) = hd final_rows" by code_simp
  then show "read_candidate_rows run_builder run_source st = Inr (final_rows, [''object_id'', ''v''])"
    using got fit by (simp add: read_candidate_rows_def tabular_rows_def final_records final_rows_def)
qed

lemma final_env [simp]: "ae_floats run_env = rat_floats" "se_uuid run_builder = ''u''"
  by (simp_all add: run_env_def run_builder_def sample_env_def)

lemma final_plan: "action_plan_valid sample_plan" "ap_steps sample_plan \<noteq> []" "require_plan final_ctx = Inr sample_plan"
  using build_preview_Inr [OF sample_plan]
  by (auto simp: selected_for_def sample_defs require_plan_def final_ctx_def dest!: list_all2_lengthD map_eq_imp_length_eq)

lemma final_ctx_fields:
  "ac_proposed_version_name final_ctx = ''cv''" "ac_config_hash final_ctx = zero_digest" "ac_source_dataset_version_id final_ctx = ''v1''"
  "ac_decision_report_id final_ctx = ''dr''" "ac_policy_versions final_ctx = cr_policy_versions (sample_candidate_request None)"
  "ac_require_model_impact_eligibility final_ctx = False"
  "rc_organization_id sample_context = ''o''" "rc_project_id sample_context = ''p''" "rc_dataset_id sample_context = ''d''"
  "rc_compute_run_id sample_context = ''r''"
  by (simp_all add: final_ctx_def run_ctx_def sample_context_def)

lemma held_refs:
  assumes "as_step_outputs s = [final_held]" "as_gates_report_artifact s = Some final_held" "as_model_impact_artifact s = Some final_held"
  shows "candidate_artifact_refs s = [run_source]"
  using assms by (simp add: candidate_artifact_refs_def unique_refs_def final_held_ref opt_list_def)

lemma final_refs: "candidate_artifact_refs final_state = [run_source]"
  by (rule held_refs) (simp_all add: final_state_def)

lemma final_state_fields:
  "as_synthetic_report final_state = None" "as_synthetic_report_artifact final_state = None" "as_model_impact_artifact final_state = Some final_held"
  "as_split_manifest final_state = None" "as_split_artifact final_state = None" "as_model_impact_report final_state = Some MI_IMPROVED"
  "as_gates_report_artifact final_state = Some final_held" "as_export_manifest final_state = Some final_held"
  "as_export_package_artifact final_state = None" "as_primary_candidate final_state = Some final_held"
  "as_gates_report final_state = Some sample_ok_gates" "gr_gates sample_ok_gates = []" "as_step_outputs final_state = [final_held]" "as_source_artifact final_state = Some run_source"
  by (simp_all add: final_state_def new_apply_state_def sample_ok_gates_def)

lemma final_candidate_valid: "candidate_request_valid rat_floats (candidate_request_of run_env final_ctx sample_context sample_plan final_inputs final_state)"
proof -
  have "candidate_policy_versions_valid (cr_policy_versions (sample_candidate_request None))"
    using sample_candidate_request_valid [of None] by (simp add: candidate_request_valid_def)
  then show ?thesis
    using final_plan final_held_ref
    by (simp add: candidate_request_valid_def candidate_request_of_def final_ctx_fields final_refs final_inputs_def non_empty_def zero_digest_def
        final_state_fields)
qed

lemma final_candidate:
  "\<exists>v va st1. candidate_stage run_env final_out final_ctx sample_context sample_plan final_inputs (final_state, final_store, None)
      = (Inr (v, va), final_state\<lparr>as_candidate_version := Some v, as_candidate_version_artifact := Some va\<rparr>, st1, None)
    \<and> candidate_version_valid rat_floats v \<and> cv_status v = CV_PROPOSED \<and> \<not> cv_block_export v \<and> cv_action_plan_steps v \<noteq> []
    \<and> cl_proposed_version_name (cv_lineage v) = ''cv'' \<and> artifact_ref_valid (ra_artifact_ref va)
    \<and> kept final_store CANDIDATE_DATASET_VERSION_KIND st1"
proof -
  let ?q = "candidate_request_of run_env final_ctx sample_context sample_plan final_inputs final_state"
  have "synthetic_ready ?q"
    by (simp add: synthetic_ready_def candidate_request_of_def final_state_fields)
  with assemble_iff [OF final_candidate_valid, of run_builder] obtain v where v: "assemble_candidate run_builder rat_floats ?q = Inr v"
    "candidate_version_valid rat_floats v" by (auto split: sum.splits)
  have fields: "cv_status v = CV_PROPOSED" "\<not> cv_block_export v" "cl_proposed_version_name (cv_lineage v) = ''cv''"
    using assemble_fields [OF v(1)]
    by (simp_all add: candidate_request_of_def final_inputs_def resolve_status_def resolve_blocks_def sample_ok_gates_def candidate_lineage_of_def
        final_ctx_fields)
  have "length (cv_action_plan_steps v) = length (ap_steps sample_plan)"
    using v(1) by (auto simp: assemble_candidate_def Let_def result_simps summarize_steps_def candidate_request_of_def dest: mapR_length split: prod.splits)
  then have steps: "cv_action_plan_steps v \<noteq> []" using final_plan(2) by auto
  have args: "candidate_save_args run_builder (\<lambda>_. ''candidate'') ?q v
      = \<lparr>sv_artifact_kind = CANDIDATE_DATASET_VERSION_KIND, sv_data = ''candidate'', sv_artifact_format = ''json'',
         sv_media_type = ''application/json'', sv_schema_version = CANDIDATE_DATASET_VERSION_SCHEMA_VERSION, sv_dataset_version_id = ''cv'',
         sv_created_by_job_id = ''r'', sv_config_hash = zero_digest, sv_metadata = candidate_metadata_label run_builder ?q v\<rparr>"
    by (simp add: candidate_save_args_def candidate_request_of_def final_ctx_fields)
  have good: "list_all good_component [CANDIDATE_DATASET_VERSION_KIND, ''json'', CANDIDATE_DATASET_VERSION_SCHEMA_VERSION]"
    and slash: "slash \<notin> set CANDIDATE_DATASET_VERSION_KIND" and media: "''application/json'' \<noteq> []"
    by (simp_all add: good_component_def component_char_def slash_def CANDIDATE_DATASET_VERSION_KIND_def CANDIDATE_DATASET_VERSION_SCHEMA_VERSION_def)
  obtain va st1 where save: "registry_save run_builder (candidate_save_args run_builder (\<lambda>_. ''candidate'') ?q v) final_store = (Inr va, st1)"
    "artifact_ref_valid (ra_artifact_ref va)" "kept final_store CANDIDATE_DATASET_VERSION_KIND st1"
    using run_save_kept [OF args good media final_free slash] by (elim exE conjE)
  have "build_candidate_dataset_version run_builder rat_floats (\<lambda>_. ''candidate'') ''a'' ?q (final_store, None) = (Inr (v, va, None), st1, None)"
    using v(1) save(1) by (simp add: build_candidate_dataset_version_def candidate_save_args_def emit_candidate_event_def)
  then have "candidate_stage run_env final_out final_ctx sample_context sample_plan final_inputs (final_state, final_store, None)
      = (Inr (v, va), final_state\<lparr>as_candidate_version := Some v, as_candidate_version_artifact := Some va\<rparr>, st1, None)"
    using final_candidate_valid
    by (simp add: candidate_stage_def bindS_def reading_def on_builders_def set_state_def returnS_def validated_def result_simps final_out_def)
  then show ?thesis using v(2) fields steps save(2,3) by (intro exI conjI)
qed

lemma final_card:
  assumes "candidate_version_valid rat_floats v" "dict_get st source_key = dict_get final_store source_key"
  shows "card_stage run_env final_out final_ctx sample_context sample_plan final_inputs v (s, st, None)
    = (Inr final_held, s\<lparr>as_dataset_card_artifact := Some final_held\<rparr>, st, None)"
proof -
  have "row_count run_env (ci_candidate final_inputs) st = Inr 1" using final_read(2) [OF assms(2)] by (simp add: final_inputs_def)
  moreover have "dataset_card_request_valid rat_floats (card_request_of run_env final_ctx sample_context sample_plan final_inputs v s 1)"
    using assms(1) by (simp add: dataset_card_request_valid_def card_request_of_def final_ctx_fields non_empty_def zero_digest_def)
  ultimately show ?thesis
    by (simp add: card_stage_def bindS_def reading_def on_run_def on_store_def set_state_def returnS_def validated_def final_out_def Let_def)
qed

lemma final_lineage:
  assumes "candidate_version_valid rat_floats v" "cv_action_plan_steps v \<noteq> []" "cl_proposed_version_name (cv_lineage v) = ''cv''"
    and "artifact_ref_valid (ra_artifact_ref va)" "candidate_artifact_refs s = [run_source]"
    and "dict_get st (run_key LINEAGE_REPORT_KIND ''json'' LINEAGE_REPORT_SCHEMA_VERSION ''lineage'') = None"
  shows "\<exists>la st'. lineage_stage run_env final_out final_ctx sample_context sample_plan final_inputs v va (s, st, None)
      = (Inr la, s\<lparr>as_lineage_artifact := Some la\<rparr>, st', None)
    \<and> artifact_ref_valid (ra_artifact_ref la) \<and> kept st LINEAGE_REPORT_KIND st'"
proof -
  let ?q = "lineage_request_of run_env final_ctx sample_context sample_plan final_inputs v va s"
  have valid: "lineage_request_valid rat_floats ?q"
    using assms(1,4,5) final_held_ref(2)
    by (simp add: lineage_request_valid_def lineage_request_of_def final_ctx_fields non_empty_def zero_digest_def final_inputs_def)
  moreover have "cv_action_plan_steps (lq_candidate_dataset_version ?q) \<noteq> []" using assms(2) by (simp add: lineage_request_of_def)
  ultimately obtain r where r: "assemble_lineage run_builder ?q = Inr r" using lineage_total by blast
  have "lr_output_dataset_version_id r = ''cv''"
    using r assms(3) by (auto simp: assemble_lineage_def Let_def result_simps lineage_request_of_def split: list.splits)
  then have args: "lineage_save_args run_builder (\<lambda>_. ''lineage'') ?q r
      = \<lparr>sv_artifact_kind = LINEAGE_REPORT_KIND, sv_data = ''lineage'', sv_artifact_format = ''json'',
         sv_media_type = ''application/json'', sv_schema_version = LINEAGE_REPORT_SCHEMA_VERSION, sv_dataset_version_id = ''cv'',
         sv_created_by_job_id = ''r'', sv_config_hash = zero_digest, sv_metadata = lineage_metadata run_builder r\<rparr>"
    by (simp add: lineage_save_args_def lineage_request_of_def final_ctx_fields)
  have good: "list_all good_component [LINEAGE_REPORT_KIND, ''json'', LINEAGE_REPORT_SCHEMA_VERSION]" and slash: "slash \<notin> set LINEAGE_REPORT_KIND"
    and media: "''application/json'' \<noteq> []"
    by (simp_all add: good_component_def component_char_def slash_def LINEAGE_REPORT_KIND_def LINEAGE_REPORT_SCHEMA_VERSION_def)
  obtain la st' where save: "registry_save run_builder (lineage_save_args run_builder (\<lambda>_. ''lineage'') ?q r) st = (Inr la, st')"
    "artifact_ref_valid (ra_artifact_ref la)" "kept st LINEAGE_REPORT_KIND st'"
    using run_save_kept [OF args good media assms(6) slash] by (elim exE conjE)
  have "build_lineage_report run_builder (\<lambda>_. ''lineage'') ''b'' ''c'' ?q (st, None) = (Inr (r, la, []), st', None)"
    using r save(1) by (simp add: build_lineage_report_def emit_lineage_events_def)
  then have "lineage_stage run_env final_out final_ctx sample_context sample_plan final_inputs v va (s, st, None)
      = (Inr la, s\<lparr>as_lineage_artifact := Some la\<rparr>, st', None)"
    using valid by (simp add: lineage_stage_def bindS_def reading_def on_builders_def set_state_def returnS_def validated_def final_out_def)
  then show ?thesis using save(2,3) by (intro exI conjI)
qed

lemma final_tables:
  assumes "cv_status v = CV_PROPOSED" "as_split_manifest s = None" "as_split_artifact s = None"
    and source: "dict_get st source_key = dict_get final_store source_key"
    and free: "dict_get st (run_key TABULAR_EXPORT_PARQUET_KIND ''parquet'' TABULAR_EXPORT_SCHEMA_VERSION ''a'') = None"
      "dict_get st (run_key TABULAR_EXPORT_CSV_KIND ''csv'' TABULAR_EXPORT_SCHEMA_VERSION final_text) = None"
  shows "\<exists>refs st1 st2. tabular_stage run_env final_out final_ctx sample_context sample_plan final_inputs v (s, st, None)
      = (Inr refs, s\<lparr>as_tabular_exports := refs\<rparr>, st2, None)
    \<and> list_all artifact_ref_valid refs \<and> kept st TABULAR_EXPORT_PARQUET_KIND st1 \<and> kept st1 TABULAR_EXPORT_CSV_KIND st2"
proof -
  let ?q = "tabular_request_of final_ctx sample_context sample_plan final_inputs s" and ?cols = "[''object_id'', ''v'']"
  have valid: "tabular_request_valid ?q"
    using assms(3) final_held_ref
    by (simp add: tabular_request_valid_def tabular_request_of_def final_ctx_fields non_empty_def zero_digest_def final_inputs_def)
  have fields: "tq_source_artifact ?q = run_source" "tq_object_id_column ?q = ''object_id''" "tq_blocked_object_ids ?q = []" "tq_write_csv ?q"
    "tq_split_manifest ?q = None" "tq_split_manifest_artifact ?q = None"
    using assms(2,3) by (simp_all add: tabular_request_of_def final_inputs_def final_held_ref)
  have inc: "included_rows ?q final_rows = final_rows" by (simp add: included_rows_def final_rows_def fields split: option.splits)
  have payload: "sample_parquet (rows_to_arrow rat_floats final_rows ?cols) = Inr ''a''" by code_simp
  have args: "tabular_save_args run_builder kind fmt media final_rows ?cols None ?q data
      = \<lparr>sv_artifact_kind = kind, sv_data = data, sv_artifact_format = fmt, sv_media_type = media,
         sv_schema_version = TABULAR_EXPORT_SCHEMA_VERSION, sv_dataset_version_id = ''cv'', sv_created_by_job_id = ''r'',
         sv_config_hash = zero_digest, sv_metadata = artifact_metadata run_builder ?q None 1 ?cols fmt\<rparr>" for kind fmt media data
    by (simp add: tabular_save_args_def tabular_request_of_def final_ctx_fields final_rows_def)
  have good: "list_all good_component [TABULAR_EXPORT_PARQUET_KIND, ''parquet'', TABULAR_EXPORT_SCHEMA_VERSION]"
    "list_all good_component [TABULAR_EXPORT_CSV_KIND, ''csv'', TABULAR_EXPORT_SCHEMA_VERSION]"
    and slash: "slash \<notin> set TABULAR_EXPORT_PARQUET_KIND" "slash \<notin> set TABULAR_EXPORT_CSV_KIND"
    and media: "''application/x-parquet'' \<noteq> []" "''text/csv'' \<noteq> []" and kinds: "TABULAR_EXPORT_CSV_KIND \<noteq> TABULAR_EXPORT_PARQUET_KIND"
    by (simp_all add: good_component_def component_char_def slash_def TABULAR_EXPORT_PARQUET_KIND_def TABULAR_EXPORT_CSV_KIND_def TABULAR_EXPORT_SCHEMA_VERSION_def)
  obtain p st1 where p: "registry_save run_builder (tabular_save_args run_builder TABULAR_EXPORT_PARQUET_KIND ''parquet'' ''application/x-parquet'' final_rows ?cols None ?q ''a'') st = (Inr p, st1)"
    "artifact_ref_valid (ra_artifact_ref p)" "kept st TABULAR_EXPORT_PARQUET_KIND st1"
    using run_save_kept [OF args good(1) media(1) free(1) slash(1)] by (elim exE conjE)
  have free2: "dict_get st1 (run_key TABULAR_EXPORT_CSV_KIND ''csv'' TABULAR_EXPORT_SCHEMA_VERSION final_text) = None"
    using p(3) free(2) kinds slash(2) by (simp add: kept_def)
  obtain c st2 where c: "registry_save run_builder (tabular_save_args run_builder TABULAR_EXPORT_CSV_KIND ''csv'' ''text/csv'' final_rows ?cols None ?q final_text) st1 = (Inr c, st2)"
    "artifact_ref_valid (ra_artifact_ref c)" "kept st1 TABULAR_EXPORT_CSV_KIND st2"
    using run_save_kept [OF args good(2) media(2) free2 slash(2)] by (elim exE conjE)
  let ?a = "\<lparr>ta_parquet_artifact = p, ta_csv_artifact = Some c, ta_per_split = [], ta_split_manifest_artifact = None, ta_columns = ?cols,
      ta_included_row_count = length final_rows, ta_excluded_blocked_count = length final_rows - length final_rows\<rparr>"
  have wrote: "write_tabular_export run_builder rat_floats (\<lambda>t. t) sample_parquet ?q st = (Inr ?a, st2)"
    using final_read(3) [OF source] p(1) c(1)
    by (simp add: write_tabular_export_def fields inc payload persist_parquet_def maybe_csv_def persist_csv_def bindS_def liftS_def returnS_def Let_def
        final_text_def [symmetric])
  have "ae_encode run_env = (\<lambda>t. t)" by (simp add: run_env_def)
  then have "tabular_stage run_env final_out final_ctx sample_context sample_plan final_inputs v (s, st, None)
      = (Inr (all_artifact_refs ?a), s\<lparr>as_tabular_exports := all_artifact_refs ?a\<rparr>, st2, None)"
    using valid wrote assms(1)
    by (simp add: tabular_stage_def bindS_def reading_def on_run_def on_store_def set_state_def returnS_def validated_def final_out_def Let_def)
  moreover have "list_all artifact_ref_valid (all_artifact_refs ?a)" using p(2) c(2) by (simp add: all_artifact_refs_def opt_list_def)
  ultimately show ?thesis using p(3) c(3) by (intro exI conjI)
qed

lemma final_package:
  assumes "candidate_version_valid rat_floats v" "cl_proposed_version_name (cv_lineage v) = ''cv''" "artifact_ref_valid (ra_artifact_ref la)"
    and "list_all artifact_ref_valid tables" "list_all artifact_ref_valid (extra_export_artifacts s)"
    and source: "dict_get st source_key = dict_get final_store source_key"
    and free: "dict_get st (run_key EXPORT_PACKAGE_KIND ''json'' EXPORT_PACKAGE_SCHEMA_VERSION ''package'') = None"
  shows "\<exists>p pa st'. package_stage run_env final_out final_ctx sample_context sample_plan final_inputs v final_held tables final_held la (s, st, None)
      = (Inr pa, s\<lparr>as_export_package := Some p, as_export_package_artifact := Some pa\<rparr>, st', None)"
proof -
  let ?q = "package_request_of run_env final_ctx sample_context sample_plan final_inputs v run_source tables run_source (ra_artifact_ref la) s 1"
  have valid: "export_request_valid rat_floats ?q"
    using assms(1,3,4,5) final_held_ref(2)
    by (simp add: export_request_valid_def package_request_of_def final_ctx_fields non_empty_def zero_digest_def)
  from assemble_export_total [OF this, of run_builder] obtain p where p: "assemble_export run_builder ?q = Inr p" "ex_version_id p = ''cv''"
    using assms(2) by (auto simp: package_request_of_def)
  have args: "export_save_args run_builder (\<lambda>_. ''package'') ?q p
      = \<lparr>sv_artifact_kind = EXPORT_PACKAGE_KIND, sv_data = ''package'', sv_artifact_format = ''json'',
         sv_media_type = ''application/json'', sv_schema_version = EXPORT_PACKAGE_SCHEMA_VERSION, sv_dataset_version_id = ''cv'',
         sv_created_by_job_id = ''r'', sv_config_hash = zero_digest, sv_metadata = export_metadata run_builder p\<rparr>"
    by (simp add: export_save_args_def package_request_of_def final_ctx_fields p(2))
  have good: "list_all good_component [EXPORT_PACKAGE_KIND, ''json'', EXPORT_PACKAGE_SCHEMA_VERSION]" and slash: "slash \<notin> set EXPORT_PACKAGE_KIND"
    and media: "''application/json'' \<noteq> []"
    by (simp_all add: good_component_def component_char_def slash_def EXPORT_PACKAGE_KIND_def EXPORT_PACKAGE_SCHEMA_VERSION_def)
  obtain pa st' where "registry_save run_builder (export_save_args run_builder (\<lambda>_. ''package'') ?q p) st = (Inr pa, st')"
    using run_save_kept [OF args good media free slash] by (elim exE conjE)
  then have "build_export_package run_builder (\<lambda>_. ''package'') ?q st = (Inr (p, pa), st')" by (simp add: build_export_eq [OF p(1)])
  moreover have "row_count run_env (ci_candidate final_inputs) st = Inr 1" using final_read(2) [OF source] by (simp add: final_inputs_def)
  ultimately have "package_stage run_env final_out final_ctx sample_context sample_plan final_inputs v final_held tables final_held la (s, st, None)
      = (Inr pa, s\<lparr>as_export_package := Some p, as_export_package_artifact := Some pa\<rparr>, st', None)"
    using valid
    by (simp add: package_stage_def bindS_def reading_def on_run_def on_store_def set_state_def returnS_def validated_def final_out_def Let_def final_held_ref)
  then show ?thesis by (intro exI)
qed

definition final_world :: "(mem_state, rat) world" where
  "final_world = (final_state, final_store, None)"

lemma final_returns: "\<exists>artifact w'. build_final_apply_outputs run_env final_out final_ctx sample_context final_world = (Inr artifact, w')
    \<and> as_gates_report (fst w') = Some sample_ok_gates \<and> as_model_impact_report (fst w') = Some MI_IMPROVED"
proof -
  have kinds: "distinct (rev [CANDIDATE_DATASET_VERSION_KIND, LINEAGE_REPORT_KIND, TABULAR_EXPORT_PARQUET_KIND, TABULAR_EXPORT_CSV_KIND, EXPORT_PACKAGE_KIND])"
    "distinct [CANDIDATE_DATASET_VERSION_KIND, LINEAGE_REPORT_KIND, TABULAR_EXPORT_PARQUET_KIND, TABULAR_EXPORT_CSV_KIND, EXPORT_PACKAGE_KIND]"
    "list_all (\<lambda>k. slash \<notin> set k) [CANDIDATE_DATASET_VERSION_KIND, LINEAGE_REPORT_KIND, TABULAR_EXPORT_PARQUET_KIND, TABULAR_EXPORT_CSV_KIND, EXPORT_PACKAGE_KIND]"
    by code_simp+
  obtain v va st1 where candidate: "candidate_stage run_env final_out final_ctx sample_context sample_plan final_inputs (final_state, final_store, None)
      = (Inr (v, va), final_state\<lparr>as_candidate_version := Some v, as_candidate_version_artifact := Some va\<rparr>, st1, None)"
    and v: "candidate_version_valid rat_floats v" "cv_status v = CV_PROPOSED" "\<not> cv_block_export v" "cv_action_plan_steps v \<noteq> []"
      "cl_proposed_version_name (cv_lineage v) = ''cv''" "artifact_ref_valid (ra_artifact_ref va)"
    and k1: "kept final_store CANDIDATE_DATASET_VERSION_KIND st1"
    using final_candidate by (elim exE conjE)
  let ?s1 = "final_state\<lparr>as_candidate_version := Some v, as_candidate_version_artifact := Some va\<rparr>"
  let ?s2 = "?s1\<lparr>as_dataset_card_artifact := Some final_held\<rparr>"
  have source1: "dict_get st1 source_key = dict_get final_store source_key" using k1 by (simp add: kept_def)
  note dataset_card = final_card [OF v(1) source1, of ?s1]
  have refs: "candidate_artifact_refs ?s2 = [run_source]" by (rule held_refs) (simp_all add: final_state_fields)
  have free1: "dict_get st1 (run_key LINEAGE_REPORT_KIND ''json'' LINEAGE_REPORT_SCHEMA_VERSION ''lineage'') = None"
    using k1 kinds final_free by (simp add: kept_def)
  obtain la st2 where lineage: "lineage_stage run_env final_out final_ctx sample_context sample_plan final_inputs v va (?s2, st1, None)
      = (Inr la, ?s2\<lparr>as_lineage_artifact := Some la\<rparr>, st2, None)" "artifact_ref_valid (ra_artifact_ref la)" and k2: "kept st1 LINEAGE_REPORT_KIND st2"
    using final_lineage [OF v(1,4,5,6) refs free1] by (elim exE conjE)
  let ?s3 = "?s2\<lparr>as_lineage_artifact := Some la\<rparr>"
  have source2: "dict_get st2 source_key = dict_get final_store source_key" using k2 source1 by (simp add: kept_def)
  have free2: "dict_get st2 (run_key TABULAR_EXPORT_PARQUET_KIND ''parquet'' TABULAR_EXPORT_SCHEMA_VERSION ''a'') = None"
    "dict_get st2 (run_key TABULAR_EXPORT_CSV_KIND ''csv'' TABULAR_EXPORT_SCHEMA_VERSION final_text) = None"
    "dict_get st2 (run_key EXPORT_PACKAGE_KIND ''json'' EXPORT_PACKAGE_SCHEMA_VERSION ''package'') = None"
    using k1 k2 kinds final_free by (simp_all add: kept_def)
  have "as_split_manifest ?s3 = None" "as_split_artifact ?s3 = None" by (simp_all add: final_state_fields)
  from final_tables [OF v(2) this source2 free2(1,2)] obtain tables st3 st4 where
    tables: "tabular_stage run_env final_out final_ctx sample_context sample_plan final_inputs v (?s3, st2, None)
      = (Inr tables, ?s3\<lparr>as_tabular_exports := tables\<rparr>, st4, None)" "list_all artifact_ref_valid tables"
    and k34: "kept st2 TABULAR_EXPORT_PARQUET_KIND st3" "kept st3 TABULAR_EXPORT_CSV_KIND st4" by (elim exE conjE)
  let ?s5 = "?s3\<lparr>as_tabular_exports := tables, as_export_manifest := Some final_held\<rparr>"
  have source4: "dict_get st4 source_key = dict_get final_store source_key" using k34 source2 by (simp add: kept_def)
  have free4: "dict_get st4 (run_key EXPORT_PACKAGE_KIND ''json'' EXPORT_PACKAGE_SCHEMA_VERSION ''package'') = None"
    using k34 kinds free2(3) by (simp add: kept_def)
  have "list_all artifact_ref_valid (extra_export_artifacts ?s5)"
    using v(6) final_held_ref by (simp add: extra_export_artifacts_def unique_refs_def opt_list_def final_state_fields)
  from final_package [OF v(1,5) lineage(2) tables(2) this source4 free4] obtain p pa st5 where
    package: "package_stage run_env final_out final_ctx sample_context sample_plan final_inputs v final_held tables final_held la (?s5, st4, None)
      = (Inr pa, ?s5\<lparr>as_export_package := Some p, as_export_package_artifact := Some pa\<rparr>, st5, None)" by (elim exE)
  have "build_final_apply_outputs run_env final_out final_ctx sample_context final_world
      = (Inr pa, ?s5\<lparr>as_export_package := Some p, as_export_package_artifact := Some pa\<rparr>, st5, None)"
    using candidate dataset_card lineage(1) tables(1) package
    by (simp add: build_final_apply_outputs_def final_world_def final_state_fields ensure_candidate_def ensure_model_impact_report_def
        bindS_def on_run_def reading_def final_inputs output_stages_def liftS_def final_plan persist_export_manifest_def set_state_def)
  moreover have "as_gates_report ?s5 = Some sample_ok_gates" "as_model_impact_report ?s5 = Some MI_IMPROVED" by (simp_all add: final_state_fields)
  ultimately show ?thesis by auto
qed

theorem final_answers_iff_witness:
  "\<exists>artifact w'. build_final_apply_outputs run_env final_out final_ctx sample_context final_world = (Inr artifact, w')
    \<and> final_export_ref (fst w') = Some artifact \<and> final_candidate_ref (fst w') \<noteq> None"
proof -
  obtain artifact w' where run: "build_final_apply_outputs run_env final_out final_ctx sample_context final_world = (Inr artifact, w')"
    and state: "as_gates_report (fst w') = Some sample_ok_gates" "as_model_impact_report (fst w') = Some MI_IMPROVED"
    using final_returns by (elim exE conjE)
  have "as_export_package_artifact (fst final_world) = None" by (simp add: final_world_def final_state_fields)
  from final_answers_iff [OF run this] run state show ?thesis by (simp add: sample_ok_gates_def)
qed

theorem second_build_is_silent_witness:
  "\<exists>artifact w'. build_final_apply_outputs run_env final_out final_ctx sample_context final_world = (Inr artifact, w')
    \<and> build_final_apply_outputs run_env final_out final_ctx sample_context w' = (Inr artifact, w')"
proof -
  obtain artifact w' where run: "build_final_apply_outputs run_env final_out final_ctx sample_context final_world = (Inr artifact, w')"
    using final_returns by (elim exE conjE)
  with second_build_is_silent [OF run] show ?thesis by (intro exI conjI)
qed

end
