(* ===== verification/ModelEligibility.thy ===== *)
theory ModelEligibility
  imports Leakage ApplyRuntime
begin

text \<open>
  Whether a candidate may be evaluated with a baseline model: the contracts of \<open>src/app/domain/model_impact.py\<close> and the
  checker of \<open>src/app/kernel/model_impact_eligibility.py\<close>. It reads the tabular profile, the split manifest and the split
  leakage report, and stores an eligibility report; a candidate that is not eligible gets a fallback report first. The
  JSON dumps of both reports are parameters, \<open>fallback_uuid\<close> is the fresh identifier of the fallback report.
\<close>

section \<open>Contracts (domain/model_impact.py)\<close>

definition MODEL_IMPACT_ELIGIBILITY_SCHEMA_VERSION :: string where
  "MODEL_IMPACT_ELIGIBILITY_SCHEMA_VERSION = ''model_impact_eligibility.v1''"

definition FALLBACK_READINESS_REPORT_SCHEMA_VERSION :: string where
  "FALLBACK_READINESS_REPORT_SCHEMA_VERSION = ''fallback_readiness_report.v1''"

datatype impact_task_type = SUPERVISED_TABULAR_CLASSIFICATION | SUPERVISED_TABULAR_REGRESSION

fun impact_task_value :: "impact_task_type \<Rightarrow> string" where
  "impact_task_value SUPERVISED_TABULAR_CLASSIFICATION = ''supervised_tabular_classification''"
| "impact_task_value SUPERVISED_TABULAR_REGRESSION = ''supervised_tabular_regression''"

datatype impact_input =
    TARGET_LABEL | ENOUGH_LABELED_SAMPLES | VALID_SPLIT_STRATEGY | NO_LEAKAGE_BLOCKERS | BASELINE_MODEL_AVAILABLE

datatype not_eligible_reason =
    TARGET_LABEL_MISSING | TARGET_COLUMN_HAS_MISSING_VALUES | NOT_ENOUGH_LABELED_SAMPLES | NOT_ENOUGH_RARE_CLASS_SAMPLES
  | SPLIT_MANIFEST_MISSING | SPLIT_MANIFEST_INSUFFICIENT_SPLITS | LEAKAGE_BLOCKER_PRESENT | BASELINE_MODEL_UNAVAILABLE
  | UNSUPPORTED_TASK_TYPE

fun not_eligible_value :: "not_eligible_reason \<Rightarrow> string" where
  "not_eligible_value TARGET_LABEL_MISSING = ''target_label_missing''"
| "not_eligible_value TARGET_COLUMN_HAS_MISSING_VALUES = ''target_column_has_missing_values''"
| "not_eligible_value NOT_ENOUGH_LABELED_SAMPLES = ''not_enough_labeled_samples''"
| "not_eligible_value NOT_ENOUGH_RARE_CLASS_SAMPLES = ''not_enough_rare_class_samples''"
| "not_eligible_value SPLIT_MANIFEST_MISSING = ''split_manifest_missing''"
| "not_eligible_value SPLIT_MANIFEST_INSUFFICIENT_SPLITS = ''split_manifest_insufficient_splits''"
| "not_eligible_value LEAKAGE_BLOCKER_PRESENT = ''leakage_blocker_present''"
| "not_eligible_value BASELINE_MODEL_UNAVAILABLE = ''baseline_model_unavailable''"
| "not_eligible_value UNSUPPORTED_TASK_TYPE = ''unsupported_task_type''"

datatype eligibility_status = ELIGIBLE | NOT_ELIGIBLE

fun eligibility_status_value :: "eligibility_status \<Rightarrow> string" where
  "eligibility_status_value ELIGIBLE = ''eligible''"
| "eligibility_status_value NOT_ELIGIBLE = ''not_eligible''"

record fallback_ref =
  fb_fallback_kind :: string
  fb_fallback_artifact :: artifact_ref
  fb_reasons :: "string list"

record 'f cohort_stats =
  co_label :: string
  co_count :: int
  co_ratio :: 'f
  co_is_rare_class :: bool

record impact_split_stats =
  sz_split :: string
  sz_total_count :: int
  sz_rare_class_count :: int

record eligibility_lineage =
  eo_organization_id :: "string option"
  eo_project_id :: "string option"
  eo_dataset_id :: string
  eo_parent_version_id :: string
  eo_candidate_dataset_version_id :: string
  eo_candidate_version_artifact :: "artifact_ref option"
  eo_tabular_profile_artifact :: "artifact_ref option"
  eo_split_manifest_artifact :: "artifact_ref option"
  eo_split_leakage_report_artifact :: "artifact_ref option"
  eo_created_by_job_id :: string
  eo_config_hash :: string

record 'f fallback_report =
  fk_report_id :: string
  fk_report_schema_version :: string
  fk_fallback_kind :: string
  fk_dataset_id :: string
  fk_parent_version_id :: string
  fk_candidate_dataset_version_id :: string
  fk_status :: eligibility_status
  fk_primary_reason_code :: string
  fk_reasons :: "string list"
  fk_required_inputs_present :: "impact_input list"
  fk_required_inputs_missing :: "impact_input list"
  fk_not_eligible_reason_codes :: "not_eligible_reason list"
  fk_cohort_stats :: "'f cohort_stats list"
  fk_split_stats :: "impact_split_stats list"
  fk_lineage :: eligibility_lineage
  fk_generated_at :: datetime

record 'f eligibility_report =
  ey_report_id :: string
  ey_report_schema_version :: string
  ey_status :: eligibility_status
  ey_eligible :: bool
  ey_task_type :: impact_task_type
  ey_target_column :: "string option"
  ey_rare_class_label :: "string option"
  ey_primary_reason_code :: string
  ey_reasons :: "string list"
  ey_required_inputs_present :: "impact_input list"
  ey_required_inputs_missing :: "impact_input list"
  ey_not_eligible_reason_codes :: "not_eligible_reason list"
  ey_cohort_stats :: "'f cohort_stats list"
  ey_split_stats :: "impact_split_stats list"
  ey_minimum_labeled_samples :: int
  ey_minimum_rare_class_samples :: int
  ey_fallback_report :: "fallback_ref option"
  ey_lineage :: eligibility_lineage
  ey_generated_at :: datetime

definition fallback_ref_valid :: "fallback_ref \<Rightarrow> bool" where
  "fallback_ref_valid r \<longleftrightarrow> non_empty (fb_fallback_kind r) \<and> artifact_ref_valid (fb_fallback_artifact r) \<and> list_all non_empty (fb_reasons r)"

definition cohort_stats_valid :: "'f float_ops \<Rightarrow> 'f cohort_stats \<Rightarrow> bool" where
  "cohort_stats_valid fl c \<longleftrightarrow> non_empty (co_label c) \<and> 0 \<le> co_count c \<and> fl_score_ok fl (co_ratio c)"

definition impact_split_stats_valid :: "impact_split_stats \<Rightarrow> bool" where
  "impact_split_stats_valid s \<longleftrightarrow> non_empty (sz_split s) \<and> 0 \<le> sz_total_count s \<and> 0 \<le> sz_rare_class_count s"

definition eligibility_lineage_valid :: "eligibility_lineage \<Rightarrow> bool" where
  "eligibility_lineage_valid l \<longleftrightarrow>
     opt_ok non_empty (eo_organization_id l) \<and> opt_ok non_empty (eo_project_id l)
     \<and> list_all non_empty [eo_dataset_id l, eo_parent_version_id l, eo_candidate_dataset_version_id l, eo_created_by_job_id l]
     \<and> opt_ok artifact_ref_valid (eo_candidate_version_artifact l) \<and> opt_ok artifact_ref_valid (eo_tabular_profile_artifact l)
     \<and> opt_ok artifact_ref_valid (eo_split_manifest_artifact l) \<and> opt_ok artifact_ref_valid (eo_split_leakage_report_artifact l)
     \<and> sha256_digest (eo_config_hash l)"

definition fallback_report_valid :: "'f float_ops \<Rightarrow> 'f fallback_report \<Rightarrow> bool" where
  "fallback_report_valid fl r \<longleftrightarrow>
     list_all non_empty [fk_report_id r, fk_report_schema_version r, fk_fallback_kind r, fk_dataset_id r, fk_parent_version_id r,
       fk_candidate_dataset_version_id r, fk_primary_reason_code r]
     \<and> list_all non_empty (fk_reasons r) \<and> list_all (cohort_stats_valid fl) (fk_cohort_stats r)
     \<and> list_all impact_split_stats_valid (fk_split_stats r) \<and> eligibility_lineage_valid (fk_lineage r)"

definition eligibility_report_valid :: "'f float_ops \<Rightarrow> 'f eligibility_report \<Rightarrow> bool" where
  "eligibility_report_valid fl r \<longleftrightarrow>
     list_all non_empty [ey_report_id r, ey_report_schema_version r, ey_primary_reason_code r] \<and> list_all non_empty (ey_reasons r)
     \<and> list_all (cohort_stats_valid fl) (ey_cohort_stats r) \<and> list_all impact_split_stats_valid (ey_split_stats r)
     \<and> 0 \<le> ey_minimum_labeled_samples r \<and> 0 \<le> ey_minimum_rare_class_samples r
     \<and> opt_ok fallback_ref_valid (ey_fallback_report r) \<and> eligibility_lineage_valid (ey_lineage r)"

section \<open>Requests\<close>

text \<open>
  What is read of a profile (\<open>domain/profile.py\<close>): its target column, the flag of its missingness block and the counts of
  its class imbalance block, where it has these blocks.
\<close>

record class_diagnostics =
  cd_total_samples :: int
  cd_class_counts :: "(string \<times> int) list"
  cd_rare_class_label :: string

record eligibility_profile =
  ep_target_column :: "string option"
  ep_target_column_missing :: "bool option"
  ep_class_imbalance :: "class_diagnostics option"

definition class_diagnostics_valid :: "class_diagnostics \<Rightarrow> bool" where
  "class_diagnostics_valid d \<longleftrightarrow>
     0 \<le> cd_total_samples d \<and> list_all (\<lambda>c. non_empty (fst c) \<and> 0 \<le> snd c) (cd_class_counts d) \<and> non_empty (cd_rare_class_label d)"

record 'f eligibility_request =
  qe_dataset_id :: string
  qe_parent_version_id :: string
  qe_candidate_dataset_version_id :: string
  qe_organization_id :: "string option"
  qe_project_id :: "string option"
  qe_task_type :: impact_task_type
  qe_tabular_profile :: "eligibility_profile option"
  qe_tabular_profile_artifact :: "artifact_ref option"
  qe_split_manifest :: "'f split_manifest option"
  qe_split_manifest_artifact :: "artifact_ref option"
  qe_split_leakage_report :: "'f leakage_report option"
  qe_split_leakage_report_artifact :: "artifact_ref option"
  qe_candidate_version_artifact :: "artifact_ref option"
  qe_fallback_report :: "fallback_ref option"
  qe_minimum_labeled_samples :: int
  qe_minimum_rare_class_samples :: int
  qe_minimum_splits :: int
  qe_created_by_job_id :: string
  qe_config_hash :: string
  qe_report_id :: "string option"
  qe_generated_at :: "datetime option"

definition eligibility_request_valid :: "'f eligibility_request \<Rightarrow> bool" where
  "eligibility_request_valid r \<longleftrightarrow>
     list_all non_empty [qe_dataset_id r, qe_parent_version_id r, qe_candidate_dataset_version_id r, qe_created_by_job_id r]
     \<and> opt_ok non_empty (qe_organization_id r) \<and> opt_ok non_empty (qe_project_id r)
     \<and> opt_ok (\<lambda>p. opt_ok class_diagnostics_valid (ep_class_imbalance p)) (qe_tabular_profile r)
     \<and> opt_ok artifact_ref_valid (qe_tabular_profile_artifact r) \<and> opt_ok artifact_ref_valid (qe_split_manifest_artifact r)
     \<and> opt_ok artifact_ref_valid (qe_split_leakage_report_artifact r) \<and> opt_ok artifact_ref_valid (qe_candidate_version_artifact r)
     \<and> opt_ok fallback_ref_valid (qe_fallback_report r) \<and> sha256_digest (qe_config_hash r)"

section \<open>What the check reads\<close>

definition class_imbalance_of :: "eligibility_profile option \<Rightarrow> class_diagnostics option" where
  "class_imbalance_of profile = (case profile of None \<Rightarrow> None | Some p \<Rightarrow> ep_class_imbalance p)"

text \<open>An empty name counts as none, in the profile and in the manifest.\<close>

definition non_empty_name :: "string option \<Rightarrow> string option" where
  "non_empty_name v = (case v of Some c \<Rightarrow> if c \<noteq> [] then Some c else None | None \<Rightarrow> None)"

definition resolve_target_column :: "'f eligibility_request \<Rightarrow> string option" where
  "resolve_target_column request =
     (case non_empty_name (Option.bind (qe_tabular_profile request) ep_target_column) of
        Some c \<Rightarrow> Some c
      | None \<Rightarrow> non_empty_name (map_option sp_target_column (qe_split_manifest request)))"

definition has_target_missing_values :: "eligibility_profile option \<Rightarrow> bool" where
  "has_target_missing_values profile = (case Option.bind profile ep_target_column_missing of None \<Rightarrow> False | Some missing \<Rightarrow> missing)"

text \<open>\<open>min(max(ratio, 0.0), 1.0)\<close>: both keep their first argument unless the second is strictly beyond it.\<close>

definition cohort_ratio :: "'f float_ops \<Rightarrow> int \<Rightarrow> int \<Rightarrow> 'f" where
  "cohort_ratio fl n samples =
     (let ratio = (if samples \<noteq> 0 then fl_div fl (fl_of_int fl n) (fl_of_int fl samples) else fl_const fl 0);
          low = (if fl_lt fl ratio (fl_const fl 0) then fl_const fl 0 else ratio)
      in if fl_lt fl (fl_const fl 1) low then fl_const fl 1 else low)"

definition cohort_of :: "'f float_ops \<Rightarrow> class_diagnostics \<Rightarrow> string \<times> int \<Rightarrow> 'f cohort_stats" where
  "cohort_of fl d entry =
     \<lparr>co_label = fst entry, co_count = snd entry, co_ratio = cohort_ratio fl (snd entry) (cd_total_samples d),
      co_is_rare_class = (fst entry = cd_rare_class_label d)\<rparr>"

definition resolve_cohort_stats :: "'f float_ops \<Rightarrow> eligibility_profile option \<Rightarrow> exn + 'f cohort_stats list" where
  "resolve_cohort_stats fl profile =
     (case class_imbalance_of profile of
        None \<Rightarrow> Inr []
      | Some d \<Rightarrow> mapR (\<lambda>entry. validated (cohort_stats_valid fl) (cohort_of fl d entry)) (cd_class_counts d))"

text \<open>\<open>min(cohorts, key=...)\<close> is the first cohort with the least count.\<close>

fun least_cohort :: "'f cohort_stats \<Rightarrow> 'f cohort_stats list \<Rightarrow> 'f cohort_stats" where
  "least_cohort best [] = best"
| "least_cohort best (c # cs) = least_cohort (if co_count c < co_count best then c else best) cs"

definition resolve_rare_class_label :: "eligibility_profile option \<Rightarrow> 'f cohort_stats list \<Rightarrow> string option" where
  "resolve_rare_class_label profile cohorts =
     (case class_imbalance_of profile of
        Some d \<Rightarrow> Some (cd_rare_class_label d)
      | None \<Rightarrow> (case cohorts of [] \<Rightarrow> None | c # cs \<Rightarrow> Some (co_label (least_cohort c cs))))"

definition resolve_total_labeled :: "'f cohort_stats list \<Rightarrow> eligibility_profile option \<Rightarrow> int" where
  "resolve_total_labeled cohorts profile =
     (if cohorts \<noteq> [] then sum_list (map co_count cohorts)
      else case class_imbalance_of profile of None \<Rightarrow> 0 | Some d \<Rightarrow> cd_total_samples d)"

definition resolve_rare_class_count :: "'f cohort_stats list \<Rightarrow> string option \<Rightarrow> int" where
  "resolve_rare_class_count cohorts rare =
     (case rare of
        None \<Rightarrow> 0
      | Some l \<Rightarrow> (case find (\<lambda>c. co_label c = l) cohorts of None \<Rightarrow> 0 | Some c \<Rightarrow> co_count c))"

text \<open>The counts of a split, total and rare, after one more assignment.\<close>

definition tally :: "string option \<Rightarrow> (string, int \<times> int) dict \<Rightarrow> split_assignment \<Rightarrow> (string, int \<times> int) dict" where
  "tally rare counts a =
     (let split = data_split_value (sa_split a); bucket = (case dict_get counts split of None \<Rightarrow> (0, 0) | Some b \<Rightarrow> b) in
      dict_set counts split (fst bucket + 1, if rare = Some (sa_label a) then snd bucket + 1 else snd bucket))"

definition resolve_split_stats :: "'f split_manifest option \<Rightarrow> string option \<Rightarrow> exn + impact_split_stats list" where
  "resolve_split_stats manifest rare =
     (case manifest of
        None \<Rightarrow> Inr []
      | Some m \<Rightarrow> mapR (\<lambda>e. validated impact_split_stats_valid
            \<lparr>sz_split = fst e, sz_total_count = fst (snd e), sz_rare_class_count = snd (snd e)\<rparr>)
          (sort_key fst (foldl (tally rare) [] (sp_assignments m))))"

definition has_valid_split :: "'f split_manifest option \<Rightarrow> int \<Rightarrow> bool" where
  "has_valid_split manifest minimum_splits =
     (case manifest of
        None \<Rightarrow> False
      | Some m \<Rightarrow> sp_assignments m \<noteq> [] \<and> minimum_splits \<le> int (card (set (map sa_split (sp_assignments m)))))"

definition has_leakage_blocker :: "'f leakage_report option \<Rightarrow> bool" where
  "has_leakage_blocker report =
     (case report of
        None \<Rightarrow> False
      | Some r \<Rightarrow> if lr_block_training r \<or> lr_block_model_evaluation r then True else lr_leakage_detected r)"

definition dedupe_values :: "'a list \<Rightarrow> 'a list" where
  "dedupe_values values = foldl (\<lambda>seen v. if v \<in> set seen then seen else seen @ [v]) [] values"

section \<open>The checks\<close>

text \<open>The four lists the checks append to, in their order.\<close>

record findings =
  fi_codes :: "not_eligible_reason list"
  fi_reasons :: "string list"
  fi_present :: "impact_input list"
  fi_missing :: "impact_input list"

definition SUPPORTED_TASK_TYPES :: "impact_task_type list" where
  "SUPPORTED_TASK_TYPES = [SUPERVISED_TABULAR_CLASSIFICATION]"

definition task_check :: "impact_task_type \<Rightarrow> findings" where
  "task_check t =
     (if t \<notin> set SUPPORTED_TASK_TYPES
      then \<lparr>fi_codes = [UNSUPPORTED_TASK_TYPE], fi_reasons = [], fi_present = [], fi_missing = []\<rparr>
      else \<lparr>fi_codes = [], fi_reasons = [], fi_present = [BASELINE_MODEL_AVAILABLE], fi_missing = []\<rparr>)"

definition target_check :: "bool \<Rightarrow> bool \<Rightarrow> findings" where
  "target_check named missing_values =
     (if named \<and> \<not> missing_values
      then \<lparr>fi_codes = [], fi_reasons = [''target_label_present''], fi_present = [TARGET_LABEL], fi_missing = []\<rparr>
      else \<lparr>fi_codes = (if \<not> named then [TARGET_LABEL_MISSING] else []) @ (if missing_values then [TARGET_COLUMN_HAS_MISSING_VALUES] else []),
            fi_reasons = (if \<not> named then [''target_label_missing''] else [])
              @ (if missing_values then [''target_column_has_missing_values''] else []),
            fi_present = [], fi_missing = [TARGET_LABEL]\<rparr>)"

definition samples_check :: "bool \<Rightarrow> bool \<Rightarrow> findings" where
  "samples_check enough_labeled enough_rare =
     (if enough_labeled \<and> enough_rare
      then \<lparr>fi_codes = [], fi_reasons = [''enough_labeled_samples''], fi_present = [ENOUGH_LABELED_SAMPLES], fi_missing = []\<rparr>
      else \<lparr>fi_codes = (if \<not> enough_labeled then [NOT_ENOUGH_LABELED_SAMPLES] else []) @ (if \<not> enough_rare then [NOT_ENOUGH_RARE_CLASS_SAMPLES] else []),
            fi_reasons = (if \<not> enough_labeled then [''not_enough_labeled_samples''] else [])
              @ (if \<not> enough_rare then [''not_enough_rare_class_samples''] else []),
            fi_present = [], fi_missing = [ENOUGH_LABELED_SAMPLES]\<rparr>)"

definition split_check :: "bool \<Rightarrow> bool \<Rightarrow> findings" where
  "split_check valid_split no_manifest =
     (if valid_split
      then \<lparr>fi_codes = [], fi_reasons = [''split_manifest_valid''], fi_present = [VALID_SPLIT_STRATEGY], fi_missing = []\<rparr>
      else if no_manifest
      then \<lparr>fi_codes = [SPLIT_MANIFEST_MISSING], fi_reasons = [''split_manifest_missing''], fi_present = [], fi_missing = [VALID_SPLIT_STRATEGY]\<rparr>
      else \<lparr>fi_codes = [SPLIT_MANIFEST_INSUFFICIENT_SPLITS], fi_reasons = [''split_manifest_insufficient_splits''], fi_present = [],
            fi_missing = [VALID_SPLIT_STRATEGY]\<rparr>)"

definition leakage_blocker_check :: "bool \<Rightarrow> findings" where
  "leakage_blocker_check blocker =
     (if \<not> blocker
      then \<lparr>fi_codes = [], fi_reasons = [''no_leakage_blockers''], fi_present = [NO_LEAKAGE_BLOCKERS], fi_missing = []\<rparr>
      else \<lparr>fi_codes = [LEAKAGE_BLOCKER_PRESENT], fi_reasons = [''leakage_blocker_present''], fi_present = [], fi_missing = [NO_LEAKAGE_BLOCKERS]\<rparr>)"

definition join_findings :: "findings list \<Rightarrow> findings" where
  "join_findings fs =
     \<lparr>fi_codes = concat (map fi_codes fs), fi_reasons = concat (map fi_reasons fs),
      fi_present = concat (map fi_present fs), fi_missing = concat (map fi_missing fs)\<rparr>"

definition eligibility_findings :: "'f eligibility_request \<Rightarrow> 'f cohort_stats list \<Rightarrow> string option \<Rightarrow> findings" where
  "eligibility_findings request cohorts rare =
     join_findings
       [task_check (qe_task_type request),
        target_check (resolve_target_column request \<noteq> None) (has_target_missing_values (qe_tabular_profile request)),
        samples_check (qe_minimum_labeled_samples request \<le> resolve_total_labeled cohorts (qe_tabular_profile request))
          (qe_minimum_rare_class_samples request \<le> resolve_rare_class_count cohorts rare),
        split_check (has_valid_split (qe_split_manifest request) (qe_minimum_splits request)) (qe_split_manifest request = None),
        leakage_blocker_check (has_leakage_blocker (qe_split_leakage_report request))]"

definition is_eligible :: "findings \<Rightarrow> bool" where
  "is_eligible f \<longleftrightarrow>
     fi_codes f = [] \<and> TARGET_LABEL \<in> set (fi_present f) \<and> ENOUGH_LABELED_SAMPLES \<in> set (fi_present f)
     \<and> VALID_SPLIT_STRATEGY \<in> set (fi_present f) \<and> NO_LEAKAGE_BLOCKERS \<in> set (fi_present f)
     \<and> BASELINE_MODEL_AVAILABLE \<in> set (fi_present f)"

definition primary_reason_code :: "findings \<Rightarrow> string" where
  "primary_reason_code f =
     (if is_eligible f then ''supervised_classification_with_target''
      else case fi_codes f of c # _ \<Rightarrow> not_eligible_value c | [] \<Rightarrow> ''unknown_eligibility_failure'')"

section \<open>The reports\<close>

definition MODEL_IMPACT_ELIGIBILITY_KIND :: string where
  "MODEL_IMPACT_ELIGIBILITY_KIND = ''model_impact_eligibility_report''"

definition FALLBACK_READINESS_REPORT_KIND :: string where
  "FALLBACK_READINESS_REPORT_KIND = ''fallback_readiness_report''"

definition FALLBACK_READINESS_KIND :: string where
  "FALLBACK_READINESS_KIND = ''model_impact_not_eligible_readiness''"

definition eligibility_lineage_of :: "'f eligibility_request \<Rightarrow> eligibility_lineage" where
  "eligibility_lineage_of request =
     \<lparr>eo_organization_id = qe_organization_id request, eo_project_id = qe_project_id request, eo_dataset_id = qe_dataset_id request,
      eo_parent_version_id = qe_parent_version_id request,
      eo_candidate_dataset_version_id = qe_candidate_dataset_version_id request,
      eo_candidate_version_artifact = qe_candidate_version_artifact request,
      eo_tabular_profile_artifact = qe_tabular_profile_artifact request,
      eo_split_manifest_artifact = qe_split_manifest_artifact request,
      eo_split_leakage_report_artifact = qe_split_leakage_report_artifact request,
      eo_created_by_job_id = qe_created_by_job_id request, eo_config_hash = qe_config_hash request\<rparr>"

definition eligibility_generated_at :: "'s builder_env \<Rightarrow> 'f eligibility_request \<Rightarrow> datetime" where
  "eligibility_generated_at env request = (case qe_generated_at request of Some t \<Rightarrow> t | None \<Rightarrow> se_now env)"

definition fallback_report_of ::
    "'s builder_env \<Rightarrow> string \<Rightarrow> 'f eligibility_request \<Rightarrow> findings \<Rightarrow> 'f cohort_stats list \<Rightarrow> impact_split_stats list
     \<Rightarrow> eligibility_lineage \<Rightarrow> 'f fallback_report" where
  "fallback_report_of env fallback_uuid request f cohorts splits lineage =
     \<lparr>fk_report_id = ''fallback_readiness_'' @ fallback_uuid, fk_report_schema_version = FALLBACK_READINESS_REPORT_SCHEMA_VERSION,
      fk_fallback_kind = FALLBACK_READINESS_KIND, fk_dataset_id = qe_dataset_id request,
      fk_parent_version_id = qe_parent_version_id request,
      fk_candidate_dataset_version_id = qe_candidate_dataset_version_id request, fk_status = NOT_ELIGIBLE,
      fk_primary_reason_code = primary_reason_code f, fk_reasons = dedupe_values (fi_reasons f),
      fk_required_inputs_present = dedupe_values (fi_present f), fk_required_inputs_missing = dedupe_values (fi_missing f),
      fk_not_eligible_reason_codes = dedupe_values (fi_codes f), fk_cohort_stats = cohorts, fk_split_stats = splits,
      fk_lineage = lineage, fk_generated_at = eligibility_generated_at env request\<rparr>"

definition fallback_save_args :: "('f fallback_report \<Rightarrow> string) \<Rightarrow> 'f eligibility_request \<Rightarrow> 'f fallback_report \<Rightarrow> save_args" where
  "fallback_save_args ser request r =
     \<lparr>sv_artifact_kind = FALLBACK_READINESS_REPORT_KIND, sv_data = ser r, sv_artifact_format = ''json'',
      sv_media_type = ''application/json'', sv_schema_version = FALLBACK_READINESS_REPORT_SCHEMA_VERSION,
      sv_dataset_version_id = qe_candidate_dataset_version_id request, sv_created_by_job_id = qe_created_by_job_id request,
      sv_config_hash = qe_config_hash request,
      sv_metadata = [(''fallback-kind'', FALLBACK_READINESS_KIND), (''primary-reason-code'', fk_primary_reason_code r),
        (''candidate-dataset-version-id'', qe_candidate_dataset_version_id request),
        (''parent-version-id'', qe_parent_version_id request)]\<rparr>"

definition build_fallback_readiness_report ::
    "'s builder_env \<Rightarrow> 'f float_ops \<Rightarrow> ('f fallback_report \<Rightarrow> string) \<Rightarrow> string \<Rightarrow> 'f eligibility_request \<Rightarrow> findings \<Rightarrow> 'f cohort_stats list
     \<Rightarrow> impact_split_stats list \<Rightarrow> eligibility_lineage \<Rightarrow> 's \<Rightarrow> (exn + fallback_ref) \<times> 's" where
  "build_fallback_readiness_report env fl ser fallback_uuid request f cohorts splits lineage =
     bindS (liftS (validated (fallback_report_valid fl) (fallback_report_of env fallback_uuid request f cohorts splits lineage))) (\<lambda>r.
     bindS (registry_save env (fallback_save_args ser request r)) (\<lambda>artifact.
     liftS (validated fallback_ref_valid
       \<lparr>fb_fallback_kind = FALLBACK_READINESS_KIND, fb_fallback_artifact = ra_artifact_ref artifact,
        fb_reasons = map not_eligible_value (fk_not_eligible_reason_codes r)\<rparr>)))"

definition eligibility_fallback ::
    "'s builder_env \<Rightarrow> 'f float_ops \<Rightarrow> ('f fallback_report \<Rightarrow> string) \<Rightarrow> string \<Rightarrow> 'f eligibility_request \<Rightarrow> findings \<Rightarrow> 'f cohort_stats list
     \<Rightarrow> impact_split_stats list \<Rightarrow> eligibility_lineage \<Rightarrow> 's \<Rightarrow> (exn + fallback_ref option) \<times> 's" where
  "eligibility_fallback env fl ser fallback_uuid request f cohorts splits lineage =
     (if is_eligible f then returnS None
      else case qe_fallback_report request of
        Some given \<Rightarrow> returnS (Some given)
      | None \<Rightarrow> bindS (build_fallback_readiness_report env fl ser fallback_uuid request f cohorts splits lineage) (\<lambda>r. returnS (Some r)))"

definition eligibility_report_of ::
    "'s builder_env \<Rightarrow> 'f eligibility_request \<Rightarrow> findings \<Rightarrow> 'f cohort_stats list \<Rightarrow> string option \<Rightarrow> impact_split_stats list
     \<Rightarrow> eligibility_lineage \<Rightarrow> fallback_ref option \<Rightarrow> 'f eligibility_report" where
  "eligibility_report_of env request f cohorts rare splits lineage fallback =
     \<lparr>ey_report_id = fresh_id (qe_report_id request) (''model_impact_eligibility_'' @ se_uuid env),
      ey_report_schema_version = MODEL_IMPACT_ELIGIBILITY_SCHEMA_VERSION,
      ey_status = (if is_eligible f then ELIGIBLE else NOT_ELIGIBLE), ey_eligible = is_eligible f,
      ey_task_type = qe_task_type request, ey_target_column = resolve_target_column request, ey_rare_class_label = rare,
      ey_primary_reason_code = primary_reason_code f, ey_reasons = dedupe_values (fi_reasons f),
      ey_required_inputs_present = dedupe_values (fi_present f), ey_required_inputs_missing = dedupe_values (fi_missing f),
      ey_not_eligible_reason_codes = dedupe_values (fi_codes f), ey_cohort_stats = cohorts, ey_split_stats = splits,
      ey_minimum_labeled_samples = qe_minimum_labeled_samples request,
      ey_minimum_rare_class_samples = qe_minimum_rare_class_samples request, ey_fallback_report = fallback,
      ey_lineage = lineage, ey_generated_at = eligibility_generated_at env request\<rparr>"

definition eligibility_save_args :: "('f eligibility_report \<Rightarrow> string) \<Rightarrow> 'f eligibility_request \<Rightarrow> 'f eligibility_report \<Rightarrow> save_args" where
  "eligibility_save_args ser request r =
     \<lparr>sv_artifact_kind = MODEL_IMPACT_ELIGIBILITY_KIND, sv_data = ser r, sv_artifact_format = ''json'',
      sv_media_type = ''application/json'', sv_schema_version = MODEL_IMPACT_ELIGIBILITY_SCHEMA_VERSION,
      sv_dataset_version_id = qe_candidate_dataset_version_id request, sv_created_by_job_id = qe_created_by_job_id request,
      sv_config_hash = qe_config_hash request,
      sv_metadata = [(''eligibility-status'', eligibility_status_value (ey_status r)), (''eligible'', bool_text (ey_eligible r)),
        (''primary-reason-code'', ey_primary_reason_code r), (''task-type'', impact_task_value (qe_task_type request)),
        (''candidate-dataset-version-id'', qe_candidate_dataset_version_id request),
        (''parent-version-id'', qe_parent_version_id request)]\<rparr>"

definition check_model_impact_eligibility ::
    "'s builder_env \<Rightarrow> 'f float_ops \<Rightarrow> ('f eligibility_report \<Rightarrow> string) \<Rightarrow> ('f fallback_report \<Rightarrow> string) \<Rightarrow> string \<Rightarrow> 'f eligibility_request
     \<Rightarrow> 's \<Rightarrow> (exn + ('f eligibility_report \<times> registered_artifact)) \<times> 's" where
  "check_model_impact_eligibility env fl ser ser_fallback fallback_uuid request =
     bindS (liftS (resolve_cohort_stats fl (qe_tabular_profile request))) (\<lambda>cohorts.
     let rare = resolve_rare_class_label (qe_tabular_profile request) cohorts; f = eligibility_findings request cohorts rare in
     bindS (liftS (resolve_split_stats (qe_split_manifest request) rare)) (\<lambda>splits.
     bindS (liftS (validated eligibility_lineage_valid (eligibility_lineage_of request))) (\<lambda>lineage.
     bindS (eligibility_fallback env fl ser_fallback fallback_uuid request f cohorts splits lineage) (\<lambda>fallback.
     bindS (liftS (validated (eligibility_report_valid fl)
         (eligibility_report_of env request f cohorts rare splits lineage fallback))) (\<lambda>report.
     bindS (registry_save env (eligibility_save_args ser request report)) (\<lambda>artifact.
     returnS (report, artifact)))))))"

section \<open>The checks decide\<close>

lemma set_dedupe_values [simp]: "set (dedupe_values xs) = set xs"
  by (induction xs rule: rev_induct) (auto simp: dedupe_values_def)

interpretation dedupe_values: stable_dedupe dedupe_values
proof
  show "dedupe_values [] = []" by (simp add: dedupe_values_def)
  fix xs :: "'a list" and x
  have "set (foldl (\<lambda>seen v. if v \<in> set seen then seen else seen @ [v]) [] xs) = set xs"
    using set_dedupe_values [of xs] by (simp add: dedupe_values_def)
  then show "dedupe_values (xs @ [x]) = (if x \<in> set xs then dedupe_values xs else dedupe_values xs @ [x])"
    by (simp add: dedupe_values_def)
qed

lemma check_codes:
  "fi_codes (task_check t) = [] \<longleftrightarrow> t \<in> set SUPPORTED_TASK_TYPES"
  "fi_codes (target_check n m) = [] \<longleftrightarrow> n \<and> \<not> m"
  "fi_codes (samples_check l r) = [] \<longleftrightarrow> l \<and> r"
  "fi_codes (split_check v u) = [] \<longleftrightarrow> v"
  "fi_codes (leakage_blocker_check b) = [] \<longleftrightarrow> \<not> b"
  by (auto simp: task_check_def target_check_def samples_check_def split_check_def leakage_blocker_check_def)

lemma check_inputs:
  "fi_present (task_check t) = (if t \<in> set SUPPORTED_TASK_TYPES then [BASELINE_MODEL_AVAILABLE] else [])" "fi_missing (task_check t) = []"
  "fi_present (target_check n m) = (if n \<and> \<not> m then [TARGET_LABEL] else [])"
  "fi_missing (target_check n m) = (if n \<and> \<not> m then [] else [TARGET_LABEL])"
  "fi_present (samples_check l r) = (if l \<and> r then [ENOUGH_LABELED_SAMPLES] else [])"
  "fi_missing (samples_check l r) = (if l \<and> r then [] else [ENOUGH_LABELED_SAMPLES])"
  "fi_present (split_check v u) = (if v then [VALID_SPLIT_STRATEGY] else [])"
  "fi_missing (split_check v u) = (if v then [] else [VALID_SPLIT_STRATEGY])"
  "fi_present (leakage_blocker_check b) = (if b then [] else [NO_LEAKAGE_BLOCKERS])"
  "fi_missing (leakage_blocker_check b) = (if b then [NO_LEAKAGE_BLOCKERS] else [])"
  by (auto simp: task_check_def target_check_def samples_check_def split_check_def leakage_blocker_check_def)

lemmas findings_simps = eligibility_findings_def join_findings_def check_codes check_inputs

lemma findings_codes_empty:
  "fi_codes (eligibility_findings request cohorts rare) = [] \<longleftrightarrow>
     qe_task_type request \<in> set SUPPORTED_TASK_TYPES
     \<and> (resolve_target_column request \<noteq> None \<and> \<not> has_target_missing_values (qe_tabular_profile request))
     \<and> (qe_minimum_labeled_samples request \<le> resolve_total_labeled cohorts (qe_tabular_profile request)
       \<and> qe_minimum_rare_class_samples request \<le> resolve_rare_class_count cohorts rare)
     \<and> has_valid_split (qe_split_manifest request) (qe_minimum_splits request)
     \<and> \<not> has_leakage_blocker (qe_split_leakage_report request)"
  by (simp only: findings_simps findings.simps concat.simps list.map append_is_Nil_conv append_Nil2)

lemma findings_eligible_iff:
  "is_eligible (eligibility_findings request cohorts rare) \<longleftrightarrow> fi_codes (eligibility_findings request cohorts rare) = []"
proof
  assume "fi_codes (eligibility_findings request cohorts rare) = []"
  then show "is_eligible (eligibility_findings request cohorts rare)"
    unfolding is_eligible_def findings_codes_empty by (simp add: findings_simps)
qed (simp add: is_eligible_def)

lemma findings_reason:
  "\<not> is_eligible (eligibility_findings request cohorts rare) \<Longrightarrow>
     primary_reason_code (eligibility_findings request cohorts rare) = not_eligible_value (hd (fi_codes (eligibility_findings request cohorts rare)))"
  by (simp add: primary_reason_code_def findings_eligible_iff split: list.splits)

lemma findings_missing: "is_eligible (eligibility_findings request cohorts rare) \<Longrightarrow> fi_missing (eligibility_findings request cohorts rare) = []"
  unfolding findings_eligible_iff findings_codes_empty by (simp add: findings_simps)

lemma findings_inputs:
  "set (fi_present (eligibility_findings request cohorts rare)) \<inter> set (fi_missing (eligibility_findings request cohorts rare)) = {}"
  "set (fi_present (eligibility_findings request cohorts rare)) \<union> set (fi_missing (eligibility_findings request cohorts rare))
     = (if qe_task_type request \<in> set SUPPORTED_TASK_TYPES then UNIV else UNIV - {BASELINE_MODEL_AVAILABLE})"
proof -
  have univ: "UNIV = {TARGET_LABEL, ENOUGH_LABELED_SAMPLES, VALID_SPLIT_STRATEGY, NO_LEAKAGE_BLOCKERS, BASELINE_MODEL_AVAILABLE}"
    using impact_input.exhaust by blast
  show "set (fi_present (eligibility_findings request cohorts rare)) \<inter> set (fi_missing (eligibility_findings request cohorts rare)) = {}"
    "set (fi_present (eligibility_findings request cohorts rare)) \<union> set (fi_missing (eligibility_findings request cohorts rare))
      = (if qe_task_type request \<in> set SUPPORTED_TASK_TYPES then UNIV else UNIV - {BASELINE_MODEL_AVAILABLE})"
    unfolding univ by (auto simp: findings_simps)
qed

lemma cohorts_of_counts:
  assumes "resolve_cohort_stats fl profile = Inr cohorts"
  shows "map (\<lambda>c. (co_label c, co_count c)) cohorts = (case class_imbalance_of profile of None \<Rightarrow> [] | Some d \<Rightarrow> cd_class_counts d)"
proof (cases "class_imbalance_of profile")
  case None
  then show ?thesis using assms by (simp add: resolve_cohort_stats_def)
next
  case (Some d)
  have "list_all2 (\<lambda>e c. c = cohort_of fl d e) (cd_class_counts d) cohorts"
    using assms Some by (auto simp: resolve_cohort_stats_def mapR_Inr_iff validated_Inr_iff elim: list_all2_mono)
  then have "map (\<lambda>c. (co_label c, co_count c)) cohorts = cd_class_counts d"
    by (induction rule: list_all2_induct) (auto simp: cohort_of_def)
  with Some show ?thesis by simp
qed

lemma find_cohort: "map_option co_count (find (\<lambda>c. co_label c = l) cs) = map_of (map (\<lambda>c. (co_label c, co_count c)) cs) l"
  by (induction cs) auto

lemma cohort_counts:
  assumes "resolve_cohort_stats fl profile = Inr cohorts" "class_imbalance_of profile = Some d"
  shows "resolve_total_labeled cohorts profile
      = (if cd_class_counts d = [] then cd_total_samples d else sum_list (map snd (cd_class_counts d)))"
    "resolve_rare_class_count cohorts (resolve_rare_class_label profile cohorts)
      = (case map_of (cd_class_counts d) (cd_rare_class_label d) of None \<Rightarrow> 0 | Some n \<Rightarrow> n)"
proof -
  have cs: "map (\<lambda>c. (co_label c, co_count c)) cohorts = cd_class_counts d" using cohorts_of_counts [OF assms(1)] assms(2) by simp
  then have "map co_count cohorts = map snd (cd_class_counts d)" by (simp flip: cs add: o_def)
  moreover have "cohorts = [] \<longleftrightarrow> cd_class_counts d = []" using cs by (metis Nil_is_map_conv)
  ultimately show "resolve_total_labeled cohorts profile
      = (if cd_class_counts d = [] then cd_total_samples d else sum_list (map snd (cd_class_counts d)))"
    using assms(2) by (simp add: resolve_total_labeled_def)
  show "resolve_rare_class_count cohorts (resolve_rare_class_label profile cohorts)
      = (case map_of (cd_class_counts d) (cd_rare_class_label d) of None \<Rightarrow> 0 | Some n \<Rightarrow> n)"
    using find_cohort [of "cd_rare_class_label d" cohorts] assms(2)
    by (auto simp: resolve_rare_class_count_def resolve_rare_class_label_def cs split: option.splits)
qed

lemma no_cohorts:
  assumes "resolve_cohort_stats fl profile = Inr cohorts" "class_imbalance_of profile = None"
  shows "resolve_total_labeled cohorts profile = 0" "resolve_rare_class_count cohorts (resolve_rare_class_label profile cohorts) = 0"
  using assms by (simp_all add: resolve_cohort_stats_def resolve_total_labeled_def resolve_rare_class_label_def resolve_rare_class_count_def)

text \<open>What a check that returned has done, step by step.\<close>

lemma check_Inr:
  assumes "check_model_impact_eligibility env fl ser ser_fallback fallback_uuid request st = (Inr (report, artifact), st')"
  obtains cohorts splits fallback st1 rare f where
    "resolve_cohort_stats fl (qe_tabular_profile request) = Inr cohorts"
    "rare = resolve_rare_class_label (qe_tabular_profile request) cohorts" "f = eligibility_findings request cohorts rare"
    "resolve_split_stats (qe_split_manifest request) rare = Inr splits"
    "eligibility_fallback env fl ser_fallback fallback_uuid request f cohorts splits (eligibility_lineage_of request) st = (Inr fallback, st1)"
    "report = eligibility_report_of env request f cohorts rare splits (eligibility_lineage_of request) fallback"
    "registry_save env (eligibility_save_args ser request report) st1 = (Inr artifact, st')"
  using assms by (auto simp: check_model_impact_eligibility_def Let_def bindS_Inr_iff validated_Inr_iff)

text \<open>C19: When the check returns, the candidate is eligible exactly under these conditions: the task is a classification, the profile or
  the manifest names a target, the profile does not flag missing values of the target column, the labeled samples and those of
  the rare class reach their minimum, the manifest assigns rows to enough different splits, and a split leakage report, if the
  request has one, neither blocks nor reports leakage (without a report this condition holds). The labeled samples are the sum of
  the class counts of the profile, or its total number of samples when it lists no class; a profile without class diagnostics,
  or no profile, has none of either kind.\<close>

theorem eligible_iff:
  assumes "check_model_impact_eligibility env fl ser ser_fallback fallback_uuid request st = (Inr (report, artifact), st')"
  shows "ey_eligible report \<longleftrightarrow>
     qe_task_type request = SUPERVISED_TABULAR_CLASSIFICATION
     \<and> resolve_target_column request \<noteq> None
     \<and> Option.bind (qe_tabular_profile request) ep_target_column_missing \<noteq> Some True
     \<and> (case Option.bind (qe_tabular_profile request) ep_class_imbalance of
          None \<Rightarrow> qe_minimum_labeled_samples request \<le> 0 \<and> qe_minimum_rare_class_samples request \<le> 0
        | Some d \<Rightarrow>
            qe_minimum_labeled_samples request
              \<le> (if cd_class_counts d = [] then cd_total_samples d else sum_list (map snd (cd_class_counts d)))
            \<and> qe_minimum_rare_class_samples request
              \<le> (case map_of (cd_class_counts d) (cd_rare_class_label d) of None \<Rightarrow> 0 | Some n \<Rightarrow> n))
     \<and> (\<exists>m. qe_split_manifest request = Some m \<and> sp_assignments m \<noteq> []
          \<and> qe_minimum_splits request \<le> int (card (sa_split ` set (sp_assignments m))))
     \<and> (\<forall>l. qe_split_leakage_report request = Some l \<longrightarrow>
          \<not> lr_block_training l \<and> \<not> lr_block_model_evaluation l \<and> \<not> lr_leakage_detected l)"
proof -
  let ?profile = "qe_tabular_profile request"
  obtain cohorts splits fallback st1 rare f where c: "resolve_cohort_stats fl ?profile = Inr cohorts"
    and rare: "rare = resolve_rare_class_label ?profile cohorts" and f: "f = eligibility_findings request cohorts rare"
    and report: "report = eligibility_report_of env request f cohorts rare splits (eligibility_lineage_of request) fallback"
    using assms by (rule check_Inr)
  have e: "ey_eligible report \<longleftrightarrow> fi_codes f = []"
    by (simp add: report eligibility_report_of_def f findings_eligible_iff)
  have imb: "class_imbalance_of ?profile = Option.bind ?profile ep_class_imbalance"
    by (cases ?profile) (simp_all add: class_imbalance_of_def)
  have counts: "qe_minimum_labeled_samples request \<le> resolve_total_labeled cohorts ?profile
      \<and> qe_minimum_rare_class_samples request \<le> resolve_rare_class_count cohorts rare
      \<longleftrightarrow> (case Option.bind ?profile ep_class_imbalance of
          None \<Rightarrow> qe_minimum_labeled_samples request \<le> 0 \<and> qe_minimum_rare_class_samples request \<le> 0
        | Some d \<Rightarrow>
            qe_minimum_labeled_samples request
              \<le> (if cd_class_counts d = [] then cd_total_samples d else sum_list (map snd (cd_class_counts d)))
            \<and> qe_minimum_rare_class_samples request
              \<le> (case map_of (cd_class_counts d) (cd_rare_class_label d) of None \<Rightarrow> 0 | Some n \<Rightarrow> n))"
    using cohort_counts [OF c] no_cohorts [OF c] by (cases "class_imbalance_of ?profile") (simp_all add: rare imb)
  have missing: "has_target_missing_values ?profile \<longleftrightarrow> Option.bind ?profile ep_target_column_missing = Some True"
    by (simp add: has_target_missing_values_def split: option.splits)
  have split: "has_valid_split (qe_split_manifest request) n \<longleftrightarrow>
      (\<exists>m. qe_split_manifest request = Some m \<and> sp_assignments m \<noteq> [] \<and> n \<le> int (card (sa_split ` set (sp_assignments m))))" for n
    by (simp add: has_valid_split_def split: option.splits)
  have leak: "\<not> has_leakage_blocker (qe_split_leakage_report request) \<longleftrightarrow>
      (\<forall>l. qe_split_leakage_report request = Some l \<longrightarrow>
          \<not> lr_block_training l \<and> \<not> lr_block_model_evaluation l \<and> \<not> lr_leakage_detected l)"
    by (auto simp: has_leakage_blocker_def split: option.splits)
  show ?thesis unfolding e f findings_codes_empty missing split leak counts [symmetric] by (simp add: SUPPORTED_TASK_TYPES_def)
qed

text \<open>C21: A refusal is explained and never left without a report: the reason codes are empty exactly for an eligible candidate,
  which has no missing input and no fallback; for any other the primary reason is the first code, the codes are distinct,
  and the report refers to the fallback report of the request or to one that was saved before it with the same codes. Every
  required input is listed once, as present or as missing, except that an unsupported task leaves the baseline model out of
  both lists.\<close>

theorem refusal_explained:
  assumes "check_model_impact_eligibility env fl ser ser_fallback fallback_uuid request st = (Inr (report, artifact), st')"
  shows "(ey_eligible report \<longleftrightarrow> ey_not_eligible_reason_codes report = [])
    \<and> (ey_eligible report \<longleftrightarrow> ey_status report = ELIGIBLE)
    \<and> distinct (ey_not_eligible_reason_codes report)
    \<and> set (ey_required_inputs_present report) \<inter> set (ey_required_inputs_missing report) = {}
    \<and> set (ey_required_inputs_present report) \<union> set (ey_required_inputs_missing report)
      = (if qe_task_type request = SUPERVISED_TABULAR_CLASSIFICATION then UNIV else UNIV - {BASELINE_MODEL_AVAILABLE})
    \<and> (if ey_eligible report then ey_fallback_report report = None \<and> ey_required_inputs_missing report = []
       else ey_primary_reason_code report = not_eligible_value (hd (ey_not_eligible_reason_codes report))
         \<and> (case qe_fallback_report request of
              Some given \<Rightarrow> ey_fallback_report report = Some given
            | None \<Rightarrow> \<exists>r saved st1. registry_save env (fallback_save_args ser_fallback request r) st = (Inr saved, st1)
                \<and> fk_not_eligible_reason_codes r = ey_not_eligible_reason_codes report
                \<and> ey_fallback_report report = Some \<lparr>fb_fallback_kind = FALLBACK_READINESS_KIND,
                    fb_fallback_artifact = ra_artifact_ref saved,
                    fb_reasons = map not_eligible_value (ey_not_eligible_reason_codes report)\<rparr>))"
proof -
  obtain cohorts splits fallback st1 rare f where f: "f = eligibility_findings request cohorts rare"
    and fallback: "eligibility_fallback env fl ser_fallback fallback_uuid request f cohorts splits (eligibility_lineage_of request) st
      = (Inr fallback, st1)"
    and report: "report = eligibility_report_of env request f cohorts rare splits (eligibility_lineage_of request) fallback"
    using assms by (rule check_Inr)
  have fields: "ey_eligible report = is_eligible f" "ey_not_eligible_reason_codes report = dedupe_values (fi_codes f)"
    "ey_required_inputs_present report = dedupe_values (fi_present f)" "ey_required_inputs_missing report = dedupe_values (fi_missing f)"
    "ey_status report = (if is_eligible f then ELIGIBLE else NOT_ELIGIBLE)" "ey_primary_reason_code report = primary_reason_code f"
    "ey_fallback_report report = fallback"
    by (simp_all add: report eligibility_report_of_def)
  have e: "is_eligible f \<longleftrightarrow> fi_codes f = []" by (simp add: f findings_eligible_iff)
  have none: "is_eligible f \<Longrightarrow> fi_missing f = []" by (simp add: f findings_missing)
  have hd: "fi_codes f \<noteq> [] \<Longrightarrow> primary_reason_code f = not_eligible_value (hd (dedupe_values (fi_codes f)))"
    using findings_reason [of request cohorts rare] e by (simp add: f dedupe_values.dd_hd)
  have fb: "if is_eligible f then fallback = None
      else case qe_fallback_report request of
          Some given \<Rightarrow> fallback = Some given
        | None \<Rightarrow> \<exists>r saved st1. registry_save env (fallback_save_args ser_fallback request r) st = (Inr saved, st1)
            \<and> fk_not_eligible_reason_codes r = dedupe_values (fi_codes f)
            \<and> fallback = Some \<lparr>fb_fallback_kind = FALLBACK_READINESS_KIND, fb_fallback_artifact = ra_artifact_ref saved,
                fb_reasons = map not_eligible_value (dedupe_values (fi_codes f))\<rparr>"
    using fallback
    by (fastforce simp: eligibility_fallback_def build_fallback_readiness_report_def bindS_Inr_iff validated_Inr_iff fallback_report_of_def
        split: if_splits option.splits)
  have inputs: "set (ey_required_inputs_present report) \<inter> set (ey_required_inputs_missing report) = {}"
    "set (ey_required_inputs_present report) \<union> set (ey_required_inputs_missing report)
      = (if qe_task_type request = SUPERVISED_TABULAR_CLASSIFICATION then UNIV else UNIV - {BASELINE_MODEL_AVAILABLE})"
    using findings_inputs [of request cohorts rare] by (simp_all add: fields f SUPPORTED_TASK_TYPES_def)
  show ?thesis
    using inputs fb none hd by (auto simp: fields e dedupe_values.dd_eq_Nil_iff split: option.splits if_splits)
qed

section \<open>Split statistics\<close>

definition in_split :: "string \<Rightarrow> split_assignment \<Rightarrow> bool" where
  "in_split s a \<longleftrightarrow> data_split_value (sa_split a) = s"

lemma filter_no_hit:
  "\<not> list_ex P as \<Longrightarrow> filter P as = []" "\<not> list_ex P as \<Longrightarrow> filter (\<lambda>a. P a \<and> Q a) as = []"
  by (simp_all add: list_ex_iff filter_empty_conv)

lemma dict_get_tally:
  "dict_get (tally rare d a) s =
     (if in_split s a
      then let b = (case dict_get d s of None \<Rightarrow> (0, 0) | Some b \<Rightarrow> b) in
        Some (fst b + 1, if rare = Some (sa_label a) then snd b + 1 else snd b)
      else dict_get d s)"
  by (auto simp: tally_def in_split_def dict_get_set Let_def)

lemma tally_counts:
  "dict_get (foldl (tally rare) [] as) s =
     (if list_ex (in_split s) as
      then Some (int (length (filter (in_split s) as)), int (length (filter (\<lambda>a. in_split s a \<and> rare = Some (sa_label a)) as)))
      else None)"
proof (induction as rule: rev_induct)
  case (snoc a as)
  then show ?case by (simp add: dict_get_tally Let_def filter_no_hit)
qed (simp add: dict_get_def)

lemma tally_distinct: "distinct (dict_keys (foldl (tally rare) [] as))"
  by (induction as rule: rev_induct) (simp_all add: tally_def Let_def dict_keys_set, simp add: dict_keys_def)

text \<open>The statistics of a manifest have one entry for every split it assigns, in the order of the split values, with the number of
  its assignments and of those with the rare label.\<close>

theorem split_stats_count:
  assumes "resolve_split_stats (Some m) rare = Inr stats"
  shows "sorted (map sz_split stats) \<and> distinct (map sz_split stats)
    \<and> set stats = (\<lambda>s. \<lparr>sz_split = s, sz_total_count = int (length (filter (in_split s) (sp_assignments m))),
          sz_rare_class_count = int (length (filter (\<lambda>a. in_split s a \<and> rare = Some (sa_label a)) (sp_assignments m)))\<rparr>)
        ` data_split_value ` sa_split ` set (sp_assignments m)"
proof -
  let ?counts = "foldl (tally rare) [] (sp_assignments m)"
  let ?stat = "\<lambda>e :: string \<times> int \<times> int. \<lparr>sz_split = fst e, sz_total_count = fst (snd e), sz_rare_class_count = snd (snd e)\<rparr>"
  have "list_all2 (\<lambda>e s. s = ?stat e) (sort_key fst ?counts) stats"
    using assms by (auto simp: resolve_split_stats_def mapR_Inr_iff validated_Inr_iff elim: list_all2_mono)
  then have stats: "stats = map ?stat (sort_key fst ?counts)" by (induction rule: list_all2_induct) simp_all
  have keys: "distinct (map fst ?counts)" using tally_distinct [of rare "sp_assignments m"] by (simp add: dict_keys_def)
  then have "distinct (map fst (sort_key fst ?counts))"
    by (metis distinct_map distinct_sort set_sort)
  then have dist: "distinct (map sz_split stats)" by (simp add: stats o_def)
  have srt: "sorted (map sz_split stats)" using sorted_sort_key [of fst ?counts] by (simp add: stats o_def)
  have "e \<in> set ?counts \<longleftrightarrow> dict_get ?counts (fst e) = Some (snd e)" for e
    using keys by (cases e) (simp add: dict_get_def map_of_eq_Some_iff)
  moreover have "list_ex (in_split s) (sp_assignments m) \<longleftrightarrow> s \<in> data_split_value ` sa_split ` set (sp_assignments m)" for s
    by (auto simp: list_ex_iff in_split_def)
  ultimately have entry: "e \<in> set ?counts \<longleftrightarrow> fst e \<in> data_split_value ` sa_split ` set (sp_assignments m)
      \<and> snd e = (int (length (filter (in_split (fst e)) (sp_assignments m))),
          int (length (filter (\<lambda>a. in_split (fst e) a \<and> rare = Some (sa_label a)) (sp_assignments m))))" for e
    by (simp add: tally_counts eq_commute)
  let ?g = "\<lambda>s. \<lparr>sz_split = s, sz_total_count = int (length (filter (in_split s) (sp_assignments m))),
      sz_rare_class_count = int (length (filter (\<lambda>a. in_split s a \<and> rare = Some (sa_label a)) (sp_assignments m)))\<rparr>"
  have "fst ` set ?counts = data_split_value ` sa_split ` set (sp_assignments m)"
  proof (intro subset_antisym subsetI)
    fix s assume "s \<in> fst ` set ?counts"
    then obtain e where "e \<in> set ?counts" "s = fst e" by (elim imageE)
    then show "s \<in> data_split_value ` sa_split ` set (sp_assignments m)" unfolding entry by simp
  next
    fix s assume "s \<in> data_split_value ` sa_split ` set (sp_assignments m)"
    then have "(s, int (length (filter (in_split s) (sp_assignments m))),
        int (length (filter (\<lambda>a. in_split s a \<and> rare = Some (sa_label a)) (sp_assignments m)))) \<in> set ?counts"
      unfolding entry by simp
    then show "s \<in> fst ` set ?counts" by (rule image_eqI [rotated]) simp
  qed
  moreover have "?stat ` set ?counts = ?g ` fst ` set ?counts"
    unfolding image_image
  proof (rule image_cong [OF refl])
    fix e assume "e \<in> set ?counts"
    then have "snd e = (sz_total_count (?g (fst e)), sz_rare_class_count (?g (fst e)))" unfolding entry by (elim conjE) simp
    then show "?stat e = ?g (fst e)" by (simp only: fst_conv snd_conv impact_split_stats.simps)
  qed
  ultimately have "set stats = ?g ` data_split_value ` sa_split ` set (sp_assignments m)"
    unfolding stats set_map set_sort by simp
  with dist srt show ?thesis by simp
qed

section \<open>After the leakage checks\<close>

text \<open>C20: The check composed with the leakage checks of the same split: when an eligible candidate was judged with the report they
  computed, no two rows of the source in different splits have the same content, and none has the same non-empty group value.\<close>

theorem eligible_split_is_clean:
  assumes "leakage_checks sha leakage_request rows = Inr checks"
    and "qe_split_leakage_report request = Some (leakage_report_of env' fl leakage_request checks)"
    and "check_model_impact_eligibility env fl ser ser_fallback fallback_uuid request st = (Inr (report, artifact), st')"
    and "ey_eligible report"
    and "r \<in> set rows" "q \<in> set rows"
    and "split_of (index_assignments (sp_assignments (lq_split_manifest leakage_request))) r = Some s"
    and "split_of (index_assignments (sp_assignments (lq_split_manifest leakage_request))) q = Some t"
    and "leakage_row_signature sha r = leakage_row_signature sha q
      \<or> (\<exists>k. sp_group_key (lq_split_manifest leakage_request) = Some k \<and> row_get r k \<noteq> [] \<and> row_get r k = row_get q k)"
  shows "s = t"
proof -
  let ?a = "index_assignments (sp_assignments (lq_split_manifest leakage_request))"
  have shape: "checks ! 0 = exact_hash_check sha rows ?a"
    "checks ! 1 = group_key_check rows ?a (sp_group_key (lq_split_manifest leakage_request))"
    using leakage_checks_shape [OF assms(1)] by simp_all
  have "\<not> lr_block_model_evaluation (leakage_report_of env' fl leakage_request checks)"
    using assms(2-4) by (auto elim!: check_Inr simp: eligibility_report_of_def findings_eligible_iff findings_codes_empty has_leakage_blocker_def
        split: if_splits)
  then have "lc_status (exact_hash_check sha rows ?a) \<noteq> LS_FAILED"
    "lc_status (group_key_check rows ?a (sp_group_key (lq_split_manifest leakage_request))) \<noteq> LS_FAILED"
    unfolding failed_check_blocks [OF assms(1)] shape by simp_all
  then show ?thesis
    using assms(5-9) exact_check_fails_iff [of sha rows ?a] group_check_fails_iff [of rows ?a] by metis
qed

section \<open>Samples\<close>

text \<open>A candidate with fifty labeled rows, ten of the rare class, and a split of three rows whose leakage checks pass.\<close>

definition clean_assignments :: "split_assignment list" where
  "clean_assignments =
     [\<lparr>sa_object_id = ''a'', sa_split = TRAIN, sa_label = ''0'', sa_group_value = Some ''g''\<rparr>,
      \<lparr>sa_object_id = ''b'', sa_split = TRAIN, sa_label = ''1'', sa_group_value = Some ''g''\<rparr>,
      \<lparr>sa_object_id = ''c'', sa_split = TEST, sa_label = ''1'', sa_group_value = Some ''h''\<rparr>]"

definition clean_rows :: "csv_row list" where
  "clean_rows =
     [[(''object_id'', ''a''), (''y'', ''0''), (''case_id'', ''g'')], [(''object_id'', ''b''), (''y'', ''1''), (''case_id'', ''g'')],
      [(''object_id'', ''c''), (''y'', ''1''), (''case_id'', ''h'')]]"

definition clean_leakage_request :: "rat leakage_request" where
  "clean_leakage_request = (sample_leakage_request clean_assignments)\<lparr>lq_tabular_profile_report := None\<rparr>"

definition clean_checks :: "leakage_check list" where
  "clean_checks = projr (leakage_checks (\<lambda>x. x) clean_leakage_request clean_rows)"

lemma clean_checks_run:
  "leakage_checks (\<lambda>x. x) clean_leakage_request clean_rows = Inr clean_checks \<and> map lc_status clean_checks = [LS_PASSED, LS_PASSED, LS_NOT_APPLICABLE]"
  by code_simp

definition elig_request :: "impact_task_type \<Rightarrow> rat eligibility_request" where
  "elig_request task =
     \<lparr>qe_dataset_id = ''d'', qe_parent_version_id = ''v1'', qe_candidate_dataset_version_id = ''cv'', qe_organization_id = Some ''o'',
      qe_project_id = None, qe_task_type = task,
      qe_tabular_profile = Some \<lparr>ep_target_column = Some ''y'', ep_target_column_missing = Some False,
        ep_class_imbalance = Some \<lparr>cd_total_samples = 50, cd_class_counts = [(''0'', 40), (''1'', 10)], cd_rare_class_label = ''1''\<rparr>\<rparr>,
      qe_tabular_profile_artifact = None, qe_split_manifest = Some (sample_split_manifest clean_assignments),
      qe_split_manifest_artifact = None,
      qe_split_leakage_report = Some (leakage_report_of sample_env rat_floats clean_leakage_request clean_checks),
      qe_split_leakage_report_artifact = None, qe_candidate_version_artifact = None, qe_fallback_report = None,
      qe_minimum_labeled_samples = 50, qe_minimum_rare_class_samples = 5, qe_minimum_splits = 2,
      qe_created_by_job_id = ''r'', qe_config_hash = zero_digest, qe_report_id = None, qe_generated_at = None\<rparr>"

definition elig_cohorts :: "rat cohort_stats list" where
  "elig_cohorts =
     [\<lparr>co_label = ''0'', co_count = 40, co_ratio = 4 / 5, co_is_rare_class = False\<rparr>,
      \<lparr>co_label = ''1'', co_count = 10, co_ratio = 1 / 5, co_is_rare_class = True\<rparr>]"

definition elig_splits :: "impact_split_stats list" where
  "elig_splits = [\<lparr>sz_split = ''test'', sz_total_count = 1, sz_rare_class_count = 1\<rparr>, \<lparr>sz_split = ''train'', sz_total_count = 2, sz_rare_class_count = 1\<rparr>]"

lemma elig_inputs:
  "resolve_cohort_stats rat_floats (qe_tabular_profile (elig_request task)) = Inr elig_cohorts"
  "resolve_rare_class_label (qe_tabular_profile (elig_request task)) elig_cohorts = Some ''1''"
  "resolve_split_stats (qe_split_manifest (elig_request task)) (Some ''1'') = Inr elig_splits"
proof -
  show "resolve_cohort_stats rat_floats (qe_tabular_profile (elig_request task)) = Inr elig_cohorts"
    by (simp add: elig_request_def resolve_cohort_stats_def class_imbalance_of_def cohort_of_def cohort_ratio_def Let_def rat_floats_def
        cohort_stats_valid_def fl_score_ok_def non_empty_def elig_cohorts_def result_simps)
  show "resolve_rare_class_label (qe_tabular_profile (elig_request task)) elig_cohorts = Some ''1''"
    by (simp add: elig_request_def resolve_rare_class_label_def class_imbalance_of_def)
  have "resolve_split_stats (Some (sample_split_manifest clean_assignments)) (Some ''1'') = Inr elig_splits" by code_simp
  then show "resolve_split_stats (qe_split_manifest (elig_request task)) (Some ''1'') = Inr elig_splits" by (simp add: elig_request_def)
qed

lemma clean_report:
  "\<not> lr_block_training (leakage_report_of sample_env rat_floats clean_leakage_request clean_checks)"
  "\<not> lr_block_model_evaluation (leakage_report_of sample_env rat_floats clean_leakage_request clean_checks)"
  "\<not> lr_leakage_detected (leakage_report_of sample_env rat_floats clean_leakage_request clean_checks)"
proof -
  have "lc_status c \<in> {LS_PASSED, LS_NOT_APPLICABLE}" if "c \<in> set clean_checks" for c
    using arg_cong [OF conjunct2 [OF clean_checks_run], of set] that by (auto simp: set_map)
  then have "\<not> list_ex failed_blocker clean_checks" by (fastforce simp: list_ex_iff failed_blocker_def)
  then show "\<not> lr_block_training (leakage_report_of sample_env rat_floats clean_leakage_request clean_checks)"
    "\<not> lr_block_model_evaluation (leakage_report_of sample_env rat_floats clean_leakage_request clean_checks)"
    "\<not> lr_leakage_detected (leakage_report_of sample_env rat_floats clean_leakage_request clean_checks)"
    by (auto simp: leakage_report_of_def Let_def list_ex_iff)
qed

definition elig_findings :: "impact_task_type \<Rightarrow> findings" where
  "elig_findings task =
     \<lparr>fi_codes = (if task = SUPERVISED_TABULAR_CLASSIFICATION then [] else [UNSUPPORTED_TASK_TYPE]),
      fi_reasons = [''target_label_present'', ''enough_labeled_samples'', ''split_manifest_valid'', ''no_leakage_blockers''],
      fi_present = (if task = SUPERVISED_TABULAR_CLASSIFICATION then [BASELINE_MODEL_AVAILABLE] else [])
        @ [TARGET_LABEL, ENOUGH_LABELED_SAMPLES, VALID_SPLIT_STRATEGY, NO_LEAKAGE_BLOCKERS],
      fi_missing = []\<rparr>"

lemma elig_findings: "eligibility_findings (elig_request task) elig_cohorts (Some ''1'') = elig_findings task"
proof -
  have "has_valid_split (Some (sample_split_manifest clean_assignments)) 2" by code_simp
  moreover have "resolve_target_column (elig_request task) = Some ''y''"
    by (simp add: resolve_target_column_def elig_request_def non_empty_name_def)
  moreover have "resolve_total_labeled elig_cohorts p = 50" "resolve_rare_class_count elig_cohorts (Some ''1'') = 10" for p
    by (simp_all add: resolve_total_labeled_def resolve_rare_class_count_def elig_cohorts_def)
  moreover have "\<not> has_target_missing_values (qe_tabular_profile (elig_request task))"
    by (simp add: elig_request_def has_target_missing_values_def)
  moreover have "\<not> has_leakage_blocker (qe_split_leakage_report (elig_request task))"
    using clean_report by (simp add: elig_request_def has_leakage_blocker_def)
  ultimately show ?thesis
    by (cases task)
      (simp_all add: eligibility_findings_def elig_findings_def join_findings_def task_check_def target_check_def samples_check_def split_check_def
        leakage_blocker_check_def SUPPORTED_TASK_TYPES_def elig_request_def)
qed

lemma elig_valid:
  "eligibility_lineage_valid (eligibility_lineage_of (elig_request task))"
  "list_all (cohort_stats_valid rat_floats) elig_cohorts" "list_all impact_split_stats_valid elig_splits"
  "list_all non_empty (dedupe_values (fi_reasons (elig_findings task)))" "non_empty (primary_reason_code (elig_findings task))"
proof -
  show "eligibility_lineage_valid (eligibility_lineage_of (elig_request task))"
    by (simp add: eligibility_lineage_valid_def eligibility_lineage_of_def elig_request_def non_empty_def zero_digest_def)
  show "list_all (cohort_stats_valid rat_floats) elig_cohorts"
    by (simp add: elig_cohorts_def cohort_stats_valid_def non_empty_def fl_score_ok_def rat_floats_def)
  show "list_all impact_split_stats_valid elig_splits" by code_simp
  show "list_all non_empty (dedupe_values (fi_reasons (elig_findings task)))" by (simp add: list_all_iff elig_findings_def non_empty_def)
  show "non_empty (primary_reason_code (elig_findings task))"
    by (simp add: primary_reason_code_def elig_findings_def non_empty_def split: list.splits)
qed

lemma elig_saves:
  assumes "dict_get st (run_key MODEL_IMPACT_ELIGIBILITY_KIND ''json'' MODEL_IMPACT_ELIGIBILITY_SCHEMA_VERSION ''eligibility'') = None"
  shows "\<exists>artifact st'. registry_save run_builder (eligibility_save_args (\<lambda>_. ''eligibility'') (elig_request task) r) st = (Inr artifact, st')"
proof -
  have args: "eligibility_save_args (\<lambda>_. ''eligibility'') (elig_request task) r =
      \<lparr>sv_artifact_kind = MODEL_IMPACT_ELIGIBILITY_KIND, sv_data = ''eligibility'', sv_artifact_format = ''json'', sv_media_type = ''application/json'',
       sv_schema_version = MODEL_IMPACT_ELIGIBILITY_SCHEMA_VERSION, sv_dataset_version_id = ''cv'', sv_created_by_job_id = ''r'',
       sv_config_hash = zero_digest, sv_metadata = sv_metadata (eligibility_save_args (\<lambda>_. ''eligibility'') (elig_request task) r)\<rparr>"
    by (simp add: eligibility_save_args_def elig_request_def)
  have good: "list_all good_component [MODEL_IMPACT_ELIGIBILITY_KIND, ''json'', MODEL_IMPACT_ELIGIBILITY_SCHEMA_VERSION]"
    and slash: "slash \<notin> set MODEL_IMPACT_ELIGIBILITY_KIND" and media: "''application/json'' \<noteq> []"
    by (simp_all add: good_component_def component_char_def slash_def MODEL_IMPACT_ELIGIBILITY_KIND_def MODEL_IMPACT_ELIGIBILITY_SCHEMA_VERSION_def)
  show ?thesis using run_save_grown [OF args good media assms slash] by (elim exE conjE) (intro exI)
qed

lemma elig_fallback_saves:
  "\<exists>saved st'. registry_save run_builder (fallback_save_args (\<lambda>_. ''fallback'') (elig_request task) r) [] = (Inr saved, st')
    \<and> dict_get st' (run_key MODEL_IMPACT_ELIGIBILITY_KIND ''json'' MODEL_IMPACT_ELIGIBILITY_SCHEMA_VERSION ''eligibility'') = None"
proof -
  have args: "fallback_save_args (\<lambda>_. ''fallback'') (elig_request task) r =
      \<lparr>sv_artifact_kind = FALLBACK_READINESS_REPORT_KIND, sv_data = ''fallback'', sv_artifact_format = ''json'', sv_media_type = ''application/json'',
       sv_schema_version = FALLBACK_READINESS_REPORT_SCHEMA_VERSION, sv_dataset_version_id = ''cv'', sv_created_by_job_id = ''r'',
       sv_config_hash = zero_digest, sv_metadata = sv_metadata (fallback_save_args (\<lambda>_. ''fallback'') (elig_request task) r)\<rparr>"
    by (simp add: fallback_save_args_def elig_request_def)
  have good: "list_all good_component [FALLBACK_READINESS_REPORT_KIND, ''json'', FALLBACK_READINESS_REPORT_SCHEMA_VERSION]"
    and slash: "slash \<notin> set FALLBACK_READINESS_REPORT_KIND" and media: "''application/json'' \<noteq> []"
    and other: "MODEL_IMPACT_ELIGIBILITY_KIND \<noteq> FALLBACK_READINESS_REPORT_KIND" "slash \<notin> set MODEL_IMPACT_ELIGIBILITY_KIND"
    by (simp_all add: good_component_def component_char_def slash_def FALLBACK_READINESS_REPORT_KIND_def
        FALLBACK_READINESS_REPORT_SCHEMA_VERSION_def MODEL_IMPACT_ELIGIBILITY_KIND_def)
  have "dict_get [] k = None" for k :: "string \<times> string" by (simp add: dict_get_def)
  from run_save_grown [OF args good media this slash] other show ?thesis unfolding grown_def by (auto simp: dict_get_def)
qed

lemma elig_report_valid:
  assumes "opt_ok fallback_ref_valid fallback"
  shows "eligibility_report_valid rat_floats (eligibility_report_of run_builder (elig_request task) (elig_findings task) elig_cohorts (Some ''1'') elig_splits
    (eligibility_lineage_of (elig_request task)) fallback)"
  using elig_valid assms
  by (simp add: eligibility_report_valid_def eligibility_report_of_def)
    (simp add: elig_request_def fresh_id_def non_empty_def MODEL_IMPACT_ELIGIBILITY_SCHEMA_VERSION_def)

lemma elig_returns: "\<exists>report artifact st'. check_model_impact_eligibility run_builder rat_floats (\<lambda>_. ''eligibility'') (\<lambda>_. ''fallback'') ''f''
    (elig_request task) [] = (Inr (report, artifact), st')"
proof -
  let ?lineage = "eligibility_lineage_of (elig_request task)"
  have free: "dict_get ([] :: mem_state) k = None" for k by (simp add: dict_get_def)
  have "\<exists>fallback st1. eligibility_fallback run_builder rat_floats (\<lambda>_. ''fallback'') ''f'' (elig_request task) (elig_findings task) elig_cohorts elig_splits
      ?lineage [] = (Inr fallback, st1) \<and> opt_ok fallback_ref_valid fallback
      \<and> dict_get st1 (run_key MODEL_IMPACT_ELIGIBILITY_KIND ''json'' MODEL_IMPACT_ELIGIBILITY_SCHEMA_VERSION ''eligibility'') = None"
  proof (cases "is_eligible (elig_findings task)")
    case True
    then show ?thesis using free by (simp add: eligibility_fallback_def)
  next
    case False
    let ?r = "fallback_report_of run_builder ''f'' (elig_request task) (elig_findings task) elig_cohorts elig_splits ?lineage"
    have r: "fallback_report_valid rat_floats ?r"
      using elig_valid
      by (simp add: fallback_report_valid_def fallback_report_of_def)
        (simp add: elig_request_def non_empty_def FALLBACK_READINESS_KIND_def FALLBACK_READINESS_REPORT_SCHEMA_VERSION_def)
    obtain saved st1 where saved: "registry_save run_builder (fallback_save_args (\<lambda>_. ''fallback'') (elig_request task) ?r) [] = (Inr saved, st1)"
      "dict_get st1 (run_key MODEL_IMPACT_ELIGIBILITY_KIND ''json'' MODEL_IMPACT_ELIGIBILITY_SCHEMA_VERSION ''eligibility'') = None"
      using elig_fallback_saves [of task ?r] by (elim exE conjE)
    have "not_eligible_value c \<noteq> []" for c by (cases c) simp_all
    then have "fallback_ref_valid \<lparr>fb_fallback_kind = FALLBACK_READINESS_KIND, fb_fallback_artifact = ra_artifact_ref saved,
        fb_reasons = map not_eligible_value (fk_not_eligible_reason_codes ?r)\<rparr>"
      using saved_valid [OF saved(1)]
      by (simp add: fallback_ref_valid_def registered_artifact_valid_def non_empty_def list_all_iff FALLBACK_READINESS_KIND_def)
    moreover have "qe_fallback_report (elig_request task) = None" by (simp add: elig_request_def)
    ultimately show ?thesis using False r saved
      by (simp add: eligibility_fallback_def build_fallback_readiness_report_def bindS_def liftS_def returnS_def validated_def)
  qed
  then obtain fallback st1 where fallback: "eligibility_fallback run_builder rat_floats (\<lambda>_. ''fallback'') ''f'' (elig_request task) (elig_findings task)
      elig_cohorts elig_splits ?lineage [] = (Inr fallback, st1)" and valid: "opt_ok fallback_ref_valid fallback"
    and st1: "dict_get st1 (run_key MODEL_IMPACT_ELIGIBILITY_KIND ''json'' MODEL_IMPACT_ELIGIBILITY_SCHEMA_VERSION ''eligibility'') = None"
    by (elim exE conjE)
  let ?report = "eligibility_report_of run_builder (elig_request task) (elig_findings task) elig_cohorts (Some ''1'') elig_splits ?lineage fallback"
  obtain artifact st' where "registry_save run_builder (eligibility_save_args (\<lambda>_. ''eligibility'') (elig_request task) ?report) st1 = (Inr artifact, st')"
    using elig_saves [OF st1, of task ?report] by (elim exE)
  then show ?thesis
    using fallback elig_report_valid [OF valid, of task] elig_valid(1) [of task]
    by (simp add: check_model_impact_eligibility_def elig_inputs elig_findings bindS_def liftS_def returnS_def validated_def Let_def)
qed

theorem eligible_iff_witness:
  "\<exists>report artifact st'. check_model_impact_eligibility run_builder rat_floats (\<lambda>_. ''eligibility'') (\<lambda>_. ''fallback'') ''f''
      (elig_request SUPERVISED_TABULAR_CLASSIFICATION) [] = (Inr (report, artifact), st') \<and> ey_eligible report"
proof -
  obtain report artifact st' where c: "check_model_impact_eligibility run_builder rat_floats (\<lambda>_. ''eligibility'') (\<lambda>_. ''fallback'') ''f''
      (elig_request SUPERVISED_TABULAR_CLASSIFICATION) [] = (Inr (report, artifact), st')" using elig_returns [of SUPERVISED_TABULAR_CLASSIFICATION] by (elim exE)
  have "card (sa_split ` set clean_assignments) = 2" "clean_assignments \<noteq> []" by code_simp+
  then have "ey_eligible report" unfolding eligible_iff [OF c]
    using clean_report by (simp add: elig_request_def resolve_target_column_def non_empty_name_def sample_split_manifest_def)
  with c show ?thesis by blast
qed

theorem refusal_explained_witness:
  "\<exists>report artifact st'. check_model_impact_eligibility run_builder rat_floats (\<lambda>_. ''eligibility'') (\<lambda>_. ''fallback'') ''f''
      (elig_request SUPERVISED_TABULAR_REGRESSION) [] = (Inr (report, artifact), st')
    \<and> BASELINE_MODEL_AVAILABLE \<notin> set (ey_required_inputs_present report) \<union> set (ey_required_inputs_missing report)"
proof -
  obtain report artifact st' where c: "check_model_impact_eligibility run_builder rat_floats (\<lambda>_. ''eligibility'') (\<lambda>_. ''fallback'') ''f''
      (elig_request SUPERVISED_TABULAR_REGRESSION) [] = (Inr (report, artifact), st')" using elig_returns [of SUPERVISED_TABULAR_REGRESSION] by (elim exE)
  from refusal_explained [OF c] have "set (ey_required_inputs_present report) \<union> set (ey_required_inputs_missing report) = UNIV - {BASELINE_MODEL_AVAILABLE}"
    by (simp add: elig_request_def)
  with c show ?thesis by auto
qed

theorem eligible_split_is_clean_witness:
  "split_of (index_assignments clean_assignments) (clean_rows ! 0) = split_of (index_assignments clean_assignments) (clean_rows ! 1)"
proof -
  obtain report artifact st' where c: "check_model_impact_eligibility run_builder rat_floats (\<lambda>_. ''eligibility'') (\<lambda>_. ''fallback'') ''f''
      (elig_request SUPERVISED_TABULAR_CLASSIFICATION) [] = (Inr (report, artifact), st')" using elig_returns [of SUPERVISED_TABULAR_CLASSIFICATION] by (elim exE)
  obtain cohorts splits fallback st1 rare f where "f = eligibility_findings (elig_request SUPERVISED_TABULAR_CLASSIFICATION) cohorts rare"
    "report = eligibility_report_of run_builder (elig_request SUPERVISED_TABULAR_CLASSIFICATION) f cohorts rare splits
      (eligibility_lineage_of (elig_request SUPERVISED_TABULAR_CLASSIFICATION)) fallback"
    "resolve_cohort_stats rat_floats (qe_tabular_profile (elig_request SUPERVISED_TABULAR_CLASSIFICATION)) = Inr cohorts"
    "rare = resolve_rare_class_label (qe_tabular_profile (elig_request SUPERVISED_TABULAR_CLASSIFICATION)) cohorts"
    using c by (rule check_Inr)
  then have e: "ey_eligible report"
    by (simp add: elig_inputs elig_findings eligibility_report_of_def is_eligible_def elig_findings_def)
  have leak: "qe_split_leakage_report (elig_request SUPERVISED_TABULAR_CLASSIFICATION)
      = Some (leakage_report_of sample_env rat_floats clean_leakage_request clean_checks)" by (simp add: elig_request_def)
  have a: "sp_assignments (lq_split_manifest clean_leakage_request) = clean_assignments"
    "sp_group_key (lq_split_manifest clean_leakage_request) = Some ''case_id''"
    by (simp_all add: clean_leakage_request_def sample_leakage_request_def sample_split_manifest_def)
  have s: "split_of (index_assignments clean_assignments) (clean_rows ! 0) = Some TRAIN"
    "split_of (index_assignments clean_assignments) (clean_rows ! 1) = Some TRAIN" by code_simp+
  have rows: "clean_rows ! 0 \<in> set clean_rows" "clean_rows ! 1 \<in> set clean_rows" by (simp_all add: clean_rows_def)
  have g: "\<exists>k. sp_group_key (lq_split_manifest clean_leakage_request) = Some k \<and> row_get (clean_rows ! 0) k \<noteq> []
      \<and> row_get (clean_rows ! 0) k = row_get (clean_rows ! 1) k"
    unfolding a by (intro exI [of _ "''case_id''"]) (simp add: clean_rows_def row_get_def)
  from eligible_split_is_clean [OF conjunct1 [OF clean_checks_run] leak c e rows _ _ disjI2 [OF g], unfolded a, OF s] s show ?thesis by simp
qed

end
