(* ===== verification/Spec2Isabelle.thy ===== *)
theory Spec2Isabelle
  imports RunCancellation Idempotency ArchiveSafety Pipeline Leakage MethodSelection DecisionReport ApplyOutputs ModelEligibility
begin

text \<open>
  Verification library of the DataForge compute plane (\<open>src/app\<close>): a service that analyses a dataset, proposes a plan of
  remediation actions, executes the plan once it is approved and packages the candidate dataset it produced.

  \<^bold>\<open>The program.\<close> An ANALYZE run profiles a dataset, selects methods for what it found (\<open>kernel/method_selection.py\<close>),
  applies the decision policy (\<open>kernel/decision_policy.py\<close>) and writes a decision report (\<open>kernel/decision_report.py\<close>). From
  the selected recommendations the control plane asks for a preview, an ActionPlan with content-derived idempotency keys, which
  a person approves (\<open>kernel/action_plan.py\<close>). An APPLY run executes the approved plan step by step
  (\<open>orchestration/apply_runtime.py\<close>): every step reads the artifact of the step before and stores a new one through the
  artifact registry (\<open>adapters/artifact_registry.py\<close>) and the storage adapter (\<open>adapters/object_storage.py\<close>). The
  validation gates judge the last candidate (\<open>plugins/validation/gates.py\<close>); the candidate version
  (\<open>kernel/candidate_version.py\<close>), the lineage report (\<open>kernel/lineage.py\<close>), the tabular export
  (\<open>plugins/export/tabular_writer.py\<close>) and the export package (\<open>kernel/export_package.py\<close>) are built on their verdict, and
  audit events go to the control plane (\<open>adapters/platform_metadata.py\<close>).

  \<^bold>\<open>Theories and what they model.\<close>

  \<^item> \<open>Prelude\<close>, \<open>PyStr\<close>, \<open>Json\<close>, \<open>PyFloat\<close>, \<open>PyRegex\<close>, \<open>PyRe\<close>, \<open>PyCsv\<close>: what the source uses of Python.
    Results as sums, insertion-ordered dictionaries, \<open>str\<close> on code points below 256, \<open>posixpath.normpath\<close>, canonical
    JSON, both uses of \<open>re\<close>, the \<open>csv\<close> reader, abstract floating point.
  \<^item> \<open>Domain\<close>, \<open>ValidationDomain\<close>: the contracts of \<open>src/app/domain\<close> that several components exchange. The contracts only
    one component uses stand in its own theory.
  \<^item> \<open>ArchiveSafety\<close> (\<open>ingestion/archive_safety.py\<close>), \<open>ObjectStorage\<close> (\<open>adapters/object_storage.py\<close> and the in-memory
    client of \<open>orchestration/apply_workflow.py\<close>), \<open>ArtifactRegistry\<close> and \<open>RegistryAddresses\<close>
    (\<open>adapters/artifact_registry.py\<close>).
  \<^item> \<open>ActionPlan\<close> (\<open>kernel/action_plan.py\<close>), \<open>Idempotency\<close> (\<open>kernel/idempotency.py\<close>), \<open>MethodSelection\<close>, \<open>DecisionPolicy\<close>,
    \<open>DecisionReport\<close> (the kernel modules of these names).
  \<^item> \<open>BusinessRules\<close> (\<open>plugins/tabular/rules.py\<close>), \<open>Splits\<close> (\<open>plugins/tabular/splits.py\<close>), \<open>Leakage\<close>
    (\<open>plugins/tabular/leakage_checks.py\<close>), \<open>Imputation\<close>, \<open>Duplicates\<close>, \<open>SyntheticCommon\<close> and \<open>Smote\<close> (the executors of
    \<open>plugins/tabular\<close>), \<open>ValidationGates\<close> (\<open>plugins/validation/gates.py\<close>).
  \<^item> \<open>CandidateVersion\<close>, \<open>ExportPackage\<close>, \<open>Lineage\<close> (the kernel builders), \<open>TabularExport\<close>
    (\<open>plugins/export/tabular_writer.py\<close>); \<open>Pipeline\<close> composes gates, candidate and package.
  \<^item> \<open>ModelEligibility\<close> (\<open>kernel/model_impact_eligibility.py\<close>, \<open>domain/model_impact.py\<close>): whether a candidate may be evaluated with
    a baseline model.
  \<^item> \<open>ApplySteps\<close> and \<open>ApplyRuntime\<close> (the first half of \<open>orchestration/apply_runtime.py\<close>, with the state of
    \<open>orchestration/run_context.py\<close>: the definitions, then their properties), \<open>ApplyOutputs\<close> (the second half, up to what the
    API answers).
  \<^item> \<open>RunCancellation\<close> (\<open>orchestration/cancellation.py\<close>), \<open>Redaction\<close> (\<open>telemetry/logging.py\<close> and \<open>redact_metadata\<close>),
    \<open>PlatformEvents\<close> (\<open>adapters/platform_metadata.py\<close>, \<open>orchestration/job_event.py\<close>, \<open>orchestration/status_bridge.py\<close>).

  \<^bold>\<open>How the code is rendered.\<close> A pydantic model or dataclass is a record whose field names carry a short prefix, a \<open>StrEnum\<close>
  a datatype with a function to its string values, \<open>X_valid\<close> the field constraints and validators of a model \<open>X\<close>; building a
  model that violates them raises (\<open>validated\<close>). A call that may raise is a value of \<open>exn + 'a\<close>; \<open>exn\<close> keeps the exception
  class, the reason code and the error code, not the message. Stateful code passes its state: a builder the state of the store,
  with the client of the control plane where it records events, the apply runtime the state of the run as well. What a Python
  call mutated before it raised stays, so such an operation returns the state next to either outcome (\<open>bindS\<close> in
  \<open>ApplySteps\<close>). The concurrent registry of cancellation tokens is a step relation over a heap of tokens, because tokens
  are shared.

  \<^bold>\<open>Interfaces.\<close> \<open>s3_laws\<close> (\<open>ObjectStorage\<close>) is what the adapter relies on of its client, interpreted on the in-memory client;
  the registry, the builders and the apply runtime are proved on top of it. \<open>stable_dedupe\<close> (\<open>Prelude\<close>) is the contract of
  first-occurrence deduplication, interpreted on \<open>dict.fromkeys\<close> and on the helpers of the kernel modules;
  \<open>step_invariant\<close> (\<open>Prelude\<close>) gives reachability and induction to the step relation of the cancellation registry; \<open>token\<close>
  and \<open>free_token\<close> (\<open>PyRe\<close>) are the contracts of a regular expression whose matches are maximal runs or guarded tokens,
  interpreted on the e-mail, phone and passport patterns.

  \<^bold>\<open>What is shown.\<close> The plan and its approval: what a preview admits and contains, that an approval binds the whole plan up to a
  SHA-256 collision, that what is accepted for execution is sound, and which previewed actions no runtime executor exists for.
  The apply run: a chain of cleaning steps run through store, CSV writer and reader refines the operations on tables; no
  object that was stored before is changed; a run or a build that returned is repeated from its state; what the run answers
  is equivalent to the verdict of the gates. The executors: imputation touches missing cells only and returns exactly under
  stated conditions, duplicates keep one row of a signature (two after a mark step), splits keep groups together, SMOTE interpolates
  between two different rare rows of the training split, and the augmented manifest counts the new rows. The gates and the builders: the report decides the candidate, a READY package certifies it, READY
  holds exactly under the documented conditions, events and saved artifacts agree. Lineage and export: the report is well
  formed and covers the candidate, the CSV reads back, the artifacts of a split are those of exactly its rows. Eligibility: the
  exact conditions, what a refusal says, that an eligible split passed the leakage checks. Around them: isolation of tenants,
  containment of archives, append-only registry, cancellation under every interleaving (a pending cancellation stays possible
  whatever other runs do), idempotency keys.

  \<^bold>\<open>Parameters.\<close> What is not under \<open>src/\<close> is an argument: SHA-256 (\<open>sha\<close>; binding statements name the two colliding texts), the
  storage client, the clock and the fresh identifiers, \<open>datetime\<close> printing and parsing, \<open>json.dumps\<close> with indentation and
  \<open>model_dump\<close> of a report that is stored (canonical JSON of what is hashed is modelled), UTF-8, floating-point operations,
  \<open>round\<close> and number formatting (\<open>float_ops\<close>, \<open>decimal_ops\<close> with the exact value of a decimal), \<open>random.Random\<close> and the numpy
  generator (\<open>rng_laws\<close> states its documented ranges; a shuffle permutes), the Parquet encoder, whether the \<open>csv\<close> writer quotes
  a carriage return (it depends on the release), the parser of a business rule. In the apply runtime the model-impact
  evaluation and the rendering of the dataset card are operations on the store. Hypotheses on parameters are named
  (\<open>s3_laws\<close>, \<open>honest\<close>, \<open>faithful_store\<close>, \<open>rng_laws\<close>), and the witnesses instantiate them with the in-memory client and
  exact rational arithmetic. \<open>heapq.nsmallest\<close> is the prefix of the sorted list, as documented.

  \<^bold>\<open>Bounds and termination.\<close> No definition uses fuel: recursion is structural or has a termination proof, the matcher of
  \<open>re\<close> included, whose repetition stops on an empty match as Python's does. Strings are limited to code points below 256. The
  131072-character field limit of the \<open>csv\<close> reader and the 4300-digit limit of \<open>int()\<close> are kept.

  \<^bold>\<open>Not modelled.\<close> The HTTP layer (\<open>api/*\<close>), Dagster assets and definitions, command-line tools, metrics and tracing: they
  forward values, talk to a framework or do I/O. The profiler, the copula generator and the baseline classifier compute on
  pandas, numpy and scikit-learn values whose results are all they contribute; the parts of their reports that the modelled
  code reads are records. Object analytics, predictions, text and OCR plugins, the version comparison and the rendered
  reports are independent of the apply path and are listed in the manifest with the reason.
\<close>

end
